(* ===== verification/Prelude.thy ===== *)
theory Prelude
  imports
    Main
    "HOL-Library.Char_ord"
    "HOL-Library.List_Lexorder"
    "HOL-Library.Option_ord"
    "HOL-Library.Product_Lexorder"
    "HOL-Library.Multiset"
begin

text \<open>
  Shared vocabulary of the development: Python exceptions as values, the
  state-and-exception shape of every stateful operation, JSON values, the SQL statements
  the store is written in, and the interface of a keyed table.

  \<^item> An operation of type \<open>('s, 'a) op\<close> maps a state to a result and the state it
    leaves behind; a raised exception is the result \<open>Inl e\<close>, and what the code did
    before raising stays in the state. \<open>atomically\<close> is a database transaction
    (\<^verbatim>\<open>with engine.begin()\<close>): a raise inside it leaves the state as it was.
  \<^item> A table is the list of its rows in rowid order. \<open>insert_row\<close>, \<open>update_where\<close>,
    \<open>delete_where\<close>, \<open>order_by\<close>, \<open>sql_limit\<close> and \<open>sql_offset\<close> are the statements
    INSERT, UPDATE, DELETE, ORDER BY, LIMIT and OFFSET.
  \<^item> The locale \<open>stored_record\<close> is the interface every table of the store gives its
    callers: what a lookup returns after a save.
\<close>

section \<open>Collections of facts\<close>

named_theorems op_simps \<open>evaluation of the state-and-exception operations\<close>
named_theorems sql_simps \<open>evaluation of the SQL statements\<close>
named_theorems row_simps \<open>row conversions of the store\<close>

section \<open>Exceptions\<close>

datatype exc_class =
    ValueError | KeyError | TypeError | RuntimeError | AssertionError | ValidationError
  | IntegrityError | MultipleResultsFound | NoResultFound | OperationalError
  | RegistryError | WorkerConfigError | ResourcePolicyError | RateLimitExceeded
  | JobAttemptSuperseded | AuthError int | HTTPException int | RedisError | ResponseError
  | DockerRuntimePathError | OSError | RunEventError | RunEventTransportError | DirectoryBundleError
  | KubernetesWorkloadSecurityError | NotebookServiceRuntimeError | ApiException int | ConfigException | IndexError
  | ServiceWebSocketProxyError int | BadZipFile | AttributeError
  | ArtifactRetentionError | FileNotFoundError | FileExistsError | ProjectSettingsError | ApiSettingsError | DirectoryProxyError | TemplateError

datatype error = Raise exc_class string

primrec error_class :: "error \<Rightarrow> exc_class" where
  "error_class (Raise c _) = c"

primrec error_message :: "error \<Rightarrow> string" where
  "error_message (Raise _ m) = m"

type_synonym 'a result = "error + 'a"

text \<open>The classes an \<^verbatim>\<open>except\<close> clause of the code names, with their subclasses.\<close>

definition is_value_error :: "error \<Rightarrow> bool" where
  "is_value_error e \<longleftrightarrow>
     error_class e \<in> {ValueError, ValidationError, RegistryError, WorkerConfigError,
       ResourcePolicyError, RateLimitExceeded, DockerRuntimePathError, RunEventError,
       DirectoryBundleError, KubernetesWorkloadSecurityError,
       ArtifactRetentionError, ProjectSettingsError, ApiSettingsError, TemplateError} \<or>
     (case error_class e of AuthError _ \<Rightarrow> True | _ \<Rightarrow> False)"

definition is_os_error :: "error \<Rightarrow> bool" where
  "is_os_error e \<longleftrightarrow> error_class e \<in> {OSError, FileNotFoundError, FileExistsError}"

definition is_redis_error :: "error \<Rightarrow> bool" where
  "is_redis_error e \<longleftrightarrow> error_class e \<in> {RedisError, ResponseError}"

definition is_sqlalchemy_error :: "error \<Rightarrow> bool" where
  "is_sqlalchemy_error e \<longleftrightarrow>
     error_class e \<in> {IntegrityError, MultipleResultsFound, NoResultFound, OperationalError}"

section \<open>Operations on a state that may raise\<close>

type_synonym ('s, 'a) op = "'s \<Rightarrow> 'a result \<times> 's"

definition return :: "'a \<Rightarrow> ('s, 'a) op" where
  "return a = (\<lambda>s. (Inr a, s))"

definition throw :: "error \<Rightarrow> ('s, 'a) op" where
  "throw e = (\<lambda>s. (Inl e, s))"

definition bind :: "('s, 'a) op \<Rightarrow> ('a \<Rightarrow> ('s, 'b) op) \<Rightarrow> ('s, 'b) op" where
  "bind m f = (\<lambda>s. case m s of (Inl e, s') \<Rightarrow> (Inl e, s') | (Inr a, s') \<Rightarrow> f a s')"

definition atomically :: "('s, 'a) op \<Rightarrow> ('s, 'a) op" where
  "atomically m = (\<lambda>s. case m s of (Inl e, _) \<Rightarrow> (Inl e, s) | (Inr a, s') \<Rightarrow> (Inr a, s'))"

definition handle :: "('s, 'a) op \<Rightarrow> (error \<Rightarrow> ('s, 'a) op) \<Rightarrow> ('s, 'a) op" where
  "handle m h = (\<lambda>s. case m s of (Inl e, s') \<Rightarrow> h e s' | (Inr a, s') \<Rightarrow> (Inr a, s'))"

text \<open>\<^verbatim>\<open>try\<close> with an \<^verbatim>\<open>except\<close> clause for the exceptions \<open>P\<close>, which become values.\<close>

definition catching :: "(error \<Rightarrow> bool) \<Rightarrow> ('s, 'a) op \<Rightarrow> ('s, 'a result) op" where
  "catching P m = (\<lambda>s. case m s of
     (Inl e, s') \<Rightarrow> if P e then (Inr (Inl e), s') else (Inl e, s')
   | (Inr a, s') \<Rightarrow> (Inr (Inr a), s'))"

definition lift_result :: "'a result \<Rightarrow> ('s, 'a) op" where
  "lift_result r = (\<lambda>s. (r, s))"

definition gets :: "('s \<Rightarrow> 'a) \<Rightarrow> ('s, 'a) op" where
  "gets f = (\<lambda>s. (Inr (f s), s))"

definition modify :: "('s \<Rightarrow> 's) \<Rightarrow> ('s, unit) op" where
  "modify f = (\<lambda>s. (Inr (), f s))"

text \<open>A Python \<^verbatim>\<open>for\<close> loop that runs an operation on every item and collects the results.\<close>

fun for_each :: "('a \<Rightarrow> ('s, 'b) op) \<Rightarrow> 'a list \<Rightarrow> ('s, 'b list) op" where
  "for_each f [] = return []"
| "for_each f (x # xs) = bind (f x) (\<lambda>y. bind (for_each f xs) (\<lambda>ys. return (y # ys)))"

definition bind_result :: "'a result \<Rightarrow> ('a \<Rightarrow> 'b result) \<Rightarrow> 'b result" where
  "bind_result r f = (case r of Inl e \<Rightarrow> Inl e | Inr a \<Rightarrow> f a)"

fun traverse :: "('a \<Rightarrow> 'b result) \<Rightarrow> 'a list \<Rightarrow> 'b list result" where
  "traverse f [] = Inr []"
| "traverse f (x # xs) =
     bind_result (f x) (\<lambda>y. bind_result (traverse f xs) (\<lambda>ys. Inr (y # ys)))"

section \<open>Text\<close>

text \<open>\<^verbatim>\<open>str(n)\<close> of an int.\<close>

fun nat_digits :: "nat \<Rightarrow> string" where
  "nat_digits n =
     (if n < 10 then [char_of (48 + n)] else nat_digits (n div 10) @ [char_of (48 + n mod 10)])"

declare nat_digits.simps [simp del]

definition str_int :: "int \<Rightarrow> string" where
  "str_int i = (if i < 0 then ''-'' @ nat_digits (nat (- i)) else nat_digits (nat i))"

text \<open>\<^verbatim>\<open>repr\<close> of text without quotes or escapes.\<close>

definition py_repr :: "string \<Rightarrow> string" where
  "py_repr s = [CHR 0x27] @ s @ [CHR 0x27]"

text \<open>Python's \<^verbatim>\<open>a or b\<close> on optional text: both \<^verbatim>\<open>None\<close> and the empty string are false.\<close>

definition or_text :: "string option \<Rightarrow> string option \<Rightarrow> string option" where
  "or_text a b = (case a of None \<Rightarrow> b | Some s \<Rightarrow> if s = '''' then b else Some s)"

definition truthy_text :: "string option \<Rightarrow> bool" where
  "truthy_text a = (case a of None \<Rightarrow> False | Some s \<Rightarrow> s \<noteq> '''')"

section \<open>JSON values\<close>

text \<open>
  The values \<^verbatim>\<open>json.loads\<close> returns. An object is the list of its members in insertion
  order. A text column written with \<^verbatim>\<open>json.dumps\<close> and read with \<^verbatim>\<open>json.loads\<close> holds the
  value itself. Fractional numbers are decimals, mantissa and exponent.
\<close>

datatype json =
    JNull
  | JBool bool
  | JInt int
  | JDec int int
  | JStr string
  | JArr "json list"
  | JObj "(string \<times> json) list"

fun obj_get :: "json \<Rightarrow> string \<Rightarrow> json option" where
  "obj_get (JObj ms) k = map_of ms k"
| "obj_get _ k = None"

fun obj_members :: "json \<Rightarrow> (string \<times> json) list" where
  "obj_members (JObj ms) = ms"
| "obj_members _ = []"

fun is_obj :: "json \<Rightarrow> bool" where
  "is_obj (JObj _) = True"
| "is_obj _ = False"

text \<open>Assignment \<^verbatim>\<open>d[k] = v\<close>: an existing key keeps its place.\<close>

fun assoc_set :: "'k \<Rightarrow> 'v \<Rightarrow> ('k \<times> 'v) list \<Rightarrow> ('k \<times> 'v) list" where
  "assoc_set k v [] = [(k, v)]"
| "assoc_set k v ((k', v') # ms) = (if k' = k then (k, v) # ms else (k', v') # assoc_set k v ms)"

text \<open>The display \<^verbatim>\<open>{**a, **b}\<close>.\<close>

definition obj_merge :: "json \<Rightarrow> json \<Rightarrow> json" where
  "obj_merge a b = JObj (fold (\<lambda>(k, v) ms. assoc_set k v ms) (obj_members b) (obj_members a))"

fun json_truthy :: "json \<Rightarrow> bool" where
  "json_truthy JNull = False"
| "json_truthy (JBool b) = b"
| "json_truthy (JInt i) = (i \<noteq> 0)"
| "json_truthy (JDec m e) = (m \<noteq> 0)"
| "json_truthy (JStr s) = (s \<noteq> '''')"
| "json_truthy (JArr xs) = (xs \<noteq> [])"
| "json_truthy (JObj ms) = (ms \<noteq> [])"

section \<open>SQL statements\<close>

type_synonym 'r table = "'r list"

definition select_where :: "('r \<Rightarrow> bool) \<Rightarrow> 'r table \<Rightarrow> 'r list" where
  "select_where P t = filter P t"

definition update_where :: "('r \<Rightarrow> bool) \<Rightarrow> ('r \<Rightarrow> 'r) \<Rightarrow> 'r table \<Rightarrow> 'r table" where
  "update_where P f t = map (\<lambda>r. if P r then f r else r) t"

definition delete_where :: "('r \<Rightarrow> bool) \<Rightarrow> 'r table \<Rightarrow> 'r table" where
  "delete_where P t = filter (\<lambda>r. \<not> P r) t"

definition rowcount :: "('r \<Rightarrow> bool) \<Rightarrow> 'r table \<Rightarrow> nat" where
  "rowcount P t = length (filter P t)"

text \<open>INSERT into a table with a primary key (or unique index) refuses a second row with the key.\<close>

definition insert_row :: "string \<Rightarrow> ('r \<Rightarrow> 'k) \<Rightarrow> 'r \<Rightarrow> 'r table \<Rightarrow> 'r table result" where
  "insert_row col key r t =
     (if key r \<in> key ` set t then Inl (Raise IntegrityError (''UNIQUE constraint failed: '' @ col))
      else Inr (t @ [r]))"

text \<open>
  SELECT by primary key, \<^verbatim>\<open>.one_or_none()\<close> or \<^verbatim>\<open>.first()\<close>: the key admits one row at most,
  so the branch for several rows is empty. \<open>one_or_none\<close> is the statement on columns that
  carry no constraint.
\<close>

definition by_key :: "('r \<Rightarrow> 'k) \<Rightarrow> 'k \<Rightarrow> 'r table \<Rightarrow> 'r option" where
  "by_key key k t = find (\<lambda>r. key r = k) t"

fun one_or_none :: "'r list \<Rightarrow> 'r option result" where
  "one_or_none [] = Inr None"
| "one_or_none [r] = Inr (Some r)"
| "one_or_none (_ # _ # _) =
     Inl (Raise MultipleResultsFound ''Multiple rows were found when one or none was required'')"

fun first_row :: "'r list \<Rightarrow> 'r option" where
  "first_row [] = None"
| "first_row (r # _) = Some r"

definition order_by :: "('r \<Rightarrow> 'k::linorder) \<Rightarrow> 'r list \<Rightarrow> 'r list" where
  "order_by key rows = sort_key key rows"

text \<open>SQLite reads a negative LIMIT as no limit.\<close>

definition sql_limit :: "int \<Rightarrow> 'r list \<Rightarrow> 'r list" where
  "sql_limit n rows = (if n < 0 then rows else take (nat n) rows)"

definition sql_offset :: "int \<Rightarrow> 'r list \<Rightarrow> 'r list" where
  "sql_offset n rows = drop (nat n) rows"

text \<open>\<^verbatim>\<open>max(1, min(limit, 500))\<close> and \<^verbatim>\<open>max(offset, 0)\<close>, the page bounds of every listing.\<close>

definition page :: "int \<Rightarrow> int \<Rightarrow> 'r list \<Rightarrow> 'r list" where
  "page limit offset rows = sql_limit (max 1 (min limit 500)) (sql_offset (max offset 0) rows)"

text \<open>An optional filter argument of a listing: \<^verbatim>\<open>None\<close> adds no WHERE clause.\<close>

definition opt_eq :: "'a option \<Rightarrow> 'a \<Rightarrow> bool" where
  "opt_eq arg v = (case arg of None \<Rightarrow> True | Some a \<Rightarrow> v = a)"

text \<open>
  One INSERT statement as an operation: \<open>upd\<close> writes the table of the state, the table after the
  statement is \<open>r\<close>.
\<close>

definition insert_into :: "(('r table \<Rightarrow> 'r table) \<Rightarrow> 's \<Rightarrow> 's) \<Rightarrow> 'r table result \<Rightarrow> ('s, unit) op" where
  "insert_into upd r = (\<lambda>s. case r of Inl e \<Rightarrow> (Inl e, s) | Inr t \<Rightarrow> (Inr (), upd (\<lambda>_. t) s))"

definition distinct_key :: "('r \<Rightarrow> 'k) \<Rightarrow> 'r table \<Rightarrow> bool" where
  "distinct_key key t = distinct (map key t)"

section \<open>Facts about operations\<close>

lemma return_eq [op_simps]: "return a s = (Inr a, s)"
  by (simp add: return_def)

lemma throw_eq [op_simps]: "throw e s = (Inl e, s)"
  by (simp add: throw_def)

lemma gets_eq [op_simps]: "gets f s = (Inr (f s), s)"
  by (simp add: gets_def)

lemma modify_eq [op_simps]: "modify f s = (Inr (), f s)"
  by (simp add: modify_def)

lemma lift_result_eq [op_simps]: "lift_result r s = (r, s)"
  by (simp add: lift_result_def)

lemma bind_Inr [op_simps]: "m s = (Inr a, s') \<Longrightarrow> bind m f s = f a s'"
  by (simp add: bind_def)

lemma bind_Inl [op_simps]: "m s = (Inl e, s') \<Longrightarrow> bind m f s = (Inl e, s')"
  by (simp add: bind_def)

lemma bind_return [simp]: "bind (return a) f = f a"
  by (simp add: bind_def return_def)

lemma bind_throw [simp]: "bind (throw e) f = throw e"
  by (simp add: bind_def throw_def)

lemma bind_lift_result [simp]:
  "bind (lift_result (Inr a)) f = f a" "bind (lift_result (Inl e)) f = throw e"
  by (simp_all add: bind_def lift_result_def throw_def fun_eq_iff)

lemma bind_gets [op_simps]: "bind (gets g) f s = f (g s) s"
  by (simp add: bind_def gets_def)

lemma bind_assoc: "bind (bind m f) g = bind m (\<lambda>a. bind (f a) g)"
  by (rule ext) (simp add: bind_def split: prod.split sum.split)

lemma bind_Inr_iff:
  "bind m f s = (Inr b, s') \<longleftrightarrow> (\<exists>a t. m s = (Inr a, t) \<and> f a t = (Inr b, s'))"
  by (auto simp: bind_def split: prod.splits sum.splits)

lemma atomically_Inr [op_simps]: "m s = (Inr a, s') \<Longrightarrow> atomically m s = (Inr a, s')"
  by (simp add: atomically_def)

lemma atomically_Inl [op_simps]: "m s = (Inl e, s') \<Longrightarrow> atomically m s = (Inl e, s)"
  by (simp add: atomically_def)

lemma atomically_Inr_iff [op_simps]: "atomically m s = (Inr a, s') \<longleftrightarrow> m s = (Inr a, s')"
  by (auto simp: atomically_def split: prod.splits sum.splits)

lemma atomically_rollback: "atomically m s = (Inl e, s') \<Longrightarrow> s' = s"
  by (auto simp: atomically_def split: prod.splits sum.splits)

text \<open>A predicate that every step of a loop keeps is kept by the loop, raised or not.\<close>

lemma bind_preserves:
  assumes "\<And>r s'. m s = (r, s') \<Longrightarrow> I s'"
    and "\<And>a t. m s = (Inr a, t) \<Longrightarrow> I (snd (f a t))"
  shows "I (snd (bind m f s))"
  using assms by (auto simp: bind_def split: prod.split sum.split)

lemma bind_map_snd [op_simps]: "snd (bind m (\<lambda>a. return (g a)) s) = snd (m s)"
  by (simp add: bind_def return_def split: prod.split sum.split)

lemma for_each_preserves:
  assumes step: "\<And>x s. x \<in> set xs \<Longrightarrow> I s \<Longrightarrow> I (snd (f x s))"
    and init: "I s"
  shows "I (snd (for_each f xs s))"
  using assms
proof (induction xs arbitrary: s)
  case Nil
  then show ?case by (simp add: return_eq)
next
  case (Cons x xs)
  have hd: "I (snd (f x s))" using Cons.prems by simp
  have tl: "I t \<Longrightarrow> I (snd (for_each f xs t))" for t
    by (rule Cons.IH) (use Cons.prems in auto)
  show ?case
    unfolding for_each.simps
  proof (rule bind_preserves)
    fix r s' assume "f x s = (r, s')"
    then show "I s'" using hd by simp
  next
    fix a t assume "f x s = (Inr a, t)"
    then show "I (snd (bind (for_each f xs) (\<lambda>ys. return (a # ys)) t))"
      using hd tl [of t] by (simp add: bind_map_snd)
  qed
qed

text \<open>The exceptions an operation can raise.\<close>

definition raises_only :: "(error \<Rightarrow> bool) \<Rightarrow> ('s, 'a) op \<Rightarrow> bool" where
  "raises_only P m \<longleftrightarrow> (\<forall>s e s'. m s = (Inl e, s') \<longrightarrow> P e)"

lemma raises_onlyD: "raises_only P m \<Longrightarrow> m s = (Inl e, s') \<Longrightarrow> P e"
  by (auto simp: raises_only_def)

lemma raises_only_pure [simp]:
  "raises_only P (return a)" "raises_only P (gets f)" "raises_only P (modify g)"
  by (simp_all add: raises_only_def return_eq gets_eq modify_eq)

lemma raises_only_throw [simp]: "raises_only P (throw e) = P e"
  by (auto simp: raises_only_def throw_eq)

lemma raises_only_bind:
  "raises_only P m \<Longrightarrow> (\<And>a. raises_only P (f a)) \<Longrightarrow> raises_only P (bind m f)"
  unfolding raises_only_def bind_def by (fastforce split: prod.splits sum.splits)

lemma raises_only_handle:
  "raises_only Q m \<Longrightarrow> (\<And>e. Q e \<Longrightarrow> raises_only P (h e)) \<Longrightarrow> raises_only P (handle m h)"
  unfolding raises_only_def handle_def by (fastforce split: prod.splits sum.splits)

lemma raises_only_catching:
  "raises_only Q m \<Longrightarrow> (\<And>e. Q e \<Longrightarrow> \<not> P e \<Longrightarrow> R e) \<Longrightarrow> raises_only R (catching P m)"
  unfolding raises_only_def catching_def by (fastforce split: prod.splits sum.splits if_splits)

lemma raises_only_mono: "raises_only P m \<Longrightarrow> (\<And>e. P e \<Longrightarrow> Q e) \<Longrightarrow> raises_only Q m"
  unfolding raises_only_def by blast

text \<open>
  \<open>keeps I P m\<close>: from a state in \<open>I\<close> the operation ends in \<open>I\<close>, whether it returns or raises, and raises
  only exceptions in \<open>P\<close>. \<open>yields Q m\<close>: what it returns is in \<open>Q\<close>.
\<close>

definition keeps :: "('s \<Rightarrow> bool) \<Rightarrow> (error \<Rightarrow> bool) \<Rightarrow> ('s, 'a) op \<Rightarrow> bool" where
  "keeps I P m \<longleftrightarrow> (\<forall>s. I s \<longrightarrow> I (snd (m s)) \<and> (case fst (m s) of Inl e \<Rightarrow> P e | Inr _ \<Rightarrow> True))"

definition yields :: "('a \<Rightarrow> bool) \<Rightarrow> ('s, 'a) op \<Rightarrow> bool" where
  "yields Q m \<longleftrightarrow> (\<forall>s a s'. m s = (Inr a, s') \<longrightarrow> Q a)"

abbreviation never :: "error \<Rightarrow> bool" where
  "never \<equiv> \<lambda>_. False"

lemma keepsD: "keeps I P m \<Longrightarrow> I s \<Longrightarrow> m s = (r, s') \<Longrightarrow> I s' \<and> (\<forall>e. r = Inl e \<longrightarrow> P e)"
  unfolding keeps_def by (metis fst_conv snd_conv sum.simps(5))

lemma keeps_returns: "keeps I never m \<Longrightarrow> I s \<Longrightarrow> \<exists>a s'. m s = (Inr a, s') \<and> I s'"
  unfolding keeps_def by (metis prod.collapse sum.exhaust sum.simps(5))

lemma keeps_pure [simp]:
  "keeps I P (return a)" "keeps I P (gets f)" "keeps I P (throw e) \<longleftrightarrow> (\<forall>s. \<not> I s) \<or> P e"
  by (auto simp: keeps_def return_eq gets_eq throw_eq)

lemma keeps_bind: "keeps I P m \<Longrightarrow> (\<And>a. keeps I P (f a)) \<Longrightarrow> keeps I P (bind m f)"
  unfolding keeps_def bind_def by (auto split: prod.splits sum.splits) (metis fst_conv snd_conv sum.simps(5))+

lemma keeps_catching: "keeps I Q m \<Longrightarrow> (\<And>e. Q e \<Longrightarrow> \<not> C e \<Longrightarrow> P e) \<Longrightarrow> keeps I P (catching C m)"
  unfolding keeps_def catching_def by (fastforce split: prod.splits sum.splits)

lemma keeps_mono: "keeps I P m \<Longrightarrow> (\<And>e. P e \<Longrightarrow> Q e) \<Longrightarrow> keeps I Q m"
  unfolding keeps_def by (auto split: sum.splits)

lemma keeps_for_each: "(\<And>x. keeps I P (f x)) \<Longrightarrow> keeps I P (for_each f xs)"
  by (induction xs) (simp_all add: keeps_bind)

lemma yields_return [simp]: "yields Q (return a) \<longleftrightarrow> Q a" "yields Q (throw e)"
  by (auto simp: yields_def return_eq throw_eq)

lemma yieldsD: "yields Q m \<Longrightarrow> m s = (Inr a, s') \<Longrightarrow> Q a"
  by (auto simp: yields_def)

lemma yields_bind: "yields R m \<Longrightarrow> (\<And>a. R a \<Longrightarrow> yields Q (f a)) \<Longrightarrow> yields Q (bind m f)"
  unfolding yields_def bind_Inr_iff by blast

lemma yields_bind_any: "(\<And>a. yields Q (f a)) \<Longrightarrow> yields Q (bind m f)"
  unfolding yields_def bind_Inr_iff by blast

lemma bind_result_Inr_iff: "bind_result r f = Inr b \<longleftrightarrow> (\<exists>a. r = Inr a \<and> f a = Inr b)"
  by (auto simp: bind_result_def split: sum.splits)

lemma bind_result_simps [simp]:
  "bind_result (Inr a) f = f a"
  "bind_result (Inl e) f = Inl e"
  by (simp_all add: bind_result_def)

lemma traverse_Inr_iff:
  "traverse f xs = Inr ys \<longleftrightarrow> list_all2 (\<lambda>x y. f x = Inr y) xs ys"
  by (induction xs arbitrary: ys) (auto simp: bind_result_Inr_iff list_all2_Cons1)

lemma traverse_member: "traverse f xs = Inr ys \<Longrightarrow> y \<in> set ys \<Longrightarrow> \<exists>x\<in>set xs. f x = Inr y"
  by (induction xs arbitrary: ys) (auto simp: bind_result_Inr_iff)

section \<open>Facts about tables\<close>

lemma by_key_append [sql_simps]:
  "by_key key k (t @ [r]) =
     (case by_key key k t of None \<Rightarrow> (if key r = k then Some r else None) | Some x \<Rightarrow> Some x)"
  by (induction t) (auto simp: by_key_def)

lemma by_key_Cons [sql_simps]:
  "by_key key k (r # t) = (if key r = k then Some r else by_key key k t)"
  by (simp add: by_key_def)

lemma by_key_None_iff: "by_key key k t = None \<longleftrightarrow> k \<notin> key ` set t"
  by (auto simp: by_key_def find_None_iff)

lemma by_key_SomeD: "by_key key k t = Some r \<Longrightarrow> r \<in> set t \<and> key r = k"
  by (auto simp: by_key_def find_Some_iff)

lemma by_key_member:
  "distinct_key key t \<Longrightarrow> r \<in> set t \<Longrightarrow> by_key key (key r) t = Some r"
  by (induction t) (auto simp: by_key_def distinct_key_def)

lemma distinct_key_inj:
  "distinct_key key t \<Longrightarrow> r \<in> set t \<Longrightarrow> s \<in> set t \<Longrightarrow> key r = key s \<Longrightarrow> r = s"
  by (auto simp: distinct_key_def distinct_map inj_on_def)

lemma by_key_update [sql_simps]:
  assumes "\<And>r. P r \<Longrightarrow> key (f r) = key r"
  shows "by_key key k (update_where P f t) =
    map_option (\<lambda>r. if P r then f r else r) (by_key key k t)"
  using assms by (induction t) (auto simp: by_key_def update_where_def)

lemma by_key_delete:
  assumes "distinct_key key t"
  shows "by_key key k (delete_where P t) =
    (case by_key key k t of None \<Rightarrow> None | Some r \<Rightarrow> if P r then None else Some r)"
  using assms
proof (induction t)
  case Nil
  then show ?case by (simp add: by_key_def delete_where_def)
next
  case (Cons a t)
  have "key a \<notin> key ` set (delete_where P t)" "key a \<notin> key ` set t"
    using Cons.prems by (auto simp: distinct_key_def delete_where_def)
  then have none: "by_key key (key a) (delete_where P t) = None" "by_key key (key a) t = None"
    by (simp_all only: by_key_None_iff not_False_eq_True)
  show ?case using Cons none
    by (auto simp: by_key_Cons distinct_key_def delete_where_def split: option.split)
qed

lemma select_key:
  "distinct_key key t \<Longrightarrow> by_key key k t = Some r \<Longrightarrow> select_where (\<lambda>x. key x = k) t = [r]"
proof (induction t)
  case (Cons a t)
  then show ?case
  proof (cases "key a = k")
    case True
    then have "k \<notin> key ` set t" using Cons.prems(1) by (auto simp: distinct_key_def)
    then have "filter (\<lambda>x. key x = k) t = []" by (auto simp: filter_empty_conv)
    then show ?thesis using Cons.prems(2) True by (simp add: select_where_def by_key_Cons)
  next
    case False
    then show ?thesis using Cons by (simp add: select_where_def by_key_Cons distinct_key_def)
  qed
qed (simp add: by_key_def)

lemma insert_row_Inr_iff:
  "insert_row col key r t = Inr t' \<longleftrightarrow> key r \<notin> key ` set t \<and> t' = t @ [r]"
  by (auto simp: insert_row_def)

lemma insert_row_fresh [sql_simps]:
  "key r \<notin> key ` set t \<Longrightarrow> insert_row col key r t = Inr (t @ [r])"
  by (simp add: insert_row_def)

lemma insert_into_cases:
  "insert_into upd r s = (x, s') \<longleftrightarrow>
     (\<exists>e. r = Inl e \<and> x = Inl e \<and> s' = s) \<or> (\<exists>t. r = Inr t \<and> x = Inr () \<and> s' = upd (\<lambda>_. t) s)"
  by (auto simp: insert_into_def split: sum.splits)

lemma insert_into_simps [simp, op_simps]:
  "insert_into upd (Inl e) s = (Inl e, s)"
  "insert_into upd (Inr t) s = (Inr (), upd (\<lambda>_. t) s)"
  by (simp_all add: insert_into_def)

lemma distinct_key_insert:
  "distinct_key key t \<Longrightarrow> insert_row col key r t = Inr t' \<Longrightarrow> distinct_key key t'"
  by (auto simp: distinct_key_def insert_row_Inr_iff)

lemma map_update_key:
  assumes "\<And>r. P r \<Longrightarrow> key (f r) = key r"
  shows "map key (update_where P f t) = map key t"
  using assms by (auto simp: update_where_def)

lemma distinct_key_update:
  assumes "\<And>r. P r \<Longrightarrow> key (f r) = key r" and "distinct_key key t"
  shows "distinct_key key (update_where P f t)"
  using assms by (simp add: distinct_key_def map_update_key)

lemma distinct_key_delete: "distinct_key key t \<Longrightarrow> distinct_key key (delete_where P t)"
  by (auto simp: distinct_key_def delete_where_def distinct_map inj_on_def)

lemma update_where_cong_key:
  "distinct_key key t \<Longrightarrow> r \<in> set t \<Longrightarrow>
   r' \<in> set (update_where (\<lambda>x. key x = key r \<and> P x) f t) \<Longrightarrow> key r' \<noteq> key r \<Longrightarrow>
   (\<And>x. key (f x) = key x) \<Longrightarrow> r' \<in> set t"
  by (auto simp: update_where_def)

lemma rowcount_key_le_1:
  assumes "distinct_key key t"
  shows "rowcount (\<lambda>r. key r = k \<and> P r) t \<le> 1"
  using assms
proof (induction t)
  case Nil
  then show ?case by (simp add: rowcount_def)
next
  case (Cons a t)
  show ?case
  proof (cases "key a = k \<and> P a")
    case True
    then have "k \<notin> key ` set t" using Cons.prems by (auto simp: distinct_key_def)
    then have "filter (\<lambda>r. key r = k \<and> P r) t = []" by (auto simp: filter_empty_conv)
    then show ?thesis by (simp add: rowcount_def)
  next
    case False
    then show ?thesis using Cons by (auto simp: rowcount_def distinct_key_def)
  qed
qed

lemma rowcount_1_iff:
  assumes "distinct_key key t"
  shows "rowcount (\<lambda>r. key r = k \<and> P r) t = 1 \<longleftrightarrow> (\<exists>r. by_key key k t = Some r \<and> P r)"
proof -
  have "rowcount (\<lambda>r. key r = k \<and> P r) t = 0 \<longleftrightarrow> \<not> (\<exists>r\<in>set t. key r = k \<and> P r)"
    by (auto simp: rowcount_def filter_empty_conv)
  moreover have "(\<exists>r\<in>set t. key r = k \<and> P r) \<longleftrightarrow> (\<exists>r. by_key key k t = Some r \<and> P r)"
    using by_key_member [OF assms] by (auto dest: by_key_SomeD)
  ultimately show ?thesis using rowcount_key_le_1 [OF assms, of k P]
    by (cases "rowcount (\<lambda>r. key r = k \<and> P r) t = 0") simp_all
qed

lemma set_order_by [simp]: "set (order_by key rows) = set rows"
  by (simp add: order_by_def)

lemma sorted_order_by: "sorted (map key (order_by key rows))"
  by (simp add: order_by_def)

lemma mset_order_by [simp]: "mset (order_by key rows) = mset rows"
  by (simp add: order_by_def)

lemma first_row_None_iff: "first_row rows = None \<longleftrightarrow> rows = []"
  by (cases rows) simp_all

text \<open>ORDER BY a column DESC and the first row: a row with the greatest value of the column.\<close>

lemma first_row_desc:
  assumes "first_row (order_by (\<lambda>r. - (f r :: int)) rows) = Some x"
  shows "x \<in> set rows" and "y \<in> set rows \<Longrightarrow> f y \<le> f x"
proof -
  obtain xs where xs: "order_by (\<lambda>r. - f r) rows = x # xs"
    using assms by (cases "order_by (\<lambda>r. - f r) rows") auto
  have "sorted (map (\<lambda>r. - f r) (x # xs))" and rows: "set rows = set (x # xs)"
    unfolding xs [symmetric] by (rule sorted_order_by) simp
  then show "x \<in> set rows" and "y \<in> set rows \<Longrightarrow> f y \<le> f x" by auto
qed

lemma set_sql_limit: "set (sql_limit n rows) \<subseteq> set rows"
  by (auto simp: sql_limit_def dest: in_set_takeD)

lemma length_sql_limit: "0 \<le> n \<Longrightarrow> length (sql_limit n rows) \<le> nat n"
  by (simp add: sql_limit_def)

lemma length_page: "length (page limit offset rows) \<le> 500"
  by (simp add: page_def sql_limit_def)

lemma set_page: "set (page limit offset rows) \<subseteq> set rows"
  by (auto simp: page_def sql_limit_def sql_offset_def dest: in_set_takeD in_set_dropD)

lemma sorted_page: "sorted (map key rows) \<Longrightarrow> sorted (map key (page limit offset rows))"
  by (simp add: page_def sql_limit_def sql_offset_def take_map [symmetric] drop_map [symmetric]
      sorted_wrt_take sorted_wrt_drop)

section \<open>The interface of a stored record\<close>

text \<open>
  A contract record of type \<open>'a\<close> kept in a table of rows \<open>'r\<close>: \<open>to_row\<close> is what the INSERT
  writes, \<open>of_row\<close> what \<^verbatim>\<open>_row_to_...\<close> makes of a selected row, \<open>norm\<close> what the two together
  do to a record (dropping the UTC offset, replacing falsy columns by their defaults).
\<close>

locale stored_record =
  fixes column :: string
    and key :: "'r \<Rightarrow> 'k"
    and ident :: "'a \<Rightarrow> 'k"
    and to_row :: "'a \<Rightarrow> 'r"
    and of_row :: "'r \<Rightarrow> 'b"
    and norm :: "'a \<Rightarrow> 'b"
  assumes key_to_row: "key (to_row a) = ident a"
    and of_to_row: "of_row (to_row a) = norm a"
begin

lemma save_then_get:
  "insert_row column key (to_row a) t = Inr t' \<Longrightarrow>
   map_option of_row (by_key key (ident a) t') = Some (norm a)"
  by (auto simp: insert_row_Inr_iff by_key_append by_key_None_iff [symmetric] key_to_row of_to_row
      simp del: not_None_eq)

lemma save_frame:
  "insert_row column key (to_row a) t = Inr t' \<Longrightarrow> k \<noteq> ident a \<Longrightarrow>
   by_key key k t' = by_key key k t"
  by (auto simp: insert_row_Inr_iff by_key_append key_to_row split: option.split)

lemma save_fails_iff:
  "(\<exists>e. insert_row column key (to_row a) t = Inl e) \<longleftrightarrow> by_key key (ident a) t \<noteq> None"
  by (auto simp: insert_row_def key_to_row by_key_None_iff)

lemma save_duplicate:
  "by_key key (ident a) t = Some r \<Longrightarrow>
   insert_row column key (to_row a) t =
     Inl (Raise IntegrityError (''UNIQUE constraint failed: '' @ column))"
  using by_key_None_iff [of key "ident a" t] by (auto simp: insert_row_def key_to_row)

lemma replace_then_get:
  assumes "distinct_key key t" and "by_key key (ident a) t = Some r"
  shows "map_option of_row
    (by_key key (ident a) (update_where (\<lambda>x. key x = ident a) (\<lambda>_. to_row a) t)) = Some (norm a)"
  using assms by (subst by_key_update) (auto simp: key_to_row of_to_row dest: by_key_SomeD)

end

end
