(* ===== verification/Causal_Time.thy ===== *)
theory Causal_Time
  imports Prelude
begin

text \<open>
  Timestamps: \<^verbatim>\<open>src/src/goblin_king/causal_time.py\<close> and the timestamp column type.
  A \<open>datetime\<close> is a wall-clock reading in microseconds, naive or with a UTC offset in
  microseconds. \<open>monotonic_utc_now\<close> is the process clock (its wall-clock readings are the
  stream \<open>wall_clock\<close>), \<open>causally_after\<close> the causal floor. A SQLite \<^verbatim>\<open>DateTime\<close> column stores the
  wall-clock reading only (\<open>db_datetime\<close>); \<open>coerce_datetime\<close> reads it back as UTC.
  The theorems: the clock is strictly increasing whatever the wall clock does, and a causal
  timestamp is the least one that is after every predecessor and not before the candidate.
\<close>

section \<open>Datetimes\<close>

datatype datetime = Naive int | Aware int int

primrec dt_wall :: "datetime \<Rightarrow> int" where
  "dt_wall (Naive w) = w"
| "dt_wall (Aware w off) = w"

primrec utc_instant :: "datetime \<Rightarrow> int" where
  "utc_instant (Naive w) = w"
| "utc_instant (Aware w off) = w - off"

primrec plus_microseconds :: "datetime \<Rightarrow> int \<Rightarrow> datetime" where
  "plus_microseconds (Naive w) n = Naive (w + n)"
| "plus_microseconds (Aware w off) n = Aware (w + n) off"

abbreviation utc :: "int \<Rightarrow> datetime" where
  "utc w \<equiv> Aware w 0"

definition seconds :: "int \<Rightarrow> int" where
  "seconds n = n * 1000000"

definition MINIMUM_CAUSAL_STEP :: int where
  "MINIMUM_CAUSAL_STEP = 1"

definition ensure_utc :: "datetime \<Rightarrow> datetime" where
  "ensure_utc v = (case v of Naive w \<Rightarrow> Aware w 0 | Aware w off \<Rightarrow> Aware (w - off) 0)"

definition is_utc :: "datetime \<Rightarrow> bool" where
  "is_utc v = (case v of Naive _ \<Rightarrow> False | Aware _ off \<Rightarrow> off = 0)"

section \<open>The process clock\<close>

record clock =
  wall_clock :: "nat \<Rightarrow> datetime"
  ticks :: nat
  clock_last :: "datetime option"

definition clock_now :: "clock \<Rightarrow> datetime \<times> clock" where
  "clock_now c =
     (let candidate = ensure_utc (wall_clock c (ticks c));
          stamp = (case clock_last c of
                     None \<Rightarrow> candidate
                   | Some prev \<Rightarrow> if utc_instant candidate \<le> utc_instant prev
                                 then plus_microseconds prev MINIMUM_CAUSAL_STEP else candidate)
      in (stamp, c\<lparr>ticks := Suc (ticks c), clock_last := Some stamp\<rparr>))"

definition monotonic_utc_now :: "clock \<Rightarrow> datetime \<times> clock" where
  "monotonic_utc_now c = clock_now c"

fun clock_run :: "nat \<Rightarrow> clock \<Rightarrow> datetime list \<times> clock" where
  "clock_run 0 c = ([], c)"
| "clock_run (Suc n) c =
     (let (d, c') = monotonic_utc_now c; (ds, c'') = clock_run n c' in (d # ds, c''))"

section \<open>The causal floor\<close>

text \<open>The body of \<^verbatim>\<open>causally_after\<close> once \<^verbatim>\<open>current\<close> is known.\<close>

definition causal_floor :: "datetime option list \<Rightarrow> datetime \<Rightarrow> datetime" where
  "causal_floor predecessors current =
     (let normalized = map ensure_utc (List.map_filter id predecessors)
      in if normalized = [] then current
         else let newest = Max (utc_instant ` set normalized)
              in if newest < utc_instant current then current
                 else utc (newest + MINIMUM_CAUSAL_STEP))"

text \<open>\<^verbatim>\<open>causally_after(*predecessors, candidate=candidate)\<close> with a candidate, and without one.\<close>

definition causally_after :: "datetime option list \<Rightarrow> datetime \<Rightarrow> datetime" where
  "causally_after predecessors candidate = causal_floor predecessors (ensure_utc candidate)"

definition causally_after_now :: "datetime option list \<Rightarrow> clock \<Rightarrow> datetime \<times> clock" where
  "causally_after_now predecessors c =
     (let (current, c') = monotonic_utc_now c in (causal_floor predecessors current, c'))"

section \<open>Timestamp columns\<close>

definition db_datetime :: "datetime \<Rightarrow> datetime" where
  "db_datetime v = Naive (dt_wall v)"

definition coerce_datetime :: "datetime \<Rightarrow> datetime" where
  "coerce_datetime v = (case v of Naive w \<Rightarrow> Aware w 0 | Aware w off \<Rightarrow> Aware w off)"

section \<open>Facts\<close>

lemma utc_instant_ensure_utc [simp]: "utc_instant (ensure_utc v) = utc_instant v"
  by (simp add: ensure_utc_def split: datetime.split)

lemma is_utc_ensure_utc [simp]: "is_utc (ensure_utc v)"
  by (simp add: ensure_utc_def is_utc_def split: datetime.split)

lemma ensure_utc_utc [simp]: "is_utc v \<Longrightarrow> ensure_utc v = v"
  by (auto simp: ensure_utc_def is_utc_def split: datetime.splits)

lemma is_utc_utc [simp]: "is_utc (utc w)"
  by (simp add: is_utc_def)

lemma utc_instant_plus [simp]: "utc_instant (plus_microseconds v n) = utc_instant v + n"
  by (cases v) simp_all

lemma is_utc_plus [simp]: "is_utc (plus_microseconds v n) = is_utc v"
  by (cases v) (simp_all add: is_utc_def)

lemma coerce_db_datetime [simp, row_simps]: "coerce_datetime (db_datetime v) = utc (dt_wall v)"
  by (simp add: coerce_datetime_def db_datetime_def)

lemma dt_wall_db_datetime [simp, row_simps]: "dt_wall (db_datetime v) = dt_wall v"
  by (simp add: db_datetime_def)

lemma dt_wall_is_utc: "is_utc v \<Longrightarrow> dt_wall v = utc_instant v"
  by (auto simp: is_utc_def split: datetime.splits)

lemma utc_dt_wall [row_simps]: "is_utc v \<Longrightarrow> utc (dt_wall v) = v"
  by (auto simp: is_utc_def split: datetime.splits)

lemma coerce_instant: "utc_instant (coerce_datetime (db_datetime v)) = dt_wall v"
  by simp

lemma clock_now_stamp:
  assumes "clock_now c = (d, c')"
  shows "clock_last c' = Some d"
    and "clock_last c = Some l \<Longrightarrow> utc_instant l < utc_instant d"
    and "utc_instant (wall_clock c (ticks c)) \<le> utc_instant d"
    and "(case clock_last c of None \<Rightarrow> True | Some l \<Rightarrow> is_utc l) \<Longrightarrow> is_utc d"
  using assms
  by (auto simp: clock_now_def Let_def MINIMUM_CAUSAL_STEP_def split: option.splits if_splits)

lemma clock_now_frame:
  "clock_now c = (d, c') \<Longrightarrow> wall_clock c' = wall_clock c \<and> ticks c' = Suc (ticks c)"
  by (auto simp: clock_now_def Let_def)

lemma causal_floor_bounds:
  "\<forall>p. Some p \<in> set ps \<longrightarrow> utc_instant p < utc_instant (causal_floor ps c)"
  "utc_instant c \<le> utc_instant (causal_floor ps c)"
proof -
  let ?n = "map ensure_utc (List.map_filter id ps)"
  let ?m = "Max (utc_instant ` set ?n)"
  have mem: "utc_instant p \<in> utc_instant ` set ?n" if "Some p \<in> set ps" for p
    using that by (force simp: List.map_filter_def image_iff)
  have le: "utc_instant p \<le> ?m" if "Some p \<in> set ps" for p
    using mem [OF that] by (intro Max_ge) auto
  show "\<forall>p. Some p \<in> set ps \<longrightarrow> utc_instant p < utc_instant (causal_floor ps c)"
    using le mem by (fastforce simp: causal_floor_def Let_def MINIMUM_CAUSAL_STEP_def)
  show "utc_instant c \<le> utc_instant (causal_floor ps c)"
    by (simp add: causal_floor_def Let_def MINIMUM_CAUSAL_STEP_def del: Max_less_iff)
qed

lemma causal_floor_least:
  assumes "\<forall>p. Some p \<in> set ps \<longrightarrow> utc_instant p < t" and "utc_instant c \<le> t"
  shows "utc_instant (causal_floor ps c) \<le> t"
proof -
  let ?n = "map ensure_utc (List.map_filter id ps)"
  have "i < t" if "i \<in> utc_instant ` set ?n" for i
    using that assms(1) by (auto simp: List.map_filter_def)
  then have "?n \<noteq> [] \<Longrightarrow> Max (utc_instant ` set ?n) < t" by (subst Max_less_iff) auto
  then show ?thesis using assms(2)
    by (auto simp: causal_floor_def Let_def MINIMUM_CAUSAL_STEP_def simp del: Max_less_iff)
qed

lemma is_utc_causal_floor: "is_utc c \<Longrightarrow> is_utc (causal_floor ps c)"
  by (simp add: causal_floor_def Let_def)

lemma is_utc_causally_after [simp]: "is_utc (causally_after ps c)"
  by (simp add: causally_after_def is_utc_causal_floor)

lemma causally_after_gt: "Some p \<in> set ps \<Longrightarrow> utc_instant p < utc_instant (causally_after ps c)"
  using causal_floor_bounds(1) by (auto simp: causally_after_def)

lemma causally_after_ge: "utc_instant c \<le> utc_instant (causally_after ps c)"
  using causal_floor_bounds(2) [of "ensure_utc c"] by (simp add: causally_after_def)

lemma clock_run_after:
  assumes "clock_run n c = (ds, c')" and "clock_last c = Some l" and "d \<in> set ds"
  shows "utc_instant l < utc_instant d"
  using assms
proof (induction n arbitrary: c ds l)
  case 0
  then show ?case by simp
next
  case (Suc n)
  obtain d1 c1 where now: "clock_now c = (d1, c1)" by (cases "clock_now c")
  obtain ds1 where rest: "clock_run n c1 = (ds1, c')" and ds: "ds = d1 # ds1"
    using Suc.prems(1) now by (auto simp: monotonic_utc_now_def split: prod.splits)
  have lt: "utc_instant l < utc_instant d1" using clock_now_stamp(2) [OF now] Suc.prems(2) by simp
  show ?case
  proof (cases "d = d1")
    case True
    then show ?thesis using lt by simp
  next
    case False
    then have "d \<in> set ds1" using Suc.prems(3) ds by simp
    then have "utc_instant d1 < utc_instant d"
      using Suc.IH [OF rest clock_now_stamp(1) [OF now]] by simp
    then show ?thesis using lt by simp
  qed
qed

text \<open>
  Successive readings of the process clock are strictly increasing, however the wall clock
  moves: stepping back, standing still or jumping.
\<close>

theorem clock_run_strictly_increasing:
  "sorted_wrt (\<lambda>a b. utc_instant a < utc_instant b) (fst (clock_run n c))"
proof (induction n arbitrary: c)
  case 0
  then show ?case by simp
next
  case (Suc n)
  obtain d1 c1 where now: "clock_now c = (d1, c1)" by (cases "clock_now c")
  obtain ds1 c2 where rest: "clock_run n c1 = (ds1, c2)" by (cases "clock_run n c1")
  have "\<forall>d\<in>set ds1. utc_instant d1 < utc_instant d"
    using clock_run_after [OF rest clock_now_stamp(1) [OF now]] by blast
  then show ?case using Suc [of c1] now rest by (simp add: monotonic_utc_now_def)
qed

text \<open>
  \<^verbatim>\<open>causally_after\<close> returns a UTC timestamp: the later of the candidate and one microsecond
  after the newest predecessor, hence the least instant strictly after every predecessor and
  not before the candidate.
\<close>

theorem causally_after_instant:
  "is_utc (causally_after ps c) \<and>
   utc_instant (causally_after ps c) =
     Max (insert (utc_instant c) {utc_instant p + 1 | p. Some p \<in> set ps})"
proof -
  let ?S = "insert (utc_instant c) {utc_instant p + 1 | p. Some p \<in> set ps}"
  have "{utc_instant p + 1 | p. Some p \<in> set ps} \<subseteq> (\<lambda>x. utc_instant (the x) + 1) ` set ps"
    by force
  then have fin: "finite ?S" by (meson finite.insertI finite_imageI finite_set finite_subset)
  have "x \<le> utc_instant (causally_after ps c)" if "x \<in> ?S" for x
    using that causally_after_ge [of c ps] causally_after_gt [of _ ps c] by fastforce
  moreover have "\<forall>p. Some p \<in> set ps \<longrightarrow> utc_instant p < Max ?S"
  proof (intro allI impI)
    fix p assume "Some p \<in> set ps"
    then have "utc_instant p + 1 \<in> ?S" by blast
    then have "utc_instant p + 1 \<le> Max ?S" by (rule Max_ge [OF fin])
    then show "utc_instant p < Max ?S" by linarith
  qed
  then have "utc_instant (causally_after ps c) \<le> Max ?S"
    unfolding causally_after_def using fin by (intro causal_floor_least) auto
  ultimately have "utc_instant (causally_after ps c) = Max ?S"
    using fin by (intro antisym) (auto simp: Max_le_iff)
  then show ?thesis by simp
qed

end
