(* ===== verification/Contracts.thy ===== *)
theory Contracts
  imports Causal_Time
begin

text \<open>
  The typed contracts of \<^verbatim>\<open>src/src/goblin_king/contracts.py\<close>: one record per Pydantic model, its
  literal types as datatypes, its field and model validators as functions that return the
  validated value or the ValidationError. Optional attributes are options, \<^verbatim>\<open>dict[str, Any]\<close>
  attributes are JSON values, Python ints are ints. Text is a list of ASCII characters.
\<close>

section \<open>Literal types\<close>

datatype job_status =
  Queued | Leased | Running | Completed | Failed | Retrying | TimedOut | Cancelled

datatype run_status = RunRunning | RunCompleted | RunFailed | RunTimedOut

datatype event_source = SrcApi | SrcScheduler | SrcRuntime | SrcWorker | SrcCli

datatype heartbeat_owner_type = OwnerScheduler | OwnerWorker

datatype principal_role = RoleAdmin | RoleMember | RoleViewer

datatype long_service_status = SvcRegistered | SvcRunning | SvcFailed | SvcStopped

datatype image_promotion_status = PromoPlanned | PromoBuilt | PromoPushed | PromoPromoted | PromoFailed

datatype deployment_record_status = DepPlanned | DepRendered | DepDryRun | DepApplied | DepFailed

datatype validation_status = ValPassed | ValFailed

datatype repository_goblin_type = NotebookFunction | NotebookService

datatype repository_entry_status =
  Draft | Validated | PendingReview | Approved | Published | Rejected | Retired

text \<open>The text of the literals that the code puts into messages and payloads.\<close>

primrec job_status_text :: "job_status \<Rightarrow> string" where
  "job_status_text Queued = ''queued''"
| "job_status_text Leased = ''leased''"
| "job_status_text Running = ''running''"
| "job_status_text Completed = ''completed''"
| "job_status_text Failed = ''failed''"
| "job_status_text Retrying = ''retrying''"
| "job_status_text TimedOut = ''timed_out''"
| "job_status_text Cancelled = ''cancelled''"

primrec repository_status_text :: "repository_entry_status \<Rightarrow> string" where
  "repository_status_text Draft = ''draft''"
| "repository_status_text Validated = ''validated''"
| "repository_status_text PendingReview = ''pending_review''"
| "repository_status_text Approved = ''approved''"
| "repository_status_text Published = ''published''"
| "repository_status_text Rejected = ''rejected''"
| "repository_status_text Retired = ''retired''"

primrec run_status_text :: "run_status \<Rightarrow> string" where
  "run_status_text RunRunning = ''running''"
| "run_status_text RunCompleted = ''completed''"
| "run_status_text RunFailed = ''failed''"
| "run_status_text RunTimedOut = ''timed_out''"

section \<open>Goblin results\<close>

record artifact_record =
  art_name :: string
  art_uri :: string
  art_media_type :: "string option"

record handoff_record =
  ho_kind :: string
  ho_payload :: json

datatype result_status = ResSuccess | ResFailed

record goblin_result =
  res_status :: result_status
  res_data :: json
  res_artifacts :: "artifact_record list"
  res_metrics :: json
  res_handoff :: "handoff_record list"
  res_error :: "string option"

text \<open>\<^verbatim>\<open>data or {}\<close>: a missing or empty mapping becomes the empty mapping.\<close>

definition or_empty :: "json option \<Rightarrow> json" where
  "or_empty d = (case d of None \<Rightarrow> JObj [] | Some v \<Rightarrow> if json_truthy v then v else JObj [])"

definition goblin_result_ok ::
  "json option \<Rightarrow> artifact_record list \<Rightarrow> json option \<Rightarrow> handoff_record list \<Rightarrow> goblin_result" where
  "goblin_result_ok data artifacts metrics handoff =
     \<lparr>res_status = ResSuccess, res_data = or_empty data, res_artifacts = artifacts,
      res_metrics = or_empty metrics, res_handoff = handoff, res_error = None\<rparr>"

definition goblin_result_failed ::
  "string \<Rightarrow> json option \<Rightarrow> artifact_record list \<Rightarrow> json option \<Rightarrow> handoff_record list
     \<Rightarrow> goblin_result" where
  "goblin_result_failed err data artifacts metrics handoff =
     \<lparr>res_status = ResFailed, res_data = or_empty data, res_artifacts = artifacts,
      res_metrics = or_empty metrics, res_handoff = handoff, res_error = Some err\<rparr>"

section \<open>Jobs, runs, fanouts, schedules\<close>

record job_record =
  j_id :: string
  j_kind :: string
  j_input :: json
  j_created_at :: datetime
  j_created_by :: string
  j_correlation_id :: "string option"
  j_project_id :: "string option"
  j_fanout_id :: "string option"
  j_metadata :: json
  j_status :: job_status
  j_priority :: int
  j_schedule_id :: "string option"
  j_due_at :: "datetime option"
  j_lease_owner :: "string option"
  j_leased_until :: "datetime option"
  j_attempt_count :: int
  j_max_retries :: int
  j_timeout_seconds :: "int option"
  j_last_error :: "string option"

definition job_effective_policy :: "job_record \<Rightarrow> json" where
  "job_effective_policy j =
     (case obj_get (j_metadata j) ''resource_policy'' of
        Some policy \<Rightarrow> if is_obj policy then policy else JObj []
      | None \<Rightarrow> JObj [])"

record run_record =
  r_id :: string
  r_job_id :: string
  r_kind :: string
  r_project_id :: "string option"
  r_attempt :: int
  r_status :: run_status
  r_started_at :: datetime
  r_finished_at :: "datetime option"
  r_result :: "goblin_result option"
  r_error :: "string option"
  r_timeout_seconds :: "int option"
  r_max_retries :: int
  r_leased_until :: "datetime option"
  r_resource_policy :: "json option"

text \<open>The model validator of \<^verbatim>\<open>RunRecord\<close>, run when a record is constructed (not on a copy).\<close>

definition run_timestamps_ordered :: "run_record \<Rightarrow> bool" where
  "run_timestamps_ordered r =
     (case r_finished_at r of
        None \<Rightarrow> True
      | Some f \<Rightarrow> \<not> utc_instant (ensure_utc f) < utc_instant (ensure_utc (r_started_at r)))"

definition new_run_record :: "run_record \<Rightarrow> run_record result" where
  "new_run_record r =
     (if run_timestamps_ordered r then Inr r
      else Inl (Raise ValidationError ''finished_at must be greater than or equal to started_at''))"

definition run_effective_policy :: "run_record \<Rightarrow> json" where
  "run_effective_policy r = or_empty (r_resource_policy r)"

record fanout_record =
  f_id :: string
  f_created_at :: datetime
  f_created_by :: string
  f_project_id :: "string option"
  f_correlation_id :: "string option"
  f_description :: "string option"

record schedule_record =
  sc_id :: string
  sc_kind :: string
  sc_project_id :: "string option"
  sc_input :: json
  sc_cron :: string
  sc_timezone :: string
  sc_enabled :: bool
  sc_priority :: int
  sc_created_at :: datetime
  sc_next_run_at :: datetime
  sc_last_materialized_at :: "datetime option"
  sc_max_retries :: int
  sc_timeout_seconds :: "int option"

section \<open>Events and heartbeats\<close>

record event_record =
  e_id :: string
  e_sequence :: int
  e_created_at :: datetime
  e_event_type :: string
  e_source :: event_source
  e_project_id :: "string option"
  e_job_id :: "string option"
  e_run_id :: "string option"
  e_fanout_id :: "string option"
  e_schedule_id :: "string option"
  e_worker_id :: "string option"
  e_scheduler_id :: "string option"
  e_payload :: json

record heartbeat_record =
  hb_owner_id :: string
  hb_owner_type :: heartbeat_owner_type
  hb_status :: string
  hb_last_seen_at :: datetime
  hb_job_id :: "string option"
  hb_run_id :: "string option"
  hb_payload :: json

section \<open>Services, notebooks, repository, deployment proof\<close>

record long_service_record =
  ls_id :: string
  ls_kind :: string
  ls_project_id :: "string option"
  ls_image :: "string option"
  ls_base_url :: string
  ls_probe_path :: string
  ls_status :: long_service_status
  ls_created_at :: datetime
  ls_created_by :: string
  ls_last_probe_at :: "datetime option"
  ls_last_probe_json :: "json option"

record notebook_goblin_record =
  ng_kind :: string
  ng_project_id :: "string option"
  ng_display_name :: string
  ng_image :: string
  ng_source :: string
  ng_source_hash :: string
  ng_function_name :: string
  ng_timeout_seconds :: "int option"
  ng_max_retries :: int
  ng_created_at :: datetime
  ng_updated_at :: datetime
  ng_created_by :: string
  ng_metadata :: json

record notebook_service_record =
  ns_kind :: string
  ns_project_id :: "string option"
  ns_display_name :: string
  ns_image :: string
  ns_source :: string
  ns_source_hash :: string
  ns_app_name :: string
  ns_requirements :: "string list"
  ns_port :: int
  ns_probe_path :: string
  ns_created_at :: datetime
  ns_updated_at :: datetime
  ns_created_by :: string
  ns_metadata :: json
  ns_runtime_backend :: "string option"
  ns_runtime_name :: "string option"
  ns_runtime_status :: string
  ns_active_service_id :: "string option"

record repository_entry_record =
  re_id :: string
  re_name :: string
  re_kind :: string
  re_type :: repository_goblin_type
  re_project_id :: "string option"
  re_owner :: string
  re_display_name :: string
  re_description :: "string option"
  re_tags :: "string list"
  re_status :: repository_entry_status
  re_published_version :: "int option"
  re_created_at :: datetime
  re_updated_at :: datetime

record repository_version_record =
  rv_id :: string
  rv_entry_id :: string
  rv_version :: int
  rv_kind :: string
  rv_source_hash :: string
  rv_runner_image :: string
  rv_validation_proof :: json
  rv_approval_status :: repository_entry_status
  rv_status :: repository_entry_status
  rv_approved_by :: "string option"
  rv_approved_at :: "datetime option"
  rv_published_at :: "datetime option"
  rv_created_at :: datetime
  rv_updated_at :: datetime

record image_promotion_record =
  ip_id :: string
  ip_kind :: string
  ip_source_image :: string
  ip_target_image :: string
  ip_status :: image_promotion_status
  ip_actor :: string
  ip_digest :: "string option"
  ip_created_at :: datetime
  ip_updated_at :: datetime
  ip_detail :: json

record worker_validation_record =
  wv_id :: string
  wv_kind :: string
  wv_image :: string
  wv_image_digest :: string
  wv_contract_version :: string
  wv_validator_version :: string
  wv_validated_at :: datetime
  wv_status :: validation_status
  wv_failure_reasons :: "string list"
  wv_effective_policy :: json

record deployment_record =
  dr_id :: string
  dr_name :: string
  dr_action :: string
  dr_status :: deployment_record_status
  dr_actor :: string
  dr_command :: "string list"
  dr_output :: "string option"
  dr_created_at :: datetime
  dr_updated_at :: datetime
  dr_detail :: json

section \<open>Principals and audit\<close>

record user_record =
  u_id :: string
  u_email :: string
  u_display_name :: string
  u_created_at :: datetime
  u_disabled :: bool

record team_record =
  t_id :: string
  t_name :: string
  t_created_at :: datetime

record project_record =
  p_id :: string
  p_name :: string
  p_created_at :: datetime

record membership_record =
  m_id :: string
  m_project_id :: string
  m_role :: principal_role
  m_user_id :: "string option"
  m_team_id :: "string option"
  m_created_at :: datetime

record api_token_record =
  tk_id :: string
  tk_name :: string
  tk_token_hash :: string
  tk_created_at :: datetime
  tk_user_id :: string
  tk_project_id :: "string option"
  tk_role :: principal_role
  tk_revoked_at :: "datetime option"

record audit_log_record =
  al_id :: string
  al_created_at :: datetime
  al_action :: string
  al_outcome :: string
  al_user_id :: "string option"
  al_token_id :: "string option"
  al_project_id :: "string option"
  al_resource_type :: "string option"
  al_resource_id :: "string option"
  al_detail :: json

record rate_limit_record =
  rl_key :: string
  rl_window_started_at :: datetime
  rl_count :: int

section \<open>Goblin definitions and kinds\<close>

record goblin_definition =
  gd_kind :: string
  gd_display_name :: string
  gd_module :: string
  gd_entrypoint :: string
  gd_timeout_seconds :: "int option"
  gd_max_retries :: "int option"
  gd_metadata :: json

text \<open>
  \<^verbatim>\<open>GOBLIN_KIND_PATTERN\<close> is \<^verbatim>\<open>^[a-z0-9][a-z0-9]*(?:[.-][a-z0-9][a-z0-9]*)*$\<close>. \<open>kind_scan\<close> is its
  automaton (the flag says that an alphanumeric must come next); \<^verbatim>\<open>$\<close> also matches before a
  newline that ends the text.
\<close>

definition kind_alnum :: "char \<Rightarrow> bool" where
  "kind_alnum c = (CHR ''a'' \<le> c \<and> c \<le> CHR ''z'' \<or> CHR ''0'' \<le> c \<and> c \<le> CHR ''9'')"

definition kind_sep :: "char \<Rightarrow> bool" where
  "kind_sep c = (c = CHR ''.'' \<or> c = CHR ''-'')"

fun kind_scan :: "bool \<Rightarrow> string \<Rightarrow> bool" where
  "kind_scan need [] = (\<not> need)"
| "kind_scan need (c # cs) =
     (if kind_alnum c then kind_scan False cs
      else if kind_sep c \<and> \<not> need then kind_scan True cs else False)"

definition GOBLIN_KIND_PATTERN :: "string \<Rightarrow> bool" where
  "GOBLIN_KIND_PATTERN s =
     (kind_scan True s \<or> (s \<noteq> [] \<and> last s = CHR 0x0A \<and> kind_scan True (butlast s)))"

definition validate_kind :: "string \<Rightarrow> string result" where
  "validate_kind value =
     (if \<not> GOBLIN_KIND_PATTERN value
      then Inl (Raise ValidationError ''kind must use lowercase letters, digits, dots, or dashes'')
      else Inr value)"

definition new_goblin_definition :: "goblin_definition \<Rightarrow> goblin_definition result" where
  "new_goblin_definition d =
     bind_result (validate_kind (gd_kind d)) (\<lambda>_.
       if gd_display_name d = '''' \<or> gd_module d = '''' \<or> gd_entrypoint d = ''''
       then Inl (Raise ValidationError ''String should have at least 1 character'')
       else if (case gd_timeout_seconds d of None \<Rightarrow> False | Some t \<Rightarrow> t \<le> 0)
       then Inl (Raise ValidationError ''Input should be greater than 0'')
       else if (case gd_max_retries d of None \<Rightarrow> False | Some n \<Rightarrow> n < 0)
       then Inl (Raise ValidationError ''Input should be greater than or equal to 0'')
       else Inr d)"

text \<open>\<^verbatim>\<open>str.strip()\<close> and \<^verbatim>\<open>str.lower()\<close> on ASCII text.\<close>

definition py_space :: "char \<Rightarrow> bool" where
  "py_space c = (let n = of_char c :: nat in 9 \<le> n \<and> n \<le> 13 \<or> 28 \<le> n \<and> n \<le> 32)"

definition py_strip :: "string \<Rightarrow> string" where
  "py_strip s = rev (dropWhile py_space (rev (dropWhile py_space s)))"

definition lower_char :: "char \<Rightarrow> char" where
  "lower_char c = (if CHR ''A'' \<le> c \<and> c \<le> CHR ''Z'' then char_of ((of_char c :: nat) + 32) else c)"

definition py_lower :: "string \<Rightarrow> string" where
  "py_lower s = map lower_char s"

text \<open>The loop of \<^verbatim>\<open>RepositoryEntryRecord.validate_tags\<close>; the first argument is the list \<^verbatim>\<open>tags\<close>.\<close>

fun validate_tags_loop :: "string list \<Rightarrow> string list \<Rightarrow> string list result" where
  "validate_tags_loop tags [] = Inr tags"
| "validate_tags_loop tags (tag # rest) =
     (let cleaned = py_lower (py_strip tag)
      in if cleaned = '''' then validate_tags_loop tags rest
         else if \<not> GOBLIN_KIND_PATTERN cleaned
         then Inl (Raise ValidationError ''tags must use lowercase letters, digits, dots, or dashes'')
         else if cleaned \<in> set tags then validate_tags_loop tags rest
         else validate_tags_loop (tags @ [cleaned]) rest)"

definition validate_tags :: "string list \<Rightarrow> string list result" where
  "validate_tags value = validate_tags_loop [] value"

definition validate_identifier :: "string \<Rightarrow> string result" where
  "validate_identifier value =
     (if \<not> GOBLIN_KIND_PATTERN value
      then Inl (Raise ValidationError ''value must use lowercase letters, digits, dots, or dashes'')
      else Inr value)"

definition validate_probe_path :: "string \<Rightarrow> string" where
  "validate_probe_path value = (if take 1 value = ''/'' then value else ''/'' @ value)"

section \<open>Facts about kinds and tags\<close>

text \<open>The words of the pattern without its anchors.\<close>

inductive kind_word :: "string \<Rightarrow> bool" where
  segment: "seg \<noteq> [] \<Longrightarrow> list_all kind_alnum seg \<Longrightarrow> kind_word seg"
| extend: "kind_word w \<Longrightarrow> kind_sep c \<Longrightarrow> seg \<noteq> [] \<Longrightarrow> list_all kind_alnum seg \<Longrightarrow>
     kind_word (w @ c # seg)"

lemma kind_sep_not_alnum: "kind_sep c \<Longrightarrow> \<not> kind_alnum c"
  by (auto simp: kind_sep_def kind_alnum_def)

lemma kind_scan_alnums:
  "list_all kind_alnum seg \<Longrightarrow>
   kind_scan need (seg @ rest) = (if seg = [] then kind_scan need rest else kind_scan False rest)"
  by (induction seg arbitrary: need) auto

lemma kind_scan_append_sep:
  "kind_scan need w \<Longrightarrow> kind_sep c \<Longrightarrow> list_all kind_alnum seg \<Longrightarrow> seg \<noteq> [] \<Longrightarrow>
   kind_scan need (w @ c # seg)"
  using kind_scan_alnums [of seg True "[]"] kind_sep_not_alnum [of c]
  by (induction need w rule: kind_scan.induct) (auto split: if_splits)

lemma kind_word_scan: "kind_word w \<Longrightarrow> kind_scan True w"
proof (induction rule: kind_word.induct)
  case (segment seg)
  then show ?case using kind_scan_alnums [of seg True "[]"] by simp
next
  case (extend w c seg)
  then show ?case by (simp add: kind_scan_append_sep)
qed

definition kind_prefix :: "bool \<Rightarrow> string \<Rightarrow> bool" where
  "kind_prefix need w =
     (if need then w = [] \<or> (\<exists>w' c. kind_word w' \<and> kind_sep c \<and> w = w' @ [c]) else kind_word w)"

lemma kind_word_snoc:
  assumes "kind_word w" and "kind_alnum a"
  shows "kind_word (w @ [a])"
  using assms(1)
proof (cases rule: kind_word.cases)
  case segment
  then show ?thesis using assms(2) by (simp add: kind_word.segment)
next
  case (extend w' d seg)
  then show ?thesis using assms(2) kind_word.extend [of w' d "seg @ [a]"] by simp
qed

lemma kind_prefix_alnum:
  assumes "kind_prefix need w" and "kind_alnum a"
  shows "kind_prefix False (w @ [a])"
proof (cases need)
  case True
  then consider "w = []" | w' c where "kind_word w'" "kind_sep c" "w = w' @ [c]"
    using assms(1) by (auto simp: kind_prefix_def)
  then show ?thesis
  proof cases
    case 1
    then show ?thesis using assms(2) by (simp add: kind_prefix_def kind_word.segment)
  next
    case 2
    then show ?thesis using assms(2) kind_word.extend [of w' c "[a]"] by (simp add: kind_prefix_def)
  qed
next
  case False
  then show ?thesis using assms by (simp add: kind_prefix_def kind_word_snoc)
qed

lemma scan_kind_word: "kind_scan need cs \<Longrightarrow> kind_prefix need w \<Longrightarrow> kind_word (w @ cs)"
proof (induction need cs arbitrary: w rule: kind_scan.induct)
  case (1 need)
  then show ?case by (simp add: kind_prefix_def)
next
  case (2 need c cs)
  show ?case
  proof (cases "kind_alnum c")
    case True
    then have "kind_word ((w @ [c]) @ cs)"
      using "2.IH"(1) "2.prems" kind_prefix_alnum [OF "2.prems"(2) True] by force
    then show ?thesis by simp
  next
    case False
    then have "kind_sep c" "\<not> need" "kind_scan True cs" using "2.prems"(1) by (auto split: if_splits)
    moreover from this have "kind_prefix True (w @ [c])"
      using "2.prems"(2) by (auto simp: kind_prefix_def)
    ultimately have "kind_word ((w @ [c]) @ cs)" using "2.IH"(2) False by blast
    then show ?thesis by simp
  qed
qed

lemma kind_scan_iff_word: "kind_scan True w \<longleftrightarrow> kind_word w"
  using scan_kind_word [of True w "[]"] kind_word_scan by (auto simp: kind_prefix_def)

lemma kind_char_cases: "kind_word w \<Longrightarrow> c \<in> set w \<Longrightarrow> kind_alnum c \<or> kind_sep c"
  by (induction rule: kind_word.induct) (auto simp: list_all_iff)

lemma kind_char_ascii:
  assumes "kind_alnum c \<or> kind_sep c"
  shows "\<not> py_space c" and "lower_char c = c" and "c \<noteq> CHR 0x0A"
proof -
  have "(of_char c :: nat) \<ge> 45"
    using assms by (auto simp: kind_alnum_def kind_sep_def less_eq_char_def)
  then show "\<not> py_space c" and "c \<noteq> CHR 0x0A" by (auto simp: py_space_def)
  show "lower_char c = c"
    using assms by (auto simp: lower_char_def kind_alnum_def kind_sep_def less_eq_char_def)
qed

lemma kind_word_nonempty: "kind_word w \<Longrightarrow> w \<noteq> []"
  by (induction rule: kind_word.induct) auto

lemma clean_kind_word:
  assumes "kind_word w"
  shows "py_lower (py_strip w) = w"
proof -
  have no: "\<forall>c\<in>set w. \<not> py_space c" and lo: "\<forall>c\<in>set w. lower_char c = c"
    using kind_char_cases [OF assms] kind_char_ascii by blast+
  have "dropWhile py_space w = w" and "dropWhile py_space (rev w) = rev w"
    using no by (auto simp: dropWhile_eq_self_iff hd_rev)
  then show ?thesis using lo by (simp add: py_strip_def py_lower_def map_idI)
qed

lemma strip_last_not_space: "py_strip s \<noteq> [] \<Longrightarrow> \<not> py_space (last (py_strip s))"
  unfolding py_strip_def by (simp add: last_rev hd_dropWhile)

lemma lower_char_newline: "lower_char c = CHR 0x0A \<longleftrightarrow> c = CHR 0x0A"
proof
  assume eq: "lower_char c = CHR 0x0A"
  show "c = CHR 0x0A"
  proof (cases "CHR ''A'' \<le> c \<and> c \<le> CHR ''Z''")
    case True
    then have "(of_char c :: nat) + 32 < 256" by (auto simp: less_eq_char_def)
    then have "(of_char (lower_char c) :: nat) = of_char c + 32"
      using True by (simp add: lower_char_def)
    then show ?thesis using eq True by (simp add: less_eq_char_def)
  next
    case False
    then show ?thesis using eq by (auto simp: lower_char_def)
  qed
qed (simp add: lower_char_def less_eq_char_def)

lemma cleaned_kind_word:
  assumes "GOBLIN_KIND_PATTERN (py_lower (py_strip s))"
  shows "kind_word (py_lower (py_strip s))"
proof (rule ccontr)
  assume "\<not> ?thesis"
  then have ne: "py_strip s \<noteq> []" and "last (py_lower (py_strip s)) = CHR 0x0A"
    using assms by (auto simp: GOBLIN_KIND_PATTERN_def kind_scan_iff_word py_lower_def)
  then have "last (py_strip s) = CHR 0x0A" by (simp add: py_lower_def last_map lower_char_newline)
  then show False using strip_last_not_space [OF ne] by (simp add: py_space_def)
qed

lemma validate_tags_loop_ok:
  "validate_tags_loop tags xs = Inr ts \<Longrightarrow> distinct tags \<Longrightarrow> list_all kind_word tags \<Longrightarrow>
   distinct ts \<and> list_all kind_word ts"
  by (induction tags xs rule: validate_tags_loop.induct)
    (auto simp: Let_def list_all_iff dest: cleaned_kind_word split: if_splits)

lemma validate_tags_loop_fixed:
  "distinct (tags @ xs) \<Longrightarrow> list_all kind_word xs \<Longrightarrow> validate_tags_loop tags xs = Inr (tags @ xs)"
  by (induction xs arbitrary: tags)
    (auto simp: clean_kind_word kind_word_nonempty GOBLIN_KIND_PATTERN_def kind_scan_iff_word)

section \<open>Properties\<close>

text \<open>
  The kind check accepts exactly the words of the documented grammar (non-empty lowercase
  alphanumeric segments joined by single dots or dashes), and such a word followed by one
  newline, because \<^verbatim>\<open>$\<close> matches before a final newline.
\<close>

theorem kind_pattern_language:
  "GOBLIN_KIND_PATTERN s \<longleftrightarrow> kind_word s \<or> (\<exists>w. s = w @ [CHR 0x0A] \<and> kind_word w)"
  unfolding GOBLIN_KIND_PATTERN_def kind_scan_iff_word
  by (metis append_butlast_last_id last_snoc butlast_snoc snoc_eq_iff_butlast)

text \<open>
  Validated tags are distinct words of the kind grammar, and validating them again changes
  nothing.
\<close>

theorem validate_tags_normal_form:
  assumes "validate_tags tags = Inr ts"
  shows "distinct ts \<and> list_all kind_word ts \<and> validate_tags ts = Inr ts"
proof -
  have ok: "distinct ts \<and> list_all kind_word ts"
    using assms validate_tags_loop_ok [of "[]"] by (simp add: validate_tags_def)
  then show ?thesis using validate_tags_loop_fixed [of "[]" ts] by (simp add: validate_tags_def)
qed

theorem validate_tags_normal_form_witness:
  "validate_tags ['' ML'', ''ml '', '''', ''data-prep''] = Inr [''ml'', ''data-prep''] \<and>
   validate_tags [''ml'', ''data-prep''] = Inr [''ml'', ''data-prep'']"
proof -
  have h: "validate_tags ['' ML'', ''ml '', '''', ''data-prep''] = Inr [''ml'', ''data-prep'']"
    by code_simp
  show ?thesis using h validate_tags_normal_form [OF h] by simp
qed

end
