(* ===== verification/Store_State.thy ===== *)
theory Store_State
  imports Contracts
begin

text \<open>
  The database of \<^verbatim>\<open>src/src/goblin_king/store_schema.py\<close> and the row mappings of
  \<^verbatim>\<open>src/src/goblin_king/store_rows.py\<close>. The state \<open>db\<close> has one field per table. A row has the
  type of the contract record it stores: its timestamp columns are naive, its JSON text
  columns hold the encoded value. \<open>..._to_row\<close> is the dictionary of column values an INSERT
  writes, \<open>row_to_...\<close> the conversion of a selected row. Every table is an interpretation of
  \<open>stored_record\<close>, whose normal form says what a round trip through the database changes.
\<close>

section \<open>Rows without a contract record\<close>

record artifact_row =
  ar_id :: int
  ar_run_id :: string
  ar_name :: string
  ar_uri :: string
  ar_media_type :: "string option"

record handoff_row =
  hr_id :: int
  hr_run_id :: string
  hr_kind :: string
  hr_payload :: json

record causal_sequence_row =
  cs_scope :: string
  cs_value :: int

record event_stream_delivery_row =
  sd_target :: string
  sd_delivered_sequence :: int
  sd_stream_id_offset :: "int option"

section \<open>The database\<close>

record db =
  causal_sequences_table :: "causal_sequence_row table"
  event_stream_deliveries_table :: "event_stream_delivery_row table"
  jobs_table :: "job_record table"
  fanouts_table :: "fanout_record table"
  schedules_table :: "schedule_record table"
  runs_table :: "run_record table"
  artifacts_table :: "artifact_row table"
  handoffs_table :: "handoff_row table"
  events_table :: "event_record table"
  users_table :: "user_record table"
  teams_table :: "team_record table"
  projects_table :: "project_record table"
  memberships_table :: "membership_record table"
  api_tokens_table :: "api_token_record table"
  audit_logs_table :: "audit_log_record table"
  rate_limits_table :: "rate_limit_record table"
  heartbeats_table :: "heartbeat_record table"
  long_services_table :: "long_service_record table"
  notebook_goblins_table :: "notebook_goblin_record table"
  notebook_services_table :: "notebook_service_record table"
  repository_entries_table :: "repository_entry_record table"
  repository_versions_table :: "repository_version_record table"
  image_promotions_table :: "image_promotion_record table"
  deployment_records_table :: "deployment_record table"
  worker_validations_table :: "worker_validation_record table"

text \<open>The database a first start leaves: empty tables and the events counter at zero.\<close>

definition empty_db :: db where
  "empty_db =
     \<lparr>causal_sequences_table = [\<lparr>cs_scope = ''events'', cs_value = 0\<rparr>],
      event_stream_deliveries_table = [], jobs_table = [], fanouts_table = [],
      schedules_table = [], runs_table = [], artifacts_table = [], handoffs_table = [],
      events_table = [], users_table = [], teams_table = [], projects_table = [],
      memberships_table = [], api_tokens_table = [], audit_logs_table = [],
      rate_limits_table = [], heartbeats_table = [], long_services_table = [],
      notebook_goblins_table = [], notebook_services_table = [],
      repository_entries_table = [], repository_versions_table = [],
      image_promotions_table = [], deployment_records_table = [],
      worker_validations_table = []\<rparr>"

section \<open>Row mappings\<close>

abbreviation db_opt :: "datetime option \<Rightarrow> datetime option" where
  "db_opt \<equiv> map_option db_datetime"

abbreviation coerce_opt :: "datetime option \<Rightarrow> datetime option" where
  "coerce_opt \<equiv> map_option coerce_datetime"

definition or_default :: "string \<Rightarrow> string \<Rightarrow> string" where
  "or_default d s = (if s = '''' then d else s)"

definition job_to_row :: "job_record \<Rightarrow> job_record" where
  "job_to_row j = j\<lparr>j_created_at := db_datetime (j_created_at j), j_due_at := db_opt (j_due_at j),
     j_leased_until := db_opt (j_leased_until j)\<rparr>"

text \<open>\<^verbatim>\<open>payload.get("priority") or 100\<close>: a priority of zero is read as 100.\<close>

definition row_to_job :: "job_record \<Rightarrow> job_record" where
  "row_to_job r = r\<lparr>j_created_at := coerce_datetime (j_created_at r),
     j_priority := (if j_priority r = 0 then 100 else j_priority r),
     j_due_at := coerce_opt (j_due_at r), j_leased_until := coerce_opt (j_leased_until r)\<rparr>"

text \<open>\<^verbatim>\<open>_run_values\<close> of \<^verbatim>\<open>store_run_lifecycle.py\<close>: an empty resource policy is stored as NULL.\<close>

definition run_to_row :: "run_record \<Rightarrow> run_record" where
  "run_to_row r = r\<lparr>r_started_at := db_datetime (r_started_at r),
     r_finished_at := db_opt (r_finished_at r), r_leased_until := db_opt (r_leased_until r),
     r_resource_policy :=
       (case r_resource_policy r of None \<Rightarrow> None
        | Some p \<Rightarrow> if json_truthy p then Some p else None)\<rparr>"

definition row_to_run :: "run_record \<Rightarrow> run_record result" where
  "row_to_run r = new_run_record (r\<lparr>r_started_at := coerce_datetime (r_started_at r),
     r_finished_at := coerce_opt (r_finished_at r),
     r_leased_until := coerce_opt (r_leased_until r)\<rparr>)"

definition fanout_to_row :: "fanout_record \<Rightarrow> fanout_record" where
  "fanout_to_row f = f\<lparr>f_created_at := db_datetime (f_created_at f)\<rparr>"

definition row_to_fanout :: "fanout_record \<Rightarrow> fanout_record" where
  "row_to_fanout r = r\<lparr>f_created_at := coerce_datetime (f_created_at r)\<rparr>"

definition schedule_to_row :: "schedule_record \<Rightarrow> schedule_record" where
  "schedule_to_row s = s\<lparr>sc_created_at := db_datetime (sc_created_at s),
     sc_next_run_at := db_datetime (sc_next_run_at s),
     sc_last_materialized_at := db_opt (sc_last_materialized_at s)\<rparr>"

definition row_to_schedule :: "schedule_record \<Rightarrow> schedule_record" where
  "row_to_schedule r = r\<lparr>sc_created_at := coerce_datetime (sc_created_at r),
     sc_next_run_at := coerce_datetime (sc_next_run_at r),
     sc_last_materialized_at := coerce_opt (sc_last_materialized_at r)\<rparr>"

definition event_to_row :: "event_record \<Rightarrow> event_record" where
  "event_to_row e = e\<lparr>e_created_at := db_datetime (e_created_at e)\<rparr>"

definition row_to_event :: "event_record \<Rightarrow> event_record" where
  "row_to_event r = r\<lparr>e_created_at := coerce_datetime (e_created_at r)\<rparr>"

definition user_to_row :: "user_record \<Rightarrow> user_record" where
  "user_to_row u = u\<lparr>u_created_at := db_datetime (u_created_at u)\<rparr>"

definition row_to_user :: "user_record \<Rightarrow> user_record" where
  "row_to_user r = r\<lparr>u_created_at := coerce_datetime (u_created_at r)\<rparr>"

definition project_to_row :: "project_record \<Rightarrow> project_record" where
  "project_to_row p = p\<lparr>p_created_at := db_datetime (p_created_at p)\<rparr>"

definition row_to_project :: "project_record \<Rightarrow> project_record" where
  "row_to_project r = r\<lparr>p_created_at := coerce_datetime (p_created_at r)\<rparr>"

definition api_token_to_row :: "api_token_record \<Rightarrow> api_token_record" where
  "api_token_to_row t = t\<lparr>tk_created_at := db_datetime (tk_created_at t),
     tk_revoked_at := db_opt (tk_revoked_at t)\<rparr>"

definition row_to_api_token :: "api_token_record \<Rightarrow> api_token_record" where
  "row_to_api_token r = r\<lparr>tk_created_at := coerce_datetime (tk_created_at r),
     tk_revoked_at := coerce_opt (tk_revoked_at r)\<rparr>"

definition audit_log_to_row :: "audit_log_record \<Rightarrow> audit_log_record" where
  "audit_log_to_row a = a\<lparr>al_created_at := db_datetime (al_created_at a)\<rparr>"

definition row_to_audit_log :: "audit_log_record \<Rightarrow> audit_log_record" where
  "row_to_audit_log r = r\<lparr>al_created_at := coerce_datetime (al_created_at r)\<rparr>"

definition heartbeat_to_row :: "heartbeat_record \<Rightarrow> heartbeat_record" where
  "heartbeat_to_row h = h\<lparr>hb_last_seen_at := db_datetime (hb_last_seen_at h)\<rparr>"

definition row_to_heartbeat :: "heartbeat_record \<Rightarrow> heartbeat_record" where
  "row_to_heartbeat r = r\<lparr>hb_last_seen_at := coerce_datetime (hb_last_seen_at r)\<rparr>"

definition long_service_to_row :: "long_service_record \<Rightarrow> long_service_record" where
  "long_service_to_row s = s\<lparr>ls_created_at := db_datetime (ls_created_at s),
     ls_last_probe_at := db_opt (ls_last_probe_at s)\<rparr>"

definition row_to_long_service :: "long_service_record \<Rightarrow> long_service_record" where
  "row_to_long_service r = r\<lparr>ls_probe_path := or_default ''/hello'' (ls_probe_path r),
     ls_created_at := coerce_datetime (ls_created_at r),
     ls_last_probe_at := coerce_opt (ls_last_probe_at r)\<rparr>"

definition notebook_goblin_to_row :: "notebook_goblin_record \<Rightarrow> notebook_goblin_record" where
  "notebook_goblin_to_row n = n\<lparr>ng_created_at := db_datetime (ng_created_at n),
     ng_updated_at := db_datetime (ng_updated_at n)\<rparr>"

definition row_to_notebook_goblin :: "notebook_goblin_record \<Rightarrow> notebook_goblin_record" where
  "row_to_notebook_goblin r = r\<lparr>ng_created_at := coerce_datetime (ng_created_at r),
     ng_updated_at := coerce_datetime (ng_updated_at r)\<rparr>"

definition notebook_service_to_row :: "notebook_service_record \<Rightarrow> notebook_service_record" where
  "notebook_service_to_row n = n\<lparr>ns_created_at := db_datetime (ns_created_at n),
     ns_updated_at := db_datetime (ns_updated_at n)\<rparr>"

definition row_to_notebook_service :: "notebook_service_record \<Rightarrow> notebook_service_record" where
  "row_to_notebook_service r = r\<lparr>ns_port := (if ns_port r = 0 then 8080 else ns_port r),
     ns_probe_path := validate_probe_path (or_default ''/hello'' (ns_probe_path r)),
     ns_created_at := coerce_datetime (ns_created_at r),
     ns_updated_at := coerce_datetime (ns_updated_at r),
     ns_runtime_status := or_default ''declared'' (ns_runtime_status r)\<rparr>"

text \<open>\<^verbatim>\<open>_repository_entry_values\<close> and \<^verbatim>\<open>_repository_version_values\<close> of \<^verbatim>\<open>store.py\<close>.\<close>

definition repository_entry_to_row :: "repository_entry_record \<Rightarrow> repository_entry_record" where
  "repository_entry_to_row e = e\<lparr>re_created_at := db_datetime (re_created_at e),
     re_updated_at := db_datetime (re_updated_at e)\<rparr>"

definition row_to_repository_entry :: "repository_entry_record \<Rightarrow> repository_entry_record" where
  "row_to_repository_entry r = r\<lparr>re_created_at := coerce_datetime (re_created_at r),
     re_updated_at := coerce_datetime (re_updated_at r)\<rparr>"

definition repository_version_to_row :: "repository_version_record \<Rightarrow> repository_version_record" where
  "repository_version_to_row v = v\<lparr>rv_approved_at := db_opt (rv_approved_at v),
     rv_published_at := db_opt (rv_published_at v),
     rv_created_at := db_datetime (rv_created_at v), rv_updated_at := db_datetime (rv_updated_at v)\<rparr>"

definition dash_underscores :: "string \<Rightarrow> string" where
  "dash_underscores s = map (\<lambda>c. if c = CHR ''_'' then CHR ''-'' else c) s"

definition row_to_repository_version :: "repository_version_record \<Rightarrow> repository_version_record" where
  "row_to_repository_version r = r\<lparr>
     rv_kind := (if rv_kind r = ''''
                 then dash_underscores (''repository.'' @ rv_entry_id r @ ''.v'' @ str_int (rv_version r))
                 else rv_kind r),
     rv_approved_at := coerce_opt (rv_approved_at r),
     rv_published_at := coerce_opt (rv_published_at r),
     rv_created_at := coerce_datetime (rv_created_at r),
     rv_updated_at := coerce_datetime (rv_updated_at r)\<rparr>"

definition image_promotion_to_row :: "image_promotion_record \<Rightarrow> image_promotion_record" where
  "image_promotion_to_row p = p\<lparr>ip_created_at := db_datetime (ip_created_at p),
     ip_updated_at := db_datetime (ip_updated_at p)\<rparr>"

definition row_to_image_promotion :: "image_promotion_record \<Rightarrow> image_promotion_record" where
  "row_to_image_promotion r = r\<lparr>ip_created_at := coerce_datetime (ip_created_at r),
     ip_updated_at := coerce_datetime (ip_updated_at r)\<rparr>"

definition deployment_to_row :: "deployment_record \<Rightarrow> deployment_record" where
  "deployment_to_row d = d\<lparr>dr_created_at := db_datetime (dr_created_at d),
     dr_updated_at := db_datetime (dr_updated_at d)\<rparr>"

definition row_to_deployment_record :: "deployment_record \<Rightarrow> deployment_record" where
  "row_to_deployment_record r = r\<lparr>dr_created_at := coerce_datetime (dr_created_at r),
     dr_updated_at := coerce_datetime (dr_updated_at r)\<rparr>"

definition worker_validation_to_row :: "worker_validation_record \<Rightarrow> worker_validation_record" where
  "worker_validation_to_row v = v\<lparr>wv_validated_at := db_datetime (wv_validated_at v)\<rparr>"

definition row_to_worker_validation :: "worker_validation_record \<Rightarrow> worker_validation_record" where
  "row_to_worker_validation r = r\<lparr>wv_validated_at := coerce_datetime (wv_validated_at r)\<rparr>"

definition membership_to_row :: "membership_record \<Rightarrow> membership_record" where
  "membership_to_row m = m\<lparr>m_created_at := db_datetime (m_created_at m)\<rparr>"

definition team_to_row :: "team_record \<Rightarrow> team_record" where
  "team_to_row t = t\<lparr>t_created_at := db_datetime (t_created_at t)\<rparr>"

definition rate_limit_to_row :: "rate_limit_record \<Rightarrow> rate_limit_record" where
  "rate_limit_to_row r = r\<lparr>rl_window_started_at := db_datetime (rl_window_started_at r)\<rparr>"

section \<open>Primary keys\<close>

text \<open>What the primary keys and unique constraints of the schema guarantee of every database state.\<close>

definition keys_ok :: "db \<Rightarrow> bool" where
  "keys_ok d \<longleftrightarrow>
     distinct_key j_id (jobs_table d) \<and> distinct_key f_id (fanouts_table d) \<and>
     distinct_key sc_id (schedules_table d) \<and> distinct_key r_id (runs_table d) \<and>
     distinct_key ar_id (artifacts_table d) \<and> distinct_key hr_id (handoffs_table d) \<and>
     distinct_key e_id (events_table d) \<and> distinct_key e_sequence (events_table d) \<and>
     distinct_key u_id (users_table d) \<and> distinct_key t_id (teams_table d) \<and>
     distinct_key p_id (projects_table d) \<and> distinct_key m_id (memberships_table d) \<and>
     distinct_key tk_id (api_tokens_table d) \<and> distinct_key al_id (audit_logs_table d) \<and>
     distinct_key rl_key (rate_limits_table d) \<and> distinct_key hb_owner_id (heartbeats_table d) \<and>
     distinct_key ls_id (long_services_table d) \<and>
     distinct_key ng_kind (notebook_goblins_table d) \<and>
     distinct_key ns_kind (notebook_services_table d) \<and>
     distinct_key re_id (repository_entries_table d) \<and>
     distinct_key rv_id (repository_versions_table d) \<and>
     distinct_key (\<lambda>v. (rv_entry_id v, rv_version v)) (repository_versions_table d) \<and>
     distinct_key ip_id (image_promotions_table d) \<and>
     distinct_key dr_id (deployment_records_table d) \<and>
     distinct_key wv_id (worker_validations_table d) \<and>
     distinct_key cs_scope (causal_sequences_table d)"

section \<open>Round trips\<close>

text \<open>What saving and loading does to a record: \<open>at_utc\<close> is the fate of a timestamp.\<close>

definition at_utc :: "datetime \<Rightarrow> datetime" where
  "at_utc v = utc (dt_wall v)"

lemma at_utc_id [simp]: "is_utc v \<Longrightarrow> at_utc v = v"
  by (simp add: at_utc_def utc_dt_wall)

lemma coerce_opt_db_opt [row_simps]: "coerce_opt (db_opt v) = map_option at_utc v"
  by (cases v) (simp_all add: at_utc_def)

definition job_norm :: "job_record \<Rightarrow> job_record" where
  "job_norm j = j\<lparr>j_created_at := at_utc (j_created_at j),
     j_priority := (if j_priority j = 0 then 100 else j_priority j),
     j_due_at := map_option at_utc (j_due_at j),
     j_leased_until := map_option at_utc (j_leased_until j)\<rparr>"

interpretation job_rows: stored_record "''jobs.id''" j_id j_id job_to_row row_to_job job_norm
  by unfold_locales
    (simp_all add: job_to_row_def row_to_job_def job_norm_def row_simps at_utc_def)

definition run_norm :: "run_record \<Rightarrow> run_record result" where
  "run_norm r = new_run_record (r\<lparr>r_started_at := at_utc (r_started_at r),
     r_finished_at := map_option at_utc (r_finished_at r),
     r_leased_until := map_option at_utc (r_leased_until r),
     r_resource_policy := (case r_resource_policy r of None \<Rightarrow> None
        | Some p \<Rightarrow> if json_truthy p then Some p else None)\<rparr>)"

interpretation run_rows: stored_record "''runs.id''" r_id r_id run_to_row row_to_run run_norm
proof unfold_locales
  fix a :: run_record
  show "r_id (run_to_row a) = r_id a" by (simp add: run_to_row_def)
  show "row_to_run (run_to_row a) = run_norm a"
    unfolding row_to_run_def run_norm_def run_to_row_def
    by (rule arg_cong [where f = new_run_record]) (simp add: row_simps at_utc_def)
qed

interpretation fanout_rows: stored_record "''fanouts.id''" f_id f_id fanout_to_row row_to_fanout
  "\<lambda>f. f\<lparr>f_created_at := at_utc (f_created_at f)\<rparr>"
  by unfold_locales (simp_all add: fanout_to_row_def row_to_fanout_def at_utc_def)

interpretation schedule_rows: stored_record "''schedules.id''" sc_id sc_id schedule_to_row
  row_to_schedule
  "\<lambda>s. s\<lparr>sc_created_at := at_utc (sc_created_at s), sc_next_run_at := at_utc (sc_next_run_at s),
     sc_last_materialized_at := map_option at_utc (sc_last_materialized_at s)\<rparr>"
  by unfold_locales (simp_all add: schedule_to_row_def row_to_schedule_def row_simps at_utc_def)

definition event_norm :: "event_record \<Rightarrow> event_record" where
  "event_norm e = e\<lparr>e_created_at := at_utc (e_created_at e)\<rparr>"

interpretation event_rows: stored_record "''events.id''" e_id e_id event_to_row row_to_event
  event_norm
  by unfold_locales (simp_all add: event_to_row_def row_to_event_def at_utc_def event_norm_def)

interpretation user_rows: stored_record "''users.id''" u_id u_id user_to_row row_to_user
  "\<lambda>u. u\<lparr>u_created_at := at_utc (u_created_at u)\<rparr>"
  by unfold_locales (simp_all add: user_to_row_def row_to_user_def at_utc_def)

interpretation project_rows: stored_record "''projects.id''" p_id p_id project_to_row row_to_project
  "\<lambda>p. p\<lparr>p_created_at := at_utc (p_created_at p)\<rparr>"
  by unfold_locales (simp_all add: project_to_row_def row_to_project_def at_utc_def)

interpretation token_rows: stored_record "''api_tokens.id''" tk_id tk_id api_token_to_row
  row_to_api_token
  "\<lambda>t. t\<lparr>tk_created_at := at_utc (tk_created_at t), tk_revoked_at := map_option at_utc (tk_revoked_at t)\<rparr>"
  by unfold_locales (simp_all add: api_token_to_row_def row_to_api_token_def row_simps at_utc_def)

interpretation audit_rows: stored_record "''audit_logs.id''" al_id al_id audit_log_to_row
  row_to_audit_log "\<lambda>a. a\<lparr>al_created_at := at_utc (al_created_at a)\<rparr>"
  by unfold_locales (simp_all add: audit_log_to_row_def row_to_audit_log_def at_utc_def)

interpretation heartbeat_rows: stored_record "''heartbeats.owner_id''" hb_owner_id hb_owner_id
  heartbeat_to_row row_to_heartbeat "\<lambda>h. h\<lparr>hb_last_seen_at := at_utc (hb_last_seen_at h)\<rparr>"
  by unfold_locales (simp_all add: heartbeat_to_row_def row_to_heartbeat_def at_utc_def)

interpretation long_service_rows: stored_record "''long_services.id''" ls_id ls_id
  long_service_to_row row_to_long_service
  "\<lambda>s. s\<lparr>ls_probe_path := or_default ''/hello'' (ls_probe_path s),
     ls_created_at := at_utc (ls_created_at s),
     ls_last_probe_at := map_option at_utc (ls_last_probe_at s)\<rparr>"
  by unfold_locales
    (simp_all add: long_service_to_row_def row_to_long_service_def row_simps at_utc_def)

interpretation notebook_goblin_rows: stored_record "''notebook_goblins.kind''" ng_kind ng_kind
  notebook_goblin_to_row row_to_notebook_goblin
  "\<lambda>n. n\<lparr>ng_created_at := at_utc (ng_created_at n), ng_updated_at := at_utc (ng_updated_at n)\<rparr>"
  by unfold_locales
    (simp_all add: notebook_goblin_to_row_def row_to_notebook_goblin_def at_utc_def)

interpretation notebook_service_rows: stored_record "''notebook_services.kind''" ns_kind ns_kind
  notebook_service_to_row row_to_notebook_service
  "\<lambda>n. n\<lparr>ns_port := (if ns_port n = 0 then 8080 else ns_port n),
     ns_probe_path := validate_probe_path (or_default ''/hello'' (ns_probe_path n)),
     ns_created_at := at_utc (ns_created_at n), ns_updated_at := at_utc (ns_updated_at n),
     ns_runtime_status := or_default ''declared'' (ns_runtime_status n)\<rparr>"
  by unfold_locales
    (simp_all add: notebook_service_to_row_def row_to_notebook_service_def at_utc_def)

definition entry_norm :: "repository_entry_record \<Rightarrow> repository_entry_record" where
  "entry_norm e = e\<lparr>re_created_at := at_utc (re_created_at e), re_updated_at := at_utc (re_updated_at e)\<rparr>"

interpretation entry_rows: stored_record "''repository_entries.id''" re_id re_id
  repository_entry_to_row row_to_repository_entry entry_norm
  by unfold_locales
    (simp_all add: repository_entry_to_row_def row_to_repository_entry_def at_utc_def entry_norm_def)

definition version_norm :: "repository_version_record \<Rightarrow> repository_version_record" where
  "version_norm v = v\<lparr>
     rv_kind := (if rv_kind v = ''''
                 then dash_underscores (''repository.'' @ rv_entry_id v @ ''.v'' @ str_int (rv_version v))
                 else rv_kind v),
     rv_approved_at := map_option at_utc (rv_approved_at v),
     rv_published_at := map_option at_utc (rv_published_at v),
     rv_created_at := at_utc (rv_created_at v), rv_updated_at := at_utc (rv_updated_at v)\<rparr>"

interpretation version_rows: stored_record "''repository_versions.id''" rv_id rv_id
  repository_version_to_row row_to_repository_version version_norm
  by unfold_locales
    (simp_all add: repository_version_to_row_def row_to_repository_version_def row_simps at_utc_def
      version_norm_def)

interpretation promotion_rows: stored_record "''image_promotions.id''" ip_id ip_id
  image_promotion_to_row row_to_image_promotion
  "\<lambda>p. p\<lparr>ip_created_at := at_utc (ip_created_at p), ip_updated_at := at_utc (ip_updated_at p)\<rparr>"
  by unfold_locales
    (simp_all add: image_promotion_to_row_def row_to_image_promotion_def at_utc_def)

interpretation deployment_rows: stored_record "''deployment_records.id''" dr_id dr_id
  deployment_to_row row_to_deployment_record
  "\<lambda>d. d\<lparr>dr_created_at := at_utc (dr_created_at d), dr_updated_at := at_utc (dr_updated_at d)\<rparr>"
  by unfold_locales (simp_all add: deployment_to_row_def row_to_deployment_record_def at_utc_def)

interpretation validation_rows: stored_record "''worker_validations.id''" wv_id wv_id
  worker_validation_to_row row_to_worker_validation
  "\<lambda>v. v\<lparr>wv_validated_at := at_utc (wv_validated_at v)\<rparr>"
  by unfold_locales
    (simp_all add: worker_validation_to_row_def row_to_worker_validation_def at_utc_def)

lemma keys_ok_empty: "keys_ok empty_db"
  by (simp add: keys_ok_def empty_db_def distinct_key_def)

end
