(* ===== verification/Store_Jobs.thy ===== *)
theory Store_Jobs
  imports Store_State
begin

text \<open>
  The job operations of \<^verbatim>\<open>SQLiteStore\<close> (\<^verbatim>\<open>src/src/goblin_king/store.py\<close>): saving and reading jobs,
  leasing due jobs, renewing, starting, finishing, requeueing and cancelling them, and the
  active-job counts. \<open>job_step\<close> is the protocol they implement: one rule per statement that
  writes the jobs table, in any order and by any number of schedulers and API callers.
\<close>

section \<open>Operations\<close>

definition save_job :: "job_record \<Rightarrow> (db, unit) op" where
  "save_job job d =
     insert_into jobs_table_update
       (insert_row ''jobs.id'' j_id (job_to_row job) (jobs_table d)) d"

definition get_job :: "db \<Rightarrow> string \<Rightarrow> job_record option" where
  "get_job d job_id = map_option row_to_job (by_key j_id job_id (jobs_table d))"

definition list_jobs :: "db \<Rightarrow> job_record list" where
  "list_jobs d = map row_to_job (order_by (\<lambda>r. dt_wall (j_created_at r)) (jobs_table d))"

definition list_jobs_page ::
  "db \<Rightarrow> string option \<Rightarrow> job_status option \<Rightarrow> int \<Rightarrow> int \<Rightarrow> job_record list" where
  "list_jobs_page d project_id status limit offset =
     map row_to_job (page limit offset (order_by (\<lambda>r. - dt_wall (j_created_at r))
       (select_where (\<lambda>r. (case project_id of None \<Rightarrow> True | Some p \<Rightarrow> j_project_id r = Some p) \<and>
                          opt_eq status (j_status r)) (jobs_table d))))"

definition list_fanout_jobs :: "db \<Rightarrow> string \<Rightarrow> job_record list" where
  "list_fanout_jobs d fanout_id =
     map row_to_job (order_by (\<lambda>r. dt_wall (j_created_at r))
       (select_where (\<lambda>r. j_fanout_id r = Some fanout_id) (jobs_table d)))"

text \<open>The two WHERE clauses of the claim.\<close>

definition claimable_status :: "datetime \<Rightarrow> job_record \<Rightarrow> bool" where
  "claimable_status now r =
     (j_status r \<in> {Queued, Retrying} \<or>
      (j_status r \<in> {Leased, Running} \<and>
       (case j_leased_until r of None \<Rightarrow> False | Some u \<Rightarrow> dt_wall u \<le> dt_wall now)))"

definition due :: "datetime \<Rightarrow> job_record \<Rightarrow> bool" where
  "due now r = (case j_due_at r of None \<Rightarrow> True | Some t \<Rightarrow> dt_wall t \<le> dt_wall now)"

definition claim_candidates :: "datetime \<Rightarrow> int \<Rightarrow> job_record table \<Rightarrow> job_record list" where
  "claim_candidates now limit t =
     sql_limit limit (order_by (\<lambda>r. (- j_priority r, dt_wall (j_created_at r)))
       (select_where (\<lambda>r. claimable_status now r \<and> due now r) t))"

definition lease_row :: "string \<Rightarrow> datetime \<Rightarrow> job_record \<Rightarrow> job_record" where
  "lease_row worker_id lease_until r =
     r\<lparr>j_status := Leased, j_lease_owner := Some worker_id, j_leased_until := Some lease_until\<rparr>"

text \<open>The loop over the selected rows: a guarded UPDATE each, and the job if it changed one row.\<close>

fun claim_rows ::
  "string \<Rightarrow> datetime \<Rightarrow> datetime \<Rightarrow> job_record list \<Rightarrow> job_record table
     \<Rightarrow> job_record list \<times> job_record table" where
  "claim_rows worker_id now lease_until [] t = ([], t)"
| "claim_rows worker_id now lease_until (row # rows) t =
     (let P = (\<lambda>r. j_id r = j_id row \<and> claimable_status now r \<and> due now r);
          t' = update_where P (lease_row worker_id (db_datetime lease_until)) t;
          (claimed, t'') = claim_rows worker_id now lease_until rows t'
      in if rowcount P t \<noteq> 1 then (claimed, t'')
         else (row_to_job (lease_row worker_id lease_until row) # claimed, t''))"

definition claim_due_jobs ::
  "string \<Rightarrow> datetime \<Rightarrow> datetime \<Rightarrow> int \<Rightarrow> (db, job_record list) op" where
  "claim_due_jobs worker_id now lease_until limit d =
     (let (claimed, t) = claim_rows worker_id now lease_until
                           (claim_candidates now limit (jobs_table d)) (jobs_table d)
      in (Inr claimed, d\<lparr>jobs_table := t\<rparr>))"

definition owned_active :: "string \<Rightarrow> string \<Rightarrow> job_record \<Rightarrow> bool" where
  "owned_active job_id expected_lease_owner r =
     (j_id r = job_id \<and> j_status r \<in> {Leased, Running} \<and>
      j_lease_owner r = Some expected_lease_owner)"

definition extend_lease :: "datetime \<Rightarrow> job_record \<Rightarrow> job_record" where
  "extend_lease lease_until r = r\<lparr>j_leased_until :=
     (case j_leased_until r of
        None \<Rightarrow> Some lease_until
      | Some u \<Rightarrow> if dt_wall u < dt_wall lease_until then Some lease_until else Some u)\<rparr>"

definition try_renew_job_lease :: "string \<Rightarrow> string \<Rightarrow> datetime \<Rightarrow> (db, bool) op" where
  "try_renew_job_lease job_id expected_lease_owner lease_until d =
     (let P = owned_active job_id expected_lease_owner
      in (Inr (rowcount P (jobs_table d) = 1),
          d\<lparr>jobs_table := update_where P (extend_lease (db_datetime lease_until)) (jobs_table d)\<rparr>))"

definition mark_job_running :: "string \<Rightarrow> int \<Rightarrow> (db, unit) op" where
  "mark_job_running job_id attempt_count d =
     (Inr (), d\<lparr>jobs_table := update_where (\<lambda>r. j_id r = job_id)
        (\<lambda>r. r\<lparr>j_status := Running, j_attempt_count := attempt_count\<rparr>) (jobs_table d)\<rparr>)"

definition leased_by :: "string \<Rightarrow> string \<Rightarrow> job_record \<Rightarrow> bool" where
  "leased_by job_id expected_lease_owner r =
     (j_id r = job_id \<and> j_status r = Leased \<and> j_lease_owner r = Some expected_lease_owner)"

definition try_mark_job_running :: "string \<Rightarrow> int \<Rightarrow> string \<Rightarrow> (db, bool) op" where
  "try_mark_job_running job_id attempt_count expected_lease_owner d =
     (let P = leased_by job_id expected_lease_owner
      in (Inr (rowcount P (jobs_table d) = 1),
          d\<lparr>jobs_table := update_where P
             (\<lambda>r. r\<lparr>j_status := Running, j_attempt_count := attempt_count\<rparr>) (jobs_table d)\<rparr>))"

definition count_active_jobs :: "db \<Rightarrow> string \<Rightarrow> string option \<Rightarrow> nat" where
  "count_active_jobs d kind exclude_job_id =
     rowcount (\<lambda>r. j_kind r = kind \<and> j_status r \<in> {Leased, Running} \<and>
                   (case exclude_job_id of None \<Rightarrow> True | Some x \<Rightarrow> j_id r \<noteq> x)) (jobs_table d)"

definition count_active_project_jobs :: "db \<Rightarrow> string option \<Rightarrow> string option \<Rightarrow> nat" where
  "count_active_project_jobs d project_id exclude_job_id =
     rowcount (\<lambda>r. j_status r \<in> {Leased, Running} \<and> j_project_id r = project_id \<and>
                   (case exclude_job_id of None \<Rightarrow> True | Some x \<Rightarrow> j_id r \<noteq> x)) (jobs_table d)"

text \<open>The column values that release a job: \<^verbatim>\<open>finish_job\<close> and \<^verbatim>\<open>finalize_attempt\<close> write the same ones.\<close>

definition release_row ::
  "job_status \<Rightarrow> string option \<Rightarrow> datetime option \<Rightarrow> job_record \<Rightarrow> job_record" where
  "release_row status last_error due_at r =
     r\<lparr>j_status := status, j_last_error := last_error, j_lease_owner := None,
       j_leased_until := None,
       j_due_at := (case due_at of None \<Rightarrow> j_due_at r | Some t \<Rightarrow> Some (db_datetime t))\<rparr>"

definition finish_job ::
  "string \<Rightarrow> job_status \<Rightarrow> string option \<Rightarrow> datetime option \<Rightarrow> (db, unit) op" where
  "finish_job job_id status last_error due_at d =
     (Inr (), d\<lparr>jobs_table := update_where (\<lambda>r. j_id r = job_id)
        (release_row status last_error due_at) (jobs_table d)\<rparr>)"

definition TERMINAL_JOB_STATUSES :: "job_status set" where
  "TERMINAL_JOB_STATUSES = {Completed, Failed, TimedOut, Cancelled}"

definition cancellable :: "string \<Rightarrow> job_record \<Rightarrow> bool" where
  "cancellable job_id r = (j_id r = job_id \<and> j_status r \<notin> TERMINAL_JOB_STATUSES)"

definition try_cancel_job :: "string \<Rightarrow> (db, job_record option \<times> bool) op" where
  "try_cancel_job job_id d =
     (let d' = d\<lparr>jobs_table := update_where (cancellable job_id)
                  (\<lambda>r. r\<lparr>j_status := Cancelled, j_lease_owner := None, j_leased_until := None,
                         j_last_error := Some ''cancelled by API''\<rparr>) (jobs_table d)\<rparr>
      in (Inr (get_job d' job_id, rowcount (cancellable job_id) (jobs_table d) = 1), d'))"

definition cancel_job :: "string \<Rightarrow> (db, job_record option) op" where
  "cancel_job job_id = bind (try_cancel_job job_id) (\<lambda>(job, _). return job)"

text \<open>A database with two queued jobs, for concrete instances.\<close>

definition sample_job :: "string \<Rightarrow> int \<Rightarrow> int \<Rightarrow> job_record" where
  "sample_job jid priority created =
     \<lparr>j_id = jid, j_kind = ''example.echo'', j_input = JObj [], j_created_at = utc created,
      j_created_by = ''cli'', j_correlation_id = None, j_project_id = None, j_fanout_id = None,
      j_metadata = JObj [], j_status = Queued, j_priority = priority, j_schedule_id = None,
      j_due_at = None, j_lease_owner = None, j_leased_until = None, j_attempt_count = 0,
      j_max_retries = 1, j_timeout_seconds = None, j_last_error = None\<rparr>"

definition two_jobs_db :: db where
  "two_jobs_db =
     empty_db\<lparr>jobs_table := [job_to_row (sample_job ''a'' 100 1), job_to_row (sample_job ''b'' 200 2)]\<rparr>"

section \<open>Facts about single statements\<close>

lemma lease_row_id [simp]: "j_id (lease_row w u r) = j_id r"
  by (simp add: lease_row_def)

lemma extend_lease_id [simp]: "j_id (extend_lease u r) = j_id r"
  by (simp add: extend_lease_def)

lemma release_row_id [simp]: "j_id (release_row s e t r) = j_id r"
  by (simp add: release_row_def)

lemma row_to_job_id [simp]: "j_id (row_to_job r) = j_id r"
  by (simp add: row_to_job_def)

lemma job_to_row_id [simp]: "j_id (job_to_row r) = j_id r"
  by (simp add: job_to_row_def)

lemma in_update_where:
  "r' \<in> set (update_where P f t) \<longleftrightarrow> (\<exists>r\<in>set t. r' = (if P r then f r else r))"
  by (auto simp: update_where_def)

lemma update_where_none: "(\<And>r. r \<in> set t \<Longrightarrow> \<not> P r) \<Longrightarrow> update_where P f t = t"
  by (simp add: update_where_def map_idI)

lemma update_where_two:
  assumes "\<And>r. r \<in> set t \<Longrightarrow> P r \<Longrightarrow> \<not> Q (f r)"
  shows "update_where Q f (update_where P f t) = update_where (\<lambda>r. P r \<or> Q r) f t"
  using assms by (auto simp: update_where_def)

lemma update_where_cong:
  "(\<And>r. r \<in> set t \<Longrightarrow> P r = Q r) \<Longrightarrow> update_where P f t = update_where Q f t"
  by (auto simp: update_where_def)

text \<open>A saved job is read back as its normal form; other jobs are untouched.\<close>

lemma save_job_get:
  assumes "save_job j d = (Inr (), d')"
  shows "get_job d' (j_id j) = Some (job_norm j)"
    and "k \<noteq> j_id j \<Longrightarrow> get_job d' k = get_job d k"
    and "d' = d\<lparr>jobs_table := jobs_table d @ [job_to_row j]\<rparr>"
proof -
  obtain t where ins: "insert_row ''jobs.id'' j_id (job_to_row j) (jobs_table d) = Inr t"
    and d': "d' = d\<lparr>jobs_table := t\<rparr>"
    using assms by (auto simp: save_job_def insert_into_cases)
  show "get_job d' (j_id j) = Some (job_norm j)"
    using job_rows.save_then_get [OF ins] by (simp add: get_job_def d')
  show "get_job d' k = get_job d k" if "k \<noteq> j_id j"
    using job_rows.save_frame [OF ins that] by (simp add: get_job_def d')
  show "d' = d\<lparr>jobs_table := jobs_table d @ [job_to_row j]\<rparr>"
    using ins d' by (simp add: insert_row_Inr_iff)
qed

section \<open>Facts about the claim\<close>

definition claim_rank :: "job_record \<Rightarrow> int \<times> int" where
  "claim_rank r = (- j_priority r, dt_wall (j_created_at r))"

definition eligible :: "datetime \<Rightarrow> job_record \<Rightarrow> bool" where
  "eligible now r = (claimable_status now r \<and> due now r)"

lemma claim_candidates_eq:
  "claim_candidates now limit t = sql_limit limit (order_by claim_rank (filter (eligible now) t))"
  unfolding claim_candidates_def select_where_def claim_rank_def [abs_def] eligible_def [abs_def]
  by simp

lemma claim_candidates_sub:
  "r \<in> set (claim_candidates now limit t) \<Longrightarrow> r \<in> set t \<and> eligible now r"
  using set_sql_limit [of limit "order_by claim_rank (filter (eligible now) t)"]
  by (auto simp: claim_candidates_eq)

lemma distinct_map_sort_key: "distinct (map f (sort_key k xs)) = distinct (map f xs)"
  by (rule mset_eq_imp_distinct_iff) simp

lemma claim_candidates_distinct:
  assumes "distinct_key j_id t"
  shows "distinct (map j_id (claim_candidates now limit t))"
proof -
  have "distinct (map j_id (order_by claim_rank (filter (eligible now) t)))"
    using assms by (simp add: order_by_def distinct_map_sort_key distinct_key_def distinct_map_filter)
  then show ?thesis
    by (simp add: claim_candidates_eq sql_limit_def take_map [symmetric] distinct_take)
qed

lemma claim_rows_eq:
  assumes "distinct_key j_id t" and "set rows \<subseteq> set t" and "distinct (map j_id rows)"
    and "\<forall>r\<in>set rows. eligible now r"
  shows "claim_rows w now u rows t =
    (map (\<lambda>r. row_to_job (lease_row w u r)) rows,
     update_where (\<lambda>r. j_id r \<in> j_id ` set rows) (lease_row w (db_datetime u)) t)"
  using assms
proof (induction rows arbitrary: t)
  case Nil
  then show ?case by (simp add: update_where_def)
next
  case (Cons row rows)
  let ?f = "lease_row w (db_datetime u)"
  let ?P = "\<lambda>r. j_id r = j_id row \<and> claimable_status now r \<and> due now r"
  have row: "row \<in> set t" "eligible now row" using Cons.prems by auto
  have same: "r = row" if "r \<in> set t" "j_id r = j_id row" for r
    using distinct_key_inj [OF Cons.prems(1)] that row by blast
  have upd: "update_where ?P ?f t = update_where (\<lambda>r. j_id r = j_id row) ?f t"
    using row same by (intro update_where_cong) (auto simp: eligible_def)
  have cnt: "rowcount ?P t = 1"
    using rowcount_1_iff [OF Cons.prems(1), of "j_id row" "\<lambda>r. claimable_status now r \<and> due now r"]
      by_key_member [OF Cons.prems(1) row(1)] row(2) by (simp add: eligible_def)
  let ?t = "update_where (\<lambda>r. j_id r = j_id row) ?f t"
  have "distinct_key j_id ?t" using Cons.prems(1) by (simp add: distinct_key_update)
  moreover have "set rows \<subseteq> set ?t"
  proof
    fix r assume "r \<in> set rows"
    then have "r \<in> set t" and "j_id r \<noteq> j_id row" using Cons.prems(2,3) by (auto simp: image_iff)
    then show "r \<in> set ?t" by (auto simp: in_update_where intro!: bexI [of _ r])
  qed
  ultimately have "claim_rows w now u rows ?t =
      (map (\<lambda>r. row_to_job (lease_row w u r)) rows,
       update_where (\<lambda>r. j_id r \<in> j_id ` set rows) ?f ?t)"
    using Cons.IH Cons.prems by simp
  moreover have "update_where (\<lambda>r. j_id r \<in> j_id ` set rows) ?f ?t =
      update_where (\<lambda>r. j_id r \<in> j_id ` set (row # rows)) ?f t"
    using Cons.prems(3) by (subst update_where_two) (auto intro: update_where_cong)
  ultimately show ?case using cnt by (simp add: Let_def upd)
qed

lemma claim_due_jobs_eq:
  fixes d :: db and now :: datetime and limit :: int
  assumes "distinct_key j_id (jobs_table d)"
  defines "cs \<equiv> claim_candidates now limit (jobs_table d)"
  shows "claim_due_jobs w now u limit d =
    (Inr (map (\<lambda>r. row_to_job (lease_row w u r)) cs),
     d\<lparr>jobs_table := update_where (\<lambda>r. j_id r \<in> j_id ` set cs) (lease_row w (db_datetime u))
        (jobs_table d)\<rparr>)"
proof -
  have "claim_rows w now u cs (jobs_table d) =
     (map (\<lambda>r. row_to_job (lease_row w u r)) cs,
      update_where (\<lambda>r. j_id r \<in> j_id ` set cs) (lease_row w (db_datetime u)) (jobs_table d))"
    using assms(1) claim_candidates_sub claim_candidates_distinct [OF assms(1)]
    unfolding cs_def by (intro claim_rows_eq) auto
  then show ?thesis by (simp add: claim_due_jobs_def cs_def)
qed

lemma claim_due_jobs_returns: "\<exists>claimed d'. claim_due_jobs w now u limit d = (Inr claimed, d')"
  by (simp add: claim_due_jobs_def split: prod.split)

lemma leased_not_eligible:
  "dt_wall now < dt_wall u \<Longrightarrow> \<not> eligible now (lease_row w (db_datetime u) r)"
  by (simp add: eligible_def claimable_status_def lease_row_def)

lemma take_sorted_le:
  assumes "sorted (map k xs)" and "x \<in> set (take n xs)" and "y \<in> set (drop n xs)"
  shows "k x \<le> k y"
proof -
  have "sorted (map k (take n xs) @ map k (drop n xs))"
    using assms(1) by (simp flip: map_append)
  then show ?thesis using assms(2,3) by (auto simp: sorted_append)
qed

lemma sql_limit_best:
  assumes "y \<in> set rows" and "y \<notin> set (sql_limit n (order_by k rows))"
    and "x \<in> set (sql_limit n (order_by k rows))"
  shows "k x \<le> k y"
proof -
  have n: "\<not> n < 0" using assms(1,2) by (auto simp: sql_limit_def)
  have "y \<in> set (order_by k rows)" using assms(1) by simp
  then have "y \<in> set (take (nat n) (order_by k rows)) \<union> set (drop (nat n) (order_by k rows))"
    by (metis append_take_drop_id set_append)
  then have "y \<in> set (drop (nat n) (order_by k rows))" using assms(2) n by (simp add: sql_limit_def)
  then show ?thesis
    using assms(3) n by (intro take_sorted_le [OF sorted_order_by]) (simp_all add: sql_limit_def)
qed

section \<open>Properties of the claim\<close>

text \<open>
  C7. One claim leases, for the calling scheduler, exactly the eligible jobs (queued or retrying,
  or leased or running with an expired lease, and due) that rank first by priority and then by
  age, never more than the limit: it returns those jobs as leased, writes exactly their rows,
  and every eligible job left out ranks no better than any job taken.
\<close>

theorem claim_takes_best_eligible:
  assumes "distinct_key j_id (jobs_table d)" and "0 \<le> limit"
    and "claim_due_jobs w now u limit d = (Inr claimed, d')"
  shows "\<exists>cs. claimed = map (\<lambda>r. row_to_job (lease_row w u r)) cs \<and>
    set cs \<subseteq> {r \<in> set (jobs_table d). eligible now r} \<and>
    distinct (map j_id cs) \<and> sorted (map claim_rank cs) \<and>
    length cs = min (nat limit) (length (filter (eligible now) (jobs_table d))) \<and>
    (\<forall>r\<in>set (jobs_table d). eligible now r \<longrightarrow> r \<notin> set cs \<longrightarrow>
       (\<forall>c\<in>set cs. claim_rank c \<le> claim_rank r)) \<and>
    d' = d\<lparr>jobs_table := map (\<lambda>r. if r \<in> set cs then lease_row w (db_datetime u) r else r)
             (jobs_table d)\<rparr>"
proof -
  let ?cs = "claim_candidates now limit (jobs_table d)"
  have eq: "claimed = map (\<lambda>r. row_to_job (lease_row w u r)) ?cs"
    and d': "d' = d\<lparr>jobs_table := update_where (\<lambda>r. j_id r \<in> j_id ` set ?cs)
        (lease_row w (db_datetime u)) (jobs_table d)\<rparr>"
    using assms(3) claim_due_jobs_eq [OF assms(1)] by simp_all
  have ids: "j_id r \<in> j_id ` set ?cs \<longleftrightarrow> r \<in> set ?cs" if "r \<in> set (jobs_table d)" for r
    using distinct_key_inj [OF assms(1) that] claim_candidates_sub by blast
  have "sorted (map claim_rank ?cs)"
    by (simp add: claim_candidates_eq sql_limit_def sorted_order_by take_map [symmetric]
        sorted_wrt_take)
  moreover have "length ?cs = min (nat limit) (length (filter (eligible now) (jobs_table d)))"
    using assms(2) by (simp add: claim_candidates_eq sql_limit_def order_by_def)
  moreover have "\<forall>r\<in>set (jobs_table d). eligible now r \<longrightarrow> r \<notin> set ?cs \<longrightarrow>
       (\<forall>c\<in>set ?cs. claim_rank c \<le> claim_rank r)"
    using sql_limit_best [where k = claim_rank and rows = "filter (eligible now) (jobs_table d)"]
    by (simp add: claim_candidates_eq)
  moreover have "d' = d\<lparr>jobs_table := map (\<lambda>r. if r \<in> set ?cs then lease_row w (db_datetime u) r
       else r) (jobs_table d)\<rparr>"
    using ids unfolding d' update_where_def by (auto intro!: arg_cong [where f = "\<lambda>t. d\<lparr>jobs_table := t\<rparr>"])
  moreover have "set ?cs \<subseteq> {r \<in> set (jobs_table d). eligible now r}"
    using claim_candidates_sub by auto
  ultimately show ?thesis
    using eq claim_candidates_distinct [OF assms(1)] by (intro exI [of _ ?cs]) blast
qed

theorem claim_takes_best_eligible_witness:
  "map j_id (projr (fst (claim_due_jobs ''w1'' (utc 10) (utc 70) 1 two_jobs_db))) = [''b''] \<and>
   (\<exists>cs. projr (fst (claim_due_jobs ''w1'' (utc 10) (utc 70) 1 two_jobs_db)) =
            map (\<lambda>r. row_to_job (lease_row ''w1'' (utc 70) r)) cs \<and> length cs = 1)"
proof -
  have k: "distinct_key j_id (jobs_table two_jobs_db)" by code_simp
  have ids: "map j_id (projr (fst (claim_due_jobs ''w1'' (utc 10) (utc 70) 1 two_jobs_db))) = [''b'']"
    by code_simp
  have n: "length (filter (eligible (utc 10)) (jobs_table two_jobs_db)) = 2" by code_simp
  obtain claimed d' where c: "claim_due_jobs ''w1'' (utc 10) (utc 70) 1 two_jobs_db = (Inr claimed, d')"
    using claim_due_jobs_returns by blast
  have "\<exists>cs. claimed = map (\<lambda>r. row_to_job (lease_row ''w1'' (utc 70) r)) cs \<and>
      length cs = min (nat 1) (length (filter (eligible (utc 10)) (jobs_table two_jobs_db)))"
    using claim_takes_best_eligible [OF k _ c] by auto
  then show ?thesis using c ids n by simp
qed

text \<open>
  Two schedulers never hold the same job: as long as the first lease has not run out by the
  second scheduler's clock, its claim returns none of the jobs the first one was given.
\<close>

theorem claims_disjoint_while_leased:
  assumes "distinct_key j_id (jobs_table d)"
    and "claim_due_jobs w now u limit d = (Inr as, d1)"
    and "claim_due_jobs w' now' u' limit' d1 = (Inr bs, d2)"
    and "dt_wall now' < dt_wall u"
  shows "j_id ` set as \<inter> j_id ` set bs = {}"
proof -
  let ?cs = "claim_candidates now limit (jobs_table d)"
  have as: "j_id ` set as = j_id ` set ?cs"
    and d1: "jobs_table d1 = update_where (\<lambda>r. j_id r \<in> j_id ` set ?cs)
        (lease_row w (db_datetime u)) (jobs_table d)"
    using assms(2) claim_due_jobs_eq [OF assms(1)] by (auto simp: image_image)
  have k1: "distinct_key j_id (jobs_table d1)" using assms(1) by (simp add: d1 distinct_key_update)
  have bs: "set (map j_id bs) = set (map j_id (claim_candidates now' limit' (jobs_table d1)))"
    using assms(3) claim_due_jobs_eq [OF k1] by (auto simp: image_image)
  have fresh: "x \<notin> j_id ` set ?cs" if x: "x \<in> j_id ` set bs" for x
  proof -
    have "x \<in> j_id ` set (claim_candidates now' limit' (jobs_table d1))" using x bs by simp
    then obtain r where cand: "r \<in> set (claim_candidates now' limit' (jobs_table d1))"
      and xr: "x = j_id r" by (elim imageE) simp
    have mem: "r \<in> set (jobs_table d1)" and el: "eligible now' r"
      using claim_candidates_sub [OF cand] by simp_all
    obtain r0 where r: "r = (if j_id r0 \<in> j_id ` set ?cs then lease_row w (db_datetime u) r0 else r0)"
      using mem unfolding d1 in_update_where by blast
    have "j_id r0 \<notin> j_id ` set ?cs"
      using el leased_not_eligible [OF assms(4), of w r0] unfolding r by (simp split: if_splits)
    then show ?thesis using xr r by simp
  qed
  show ?thesis unfolding as disjoint_iff using fresh by metis
qed

theorem claims_disjoint_while_leased_witness:
  "\<exists>as d1 bs d2. claim_due_jobs ''w1'' (utc 10) (utc 70) 1 two_jobs_db = (Inr as, d1) \<and>
     claim_due_jobs ''w2'' (utc 20) (utc 80) 5 d1 = (Inr bs, d2) \<and>
     map j_id as = [''b''] \<and> map j_id bs = [''a''] \<and> j_id ` set as \<inter> j_id ` set bs = {}"
proof -
  obtain as d1 where a: "claim_due_jobs ''w1'' (utc 10) (utc 70) 1 two_jobs_db = (Inr as, d1)"
    using claim_due_jobs_returns by blast
  obtain bs d2 where b: "claim_due_jobs ''w2'' (utc 20) (utc 80) 5 d1 = (Inr bs, d2)"
    using claim_due_jobs_returns by blast
  have k: "distinct_key j_id (jobs_table two_jobs_db)" by code_simp
  have ia: "map j_id (projr (fst (claim_due_jobs ''w1'' (utc 10) (utc 70) 1 two_jobs_db))) = [''b'']"
    by code_simp
  have ib: "map j_id (projr (fst (claim_due_jobs ''w2'' (utc 20) (utc 80) 5
      (snd (claim_due_jobs ''w1'' (utc 10) (utc 70) 1 two_jobs_db))))) = [''a'']"
    by code_simp
  have "j_id ` set as \<inter> j_id ` set bs = {}"
    by (rule claims_disjoint_while_leased [OF k a b]) simp
  then show ?thesis using a b ia ib by auto
qed

end
