(* ===== verification/Store_Runs.thy ===== *)
theory Store_Runs
  imports Store_Jobs
begin

text \<open>
  Runs: \<^verbatim>\<open>src/src/goblin_king/store_run_lifecycle.py\<close> and the run, artifact and handoff operations
  of \<^verbatim>\<open>store.py\<close>. \<open>finalize_attempt\<close> is the one statement sequence that ends an attempt: it
  reconciles the attempt with the job row it still owns, then writes the terminal Run, in one
  transaction. The theorems say when an attempt is finalized, what is written, every way it
  raises, and that a terminal Run is never rewritten.
\<close>

section \<open>Data\<close>

datatype attempt_outcome = Finalized | OutcomeCancelled | Stale

record attempt_finalization =
  af_run :: run_record
  af_outcome :: attempt_outcome

definition TERMINAL_RUN_STATUSES :: "run_status set" where
  "TERMINAL_RUN_STATUSES = {RunCompleted, RunFailed, RunTimedOut}"

section \<open>Operations\<close>

definition normalize_persisted_run :: "run_record \<Rightarrow> run_record" where
  "normalize_persisted_run run =
     (if r_status run \<in> TERMINAL_RUN_STATUSES \<and> r_finished_at run = None
      then run\<lparr>r_finished_at := Some (r_started_at run)\<rparr> else run)"

text \<open>The rowid SQLite gives a new row of a table with an integer key.\<close>

definition next_rowid :: "('r \<Rightarrow> int) \<Rightarrow> 'r table \<Rightarrow> int" where
  "next_rowid key t = 1 + fold (\<lambda>r m. max m (key r)) t 0"

definition insert_artifact :: "string \<Rightarrow> artifact_record \<Rightarrow> artifact_row table \<Rightarrow> artifact_row table" where
  "insert_artifact run_id a t =
     t @ [\<lparr>ar_id = next_rowid ar_id t, ar_run_id = run_id, ar_name = art_name a,
           ar_uri = art_uri a, ar_media_type = art_media_type a\<rparr>]"

definition insert_handoff :: "string \<Rightarrow> handoff_record \<Rightarrow> handoff_row table \<Rightarrow> handoff_row table" where
  "insert_handoff run_id h t =
     t @ [\<lparr>hr_id = next_rowid hr_id t, hr_run_id = run_id, hr_kind = ho_kind h,
           hr_payload = ho_payload h\<rparr>]"

definition insert_run_children :: "run_record \<Rightarrow> db \<Rightarrow> db" where
  "insert_run_children run d =
     (case r_result run of
        None \<Rightarrow> d
      | Some res \<Rightarrow>
          d\<lparr>artifacts_table := fold (insert_artifact (r_id run)) (res_artifacts res) (artifacts_table d),
            handoffs_table := fold (insert_handoff (r_id run)) (res_handoff res) (handoffs_table d)\<rparr>)"

definition insert_run :: "run_record \<Rightarrow> (db, unit) op" where
  "insert_run run =
     bind (\<lambda>d. insert_into runs_table_update
                 (insert_row ''runs.id'' r_id (run_to_row run) (runs_table d)) d)
       (\<lambda>_. modify (insert_run_children run))"

definition persist_run :: "run_record \<Rightarrow> (db, run_record) op" where
  "persist_run run =
     (let normalized = normalize_persisted_run run
      in bind (atomically (insert_run normalized)) (\<lambda>_. return normalized))"

definition save_run :: "run_record \<Rightarrow> (db, unit) op" where
  "save_run run = bind (persist_run run) (\<lambda>_. return ())"

definition start_run :: "run_record \<Rightarrow> (db, run_record) op" where
  "start_run run =
     (if r_status run \<noteq> RunRunning
      then throw (Raise ValueError (''a started Run must have status='' @ py_repr ''running''))
      else if r_finished_at run \<noteq> None
      then throw (Raise ValueError ''a started Run cannot have finished_at'')
      else if r_result run \<noteq> None
      then throw (Raise ValueError ''a started Run cannot have a result'')
      else if r_error run \<noteq> None
      then throw (Raise ValueError ''a started Run cannot have an error'')
      else bind (atomically (insert_run run)) (\<lambda>_. return run))"

definition lineage :: "run_record \<Rightarrow> string \<times> string \<times> string option \<times> int" where
  "lineage run = (r_job_id run, r_kind run, r_project_id run, r_attempt run)"

definition finalize_run :: "run_record \<Rightarrow> (db, unit) op" where
  "finalize_run run =
     (if r_status run \<notin> TERMINAL_RUN_STATUSES
      then throw (Raise ValueError (''cannot finalize Run '' @ py_repr (r_id run) @ '' with status '' @
                    py_repr (run_status_text (r_status run))))
      else bind (gets (\<lambda>d. by_key r_id (r_id run) (runs_table d))) (\<lambda>existing.
        case existing of
          None \<Rightarrow> insert_run run
        | Some row \<Rightarrow>
            if r_status row \<noteq> RunRunning
            then throw (Raise ValueError (''cannot finalize Run '' @ py_repr (r_id run) @ '' from status '' @
                          py_repr (run_status_text (r_status row))))
            else if lineage run \<noteq> lineage row
            then throw (Raise ValueError (''cannot change Run '' @ py_repr (r_id run) @ '' lineage while finalizing''))
            else modify (\<lambda>d. insert_run_children run
                   (d\<lparr>runs_table := update_where (\<lambda>r. r_id r = r_id run) (\<lambda>_. run_to_row run)
                                      (runs_table d),
                      artifacts_table := delete_where (\<lambda>a. ar_run_id a = r_id run) (artifacts_table d),
                      handoffs_table := delete_where (\<lambda>h. hr_run_id h = r_id run) (handoffs_table d)\<rparr>))))"

definition owns_attempt :: "string \<Rightarrow> int \<Rightarrow> job_record \<Rightarrow> bool" where
  "owns_attempt expected_lease_owner attempt row =
     (j_lease_owner row = Some expected_lease_owner \<and>
      (j_status row = Running \<and> j_attempt_count row = attempt \<or>
       j_status row = Leased \<and> j_attempt_count row + 1 = attempt))"

definition finalize_attempt ::
  "run_record \<Rightarrow> job_status \<Rightarrow> string option \<Rightarrow> datetime option \<Rightarrow> string
     \<Rightarrow> (db, attempt_finalization) op" where
  "finalize_attempt run job_status last_error due_at expected_lease_owner =
     (let normalized = normalize_persisted_run run
      in atomically (bind (gets (\<lambda>d. by_key j_id (r_job_id run) (jobs_table d))) (\<lambda>found.
           case found of
             None \<Rightarrow> throw (Raise ValueError (''job not found while finalizing attempt: '' @ r_job_id run))
           | Some row \<Rightarrow>
               bind (if owns_attempt expected_lease_owner (r_attempt run) row
                     then bind (modify (\<lambda>d. d\<lparr>jobs_table :=
                            update_where (\<lambda>r. j_id r = r_job_id run)
                              (release_row job_status last_error due_at) (jobs_table d)\<rparr>))
                          (\<lambda>_. return Finalized)
                     else if j_status row = Cancelled then return OutcomeCancelled
                     else return Stale) (\<lambda>outcome.
               bind (finalize_run normalized) (\<lambda>_.
               return \<lparr>af_run = normalized, af_outcome = outcome\<rparr>)))))"

definition finalize_job_attempt ::
  "run_record \<Rightarrow> job_status \<Rightarrow> string option \<Rightarrow> datetime option \<Rightarrow> string
     \<Rightarrow> (db, attempt_finalization) op" where
  "finalize_job_attempt run status last_error due_at expected_lease_owner =
     finalize_attempt run status last_error due_at expected_lease_owner"

definition get_run :: "db \<Rightarrow> string \<Rightarrow> run_record option result" where
  "get_run d run_id =
     (case by_key r_id run_id (runs_table d) of
        None \<Rightarrow> Inr None
      | Some row \<Rightarrow> bind_result (row_to_run row) (\<lambda>r. Inr (Some r)))"

definition list_job_runs :: "db \<Rightarrow> string \<Rightarrow> run_record list result" where
  "list_job_runs d job_id =
     traverse row_to_run
       (order_by r_attempt (select_where (\<lambda>r. r_job_id r = job_id) (runs_table d)))"

definition list_runs_page ::
  "db \<Rightarrow> string option \<Rightarrow> run_status option \<Rightarrow> string option \<Rightarrow> int \<Rightarrow> int \<Rightarrow> run_record list result" where
  "list_runs_page d project_id status kind limit offset =
     traverse row_to_run (page limit offset (order_by (\<lambda>r. - dt_wall (r_started_at r))
       (select_where (\<lambda>r. (case project_id of None \<Rightarrow> True | Some p \<Rightarrow> r_project_id r = Some p) \<and>
                          opt_eq status (r_status r) \<and> opt_eq kind (r_kind r)) (runs_table d))))"

definition row_to_artifact :: "artifact_row \<Rightarrow> artifact_record" where
  "row_to_artifact a =
     \<lparr>art_name = ar_name a, art_uri = ar_uri a, art_media_type = ar_media_type a\<rparr>"

definition list_run_artifacts :: "db \<Rightarrow> string \<Rightarrow> artifact_record list" where
  "list_run_artifacts d run_id =
     map row_to_artifact (order_by ar_name
       (select_where (\<lambda>a. ar_run_id a = run_id) (artifacts_table d)))"

text \<open>The inner join on the run id: an artifact row appears once per run row it matches.\<close>

definition list_artifacts_for_project :: "db \<Rightarrow> string option \<Rightarrow> artifact_record list" where
  "list_artifacts_for_project d project_id =
     map row_to_artifact (order_by ar_name
       (case project_id of
          None \<Rightarrow> artifacts_table d
        | Some p \<Rightarrow> concat (map (\<lambda>a. map (\<lambda>_. a)
            (filter (\<lambda>r. ar_run_id a = r_id r \<and> r_project_id r = Some p) (runs_table d)))
            (artifacts_table d))))"

text \<open>A running job and a Run of its attempt, for concrete instances.\<close>

definition sample_run :: "string \<Rightarrow> string \<Rightarrow> int \<Rightarrow> run_status \<Rightarrow> run_record" where
  "sample_run rid jid attempt status =
     \<lparr>r_id = rid, r_job_id = jid, r_kind = ''example.echo'', r_project_id = None,
      r_attempt = attempt, r_status = status, r_started_at = utc 20, r_finished_at = None,
      r_result = None, r_error = None, r_timeout_seconds = None, r_max_retries = 1,
      r_leased_until = None, r_resource_policy = None\<rparr>"

definition running_job_db :: db where
  "running_job_db = empty_db\<lparr>jobs_table :=
     [(job_to_row (sample_job ''a'' 100 1))\<lparr>j_status := Running, j_attempt_count := 1,
        j_lease_owner := Some ''w1'', j_leased_until := Some (Naive 70)\<rparr>]\<rparr>"

section \<open>Facts\<close>

lemma run_to_row_id [simp]: "r_id (run_to_row r) = r_id r"
  by (simp add: run_to_row_def)

lemma normalize_frame [simp]:
  "r_id (normalize_persisted_run r) = r_id r"
  "r_status (normalize_persisted_run r) = r_status r"
  "r_job_id (normalize_persisted_run r) = r_job_id r"
  "lineage (normalize_persisted_run r) = lineage r"
  by (simp_all add: normalize_persisted_run_def lineage_def)

lemma insert_run_children_frame [simp]:
  "jobs_table (insert_run_children run d) = jobs_table d"
  "runs_table (insert_run_children run d) = runs_table d"
  "events_table (insert_run_children run d) = events_table d"
  by (simp_all add: insert_run_children_def split: option.split)

lemma insert_run_eq:
  "insert_run run d =
     (if by_key r_id (r_id run) (runs_table d) = None
      then (Inr (), insert_run_children run (d\<lparr>runs_table := runs_table d @ [run_to_row run]\<rparr>))
      else (Inl (Raise IntegrityError ''UNIQUE constraint failed: runs.id''), d))"
  by (simp add: insert_run_def insert_row_def bind_def modify_def by_key_None_iff)

text \<open>When \<open>finalize_run\<close> refuses, and what it writes when it does not.\<close>

definition finalize_refused :: "run_record \<Rightarrow> db \<Rightarrow> bool" where
  "finalize_refused run d =
     (r_status run \<notin> TERMINAL_RUN_STATUSES \<or>
      (case by_key r_id (r_id run) (runs_table d) of
         None \<Rightarrow> False
       | Some row \<Rightarrow> r_status row \<noteq> RunRunning \<or> lineage run \<noteq> lineage row))"

definition written_run :: "run_record \<Rightarrow> db \<Rightarrow> db" where
  "written_run run d =
     (if by_key r_id (r_id run) (runs_table d) = None
      then insert_run_children run (d\<lparr>runs_table := runs_table d @ [run_to_row run]\<rparr>)
      else insert_run_children run
             (d\<lparr>runs_table := update_where (\<lambda>r. r_id r = r_id run) (\<lambda>_. run_to_row run) (runs_table d),
                artifacts_table := delete_where (\<lambda>a. ar_run_id a = r_id run) (artifacts_table d),
                handoffs_table := delete_where (\<lambda>h. hr_run_id h = r_id run) (handoffs_table d)\<rparr>))"

lemma finalize_run_eq:
  "\<not> finalize_refused run d \<Longrightarrow> finalize_run run d = (Inr (), written_run run d)"
  by (auto simp: finalize_run_def finalize_refused_def written_run_def bind_gets insert_run_eq
      modify_eq split: option.splits)

lemma finalize_run_refused:
  "finalize_refused run d \<Longrightarrow> \<exists>e. finalize_run run d = (Inl e, d)"
  by (auto simp: finalize_run_def finalize_refused_def bind_gets throw_eq split: option.splits)

lemma written_run_frame [simp]:
  "jobs_table (written_run run d) = jobs_table d"
  "events_table (written_run run d) = events_table d"
  by (simp_all add: written_run_def)

lemma written_run_get:
  "by_key r_id k (runs_table (written_run run d)) =
     (if k = r_id run then Some (run_to_row run) else by_key r_id k (runs_table d))"
proof (cases "by_key r_id (r_id run) (runs_table d)")
  case None
  then show ?thesis by (auto simp: written_run_def by_key_append split: option.split)
next
  case (Some row)
  have "by_key r_id k (update_where (\<lambda>r. r_id r = r_id run) (\<lambda>_. run_to_row run) (runs_table d)) =
      map_option (\<lambda>r. if r_id r = r_id run then run_to_row run else r) (by_key r_id k (runs_table d))"
    by (rule by_key_update) simp
  then show ?thesis using Some
    by (cases "by_key r_id k (runs_table d)") (auto simp: written_run_def dest: by_key_SomeD)
qed

lemma finalize_refused_jobs [simp]:
  "finalize_refused run (d\<lparr>jobs_table := t\<rparr>) = finalize_refused run d"
  by (simp add: finalize_refused_def)

lemma finalize_refused_normalize [simp]:
  "finalize_refused (normalize_persisted_run run) d = finalize_refused run d"
  by (simp add: finalize_refused_def split: option.split)

text \<open>\<open>finalize_attempt\<close> in closed form.\<close>

definition finalized_jobs ::
  "run_record \<Rightarrow> job_status \<Rightarrow> string option \<Rightarrow> datetime option \<Rightarrow> job_record table \<Rightarrow> job_record table" where
  "finalized_jobs run st err due_at t =
     update_where (\<lambda>r. j_id r = r_job_id run) (release_row st err due_at) t"

lemma finalize_attempt_rollback:
  "finalize_attempt run st err due_at w d = (Inl e, d') \<Longrightarrow> d' = d"
  unfolding finalize_attempt_def Let_def by (rule atomically_rollback)

lemma finalize_attempt_missing:
  "by_key j_id (r_job_id run) (jobs_table d) = None \<Longrightarrow>
   \<exists>e. finalize_attempt run st err due_at w d = (Inl e, d)"
  by (simp add: finalize_attempt_def Let_def atomically_def bind_gets throw_eq)

lemma finalize_attempt_refused:
  assumes "by_key j_id (r_job_id run) (jobs_table d) = Some row" and "finalize_refused run d"
  shows "\<exists>e. finalize_attempt run st err due_at w d = (Inl e, d)"
proof -
  have ref: "\<exists>e. finalize_run (normalize_persisted_run run) (d\<lparr>jobs_table := t\<rparr>) = (Inl e, d\<lparr>jobs_table := t\<rparr>)"
    for t using assms(2) finalize_run_refused by simp
  have "\<exists>e d'. finalize_attempt run st err due_at w d = (Inl e, d')"
    using ref [of "jobs_table d"] ref [of "finalized_jobs run st err due_at (jobs_table d)"] assms(1)
    by (auto simp: finalize_attempt_def Let_def atomically_def gets_def bind_def modify_def return_def
        finalized_jobs_def)
  then obtain e d' where raised: "finalize_attempt run st err due_at w d = (Inl e, d')" by blast
  then have "d' = d" by (rule finalize_attempt_rollback)
  then show ?thesis using raised by blast
qed

lemma finalize_attempt_eq:
  assumes "by_key j_id (r_job_id run) (jobs_table d) = Some row" and "\<not> finalize_refused run d"
  shows "finalize_attempt run st err due_at w d =
    (Inr \<lparr>af_run = normalize_persisted_run run,
          af_outcome = (if owns_attempt w (r_attempt run) row then Finalized
                        else if j_status row = Cancelled then OutcomeCancelled else Stale)\<rparr>,
     written_run (normalize_persisted_run run)
       (if owns_attempt w (r_attempt run) row
        then d\<lparr>jobs_table := finalized_jobs run st err due_at (jobs_table d)\<rparr> else d))"
  using assms finalize_run_eq [of "normalize_persisted_run run"]
  by (simp add: finalize_attempt_def Let_def atomically_def gets_def bind_def modify_def return_def
      finalized_jobs_def)

lemma finalize_attempt_Inr:
  assumes "finalize_attempt run st err due_at w d = (Inr fin, d')"
  obtains row where "by_key j_id (r_job_id run) (jobs_table d) = Some row"
    and "\<not> finalize_refused run d"
    and "fin = \<lparr>af_run = normalize_persisted_run run,
          af_outcome = (if owns_attempt w (r_attempt run) row then Finalized
                        else if j_status row = Cancelled then OutcomeCancelled else Stale)\<rparr>"
    and "d' = written_run (normalize_persisted_run run)
       (if owns_attempt w (r_attempt run) row
        then d\<lparr>jobs_table := finalized_jobs run st err due_at (jobs_table d)\<rparr> else d)"
proof (cases "by_key j_id (r_job_id run) (jobs_table d)")
  case None
  then show ?thesis using assms finalize_attempt_missing [of run d st err due_at w] by auto
next
  case (Some row)
  show ?thesis
  proof (cases "finalize_refused run d")
    case True
    then show ?thesis using assms finalize_attempt_refused [OF Some, of st err due_at w] by auto
  next
    case False
    then show ?thesis using that [OF Some False] assms finalize_attempt_eq [OF Some False] by simp
  qed
qed

section \<open>Properties\<close>

text \<open>
  C15. A successful finalization reports \<open>Finalized\<close> exactly when the caller still owned this
  attempt, and only then does it change a job: the job's row gets the new status and loses its
  lease. In every case the Run row is written in its normalized form and no other Run changes.
\<close>

theorem finalize_attempt_effect:
  assumes "finalize_attempt run st err due_at w d = (Inr fin, d')"
  shows "\<exists>row. by_key j_id (r_job_id run) (jobs_table d) = Some row \<and>
    (af_outcome fin = Finalized \<longleftrightarrow> owns_attempt w (r_attempt run) row) \<and>
    (af_outcome fin = OutcomeCancelled \<longleftrightarrow> \<not> owns_attempt w (r_attempt run) row \<and> j_status row = Cancelled) \<and>
    jobs_table d' = (if af_outcome fin = Finalized
       then map (\<lambda>r. if j_id r = r_job_id run then release_row st err due_at r else r) (jobs_table d)
       else jobs_table d) \<and>
    (\<forall>k. by_key r_id k (runs_table d') =
       (if k = r_id run then Some (run_to_row (normalize_persisted_run run))
        else by_key r_id k (runs_table d)))"
  using assms
  by (elim finalize_attempt_Inr)
    (auto simp: written_run_get finalized_jobs_def update_where_def owns_attempt_def)

theorem finalize_attempt_effect_witness:
  "\<exists>fin d'. finalize_attempt (sample_run ''r1'' ''a'' 1 RunCompleted) Completed None None ''w1''
       running_job_db = (Inr fin, d') \<and>
     map (\<lambda>j. (j_status j, j_lease_owner j)) (jobs_table d') = [(Completed, None)] \<and>
     af_outcome fin = Finalized"
proof -
  let ?r = "sample_run ''r1'' ''a'' 1 RunCompleted"
  have ok: "by_key j_id (r_job_id ?r) (jobs_table running_job_db) \<noteq> None \<and>
      \<not> finalize_refused ?r running_job_db" by code_simp
  have own: "case by_key j_id ''a'' (jobs_table running_job_db) of None \<Rightarrow> False
      | Some row \<Rightarrow> owns_attempt ''w1'' 1 row" by code_simp
  have rows: "map (\<lambda>j. (j_status j, j_lease_owner j))
      (map (\<lambda>r. if j_id r = ''a'' then release_row Completed None None r else r)
        (jobs_table running_job_db)) = [(Completed, None)]" by code_simp
  obtain fin d' where fa: "finalize_attempt ?r Completed None None ''w1'' running_job_db = (Inr fin, d')"
    using ok by (auto simp: finalize_attempt_eq)
  have sel: "r_job_id ?r = ''a''" "r_attempt ?r = 1" by (simp_all add: sample_run_def)
  show ?thesis using finalize_attempt_effect [OF fa] own rows fa unfolding sel by auto
qed

text \<open>
  Finalizing raises exactly when the job is gone, the given Run is not terminal, or a Run of
  that id exists that is not the running projection of the same attempt; and then nothing is
  written, the job transition included.
\<close>

theorem finalize_attempt_raises_iff:
  "((\<exists>e. finalize_attempt run st err due_at w d = (Inl e, d)) \<longleftrightarrow>
      by_key j_id (r_job_id run) (jobs_table d) = None \<or> finalize_refused run d) \<and>
   ((\<exists>fin d'. finalize_attempt run st err due_at w d = (Inr fin, d')) \<longleftrightarrow>
      by_key j_id (r_job_id run) (jobs_table d) \<noteq> None \<and> \<not> finalize_refused run d)"
proof (cases "by_key j_id (r_job_id run) (jobs_table d)")
  case None
  then show ?thesis using finalize_attempt_missing [of run d st err due_at w] by auto
next
  case (Some row)
  show ?thesis
  proof (cases "finalize_refused run d")
    case True
    then show ?thesis using Some finalize_attempt_refused [OF Some True, of st err due_at w] by auto
  next
    case False
    then show ?thesis using Some finalize_attempt_eq [OF Some False] by simp
  qed
qed

text \<open>
  A Run that has reached a terminal status is never rewritten: whatever is finalized next,
  by whichever scheduler, its row stays what it was.
\<close>

theorem terminal_run_immutable:
  assumes "by_key r_id k (runs_table d) = Some row" and "r_status row \<in> TERMINAL_RUN_STATUSES"
  shows "by_key r_id k (runs_table (snd (finalize_attempt run st err due_at w d))) = Some row"
proof (cases "\<exists>fin d'. finalize_attempt run st err due_at w d = (Inr fin, d')")
  case True
  then obtain fin d' where fa: "finalize_attempt run st err due_at w d = (Inr fin, d')" by blast
  then have "\<not> finalize_refused run d" by (rule finalize_attempt_Inr)
  then have "k \<noteq> r_id run"
    using assms by (auto simp: finalize_refused_def TERMINAL_RUN_STATUSES_def)
  then have "by_key r_id k (runs_table d') = Some row"
    using fa assms(1) by (elim finalize_attempt_Inr) (auto simp: written_run_get)
  then show ?thesis by (simp add: fa)
next
  case False
  then obtain e d' where raised: "finalize_attempt run st err due_at w d = (Inl e, d')"
    by (cases "finalize_attempt run st err due_at w d") (metis sum.exhaust)
  then have "d' = d" by (rule finalize_attempt_rollback)
  then show ?thesis using assms(1) raised by simp
qed

theorem terminal_run_immutable_witness:
  "by_key r_id ''r1'' (runs_table (snd (finalize_attempt (sample_run ''r1'' ''a'' 1 RunFailed) Failed
     None None ''w1'' (running_job_db\<lparr>runs_table := [run_to_row (sample_run ''r1'' ''a'' 1 RunCompleted)]\<rparr>)))) =
   Some (run_to_row (sample_run ''r1'' ''a'' 1 RunCompleted))"
  by (rule terminal_run_immutable)
    (simp_all add: by_key_def sample_run_def run_to_row_def TERMINAL_RUN_STATUSES_def)

end
