(* ===== verification/Lease_Protocol.thy ===== *)
theory Lease_Protocol
  imports Store_Runs
begin

text \<open>
  The job lease protocol: any number of schedulers and API callers interleave the guarded
  statements of the store on one database. \<open>lease_step\<close> has one rule per statement; the state
  adds to the database what each scheduler holds from its current pass (\<open>lw_hand\<close>: the claimed
  job, and whether it was started) and a history of the attempts that were finalized.
  The attempt number of a start or of a finished Run is the one \<^verbatim>\<open>Scheduler._execute_claimed_job\<close>
  computes from the job it claimed, \<^verbatim>\<open>job.attempt_count + 1\<close>. The rules read the statements
  themselves, so an expired lease, a late renewal, a lost race and a cancellation are all steps.
\<close>

section \<open>The protocol\<close>

record lease_world =
  lw_db :: db
  lw_hand :: "string \<Rightarrow> (job_record \<times> bool) set"
  lw_finalized :: "(string \<times> int) list"
  lw_overwritten :: "string set"

definition record_outcome :: "attempt_finalization \<Rightarrow> string \<times> int \<Rightarrow> (string \<times> int) list \<Rightarrow> (string \<times> int) list" where
  "record_outcome fin a h = (if af_outcome fin = Finalized then a # h else h)"

inductive lease_step :: "lease_world \<Rightarrow> lease_world \<Rightarrow> bool" where
  submit: "save_job j (lw_db s) = (Inr (), d') \<Longrightarrow> j_status j = Queued \<Longrightarrow>
     j_lease_owner j = None \<Longrightarrow> j_leased_until j = None \<Longrightarrow> lease_step s (s\<lparr>lw_db := d'\<rparr>)"
| claim: "claim_due_jobs w now u limit (lw_db s) = (Inr js, d') \<Longrightarrow>
     lease_step s (s\<lparr>lw_db := d', lw_hand := (lw_hand s)(w := (\<lambda>j. (j, False)) ` set js)\<rparr>)"
| renew: "try_renew_job_lease jid w u (lw_db s) = (Inr b, d') \<Longrightarrow> lease_step s (s\<lparr>lw_db := d'\<rparr>)"
| start: "(j, False) \<in> lw_hand s w \<Longrightarrow>
     try_mark_job_running (j_id j) (j_attempt_count j + 1) w (lw_db s) = (Inr True, d') \<Longrightarrow>
     lease_step s (s\<lparr>lw_db := d', lw_hand := (lw_hand s)(w := insert (j, True) (lw_hand s w))\<rparr>)"
| begin_run: "start_run run (lw_db s) = (Inr run', d') \<Longrightarrow> lease_step s (s\<lparr>lw_db := d'\<rparr>)"
| finish: "(j, True) \<in> lw_hand s w \<Longrightarrow> r_job_id run = j_id j \<Longrightarrow>
     r_attempt run = j_attempt_count j + 1 \<Longrightarrow> st \<in> {Completed, Failed, TimedOut, Retrying} \<Longrightarrow>
     finalize_attempt run st err due_at w (lw_db s) = (Inr fin, d') \<Longrightarrow>
     lease_step s (s\<lparr>lw_db := d',
       lw_finalized := record_outcome fin (r_job_id run, r_attempt run) (lw_finalized s)\<rparr>)"
| fail: "(j, b) \<in> lw_hand s w \<Longrightarrow> r_job_id run = j_id j \<Longrightarrow>
     finalize_attempt run Failed err due_at w (lw_db s) = (Inr fin, d') \<Longrightarrow>
     lease_step s (s\<lparr>lw_db := d',
       lw_finalized := record_outcome fin (r_job_id run, r_attempt run) (lw_finalized s)\<rparr>)"
| cancel: "try_cancel_job jid (lw_db s) = (Inr res, d') \<Longrightarrow> lease_step s (s\<lparr>lw_db := d'\<rparr>)"

definition lease_start :: lease_world where
  "lease_start = \<lparr>lw_db = empty_db, lw_hand = (\<lambda>_. {}), lw_finalized = [], lw_overwritten = {}\<rparr>"

inductive lease_reachable :: "lease_world \<Rightarrow> bool" where
  init: "lease_reachable lease_start"
| step: "lease_reachable s \<Longrightarrow> lease_step s s' \<Longrightarrow> lease_reachable s'"

text \<open>
  Two statements of the scheduler are not guarded by the lease: the deferral of a job that it claimed
  (\<^verbatim>\<open>Scheduler.claim_due_jobs\<close>, back to queued) and the repair of a job whose attempt raised
  (\<^verbatim>\<open>record_unexpected_job_failure\<close>, to the status of its latest Run). Both call \<^verbatim>\<open>finish_job\<close> for a job
  that the scheduler holds from its pass, however long ago it claimed it. \<open>lw_overwritten\<close> lists the jobs
  that such a write hit while another scheduler, or nobody, owned them.
\<close>

definition owned_by :: "string \<Rightarrow> string \<Rightarrow> db \<Rightarrow> bool" where
  "owned_by job_id w d = list_all (\<lambda>r. j_id r = job_id \<longrightarrow> j_lease_owner r = Some w) (jobs_table d)"

inductive scheduler_step :: "lease_world \<Rightarrow> lease_world \<Rightarrow> bool" where
  guarded: "lease_step s s' \<Longrightarrow> scheduler_step s s'"
| overwrite: "(j, b) \<in> lw_hand s w \<Longrightarrow> st \<notin> {Leased, Running} \<Longrightarrow> finish_job (j_id j) st err due_at (lw_db s) = (Inr u, d') \<Longrightarrow>
     scheduler_step s (s\<lparr>lw_db := d', lw_overwritten :=
       (if owned_by (j_id j) w (lw_db s) then lw_overwritten s else insert (j_id j) (lw_overwritten s))\<rparr>)"

inductive scheduler_reachable :: "lease_world \<Rightarrow> bool" where
  init: "scheduler_reachable lease_start"
| step: "scheduler_reachable s \<Longrightarrow> scheduler_step s s' \<Longrightarrow> scheduler_reachable s'"

text \<open>A run of the protocol: a job is submitted, claimed, started and finished by one scheduler.\<close>

definition demo_submitted :: db where
  "demo_submitted = snd (save_job (sample_job ''a'' 100 1) empty_db)"

definition demo_claim :: "job_record list result \<times> db" where
  "demo_claim = claim_due_jobs ''w1'' (utc 10) (utc 70) 1 demo_submitted"

definition demo_running :: db where
  "demo_running = snd (try_mark_job_running ''a'' 1 ''w1'' (snd demo_claim))"

definition demo_finish :: "attempt_finalization result \<times> db" where
  "demo_finish = finalize_attempt (sample_run ''r1'' ''a'' 1 RunCompleted) Completed None None ''w1'' demo_running"

definition demo_held :: "string \<Rightarrow> (job_record \<times> bool) set" where
  "demo_held = (\<lambda>_. {})(''w1'' := insert (hd (projr (fst demo_claim)), True)
     ((\<lambda>j. (j, False)) ` set (projr (fst demo_claim))))"

definition demo_before :: lease_world where
  "demo_before = \<lparr>lw_db = demo_running, lw_hand = demo_held, lw_finalized = [], lw_overwritten = {}\<rparr>"

definition demo_after :: lease_world where
  "demo_after = \<lparr>lw_db = snd demo_finish, lw_hand = demo_held, lw_finalized = [(''a'', 1)], lw_overwritten = {}\<rparr>"

section \<open>The invariant\<close>

text \<open>A job row holds a lease exactly while it is leased or running.\<close>

definition lease_row_ok :: "job_record \<Rightarrow> bool" where
  "lease_row_ok r \<longleftrightarrow>
     (j_status r \<in> {Leased, Running} \<longleftrightarrow> j_lease_owner r \<noteq> None) \<and>
     (j_lease_owner r = None \<longleftrightarrow> j_leased_until r = None)"

text \<open>A row owned by a scheduler is at the attempt of the job the scheduler holds, unless it was overwritten.\<close>

definition hand_row_ok :: "string set \<Rightarrow> string \<Rightarrow> job_record \<times> bool \<Rightarrow> job_record \<Rightarrow> bool" where
  "hand_row_ok U w jb r \<longleftrightarrow>
     (j_id r \<notin> U \<and> j_id r = j_id (fst jb) \<and> j_lease_owner r = Some w \<longrightarrow>
      (j_status r = Leased \<longrightarrow> j_attempt_count r = j_attempt_count (fst jb) \<and> \<not> snd jb) \<and>
      (j_status r = Running \<longrightarrow> j_attempt_count r = j_attempt_count (fst jb) + 1))"

text \<open>A finalized attempt is behind the row: the job is terminal or past the attempt.\<close>

definition past_attempt :: "string set \<Rightarrow> string \<times> int \<Rightarrow> job_record \<Rightarrow> bool" where
  "past_attempt U a r \<longleftrightarrow>
     (j_id r \<notin> U \<and> j_id r = fst a \<longrightarrow> j_status r \<in> TERMINAL_JOB_STATUSES \<or>
        snd a \<le> j_attempt_count r \<and> (j_status r = Running \<longrightarrow> snd a < j_attempt_count r))"

definition lease_inv :: "lease_world \<Rightarrow> bool" where
  "lease_inv s \<longleftrightarrow>
     distinct_key j_id (jobs_table (lw_db s)) \<and>
     (\<forall>r\<in>set (jobs_table (lw_db s)). lease_row_ok r) \<and>
     (\<forall>w. \<forall>jb\<in>lw_hand s w. \<forall>r\<in>set (jobs_table (lw_db s)). hand_row_ok (lw_overwritten s) w jb r) \<and>
     (\<forall>w. \<forall>jb\<in>lw_hand s w. j_id (fst jb) \<in> j_id ` set (jobs_table (lw_db s))) \<and>
     (\<forall>a\<in>set (lw_finalized s). fst a \<in> j_id ` set (jobs_table (lw_db s)) \<and>
        (\<forall>r\<in>set (jobs_table (lw_db s)). past_attempt (lw_overwritten s) a r)) \<and>
     distinct (filter (\<lambda>a. fst a \<notin> lw_overwritten s) (lw_finalized s))"

lemma ball_update_where:
  "\<forall>r\<in>set t. Q r \<Longrightarrow> (\<And>r. r \<in> set t \<Longrightarrow> P r \<Longrightarrow> Q r \<Longrightarrow> Q (f r)) \<Longrightarrow>
   \<forall>r\<in>set (update_where P f t). Q r"
  by (auto simp: in_update_where)

lemma ids_update_where:
  "(\<And>r. j_id (f r) = j_id r) \<Longrightarrow> j_id ` set (update_where P f t) = j_id ` set t"
  using map_update_key [of P j_id f t] by (metis list.set_map)

text \<open>
  Preservation for a statement that rewrites the rows satisfying \<open>P\<close> by \<open>f\<close>: it is enough that
  \<open>f\<close> keeps each part of the invariant on the rows it touches.
\<close>

lemma lease_inv_update:
  assumes inv: "lease_inv s" and id: "\<And>r. j_id (f r) = j_id r"
    and t: "jobs_table d' = update_where P f (jobs_table (lw_db s))"
    and row: "\<And>r. r \<in> set (jobs_table (lw_db s)) \<Longrightarrow> P r \<Longrightarrow> lease_row_ok r \<Longrightarrow> lease_row_ok (f r)"
    and hand: "\<And>w jb r. jb \<in> lw_hand s w \<Longrightarrow> r \<in> set (jobs_table (lw_db s)) \<Longrightarrow> P r \<Longrightarrow>
       lease_row_ok r \<Longrightarrow> hand_row_ok (lw_overwritten s) w jb r \<Longrightarrow> hand_row_ok (lw_overwritten s) w jb (f r)"
    and past: "\<And>a r. a \<in> set (lw_finalized s) \<Longrightarrow> r \<in> set (jobs_table (lw_db s)) \<Longrightarrow> P r \<Longrightarrow>
       past_attempt (lw_overwritten s) a r \<Longrightarrow> past_attempt (lw_overwritten s) a (f r)"
  shows "lease_inv (s\<lparr>lw_db := d'\<rparr>)"
proof -
  let ?t = "jobs_table (lw_db s)"
  have k: "distinct_key j_id (jobs_table d')"
    using inv id by (simp add: t lease_inv_def distinct_key_update)
  have ok: "\<forall>r\<in>set ?t. lease_row_ok r" using inv by (simp add: lease_inv_def)
  have rows: "\<forall>r\<in>set (jobs_table d'). lease_row_ok r"
    unfolding t using ok row by (rule ball_update_where)
  have hands: "\<forall>r\<in>set (jobs_table d'). hand_row_ok (lw_overwritten s) w jb r" if jb: "jb \<in> lw_hand s w" for w jb
    unfolding t
  proof (rule ball_update_where)
    show "\<forall>r\<in>set ?t. hand_row_ok (lw_overwritten s) w jb r" using inv jb by (simp add: lease_inv_def)
  qed (use hand [OF jb] ok in blast)
  have pasts: "\<forall>r\<in>set (jobs_table d'). past_attempt (lw_overwritten s) a r" if a: "a \<in> set (lw_finalized s)" for a
    unfolding t
  proof (rule ball_update_where)
    show "\<forall>r\<in>set ?t. past_attempt (lw_overwritten s) a r" using inv a by (simp add: lease_inv_def)
  qed (use past [OF a] in blast)
  have ids: "j_id ` set (jobs_table d') = j_id ` set ?t" unfolding t using id by (rule ids_update_where)
  show ?thesis using inv k rows hands pasts by (simp add: lease_inv_def ids)
qed

lemma lease_inv_same_jobs:
  "lease_inv s \<Longrightarrow> jobs_table d' = jobs_table (lw_db s) \<Longrightarrow> lease_inv (s\<lparr>lw_db := d'\<rparr>)"
  by (simp add: lease_inv_def)

lemma lease_inv_start: "lease_inv lease_start"
  by (simp add: lease_inv_def lease_start_def empty_db_def distinct_key_def)

section \<open>Every step keeps the invariant\<close>

lemma submit_inv:
  assumes inv: "lease_inv s" and sv: "save_job j (lw_db s) = (Inr (), d')"
    and q: "j_status j = Queued" "j_lease_owner j = None" "j_leased_until j = None"
  shows "lease_inv (s\<lparr>lw_db := d'\<rparr>)"
proof -
  let ?t = "jobs_table (lw_db s)"
  have d': "jobs_table d' = ?t @ [job_to_row j]" using save_job_get(3) [OF sv] by simp
  have new: "j_id j \<notin> j_id ` set ?t"
    using sv by (auto simp: save_job_def insert_into_cases insert_row_Inr_iff)
  have ok: "lease_row_ok (job_to_row j)" using q by (simp add: lease_row_ok_def job_to_row_def)
  have hand: "hand_row_ok (lw_overwritten s) w jb (job_to_row j)" if "jb \<in> lw_hand s w" for w jb
    using q by (simp add: hand_row_ok_def job_to_row_def)
  have past: "past_attempt (lw_overwritten s) a (job_to_row j)" if "a \<in> set (lw_finalized s)" for a
    using inv that new by (auto simp: lease_inv_def past_attempt_def)
  show ?thesis using inv new ok hand past by (auto simp: lease_inv_def d' distinct_key_def)
qed

lemma renew_inv:
  assumes inv: "lease_inv s" and rn: "try_renew_job_lease jid w u (lw_db s) = (Inr b, d')"
  shows "lease_inv (s\<lparr>lw_db := d'\<rparr>)"
proof (rule lease_inv_update [OF inv])
  show "jobs_table d' = update_where (owned_active jid w) (extend_lease (db_datetime u)) (jobs_table (lw_db s))"
    using rn by (auto simp: try_renew_job_lease_def Let_def)
qed (auto simp: extend_lease_def lease_row_ok_def hand_row_ok_def past_attempt_def owned_active_def
      split: option.split)

lemma cancel_inv:
  assumes inv: "lease_inv s" and cn: "try_cancel_job jid (lw_db s) = (Inr res, d')"
  shows "lease_inv (s\<lparr>lw_db := d'\<rparr>)"
proof (rule lease_inv_update [OF inv])
  show "jobs_table d' = update_where (cancellable jid)
     (\<lambda>r. r\<lparr>j_status := Cancelled, j_lease_owner := None, j_leased_until := None,
            j_last_error := Some ''cancelled by API''\<rparr>) (jobs_table (lw_db s))"
    using cn by (auto simp: try_cancel_job_def Let_def)
qed (auto simp: lease_row_ok_def hand_row_ok_def past_attempt_def TERMINAL_JOB_STATUSES_def)

lemma claim_inv:
  assumes inv: "lease_inv s" and cl: "claim_due_jobs w now u limit (lw_db s) = (Inr js, d')"
  shows "lease_inv (s\<lparr>lw_db := d', lw_hand := (lw_hand s)(w := (\<lambda>j. (j, False)) ` set js)\<rparr>)"
proof -
  let ?t = "jobs_table (lw_db s)" and ?cs = "claim_candidates now limit (jobs_table (lw_db s))"
  let ?s = "s\<lparr>lw_hand := (lw_hand s)(w := (\<lambda>j. (j, False)) ` set js)\<rparr>"
  have k: "distinct_key j_id ?t" using inv by (simp add: lease_inv_def)
  have js: "js = map (\<lambda>r. row_to_job (lease_row w u r)) ?cs"
    and d': "jobs_table d' = update_where (\<lambda>r. j_id r \<in> j_id ` set ?cs) (lease_row w (db_datetime u)) ?t"
    using cl claim_due_jobs_eq [OF k] by auto
  have cand: "r \<in> set ?cs" if "r \<in> set ?t" "j_id r \<in> j_id ` set ?cs" for r
    using that distinct_key_inj [OF k that(1)] claim_candidates_sub by blast
  have el: "eligible now r" if "r \<in> set ?t" "j_id r \<in> j_id ` set ?cs" for r
    using cand [OF that] claim_candidates_sub by blast
  have hand: "hand_row_ok (lw_overwritten s) v jb r'" if jb: "jb \<in> lw_hand ?s v" and r': "r' \<in> set (jobs_table d')" for v jb r'
  proof -
    obtain r where r: "r \<in> set ?t"
      and r'_eq: "r' = (if j_id r \<in> j_id ` set ?cs then lease_row w (db_datetime u) r else r)"
      using r' unfolding d' in_update_where by blast
    show ?thesis
    proof (cases "v = w")
      case False
      then have "hand_row_ok (lw_overwritten s) v jb r" using inv jb r by (auto simp: lease_inv_def)
      then show ?thesis using False by (auto simp: r'_eq hand_row_ok_def lease_row_def)
    next
      case True
      then obtain c where c: "c \<in> set ?cs" and jbc: "jb = (row_to_job (lease_row w u c), False)"
        using jb js by auto
      have "r = c" if "j_id r = j_id c"
        using that distinct_key_inj [OF k r] claim_candidates_sub [OF c] by blast
      then show ?thesis using c by (auto simp: r'_eq jbc hand_row_ok_def lease_row_def row_to_job_def)
    qed
  qed
  have ids: "j_id ` set (jobs_table d') = j_id ` set ?t" by (simp add: d' ids_update_where)
  have held: "j_id (fst jb) \<in> j_id ` set (jobs_table d')" if "jb \<in> lw_hand ?s v" for v jb
    using inv that js claim_candidates_sub unfolding ids
    by (auto simp: lease_inv_def split: if_splits)
  have rows: "\<forall>r\<in>set (jobs_table d'). lease_row_ok r"
    unfolding d' using inv by (intro ball_update_where) (auto simp: lease_inv_def lease_row_ok_def lease_row_def)
  have past: "\<forall>r\<in>set (jobs_table d'). past_attempt (lw_overwritten s) a r" if "a \<in> set (lw_finalized s)" for a
    unfolding d'
  proof (rule ball_update_where)
    show "\<forall>r\<in>set ?t. past_attempt (lw_overwritten s) a r" using inv that by (simp add: lease_inv_def)
    fix r assume "r \<in> set ?t" "j_id r \<in> j_id ` set ?cs" "past_attempt (lw_overwritten s) a r"
    then show "past_attempt (lw_overwritten s) a (lease_row w (db_datetime u) r)"
      using el [of r] by (auto simp: past_attempt_def lease_row_def eligible_def claimable_status_def
          TERMINAL_JOB_STATUSES_def)
  qed
  have dk: "distinct_key j_id (jobs_table d')" using k by (simp add: d' distinct_key_update)
  show ?thesis
    unfolding lease_inv_def using inv dk rows hand held past by (simp add: lease_inv_def ids)
qed

lemma start_inv:
  assumes inv: "lease_inv s" and held: "(j, False) \<in> lw_hand s w"
    and st: "try_mark_job_running (j_id j) (j_attempt_count j + 1) w (lw_db s) = (Inr True, d')"
  shows "lease_inv (s\<lparr>lw_db := d', lw_hand := (lw_hand s)(w := insert (j, True) (lw_hand s w))\<rparr>)"
proof -
  let ?t = "jobs_table (lw_db s)" and ?P = "leased_by (j_id j) w"
  let ?f = "\<lambda>r. r\<lparr>j_status := Running, j_attempt_count := j_attempt_count j + 1\<rparr>"
  have k: "distinct_key j_id ?t" using inv by (simp add: lease_inv_def)
  have d': "jobs_table d' = update_where ?P ?f ?t" and cnt: "rowcount ?P ?t = 1"
    using st by (auto simp: try_mark_job_running_def Let_def)
  have same: "j_attempt_count r = j_attempt_count j" if "r \<in> set ?t" "?P r" "j_id r \<notin> lw_overwritten s" for r
  proof -
    have "hand_row_ok (lw_overwritten s) w (j, False) r" using inv held that(1) by (simp add: lease_inv_def)
    then show ?thesis using that(2,3) by (simp add: hand_row_ok_def leased_by_def)
  qed
  have inv': "lease_inv (s\<lparr>lw_db := d'\<rparr>)"
  proof (rule lease_inv_update [OF inv _ d'])
    fix v jb r assume "r \<in> set ?t" "?P r" "hand_row_ok (lw_overwritten s) v jb r"
    then show "hand_row_ok (lw_overwritten s) v jb (?f r)" using same [of r] by (auto simp: hand_row_ok_def leased_by_def)
  next
    fix a r assume "r \<in> set ?t" "?P r" "past_attempt (lw_overwritten s) a r"
    then show "past_attempt (lw_overwritten s) a (?f r)"
      using same [of r] by (auto simp: past_attempt_def leased_by_def TERMINAL_JOB_STATUSES_def)
  qed (auto simp: lease_row_ok_def leased_by_def)
  have "\<exists>r0. by_key j_id (j_id j) ?t = Some r0 \<and> j_status r0 = Leased \<and> j_lease_owner r0 = Some w"
    using rowcount_1_iff [OF k, of "j_id j" "\<lambda>r. j_status r = Leased \<and> j_lease_owner r = Some w"] cnt
    by (simp add: leased_by_def [abs_def])
  then obtain r0 where r0: "r0 \<in> set ?t" "?P r0" by (auto simp: leased_by_def dest: by_key_SomeD)
  have new: "hand_row_ok (lw_overwritten s) w (j, True) r'" if r': "r' \<in> set (jobs_table d')" for r'
  proof -
    obtain r where r: "r \<in> set ?t" and r'_eq: "r' = (if ?P r then ?f r else r)"
      using r' unfolding d' in_update_where by blast
    have "?P r" if "j_id r = j_id j"
      using distinct_key_inj [OF k r r0(1)] r0(2) that by (auto simp: leased_by_def)
    then show ?thesis by (auto simp: r'_eq hand_row_ok_def)
  qed
  have ids: "j_id ` set (jobs_table d') = j_id ` set ?t"
    unfolding d' by (rule ids_update_where) simp
  have "j_id j \<in> j_id ` set (jobs_table d')"
    unfolding ids using r0 by (metis image_eqI leased_by_def)
  then show ?thesis using inv' new by (simp add: lease_inv_def)
qed

lemma finalize_inv:
  assumes inv: "lease_inv s" and st: "st \<in> {Completed, Failed, TimedOut, Retrying}"
    and started: "st = Retrying \<Longrightarrow> (j, True) \<in> lw_hand s w \<and> r_job_id run = j_id j"
    and fa: "finalize_attempt run st err due_at w (lw_db s) = (Inr fin, d')"
  shows "lease_inv (s\<lparr>lw_db := d',
    lw_finalized := record_outcome fin (r_job_id run, r_attempt run) (lw_finalized s)\<rparr>)"
proof -
  let ?t = "jobs_table (lw_db s)" and ?a = "(r_job_id run, r_attempt run)"
  have k: "distinct_key j_id ?t" using inv by (simp add: lease_inv_def)
  obtain row where row: "by_key j_id (r_job_id run) ?t = Some row"
    and fin: "af_outcome fin = Finalized \<longleftrightarrow> owns_attempt w (r_attempt run) row"
    and d': "jobs_table d' = (if owns_attempt w (r_attempt run) row
        then finalized_jobs run st err due_at ?t else ?t)"
    using fa by (elim finalize_attempt_Inr) auto
  have mem: "row \<in> set ?t" and rid: "j_id row = r_job_id run" using row by (auto dest: by_key_SomeD)
  show ?thesis
  proof (cases "owns_attempt w (r_attempt run) row")
    case False
    then show ?thesis using lease_inv_same_jobs [OF inv, of d'] d' fin by (simp add: record_outcome_def)
  next
    case True
    have only: "r = row" if "r \<in> set ?t" "j_id r = r_job_id run" for r
      using distinct_key_inj [OF k that(1) mem] that(2) rid by simp
    have t': "jobs_table d' = update_where (\<lambda>r. j_id r = r_job_id run) (release_row st err due_at) ?t"
      using d' True by (simp add: finalized_jobs_def)
    have act: "j_status row \<notin> TERMINAL_JOB_STATUSES"
      using True by (auto simp: owns_attempt_def TERMINAL_JOB_STATUSES_def)
    have inv': "lease_inv (s\<lparr>lw_db := d'\<rparr>)"
    proof (rule lease_inv_update [OF inv _ t'])
      fix a r assume "r \<in> set ?t" "j_id r = r_job_id run" "past_attempt (lw_overwritten s) a r"
      then show "past_attempt (lw_overwritten s) a (release_row st err due_at r)"
        using st only [of r] act by (auto simp: past_attempt_def release_row_def TERMINAL_JOB_STATUSES_def)
    qed (use st in \<open>auto simp: release_row_def lease_row_ok_def hand_row_ok_def\<close>)
    have retry: "j_attempt_count row = r_attempt run" if "st = Retrying" "r_job_id run \<notin> lw_overwritten s"
    proof -
      have "hand_row_ok (lw_overwritten s) w (j, True) row" using started [OF that(1)] inv mem by (simp add: lease_inv_def)
      then show ?thesis using started [OF that(1)] that(2) rid True by (auto simp: hand_row_ok_def owns_attempt_def)
    qed
    have past: "past_attempt (lw_overwritten s) ?a r'" if r': "r' \<in> set (jobs_table d')" for r'
    proof -
      obtain r where "r \<in> set ?t" and "r' = (if j_id r = r_job_id run then release_row st err due_at r else r)"
        using r' unfolding t' in_update_where by blast
      then show ?thesis using only st retry
        by (auto simp: past_attempt_def release_row_def TERMINAL_JOB_STATUSES_def)
    qed
    have "?a \<notin> set (lw_finalized s)" if "r_job_id run \<notin> lw_overwritten s"
    proof
      assume "?a \<in> set (lw_finalized s)"
      then have "past_attempt (lw_overwritten s) ?a row" using inv mem by (simp add: lease_inv_def)
      then show False using that rid act True by (auto simp: past_attempt_def owns_attempt_def)
    qed
    moreover have "r_job_id run \<in> j_id ` set (jobs_table d')"
      using mem rid by (simp add: t' ids_update_where) (metis image_iff)
    ultimately show ?thesis using inv' past fin True by (simp add: lease_inv_def record_outcome_def)
  qed
qed

lemma start_run_jobs: "start_run run d = (Inr run', d') \<Longrightarrow> jobs_table d' = jobs_table d"
  by (auto simp: start_run_def insert_run_eq atomically_def bind_def return_def throw_def
      split: if_splits)

lemma lease_step_inv: "lease_step s s' \<Longrightarrow> lease_inv s \<Longrightarrow> lease_inv s'"
proof (induction rule: lease_step.induct)
  case (submit j s d')
  then show ?case by (simp add: submit_inv)
next
  case (claim w now u limit s js d')
  then show ?case by (simp add: claim_inv)
next
  case (renew jid w u s b d')
  then show ?case by (simp add: renew_inv)
next
  case (start j s w d')
  then show ?case by (simp add: start_inv)
next
  case (begin_run run s run' d')
  then show ?case by (simp add: lease_inv_same_jobs start_run_jobs)
next
  case (finish j s w run st err due_at fin d')
  then show ?case by (intro finalize_inv) auto
next
  case (fail j b s w run err due_at fin d')
  then show ?case by (intro finalize_inv) auto
next
  case (cancel jid s res d')
  then show ?case by (rule cancel_inv [rotated])
qed

text \<open>The write of a scheduler that still owns the job keeps the whole invariant, a stale one all but what it says of that job.\<close>

lemma overwrite_inv:
  assumes inv: "lease_inv s" and st: "st \<notin> {Leased, Running}"
    and fj: "finish_job (j_id j) st err due_at (lw_db s) = (Inr u, d')"
  shows "lease_inv (s\<lparr>lw_db := d', lw_overwritten :=
    (if owned_by (j_id j) w (lw_db s) then lw_overwritten s else insert (j_id j) (lw_overwritten s))\<rparr>)"
proof (cases "owned_by (j_id j) w (lw_db s)")
  case True
  have d': "jobs_table d' = update_where (\<lambda>r. j_id r = j_id j) (release_row st err due_at) (jobs_table (lw_db s))"
    using fj by (auto simp: finish_job_def)
  have rows: "\<forall>r\<in>set (jobs_table (lw_db s)). lease_row_ok r" using inv by (simp add: lease_inv_def)
  have "lease_inv (s\<lparr>lw_db := d'\<rparr>)"
  proof (rule lease_inv_update [OF inv _ d'])
    fix a r assume r: "r \<in> set (jobs_table (lw_db s))" "j_id r = j_id j" "past_attempt (lw_overwritten s) a r"
    then have "j_status r \<in> {Leased, Running}" using True rows by (auto simp: owned_by_def list_all_iff lease_row_ok_def)
    then show "past_attempt (lw_overwritten s) a (release_row st err due_at r)"
      using r(3) st by (auto simp: past_attempt_def release_row_def TERMINAL_JOB_STATUSES_def)
  qed (use st in \<open>auto simp: release_row_def lease_row_ok_def hand_row_ok_def\<close>)
  with True show ?thesis by simp
next
  case False
  let ?t = "jobs_table (lw_db s)" and ?U = "insert (j_id j) (lw_overwritten s)"
  have d': "jobs_table d' = update_where (\<lambda>r. j_id r = j_id j) (release_row st err due_at) ?t"
    using fj by (auto simp: finish_job_def)
  have ids: "j_id ` set (jobs_table d') = j_id ` set ?t" unfolding d' by (rule ids_update_where) simp
  have other: "r' \<in> set ?t \<and> j_id r' \<noteq> j_id j \<or> j_id r' = j_id j" if "r' \<in> set (jobs_table d')" for r'
    using that unfolding d' in_update_where by (auto split: if_splits)
  have hands: "hand_row_ok ?U v jb r'" if "jb \<in> lw_hand s v" "r' \<in> set (jobs_table d')" for v jb r'
    using inv that(1) other [OF that(2)] by (auto simp: lease_inv_def hand_row_ok_def)
  have pasts: "past_attempt ?U a r'" if "a \<in> set (lw_finalized s)" "r' \<in> set (jobs_table d')" for a r'
    using inv that(1) other [OF that(2)] by (auto simp: lease_inv_def past_attempt_def)
  have rows: "\<forall>r\<in>set (jobs_table d'). lease_row_ok r"
    unfolding d' using inv st by (intro ball_update_where) (auto simp: lease_inv_def lease_row_ok_def release_row_def)
  have "filter (\<lambda>a. fst a \<notin> ?U) (lw_finalized s) = filter (\<lambda>a. fst a \<noteq> j_id j) (filter (\<lambda>a. fst a \<notin> lw_overwritten s) (lw_finalized s))"
    by (simp add: conj_commute)
  then have "distinct (filter (\<lambda>a. fst a \<notin> ?U) (lw_finalized s))" using inv by (simp only: lease_inv_def distinct_filter)
  then show ?thesis using inv False hands pasts rows ids by (simp add: lease_inv_def d' distinct_key_update)
qed

lemma scheduler_reachable_inv: "scheduler_reachable s \<Longrightarrow> lease_inv s"
proof (induction rule: scheduler_reachable.induct)
  case init
  show ?case by (rule lease_inv_start)
next
  case (step s s')
  from step(2,3) show ?case
  proof (induction rule: scheduler_step.induct)
    case (guarded s s')
    then show ?case by (rule lease_step_inv)
  next
    case (overwrite j b s w st err due_at u d')
    from overwrite(4,2,3) show ?case by (rule overwrite_inv)
  qed
qed

lemma lease_reachable_inv: "lease_reachable s \<Longrightarrow> lease_inv s"
  by (induction rule: lease_reachable.induct) (auto intro: lease_inv_start lease_step_inv)

lemma lease_reachable_scheduler: "lease_reachable s \<Longrightarrow> scheduler_reachable s"
  by (induction rule: lease_reachable.induct) (auto intro: scheduler_reachable.intros scheduler_step.guarded)

section \<open>The concrete run is reachable\<close>

lemma demo_before_reachable: "lease_reachable demo_before"
proof -
  let ?j = "hd (projr (fst demo_claim))"
  let ?s1 = "lease_start\<lparr>lw_db := demo_submitted\<rparr>"
  let ?s2 = "?s1\<lparr>lw_db := snd demo_claim,
      lw_hand := (lw_hand ?s1)(''w1'' := (\<lambda>j. (j, False)) ` set (projr (fst demo_claim)))\<rparr>"
  have "fst (save_job (sample_job ''a'' 100 1) empty_db) = Inr ()" by code_simp
  then have "save_job (sample_job ''a'' 100 1) (lw_db lease_start) = (Inr (), demo_submitted)"
    by (simp add: lease_start_def demo_submitted_def prod_eq_iff)
  then have s1: "lease_step lease_start ?s1"
    by (rule lease_step.submit) (simp_all add: sample_job_def)
  obtain js d' where c: "demo_claim = (Inr js, d')"
    unfolding demo_claim_def using claim_due_jobs_returns by blast
  then have "claim_due_jobs ''w1'' (utc 10) (utc 70) 1 (lw_db ?s1) = (Inr (projr (fst demo_claim)), snd demo_claim)"
    by (simp add: demo_claim_def)
  then have s2: "lease_step ?s1 ?s2" by (rule lease_step.claim)
  have j: "projr (fst demo_claim) \<noteq> [] \<and> j_id ?j = ''a'' \<and> j_attempt_count ?j + 1 = 1" by code_simp
  have "fst (try_mark_job_running ''a'' 1 ''w1'' (snd demo_claim)) = Inr True" by code_simp
  then have "try_mark_job_running (j_id ?j) (j_attempt_count ?j + 1) ''w1'' (lw_db ?s2) = (Inr True, demo_running)"
    using j by (simp add: demo_running_def prod_eq_iff)
  then have "lease_step ?s2 (?s2\<lparr>lw_db := demo_running,
      lw_hand := (lw_hand ?s2)(''w1'' := insert (?j, True) (lw_hand ?s2 ''w1''))\<rparr>)"
    using j by (intro lease_step.start) auto
  then have s3: "lease_step ?s2 demo_before"
    by (simp add: demo_before_def demo_held_def lease_start_def)
  show ?thesis using lease_reachable.step [OF lease_reachable.step [OF lease_reachable.step
    [OF lease_reachable.init s1] s2] s3] .
qed

lemma demo_after_reachable: "lease_reachable demo_after"
proof (rule lease_reachable.step [OF demo_before_reachable])
  let ?j = "hd (projr (fst demo_claim))" and ?r = "sample_run ''r1'' ''a'' 1 RunCompleted"
  have f: "case fst demo_finish of Inl _ \<Rightarrow> False | Inr fin \<Rightarrow> af_outcome fin = Finalized" by code_simp
  then obtain fin where "fst demo_finish = Inr fin" and fin2: "af_outcome fin = Finalized"
    by (cases "fst demo_finish") auto
  then have fin: "demo_finish = (Inr fin, snd demo_finish)" by (simp add: prod_eq_iff)
  have j: "j_id ?j = ''a'' \<and> j_attempt_count ?j + 1 = 1" by code_simp
  have r: "r_job_id ?r = ''a''" "r_attempt ?r = 1" by (simp_all add: sample_run_def)
  have "lease_step demo_before (demo_before\<lparr>lw_db := snd demo_finish,
      lw_finalized := record_outcome fin (r_job_id ?r, r_attempt ?r) (lw_finalized demo_before)\<rparr>)"
  proof (rule lease_step.finish)
    show "(?j, True) \<in> lw_hand demo_before ''w1''" by (simp add: demo_before_def demo_held_def)
    show "finalize_attempt ?r Completed None None ''w1'' (lw_db demo_before) = (Inr fin, snd demo_finish)"
      using fin by (simp add: demo_finish_def demo_before_def)
  qed (use j r in auto)
  then show "lease_step demo_before demo_after"
    by (simp add: demo_before_def demo_after_def record_outcome_def fin2 r)
qed

section \<open>Properties\<close>

lemma terminal_update:
  assumes "by_key j_id jid t = Some r" and "\<And>x. P x \<Longrightarrow> j_id (f x) = j_id x" and "\<not> P r"
  shows "by_key j_id jid (update_where P f t) = Some r"
  using assms by (subst by_key_update) auto

lemma finalize_terminal:
  assumes "finalize_attempt run st err due_at w d = (Inr fin, d')"
    and r: "by_key j_id jid (jobs_table d) = Some r" "j_status r \<in> TERMINAL_JOB_STATUSES"
  shows "by_key j_id jid (jobs_table d') = Some r"
  using assms(1)
proof (rule finalize_attempt_Inr)
  fix row assume row: "by_key j_id (r_job_id run) (jobs_table d) = Some row"
    and d': "d' = written_run (normalize_persisted_run run)
       (if owns_attempt w (r_attempt run) row
        then d\<lparr>jobs_table := finalized_jobs run st err due_at (jobs_table d)\<rparr> else d)"
  have "j_id r = jid" using r(1) by (auto dest: by_key_SomeD)
  then have "j_id r \<noteq> r_job_id run" if "owns_attempt w (r_attempt run) row"
    using that row r by (auto simp: owns_attempt_def TERMINAL_JOB_STATUSES_def)
  then show ?thesis using r(1) by (auto simp: d' finalized_jobs_def intro!: terminal_update)
qed

text \<open>
  C2. In every reachable state, also after deferrals and repairs, a job holds a lease exactly while it is leased or
  running: an active job has an owner and a deadline, every other job has neither.
\<close>

theorem reachable_leases_consistent:
  assumes "scheduler_reachable s" and "r \<in> set (jobs_table (lw_db s))"
  shows "(j_status r \<in> {Leased, Running} \<longleftrightarrow> j_lease_owner r \<noteq> None) \<and>
    (j_lease_owner r = None \<longleftrightarrow> j_leased_until r = None)"
proof -
  have "lease_row_ok r" using scheduler_reachable_inv [OF assms(1)] assms(2) by (simp add: lease_inv_def)
  then show ?thesis by (simp only: lease_row_ok_def)
qed

theorem reachable_leases_consistent_witness:
  "\<exists>r. jobs_table (lw_db demo_before) = [r] \<and> j_status r = Running \<and> j_lease_owner r \<noteq> None \<and>
     j_leased_until r \<noteq> None"
proof -
  have "map j_status (jobs_table demo_running) = [Running]" by code_simp
  then obtain r where r: "jobs_table (lw_db demo_before) = [r]" "j_status r = Running"
    by (auto simp: demo_before_def)
  then show ?thesis using reachable_leases_consistent [OF lease_reachable_scheduler [OF demo_before_reachable], of r] by auto
qed



text \<open>
  A job that is completed, failed, timed out or cancelled stays exactly as it is through
  every step of the protocol.
\<close>

theorem terminal_jobs_absorbing:
  assumes "lease_reachable s" and "lease_step s s'" and "by_key j_id jid (jobs_table (lw_db s)) = Some r"
    and "j_status r \<in> TERMINAL_JOB_STATUSES"
  shows "by_key j_id jid (jobs_table (lw_db s')) = Some r"
  using assms(2) lease_reachable_inv [OF assms(1)] assms(3,4)
proof (induction rule: lease_step.induct)
  case (submit j s d')
  then show ?case using save_job_get(3) [OF submit(1)] by (simp add: by_key_append)
next
  case (claim w now u limit s js d')
  have k: "distinct_key j_id (jobs_table (lw_db s))" using claim by (simp add: lease_inv_def)
  have r: "r \<in> set (jobs_table (lw_db s))" using claim by (auto dest: by_key_SomeD)
  have "j_id r \<notin> j_id ` set (claim_candidates now limit (jobs_table (lw_db s)))"
    using claim.prems(3) distinct_key_inj [OF k r] claim_candidates_sub
    by (fastforce simp: eligible_def claimable_status_def TERMINAL_JOB_STATUSES_def)
  then show ?case using claim claim_due_jobs_eq [OF k] by (auto intro!: terminal_update)
next
  case (renew jid' w u s b d')
  then show ?case
    by (auto simp: try_renew_job_lease_def Let_def owned_active_def TERMINAL_JOB_STATUSES_def
        intro!: terminal_update)
next
  case (start j s w d')
  then show ?case
    by (auto simp: try_mark_job_running_def Let_def leased_by_def TERMINAL_JOB_STATUSES_def
        intro!: terminal_update)
next
  case (begin_run run s run' d')
  then show ?case by (simp add: start_run_jobs)
next
  case (finish j s w run st err due_at fin d')
  then show ?case by (simp add: finalize_terminal [OF finish(5)])
next
  case (fail j b s w run err due_at fin d')
  then show ?case by (simp add: finalize_terminal [OF fail(3)])
next
  case (cancel jid' s res d')
  then show ?case
    by (auto simp: try_cancel_job_def Let_def cancellable_def intro!: terminal_update)
qed

theorem terminal_jobs_absorbing_witness:
  "\<exists>r s'. lease_step demo_after s' \<and> j_status r = Completed \<and>
     by_key j_id ''a'' (jobs_table (lw_db s')) = Some r"
proof -
  have "map_option j_status (by_key j_id ''a'' (jobs_table (snd demo_finish))) = Some Completed" by code_simp
  then obtain r where r: "by_key j_id ''a'' (jobs_table (lw_db demo_after)) = Some r" "j_status r = Completed"
    by (auto simp: demo_after_def)
  obtain res d' where "try_cancel_job ''a'' (lw_db demo_after) = (Inr res, d')"
    by (simp add: try_cancel_job_def Let_def)
  then have st: "lease_step demo_after (demo_after\<lparr>lw_db := d'\<rparr>)" by (rule lease_step.cancel)
  have "by_key j_id ''a'' (jobs_table (lw_db (demo_after\<lparr>lw_db := d'\<rparr>))) = Some r"
    by (rule terminal_jobs_absorbing [OF demo_after_reachable st r(1)])
      (simp add: r TERMINAL_JOB_STATUSES_def)
  then show ?thesis using st r(2) by blast
qed

section \<open>A stale deferral\<close>

text \<open>
  The claim of \<open>w1\<close> expires before it looks at the job; \<open>w2\<close> claims the job and fails its first attempt;
  then \<open>w1\<close> defers the job to the queue, \<open>w3\<close> claims it and completes the first attempt once more.
\<close>

definition stale_claim :: "string \<Rightarrow> int \<Rightarrow> db \<Rightarrow> job_record list result \<times> db" where
  "stale_claim w now = claim_due_jobs w (utc now) (utc (now + 60000000)) 1"

definition stale_held :: "string \<Rightarrow> int \<Rightarrow> db \<Rightarrow> job_record" where
  "stale_held w now d = hd (projr (fst (stale_claim w now d)))"

definition stale_failed :: "attempt_finalization result \<times> db" where
  "stale_failed = finalize_attempt (sample_run ''r1'' ''a'' 1 RunFailed) Failed None None ''w2''
     (snd (stale_claim ''w2'' 100000000 (snd (stale_claim ''w1'' 10 demo_submitted))))"

definition stale_deferred :: "unit result \<times> db" where
  "stale_deferred = finish_job ''a'' Queued None None (snd stale_failed)"

definition stale_started :: "bool result \<times> db" where
  "stale_started = try_mark_job_running ''a'' 1 ''w3'' (snd (stale_claim ''w3'' 200000000 (snd stale_deferred)))"

definition stale_finished :: "attempt_finalization result \<times> db" where
  "stale_finished = finalize_attempt (sample_run ''r2'' ''a'' 1 RunCompleted) Completed None None ''w3'' (snd stale_started)"

lemma stale_values:
  "map_sum (\<lambda>_. ()) (map (\<lambda>j. (j_id j, j_attempt_count j))) (fst (stale_claim ''w1'' 10 demo_submitted)) = Inr [(''a'', 0)]"
  "map_sum (\<lambda>_. ()) (map (\<lambda>j. (j_id j, j_attempt_count j))) (fst (stale_claim ''w2'' 100000000 (snd (stale_claim ''w1'' 10 demo_submitted)))) = Inr [(''a'', 0)]"
  "map_sum (\<lambda>_. ()) af_outcome (fst stale_failed) = Inr Finalized"
  "\<not> owned_by ''a'' ''w1'' (snd stale_failed)"
  "map_sum (\<lambda>_. ()) (map (\<lambda>j. (j_id j, j_attempt_count j))) (fst (stale_claim ''w3'' 200000000 (snd stale_deferred))) = Inr [(''a'', 0)]"
  "map_sum (\<lambda>_. ()) id (fst stale_started) = Inr True"
  "map_sum (\<lambda>_. ()) af_outcome (fst stale_finished) = Inr Finalized"
  by code_simp+

lemma scheduler_claims:
  assumes "scheduler_reachable s"
    and "map_sum (\<lambda>_. ()) (map (\<lambda>j. (j_id j, j_attempt_count j))) (fst (stale_claim w now (lw_db s))) = Inr [(''a'', 0)]"
  shows "scheduler_reachable (s\<lparr>lw_db := snd (stale_claim w now (lw_db s)), lw_hand := (lw_hand s)(w := {(stale_held w now (lw_db s), False)})\<rparr>) \<and>
    j_id (stale_held w now (lw_db s)) = ''a'' \<and> j_attempt_count (stale_held w now (lw_db s)) = 0"
proof -
  obtain js where js: "fst (stale_claim w now (lw_db s)) = Inr js"
    using assms(2) by (cases "fst (stale_claim w now (lw_db s))") auto
  then obtain j where j: "js = [j]" "j_id j = ''a''" "j_attempt_count j = 0" using assms(2) by auto
  have "claim_due_jobs w (utc now) (utc (now + 60000000)) 1 (lw_db s) = (Inr [j], snd (stale_claim w now (lw_db s)))"
    using js j(1) by (simp add: stale_claim_def prod_eq_iff)
  from scheduler_reachable.step [OF assms(1) scheduler_step.guarded [OF lease_step.claim [OF this]]]
  show ?thesis using js j by (simp add: stale_held_def)
qed

lemma scheduler_fails:
  assumes "scheduler_reachable s" and "(j, b) \<in> lw_hand s w" and "r_job_id run = j_id j"
    and "finalize_attempt run Failed err due_at w (lw_db s) = f" and "map_sum (\<lambda>_. ()) af_outcome (fst f) = Inr Finalized"
  shows "scheduler_reachable (s\<lparr>lw_db := snd f, lw_finalized := (r_job_id run, r_attempt run) # lw_finalized s\<rparr>)"
proof -
  obtain fin where fin: "fst f = Inr fin" "af_outcome fin = Finalized" using assms(5) by (cases "fst f") auto
  then have "finalize_attempt run Failed err due_at w (lw_db s) = (Inr fin, snd f)" using assms(4) by (simp add: prod_eq_iff)
  from scheduler_reachable.step [OF assms(1) scheduler_step.guarded [OF lease_step.fail [OF assms(2,3) this]]]
  show ?thesis using fin(2) by (simp add: record_outcome_def)
qed

lemma scheduler_finishes:
  assumes "scheduler_reachable s" and "(j, True) \<in> lw_hand s w" and "r_job_id run = j_id j" and "r_attempt run = j_attempt_count j + 1"
    and "finalize_attempt run Completed err due_at w (lw_db s) = f" and "map_sum (\<lambda>_. ()) af_outcome (fst f) = Inr Finalized"
  shows "scheduler_reachable (s\<lparr>lw_db := snd f, lw_finalized := (r_job_id run, r_attempt run) # lw_finalized s\<rparr>)"
proof -
  obtain fin where fin: "fst f = Inr fin" "af_outcome fin = Finalized" using assms(6) by (cases "fst f") auto
  then have "finalize_attempt run Completed err due_at w (lw_db s) = (Inr fin, snd f)" using assms(5) by (simp add: prod_eq_iff)
  from scheduler_reachable.step [OF assms(1) scheduler_step.guarded [OF lease_step.finish [OF assms(2,3,4) _ this]]]
  show ?thesis using fin(2) by (simp add: record_outcome_def)
qed

text \<open>
  The write of a deferral is not guarded by the lease: after a stale one the same attempt of a job is
  started and finalized a second time, once as failed and once as completed.
\<close>

theorem stale_deferral_repeats_attempt:
  "\<exists>s. scheduler_reachable s \<and> lw_overwritten s = {''a''} \<and> lw_finalized s = [(''a'', 1), (''a'', 1)] \<and>
     map r_status (runs_table (lw_db s)) = [RunFailed, RunCompleted]"
proof -
  let ?s1 = "lease_start\<lparr>lw_db := demo_submitted\<rparr>"
  have "fst (save_job (sample_job ''a'' 100 1) empty_db) = Inr ()" by code_simp
  then have "save_job (sample_job ''a'' 100 1) (lw_db lease_start) = (Inr (), demo_submitted)"
    by (simp add: lease_start_def demo_submitted_def prod_eq_iff)
  then have "lease_step lease_start ?s1" by (rule lease_step.submit) (simp_all add: sample_job_def)
  then have s1: "scheduler_reachable ?s1" by (intro scheduler_reachable.step [OF scheduler_reachable.init] scheduler_step.guarded)
  let ?j1 = "stale_held ''w1'' 10 demo_submitted" and ?d2 = "snd (stale_claim ''w1'' 10 demo_submitted)"
  let ?s2 = "?s1\<lparr>lw_db := ?d2, lw_hand := (lw_hand ?s1)(''w1'' := {(?j1, False)})\<rparr>"
  have s2: "scheduler_reachable ?s2" "j_id ?j1 = ''a''" using scheduler_claims [OF s1, of "''w1''" 10] stale_values(1) by simp_all
  let ?j2 = "stale_held ''w2'' 100000000 ?d2" and ?d3 = "snd (stale_claim ''w2'' 100000000 ?d2)"
  let ?s3 = "?s2\<lparr>lw_db := ?d3, lw_hand := (lw_hand ?s2)(''w2'' := {(?j2, False)})\<rparr>"
  have s3: "scheduler_reachable ?s3" "j_id ?j2 = ''a''"
    using scheduler_claims [OF s2(1), of "''w2''" 100000000] stale_values(2) by simp_all
  let ?s4 = "?s3\<lparr>lw_db := snd stale_failed, lw_finalized := [(''a'', 1)]\<rparr>"
  have s4: "scheduler_reachable ?s4"
    using scheduler_fails [OF s3(1), of ?j2 False "''w2''" "sample_run ''r1'' ''a'' 1 RunFailed" None None stale_failed] s3(2) stale_values(3)
    by (simp add: stale_failed_def sample_run_def lease_start_def)
  let ?s5 = "?s4\<lparr>lw_db := snd stale_deferred, lw_overwritten := {''a''}\<rparr>"
  have deferred: "finish_job (j_id ?j1) Queued None None (lw_db ?s4) = (Inr (), snd stale_deferred)"
    using s2(2) by (simp add: stale_deferred_def finish_job_def)
  have "(?j1, False) \<in> lw_hand ?s4 ''w1''" by simp
  from scheduler_reachable.step [OF s4 scheduler_step.overwrite [OF this _ deferred]]
  have s5: "scheduler_reachable ?s5" using s2(2) stale_values(4) by (simp add: lease_start_def)
  let ?j3 = "stale_held ''w3'' 200000000 (snd stale_deferred)" and ?d6 = "snd (stale_claim ''w3'' 200000000 (snd stale_deferred))"
  let ?s6 = "?s5\<lparr>lw_db := ?d6, lw_hand := (lw_hand ?s5)(''w3'' := {(?j3, False)})\<rparr>"
  have s6: "scheduler_reachable ?s6" "j_id ?j3 = ''a''" "j_attempt_count ?j3 = 0"
    using scheduler_claims [OF s5, of "''w3''" 200000000] stale_values(5) by simp_all
  let ?s7 = "?s6\<lparr>lw_db := snd stale_started, lw_hand := (lw_hand ?s6)(''w3'' := {(?j3, True), (?j3, False)})\<rparr>"
  have held: "(?j3, False) \<in> lw_hand ?s6 ''w3''" by simp
  have "fst stale_started = Inr True" using stale_values(6) by (cases "fst stale_started") auto
  then have started: "try_mark_job_running (j_id ?j3) (j_attempt_count ?j3 + 1) ''w3'' (lw_db ?s6) = (Inr True, snd stale_started)"
    using s6(2,3) by (simp add: stale_started_def prod_eq_iff)
  from scheduler_reachable.step [OF s6(1) scheduler_step.guarded [OF lease_step.start [OF held started]]]
  have s7: "scheduler_reachable ?s7" by simp
  let ?s8 = "?s7\<lparr>lw_db := snd stale_finished, lw_finalized := [(''a'', 1), (''a'', 1)]\<rparr>"
  have "scheduler_reachable ?s8"
    using scheduler_finishes [OF s7, of ?j3 "''w3''" "sample_run ''r2'' ''a'' 1 RunCompleted" None None stale_finished] s6(2,3) stale_values(7)
    by (simp add: stale_finished_def sample_run_def)
  moreover have "map r_status (runs_table (snd stale_finished)) = [RunFailed, RunCompleted]" by code_simp
  ultimately show ?thesis by (intro exI [of _ ?s8]) simp
qed

end
