(* ===== verification/Store_Repository.thy ===== *)
theory Store_Repository
  imports Store_State
begin

text \<open>
  The goblin repository of \<^verbatim>\<open>src/src/goblin_king/store.py\<close>: entries, their numbered source
  versions, and the review states both go through. Every method of the class that touches
  \<^verbatim>\<open>repository_entries\<close> or \<^verbatim>\<open>repository_versions\<close> is an operation here; \<open>run_command\<close> runs any
  of the seven that write. The locale \<open>status_machine\<close> is the contract of a review state table;
  \<^verbatim>\<open>REPOSITORY_STATUS_TRANSITIONS\<close> is its instance. The unique index on active names that
  \<^verbatim>\<open>store_migrations.py\<close> creates is checked by \<open>write_entries\<close>.
\<close>

section \<open>The review states\<close>

fun REPOSITORY_STATUS_TRANSITIONS :: "repository_entry_status \<Rightarrow> repository_entry_status list" where
  "REPOSITORY_STATUS_TRANSITIONS Draft = [Validated, Rejected, Retired]"
| "REPOSITORY_STATUS_TRANSITIONS Validated = [PendingReview, Rejected, Retired]"
| "REPOSITORY_STATUS_TRANSITIONS PendingReview = [Approved, Rejected, Retired]"
| "REPOSITORY_STATUS_TRANSITIONS Approved = [Published, Rejected, Retired]"
| "REPOSITORY_STATUS_TRANSITIONS Published = [Retired]"
| "REPOSITORY_STATUS_TRANSITIONS Rejected = [Retired]"
| "REPOSITORY_STATUS_TRANSITIONS Retired = []"

definition value_error :: "string \<Rightarrow> error" where
  "value_error m = Raise ValueError m"

definition validate_repository_transition ::
  "repository_entry_status \<Rightarrow> repository_entry_status \<Rightarrow> unit result" where
  "validate_repository_transition current target =
     (if current = target then Inr ()
      else if target \<in> set (REPOSITORY_STATUS_TRANSITIONS current) then Inr ()
      else Inl (value_error (''cannot transition repository record from '' @
             repository_status_text current @ '' to '' @ repository_status_text target)))"

section \<open>Entries\<close>

text \<open>
  The unique index on \<^verbatim>\<open>(COALESCE(project_id, ''), name)\<close> over entries that are not retired.
\<close>

definition active_name_key :: "repository_entry_record \<Rightarrow> string \<times> string" where
  "active_name_key e = (case re_project_id e of None \<Rightarrow> '''' | Some p \<Rightarrow> p, re_name e)"

definition active_names_ok :: "repository_entry_record table \<Rightarrow> bool" where
  "active_names_ok t = distinct (map active_name_key (filter (\<lambda>e. re_status e \<noteq> Retired) t))"

definition write_entries :: "repository_entry_record table \<Rightarrow> (db, unit) op" where
  "write_entries t = (\<lambda>d.
     if active_names_ok t then (Inr (), d\<lparr>repository_entries_table := t\<rparr>)
     else (Inl (Raise IntegrityError
            ''UNIQUE constraint failed: index uq_repository_entries_active_project_name''), d))"

definition insert_entry :: "repository_entry_record \<Rightarrow> (db, unit) op" where
  "insert_entry row = (\<lambda>d.
     case insert_row ''repository_entries.id'' re_id row (repository_entries_table d) of
       Inl e \<Rightarrow> (Inl e, d)
     | Inr t \<Rightarrow> write_entries t d)"

definition update_entries ::
  "(repository_entry_record \<Rightarrow> bool) \<Rightarrow> (repository_entry_record \<Rightarrow> repository_entry_record) \<Rightarrow> (db, unit) op" where
  "update_entries P f = (\<lambda>d. write_entries (update_where P f (repository_entries_table d)) d)"

definition get_repository_entry :: "db \<Rightarrow> string \<Rightarrow> repository_entry_record option" where
  "get_repository_entry d entry_id =
     map_option row_to_repository_entry (by_key re_id entry_id (repository_entries_table d))"

definition reload_entry :: "string \<Rightarrow> (db, repository_entry_record) op" where
  "reload_entry entry_id = (\<lambda>d.
     case get_repository_entry d entry_id of
       None \<Rightarrow> (Inl (Raise AssertionError ''''), d)
     | Some loaded \<Rightarrow> (Inr loaded, d))"

definition ensure_repository_entry_name_available ::
  "string option \<Rightarrow> string \<Rightarrow> string option \<Rightarrow> db \<Rightarrow> unit result" where
  "ensure_repository_entry_name_available project_id name exclude_entry_id d =
     (if select_where (\<lambda>e. re_name e = name \<and> re_status e \<noteq> Retired \<and> re_project_id e = project_id \<and>
            (case exclude_entry_id of None \<Rightarrow> True | Some i \<Rightarrow> re_id e \<noteq> i)) (repository_entries_table d) = []
      then Inr () else Inl (value_error ''repository entry name already exists in project''))"

definition require_repository_version_status ::
  "string \<Rightarrow> int \<Rightarrow> repository_entry_status \<Rightarrow> db \<Rightarrow> unit result" where
  "require_repository_version_status entry_id version status d =
     (if map_option rv_status (by_key (\<lambda>v. (rv_entry_id v, rv_version v)) (entry_id, version)
           (repository_versions_table d)) = Some status
      then Inr ()
      else Inl (value_error (''repository version '' @ str_int version @ '' is not '' @
             repository_status_text status)))"

definition require :: "(db \<Rightarrow> unit result) \<Rightarrow> (db, unit) op" where
  "require c = (\<lambda>d. (c d, d))"

definition create_repository_entry :: "repository_entry_record \<Rightarrow> (db, repository_entry_record) op" where
  "create_repository_entry entry =
     (if re_status entry \<noteq> Draft then throw (value_error ''repository entries must start as drafts'')
      else if re_published_version entry \<noteq> None
      then throw (value_error ''draft repository entries cannot be published'')
      else bind (atomically
             (bind (require (ensure_repository_entry_name_available (re_project_id entry) (re_name entry) None))
                (\<lambda>_. insert_entry (repository_entry_to_row entry))))
             (\<lambda>_. reload_entry (re_id entry)))"

definition update_repository_entry :: "repository_entry_record \<Rightarrow> (db, repository_entry_record) op" where
  "update_repository_entry entry = (\<lambda>d.
     case get_repository_entry d (re_id entry) of
       None \<Rightarrow> (Inl (value_error (''repository entry not found: '' @ re_id entry)), d)
     | Some existing \<Rightarrow>
         bind (require (\<lambda>_. validate_repository_transition (re_status existing) (re_status entry))) (\<lambda>_.
         if re_status entry = Published \<and> re_published_version entry = None
         then throw (value_error ''published repository entries require a published version'')
         else bind (atomically
           (bind (require (\<lambda>d. if (re_project_id entry, re_name entry) \<noteq> (re_project_id existing, re_name existing)
                             then ensure_repository_entry_name_available (re_project_id entry)
                                    (re_name entry) (Some (re_id entry)) d
                             else Inr ())) (\<lambda>_.
            bind (require (\<lambda>d. case re_published_version entry of None \<Rightarrow> Inr ()
                             | Some v \<Rightarrow> require_repository_version_status (re_id entry) v Published d)) (\<lambda>_.
            update_entries (\<lambda>e. re_id e = re_id entry) (\<lambda>_. repository_entry_to_row entry)))))
           (\<lambda>_. reload_entry (re_id entry))) d)"

definition get_repository_entry_by_project_name ::
  "db \<Rightarrow> string option \<Rightarrow> string \<Rightarrow> bool \<Rightarrow> repository_entry_record option" where
  "get_repository_entry_by_project_name d project_id name include_retired =
     map_option row_to_repository_entry (first_row
       (order_by (\<lambda>e. - dt_wall (re_updated_at e))
         (select_where (\<lambda>e. re_name e = name \<and> re_project_id e = project_id \<and>
              (include_retired \<or> re_status e \<noteq> Retired)) (repository_entries_table d))))"

definition list_repository_entries ::
  "db \<Rightarrow> string option \<Rightarrow> repository_entry_status option \<Rightarrow> repository_goblin_type option \<Rightarrow> bool \<Rightarrow>
   repository_entry_record list" where
  "list_repository_entries d project_id status entry_type include_retired =
     map row_to_repository_entry (order_by (\<lambda>e. (re_project_id e, re_name e))
       (select_where (\<lambda>e.
          (case project_id of None \<Rightarrow> True | Some p \<Rightarrow> re_project_id e = Some p) \<and>
          (case status of Some s \<Rightarrow> re_status e = s
           | None \<Rightarrow> include_retired \<or> re_status e \<noteq> Retired) \<and>
          opt_eq entry_type (re_type e)) (repository_entries_table d)))"

text \<open>\<^verbatim>\<open>published_version or existing.published_version\<close>: zero counts as absent.\<close>

definition or_int :: "int option \<Rightarrow> int option \<Rightarrow> int option" where
  "or_int a b = (case a of None \<Rightarrow> b | Some i \<Rightarrow> if i = 0 then b else Some i)"

definition transition_repository_entry_status ::
  "string \<Rightarrow> repository_entry_status \<Rightarrow> datetime \<Rightarrow> int option \<Rightarrow> (db, repository_entry_record) op" where
  "transition_repository_entry_status entry_id status updated_at published_version = (\<lambda>d.
     case get_repository_entry d entry_id of
       None \<Rightarrow> (Inl (value_error (''repository entry not found: '' @ entry_id)), d)
     | Some existing \<Rightarrow>
         bind (require (\<lambda>_. validate_repository_transition (re_status existing) status)) (\<lambda>_.
         bind (if status = Published
               then (case or_int published_version (re_published_version existing) of
                       None \<Rightarrow> throw (value_error ''published repository entries require a published version'')
                     | Some version \<Rightarrow> atomically
                         (bind (require (require_repository_version_status entry_id version Published))
                           (\<lambda>_. update_entries (\<lambda>e. re_id e = entry_id)
                              (\<lambda>e. e\<lparr>re_status := status, re_updated_at := db_datetime updated_at,
                                     re_published_version := Some version\<rparr>))))
               else update_entries (\<lambda>e. re_id e = entry_id)
                      (\<lambda>e. e\<lparr>re_status := status, re_updated_at := db_datetime updated_at,
                             re_published_version :=
                               (case published_version of None \<Rightarrow> re_published_version e | Some v \<Rightarrow> Some v)\<rparr>))
           (\<lambda>_. reload_entry entry_id)) d)"

record deletion_report =
  del_entry_id :: string
  del_name :: string
  del_status :: repository_entry_status
  deleted_versions :: nat
  deleted_notebook_records :: nat

definition delete_repository_entry :: "string \<Rightarrow> (db, deletion_report) op" where
  "delete_repository_entry entry_id = (\<lambda>d.
     case get_repository_entry d entry_id of
       None \<Rightarrow> (Inl (value_error (''repository entry not found: '' @ entry_id)), d)
     | Some entry \<Rightarrow>
         if re_status entry \<notin> {Draft, Rejected, Retired}
         then (Inl (value_error ''repository entries must be draft, rejected, or retired before deletion''), d)
         else
           let version_kinds = map rv_kind
                 (select_where (\<lambda>v. rv_entry_id v = entry_id) (repository_versions_table d))
           in if re_type entry = NotebookService \<and> version_kinds \<noteq> [] \<and>
                 select_where (\<lambda>s. ns_kind s \<in> set version_kinds \<and> ns_active_service_id s \<noteq> None)
                   (notebook_services_table d) \<noteq> []
              then (Inl (value_error ''repository entry has an active service runtime; stop it before deleting''), d)
              else
                (Inr \<lparr>del_entry_id = re_id entry, del_name = re_name entry, del_status = re_status entry,
                      deleted_versions =
                        rowcount (\<lambda>v. rv_entry_id v = entry_id) (repository_versions_table d),
                      deleted_notebook_records =
                        (if version_kinds = [] then 0
                         else if re_type entry = NotebookFunction
                         then rowcount (\<lambda>n. ng_kind n \<in> set version_kinds) (notebook_goblins_table d)
                         else rowcount (\<lambda>n. ns_kind n \<in> set version_kinds) (notebook_services_table d))\<rparr>,
                 d\<lparr>notebook_goblins_table :=
                     (if re_type entry = NotebookFunction
                      then delete_where (\<lambda>n. ng_kind n \<in> set version_kinds) (notebook_goblins_table d)
                      else notebook_goblins_table d),
                   notebook_services_table :=
                     (if re_type entry = NotebookFunction then notebook_services_table d
                      else delete_where (\<lambda>n. ns_kind n \<in> set version_kinds) (notebook_services_table d)),
                   repository_versions_table :=
                     delete_where (\<lambda>v. rv_entry_id v = entry_id) (repository_versions_table d),
                   repository_entries_table :=
                     delete_where (\<lambda>e. re_id e = entry_id) (repository_entries_table d)\<rparr>))"

section \<open>Versions\<close>

abbreviation version_slot :: "repository_version_record \<Rightarrow> string \<times> int" where
  "version_slot v \<equiv> (rv_entry_id v, rv_version v)"

definition get_repository_version :: "db \<Rightarrow> string \<Rightarrow> int \<Rightarrow> repository_version_record option" where
  "get_repository_version d entry_id version =
     map_option row_to_repository_version
       (by_key version_slot (entry_id, version) (repository_versions_table d))"

definition get_repository_version_by_project_name ::
  "db \<Rightarrow> string option \<Rightarrow> string \<Rightarrow> int \<Rightarrow> bool \<Rightarrow> repository_version_record option" where
  "get_repository_version_by_project_name d project_id name version include_retired =
     (case get_repository_entry_by_project_name d project_id name include_retired of
        None \<Rightarrow> None
      | Some entry \<Rightarrow> get_repository_version d (re_id entry) version)"

definition list_repository_versions ::
  "db \<Rightarrow> string \<Rightarrow> repository_entry_status option \<Rightarrow> repository_version_record list" where
  "list_repository_versions d entry_id status =
     map row_to_repository_version (order_by rv_version
       (select_where (\<lambda>v. rv_entry_id v = entry_id \<and> opt_eq status (rv_status v))
          (repository_versions_table d)))"

definition reload_version :: "string \<Rightarrow> int \<Rightarrow> (db, repository_version_record) op" where
  "reload_version entry_id version = (\<lambda>d.
     case get_repository_version d entry_id version of
       None \<Rightarrow> (Inl (Raise AssertionError ''''), d)
     | Some loaded \<Rightarrow> (Inr loaded, d))"

text \<open>The primary key and the unique constraint on \<^verbatim>\<open>(entry_id, version)\<close>.\<close>

definition insert_version :: "repository_version_record \<Rightarrow> (db, unit) op" where
  "insert_version row = (\<lambda>d.
     if version_slot row \<in> version_slot ` set (repository_versions_table d)
     then (Inl (Raise IntegrityError
            ''UNIQUE constraint failed: repository_versions.entry_id, repository_versions.version''), d)
     else insert_into repository_versions_table_update
            (insert_row ''repository_versions.id'' rv_id row (repository_versions_table d)) d)"

definition latest_version :: "string \<Rightarrow> db \<Rightarrow> repository_version_record option" where
  "latest_version entry_id d =
     first_row (order_by (\<lambda>v. - rv_version v)
       (select_where (\<lambda>v. rv_entry_id v = entry_id) (repository_versions_table d)))"

definition next_version_allowed :: "repository_version_record \<Rightarrow> db \<Rightarrow> unit result" where
  "next_version_allowed version d =
     (case latest_version (rv_entry_id version) d of
        None \<Rightarrow> if rv_version version \<noteq> 1 then Inl (value_error ''first repository version must be 1'')
                else Inr ()
      | Some latest \<Rightarrow>
          if rv_version version \<noteq> rv_version latest + 1
          then Inl (value_error ''repository source changes must create the next sequential version'')
          else if rv_source_hash version = rv_source_hash latest
          then Inl (value_error ''repository version source hash must change'')
          else Inr ())"

definition create_repository_version :: "repository_version_record \<Rightarrow> (db, repository_version_record) op" where
  "create_repository_version version =
     (if rv_status version \<noteq> Draft \<or> rv_approval_status version \<noteq> Draft
      then throw (value_error ''repository versions must start as drafts'')
      else if rv_approved_by version \<noteq> None \<or> rv_approved_at version \<noteq> None
      then throw (value_error ''draft repository versions cannot keep approval'')
      else if rv_published_at version \<noteq> None
      then throw (value_error ''draft repository versions cannot be published'')
      else bind (atomically
        (bind (require (\<lambda>d. case by_key re_id (rv_entry_id version) (repository_entries_table d) of
             None \<Rightarrow> Inl (value_error (''repository entry not found: '' @ rv_entry_id version))
           | Some entry \<Rightarrow> if re_status entry = Retired
               then Inl (value_error ''retired repository entries cannot receive new versions'')
               else Inr ())) (\<lambda>_.
         bind (require (next_version_allowed version)) (\<lambda>_.
         bind (require (\<lambda>d. if by_key version_slot (version_slot version) (repository_versions_table d) \<noteq> None
             then Inl (value_error ''repository version already exists'') else Inr ())) (\<lambda>_.
         bind (insert_version (repository_version_to_row version)) (\<lambda>_.
         update_entries (\<lambda>e. re_id e = rv_entry_id version)
           (\<lambda>e. e\<lparr>re_status := Draft, re_updated_at := db_datetime (rv_updated_at version)\<rparr>)))))))
        (\<lambda>_. reload_version (rv_entry_id version) (rv_version version)))"

text \<open>
  \<^verbatim>\<open>getattr(existing, field) != getattr(version, field)\<close> over
  \<^verbatim>\<open>REPOSITORY_VERSION_IDENTITY_FIELDS\<close>. Two aware datetimes are equal when they are the same
  instant, a naive one never equals an aware one.
\<close>

fun datetime_eq :: "datetime \<Rightarrow> datetime \<Rightarrow> bool" where
  "datetime_eq (Naive a) (Naive b) = (a = b)"
| "datetime_eq (Aware a o1) (Aware b o2) = (a - o1 = b - o2)"
| "datetime_eq _ _ = False"

definition same_version_identity :: "repository_version_record \<Rightarrow> repository_version_record \<Rightarrow> bool" where
  "same_version_identity existing version \<longleftrightarrow>
     rv_entry_id existing = rv_entry_id version \<and> rv_version existing = rv_version version \<and>
     rv_kind existing = rv_kind version \<and> rv_source_hash existing = rv_source_hash version \<and>
     rv_runner_image existing = rv_runner_image version \<and>
     datetime_eq (rv_created_at existing) (rv_created_at version)"

definition ensure_repository_version_publishable :: "repository_version_record \<Rightarrow> unit result" where
  "ensure_repository_version_publishable record =
     (if rv_status record \<noteq> Published then Inr ()
      else if rv_approval_status record \<notin> {Approved, Published}
      then Inl (value_error ''published repository versions require approval'')
      else if rv_approved_by record = None \<or> rv_approved_at record = None
      then Inl (value_error ''published repository versions require approval'')
      else if rv_published_at record = None
      then Inl (value_error ''published repository versions require a publication timestamp'')
      else Inr ())"

definition source_change_allowed :: "repository_version_record \<Rightarrow> repository_version_record \<Rightarrow> unit result" where
  "source_change_allowed existing version =
     (if rv_source_hash existing = rv_source_hash version then Inr ()
      else if rv_status existing \<noteq> Draft
      then Inl (value_error ''source changes must create a new draft version'')
      else if rv_status version \<noteq> Draft \<or> rv_approval_status version \<noteq> Draft \<or>
              json_truthy (rv_validation_proof version) \<or> rv_approved_by version \<noteq> None \<or>
              rv_approved_at version \<noteq> None \<or> rv_published_at version \<noteq> None
      then Inl (value_error ''source changes must clear review state'')
      else Inr ())"

definition update_repository_version :: "repository_version_record \<Rightarrow> (db, repository_version_record) op" where
  "update_repository_version version = (\<lambda>d.
     case by_key rv_id (rv_id version) (repository_versions_table d) of
       None \<Rightarrow> (Inl (value_error (''repository version not found: '' @ rv_id version)), d)
     | Some row \<Rightarrow>
         let existing = row_to_repository_version row in
         if rv_status existing = Published
         then (Inl (value_error ''published repository versions are immutable''), d)
         else if \<not> same_version_identity existing version
         then (Inl (value_error ''repository version identity cannot change''), d)
         else
           bind (require (\<lambda>_. validate_repository_transition (rv_status existing) (rv_status version))) (\<lambda>_.
           bind (require (\<lambda>_. source_change_allowed existing version)) (\<lambda>_.
           bind (atomically
             (bind (require (\<lambda>_. if rv_status version = Published
                                 then ensure_repository_version_publishable version else Inr ())) (\<lambda>_.
              bind (modify (repository_versions_table_update
                (update_where (\<lambda>v. rv_id v = rv_id version) (\<lambda>_. repository_version_to_row version)))) (\<lambda>_.
              if rv_status version = Published
              then update_entries (\<lambda>e. re_id e = rv_entry_id version)
                     (\<lambda>e. e\<lparr>re_status := Published, re_published_version := Some (rv_version version),
                            re_updated_at := db_datetime (rv_updated_at version)\<rparr>)
              else return ()))))
             (\<lambda>_. reload_version (rv_entry_id version) (rv_version version)))) d)"

section \<open>Version transitions\<close>

record transition_args =
  ta_updated_at :: datetime
  ta_validation_proof :: "json option"
  ta_approved_by :: "string option"
  ta_approved_at :: "datetime option"
  ta_published_at :: "datetime option"

text \<open>The first of several optional values that is given, Python's \<^verbatim>\<open>a or b\<close> on datetimes.\<close>

fun or_given :: "'a option \<Rightarrow> 'a option \<Rightarrow> 'a option" where
  "or_given (Some a) b = Some a"
| "or_given None b = b"

text \<open>The branch on the target status: the column values it writes, or its error.\<close>

definition transition_values ::
  "repository_version_record \<Rightarrow> repository_entry_status \<Rightarrow> transition_args \<Rightarrow>
   (repository_version_record \<Rightarrow> repository_version_record) result" where
  "transition_values existing status a =
     (let base = (\<lambda>v. v\<lparr>rv_status := status, rv_updated_at := db_datetime (ta_updated_at a),
            rv_validation_proof := (case ta_validation_proof a of None \<Rightarrow> rv_validation_proof v | Some p \<Rightarrow> p)\<rparr>);
          approver = or_text (ta_approved_by a) (rv_approved_by existing);
          approved_time = or_given (ta_approved_at a) (rv_approved_at existing)
      in case status of
           Draft \<Rightarrow> Inr (\<lambda>v. (base v)\<lparr>rv_approval_status := Draft, rv_approved_by := None,
             rv_approved_at := None, rv_validation_proof := JObj [], rv_published_at := None\<rparr>)
         | Rejected \<Rightarrow> Inr (\<lambda>v. (base v)\<lparr>rv_approval_status := Rejected, rv_approved_by := None,
             rv_approved_at := None\<rparr>)
         | Retired \<Rightarrow> Inr (\<lambda>v. (base v)\<lparr>rv_approval_status := Retired, rv_approved_by := None,
             rv_approved_at := None\<rparr>)
         | Validated \<Rightarrow>
             (let proof_doc = (case ta_validation_proof a of None \<Rightarrow> rv_validation_proof existing | Some p \<Rightarrow> p) in
              if \<not> json_truthy proof_doc
              then Inl (value_error ''validated repository versions require validation proof'')
              else Inr (\<lambda>v. (base v)\<lparr>rv_approval_status := Validated, rv_validation_proof := proof_doc\<rparr>))
         | PendingReview \<Rightarrow> Inr (\<lambda>v. (base v)\<lparr>rv_approval_status := PendingReview\<rparr>)
         | Approved \<Rightarrow>
             if \<not> truthy_text approver
             then Inl (value_error ''approved repository versions require an approver'')
             else Inr (\<lambda>v. (base v)\<lparr>rv_approval_status := Approved, rv_approved_by := approver,
               rv_approved_at := db_opt (or_given approved_time (Some (ta_updated_at a)))\<rparr>)
         | Published \<Rightarrow>
             if \<not> truthy_text approver \<or> approved_time = None
             then Inl (value_error ''published repository versions require approval'')
             else Inr (\<lambda>v. (base v)\<lparr>rv_approval_status := Published, rv_approved_by := approver,
               rv_approved_at := db_opt approved_time,
               rv_published_at := db_opt (or_given (ta_published_at a) (Some (ta_updated_at a)))\<rparr>))"

definition transition_entry_values ::
  "repository_entry_status \<Rightarrow> int \<Rightarrow> transition_args \<Rightarrow> repository_entry_record \<Rightarrow> repository_entry_record" where
  "transition_entry_values status version a e =
     e\<lparr>re_status := status, re_updated_at := db_datetime (ta_updated_at a),
       re_published_version := (if status = Published then Some version else re_published_version e)\<rparr>"

definition transition_repository_version_status ::
  "string \<Rightarrow> int \<Rightarrow> repository_entry_status \<Rightarrow> transition_args \<Rightarrow> (db, repository_version_record) op" where
  "transition_repository_version_status entry_id version status a = (\<lambda>d.
     case get_repository_version d entry_id version of
       None \<Rightarrow> (Inl (value_error (''repository version not found: '' @ entry_id @ '':'' @ str_int version)), d)
     | Some existing \<Rightarrow>
         if rv_status existing = Published
         then (if status = Published then (Inr existing, d)
               else (Inl (value_error ''published repository versions are immutable''), d))
         else
           bind (require (\<lambda>_. validate_repository_transition (rv_status existing) status)) (\<lambda>_.
           bind (lift_result (transition_values existing status a)) (\<lambda>values.
           bind (atomically
             (bind (modify (repository_versions_table_update
                (update_where (\<lambda>v. version_slot v = (entry_id, version)) values))) (\<lambda>_.
              update_entries (\<lambda>e. re_id e = entry_id) (transition_entry_values status version a))))
             (\<lambda>_. reload_version entry_id version))) d)"

section \<open>Any repository write\<close>

datatype repository_command =
    CreateEntry repository_entry_record
  | UpdateEntry repository_entry_record
  | TransitionEntry string repository_entry_status datetime "int option"
  | DeleteEntry string
  | CreateVersion repository_version_record
  | UpdateVersion repository_version_record
  | TransitionVersion string int repository_entry_status transition_args

fun run_command :: "repository_command \<Rightarrow> db \<Rightarrow> db" where
  "run_command (CreateEntry e) d = snd (create_repository_entry e d)"
| "run_command (UpdateEntry e) d = snd (update_repository_entry e d)"
| "run_command (TransitionEntry i s u p) d = snd (transition_repository_entry_status i s u p d)"
| "run_command (DeleteEntry i) d = snd (delete_repository_entry i d)"
| "run_command (CreateVersion v) d = snd (create_repository_version v d)"
| "run_command (UpdateVersion v) d = snd (update_repository_version v d)"
| "run_command (TransitionVersion i n s a) d = snd (transition_repository_version_status i n s a d)"

text \<open>An entry with a published first version and a draft second one, for concrete instances.\<close>

definition sample_entry :: repository_entry_record where
  "sample_entry = \<lparr>re_id = ''e1'', re_name = ''tool'', re_kind = ''repo.tool'', re_type = NotebookFunction,
     re_project_id = Some ''p1'', re_owner = ''ann'', re_display_name = ''Tool'', re_description = None,
     re_tags = [], re_status = Draft, re_published_version = None, re_created_at = utc 1, re_updated_at = utc 1\<rparr>"

definition sample_version :: "int \<Rightarrow> repository_version_record" where
  "sample_version n = \<lparr>rv_id = ''v'' @ str_int n, rv_entry_id = ''e1'', rv_version = n,
     rv_kind = ''repo.tool.v'' @ str_int n, rv_source_hash = ''h'' @ str_int n, rv_runner_image = ''img'',
     rv_validation_proof = JObj [], rv_approval_status = Draft, rv_status = Draft, rv_approved_by = None,
     rv_approved_at = None, rv_published_at = None, rv_created_at = utc 2, rv_updated_at = utc 2\<rparr>"

definition review_args :: transition_args where
  "review_args = \<lparr>ta_updated_at = utc 9, ta_validation_proof = Some (JObj [(''ok'', JBool True)]),
     ta_approved_by = Some ''bob'', ta_approved_at = None, ta_published_at = None\<rparr>"

definition publish_first :: "repository_command list" where
  "publish_first = [CreateEntry sample_entry, CreateVersion (sample_version 1),
     TransitionVersion ''e1'' 1 Validated review_args, TransitionVersion ''e1'' 1 PendingReview review_args,
     TransitionVersion ''e1'' 1 Approved review_args, TransitionVersion ''e1'' 1 Published review_args]"

definition published_then_draft :: db where
  "published_then_draft = fold run_command (publish_first @ [CreateVersion (sample_version 2)]) empty_db"

definition retired_entry_db :: db where
  "retired_entry_db = fold run_command [CreateEntry sample_entry, CreateVersion (sample_version 1),
     TransitionEntry ''e1'' Retired (utc 5) None] empty_db"

section \<open>The contract of a review state table\<close>

definition status_moves :: "('s \<Rightarrow> 's set) \<Rightarrow> ('s \<times> 's) set" where
  "status_moves allowed = {(s, t). t \<in> allowed s}"

locale status_machine =
  fixes allowed :: "'s \<Rightarrow> 's set"
    and rank :: "'s \<Rightarrow> nat"
  assumes descends: "t \<in> allowed s \<Longrightarrow> rank t < rank s"
begin

lemma moves_descend: "(s, t) \<in> (status_moves allowed)\<^sup>+ \<Longrightarrow> rank t < rank s"
  by (induction rule: trancl_induct) (auto simp: status_moves_def dest: descends)

lemma never_returns: "(s, t) \<in> (status_moves allowed)\<^sup>+ \<Longrightarrow> (t, s) \<notin> (status_moves allowed)\<^sup>*"
  using moves_descend by (metis less_asym rtranclD less_irrefl)

lemma final_stays: "rank s = 0 \<Longrightarrow> (s, t) \<in> (status_moves allowed)\<^sup>* \<Longrightarrow> t = s"
  using moves_descend by (metis less_zeroE rtranclD)

lemma moves_bounded: "(s, t) \<in> (status_moves allowed) ^^ n \<Longrightarrow> n + rank t \<le> rank s"
proof (induction n arbitrary: t)
  case (Suc n)
  then obtain u where "(s, u) \<in> (status_moves allowed) ^^ n" "(u, t) \<in> status_moves allowed" by auto
  then have "n + rank u \<le> rank s" "rank t < rank u"
    using Suc.IH descends by (auto simp: status_moves_def)
  then show ?case by simp
qed simp

end

primrec review_rank :: "repository_entry_status \<Rightarrow> nat" where
  "review_rank Draft = 5"
| "review_rank Validated = 4"
| "review_rank PendingReview = 3"
| "review_rank Approved = 2"
| "review_rank Published = 1"
| "review_rank Rejected = 1"
| "review_rank Retired = 0"

abbreviation review_moves :: "(repository_entry_status \<times> repository_entry_status) set" where
  "review_moves \<equiv> status_moves (\<lambda>s. set (REPOSITORY_STATUS_TRANSITIONS s))"

interpretation review: status_machine "\<lambda>s. set (REPOSITORY_STATUS_TRANSITIONS s)" review_rank
proof unfold_locales
  fix s t assume "t \<in> set (REPOSITORY_STATUS_TRANSITIONS s)"
  then show "review_rank t < review_rank s" by (cases s) auto
qed

lemma validate_transition_iff:
  "validate_repository_transition s t = Inr () \<longleftrightarrow> (s, t) \<in> review_moves\<^sup>="
  by (auto simp: validate_repository_transition_def status_moves_def)

section \<open>What a command does to the versions\<close>

definition approval_recorded :: "repository_version_record \<Rightarrow> bool" where
  "approval_recorded v \<longleftrightarrow> (rv_status v = Published \<longrightarrow>
     rv_approval_status v \<in> {Approved, Published} \<and> rv_approved_by v \<noteq> None \<and>
     rv_approved_at v \<noteq> None \<and> rv_published_at v \<noteq> None)"

inductive version_step ::
  "string option \<Rightarrow> repository_version_record table \<Rightarrow> repository_version_record table \<Rightarrow> bool" where
  same: "version_step erased t t"
| erase: "version_step (Some i) t (delete_where (\<lambda>v. rv_entry_id v = i) t)"
| append: "rv_status v = Draft \<Longrightarrow> rv_id v \<notin> rv_id ` set t \<Longrightarrow> version_slot v \<notin> version_slot ` set t \<Longrightarrow>
     (\<forall>w\<in>set t. rv_entry_id w \<noteq> rv_entry_id v) \<and> rv_version v = 1 \<or>
     (\<exists>w\<in>set t. rv_entry_id w = rv_entry_id v \<and> rv_version v = rv_version w + 1 \<and>
        rv_source_hash v \<noteq> rv_source_hash w \<and>
        (\<forall>u\<in>set t. rv_entry_id u = rv_entry_id v \<longrightarrow> rv_version u \<le> rv_version w)) \<Longrightarrow>
     version_step None t (t @ [v])"
| review: "row \<in> set t \<Longrightarrow> rv_status row \<noteq> Published \<Longrightarrow>
     (rv_status row, rv_status row') \<in> review_moves\<^sup>= \<Longrightarrow> rv_id row' = rv_id row \<Longrightarrow>
     version_slot row' = version_slot row \<Longrightarrow> rv_source_hash row' = rv_source_hash row \<Longrightarrow>
     approval_recorded row' \<Longrightarrow>
     version_step None t (update_where (\<lambda>v. rv_id v = rv_id row) (\<lambda>_. row') t)"

lemmas repo_defs = bind_def atomically_def require_def throw_def return_def modify_def lift_result_def
  update_entries_def write_entries_def insert_entry_def reload_entry_def reload_version_def

lemma row_to_version_frame [simp]:
  "rv_status (row_to_repository_version r) = rv_status r"
  "rv_entry_id (row_to_repository_version r) = rv_entry_id r"
  "rv_version (row_to_repository_version r) = rv_version r"
  "rv_id (row_to_repository_version r) = rv_id r"
  "rv_source_hash (row_to_repository_version r) = rv_source_hash r"
  by (simp_all add: row_to_repository_version_def)

lemma version_to_row_frame [simp]:
  "rv_status (repository_version_to_row r) = rv_status r"
  "rv_entry_id (repository_version_to_row r) = rv_entry_id r"
  "rv_version (repository_version_to_row r) = rv_version r"
  "rv_id (repository_version_to_row r) = rv_id r"
  "rv_source_hash (repository_version_to_row r) = rv_source_hash r"
  by (simp_all add: repository_version_to_row_def)

lemma entry_commands_keep_versions:
  "repository_versions_table (run_command (CreateEntry e) d) = repository_versions_table d"
  "repository_versions_table (run_command (UpdateEntry e) d) = repository_versions_table d"
  "repository_versions_table (run_command (TransitionEntry i s u p) d) = repository_versions_table d"
  by (simp_all add: create_repository_entry_def update_repository_entry_def
      transition_repository_entry_status_def repo_defs Let_def split: option.split sum.split)

lemma delete_command_versions:
  "version_step (Some i) (repository_versions_table d) (repository_versions_table (run_command (DeleteEntry i) d))"
  by (auto simp: delete_repository_entry_def Let_def split: option.split intro: version_step.intros)

lemma next_version_cases:
  assumes "next_version_allowed v d = Inr ()"
  shows "(\<forall>w\<in>set (repository_versions_table d). rv_entry_id w \<noteq> rv_entry_id v) \<and> rv_version v = 1 \<or>
     (\<exists>w\<in>set (repository_versions_table d). rv_entry_id w = rv_entry_id v \<and> rv_version v = rv_version w + 1 \<and>
        rv_source_hash v \<noteq> rv_source_hash w \<and>
        (\<forall>u\<in>set (repository_versions_table d). rv_entry_id u = rv_entry_id v \<longrightarrow> rv_version u \<le> rv_version w))"
proof (cases "latest_version (rv_entry_id v) d")
  case None
  then have "select_where (\<lambda>w. rv_entry_id w = rv_entry_id v) (repository_versions_table d) = []"
    by (simp add: latest_version_def first_row_None_iff) (metis set_empty set_order_by)
  then show ?thesis using assms None
    by (auto simp: next_version_allowed_def select_where_def filter_empty_conv split: if_splits)
next
  case (Some w)
  note top = first_row_desc [OF Some [unfolded latest_version_def]]
  have "w \<in> set (repository_versions_table d)" "rv_entry_id w = rv_entry_id v"
    using top(1) by (auto simp: select_where_def)
  moreover have "rv_version u \<le> rv_version w"
    if "u \<in> set (repository_versions_table d)" "rv_entry_id u = rv_entry_id v" for u
    using top(2) that by (simp add: select_where_def)
  ultimately show ?thesis using assms Some
    by (intro disjI2 bexI [of _ w]) (auto simp: next_version_allowed_def split: if_splits)
qed

lemma create_command_versions:
  "version_step None (repository_versions_table d) (repository_versions_table (run_command (CreateVersion v) d))"
proof (cases "repository_versions_table (run_command (CreateVersion v) d) = repository_versions_table d")
  case True
  then show ?thesis by (simp add: version_step.same)
next
  case False
  let ?t = "repository_versions_table d" and ?r = "repository_version_to_row v"
  have next_ok: "next_version_allowed v d = Inr ()"
    using False by (auto simp: create_repository_version_def repo_defs insert_version_def
        split: option.splits sum.splits if_splits)
  have "rv_status v = Draft \<and> version_slot v \<notin> version_slot ` set ?t \<and> rv_id v \<notin> rv_id ` set ?t \<and>
      repository_versions_table (run_command (CreateVersion v) d) = ?t @ [?r]"
    using False by (auto simp: create_repository_version_def repo_defs insert_version_def insert_row_def
        split: option.splits sum.splits if_splits)
  then show ?thesis using next_version_cases [OF next_ok] version_step.append [of ?r ?t] by simp
qed

lemma publishable_approval:
  "ensure_repository_version_publishable v = Inr () \<Longrightarrow> approval_recorded (repository_version_to_row v)"
  by (auto simp: ensure_repository_version_publishable_def approval_recorded_def
      repository_version_to_row_def split: if_splits)

lemma unpublished_approval [simp]: "rv_status v \<noteq> Published \<Longrightarrow> approval_recorded v"
  by (simp add: approval_recorded_def)

lemma update_command_versions:
  "version_step None (repository_versions_table d) (repository_versions_table (run_command (UpdateVersion v) d))"
proof (cases "repository_versions_table (run_command (UpdateVersion v) d) = repository_versions_table d")
  case True
  then show ?thesis by (simp add: version_step.same)
next
  case False
  let ?t = "repository_versions_table d" and ?r = "repository_version_to_row v"
  obtain row where row: "by_key rv_id (rv_id v) ?t = Some row"
    using False by (auto simp: update_repository_version_def split: option.splits)
  have st: "rv_status row \<noteq> Published" and same: "same_version_identity (row_to_repository_version row) v"
    and tr: "validate_repository_transition (rv_status row) (rv_status v) = Inr ()"
    using False row by (auto simp: update_repository_version_def Let_def repo_defs split: sum.splits if_splits)
  have eq: "repository_versions_table (run_command (UpdateVersion v) d) =
      update_where (\<lambda>u. rv_id u = rv_id v) (\<lambda>_. ?r) ?t"
    and pub: "rv_status v = Published \<Longrightarrow> ensure_repository_version_publishable v = Inr ()"
    using False row st same
    by (auto simp: update_repository_version_def Let_def repo_defs split: sum.splits if_splits option.splits)
  have id: "rv_id row = rv_id v" and mem: "row \<in> set ?t" using row by (auto dest: by_key_SomeD)
  have "approval_recorded ?r" using pub publishable_approval by (cases "rv_status v = Published") auto
  then show ?thesis
    unfolding eq using version_step.review [OF mem st, of ?r] tr same id
    by (simp add: validate_transition_iff same_version_identity_def)
qed

lemma or_given_Some [simp]: "\<exists>z. or_given a (Some b) = Some z"
  by (cases a) simp_all

lemma transition_values_frame:
  assumes "transition_values existing status a = Inr f"
  shows "rv_id (f v) = rv_id v" and "version_slot (f v) = version_slot v"
    and "rv_source_hash (f v) = rv_source_hash v" and "rv_status (f v) = status"
    and "approval_recorded (f v)"
  using assms
  by (auto simp: transition_values_def Let_def approval_recorded_def truthy_text_def
      split: repository_entry_status.splits if_splits option.splits)

lemma by_key_cong_update:
  "distinct_key k t \<Longrightarrow> distinct_key k' t \<Longrightarrow> row \<in> set t \<Longrightarrow>
   update_where (\<lambda>v. k v = k row) f t = update_where (\<lambda>v. k' v = k' row) (\<lambda>_. f row) t"
  unfolding update_where_def by (rule map_cong [OF refl]) (auto dest: distinct_key_inj)

lemma transition_command_versions:
  assumes "distinct_key rv_id (repository_versions_table d)"
    and "distinct_key version_slot (repository_versions_table d)"
  shows "version_step None (repository_versions_table d)
    (repository_versions_table (run_command (TransitionVersion i n status a) d))"
proof (cases "repository_versions_table (run_command (TransitionVersion i n status a) d) = repository_versions_table d")
  case True
  then show ?thesis by (simp add: version_step.same)
next
  case False
  let ?t = "repository_versions_table d"
  obtain row where row: "by_key version_slot (i, n) ?t = Some row"
    using False
    by (auto simp: transition_repository_version_status_def get_repository_version_def split: option.splits)
  have st: "rv_status row \<noteq> Published"
    and tr: "validate_repository_transition (rv_status row) status = Inr ()"
    using False row by (auto simp: transition_repository_version_status_def get_repository_version_def
        repo_defs split: sum.splits if_splits)
  obtain f where f: "transition_values (row_to_repository_version row) status a = Inr f"
    and eq: "repository_versions_table (run_command (TransitionVersion i n status a) d) =
      update_where (\<lambda>v. version_slot v = (i, n)) f ?t"
    using False row st by (auto simp: transition_repository_version_status_def get_repository_version_def
        repo_defs split: sum.splits if_splits option.splits)
  have slot: "(i, n) = version_slot row" and mem: "row \<in> set ?t" using row by (auto dest: by_key_SomeD)
  have eq': "repository_versions_table (run_command (TransitionVersion i n status a) d) =
      update_where (\<lambda>v. rv_id v = rv_id row) (\<lambda>_. f row) ?t"
    unfolding eq slot by (rule by_key_cong_update) (use assms mem in auto)
  show ?thesis
    unfolding eq' using transition_values_frame [OF f, of row] tr
    by (intro version_step.review) (auto simp: mem st validate_transition_iff)
qed

section \<open>The repository invariant\<close>

text \<open>
  The keys are unique, the versions of an entry are numbered from 1 without gaps, and a published
  version carries its approval.
\<close>

definition repository_ok :: "repository_version_record table \<Rightarrow> bool" where
  "repository_ok t \<longleftrightarrow> distinct_key rv_id t \<and> distinct_key version_slot t \<and>
     (\<forall>v\<in>set t. approval_recorded v) \<and>
     (\<forall>i. \<exists>n. rv_version ` {v \<in> set t. rv_entry_id v = i} = {1..int n})"

fun erases :: "repository_command \<Rightarrow> string option" where
  "erases (DeleteEntry i) = Some i"
| "erases _ = None"

lemma command_version_step:
  assumes "repository_ok (repository_versions_table d)"
  shows "version_step (erases c) (repository_versions_table d) (repository_versions_table (run_command c d))"
proof (cases c)
  case (TransitionVersion i n s a)
  then show ?thesis using transition_command_versions [of d i n s a] assms
    by (simp only: repository_ok_def erases.simps)
qed (simp_all only: erases.simps entry_commands_keep_versions delete_command_versions create_command_versions
    update_command_versions version_step.same)

lemma append_versions:
  assumes "repository_ok t" and "(\<forall>w\<in>set t. rv_entry_id w \<noteq> rv_entry_id v) \<and> rv_version v = 1 \<or>
     (\<exists>w\<in>set t. rv_entry_id w = rv_entry_id v \<and> rv_version v = rv_version w + 1 \<and>
        (\<forall>u\<in>set t. rv_entry_id u = rv_entry_id v \<longrightarrow> rv_version u \<le> rv_version w))"
  shows "\<exists>n. rv_version ` {u \<in> set (t @ [v]). rv_entry_id u = i} = {1..int n}"
proof -
  let ?V = "\<lambda>i. {u \<in> set t. rv_entry_id u = i}"
  have "\<exists>n. rv_version ` ?V i = {1..int n}" using assms(1) by (simp add: repository_ok_def)
  then obtain n where n: "rv_version ` ?V i = {1..int n}" ..
  show ?thesis
  proof (cases "rv_entry_id v = i")
    case False
    then have "{u \<in> set (t @ [v]). rv_entry_id u = i} = ?V i" by auto
    then show ?thesis using n by auto
  next
    case True
    have "rv_version v = int n + 1"
      using assms(2)
    proof
      assume none: "(\<forall>w\<in>set t. rv_entry_id w \<noteq> rv_entry_id v) \<and> rv_version v = 1"
      then have "rv_version ` ?V i = {}" using True by auto
      then have "{1..int n} = {}" unfolding n .
      then show ?thesis using none by auto
    next
      assume "\<exists>w\<in>set t. rv_entry_id w = rv_entry_id v \<and> rv_version v = rv_version w + 1 \<and>
        (\<forall>u\<in>set t. rv_entry_id u = rv_entry_id v \<longrightarrow> rv_version u \<le> rv_version w)"
      then obtain w where w: "w \<in> ?V i" "rv_version v = rv_version w + 1"
        and top: "\<forall>u\<in>?V i. rv_version u \<le> rv_version w" using True by auto
      have "rv_version w \<in> rv_version ` ?V i" using w(1) by (rule imageI)
      then have le: "1 \<le> rv_version w" "rv_version w \<le> int n" unfolding n by simp_all
      then have "int n \<in> rv_version ` ?V i" unfolding n by simp
      then obtain u where "u \<in> ?V i" "int n = rv_version u" by (rule imageE)
      then have "int n \<le> rv_version w" using top by simp
      then show ?thesis using w(2) le by simp
    qed
    moreover have "{u \<in> set (t @ [v]). rv_entry_id u = i} = insert v (?V i)" using True by auto
    ultimately have "rv_version ` {u \<in> set (t @ [v]). rv_entry_id u = i} = insert (int n + 1) {1..int n}"
      by (simp only: image_insert n)
    moreover have "insert (int n + 1) {1..int n} = {1..int (Suc n)}" by auto
    ultimately have "rv_version ` {u \<in> set (t @ [v]). rv_entry_id u = i} = {1..int (Suc n)}" by (rule trans)
    then show ?thesis by blast
  qed
qed

lemma version_step_ok:
  assumes "version_step erased t t'" and "repository_ok t"
  shows "repository_ok t'"
  using assms
proof (induction rule: version_step.induct)
  case (same erased t)
  then show ?case .
next
  case (erase i t)
  have img: "rv_version ` {v \<in> set (delete_where (\<lambda>v. rv_entry_id v = i) t). rv_entry_id v = j} =
      (if j = i then {} else rv_version ` {v \<in> set t. rv_entry_id v = j})" for j
    by (auto simp: delete_where_def)
  have "\<exists>n. rv_version ` {v \<in> set (delete_where (\<lambda>v. rv_entry_id v = i) t). rv_entry_id v = j} = {1..int n}" for j
    using erase unfolding img repository_ok_def by (cases "j = i") (auto intro: exI [of _ 0])
  then show ?case
    using erase by (auto simp: repository_ok_def distinct_key_delete) (auto simp: delete_where_def)
next
  case (append v t)
  have "\<exists>n. rv_version ` {u \<in> set (t @ [v]). rv_entry_id u = i} = {1..int n}" for i
    by (rule append_versions [OF append.prems]) (use append.hyps(4) in blast)
  then show ?case using append unfolding repository_ok_def
    by (auto simp: distinct_key_def approval_recorded_def)
next
  case (review row t row')
  let ?t = "update_where (\<lambda>v. rv_id v = rv_id row) (\<lambda>_. row') t"
  have only: "v = row" if "v \<in> set t" "rv_id v = rv_id row" for v
    using review.prems distinct_key_inj [of rv_id t v row] that review.hyps(1) by (simp add: repository_ok_def)
  have slots: "map version_slot ?t = map version_slot t"
    unfolding update_where_def using only review.hyps(5) by (auto simp: o_def intro!: map_cong)
  have ids: "map rv_id ?t = map rv_id t"
    unfolding update_where_def using only review.hyps(4) by (auto simp: o_def intro!: map_cong)
  have "rv_version ` {v \<in> set ?t. rv_entry_id v = i} = {n. (i, n) \<in> set (map version_slot ?t)}" for i by auto
  moreover have "rv_version ` {v \<in> set t. rv_entry_id v = i} = {n. (i, n) \<in> set (map version_slot t)}" for i by auto
  ultimately have "rv_version ` {v \<in> set ?t. rv_entry_id v = i} = rv_version ` {v \<in> set t. rv_entry_id v = i}" for i
    by (simp only: slots)
  moreover have "\<forall>v\<in>set ?t. approval_recorded v"
    using review.prems review.hyps(7) by (auto simp: repository_ok_def update_where_def)
  ultimately show ?case using review.prems
    by (simp add: repository_ok_def distinct_key_def slots ids)
qed

lemma command_ok: "repository_ok (repository_versions_table d) \<Longrightarrow> repository_ok (repository_versions_table (run_command c d))"
  using version_step_ok [OF command_version_step] .

lemma commands_ok:
  "repository_ok (repository_versions_table d) \<Longrightarrow> repository_ok (repository_versions_table (fold run_command cs d))"
  by (induction cs arbitrary: d) (simp_all add: command_ok)

lemma repository_ok_empty: "repository_ok (repository_versions_table empty_db)"
  by (auto simp: repository_ok_def empty_db_def distinct_key_def intro: exI [of _ 0])

lemma version_step_row:
  assumes "version_step erased t t'" and "repository_ok t" and "by_key rv_id k t = Some r"
    and "erased \<noteq> Some (rv_entry_id r)"
  shows "\<exists>r'. by_key rv_id k t' = Some r' \<and> (rv_status r, rv_status r') \<in> review_moves\<^sup>= \<and>
    version_slot r' = version_slot r \<and> rv_source_hash r' = rv_source_hash r \<and>
    (rv_status r = Published \<longrightarrow> r' = r)"
  using assms
proof (induction rule: version_step.induct)
  case (same erased t)
  then show ?case by auto
next
  case (erase i t)
  then have "rv_entry_id r \<noteq> i" by simp
  then show ?case using erase by (auto simp: repository_ok_def by_key_delete)
next
  case (append v t)
  then show ?case by (auto simp: by_key_append)
next
  case (review row t row')
  have "by_key rv_id k (update_where (\<lambda>v. rv_id v = rv_id row) (\<lambda>_. row') t) =
      map_option (\<lambda>v. if rv_id v = rv_id row then row' else v) (by_key rv_id k t)"
    by (rule by_key_update) (use review.hyps(4) in simp)
  moreover have "r = row" if "rv_id r = rv_id row"
    using review.prems distinct_key_inj [of rv_id t r row] that review.hyps(1)
    by (auto simp: repository_ok_def dest: by_key_SomeD)
  ultimately show ?case using review by auto
qed

lemma command_row:
  assumes ok: "repository_ok (repository_versions_table d)"
    and r: "by_key rv_id k (repository_versions_table d) = Some r"
    and c: "c \<noteq> DeleteEntry (rv_entry_id r)"
  shows "\<exists>r'. by_key rv_id k (repository_versions_table (run_command c d)) = Some r' \<and>
    (rv_status r, rv_status r') \<in> review_moves\<^sup>= \<and> version_slot r' = version_slot r \<and>
    rv_source_hash r' = rv_source_hash r \<and> (rv_status r = Published \<longrightarrow> r' = r)"
proof -
  have "erases c \<noteq> Some (rv_entry_id r)" using c by (cases c) auto
  then show ?thesis using version_step_row [OF command_version_step [OF ok] ok r] by blast
qed

lemma commands_row:
  assumes "repository_ok (repository_versions_table d)"
    and "by_key rv_id k (repository_versions_table d) = Some r"
    and "DeleteEntry (rv_entry_id r) \<notin> set cs"
  shows "\<exists>r'. by_key rv_id k (repository_versions_table (fold run_command cs d)) = Some r' \<and>
    (rv_status r, rv_status r') \<in> review_moves\<^sup>* \<and> version_slot r' = version_slot r \<and>
    rv_source_hash r' = rv_source_hash r \<and> (rv_status r = Published \<longrightarrow> r' = r)"
  using assms
proof (induction cs arbitrary: d r)
  case Nil
  then show ?case by simp
next
  case (Cons c cs)
  obtain r1 where r1: "by_key rv_id k (repository_versions_table (run_command c d)) = Some r1"
    "(rv_status r, rv_status r1) \<in> review_moves\<^sup>=" "version_slot r1 = version_slot r"
    "rv_source_hash r1 = rv_source_hash r" "rv_status r = Published \<longrightarrow> r1 = r"
    using command_row [OF Cons.prems(1,2), of c] Cons.prems(3) by auto
  obtain r' where "by_key rv_id k (repository_versions_table (fold run_command cs (run_command c d))) = Some r'"
    "(rv_status r1, rv_status r') \<in> review_moves\<^sup>*" "version_slot r' = version_slot r1"
    "rv_source_hash r' = rv_source_hash r1" "rv_status r1 = Published \<longrightarrow> r' = r1"
    using Cons.IH [OF command_ok [OF Cons.prems(1)] r1(1)] r1(3) Cons.prems(3) by auto
  then show ?case using r1 by (auto intro: converse_rtrancl_into_rtrancl)
qed

section \<open>Published entries point at published versions\<close>

definition published_target :: "repository_version_record table \<Rightarrow> repository_entry_record \<Rightarrow> bool" where
  "published_target t e \<longleftrightarrow> (re_status e = Published \<longrightarrow>
     (\<exists>n v. re_published_version e = Some n \<and> by_key version_slot (re_id e, n) t = Some v \<and>
        rv_status v = Published))"

definition targets_ok :: "db \<Rightarrow> bool" where
  "targets_ok d \<longleftrightarrow> (\<forall>e\<in>set (repository_entries_table d). published_target (repository_versions_table d) e)"

lemma in_update_entries:
  "e \<in> set (update_where P f t) \<longleftrightarrow> (\<exists>x\<in>set t. e = (if P x then f x else x))"
  by (auto simp: update_where_def)

lemma require_published:
  "require_repository_version_status i n Published d = Inr () \<longleftrightarrow>
   (\<exists>v. by_key version_slot (i, n) (repository_versions_table d) = Some v \<and> rv_status v = Published)"
  by (auto simp: require_repository_version_status_def)

lemma entry_to_row_frame [simp]:
  "re_id (repository_entry_to_row e) = re_id e" "re_status (repository_entry_to_row e) = re_status e"
  "re_published_version (repository_entry_to_row e) = re_published_version e"
  by (simp_all add: repository_entry_to_row_def)

lemma create_entry_targets:
  "e \<in> set (repository_entries_table (run_command (CreateEntry x) d)) \<Longrightarrow>
   e \<in> set (repository_entries_table d) \<or> re_status e \<noteq> Published"
  by (auto simp: create_repository_entry_def repo_defs insert_row_def split: sum.splits option.splits if_splits)

lemma update_entry_targets:
  "e \<in> set (repository_entries_table (run_command (UpdateEntry x) d)) \<Longrightarrow>
   e \<in> set (repository_entries_table d) \<or> published_target (repository_versions_table d) e"
  by (auto simp: update_repository_entry_def repo_defs in_update_entries published_target_def require_published
      split: sum.splits option.splits if_splits)

lemma transition_entry_targets:
  "e \<in> set (repository_entries_table (run_command (TransitionEntry i s u p) d)) \<Longrightarrow>
   e \<in> set (repository_entries_table d) \<or> published_target (repository_versions_table d) e"
  by (auto simp: transition_repository_entry_status_def repo_defs in_update_entries published_target_def
      require_published split: sum.splits option.splits if_splits)

lemma create_version_targets:
  "e \<in> set (repository_entries_table (run_command (CreateVersion v) d)) \<Longrightarrow>
   e \<in> set (repository_entries_table d) \<or> re_status e \<noteq> Published"
  by (auto simp: create_repository_version_def repo_defs insert_version_def insert_into_def in_update_entries
      split: sum.splits option.splits if_splits)

lemma published_target_member:
  assumes "repository_ok t" and "v \<in> set t" and "rv_status v = Published"
    and "rv_entry_id v = re_id e" and "re_published_version e = Some (rv_version v)"
  shows "published_target t e"
  using by_key_member [of version_slot t v] assms by (auto simp: published_target_def repository_ok_def)

lemma update_version_targets:
  assumes ok: "repository_ok (repository_versions_table (run_command (UpdateVersion v) d))"
    and e: "e \<in> set (repository_entries_table (run_command (UpdateVersion v) d))"
  shows "e \<in> set (repository_entries_table d) \<or>
    published_target (repository_versions_table (run_command (UpdateVersion v) d)) e"
proof (cases "e \<in> set (repository_entries_table d)")
  case new: False
  let ?t' = "repository_versions_table (run_command (UpdateVersion v) d)"
  obtain row where row: "by_key rv_id (rv_id v) (repository_versions_table d) = Some row"
    using e new by (auto simp: update_repository_version_def split: option.splits)
  have "rv_status v = Published \<and> re_id e = rv_entry_id v \<and> re_published_version e = Some (rv_version v) \<and>
      ?t' = update_where (\<lambda>u. rv_id u = rv_id v) (\<lambda>_. repository_version_to_row v) (repository_versions_table d)"
    using e new row by (auto simp: update_repository_version_def Let_def repo_defs in_update_entries
        split: sum.splits if_splits option.splits)
  moreover have "row \<in> set (repository_versions_table d)" "rv_id row = rv_id v"
    using row by (auto dest: by_key_SomeD)
  ultimately have "published_target ?t' e"
    by (intro published_target_member [OF ok, of "repository_version_to_row v"])
      (auto simp: in_update_entries)
  then show ?thesis ..
qed simp

lemma transition_version_targets:
  assumes ok: "repository_ok (repository_versions_table (run_command (TransitionVersion i n s a) d))"
    and e: "e \<in> set (repository_entries_table (run_command (TransitionVersion i n s a) d))"
  shows "e \<in> set (repository_entries_table d) \<or>
    published_target (repository_versions_table (run_command (TransitionVersion i n s a) d)) e"
proof (cases "e \<in> set (repository_entries_table d) \<or> re_status e \<noteq> Published")
  case True
  then show ?thesis by (auto simp: published_target_def)
next
  case new: False
  let ?t' = "repository_versions_table (run_command (TransitionVersion i n s a) d)"
  obtain row where row: "by_key version_slot (i, n) (repository_versions_table d) = Some row"
    using e new
    by (auto simp: transition_repository_version_status_def get_repository_version_def split: option.splits)
  obtain f where f: "transition_values (row_to_repository_version row) s a = Inr f"
    and eq: "?t' = update_where (\<lambda>v. version_slot v = (i, n)) f (repository_versions_table d)"
    and chg: "\<exists>x. e = transition_entry_values s n a x \<and> re_id x = i"
    using e new row by (auto simp: transition_repository_version_status_def get_repository_version_def
        repo_defs in_update_entries split: sum.splits if_splits option.splits)
  have ent: "s = Published \<and> re_id e = i \<and> re_published_version e = Some n" using chg new by (auto simp: transition_entry_values_def)
  have mem: "row \<in> set (repository_versions_table d)" "version_slot row = (i, n)"
    using row by (auto dest: by_key_SomeD)
  have "f row \<in> set ?t'" unfolding eq in_update_entries using mem by auto
  then have "published_target ?t' e"
    by (rule published_target_member [OF ok])
      (use transition_values_frame [OF f, of row] mem ent in auto)
  then show ?thesis ..
qed

lemma delete_entry_targets:
  assumes "e \<in> set (repository_entries_table (run_command (DeleteEntry i) d))"
  shows "e \<in> set (repository_entries_table d) \<and>
    (re_id e = i \<longrightarrow> repository_versions_table (run_command (DeleteEntry i) d) = repository_versions_table d)"
  using assms by (auto simp: delete_repository_entry_def Let_def delete_where_def split: option.splits if_splits)

lemma target_survives:
  assumes ok: "repository_ok t" and st: "version_step erased t t'" and e: "published_target t e"
    and del: "erased = Some (re_id e) \<Longrightarrow> t' = t"
  shows "published_target t' e"
proof (cases "re_status e = Published \<and> t' \<noteq> t")
  case False
  then show ?thesis using e by (auto simp: published_target_def)
next
  case True
  then obtain n v where n: "re_published_version e = Some n" and pub: "rv_status v = Published"
    and v: "by_key version_slot (re_id e, n) t = Some v"
    using e by (auto simp: published_target_def)
  have mem: "v \<in> set t" "version_slot v = (re_id e, n)" using v by (auto dest: by_key_SomeD)
  have "by_key rv_id (rv_id v) t = Some v" using by_key_member [of rv_id t v] mem(1) ok by (simp add: repository_ok_def)
  moreover have "erased \<noteq> Some (rv_entry_id v)" using del True mem(2) by auto
  ultimately have "by_key rv_id (rv_id v) t' = Some v"
    using version_step_row [OF st ok] pub by blast
  then have "v \<in> set t'" by (auto dest: by_key_SomeD)
  then show ?thesis using published_target_member [OF version_step_ok [OF st ok]] pub mem(2) n by simp
qed

lemma command_targets_new:
  assumes ok: "repository_ok (repository_versions_table d)"
    and e: "e \<in> set (repository_entries_table (run_command c d))"
  shows "e \<in> set (repository_entries_table d) \<or> published_target (repository_versions_table (run_command c d)) e"
proof (cases c)
  case (CreateEntry x)
  then show ?thesis using create_entry_targets [of e x d] e by (auto simp: published_target_def)
next
  case (CreateVersion v)
  then show ?thesis using create_version_targets [of e v d] e by (auto simp: published_target_def)
next
  case (UpdateEntry x)
  then show ?thesis using update_entry_targets [of e x d] e entry_commands_keep_versions(2) by metis
next
  case (TransitionEntry i s u p)
  then show ?thesis using transition_entry_targets [of e i s u p d] e entry_commands_keep_versions(3) by metis
next
  case (DeleteEntry i)
  then show ?thesis using delete_entry_targets [of e i d] e by blast
next
  case (UpdateVersion v)
  then show ?thesis using update_version_targets [of v d e] e command_ok [OF ok, of c] by blast
next
  case (TransitionVersion i n s a)
  then show ?thesis using transition_version_targets [of i n s a d e] e command_ok [OF ok, of c] by blast
qed

lemma command_targets:
  assumes "repository_ok (repository_versions_table d)" and "targets_ok d"
  shows "targets_ok (run_command c d)"
  unfolding targets_ok_def
proof
  fix e assume e: "e \<in> set (repository_entries_table (run_command c d))"
  show "published_target (repository_versions_table (run_command c d)) e"
  proof (cases "e \<in> set (repository_entries_table d)")
    case False
    then show ?thesis using command_targets_new [OF assms(1) e] by blast
  next
    case True
    have "repository_versions_table (run_command c d) = repository_versions_table d"
      if "erases c = Some (re_id e)"
      using that delete_entry_targets [of e "re_id e" d] e by (cases c) (auto simp del: run_command.simps)
    then show ?thesis using target_survives [OF assms(1) command_version_step [OF assms(1)]] assms(2) True
      by (auto simp: targets_ok_def)
  qed
qed

lemma active_names_subset:
  "active_names_ok t \<Longrightarrow> active_names_ok (delete_where P t)"
proof -
  assume ok: "active_names_ok t"
  have eq: "filter (\<lambda>e. re_status e \<noteq> Retired) (delete_where P t) =
      filter (\<lambda>e. \<not> P e) (filter (\<lambda>e. re_status e \<noteq> Retired) t)"
    by (simp add: delete_where_def conj_commute)
  show ?thesis
    using ok unfolding active_names_ok_def eq by (rule distinct_map_filter)
qed

lemma command_names:
  assumes "active_names_ok (repository_entries_table d)"
  shows "active_names_ok (repository_entries_table (run_command c d))"
proof (cases c)
  case (DeleteEntry i)
  then show ?thesis using assms
    by (simp add: delete_repository_entry_def Let_def active_names_subset split: option.split)
next
  case (CreateVersion v)
  then show ?thesis using assms
    by (simp add: create_repository_version_def repo_defs insert_version_def insert_into_def
        split: option.split sum.split)
qed (use assms in \<open>simp_all add: create_repository_entry_def update_repository_entry_def
    transition_repository_entry_status_def update_repository_version_def
    transition_repository_version_status_def repo_defs Let_def split: option.split sum.split\<close>)

section \<open>Properties\<close>

text \<open>
  C27. However the repository operations are interleaved, starting from an empty database: the
  versions of every entry are numbered 1, 2, ..., n; a published version carries its approver, its
  approval and its publication time; no two active entries share a project and a name; and a
  published entry points at one of its own versions that is published.
\<close>

theorem repository_invariant:
  "repository_ok (repository_versions_table (fold run_command cs empty_db)) \<and>
   active_names_ok (repository_entries_table (fold run_command cs empty_db)) \<and>
   targets_ok (fold run_command cs empty_db)"
proof -
  have "repository_ok (repository_versions_table d) \<and> active_names_ok (repository_entries_table d) \<and> targets_ok d \<Longrightarrow>
    repository_ok (repository_versions_table (fold run_command cs d)) \<and>
    active_names_ok (repository_entries_table (fold run_command cs d)) \<and> targets_ok (fold run_command cs d)" for d
    by (induction cs arbitrary: d) (simp_all add: command_ok command_names command_targets)
  moreover have "active_names_ok (repository_entries_table empty_db)" "targets_ok empty_db"
    by (simp_all add: active_names_ok_def targets_ok_def empty_db_def)
  ultimately show ?thesis using repository_ok_empty by blast
qed

text \<open>
  C28. As long as its entry is not deleted, a version keeps its number and its source, moves only
  along the transition table and therefore never returns to an earlier review state, and does not
  change at all once it is published.
\<close>

theorem version_review_history:
  assumes "by_key rv_id k (repository_versions_table (fold run_command before empty_db)) = Some r"
    and "DeleteEntry (rv_entry_id r) \<notin> set after"
  shows "\<exists>r'. by_key rv_id k (repository_versions_table (fold run_command (before @ after) empty_db)) = Some r' \<and>
    version_slot r' = version_slot r \<and> rv_source_hash r' = rv_source_hash r \<and>
    (rv_status r, rv_status r') \<in> review_moves\<^sup>* \<and>
    (rv_status r' = rv_status r \<or> review_rank (rv_status r') < review_rank (rv_status r)) \<and>
    (rv_status r = Published \<longrightarrow> r' = r)"
proof -
  obtain r' where r': "by_key rv_id k (repository_versions_table (fold run_command (before @ after) empty_db)) = Some r'"
    "(rv_status r, rv_status r') \<in> review_moves\<^sup>*" "version_slot r' = version_slot r"
    "rv_source_hash r' = rv_source_hash r" "rv_status r = Published \<longrightarrow> r' = r"
    using commands_row [OF commands_ok [OF repository_ok_empty] assms] by auto
  moreover have "rv_status r' = rv_status r \<or> review_rank (rv_status r') < review_rank (rv_status r)"
    using r'(2) review.moves_descend by (auto simp: rtrancl_eq_or_trancl)
  ultimately show ?thesis by blast
qed

theorem version_review_history_witness:
  "\<exists>r. by_key rv_id ''v1'' (repository_versions_table (fold run_command publish_first empty_db)) = Some r \<and>
     rv_status r = Published \<and>
     by_key rv_id ''v1'' (repository_versions_table (fold run_command (publish_first @
       [UpdateVersion (sample_version 1), TransitionVersion ''e1'' 1 Rejected review_args,
        CreateVersion (sample_version 2)]) empty_db)) = Some r"
proof -
  let ?after = "[UpdateVersion (sample_version 1), TransitionVersion ''e1'' 1 Rejected review_args,
        CreateVersion (sample_version 2)]"
  have "map_option rv_status (by_key rv_id ''v1'' (repository_versions_table (fold run_command publish_first empty_db)))
      = Some Published" by code_simp
  then obtain r where r: "by_key rv_id ''v1'' (repository_versions_table (fold run_command publish_first empty_db)) = Some r"
    "rv_status r = Published" by auto
  have "DeleteEntry (rv_entry_id r) \<notin> set ?after" by simp
  then show ?thesis using version_review_history [OF r(1), of ?after] r by auto
qed

text \<open>
  A successful transition of a version that was not published gives its entry the same status,
  whatever status the entry had: an entry that was retired leaves that state, which the transition
  table itself never allows.
\<close>

theorem transition_version_sets_entry_status:
  assumes "transition_repository_version_status i n s a d = (Inr v, d')"
    and "by_key version_slot (i, n) (repository_versions_table d) = Some row" and "rv_status row \<noteq> Published"
    and "by_key re_id i (repository_entries_table d) = Some e"
  shows "map_option re_status (by_key re_id i (repository_entries_table d')) = Some s"
proof -
  have "repository_entries_table d' =
      update_where (\<lambda>e. re_id e = i) (transition_entry_values s n a) (repository_entries_table d)"
    using assms(1-3)
    by (auto simp: transition_repository_version_status_def get_repository_version_def repo_defs
        split: sum.splits if_splits option.splits)
  then show ?thesis using assms(4)
    by (auto simp: by_key_update transition_entry_values_def dest: by_key_SomeD)
qed

theorem transition_version_sets_entry_status_witness:
  "map_option re_status (by_key re_id ''e1'' (repository_entries_table retired_entry_db)) = Some Retired \<and>
   (\<exists>v d'. transition_repository_version_status ''e1'' 1 Validated review_args retired_entry_db = (Inr v, d') \<and>
      map_option re_status (by_key re_id ''e1'' (repository_entries_table d')) = Some Validated)"
proof -
  have e: "map_option re_status (by_key re_id ''e1'' (repository_entries_table retired_entry_db)) = Some Retired"
    by code_simp
  have r: "map_option rv_status (by_key version_slot (''e1'', 1) (repository_versions_table retired_entry_db)) = Some Draft"
    by code_simp
  have "case fst (transition_repository_version_status ''e1'' 1 Validated review_args retired_entry_db) of
      Inl _ \<Rightarrow> False | Inr _ \<Rightarrow> True" by code_simp
  then obtain v d' where t: "transition_repository_version_status ''e1'' 1 Validated review_args retired_entry_db = (Inr v, d')"
    by (cases "transition_repository_version_status ''e1'' 1 Validated review_args retired_entry_db")
      (auto split: sum.splits)
  obtain x row where x: "by_key re_id ''e1'' (repository_entries_table retired_entry_db) = Some x"
    and row: "by_key version_slot (''e1'', 1) (repository_versions_table retired_entry_db) = Some row"
    "rv_status row = Draft" using e r by auto
  have "map_option re_status (by_key re_id ''e1'' (repository_entries_table d')) = Some Validated"
    using t row(1) _ x by (rule transition_version_sets_entry_status) (simp add: row)
  then show ?thesis using e t by blast
qed

text \<open>
  Deleting an entry reports the rows it removed and removes all of its versions, published ones
  included, while the versions and entries of others stay. It is refused, with nothing changed, unless
  the entry exists, is a draft, rejected or retired, and has no active service runtime.
\<close>

theorem delete_repository_entry_effect:
  "(case delete_repository_entry i d of
      (Inl _, d') \<Rightarrow> d' = d \<and> (\<forall>e. by_key re_id i (repository_entries_table d) = Some e \<longrightarrow>
         re_status e \<in> {Validated, PendingReview, Approved, Published} \<or>
         (\<exists>s v. s \<in> set (notebook_services_table d) \<and> v \<in> set (repository_versions_table d) \<and>
            rv_entry_id v = i \<and> ns_kind s = rv_kind v \<and> ns_active_service_id s \<noteq> None))
    | (Inr report, d') \<Rightarrow>
        (\<exists>e. by_key re_id i (repository_entries_table d) = Some e \<and> re_status e \<in> {Draft, Rejected, Retired}) \<and>
        deleted_versions report + length (repository_versions_table d') = length (repository_versions_table d) \<and>
        repository_versions_table d' = filter (\<lambda>v. rv_entry_id v \<noteq> i) (repository_versions_table d) \<and>
        repository_entries_table d' = filter (\<lambda>e. re_id e \<noteq> i) (repository_entries_table d))"
proof (cases "by_key re_id i (repository_entries_table d)")
  case None
  then show ?thesis by (simp add: delete_repository_entry_def get_repository_entry_def)
next
  case (Some e)
  have st: "re_status (row_to_repository_entry e) = re_status e" by (simp add: row_to_repository_entry_def)
  show ?thesis using Some
    by (cases "re_status e")
      (auto simp: delete_repository_entry_def get_repository_entry_def st Let_def rowcount_def delete_where_def
        sum_length_filter_compl select_where_def filter_empty_conv)
qed

theorem delete_repository_entry_effect_witness:
  "map rv_status (repository_versions_table published_then_draft) = [Published, Draft] \<and>
   (\<exists>report d'. delete_repository_entry ''e1'' published_then_draft = (Inr report, d') \<and>
      deleted_versions report = 2 \<and> repository_versions_table d' = [])"
proof -
  have st: "map rv_status (repository_versions_table published_then_draft) = [Published, Draft]" by code_simp
  have own: "map rv_entry_id (repository_versions_table published_then_draft) = [''e1'', ''e1'']" by code_simp
  have "case fst (delete_repository_entry ''e1'' published_then_draft) of Inl _ \<Rightarrow> False | Inr _ \<Rightarrow> True"
    by code_simp
  then obtain report d' where del: "delete_repository_entry ''e1'' published_then_draft = (Inr report, d')"
    by (cases "delete_repository_entry ''e1'' published_then_draft") (auto split: sum.splits)
  have "filter (\<lambda>v. rv_entry_id v \<noteq> ''e1'') (repository_versions_table published_then_draft) = []"
    using own by auto
  moreover have "length (repository_versions_table published_then_draft) = 2"
    using arg_cong [OF st, of length] by simp
  ultimately show ?thesis
    using delete_repository_entry_effect [where i = "''e1''" and d = published_then_draft] st by (auto simp: del)
qed

end
