(* ===== verification/Store_Events.thy ===== *)
theory Store_Events
  imports Store_State
begin

text \<open>
  The durable event log, heartbeats, audit log and rate limits of
  \<^verbatim>\<open>src/src/goblin_king/store.py\<close>, and the start-up repair of the log in
  \<^verbatim>\<open>src/src/goblin_king/store_migrations.py\<close>. \<open>persist_event\<close> numbers an event from the
  \<^verbatim>\<open>causal_sequences\<close> counter and stamps it after the newest event; \<open>event_log_ok\<close> is the
  invariant the two give the log. The locale \<open>causal_log\<close> is the contract of an append-only
  causal log, interpreted on \<open>persist_event\<close>: its readers see one total order.
\<close>

section \<open>Appending an event\<close>

fun scalar_one :: "'r list \<Rightarrow> 'r result" where
  "scalar_one [] = Inl (Raise NoResultFound ''No row was found when one was required'')"
| "scalar_one [r] = Inr r"
| "scalar_one (_ # _ # _) =
     Inl (Raise MultipleResultsFound ''Multiple rows were found when exactly one was required'')"

text \<open>The primary key of \<^verbatim>\<open>events\<close> and its unique index on \<^verbatim>\<open>sequence\<close>.\<close>

definition insert_event :: "event_record \<Rightarrow> (db, unit) op" where
  "insert_event row = (\<lambda>d.
     if e_sequence row \<in> e_sequence ` set (events_table d)
     then (Inl (Raise IntegrityError ''UNIQUE constraint failed: events.sequence''), d)
     else insert_into events_table_update
            (insert_row ''events.id'' e_id row (events_table d)) d)"

definition newest_event_first :: "event_record list \<Rightarrow> event_record list" where
  "newest_event_first rows = order_by (\<lambda>e. - e_sequence e) rows"

definition previous_created_at :: "db \<Rightarrow> datetime option" where
  "previous_created_at d =
     map_option (\<lambda>e. coerce_datetime (e_created_at e))
       (first_row (sql_limit 1 (newest_event_first (events_table d))))"

definition bump_sequence :: "db \<Rightarrow> db" where
  "bump_sequence d = d\<lparr>causal_sequences_table :=
     update_where (\<lambda>c. cs_scope c = ''events'') (\<lambda>c. c\<lparr>cs_value := cs_value c + 1\<rparr>)
       (causal_sequences_table d)\<rparr>"

definition event_counter :: "db \<Rightarrow> int result" where
  "event_counter d =
     scalar_one (map cs_value (select_where (\<lambda>c. cs_scope c = ''events'') (causal_sequences_table d)))"

definition persist_event :: "event_record \<Rightarrow> (db, event_record) op" where
  "persist_event event = atomically
     (bind (gets previous_created_at) (\<lambda>previous.
        let created_at = causally_after [previous] (e_created_at event) in
        bind (modify bump_sequence) (\<lambda>_.
        bind (\<lambda>d. (event_counter d, d)) (\<lambda>sequence.
        let stamped = event\<lparr>e_sequence := sequence, e_created_at := created_at\<rparr> in
        bind (insert_event (event_to_row stamped)) (\<lambda>_. return stamped)))))"

definition save_event :: "event_record \<Rightarrow> (db, unit) op" where
  "save_event event = bind (persist_event event) (\<lambda>_. return ())"

section \<open>Reading the log\<close>

record event_query =
  q_limit :: int
  q_event_type :: "string option"
  q_after_id :: "string option"
  q_job_id :: "string option"
  q_run_id :: "string option"
  q_fanout_id :: "string option"
  q_schedule_id :: "string option"
  q_worker_id :: "string option"
  q_scheduler_id :: "string option"
  q_project_id :: "string option"
  q_offset :: int

definition any_event :: event_query where
  "any_event = \<lparr>q_limit = 100, q_event_type = None, q_after_id = None, q_job_id = None,
     q_run_id = None, q_fanout_id = None, q_schedule_id = None, q_worker_id = None,
     q_scheduler_id = None, q_project_id = None, q_offset = 0\<rparr>"

text \<open>A nullable column against an optional argument: NULL equals no given value.\<close>

definition opt_col :: "'a option \<Rightarrow> 'a option \<Rightarrow> bool" where
  "opt_col arg v = (case arg of None \<Rightarrow> True | Some a \<Rightarrow> v = Some a)"

definition event_matches :: "event_query \<Rightarrow> event_record \<Rightarrow> bool" where
  "event_matches q e \<longleftrightarrow>
     opt_eq (q_event_type q) (e_event_type e) \<and> opt_col (q_project_id q) (e_project_id e) \<and>
     opt_col (q_job_id q) (e_job_id e) \<and> opt_col (q_run_id q) (e_run_id e) \<and>
     opt_col (q_fanout_id q) (e_fanout_id e) \<and> opt_col (q_schedule_id q) (e_schedule_id e) \<and>
     opt_col (q_worker_id q) (e_worker_id e) \<and> opt_col (q_scheduler_id q) (e_scheduler_id e)"

definition event_cursor :: "db \<Rightarrow> string option \<Rightarrow> int option" where
  "event_cursor d after_id =
     (case after_id of None \<Rightarrow> None
      | Some i \<Rightarrow> map_option e_sequence (by_key e_id i (events_table d)))"

definition list_events :: "db \<Rightarrow> event_query \<Rightarrow> event_record list" where
  "list_events d q =
     map row_to_event (page (q_limit q) (q_offset q)
       (order_by e_sequence
         (select_where (\<lambda>e. event_matches q e \<and>
              (case event_cursor d (q_after_id q) of None \<Rightarrow> True | Some c \<Rightarrow> c < e_sequence e))
            (events_table d))))"

definition latest_event_created_at :: "db \<Rightarrow> string option \<Rightarrow> string option \<Rightarrow> datetime option" where
  "latest_event_created_at d job_id event_type =
     map_option (\<lambda>e. coerce_datetime (e_created_at e))
       (first_row (sql_limit 1 (newest_event_first
         (select_where (\<lambda>e. opt_col job_id (e_job_id e) \<and> opt_eq event_type (e_event_type e))
            (events_table d)))))"

definition count_events :: "db \<Rightarrow> string option \<Rightarrow> nat" where
  "count_events d project_id =
     length (select_where (\<lambda>e. opt_col project_id (e_project_id e)) (events_table d))"

section \<open>Heartbeats\<close>

definition upsert_heartbeat :: "heartbeat_record \<Rightarrow> (db, unit) op" where
  "upsert_heartbeat heartbeat = atomically (\<lambda>d.
     case by_key hb_owner_id (hb_owner_id heartbeat) (heartbeats_table d) of
       None \<Rightarrow> insert_into heartbeats_table_update
                 (insert_row ''heartbeats.owner_id'' hb_owner_id (heartbeat_to_row heartbeat)
                    (heartbeats_table d)) d
     | Some _ \<Rightarrow> (Inr (), d\<lparr>heartbeats_table :=
           update_where (\<lambda>h. hb_owner_id h = hb_owner_id heartbeat)
             (\<lambda>_. heartbeat_to_row heartbeat) (heartbeats_table d)\<rparr>))"

definition list_heartbeats :: "db \<Rightarrow> heartbeat_record list" where
  "list_heartbeats d =
     map row_to_heartbeat (order_by (\<lambda>h. dt_wall (hb_last_seen_at h)) (heartbeats_table d))"

definition get_heartbeat :: "db \<Rightarrow> string \<Rightarrow> heartbeat_record option" where
  "get_heartbeat d owner_id =
     map_option row_to_heartbeat (by_key hb_owner_id owner_id (heartbeats_table d))"

section \<open>Audit log and rate limits\<close>

definition save_audit_log :: "audit_log_record \<Rightarrow> (db, unit) op" where
  "save_audit_log audit = (\<lambda>d. insert_into audit_logs_table_update
     (insert_row ''audit_logs.id'' al_id (audit_log_to_row audit) (audit_logs_table d)) d)"

definition list_audit_logs :: "db \<Rightarrow> string option \<Rightarrow> int \<Rightarrow> int \<Rightarrow> audit_log_record list" where
  "list_audit_logs d project_id limit offset =
     map row_to_audit_log (page limit offset
       (order_by (\<lambda>a. dt_wall (al_created_at a))
         (select_where (\<lambda>a. opt_col project_id (al_project_id a)) (audit_logs_table d))))"

definition increment_rate_limit :: "string \<Rightarrow> datetime \<Rightarrow> bool \<Rightarrow> (db, rate_limit_record) op" where
  "increment_rate_limit key window_started_at reset_existing = atomically (\<lambda>d.
     case by_key rl_key key (rate_limits_table d) of
       None \<Rightarrow>
         (let record = \<lparr>rl_key = key, rl_window_started_at = window_started_at, rl_count = 1\<rparr> in
          bind (insert_into rate_limits_table_update
                  (insert_row ''rate_limits.key'' rl_key (rate_limit_to_row record) (rate_limits_table d)))
            (\<lambda>_. return record) d)
     | Some row \<Rightarrow>
         if reset_existing
         then (Inr \<lparr>rl_key = key, rl_window_started_at = window_started_at, rl_count = 1\<rparr>,
               d\<lparr>rate_limits_table := update_where (\<lambda>r. rl_key r = key)
                   (\<lambda>r. r\<lparr>rl_window_started_at := db_datetime window_started_at, rl_count := 1\<rparr>)
                   (rate_limits_table d)\<rparr>)
         else (Inr \<lparr>rl_key = key, rl_window_started_at = coerce_datetime (rl_window_started_at row),
                    rl_count = rl_count row + 1\<rparr>,
               d\<lparr>rate_limits_table := update_where (\<lambda>r. rl_key r = key)
                   (\<lambda>r. r\<lparr>rl_count := rl_count row + 1\<rparr>) (rate_limits_table d)\<rparr>))"

section \<open>Start-up repair\<close>

text \<open>
  The data statements of \<^verbatim>\<open>ensure_schema_columns\<close>: events that carry no number are numbered by
  rowid, all of them; the counter is created and raised to the newest number; a Run whose end is
  missing or before its start gets its start as its end.
\<close>

definition renumber_events :: "event_record table \<Rightarrow> event_record table" where
  "renumber_events t =
     (if \<exists>e\<in>set t. e_sequence e = 0
      then map (\<lambda>(i, e). e\<lparr>e_sequence := int i + 1\<rparr>) (enumerate 0 t) else t)"

definition max_sequence :: "event_record table \<Rightarrow> int" where
  "max_sequence t = (if t = [] then 0 else Max (e_sequence ` set t))"

definition seed_counter :: "int \<Rightarrow> causal_sequence_row table \<Rightarrow> causal_sequence_row table" where
  "seed_counter m t =
     (let t' = (if ''events'' \<in> cs_scope ` set t then t else t @ [\<lparr>cs_scope = ''events'', cs_value = m\<rparr>])
      in update_where (\<lambda>c. cs_scope c = ''events'') (\<lambda>c. c\<lparr>cs_value := max (cs_value c) m\<rparr>) t')"

definition repair_run :: "run_record \<Rightarrow> run_record" where
  "repair_run r =
     (if (case r_finished_at r of
            Some f \<Rightarrow> dt_wall f < dt_wall (r_started_at r)
          | None \<Rightarrow> r_status r \<in> {RunCompleted, RunFailed, RunTimedOut})
      then r\<lparr>r_finished_at := Some (r_started_at r)\<rparr> else r)"

definition ensure_schema_columns :: "db \<Rightarrow> db" where
  "ensure_schema_columns d =
     (let events = renumber_events (events_table d) in
      d\<lparr>events_table := events,
        causal_sequences_table := seed_counter (max_sequence events) (causal_sequences_table d),
        runs_table := map repair_run (runs_table d)\<rparr>)"

text \<open>Three events for concrete instances; the second is dated before the first.\<close>

definition sample_event :: "string \<Rightarrow> int \<Rightarrow> event_record" where
  "sample_event i at = \<lparr>e_id = i, e_sequence = 0, e_created_at = utc at, e_event_type = ''job.created'',
     e_source = SrcApi, e_project_id = None, e_job_id = Some ''a'', e_run_id = None,
     e_fanout_id = None, e_schedule_id = None, e_worker_id = None, e_scheduler_id = None,
     e_payload = JObj []\<rparr>"

definition three_events :: "event_record list" where
  "three_events = [sample_event ''e1'' 50, sample_event ''e2'' 10, sample_event ''e3'' 90]"

section \<open>The contract of a causal log\<close>

locale causal_log =
  fixes append :: "'e \<Rightarrow> ('s, 'e) op"
    and entries :: "'s \<Rightarrow> 'e list"
    and ok :: "'s \<Rightarrow> bool"
    and before :: "'e \<Rightarrow> 'e \<Rightarrow> bool"
  assumes appended: "ok s \<Longrightarrow> append e s = (Inr e', s') \<Longrightarrow> ok s' \<and> entries s' = entries s @ [e']"
    and refused: "append e s = (Inl x, s') \<Longrightarrow> s' = s"
    and ordered: "ok s \<Longrightarrow> sorted_wrt before (entries s)"
begin

lemma append_all:
  "ok s \<Longrightarrow> for_each append es s = (Inr out, s') \<Longrightarrow> ok s' \<and> entries s' = entries s @ out"
proof (induction es arbitrary: s out)
  case Nil
  then show ?case by (simp add: return_eq)
next
  case (Cons e es)
  then obtain e' t outs where "append e s = (Inr e', t)" "for_each append es t = (Inr outs, s')"
    "out = e' # outs"
    by (auto simp: bind_Inr_iff return_eq)
  then show ?case using Cons.IH [of t outs] Cons.prems(1) appended by force
qed

lemma append_all_ordered:
  "ok s \<Longrightarrow> for_each append es s = (Inr out, s') \<Longrightarrow> sorted_wrt before (entries s @ out)"
  using append_all ordered by metis

lemma append_any:
  "ok s \<Longrightarrow> ok (snd (append e s))"
  using appended refused by (cases "append e s") (metis snd_conv sum.exhaust)

lemma append_any_prefix:
  "ok s \<Longrightarrow> \<exists>new. entries (snd (append e s)) = entries s @ new \<and> length new \<le> 1"
proof -
  assume s: "ok s"
  obtain r s' where r: "append e s = (r, s')" by (cases "append e s")
  show ?thesis
  proof (cases r)
    case (Inl x)
    then show ?thesis using refused r by (intro exI [of _ "[]"]) auto
  next
    case (Inr e')
    then show ?thesis using appended [OF s] r by (intro exI [of _ "[e']"]) auto
  qed
qed

end

section \<open>The log is causal\<close>

definition event_before :: "event_record \<Rightarrow> event_record \<Rightarrow> bool" where
  "event_before a b \<longleftrightarrow> e_sequence a < e_sequence b \<and> utc_instant (e_created_at a) < utc_instant (e_created_at b)"

definition event_log :: "db \<Rightarrow> event_record list" where
  "event_log d = map row_to_event (events_table d)"

definition event_log_ok :: "db \<Rightarrow> bool" where
  "event_log_ok d \<longleftrightarrow> sorted_wrt event_before (event_log d) \<and>
     (\<exists>v. event_counter d = Inr v \<and> (\<forall>e\<in>set (events_table d). e_sequence e \<le> v))"

lemma row_to_event_id [simp]: "e_id (row_to_event e) = e_id e" "e_sequence (row_to_event e) = e_sequence e"
  by (simp_all add: row_to_event_def)

lemma event_to_row_id [simp]: "e_id (event_to_row e) = e_id e" "e_sequence (event_to_row e) = e_sequence e"
  by (simp_all add: event_to_row_def)

lemma row_to_event_to_row: "is_utc (e_created_at e) \<Longrightarrow> row_to_event (event_to_row e) = e"
  using event_rows.of_to_row by (simp add: event_norm_def)

lemma event_counter_bump:
  "event_counter d = Inr v \<Longrightarrow> event_counter (bump_sequence d) = Inr (v + 1)"
proof -
  assume v: "event_counter d = Inr v"
  let ?P = "\<lambda>c. cs_scope c = ''events''"
  have "map cs_value (filter ?P (update_where ?P (\<lambda>c. c\<lparr>cs_value := cs_value c + 1\<rparr>) t)) =
      map (\<lambda>c. cs_value c + 1) (filter ?P t)" for t :: "causal_sequence_row list"
    by (induction t) (simp_all add: update_where_def)
  moreover have "scalar_one (map cs_value xs) = Inr v \<Longrightarrow> scalar_one (map (\<lambda>c. cs_value c + 1) xs) = Inr (v + 1)"
    for xs :: "causal_sequence_row list" by (cases xs rule: scalar_one.cases) auto
  ultimately show ?thesis using v by (simp add: event_counter_def bump_sequence_def select_where_def)
qed

lemma newest_event:
  assumes "t \<noteq> []"
  obtains x where "first_row (sql_limit 1 (newest_event_first t)) = Some x" and "x \<in> set t"
    and "\<And>y. y \<in> set t \<Longrightarrow> e_sequence y \<le> e_sequence x"
proof -
  let ?r = "order_by (\<lambda>e. - e_sequence e) t"
  have "?r \<noteq> []" using assms by (metis set_empty set_order_by)
  then obtain x where "first_row ?r = Some x" using first_row_None_iff by fastforce
  moreover have "first_row (sql_limit 1 ?r) = first_row ?r" by (cases ?r) (simp_all add: sql_limit_def)
  ultimately show ?thesis
    using that [of x] first_row_desc [of e_sequence t x] by (simp add: newest_event_first_def)
qed

lemma previous_bounds_log:
  assumes ok: "event_log_ok d" and y: "y \<in> set (events_table d)"
  obtains p where "previous_created_at d = Some p" and "utc_instant (e_created_at (row_to_event y)) \<le> utc_instant p"
proof -
  obtain x where x: "first_row (sql_limit 1 (newest_event_first (events_table d))) = Some x"
    and mem: "x \<in> set (events_table d)" and top: "e_sequence y \<le> e_sequence x"
    using newest_event [of "events_table d"] y by (metis list.set_cases list.simps(3))
  have "y = x \<or> event_before (row_to_event x) (row_to_event y) \<or> event_before (row_to_event y) (row_to_event x)"
    using ok mem y unfolding event_log_ok_def event_log_def sorted_wrt_map
    by (metis in_set_conv_nth nat_neq_iff sorted_wrt_iff_nth_less)
  then have "utc_instant (e_created_at (row_to_event y)) \<le> utc_instant (e_created_at (row_to_event x))"
    using top by (auto simp: event_before_def)
  moreover have "previous_created_at d = Some (e_created_at (row_to_event x))"
    using x by (simp add: previous_created_at_def row_to_event_def)
  ultimately show ?thesis using that by blast
qed

text \<open>\<open>persist_event\<close> in closed form: the stamped event, and the only way to refuse it.\<close>

definition stamped_event :: "event_record \<Rightarrow> int \<Rightarrow> db \<Rightarrow> event_record" where
  "stamped_event event v d = event\<lparr>e_sequence := v + 1,
     e_created_at := causally_after [previous_created_at d] (e_created_at event)\<rparr>"

lemma persist_event_eq:
  assumes ok: "event_log_ok d" and v: "event_counter d = Inr v"
  shows "persist_event event d =
    (if e_id event \<in> e_id ` set (events_table d)
     then (Inl (Raise IntegrityError ''UNIQUE constraint failed: events.id''), d)
     else (Inr (stamped_event event v d),
           (bump_sequence d)\<lparr>events_table := events_table d @ [event_to_row (stamped_event event v d)]\<rparr>))"
proof -
  have "v + 1 \<notin> e_sequence ` set (events_table d)"
    using ok v by (fastforce simp: event_log_ok_def)
  then show ?thesis
    using event_counter_bump [OF v]
    by (simp add: persist_event_def atomically_def bind_def gets_def modify_def Let_def insert_event_def
        insert_row_def return_def stamped_event_def bump_sequence_def)
qed

lemma persist_event_log:
  assumes ok: "event_log_ok d" and pe: "persist_event event d = (Inr e', d')"
  shows "event_log_ok d' \<and> event_log d' = event_log d @ [e']"
proof -
  obtain v where v: "event_counter d = Inr v" and le: "\<forall>e\<in>set (events_table d). e_sequence e \<le> v"
    using ok by (auto simp: event_log_ok_def)
  have e': "e' = stamped_event event v d"
    and d': "d' = (bump_sequence d)\<lparr>events_table := events_table d @ [event_to_row e']\<rparr>"
    using pe persist_event_eq [OF ok v, of event] by (auto split: if_splits)
  have utc: "is_utc (e_created_at e')" by (simp add: e' stamped_event_def)
  have log: "event_log d' = event_log d @ [e']"
    by (simp add: event_log_def d' row_to_event_to_row [OF utc])
  have "event_before (row_to_event y) e'" if y: "y \<in> set (events_table d)" for y
  proof -
    obtain p where p: "previous_created_at d = Some p"
      and yp: "utc_instant (e_created_at (row_to_event y)) \<le> utc_instant p"
      using previous_bounds_log [OF ok y] by blast
    have "utc_instant p < utc_instant (e_created_at e')"
      using causally_after_gt [of p "[previous_created_at d]" "e_created_at event"] p
      by (simp add: e' stamped_event_def)
    then show ?thesis using yp le y by (auto simp: event_before_def e' stamped_event_def)
  qed
  then have "sorted_wrt event_before (event_log d')"
    using ok unfolding log by (auto simp: event_log_ok_def sorted_wrt_append event_log_def)
  moreover have "event_counter d' = Inr (v + 1)"
    using event_counter_bump [OF v] by (simp add: d' event_counter_def)
  moreover have "\<forall>e\<in>set (events_table d'). e_sequence e \<le> v + 1"
    using le by (auto simp: d' e' stamped_event_def)
  ultimately show ?thesis using log by (simp add: event_log_ok_def)
qed

interpretation events: causal_log persist_event event_log event_log_ok event_before
proof unfold_locales
  fix s :: db and e e' s'
  assume "event_log_ok s" "persist_event e s = (Inr e', s')"
  then show "event_log_ok s' \<and> event_log s' = event_log s @ [e']" by (rule persist_event_log)
next
  fix e s x s' assume "persist_event e s = (Inl x, s')"
  then show "s' = s" unfolding persist_event_def by (rule atomically_rollback)
next
  fix s assume "event_log_ok s"
  then show "sorted_wrt event_before (event_log s)" by (simp add: event_log_ok_def)
qed

lemma persist_event_sequence:
  assumes ok: "event_log_ok d" and v: "event_counter d = Inr v" and pe: "persist_event event d = (Inr e', d')"
  shows "event_counter d' = Inr (v + 1)" and "e_sequence e' = v + 1" and "e_id e' = e_id event"
proof -
  have e': "e' = stamped_event event v d"
    and d': "d' = (bump_sequence d)\<lparr>events_table := events_table d @ [event_to_row e']\<rparr>"
    using pe persist_event_eq [OF ok v, of event] by (auto split: if_splits)
  show "event_counter d' = Inr (v + 1)" using event_counter_bump [OF v] by (simp add: d' event_counter_def)
  show "e_sequence e' = v + 1" and "e_id e' = e_id event" by (simp_all add: e' stamped_event_def)
qed

lemma persist_all_sequences:
  assumes "event_log_ok d" and "event_counter d = Inr v" and "for_each persist_event evs d = (Inr out, d')"
  shows "map e_sequence out = map (\<lambda>i. v + 1 + int i) [0..<length evs] \<and> map e_id out = map e_id evs"
  using assms
proof (induction evs arbitrary: d v out)
  case Nil
  then show ?case by (simp add: return_eq)
next
  case (Cons e evs)
  then obtain e1 t outs where st: "persist_event e d = (Inr e1, t)"
    and rest: "for_each persist_event evs t = (Inr outs, d')" and out: "out = e1 # outs"
    by (auto simp: bind_Inr_iff return_eq)
  note one = persist_event_sequence [OF Cons.prems(1,2) st]
  have "event_log_ok t" using persist_event_log [OF Cons.prems(1) st] by simp
  then have IH: "map e_sequence outs = map (\<lambda>i. v + 1 + 1 + int i) [0..<length evs] \<and> map e_id outs = map e_id evs"
    by (rule Cons.IH [OF _ one(1) rest])
  have "map (\<lambda>i. v + 1 + int i) [0..<Suc (length evs)] = (v + 1) # map (\<lambda>i. v + 1 + 1 + int i) [0..<length evs]"
    by (simp add: upt_conv_Cons map_Suc_upt [symmetric] del: upt_Suc)
  then show ?case using IH one(2,3) out by (simp del: upt_Suc)
qed

lemma filter_after_nth:
  assumes "sorted_wrt (\<lambda>a b. f a < f b) t" and "i < length t"
  shows "filter (\<lambda>e. P e \<and> (f (t ! i) :: int) < f e) t = filter P (drop (Suc i) t)"
proof -
  have front: "\<not> f (t ! i) < f e" if e: "e \<in> set (take (Suc i) t)" for e
  proof -
    obtain k where "k < Suc i" "e = t ! k" using e assms(2) by (auto simp: in_set_conv_nth)
    then show ?thesis using assms sorted_wrt_nth_less [OF assms(1), of k i] by (cases "k = i") auto
  qed
  have behind: "f (t ! i) < f e" if e: "e \<in> set (drop (Suc i) t)" for e
  proof -
    obtain k where "k < length (drop (Suc i) t)" "e = drop (Suc i) t ! k"
      using e by (auto simp: in_set_conv_nth)
    then have "e = t ! (Suc i + k)" "Suc i + k < length t" using assms(2) by auto
    then show ?thesis using sorted_wrt_nth_less [OF assms(1), of i "Suc i + k"] by simp
  qed
  have "filter (\<lambda>e. P e \<and> f (t ! i) < f e) (take (Suc i) t @ drop (Suc i) t) = filter P (drop (Suc i) t)"
    using front behind by (simp only: filter_append) (auto simp: filter_empty_conv intro!: filter_cong)
  then show ?thesis by simp
qed

lemma order_by_sorted: "sorted (map key rows) \<Longrightarrow> order_by key rows = rows"
  by (simp add: order_by_def sort_key_id_if_sorted)

lemma event_matches_row [simp]: "event_matches q (row_to_event e) = event_matches q e"
  by (simp add: event_matches_def row_to_event_def)

lemma map_page: "map f (page limit offset rows) = page limit offset (map f rows)"
  by (simp add: page_def sql_limit_def sql_offset_def take_map drop_map)

section \<open>Properties\<close>

text \<open>
  C26. Whatever timestamps the callers bring, any sequence of appended events extends the log in
  call order, with consecutive numbers from the counter and with strictly increasing timestamps;
  the log as a whole stays ordered by both.
\<close>

theorem persisted_events_ordered:
  assumes "event_log_ok d" and "event_counter d = Inr v" and "for_each persist_event evs d = (Inr out, d')"
  shows "event_log d' = event_log d @ out \<and> sorted_wrt event_before (event_log d') \<and>
    map e_id out = map e_id evs \<and> map e_sequence out = map (\<lambda>i. v + 1 + int i) [0..<length evs] \<and>
    event_log_ok d'"
  using events.append_all [OF assms(1,3)] events.append_all_ordered [OF assms(1,3)]
    persist_all_sequences [OF assms] by simp

lemma event_log_ok_empty: "event_log_ok empty_db \<and> event_counter empty_db = Inr 0"
  by (simp add: event_log_ok_def event_log_def event_counter_def empty_db_def select_where_def)

lemma three_events_persist:
  obtains out d' where "for_each persist_event three_events empty_db = (Inr out, d')"
proof -
  have "case fst (for_each persist_event three_events empty_db) of Inl _ \<Rightarrow> False | Inr _ \<Rightarrow> True"
    by code_simp
  then show ?thesis using that by (cases "for_each persist_event three_events empty_db") (auto split: sum.splits)
qed

theorem persisted_events_ordered_witness:
  "\<exists>out d'. for_each persist_event three_events empty_db = (Inr out, d') \<and>
     event_log d' = out \<and> map e_sequence out = [1, 2, 3] \<and> sorted_wrt event_before out"
proof -
  obtain out d' where p: "for_each persist_event three_events empty_db = (Inr out, d')"
    by (rule three_events_persist)
  have "[0..<length three_events] = [0, 1, 2]" by code_simp
  moreover have "event_log empty_db = []" by (simp add: event_log_def empty_db_def)
  ultimately show ?thesis
    using persisted_events_ordered [OF _ _ p] event_log_ok_empty p by auto
qed

text \<open>
  Reading with the id of an event as the cursor returns exactly the matching events after it
  in log order, cut to the page: no event is skipped or returned twice between two reads.
\<close>

theorem list_events_after_cursor:
  assumes "event_log_ok d" and "distinct_key e_id (events_table d)" and "i < length (events_table d)"
    and "q_after_id q = Some (e_id (event_log d ! i))"
  shows "list_events d q =
    page (q_limit q) (q_offset q) (filter (event_matches q) (drop (Suc i) (event_log d)))"
proof -
  let ?t = "events_table d"
  have seq: "sorted_wrt (\<lambda>a b. e_sequence a < e_sequence b) ?t"
    using assms(1) unfolding event_log_ok_def event_log_def sorted_wrt_map
    by (elim conjE sorted_wrt_mono_rel [rotated]) (simp add: event_before_def)
  have cur: "event_cursor d (q_after_id q) = Some (e_sequence (?t ! i))"
    using by_key_member [OF assms(2) nth_mem [OF assms(3)]] assms(3,4)
    by (simp add: event_cursor_def event_log_def)
  let ?rows = "filter (event_matches q) (drop (Suc i) ?t)"
  have rows: "select_where (\<lambda>e. event_matches q e \<and> (case event_cursor d (q_after_id q) of
      None \<Rightarrow> True | Some c \<Rightarrow> c < e_sequence e)) ?t = ?rows"
    using filter_after_nth [OF seq assms(3)] by (simp add: select_where_def cur)
  have "sorted (map e_sequence ?rows)"
    unfolding sorted_map
    by (rule sorted_wrt_filter, rule sorted_wrt_drop, rule sorted_wrt_mono_rel [OF _ seq]) simp
  then show ?thesis
    by (simp add: list_events_def rows order_by_sorted map_page event_log_def drop_map filter_map o_def)
qed

theorem list_events_after_cursor_witness:
  "\<exists>out d'. for_each persist_event three_events empty_db = (Inr out, d') \<and>
     list_events d' (any_event\<lparr>q_after_id := Some ''e1''\<rparr>) = [out ! 1, out ! 2]"
proof -
  obtain out d' where p: "for_each persist_event three_events empty_db = (Inr out, d')"
    by (rule three_events_persist)
  let ?q = "any_event\<lparr>q_after_id := Some ''e1''\<rparr>"
  have ok: "event_log_ok d'" "event_log d' = out"
    using events.append_all [OF _ p] event_log_ok_empty by (auto simp: event_log_def empty_db_def)
  have "map e_id out = map e_id three_events"
    using persist_all_sequences [OF _ _ p] event_log_ok_empty by blast
  then have ids: "map e_id out = [''e1'', ''e2'', ''e3'']" by (simp add: three_events_def sample_event_def)
  have rows: "map e_id (events_table d') = [''e1'', ''e2'', ''e3'']"
    using ids by (simp add: ok(2) [symmetric] event_log_def o_def)
  obtain a b c where abc: "out = [a, b, c]" "e_id a = ''e1''" using ids by auto
  have len: "length (events_table d') = 3" using arg_cong [OF rows, of length] by simp
  have "list_events d' ?q = page (q_limit ?q) (q_offset ?q) (filter (event_matches ?q) (drop (Suc 0) (event_log d')))"
    using ok(1) by (rule list_events_after_cursor)
      (simp_all add: distinct_key_def rows len ok(2) abc any_event_def)
  then show ?thesis using p abc
    by (auto simp: ok(2) any_event_def event_matches_def opt_eq_def opt_col_def page_def sql_limit_def sql_offset_def)
qed

text \<open>
  \<open>upsert_heartbeat\<close> always succeeds and makes the given heartbeat the owner's only one;
  every other owner's heartbeat is untouched.
\<close>

theorem upsert_heartbeat_get:
  "\<exists>d'. upsert_heartbeat h d = (Inr (), d') \<and>
     get_heartbeat d' k = (if k = hb_owner_id h
       then Some (h\<lparr>hb_last_seen_at := at_utc (hb_last_seen_at h)\<rparr>) else get_heartbeat d k)"
proof (cases "by_key hb_owner_id (hb_owner_id h) (heartbeats_table d)")
  case None
  then have "insert_row ''heartbeats.owner_id'' hb_owner_id (heartbeat_to_row h) (heartbeats_table d) =
      Inr (heartbeats_table d @ [heartbeat_to_row h])"
    by (simp add: insert_row_def by_key_None_iff heartbeat_rows.key_to_row)
  then show ?thesis using None heartbeat_rows.of_to_row [of h]
    by (auto simp: upsert_heartbeat_def atomically_def get_heartbeat_def by_key_append
        heartbeat_rows.key_to_row split: option.split)
next
  case (Some r)
  have "by_key hb_owner_id k (update_where (\<lambda>x. hb_owner_id x = hb_owner_id h) (\<lambda>_. heartbeat_to_row h)
      (heartbeats_table d)) =
    map_option (\<lambda>x. if hb_owner_id x = hb_owner_id h then heartbeat_to_row h else x)
      (by_key hb_owner_id k (heartbeats_table d))"
    by (rule by_key_update) (simp add: heartbeat_rows.key_to_row)
  then show ?thesis using Some heartbeat_rows.of_to_row [of h]
    by (cases "by_key hb_owner_id k (heartbeats_table d)")
      (auto simp: upsert_heartbeat_def atomically_def get_heartbeat_def dest: by_key_SomeD)
qed

end
