(* ===== verification/Store_Admin.thy ===== *)
theory Store_Admin
  imports Store_Jobs Store_Runs Store_Events
begin

text \<open>
  The rest of \<^verbatim>\<open>src/src/goblin_king/store.py\<close>: identities and tokens, notebook goblins and services,
  long-running services, image promotions, deployment records, worker validations, fanouts,
  schedules, and the clean-up of historical rows.
\<close>

section \<open>Identities and tokens\<close>

definition save_user :: "user_record \<Rightarrow> (db, unit) op" where
  "save_user user = (\<lambda>d. insert_into users_table_update
     (insert_row ''users.id'' u_id (user_to_row user) (users_table d)) d)"

definition save_team :: "team_record \<Rightarrow> (db, unit) op" where
  "save_team team = (\<lambda>d. insert_into teams_table_update
     (insert_row ''teams.id'' t_id (team_to_row team) (teams_table d)) d)"

definition save_project :: "project_record \<Rightarrow> (db, unit) op" where
  "save_project project = (\<lambda>d. insert_into projects_table_update
     (insert_row ''projects.id'' p_id (project_to_row project) (projects_table d)) d)"

definition save_membership :: "membership_record \<Rightarrow> (db, unit) op" where
  "save_membership membership = (\<lambda>d. insert_into memberships_table_update
     (insert_row ''memberships.id'' m_id (membership_to_row membership) (memberships_table d)) d)"

definition save_api_token :: "api_token_record \<Rightarrow> (db, unit) op" where
  "save_api_token token = (\<lambda>d. insert_into api_tokens_table_update
     (insert_row ''api_tokens.id'' tk_id (api_token_to_row token) (api_tokens_table d)) d)"

text \<open>The hash column carries no constraint: two live tokens with one hash make the lookup raise.\<close>

definition get_api_token_by_hash :: "db \<Rightarrow> string \<Rightarrow> api_token_record option result" where
  "get_api_token_by_hash d token_hash =
     bind_result (one_or_none (select_where
         (\<lambda>t. tk_token_hash t = token_hash \<and> tk_revoked_at t = None) (api_tokens_table d)))
       (\<lambda>row. Inr (map_option row_to_api_token row))"

definition revoke_api_token :: "string \<Rightarrow> datetime \<Rightarrow> (db, api_token_record option) op" where
  "revoke_api_token token_id revoked_at = (\<lambda>d.
     let d' = d\<lparr>api_tokens_table := update_where (\<lambda>t. tk_id t = token_id)
                 (\<lambda>t. t\<lparr>tk_revoked_at := Some (db_datetime revoked_at)\<rparr>) (api_tokens_table d)\<rparr>
     in (Inr (map_option row_to_api_token (by_key tk_id token_id (api_tokens_table d'))), d'))"

definition get_user :: "db \<Rightarrow> string \<Rightarrow> user_record option" where
  "get_user d user_id = map_option row_to_user (by_key u_id user_id (users_table d))"

definition get_project :: "db \<Rightarrow> string \<Rightarrow> project_record option" where
  "get_project d project_id = map_option row_to_project (by_key p_id project_id (projects_table d))"

definition list_projects :: "db \<Rightarrow> project_record list" where
  "list_projects d = map row_to_project (order_by p_name (projects_table d))"

section \<open>Notebook goblins and services\<close>

definition save_notebook_goblin :: "notebook_goblin_record \<Rightarrow> (db, unit) op" where
  "save_notebook_goblin record = atomically (\<lambda>d.
     case by_key ng_kind (ng_kind record) (notebook_goblins_table d) of
       None \<Rightarrow> insert_into notebook_goblins_table_update
                 (insert_row ''notebook_goblins.kind'' ng_kind (notebook_goblin_to_row record)
                    (notebook_goblins_table d)) d
     | Some existing \<Rightarrow> (Inr (), d\<lparr>notebook_goblins_table :=
           update_where (\<lambda>n. ng_kind n = ng_kind record)
             (\<lambda>_. (notebook_goblin_to_row record)\<lparr>ng_created_at := ng_created_at existing\<rparr>)
             (notebook_goblins_table d)\<rparr>))"

definition get_notebook_goblin :: "db \<Rightarrow> string \<Rightarrow> notebook_goblin_record option" where
  "get_notebook_goblin d kind =
     map_option row_to_notebook_goblin (by_key ng_kind kind (notebook_goblins_table d))"

definition list_notebook_goblins :: "db \<Rightarrow> string option \<Rightarrow> notebook_goblin_record list" where
  "list_notebook_goblins d project_id =
     map row_to_notebook_goblin (order_by ng_kind
       (select_where (\<lambda>n. opt_col project_id (ng_project_id n)) (notebook_goblins_table d)))"

definition save_notebook_service :: "notebook_service_record \<Rightarrow> (db, unit) op" where
  "save_notebook_service record = atomically (\<lambda>d.
     case by_key ns_kind (ns_kind record) (notebook_services_table d) of
       None \<Rightarrow> insert_into notebook_services_table_update
                 (insert_row ''notebook_services.kind'' ns_kind (notebook_service_to_row record)
                    (notebook_services_table d)) d
     | Some existing \<Rightarrow> (Inr (), d\<lparr>notebook_services_table :=
           update_where (\<lambda>n. ns_kind n = ns_kind record)
             (\<lambda>_. (notebook_service_to_row record)\<lparr>ns_created_at := ns_created_at existing\<rparr>)
             (notebook_services_table d)\<rparr>))"

definition get_notebook_service :: "db \<Rightarrow> string \<Rightarrow> notebook_service_record option" where
  "get_notebook_service d kind =
     map_option row_to_notebook_service (by_key ns_kind kind (notebook_services_table d))"

definition list_notebook_services :: "db \<Rightarrow> string option \<Rightarrow> notebook_service_record list" where
  "list_notebook_services d project_id =
     map row_to_notebook_service (order_by ns_kind
       (select_where (\<lambda>n. opt_col project_id (ns_project_id n)) (notebook_services_table d)))"

definition update_notebook_service_runtime ::
  "string \<Rightarrow> string \<Rightarrow> string option \<Rightarrow> string option \<Rightarrow> string option \<Rightarrow> datetime option \<Rightarrow>
   (db, notebook_service_record option) op" where
  "update_notebook_service_runtime kind runtime_status runtime_backend runtime_name active_service_id updated_at =
     (\<lambda>d. let d' = d\<lparr>notebook_services_table := update_where (\<lambda>n. ns_kind n = kind)
            (\<lambda>n. n\<lparr>ns_runtime_status := runtime_status, ns_runtime_backend := runtime_backend,
                   ns_runtime_name := runtime_name, ns_active_service_id := active_service_id,
                   ns_updated_at := (case updated_at of None \<Rightarrow> ns_updated_at n | Some u \<Rightarrow> db_datetime u)\<rparr>)
            (notebook_services_table d)\<rparr>
          in (Inr (get_notebook_service d' kind), d'))"

section \<open>Long-running services\<close>

definition save_long_service :: "long_service_record \<Rightarrow> (db, unit) op" where
  "save_long_service service = (\<lambda>d. insert_into long_services_table_update
     (insert_row ''long_services.id'' ls_id (long_service_to_row service) (long_services_table d)) d)"

definition get_long_service :: "db \<Rightarrow> string \<Rightarrow> long_service_record option" where
  "get_long_service d service_id =
     map_option row_to_long_service (by_key ls_id service_id (long_services_table d))"

definition list_long_services :: "db \<Rightarrow> string option \<Rightarrow> long_service_record list" where
  "list_long_services d project_id =
     map row_to_long_service (order_by (\<lambda>s. dt_wall (ls_created_at s))
       (select_where (\<lambda>s. opt_col project_id (ls_project_id s)) (long_services_table d)))"

definition update_long_service_probe ::
  "string \<Rightarrow> long_service_status \<Rightarrow> datetime \<Rightarrow> json \<Rightarrow> (db, long_service_record option) op" where
  "update_long_service_probe service_id status last_probe_at last_probe_json =
     (\<lambda>d. let d' = d\<lparr>long_services_table := update_where (\<lambda>s. ls_id s = service_id)
            (\<lambda>s. s\<lparr>ls_status := status, ls_last_probe_at := Some (db_datetime last_probe_at),
                   ls_last_probe_json := Some last_probe_json\<rparr>) (long_services_table d)\<rparr>
          in (Inr (get_long_service d' service_id), d'))"

definition update_long_service_status ::
  "string \<Rightarrow> long_service_status \<Rightarrow> json option \<Rightarrow> (db, long_service_record option) op" where
  "update_long_service_status service_id status last_probe_json =
     (\<lambda>d. let d' = d\<lparr>long_services_table := update_where (\<lambda>s. ls_id s = service_id)
            (\<lambda>s. s\<lparr>ls_status := status,
                   ls_last_probe_json := (case last_probe_json of None \<Rightarrow> ls_last_probe_json s | Some p \<Rightarrow> Some p)\<rparr>)
            (long_services_table d)\<rparr>
          in (Inr (get_long_service d' service_id), d'))"

section \<open>Image promotions, deployments and worker validations\<close>

definition save_image_promotion :: "image_promotion_record \<Rightarrow> (db, unit) op" where
  "save_image_promotion promotion = (\<lambda>d. insert_into image_promotions_table_update
     (insert_row ''image_promotions.id'' ip_id (image_promotion_to_row promotion) (image_promotions_table d)) d)"

definition get_image_promotion :: "db \<Rightarrow> string \<Rightarrow> image_promotion_record option" where
  "get_image_promotion d promotion_id =
     map_option row_to_image_promotion (by_key ip_id promotion_id (image_promotions_table d))"

definition list_image_promotions :: "db \<Rightarrow> int \<Rightarrow> image_promotion_record list" where
  "list_image_promotions d limit =
     map row_to_image_promotion (page limit 0
       (order_by (\<lambda>p. - dt_wall (ip_created_at p)) (image_promotions_table d)))"

definition update_image_promotion ::
  "string \<Rightarrow> image_promotion_status \<Rightarrow> datetime \<Rightarrow> string option \<Rightarrow> json option \<Rightarrow>
   (db, image_promotion_record option) op" where
  "update_image_promotion promotion_id status updated_at digest detail =
     (\<lambda>d. let d' = d\<lparr>image_promotions_table := update_where (\<lambda>p. ip_id p = promotion_id)
            (\<lambda>p. p\<lparr>ip_status := status, ip_updated_at := db_datetime updated_at,
                   ip_digest := (case digest of None \<Rightarrow> ip_digest p | Some g \<Rightarrow> Some g),
                   ip_detail := (case detail of None \<Rightarrow> ip_detail p | Some j \<Rightarrow> j)\<rparr>)
            (image_promotions_table d)\<rparr>
          in (Inr (get_image_promotion d' promotion_id), d'))"

definition save_deployment_record :: "deployment_record \<Rightarrow> (db, unit) op" where
  "save_deployment_record record = (\<lambda>d. insert_into deployment_records_table_update
     (insert_row ''deployment_records.id'' dr_id (deployment_to_row record) (deployment_records_table d)) d)"

definition get_deployment_record :: "db \<Rightarrow> string \<Rightarrow> deployment_record option" where
  "get_deployment_record d record_id =
     map_option row_to_deployment_record (by_key dr_id record_id (deployment_records_table d))"

definition list_deployment_records :: "db \<Rightarrow> int \<Rightarrow> deployment_record list" where
  "list_deployment_records d limit =
     map row_to_deployment_record (page limit 0
       (order_by (\<lambda>r. - dt_wall (dr_created_at r)) (deployment_records_table d)))"

definition save_worker_validation :: "worker_validation_record \<Rightarrow> (db, unit) op" where
  "save_worker_validation validation = (\<lambda>d. insert_into worker_validations_table_update
     (insert_row ''worker_validations.id'' wv_id (worker_validation_to_row validation)
        (worker_validations_table d)) d)"

definition newest_validation_first :: "worker_validation_record list \<Rightarrow> worker_validation_record list" where
  "newest_validation_first rows = order_by (\<lambda>v. - dt_wall (wv_validated_at v)) rows"

definition get_latest_worker_validation ::
  "db \<Rightarrow> string \<Rightarrow> string \<Rightarrow> string \<Rightarrow> string \<Rightarrow> worker_validation_record option" where
  "get_latest_worker_validation d kind image_digest contract_version validator_version =
     map_option row_to_worker_validation (first_row (newest_validation_first
       (select_where (\<lambda>v. wv_kind v = kind \<and> wv_image_digest v = image_digest \<and>
            wv_contract_version v = contract_version \<and> wv_validator_version v = validator_version)
          (worker_validations_table d))))"

definition list_worker_validations :: "db \<Rightarrow> string option \<Rightarrow> int \<Rightarrow> worker_validation_record list" where
  "list_worker_validations d kind limit =
     map row_to_worker_validation (sql_limit limit (newest_validation_first
       (select_where (\<lambda>v. opt_eq kind (wv_kind v)) (worker_validations_table d))))"

definition latest_worker_validation_for_kind :: "db \<Rightarrow> string \<Rightarrow> worker_validation_record option" where
  "latest_worker_validation_for_kind d kind =
     map_option row_to_worker_validation (first_row (newest_validation_first
       (select_where (\<lambda>v. wv_kind v = kind) (worker_validations_table d))))"

section \<open>Fanouts and schedules\<close>

definition save_fanout :: "fanout_record \<Rightarrow> (db, unit) op" where
  "save_fanout fanout = (\<lambda>d. insert_into fanouts_table_update
     (insert_row ''fanouts.id'' f_id (fanout_to_row fanout) (fanouts_table d)) d)"

definition get_fanout :: "db \<Rightarrow> string \<Rightarrow> fanout_record option" where
  "get_fanout d fanout_id = map_option row_to_fanout (by_key f_id fanout_id (fanouts_table d))"

definition list_fanouts :: "db \<Rightarrow> fanout_record list" where
  "list_fanouts d = map row_to_fanout (order_by (\<lambda>f. dt_wall (f_created_at f)) (fanouts_table d))"

definition save_schedule :: "schedule_record \<Rightarrow> (db, unit) op" where
  "save_schedule schedule = (\<lambda>d. insert_into schedules_table_update
     (insert_row ''schedules.id'' sc_id (schedule_to_row schedule) (schedules_table d)) d)"

definition get_schedule :: "db \<Rightarrow> string \<Rightarrow> schedule_record option" where
  "get_schedule d schedule_id =
     map_option row_to_schedule (by_key sc_id schedule_id (schedules_table d))"

text \<open>Every column but the id and the creation time is replaced.\<close>

definition update_schedule :: "schedule_record \<Rightarrow> (db, unit) op" where
  "update_schedule schedule = (\<lambda>d. (Inr (), d\<lparr>schedules_table :=
     update_where (\<lambda>s. sc_id s = sc_id schedule)
       (\<lambda>s. (schedule_to_row schedule)\<lparr>sc_id := sc_id s, sc_created_at := sc_created_at s\<rparr>)
       (schedules_table d)\<rparr>))"

definition list_schedules :: "db \<Rightarrow> schedule_record list" where
  "list_schedules d =
     map row_to_schedule (order_by (\<lambda>s. dt_wall (sc_next_run_at s)) (schedules_table d))"

definition list_due_schedules :: "datetime \<Rightarrow> db \<Rightarrow> schedule_record list" where
  "list_due_schedules now d =
     map row_to_schedule (order_by (\<lambda>s. dt_wall (sc_next_run_at s))
       (select_where (\<lambda>s. sc_enabled s \<and> dt_wall (sc_next_run_at s) \<le> dt_wall (db_datetime now))
          (schedules_table d)))"

definition update_schedule_after_materialize :: "string \<Rightarrow> datetime \<Rightarrow> datetime \<Rightarrow> (db, unit) op" where
  "update_schedule_after_materialize schedule_id last_materialized_at next_run_at =
     (\<lambda>d. (Inr (), d\<lparr>schedules_table := update_where (\<lambda>s. sc_id s = schedule_id)
        (\<lambda>s. s\<lparr>sc_last_materialized_at := Some (db_datetime last_materialized_at),
               sc_next_run_at := db_datetime next_run_at\<rparr>) (schedules_table d)\<rparr>))"

section \<open>Clean-up\<close>

record cleanup_counts =
  cc_artifacts :: nat
  cc_handoffs :: nat
  cc_runs :: nat
  cc_jobs :: nat
  cc_fanouts :: nat
  cc_events :: nat
  cc_worker_heartbeats :: nat
  cc_long_services :: nat

definition cleanup_job_ids :: "string option \<Rightarrow> db \<Rightarrow> string list" where
  "cleanup_job_ids project_id d =
     map j_id (select_where (\<lambda>j. j_status j \<in> TERMINAL_JOB_STATUSES \<and> opt_col project_id (j_project_id j))
       (jobs_table d))"

definition cleanup_run_ids :: "string option \<Rightarrow> db \<Rightarrow> string list" where
  "cleanup_run_ids project_id d =
     (let terminal_job_ids = cleanup_job_ids project_id d in
      map r_id (select_where (\<lambda>r. r_status r \<in> TERMINAL_RUN_STATUSES \<and>
          (if terminal_job_ids \<noteq> [] then r_job_id r \<in> set terminal_job_ids
           else opt_col project_id (r_project_id r)))
        (runs_table d)))"

definition active_child :: "db \<Rightarrow> string \<Rightarrow> job_record option" where
  "active_child d fanout_id =
     first_row (sql_limit 1 (select_where
       (\<lambda>j. j_fanout_id j = Some fanout_id \<and> j_status j \<notin> TERMINAL_JOB_STATUSES) (jobs_table d)))"

definition cleanup_fanout_ids :: "string option \<Rightarrow> db \<Rightarrow> string list" where
  "cleanup_fanout_ids project_id d =
     filter (\<lambda>f. active_child d f = None)
       (map f_id (select_where (\<lambda>f. opt_col project_id (f_project_id f)) (fanouts_table d)))"

definition cleanup_service_ids :: "string option \<Rightarrow> bool \<Rightarrow> db \<Rightarrow> string list" where
  "cleanup_service_ids project_id include_unprobed d =
     (let stopped = map ls_id (select_where (\<lambda>s. ls_status s \<in> {SvcFailed, SvcStopped}) (long_services_table d));
          unprobed = (if include_unprobed
             then map ls_id (select_where (\<lambda>s. ls_status s = SvcRegistered \<and> ls_last_probe_at s = None)
                    (long_services_table d))
             else []);
          service_ids = rev (remdups (rev (stopped @ unprobed)));
          scoped = ls_id ` set (select_where (\<lambda>s. opt_col project_id (ls_project_id s)) (long_services_table d))
      in if project_id = None then service_ids else filter (\<lambda>i. i \<in> scoped) service_ids)"

definition cleanup_event_ids :: "string option \<Rightarrow> db \<Rightarrow> string list" where
  "cleanup_event_ids project_id d =
     map e_id (select_where (\<lambda>e. opt_col project_id (e_project_id e)) (events_table d))"

definition cleanup_worker_ids :: "db \<Rightarrow> string list" where
  "cleanup_worker_ids d =
     map hb_owner_id (select_where (\<lambda>h. hb_owner_type h = OwnerWorker) (heartbeats_table d))"

definition cleanup_runtime_rows :: "string option \<Rightarrow> bool \<Rightarrow> bool \<Rightarrow> (db, cleanup_counts) op" where
  "cleanup_runtime_rows project_id dry_run include_unprobed_services = (\<lambda>d.
     let job_ids = cleanup_job_ids project_id d;
         run_ids = cleanup_run_ids project_id d;
         fanout_ids = cleanup_fanout_ids project_id d;
         service_ids = cleanup_service_ids project_id include_unprobed_services d;
         event_ids = cleanup_event_ids project_id d;
         worker_ids = cleanup_worker_ids d;
         counts = \<lparr>cc_artifacts = rowcount (\<lambda>a. ar_run_id a \<in> set run_ids) (artifacts_table d),
                   cc_handoffs = rowcount (\<lambda>h. hr_run_id h \<in> set run_ids) (handoffs_table d),
                   cc_runs = length run_ids, cc_jobs = length job_ids, cc_fanouts = length fanout_ids,
                   cc_events = length event_ids, cc_worker_heartbeats = length worker_ids,
                   cc_long_services = length service_ids\<rparr>
     in if dry_run then (Inr counts, d)
        else (Inr counts,
              d\<lparr>artifacts_table := delete_where (\<lambda>a. ar_run_id a \<in> set run_ids) (artifacts_table d),
                handoffs_table := delete_where (\<lambda>h. hr_run_id h \<in> set run_ids) (handoffs_table d),
                runs_table := delete_where (\<lambda>r. r_id r \<in> set run_ids) (runs_table d),
                jobs_table := delete_where (\<lambda>j. j_id j \<in> set job_ids) (jobs_table d),
                fanouts_table := delete_where (\<lambda>f. f_id f \<in> set fanout_ids) (fanouts_table d),
                events_table := delete_where (\<lambda>e. e_id e \<in> set event_ids) (events_table d),
                heartbeats_table := delete_where (\<lambda>h. hb_owner_id h \<in> set worker_ids) (heartbeats_table d),
                long_services_table := delete_where (\<lambda>s. ls_id s \<in> set service_ids) (long_services_table d)\<rparr>))"

text \<open>A job waiting for its retry, with the Run of its failed first attempt.\<close>

definition retrying_db :: db where
  "retrying_db = empty_db\<lparr>jobs_table := [(job_to_row (sample_job ''a'' 100 1))\<lparr>j_status := Retrying, j_attempt_count := 1\<rparr>],
     runs_table := [run_to_row (sample_run ''r1'' ''a'' 1 RunFailed)]\<rparr>"

section \<open>Facts about clean-up\<close>

lemma deleted_by_key:
  assumes "distinct_key key t" and ids: "ids = map key (filter P t)"
  shows "delete_where (\<lambda>r. key r \<in> set ids) t = filter (\<lambda>r. \<not> P r) t"
    and "length ids + length (delete_where (\<lambda>r. key r \<in> set ids) t) = length t"
proof -
  show eq: "delete_where (\<lambda>r. key r \<in> set ids) t = filter (\<lambda>r. \<not> P r) t"
    unfolding delete_where_def ids using distinct_key_inj [OF assms(1)] by (intro filter_cong) fastforce+
  show "length ids + length (delete_where (\<lambda>r. key r \<in> set ids) t) = length t"
    unfolding eq using sum_length_filter_compl [of P t] by (simp add: ids)
qed

lemma active_child_None:
  "active_child d f = None \<longleftrightarrow>
   (\<forall>j\<in>set (jobs_table d). j_fanout_id j = Some f \<longrightarrow> j_status j \<in> TERMINAL_JOB_STATUSES)"
proof -
  have "first_row (sql_limit 1 xs) = None \<longleftrightarrow> xs = []" for xs :: "job_record list"
    by (cases xs) (simp_all add: sql_limit_def)
  then show ?thesis by (auto simp: active_child_def select_where_def filter_empty_conv)
qed

lemma cleanup_eq:
  "cleanup_runtime_rows p dry inc d = (Inr c, d') \<Longrightarrow>
   cleanup_runtime_rows p True inc d = (Inr c, d) \<and> (dry \<longrightarrow> d' = d)"
  by (auto simp: cleanup_runtime_rows_def Let_def split: if_splits)

lemma cleanup_kept:
  assumes "cleanup_runtime_rows p dry inc d = (Inr c, d')"
  shows "j \<in> set (jobs_table d) \<Longrightarrow> j \<notin> set (jobs_table d') \<Longrightarrow> \<not> dry \<and> j_id j \<in> set (cleanup_job_ids p d)"
    and "r \<in> set (runs_table d) \<Longrightarrow> r \<notin> set (runs_table d') \<Longrightarrow> \<not> dry \<and> r_id r \<in> set (cleanup_run_ids p d)"
    and "f \<in> set (fanouts_table d) \<Longrightarrow> f \<notin> set (fanouts_table d') \<Longrightarrow> \<not> dry \<and> f_id f \<in> set (cleanup_fanout_ids p d)"
  using assms by (auto simp: cleanup_runtime_rows_def Let_def delete_where_def split: if_splits)

section \<open>Properties\<close>

text \<open>
  A dry run reports, for every table, exactly the number of rows the real clean-up removes,
  and removes none.
\<close>

theorem cleanup_counts_are_deletions:
  assumes "keys_ok d" and "cleanup_runtime_rows p False inc d = (Inr c, d')"
  shows "cleanup_runtime_rows p True inc d = (Inr c, d) \<and>
    cc_jobs c + length (jobs_table d') = length (jobs_table d) \<and>
    cc_runs c + length (runs_table d') = length (runs_table d) \<and>
    cc_fanouts c + length (fanouts_table d') = length (fanouts_table d) \<and>
    cc_events c + length (events_table d') = length (events_table d) \<and>
    cc_worker_heartbeats c + length (heartbeats_table d') = length (heartbeats_table d) \<and>
    cc_artifacts c + length (artifacts_table d') = length (artifacts_table d) \<and>
    cc_handoffs c + length (handoffs_table d') = length (handoffs_table d)"
proof -
  have f: "cleanup_fanout_ids p d = map f_id
      (filter (\<lambda>f. opt_col p (f_project_id f) \<and> active_child d (f_id f) = None) (fanouts_table d))"
    by (simp add: cleanup_fanout_ids_def select_where_def filter_map o_def)
  have k: "distinct_key j_id (jobs_table d)" "distinct_key r_id (runs_table d)"
    "distinct_key f_id (fanouts_table d)" "distinct_key e_id (events_table d)"
    "distinct_key hb_owner_id (heartbeats_table d)"
    using assms(1) by (simp_all add: keys_ok_def)
  note gone = deleted_by_key(2) [OF k(1) cleanup_job_ids_def [unfolded select_where_def], of p]
    deleted_by_key(2) [OF k(2) cleanup_run_ids_def [unfolded select_where_def Let_def], of p]
    deleted_by_key(2) [OF k(3) f]
    deleted_by_key(2) [OF k(4) cleanup_event_ids_def [unfolded select_where_def], of p]
    deleted_by_key(2) [OF k(5) cleanup_worker_ids_def [unfolded select_where_def]]
  have rows: "rowcount P t + length (delete_where P t) = length t" for P and t :: "'r list"
    by (simp add: rowcount_def delete_where_def sum_length_filter_compl)
  show ?thesis
    using assms(2) gone by (auto simp: cleanup_runtime_rows_def Let_def rows)
qed

theorem cleanup_counts_are_deletions_witness:
  "\<exists>c d'. cleanup_runtime_rows None False True retrying_db = (Inr c, d') \<and> cc_runs c = 1 \<and>
     cleanup_runtime_rows None True True retrying_db = (Inr c, retrying_db) \<and>
     cc_runs c + length (runs_table d') = 1"
proof -
  have k: "keys_ok retrying_db" by code_simp
  obtain c d' where c: "cleanup_runtime_rows None False True retrying_db = (Inr c, d')"
    by (simp add: cleanup_runtime_rows_def Let_def)
  have "map_sum (\<lambda>_. ()) cc_runs (fst (cleanup_runtime_rows None False True retrying_db)) = Inr 1" by code_simp
  then have "cc_runs c = 1" by (simp add: c)
  moreover have "length (runs_table retrying_db) = 1" by code_simp
  ultimately show ?thesis using cleanup_counts_are_deletions [OF k c] c by auto
qed

text \<open>
  C29. Clean-up never removes a job that is not terminal, a Run that is still running, or a fanout
  that has a child job that is not terminal; it leaves identities, tokens, schedules and the
  repository untouched.
\<close>

theorem cleanup_preserves_active_work:
  assumes "keys_ok d" and "cleanup_runtime_rows p dry inc d = (Inr c, d')"
  shows "(\<forall>j\<in>set (jobs_table d). j_status j \<notin> TERMINAL_JOB_STATUSES \<longrightarrow> j \<in> set (jobs_table d')) \<and>
    (\<forall>r\<in>set (runs_table d). r_status r = RunRunning \<longrightarrow> r \<in> set (runs_table d')) \<and>
    (\<forall>f\<in>set (fanouts_table d). (\<exists>j\<in>set (jobs_table d). j_fanout_id j = Some (f_id f) \<and>
        j_status j \<notin> TERMINAL_JOB_STATUSES) \<longrightarrow> f \<in> set (fanouts_table d')) \<and>
    users_table d' = users_table d \<and> api_tokens_table d' = api_tokens_table d \<and>
    projects_table d' = projects_table d \<and> schedules_table d' = schedules_table d \<and>
    repository_versions_table d' = repository_versions_table d \<and>
    repository_entries_table d' = repository_entries_table d"
proof -
  note kept = cleanup_kept [OF assms(2)]
  have k: "distinct_key j_id (jobs_table d)" "distinct_key r_id (runs_table d)"
    using assms(1) by (simp_all add: keys_ok_def)
  have "j \<in> set (jobs_table d')" if "j \<in> set (jobs_table d)" "j_status j \<notin> TERMINAL_JOB_STATUSES" for j
    using kept(1) [OF that(1)] distinct_key_inj [OF k(1) that(1)] that(2)
    by (auto simp: cleanup_job_ids_def select_where_def)
  moreover have "r \<in> set (runs_table d')" if "r \<in> set (runs_table d)" "r_status r = RunRunning" for r
    using kept(2) [OF that(1)] distinct_key_inj [OF k(2) that(1)] that(2)
    by (force simp: cleanup_run_ids_def select_where_def Let_def TERMINAL_RUN_STATUSES_def)
  moreover have "f \<in> set (fanouts_table d')" if "f \<in> set (fanouts_table d)"
    "\<exists>j\<in>set (jobs_table d). j_fanout_id j = Some (f_id f) \<and> j_status j \<notin> TERMINAL_JOB_STATUSES" for f
    using kept(3) [OF that(1)] that(2) by (auto simp: cleanup_fanout_ids_def active_child_None)
  ultimately show ?thesis
    using assms(2) by (auto simp: cleanup_runtime_rows_def Let_def split: if_splits)
qed

theorem cleanup_preserves_active_work_witness:
  "\<exists>c d'. cleanup_runtime_rows None False True retrying_db = (Inr c, d') \<and>
     set (jobs_table retrying_db) \<subseteq> set (jobs_table d')"
proof -
  have k: "keys_ok retrying_db" by code_simp
  obtain c d' where c: "cleanup_runtime_rows None False True retrying_db = (Inr c, d')"
    by (simp add: cleanup_runtime_rows_def Let_def)
  have "\<forall>j\<in>set (jobs_table retrying_db). j_status j \<notin> TERMINAL_JOB_STATUSES" by code_simp
  then show ?thesis using cleanup_preserves_active_work [OF k c] c by blast
qed

text \<open>
  When no job is terminal, an unscoped clean-up removes every finished Run, also the failed
  attempts of jobs that are still being retried.
\<close>

theorem cleanup_drops_runs_of_active_jobs:
  assumes "keys_ok d" and "\<forall>j\<in>set (jobs_table d). j_status j \<notin> TERMINAL_JOB_STATUSES"
  shows "runs_table (snd (cleanup_runtime_rows None False inc d)) =
    filter (\<lambda>r. r_status r = RunRunning) (runs_table d)"
proof -
  have k: "distinct_key r_id (runs_table d)" using assms(1) by (simp add: keys_ok_def)
  have "cleanup_job_ids None d = []"
    using assms(2) by (auto simp: cleanup_job_ids_def select_where_def filter_empty_conv)
  then have ids: "cleanup_run_ids None d = map r_id (filter (\<lambda>r. r_status r \<in> TERMINAL_RUN_STATUSES) (runs_table d))"
    by (simp add: cleanup_run_ids_def select_where_def opt_col_def)
  have run: "r_status r \<notin> TERMINAL_RUN_STATUSES \<longleftrightarrow> r_status r = RunRunning" for r :: run_record
    by (cases "r_status r") (auto simp: TERMINAL_RUN_STATUSES_def)
  show ?thesis
    using deleted_by_key(1) [OF k ids] by (simp add: cleanup_runtime_rows_def Let_def run)
qed

theorem cleanup_drops_runs_of_active_jobs_witness:
  "map j_status (jobs_table retrying_db) = [Retrying] \<and> map r_job_id (runs_table retrying_db) = [''a''] \<and>
   runs_table (snd (cleanup_runtime_rows None False True retrying_db)) = []"
proof -
  have "keys_ok retrying_db" by code_simp
  moreover have "\<forall>j\<in>set (jobs_table retrying_db). j_status j \<notin> TERMINAL_JOB_STATUSES" by code_simp
  ultimately have "runs_table (snd (cleanup_runtime_rows None False True retrying_db)) =
      filter (\<lambda>r. r_status r = RunRunning) (runs_table retrying_db)"
    by (rule cleanup_drops_runs_of_active_jobs)
  moreover have "map j_status (jobs_table retrying_db) = [Retrying]"
    "map r_job_id (runs_table retrying_db) = [''a'']"
    "filter (\<lambda>r. r_status r = RunRunning) (runs_table retrying_db) = []" by code_simp+
  ultimately show ?thesis by simp
qed

end
