(* ===== verification/Resource_Policies.thy ===== *)
theory Resource_Policies
  imports Contracts
begin

text \<open>
  Runtime resource policies: \<^verbatim>\<open>src/src/goblin_king/resource_policies.py\<close>. A policy is a record
  with the source's sections; \<open>policy_dump\<close> and \<open>policy_validate\<close> are the dictionary form of the
  declared model and its validation, \<open>deep_merge\<close> the merge of dictionaries. Values that are
  not of a field's declared type go through the conversions of the validation library, the
  parameter \<open>coercions\<close>. A CPU quantity is a decimal mantissa and exponent, an infinity or NaN:
  comparisons are exact where the code compares doubles.
\<close>

section \<open>Policies\<close>

record cpu_policy =
  cpu_request :: "string option"
  cpu_limit :: "string option"

record memory_policy =
  mem_request :: "string option"
  mem_limit :: "string option"

record process_policy =
  pids_limit :: "int option"

record network_policy =
  network_mode :: "string option"

record filesystem_policy =
  read_only_root :: "bool option"
  tmpfs :: "string list"
  artifact_max_bytes :: "int option"
  artifact_max_files :: "int option"

record logs_policy =
  logs_max_bytes :: "int option"

record concurrency_policy =
  max_running :: "int option"
  max_project_running :: "int option"

record resource_policy =
  rp_timeout_seconds :: "int option"
  rp_max_retries :: "int option"
  rp_cpu :: cpu_policy
  rp_memory :: memory_policy
  rp_process :: process_policy
  rp_network :: network_policy
  rp_filesystem :: filesystem_policy
  rp_logs :: logs_policy
  rp_concurrency :: concurrency_policy

definition empty_policy :: resource_policy where
  "empty_policy =
     \<lparr>rp_timeout_seconds = None, rp_max_retries = None,
      rp_cpu = \<lparr>cpu_request = None, cpu_limit = None\<rparr>,
      rp_memory = \<lparr>mem_request = None, mem_limit = None\<rparr>,
      rp_process = \<lparr>pids_limit = None\<rparr>, rp_network = \<lparr>network_mode = None\<rparr>,
      rp_filesystem = \<lparr>read_only_root = None, tmpfs = [], artifact_max_bytes = None, artifact_max_files = None\<rparr>,
      rp_logs = \<lparr>logs_max_bytes = None\<rparr>,
      rp_concurrency = \<lparr>max_running = None, max_project_running = None\<rparr>\<rparr>"

record resource_policy_set =
  ps_version :: int
  ps_defaults :: resource_policy
  ps_goblins :: "string \<rightharpoonup> resource_policy"
  ps_ceilings :: resource_policy

section \<open>Dictionary form\<close>

text \<open>
  \<^verbatim>\<open>model_dump(mode="json", exclude_none=True)\<close>, and with \<^verbatim>\<open>exclude_defaults=True\<close>, which also
  leaves out a section whose fields are all at their defaults.
\<close>

definition opt_members :: "(string \<times> json option) list \<Rightarrow> (string \<times> json) list" where
  "opt_members ms = List.map_filter (\<lambda>(k, v). map_option (Pair k) v) ms"

definition section_member :: "bool \<Rightarrow> (string \<times> json) list \<Rightarrow> json option" where
  "section_member exclude_defaults ms = (if exclude_defaults \<and> ms = [] then None else Some (JObj ms))"

definition cpu_members :: "cpu_policy \<Rightarrow> (string \<times> json) list" where
  "cpu_members c = opt_members [(''request'', map_option JStr (cpu_request c)),
     (''limit'', map_option JStr (cpu_limit c))]"

definition memory_members :: "memory_policy \<Rightarrow> (string \<times> json) list" where
  "memory_members m = opt_members [(''request'', map_option JStr (mem_request m)),
     (''limit'', map_option JStr (mem_limit m))]"

definition filesystem_members :: "bool \<Rightarrow> filesystem_policy \<Rightarrow> (string \<times> json) list" where
  "filesystem_members exclude_defaults f = opt_members
     [(''read_only_root'', map_option JBool (read_only_root f)),
      (''tmpfs'', if exclude_defaults \<and> tmpfs f = [] then None else Some (JArr (map JStr (tmpfs f)))),
      (''artifact_max_bytes'', map_option JInt (artifact_max_bytes f)),
      (''artifact_max_files'', map_option JInt (artifact_max_files f))]"

definition concurrency_members :: "concurrency_policy \<Rightarrow> (string \<times> json) list" where
  "concurrency_members c = opt_members [(''max_running'', map_option JInt (max_running c)),
     (''max_project_running'', map_option JInt (max_project_running c))]"

definition policy_dump :: "bool \<Rightarrow> resource_policy \<Rightarrow> (string \<times> json) list" where
  "policy_dump exclude_defaults p = opt_members
     [(''timeout_seconds'', map_option JInt (rp_timeout_seconds p)),
      (''max_retries'', map_option JInt (rp_max_retries p)),
      (''cpu'', section_member exclude_defaults (cpu_members (rp_cpu p))),
      (''memory'', section_member exclude_defaults (memory_members (rp_memory p))),
      (''process'', section_member exclude_defaults
         (opt_members [(''pids_limit'', map_option JInt (pids_limit (rp_process p)))])),
      (''network'', section_member exclude_defaults
         (opt_members [(''mode'', map_option JStr (network_mode (rp_network p)))])),
      (''filesystem'', section_member exclude_defaults (filesystem_members exclude_defaults (rp_filesystem p))),
      (''logs'', section_member exclude_defaults
         (opt_members [(''max_bytes'', map_option JInt (logs_max_bytes (rp_logs p)))])),
      (''concurrency'', section_member exclude_defaults (concurrency_members (rp_concurrency p)))]"

definition compact :: "resource_policy \<Rightarrow> json" where
  "compact p = JObj (policy_dump True p)"

section \<open>Validation\<close>

record coercions =
  lax_int :: "json \<Rightarrow> int option"
  lax_bool :: "json \<Rightarrow> bool option"

definition invalid :: "string \<Rightarrow> error" where
  "invalid field = Raise ValidationError field"

definition bounded :: "string \<Rightarrow> (int \<Rightarrow> bool) \<Rightarrow> int \<Rightarrow> int option result" where
  "bounded field ok i = (if ok i then Inr (Some i) else Inl (invalid field))"

fun int_field :: "coercions \<Rightarrow> string \<Rightarrow> (int \<Rightarrow> bool) \<Rightarrow> json option \<Rightarrow> int option result" where
  "int_field cv field ok None = Inr None"
| "int_field cv field ok (Some JNull) = Inr None"
| "int_field cv field ok (Some (JInt i)) = bounded field ok i"
| "int_field cv field ok (Some v) =
     (case lax_int cv v of None \<Rightarrow> Inl (invalid field) | Some i \<Rightarrow> bounded field ok i)"

fun bool_field :: "coercions \<Rightarrow> string \<Rightarrow> json option \<Rightarrow> bool option result" where
  "bool_field cv field None = Inr None"
| "bool_field cv field (Some JNull) = Inr None"
| "bool_field cv field (Some (JBool b)) = Inr (Some b)"
| "bool_field cv field (Some v) =
     (case lax_bool cv v of None \<Rightarrow> Inl (invalid field) | Some b \<Rightarrow> Inr (Some b))"

fun str_field :: "string \<Rightarrow> json option \<Rightarrow> string option result" where
  "str_field field None = Inr None"
| "str_field field (Some JNull) = Inr None"
| "str_field field (Some (JStr s)) = Inr (Some s)"
| "str_field field (Some _) = Inl (invalid field)"

fun str_item :: "string \<Rightarrow> json \<Rightarrow> string result" where
  "str_item field (JStr s) = Inr s"
| "str_item field _ = Inl (invalid field)"

fun str_list_field :: "string \<Rightarrow> json option \<Rightarrow> string list result" where
  "str_list_field field None = Inr []"
| "str_list_field field (Some (JArr xs)) = traverse (str_item field) xs"
| "str_list_field field (Some _) = Inl (invalid field)"

text \<open>\<^verbatim>\<open>extra="forbid"\<close>: an object with a key the model does not declare is rejected.\<close>

definition forbid_extra :: "string \<Rightarrow> string list \<Rightarrow> json \<Rightarrow> (string \<Rightarrow> json option) result" where
  "forbid_extra model names v =
     (case v of JObj ms \<Rightarrow> if set (map fst ms) \<subseteq> set names then Inr (map_of ms) else Inl (invalid model)
      | _ \<Rightarrow> Inl (invalid model))"

text \<open>A section that is absent is the default one.\<close>

definition section_value :: "json option \<Rightarrow> json" where
  "section_value v = (case v of None \<Rightarrow> JObj [] | Some j \<Rightarrow> j)"

definition cpu_validate :: "json option \<Rightarrow> cpu_policy result" where
  "cpu_validate v = bind_result (forbid_extra ''cpu'' [''request'', ''limit''] (section_value v)) (\<lambda>m.
     bind_result (str_field ''cpu.request'' (m ''request'')) (\<lambda>a.
     bind_result (str_field ''cpu.limit'' (m ''limit'')) (\<lambda>b.
     Inr \<lparr>cpu_request = a, cpu_limit = b\<rparr>)))"

definition memory_validate :: "json option \<Rightarrow> memory_policy result" where
  "memory_validate v = bind_result (forbid_extra ''memory'' [''request'', ''limit''] (section_value v)) (\<lambda>m.
     bind_result (str_field ''memory.request'' (m ''request'')) (\<lambda>a.
     bind_result (str_field ''memory.limit'' (m ''limit'')) (\<lambda>b.
     Inr \<lparr>mem_request = a, mem_limit = b\<rparr>)))"

definition process_validate :: "coercions \<Rightarrow> json option \<Rightarrow> process_policy result" where
  "process_validate cv v = bind_result (forbid_extra ''process'' [''pids_limit''] (section_value v)) (\<lambda>m.
     bind_result (int_field cv ''process.pids_limit'' (\<lambda>i. 0 < i) (m ''pids_limit'')) (\<lambda>a.
     Inr \<lparr>pids_limit = a\<rparr>))"

definition network_validate :: "json option \<Rightarrow> network_policy result" where
  "network_validate v = bind_result (forbid_extra ''network'' [''mode''] (section_value v)) (\<lambda>m.
     bind_result (str_field ''network.mode'' (m ''mode'')) (\<lambda>a. Inr \<lparr>network_mode = a\<rparr>))"

definition filesystem_validate :: "coercions \<Rightarrow> json option \<Rightarrow> filesystem_policy result" where
  "filesystem_validate cv v = bind_result (forbid_extra ''filesystem''
       [''read_only_root'', ''tmpfs'', ''artifact_max_bytes'', ''artifact_max_files''] (section_value v)) (\<lambda>m.
     bind_result (bool_field cv ''filesystem.read_only_root'' (m ''read_only_root'')) (\<lambda>a.
     bind_result (str_list_field ''filesystem.tmpfs'' (m ''tmpfs'')) (\<lambda>b.
     bind_result (int_field cv ''filesystem.artifact_max_bytes'' (\<lambda>i. 0 \<le> i) (m ''artifact_max_bytes'')) (\<lambda>c.
     bind_result (int_field cv ''filesystem.artifact_max_files'' (\<lambda>i. 0 \<le> i) (m ''artifact_max_files'')) (\<lambda>e.
     Inr \<lparr>read_only_root = a, tmpfs = b, artifact_max_bytes = c, artifact_max_files = e\<rparr>)))))"

definition logs_validate :: "coercions \<Rightarrow> json option \<Rightarrow> logs_policy result" where
  "logs_validate cv v = bind_result (forbid_extra ''logs'' [''max_bytes''] (section_value v)) (\<lambda>m.
     bind_result (int_field cv ''logs.max_bytes'' (\<lambda>i. 0 \<le> i) (m ''max_bytes'')) (\<lambda>a.
     Inr \<lparr>logs_max_bytes = a\<rparr>))"

definition concurrency_validate :: "coercions \<Rightarrow> json option \<Rightarrow> concurrency_policy result" where
  "concurrency_validate cv v = bind_result
       (forbid_extra ''concurrency'' [''max_running'', ''max_project_running''] (section_value v)) (\<lambda>m.
     bind_result (int_field cv ''concurrency.max_running'' (\<lambda>i. 0 < i) (m ''max_running'')) (\<lambda>a.
     bind_result (int_field cv ''concurrency.max_project_running'' (\<lambda>i. 0 < i) (m ''max_project_running'')) (\<lambda>b.
     Inr \<lparr>max_running = a, max_project_running = b\<rparr>)))"

definition policy_fields :: "string list" where
  "policy_fields = [''timeout_seconds'', ''max_retries'', ''cpu'', ''memory'', ''process'', ''network'',
     ''filesystem'', ''logs'', ''concurrency'']"

definition policy_validate :: "coercions \<Rightarrow> json \<Rightarrow> resource_policy result" where
  "policy_validate cv v = bind_result (forbid_extra ''resource_policy'' policy_fields v) (\<lambda>m.
     bind_result (int_field cv ''timeout_seconds'' (\<lambda>i. 0 < i) (m ''timeout_seconds'')) (\<lambda>timeout.
     bind_result (int_field cv ''max_retries'' (\<lambda>i. 0 \<le> i) (m ''max_retries'')) (\<lambda>retries.
     bind_result (cpu_validate (m ''cpu'')) (\<lambda>cpu.
     bind_result (memory_validate (m ''memory'')) (\<lambda>memory.
     bind_result (process_validate cv (m ''process'')) (\<lambda>process.
     bind_result (network_validate (m ''network'')) (\<lambda>network.
     bind_result (filesystem_validate cv (m ''filesystem'')) (\<lambda>filesystem.
     bind_result (logs_validate cv (m ''logs'')) (\<lambda>logs.
     bind_result (concurrency_validate cv (m ''concurrency'')) (\<lambda>concurrency.
     Inr \<lparr>rp_timeout_seconds = timeout, rp_max_retries = retries, rp_cpu = cpu, rp_memory = memory,
          rp_process = process, rp_network = network, rp_filesystem = filesystem, rp_logs = logs,
          rp_concurrency = concurrency\<rparr>))))))))))"

section \<open>Quantities\<close>

text \<open>\<^verbatim>\<open>float(text)\<close>: surrounding white space, a sign, digits with underscores, a fraction, an exponent.\<close>

datatype cpu_value = Decimal int int | Infinite bool | NotANumber

definition is_digit :: "char \<Rightarrow> bool" where
  "is_digit c \<longleftrightarrow> CHR ''0'' \<le> c \<and> c \<le> CHR ''9''"

fun skip_underscore :: "string \<Rightarrow> string" where
  "skip_underscore (u # d # cs) = (if u = CHR ''_'' \<and> is_digit d then d # cs else u # d # cs)"
| "skip_underscore cs = cs"

lemma length_skip_underscore: "length (skip_underscore cs) \<le> length cs"
  by (cases cs rule: skip_underscore.cases) auto

function digits_run :: "string \<Rightarrow> string \<times> string" where
  "digits_run [] = ([], [])"
| "digits_run (c # cs) =
     (if is_digit c then let (ds, rest) = digits_run (skip_underscore cs) in (c # ds, rest) else ([], c # cs))"
  by pat_completeness auto
termination
  by (relation "measure length") (auto simp: le_imp_less_Suc length_skip_underscore)

definition digits_value :: "string \<Rightarrow> int" where
  "digits_value ds = foldl (\<lambda>n c. 10 * n + (int (of_char c) - 48)) 0 ds"

fun take_sign :: "string \<Rightarrow> bool \<times> string" where
  "take_sign (c # cs) = (if c = CHR ''-'' then (True, cs) else if c = CHR ''+'' then (False, cs) else (False, c # cs))"
| "take_sign [] = (False, [])"

definition exponent_part :: "string \<Rightarrow> (int \<times> string) option" where
  "exponent_part r =
     (case r of [] \<Rightarrow> Some (0, [])
      | c # cs \<Rightarrow>
          if c = CHR ''e'' \<or> c = CHR ''E''
          then let (neg, ds) = take_sign cs; (es, rest) = digits_run ds in
               if es = [] then None else Some (if neg then - digits_value es else digits_value es, rest)
          else Some (0, r))"

definition py_float :: "string \<Rightarrow> cpu_value option" where
  "py_float s =
     (let (neg, u) = take_sign (py_strip s); l = py_lower u in
      if l = ''inf'' \<or> l = ''infinity'' then Some (Infinite neg)
      else if l = ''nan'' then Some NotANumber
      else
        let (ip, r1) = digits_run u;
            (fp, r2) = (case r1 of [] \<Rightarrow> ([], []) | c # cs \<Rightarrow> if c = CHR ''.'' then digits_run cs else ([], r1))
        in if ip = [] \<and> fp = [] then None
           else case exponent_part r2 of
                  Some (e, []) \<Rightarrow>
                    Some (Decimal (if neg then - digits_value (ip @ fp) else digits_value (ip @ fp)) (e - int (length fp)))
                | _ \<Rightarrow> None)"

fun cpu_gt :: "cpu_value \<Rightarrow> cpu_value \<Rightarrow> bool" where
  "cpu_gt (Decimal a e) (Decimal b f) = (a * 10 ^ nat (e - min e f) > b * 10 ^ nat (f - min e f))"
| "cpu_gt NotANumber _ = False"
| "cpu_gt _ NotANumber = False"
| "cpu_gt (Infinite neg) (Infinite neg') = (\<not> neg \<and> neg')"
| "cpu_gt (Infinite neg) (Decimal _ _) = (\<not> neg)"
| "cpu_gt (Decimal _ _) (Infinite neg) = neg"

fun thousandth :: "cpu_value \<Rightarrow> cpu_value" where
  "thousandth (Decimal a e) = Decimal a (e - 3)"
| "thousandth v = v"

definition parse_float :: "string \<Rightarrow> cpu_value result" where
  "parse_float s = (case py_float s of
     None \<Rightarrow> Inl (Raise ValueError (''could not convert string to float: '' @ py_repr s))
   | Some v \<Rightarrow> Inr v)"

definition parse_cpu :: "string option \<Rightarrow> cpu_value option result" where
  "parse_cpu v =
     (case v of None \<Rightarrow> Inr None
      | Some s \<Rightarrow>
          if s \<noteq> [] \<and> last s = CHR ''m''
          then bind_result (parse_float (butlast s)) (\<lambda>f. Inr (Some (thousandth f)))
          else bind_result (parse_float s) (\<lambda>f. Inr (Some f)))"

definition BYTE_MULTIPLIERS :: "(string \<times> int) list" where
  "BYTE_MULTIPLIERS = [('''', 1), (''K'', 1000), (''M'', 1000 ^ 2), (''G'', 1000 ^ 3), (''T'', 1000 ^ 4),
     (''Ki'', 1024), (''Mi'', 1024 ^ 2), (''Gi'', 1024 ^ 3), (''Ti'', 1024 ^ 4)]"

text \<open>The pattern ends in \<^verbatim>\<open>$\<close>, which also matches before a final newline.\<close>

definition drop_newline :: "string \<Rightarrow> string" where
  "drop_newline s = (if s \<noteq> [] \<and> last s = CHR 0x0A then butlast s else s)"

definition parse_bytes :: "string option \<Rightarrow> int option result" where
  "parse_bytes v =
     (case v of None \<Rightarrow> Inr None
      | Some s \<Rightarrow>
          let digits = takeWhile is_digit s; rest = dropWhile is_digit s in
          case (if digits = [] then None else map_of BYTE_MULTIPLIERS (drop_newline rest)) of
            None \<Rightarrow> Inl (Raise ResourcePolicyError (''invalid byte quantity: '' @ s))
          | Some k \<Rightarrow> Inr (Some (digits_value digits * k)))"

section \<open>Effective policies\<close>

fun deep_merge :: "(string \<times> json) list \<Rightarrow> (string \<times> json) list \<Rightarrow> (string \<times> json) list" where
  "deep_merge base [] = base"
| "deep_merge base ((k, JObj ov) # rest) =
     deep_merge (assoc_set k
       (case map_of base k of Some (JObj bv) \<Rightarrow> JObj (deep_merge bv ov) | _ \<Rightarrow> JObj ov) base) rest"
| "deep_merge base ((k, v) # rest) = deep_merge (assoc_set k v base) rest"

definition policy_error :: "string \<Rightarrow> string \<Rightarrow> error" where
  "policy_error kind field = Raise ResourcePolicyError (kind @ '' resource policy exceeds ceiling for '' @ field)"

text \<open>One row of the table of checks: both values are given and the first is greater.\<close>

definition exceeds :: "('a \<Rightarrow> 'a \<Rightarrow> bool) \<Rightarrow> 'a option \<Rightarrow> 'a option \<Rightarrow> bool" where
  "exceeds gt value max_value =
     (case (value, max_value) of (Some v, Some m) \<Rightarrow> gt v m | _ \<Rightarrow> False)"

abbreviation over :: "int option \<Rightarrow> int option \<Rightarrow> bool" where
  "over \<equiv> exceeds (\<lambda>v m. v > m)"

fun first_failure :: "string \<Rightarrow> (string \<times> bool) list \<Rightarrow> unit result" where
  "first_failure kind [] = Inr ()"
| "first_failure kind ((field, failed) # rest) =
     (if failed then Inl (policy_error kind field) else first_failure kind rest)"

definition ceiling_checks ::
  "resource_policy \<Rightarrow> resource_policy \<Rightarrow> cpu_value option \<Rightarrow> cpu_value option \<Rightarrow> int option \<Rightarrow> int option \<Rightarrow>
   (string \<times> bool) list" where
  "ceiling_checks policy ceiling cpu cpu_max mem mem_max =
     [(''timeout_seconds'', over (rp_timeout_seconds policy) (rp_timeout_seconds ceiling)),
      (''max_retries'', over (rp_max_retries policy) (rp_max_retries ceiling)),
      (''cpu.limit'', exceeds cpu_gt cpu cpu_max),
      (''memory.limit'', over mem mem_max),
      (''process.pids_limit'', over (pids_limit (rp_process policy)) (pids_limit (rp_process ceiling))),
      (''filesystem.artifact_max_bytes'',
        over (artifact_max_bytes (rp_filesystem policy)) (artifact_max_bytes (rp_filesystem ceiling))),
      (''filesystem.artifact_max_files'',
        over (artifact_max_files (rp_filesystem policy)) (artifact_max_files (rp_filesystem ceiling))),
      (''logs.max_bytes'', over (logs_max_bytes (rp_logs policy)) (logs_max_bytes (rp_logs ceiling))),
      (''concurrency.max_running'',
        over (max_running (rp_concurrency policy)) (max_running (rp_concurrency ceiling))),
      (''concurrency.max_project_running'',
        over (max_project_running (rp_concurrency policy)) (max_project_running (rp_concurrency ceiling)))]"

definition validate_within_ceilings :: "resource_policy_set \<Rightarrow> string \<Rightarrow> resource_policy \<Rightarrow> unit result" where
  "validate_within_ceilings ps kind policy =
     (let ceiling = ps_ceilings ps in
      bind_result (parse_cpu (cpu_limit (rp_cpu policy))) (\<lambda>cpu.
      bind_result (parse_cpu (cpu_limit (rp_cpu ceiling))) (\<lambda>cpu_max.
      bind_result (parse_bytes (mem_limit (rp_memory policy))) (\<lambda>mem.
      bind_result (parse_bytes (mem_limit (rp_memory ceiling))) (\<lambda>mem_max.
      first_failure kind (ceiling_checks policy ceiling cpu cpu_max mem mem_max))))))"

definition set_member :: "string \<Rightarrow> int option \<Rightarrow> (string \<times> json) list \<Rightarrow> (string \<times> json) list" where
  "set_member k v ms = (case v of None \<Rightarrow> ms | Some i \<Rightarrow> assoc_set k (JInt i) ms)"

definition goblin_policy :: "resource_policy_set \<Rightarrow> string \<Rightarrow> resource_policy" where
  "goblin_policy ps kind = (case ps_goblins ps kind of None \<Rightarrow> empty_policy | Some p \<Rightarrow> p)"

definition merged_policy ::
  "resource_policy_set \<Rightarrow> string \<Rightarrow> int option \<Rightarrow> int option \<Rightarrow> (string \<times> json) list" where
  "merged_policy ps kind timeout_seconds max_retries =
     set_member ''max_retries'' max_retries
       (set_member ''timeout_seconds'' timeout_seconds
         (deep_merge (policy_dump False (ps_defaults ps)) (policy_dump True (goblin_policy ps kind))))"

definition effective_for ::
  "coercions \<Rightarrow> resource_policy_set \<Rightarrow> string \<Rightarrow> int option \<Rightarrow> int option \<Rightarrow> resource_policy result" where
  "effective_for cv ps kind timeout_seconds max_retries =
     bind_result (policy_validate cv (JObj (merged_policy ps kind timeout_seconds max_retries))) (\<lambda>policy.
     bind_result (validate_within_ceilings ps kind policy) (\<lambda>_. Inr policy))"

definition policy_from_job_metadata :: "coercions \<Rightarrow> json \<Rightarrow> resource_policy option result" where
  "policy_from_job_metadata cv metadata =
     (case obj_get metadata ''resource_policy'' of
        None \<Rightarrow> Inr None
      | Some JNull \<Rightarrow> Inr None
      | Some payload \<Rightarrow>
          (case policy_validate cv payload of
             Inl e \<Rightarrow> Inl (Raise ResourcePolicyError (''invalid persisted resource policy: '' @ error_message e))
           | Inr p \<Rightarrow> Inr (Some p)))"

section \<open>Reading a policy file\<close>

datatype file_read = FileMissing | InvalidJson | FileJson json

definition default_int :: "int \<Rightarrow> int option result \<Rightarrow> int result" where
  "default_int d r = bind_result r (\<lambda>v. Inr (case v of None \<Rightarrow> d | Some i \<Rightarrow> i))"

definition goblins_validate :: "coercions \<Rightarrow> json option \<Rightarrow> (string \<times> resource_policy) list result" where
  "goblins_validate cv v =
     (case v of None \<Rightarrow> Inr []
      | Some (JObj ms) \<Rightarrow> traverse (\<lambda>(k, j). bind_result (policy_validate cv j) (\<lambda>p. Inr (k, p))) ms
      | Some _ \<Rightarrow> Inl (invalid ''goblins''))"

definition policy_set_validate :: "coercions \<Rightarrow> json \<Rightarrow> resource_policy_set result" where
  "policy_set_validate cv v =
     bind_result (forbid_extra ''policy set'' [''version'', ''defaults'', ''goblins'', ''ceilings''] v) (\<lambda>m.
     bind_result (if m ''version'' = Some JNull then Inl (invalid ''version'')
                  else default_int 1 (int_field cv ''version'' (\<lambda>_. True) (m ''version''))) (\<lambda>version.
     bind_result (policy_validate cv (section_value (m ''defaults''))) (\<lambda>defaults.
     bind_result (goblins_validate cv (m ''goblins'')) (\<lambda>goblins.
     bind_result (policy_validate cv (section_value (m ''ceilings''))) (\<lambda>ceilings.
     Inr \<lparr>ps_version = version, ps_defaults = defaults, ps_goblins = map_of goblins,
          ps_ceilings = ceilings\<rparr>)))))"

definition policy_set_from_path :: "coercions \<Rightarrow> string \<Rightarrow> file_read \<Rightarrow> resource_policy_set result" where
  "policy_set_from_path cv path read =
     (case read of
        FileMissing \<Rightarrow> Inl (Raise ResourcePolicyError (''resource policy file not found: '' @ path))
      | InvalidJson \<Rightarrow> Inl (Raise ResourcePolicyError (''resource policy file is not valid JSON: '' @ path))
      | FileJson payload \<Rightarrow>
          (case policy_set_validate cv payload of
             Inl e \<Rightarrow> Inl (Raise ResourcePolicyError (error_message e))
           | Inr ps \<Rightarrow>
               if ps_version ps \<noteq> 1
               then Inl (Raise ResourcePolicyError (''unsupported resource policy version: '' @ str_int (ps_version ps)))
               else Inr ps))"

section \<open>The policy an override gives\<close>

text \<open>The reference: field by field, the override's value where it has one, else the default's.\<close>

definition later :: "'a option \<Rightarrow> 'a option \<Rightarrow> 'a option" where
  "later a b = (case b of None \<Rightarrow> a | Some _ \<Rightarrow> b)"

definition overlay_policy :: "resource_policy \<Rightarrow> resource_policy \<Rightarrow> resource_policy" where
  "overlay_policy a b =
     \<lparr>rp_timeout_seconds = later (rp_timeout_seconds a) (rp_timeout_seconds b),
      rp_max_retries = later (rp_max_retries a) (rp_max_retries b),
      rp_cpu = \<lparr>cpu_request = later (cpu_request (rp_cpu a)) (cpu_request (rp_cpu b)),
                cpu_limit = later (cpu_limit (rp_cpu a)) (cpu_limit (rp_cpu b))\<rparr>,
      rp_memory = \<lparr>mem_request = later (mem_request (rp_memory a)) (mem_request (rp_memory b)),
                   mem_limit = later (mem_limit (rp_memory a)) (mem_limit (rp_memory b))\<rparr>,
      rp_process = \<lparr>pids_limit = later (pids_limit (rp_process a)) (pids_limit (rp_process b))\<rparr>,
      rp_network = \<lparr>network_mode = later (network_mode (rp_network a)) (network_mode (rp_network b))\<rparr>,
      rp_filesystem =
        \<lparr>read_only_root = later (read_only_root (rp_filesystem a)) (read_only_root (rp_filesystem b)),
         tmpfs = (if tmpfs (rp_filesystem b) = [] then tmpfs (rp_filesystem a) else tmpfs (rp_filesystem b)),
         artifact_max_bytes = later (artifact_max_bytes (rp_filesystem a)) (artifact_max_bytes (rp_filesystem b)),
         artifact_max_files = later (artifact_max_files (rp_filesystem a)) (artifact_max_files (rp_filesystem b))\<rparr>,
      rp_logs = \<lparr>logs_max_bytes = later (logs_max_bytes (rp_logs a)) (logs_max_bytes (rp_logs b))\<rparr>,
      rp_concurrency =
        \<lparr>max_running = later (max_running (rp_concurrency a)) (max_running (rp_concurrency b)),
         max_project_running =
           later (max_project_running (rp_concurrency a)) (max_project_running (rp_concurrency b))\<rparr>\<rparr>"

text \<open>The bounds of the declared model.\<close>

definition all_opt :: "('a \<Rightarrow> bool) \<Rightarrow> 'a option \<Rightarrow> bool" where
  "all_opt P v = (case v of None \<Rightarrow> True | Some x \<Rightarrow> P x)"

definition valid_policy :: "resource_policy \<Rightarrow> bool" where
  "valid_policy p \<longleftrightarrow>
     all_opt (\<lambda>i. 0 < i) (rp_timeout_seconds p) \<and> all_opt (\<lambda>i. 0 \<le> i) (rp_max_retries p) \<and>
     all_opt (\<lambda>i. 0 < i) (pids_limit (rp_process p)) \<and>
     all_opt (\<lambda>i. 0 \<le> i) (artifact_max_bytes (rp_filesystem p)) \<and>
     all_opt (\<lambda>i. 0 \<le> i) (artifact_max_files (rp_filesystem p)) \<and>
     all_opt (\<lambda>i. 0 \<le> i) (logs_max_bytes (rp_logs p)) \<and>
     all_opt (\<lambda>i. 0 < i) (max_running (rp_concurrency p)) \<and>
     all_opt (\<lambda>i. 0 < i) (max_project_running (rp_concurrency p))"

section \<open>Facts about dictionaries\<close>

lemma later_None [simp]: "later None v = v"
  by (cases v) (simp_all add: later_def)

lemma map_of_opt_members [simp]:
  "map_of (opt_members []) k = None"
  "map_of (opt_members ((k', v) # ms)) k =
     (if k = k' then later (map_of (opt_members ms) k) v else map_of (opt_members ms) k)"
  by (auto simp: opt_members_def List.map_filter_def later_def split: option.split)

lemma keys_opt_members: "set (map fst (opt_members ms)) \<subseteq> set (map fst ms)"
  by (force simp: opt_members_def List.map_filter_def)

lemma distinct_opt_members: "distinct (map fst ms) \<Longrightarrow> distinct (map fst (opt_members ms))"
proof (induction ms)
  case (Cons m ms)
  have sub: "fst ` set (opt_members ms) \<subseteq> fst ` set ms" using keys_opt_members [of ms] by simp
  obtain k v where m: "m = (k, v)" by (cases m)
  have "opt_members (m # ms) = (case v of None \<Rightarrow> [] | Some j \<Rightarrow> [(k, j)]) @ opt_members ms"
    by (simp add: opt_members_def List.map_filter_def m split: option.split)
  then show ?case using Cons sub by (auto simp: m split: option.split)
qed (simp add: opt_members_def List.map_filter_def)

lemma map_of_assoc_set [simp]: "map_of (assoc_set k v ms) = (map_of ms)(k \<mapsto> v)"
  by (induction ms) (auto simp: fun_eq_iff)

lemma keys_assoc_set [simp]: "fst ` set (assoc_set k v ms) = insert k (fst ` set ms)"
  by (induction k v ms rule: assoc_set.induct) (simp_all add: insert_commute)

definition merged_value :: "json option \<Rightarrow> json \<Rightarrow> json" where
  "merged_value old new = (case (new, old) of (JObj o1, Some (JObj b)) \<Rightarrow> JObj (deep_merge b o1) | _ \<Rightarrow> new)"

definition merge_opt :: "json option \<Rightarrow> json option \<Rightarrow> json option" where
  "merge_opt old new = map_option (merged_value old) new"

lemma deep_merge_Cons: "deep_merge base ((k, v) # rest) = deep_merge (assoc_set k (merged_value (map_of base k) v) base) rest"
  by (cases v) (auto simp: merged_value_def split: option.split json.split)

lemma map_of_deep_merge:
  "distinct (map fst ov) \<Longrightarrow> map_of (deep_merge base ov) k = later (map_of base k) (merge_opt (map_of base k) (map_of ov k))"
proof (induction ov arbitrary: base)
  case (Cons m ov)
  obtain k' v where m: "m = (k', v)" by (cases m)
  have "map_of ov k' = None" using Cons.prems by (simp add: m map_of_eq_None_iff)
  then show ?case using Cons by (auto simp: m deep_merge_Cons merge_opt_def later_def simp del: deep_merge.simps split: option.split)
qed (simp add: merge_opt_def later_def)

lemma keys_deep_merge: "fst ` set (deep_merge base ov) = fst ` set base \<union> fst ` set ov"
proof (induction ov arbitrary: base)
  case (Cons m ov)
  obtain k v where m: "m = (k, v)" by (cases m)
  show ?case unfolding m deep_merge_Cons Cons.IH by (simp add: Un_assoc)
qed simp

section \<open>Validating a merged dictionary\<close>

lemma forbid_extra_Inr: "set (map fst ms) \<subseteq> set names \<Longrightarrow> forbid_extra model names (JObj ms) = Inr (map_of ms)"
  by (simp add: forbid_extra_def)

lemma int_field_opt:
  "all_opt ok v \<Longrightarrow> int_field cv f ok (map_option JInt v) = Inr v"
  by (cases v) (simp_all add: all_opt_def bounded_def)

lemma str_field_opt: "str_field f (map_option JStr v) = Inr v"
  by (cases v) simp_all

lemma bool_field_opt: "bool_field cv f (map_option JBool v) = Inr v"
  by (cases v) simp_all

lemma traverse_str_item: "traverse (str_item f) (map JStr xs) = Inr xs"
  by (induction xs) simp_all

lemma merged_leaf [simp]:
  "merged_value old (JInt i) = JInt i" "merged_value old (JStr t) = JStr t"
  "merged_value old (JBool b) = JBool b" "merged_value old (JArr xs) = JArr xs"
  by (simp_all add: merged_value_def)

text \<open>The value of a plain field in the merge of two dumps.\<close>

lemma merged_int: "later (map_option JInt a) (merge_opt old (map_option JInt b)) = map_option JInt (later a b)"
  by (cases b) (simp_all add: later_def merge_opt_def)

lemma merged_str: "later (map_option JStr a) (merge_opt old (map_option JStr b)) = map_option JStr (later a b)"
  by (cases b) (simp_all add: later_def merge_opt_def)

lemma merged_bool: "later (map_option JBool a) (merge_opt old (map_option JBool b)) = map_option JBool (later a b)"
  by (cases b) (simp_all add: later_def merge_opt_def)

lemma merge_keys:
  "set (map fst (deep_merge (opt_members a) (opt_members b))) \<subseteq> set (map fst a) \<union> set (map fst b)"
  using keys_opt_members [of a] keys_opt_members [of b] by (auto simp: keys_deep_merge)

lemma map_of_merge_dumps:
  "distinct (map fst b) \<Longrightarrow> map_of (deep_merge (opt_members a) (opt_members b)) k =
     later (map_of (opt_members a) k) (merge_opt (map_of (opt_members a) k) (map_of (opt_members b) k))"
  by (rule map_of_deep_merge [OF distinct_opt_members])

lemma cpu_merge:
  "cpu_validate (Some (JObj (deep_merge (cpu_members a) (cpu_members b)))) =
     Inr \<lparr>cpu_request = later (cpu_request a) (cpu_request b), cpu_limit = later (cpu_limit a) (cpu_limit b)\<rparr>"
proof -
  have keys: "set (map fst (deep_merge (cpu_members a) (cpu_members b))) \<subseteq> set [''request'', ''limit'']"
    unfolding cpu_members_def by (rule order_trans [OF merge_keys]) simp
  show ?thesis
    by (simp add: cpu_validate_def section_value_def forbid_extra_Inr [OF keys])
      (simp add: cpu_members_def map_of_merge_dumps merged_str str_field_opt)
qed

lemma memory_merge:
  "memory_validate (Some (JObj (deep_merge (memory_members a) (memory_members b)))) =
     Inr \<lparr>mem_request = later (mem_request a) (mem_request b), mem_limit = later (mem_limit a) (mem_limit b)\<rparr>"
proof -
  have keys: "set (map fst (deep_merge (memory_members a) (memory_members b))) \<subseteq> set [''request'', ''limit'']"
    unfolding memory_members_def by (rule order_trans [OF merge_keys]) simp
  show ?thesis
    by (simp add: memory_validate_def section_value_def forbid_extra_Inr [OF keys])
      (simp add: memory_members_def map_of_merge_dumps merged_str str_field_opt)
qed

lemma concurrency_merge:
  assumes "all_opt (\<lambda>i. 0 < i) (later (max_running a) (max_running b))"
    and "all_opt (\<lambda>i. 0 < i) (later (max_project_running a) (max_project_running b))"
  shows "concurrency_validate cv (Some (JObj (deep_merge (concurrency_members a) (concurrency_members b)))) =
     Inr \<lparr>max_running = later (max_running a) (max_running b),
          max_project_running = later (max_project_running a) (max_project_running b)\<rparr>"
proof -
  have keys: "set (map fst (deep_merge (concurrency_members a) (concurrency_members b)))
      \<subseteq> set [''max_running'', ''max_project_running'']"
    unfolding concurrency_members_def by (rule order_trans [OF merge_keys]) simp
  show ?thesis using assms
    by (simp add: concurrency_validate_def section_value_def forbid_extra_Inr [OF keys])
      (simp add: concurrency_members_def map_of_merge_dumps merged_int int_field_opt)
qed

lemma single_int_merge:
  assumes "all_opt ok (later a b)" and "k \<noteq> ''''"
  shows "bind_result (forbid_extra model [k] (JObj (deep_merge (opt_members [(k, map_option JInt a)])
      (opt_members [(k, map_option JInt b)])))) (\<lambda>m. bind_result (int_field cv f ok (m k)) g) = g (later a b)"
proof -
  have keys: "set (map fst (deep_merge (opt_members [(k, map_option JInt a)]) (opt_members [(k, map_option JInt b)])))
      \<subseteq> set [k]" by (rule order_trans [OF merge_keys]) simp
  show ?thesis using assms(1)
    by (simp add: forbid_extra_Inr [OF keys] map_of_merge_dumps merged_int int_field_opt)
qed

lemma process_merge:
  "all_opt (\<lambda>i. 0 < i) (later a b) \<Longrightarrow>
   process_validate cv (Some (JObj (deep_merge (opt_members [(''pids_limit'', map_option JInt a)])
     (opt_members [(''pids_limit'', map_option JInt b)])))) = Inr \<lparr>pids_limit = later a b\<rparr>"
  unfolding process_validate_def section_value_def option.case by (rule single_int_merge) simp_all

lemma logs_merge:
  "all_opt (\<lambda>i. 0 \<le> i) (later a b) \<Longrightarrow>
   logs_validate cv (Some (JObj (deep_merge (opt_members [(''max_bytes'', map_option JInt a)])
     (opt_members [(''max_bytes'', map_option JInt b)])))) = Inr \<lparr>logs_max_bytes = later a b\<rparr>"
  unfolding logs_validate_def section_value_def option.case by (rule single_int_merge) simp_all

lemma network_merge:
  "network_validate (Some (JObj (deep_merge (opt_members [(''mode'', map_option JStr a)])
     (opt_members [(''mode'', map_option JStr b)])))) = Inr \<lparr>network_mode = later a b\<rparr>"
proof -
  have keys: "set (map fst (deep_merge (opt_members [(''mode'', map_option JStr a)])
      (opt_members [(''mode'', map_option JStr b)]))) \<subseteq> set [''mode'']"
    by (rule order_trans [OF merge_keys]) simp
  show ?thesis
    by (simp add: network_validate_def section_value_def forbid_extra_Inr [OF keys] map_of_merge_dumps
        merged_str str_field_opt)
qed

lemma filesystem_merge:
  assumes "all_opt (\<lambda>i. 0 \<le> i) (later (artifact_max_bytes a) (artifact_max_bytes b))"
    and "all_opt (\<lambda>i. 0 \<le> i) (later (artifact_max_files a) (artifact_max_files b))"
  shows "filesystem_validate cv (Some (JObj (deep_merge (filesystem_members False a) (filesystem_members True b)))) =
     Inr \<lparr>read_only_root = later (read_only_root a) (read_only_root b),
          tmpfs = (if tmpfs b = [] then tmpfs a else tmpfs b),
          artifact_max_bytes = later (artifact_max_bytes a) (artifact_max_bytes b),
          artifact_max_files = later (artifact_max_files a) (artifact_max_files b)\<rparr>"
proof -
  have keys: "set (map fst (deep_merge (filesystem_members False a) (filesystem_members True b)))
      \<subseteq> set [''read_only_root'', ''tmpfs'', ''artifact_max_bytes'', ''artifact_max_files'']"
    unfolding filesystem_members_def by (rule order_trans [OF merge_keys]) simp
  have tmp: "str_list_field f (later (Some (JArr (map JStr x))) (merge_opt old None)) = Inr x"
    "str_list_field f (later (Some (JArr (map JStr x))) (merge_opt old (Some (JArr (map JStr y))))) = Inr y"
    for f x y old by (simp_all add: later_def merge_opt_def traverse_str_item)
  show ?thesis using assms
    by (simp add: filesystem_validate_def section_value_def forbid_extra_Inr [OF keys])
      (simp add: filesystem_members_def map_of_merge_dumps merged_int merged_bool int_field_opt
        bool_field_opt tmp)
qed

lemma section_merge:
  "later (Some (JObj x)) (merge_opt (Some (JObj x)) (section_member True y)) = Some (JObj (deep_merge x y))"
  by (simp add: section_member_def later_def merge_opt_def merged_value_def)

text \<open>The merge of two dumped policies validates to the field-by-field overlay.\<close>

definition with_call :: "resource_policy \<Rightarrow> int option \<Rightarrow> int option \<Rightarrow> resource_policy" where
  "with_call p timeout_seconds retries =
     p\<lparr>rp_timeout_seconds := later (rp_timeout_seconds p) timeout_seconds,
       rp_max_retries := later (rp_max_retries p) retries\<rparr>"

lemma map_of_set_member:
  "map_of (set_member k v ms) = (\<lambda>x. if x = k then later (map_of ms k) (map_option JInt v) else map_of ms x)"
  by (cases v) (auto simp: set_member_def later_def fun_eq_iff)

lemma keys_set_member: "k \<in> S \<Longrightarrow> fst ` set ms \<subseteq> S \<Longrightarrow> fst ` set (set_member k v ms) \<subseteq> S"
  by (cases v) (simp_all add: set_member_def)

lemma later_map: "later (map_option f a) (map_option f b) = map_option f (later a b)"
  by (cases b) (simp_all add: later_def)

lemma all_opt_later: "all_opt P a \<Longrightarrow> all_opt P b \<Longrightarrow> all_opt P (later a b)"
  by (cases b) (simp_all add: later_def all_opt_def)

lemma valid_overlay:
  "valid_policy a \<Longrightarrow> valid_policy b \<Longrightarrow> valid_policy (overlay_policy a b)"
  by (simp add: valid_policy_def overlay_policy_def all_opt_later)

lemma policy_dump_keys: "set (map fst (policy_dump ex p)) \<subseteq> set policy_fields"
  unfolding policy_dump_def policy_fields_def by (rule order_trans [OF keys_opt_members]) simp

lemma merged_policy_validates:
  assumes a: "valid_policy (ps_defaults ps)" and b: "valid_policy (goblin_policy ps kind)"
    and t: "all_opt (\<lambda>i. 0 < i) timeout" and r: "all_opt (\<lambda>i. 0 \<le> i) retries"
  shows "policy_validate cv (JObj (merged_policy ps kind timeout retries)) =
    Inr (with_call (overlay_policy (ps_defaults ps) (goblin_policy ps kind)) timeout retries)"
proof -
  let ?a = "ps_defaults ps" and ?b = "goblin_policy ps kind"
  let ?m = "merged_policy ps kind timeout retries"
  have keys: "set (map fst ?m) \<subseteq> set policy_fields"
    using policy_dump_keys [of False ?a] policy_dump_keys [of True ?b] unfolding merged_policy_def set_map
    by (intro keys_set_member) (simp_all add: keys_deep_merge, simp_all add: policy_fields_def)
  have dump: "map_of (deep_merge (policy_dump False ?a) (policy_dump True ?b)) k =
      later (map_of (policy_dump False ?a) k) (merge_opt (map_of (policy_dump False ?a) k) (map_of (policy_dump True ?b) k))" for k
    unfolding policy_dump_def by (rule map_of_merge_dumps) simp
  note look = merged_policy_def map_of_set_member dump
    and dumped = policy_dump_def section_member_def [of False] section_merge merged_int later_map
  have m1: "map_of ?m ''timeout_seconds'' =
      map_option JInt (later (later (rp_timeout_seconds ?a) (rp_timeout_seconds ?b)) timeout)"
    by (simp add: look) (simp add: dumped)
  have m2: "map_of ?m ''max_retries'' = map_option JInt (later (later (rp_max_retries ?a) (rp_max_retries ?b)) retries)"
    by (simp add: look) (simp add: dumped)
  have m3: "map_of ?m ''cpu'' = Some (JObj (deep_merge (cpu_members (rp_cpu ?a)) (cpu_members (rp_cpu ?b))))"
    "map_of ?m ''memory'' = Some (JObj (deep_merge (memory_members (rp_memory ?a)) (memory_members (rp_memory ?b))))"
    "map_of ?m ''process'' = Some (JObj (deep_merge (opt_members [(''pids_limit'', map_option JInt (pids_limit (rp_process ?a)))])
       (opt_members [(''pids_limit'', map_option JInt (pids_limit (rp_process ?b)))])))"
    "map_of ?m ''network'' = Some (JObj (deep_merge (opt_members [(''mode'', map_option JStr (network_mode (rp_network ?a)))])
       (opt_members [(''mode'', map_option JStr (network_mode (rp_network ?b)))])))"
    by (simp_all add: look) (simp_all add: dumped)
  have m4: "map_of ?m ''filesystem'' = Some (JObj (deep_merge (filesystem_members False (rp_filesystem ?a))
       (filesystem_members True (rp_filesystem ?b))))"
    "map_of ?m ''logs'' = Some (JObj (deep_merge (opt_members [(''max_bytes'', map_option JInt (logs_max_bytes (rp_logs ?a)))])
       (opt_members [(''max_bytes'', map_option JInt (logs_max_bytes (rp_logs ?b)))])))"
    "map_of ?m ''concurrency'' = Some (JObj (deep_merge (concurrency_members (rp_concurrency ?a))
       (concurrency_members (rp_concurrency ?b))))"
    by (simp_all add: look) (simp_all add: dumped)
  have v: "int_field cv f1 (\<lambda>i. 0 < i) (map_option JInt (later (later (rp_timeout_seconds ?a) (rp_timeout_seconds ?b)) timeout)) =
      Inr (later (later (rp_timeout_seconds ?a) (rp_timeout_seconds ?b)) timeout)"
    "int_field cv f1 (\<lambda>i. 0 \<le> i) (map_option JInt (later (later (rp_max_retries ?a) (rp_max_retries ?b)) retries)) =
      Inr (later (later (rp_max_retries ?a) (rp_max_retries ?b)) retries)" for f1
    using a b t r by (simp_all add: int_field_opt all_opt_later valid_policy_def)
  have w: "process_validate cv (map_of ?m ''process'') = Inr (rp_process (overlay_policy ?a ?b))"
    "filesystem_validate cv (map_of ?m ''filesystem'') = Inr (rp_filesystem (overlay_policy ?a ?b))"
    "logs_validate cv (map_of ?m ''logs'') = Inr (rp_logs (overlay_policy ?a ?b))"
    "concurrency_validate cv (map_of ?m ''concurrency'') = Inr (rp_concurrency (overlay_policy ?a ?b))"
    unfolding m3 m4 using a b
    by (simp_all add: process_merge filesystem_merge logs_merge concurrency_merge all_opt_later
        valid_policy_def overlay_policy_def)
  have x: "cpu_validate (map_of ?m ''cpu'') = Inr (rp_cpu (overlay_policy ?a ?b))"
    "memory_validate (map_of ?m ''memory'') = Inr (rp_memory (overlay_policy ?a ?b))"
    "network_validate (map_of ?m ''network'') = Inr (rp_network (overlay_policy ?a ?b))"
    unfolding m3 cpu_merge memory_merge network_merge by (simp_all add: overlay_policy_def)
  show ?thesis
    unfolding policy_validate_def forbid_extra_Inr [OF keys] bind_result_simps m1 m2 v w x
    by (simp add: with_call_def overlay_policy_def)
qed

section \<open>A compact policy reads back\<close>

lemma section_value_member: "section_value (section_member True ms) = JObj ms"
  by (simp add: section_value_def section_member_def)

lemma cpu_compact: "cpu_validate (section_member True (cpu_members c)) = Inr c"
proof -
  have keys: "set (map fst (cpu_members c)) \<subseteq> set [''request'', ''limit'']"
    unfolding cpu_members_def by (rule order_trans [OF keys_opt_members]) simp
  show ?thesis
    by (simp add: cpu_validate_def section_value_member forbid_extra_Inr [OF keys])
      (simp add: cpu_members_def str_field_opt)
qed

lemma memory_compact: "memory_validate (section_member True (memory_members c)) = Inr c"
proof -
  have keys: "set (map fst (memory_members c)) \<subseteq> set [''request'', ''limit'']"
    unfolding memory_members_def by (rule order_trans [OF keys_opt_members]) simp
  show ?thesis
    by (simp add: memory_validate_def section_value_member forbid_extra_Inr [OF keys])
      (simp add: memory_members_def str_field_opt)
qed

lemma single_compact:
  "forbid_extra model [k] (JObj (opt_members [(k, v)])) = Inr (map_of (opt_members [(k, v)]))"
  by (rule forbid_extra_Inr) (rule order_trans [OF keys_opt_members], simp)

lemma process_compact:
  "all_opt (\<lambda>i. 0 < i) (pids_limit c) \<Longrightarrow>
   process_validate cv (section_member True (opt_members [(''pids_limit'', map_option JInt (pids_limit c))])) = Inr c"
  by (simp add: process_validate_def section_value_member single_compact int_field_opt)

lemma network_compact:
  "network_validate (section_member True (opt_members [(''mode'', map_option JStr (network_mode c))])) = Inr c"
  by (simp add: network_validate_def section_value_member single_compact str_field_opt)

lemma logs_compact:
  "all_opt (\<lambda>i. 0 \<le> i) (logs_max_bytes c) \<Longrightarrow>
   logs_validate cv (section_member True (opt_members [(''max_bytes'', map_option JInt (logs_max_bytes c))])) = Inr c"
  by (simp add: logs_validate_def section_value_member single_compact int_field_opt)

lemma filesystem_compact:
  assumes "all_opt (\<lambda>i. 0 \<le> i) (artifact_max_bytes c)" and "all_opt (\<lambda>i. 0 \<le> i) (artifact_max_files c)"
  shows "filesystem_validate cv (section_member True (filesystem_members True c)) = Inr c"
proof -
  have keys: "set (map fst (filesystem_members True c))
      \<subseteq> set [''read_only_root'', ''tmpfs'', ''artifact_max_bytes'', ''artifact_max_files'']"
    unfolding filesystem_members_def by (rule order_trans [OF keys_opt_members]) simp
  show ?thesis using assms
    by (simp add: filesystem_validate_def section_value_member forbid_extra_Inr [OF keys])
      (simp add: filesystem_members_def int_field_opt bool_field_opt traverse_str_item)
qed

lemma concurrency_compact:
  assumes "all_opt (\<lambda>i. 0 < i) (max_running c)" and "all_opt (\<lambda>i. 0 < i) (max_project_running c)"
  shows "concurrency_validate cv (section_member True (concurrency_members c)) = Inr c"
proof -
  have keys: "set (map fst (concurrency_members c)) \<subseteq> set [''max_running'', ''max_project_running'']"
    unfolding concurrency_members_def by (rule order_trans [OF keys_opt_members]) simp
  show ?thesis using assms
    by (simp add: concurrency_validate_def section_value_member forbid_extra_Inr [OF keys])
      (simp add: concurrency_members_def int_field_opt)
qed

lemma compact_validates:
  assumes "valid_policy p"
  shows "policy_validate cv (compact p) = Inr p"
proof -
  let ?m = "policy_dump True p"
  have m: "map_of ?m ''timeout_seconds'' = map_option JInt (rp_timeout_seconds p)"
    "map_of ?m ''max_retries'' = map_option JInt (rp_max_retries p)"
    "map_of ?m ''cpu'' = section_member True (cpu_members (rp_cpu p))"
    "map_of ?m ''memory'' = section_member True (memory_members (rp_memory p))"
    "map_of ?m ''process'' = section_member True (opt_members [(''pids_limit'', map_option JInt (pids_limit (rp_process p)))])"
    "map_of ?m ''network'' = section_member True (opt_members [(''mode'', map_option JStr (network_mode (rp_network p)))])"
    "map_of ?m ''filesystem'' = section_member True (filesystem_members True (rp_filesystem p))"
    "map_of ?m ''logs'' = section_member True (opt_members [(''max_bytes'', map_option JInt (logs_max_bytes (rp_logs p)))])"
    "map_of ?m ''concurrency'' = section_member True (concurrency_members (rp_concurrency p))"
    by (simp_all add: policy_dump_def)
  have ints: "int_field cv f (\<lambda>i. 0 < i) (map_option JInt (rp_timeout_seconds p)) = Inr (rp_timeout_seconds p)"
    "int_field cv f (\<lambda>i. 0 \<le> i) (map_option JInt (rp_max_retries p)) = Inr (rp_max_retries p)"
    "process_validate cv (section_member True (opt_members [(''pids_limit'', map_option JInt (pids_limit (rp_process p)))])) = Inr (rp_process p)"
    "logs_validate cv (section_member True (opt_members [(''max_bytes'', map_option JInt (logs_max_bytes (rp_logs p)))])) = Inr (rp_logs p)"
    "filesystem_validate cv (section_member True (filesystem_members True (rp_filesystem p))) = Inr (rp_filesystem p)"
    "concurrency_validate cv (section_member True (concurrency_members (rp_concurrency p))) = Inr (rp_concurrency p)" for f
    using assms unfolding valid_policy_def
    by (simp_all add: int_field_opt process_compact logs_compact filesystem_compact concurrency_compact)
  show ?thesis
    unfolding policy_validate_def compact_def forbid_extra_Inr [OF policy_dump_keys] bind_result_simps m ints
      cpu_compact memory_compact network_compact by simp
qed

lemma int_field_valid: "int_field cv f ok v = Inr i \<Longrightarrow> all_opt ok i"
  by (cases "(cv, f, ok, v)" rule: int_field.cases)
    (auto simp: bounded_def all_opt_def split: if_splits option.splits)

lemma policy_validate_valid: "policy_validate cv v = Inr p \<Longrightarrow> valid_policy p"
  unfolding policy_validate_def process_validate_def filesystem_validate_def logs_validate_def
    concurrency_validate_def bind_result_Inr_iff
  by (elim exE conjE) (auto simp: valid_policy_def dest: int_field_valid)

lemma goblins_validate_valid:
  assumes "goblins_validate cv v = Inr gs" and "map_of gs k = Some p"
  shows "valid_policy p"
proof (cases "\<exists>ms. v = Some (JObj ms)")
  case True
  then obtain ms where "traverse (\<lambda>(k, j). bind_result (policy_validate cv j) (\<lambda>p. Inr (k, p))) ms = Inr gs"
    using assms(1) by (auto simp: goblins_validate_def)
  then obtain x where "(case x of (k, j) \<Rightarrow> bind_result (policy_validate cv j) (\<lambda>p. Inr (k, p))) = Inr (k, p)"
    using traverse_member map_of_SomeD [OF assms(2)] by fastforce
  then show ?thesis by (auto simp: bind_result_Inr_iff case_prod_unfold intro: policy_validate_valid)
next
  case False
  then show ?thesis using assms by (auto simp: goblins_validate_def split: option.splits json.splits)
qed

lemma loaded_policies_valid:
  assumes "policy_set_from_path cv path read = Inr ps"
  shows "valid_policy (ps_defaults ps)" and "valid_policy (goblin_policy ps kind)"
proof -
  have "\<exists>payload. policy_set_validate cv payload = Inr ps"
    using assms by (auto simp: policy_set_from_path_def split: file_read.splits sum.splits if_splits)
  then obtain payload where pv: "policy_set_validate cv payload = Inr ps" ..
  then obtain m gs where d: "policy_validate cv (section_value (m ''defaults'')) = Inr (ps_defaults ps)"
    and g: "goblins_validate cv (m ''goblins'') = Inr gs" "ps_goblins ps = map_of gs"
    unfolding policy_set_validate_def bind_result_Inr_iff by auto
  show "valid_policy (ps_defaults ps)" using d by (rule policy_validate_valid)
  have "valid_policy empty_policy" by (simp add: valid_policy_def empty_policy_def all_opt_def)
  then show "valid_policy (goblin_policy ps kind)"
    using goblins_validate_valid [OF g(1)] by (auto simp: goblin_policy_def g(2) split: option.split)
qed

lemma first_failure_Inr: "first_failure kind cs = Inr () \<longleftrightarrow> (\<forall>c\<in>set cs. \<not> snd c)"
  by (induction kind cs rule: first_failure.induct) auto

lemma within_ceilings_cases:
  assumes "validate_within_ceilings ps kind p = Inr ()"
  obtains cpu cpu_max mem mem_max where "parse_cpu (cpu_limit (rp_cpu p)) = Inr cpu"
    and "parse_cpu (cpu_limit (rp_cpu (ps_ceilings ps))) = Inr cpu_max"
    and "parse_bytes (mem_limit (rp_memory p)) = Inr mem"
    and "parse_bytes (mem_limit (rp_memory (ps_ceilings ps))) = Inr mem_max"
    and "\<forall>c\<in>set (ceiling_checks p (ps_ceilings ps) cpu cpu_max mem mem_max). \<not> snd c"
  using assms unfolding validate_within_ceilings_def Let_def bind_result_Inr_iff first_failure_Inr by auto

lemma over_iff: "over v m \<longleftrightarrow> (\<exists>x y. v = Some x \<and> m = Some y \<and> y < x)"
  by (auto simp: exceeds_def split: option.splits)

section \<open>Properties\<close>

text \<open>A policy file with a default, an override for one kind and ceilings, for concrete instances.\<close>

definition strict_coercions :: coercions where
  "strict_coercions = \<lparr>lax_int = (\<lambda>_. None), lax_bool = (\<lambda>_. None)\<rparr>"

definition sample_policy_file :: json where
  "sample_policy_file = JObj
     [(''defaults'', JObj [(''timeout_seconds'', JInt 60), (''max_retries'', JInt 1),
         (''memory'', JObj [(''limit'', JStr ''256Mi'')])]),
      (''goblins'', JObj [(''example.echo'', JObj [(''max_retries'', JInt 3),
         (''concurrency'', JObj [(''max_running'', JInt 2)])])]),
      (''ceilings'', JObj [(''timeout_seconds'', JInt 300), (''memory'', JObj [(''limit'', JStr ''1Gi'')])])]"

definition sample_policies :: resource_policy_set where
  "sample_policies = projr (policy_set_from_path strict_coercions ''policy.json'' (FileJson sample_policy_file))"

text \<open>
  C34. For a loaded policy file the effective policy of a kind is, field by field, the value given by
  the caller, else the kind's override, else the default; it is returned exactly when it passes the
  ceilings, and the ceiling's error is returned otherwise.
\<close>

theorem effective_policy_overlays:
  assumes "policy_set_from_path cv path read = Inr ps"
    and "all_opt (\<lambda>i. 0 < i) timeout" and "all_opt (\<lambda>i. 0 \<le> i) retries"
  shows "effective_for cv ps kind timeout retries =
    (let policy = with_call (overlay_policy (ps_defaults ps) (goblin_policy ps kind)) timeout retries in
     case validate_within_ceilings ps kind policy of Inl e \<Rightarrow> Inl e | Inr _ \<Rightarrow> Inr policy)"
  using merged_policy_validates [OF loaded_policies_valid [OF assms(1)] assms(2,3), where cv = cv and kind = kind]
  by (simp add: effective_for_def Let_def bind_result_def)

theorem effective_policy_overlays_witness:
  "\<exists>policy. effective_for strict_coercions sample_policies ''example.echo'' (Some 90) None = Inr policy \<and>
     rp_timeout_seconds policy = Some 90 \<and> rp_max_retries policy = Some 3 \<and>
     mem_limit (rp_memory policy) = Some ''256Mi'' \<and> max_running (rp_concurrency policy) = Some 2"
proof -
  have "case policy_set_from_path strict_coercions ''policy.json'' (FileJson sample_policy_file) of
      Inl _ \<Rightarrow> False | Inr _ \<Rightarrow> True" by code_simp
  then have "policy_set_from_path strict_coercions ''policy.json'' (FileJson sample_policy_file) = Inr sample_policies"
    by (auto simp: sample_policies_def split: sum.splits)
  then have "effective_for strict_coercions sample_policies ''example.echo'' (Some 90) None =
    (let policy = with_call (overlay_policy (ps_defaults sample_policies) (goblin_policy sample_policies ''example.echo''))
         (Some 90) None in
     case validate_within_ceilings sample_policies ''example.echo'' policy of Inl e \<Rightarrow> Inl e | Inr _ \<Rightarrow> Inr policy)"
    by (rule effective_policy_overlays) (simp_all add: all_opt_def)
  moreover have "(let policy = with_call (overlay_policy (ps_defaults sample_policies)
        (goblin_policy sample_policies ''example.echo'')) (Some 90) None in
     (case validate_within_ceilings sample_policies ''example.echo'' policy of Inl e \<Rightarrow> False | Inr _ \<Rightarrow> True) \<and>
     rp_timeout_seconds policy = Some 90 \<and> rp_max_retries policy = Some 3 \<and>
     mem_limit (rp_memory policy) = Some ''256Mi'' \<and> max_running (rp_concurrency policy) = Some 2)"
    by code_simp
  ultimately show ?thesis by (auto simp: Let_def split: sum.splits)
qed

text \<open>
  C33. An effective policy never exceeds a ceiling: wherever both the policy and the ceilings give a
  number it is at most the ceiling's, the memory limits compared in bytes, and the CPU limit does not
  compare as greater.
\<close>

theorem effective_policy_within_ceilings:
  assumes "effective_for cv ps kind timeout retries = Inr p"
  shows "\<not> over (rp_timeout_seconds p) (rp_timeout_seconds (ps_ceilings ps)) \<and>
    \<not> over (rp_max_retries p) (rp_max_retries (ps_ceilings ps)) \<and>
    \<not> over (pids_limit (rp_process p)) (pids_limit (rp_process (ps_ceilings ps))) \<and>
    \<not> over (artifact_max_bytes (rp_filesystem p)) (artifact_max_bytes (rp_filesystem (ps_ceilings ps))) \<and>
    \<not> over (artifact_max_files (rp_filesystem p)) (artifact_max_files (rp_filesystem (ps_ceilings ps))) \<and>
    \<not> over (logs_max_bytes (rp_logs p)) (logs_max_bytes (rp_logs (ps_ceilings ps))) \<and>
    \<not> over (max_running (rp_concurrency p)) (max_running (rp_concurrency (ps_ceilings ps))) \<and>
    \<not> over (max_project_running (rp_concurrency p)) (max_project_running (rp_concurrency (ps_ceilings ps))) \<and>
    (\<exists>mem mem_max. parse_bytes (mem_limit (rp_memory p)) = Inr mem \<and>
       parse_bytes (mem_limit (rp_memory (ps_ceilings ps))) = Inr mem_max \<and> \<not> over mem mem_max) \<and>
    (\<exists>cpu cpu_max. parse_cpu (cpu_limit (rp_cpu p)) = Inr cpu \<and>
       parse_cpu (cpu_limit (rp_cpu (ps_ceilings ps))) = Inr cpu_max \<and> \<not> exceeds cpu_gt cpu cpu_max)"
proof -
  have "validate_within_ceilings ps kind p = Inr ()"
    using assms by (auto simp: effective_for_def bind_result_Inr_iff)
  then show ?thesis by (rule within_ceilings_cases) (simp add: ceiling_checks_def)
qed

theorem effective_policy_within_ceilings_witness:
  "\<exists>p. effective_for strict_coercions sample_policies ''example.echo'' (Some 90) None = Inr p \<and>
     \<not> over (rp_timeout_seconds p) (Some 300)"
proof -
  have "case effective_for strict_coercions sample_policies ''example.echo'' (Some 90) None of
      Inl _ \<Rightarrow> False | Inr _ \<Rightarrow> True" by code_simp
  then obtain p where p: "effective_for strict_coercions sample_policies ''example.echo'' (Some 90) None = Inr p"
    by (auto split: sum.splits)
  have "rp_timeout_seconds (ps_ceilings sample_policies) = Some 300" by code_simp
  then show ?thesis using effective_policy_within_ceilings [OF p] p by auto
qed

text \<open>
  The policy attached to a job's metadata is the policy the scheduler reads back from it.
\<close>

theorem policy_metadata_roundtrip:
  assumes "valid_policy p" and "obj_get metadata ''resource_policy'' = Some (compact p)"
  shows "policy_from_job_metadata cv metadata = Inr (Some p)"
  using compact_validates [OF assms(1), of cv] assms(2)
  by (simp add: policy_from_job_metadata_def compact_def)

theorem policy_metadata_roundtrip_witness:
  "policy_from_job_metadata strict_coercions
     (JObj [(''resource_policy'', compact (empty_policy\<lparr>rp_timeout_seconds := Some 60\<rparr>))]) =
   Inr (Some (empty_policy\<lparr>rp_timeout_seconds := Some 60\<rparr>))"
  by (rule policy_metadata_roundtrip) (simp_all add: valid_policy_def empty_policy_def all_opt_def)

end
