(* ===== verification/Registry.thy ===== *)
theory Registry
  imports Resource_Policies
begin

text \<open>
  Goblin definitions and worker images by kind: \<^verbatim>\<open>src/src/goblin_king/registry.py\<close>,
  \<^verbatim>\<open>src/src/goblin_king/workers.py\<close> and \<^verbatim>\<open>src/src/goblin_king/metadata.py\<close>. Reading and decoding a
  file is a parameter (what the file gave); importing a module is one too. The locale \<open>catalog\<close>
  is what the scheduler and the fanout API rely on: a lookup by kind succeeds exactly for the
  listed kinds. The registry and the worker image map are its instances.
\<close>

section \<open>The registry\<close>

record goblin_registry =
  gr_definitions :: "(string \<times> goblin_definition) list"
  gr_import_roots :: "string list"

fun index_loop :: "(string \<times> goblin_definition) list \<Rightarrow> goblin_definition list \<Rightarrow>
    (string \<times> goblin_definition) list result" where
  "index_loop indexed [] = Inr indexed"
| "index_loop indexed (d # ds) =
     (if map_of indexed (gd_kind d) \<noteq> None
      then Inl (Raise RegistryError (''duplicate goblin kind: '' @ gd_kind d))
      else index_loop (indexed @ [(gd_kind d, d)]) ds)"

definition index_definitions :: "goblin_definition list \<Rightarrow> (string \<times> goblin_definition) list result" where
  "index_definitions definitions = index_loop [] definitions"

definition new_registry :: "goblin_definition list \<Rightarrow> string list \<Rightarrow> goblin_registry result" where
  "new_registry definitions import_roots =
     bind_result (index_definitions definitions) (\<lambda>indexed.
       Inr \<lparr>gr_definitions = indexed, gr_import_roots = import_roots\<rparr>)"

text \<open>\<^verbatim>\<open>sorted(dict)\<close> and \<^verbatim>\<open>", ".join(...) or "<none>"\<close>.\<close>

definition sorted_kinds :: "(string \<times> 'a) list \<Rightarrow> string list" where
  "sorted_kinds m = sort (map fst m)"

definition available_kinds :: "(string \<times> 'a) list \<Rightarrow> string" where
  "available_kinds m =
     (if m = [] then ''<none>''
      else concat (hd (sorted_kinds m) # map (\<lambda>k. '', '' @ k) (tl (sorted_kinds m))))"

definition registry_list :: "goblin_registry \<Rightarrow> goblin_definition list" where
  "registry_list r = List.map_filter (map_of (gr_definitions r)) (sorted_kinds (gr_definitions r))"

definition registry_get :: "goblin_registry \<Rightarrow> string \<Rightarrow> goblin_definition result" where
  "registry_get r kind =
     (case map_of (gr_definitions r) kind of
        Some d \<Rightarrow> Inr d
      | None \<Rightarrow> Inl (Raise RegistryError (''unknown goblin kind '' @ py_repr kind @ ''; available: '' @
          available_kinds (gr_definitions r))))"

text \<open>
  \<^verbatim>\<open>_read_registry_file\<close>: the arguments are the path's text, what reading it gave, the validated
  goblins of the document and the directory of the file.
\<close>

datatype registry_read = RegistryMissing | RegistryNotJson | RegistryInvalid string
  | RegistryFile "goblin_definition list" string

definition read_registry_file :: "string \<Rightarrow> registry_read \<Rightarrow> (goblin_definition list \<times> string) result" where
  "read_registry_file path file_content =
     (case file_content of
        RegistryMissing \<Rightarrow> Inl (Raise RegistryError (''registry not found: '' @ path))
      | RegistryNotJson \<Rightarrow> Inl (Raise RegistryError (''registry is not valid JSON: '' @ path))
      | RegistryInvalid m \<Rightarrow> Inl (Raise RegistryError m)
      | RegistryFile goblins parent \<Rightarrow> Inr (goblins, parent))"

definition registry_from_path :: "string \<Rightarrow> (string \<Rightarrow> registry_read) \<Rightarrow> string \<Rightarrow> goblin_registry result" where
  "registry_from_path cwd fs path =
     bind_result (read_registry_file path (fs path)) (\<lambda>(definitions, import_root).
       new_registry definitions [cwd, import_root])"

definition registry_from_paths :: "string \<Rightarrow> (string \<Rightarrow> registry_read) \<Rightarrow> string list \<Rightarrow> goblin_registry result" where
  "registry_from_paths cwd fs paths =
     bind_result (traverse (\<lambda>p. read_registry_file p (fs p)) paths) (\<lambda>files.
       new_registry (concat (map fst files)) (cwd # map snd files))"

definition registry_from_definitions :: "goblin_definition list \<Rightarrow> goblin_registry result" where
  "registry_from_definitions definitions = new_registry definitions []"

definition registry_from_paths_and_definitions ::
  "string \<Rightarrow> (string \<Rightarrow> registry_read) \<Rightarrow> string list \<Rightarrow> goblin_definition list \<Rightarrow> goblin_registry result" where
  "registry_from_paths_and_definitions cwd fs paths definitions =
     bind_result (registry_from_paths cwd fs paths) (\<lambda>registry.
       new_registry (registry_list registry @ definitions) (gr_import_roots registry))"

definition registry_from_project_sources ::
  "string \<Rightarrow> (string \<Rightarrow> registry_read) \<Rightarrow> string list \<Rightarrow> goblin_definition list result \<Rightarrow> bool \<Rightarrow>
   goblin_definition list \<Rightarrow> goblin_registry result" where
  "registry_from_project_sources cwd fs paths entry_points include_entry_points definitions =
     bind_result (if include_entry_points then entry_points else Inr []) (\<lambda>discovered.
       registry_from_paths_and_definitions cwd fs paths (discovered @ definitions))"

text \<open>
  \<^verbatim>\<open>resolve\<close>: \<open>import_module\<close> gives the attributes of a module, or \<^verbatim>\<open>None\<close> where the import raises;
  an attribute is callable or not.
\<close>

definition registry_resolve ::
  "(string \<Rightarrow> (string \<Rightarrow> bool option) option) \<Rightarrow> goblin_registry \<Rightarrow> string \<Rightarrow> goblin_definition result" where
  "registry_resolve import_module r kind =
     bind_result (registry_get r kind) (\<lambda>definition.
       case import_module (gd_module definition) of
         None \<Rightarrow> Inl (Raise RegistryError (''could not import module '' @ py_repr (gd_module definition) @
                   '' for goblin '' @ py_repr kind))
       | Some attributes \<Rightarrow>
           (case attributes (gd_entrypoint definition) of
              None \<Rightarrow> Inl (Raise RegistryError (''module '' @ py_repr (gd_module definition) @
                        '' has no entrypoint '' @ py_repr (gd_entrypoint definition)))
            | Some callable \<Rightarrow>
                if callable then Inr definition
                else Inl (Raise RegistryError (''entrypoint '' @ gd_module definition @ ''.'' @
                       gd_entrypoint definition @ '' is not callable''))))"

text \<open>\<^verbatim>\<open>_install_import_roots\<close> on \<^verbatim>\<open>sys.path\<close>.\<close>

definition install_import_roots :: "goblin_registry \<Rightarrow> string list \<Rightarrow> string list" where
  "install_import_roots r path =
     foldl (\<lambda>p root. if root \<in> set p then p else root # p) path (rev (gr_import_roots r))"

section \<open>Entry points\<close>

datatype entry_point_value =
    EpDefinition goblin_definition
  | EpDict "goblin_definition result"
  | EpFactory "entry_point_value"
  | EpOther

text \<open>A dictionary is what \<^verbatim>\<open>GoblinDefinition.model_validate\<close> makes of it; a factory is called once.\<close>

fun definition_from_entry_point_value :: "string \<Rightarrow> entry_point_value \<Rightarrow> goblin_definition result" where
  "definition_from_entry_point_value name (EpDefinition d) = Inr d"
| "definition_from_entry_point_value name (EpDict r) = r"
| "definition_from_entry_point_value name (EpFactory (EpDefinition d)) = Inr d"
| "definition_from_entry_point_value name (EpFactory (EpDict r)) = r"
| "definition_from_entry_point_value name _ = Inl (Raise RegistryError (''goblin entry point '' @ py_repr name @
     '' must be a GoblinDefinition, dict, or zero-arg factory''))"

definition discover_entry_point_definitions ::
  "(string \<times> entry_point_value option) list \<Rightarrow> goblin_definition list result" where
  "discover_entry_point_definitions entry_points =
     traverse (\<lambda>(name, loaded). case loaded of
         None \<Rightarrow> Inl (Raise RegistryError (''could not load goblin entry point '' @ py_repr name))
       | Some v \<Rightarrow> definition_from_entry_point_value name v) entry_points"

section \<open>Worker images\<close>

record worker_image_definition =
  wi_context :: string
  wi_dockerfile :: string
  wi_image :: string

record worker_image_map =
  wm_workers :: "(string \<times> worker_image_definition) list"
  wm_root :: string

datatype worker_map_read = WorkerMapMissing | WorkerMapNotJson | WorkerMapInvalid string
  | WorkerMapFile "(string \<times> worker_image_definition) list" string

definition workers_from_path :: "string \<Rightarrow> worker_map_read \<Rightarrow> worker_image_map result" where
  "workers_from_path path file_content =
     (case file_content of
        WorkerMapMissing \<Rightarrow> Inl (Raise WorkerConfigError (''worker image map not found: '' @ path))
      | WorkerMapNotJson \<Rightarrow> Inl (Raise WorkerConfigError (''worker image map is not valid JSON: '' @ path))
      | WorkerMapInvalid m \<Rightarrow> Inl (Raise WorkerConfigError m)
      | WorkerMapFile workers parent \<Rightarrow> Inr \<lparr>wm_workers = workers, wm_root = parent\<rparr>)"

definition workers_from_path_and_definitions ::
  "string \<Rightarrow> worker_map_read \<Rightarrow> (string \<times> worker_image_definition) list \<Rightarrow> worker_image_map result" where
  "workers_from_path_and_definitions path file_content extra_workers =
     bind_result (workers_from_path path file_content) (\<lambda>loaded.
       let duplicates = sort (filter (\<lambda>k. map_of (wm_workers loaded) k \<noteq> None) (map fst extra_workers)) in
       if duplicates \<noteq> []
       then Inl (Raise WorkerConfigError (''duplicate worker image mapping: '' @
              concat (hd duplicates # map (\<lambda>k. '', '' @ k) (tl duplicates))))
       else Inr (loaded\<lparr>wm_workers :=
              fold (\<lambda>(k, v) ms. assoc_set k v ms) extra_workers (wm_workers loaded)\<rparr>))"

definition workers_get :: "worker_image_map \<Rightarrow> string \<Rightarrow> worker_image_definition result" where
  "workers_get w kind =
     (case map_of (wm_workers w) kind of
        Some d \<Rightarrow> Inr d
      | None \<Rightarrow> Inl (Raise WorkerConfigError (''missing Docker worker image mapping for '' @ py_repr kind @
          ''; available: '' @ available_kinds (wm_workers w))))"

definition workers_items :: "worker_image_map \<Rightarrow> (string \<times> worker_image_definition) list" where
  "workers_items w =
     List.map_filter (\<lambda>k. map_option (Pair k) (map_of (wm_workers w) k)) (sorted_kinds (wm_workers w))"

section \<open>Job metadata\<close>

definition definition_dump :: "goblin_definition \<Rightarrow> json" where
  "definition_dump d = JObj
     [(''kind'', JStr (gd_kind d)), (''display_name'', JStr (gd_display_name d)),
      (''module'', JStr (gd_module d)), (''entrypoint'', JStr (gd_entrypoint d)),
      (''timeout_seconds'', case gd_timeout_seconds d of None \<Rightarrow> JNull | Some t \<Rightarrow> JInt t),
      (''max_retries'', case gd_max_retries d of None \<Rightarrow> JNull | Some n \<Rightarrow> JInt n),
      (''metadata'', gd_metadata d)]"

definition goblin_job_metadata :: "goblin_definition \<Rightarrow> resource_policy option \<Rightarrow> json" where
  "goblin_job_metadata d policy = JObj
     ([(''goblin_source'', case obj_get (gd_metadata d) ''source'' of None \<Rightarrow> JStr ''registry'' | Some v \<Rightarrow> v),
       (''goblin_definition'', definition_dump d)] @
      (case policy of None \<Rightarrow> [] | Some p \<Rightarrow> [(''resource_policy'', compact p)]))"

definition goblin_validation_input :: "goblin_definition \<Rightarrow> json \<Rightarrow> json result" where
  "goblin_validation_input d runtime_input =
     (case obj_get (gd_metadata d) ''validation_input'' of
        None \<Rightarrow> Inr runtime_input
      | Some candidate \<Rightarrow>
          if is_obj candidate then Inr candidate
          else Inl (Raise ValueError ''goblin metadata validation_input must be a JSON object''))"

definition echo_definition :: goblin_definition where
  "echo_definition = \<lparr>gd_kind = ''example.echo'', gd_display_name = ''Echo'', gd_module = ''goblins.echo'',
     gd_entrypoint = ''run'', gd_timeout_seconds = None, gd_max_retries = None, gd_metadata = JObj []\<rparr>"

section \<open>The contract of a catalog\<close>

locale catalog =
  fixes lookup :: "'c \<Rightarrow> string \<Rightarrow> 'd result"
    and kinds :: "'c \<Rightarrow> string list"
  assumes found_iff: "(\<exists>d. lookup c k = Inr d) \<longleftrightarrow> k \<in> set (kinds c)"
begin

lemma lookup_all: "(\<exists>ds. traverse (lookup c) ks = Inr ds) \<longleftrightarrow> set ks \<subseteq> set (kinds c)"
proof (induction ks)
  case (Cons k ks)
  then show ?case using found_iff [of c k] by (auto simp: bind_result_Inr_iff)
qed simp

lemma lookup_all_length: "traverse (lookup c) ks = Inr ds \<Longrightarrow> length ds = length ks"
  using traverse_Inr_iff list_all2_lengthD by metis

end

interpretation registry: catalog registry_get "\<lambda>r. map fst (gr_definitions r)"
proof unfold_locales
  fix r :: goblin_registry and k
  show "(\<exists>d. registry_get r k = Inr d) \<longleftrightarrow> k \<in> set (map fst (gr_definitions r))"
    using map_of_eq_None_iff [of "gr_definitions r" k] by (auto simp: registry_get_def split: option.splits)
qed

interpretation workers: catalog workers_get "\<lambda>w. map fst (wm_workers w)"
proof unfold_locales
  fix w :: worker_image_map and k
  show "(\<exists>d. workers_get w k = Inr d) \<longleftrightarrow> k \<in> set (map fst (wm_workers w))"
    using map_of_eq_None_iff [of "wm_workers w" k] by (auto simp: workers_get_def split: option.splits)
qed

section \<open>Facts\<close>

lemma index_loop_iff:
  "index_loop indexed ds = Inr m \<longleftrightarrow>
   distinct (map gd_kind ds) \<and> gd_kind ` set ds \<inter> fst ` set indexed = {} \<and>
   m = indexed @ map (\<lambda>d. (gd_kind d, d)) ds"
proof (induction ds arbitrary: indexed)
  case (Cons d ds)
  then show ?case by (auto simp: map_of_eq_None_iff)
qed auto

lemma index_definitions_iff:
  "index_definitions ds = Inr m \<longleftrightarrow> distinct (map gd_kind ds) \<and> m = map (\<lambda>d. (gd_kind d, d)) ds"
  by (simp add: index_definitions_def index_loop_iff)

lemma registry_get_iff: "registry_get r k = Inr d \<longleftrightarrow> map_of (gr_definitions r) k = Some d"
  by (simp add: registry_get_def split: option.split)

lemma map_of_kinds:
  "distinct (map gd_kind ds) \<Longrightarrow> d \<in> set ds \<Longrightarrow> map_of (map (\<lambda>d. (gd_kind d, d)) ds) (gd_kind d) = Some d"
  by (induction ds) (auto, metis imageI)

text \<open>
  A registry is built from a list of definitions exactly when no kind occurs twice; every
  definition is then found under its kind, no other kind is found, and listing returns the
  definitions, each once, in increasing order of kind.
\<close>

theorem registry_serves_definitions:
  "((\<exists>r. new_registry ds roots = Inr r) \<longleftrightarrow> distinct (map gd_kind ds)) \<and>
   (\<forall>r. new_registry ds roots = Inr r \<longrightarrow>
      (\<forall>k d. registry_get r k = Inr d \<longleftrightarrow> d \<in> set ds \<and> gd_kind d = k) \<and>
      mset (registry_list r) = mset ds \<and> sorted (map gd_kind (registry_list r)))"
proof -
  have built: "new_registry ds roots = Inr r \<longleftrightarrow> distinct (map gd_kind ds) \<and>
      r = \<lparr>gr_definitions = map (\<lambda>d. (gd_kind d, d)) ds, gr_import_roots = roots\<rparr>" for r
    by (auto simp: new_registry_def bind_result_Inr_iff index_definitions_iff)
  let ?m = "map (\<lambda>d. (gd_kind d, d)) ds"
  have get: "map_of ?m k = Some d \<longleftrightarrow> d \<in> set ds \<and> gd_kind d = k" if "distinct (map gd_kind ds)" for k d
    using map_of_kinds [OF that] map_of_SomeD [of ?m k d] by auto
  have lst: "List.map_filter (map_of ?m) (sort (map gd_kind ds)) = sort_key gd_kind ds"
    if dist: "distinct (map gd_kind ds)"
  proof -
    have "sort (map gd_kind ds) = map gd_kind (sort_key gd_kind ds)"
      using dist by (intro sorted_distinct_set_unique) (simp_all add: distinct_map)
    moreover have "List.map_filter (map_of ?m) (map gd_kind xs) = xs" if "set xs \<subseteq> set ds" for xs
      using that by (induction xs) (simp_all add: List.map_filter_simps map_of_kinds [OF dist])
    ultimately show ?thesis by simp
  qed
  show ?thesis
  proof (intro conjI allI impI)
    show "(\<exists>r. new_registry ds roots = Inr r) \<longleftrightarrow> distinct (map gd_kind ds)" by (simp add: built)
  next
    fix r k d assume "new_registry ds roots = Inr r"
    then show "registry_get r k = Inr d \<longleftrightarrow> d \<in> set ds \<and> gd_kind d = k"
      using get by (simp add: built registry_get_iff)
  next
    fix r assume r: "new_registry ds roots = Inr r"
    then have "registry_list r = sort_key gd_kind ds"
      using lst by (simp add: built registry_list_def sorted_kinds_def o_def)
    then show "mset (registry_list r) = mset ds" and "sorted (map gd_kind (registry_list r))" by simp_all
  qed
qed

theorem registry_serves_definitions_witness:
  "\<exists>r. new_registry [echo_definition] [] = Inr r \<and> registry_get r ''example.echo'' = Inr echo_definition"
  using registry_serves_definitions [of "[echo_definition]" "[]"] by (auto simp: echo_definition_def)

end
