(* ===== verification/Event_Delivery.thy ===== *)
theory Event_Delivery
  imports Store_Events
begin

text \<open>
  Ordered delivery of the event log to one Redis Stream:
  \<^verbatim>\<open>src/src/goblin_king/event_delivery.py\<close>. Redis is a parameter: its state \<open>'r\<close> and the commands
  the code uses, each an operation that may raise. A stream entry is the millisecond part of its id
  and the event its payload decodes to, \<^verbatim>\<open>None\<close> for an entry without one; a payload written before
  events were numbered has sequence 0. \<open>stream_contract\<close> states the documented behaviour of XADD and
  XRANGE that delivery relies on.
\<close>

section \<open>The commands of Redis\<close>

type_synonym stream_entry = "int \<times> event_record option"

record 'r redis_api =
  xrevrange_last :: "string \<Rightarrow> ('r, stream_entry option) op"
  xadd :: "string \<Rightarrow> int \<Rightarrow> event_record \<Rightarrow> int \<Rightarrow> ('r, unit) op"
  xrange_at :: "string \<Rightarrow> int \<Rightarrow> ('r, event_record option option) op"
  publish_event :: "string \<Rightarrow> event_record \<Rightarrow> ('r, unit) op"
  publish_heartbeat :: "string \<Rightarrow> heartbeat_record \<Rightarrow> ('r, unit) op"

record delivery =
  dl_target :: string
  dl_stream :: string
  dl_maxlen :: int

definition MAX_DELIVERY_BATCH :: int where
  "MAX_DELIVERY_BATCH = 100"

text \<open>Operations on the database or on Redis as operations on both.\<close>

definition on_db :: "(db, 'a) op \<Rightarrow> (db \<times> 'r, 'a) op" where
  "on_db m = (\<lambda>(d, r). let (x, d') = m d in (x, (d', r)))"

definition on_redis :: "('r, 'a) op \<Rightarrow> (db \<times> 'r, 'a) op" where
  "on_redis m = (\<lambda>(d, r). let (x, r') = m r in (x, (d, r')))"

text \<open>A transaction around both: a raise rolls the database back; Redis keeps what was added.\<close>

definition db_transaction :: "(db \<times> 'r, 'a) op \<Rightarrow> (db \<times> 'r, 'a) op" where
  "db_transaction m = (\<lambda>(d, r). case m (d, r) of
     (Inl e, (_, r')) \<Rightarrow> (Inl e, (d, r')) | (Inr a, s) \<Rightarrow> (Inr a, s))"

section \<open>Delivery\<close>

definition ensure_delivery_row :: "string \<Rightarrow> db \<Rightarrow> db" where
  "ensure_delivery_row target d =
     (if by_key sd_target target (event_stream_deliveries_table d) \<noteq> None then d
      else d\<lparr>event_stream_deliveries_table := event_stream_deliveries_table d @
             [\<lparr>sd_target = target, sd_delivered_sequence = 0, sd_stream_id_offset = None\<rparr>]\<rparr>)"

definition save_state :: "string \<Rightarrow> int \<Rightarrow> int \<Rightarrow> db \<Rightarrow> db" where
  "save_state target sequence offset d = d\<lparr>event_stream_deliveries_table :=
     update_where (\<lambda>s. sd_target s = target)
       (\<lambda>s. s\<lparr>sd_delivered_sequence := sequence, sd_stream_id_offset := Some offset\<rparr>)
       (event_stream_deliveries_table d)\<rparr>"

definition first_sequence :: "db \<Rightarrow> int option" where
  "first_sequence d = first_row (sql_limit 1 (map e_sequence (order_by e_sequence (events_table d))))"

definition entry_sequence :: "db \<Rightarrow> event_record option \<Rightarrow> int" where
  "entry_sequence d payload =
     (case payload of None \<Rightarrow> 0
      | Some e \<Rightarrow>
          if e_sequence e < 1 \<and> e_id e \<noteq> ''''
          then (case by_key e_id (e_id e) (events_table d) of None \<Rightarrow> 0 | Some row \<Rightarrow> e_sequence row)
          else e_sequence e)"

definition bootstrap :: "'r redis_api \<Rightarrow> delivery \<Rightarrow> int \<Rightarrow> (db \<times> 'r, int \<times> int) op" where
  "bootstrap api dl cursor =
     bind (on_redis (xrevrange_last api (dl_stream dl))) (\<lambda>entries. \<lambda>(d, r).
       case entries of
         None \<Rightarrow>
           (case first_sequence d of
              None \<Rightarrow> (Inr (cursor, 0), (d, r))
            | Some first \<Rightarrow> (Inr (if first \<noteq> 0 then max cursor (first - 1) else cursor, 0), (d, r)))
       | Some (last_milliseconds, payload) \<Rightarrow>
           (let sequence = entry_sequence d payload in
            if sequence < 1 then (Inr (cursor, last_milliseconds), (d, r))
            else (Inr (max cursor sequence, max 0 (last_milliseconds - sequence)), (d, r))))"

definition append_event :: "'r redis_api \<Rightarrow> delivery \<Rightarrow> int \<Rightarrow> event_record \<Rightarrow> ('r, unit) op" where
  "append_event api dl offset payload =
     (let stream_id = offset + e_sequence payload in
      handle (xadd api (dl_stream dl) stream_id payload (dl_maxlen dl)) (\<lambda>e.
        if error_class e \<noteq> ResponseError then throw e
        else bind (xrange_at api (dl_stream dl) stream_id) (\<lambda>entries.
          if entries = Some (Some payload) then return () else throw e)))"

fun deliver_rows :: "'r redis_api \<Rightarrow> delivery \<Rightarrow> int \<Rightarrow> event_record list \<Rightarrow> int \<Rightarrow> (db \<times> 'r, int) op" where
  "deliver_rows api dl offset [] cursor = return cursor"
| "deliver_rows api dl offset (row # rows) cursor =
     (let sequence = e_sequence row in
      bind (if sequence > cursor + 1 then on_db (modify (save_state (dl_target dl) (sequence - 1) offset))
            else return ()) (\<lambda>_.
      bind (on_redis (append_event api dl offset (row_to_event row))) (\<lambda>_.
      bind (on_db (modify (save_state (dl_target dl) sequence offset))) (\<lambda>_.
      deliver_rows api dl offset rows sequence))))"

definition next_batch :: "db \<Rightarrow> int \<Rightarrow> int \<Rightarrow> event_record list" where
  "next_batch d cursor target_sequence =
     sql_limit MAX_DELIVERY_BATCH (order_by e_sequence
       (select_where (\<lambda>e. cursor < e_sequence e \<and> e_sequence e \<le> target_sequence) (events_table d)))"

text \<open>
  The loop \<^verbatim>\<open>while cursor < target_sequence\<close>. Every pass moves the cursor forward, so
  \<^verbatim>\<open>target_sequence - cursor\<close> passes are enough; \<open>deliver_through\<close> gives that many.
\<close>

fun deliver_loop :: "nat \<Rightarrow> 'r redis_api \<Rightarrow> delivery \<Rightarrow> int \<Rightarrow> int \<Rightarrow> int \<Rightarrow> (db \<times> 'r, unit) op" where
  "deliver_loop 0 api dl target_sequence offset cursor = return ()"
| "deliver_loop (Suc n) api dl target_sequence offset cursor = (\<lambda>(d, r).
     if cursor < target_sequence
     then (case next_batch d cursor target_sequence of
             [] \<Rightarrow> on_db (modify (save_state (dl_target dl) target_sequence offset)) (d, r)
           | rows \<Rightarrow> bind (deliver_rows api dl offset rows cursor)
                       (deliver_loop n api dl target_sequence offset) (d, r))
     else (Inr (), (d, r)))"

definition delivery_state :: "string \<Rightarrow> db \<Rightarrow> event_stream_delivery_row result" where
  "delivery_state target d =
     scalar_one (select_where (\<lambda>s. sd_target s = target) (event_stream_deliveries_table d))"

definition deliver_through :: "'r redis_api \<Rightarrow> delivery \<Rightarrow> int \<Rightarrow> (db \<times> 'r, unit) op" where
  "deliver_through api dl target_sequence = db_transaction
     (bind (on_db (modify (ensure_delivery_row (dl_target dl)))) (\<lambda>_.
      bind (on_db (\<lambda>d. (delivery_state (dl_target dl) d, d))) (\<lambda>state.
      bind (case sd_stream_id_offset state of
              Some offset \<Rightarrow> return (sd_delivered_sequence state, offset)
            | None \<Rightarrow>
                bind (bootstrap api dl (sd_delivered_sequence state)) (\<lambda>(cursor, offset).
                bind (on_db (modify (save_state (dl_target dl) cursor offset))) (\<lambda>_.
                return (cursor, offset)))) (\<lambda>(cursor, offset).
      deliver_loop (nat (target_sequence - cursor)) api dl target_sequence offset cursor))))"

text \<open>A stream kept as a list, with nothing trimmed, for concrete instances.\<close>

type_synonym list_stream = "(int \<times> event_record) list"

definition list_last_id :: "list_stream \<Rightarrow> int" where
  "list_last_id r = (if r = [] then 0 else fst (last r))"

definition list_retained :: "list_stream \<Rightarrow> int \<Rightarrow> event_record option option" where
  "list_retained r i = map_option Some (map_of r i)"

definition list_redis :: "list_stream redis_api" where
  "list_redis = \<lparr>
     xrevrange_last = (\<lambda>_ r. (Inr (if r = [] then None else Some (fst (last r), Some (snd (last r)))), r)),
     xadd = (\<lambda>_ i e _ r. if list_last_id r < i then (Inr (), r @ [(i, e)])
               else (Inl (Raise ResponseError ''The ID specified in XADD is equal or smaller''), r)),
     xrange_at = (\<lambda>_ i r. (Inr (list_retained r i), r)),
     publish_event = (\<lambda>_ _ r. (Inr (), r)),
     publish_heartbeat = (\<lambda>_ _ r. (Inr (), r))\<rparr>"

definition sample_delivery :: delivery where
  "sample_delivery = \<lparr>dl_target = ''target'', dl_stream = ''events'', dl_maxlen = 1000\<rparr>"

text \<open>Three events in the log; the first was added before the process stopped, its commit was lost.\<close>

definition interrupted_db :: db where
  "interrupted_db = (snd (for_each persist_event three_events empty_db))\<lparr>event_stream_deliveries_table :=
     [\<lparr>sd_target = ''target'', sd_delivered_sequence = 0, sd_stream_id_offset = Some 0\<rparr>]\<rparr>"

definition interrupted_stream :: list_stream where
  "interrupted_stream = [(1, hd (event_log interrupted_db))]"

section \<open>What delivery relies on\<close>

text \<open>
  XADD accepts an id above the last one and remembers it also when old entries are trimmed; it
  refuses any other id with a \<^verbatim>\<open>ResponseError\<close>; XRANGE reads and changes nothing. \<open>history\<close> is
  everything that was ever added, \<open>retained\<close> what can still be read.
\<close>

definition stream_contract ::
  "'r redis_api \<Rightarrow> string \<Rightarrow> ('r \<Rightarrow> int) \<Rightarrow> ('r \<Rightarrow> (int \<times> event_record) list) \<Rightarrow>
   ('r \<Rightarrow> int \<Rightarrow> event_record option option) \<Rightarrow> bool" where
  "stream_contract api stream last_id history retained \<longleftrightarrow>
     (\<forall>r i e m. last_id r < i \<longrightarrow> (\<exists>r'. xadd api stream i e m r = (Inr (), r') \<and> last_id r' = i \<and>
        history r' = history r @ [(i, e)])) \<and>
     (\<forall>r i e m. i \<le> last_id r \<longrightarrow> (\<exists>msg. xadd api stream i e m r = (Inl (Raise ResponseError msg), r))) \<and>
     (\<forall>r i. xrange_at api stream i r = (Inr (retained r i), r))"

text \<open>The entries a row list adds to a stream whose last id is \<open>l\<close>.\<close>

definition stream_entries :: "int \<Rightarrow> int \<Rightarrow> event_record list \<Rightarrow> (int \<times> event_record) list" where
  "stream_entries offset l rows =
     map (\<lambda>e. (offset + e_sequence e, row_to_event e)) (filter (\<lambda>e. l < offset + e_sequence e) rows)"

text \<open>Entries the stream refuses are the ones it already holds: the trace of an interrupted delivery.\<close>

definition replayable :: "('r \<Rightarrow> int) \<Rightarrow> ('r \<Rightarrow> int \<Rightarrow> event_record option option) \<Rightarrow> int \<Rightarrow> event_record list \<Rightarrow> 'r \<Rightarrow> bool" where
  "replayable last_id retained offset rows r \<longleftrightarrow>
     (\<forall>e\<in>set rows. offset + e_sequence e \<le> last_id r \<longrightarrow>
        retained r (offset + e_sequence e) = Some (Some (row_to_event e)))"

definition same_but_deliveries :: "db \<Rightarrow> db \<Rightarrow> bool" where
  "same_but_deliveries d d' \<longleftrightarrow> d' = d\<lparr>event_stream_deliveries_table := event_stream_deliveries_table d'\<rparr>"

lemma same_but_deliveries_refl [simp]: "same_but_deliveries d d"
  by (simp add: same_but_deliveries_def)

lemma same_but_deliveries_trans [trans]:
  "same_but_deliveries a b \<Longrightarrow> same_but_deliveries b c \<Longrightarrow> same_but_deliveries a c"
  unfolding same_but_deliveries_def by (cases a, cases b, cases c) simp

lemma same_but_save [simp]: "same_but_deliveries d (save_state target sq off d)"
  by (simp add: same_but_deliveries_def save_state_def)

lemma same_but_events: "same_but_deliveries d d' \<Longrightarrow> events_table d' = events_table d"
  unfolding same_but_deliveries_def by (cases d, cases d') simp

lemma append_event_spec:
  assumes c: "stream_contract api (dl_stream dl) last_id history retained"
    and rep: "replayable last_id retained offset [row] r"
  shows "\<exists>r'. append_event api dl offset (row_to_event row) r = (Inr (), r') \<and>
    history r' = history r @ stream_entries offset (last_id r) [row] \<and>
    last_id r' = max (last_id r) (offset + e_sequence row) \<and> (offset + e_sequence row \<le> last_id r \<longrightarrow> r' = r)"
proof (cases "last_id r < offset + e_sequence row")
  case True
  then obtain r' where "xadd api (dl_stream dl) (offset + e_sequence row) (row_to_event row) (dl_maxlen dl) r = (Inr (), r')"
    "last_id r' = offset + e_sequence row" "history r' = history r @ [(offset + e_sequence row, row_to_event row)]"
    using c unfolding stream_contract_def by blast
  then show ?thesis using True by (simp add: append_event_def Let_def handle_def stream_entries_def)
next
  case False
  then obtain msg where "xadd api (dl_stream dl) (offset + e_sequence row) (row_to_event row) (dl_maxlen dl) r =
      (Inl (Raise ResponseError msg), r)"
    using c unfolding stream_contract_def by (meson not_less)
  moreover have "xrange_at api (dl_stream dl) (offset + e_sequence row) r = (Inr (Some (Some (row_to_event row))), r)"
    using c rep False unfolding stream_contract_def replayable_def by simp
  ultimately show ?thesis using False
    by (simp add: append_event_def Let_def handle_def stream_entries_def bind_def return_def)
qed

lemma save_state_by_key:
  "by_key sd_target k (event_stream_deliveries_table (save_state target sq off d)) =
     map_option (\<lambda>s. if sd_target s = target
       then s\<lparr>sd_delivered_sequence := sq, sd_stream_id_offset := Some off\<rparr> else s)
       (by_key sd_target k (event_stream_deliveries_table d))"
  by (simp add: save_state_def by_key_update)

definition at_cursor :: "string \<Rightarrow> int \<Rightarrow> int \<Rightarrow> db \<Rightarrow> bool" where
  "at_cursor target cursor offset d \<longleftrightarrow>
     map_option (\<lambda>s. (sd_delivered_sequence s, sd_stream_id_offset s))
       (by_key sd_target target (event_stream_deliveries_table d)) = Some (cursor, Some offset)"

lemma at_cursor_save: "at_cursor target c off d \<Longrightarrow> at_cursor target c' off' (save_state target c' off' d)"
  by (cases "by_key sd_target target (event_stream_deliveries_table d)")
    (auto simp: at_cursor_def save_state_by_key dest: by_key_SomeD)

lemma deliver_rows_spec:
  assumes c: "stream_contract api (dl_stream dl) last_id history retained"
    and "sorted_wrt (\<lambda>a b. e_sequence a < e_sequence b) rows"
    and "replayable last_id retained offset rows r" and "at_cursor (dl_target dl) cursor offset d"
  shows "\<exists>d' r'. deliver_rows api dl offset rows cursor (d, r) =
      (Inr (if rows = [] then cursor else e_sequence (last rows)), (d', r')) \<and>
    history r' = history r @ stream_entries offset (last_id r) rows \<and>
    last_id r' = (if rows = [] then last_id r else max (last_id r) (offset + e_sequence (last rows))) \<and>
    (last_id r' = last_id r \<longrightarrow> r' = r) \<and> same_but_deliveries d d' \<and>
    at_cursor (dl_target dl) (if rows = [] then cursor else e_sequence (last rows)) offset d'"
  using assms(2-4)
proof (induction rows arbitrary: cursor d r)
  case Nil
  then show ?case by (simp add: return_eq stream_entries_def)
next
  case (Cons row rows)
  let ?sq = "e_sequence row"
  have rep1: "replayable last_id retained offset [row] r" using Cons.prems(2) by (simp add: replayable_def)
  obtain r1 where r1: "append_event api dl offset (row_to_event row) r = (Inr (), r1)"
    "history r1 = history r @ stream_entries offset (last_id r) [row]"
    "last_id r1 = max (last_id r) (offset + ?sq)" "offset + ?sq \<le> last_id r \<longrightarrow> r1 = r"
    using append_event_spec [OF c rep1] by blast
  define d1 where "d1 = (if ?sq > cursor + 1 then save_state (dl_target dl) (?sq - 1) offset d else d)"
  define d2 where "d2 = save_state (dl_target dl) ?sq offset d1"
  have step: "deliver_rows api dl offset (row # rows) cursor (d, r) = deliver_rows api dl offset rows ?sq (d2, r1)"
    by (simp add: Let_def bind_def on_db_def modify_def on_redis_def return_def r1(1) d1_def d2_def)
  have gt: "\<forall>e\<in>set rows. ?sq < e_sequence e" using Cons.prems(1) by simp
  have rep: "replayable last_id retained offset rows r1"
  proof (cases "offset + ?sq \<le> last_id r")
    case True
    then show ?thesis using r1(4) Cons.prems(2) by (simp add: replayable_def)
  next
    case False
    then show ?thesis using r1(3) gt by (auto simp: replayable_def)
  qed
  have cur1: "at_cursor (dl_target dl) (if ?sq > cursor + 1 then ?sq - 1 else cursor) offset d1"
    using Cons.prems(3) at_cursor_save by (simp add: d1_def)
  have cur2: "at_cursor (dl_target dl) ?sq offset d2" unfolding d2_def using cur1 by (rule at_cursor_save)
  obtain d' r' where ih: "deliver_rows api dl offset rows ?sq (d2, r1) =
      (Inr (if rows = [] then ?sq else e_sequence (last rows)), (d', r'))"
    "history r' = history r1 @ stream_entries offset (last_id r1) rows"
    "last_id r' = (if rows = [] then last_id r1 else max (last_id r1) (offset + e_sequence (last rows)))"
    "last_id r' = last_id r1 \<longrightarrow> r' = r1" "same_but_deliveries d2 d'"
    "at_cursor (dl_target dl) (if rows = [] then ?sq else e_sequence (last rows)) offset d'"
    using Cons.IH [OF _ rep cur2] Cons.prems(1) by auto
  have top: "rows \<noteq> [] \<Longrightarrow> ?sq < e_sequence (last rows)" using gt by simp
  have ent: "stream_entries offset (last_id r1) rows = stream_entries offset (last_id r) rows"
    unfolding stream_entries_def r1(3) using gt by (intro arg_cong [where f = "map _"] filter_cong) auto
  have split: "stream_entries offset (last_id r) (row # rows) =
      stream_entries offset (last_id r) [row] @ stream_entries offset (last_id r) rows"
    by (simp add: stream_entries_def)
  have same: "same_but_deliveries d d'"
  proof -
    have "same_but_deliveries d d1" by (simp add: d1_def)
    also have "same_but_deliveries d1 d2" by (simp add: d2_def)
    finally show ?thesis using ih(5) by (rule same_but_deliveries_trans)
  qed
  have "last_id r' = (max (last_id r) (offset + e_sequence (last (row # rows))))"
    using ih(3) r1(3) top by auto
  moreover have "r' = r" if "last_id r' = last_id r"
  proof -
    have "last_id r1 = last_id r" using that ih(3) r1(3) by (auto split: if_splits)
    then show ?thesis using that ih(4) r1(3,4) by auto
  qed
  ultimately show ?case using step ih(1,2,6) r1(2) same by (auto simp: ent split)
qed

section \<open>The loop\<close>

definition pending :: "db \<Rightarrow> int \<Rightarrow> int \<Rightarrow> event_record list" where
  "pending d cursor target_sequence =
     filter (\<lambda>e. cursor < e_sequence e \<and> e_sequence e \<le> target_sequence) (events_table d)"

abbreviation in_sequence :: "event_record list \<Rightarrow> bool" where
  "in_sequence rows \<equiv> sorted_wrt (\<lambda>a b. e_sequence a < e_sequence b) rows"

lemma event_log_in_sequence: "event_log_ok d \<Longrightarrow> in_sequence (events_table d)"
  unfolding event_log_ok_def event_log_def sorted_wrt_map
  by (elim conjE sorted_wrt_mono_rel [rotated]) (simp add: event_before_def)

lemma pending_in_sequence: "in_sequence (events_table d) \<Longrightarrow> in_sequence (pending d c t)"
  unfolding pending_def by (rule sorted_wrt_filter)

lemma next_batch_eq: "in_sequence (events_table d) \<Longrightarrow> next_batch d c t = take 100 (pending d c t)"
proof -
  assume "in_sequence (events_table d)"
  then have "in_sequence (pending d c t)" by (rule pending_in_sequence)
  then have "sorted (map e_sequence (pending d c t))"
    unfolding sorted_map by (rule sorted_wrt_mono_rel [rotated]) simp
  then show ?thesis
    by (simp add: next_batch_def pending_def select_where_def order_by_sorted sql_limit_def MAX_DELIVERY_BATCH_def)
qed

lemma pending_after:
  assumes sq: "in_sequence (events_table d)" and ne: "pending d c t \<noteq> []" and n: "0 < n"
  shows "pending d (e_sequence (last (take n (pending d c t)))) t = drop n (pending d c t)"
    and "c < e_sequence (last (take n (pending d c t)))"
    and "e_sequence (last (take n (pending d c t))) \<le> t"
proof -
  let ?p = "pending d c t" and ?l = "last (take n (pending d c t))"
  have mem: "?l \<in> set (take n ?p)" using ne n by simp
  then have "?l \<in> set ?p" by (rule in_set_takeD)
  then show c: "c < e_sequence ?l" and "e_sequence ?l \<le> t" by (simp_all add: pending_def)
  have srt: "in_sequence (take n ?p @ drop n ?p)" using pending_in_sequence [OF sq] by simp
  have front: "\<not> e_sequence ?l < e_sequence e" if "e \<in> set (take n ?p)" for e
  proof -
    have "take n ?p = butlast (take n ?p) @ [?l]" using ne n by simp
    then have "in_sequence (butlast (take n ?p) @ [?l])" "e \<in> set (butlast (take n ?p) @ [?l])"
      using srt that by (simp_all add: sorted_wrt_append)
    then show ?thesis by (auto simp: sorted_wrt_append)
  qed
  have tail: "e_sequence ?l < e_sequence e" if "e \<in> set (drop n ?p)" for e
    using srt mem that unfolding sorted_wrt_append by blast
  have "pending d (e_sequence ?l) t = filter (\<lambda>e. e_sequence ?l < e_sequence e) ?p"
    using c by (auto simp: pending_def intro!: filter_cong)
  also have "\<dots> = filter (\<lambda>e. e_sequence ?l < e_sequence e) (take n ?p @ drop n ?p)" by simp
  also have "\<dots> = drop n ?p"
    using front tail unfolding filter_append by (auto simp: filter_empty_conv filter_id_conv)
  finally show "pending d (e_sequence ?l) t = drop n ?p" .
qed

lemma stream_entries_append:
  "stream_entries off l (xs @ ys) = stream_entries off l xs @ stream_entries off l ys"
  by (simp add: stream_entries_def)

lemma deliver_loop_spec:
  assumes c: "stream_contract api (dl_stream dl) last_id history retained"
    and "in_sequence (events_table d)" and "replayable last_id retained off (pending d cursor t) r"
    and "at_cursor (dl_target dl) cursor off d" and "nat (t - cursor) \<le> n"
  shows "\<exists>d' r'. deliver_loop n api dl t off cursor (d, r) = (Inr (), (d', r')) \<and>
    history r' = history r @ stream_entries off (last_id r) (pending d cursor t) \<and>
    same_but_deliveries d d' \<and> at_cursor (dl_target dl) (max cursor t) off d'"
  using assms(2-5)
proof (induction n arbitrary: cursor d r)
  case 0
  then have "t \<le> cursor" by simp
  moreover from this have "pending d cursor t = []" by (auto simp: pending_def filter_empty_conv)
  ultimately show ?case using 0 by (simp add: return_eq stream_entries_def max_absorb1)
next
  case (Suc n)
  note batch = next_batch_eq [OF Suc.prems(1), of cursor t]
  show ?case
  proof (cases "cursor < t \<and> pending d cursor t \<noteq> []")
    case False
    have none: "pending d cursor t = []"
      using False by (auto simp: pending_def filter_empty_conv)
    have "at_cursor (dl_target dl) t off (save_state (dl_target dl) t off d)"
      using Suc.prems(3) by (rule at_cursor_save)
    then show ?thesis using Suc.prems(3) none batch
      by (auto simp: on_db_def modify_def stream_entries_def max_def split: list.split)
  next
    case True
    let ?p = "pending d cursor t" and ?b = "take 100 (pending d cursor t)"
    let ?l = "e_sequence (last ?b)"
    have ne: "?p \<noteq> []" and lt: "cursor < t" using True by auto
    note after = pending_after [OF Suc.prems(1) ne, of 100, simplified]
    have bne: "?b \<noteq> []" using ne by simp
    have srt: "in_sequence (take 100 ?p @ drop 100 ?p)" using pending_in_sequence [OF Suc.prems(1)] by simp
    have repb: "replayable last_id retained off ?b r"
      using Suc.prems(2) unfolding replayable_def by (meson in_set_takeD)
    have srtb: "in_sequence ?b" using srt unfolding sorted_wrt_append by blast
    obtain d1 r1 where b: "deliver_rows api dl off ?b cursor (d, r) = (Inr ?l, (d1, r1))"
      "history r1 = history r @ stream_entries off (last_id r) ?b"
      "last_id r1 = max (last_id r) (off + ?l)" "last_id r1 = last_id r \<longrightarrow> r1 = r"
      "same_but_deliveries d d1" "at_cursor (dl_target dl) ?l off d1"
      using deliver_rows_spec [OF c srtb repb Suc.prems(3)] unfolding if_not_P [OF bne] by blast
    have ev: "events_table d1 = events_table d" using b(5) by (rule same_but_events)
    have rest: "pending d1 ?l t = drop 100 ?p" using after(1) by (simp add: pending_def ev)
    have gt: "?l < e_sequence e" if "e \<in> set (drop 100 ?p)" for e
      using srt that last_in_set [OF bne] unfolding sorted_wrt_append by blast
    have rep1: "replayable last_id retained off (pending d1 ?l t) r1"
      unfolding rest replayable_def
    proof (intro ballI impI)
      fix e assume e: "e \<in> set (drop 100 ?p)" and le: "off + e_sequence e \<le> last_id r1"
      have "last_id r1 = last_id r" using b(3) le gt [OF e] by auto
      then show "retained r1 (off + e_sequence e) = Some (Some (row_to_event e))"
        using b(4) le Suc.prems(2) in_set_dropD [OF e] by (simp add: replayable_def)
    qed
    have fuel: "nat (t - ?l) \<le> n" using Suc.prems(4) after(2) by linarith
    obtain d' r' where ih: "deliver_loop n api dl t off ?l (d1, r1) = (Inr (), (d', r'))"
      "history r' = history r1 @ stream_entries off (last_id r1) (pending d1 ?l t)"
      "same_but_deliveries d1 d'" "at_cursor (dl_target dl) (max ?l t) off d'"
      using Suc.IH [OF _ rep1 b(6) fuel] Suc.prems(1) ev by auto
    have "stream_entries off (last_id r1) (drop 100 ?p) = stream_entries off (last_id r) (drop 100 ?p)"
      unfolding stream_entries_def b(3) using gt by (intro arg_cong [where f = "map _"] filter_cong) auto
    then have hist: "history r' = history r @ stream_entries off (last_id r) ?p"
      using ih(2) b(2) rest by (metis append.assoc append_take_drop_id stream_entries_append)
    obtain x xs where x: "?b = x # xs" using bne by (cases ?b) auto
    have run: "deliver_loop (Suc n) api dl t off cursor (d, r) = (Inr (), (d', r'))"
      using b(1) ih(1) x batch lt by (simp add: bind_def)
    show ?thesis
      using run hist same_but_deliveries_trans [OF b(5) ih(3)] ih(4) after(3) lt by (auto simp: max_def split: if_splits)
  qed
qed

section \<open>Delivery touches nothing else\<close>

definition frames :: "(db \<times> 'r, 'a) op \<Rightarrow> bool" where
  "frames m \<longleftrightarrow> (\<forall>s. same_but_deliveries (fst s) (fst (snd (m s))))"

lemma framesD: "frames m \<Longrightarrow> same_but_deliveries d (fst (snd (m (d, r))))"
  unfolding frames_def by (drule spec [where x = "(d, r)"]) simp

lemma frames_bind: "frames m \<Longrightarrow> (\<And>a. frames (f a)) \<Longrightarrow> frames (bind m f)"
  unfolding frames_def bind_def
  by (auto split: prod.splits sum.splits) (metis fst_conv same_but_deliveries_trans snd_conv)+

lemma frames_return [simp]: "frames (return a)"
  by (simp add: frames_def return_def)

lemma frames_redis [simp]: "frames (on_redis m)"
  by (simp add: frames_def on_redis_def split: prod.split)

lemma frames_read [simp]: "frames (on_db (\<lambda>d. (f d, d)))"
  by (simp add: frames_def on_db_def split: prod.split)

lemma frames_save [simp]: "frames (on_db (modify (save_state target sq off)))"
  by (simp add: frames_def on_db_def modify_def split: prod.split)

lemma frames_ensure [simp]: "frames (on_db (modify (ensure_delivery_row target)))"
  by (simp add: frames_def on_db_def modify_def ensure_delivery_row_def same_but_deliveries_def split: prod.split)

lemma frames_bootstrap: "frames (bootstrap api dl c)"
  unfolding bootstrap_def
proof (rule frames_bind [OF frames_redis])
  fix entries
  show "frames (\<lambda>(d, r). case entries of
         None \<Rightarrow>
           (case first_sequence d of
              None \<Rightarrow> (Inr (c, 0), (d, r))
            | Some first \<Rightarrow> (Inr (if first \<noteq> 0 then max c (first - 1) else c, 0), (d, r)))
       | Some (last_milliseconds, payload) \<Rightarrow>
           (let sequence = entry_sequence d payload in
            if sequence < 1 then (Inr (c, last_milliseconds), (d, r))
            else (Inr (max c sequence, max 0 (last_milliseconds - sequence)), (d, r))))"
    by (auto simp: frames_def Let_def split: option.split)
qed

lemma frames_rows: "frames (deliver_rows api dl off rows c)"
  by (induction rows arbitrary: c) (simp_all add: Let_def frames_bind)

lemma frames_loop: "frames (deliver_loop n (api :: 'r redis_api) dl t off c)"
proof (induction n arbitrary: c)
  case (Suc n)
  have rows: "same_but_deliveries d (fst (snd (bind (deliver_rows api dl off rows c)
      (deliver_loop n api dl t off) (d, r))))" for rows d r
    using framesD [OF frames_bind [OF frames_rows Suc]] by simp
  have save: "same_but_deliveries d (fst (snd (on_db (modify (save_state (dl_target dl) t off)) (d, r))))"
    for d and r
    by (rule framesD [OF frames_save])
  show ?case
    unfolding frames_def deliver_loop.simps
  proof
    fix s :: "db \<times> 'r"
    obtain d r where s: "s = (d, r)" by (cases s)
    show "same_but_deliveries (fst s) (fst (snd ((\<lambda>(d, r).
       if c < t then (case next_batch d c t of
             [] \<Rightarrow> on_db (modify (save_state (dl_target dl) t off)) (d, r)
           | rows \<Rightarrow> bind (deliver_rows api dl off rows c) (deliver_loop n api dl t off) (d, r))
       else (Inr (), (d, r))) s)))"
      unfolding s prod.case fst_conv using rows [of d _ r] save [of d r]
      by (cases "next_batch d c t") (simp_all del: deliver_rows.simps)
  qed
qed (simp add: frames_def return_def)

lemma frames_start:
  "frames (case sd_stream_id_offset state of
              Some offset \<Rightarrow> return (sd_delivered_sequence state, offset)
            | None \<Rightarrow>
                bind (bootstrap api dl (sd_delivered_sequence state)) (\<lambda>(cursor, offset).
                bind (on_db (modify (save_state (dl_target dl) cursor offset))) (\<lambda>_.
                return (cursor, offset))))"
proof (cases "sd_stream_id_offset state")
  case None
  have "frames (bind (bootstrap api dl (sd_delivered_sequence state)) (\<lambda>(cursor, offset).
                bind (on_db (modify (save_state (dl_target dl) cursor offset))) (\<lambda>_.
                return (cursor, offset))))"
  proof (rule frames_bind [OF frames_bootstrap])
    fix a :: "int \<times> int"
    show "frames (case a of (cursor, offset) \<Rightarrow>
        bind (on_db (modify (save_state (dl_target dl) cursor offset))) (\<lambda>_. return (cursor, offset)))"
      unfolding case_prod_unfold by (rule frames_bind [OF frames_save frames_return])
  qed
  then show ?thesis unfolding None option.case .
qed simp

lemma frames_transaction: "frames m \<Longrightarrow> frames (db_transaction m)"
  unfolding frames_def db_transaction_def
  by (auto split: prod.split sum.split) (metis fst_conv snd_conv)

lemma deliver_through_frame: "frames (deliver_through api dl t)"
  unfolding deliver_through_def
proof (rule frames_transaction, rule frames_bind [OF frames_ensure], rule frames_bind [OF frames_read],
    rule frames_bind [OF frames_start])
  fix a :: "int \<times> int"
  show "frames (case a of (cursor, offset) \<Rightarrow> deliver_loop (nat (t - cursor)) api dl t offset cursor)"
    unfolding case_prod_unfold by (rule frames_loop)
qed

section \<open>Properties\<close>

text \<open>
  C5. With Redis behaving as documented, delivering through a sequence number returns, adds to the
  stream every logged event after the cursor up to that number which the stream does not hold yet,
  once, in log order and under its own id, and moves the cursor; an event whose addition survived an
  interrupted delivery is recognised and not added again. No other table changes.
\<close>

theorem stream_delivery_exactly_once:
  assumes "stream_contract api (dl_stream dl) last_id history retained" and "event_log_ok d"
    and "distinct_key sd_target (event_stream_deliveries_table d)"
    and "at_cursor (dl_target dl) cursor off d"
    and "replayable last_id retained off (pending d cursor t) r"
  shows "\<exists>d' r'. deliver_through api dl t (d, r) = (Inr (), (d', r')) \<and>
    history r' = history r @ stream_entries off (last_id r) (pending d cursor t) \<and>
    same_but_deliveries d d' \<and> at_cursor (dl_target dl) (max cursor t) off d'"
proof -
  obtain s where s: "by_key sd_target (dl_target dl) (event_stream_deliveries_table d) = Some s"
    "sd_delivered_sequence s = cursor" "sd_stream_id_offset s = Some off"
    using assms(4) by (auto simp: at_cursor_def)
  have row: "delivery_state (dl_target dl) d = Inr s"
    using select_key [OF assms(3) s(1)] by (simp add: delivery_state_def)
  obtain d' r' where loop: "deliver_loop (nat (t - cursor)) api dl t off cursor (d, r) = (Inr (), (d', r'))"
    and "history r' = history r @ stream_entries off (last_id r) (pending d cursor t)"
    and "same_but_deliveries d d'" and "at_cursor (dl_target dl) (max cursor t) off d'"
    using deliver_loop_spec [OF assms(1) event_log_in_sequence [OF assms(2)] assms(5,4)] by blast
  moreover have "deliver_through api dl t (d, r) = (Inr (), (d', r'))"
    by (simp add: deliver_through_def db_transaction_def bind_def on_db_def modify_def
        ensure_delivery_row_def s row return_def loop)
  ultimately show ?thesis by blast
qed

lemma list_redis_contract: "stream_contract list_redis stream list_last_id (\<lambda>r. r) list_retained"
  by (auto simp: stream_contract_def list_redis_def list_last_id_def)

theorem stream_delivery_exactly_once_witness:
  "\<exists>d' r'. deliver_through list_redis sample_delivery 3 (interrupted_db, interrupted_stream) = (Inr (), (d', r')) \<and>
     map fst r' = [1, 2, 3] \<and> map (e_id \<circ> snd) r' = [''e1'', ''e2'', ''e3'']"
proof -
  have tgt: "dl_target sample_delivery = ''target''" by (simp add: sample_delivery_def)
  obtain out d where p: "for_each persist_event three_events empty_db = (Inr out, d)" by (rule three_events_persist)
  have "event_log_ok d" using events.append_all [OF _ p] event_log_ok_empty by blast
  then have ok: "event_log_ok interrupted_db"
    by (simp add: interrupted_db_def p event_log_ok_def event_log_def event_counter_def)
  have k: "distinct_key sd_target (event_stream_deliveries_table interrupted_db)" by code_simp
  have cur: "at_cursor (dl_target sample_delivery) 0 0 interrupted_db" by code_simp
  have rep: "replayable list_last_id list_retained 0 (pending interrupted_db 0 3) interrupted_stream" by code_simp
  have new: "map fst (interrupted_stream @ stream_entries 0 (list_last_id interrupted_stream) (pending interrupted_db 0 3)) = [1, 2, 3]"
    "map (e_id \<circ> snd) (interrupted_stream @ stream_entries 0 (list_last_id interrupted_stream) (pending interrupted_db 0 3))
      = [''e1'', ''e2'', ''e3'']" by code_simp+
  show ?thesis
    using stream_delivery_exactly_once [OF list_redis_contract ok k cur rep] new by metis
qed

end
