(* ===== verification/Event_Bus.thy ===== *)
theory Event_Bus
  imports Event_Delivery
begin

text \<open>
  The event bus: \<^verbatim>\<open>src/src/goblin_king/events.py\<close>. A \<open>world\<close> is what a process of the system acts
  on: the database, Redis, the process clock and the supply of random ids. \<open>emit\<close> stamps an event,
  appends it to the log, delivers the log to the stream and publishes the event; \<open>heartbeat\<close> keeps
  the latest heartbeat of an owner. Redis comes in through \<open>client\<close>, \<^verbatim>\<open>Redis.from_url\<close>, which gives
  the commands or raises. The theorem: the durable part does not depend on Redis.
\<close>

section \<open>The world of a process\<close>

record 'r world =
  w_db :: db
  w_redis :: 'r
  w_clock :: clock
  w_uuids :: "nat \<Rightarrow> string"
  w_drawn :: nat

definition on_store :: "(db, 'a) op \<Rightarrow> ('r world, 'a) op" where
  "on_store m w = (let (x, d) = m (w_db w) in (x, w\<lparr>w_db := d\<rparr>))"

definition on_stream :: "(db \<times> 'r, 'a) op \<Rightarrow> ('r world, 'a) op" where
  "on_stream m w = (let (x, (d, r)) = m (w_db w, w_redis w) in (x, w\<lparr>w_db := d, w_redis := r\<rparr>))"

definition on_client :: "('r, 'a) op \<Rightarrow> ('r world, 'a) op" where
  "on_client m w = (let (x, r) = m (w_redis w) in (x, w\<lparr>w_redis := r\<rparr>))"

definition utc_now :: "('r world, datetime) op" where
  "utc_now w = (let (t, c) = monotonic_utc_now (w_clock w) in (Inr t, w\<lparr>w_clock := c\<rparr>))"

definition now_after :: "datetime option list \<Rightarrow> ('r world, datetime) op" where
  "now_after predecessors w =
     (let (t, c) = causally_after_now predecessors (w_clock w) in (Inr t, w\<lparr>w_clock := c\<rparr>))"

definition uuid4 :: "('r world, string) op" where
  "uuid4 w = (Inr (w_uuids w (w_drawn w)), w\<lparr>w_drawn := Suc (w_drawn w)\<rparr>)"

section \<open>The bus\<close>

record 'r event_bus =
  bus_client :: "string \<Rightarrow> 'r redis_api result"
  bus_sha256 :: "string \<Rightarrow> string"
  bus_redis_url :: string
  bus_event_channel :: string
  bus_heartbeat_channel :: string
  bus_event_stream :: string
  bus_event_stream_maxlen :: int

definition new_event_bus :: "(string \<Rightarrow> 'r redis_api result) \<Rightarrow> (string \<Rightarrow> string) \<Rightarrow> string \<Rightarrow> 'r event_bus" where
  "new_event_bus client sha256 redis_url =
     \<lparr>bus_client = client, bus_sha256 = sha256, bus_redis_url = redis_url,
      bus_event_channel = ''goblin-king:events'', bus_heartbeat_channel = ''goblin-king:heartbeats'',
      bus_event_stream = ''goblin-king:events:stream'', bus_event_stream_maxlen = 10000\<rparr>"

definition bus_delivery :: "'r event_bus \<Rightarrow> delivery" where
  "bus_delivery bus =
     \<lparr>dl_target = bus_sha256 bus (bus_redis_url bus @ [CHR 0x00] @ bus_event_stream bus),
      dl_stream = bus_event_stream bus, dl_maxlen = bus_event_stream_maxlen bus\<rparr>"

definition publish :: "'r event_bus \<Rightarrow> ('r redis_api \<Rightarrow> ('r, unit) op) \<Rightarrow> ('r world, unit) op" where
  "publish bus send = handle
     (bind (lift_result (bus_client bus (bus_redis_url bus))) (\<lambda>api. on_client (send api)))
     (\<lambda>e. if is_redis_error e then return () else throw e)"

definition append_stream :: "'r event_bus \<Rightarrow> event_record \<Rightarrow> ('r world, unit) op" where
  "append_stream bus event = handle
     (bind (lift_result (bus_client bus (bus_redis_url bus))) (\<lambda>api.
        on_stream (deliver_through api (bus_delivery bus) (e_sequence event))))
     (\<lambda>e. if is_redis_error e \<or> is_sqlalchemy_error e \<or> error_class e = TypeError \<or> is_value_error e
          then return () else throw e)"

text \<open>The optional keyword arguments of \<^verbatim>\<open>emit\<close>.\<close>

record emit_args =
  a_payload :: "json option"
  a_project_id :: "string option"
  a_job_id :: "string option"
  a_run_id :: "string option"
  a_fanout_id :: "string option"
  a_schedule_id :: "string option"
  a_worker_id :: "string option"
  a_scheduler_id :: "string option"
  a_after :: "datetime option"

definition no_args :: emit_args where
  "no_args = \<lparr>a_payload = None, a_project_id = None, a_job_id = None, a_run_id = None,
     a_fanout_id = None, a_schedule_id = None, a_worker_id = None, a_scheduler_id = None, a_after = None\<rparr>"

definition new_event :: "string \<Rightarrow> datetime \<Rightarrow> string \<Rightarrow> event_source \<Rightarrow> emit_args \<Rightarrow> event_record" where
  "new_event i created_at event_type source args =
     \<lparr>e_id = i, e_sequence = 0, e_created_at = created_at, e_event_type = event_type, e_source = source,
      e_project_id = a_project_id args, e_job_id = a_job_id args, e_run_id = a_run_id args,
      e_fanout_id = a_fanout_id args, e_schedule_id = a_schedule_id args,
      e_worker_id = a_worker_id args, e_scheduler_id = a_scheduler_id args,
      e_payload = or_empty (a_payload args)\<rparr>"

definition emit :: "'r event_bus \<Rightarrow> string \<Rightarrow> event_source \<Rightarrow> emit_args \<Rightarrow> ('r world, event_record) op" where
  "emit bus event_type source args =
     bind uuid4 (\<lambda>i.
     bind (case a_after args of Some t \<Rightarrow> now_after [Some t] | None \<Rightarrow> utc_now) (\<lambda>created_at.
     if event_type = '''' then throw (Raise ValidationError ''event_type'')
     else bind (on_store (persist_event (new_event i created_at event_type source args))) (\<lambda>event.
     bind (append_stream bus event) (\<lambda>_.
     bind (publish bus (\<lambda>api. publish_event api (bus_event_channel bus) event)) (\<lambda>_.
     return event)))))"

definition heartbeat ::
  "'r event_bus \<Rightarrow> string \<Rightarrow> heartbeat_owner_type \<Rightarrow> string \<Rightarrow> json option \<Rightarrow> string option \<Rightarrow> string option
     \<Rightarrow> ('r world, heartbeat_record) op" where
  "heartbeat bus owner_id owner_type status payload job_id run_id =
     bind utc_now (\<lambda>now.
     if status = '''' then throw (Raise ValidationError ''status'')
     else
       let h = \<lparr>hb_owner_id = owner_id, hb_owner_type = owner_type, hb_status = status,
                hb_last_seen_at = now, hb_job_id = job_id, hb_run_id = run_id,
                hb_payload = or_empty payload\<rparr> in
       bind (on_store (upsert_heartbeat h)) (\<lambda>_.
       bind (publish bus (\<lambda>api. publish_heartbeat api (bus_heartbeat_channel bus) h)) (\<lambda>_.
       return h)))"

text \<open>
  \<open>decode\<close> is \<^verbatim>\<open>bytes.decode\<close>, \<^verbatim>\<open>json.loads\<close> and the validation of \<^verbatim>\<open>HeartbeatRecord\<close> together.
\<close>

definition record_worker_heartbeat_payload ::
  "'r event_bus \<Rightarrow> (string \<Rightarrow> heartbeat_record result) \<Rightarrow> string \<Rightarrow> ('r world, heartbeat_record option) op" where
  "record_worker_heartbeat_payload bus decode raw =
     (case decode raw of
        Inl e \<Rightarrow>
          if error_class e = TypeError \<or> is_value_error e
          then bind (emit bus ''worker.heartbeat_invalid'' SrcRuntime
                 (no_args\<lparr>a_payload := Some (JObj [(''error'', JStr (error_message e)), (''raw'', JStr raw)])\<rparr>))
                 (\<lambda>_. return None)
          else throw e
      | Inr h \<Rightarrow>
          bind (on_store (upsert_heartbeat h)) (\<lambda>_.
          bind (publish bus (\<lambda>api. publish_heartbeat api (bus_heartbeat_channel bus) h)) (\<lambda>_.
          return (Some h))))"

definition worker_heartbeat_key :: "string \<Rightarrow> string" where
  "worker_heartbeat_key run_id = ''goblin-king:heartbeats:'' @ run_id"

section \<open>Consumer groups\<close>

text \<open>
  The consumer-group commands of Redis. A message is its id and the text of its \<^verbatim>\<open>event\<close> field;
  \<open>loads\<close> is \<^verbatim>\<open>json.loads\<close>.
\<close>

record 'r group_api =
  xgroup_create :: "string \<Rightarrow> string \<Rightarrow> ('r, unit) op"
  xreadgroup :: "string \<Rightarrow> string \<Rightarrow> string \<Rightarrow> int \<Rightarrow> ('r, (string \<times> string option) list list) op"
  xack :: "string \<Rightarrow> string \<Rightarrow> string list \<Rightarrow> ('r, unit) op"

fun has_infix :: "string \<Rightarrow> string \<Rightarrow> bool" where
  "has_infix pat [] = (pat = [])"
| "has_infix pat (c # s) = (take (length pat) (c # s) = pat \<or> has_infix pat s)"

definition ensure_stream_group :: "'r group_api \<Rightarrow> string \<Rightarrow> string \<Rightarrow> ('r, unit) op" where
  "ensure_stream_group api stream group_name = handle (xgroup_create api stream group_name) (\<lambda>e.
     if error_class e = ResponseError \<and> has_infix ''BUSYGROUP'' (error_message e) then return () else throw e)"

definition message_event :: "(string \<Rightarrow> json result) \<Rightarrow> string \<times> string option \<Rightarrow> json result" where
  "message_event loads m =
     (let (message_id, event_text) = m in
      bind_result (if truthy_text event_text then loads (the event_text) else Inr (JObj [])) (\<lambda>event.
      case event of
        JObj members \<Rightarrow> Inr (JObj (assoc_set ''_stream_id'' (JStr message_id) members))
      | JArr _ \<Rightarrow> Inl (Raise TypeError ''list indices must be integers or slices, not str'')
      | _ \<Rightarrow> Inl (Raise TypeError ''object does not support item assignment'')))"

definition read_stream_group ::
  "'r group_api \<Rightarrow> (string \<Rightarrow> json result) \<Rightarrow> string \<Rightarrow> string \<Rightarrow> string \<Rightarrow> int \<Rightarrow> bool \<Rightarrow> ('r, json list) op" where
  "read_stream_group api loads stream group_name consumer limit ack =
     bind (ensure_stream_group api stream group_name) (\<lambda>_.
     bind (xreadgroup api group_name consumer stream limit) (\<lambda>messages.
     bind (lift_result (traverse (message_event loads) (concat messages))) (\<lambda>events.
     let ids = map fst (concat messages) in
     bind (if ack \<and> ids \<noteq> [] then xack api stream group_name ids else return ()) (\<lambda>_.
     return events))))"

text \<open>A Redis that cannot be reached and a fresh process, for concrete instances.\<close>

definition down_redis :: "unit redis_api" where
  "down_redis = (let down = (\<lambda>s. (Inl (Raise RedisError ''Connection refused''), s)) in
     \<lparr>xrevrange_last = (\<lambda>_ s. (Inl (Raise RedisError ''Connection refused''), s)),
      xadd = (\<lambda>_ _ _ _. down),
      xrange_at = (\<lambda>_ _ s. (Inl (Raise RedisError ''Connection refused''), s)),
      publish_event = (\<lambda>_ _. down), publish_heartbeat = (\<lambda>_ _. down)\<rparr>)"

definition down_bus :: "unit event_bus" where
  "down_bus = new_event_bus (\<lambda>_. Inr down_redis) (\<lambda>s. s) ''redis://localhost:6379/0''"

definition fresh_world :: "db \<Rightarrow> unit world" where
  "fresh_world d = \<lparr>w_db = d, w_redis = (),
     w_clock = \<lparr>wall_clock = (\<lambda>n. utc (1000 + int n)), ticks = 0, clock_last = None\<rparr>,
     w_uuids = (\<lambda>n. replicate (Suc n) (CHR ''i'')), w_drawn = 0\<rparr>"

section \<open>What delivery can raise\<close>

text \<open>Every command of the client raises exceptions of \<^verbatim>\<open>redis.exceptions\<close> only.\<close>

definition redis_errors :: "'r redis_api \<Rightarrow> bool" where
  "redis_errors api \<longleftrightarrow>
     (\<forall>s. raises_only is_redis_error (xrevrange_last api s)) \<and>
     (\<forall>s i e m. raises_only is_redis_error (xadd api s i e m)) \<and>
     (\<forall>s i. raises_only is_redis_error (xrange_at api s i)) \<and>
     (\<forall>c e. raises_only is_redis_error (publish_event api c e)) \<and>
     (\<forall>c h. raises_only is_redis_error (publish_heartbeat api c h))"

definition delivery_error :: "error \<Rightarrow> bool" where
  "delivery_error e \<longleftrightarrow> is_redis_error e \<or> is_sqlalchemy_error e"

lemma redis_delivery_error: "raises_only is_redis_error m \<Longrightarrow> raises_only delivery_error m"
  by (erule raises_only_mono) (simp add: delivery_error_def)

lemma raises_on_redis: "raises_only P m \<Longrightarrow> raises_only P (on_redis m)"
  unfolding raises_only_def on_redis_def by (auto split: prod.splits)

lemma raises_on_db [simp]: "raises_only P (on_db (modify f))"
  unfolding raises_only_def on_db_def modify_def by (auto split: prod.splits)

lemma raises_on_db_read: "(\<And>d e. f d = Inl e \<Longrightarrow> P e) \<Longrightarrow> raises_only P (on_db (\<lambda>d. (f d, d)))"
  unfolding raises_only_def on_db_def by (auto split: prod.splits)

lemma raises_append_event: "redis_errors api \<Longrightarrow> raises_only delivery_error (append_event api dl off e)"
  unfolding append_event_def Let_def
  by (rule raises_only_handle [where Q = is_redis_error])
    (auto simp: redis_errors_def delivery_error_def intro!: raises_only_bind redis_delivery_error)

lemma raises_rows: "redis_errors api \<Longrightarrow> raises_only delivery_error (deliver_rows api dl off rows c)"
  by (induction rows arbitrary: c)
    (simp_all add: Let_def raises_only_bind raises_on_redis raises_append_event)

lemma raises_loop:
  assumes api: "redis_errors api"
  shows "raises_only delivery_error (deliver_loop n api dl t off c)"
proof (induction n arbitrary: c)
  case (Suc n)
  have rows: "raises_only delivery_error (bind (deliver_rows api dl off rows c) (deliver_loop n api dl t off))" for rows
    by (rule raises_only_bind [OF raises_rows [OF api] Suc])
  show ?case
    unfolding raises_only_def deliver_loop.simps
  proof (intro allI impI)
    fix s e s'
    assume "(\<lambda>(d, r). if c < t
         then (case next_batch d c t of
             [] \<Rightarrow> on_db (modify (save_state (dl_target dl) t off)) (d, r)
           | rows \<Rightarrow> bind (deliver_rows api dl off rows c) (deliver_loop n api dl t off) (d, r))
         else (Inr (), (d, r))) s = (Inl e, s')"
    then show "delivery_error e"
      by (cases "next_batch (fst s) c t")
        (auto simp: case_prod_unfold on_db_def modify_def split: if_splits dest: raises_onlyD [OF rows]
          simp del: deliver_rows.simps)
  qed
qed simp

lemma raises_bootstrap: "redis_errors api \<Longrightarrow> raises_only delivery_error (bootstrap api dl c)"
  unfolding bootstrap_def
  by (rule raises_only_bind [OF raises_on_redis])
    (auto simp: redis_errors_def intro: redis_delivery_error,
     auto simp: raises_only_def Let_def split: option.splits if_splits)

lemma raises_transaction: "raises_only P m \<Longrightarrow> raises_only P (db_transaction m)"
  unfolding raises_only_def db_transaction_def by (fastforce split: prod.splits sum.splits)

lemma delivery_state_error: "delivery_state target d = Inl e \<Longrightarrow> delivery_error e"
  unfolding delivery_state_def
  by (cases "select_where (\<lambda>s. sd_target s = target) (event_stream_deliveries_table d)" rule: scalar_one.cases)
    (auto simp: delivery_error_def is_sqlalchemy_error_def)

lemma raises_deliver_through:
  assumes api: "redis_errors api"
  shows "raises_only delivery_error (deliver_through api dl t)"
  unfolding deliver_through_def
proof (rule raises_transaction, rule raises_only_bind [OF raises_on_db], rule raises_only_bind)
  show "raises_only delivery_error (on_db (\<lambda>d. (delivery_state (dl_target dl) d, d)))"
    by (rule raises_on_db_read) (rule delivery_state_error)
next
  fix state :: event_stream_delivery_row
  have boot: "raises_only delivery_error (bind (bootstrap api dl (sd_delivered_sequence state)) (\<lambda>(cursor, offset).
      bind (on_db (modify (save_state (dl_target dl) cursor offset))) (\<lambda>_. return (cursor, offset))))"
    unfolding case_prod_unfold
    by (rule raises_only_bind [OF raises_bootstrap [OF api]], rule raises_only_bind) simp_all
  show "raises_only delivery_error (bind (case sd_stream_id_offset state of
              Some offset \<Rightarrow> return (sd_delivered_sequence state, offset)
            | None \<Rightarrow>
                bind (bootstrap api dl (sd_delivered_sequence state)) (\<lambda>(cursor, offset).
                bind (on_db (modify (save_state (dl_target dl) cursor offset))) (\<lambda>_.
                return (cursor, offset)))) (\<lambda>(cursor, offset).
      deliver_loop (nat (t - cursor)) api dl t offset cursor))"
    unfolding case_prod_unfold
    by (rule raises_only_bind) (use boot in \<open>auto simp: case_prod_unfold split: option.split
        intro: raises_loop [OF api]\<close>)
qed

section \<open>Emitting\<close>

text \<open>What a client that raises only its own exceptions is, at the URL of the bus.\<close>

definition bus_ok :: "'r event_bus \<Rightarrow> bool" where
  "bus_ok bus \<longleftrightarrow> (case bus_client bus (bus_redis_url bus) of Inl e \<Rightarrow> is_redis_error e | Inr api \<Rightarrow> redis_errors api)"

text \<open>The tables an event can change: the log, its counter and the delivery cursors.\<close>

definition log_only :: "db \<Rightarrow> db \<Rightarrow> bool" where
  "log_only d d' \<longleftrightarrow> d' = d\<lparr>events_table := events_table d',
     causal_sequences_table := causal_sequences_table d',
     event_stream_deliveries_table := event_stream_deliveries_table d'\<rparr>"

lemma log_only_refl [simp]: "log_only d d"
  by (simp add: log_only_def)

lemma log_only_trans: "log_only a b \<Longrightarrow> log_only b c \<Longrightarrow> log_only a c"
  unfolding log_only_def by (cases a, cases b, cases c) simp

lemma same_but_deliveries_log: "same_but_deliveries d d' \<Longrightarrow> log_only d d'"
  unfolding same_but_deliveries_def log_only_def by (cases d, cases d') simp

lemma log_only_tables:
  "log_only d d' \<Longrightarrow> jobs_table d' = jobs_table d" "log_only d d' \<Longrightarrow> runs_table d' = runs_table d"
  "log_only d d' \<Longrightarrow> schedules_table d' = schedules_table d"
  "log_only d d' \<Longrightarrow> fanouts_table d' = fanouts_table d"
  "log_only d d' \<Longrightarrow> heartbeats_table d' = heartbeats_table d"
  unfolding log_only_def by (cases d, cases d', simp)+

lemma persist_event_log_only: "log_only d (snd (persist_event e d))"
  unfolding persist_event_def log_only_def
  by (auto simp: Let_def atomically_def bind_def gets_def modify_def bump_sequence_def insert_event_def insert_row_def
      return_def split: prod.splits sum.splits if_splits)

lemma same_but_log:
  "same_but_deliveries d d' \<Longrightarrow> event_log d' = event_log d \<and> (event_log_ok d' \<longleftrightarrow> event_log_ok d)"
  unfolding same_but_deliveries_def event_log_ok_def event_log_def event_counter_def
  by (cases d, cases d') simp

text \<open>Outside the database a step of the bus moves Redis, the clock and the ids drawn.\<close>

definition bus_step :: "'r world \<Rightarrow> 'r world \<Rightarrow> bool" where
  "bus_step w w' \<longleftrightarrow> log_only (w_db w) (w_db w') \<and> w_uuids w' = w_uuids w \<and> w_drawn w \<le> w_drawn w'"

lemma bus_step_refl [simp]: "bus_step w w"
  by (simp add: bus_step_def)

lemma bus_step_trans: "bus_step a b \<Longrightarrow> bus_step b c \<Longrightarrow> bus_step a c"
  using log_only_trans by (auto simp: bus_step_def)

definition bus_op :: "('r world, 'a) op \<Rightarrow> bool" where
  "bus_op m \<longleftrightarrow> (\<forall>w. bus_step w (snd (m w)))"

lemma bus_opD: "bus_op m \<Longrightarrow> m w = (x, w') \<Longrightarrow> bus_step w w'"
  unfolding bus_op_def by (metis snd_conv)

lemma bus_op_bind: "bus_op m \<Longrightarrow> (\<And>a. bus_op (f a)) \<Longrightarrow> bus_op (bind m f)"
  unfolding bus_op_def bind_def
  by (auto split: prod.splits sum.splits) (metis bus_step_trans snd_conv)+

lemma bus_op_handle: "bus_op m \<Longrightarrow> (\<And>e. bus_op (h e)) \<Longrightarrow> bus_op (handle m h)"
  unfolding bus_op_def handle_def
  by (auto split: prod.splits sum.splits) (metis bus_step_trans snd_conv)+

lemma bus_op_pure [simp]: "bus_op (return a)" "bus_op (throw e)" "bus_op (lift_result r)" "bus_op (gets f)"
  by (simp_all add: bus_op_def return_eq throw_eq lift_result_eq gets_eq)

lemma bus_op_on_client [simp]: "bus_op (on_client m)"
  by (simp add: bus_op_def on_client_def bus_step_def split: prod.split)

lemma bus_op_deliver [simp]: "bus_op (on_stream (deliver_through api dl t))"
proof -
  have "log_only (w_db w) d" if "deliver_through api dl t (w_db w, w_redis w) = (x, (d, r))" for w x d r
    using framesD [OF deliver_through_frame [of api dl t], of "w_db w" "w_redis w"] that
    by (simp add: same_but_deliveries_log)
  then show ?thesis by (auto simp: bus_op_def on_stream_def bus_step_def split: prod.split)
qed

lemma bus_op_clock [simp]: "bus_op utc_now" "bus_op (now_after ps)" "bus_op uuid4"
  by (simp_all add: bus_op_def utc_now_def now_after_def uuid4_def bus_step_def split: prod.split)

lemma bus_op_persist [simp]: "bus_op (on_store (persist_event e))"
proof -
  have "log_only (w_db w) d" if "persist_event e (w_db w) = (x, d)" for w :: "'a world" and x d
    using persist_event_log_only [of "w_db w" e] that by simp
  then show ?thesis by (simp add: bus_op_def on_store_def bus_step_def split: prod.split)
qed

lemma bus_op_append_stream [simp]: "bus_op (append_stream bus e)"
  unfolding append_stream_def by (rule bus_op_handle) (simp_all add: bus_op_bind)

lemma bus_op_publish [simp]: "bus_op (publish bus send)"
  unfolding publish_def by (rule bus_op_handle) (simp_all add: bus_op_bind)

lemma bus_op_emit [simp]: "bus_op (emit bus event_type source args)"
  unfolding emit_def by (intro bus_op_bind) (auto split: option.split intro!: bus_op_bind)

lemma raises_lift: "(\<And>e. r = Inl e \<Longrightarrow> P e) \<Longrightarrow> raises_only P (lift_result r)"
  by (simp add: raises_only_def lift_result_eq)

lemma raises_on_stream: "raises_only P m \<Longrightarrow> raises_only P (on_stream m)"
  unfolding raises_only_def on_stream_def by (auto split: prod.splits) metis

lemma raises_on_client: "raises_only P m \<Longrightarrow> raises_only P (on_client m)"
  unfolding raises_only_def on_client_def by (auto split: prod.splits)

lemma returns_iff: "raises_only (\<lambda>_. False) m \<Longrightarrow> \<exists>a s'. m s = (Inr a, s')"
  unfolding raises_only_def by (metis prod.exhaust sum.exhaust)

lemma append_stream_returns:
  assumes bus: "bus_ok bus"
  shows "raises_only (\<lambda>_. False) (append_stream bus e)"
proof -
  have "raises_only delivery_error (bind (lift_result (bus_client bus (bus_redis_url bus))) (\<lambda>api.
        on_stream (deliver_through api (bus_delivery bus) (e_sequence e))))"
  proof (cases "bus_client bus (bus_redis_url bus)")
    case (Inl x)
    then show ?thesis using bus by (simp add: bus_ok_def delivery_error_def)
  next
    case (Inr api)
    then have "raises_only delivery_error (deliver_through api (bus_delivery bus) (e_sequence e))"
      using bus raises_deliver_through by (simp add: bus_ok_def)
    then show ?thesis using Inr by (simp add: raises_on_stream)
  qed
  then show ?thesis unfolding append_stream_def
    by (rule raises_only_handle) (auto simp: delivery_error_def)
qed

lemma publish_returns:
  assumes bus: "bus_ok bus" and send: "\<And>api. redis_errors api \<Longrightarrow> raises_only is_redis_error (send api)"
  shows "raises_only (\<lambda>_. False) (publish bus send)"
proof -
  have "raises_only is_redis_error (bind (lift_result (bus_client bus (bus_redis_url bus))) (\<lambda>api. on_client (send api)))"
  proof (cases "bus_client bus (bus_redis_url bus)")
    case (Inl x)
    then show ?thesis using bus by (simp add: bus_ok_def)
  next
    case (Inr api)
    then have "raises_only is_redis_error (send api)" using bus send by (simp add: bus_ok_def)
    then show ?thesis using Inr by (simp add: raises_on_client)
  qed
  then show ?thesis unfolding publish_def by (rule raises_only_handle) simp
qed

lemma append_stream_log:
  assumes "append_stream bus e w = (x, w')"
  shows "same_but_deliveries (w_db w) (w_db w')"
proof (cases "bus_client bus (bus_redis_url bus)")
  case (Inl y)
  then show ?thesis using assms
    by (auto simp: append_stream_def handle_def bind_def lift_result_eq return_eq throw_eq split: if_splits)
next
  case (Inr api)
  obtain y d r where dt: "deliver_through api (bus_delivery bus) (e_sequence e) (w_db w, w_redis w) = (y, (d, r))"
    by (metis prod.exhaust)
  have "same_but_deliveries (w_db w) d"
    using framesD [OF deliver_through_frame [of api "bus_delivery bus" "e_sequence e"], of "w_db w" "w_redis w"] dt by simp
  then show ?thesis using assms dt Inr
    by (cases y) (auto simp: append_stream_def handle_def bind_def lift_result_eq on_stream_def return_eq throw_eq
        split: if_splits)
qed

lemma publish_db: "publish bus send w = (x, w') \<Longrightarrow> w_db w' = w_db w"
  by (auto simp: publish_def handle_def bind_def lift_result_def on_client_def return_def throw_def
      split: prod.splits sum.splits if_splits)

lemma stamp_after:
  assumes "(case after of Some t \<Rightarrow> now_after [Some t] | None \<Rightarrow> utc_now) w = (Inr c, w')"
  shows "after = Some t \<Longrightarrow> utc_instant t < utc_instant c" and "w_db w' = w_db w"
proof -
  show "after = Some t \<Longrightarrow> utc_instant t < utc_instant c"
    using assms causal_floor_bounds(1) [of "[Some t]"]
    by (auto simp: now_after_def causally_after_now_def split: prod.splits)
  show "w_db w' = w_db w"
    using assms by (auto simp: now_after_def utc_now_def split: prod.splits option.splits)
qed

lemma stamp_returns:
  obtains c w' where "(case after of Some t \<Rightarrow> now_after [Some t] | None \<Rightarrow> utc_now) w = (Inr c, w')"
  by (cases after, case_tac [!] "monotonic_utc_now (w_clock w)")
    (auto simp: now_after_def utc_now_def causally_after_now_def)

lemma emit_appends:
  assumes bus: "bus_ok bus" and ok: "event_log_ok (w_db w)" and ty: "event_type \<noteq> ''''"
    and fresh: "w_uuids w (w_drawn w) \<notin> e_id ` set (events_table (w_db w))"
  obtains e w' where "emit bus event_type source args w = (Inr e, w')"
    and "event_log (w_db w') = event_log (w_db w) @ [e]" and "event_log_ok (w_db w')"
    and "e = (new_event (w_uuids w (w_drawn w)) (e_created_at e) event_type source args)\<lparr>e_sequence := e_sequence e\<rparr>"
    and "\<And>t. a_after args = Some t \<Longrightarrow> utc_instant t < utc_instant (e_created_at e)"
    and "w_drawn w < w_drawn w'" and "w_uuids w' = w_uuids w"
proof -
  let ?w1 = "w\<lparr>w_drawn := Suc (w_drawn w)\<rparr>" and ?i = "w_uuids w (w_drawn w)"
  obtain c w2 where c: "(case a_after args of Some t \<Rightarrow> now_after [Some t] | None \<Rightarrow> utc_now) ?w1 = (Inr c, w2)"
    by (rule stamp_returns)
  have d2: "w_db w2 = w_db w" using stamp_after(2) [OF c] by simp
  let ?e = "new_event ?i c event_type source args"
  obtain v where v: "event_counter (w_db w) = Inr v" using ok by (auto simp: event_log_ok_def)
  obtain e d3 where pe: "persist_event ?e (w_db w2) = (Inr e, d3)" and e: "e = stamped_event ?e v (w_db w)"
    using persist_event_eq [OF ok v, of ?e] fresh by (simp add: d2 new_event_def)
  have log3: "event_log_ok d3" "event_log d3 = event_log (w_db w) @ [e]"
    using persist_event_log [OF ok] pe d2 by auto
  let ?w3 = "w2\<lparr>w_db := d3\<rparr>"
  obtain w4 where w4: "append_stream bus e ?w3 = (Inr (), w4)"
    using returns_iff [OF append_stream_returns [OF bus, of e], of ?w3] by auto
  have log4: "event_log_ok (w_db w4)" "event_log (w_db w4) = event_log d3"
    using same_but_log [OF append_stream_log [OF w4]] log3 by auto
  obtain w5 where w5: "publish bus (\<lambda>api. publish_event api (bus_event_channel bus) e) w4 = (Inr (), w5)"
    using returns_iff [OF publish_returns [OF bus, of "\<lambda>api. publish_event api (bus_event_channel bus) e"], of w4]
    by (auto simp: redis_errors_def)
  have run: "emit bus event_type source args w = (Inr e, w5)"
    unfolding emit_def using c pe w4 w5 ty by (simp add: bind_def uuid4_def on_store_def return_eq)
  have "utc_instant c \<le> utc_instant (e_created_at e)"
    using causal_floor_bounds(2) [of "ensure_utc c" "[previous_created_at (w_db w)]"]
    by (simp add: e stamped_event_def causally_after_def new_event_def)
  then have after: "utc_instant t < utc_instant (e_created_at e)" if "a_after args = Some t" for t
    using stamp_after(1) [OF c that] by simp
  have c_op: "bus_op (case a_after args of Some t \<Rightarrow> now_after [Some t] | None \<Rightarrow> utc_now)" by (simp split: option.split)
  have "bus_step ?w1 w2" "bus_step ?w3 w4" "bus_step w4 w5"
    using bus_opD [OF c_op c] bus_opD [OF bus_op_append_stream w4] bus_opD [OF bus_op_publish w5] by auto
  then have ids: "w_drawn w < w_drawn w5" "w_uuids w5 = w_uuids w" by (auto simp: bus_step_def)
  show ?thesis
    by (rule that [OF run]) (use log3 log4 publish_db [OF w5] after ids in \<open>simp_all add: e stamped_event_def new_event_def\<close>)
qed

text \<open>
  When the bus can be used: the log is in order and the ids to come are not in it. Emitting and
  recording heartbeats keep it so and never raise.
\<close>

definition bus_ready :: "'r world \<Rightarrow> bool" where
  "bus_ready w \<longleftrightarrow> event_log_ok (w_db w) \<and> inj (w_uuids w) \<and>
     (\<forall>n\<ge>w_drawn w. w_uuids w n \<notin> e_id ` set (events_table (w_db w)))"

lemma event_ids: "e_id ` set (events_table d) = e_id ` set (event_log d)"
  by (simp add: event_log_def image_image)

lemma keeps_emit:
  fixes bus :: "'r event_bus"
  assumes bus: "bus_ok bus" and ty: "event_type \<noteq> ''''"
  shows "keeps bus_ready never (emit bus event_type source args)"
  unfolding keeps_def
proof (intro allI impI)
  fix w :: "'r world" assume w: "bus_ready w"
  then have ok: "event_log_ok (w_db w)" and fresh: "w_uuids w (w_drawn w) \<notin> e_id ` set (events_table (w_db w))"
    by (auto simp: bus_ready_def)
  obtain e w' where em: "emit bus event_type source args w = (Inr e, w')"
    and log: "event_log (w_db w') = event_log (w_db w) @ [e]" "event_log_ok (w_db w')"
    and e: "e = (new_event (w_uuids w (w_drawn w)) (e_created_at e) event_type source args)\<lparr>e_sequence := e_sequence e\<rparr>"
    and "\<And>t. a_after args = Some t \<Longrightarrow> utc_instant t < utc_instant (e_created_at e)"
    and ids: "w_drawn w < w_drawn w'" "w_uuids w' = w_uuids w"
    by (rule emit_appends [OF bus ok ty fresh, of source args]) (rule that)
  have eid: "e_id e = w_uuids w (w_drawn w)" by (subst e) (simp add: new_event_def)
  have "w_uuids w n \<notin> e_id ` set (events_table (w_db w'))" if "w_drawn w' \<le> n" for n
  proof -
    have "w_uuids w n \<noteq> e_id e" using w ids(1) that by (auto simp: eid bus_ready_def dest: injD)
    moreover have "w_uuids w n \<notin> e_id ` set (event_log (w_db w))"
      using w ids(1) that by (simp add: bus_ready_def event_ids [symmetric])
    ultimately show ?thesis unfolding event_ids log(1) by simp
  qed
  then have "bus_ready w'" using w log(2) ids(2) by (simp add: bus_ready_def)
  then show "bus_ready (snd (emit bus event_type source args w)) \<and>
      (case fst (emit bus event_type source args w) of Inl e \<Rightarrow> False | Inr _ \<Rightarrow> True)" using em by simp
qed

lemma bus_ready_frame:
  "bus_ready w \<Longrightarrow> events_table (w_db w') = events_table (w_db w) \<Longrightarrow>
   causal_sequences_table (w_db w') = causal_sequences_table (w_db w) \<Longrightarrow> w_uuids w' = w_uuids w \<Longrightarrow>
   w_drawn w \<le> w_drawn w' \<Longrightarrow> bus_ready w'"
  by (auto simp: bus_ready_def event_log_ok_def event_log_def event_counter_def)

lemma keeps_upsert_heartbeat: "keeps bus_ready never (on_store (upsert_heartbeat h))"
  unfolding keeps_def
proof (intro allI impI)
  fix w :: "'a world" assume w: "bus_ready w"
  obtain t where d: "upsert_heartbeat h (w_db w) = (Inr (), (w_db w)\<lparr>heartbeats_table := t\<rparr>)"
    by (cases "by_key hb_owner_id (hb_owner_id h) (heartbeats_table (w_db w))")
      (auto simp: upsert_heartbeat_def atomically_def insert_row_def by_key_None_iff [symmetric]
        heartbeat_rows.key_to_row)
  show "bus_ready (snd (on_store (upsert_heartbeat h) w)) \<and>
      (case fst (on_store (upsert_heartbeat h) w) of Inl e \<Rightarrow> False | Inr _ \<Rightarrow> True)"
    using bus_ready_frame [OF w, of "w\<lparr>w_db := (w_db w)\<lparr>heartbeats_table := t\<rparr>\<rparr>"] by (simp add: on_store_def d)
qed

lemma keeps_publish:
  assumes "bus_ok bus" and "\<And>api. redis_errors api \<Longrightarrow> raises_only is_redis_error (send api)"
  shows "keeps bus_ready never (publish bus send)"
  unfolding keeps_def
proof (intro allI impI)
  fix w :: "'a world" assume w: "bus_ready w"
  obtain a w' where p: "publish bus send w = (Inr a, w')"
    using returns_iff [OF publish_returns, OF assms(1), of send w] assms(2) by blast
  have "bus_step w w'" by (rule bus_opD [OF bus_op_publish p])
  then have "bus_ready w'" using bus_ready_frame [OF w, of w'] publish_db [OF p] by (simp add: bus_step_def)
  then show "bus_ready (snd (publish bus send w)) \<and>
      (case fst (publish bus send w) of Inl e \<Rightarrow> False | Inr _ \<Rightarrow> True)" by (simp add: p)
qed

lemma keeps_record_heartbeat:
  assumes bus: "bus_ok bus" and dec: "\<And>raw e. decode raw = Inl e \<Longrightarrow> error_class e = TypeError \<or> is_value_error e"
  shows "keeps bus_ready never (record_worker_heartbeat_payload bus decode raw)"
proof (cases "decode raw")
  case (Inl e)
  have "keeps bus_ready never (bind (emit bus ''worker.heartbeat_invalid'' SrcRuntime args) (\<lambda>_. return None))" for args
    by (rule keeps_bind [OF keeps_emit [OF bus]]) simp_all
  then show ?thesis using Inl dec [OF Inl] by (simp add: record_worker_heartbeat_payload_def)
next
  case (Inr h)
  have "keeps bus_ready never (publish bus (\<lambda>api. publish_heartbeat api (bus_heartbeat_channel bus) h))"
    by (rule keeps_publish [OF bus]) (simp add: redis_errors_def)
  then show ?thesis using Inr
    by (simp add: record_worker_heartbeat_payload_def keeps_bind keeps_upsert_heartbeat)
qed

section \<open>Properties\<close>

text \<open>
  C17. Emitting an event succeeds whatever Redis does, an unreachable or failing server included: the
  event is appended to the log, dated after its stated cause, the log stays ordered, and no table
  but the log, its counter and the delivery cursors changes.
\<close>

theorem emit_durable:
  assumes "bus_ok bus" and "event_log_ok (w_db w)" and "event_type \<noteq> ''''"
    and "w_uuids w (w_drawn w) \<notin> e_id ` set (events_table (w_db w))"
  shows "\<exists>e w'. emit bus event_type source args w = (Inr e, w') \<and>
    event_log (w_db w') = event_log (w_db w) @ [e] \<and> event_log_ok (w_db w') \<and>
    e_event_type e = event_type \<and> e_job_id e = a_job_id args \<and> e_payload e = or_empty (a_payload args) \<and>
    (\<forall>t. a_after args = Some t \<longrightarrow> utc_instant t < utc_instant (e_created_at e)) \<and>
    log_only (w_db w) (w_db w')"
proof -
  obtain e w' where em: "emit bus event_type source args w = (Inr e, w')"
    and log: "event_log (w_db w') = event_log (w_db w) @ [e]" "event_log_ok (w_db w')"
    and e: "e = (new_event (w_uuids w (w_drawn w)) (e_created_at e) event_type source args)\<lparr>e_sequence := e_sequence e\<rparr>"
    and after: "\<And>t. a_after args = Some t \<Longrightarrow> utc_instant t < utc_instant (e_created_at e)"
    and "w_drawn w < w_drawn w'" and "w_uuids w' = w_uuids w"
    by (rule emit_appends [OF assms, of source args]) (rule that)
  have "e_event_type e = event_type" "e_job_id e = a_job_id args" "e_payload e = or_empty (a_payload args)"
    by (subst e, simp add: new_event_def)+
  moreover have "log_only (w_db w) (w_db w')"
    using bus_opD [OF bus_op_emit em] by (simp add: bus_step_def)
  ultimately show ?thesis using em log after by blast
qed

lemma down_bus_ok: "bus_ok down_bus"
  by (simp add: bus_ok_def down_bus_def new_event_bus_def redis_errors_def down_redis_def Let_def raises_only_def
      is_redis_error_def)

theorem emit_durable_witness:
  "\<exists>e w'. emit down_bus ''job.created'' SrcApi (no_args\<lparr>a_after := Some (utc 5000)\<rparr>) (fresh_world empty_db) = (Inr e, w') \<and>
     event_log (w_db w') = [e] \<and> 5000 < utc_instant (e_created_at e)"
proof -
  have ok: "event_log_ok (w_db (fresh_world empty_db))" using event_log_ok_empty by (simp add: fresh_world_def)
  have fresh: "w_uuids (fresh_world empty_db) (w_drawn (fresh_world empty_db)) \<notin>
      e_id ` set (events_table (w_db (fresh_world empty_db)))"
    by (simp add: fresh_world_def empty_db_def)
  have nil: "event_log (w_db (fresh_world empty_db)) = []" by (simp add: fresh_world_def event_log_def empty_db_def)
  have ty: "''job.created'' \<noteq> ''''" by simp
  show ?thesis
    using emit_durable [OF down_bus_ok ok ty fresh, of SrcApi "no_args\<lparr>a_after := Some (utc 5000)\<rparr>"] nil by auto
qed

end
