(* ===== verification/Fanout.thy ===== *)
theory Fanout
  imports Lease_Protocol Store_Admin Registry Event_Bus
begin

text \<open>
  Fanouts and manual retries: \<^verbatim>\<open>src/src/goblin_king/fanout.py\<close>. A fanout is a batch of jobs created
  together; its status is derived from its children. \<open>create_fanout\<close> validates every item before
  it writes anything; \<open>retry_job\<close> copies a terminal job into a fresh queued one. \<open>cv\<close> are the
  conversions of the policy validation (theory \<open>Resource_Policies\<close>).
\<close>

section \<open>Data\<close>

definition ACTIVE_STATUSES :: "job_status set" where
  "ACTIVE_STATUSES = {Leased, Running, Retrying}"

datatype fanout_status = FanoutQueued | FanoutRunning | FanoutCompleted | FanoutFailed | FanoutPartial

record fanout_item =
  fi_kind :: string
  fi_input :: json
  fi_priority :: int
  fi_max_retries :: int
  fi_timeout_seconds :: "int option"

record fanout_create_request =
  fc_description :: "string option"
  fc_correlation_id :: "string option"
  fc_items :: "fanout_item list"

record retry_create_request =
  rq_reason :: "string option"
  rq_input :: "json option"
  rq_priority :: "int option"
  rq_max_retries :: "int option"
  rq_timeout_seconds :: "int option"

record fanout_detail =
  fd_fanout :: fanout_record
  fd_status :: fanout_status
  fd_counts :: "(string \<times> int) list"
  fd_jobs :: "job_record list"
  fd_runs :: "run_record list"

definition json_opt :: "('a \<Rightarrow> json) \<Rightarrow> 'a option \<Rightarrow> json" where
  "json_opt f v = (case v of None \<Rightarrow> JNull | Some a \<Rightarrow> f a)"

definition fanout_item_dump :: "fanout_item \<Rightarrow> json" where
  "fanout_item_dump item = JObj [(''kind'', JStr (fi_kind item)), (''input'', fi_input item),
     (''priority'', JInt (fi_priority item)), (''max_retries'', JInt (fi_max_retries item)),
     (''timeout_seconds'', json_opt JInt (fi_timeout_seconds item))]"

section \<open>Reading a fanout\<close>

definition derive_fanout_status :: "job_record list \<Rightarrow> fanout_status" where
  "derive_fanout_status jobs =
     (if jobs = [] then FanoutQueued
      else let statuses = map j_status jobs in
        if list_all (\<lambda>s. s = Completed) statuses then FanoutCompleted
        else if list_all (\<lambda>s. s \<in> TERMINAL_JOB_STATUSES) statuses
        then (if list_ex (\<lambda>s. s = Completed) statuses then FanoutPartial else FanoutFailed)
        else if list_ex (\<lambda>s. s = Completed) statuses \<and>
                list_ex (\<lambda>s. s \<in> {Failed, TimedOut, Cancelled}) statuses
        then FanoutPartial
        else if list_ex (\<lambda>s. s \<in> ACTIVE_STATUSES) statuses then FanoutRunning
        else FanoutQueued)"

fun count_statuses :: "job_record list \<Rightarrow> (string \<times> int) list \<Rightarrow> (string \<times> int) list" where
  "count_statuses [] counts = counts"
| "count_statuses (job # jobs) counts =
     (let s = job_status_text (j_status job);
          n = (case map_of counts s of None \<Rightarrow> 0 | Some n \<Rightarrow> n)
      in count_statuses jobs (assoc_set s (n + 1) counts))"

definition fanout_counts :: "job_record list \<Rightarrow> (string \<times> int) list" where
  "fanout_counts jobs = assoc_set ''total'' (int (length jobs)) (count_statuses jobs [])"

definition fanout_detail_of :: "db \<Rightarrow> string \<Rightarrow> fanout_detail result" where
  "fanout_detail_of d fanout_id =
     (case get_fanout d fanout_id of
        None \<Rightarrow> Inl (Raise KeyError fanout_id)
      | Some fanout \<Rightarrow>
          (let jobs = list_fanout_jobs d fanout_id in
           bind_result (traverse (\<lambda>job. list_job_runs d (j_id job)) jobs) (\<lambda>runs.
           Inr \<lparr>fd_fanout = fanout, fd_status = derive_fanout_status jobs,
                fd_counts = fanout_counts jobs, fd_jobs = jobs, fd_runs = concat runs\<rparr>)))"

definition list_fanout_details :: "db \<Rightarrow> fanout_detail list result" where
  "list_fanout_details d = traverse (\<lambda>f. fanout_detail_of d (f_id f)) (list_fanouts d)"

section \<open>Creating a fanout\<close>

definition item_policy ::
  "coercions \<Rightarrow> resource_policy_set option \<Rightarrow> goblin_definition \<times> fanout_item \<Rightarrow> resource_policy option result" where
  "item_policy cv policies di =
     (case policies of
        None \<Rightarrow> Inr None
      | Some ps \<Rightarrow> bind_result (effective_for cv ps (gd_kind (fst di)) (fi_timeout_seconds (snd di))
                       (Some (fi_max_retries (snd di)))) (\<lambda>p. Inr (Some p)))"

definition policy_retries :: "resource_policy option \<Rightarrow> int \<Rightarrow> int" where
  "policy_retries policy given =
     (case policy of None \<Rightarrow> given | Some p \<Rightarrow> (case rp_max_retries p of None \<Rightarrow> 0 | Some n \<Rightarrow> n))"

definition policy_timeout :: "resource_policy option \<Rightarrow> int option \<Rightarrow> int option" where
  "policy_timeout policy given = (case policy of None \<Rightarrow> given | Some p \<Rightarrow> rp_timeout_seconds p)"

definition policy_member :: "resource_policy option \<Rightarrow> (string \<times> json) list" where
  "policy_member policy = (case policy of None \<Rightarrow> [] | Some p \<Rightarrow> [(''resource_policy'', compact p)])"

definition fanout_job ::
  "fanout_record \<Rightarrow> datetime \<Rightarrow> string \<Rightarrow> nat \<times> goblin_definition \<times> fanout_item \<times> resource_policy option
     \<Rightarrow> string \<Rightarrow> job_record" where
  "fanout_job fanout now created_by x jid =
     (let (index, definition, item, policy) = x in
      \<lparr>j_id = jid, j_kind = gd_kind definition, j_input = fi_input item, j_created_at = now,
       j_created_by = created_by, j_correlation_id = f_correlation_id fanout,
       j_project_id = f_project_id fanout, j_fanout_id = Some (f_id fanout),
       j_metadata = JObj ([(''fanout_item_index'', JInt (int index)),
                           (''fanout_item'', fanout_item_dump item)] @ policy_member policy),
       j_status = Queued, j_priority = fi_priority item, j_schedule_id = None, j_due_at = Some now,
       j_lease_owner = None, j_leased_until = None, j_attempt_count = 0,
       j_max_retries = policy_retries policy (fi_max_retries item),
       j_timeout_seconds = policy_timeout policy (fi_timeout_seconds item), j_last_error = None\<rparr>)"

definition validate_fanout ::
  "coercions \<Rightarrow> goblin_registry \<Rightarrow> resource_policy_set option \<Rightarrow> fanout_item list
     \<Rightarrow> (nat \<times> goblin_definition \<times> fanout_item \<times> resource_policy option) list result" where
  "validate_fanout cv registry policies items =
     bind_result (traverse (\<lambda>item. registry_get registry (fi_kind item)) items) (\<lambda>definitions.
     bind_result (traverse (item_policy cv policies) (zip definitions items)) (\<lambda>effective_policies.
     Inr (enumerate 0 (zip definitions (zip items effective_policies)))))"

definition create_fanout ::
  "coercions \<Rightarrow> goblin_registry \<Rightarrow> fanout_create_request \<Rightarrow> string \<Rightarrow> string option \<Rightarrow>
   resource_policy_set option \<Rightarrow> ('r world, fanout_detail) op" where
  "create_fanout cv registry request created_by project_id policies =
     bind (lift_result (validate_fanout cv registry policies (fc_items request))) (\<lambda>checked.
     bind utc_now (\<lambda>now.
     bind uuid4 (\<lambda>fanout_id.
     bind (if truthy_text (fc_correlation_id request) then return (the (fc_correlation_id request))
           else uuid4) (\<lambda>correlation.
     let fanout = \<lparr>f_id = fanout_id, f_created_at = now, f_created_by = created_by,
                   f_project_id = project_id, f_correlation_id = Some correlation,
                   f_description = fc_description request\<rparr> in
     bind (for_each (\<lambda>x. bind uuid4 (\<lambda>jid. return (fanout_job fanout now created_by x jid))) checked) (\<lambda>jobs.
     bind (on_store (save_fanout fanout)) (\<lambda>_.
     bind (for_each (\<lambda>job. on_store (save_job job)) jobs) (\<lambda>_.
     on_store (\<lambda>d. (fanout_detail_of d fanout_id, d)))))))))"

section \<open>Retrying a job\<close>

definition retry_metadata :: "job_record \<Rightarrow> string option \<Rightarrow> resource_policy option \<Rightarrow> json" where
  "retry_metadata source reason policy =
     obj_merge (j_metadata source)
       (JObj ([(''retry'', JObj [(''source_job_id'', JStr (j_id source)),
                                (''source_status'', JStr (job_status_text (j_status source))),
                                (''reason'', json_opt JStr reason)])] @ policy_member policy))"

definition or_given_opt :: "'a option \<Rightarrow> 'a option \<Rightarrow> 'a option" where
  "or_given_opt given old = (case given of None \<Rightarrow> old | Some v \<Rightarrow> Some v)"

definition or_given_val :: "'a option \<Rightarrow> 'a \<Rightarrow> 'a" where
  "or_given_val given old = (case given of None \<Rightarrow> old | Some v \<Rightarrow> v)"

definition retry_policy ::
  "coercions \<Rightarrow> resource_policy_set option \<Rightarrow> job_record \<Rightarrow> retry_create_request \<Rightarrow> resource_policy option result" where
  "retry_policy cv policies source request =
     (case policies of None \<Rightarrow> Inr None
      | Some ps \<Rightarrow> bind_result (effective_for cv ps (j_kind source)
                       (or_given_opt (rq_timeout_seconds request) (j_timeout_seconds source))
                       (Some (or_given_val (rq_max_retries request) (j_max_retries source)))) (\<lambda>p. Inr (Some p)))"

definition retry_record ::
  "job_record \<Rightarrow> retry_create_request \<Rightarrow> string \<Rightarrow> resource_policy option \<Rightarrow> string \<Rightarrow> datetime \<Rightarrow> datetime \<Rightarrow> job_record" where
  "retry_record source request created_by policy jid created_at due_at =
     \<lparr>j_id = jid, j_kind = j_kind source,
      j_input = or_given_val (rq_input request) (j_input source), j_created_at = created_at,
      j_created_by = created_by, j_correlation_id = j_correlation_id source,
      j_project_id = j_project_id source, j_fanout_id = j_fanout_id source,
      j_metadata = retry_metadata source (rq_reason request) policy, j_status = Queued,
      j_priority = or_given_val (rq_priority request) (j_priority source),
      j_schedule_id = None, j_due_at = Some due_at, j_lease_owner = None,
      j_leased_until = None, j_attempt_count = 0,
      j_max_retries = policy_retries policy (or_given_val (rq_max_retries request) (j_max_retries source)),
      j_timeout_seconds =
        policy_timeout policy (or_given_opt (rq_timeout_seconds request) (j_timeout_seconds source)),
      j_last_error = None\<rparr>"

definition retry_job ::
  "coercions \<Rightarrow> string \<Rightarrow> retry_create_request \<Rightarrow> string \<Rightarrow> resource_policy_set option \<Rightarrow> ('r world, job_record) op" where
  "retry_job cv job_id request created_by policies =
     bind (gets (\<lambda>w. get_job (w_db w) job_id)) (\<lambda>found.
     case found of
       None \<Rightarrow> throw (Raise KeyError job_id)
     | Some source \<Rightarrow>
         if j_status source \<notin> TERMINAL_JOB_STATUSES
         then throw (Raise ValueError (''job is not terminal: '' @ job_status_text (j_status source)))
         else
           bind (lift_result (retry_policy cv policies source request)) (\<lambda>policy.
           bind uuid4 (\<lambda>jid.
           bind utc_now (\<lambda>created_at.
           bind utc_now (\<lambda>due_at.
           let retry = retry_record source request created_by policy jid created_at due_at in
           bind (on_store (save_job retry)) (\<lambda>_. return retry))))))"

text \<open>One terminal job and a registry of one kind, for concrete instances.\<close>

definition echo_registry :: goblin_registry where
  "echo_registry = \<lparr>gr_definitions = [(''example.echo'', echo_definition)], gr_import_roots = []\<rparr>"

definition two_items :: fanout_create_request where
  "two_items = \<lparr>fc_description = None, fc_correlation_id = Some ''batch-7'',
     fc_items = [\<lparr>fi_kind = ''example.echo'', fi_input = JObj [(''n'', JInt 1)], fi_priority = 100,
                  fi_max_retries = 0, fi_timeout_seconds = None\<rparr>,
                 \<lparr>fi_kind = ''example.echo'', fi_input = JObj [(''n'', JInt 2)], fi_priority = 100,
                  fi_max_retries = 0, fi_timeout_seconds = None\<rparr>]\<rparr>"

definition failed_job_db :: db where
  "failed_job_db = empty_db\<lparr>jobs_table := [(job_to_row (sample_job ''a'' 100 1))\<lparr>j_status := Failed, j_attempt_count := 2\<rparr>]\<rparr>"

section \<open>Fresh identifiers\<close>

text \<open>Random ids do not repeat and are not in use.\<close>

definition fresh_ids :: "'r world \<Rightarrow> bool" where
  "fresh_ids w \<longleftrightarrow> inj (w_uuids w) \<and> (\<forall>n\<ge>w_drawn w.
     w_uuids w n \<notin> j_id ` set (jobs_table (w_db w)) \<and> w_uuids w n \<notin> f_id ` set (fanouts_table (w_db w)) \<and>
     Some (w_uuids w n) \<notin> j_fanout_id ` set (jobs_table (w_db w)) \<and>
     w_uuids w n \<notin> r_job_id ` set (runs_table (w_db w)))"

lemma draw_each:
  "for_each (\<lambda>x. bind uuid4 (\<lambda>i. return (f x i))) xs w =
     (Inr (map (\<lambda>(k, x). f x (w_uuids w (w_drawn w + k))) (enumerate 0 xs)),
      w\<lparr>w_drawn := w_drawn w + length xs\<rparr>)"
proof (induction xs arbitrary: w)
  case Nil
  then show ?case by (simp add: return_eq)
next
  case (Cons x xs)
  have enum: "enumerate 0 (x # xs) = (0, x) # map (\<lambda>(k, y). (Suc k, y)) (enumerate 0 xs)"
    by (auto simp: enumerate_Suc_eq [of 0])
  have one: "bind uuid4 (\<lambda>i. return (f x i)) w =
      (Inr (f x (w_uuids w (w_drawn w))), w\<lparr>w_drawn := Suc (w_drawn w)\<rparr>)"
    by (simp add: bind_def uuid4_def return_eq)
  show ?case
    unfolding for_each.simps enum
    by (subst bind_Inr, rule one, subst bind_Inr, rule Cons.IH) (simp add: return_eq case_prod_unfold o_def)
qed

lemma save_each:
  assumes "distinct (map j_id jobs)" and "set (map j_id jobs) \<inter> j_id ` set (jobs_table (w_db w)) = {}"
  shows "for_each (\<lambda>job. on_store (save_job job)) jobs w =
    (Inr (map (\<lambda>_. ()) jobs),
     w\<lparr>w_db := (w_db w)\<lparr>jobs_table := jobs_table (w_db w) @ map job_to_row jobs\<rparr>\<rparr>)"
  using assms
proof (induction jobs arbitrary: w)
  case Nil
  then show ?case by (simp add: return_eq)
next
  case (Cons j jobs)
  let ?w = "w\<lparr>w_db := (w_db w)\<lparr>jobs_table := jobs_table (w_db w) @ [job_to_row j]\<rparr>\<rparr>"
  have one: "on_store (save_job j) w = (Inr (), ?w)"
    using Cons.prems by (simp add: on_store_def save_job_def insert_row_def)
  have "for_each (\<lambda>job. on_store (save_job job)) jobs ?w =
    (Inr (map (\<lambda>_. ()) jobs),
     ?w\<lparr>w_db := (w_db ?w)\<lparr>jobs_table := jobs_table (w_db ?w) @ map job_to_row jobs\<rparr>\<rparr>)"
    by (rule Cons.IH) (use Cons.prems in \<open>auto simp: image_iff\<close>)
  then show ?case by (simp add: one bind_def return_eq)
qed

section \<open>A new fanout\<close>

lemma validate_fanout_items:
  assumes "validate_fanout cv registry policies items = Inr checked"
  shows "map (\<lambda>(_, _, item, _). item) checked = items"
    and "list_all2 (\<lambda>(_, definition, _, _) item. registry_get registry (fi_kind item) = Inr definition) checked items"
proof -
  obtain ds ps where ds: "traverse (\<lambda>item. registry_get registry (fi_kind item)) items = Inr ds"
    and ps: "traverse (item_policy cv policies) (zip ds items) = Inr ps"
    and c: "checked = enumerate 0 (zip ds (zip items ps))"
    using assms by (auto simp: validate_fanout_def bind_result_Inr_iff)
  have "length ds = length items" using ds by (auto simp: traverse_Inr_iff dest: list_all2_lengthD)
  moreover have "length ps = length (zip ds items)" using ps by (auto simp: traverse_Inr_iff dest: list_all2_lengthD)
  ultimately have l: "length ds = length items" "length ps = length items" by simp_all
  show "map (\<lambda>(_, _, item, _). item) checked = items"
    by (rule nth_equalityI) (simp_all add: c l nth_enumerate_eq)
  show "list_all2 (\<lambda>(_, definition, _, _) item. registry_get registry (fi_kind item) = Inr definition) checked items"
    using ds by (auto simp: c l traverse_Inr_iff list_all2_conv_all_nth nth_enumerate_eq)
qed

lemma new_registry_kind: "new_registry ds roots = Inr r \<Longrightarrow> registry_get r k = Inr d \<Longrightarrow> gd_kind d = k"
  by (auto simp: new_registry_def bind_result_Inr_iff index_definitions_iff registry_get_iff dest: map_of_SomeD)

lemma fanout_job_sel [simp]:
  "j_id (fanout_job f now by x i) = i" "j_status (fanout_job f now by x i) = Queued"
  "j_fanout_id (fanout_job f now by x i) = Some (f_id f)" "j_created_at (fanout_job f now by x i) = now"
  "j_attempt_count (fanout_job f now by x i) = 0"
  "j_input (fanout_job f now by x i) = fi_input (fst (snd (snd x)))"
  "j_kind (fanout_job f now by x i) = gd_kind (fst (snd x))"
  by (simp_all add: fanout_job_def Let_def case_prod_unfold)

lemma count_same_status:
  "\<forall>j\<in>set jobs. j_status j = s \<Longrightarrow>
   count_statuses jobs [(job_status_text s, n)] = [(job_status_text s, n + int (length jobs))]"
  by (induction jobs arbitrary: n) (simp_all add: Let_def)

lemma all_queued_counts:
  assumes "jobs \<noteq> []" and "\<forall>j\<in>set jobs. j_status j = Queued"
  shows "fanout_counts jobs = [(''queued'', int (length jobs)), (''total'', int (length jobs))]"
    and "derive_fanout_status jobs = FanoutQueued"
proof -
  obtain j js where j: "jobs = j # js" using assms(1) by (cases jobs) auto
  have "count_statuses js [(''queued'', 1)] = [(''queued'', 1 + int (length js))]"
    using count_same_status [of js Queued 1] assms(2) j by simp
  then show "fanout_counts jobs = [(''queued'', int (length jobs)), (''total'', int (length jobs))]"
    using assms(2) by (simp add: fanout_counts_def j Let_def)
  show "derive_fanout_status jobs = FanoutQueued"
    using assms(2) by (auto simp: derive_fanout_status_def Let_def j TERMINAL_JOB_STATUSES_def
        ACTIVE_STATUSES_def list_ex_iff)
qed

lemma order_by_constant: "(\<And>r. r \<in> set rows \<Longrightarrow> key r = c) \<Longrightarrow> order_by key rows = rows"
  by (rule order_by_sorted) (auto simp: sorted_wrt_iff_nth_less)

lemma fanout_runs_none:
  assumes "\<And>j. j \<in> set jobs \<Longrightarrow> j_id j \<notin> r_job_id ` set (runs_table d)"
  shows "traverse (\<lambda>job. list_job_runs d (j_id job)) jobs = Inr (map (\<lambda>_. []) jobs)"
  using assms
proof (induction jobs)
  case (Cons j jobs)
  have "filter (\<lambda>r. r_job_id r = j_id j) (runs_table d) = []"
    using Cons.prems [of j] by (force simp: filter_empty_conv)
  then have "list_job_runs d (j_id j) = Inr []"
    by (simp add: list_job_runs_def select_where_def order_by_def)
  then show ?case using Cons by simp
qed simp

text \<open>The detail of a fanout just stored with its jobs.\<close>

lemma stored_fanout_detail:
  fixes d :: db and jobs :: "job_record list" and f :: fanout_record
  defines "d' \<equiv> d\<lparr>fanouts_table := fanouts_table d @ [fanout_to_row f],
    jobs_table := jobs_table d @ map job_to_row jobs\<rparr>"
  assumes "f_id f \<notin> f_id ` set (fanouts_table d)" and "Some (f_id f) \<notin> j_fanout_id ` set (jobs_table d)"
    and jobs: "\<And>j. j \<in> set jobs \<Longrightarrow> j_fanout_id j = Some (f_id f) \<and> j_created_at j = now \<and> j_status j = Queued \<and>
       j_id j \<notin> r_job_id ` set (runs_table d)"
    and "jobs \<noteq> []"
  shows "fanout_detail_of d' (f_id f) =
    Inr \<lparr>fd_fanout = row_to_fanout (fanout_to_row f), fd_status = FanoutQueued,
         fd_counts = [(''queued'', int (length jobs)), (''total'', int (length jobs))],
         fd_jobs = map job_norm jobs, fd_runs = []\<rparr>"
proof -
  have none: "by_key f_id (f_id f) (fanouts_table d) = None" using assms(2) by (simp add: by_key_None_iff)
  have got: "get_fanout d' (f_id f) = Some (row_to_fanout (fanout_to_row f))"
    by (simp add: get_fanout_def d'_def by_key_append none fanout_rows.key_to_row)
  have old: "filter (\<lambda>r. j_fanout_id r = Some (f_id f)) (jobs_table d) = []"
    using assms(3) by (auto simp: filter_empty_conv image_iff)
  have new: "filter (\<lambda>r. j_fanout_id r = Some (f_id f)) (map job_to_row jobs) = map job_to_row jobs"
    using jobs by (auto simp: filter_id_conv job_to_row_def)
  have "order_by (\<lambda>r. dt_wall (j_created_at r)) (map job_to_row jobs) = map job_to_row jobs"
    by (rule order_by_constant [where c = "dt_wall now"]) (use jobs in \<open>auto simp: job_to_row_def\<close>)
  then have lst: "list_fanout_jobs d' (f_id f) = map job_norm jobs"
    using old new by (simp add: list_fanout_jobs_def d'_def select_where_def job_rows.of_to_row)
  have "traverse (\<lambda>job. list_job_runs d' (j_id job)) (map job_norm jobs) = Inr (map (\<lambda>_. []) (map job_norm jobs))"
    by (rule fanout_runs_none) (use jobs in \<open>force simp: d'_def job_norm_def\<close>)
  moreover have "concat (map (\<lambda>_. []) xs) = []" for xs :: "job_record list" by (induction xs) simp_all
  moreover have "\<forall>j\<in>set (map job_norm jobs). j_status j = Queued" using jobs by (auto simp: job_norm_def)
  ultimately show ?thesis
    using all_queued_counts [of "map job_norm jobs"] \<open>jobs \<noteq> []\<close>
    by (simp add: fanout_detail_of_def got lst Let_def o_def)
qed

text \<open>What \<open>create_fanout\<close> writes and returns once its items are validated.\<close>

definition drawn_after :: "fanout_create_request \<Rightarrow> nat \<Rightarrow> nat" where
  "drawn_after request k = (if truthy_text (fc_correlation_id request) then Suc k else Suc (Suc k))"

definition fanout_row_of :: "fanout_create_request \<Rightarrow> string \<Rightarrow> string option \<Rightarrow> 'r world \<Rightarrow> fanout_record" where
  "fanout_row_of request created_by project_id w =
     \<lparr>f_id = w_uuids w (w_drawn w), f_created_at = fst (monotonic_utc_now (w_clock w)), f_created_by = created_by,
      f_project_id = project_id,
      f_correlation_id = Some (if truthy_text (fc_correlation_id request) then the (fc_correlation_id request)
                               else w_uuids w (Suc (w_drawn w))),
      f_description = fc_description request\<rparr>"

definition fanout_jobs_of ::
  "fanout_create_request \<Rightarrow> string \<Rightarrow> string option \<Rightarrow>
   (nat \<times> goblin_definition \<times> fanout_item \<times> resource_policy option) list \<Rightarrow> 'r world \<Rightarrow> job_record list" where
  "fanout_jobs_of request created_by project_id checked w =
     map (\<lambda>(k, x). fanout_job (fanout_row_of request created_by project_id w)
            (fst (monotonic_utc_now (w_clock w))) created_by x
            (w_uuids w (drawn_after request (w_drawn w) + k))) (enumerate 0 checked)"

lemma fresh_idsD:
  assumes "fresh_ids w" and "w_drawn w \<le> n"
  shows "w_uuids w n \<notin> j_id ` set (jobs_table (w_db w))" and "w_uuids w n \<notin> f_id ` set (fanouts_table (w_db w))"
    and "Some (w_uuids w n) \<notin> j_fanout_id ` set (jobs_table (w_db w))"
    and "w_uuids w n \<notin> r_job_id ` set (runs_table (w_db w))"
  using assms by (auto simp: fresh_ids_def)

lemma fanout_jobs_ids:
  assumes fresh: "fresh_ids w"
  shows "distinct (map j_id (fanout_jobs_of request by p checked w))"
    and "set (map j_id (fanout_jobs_of request by p checked w)) \<inter> j_id ` set (jobs_table (w_db w)) = {}"
    and "j \<in> set (fanout_jobs_of request by p checked w) \<Longrightarrow> j_id j \<notin> r_job_id ` set (runs_table (w_db w))"
proof -
  let ?n = "drawn_after request (w_drawn w)"
  have ids: "map j_id (fanout_jobs_of request by p checked w) = map (\<lambda>k. w_uuids w (?n + k)) [0..<length checked]"
    by (rule nth_equalityI) (simp_all add: fanout_jobs_of_def nth_enumerate_eq)
  have later: "w_drawn w \<le> ?n + k" for k by (simp add: drawn_after_def)
  show "distinct (map j_id (fanout_jobs_of request by p checked w))"
    unfolding ids using fresh by (auto simp: fresh_ids_def distinct_map intro!: inj_onI dest!: injD)
  show "set (map j_id (fanout_jobs_of request by p checked w)) \<inter> j_id ` set (jobs_table (w_db w)) = {}"
    unfolding ids disjoint_iff
  proof (intro allI impI)
    fix x assume "x \<in> set (map (\<lambda>k. w_uuids w (?n + k)) [0..<length checked])"
    then obtain k where "x = w_uuids w (?n + k)" by auto
    then show "x \<notin> j_id ` set (jobs_table (w_db w))" using fresh_idsD(1) [OF fresh later] by simp
  qed
  assume "j \<in> set (fanout_jobs_of request by p checked w)"
  then have "j_id j \<in> set (map j_id (fanout_jobs_of request by p checked w))" by simp
  then obtain k where "j_id j = w_uuids w (?n + k)" unfolding ids by auto
  then show "j_id j \<notin> r_job_id ` set (runs_table (w_db w))" using fresh_idsD(4) [OF fresh later] by simp
qed

lemma create_fanout_eq:
  fixes w :: "'r world" and created_by :: string and project_id :: "string option" and request :: fanout_create_request
  assumes valid: "validate_fanout cv registry policies (fc_items request) = Inr checked" and fresh: "fresh_ids w"
    and ne: "checked \<noteq> []"
  defines "f \<equiv> fanout_row_of request created_by project_id w"
    and "jobs \<equiv> fanout_jobs_of request created_by project_id checked w"
  shows "create_fanout cv registry request created_by project_id policies w =
    (Inr \<lparr>fd_fanout = row_to_fanout (fanout_to_row f), fd_status = FanoutQueued,
         fd_counts = [(''queued'', int (length jobs)), (''total'', int (length jobs))],
         fd_jobs = map job_norm jobs, fd_runs = []\<rparr>,
     w\<lparr>w_clock := snd (monotonic_utc_now (w_clock w)),
       w_drawn := drawn_after request (w_drawn w) + length checked,
       w_db := (w_db w)\<lparr>fanouts_table := fanouts_table (w_db w) @ [fanout_to_row f],
                       jobs_table := jobs_table (w_db w) @ map job_to_row jobs\<rparr>\<rparr>)"
    (is "_ = (Inr ?detail, ?w)")
proof -
  let ?given = "truthy_text (fc_correlation_id request)"
  let ?corr = "if ?given then the (fc_correlation_id request) else w_uuids w (Suc (w_drawn w))"
  let ?now = "fst (monotonic_utc_now (w_clock w))" and ?c = "snd (monotonic_utc_now (w_clock w))"
  let ?n = "drawn_after request (w_drawn w)"
  let ?w1 = "w\<lparr>w_clock := ?c, w_drawn := ?n\<rparr>" and ?w2 = "w\<lparr>w_clock := ?c, w_drawn := ?n + length checked\<rparr>"
  let ?d1 = "(w_db w)\<lparr>fanouts_table := fanouts_table (w_db w) @ [fanout_to_row f]\<rparr>"
  have f: "f_id f = w_uuids w (w_drawn w)" by (simp add: f_def fanout_row_of_def)
  have u1: "utc_now w = (Inr ?now, w\<lparr>w_clock := ?c\<rparr>)" by (simp add: utc_now_def Let_def case_prod_unfold)
  have u2: "uuid4 (w\<lparr>w_clock := ?c\<rparr>) = (Inr (f_id f), w\<lparr>w_clock := ?c, w_drawn := Suc (w_drawn w)\<rparr>)"
    by (simp add: uuid4_def f)
  have u3: "(if ?given then return (the (fc_correlation_id request)) else uuid4)
      (w\<lparr>w_clock := ?c, w_drawn := Suc (w_drawn w)\<rparr>) = (Inr ?corr, ?w1)"
    by (simp add: uuid4_def return_eq drawn_after_def)
  have drawn: "for_each (\<lambda>x. bind uuid4 (\<lambda>jid. return (fanout_job f ?now created_by x jid))) checked ?w1 = (Inr jobs, ?w2)"
    by (simp add: draw_each jobs_def fanout_jobs_of_def f_def)
  have saved: "on_store (save_fanout f) ?w2 = (Inr (), ?w2\<lparr>w_db := ?d1\<rparr>)"
    using fresh_idsD(2) [OF fresh order_refl]
    by (simp add: on_store_def save_fanout_def insert_row_def fanout_rows.key_to_row f)
  have stored: "for_each (\<lambda>job. on_store (save_job job)) jobs (?w2\<lparr>w_db := ?d1\<rparr>) = (Inr (map (\<lambda>_. ()) jobs), ?w)"
    unfolding jobs_def using fanout_jobs_ids(1,2) [OF fresh] by (subst save_each) (simp_all add: jobs_def)
  have det: "fanout_detail_of (w_db ?w) (f_id f) = Inr ?detail"
  proof -
    have new: "f_id f \<notin> f_id ` set (fanouts_table (w_db w))" "Some (f_id f) \<notin> j_fanout_id ` set (jobs_table (w_db w))"
      using fresh_idsD [OF fresh order_refl] by (simp_all add: f)
    have job: "j_fanout_id j = Some (f_id f) \<and> j_created_at j = ?now \<and> j_status j = Queued \<and>
        j_id j \<notin> r_job_id ` set (runs_table (w_db w))" if "j \<in> set jobs" for j
      using fanout_jobs_ids(3) [OF fresh that [unfolded jobs_def]] that
      by (auto simp: jobs_def fanout_jobs_of_def f_def simp del: image_iff)
    have "length jobs = length checked" by (simp add: jobs_def fanout_jobs_of_def)
    then have "jobs \<noteq> []" using ne by auto
    then show ?thesis using stored_fanout_detail [OF new job] by simp
  qed
  have row: "\<lparr>f_id = f_id f, f_created_at = ?now, f_created_by = created_by, f_project_id = project_id,
      f_correlation_id = Some ?corr, f_description = fc_description request\<rparr> = f"
    by (simp add: f_def fanout_row_of_def)
  show ?thesis
    unfolding create_fanout_def valid bind_lift_result
    by (subst bind_Inr, rule u1, subst bind_Inr, rule u2, subst bind_Inr, rule u3, unfold Let_def row,
        subst bind_Inr, rule drawn, subst bind_Inr, rule saved, subst bind_Inr, rule stored)
      (use det in \<open>simp add: on_store_def\<close>)
qed

lemma fanout_jobs_items:
  assumes valid: "validate_fanout cv registry policies items = Inr checked" and reg: "new_registry ds roots = Inr registry"
  shows "map (\<lambda>j. (j_kind j, j_input j)) (fanout_jobs_of request by p checked w) = map (\<lambda>i. (fi_kind i, fi_input i)) items"
    (is "map ?g ?jobs = _")
proof (rule nth_equalityI)
  have len: "length checked = length items" using arg_cong [OF validate_fanout_items(1) [OF valid], of length] by simp
  then show "length (map ?g ?jobs) = length (map (\<lambda>i. (fi_kind i, fi_input i)) items)" by (simp add: fanout_jobs_of_def)
  fix k assume "k < length (map ?g ?jobs)"
  then have k: "k < length checked" "k < length items" using len by (simp_all add: fanout_jobs_of_def)
  have "fst (snd (snd (checked ! k))) = items ! k"
    using arg_cong [OF validate_fanout_items(1) [OF valid], of "\<lambda>xs. xs ! k"] k by (simp add: case_prod_unfold)
  moreover have "gd_kind (fst (snd (checked ! k))) = fi_kind (items ! k)"
    using list_all2_nthD [OF validate_fanout_items(2) [OF valid] k(1)] new_registry_kind [OF reg]
    by (auto simp: case_prod_unfold)
  ultimately show "map ?g ?jobs ! k = map (\<lambda>i. (fi_kind i, fi_input i)) items ! k"
    using k by (simp add: fanout_jobs_of_def nth_enumerate_eq)
qed

section \<open>Properties\<close>

text \<open>
  Creating a fanout is all or nothing with respect to validation: if a kind is unknown or an
  item's policy is refused nothing happens, not even an identifier is drawn; otherwise the call
  returns, with one queued child per item, in item order and linked to the new fanout, the rows of
  exactly these jobs appended to the table, and the derived status and counts of an untouched batch.
\<close>

theorem create_fanout_all_or_nothing:
  assumes reg: "new_registry ds roots = Inr registry" and fresh: "fresh_ids w" and items: "fc_items request \<noteq> []"
  shows "case validate_fanout cv registry policies (fc_items request) of
      Inl e \<Rightarrow> create_fanout cv registry request created_by project_id policies w = (Inl e, w)
    | Inr _ \<Rightarrow> \<exists>detail w' jobs. create_fanout cv registry request created_by project_id policies w = (Inr detail, w') \<and>
        jobs_table (w_db w') = jobs_table (w_db w) @ map job_to_row jobs \<and> fd_jobs detail = map job_norm jobs \<and>
        map (\<lambda>j. (j_kind j, j_input j)) jobs = map (\<lambda>i. (fi_kind i, fi_input i)) (fc_items request) \<and>
        (\<forall>j\<in>set jobs. j_status j = Queued \<and> j_fanout_id j = Some (f_id (fd_fanout detail))) \<and>
        fd_status detail = FanoutQueued \<and>
        fd_counts detail = [(''queued'', int (length (fc_items request))), (''total'', int (length (fc_items request)))]"
proof (cases "validate_fanout cv registry policies (fc_items request)")
  case (Inl e)
  then show ?thesis by (simp add: create_fanout_def throw_eq)
next
  case (Inr checked)
  let ?jobs = "fanout_jobs_of request created_by project_id checked w"
  have len: "length checked = length (fc_items request)"
    using arg_cong [OF validate_fanout_items(1) [OF Inr], of length] by simp
  have "length ?jobs = length (fc_items request)" by (simp add: fanout_jobs_of_def len)
  moreover have "checked \<noteq> []" using items len by auto
  moreover have "\<forall>j\<in>set ?jobs. j_status j = Queued \<and>
      j_fanout_id j = Some (f_id (row_to_fanout (fanout_to_row (fanout_row_of request created_by project_id w))))"
    by (auto simp: fanout_jobs_of_def row_to_fanout_def fanout_to_row_def)
  ultimately show ?thesis
    using create_fanout_eq [OF Inr fresh] fanout_jobs_items [OF Inr reg] Inr
    by (simp only: sum.case) (intro exI [of _ ?jobs] exI conjI, auto)
qed

theorem create_fanout_all_or_nothing_witness:
  "\<exists>detail w'. create_fanout strict_coercions echo_registry two_items ''api'' None None (fresh_world empty_db) = (Inr detail, w') \<and>
     map j_input (fd_jobs detail) = [JObj [(''n'', JInt 1)], JObj [(''n'', JInt 2)]] \<and>
     fd_counts detail = [(''queued'', 2), (''total'', 2)] \<and> length (jobs_table (w_db w')) = 2"
proof -
  have reg: "new_registry [echo_definition] [] = Inr echo_registry" by code_simp
  have inj: "inj (w_uuids (fresh_world empty_db))"
    by (rule inj_on_inverseI [where g = "\<lambda>s. length s - 1"]) (simp add: fresh_world_def)
  have fresh: "fresh_ids (fresh_world empty_db)"
    using inj by (simp add: fresh_ids_def) (simp add: fresh_world_def empty_db_def)
  have items: "fc_items two_items \<noteq> []" by (simp add: two_items_def)
  have valid: "case validate_fanout strict_coercions echo_registry None (fc_items two_items) of Inl _ \<Rightarrow> False | Inr _ \<Rightarrow> True"
    by code_simp
  have old: "jobs_table (w_db (fresh_world empty_db)) = []" by (simp add: fresh_world_def empty_db_def)
  show ?thesis
    using create_fanout_all_or_nothing [OF reg fresh items, where cv = strict_coercions and policies = None
        and created_by = "''api''" and project_id = None] valid
    by (auto simp: old two_items_def job_norm_def o_def split: sum.splits)
qed

lemma retry_job_eq:
  assumes fresh: "fresh_ids w" and src: "get_job (w_db w) job_id = Some source"
    and "j_status source \<in> TERMINAL_JOB_STATUSES" and "retry_policy cv policies source request = Inr policy"
  obtains t1 t2 c where "retry_job cv job_id request created_by policies w =
    (let retry = retry_record source request created_by policy (w_uuids w (w_drawn w)) t1 t2 in
     (Inr retry, w\<lparr>w_drawn := Suc (w_drawn w), w_clock := c,
        w_db := (w_db w)\<lparr>jobs_table := jobs_table (w_db w) @ [job_to_row retry]\<rparr>\<rparr>))"
proof -
  obtain t1 c1 t2 c2 where clk: "monotonic_utc_now (w_clock w) = (t1, c1)" "monotonic_utc_now c1 = (t2, c2)"
    by (metis prod.exhaust)
  let ?retry = "retry_record source request created_by policy (w_uuids w (w_drawn w)) t1 t2"
  have "insert_row ''jobs.id'' j_id (job_to_row ?retry) (jobs_table (w_db w)) = Inr (jobs_table (w_db w) @ [job_to_row ?retry])"
    using fresh_idsD(1) [OF fresh order_refl] by (simp add: insert_row_def retry_record_def)
  then have "retry_job cv job_id request created_by policies w =
    (Inr ?retry, w\<lparr>w_drawn := Suc (w_drawn w), w_clock := c2,
        w_db := (w_db w)\<lparr>jobs_table := jobs_table (w_db w) @ [job_to_row ?retry]\<rparr>\<rparr>)"
    using assms(2-4) unfolding retry_job_def bind_gets
    by (simp add: bind_def lift_result_eq uuid4_def utc_now_def clk on_store_def save_job_def return_eq Let_def)
  then show ?thesis using that [of t1 t2 c2] by (simp add: Let_def)
qed

text \<open>
  A retry is refused, with nothing written, unless the source exists, is terminal and passes the
  policy. Otherwise it adds exactly one job: queued, unleased, at attempt zero, of the source's kind,
  project, fanout and correlation, with the caller's overrides; every other job stays as it is.
\<close>

theorem retry_job_effect:
  assumes fresh: "fresh_ids w"
  shows "case get_job (w_db w) job_id of
      None \<Rightarrow> retry_job cv job_id request created_by policies w = (Inl (Raise KeyError job_id), w)
    | Some source \<Rightarrow>
        if j_status source \<notin> TERMINAL_JOB_STATUSES
        then \<exists>m. retry_job cv job_id request created_by policies w = (Inl (Raise ValueError m), w)
        else (case retry_policy cv policies source request of
          Inl e \<Rightarrow> retry_job cv job_id request created_by policies w = (Inl e, w)
        | Inr policy \<Rightarrow> \<exists>retry w'. retry_job cv job_id request created_by policies w = (Inr retry, w') \<and>
          w_db w' = (w_db w)\<lparr>jobs_table := jobs_table (w_db w) @ [job_to_row retry]\<rparr> \<and>
          j_status retry = Queued \<and> j_lease_owner retry = None \<and> j_attempt_count retry = 0 \<and>
          j_kind retry = j_kind source \<and> j_project_id retry = j_project_id source \<and>
          j_fanout_id retry = j_fanout_id source \<and> j_correlation_id retry = j_correlation_id source \<and>
          j_input retry = or_given_val (rq_input request) (j_input source) \<and>
          j_max_retries retry = policy_retries policy (or_given_val (rq_max_retries request) (j_max_retries source)) \<and>
          (\<forall>k. k \<noteq> j_id retry \<longrightarrow> get_job (w_db w') k = get_job (w_db w) k))"
proof (cases "get_job (w_db w) job_id")
  case None
  then show ?thesis by (simp add: retry_job_def bind_gets throw_eq)
next
  case (Some source)
  show ?thesis
  proof (cases "j_status source \<in> TERMINAL_JOB_STATUSES")
    case False
    then show ?thesis using Some by (simp add: retry_job_def bind_gets throw_eq)
  next
    case True
    show ?thesis
    proof (cases "retry_policy cv policies source request")
      case (Inl e)
      then show ?thesis using Some True by (simp add: retry_job_def bind_gets throw_eq)
    next
      case (Inr policy)
      have frame: "get_job (d\<lparr>jobs_table := jobs_table d @ [job_to_row r]\<rparr>) k = get_job d k" if "k \<noteq> j_id r" for d r k
        using that by (simp add: get_job_def by_key_append split: option.split)
      obtain t1 t2 c where "retry_job cv job_id request created_by policies w =
        (let retry = retry_record source request created_by policy (w_uuids w (w_drawn w)) t1 t2 in
         (Inr retry, w\<lparr>w_drawn := Suc (w_drawn w), w_clock := c,
            w_db := (w_db w)\<lparr>jobs_table := jobs_table (w_db w) @ [job_to_row retry]\<rparr>\<rparr>))"
        using retry_job_eq [OF fresh Some True Inr] by blast
      then show ?thesis using Some True Inr frame by (simp add: Let_def) (simp add: retry_record_def)
    qed
  qed
qed

theorem retry_job_effect_witness:
  "\<exists>retry w'. retry_job strict_coercions ''a'' \<lparr>rq_reason = None, rq_input = None, rq_priority = None,
       rq_max_retries = Some 5, rq_timeout_seconds = None\<rparr> ''api'' None (fresh_world failed_job_db) = (Inr retry, w') \<and>
     j_status retry = Queued \<and> j_max_retries retry = 5 \<and> length (jobs_table (w_db w')) = 2"
proof -
  have inj: "inj (w_uuids (fresh_world failed_job_db))"
    by (rule inj_on_inverseI [where g = "\<lambda>s. length s - 1"]) (simp add: fresh_world_def)
  have fresh: "fresh_ids (fresh_world failed_job_db)"
    using inj by (simp add: fresh_ids_def)
      (simp add: fresh_world_def failed_job_db_def empty_db_def job_to_row_def sample_job_def)
  have src: "case get_job (w_db (fresh_world failed_job_db)) ''a'' of None \<Rightarrow> False
      | Some j \<Rightarrow> j_status j \<in> TERMINAL_JOB_STATUSES \<and> length (jobs_table (w_db (fresh_world failed_job_db))) = 1"
    by code_simp
  show ?thesis
    using retry_job_effect [OF fresh, where cv = strict_coercions and job_id = "''a''" and created_by = "''api''"
        and policies = None and request = "\<lparr>rq_reason = None, rq_input = None, rq_priority = None,
       rq_max_retries = Some 5, rq_timeout_seconds = None\<rparr>"] src
    by (auto simp: or_given_val_def retry_policy_def policy_retries_def split: option.splits)
qed

end
