(* ===== verification/Container_Logs.thy ===== *)
theory Container_Logs
  imports Resource_Policies
begin

text \<open>
  Captured worker output: \<^verbatim>\<open>src/src/goblin_king/container_logs.py\<close>. Text is its UTF-8 encoding, a list of
  bytes. \<open>utf8_replace\<close> is \<^verbatim>\<open>bytes.decode("utf-8", errors="replace")\<close> followed by encoding: every maximal
  ill-formed piece becomes U+FFFD, three bytes. The theorem bounds what a log event retains.
\<close>

section \<open>Decoding with replacement\<close>

definition byte :: "char \<Rightarrow> nat" where
  "byte c = of_char c"

definition is_cont :: "char \<Rightarrow> bool" where
  "is_cont c \<longleftrightarrow> 128 \<le> byte c \<and> byte c < 192"

definition REPLACEMENT :: string where
  "REPLACEMENT = [CHR 0xEF, CHR 0xBF, CHR 0xBD]"

text \<open>How many continuation bytes a lead byte asks for, and the range of the first of them.\<close>

definition lead_length :: "char \<Rightarrow> nat" where
  "lead_length c = (let b = byte c in
     if b < 128 then 0 else if 194 \<le> b \<and> b < 224 then 1 else if 224 \<le> b \<and> b < 240 then 2
     else if 240 \<le> b \<and> b < 245 then 3 else 4)"

definition second_ok :: "char \<Rightarrow> char \<Rightarrow> bool" where
  "second_ok lead c = (let b = byte lead; x = byte c in
     if b = 224 then 160 \<le> x \<and> x < 192 else if b = 237 then 128 \<le> x \<and> x < 160
     else if b = 240 then 144 \<le> x \<and> x < 192 else if b = 244 then 128 \<le> x \<and> x < 144 else is_cont c)"

text \<open>The longest well-formed beginning of a sequence: the continuation bytes that fit.\<close>

definition fitting :: "char \<Rightarrow> string \<Rightarrow> string" where
  "fitting lead rest =
     (case rest of [] \<Rightarrow> []
      | c # cs \<Rightarrow> if second_ok lead c then c # takeWhile is_cont (take (lead_length lead - 1) cs) else [])"

function utf8_replace :: "string \<Rightarrow> string" where
  "utf8_replace [] = []"
| "utf8_replace (c # cs) =
     (let n = lead_length c in
      if n = 0 then c # utf8_replace cs
      else if n = 4 then REPLACEMENT @ utf8_replace cs
      else let piece = fitting c cs in
        (if length piece = n then c # piece else REPLACEMENT) @ utf8_replace (drop (length piece) cs))"
  by pat_completeness auto
termination
  by (relation "measure length") auto

section \<open>The payload of a log event\<close>

definition DEFAULT_RUNTIME_LOG_CAPTURE_BYTES :: int where
  "DEFAULT_RUNTIME_LOG_CAPTURE_BYTES = 65536"

datatype captured = NoOutput | OutputText string | OutputBytes string

fun captured_text :: "captured \<Rightarrow> string" where
  "captured_text NoOutput = []"
| "captured_text (OutputText t) = t"
| "captured_text (OutputBytes b) = utf8_replace b"

definition tail_text :: "captured \<Rightarrow> int \<Rightarrow> string \<times> bool \<times> int" where
  "tail_text value max_bytes =
     (if value = NoOutput then ([], False, 0)
      else let encoded = captured_text value; byte_count = int (length encoded) in
        if max_bytes \<le> 0 then ([], 0 < byte_count, byte_count)
        else if byte_count \<le> max_bytes then (encoded, False, byte_count)
        else (utf8_replace (drop (length encoded - nat max_bytes) encoded), True, byte_count))"

record log_args =
  lg_kind :: string
  lg_image :: string
  lg_container_name :: string
  lg_stdout :: captured
  lg_stderr :: captured
  lg_exit_code :: "int option"
  lg_timed_out :: bool
  lg_max_bytes :: int
  lg_combined :: bool
  lg_stdout_was_truncated :: bool
  lg_stderr_was_truncated :: bool
  lg_stdout_observed_bytes :: "int option"
  lg_stderr_observed_bytes :: "int option"

definition container_log_payload :: "log_args \<Rightarrow> json" where
  "container_log_payload a =
     (let m = lg_max_bytes a;
          stdout_limit = (if lg_combined a then m else (m + 1) div 2);
          stderr_limit = (if lg_combined a then 0 else m div 2);
          (stdout_tail, out_cut, stdout_bytes) = tail_text (lg_stdout a) stdout_limit;
          (stderr_tail, err_cut, stderr_bytes) = tail_text (lg_stderr a) stderr_limit;
          stdout_truncated = (out_cut \<or> lg_stdout_was_truncated a);
          stderr_truncated = (err_cut \<or> lg_stderr_was_truncated a)
      in JObj ([(''kind'', JStr (lg_kind a)), (''image'', JStr (lg_image a)),
        (''container_name'', JStr (lg_container_name a)),
        (''exit_code'', case lg_exit_code a of None \<Rightarrow> JNull | Some n \<Rightarrow> JInt n),
        (''timed_out'', JBool (lg_timed_out a)), (''stdout'', JStr stdout_tail), (''stderr'', JStr stderr_tail),
        (''stdout_truncated'', JBool stdout_truncated), (''stderr_truncated'', JBool stderr_truncated),
        (''truncated'', JBool (stdout_truncated \<or> stderr_truncated)), (''max_bytes'', JInt m),
        (''stdout_bytes'', JInt (case lg_stdout_observed_bytes a of None \<Rightarrow> stdout_bytes | Some n \<Rightarrow> n)),
        (''stderr_bytes'', JInt (case lg_stderr_observed_bytes a of None \<Rightarrow> stderr_bytes | Some n \<Rightarrow> n))] @
        (if lg_combined a then [(''stream_mode'', JStr ''combined'')] else [])))"

definition log_capture_limit :: "resource_policy option \<Rightarrow> int" where
  "log_capture_limit policy =
     (case policy of None \<Rightarrow> DEFAULT_RUNTIME_LOG_CAPTURE_BYTES
      | Some p \<Rightarrow> (case logs_max_bytes (rp_logs p) of None \<Rightarrow> DEFAULT_RUNTIME_LOG_CAPTURE_BYTES | Some n \<Rightarrow> n))"

section \<open>Well-formed text\<close>

inductive well_formed :: "string \<Rightarrow> bool" where
  empty: "well_formed []"
| ascii: "lead_length c = 0 \<Longrightarrow> well_formed s \<Longrightarrow> well_formed (c # s)"
| wide: "lead_length c \<in> {1, 2, 3} \<Longrightarrow> length piece = lead_length c \<Longrightarrow> fitting c (piece @ s) = piece \<Longrightarrow>
    well_formed s \<Longrightarrow> well_formed (c # piece @ s)"

lemma fitting_prefix: "\<exists>rest. cs = fitting c cs @ rest"
proof (cases cs)
  case (Cons x xs)
  have "\<exists>rest. xs = takeWhile is_cont (take n xs) @ rest" for n
    by (metis append.assoc append_take_drop_id takeWhile_dropWhile_id)
  then show ?thesis using Cons by (simp add: fitting_def)
qed (simp add: fitting_def)

lemma fitting_drop: "cs = fitting c cs @ drop (length (fitting c cs)) cs"
  by (metis append_eq_conv_conj fitting_prefix)

lemma fitting_frame:
  assumes "length piece = lead_length c" and "fitting c (piece @ s) = piece" and "piece \<noteq> []"
  shows "fitting c (piece @ s') = piece"
proof -
  obtain x xs where p: "piece = x # xs" using assms(3) by (cases piece) auto
  have xs: "length xs = lead_length c - 1" using assms(1) by (simp add: p)
  then have "takeWhile is_cont xs = xs" "second_ok c x"
    using assms(2) by (simp_all add: p fitting_def split: if_splits)
  then show ?thesis using xs by (simp add: p fitting_def)
qed

lemma fitting_conts:
  assumes "fitting c cs = piece" and "lead_length c \<in> {1, 2, 3}"
  shows "\<forall>x\<in>set piece. is_cont x"
proof (cases cs)
  case (Cons x xs)
  have "second_ok c x \<Longrightarrow> is_cont x" using assms(2)
    by (auto simp: second_ok_def is_cont_def Let_def split: if_splits)
  then show ?thesis using assms(1) Cons by (auto simp: fitting_def dest: set_takeWhileD split: if_splits)
qed (use assms in \<open>simp add: fitting_def\<close>)

lemma replacement_well_formed: "well_formed s \<Longrightarrow> well_formed (REPLACEMENT @ s)"
  using well_formed.wide [of "CHR 0xEF" "[CHR 0xBF, CHR 0xBD]" s]
  by (simp add: REPLACEMENT_def lead_length_def byte_def fitting_def second_ok_def is_cont_def Let_def)

lemma lead_length_range: "lead_length c \<noteq> 0 \<Longrightarrow> lead_length c \<noteq> 4 \<Longrightarrow> lead_length c \<in> {1, 2, 3}"
  by (auto simp: lead_length_def Let_def split: if_splits)

lemma utf8_replace_well_formed: "well_formed (utf8_replace s)"
proof (induction s rule: utf8_replace.induct)
  case (2 c cs)
  show ?case
  proof (cases "lead_length c = 0 \<or> lead_length c = 4")
    case True
    then show ?thesis using 2 by (auto intro: well_formed.ascii replacement_well_formed)
  next
    case False
    let ?p = "fitting c cs" and ?r = "utf8_replace (drop (length (fitting c cs)) cs)"
    have wf: "well_formed ?r" using 2 False by simp
    show ?thesis
    proof (cases "length ?p = lead_length c")
      case True
      have "fitting c (?p @ drop (length ?p) cs) = ?p" using fitting_drop [of cs c] by simp
      moreover have "?p \<noteq> []" using True False by auto
      ultimately have "fitting c (?p @ ?r) = ?p" using fitting_frame [OF True] by blast
      then have "well_formed (c # ?p @ ?r)"
        using True False wf lead_length_range by (intro well_formed.wide) auto
      then show ?thesis using True False by (simp add: Let_def)
    next
      case neq: False
      then show ?thesis using False wf by (simp add: Let_def replacement_well_formed)
    qed
  qed
qed (simp add: well_formed.empty)

lemma well_formed_replace: "well_formed s \<Longrightarrow> utf8_replace s = s"
proof (induction rule: well_formed.induct)
  case (wide c piece s)
  then show ?case by (auto simp: Let_def)
qed simp_all

lemma cont_lead: "is_cont c \<Longrightarrow> lead_length c = 4"
  by (simp add: is_cont_def lead_length_def Let_def)

lemma replace_conts: "\<forall>x\<in>set xs. is_cont x \<Longrightarrow> length (utf8_replace (xs @ s)) = 3 * length xs + length (utf8_replace s)"
  by (induction xs) (simp_all add: cont_lead REPLACEMENT_def)

text \<open>A suffix of a text is at most three stray continuation bytes and a text.\<close>

lemma well_formed_suffix:
  "well_formed s \<Longrightarrow> \<exists>xs t. drop n s = xs @ t \<and> length xs \<le> 3 \<and> (\<forall>x\<in>set xs. is_cont x) \<and> well_formed t"
proof (induction arbitrary: n rule: well_formed.induct)
  case (ascii c s)
  show ?case
  proof (cases n)
    case 0
    then show ?thesis using ascii well_formed.ascii by (intro exI [of _ "[]"] exI [of _ "c # s"]) simp
  next
    case (Suc m)
    then show ?thesis using ascii.IH [of m] by simp
  qed
next
  case (wide c piece s)
  show ?case
  proof (cases n)
    case 0
    then show ?thesis using wide well_formed.wide by (intro exI [of _ "[]"] exI [of _ "c # piece @ s"]) simp
  next
    case (Suc m)
    show ?thesis
    proof (cases "m \<le> length piece")
      case True
      have "\<forall>x\<in>set (drop m piece). is_cont x"
        using fitting_conts [OF wide(3) wide(1)] by (auto dest: in_set_dropD)
      then show ?thesis using True Suc wide(1,2,4)
        by (intro exI [of _ "drop m piece"] exI [of _ s]) auto
    next
      case False
      then show ?thesis using wide.IH [of "m - length piece"] Suc by simp
    qed
  qed
qed (auto intro!: exI [of _ "[]"] well_formed.empty)

lemma replace_suffix_bound: "well_formed s \<Longrightarrow> length (utf8_replace (drop n s)) \<le> length (drop n s) + 6"
proof -
  assume "well_formed s"
  then obtain xs t where t: "drop n s = xs @ t" "length xs \<le> 3" "\<forall>x\<in>set xs. is_cont x" "well_formed t"
    using well_formed_suffix by blast
  then show ?thesis unfolding t(1) using replace_conts [OF t(3), of t] well_formed_replace [OF t(4)] by simp
qed

definition proper_capture :: "captured \<Rightarrow> bool" where
  "proper_capture v = (case v of OutputText t \<Rightarrow> well_formed t | _ \<Rightarrow> True)"

lemma captured_well_formed: "proper_capture v \<Longrightarrow> well_formed (captured_text v)"
  by (cases v) (simp_all add: proper_capture_def well_formed.empty utf8_replace_well_formed)

section \<open>Properties\<close>

text \<open>
  The retained tail of an output stream is at most six bytes longer than its limit (a cut inside
  a character leaves up to three stray bytes, each replaced by a three-byte character) and empty for a
  limit of zero; the byte count is that of the whole output; and the tail is the whole output exactly
  when the stream is not reported as truncated.
\<close>

theorem tail_text_bounds:
  assumes "proper_capture v" and "tail_text v m = (tail, truncated, n)"
  shows "int (length tail) \<le> max 0 m + (if 0 < m then 6 else 0) \<and> n = int (length (captured_text v)) \<and>
    (truncated \<longleftrightarrow> max 0 m < n) \<and> (\<not> truncated \<longrightarrow> tail = captured_text v)"
proof -
  let ?t = "captured_text v"
  have "length (utf8_replace (drop (length ?t - nat m) ?t)) \<le> length (drop (length ?t - nat m) ?t) + 6"
    by (rule replace_suffix_bound [OF captured_well_formed [OF assms(1)]])
  then show ?thesis using assms(2)
    by (auto simp: tail_text_def Let_def split: if_splits) (metis length_greater_0_conv less_le_trans not_less of_nat_0_less_iff)
qed

theorem tail_text_bounds_witness:
  "\<exists>tail truncated n. tail_text (OutputBytes [CHR 0xE2, CHR 0x82, CHR 0xAC]) 2 = (tail, truncated, n) \<and>
     length tail = 6 \<and> int (length tail) \<le> 2 + 6 \<and> truncated"
proof -
  have v: "tail_text (OutputBytes [CHR 0xE2, CHR 0x82, CHR 0xAC]) 2 =
      (REPLACEMENT @ REPLACEMENT, True, 3)" by code_simp
  have ok: "proper_capture (OutputBytes [CHR 0xE2, CHR 0x82, CHR 0xAC])" by (simp add: proper_capture_def)
  have "int (length (REPLACEMENT @ REPLACEMENT)) \<le> 2 + 6" using tail_text_bounds [OF ok v] by simp
  moreover have "length (REPLACEMENT @ REPLACEMENT) = 6" by (simp add: REPLACEMENT_def)
  ultimately show ?thesis using v by blast
qed

end
