(* ===== verification/Run_Events.thy ===== *)
theory Run_Events
  imports Container_Logs Event_Bus
begin

text \<open>
  Worker run events: \<^verbatim>\<open>src/src/goblin_king/run_events.py\<close>. A worker publishes bounded events into a
  Redis Stream of its run, and the control plane reads them back. The commands of Redis are the
  parameter \<open>run_event_redis\<close>, what pydantic makes of an envelope (\<^verbatim>\<open>model_dump_json\<close> and
  \<^verbatim>\<open>model_validate_json\<close>) and the text of a fraction are the parameter \<open>event_codec\<close>. Text is its UTF-8
  encoding, so its length is the number of bytes. The theorems: the environment given to a worker
  yields a publisher for exactly its run, a worker is never disturbed by its events, and the
  reader's pages are the retained events of one run, each sequence once, in order.
\<close>

section \<open>Keys and environment\<close>

definition WORKER_RUN_EVENT_CONTRACT_VERSION :: string where
  "WORKER_RUN_EVENT_CONTRACT_VERSION = ''goblin-king/v1alpha1''"

definition DEFAULT_RUN_EVENT_MAX_EVENTS :: int where
  "DEFAULT_RUN_EVENT_MAX_EVENTS = 256"

definition DEFAULT_RUN_EVENT_MAX_PAYLOAD_BYTES :: int where
  "DEFAULT_RUN_EVENT_MAX_PAYLOAD_BYTES = 4 * 1024"

definition DEFAULT_RUN_EVENT_MIN_INTERVAL_MS :: int where
  "DEFAULT_RUN_EVENT_MIN_INTERVAL_MS = 50"

definition DEFAULT_RUN_EVENT_TTL_SECONDS :: int where
  "DEFAULT_RUN_EVENT_TTL_SECONDS = 60 * 60"

definition MAX_RUN_EVENT_READ_LIMIT :: int where
  "MAX_RUN_EVENT_READ_LIMIT = 256"

definition RUN_EVENT_TYPES :: "string list" where
  "RUN_EVENT_TYPES = [''progress'', ''stdout'', ''stderr'', ''message'']"

definition run_event_stream_key :: "string \<Rightarrow> string" where
  "run_event_stream_key run_id = ''goblin-king:run-events:'' @ run_id"

definition run_event_sequence_key :: "string \<Rightarrow> string" where
  "run_event_sequence_key run_id = ''goblin-king:run-events:'' @ run_id @ '':sequence''"

definition run_event_rate_key :: "string \<Rightarrow> string" where
  "run_event_rate_key run_id = ''goblin-king:run-events:'' @ run_id @ '':rate''"

definition worker_run_event_environment :: "string \<Rightarrow> string \<Rightarrow> (string \<times> string) list" where
  "worker_run_event_environment run_id redis_url =
     [(''GOBLIN_RUN_EVENT_CONTRACT_VERSION'', WORKER_RUN_EVENT_CONTRACT_VERSION),
      (''GOBLIN_RUN_EVENT_REDIS_URL'', redis_url),
      (''GOBLIN_RUN_EVENT_STREAM'', run_event_stream_key run_id),
      (''GOBLIN_RUN_EVENT_SEQUENCE_KEY'', run_event_sequence_key run_id),
      (''GOBLIN_RUN_EVENT_RATE_KEY'', run_event_rate_key run_id),
      (''GOBLIN_RUN_EVENT_MAX_EVENTS'', str_int DEFAULT_RUN_EVENT_MAX_EVENTS),
      (''GOBLIN_RUN_EVENT_MAX_PAYLOAD_BYTES'', str_int DEFAULT_RUN_EVENT_MAX_PAYLOAD_BYTES),
      (''GOBLIN_RUN_EVENT_MIN_INTERVAL_MS'', str_int DEFAULT_RUN_EVENT_MIN_INTERVAL_MS),
      (''GOBLIN_RUN_EVENT_TTL_SECONDS'', str_int DEFAULT_RUN_EVENT_TTL_SECONDS)]"

section \<open>The commands of Redis and the codec\<close>

datatype raw_text = RawBytes string | RawText string

type_synonym raw_entry = "raw_text \<times> (raw_text \<times> raw_text) list"

text \<open>
  \<^verbatim>\<open>SET NX PX\<close> (whether the key was set), \<^verbatim>\<open>INCR\<close>, the transaction of XADD with MAXLEN and the two
  EXPIRE, and XRANGE with COUNT.
\<close>

record 'r run_event_redis =
  rr_set_nx :: "string \<Rightarrow> int \<Rightarrow> ('r, bool) op"
  rr_incr :: "string \<Rightarrow> ('r, int) op"
  rr_append :: "string \<Rightarrow> string \<Rightarrow> int \<Rightarrow> string \<Rightarrow> int \<Rightarrow> ('r, unit) op"
  rr_xrange :: "string \<Rightarrow> int \<Rightarrow> ('r, raw_entry list) op"

record run_event =
  re_sequence :: int
  re_created_at :: datetime
  re_event_type :: string
  re_run_id :: string
  re_payload :: json

record event_codec =
  ec_dump :: "run_event \<Rightarrow> string"
  ec_parse :: "string \<Rightarrow> run_event option"
  ec_fraction :: "int \<Rightarrow> int \<Rightarrow> string"

text \<open>\<^verbatim>\<open>json.dumps(payload, separators=(",", ":"), ensure_ascii=False)\<close>\<close>

definition hex_digit :: "nat \<Rightarrow> char" where
  "hex_digit n = char_of (if n < 10 then 48 + n else 87 + n)"

definition json_escape :: "char \<Rightarrow> string" where
  "json_escape c =
     (if c = CHR 0x22 then [CHR 0x5C, CHR 0x22]
      else if c = CHR 0x5C then [CHR 0x5C, CHR 0x5C]
      else if c = CHR 0x0A then [CHR 0x5C, CHR ''n'']
      else if c = CHR 0x0D then [CHR 0x5C, CHR ''r'']
      else if c = CHR 0x09 then [CHR 0x5C, CHR ''t'']
      else if c = CHR 0x0C then [CHR 0x5C, CHR ''f'']
      else if c = CHR 0x08 then [CHR 0x5C, CHR ''b'']
      else if of_char c < (32 :: nat)
      then [CHR 0x5C, CHR ''u'', CHR ''0'', CHR ''0'', hex_digit (of_char c div 16), hex_digit (of_char c mod 16)]
      else [c])"

definition json_string :: "string \<Rightarrow> string" where
  "json_string s = [CHR 0x22] @ concat (map json_escape s) @ [CHR 0x22]"

fun commas :: "string list \<Rightarrow> string" where
  "commas [] = ''''"
| "commas [x] = x"
| "commas (x # xs) = x @ '','' @ commas xs"

fun json_dumps :: "(int \<Rightarrow> int \<Rightarrow> string) \<Rightarrow> json \<Rightarrow> string" where
  "json_dumps fraction JNull = ''null''"
| "json_dumps fraction (JBool b) = (if b then ''true'' else ''false'')"
| "json_dumps fraction (JInt i) = str_int i"
| "json_dumps fraction (JDec m e) = fraction m e"
| "json_dumps fraction (JStr s) = json_string s"
| "json_dumps fraction (JArr vs) = ''['' @ commas (map (json_dumps fraction) vs) @ '']''"
| "json_dumps fraction (JObj ms) = ''{'' @ commas (map (\<lambda>(k, v). json_string k @ '':'' @ json_dumps fraction v) ms) @ ''}''"

definition payload_size :: "event_codec \<Rightarrow> json \<Rightarrow> int" where
  "payload_size codec payload = int (length (json_dumps (ec_fraction codec) payload))"

section \<open>The publisher\<close>

record 'r publisher =
  pb_redis :: "'r run_event_redis"
  pb_run_id :: string
  pb_stream :: string
  pb_sequence_key :: string
  pb_rate_key :: string
  pb_max_events :: int
  pb_max_payload_bytes :: int
  pb_min_interval_ms :: int
  pb_ttl_seconds :: int

definition new_publisher ::
  "'r run_event_redis \<Rightarrow> string \<Rightarrow> string \<Rightarrow> string \<Rightarrow> string \<Rightarrow> int \<Rightarrow> int \<Rightarrow> int \<Rightarrow> int \<Rightarrow> 'r publisher result" where
  "new_publisher redis run_id stream sequence_key rate_key max_events max_payload_bytes min_interval_ms ttl_seconds =
     (if \<not> (1 \<le> max_events \<and> max_events \<le> DEFAULT_RUN_EVENT_MAX_EVENTS)
      then Inl (Raise RunEventError (''max_events must be between 1 and '' @ str_int DEFAULT_RUN_EVENT_MAX_EVENTS))
      else if \<not> (1 \<le> max_payload_bytes \<and> max_payload_bytes \<le> DEFAULT_RUN_EVENT_MAX_PAYLOAD_BYTES)
      then Inl (Raise RunEventError (''max_payload_bytes must be between 1 and '' @ str_int DEFAULT_RUN_EVENT_MAX_PAYLOAD_BYTES))
      else if \<not> (DEFAULT_RUN_EVENT_MIN_INTERVAL_MS \<le> min_interval_ms \<and> min_interval_ms \<le> 60000)
      then Inl (Raise RunEventError (''min_interval_ms must be at least '' @ str_int DEFAULT_RUN_EVENT_MIN_INTERVAL_MS))
      else if \<not> (1 \<le> ttl_seconds \<and> ttl_seconds \<le> DEFAULT_RUN_EVENT_TTL_SECONDS)
      then Inl (Raise RunEventError (''ttl_seconds must be between 1 and '' @ str_int DEFAULT_RUN_EVENT_TTL_SECONDS))
      else Inr \<lparr>pb_redis = redis, pb_run_id = run_id, pb_stream = stream, pb_sequence_key = sequence_key,
        pb_rate_key = rate_key, pb_max_events = max_events, pb_max_payload_bytes = max_payload_bytes,
        pb_min_interval_ms = min_interval_ms, pb_ttl_seconds = ttl_seconds\<rparr>)"

text \<open>\<^verbatim>\<open>int(text)\<close> and \<^verbatim>\<open>environ[key]\<close>\<close>

definition py_int :: "string \<Rightarrow> int result" where
  "py_int s =
     (let (neg, u) = take_sign (py_strip s); (ds, rest) = digits_run u in
      if ds = [] \<or> rest \<noteq> [] then Inl (Raise ValueError ''invalid literal for int()'')
      else Inr (if neg then - digits_value ds else digits_value ds))"

definition lookup_env :: "(string \<times> string) list \<Rightarrow> string \<Rightarrow> string result" where
  "lookup_env values key = (case map_of values key of None \<Rightarrow> Inl (Raise KeyError key) | Some v \<Rightarrow> Inr v)"

fun check_keys :: "(string \<times> string \<times> string) list \<Rightarrow> unit result" where
  "check_keys [] = Inr ()"
| "check_keys ((key, actual, expected) # ks) =
     (if actual \<noteq> expected then Inl (Raise RunEventError (key @ '' does not match GOBLIN_RUN_ID'')) else check_keys ks)"

definition publisher_from_environment ::
  "(string \<Rightarrow> 'r run_event_redis result) \<Rightarrow> (string \<times> string) list \<Rightarrow> 'r publisher result" where
  "publisher_from_environment factory values =
     bind_result (lookup_env values ''GOBLIN_RUN_EVENT_CONTRACT_VERSION'') (\<lambda>version.
     if version \<noteq> WORKER_RUN_EVENT_CONTRACT_VERSION
     then Inl (Raise RunEventError (''unsupported run event contract: '' @ version))
     else
     bind_result (lookup_env values ''GOBLIN_RUN_ID'') (\<lambda>run_id.
     bind_result (lookup_env values ''GOBLIN_RUN_EVENT_STREAM'') (\<lambda>stream.
     bind_result (lookup_env values ''GOBLIN_RUN_EVENT_SEQUENCE_KEY'') (\<lambda>sequence_key.
     bind_result (lookup_env values ''GOBLIN_RUN_EVENT_RATE_KEY'') (\<lambda>rate_key.
     bind_result (lookup_env values ''GOBLIN_RUN_EVENT_REDIS_URL'') (\<lambda>url.
     bind_result (check_keys
         [(''GOBLIN_RUN_EVENT_STREAM'', stream, run_event_stream_key run_id),
          (''GOBLIN_RUN_EVENT_SEQUENCE_KEY'', sequence_key, run_event_sequence_key run_id),
          (''GOBLIN_RUN_EVENT_RATE_KEY'', rate_key, run_event_rate_key run_id)]) (\<lambda>_.
     bind_result (factory url) (\<lambda>redis.
     bind_result (bind_result (lookup_env values ''GOBLIN_RUN_EVENT_MAX_EVENTS'') py_int) (\<lambda>max_events.
     bind_result (bind_result (lookup_env values ''GOBLIN_RUN_EVENT_MAX_PAYLOAD_BYTES'') py_int) (\<lambda>max_bytes.
     bind_result (bind_result (lookup_env values ''GOBLIN_RUN_EVENT_MIN_INTERVAL_MS'') py_int) (\<lambda>interval.
     bind_result (bind_result (lookup_env values ''GOBLIN_RUN_EVENT_TTL_SECONDS'') py_int) (\<lambda>ttl.
     new_publisher redis run_id stream sequence_key rate_key max_events max_bytes interval ttl))))))))))))"

text \<open>The constraints of \<^verbatim>\<open>RunEventEnvelope\<close> on a sequence and a run id.\<close>

definition new_run_event :: "int \<Rightarrow> datetime \<Rightarrow> string \<Rightarrow> string \<Rightarrow> json \<Rightarrow> run_event result" where
  "new_run_event sequence created_at event_type run_id payload =
     (if sequence < 1 then Inl (Raise ValidationError ''sequence'')
      else if run_id = '''' then Inl (Raise ValidationError ''run_id'')
      else Inr \<lparr>re_sequence = sequence, re_created_at = created_at, re_event_type = event_type,
                re_run_id = run_id, re_payload = payload\<rparr>)"

definition transport_error :: error where
  "transport_error = Raise RunEventTransportError ''run event transport is unavailable''"

definition publish_bounded ::
  "event_codec \<Rightarrow> 'r publisher \<Rightarrow> string \<Rightarrow> json \<Rightarrow> datetime option \<Rightarrow> ('r world, run_event) op" where
  "publish_bounded codec pb event_type payload created_at =
     bind (on_client (rr_set_nx (pb_redis pb) (pb_rate_key pb) (pb_min_interval_ms pb))) (\<lambda>accepted.
     if \<not> accepted
     then throw (Raise RunEventError (''run events are limited to one every '' @ str_int (pb_min_interval_ms pb) @ ''ms''))
     else
     bind (on_client (rr_incr (pb_redis pb) (pb_sequence_key pb))) (\<lambda>sequence.
     bind (case created_at of Some t \<Rightarrow> return t | None \<Rightarrow> utc_now) (\<lambda>at.
     bind (lift_result (new_run_event sequence at event_type (pb_run_id pb) payload)) (\<lambda>event.
     bind (on_client (rr_append (pb_redis pb) (pb_stream pb) (ec_dump codec event) (pb_max_events pb)
             (pb_sequence_key pb) (pb_ttl_seconds pb))) (\<lambda>_.
     return event)))))"

definition emit_run_event ::
  "event_codec \<Rightarrow> 'r publisher \<Rightarrow> string \<Rightarrow> json option \<Rightarrow> datetime option \<Rightarrow> ('r world, run_event) op" where
  "emit_run_event codec pb event_type payload0 created_at =
     (let payload = or_empty payload0 in
      if event_type \<notin> set RUN_EVENT_TYPES
      then throw (Raise RunEventError (''unsupported run event type: '' @ event_type))
      else if pb_max_payload_bytes pb < payload_size codec payload
      then throw (Raise RunEventError (''run event payload exceeds '' @ str_int (pb_max_payload_bytes pb) @ '' bytes: '' @
             str_int (payload_size codec payload)))
      else handle (publish_bounded codec pb event_type payload created_at) (\<lambda>e.
        if error_class e = RunEventError then throw e
        else if is_redis_error e \<or> error_class e = TypeError \<or> is_value_error e then throw transport_error
        else throw e))"

definition try_emit ::
  "event_codec \<Rightarrow> 'r publisher \<Rightarrow> string \<Rightarrow> json option \<Rightarrow> ('r world, run_event option) op" where
  "try_emit codec pb event_type payload =
     handle (bind (emit_run_event codec pb event_type payload None) (\<lambda>event. return (Some event)))
       (\<lambda>e. if error_class e = RunEventError \<or> error_class e = RunEventTransportError then return None else throw e)"

text \<open>\<^verbatim>\<open>progress\<close> with a whole percentage, \<^verbatim>\<open>stdout\<close> and \<^verbatim>\<open>stderr\<close>\<close>

definition progress :: "event_codec \<Rightarrow> 'r publisher \<Rightarrow> int \<Rightarrow> string option \<Rightarrow> ('r world, run_event) op" where
  "progress codec pb percent message =
     (if \<not> (0 \<le> percent \<and> percent \<le> 100)
      then throw (Raise RunEventError ''progress percent must be between 0 and 100'')
      else emit_run_event codec pb ''progress'' (Some (JObj ((''percent'', JInt percent) #
             (case message of None \<Rightarrow> [] | Some m \<Rightarrow> [(''message'', JStr m)])))) None)"

definition stdout_event :: "event_codec \<Rightarrow> 'r publisher \<Rightarrow> string \<Rightarrow> ('r world, run_event) op" where
  "stdout_event codec pb text = emit_run_event codec pb ''stdout'' (Some (JObj [(''text'', JStr text)])) None"

definition stderr_event :: "event_codec \<Rightarrow> 'r publisher \<Rightarrow> string \<Rightarrow> ('r world, run_event) op" where
  "stderr_event codec pb text = emit_run_event codec pb ''stderr'' (Some (JObj [(''text'', JStr text)])) None"

section \<open>The reader\<close>

text \<open>
  Strict decoding: the bytes are well-formed exactly when decoding with replacement leaves them
  as they are.
\<close>

definition decode_raw :: "raw_text \<Rightarrow> string result" where
  "decode_raw raw = (case raw of
       RawText s \<Rightarrow> Inr s
     | RawBytes b \<Rightarrow> if utf8_replace b = b then Inr b else Inl (Raise ValueError ''invalid utf-8''))"

definition raw_is_empty :: "raw_text \<Rightarrow> bool" where
  "raw_is_empty raw = (case raw of RawText s \<Rightarrow> s = '''' | RawBytes b \<Rightarrow> b = '''')"

definition event_field :: "(raw_text \<times> raw_text) list \<Rightarrow> raw_text option" where
  "event_field members = (case map_of members (RawBytes ''event'') of
       Some raw \<Rightarrow> if raw_is_empty raw then map_of members (RawText ''event'') else Some raw
     | None \<Rightarrow> map_of members (RawText ''event''))"

text \<open>The body of the loop over the entries: \<^verbatim>\<open>None\<close> where the code continues.\<close>

definition decode_entry :: "event_codec \<Rightarrow> string \<Rightarrow> int \<Rightarrow> raw_entry \<Rightarrow> (string \<times> run_event) option result" where
  "decode_entry codec run_id after_sequence entry =
     (case event_field (snd entry) of
        None \<Rightarrow> Inr None
      | Some raw \<Rightarrow>
          bind_result (decode_raw raw) (\<lambda>text.
          if DEFAULT_RUN_EVENT_MAX_PAYLOAD_BYTES + 1024 < int (length text) then Inr None
          else case ec_parse codec text of
            None \<Rightarrow> Inr None
          | Some event \<Rightarrow>
              if DEFAULT_RUN_EVENT_MAX_PAYLOAD_BYTES < payload_size codec (re_payload event) then Inr None
              else if re_run_id event \<noteq> run_id \<or> re_sequence event \<le> after_sequence then Inr None
              else bind_result (decode_raw (fst entry)) (\<lambda>decoded_id. Inr (Some (decoded_id, event)))))"

fun decode_entries :: "event_codec \<Rightarrow> string \<Rightarrow> int \<Rightarrow> raw_entry list \<Rightarrow> (string \<times> run_event) list result" where
  "decode_entries codec run_id after_sequence [] = Inr []"
| "decode_entries codec run_id after_sequence (entry # entries) =
     bind_result (decode_entry codec run_id after_sequence entry) (\<lambda>item.
     bind_result (decode_entries codec run_id after_sequence entries) (\<lambda>items.
     Inr (case item of None \<Rightarrow> items | Some x \<Rightarrow> x # items)))"

fun monotonic_items :: "int \<Rightarrow> (string \<times> run_event) list \<Rightarrow> (string \<times> run_event) list" where
  "monotonic_items last_sequence [] = []"
| "monotonic_items last_sequence (item # items) =
     (if re_sequence (snd item) \<le> last_sequence then monotonic_items last_sequence items
      else item # monotonic_items (re_sequence (snd item)) items)"

definition ordered_events :: "int \<Rightarrow> (string \<times> run_event) list \<Rightarrow> (string \<times> run_event) list" where
  "ordered_events after_sequence decoded =
     monotonic_items after_sequence (sort_key (\<lambda>item. re_sequence (snd item)) decoded)"

definition read_run_event_entries ::
  "event_codec \<Rightarrow> (string \<Rightarrow> 'r run_event_redis result) \<Rightarrow> string \<Rightarrow> string \<Rightarrow> int \<Rightarrow> int \<Rightarrow>
   ('r, (string \<times> run_event) list) op" where
  "read_run_event_entries codec factory redis_url run_id after_sequence limit =
     (if after_sequence < 0 then throw (Raise RunEventError ''after_sequence must be non-negative'')
      else if \<not> (1 \<le> limit \<and> limit \<le> MAX_RUN_EVENT_READ_LIMIT)
      then throw (Raise RunEventError (''limit must be between 1 and '' @ str_int MAX_RUN_EVENT_READ_LIMIT))
      else
      bind (handle (bind (lift_result (factory redis_url)) (\<lambda>redis.
              rr_xrange redis (run_event_stream_key run_id) DEFAULT_RUN_EVENT_MAX_EVENTS))
            (\<lambda>e. if is_redis_error e then throw transport_error else throw e)) (\<lambda>entries.
      bind (lift_result (decode_entries codec run_id after_sequence entries)) (\<lambda>decoded.
      return (take (nat limit) (ordered_events after_sequence decoded)))))"

section \<open>A page of events\<close>

abbreviation item_sequence :: "string \<times> run_event \<Rightarrow> int" where
  "item_sequence item \<equiv> re_sequence (snd item)"

lemma monotonic_items_bounds:
  "sorted_wrt (<) (map item_sequence (monotonic_items l items)) \<and>
   (\<forall>item \<in> set (monotonic_items l items). item \<in> set items \<and> l < item_sequence item)"
proof (induction l items rule: monotonic_items.induct)
  case (2 l item items)
  then show ?case by (cases "item_sequence item \<le> l") auto
qed simp

lemma monotonic_items_sequences:
  "sorted (map item_sequence items) \<Longrightarrow>
   item_sequence ` set (monotonic_items l items) = {n \<in> item_sequence ` set items. l < n}"
proof (induction l items rule: monotonic_items.induct)
  case (2 l item items)
  then show ?case by (cases "item_sequence item \<le> l") force+
qed simp

text \<open>Reading on after the last event of a page continues where the page ended.\<close>

lemma monotonic_items_resume:
  "n < length (monotonic_items l items) \<Longrightarrow> sorted (map item_sequence items) \<Longrightarrow>
   monotonic_items (item_sequence (monotonic_items l items ! n)) items = drop (Suc n) (monotonic_items l items)"
proof (induction l items arbitrary: n rule: monotonic_items.induct)
  case (2 l item items)
  let ?s = "item_sequence item"
  show ?case
  proof (cases "?s \<le> l")
    case True
    have "l < item_sequence (monotonic_items l items ! n)"
      using 2 (3) True monotonic_items_bounds [of l items] by (simp add: nth_mem)
    then show ?thesis using 2 True by simp
  next
    case False
    show ?thesis
    proof (cases n)
      case 0
      then show ?thesis using False by simp
    next
      case (Suc k)
      have k: "k < length (monotonic_items ?s items)" using 2 (3) False Suc by simp
      then have "?s < item_sequence (monotonic_items ?s items ! k)"
        using monotonic_items_bounds [of ?s items] by (simp add: nth_mem)
      then show ?thesis using 2 (2) [OF False k] 2 (4) False Suc by simp
    qed
  qed
qed simp

lemma decode_entry_sound:
  "decode_entry codec run_id after entry = Inr (Some item) \<Longrightarrow>
   after < item_sequence item \<and> re_run_id (snd item) = run_id \<and>
   payload_size codec (re_payload (snd item)) \<le> DEFAULT_RUN_EVENT_MAX_PAYLOAD_BYTES"
proof (cases "event_field (snd entry)")
  case (Some raw)
  assume item: "decode_entry codec run_id after entry = Inr (Some item)"
  then obtain body where body: "decode_raw raw = Inr body" using Some by (auto simp: decode_entry_def bind_result_Inr_iff)
  show ?thesis
    using item Some body
    by (cases "ec_parse codec body") (auto simp: decode_entry_def bind_result_Inr_iff split: if_splits)
qed (simp add: decode_entry_def)

lemma decode_entries_items:
  "decode_entries codec run_id after entries = Inr items \<Longrightarrow> item \<in> set items \<Longrightarrow>
   \<exists>entry \<in> set entries. decode_entry codec run_id after entry = Inr (Some item)"
proof (induction entries arbitrary: items)
  case (Cons entry entries)
  obtain x xs where x: "decode_entry codec run_id after entry = Inr x" and xs: "decode_entries codec run_id after entries = Inr xs"
    and items: "items = (case x of None \<Rightarrow> xs | Some y \<Rightarrow> y # xs)"
    using Cons.prems(1) by (auto simp: bind_result_Inr_iff)
  show ?case using Cons.IH [OF xs] x items Cons.prems(2) by (cases x) auto
qed simp

lemma read_entries_Inr_iff:
  "handle (bind (lift_result (factory redis_url)) (\<lambda>redis. rr_xrange redis key maxcount))
     (\<lambda>e. if P e then throw transport_error else throw e) r = (Inr entries, r') \<longleftrightarrow>
   (\<exists>redis. factory redis_url = Inr redis \<and> rr_xrange redis key maxcount r = (Inr entries, r'))"
proof (cases "factory redis_url")
  case (Inr redis)
  then show ?thesis by (cases "rr_xrange redis key maxcount r") (auto simp: handle_def throw_eq split: sum.split)
qed (simp add: handle_def throw_eq)

lemma lift_result_Inr_iff: "lift_result x s = (Inr a, s') \<longleftrightarrow> x = Inr a \<and> s' = s"
  by (auto simp: lift_result_def)

lemma read_run_events_Inr_iff:
  "read_run_event_entries codec factory redis_url run_id after limit r = (Inr items, r') \<longleftrightarrow>
   0 \<le> after \<and> 1 \<le> limit \<and> limit \<le> MAX_RUN_EVENT_READ_LIMIT \<and>
   (\<exists>redis entries decoded. factory redis_url = Inr redis \<and>
      rr_xrange redis (run_event_stream_key run_id) DEFAULT_RUN_EVENT_MAX_EVENTS r = (Inr entries, r') \<and>
      decode_entries codec run_id after entries = Inr decoded \<and> items = take (nat limit) (ordered_events after decoded))"
  unfolding read_run_event_entries_def
  by (cases "after < 0"; cases "1 \<le> limit \<and> limit \<le> MAX_RUN_EVENT_READ_LIMIT")
    (auto simp: throw_eq bind_Inr_iff read_entries_Inr_iff return_eq lift_result_Inr_iff)

lemma read_run_events_page:
  assumes "read_run_event_entries codec factory redis_url run_id after limit r = (Inr items, r')"
  shows "sorted_wrt (<) (map item_sequence items)" and "int (length items) \<le> limit"
    and "\<forall>item \<in> set items. after < item_sequence item \<and> re_run_id (snd item) = run_id \<and>
       payload_size codec (re_payload (snd item)) \<le> DEFAULT_RUN_EVENT_MAX_PAYLOAD_BYTES"
    and "\<exists>redis entries. factory redis_url = Inr redis \<and>
       rr_xrange redis (run_event_stream_key run_id) DEFAULT_RUN_EVENT_MAX_EVENTS r = (Inr entries, r') \<and>
       (\<forall>item \<in> set items. \<exists>entry \<in> set entries. decode_entry codec run_id after entry = Inr (Some item))"
proof -
  obtain redis entries decoded where limit: "1 \<le> limit" and redis: "factory redis_url = Inr redis"
    and entries: "rr_xrange redis (run_event_stream_key run_id) DEFAULT_RUN_EVENT_MAX_EVENTS r = (Inr entries, r')"
    and decoded: "decode_entries codec run_id after entries = Inr decoded"
    and items: "items = take (nat limit) (ordered_events after decoded)"
    using assms unfolding read_run_events_Inr_iff by blast
  note bounds = monotonic_items_bounds [of after "sort_key item_sequence decoded"]
  have mem: "item \<in> set decoded" if "item \<in> set items" for item
    using that bounds unfolding items ordered_events_def by (auto dest: in_set_takeD)
  have from_entry: "\<exists>entry \<in> set entries. decode_entry codec run_id after entry = Inr (Some item)" if "item \<in> set items" for item
    using decode_entries_items [OF decoded mem [OF that]] .
  show "sorted_wrt (<) (map item_sequence items)"
    using bounds unfolding items ordered_events_def take_map [symmetric] by (simp add: sorted_wrt_take)
  show "int (length items) \<le> limit" using limit items by simp
  show "\<forall>item \<in> set items. after < item_sequence item \<and> re_run_id (snd item) = run_id \<and>
       payload_size codec (re_payload (snd item)) \<le> DEFAULT_RUN_EVENT_MAX_PAYLOAD_BYTES"
    using from_entry decode_entry_sound by blast
  show "\<exists>redis entries. factory redis_url = Inr redis \<and>
       rr_xrange redis (run_event_stream_key run_id) DEFAULT_RUN_EVENT_MAX_EVENTS r = (Inr entries, r') \<and>
       (\<forall>item \<in> set items. \<exists>entry \<in> set entries. decode_entry codec run_id after entry = Inr (Some item))"
    using redis entries from_entry by blast
qed

text \<open>
  Reading a run's events returns retained entries of that run only, each with a sequence after
  the cursor and a payload within the bound, in strictly increasing sequence, and at most
  \<^verbatim>\<open>limit\<close> of them.
\<close>

theorem read_run_events_sound:
  assumes "read_run_event_entries codec factory redis_url run_id after limit r = (Inr items, r')"
  shows "sorted_wrt (<) (map item_sequence items) \<and> int (length items) \<le> limit \<and> limit \<le> MAX_RUN_EVENT_READ_LIMIT \<and>
    (\<forall>item \<in> set items. after < item_sequence item \<and> re_run_id (snd item) = run_id \<and>
       payload_size codec (re_payload (snd item)) \<le> DEFAULT_RUN_EVENT_MAX_PAYLOAD_BYTES) \<and>
    (\<exists>redis entries. factory redis_url = Inr redis \<and>
       rr_xrange redis (run_event_stream_key run_id) DEFAULT_RUN_EVENT_MAX_EVENTS r = (Inr entries, r') \<and>
       (\<forall>item \<in> set items. \<exists>entry \<in> set entries. decode_entry codec run_id after entry = Inr (Some item)))"
proof -
  have "limit \<le> MAX_RUN_EVENT_READ_LIMIT" using assms unfolding read_run_events_Inr_iff by blast
  then show ?thesis using read_run_events_page [OF assms] by blast
qed

text \<open>A later cursor reads the same entries without the earlier ones.\<close>

lemma decode_entry_later:
  assumes "decode_entry codec run_id after entry = Inr item" and "after \<le> cursor"
  shows "decode_entry codec run_id cursor entry =
    Inr (case item of None \<Rightarrow> None | Some x \<Rightarrow> if cursor < item_sequence x then Some x else None)"
proof (cases "event_field (snd entry)")
  case None
  then show ?thesis using assms by (auto simp: decode_entry_def)
next
  case (Some raw)
  obtain body where body: "decode_raw raw = Inr body" using assms(1) Some by (auto simp: decode_entry_def bind_result_Inr_iff)
  show ?thesis
    using assms Some body
    by (cases "ec_parse codec body") (auto simp: decode_entry_def bind_result_Inr_iff split: if_splits)
qed

lemma decode_entries_later:
  "decode_entries codec run_id after entries = Inr decoded \<Longrightarrow> after \<le> cursor \<Longrightarrow>
   decode_entries codec run_id cursor entries = Inr (filter (\<lambda>item. cursor < item_sequence item) decoded)"
proof (induction entries arbitrary: decoded)
  case (Cons entry entries)
  obtain x xs where x: "decode_entry codec run_id after entry = Inr x" and xs: "decode_entries codec run_id after entries = Inr xs"
    and decoded: "decoded = (case x of None \<Rightarrow> xs | Some y \<Rightarrow> y # xs)"
    using Cons.prems(1) by (auto simp: bind_result_Inr_iff)
  show ?case using decode_entry_later [OF x Cons.prems(2)] Cons.IH [OF xs Cons.prems(2)] decoded by (cases x) simp_all
qed simp

lemma monotonic_items_filter: "l \<le> m \<Longrightarrow> monotonic_items m (filter (\<lambda>item. l < item_sequence item) items) = monotonic_items m items"
  by (induction m items rule: monotonic_items.induct) auto

lemma ordered_events_filter: "ordered_events l (filter (\<lambda>item. l < item_sequence item) decoded) = ordered_events l decoded"
  by (simp add: ordered_events_def filter_sort [symmetric] monotonic_items_filter)

text \<open>
  Paging loses nothing and repeats nothing: while the stream retains the same entries, there is
  one list of the run's events after the cursor, holding each of their sequences once, such that
  every page read after the sequence of one of its elements is the next piece of that list.
\<close>

theorem run_event_pages_partition:
  assumes "read_run_event_entries codec factory redis_url run_id after limit r = (Inr items, r)"
  shows "\<exists>all. items = take (nat limit) all \<and> distinct (map item_sequence all) \<and>
    (\<forall>n m. n < length all \<and> 1 \<le> m \<and> m \<le> MAX_RUN_EVENT_READ_LIMIT \<longrightarrow>
       read_run_event_entries codec factory redis_url run_id (item_sequence (all ! n)) m r = (Inr (take (nat m) (drop (Suc n) all)), r))"
proof -
  obtain redis entries decoded where after: "0 \<le> after" and redis: "factory redis_url = Inr redis"
    and entries: "rr_xrange redis (run_event_stream_key run_id) DEFAULT_RUN_EVENT_MAX_EVENTS r = (Inr entries, r)"
    and decoded: "decode_entries codec run_id after entries = Inr decoded"
    and items: "items = take (nat limit) (ordered_events after decoded)"
    using assms unfolding read_run_events_Inr_iff by blast
  let ?all = "ordered_events after decoded"
  note bounds = monotonic_items_bounds [of after "sort_key item_sequence decoded", folded ordered_events_def]
  have "read_run_event_entries codec factory redis_url run_id (item_sequence (?all ! n)) m r = (Inr (take (nat m) (drop (Suc n) ?all)), r)"
    if n: "n < length ?all" and m: "1 \<le> m \<and> m \<le> MAX_RUN_EVENT_READ_LIMIT" for n m
  proof -
    let ?s = "item_sequence (?all ! n)"
    have s: "after < ?s" using bounds n nth_mem by blast
    have "ordered_events ?s (filter (\<lambda>item. ?s < item_sequence item) decoded) = drop (Suc n) ?all"
      unfolding ordered_events_filter unfolding ordered_events_def
      by (rule monotonic_items_resume) (use n in \<open>simp_all add: ordered_events_def\<close>)
    then show ?thesis
      unfolding read_run_events_Inr_iff using after s m redis entries decode_entries_later [OF decoded, of ?s] by auto
  qed
  moreover have "distinct (map item_sequence ?all)" using bounds strict_sorted_iff by blast
  ultimately show ?thesis using items by blast
qed

section \<open>A worker and its events\<close>

lemma nat_digits_digits: "\<forall>c \<in> set (nat_digits n). is_digit c"
  and nat_digits_value: "digits_value (nat_digits n) = int n"
  and nat_digits_nonempty: "nat_digits n \<noteq> []"
proof -
  have digit: "is_digit (char_of (48 + k)) \<and> of_char (char_of (48 + k)) = 48 + k" if "k < 10" for k :: nat
    using that by (auto simp: is_digit_def less_eq_char_def)
  have "(\<forall>c \<in> set (nat_digits n). is_digit c) \<and> digits_value (nat_digits n) = int n \<and> nat_digits n \<noteq> []"
  proof (induction n rule: nat_digits.induct)
    case (1 n)
    show ?case
    proof (cases "n < 10")
      case True
      then show ?thesis using digit [OF True] by (simp add: nat_digits.simps [of n] digits_value_def)
    next
      case False
      have "n mod 10 < 10" by simp
      then show ?thesis using False 1 digit [of "n mod 10"]
        by (subst (1 2 3) nat_digits.simps) (simp add: digits_value_def zdiv_int zmod_int)
    qed
  qed
  then show "\<forall>c \<in> set (nat_digits n). is_digit c" "digits_value (nat_digits n) = int n" "nat_digits n \<noteq> []" by simp_all
qed

lemma digits_run_digits: "\<forall>c \<in> set s. is_digit c \<Longrightarrow> digits_run s = (s, [])"
proof (induction s)
  case (Cons c s)
  have "skip_underscore s = s"
    using Cons.prems by (cases s rule: skip_underscore.cases) (auto simp: is_digit_def less_eq_char_def)
  then show ?case using Cons by simp
qed simp

lemma py_strip_no_space: "\<forall>c \<in> set s. \<not> py_space c \<Longrightarrow> py_strip s = s"
proof -
  assume s: "\<forall>c \<in> set s. \<not> py_space c"
  then have "dropWhile py_space s = s" "dropWhile py_space (rev s) = rev s"
    by (auto simp: dropWhile_eq_self_iff hd_rev)
  then show ?thesis by (simp add: py_strip_def)
qed

lemma digit_facts: "is_digit c \<Longrightarrow> \<not> py_space c \<and> c \<noteq> CHR ''-'' \<and> c \<noteq> CHR ''+''"
  by (auto simp: is_digit_def less_eq_char_def py_space_def)

text \<open>\<^verbatim>\<open>int(str(i))\<close> is \<open>i\<close>.\<close>

lemma py_int_str_int [simp]: "py_int (str_int i) = Inr i"
proof -
  have sign: "take_sign s = (False, s)" if "\<forall>c \<in> set s. is_digit c" "s \<noteq> []" for s
    using that digit_facts [of "hd s"] by (cases s) simp_all
  have strip: "py_strip s = s" if "\<forall>c \<in> set s. is_digit c \<or> c = CHR ''-''" for s
  proof (rule py_strip_no_space, rule ballI)
    fix c assume "c \<in> set s"
    then have "is_digit c \<or> c = CHR ''-''" using that by blast
    then show "\<not> py_space c" using digit_facts [of c] by (auto simp: py_space_def)
  qed
  let ?n = "nat_digits (nat (- i))"
  show ?thesis
  proof (cases "i < 0")
    case True
    have "py_strip (CHR ''-'' # ?n) = CHR ''-'' # ?n" using nat_digits_digits by (intro strip) auto
    then show ?thesis
      using True digits_run_digits [OF nat_digits_digits [of "nat (- i)"]]
      by (simp add: py_int_def str_int_def nat_digits_nonempty nat_digits_value)
  next
    case False
    have "py_strip (nat_digits (nat i)) = nat_digits (nat i)" using nat_digits_digits by (intro strip) auto
    then show ?thesis
      using False digits_run_digits [OF nat_digits_digits [of "nat i"]] sign [OF nat_digits_digits nat_digits_nonempty]
      by (simp add: py_int_def str_int_def nat_digits_nonempty nat_digits_value)
  qed
qed

text \<open>
  The environment that both runtimes give a worker is the one its publisher expects: with the
  run id beside it, \<^verbatim>\<open>from_environment\<close> connects to the given Redis and yields a publisher with the
  run's own keys and the default bounds.
\<close>

theorem worker_environment_roundtrip:
  "publisher_from_environment factory ((''GOBLIN_RUN_ID'', run_id) # worker_run_event_environment run_id redis_url) =
   bind_result (factory redis_url) (\<lambda>redis. Inr \<lparr>pb_redis = redis, pb_run_id = run_id,
     pb_stream = run_event_stream_key run_id, pb_sequence_key = run_event_sequence_key run_id,
     pb_rate_key = run_event_rate_key run_id, pb_max_events = 256, pb_max_payload_bytes = 4096,
     pb_min_interval_ms = 50, pb_ttl_seconds = 3600\<rparr>)"
proof -
  let ?env = "(''GOBLIN_RUN_ID'', run_id) # worker_run_event_environment run_id redis_url"
  have env: "lookup_env ?env ''GOBLIN_RUN_EVENT_CONTRACT_VERSION'' = Inr WORKER_RUN_EVENT_CONTRACT_VERSION"
    "lookup_env ?env ''GOBLIN_RUN_ID'' = Inr run_id"
    "lookup_env ?env ''GOBLIN_RUN_EVENT_STREAM'' = Inr (run_event_stream_key run_id)"
    "lookup_env ?env ''GOBLIN_RUN_EVENT_SEQUENCE_KEY'' = Inr (run_event_sequence_key run_id)"
    "lookup_env ?env ''GOBLIN_RUN_EVENT_RATE_KEY'' = Inr (run_event_rate_key run_id)"
    "lookup_env ?env ''GOBLIN_RUN_EVENT_REDIS_URL'' = Inr redis_url"
    "lookup_env ?env ''GOBLIN_RUN_EVENT_MAX_EVENTS'' = Inr (str_int DEFAULT_RUN_EVENT_MAX_EVENTS)"
    "lookup_env ?env ''GOBLIN_RUN_EVENT_MAX_PAYLOAD_BYTES'' = Inr (str_int DEFAULT_RUN_EVENT_MAX_PAYLOAD_BYTES)"
    "lookup_env ?env ''GOBLIN_RUN_EVENT_MIN_INTERVAL_MS'' = Inr (str_int DEFAULT_RUN_EVENT_MIN_INTERVAL_MS)"
    "lookup_env ?env ''GOBLIN_RUN_EVENT_TTL_SECONDS'' = Inr (str_int DEFAULT_RUN_EVENT_TTL_SECONDS)"
    by (simp_all add: lookup_env_def worker_run_event_environment_def)
  have bounds: "new_publisher redis run_id stream seq rate DEFAULT_RUN_EVENT_MAX_EVENTS DEFAULT_RUN_EVENT_MAX_PAYLOAD_BYTES
      DEFAULT_RUN_EVENT_MIN_INTERVAL_MS DEFAULT_RUN_EVENT_TTL_SECONDS =
    Inr \<lparr>pb_redis = redis, pb_run_id = run_id, pb_stream = stream, pb_sequence_key = seq, pb_rate_key = rate,
      pb_max_events = 256, pb_max_payload_bytes = 4096, pb_min_interval_ms = 50, pb_ttl_seconds = 3600\<rparr>" for redis stream seq rate
    by (simp add: new_publisher_def DEFAULT_RUN_EVENT_MAX_EVENTS_def DEFAULT_RUN_EVENT_MAX_PAYLOAD_BYTES_def
        DEFAULT_RUN_EVENT_MIN_INTERVAL_MS_def DEFAULT_RUN_EVENT_TTL_SECONDS_def)
  show ?thesis unfolding publisher_from_environment_def env by (simp add: bounds)
qed

text \<open>Any publisher keeps within the bounds of the contract and to the keys of its run.\<close>

definition publisher_ok :: "'r publisher \<Rightarrow> bool" where
  "publisher_ok pb \<longleftrightarrow> pb_stream pb = run_event_stream_key (pb_run_id pb) \<and>
     pb_sequence_key pb = run_event_sequence_key (pb_run_id pb) \<and> pb_rate_key pb = run_event_rate_key (pb_run_id pb) \<and>
     1 \<le> pb_max_events pb \<and> pb_max_events pb \<le> 256 \<and> 1 \<le> pb_max_payload_bytes pb \<and> pb_max_payload_bytes pb \<le> 4096 \<and>
     50 \<le> pb_min_interval_ms pb \<and> pb_min_interval_ms pb \<le> 60000 \<and> 1 \<le> pb_ttl_seconds pb \<and> pb_ttl_seconds pb \<le> 3600"

lemma publisher_from_environment_ok:
  "publisher_from_environment factory values = Inr pb \<Longrightarrow> publisher_ok pb"
  by (auto simp: publisher_from_environment_def bind_result_Inr_iff new_publisher_def publisher_ok_def
      DEFAULT_RUN_EVENT_MAX_EVENTS_def DEFAULT_RUN_EVENT_MAX_PAYLOAD_BYTES_def
      DEFAULT_RUN_EVENT_MIN_INTERVAL_MS_def DEFAULT_RUN_EVENT_TTL_SECONDS_def split: if_splits)

lemma emit_run_event_bounded:
  assumes "emit_run_event codec pb event_type payload created_at w = (Inr event, w')"
  shows "re_run_id event = pb_run_id pb \<and> 1 \<le> re_sequence event \<and> re_event_type event \<in> set RUN_EVENT_TYPES \<and>
    payload_size codec (re_payload event) \<le> pb_max_payload_bytes pb"
  using assms
  by (auto simp: emit_run_event_def Let_def handle_def publish_bounded_def bind_Inr_iff throw_eq return_eq lift_result_Inr_iff
      new_run_event_def split: if_splits prod.splits sum.splits)

text \<open>Every command of the client raises exceptions of \<^verbatim>\<open>redis.exceptions\<close> only.\<close>

definition run_event_redis_errors :: "'r run_event_redis \<Rightarrow> bool" where
  "run_event_redis_errors redis \<longleftrightarrow>
     (\<forall>k n. raises_only is_redis_error (rr_set_nx redis k n)) \<and> (\<forall>k. raises_only is_redis_error (rr_incr redis k)) \<and>
     (\<forall>s t m k n. raises_only is_redis_error (rr_append redis s t m k n))"

lemma raises_client_publish:
  assumes "raises_only is_redis_error m"
  shows "raises_only (\<lambda>e. is_redis_error e \<or> is_value_error e) (on_client m)"
  using raises_on_client [OF assms] by (rule raises_only_mono) simp

lemma raises_utc_now [simp]: "raises_only P utc_now"
  by (simp add: raises_only_def utc_now_def split: prod.split)

definition publish_error :: "error \<Rightarrow> bool" where
  "publish_error e \<longleftrightarrow> is_redis_error e \<or> is_value_error e"

lemma raises_publish_bounded:
  assumes "run_event_redis_errors (pb_redis pb)"
  shows "raises_only publish_error (publish_bounded codec pb event_type payload created_at)"
proof -
  have client: "raises_only publish_error (on_client (rr_set_nx (pb_redis pb) k n))"
    "raises_only publish_error (on_client (rr_incr (pb_redis pb) k))"
    "raises_only publish_error (on_client (rr_append (pb_redis pb) k t m k' n))" for k t m k' n
    using assms by (simp_all add: run_event_redis_errors_def raises_client_publish publish_error_def [abs_def])
  have lifted: "raises_only publish_error (lift_result (new_run_event s t ty i p))" for s t ty i p
    by (auto simp: raises_only_def lift_result_def new_run_event_def publish_error_def is_value_error_def)
  have rate: "publish_error (Raise RunEventError m)" for m by (simp add: publish_error_def is_value_error_def)
  show ?thesis
    unfolding publish_bounded_def using client lifted rate by (auto intro!: raises_only_bind split: option.split)
qed

text \<open>
  Publishing progress never changes a worker's outcome: when Redis raises nothing but its own
  errors, \<^verbatim>\<open>try_emit\<close> returns, with the event or without one, whatever the payload, the limits or
  the state of Redis.
\<close>

theorem try_emit_never_raises:
  assumes "run_event_redis_errors (pb_redis pb)"
  shows "\<exists>event w'. try_emit codec pb event_type payload w = (Inr event, w')"
proof -
  have "raises_only (\<lambda>e. error_class e = RunEventError \<or> error_class e = RunEventTransportError)
      (emit_run_event codec pb event_type payload None)"
    unfolding emit_run_event_def Let_def
    using raises_publish_bounded [OF assms]
    by (auto intro!: raises_only_handle [where Q = publish_error] simp: publish_error_def transport_error_def)
  then show ?thesis
    by (cases "emit_run_event codec pb event_type payload None w")
      (auto simp: try_emit_def handle_def bind_def return_eq dest: raises_onlyD split: sum.split)
qed

section \<open>Concrete runs\<close>

definition demo_event :: "int \<Rightarrow> run_event" where
  "demo_event n = \<lparr>re_sequence = n, re_created_at = utc 0, re_event_type = ''stdout'', re_run_id = ''r'',
     re_payload = JObj [(''text'', JStr ''hi'')]\<rparr>"

text \<open>A codec that knows the events of the demonstration, and a stream that holds the second one twice, out of order.\<close>

definition demo_codec :: event_codec where
  "demo_codec = \<lparr>ec_dump = (\<lambda>e. str_int (re_sequence e)),
     ec_parse = (\<lambda>s. map_of [(''1'', demo_event 1), (''2'', demo_event 2), (''3'', demo_event 3)] s), ec_fraction = (\<lambda>_ _. ''0.5'')\<rparr>"

definition demo_entry :: "string \<Rightarrow> string \<Rightarrow> raw_entry" where
  "demo_entry i s = (RawBytes i, [(RawBytes ''event'', RawBytes s)])"

definition demo_events :: "unit run_event_redis" where
  "demo_events = \<lparr>rr_set_nx = (\<lambda>_ _. return True), rr_incr = (\<lambda>_. throw (Raise RedisError ''down'')),
     rr_append = (\<lambda>_ _ _ _ _. return ()),
     rr_xrange = (\<lambda>_ _. return [demo_entry ''1-0'' ''2'', demo_entry ''2-0'' ''x'', demo_entry ''3-0'' ''1'',
       demo_entry ''4-0'' ''2'', demo_entry ''5-0'' ''3''])\<rparr>"

lemma demo_page:
  "read_run_event_entries demo_codec (\<lambda>_. Inr demo_events) ''redis'' ''r'' 0 2 () =
   (Inr [(''3-0'', demo_event 1), (''1-0'', demo_event 2)], ())"
  by code_simp

lemma read_run_events_sound_witness:
  "sorted_wrt (<) (map item_sequence [(''3-0'', demo_event 1), (''1-0'', demo_event 2)])"
  using read_run_events_sound [OF demo_page] by (rule conjunct1)

lemma run_event_pages_partition_witness:
  "\<exists>all. take 2 all = [(''3-0'', demo_event 1), (''1-0'', demo_event 2)] \<and> distinct (map item_sequence all) \<and>
     (\<forall>n < length all. fst (read_run_event_entries demo_codec (\<lambda>_. Inr demo_events) ''redis'' ''r'' (item_sequence (all ! n)) 5 ()) =
        Inr (take 5 (drop (Suc n) all)))"
  using run_event_pages_partition [OF demo_page] by (fastforce simp: MAX_RUN_EVENT_READ_LIMIT_def)

definition demo_publisher :: "unit publisher" where
  "demo_publisher = \<lparr>pb_redis = demo_events, pb_run_id = ''r'', pb_stream = run_event_stream_key ''r'',
     pb_sequence_key = run_event_sequence_key ''r'', pb_rate_key = run_event_rate_key ''r'', pb_max_events = 256,
     pb_max_payload_bytes = 4096, pb_min_interval_ms = 50, pb_ttl_seconds = 3600\<rparr>"

lemma try_emit_never_raises_witness:
  "\<exists>event w'. try_emit demo_codec demo_publisher ''stdout'' None (fresh_world empty_db) = (Inr event, w')"
proof -
  have "run_event_redis_errors (pb_redis demo_publisher)"
    by (simp add: run_event_redis_errors_def demo_publisher_def demo_events_def is_redis_error_def)
  then show ?thesis by (rule try_emit_never_raises)
qed

end
