(* ===== verification/Docker_Runtime.thy ===== *)
theory Docker_Runtime
  imports Registry Run_Events
begin

text \<open>
  Running one attempt: \<^verbatim>\<open>src/src/goblin_king/runtime.py\<close> (the in-process and the Docker runtime), with
  \<^verbatim>\<open>runtime_helpers.py\<close>, \<^verbatim>\<open>docker_runtime_paths.py\<close> and \<^verbatim>\<open>worker_environment.py\<close>. A path is
  whether it is absolute and its components. What the code asks of the machine (the environment, the file system, the \<^verbatim>\<open>docker\<close> process, the Redis keys a worker leaves)
  is the parameter \<open>docker_host\<close>. The theorems: a run always ends in a result envelope, whatever the
  container does; the command line never carries the value of a secret.
\<close>

section \<open>Contexts\<close>

record goblin_context =
  ctx_run_id :: string
  ctx_artifact_root :: string
  ctx_metadata :: json

text \<open>\<open>iso_now\<close> is \<^verbatim>\<open>datetime.now(UTC).isoformat()\<close>.\<close>

definition new_run_context :: "string \<Rightarrow> string \<Rightarrow> string \<Rightarrow> int \<Rightarrow> ('r world, goblin_context) op" where
  "new_run_context iso_now job_id kind attempt = bind uuid4 (\<lambda>run_id.
     return \<lparr>ctx_run_id = run_id, ctx_artifact_root = ''.goblin-king/artifacts/'' @ job_id,
       ctx_metadata = JObj [(''job_id'', JStr job_id), (''kind'', JStr kind), (''attempt'', JInt attempt),
                            (''started_at'', JStr iso_now)]\<rparr>)"

definition ctx_text :: "goblin_context \<Rightarrow> string \<Rightarrow> string option" where
  "ctx_text context key =
     (case obj_get (ctx_metadata context) key of Some (JStr s) \<Rightarrow> Some s | _ \<Rightarrow> None)"

section \<open>The in-process runtime\<close>

text \<open>What a trusted entrypoint does when it is called.\<close>

datatype entrypoint_outcome = ReturnedResult goblin_result | ReturnedDict json | ReturnedOther string
  | EntrypointRaised string

fun in_process_run :: "goblin_definition \<Rightarrow> entrypoint_outcome \<Rightarrow> goblin_result" where
  "in_process_run definition (EntrypointRaised m) =
     goblin_result_failed (gd_kind definition @ '' failed: '' @ m) None [] None []"
| "in_process_run definition (ReturnedResult r) = r"
| "in_process_run definition (ReturnedDict d) = goblin_result_ok (Some d) [] None []"
| "in_process_run definition (ReturnedOther type_name) =
     goblin_result_failed (gd_kind definition @ '' returned unsupported result type '' @ type_name) None [] None []"

section \<open>Paths\<close>

datatype path = Path bool "string list"

fun split_slash :: "string \<Rightarrow> string list" where
  "split_slash [] = [[]]"
| "split_slash (c # s) =
     (if c = CHR ''/'' then [] # split_slash s
      else (case split_slash s of [] \<Rightarrow> [[c]] | p # ps \<Rightarrow> (c # p) # ps))"

definition path_of :: "string \<Rightarrow> path" where
  "path_of s = Path (take 1 s = ''/'') (filter (\<lambda>p. p \<noteq> '''' \<and> p \<noteq> ''.'') (split_slash s))"

fun join_slash :: "string list \<Rightarrow> string" where
  "join_slash [] = ''''"
| "join_slash [p] = p"
| "join_slash (p # ps) = p @ ''/'' @ join_slash ps"

fun path_text :: "path \<Rightarrow> string" where
  "path_text (Path absolute ps) =
     (if absolute then ''/'' @ join_slash ps else if ps = [] then ''.'' else join_slash ps)"

fun path_join :: "path \<Rightarrow> path \<Rightarrow> path" where
  "path_join (Path a ps) (Path b qs) = (if b then Path b qs else Path a (ps @ qs))"

fun path_parent :: "path \<Rightarrow> path" where
  "path_parent (Path a ps) = Path a (butlast ps)"

fun is_absolute :: "path \<Rightarrow> bool" where
  "is_absolute (Path a _) = a"

fun relative_to :: "path \<Rightarrow> path \<Rightarrow> path option" where
  "relative_to (Path a ps) (Path b qs) =
     (if a = b \<and> take (length qs) ps = qs then Some (Path False (drop (length qs) ps)) else None)"

definition configured_docker_run_root :: "(string \<Rightarrow> string option) \<Rightarrow> string option \<Rightarrow> path option" where
  "configured_docker_run_root environ run_root =
     (case run_root of Some r \<Rightarrow> Some (path_of r)
      | None \<Rightarrow> if truthy_text (environ ''GOBLIN_KING_RUN_ROOT'')
               then map_option path_of (environ ''GOBLIN_KING_RUN_ROOT'') else None)"

definition resolve_docker_run_root :: "(string \<Rightarrow> string option) \<Rightarrow> string option \<Rightarrow> path result" where
  "resolve_docker_run_root environ run_root =
     (let volume = truthy_text (environ ''GOBLIN_KING_DOCKER_DATA_VOLUME'') in
      bind_result
        (case configured_docker_run_root environ run_root of
           Some p \<Rightarrow> Inr p
         | None \<Rightarrow> if volume then Inl (Raise DockerRuntimePathError (''GOBLIN_KING_RUN_ROOT is required when GOBLIN_KING_DOCKER_DATA_VOLUME is set; '' @
                         ''configure an absolute writable path inside the shared data-volume mount''))
                  else Inr (path_of ''.goblin-king/runs'')) (\<lambda>resolved.
        if volume \<and> \<not> is_absolute resolved
        then Inl (Raise DockerRuntimePathError (''GOBLIN_KING_RUN_ROOT must be absolute when GOBLIN_KING_DOCKER_DATA_VOLUME is set: '' @
               path_text resolved))
        else Inr resolved))"

definition resolve_docker_artifact_root :: "(path \<Rightarrow> path) \<Rightarrow> path \<Rightarrow> string \<Rightarrow> path" where
  "resolve_docker_artifact_root resolve run_root artifact_root =
     (let configured = path_of artifact_root in
      if is_absolute configured then resolve configured
      else let relative = (case relative_to configured (path_of ''.goblin-king'') of None \<Rightarrow> configured | Some p \<Rightarrow> p)
           in resolve (path_join (path_parent (resolve run_root)) relative))"

definition relative_to_docker_data_root :: "(path \<Rightarrow> path) \<Rightarrow> path \<Rightarrow> path \<Rightarrow> string \<Rightarrow> string result" where
  "relative_to_docker_data_root resolve p run_root label =
     (let data_root = path_parent (resolve run_root) in
      case relative_to (resolve p) data_root of
        Some r \<Rightarrow> Inr (path_text r)
      | None \<Rightarrow> Inl (Raise DockerRuntimePathError (label @ '' must be inside Docker data root '' @ path_text data_root @
                  '': '' @ path_text (resolve p))))"

section \<open>Policy arguments\<close>

definition replace_suffix :: "string \<Rightarrow> string \<Rightarrow> string \<Rightarrow> string option" where
  "replace_suffix suffix to value =
     (if length suffix \<le> length value \<and> drop (length value - length suffix) value = suffix
      then Some (take (length value - length suffix) value @ to) else None)"

definition docker_memory_quantity :: "string \<Rightarrow> string" where
  "docker_memory_quantity value =
     (case List.map_filter (\<lambda>(s, t). replace_suffix s t value)
             [(''Ki'', ''k''), (''Mi'', ''m''), (''Gi'', ''g''), (''Ti'', ''t'')] of
        [] \<Rightarrow> value | v # _ \<Rightarrow> v)"

text \<open>\<open>cores\<close> is \<^verbatim>\<open>str(float(n) / 1000)\<close>, which raises when the text is not a number.\<close>

definition docker_policy_args :: "(string \<Rightarrow> string result) \<Rightarrow> resource_policy \<Rightarrow> string list result" where
  "docker_policy_args cores policy =
     bind_result
       (if truthy_text (cpu_limit (rp_cpu policy))
        then let l = the (cpu_limit (rp_cpu policy)) in
             bind_result (if last l = CHR ''m'' then cores (butlast l) else Inr l) (\<lambda>c. Inr [''--cpus'', c])
        else Inr []) (\<lambda>cpus.
     Inr (cpus @
       (if truthy_text (mem_limit (rp_memory policy))
        then [''--memory'', docker_memory_quantity (the (mem_limit (rp_memory policy)))] else []) @
       (case pids_limit (rp_process policy) of None \<Rightarrow> [] | Some n \<Rightarrow> [''--pids-limit'', str_int n]) @
       (if truthy_text (network_mode (rp_network policy)) then [''--network'', the (network_mode (rp_network policy))] else []) @
       (if read_only_root (rp_filesystem policy) = Some True then [''--read-only''] else []) @
       concat (map (\<lambda>t. [''--tmpfs'', t]) (tmpfs (rp_filesystem policy))) @
       (case logs_max_bytes (rp_logs policy) of None \<Rightarrow> [] | Some n \<Rightarrow> [''--log-opt'', ''max-size='' @ str_int n])))"

text \<open>\<^verbatim>\<open>int(size)\<close> of a JSON number: a fraction is cut towards zero.\<close>

fun json_int :: "json \<Rightarrow> int option" where
  "json_int (JInt i) = Some i"
| "json_int (JBool b) = Some (if b then 1 else 0)"
| "json_int (JDec m e) = Some (if 0 \<le> e then m * 10 ^ nat e else sgn m * (\<bar>m\<bar> div 10 ^ nat (- e)))"
| "json_int _ = None"

text \<open>\<open>size_of\<close> gives the size of a regular file.\<close>

definition artifact_bytes ::
  "(path \<Rightarrow> path) \<Rightarrow> (path \<Rightarrow> int option) \<Rightarrow> path \<Rightarrow> goblin_result \<Rightarrow> artifact_record \<Rightarrow> int" where
  "artifact_bytes resolve size_of artifact_root r a =
     (case Option.bind (obj_get (res_metrics r) (''artifact.'' @ art_name a @ ''.bytes'')) json_int of
        Some n \<Rightarrow> n
      | None \<Rightarrow>
          let p = path_of (if take 7 (art_uri a) = ''file://'' then drop 7 (art_uri a) else art_uri a);
              resolved = resolve (if is_absolute p then p else path_join artifact_root p)
          in if relative_to resolved (resolve artifact_root) = None then 0
             else (case size_of resolved of None \<Rightarrow> 0 | Some n \<Rightarrow> n))"

definition artifact_policy_error ::
  "(path \<Rightarrow> path) \<Rightarrow> (path \<Rightarrow> int option) \<Rightarrow> goblin_result \<Rightarrow> resource_policy option \<Rightarrow> path \<Rightarrow> string option" where
  "artifact_policy_error resolve size_of r policy artifact_root =
     (case policy of None \<Rightarrow> None
      | Some p \<Rightarrow>
          let count = int (length (res_artifacts r)) in
          if (case artifact_max_files (rp_filesystem p) of None \<Rightarrow> False | Some m \<Rightarrow> m < count)
          then Some (''artifact file count exceeds policy: '' @ str_int count @ '' > '' @
                 str_int (the (artifact_max_files (rp_filesystem p))))
          else (case artifact_max_bytes (rp_filesystem p) of
                  None \<Rightarrow> None
                | Some m \<Rightarrow>
                    let total = sum_list (map (artifact_bytes resolve size_of artifact_root r) (res_artifacts r)) in
                    if m < total
                    then Some (''artifact bytes exceed policy: '' @ str_int total @ '' > '' @ str_int m) else None))"

section \<open>The worker environment\<close>

definition GOBLIN_CONTAINER_CONTRACT_VERSION :: string where
  "GOBLIN_CONTAINER_CONTRACT_VERSION = ''goblin-king/v1alpha1''"

text \<open>\<^verbatim>\<open>str(value)\<close>; \<open>repr\<close> gives the text of fractions, lists and mappings.\<close>

fun py_str :: "(json \<Rightarrow> string) \<Rightarrow> json \<Rightarrow> string" where
  "py_str repr (JStr s) = s"
| "py_str repr (JInt i) = str_int i"
| "py_str repr (JBool b) = (if b then ''True'' else ''False'')"
| "py_str repr JNull = ''None''"
| "py_str repr v = repr v"

definition literal_worker_environment :: "(json \<Rightarrow> string) \<Rightarrow> goblin_definition \<Rightarrow> (string \<times> string) list" where
  "literal_worker_environment repr d =
     (case obj_get (gd_metadata d) ''env'' of
        Some (JObj ms) \<Rightarrow> List.map_filter (\<lambda>(k, v). if k \<noteq> '''' \<and> v \<noteq> JNull then Some (k, py_str repr v) else None) ms
      | _ \<Rightarrow> [])"

definition worker_secret_refs :: "(json \<Rightarrow> string) \<Rightarrow> goblin_definition \<Rightarrow> string list" where
  "worker_secret_refs repr d =
     (case obj_get (gd_metadata d) ''secret_refs'' of
        Some (JArr names) \<Rightarrow> filter (\<lambda>s. s \<noteq> '''') (map (py_str repr) names)
      | _ \<Rightarrow> [])"

definition docker_env_args :: "(string \<Rightarrow> string option) \<Rightarrow> (string \<times> string) list \<Rightarrow> string list \<Rightarrow> string list" where
  "docker_env_args environ worker_env secret_refs =
     concat (map (\<lambda>k. [''-e'', k @ ''='' @ the (map_of worker_env k)]) (sort (map fst worker_env))) @
     concat (map (\<lambda>k. if environ k \<noteq> None then [''-e'', k] else []) (sort (remdups secret_refs)))"

section \<open>The docker runtime\<close>

datatype process_outcome = Exited int string string | LaunchFailed string | Expired captured captured

record 'r docker_host =
  dh_environ :: "string \<Rightarrow> string option"
  dh_resolve :: "path \<Rightarrow> path"
  dh_container_redis_url :: "string \<Rightarrow> string"
  dh_dumps :: "json \<Rightarrow> string"
  dh_repr :: "json \<Rightarrow> string"
  dh_cores :: "string \<Rightarrow> string result"
  dh_prepare :: "path \<Rightarrow> path \<Rightarrow> json \<Rightarrow> goblin_context \<Rightarrow> ('r world, unit) op"
  dh_docker :: "string list \<Rightarrow> int option \<Rightarrow> ('r world, process_outcome) op"
  dh_lrange :: "string \<Rightarrow> ('r world, string list) op"
  dh_expire :: "string \<Rightarrow> int \<Rightarrow> ('r world, unit) op"
  dh_get :: "string \<Rightarrow> ('r world, string option) op"
  dh_result_file :: "path \<Rightarrow> ('r world, string option) op"
  dh_file_size :: "path \<Rightarrow> int option"
  dh_decode_heartbeat :: "string \<Rightarrow> heartbeat_record result"
  dh_parse_result :: "string \<Rightarrow> goblin_result result"

record 'r docker_runtime =
  dr_workers :: worker_image_map
  dr_redis_url :: string
  dr_run_root :: path
  dr_docker_executable :: string
  dr_event_bus :: "'r event_bus option"
  dr_heartbeat_interval_seconds :: int

definition env_flag :: "string \<times> string \<Rightarrow> string list" where
  "env_flag kv = [''-e'', fst kv @ ''='' @ snd kv]"

definition worker_env_flags :: "'r docker_host \<Rightarrow> 'r docker_runtime \<Rightarrow> goblin_context \<Rightarrow> string \<Rightarrow> string list" where
  "worker_env_flags h rt context worker_id =
     (let job_id = (case ctx_text context ''job_id'' of None \<Rightarrow> '''' | Some s \<Rightarrow> s);
          redis = dh_container_redis_url h (dr_redis_url rt) in
      concat (map env_flag
        ([(''GOBLIN_CONTRACT_VERSION'', GOBLIN_CONTAINER_CONTRACT_VERSION), (''GOBLIN_RUN_ID'', ctx_run_id context),
          (''GOBLIN_JOB_ID'', job_id), (''GOBLIN_WORKER_ID'', worker_id),
          (''GOBLIN_INPUT_PATH'', ''/goblin/input.json''), (''GOBLIN_CONTEXT_PATH'', ''/goblin/context.json''),
          (''GOBLIN_RESULT_PATH'', ''/goblin/result.json''), (''GOBLIN_ARTIFACT_ROOT'', ''/artifacts''),
          (''GOBLIN_REDIS_URL'', redis), (''GOBLIN_HEARTBEAT_REDIS_URL'', redis),
          (''GOBLIN_HEARTBEAT_CHANNEL'', ''goblin-king:heartbeats''),
          (''GOBLIN_HEARTBEAT_KEY'', worker_heartbeat_key (ctx_run_id context)),
          (''GOBLIN_HEARTBEAT_INTERVAL_SECONDS'', str_int (dr_heartbeat_interval_seconds rt))] @
         worker_run_event_environment (ctx_run_id context) redis)))"

definition mount_flags :: "'r docker_host \<Rightarrow> 'r docker_runtime \<Rightarrow> path \<Rightarrow> path \<Rightarrow> string list result" where
  "mount_flags h rt run_dir artifact_root =
     (if truthy_text (dh_environ h ''GOBLIN_KING_DOCKER_DATA_VOLUME'')
      then
        let volume = the (dh_environ h ''GOBLIN_KING_DOCKER_DATA_VOLUME'');
            mount = (case dh_environ h ''GOBLIN_KING_DOCKER_DATA_MOUNT'' of None \<Rightarrow> ''/goblin-data'' | Some m \<Rightarrow> m) in
        bind_result (relative_to_docker_data_root (dh_resolve h) run_dir (dr_run_root rt) ''run directory'') (\<lambda>run_rel.
        bind_result (relative_to_docker_data_root (dh_resolve h) artifact_root (dr_run_root rt) ''artifact directory'')
          (\<lambda>artifact_rel.
        Inr (concat (map env_flag
               [(''GOBLIN_INPUT_PATH'', mount @ ''/'' @ run_rel @ ''/input.json''),
                (''GOBLIN_CONTEXT_PATH'', mount @ ''/'' @ run_rel @ ''/context.json''),
                (''GOBLIN_RESULT_PATH'', mount @ ''/'' @ run_rel @ ''/result.json''),
                (''GOBLIN_ARTIFACT_ROOT'', mount @ ''/'' @ artifact_rel)]) @ [''-v'', volume @ '':'' @ mount])))
      else Inr [''-v'', path_text run_dir @ '':/goblin'', ''-v'', path_text artifact_root @ '':/artifacts''])"

definition docker_run_command ::
  "'r docker_host \<Rightarrow> 'r docker_runtime \<Rightarrow> string \<Rightarrow> path \<Rightarrow> goblin_context \<Rightarrow> string \<Rightarrow> int option \<Rightarrow> resource_policy option
     \<Rightarrow> (string \<times> string) list \<Rightarrow> string list \<Rightarrow> string list result" where
  "docker_run_command h rt worker_image run_dir context worker_id timeout_seconds policy worker_env secret_refs =
     (let job_id = (case ctx_text context ''job_id'' of None \<Rightarrow> '''' | Some s \<Rightarrow> s);
          network = dh_environ h ''GOBLIN_KING_DOCKER_NETWORK'' in
      bind_result (case policy of None \<Rightarrow> Inr []
          | Some p \<Rightarrow> bind_result (docker_policy_args (dh_cores h) p) (\<lambda>args.
              Inr ([''-e'', ''GOBLIN_EFFECTIVE_RESOURCE_POLICY_JSON='' @ dh_dumps h (compact p)] @ args))) (\<lambda>policy_flags.
      bind_result (mount_flags h rt run_dir
          (resolve_docker_artifact_root (dh_resolve h) (dr_run_root rt) (ctx_artifact_root context))) (\<lambda>mounts.
      Inr ([dr_docker_executable rt, ''run'', ''--rm'', ''--name'', worker_id,
            ''--label'', ''goblin-king.worker=true'', ''--label'', ''goblin-king.run-id='' @ ctx_run_id context,
            ''--label'', ''goblin-king.job-id='' @ job_id,
            ''--add-host'', ''host.docker.internal:host-gateway''] @
           worker_env_flags h rt context worker_id @
           docker_env_args (dh_environ h) worker_env secret_refs @ policy_flags @ mounts @
           (if truthy_text network \<and> (case policy of None \<Rightarrow> True | Some p \<Rightarrow> network_mode (rp_network p) = None)
            then [''--network'', the network] else []) @
           (case timeout_seconds of None \<Rightarrow> [] | Some t \<Rightarrow> [''--stop-timeout'', str_int (max t 1)]) @
           [worker_image]))))"

definition emit_worker_event ::
  "'r docker_runtime \<Rightarrow> string \<Rightarrow> goblin_context \<Rightarrow> string \<Rightarrow> json \<Rightarrow> ('r world, unit) op" where
  "emit_worker_event rt event_type context worker_id payload =
     (case dr_event_bus rt of None \<Rightarrow> return ()
      | Some bus \<Rightarrow> bind (emit bus event_type SrcRuntime
            (no_args\<lparr>a_project_id := ctx_text context ''project_id'', a_job_id := ctx_text context ''job_id'',
               a_run_id := Some (ctx_run_id context), a_worker_id := Some worker_id, a_payload := Some payload\<rparr>))
          (\<lambda>_. return ()))"

definition record_worker_heartbeats :: "'r docker_host \<Rightarrow> 'r docker_runtime \<Rightarrow> goblin_context \<Rightarrow> ('r world, unit) op" where
  "record_worker_heartbeats h rt context =
     (case dr_event_bus rt of None \<Rightarrow> return ()
      | Some bus \<Rightarrow>
          let key = worker_heartbeat_key (ctx_run_id context) in
          bind (catching is_redis_error
                 (bind (dh_lrange h key) (\<lambda>payloads.
                  bind (for_each (record_worker_heartbeat_payload bus (dh_decode_heartbeat h)) payloads) (\<lambda>_.
                  dh_expire h key 3600)))) (\<lambda>r.
          case r of
            Inr () \<Rightarrow> return ()
          | Inl e \<Rightarrow> bind (emit bus ''worker.heartbeat_read_failed'' SrcRuntime
                (no_args\<lparr>a_run_id := Some (ctx_run_id context), a_job_id := ctx_text context ''job_id'',
                   a_payload := Some (JObj [(''error'', JStr (error_message e))])\<rparr>)) (\<lambda>_. return ())))"

definition emit_container_log_event ::
  "'r docker_runtime \<Rightarrow> goblin_definition \<Rightarrow> string \<Rightarrow> goblin_context \<Rightarrow> string \<Rightarrow> captured \<Rightarrow> captured \<Rightarrow>
   int option \<Rightarrow> bool \<Rightarrow> resource_policy option \<Rightarrow> ('r world, unit) op" where
  "emit_container_log_event rt definition worker_image context worker_id stdout stderr exit_code timed_out policy =
     emit_worker_event rt ''worker.container_logs'' context worker_id (container_log_payload
       \<lparr>lg_kind = gd_kind definition, lg_image = worker_image, lg_container_name = worker_id, lg_stdout = stdout,
        lg_stderr = stderr, lg_exit_code = exit_code, lg_timed_out = timed_out,
        lg_max_bytes = log_capture_limit policy, lg_combined = False, lg_stdout_was_truncated = False,
        lg_stderr_was_truncated = False, lg_stdout_observed_bytes = None, lg_stderr_observed_bytes = None\<rparr>)"

definition failed_result :: "string \<Rightarrow> goblin_result" where
  "failed_result m = goblin_result_failed m None [] None []"

definition load_result :: "'r docker_host \<Rightarrow> string \<Rightarrow> path \<Rightarrow> ('r world, goblin_result option) op" where
  "load_result h run_id result_path =
     bind (catching is_redis_error (dh_get h (''goblin-king:results:'' @ run_id))) (\<lambda>raw.
     bind (case raw of Inr (Some text) \<Rightarrow> return (Some text) | _ \<Rightarrow> dh_result_file h result_path) (\<lambda>result_json.
     case result_json of None \<Rightarrow> return None
     | Some text \<Rightarrow>
         (case dh_parse_result h text of
            Inr r \<Rightarrow> return (Some r)
          | Inl e \<Rightarrow> if is_value_error e
                     then return (Some (failed_result (''worker produced invalid result JSON: '' @ error_message e)))
                     else throw e)))"

definition kind_payload :: "goblin_definition \<Rightarrow> (string \<times> json) list \<Rightarrow> json" where
  "kind_payload definition ms = JObj ((''kind'', JStr (gd_kind definition)) # ms)"

text \<open>The part of \<^verbatim>\<open>run\<close> after the container has exited.\<close>

definition finish_container ::
  "'r docker_host \<Rightarrow> 'r docker_runtime \<Rightarrow> goblin_definition \<Rightarrow> goblin_context \<Rightarrow> string \<Rightarrow> path \<Rightarrow> resource_policy option \<Rightarrow>
   int \<Rightarrow> string \<Rightarrow> string \<Rightarrow> ('r world, goblin_result) op" where
  "finish_container h rt definition context worker_id run_dir policy returncode stdout stderr =
     bind (load_result h (ctx_run_id context) (path_join run_dir (path_of ''result.json''))) (\<lambda>loaded.
     case loaded of
       Some result \<Rightarrow>
         (case artifact_policy_error (dh_resolve h) (dh_file_size h) result policy (path_of (ctx_artifact_root context)) of
            Some artifact_error \<Rightarrow>
              bind (emit_worker_event rt ''worker.failed'' context worker_id
                     (kind_payload definition [(''phase'', JStr ''artifact_policy''), (''error'', JStr artifact_error)])) (\<lambda>_.
              return (goblin_result_failed artifact_error (Some (res_data result)) [] None []))
          | None \<Rightarrow>
              bind (emit_worker_event rt ''worker.completed'' context worker_id
                     (kind_payload definition [(''status'',
                        JStr (if res_status result = ResSuccess then ''success'' else ''failed''))])) (\<lambda>_.
              return result))
     | None \<Rightarrow>
         if returncode \<noteq> 0
         then bind (emit_worker_event rt ''worker.failed'' context worker_id
                     (kind_payload definition [(''exit_code'', JInt returncode)])) (\<lambda>_.
              return (failed_result (gd_kind definition @ '' Docker worker exited '' @ str_int returncode @ '': '' @
                (if py_strip stderr \<noteq> '''' then py_strip stderr else py_strip stdout))))
         else bind (emit_worker_event rt ''worker.no_result'' context worker_id (kind_payload definition [])) (\<lambda>_.
              return (failed_result (gd_kind definition @ '' Docker worker produced no result''))))"

definition is_setup_error :: "error \<Rightarrow> bool" where
  "is_setup_error e \<longleftrightarrow> error_class e = DockerRuntimePathError \<or> is_os_error e"

text \<open>The part of \<^verbatim>\<open>run\<close> after the command is composed.\<close>

definition run_container ::
  "'r docker_host \<Rightarrow> 'r docker_runtime \<Rightarrow> goblin_definition \<Rightarrow> worker_image_definition \<Rightarrow> goblin_context \<Rightarrow> string \<Rightarrow> path \<Rightarrow>
   int option \<Rightarrow> resource_policy option \<Rightarrow> string list \<Rightarrow> ('r world, goblin_result) op" where
  "run_container h rt definition worker context worker_id run_dir timeout_seconds policy command =
     bind (emit_worker_event rt ''worker.started'' context worker_id (kind_payload definition [])) (\<lambda>_.
     bind (dh_docker h command timeout_seconds) (\<lambda>completed.
     case completed of
       LaunchFailed m \<Rightarrow>
         bind (emit_worker_event rt ''worker.failed'' context worker_id
                (kind_payload definition [(''phase'', JStr ''launch''), (''error'', JStr m)])) (\<lambda>_.
         return (failed_result (gd_kind definition @ '' Docker runtime launch failed: '' @ m)))
     | Expired stdout stderr \<Rightarrow>
         bind (record_worker_heartbeats h rt context) (\<lambda>_.
         bind (emit_container_log_event rt definition (wi_image worker) context worker_id stdout stderr None True policy) (\<lambda>_.
         bind (emit_worker_event rt ''worker.timed_out'' context worker_id
                (kind_payload definition [(''timeout_seconds'',
                   case timeout_seconds of None \<Rightarrow> JNull | Some t \<Rightarrow> JInt t)])) (\<lambda>_.
         return (failed_result (gd_kind definition @ '' exceeded timeout_seconds='' @
           (case timeout_seconds of None \<Rightarrow> ''None'' | Some t \<Rightarrow> str_int t))))))
     | Exited returncode stdout stderr \<Rightarrow>
         bind (record_worker_heartbeats h rt context) (\<lambda>_.
         bind (emit_container_log_event rt definition (wi_image worker) context worker_id (OutputText stdout)
                 (OutputText stderr) (Some returncode) False policy) (\<lambda>_.
         finish_container h rt definition context worker_id run_dir policy returncode stdout stderr))))"

definition docker_run ::
  "'r docker_host \<Rightarrow> 'r docker_runtime \<Rightarrow> goblin_definition \<Rightarrow> json \<Rightarrow> goblin_context \<Rightarrow> int option \<Rightarrow> resource_policy option
     \<Rightarrow> ('r world, goblin_result) op" where
  "docker_run h rt definition input_payload context0 timeout_seconds policy =
     (case workers_get (dr_workers rt) (gd_kind definition) of
        Inl e \<Rightarrow> return (failed_result (error_message e))
      | Inr worker \<Rightarrow>
          let artifact_root = resolve_docker_artifact_root (dh_resolve h) (dr_run_root rt) (ctx_artifact_root context0);
              context = context0\<lparr>ctx_artifact_root := path_text artifact_root\<rparr>;
              run_dir = dh_resolve h (path_join (dr_run_root rt) (path_of (ctx_run_id context)));
              worker_id = ''worker-'' @ ctx_run_id context;
              setup_failed = (\<lambda>e. failed_result (gd_kind definition @ '' Docker runtime setup failed: '' @ error_message e)) in
          bind (catching is_setup_error (dh_prepare h run_dir artifact_root input_payload context)) (\<lambda>prepared.
          case prepared of Inl e \<Rightarrow> return (setup_failed e)
          | Inr () \<Rightarrow>
              (case docker_run_command h rt (wi_image worker) run_dir context worker_id timeout_seconds policy
                      (literal_worker_environment (dh_repr h) definition) (worker_secret_refs (dh_repr h) definition) of
                 Inl e \<Rightarrow> if error_class e = DockerRuntimePathError then return (setup_failed e) else throw e
               | Inr command \<Rightarrow>
                   run_container h rt definition worker context worker_id run_dir timeout_seconds policy command)))"

text \<open>A machine without Docker and a runtime on it, for concrete instances.\<close>

definition bare_host :: "unit docker_host" where
  "bare_host = \<lparr>dh_environ = (\<lambda>k. if k = ''API_KEY'' then Some ''s3cret'' else None), dh_resolve = (\<lambda>p. p),
     dh_container_redis_url = (\<lambda>u. u), dh_dumps = (\<lambda>_. ''{}''), dh_repr = (\<lambda>_. ''''), dh_cores = Inr,
     dh_prepare = (\<lambda>_ _ _ _. return ()), dh_docker = (\<lambda>_ _. return (LaunchFailed ''docker: not found'')),
     dh_lrange = (\<lambda>_. return []), dh_expire = (\<lambda>_ _. return ()), dh_get = (\<lambda>_. return None),
     dh_result_file = (\<lambda>_. return None), dh_file_size = (\<lambda>_. None),
     dh_decode_heartbeat = (\<lambda>_. Inl (Raise ValueError '''')), dh_parse_result = (\<lambda>_. Inl (Raise ValueError ''''))\<rparr>"

definition echo_runtime :: "unit docker_runtime" where
  "echo_runtime = \<lparr>dr_workers = \<lparr>wm_workers = [(''example.echo'', \<lparr>wi_context = ''.'', wi_dockerfile = ''Dockerfile'',
       wi_image = ''echo:1''\<rparr>)], wm_root = ''.''\<rparr>, dr_redis_url = ''redis://localhost:6379/0'',
     dr_run_root = path_of ''.goblin-king/runs'', dr_docker_executable = ''docker'', dr_event_bus = Some down_bus,
     dr_heartbeat_interval_seconds = 5\<rparr>"

definition echo_context :: goblin_context where
  "echo_context = \<lparr>ctx_run_id = ''r1'', ctx_artifact_root = ''.goblin-king/artifacts/a'',
     ctx_metadata = JObj [(''job_id'', JStr ''a'')]\<rparr>"

definition ok_result :: goblin_result where
  "ok_result = \<lparr>res_status = ResSuccess, res_data = JObj [], res_artifacts = [], res_metrics = JObj [], res_handoff = [],
     res_error = None\<rparr>"

definition working_host :: "unit docker_host" where
  "working_host = bare_host\<lparr>dh_docker := (\<lambda>_ _. return (Exited 0 '''' '''')), dh_get := (\<lambda>_. return (Some ''ok'')),
     dh_parse_result := (\<lambda>t. if t = ''ok'' then Inr ok_result else Inl (Raise ValueError t))\<rparr>"

section \<open>How a run ends\<close>

text \<open>
  What the machine promises: its operations leave the log in order; preparing raises \<^verbatim>\<open>OSError\<close>, Redis
  operations raise \<^verbatim>\<open>RedisError\<close>, decoding raises \<^verbatim>\<open>TypeError\<close> or \<^verbatim>\<open>ValueError\<close>, and nothing else is raised.
  The result of a worker may be undecodable: its bytes are decoded after the Redis key is read and
  while its file is read (\<^verbatim>\<open>UnicodeDecodeError\<close>, a \<^verbatim>\<open>ValueError\<close>), and the file may be unreadable.
\<close>

definition reading_failed :: "error \<Rightarrow> bool" where
  "reading_failed e \<longleftrightarrow> is_value_error e \<or> is_os_error e"

definition docker_host_ok :: "'r docker_host \<Rightarrow> bool" where
  "docker_host_ok h \<longleftrightarrow>
     (\<forall>d a i c. keeps bus_ready is_setup_error (dh_prepare h d a i c)) \<and>
     (\<forall>c t. keeps bus_ready never (dh_docker h c t)) \<and>
     (\<forall>k. keeps bus_ready is_redis_error (dh_lrange h k)) \<and>
     (\<forall>k n. keeps bus_ready is_redis_error (dh_expire h k n)) \<and>
     (\<forall>k. keeps bus_ready (\<lambda>e. is_redis_error e \<or> is_value_error e) (dh_get h k)) \<and>
     (\<forall>p. keeps bus_ready reading_failed (dh_result_file h p)) \<and>
     (\<forall>r e. dh_decode_heartbeat h r = Inl e \<longrightarrow> error_class e = TypeError \<or> is_value_error e) \<and>
     (\<forall>t e. dh_parse_result h t = Inl e \<longrightarrow> is_value_error e)"

definition runtime_ok :: "'r docker_runtime \<Rightarrow> bool" where
  "runtime_ok rt \<longleftrightarrow> (case dr_event_bus rt of None \<Rightarrow> True | Some bus \<Rightarrow> bus_ok bus)"

lemma keeps_worker_event:
  "runtime_ok rt \<Longrightarrow> ty \<noteq> '''' \<Longrightarrow> keeps bus_ready never (emit_worker_event rt ty c w p)"
  unfolding emit_worker_event_def runtime_ok_def by (auto split: option.splits intro!: keeps_bind keeps_emit)

lemma keeps_log_event:
  "runtime_ok rt \<Longrightarrow> keeps bus_ready never (emit_container_log_event rt d i c w out err code t p)"
  unfolding emit_container_log_event_def by (rule keeps_worker_event) simp_all

lemma keeps_heartbeats:
  assumes h: "docker_host_ok h" and rt: "runtime_ok rt"
  shows "keeps bus_ready never (record_worker_heartbeats h rt c)"
proof (cases "dr_event_bus rt")
  case None
  then show ?thesis by (simp add: record_worker_heartbeats_def)
next
  case (Some bus)
  then have bus: "bus_ok bus" using rt by (simp add: runtime_ok_def)
  have dec: "dh_decode_heartbeat h r = Inl e \<Longrightarrow> error_class e = TypeError \<or> is_value_error e" for r e
    using h by (simp add: docker_host_ok_def)
  have each: "keeps bus_ready is_redis_error (for_each (record_worker_heartbeat_payload bus (dh_decode_heartbeat h)) ps)" for ps
    by (rule keeps_for_each) (rule keeps_mono [OF keeps_record_heartbeat [OF bus dec]], blast+)
  have "keeps bus_ready is_redis_error (bind (dh_lrange h k) (\<lambda>ps.
      bind (for_each (record_worker_heartbeat_payload bus (dh_decode_heartbeat h)) ps) (\<lambda>_. dh_expire h k 3600)))" for k
    using h by (intro keeps_bind each) (simp_all add: docker_host_ok_def)
  then have "keeps bus_ready never (catching is_redis_error (bind (dh_lrange h k) (\<lambda>ps.
      bind (for_each (record_worker_heartbeat_payload bus (dh_decode_heartbeat h)) ps) (\<lambda>_. dh_expire h k 3600))))" for k
    by (rule keeps_catching) simp
  then show ?thesis unfolding record_worker_heartbeats_def Some option.case Let_def
  proof (rule keeps_bind)
    fix r :: "error + unit"
    show "keeps bus_ready never (case r of Inr () \<Rightarrow> return ()
      | Inl e \<Rightarrow> bind (emit bus ''worker.heartbeat_read_failed'' SrcRuntime
            (no_args\<lparr>a_run_id := Some (ctx_run_id c), a_job_id := ctx_text c ''job_id'',
               a_payload := Some (JObj [(''error'', JStr (error_message e))])\<rparr>)) (\<lambda>_. return ()))"
      by (cases r) (auto split: unit.split intro!: keeps_bind keeps_emit [OF bus])
  qed
qed

lemma keeps_load_result:
  assumes h: "docker_host_ok h"
  shows "keeps bus_ready reading_failed (load_result h i p)"
proof -
  have get: "keeps bus_ready reading_failed (catching is_redis_error (dh_get h k))" for k
    using h by (intro keeps_catching [where Q = "\<lambda>e. is_redis_error e \<or> is_value_error e"])
      (auto simp: docker_host_ok_def reading_failed_def)
  have raw: "keeps bus_ready reading_failed (case raw of Inr (Some text) \<Rightarrow> return (Some text) | _ \<Rightarrow> dh_result_file h p)" for raw
    using h by (auto simp: docker_host_ok_def split: sum.split option.split)
  have parse: "keeps bus_ready reading_failed (case result_json of None \<Rightarrow> return None
     | Some text \<Rightarrow> (case dh_parse_result h text of Inr r \<Rightarrow> return (Some r)
          | Inl e \<Rightarrow> if is_value_error e
             then return (Some (failed_result (''worker produced invalid result JSON: '' @ error_message e))) else throw e))" for result_json
    using h by (auto simp: docker_host_ok_def split: option.split sum.split)
  show ?thesis unfolding load_result_def by (rule keeps_bind [OF get], rule keeps_bind [OF raw parse])
qed

text \<open>What was read, when it is an envelope: a parsed text, or a failure that reports an invalid one.\<close>

definition read_envelope :: "'r docker_host \<Rightarrow> goblin_result \<Rightarrow> bool" where
  "read_envelope h y \<longleftrightarrow> (\<exists>text. dh_parse_result h text = Inr y \<or>
     (\<exists>e. dh_parse_result h text = Inl e \<and> y = failed_result (''worker produced invalid result JSON: '' @ error_message e)))"

lemma load_result_reads: "yields (\<lambda>l. \<forall>y. l = Some y \<longrightarrow> read_envelope h y) (load_result h i p)"
  unfolding load_result_def
  by (intro yields_bind_any) (auto simp: read_envelope_def split: option.split sum.split)

text \<open>
  The result of a run by how its \<^verbatim>\<open>docker\<close> process ended: the value the run returns or the exception that
  leaves it.
\<close>

definition run_ends_as ::
  "'r docker_host \<Rightarrow> goblin_definition \<Rightarrow> goblin_context \<Rightarrow> path \<Rightarrow> int option \<Rightarrow> resource_policy option \<Rightarrow>
   process_outcome \<Rightarrow> goblin_result result \<Rightarrow> bool" where
  "run_ends_as h definition context run_dir timeout policy oc x \<longleftrightarrow>
     (case oc of
        LaunchFailed m \<Rightarrow> x = Inr (failed_result (gd_kind definition @ '' Docker runtime launch failed: '' @ m))
      | Expired _ _ \<Rightarrow> x = Inr (failed_result (gd_kind definition @ '' exceeded timeout_seconds='' @
          (case timeout of None \<Rightarrow> ''None'' | Some t \<Rightarrow> str_int t)))
      | Exited code out err \<Rightarrow> (\<exists>v loaded v'.
          load_result h (ctx_run_id context) (path_join run_dir (path_of ''result.json'')) v = (loaded, v') \<and>
          (case loaded of
             Inl e \<Rightarrow> x = Inl e \<and> reading_failed e
           | Inr None \<Rightarrow> x = Inr (failed_result
               (if code = 0 then gd_kind definition @ '' Docker worker produced no result''
                else gd_kind definition @ '' Docker worker exited '' @ str_int code @ '': '' @
                  (if py_strip err \<noteq> '''' then py_strip err else py_strip out)))
           | Inr (Some y) \<Rightarrow> read_envelope h y \<and>
               x = Inr (case artifact_policy_error (dh_resolve h) (dh_file_size h) y policy (path_of (ctx_artifact_root context)) of
                          None \<Rightarrow> y | Some m \<Rightarrow> goblin_result_failed m (Some (res_data y)) [] None []))))"

lemma run_ends_exited:
  assumes "load_result h (ctx_run_id c) (path_join dir (path_of ''result.json'')) v = (loaded, v')"
    and "case loaded of
           Inl e \<Rightarrow> x = Inl e \<and> reading_failed e
         | Inr None \<Rightarrow> x = Inr (failed_result
             (if code = 0 then gd_kind d @ '' Docker worker produced no result''
              else gd_kind d @ '' Docker worker exited '' @ str_int code @ '': '' @
                (if py_strip err \<noteq> '''' then py_strip err else py_strip out)))
         | Inr (Some y) \<Rightarrow> read_envelope h y \<and>
             x = Inr (case artifact_policy_error (dh_resolve h) (dh_file_size h) y p (path_of (ctx_artifact_root c)) of
                        None \<Rightarrow> y | Some m \<Rightarrow> goblin_result_failed m (Some (res_data y)) [] None [])"
  shows "run_ends_as h d c dir t p (Exited code out err) x"
  unfolding run_ends_as_def process_outcome.case by (intro exI conjI) (rule assms)+

lemma finish_ends:
  assumes h: "docker_host_ok h" and rt: "runtime_ok rt" and w: "bus_ready w"
  shows "\<exists>x w'. finish_container h rt d c k dir p code out err w = (x, w') \<and> bus_ready w' \<and> run_ends_as h d c dir t p (Exited code out err) x"
proof -
  obtain loaded v where load: "load_result h (ctx_run_id c) (path_join dir (path_of ''result.json'')) w = (loaded, v)" by fastforce
  have v: "bus_ready v" "\<And>e. loaded = Inl e \<Longrightarrow> reading_failed e" using keepsD [OF keeps_load_result [OF h] w load] by auto
  show ?thesis
  proof (cases loaded)
    case (Inl e)
    then have "finish_container h rt d c k dir p code out err w = (Inl e, v)" using load by (simp add: finish_container_def bind_def)
    moreover have "run_ends_as h d c dir t p (Exited code out err) (Inl e)"
      by (rule run_ends_exited [OF load]) (use v Inl in simp)
    ultimately show ?thesis using v(1) by blast
  next
    case (Inr l)
    show ?thesis
    proof (cases l)
      case None
      let ?ty = "if code \<noteq> 0 then ''worker.failed'' else ''worker.no_result''"
      let ?m = "if code \<noteq> 0 then [(''exit_code'', JInt code)] else []"
      have "?ty \<noteq> ''''" by simp
      then obtain u w' where "emit_worker_event rt ?ty c k (kind_payload d ?m) v = (Inr u, w')" "bus_ready w'"
        using keeps_returns [OF keeps_worker_event [OF rt] v(1)] by blast
      then show ?thesis using load Inr None
        by (auto simp: finish_container_def bind_def return_eq intro!: run_ends_exited [OF load] split: if_splits)
    next
      case (Some y)
      have read: "read_envelope h y" using yieldsD [OF load_result_reads load [unfolded Inr]] Some by blast
      let ?a = "artifact_policy_error (dh_resolve h) (dh_file_size h) y p (path_of (ctx_artifact_root c))"
      let ?ty = "case ?a of None \<Rightarrow> ''worker.completed'' | Some _ \<Rightarrow> ''worker.failed''"
      let ?m = "case ?a of Some m \<Rightarrow> [(''phase'', JStr ''artifact_policy''), (''error'', JStr m)]
        | None \<Rightarrow> [(''status'', JStr (if res_status y = ResSuccess then ''success'' else ''failed''))]"
      have "?ty \<noteq> ''''" by (simp split: option.split)
      then obtain u w' where "emit_worker_event rt ?ty c k (kind_payload d ?m) v = (Inr u, w')" "bus_ready w'"
        using keeps_returns [OF keeps_worker_event [OF rt] v(1)] by blast
      then show ?thesis using load Inr Some read
        by (cases ?a) (auto simp: finish_container_def bind_def return_eq intro!: run_ends_exited [OF load])
    qed
  qed
qed

lemma run_container_ends:
  assumes h: "docker_host_ok h" and rt: "runtime_ok rt" and w: "bus_ready w"
  obtains u v oc v' x w' where "emit_worker_event rt ''worker.started'' c k (kind_payload d []) w = (Inr u, v)"
    and "dh_docker h cmd t v = (Inr oc, v')" and "run_container h rt d wk c k dir t p cmd w = (x, w')"
    and "bus_ready w'" and "run_ends_as h d c dir t p oc x"
proof -
  obtain u v where started: "emit_worker_event rt ''worker.started'' c k (kind_payload d []) w = (Inr u, v)" "bus_ready v"
    using keeps_returns [OF keeps_worker_event [OF rt, of "''worker.started''" c k "kind_payload d []"] w] by auto
  have "keeps bus_ready never (dh_docker h cmd t)" using h by (simp add: docker_host_ok_def)
  from keeps_returns [OF this started(2)] obtain oc v' where docker: "dh_docker h cmd t v = (Inr oc, v')" "bus_ready v'" by blast
  have "\<exists>x w'. run_container h rt d wk c k dir t p cmd w = (x, w') \<and> bus_ready w' \<and> run_ends_as h d c dir t p oc x"
  proof (cases oc)
    case (LaunchFailed m)
    obtain u' w' where "emit_worker_event rt ''worker.failed'' c k (kind_payload d [(''phase'', JStr ''launch''), (''error'', JStr m)]) v' =
        (Inr u', w')" "bus_ready w'"
      using keeps_returns [OF keeps_worker_event [OF rt, of "''worker.failed''" c k
        "kind_payload d [(''phase'', JStr ''launch''), (''error'', JStr m)]"] docker(2)] by auto
    then show ?thesis using started docker by (simp add: run_container_def bind_def return_eq run_ends_as_def LaunchFailed)
  next
    case (Expired out err)
    let ?after = "bind (record_worker_heartbeats h rt c) (\<lambda>_.
        bind (emit_container_log_event rt d (wi_image wk) c k out err None True p) (\<lambda>_.
        emit_worker_event rt ''worker.timed_out'' c k (kind_payload d [(''timeout_seconds'', case t of None \<Rightarrow> JNull | Some t \<Rightarrow> JInt t)])))"
    have "keeps bus_ready never ?after"
      by (intro keeps_bind keeps_heartbeats [OF h rt] keeps_log_event [OF rt] keeps_worker_event [OF rt]) simp
    from keeps_returns [OF this docker(2)] obtain a w' where "?after v' = (Inr a, w')" "bus_ready w'" by blast
    then show ?thesis using started docker
      by (auto simp: run_container_def bind_def return_eq run_ends_as_def Expired split: prod.splits sum.splits)
  next
    case (Exited code out err)
    let ?after = "bind (record_worker_heartbeats h rt c) (\<lambda>_.
        emit_container_log_event rt d (wi_image wk) c k (OutputText out) (OutputText err) (Some code) False p)"
    have "keeps bus_ready never ?after" by (intro keeps_bind keeps_heartbeats [OF h rt] keeps_log_event [OF rt])
    from keeps_returns [OF this docker(2)] obtain a w1 where after: "?after v' = (Inr a, w1)" "bus_ready w1" by blast
    then have "run_container h rt d wk c k dir t p cmd w = finish_container h rt d c k dir p code out err w1"
      using started docker
      by (auto simp: run_container_def bind_def return_eq Exited split: prod.splits sum.splits)
    then show ?thesis using finish_ends [OF h rt after(2), of d c k dir p code out err t] by (simp add: Exited)
  qed
  then show ?thesis using that [OF started(1) docker(1)] by blast
qed

lemma command_error:
  assumes "docker_run_command h rt i d c w t p env refs = Inl e" and "p = None \<or> (\<exists>args. docker_policy_args (dh_cores h) (the p) = Inr args)"
  shows "error_class e = DockerRuntimePathError"
proof -
  have rel: "relative_to_docker_data_root r q root l = Inl e' \<Longrightarrow> error_class e' = DockerRuntimePathError" for r q root l e'
    by (auto simp: relative_to_docker_data_root_def Let_def split: option.splits)
  have mount: "mount_flags h rt q a = Inl e' \<Longrightarrow> error_class e' = DockerRuntimePathError" for q a e'
    by (auto simp: mount_flags_def Let_def bind_result_def rel split: if_splits sum.splits)
  show ?thesis using assms by (auto simp: docker_run_command_def Let_def bind_result_def mount split: option.splits sum.splits)
qed

text \<open>How the \<^verbatim>\<open>docker\<close> process of a run ends, when the run starts one: the context has its resolved artifact root.\<close>

definition docker_outcome ::
  "'r docker_host \<Rightarrow> 'r docker_runtime \<Rightarrow> goblin_definition \<Rightarrow> json \<Rightarrow> goblin_context \<Rightarrow> path \<Rightarrow> path \<Rightarrow> int option \<Rightarrow>
   resource_policy option \<Rightarrow> 'r world \<Rightarrow> process_outcome option" where
  "docker_outcome h rt definition input_payload context artifact_root run_dir timeout policy w =
     (case workers_get (dr_workers rt) (gd_kind definition) of
        Inl _ \<Rightarrow> None
      | Inr worker \<Rightarrow>
          let worker_id = ''worker-'' @ ctx_run_id context in
          (case dh_prepare h run_dir artifact_root input_payload context w of
             (Inl _, _) \<Rightarrow> None
           | (Inr _, w1) \<Rightarrow>
               (case docker_run_command h rt (wi_image worker) run_dir context worker_id timeout policy
                       (literal_worker_environment (dh_repr h) definition) (worker_secret_refs (dh_repr h) definition) of
                  Inl _ \<Rightarrow> None
                | Inr command \<Rightarrow>
                    (case dh_docker h command timeout
                            (snd (emit_worker_event rt ''worker.started'' context worker_id (kind_payload definition []) w1)) of
                       (Inr oc, _) \<Rightarrow> Some oc
                     | (Inl _, _) \<Rightarrow> None))))"

section \<open>Properties\<close>


lemma bare_host_ok: "docker_host_ok bare_host"
  by (auto simp: docker_host_ok_def bare_host_def is_value_error_def)

lemma fresh_world_ready: "bus_ready (fresh_world empty_db)"
proof -
  have "inj (w_uuids (fresh_world empty_db))"
    by (rule inj_on_inverseI [where g = "\<lambda>s. length s - 1"]) (simp add: fresh_world_def)
  then show ?thesis using event_log_ok_empty by (simp add: bus_ready_def) (simp add: fresh_world_def empty_db_def)
qed


text \<open>What a call to the machine for the result of a run can have returned.\<close>

definition delivered :: "'r docker_host \<Rightarrow> string \<Rightarrow> path \<Rightarrow> string \<Rightarrow> bool" where
  "delivered h run_id result_path text \<longleftrightarrow>
     (\<exists>w w'. dh_get h (''goblin-king:results:'' @ run_id) w = (Inr (Some text), w') \<or>
             dh_result_file h result_path w = (Inr (Some text), w'))"

lemma yields_load_result:
  "yields (\<lambda>l. \<forall>x. l = Some x \<longrightarrow> res_status x = ResSuccess \<longrightarrow>
     (\<exists>text. delivered h i p text \<and> dh_parse_result h text = Inr x)) (load_result h i p)"
proof -
  have fail: "res_status (failed_result m) = ResFailed" for m
    by (simp add: failed_result_def goblin_result_failed_def)
  have get: "yields (\<lambda>raw. \<forall>text. raw = Inr (Some text) \<longrightarrow> delivered h i p text)
      (catching is_redis_error (dh_get h (''goblin-king:results:'' @ i)))"
    by (auto simp: yields_def catching_def delivered_def split: prod.splits sum.splits if_splits)
  have from_file: "yields (\<lambda>t. \<forall>text. t = Some text \<longrightarrow> delivered h i p text) (dh_result_file h p)"
    by (auto simp: yields_def delivered_def)
  have choose: "yields (\<lambda>t. \<forall>text. t = Some text \<longrightarrow> delivered h i p text)
      (case raw of Inr (Some text) \<Rightarrow> return (Some text) | _ \<Rightarrow> dh_result_file h p)"
    if "\<forall>text. raw = Inr (Some text) \<longrightarrow> delivered h i p text" for raw
    using that from_file by (auto split: sum.split option.split)
  show ?thesis unfolding load_result_def
    by (rule yields_bind [OF get], rule yields_bind [OF choose])
      (auto split: option.split sum.split simp: fail)
qed

text \<open>
  C24. A run is reported as successful only if the worker delivered that very success envelope,
  through the Redis key of the run or the result file of its directory, and the artifacts it lists
  are within the policy.
\<close>

theorem docker_success_delivered:
  assumes run: "docker_run h rt definition input context timeout policy w = (Inr r, w')"
    and success: "res_status r = ResSuccess"
  shows "\<exists>text. delivered h (ctx_run_id context)
      (path_join (dh_resolve h (path_join (dr_run_root rt) (path_of (ctx_run_id context)))) (path_of ''result.json'')) text \<and>
    dh_parse_result h text = Inr r \<and>
    artifact_policy_error (dh_resolve h) (dh_file_size h) r policy
      (path_of (path_text (resolve_docker_artifact_root (dh_resolve h) (dr_run_root rt) (ctx_artifact_root context)))) = None"
proof -
  define context' where "context' = context\<lparr>ctx_artifact_root := path_text
    (resolve_docker_artifact_root (dh_resolve h) (dr_run_root rt) (ctx_artifact_root context))\<rparr>"
  define dir where "dir = dh_resolve h (path_join (dr_run_root rt) (path_of (ctx_run_id context)))"
  define Q where "Q = (\<lambda>r. res_status r = ResSuccess \<longrightarrow>
    (\<exists>text. delivered h (ctx_run_id context) (path_join dir (path_of ''result.json'')) text \<and> dh_parse_result h text = Inr r) \<and>
    artifact_policy_error (dh_resolve h) (dh_file_size h) r policy (path_of (ctx_artifact_root context')) = None)"
  have id: "ctx_run_id context' = ctx_run_id context" by (simp add: context'_def)
  have Q_fail: "Q (failed_result m)" "Q (goblin_result_failed m a b c d)" for m a b c d
    by (simp_all add: Q_def failed_result_def goblin_result_failed_def)
  have finish: "yields Q (finish_container h rt definition context' k dir policy code out err)" for k code out err
    unfolding finish_container_def
    by (rule yields_bind [OF yields_load_result])
      (auto split: option.split intro!: yields_bind_any simp: Q_fail, auto simp: Q_def id)
  have run': "yields Q (run_container h rt definition wk context' k dir timeout policy cmd)" for wk k cmd
    unfolding run_container_def
    by (intro yields_bind_any) (auto split: process_outcome.split intro!: yields_bind_any finish simp: Q_fail)
  have "yields Q (docker_run h rt definition input context timeout policy)"
    unfolding docker_run_def Let_def
    by (auto split: sum.split unit.split intro!: yields_bind_any run' [unfolded context'_def dir_def] simp: Q_fail)
  then have "Q r" using run by (rule yieldsD)
  then show ?thesis using success by (auto simp: Q_def dir_def context'_def)
qed

lemma working_host_run:
  "fst (docker_run working_host (echo_runtime\<lparr>dr_event_bus := None\<rparr>) echo_definition (JObj []) echo_context None None
     (fresh_world empty_db)) = Inr ok_result"
  by code_simp

theorem docker_success_delivered_witness:
  "res_status ok_result = ResSuccess \<and> (\<exists>text. dh_parse_result working_host text = Inr ok_result)"
  using docker_success_delivered [OF surjective_pairing [of "docker_run working_host (echo_runtime\<lparr>dr_event_bus := None\<rparr>)
      echo_definition (JObj []) echo_context None None (fresh_world empty_db)", unfolded working_host_run]]
  by (auto simp: ok_result_def)

text \<open>
  The value of a secret never reaches the command line: the whole \<^verbatim>\<open>docker run\<close> command stays the same
  under any change of the process environment that keeps which names are set and the three
  variables that configure the network and the data volume.
\<close>

theorem secrets_not_in_argv:
  assumes "\<forall>k. (dh_environ h k = None) = (environ' k = None)"
    and "\<forall>k \<in> {''GOBLIN_KING_DOCKER_NETWORK'', ''GOBLIN_KING_DOCKER_DATA_VOLUME'', ''GOBLIN_KING_DOCKER_DATA_MOUNT''}.
      dh_environ h k = environ' k"
  shows "docker_run_command (h\<lparr>dh_environ := environ'\<rparr>) rt img run_dir context worker_id timeout policy worker_env refs =
    docker_run_command h rt img run_dir context worker_id timeout policy worker_env refs"
proof -
  let ?h = "h\<lparr>dh_environ := environ'\<rparr>"
  have "docker_env_args environ' worker_env refs = docker_env_args (dh_environ h) worker_env refs"
    unfolding docker_env_args_def using assms(1) by simp
  moreover have "mount_flags ?h rt d a = mount_flags h rt d a" for d a
    using assms(2) by (simp add: mount_flags_def)
  moreover have "worker_env_flags ?h rt context worker_id = worker_env_flags h rt context worker_id"
    by (simp add: worker_env_flags_def)
  ultimately show ?thesis using assms(2) by (simp add: docker_run_command_def cong: option.case_cong)
qed

theorem secrets_not_in_argv_witness:
  "docker_run_command (bare_host\<lparr>dh_environ := [''API_KEY'' \<mapsto> ''other'']\<rparr>) echo_runtime ''echo:1'' (path_of ''.'') echo_context
     ''worker-r1'' None None [] [''API_KEY''] =
   docker_run_command bare_host echo_runtime ''echo:1'' (path_of ''.'') echo_context ''worker-r1'' None None [] [''API_KEY'']"
  by (rule secrets_not_in_argv) (simp_all add: bare_host_def)

end
