(* ===== verification/Scheduler_Leases.thy ===== *)
theory Scheduler_Leases
  imports Complex_Main Store_Jobs
begin

text \<open>
  Keeping a lease alive while its attempt runs: \<^verbatim>\<open>src/src/goblin_king/scheduler_leases.py\<close>. The renewal
  thread of \<^verbatim>\<open>ActiveJobLease\<close> is \<open>renew_loop\<close>, a recursion over the wake-ups of the thread: each has the
  value of the stop flag, the clock reading and what the rest of the system does to the store
  before the next one. The locale \<open>job_lease_store\<close> is the protocol class \<^verbatim>\<open>JobLeaseStore\<close>, the store
  is its instance. The theorems: no other scheduler takes a job whose lease is renewed in time, and
  a thread that lost the job never writes again.
\<close>

section \<open>The renewal thread\<close>

definition LEASE_THREAD_JOIN_SECONDS :: rat where
  "LEASE_THREAD_JOIN_SECONDS = 5"

record 's active_job_lease =
  jl_try_renew :: "string \<Rightarrow> string \<Rightarrow> datetime \<Rightarrow> ('s, bool) op"
  jl_job_id :: string
  jl_lease_owner :: string
  jl_lease_seconds :: int
  jl_renew_interval :: rat

definition new_active_job_lease ::
  "(string \<Rightarrow> string \<Rightarrow> datetime \<Rightarrow> ('s, bool) op) \<Rightarrow> string \<Rightarrow> string \<Rightarrow> int \<Rightarrow> 's active_job_lease result" where
  "new_active_job_lease try_renew job_id lease_owner lease_seconds =
     (if lease_seconds \<le> 0 then Inl (Raise ValueError ''lease_seconds must be greater than zero'')
      else Inr \<lparr>jl_try_renew = try_renew, jl_job_id = job_id, jl_lease_owner = lease_owner,
                jl_lease_seconds = lease_seconds,
                jl_renew_interval = min (max (rat_of_int lease_seconds / 3) (1 / 10)) 30\<rparr>)"

record 's wake =
  wk_stop :: bool
  wk_now :: datetime
  wk_meanwhile :: "'s \<Rightarrow> 's"

datatype lease_exit = LeaseStopped | LeaseLost | LeaseActive

text \<open>\<open>LeaseActive\<close>: the thread is still waiting after the last of the given wake-ups.\<close>

fun renew_loop :: "'s active_job_lease \<Rightarrow> 's wake list \<Rightarrow> 's \<Rightarrow> lease_exit \<times> 's" where
  "renew_loop l [] s = (LeaseActive, s)"
| "renew_loop l (w # ws) s =
     (if wk_stop w then (LeaseStopped, s)
      else let lease_until = plus_microseconds (wk_now w) (seconds (jl_lease_seconds l)) in
        case jl_try_renew l (jl_job_id l) (jl_lease_owner l) lease_until s of
          (Inr False, s') \<Rightarrow> (LeaseLost, s')
        | (Inr True, s') \<Rightarrow> renew_loop l ws (wk_meanwhile w s')
        | (Inl e, s') \<Rightarrow> renew_loop l ws (wk_meanwhile w s'))"

text \<open>Claims of other schedulers: who, when, until when and how many jobs.\<close>

fun claim_all :: "(string \<times> datetime \<times> datetime \<times> int) list \<Rightarrow> db \<Rightarrow> db" where
  "claim_all [] d = d"
| "claim_all ((who, now, until, limit) # cs) d = claim_all cs (snd (claim_due_jobs who now until limit d))"

definition active_owner :: "db \<Rightarrow> string \<Rightarrow> string option" where
  "active_owner d job_id =
     (case by_key j_id job_id (jobs_table d) of
        None \<Rightarrow> None
      | Some r \<Rightarrow> if j_status r \<in> {Leased, Running} then j_lease_owner r else None)"

definition lease_deadline :: "db \<Rightarrow> string \<Rightarrow> int option" where
  "lease_deadline d job_id =
     Option.bind (by_key j_id job_id (jobs_table d)) (\<lambda>r. map_option dt_wall (j_leased_until r))"

lemma dt_wall_plus [simp]: "dt_wall (plus_microseconds t n) = dt_wall t + n"
  by (cases t) simp_all

section \<open>The contract of a lease store\<close>

locale job_lease_store =
  fixes try_renew :: "string \<Rightarrow> string \<Rightarrow> datetime \<Rightarrow> ('s, bool) op"
    and valid :: "'s \<Rightarrow> bool"
    and holder :: "'s \<Rightarrow> string \<Rightarrow> string option"
    and deadline :: "'s \<Rightarrow> string \<Rightarrow> int option"
  assumes renew_held: "valid s \<Longrightarrow> holder s j = Some w \<Longrightarrow>
      \<exists>s' u. try_renew j w t s = (Inr True, s') \<and> valid s' \<and> holder s' j = Some w \<and>
        deadline s' j = Some u \<and> dt_wall t \<le> u"
    and renew_lost: "valid s \<Longrightarrow> holder s j \<noteq> Some w \<Longrightarrow> try_renew j w t s = (Inr False, s)"
begin

lemma loop_lost:
  assumes "valid s" and "holder s (jl_job_id l) \<noteq> Some (jl_lease_owner l)" and "jl_try_renew l = try_renew"
  shows "snd (renew_loop l ws s) = s" and "ws \<noteq> [] \<Longrightarrow> fst (renew_loop l ws s) \<noteq> LeaseActive"
  using assms by (cases ws; simp add: renew_lost)+

lemma loop_held:
  assumes store: "jl_try_renew l = try_renew"
    and quiet: "\<And>w s u. w \<in> set ws \<Longrightarrow> valid s \<Longrightarrow> holder s (jl_job_id l) = Some (jl_lease_owner l) \<Longrightarrow>
      deadline s (jl_job_id l) = Some u \<Longrightarrow> dt_wall (wk_now w) + seconds (jl_lease_seconds l) \<le> u \<Longrightarrow>
      valid (wk_meanwhile w s) \<and> holder (wk_meanwhile w s) (jl_job_id l) = Some (jl_lease_owner l)"
    and "valid s" and "holder s (jl_job_id l) = Some (jl_lease_owner l)"
  shows "fst (renew_loop l ws s) \<noteq> LeaseLost \<and>
    holder (snd (renew_loop l ws s)) (jl_job_id l) = Some (jl_lease_owner l)"
  using quiet assms(3,4)
proof (induction ws arbitrary: s)
  case (Cons w ws)
  let ?t = "plus_microseconds (wk_now w) (seconds (jl_lease_seconds l))"
  obtain s' u where renew: "try_renew (jl_job_id l) (jl_lease_owner l) ?t s = (Inr True, s')"
    and s': "valid s'" "holder s' (jl_job_id l) = Some (jl_lease_owner l)"
      "deadline s' (jl_job_id l) = Some u" "dt_wall ?t \<le> u"
    using renew_held [OF Cons.prems(2,3)] by blast
  have "valid (wk_meanwhile w s') \<and> holder (wk_meanwhile w s') (jl_job_id l) = Some (jl_lease_owner l)"
    using s' by (intro Cons.prems(1)) auto
  then have "fst (renew_loop l ws (wk_meanwhile w s')) \<noteq> LeaseLost \<and>
      holder (snd (renew_loop l ws (wk_meanwhile w s'))) (jl_job_id l) = Some (jl_lease_owner l)"
    by (intro Cons.IH Cons.prems(1)) auto
  then show ?case using Cons.prems(3) by (simp add: store renew)
qed simp

end

section \<open>The store keeps the contract\<close>

lemma renew_row:
  assumes k: "distinct_key j_id (jobs_table d)" and h: "active_owner d j = Some w"
  shows "\<exists>d' u. try_renew_job_lease j w t d = (Inr True, d') \<and> distinct_key j_id (jobs_table d') \<and>
    active_owner d' j = Some w \<and> lease_deadline d' j = Some u \<and> dt_wall t \<le> u"
proof -
  obtain r where r: "by_key j_id j (jobs_table d) = Some r" "j_status r \<in> {Leased, Running}" "j_lease_owner r = Some w"
    using h by (auto simp: active_owner_def split: option.splits if_splits)
  have P: "owned_active j w = (\<lambda>r. j_id r = j \<and> j_status r \<in> {Leased, Running} \<and> j_lease_owner r = Some w)"
    by (rule ext) (simp add: owned_active_def)
  have one: "rowcount (owned_active j w) (jobs_table d) = 1"
    unfolding P using r rowcount_1_iff [OF k] by simp
  have row: "by_key j_id j (update_where (owned_active j w) (extend_lease (db_datetime t)) (jobs_table d)) =
      Some (extend_lease (db_datetime t) r)"
    using r by_key_SomeD [OF r(1)] by (simp add: by_key_update owned_active_def)
  define d' where "d' = d\<lparr>jobs_table := update_where (owned_active j w) (extend_lease (db_datetime t)) (jobs_table d)\<rparr>"
  have "try_renew_job_lease j w t d = (Inr True, d')" by (simp add: try_renew_job_lease_def one d'_def)
  moreover have "distinct_key j_id (jobs_table d')" using k by (simp add: d'_def distinct_key_update)
  moreover have "active_owner d' j = Some w" using r by (simp add: active_owner_def d'_def row) (simp add: extend_lease_def)
  moreover have "\<exists>u. lease_deadline d' j = Some u \<and> dt_wall t \<le> u"
    by (simp add: lease_deadline_def d'_def row) (simp add: extend_lease_def db_datetime_def split: option.split)
  ultimately show ?thesis by blast
qed

lemma renew_other_row:
  assumes k: "distinct_key j_id (jobs_table d)" and h: "active_owner d j \<noteq> Some w"
  shows "try_renew_job_lease j w t d = (Inr False, d)"
proof -
  have none: "\<not> owned_active j w r" if "r \<in> set (jobs_table d)" for r
    using h by_key_member [OF k that] by (auto simp: owned_active_def active_owner_def)
  then have "rowcount (owned_active j w) (jobs_table d) = 0" by (simp add: rowcount_def filter_empty_conv)
  then show ?thesis using none by (simp add: try_renew_job_lease_def update_where_none)
qed

interpretation leases: job_lease_store try_renew_job_lease "\<lambda>d. distinct_key j_id (jobs_table d)" active_owner lease_deadline
  by unfold_locales (rule renew_row renew_other_row; assumption)+

section \<open>Claims respect a deadline\<close>

lemma claim_keeps_leased:
  assumes k: "distinct_key j_id (jobs_table d)" and h: "active_owner d j = Some w"
    and u: "lease_deadline d j = Some u" "dt_wall now < u"
  shows "distinct_key j_id (jobs_table (snd (claim_due_jobs w' now until limit d)))"
    and "by_key j_id j (jobs_table (snd (claim_due_jobs w' now until limit d))) = by_key j_id j (jobs_table d)"
proof -
  let ?cs = "claim_candidates now limit (jobs_table d)"
  obtain r where r: "by_key j_id j (jobs_table d) = Some r" using h by (auto simp: active_owner_def split: option.splits)
  have "\<not> eligible now r"
    using h u r by (auto simp: active_owner_def lease_deadline_def eligible_def claimable_status_def
        split: option.splits if_splits)
  moreover have "c = r" if "c \<in> set ?cs" "j_id c = j" for c
    using that claim_candidates_sub [of c] by_key_member [OF k, of c] r by auto
  ultimately have "j \<notin> j_id ` set ?cs" using claim_candidates_sub by blast
  then show "by_key j_id j (jobs_table (snd (claim_due_jobs w' now until limit d))) = by_key j_id j (jobs_table d)"
    using by_key_SomeD [OF r] by (simp add: claim_due_jobs_eq [OF k] by_key_update r)
  show "distinct_key j_id (jobs_table (snd (claim_due_jobs w' now until limit d)))"
    using k by (simp add: claim_due_jobs_eq [OF k] distinct_key_update)
qed

lemma claim_all_keeps_leased:
  assumes "distinct_key j_id (jobs_table d)" and "active_owner d j = Some w" and "lease_deadline d j = Some u"
    and "\<And>who now until limit. (who, now, until, limit) \<in> set cs \<Longrightarrow> dt_wall now < u"
  shows "distinct_key j_id (jobs_table (claim_all cs d)) \<and> active_owner (claim_all cs d) j = Some w"
  using assms
proof (induction cs arbitrary: d)
  case (Cons c cs)
  obtain who now until limit where c: "c = (who, now, until, limit)" by (cases c) auto
  let ?d = "snd (claim_due_jobs who now until limit d)"
  have now: "dt_wall now < u" by (rule Cons.prems(4) [of who now until limit]) (simp add: c)
  note same = claim_keeps_leased [OF Cons.prems(1-3) now, of who until limit]
  have "active_owner ?d j = Some w" "lease_deadline ?d j = Some u"
    using Cons.prems(2,3) by (simp_all add: active_owner_def lease_deadline_def same)
  then have "distinct_key j_id (jobs_table (claim_all cs ?d)) \<and> active_owner (claim_all cs ?d) j = Some w"
    using Cons.prems(4) by (intro Cons.IH [OF same(1)]) auto
  then show ?case by (simp add: c)
qed simp

section \<open>Properties\<close>

text \<open>
  C6. A scheduler keeps the job it renews: while its thread renews a lease, other schedulers may
  claim as much as they like between two wake-ups, at any time before the last renewal runs out;
  the thread never finds the lease lost, and at the end the job is still its own.
\<close>

theorem renewed_lease_never_taken:
  assumes "new_active_job_lease try_renew_job_lease job_id lease_owner lease_seconds = Inr l"
    and "distinct_key j_id (jobs_table d)" and "active_owner d job_id = Some lease_owner"
    and "\<forall>w \<in> set wakes. \<exists>claims. wk_meanwhile w = claim_all claims \<and>
      (\<forall>(who, now, until, limit) \<in> set claims. dt_wall now < dt_wall (wk_now w) + seconds lease_seconds)"
  shows "fst (renew_loop l wakes d) \<noteq> LeaseLost \<and> active_owner (snd (renew_loop l wakes d)) job_id = Some lease_owner"
proof -
  have l: "jl_try_renew l = try_renew_job_lease" "jl_job_id l = job_id" "jl_lease_owner l = lease_owner"
    "jl_lease_seconds l = lease_seconds"
    using assms(1) by (auto simp: new_active_job_lease_def split: if_splits)
  have quiet: "distinct_key j_id (jobs_table (wk_meanwhile w s)) \<and> active_owner (wk_meanwhile w s) job_id = Some lease_owner"
    if mem: "w \<in> set wakes" and s: "distinct_key j_id (jobs_table s)" "active_owner s job_id = Some lease_owner"
      "lease_deadline s job_id = Some u" and u: "dt_wall (wk_now w) + seconds lease_seconds \<le> u" for w s u
  proof -
    obtain claims where c: "wk_meanwhile w = claim_all claims"
      "\<forall>(who, now, until, limit) \<in> set claims. dt_wall now < dt_wall (wk_now w) + seconds lease_seconds"
      using bspec [OF assms(4) mem] by (elim exE conjE)
    show ?thesis unfolding c(1)
    proof (rule claim_all_keeps_leased [OF s])
      fix who now until limit
      assume "(who, now, until, limit) \<in> set claims"
      from bspec [OF c(2) this] show "dt_wall now < u" using u by simp
    qed
  qed
  show ?thesis
    by (rule leases.loop_held [where l = l and ws = wakes and s = d, unfolded l, OF refl quiet assms(2,3)])
qed

definition leased_db :: db where
  "leased_db = snd (claim_due_jobs ''w1'' (utc 10) (utc 60000010) 1 two_jobs_db)"

theorem renewed_lease_never_taken_witness:
  "fst (renew_loop \<lparr>jl_try_renew = try_renew_job_lease, jl_job_id = ''b'', jl_lease_owner = ''w1'', jl_lease_seconds = 60,
       jl_renew_interval = 20\<rparr>
     [\<lparr>wk_stop = False, wk_now = utc 20, wk_meanwhile = claim_all [(''w2'', utc 59000000, utc 90000000, 5)]\<rparr>,
      \<lparr>wk_stop = False, wk_now = utc 59000001, wk_meanwhile = claim_all [(''w2'', utc 70000000, utc 90000000, 5)]\<rparr>]
     leased_db) \<noteq> LeaseLost"
  by (rule renewed_lease_never_taken [where job_id = "''b''" and lease_owner = "''w1''" and lease_seconds = 60, THEN conjunct1])
    (simp add: new_active_job_lease_def, code_simp, code_simp, simp add: seconds_def,
     intro conjI exI, rule refl, simp, rule refl, simp)

text \<open>
  Renewals are harmless once the job is no longer held, because it ended, was cancelled or was
  taken over: whatever the thread does from then on leaves the database as it is, and at its next
  wake-up the thread ends.
\<close>

theorem lost_lease_never_written:
  assumes "new_active_job_lease try_renew_job_lease job_id lease_owner lease_seconds = Inr l"
    and "distinct_key j_id (jobs_table d)" and "active_owner d job_id \<noteq> Some lease_owner"
  shows "snd (renew_loop l wakes d) = d \<and> (wakes \<noteq> [] \<longrightarrow> fst (renew_loop l wakes d) \<noteq> LeaseActive)"
proof -
  have "jl_try_renew l = try_renew_job_lease" "jl_job_id l = job_id" "jl_lease_owner l = lease_owner"
    using assms(1) by (auto simp: new_active_job_lease_def split: if_splits)
  then show ?thesis using leases.loop_lost [OF assms(2), of l wakes] assms(3) by simp
qed

theorem lost_lease_never_written_witness:
  "snd (renew_loop \<lparr>jl_try_renew = try_renew_job_lease, jl_job_id = ''a'', jl_lease_owner = ''w1'', jl_lease_seconds = 60,
       jl_renew_interval = 20\<rparr> [\<lparr>wk_stop = False, wk_now = utc 20, wk_meanwhile = (\<lambda>d. d)\<rparr>] leased_db) = leased_db"
  by (rule lost_lease_never_written [where job_id = "''a''" and lease_owner = "''w1''" and lease_seconds = 60, THEN conjunct1])
    (simp add: new_active_job_lease_def, code_simp, code_simp)

text \<open>
  A renewal is tried at least three times within a lease, and no more than ten times a second:
  for every number of seconds the constructor accepts, the interval is between a tenth of a second
  and thirty seconds, and at most a third of the lease. A number it does not accept raises.
\<close>

theorem renew_interval_bounds:
  "(case new_active_job_lease try_renew job_id lease_owner lease_seconds of
      Inl e \<Rightarrow> lease_seconds \<le> 0 \<and> e = Raise ValueError ''lease_seconds must be greater than zero''
    | Inr l \<Rightarrow> 0 < lease_seconds \<and> 1 / 10 \<le> jl_renew_interval l \<and> jl_renew_interval l \<le> 30 \<and>
        3 * jl_renew_interval l \<le> of_int lease_seconds)"
proof (cases "lease_seconds \<le> 0")
  case True
  then show ?thesis by (simp add: new_active_job_lease_def)
next
  case False
  then have "(1::rat) \<le> of_int lease_seconds" by simp
  then show ?thesis using False by (simp add: new_active_job_lease_def min_def max_def field_simps)
qed

end
