(* ===== verification/Validation.thy ===== *)
theory Validation
  imports Docker_Runtime Store_Admin
begin

text \<open>
  Contract validation of worker images: \<^verbatim>\<open>src/src/goblin_king/validation.py\<close>, the image operations of
  \<^verbatim>\<open>runtime.py\<close> and \<^verbatim>\<open>workers.py\<close>, and \<^verbatim>\<open>kubernetes_name\<close>. A worker is run once on a sample input and its
  result file is checked. What the code asks of the machine besides what a run asks (short docker
  commands, the file system, local time) is the parameter \<open>validation_host\<close>. Names are ASCII, as the
  kind pattern makes them. The theorems: a worker counts as valid only on the evidence the checks
  name, and the names made for Kubernetes and Docker are valid labels.
\<close>

section \<open>Names\<close>

definition is_alnum :: "char \<Rightarrow> bool" where
  "is_alnum c \<longleftrightarrow> (CHR ''a'' \<le> c \<and> c \<le> CHR ''z'') \<or> (CHR ''A'' \<le> c \<and> c \<le> CHR ''Z'') \<or> (CHR ''0'' \<le> c \<and> c \<le> CHR ''9'')"

fun split_dash :: "string \<Rightarrow> string list" where
  "split_dash [] = [[]]"
| "split_dash (c # s) =
     (if c = CHR ''-'' then [] # split_dash s
      else (case split_dash s of [] \<Rightarrow> [[c]] | p # ps \<Rightarrow> (c # p) # ps))"

fun join_dash :: "string list \<Rightarrow> string" where
  "join_dash [] = ''''"
| "join_dash [p] = p"
| "join_dash (p # ps) = p @ ''-'' @ join_dash ps"

definition strip_dash :: "string \<Rightarrow> string" where
  "strip_dash s = rev (dropWhile (\<lambda>c. c = CHR ''-'') (rev (dropWhile (\<lambda>c. c = CHR ''-'') s)))"

definition kubernetes_name :: "string \<Rightarrow> string" where
  "kubernetes_name value =
     (let lowered = map (\<lambda>c. if is_alnum c then c else CHR ''-'') (py_lower value);
          normalized = join_dash (filter (\<lambda>p. p \<noteq> '''') (split_dash lowered));
          name = strip_dash (take 63 normalized)
      in if name \<noteq> '''' then name else ''goblin-worker'')"

definition uuid_hex :: "string \<Rightarrow> string" where
  "uuid_hex u = filter (\<lambda>c. c \<noteq> CHR ''-'') u"

definition validation_job_id :: "string \<Rightarrow> ('r world, string) op" where
  "validation_job_id kind = bind uuid4 (\<lambda>u.
     let suffix = take 12 (uuid_hex u);
         base = kubernetes_name (''validation-'' @ kind);
         limit = 63 - length suffix - 1;
         stripped = strip_dash (take limit base);
         prefix = (if stripped \<noteq> '''' then stripped else ''validation'')
     in return (prefix @ ''-'' @ suffix))"

definition kubernetes_image_identity :: "string \<Rightarrow> string" where
  "kubernetes_image_identity img = ''kubernetes:'' @ img"

section \<open>The machine\<close>

text \<open>\<open>vh_command\<close> runs a process to its end: exit code, output and error output.\<close>

record 'r validation_host =
  vh_docker :: "'r docker_host"
  vh_command :: "string list \<Rightarrow> ('r world, int \<times> string \<times> string) op"
  vh_is_dir :: "path \<Rightarrow> ('r world, bool) op"
  vh_is_file :: "path \<Rightarrow> ('r world, bool) op"
  vh_exists :: "path \<Rightarrow> ('r world, bool) op"
  vh_read_envelope :: "path \<Rightarrow> ('r world, goblin_result) op"
  vh_temp_dir :: "('r world, path) op"
  vh_local_now :: "('r world, datetime) op"
  vh_iso_now :: "('r world, string) op"
  vh_cwd :: string

section \<open>Images\<close>

definition new_docker_runtime ::
  "(string \<Rightarrow> string option) \<Rightarrow> worker_image_map \<Rightarrow> string \<Rightarrow> string option \<Rightarrow> 'r event_bus option \<Rightarrow> 'r docker_runtime result" where
  "new_docker_runtime environ workers redis_url run_root bus =
     bind_result (resolve_docker_run_root environ run_root) (\<lambda>root.
     Inr \<lparr>dr_workers = workers, dr_redis_url = redis_url, dr_run_root = root, dr_docker_executable = ''docker'',
          dr_event_bus = bus, dr_heartbeat_interval_seconds = 5\<rparr>)"

definition workers_from_definitions ::
  "'r validation_host \<Rightarrow> (string \<times> worker_image_definition) list \<Rightarrow> worker_image_map" where
  "workers_from_definitions h workers =
     \<lparr>wm_workers = workers, wm_root = path_text (dh_resolve (vh_docker h) (path_of (vh_cwd h)))\<rparr>"

definition resolved_context :: "'r validation_host \<Rightarrow> worker_image_map \<Rightarrow> worker_image_definition \<Rightarrow> path" where
  "resolved_context h workers worker =
     (let context = path_of (wi_context worker) in
      if is_absolute context then context
      else dh_resolve (vh_docker h) (path_join (path_of (wm_root workers)) context))"

definition build_image :: "'r validation_host \<Rightarrow> 'r docker_runtime \<Rightarrow> string \<Rightarrow> ('r world, unit) op" where
  "build_image h rt kind =
     bind (lift_result (workers_get (dr_workers rt) kind)) (\<lambda>worker.
     let context = resolved_context h (dr_workers rt) worker;
         dockerfile = path_join context (path_of (wi_dockerfile worker)) in
     bind (vh_exists h context) (\<lambda>context_exists.
     if \<not> context_exists
     then throw (Raise WorkerConfigError (''worker context does not exist for '' @ py_repr kind @ '': '' @ path_text context))
     else bind (vh_exists h dockerfile) (\<lambda>dockerfile_exists.
     if \<not> dockerfile_exists
     then throw (Raise WorkerConfigError (''worker Dockerfile does not exist for '' @ py_repr kind @ '': '' @ path_text dockerfile))
     else bind (vh_command h [dr_docker_executable rt, ''build'', ''-t'', wi_image worker, ''-f'', path_text dockerfile,
                  path_text context]) (\<lambda>(code, out, err).
     if code \<noteq> 0
     then throw (Raise WorkerConfigError (''failed to build worker image for '' @ py_repr kind @ '': '' @ py_strip err))
     else return ()))))"

definition inspect_image_identity ::
  "'r validation_host \<Rightarrow> string \<Rightarrow> string \<Rightarrow> ('r world, string option \<times> string option) op" where
  "inspect_image_identity h docker_executable img =
     bind (vh_command h [docker_executable, ''image'', ''inspect'', img, ''--format'', ''{{.Id}}'']) (\<lambda>(code, out, err).
     if code = 0
     then return (if py_strip out \<noteq> '''' then Some (py_strip out) else None, None)
     else return (None, Some (''worker image unavailable: '' @ img @ ''; '' @
            (if py_strip err \<noteq> '''' then py_strip err else py_strip out))))"

section \<open>Validation results\<close>

definition VALIDATOR_VERSION :: string where
  "VALIDATOR_VERSION = ''goblin-king-validator/v1''"

record worker_validation_result =
  vr_kind :: string
  vr_ok :: bool
  vr_image :: "string option"
  vr_image_digest :: "string option"
  vr_contract_version :: string
  vr_validator_version :: string
  vr_validated_at :: "datetime option"
  vr_result_status :: "result_status option"
  vr_result_file :: "string option"
  vr_artifact_count :: int
  vr_error :: "string option"
  vr_checks :: "string list"

text \<open>The defaults of the fields a caller leaves out.\<close>

definition validation_result :: "string \<Rightarrow> bool \<Rightarrow> string list \<Rightarrow> worker_validation_result" where
  "validation_result kind ok checks =
     \<lparr>vr_kind = kind, vr_ok = ok, vr_image = None, vr_image_digest = None,
      vr_contract_version = GOBLIN_CONTAINER_CONTRACT_VERSION, vr_validator_version = VALIDATOR_VERSION,
      vr_validated_at = None, vr_result_status = None, vr_result_file = None, vr_artifact_count = 0,
      vr_error = None, vr_checks = checks\<rparr>"

definition or_else :: "string option \<Rightarrow> string \<Rightarrow> string" where
  "or_else t d = (if truthy_text t then the t else d)"

definition validation_record ::
  "'r validation_host \<Rightarrow> worker_validation_result \<Rightarrow> json option \<Rightarrow> ('r world, worker_validation_record) op" where
  "validation_record h r effective_policy =
     bind uuid4 (\<lambda>i.
     bind (case vr_validated_at r of Some t \<Rightarrow> return t | None \<Rightarrow> vh_local_now h) (\<lambda>validated_at.
     return \<lparr>wv_id = i, wv_kind = vr_kind r, wv_image = or_else (vr_image r) '''',
             wv_image_digest = or_else (vr_image_digest r) '''', wv_contract_version = vr_contract_version r,
             wv_validator_version = vr_validator_version r, wv_validated_at = validated_at,
             wv_status = (if vr_ok r then ValPassed else ValFailed),
             wv_failure_reasons = (if vr_ok r then [] else [or_else (vr_error r) ''validation failed'']),
             wv_effective_policy = or_empty effective_policy\<rparr>))"

fun join_lines :: "string list \<Rightarrow> string" where
  "join_lines [] = ''''"
| "join_lines [l] = l"
| "join_lines (l # ls) = l @ [CHR 0x0A] @ join_lines ls"

datatype validation_runtime = ValidateDocker | ValidateKubernetes

record gate_error =
  ge_kind :: string
  ge_image :: "string option"
  ge_reason :: string
  ge_image_digest :: "string option"
  ge_stale_from_digest :: "string option"
  ge_contract_version :: string
  ge_validator_version :: string
  ge_runtime :: validation_runtime

definition gate_error_of :: "string \<Rightarrow> string option \<Rightarrow> string \<Rightarrow> validation_runtime \<Rightarrow> gate_error" where
  "gate_error_of kind img reason runtime =
     \<lparr>ge_kind = kind, ge_image = img, ge_reason = reason, ge_image_digest = None, ge_stale_from_digest = None,
      ge_contract_version = GOBLIN_CONTAINER_CONTRACT_VERSION, ge_validator_version = VALIDATOR_VERSION,
      ge_runtime = runtime\<rparr>"

definition format_validation_gate_error :: "gate_error \<Rightarrow> string" where
  "format_validation_gate_error g = join_lines
     ([''Goblin image failed contract validation and cannot be run by default.'',
       ''Kind: '' @ ge_kind g,
       ''Image: '' @ or_else (ge_image g) ''<unknown>'',
       ''Image digest: '' @ or_else (ge_image_digest g) ''<unresolved>'',
       ''Contract version: '' @ ge_contract_version g,
       ''Validator version: '' @ ge_validator_version g] @
      (if truthy_text (ge_stale_from_digest g)
       then [''Previous validation digest: '' @ the (ge_stale_from_digest g)] else []) @
      [''Reason: '' @ ge_reason g,
       ''Validate first, then schedule.'',
       ''Revalidate with: '' @
         (case ge_runtime g of
            ValidateKubernetes \<Rightarrow> ''goblin-king workers validate --runtime kubernetes --kind '' @ ge_kind g @
              '' --input <input-json> --require-success''
          | ValidateDocker \<Rightarrow> ''goblin-king workers validate --kind '' @ ge_kind g @
              '' --input <input-json> --build --require-success'')])"

datatype validation_state = StateUnknown | StateStale | StateValidated | StateFailed

definition validation_state_of :: "string option \<Rightarrow> worker_validation_record option \<Rightarrow> validation_state" where
  "validation_state_of worker_image validation =
     (case validation of None \<Rightarrow> StateUnknown
      | Some v \<Rightarrow>
          if worker_image \<noteq> None \<and> wv_image v \<noteq> '''' \<and> Some (wv_image v) \<noteq> worker_image then StateStale
          else if wv_status v = ValPassed then StateValidated else StateFailed)"

fun join_reasons :: "string list \<Rightarrow> string" where
  "join_reasons [] = ''''"
| "join_reasons [r] = r"
| "join_reasons (r # rs) = r @ ''; '' @ join_reasons rs"

text \<open>\<open>isoformat\<close> is \<^verbatim>\<open>datetime.isoformat\<close>.\<close>

definition validation_status_payload ::
  "(datetime \<Rightarrow> string) \<Rightarrow> string option \<Rightarrow> worker_validation_record option \<Rightarrow> json" where
  "validation_status_payload isoformat worker_image validation =
     (case validation of
        None \<Rightarrow> JObj [(''state'', JStr ''unknown''),
                  (''message'', JStr ''No validation proof has been recorded. Validate first, then schedule.'')]
      | Some v \<Rightarrow>
          let (state, message) =
            (case validation_state_of worker_image validation of
               StateStale \<Rightarrow> (''stale'', ''Latest validation proof was recorded for a different configured image.'')
             | StateValidated \<Rightarrow> (''validated'', ''Latest validation proof passed for this configured image.'')
             | _ \<Rightarrow> (''failed'', if join_reasons (wv_failure_reasons v) \<noteq> '''' then join_reasons (wv_failure_reasons v)
                               else ''Latest validation failed.''))
          in JObj [(''state'', JStr state), (''message'', JStr message), (''image'', JStr (wv_image v)),
                   (''image_digest'', JStr (wv_image_digest v)), (''contract_version'', JStr (wv_contract_version v)),
                   (''validator_version'', JStr (wv_validator_version v)),
                   (''validated_at'', JStr (isoformat (wv_validated_at v))),
                   (''failure_reasons'', JArr (map JStr (wv_failure_reasons v)))])"

section \<open>Validating one worker\<close>

abbreviation validation_failure ::
  "string \<Rightarrow> string list \<Rightarrow> string option \<Rightarrow> datetime option \<Rightarrow> string \<Rightarrow> worker_validation_result" where
  "validation_failure kind checks img at message \<equiv>
     (validation_result kind False checks)\<lparr>vr_image := img, vr_validated_at := at, vr_error := Some message\<rparr>"

abbreviation is_worker_config_error :: "error \<Rightarrow> bool" where
  "is_worker_config_error e \<equiv> error_class e = WorkerConfigError"

definition config_failure :: "'r validation_host \<Rightarrow> string \<Rightarrow> string list \<Rightarrow> error \<Rightarrow> ('r world, worker_validation_result) op" where
  "config_failure h kind checks e = bind (vh_local_now h) (\<lambda>now.
     return (validation_failure kind checks None (Some now) (error_message e)))"

text \<open>
  The image part of \<^verbatim>\<open>_validate_one\<close>: a result to return at once, or the worker, its image identity
  and the checks passed so far.
\<close>

definition inspect_worker ::
  "'r validation_host \<Rightarrow> 'r docker_runtime \<Rightarrow> string \<Rightarrow> worker_image_definition \<Rightarrow> string list \<Rightarrow> string list \<Rightarrow>
   ('r world, worker_validation_result + worker_image_definition \<times> string option \<times> string list) op" where
  "inspect_worker h rt kind worker checks passed =
     bind (inspect_image_identity h (dr_docker_executable rt) (wi_image worker)) (\<lambda>(image_digest, image_error).
     case image_error of
       Some m \<Rightarrow> bind (vh_local_now h) (\<lambda>now.
         return (Inl (validation_failure kind checks (Some (wi_image worker)) (Some now) m)))
     | None \<Rightarrow> return (Inr (worker, image_digest, passed)))"

definition prepare_image ::
  "'r validation_host \<Rightarrow> 'r docker_runtime \<Rightarrow> worker_image_map \<Rightarrow> string \<Rightarrow> bool \<Rightarrow> bool \<Rightarrow>
   ('r world, worker_validation_result + worker_image_definition \<times> string option \<times> string list) op" where
  "prepare_image h rt workers kind build prebuilt_image =
     (case workers_get workers kind of
        Inl e \<Rightarrow> if is_worker_config_error e then bind (config_failure h kind [] e) (\<lambda>r. return (Inl r)) else throw e
      | Inr worker \<Rightarrow>
          if prebuilt_image then inspect_worker h rt kind worker [] [''image'']
          else
            let context_path = resolved_context h workers worker;
                dockerfile = path_join context_path (path_of (wi_dockerfile worker)) in
            bind (vh_is_dir h context_path) (\<lambda>context_ok.
            if \<not> context_ok
            then return (Inl (validation_failure kind [] (Some (wi_image worker)) None
                   (''worker context missing: '' @ path_text context_path)))
            else bind (vh_is_file h dockerfile) (\<lambda>dockerfile_ok.
            if \<not> dockerfile_ok
            then return (Inl (validation_failure kind [''context''] (Some (wi_image worker)) None
                   (''worker Dockerfile missing: '' @ path_text dockerfile)))
            else if build
            then bind (catching is_worker_config_error (build_image h rt kind)) (\<lambda>built.
                 case built of
                   Inl e \<Rightarrow> bind (config_failure h kind [''context'', ''dockerfile''] e) (\<lambda>r. return (Inl r))
                 | Inr () \<Rightarrow> inspect_worker h rt kind worker [''context'', ''dockerfile'', ''build'']
                     [''context'', ''dockerfile'', ''build''])
            else inspect_worker h rt kind worker [''context'', ''dockerfile''] [''context'', ''dockerfile''])))"

definition container_only_definition :: "string \<Rightarrow> goblin_definition result" where
  "container_only_definition kind = new_goblin_definition
     \<lparr>gd_kind = kind, gd_display_name = kind, gd_module = ''container.only'', gd_entrypoint = ''run'',
      gd_timeout_seconds = None, gd_max_retries = None, gd_metadata = JObj []\<rparr>"

definition missing_artifacts :: "'r validation_host \<Rightarrow> string \<Rightarrow> artifact_record list \<Rightarrow> ('r world, string list) op" where
  "missing_artifacts h artifact_root artifacts =
     bind (for_each (\<lambda>a.
       if take 11 (art_uri a) = ''artifact://''
       then bind (vh_exists h (path_join (path_of artifact_root) (path_of (art_name a)))) (\<lambda>there.
            return (if there then [] else [art_name a]))
       else return []) artifacts) (\<lambda>names. return (concat names))"

definition parsed_checks :: "string list \<Rightarrow> goblin_result \<Rightarrow> string list" where
  "parsed_checks checks parsed = checks @ [''result-envelope''] @
     (if json_truthy (res_metrics parsed) then [''metrics''] else []) @
     (if res_handoff parsed \<noteq> [] then [''handoff''] else [])"

fun join_comma :: "string list \<Rightarrow> string" where
  "join_comma [] = ''''"
| "join_comma [n] = n"
| "join_comma (n # ns) = n @ '', '' @ join_comma ns"

text \<open>The part of \<^verbatim>\<open>_validate_one\<close> after the envelope is parsed; \<open>base\<close> has the fields its results share.\<close>

definition judge_envelope ::
  "'r validation_host \<Rightarrow> worker_validation_result \<Rightarrow> string \<Rightarrow> goblin_result \<Rightarrow> bool \<Rightarrow> ('r world, worker_validation_result) op" where
  "judge_envelope h base artifact_root parsed require_success =
     bind (missing_artifacts h artifact_root (res_artifacts parsed)) (\<lambda>missing.
     bind (vh_local_now h) (\<lambda>now.
     let r = base\<lparr>vr_validated_at := Some now, vr_result_status := Some (res_status parsed),
                  vr_artifact_count := int (length (res_artifacts parsed))\<rparr>;
         complete = vr_checks base @ [''artifacts''] in
     if missing \<noteq> []
     then return (r\<lparr>vr_error := Some (''artifact metadata points to missing files: '' @ join_comma missing)\<rparr>)
     else if require_success \<and> res_status parsed \<noteq> ResSuccess
     then return (r\<lparr>vr_error := Some (or_else (res_error parsed) ''worker returned failed status''), vr_checks := complete\<rparr>)
     else return (r\<lparr>vr_ok := True, vr_checks := complete\<rparr>)))"

definition validate_result_file ::
  "'r validation_host \<Rightarrow> worker_validation_result \<Rightarrow> path \<Rightarrow> string \<Rightarrow> goblin_result \<Rightarrow> bool \<Rightarrow>
   ('r world, worker_validation_result) op" where
  "validate_result_file h base result_file artifact_root result require_success =
     bind (vh_is_file h result_file) (\<lambda>there.
     if \<not> there
     then bind (vh_local_now h) (\<lambda>now.
          return (base\<lparr>vr_validated_at := Some now, vr_result_status := Some (res_status result),
                       vr_error := Some (or_else (res_error result) ''worker did not write result.json'')\<rparr>))
     else
       let base' = base\<lparr>vr_result_file := Some (path_text result_file), vr_checks := vr_checks base @ [''result-file'']\<rparr> in
       bind (catching (\<lambda>_. True) (vh_read_envelope h result_file)) (\<lambda>outcome.
       case outcome of
         Inl e \<Rightarrow> bind (vh_local_now h) (\<lambda>now.
           return (base'\<lparr>vr_validated_at := Some now, vr_error := Some (''result envelope invalid: '' @ error_message e)\<rparr>))
       | Inr parsed \<Rightarrow>
           judge_envelope h (base'\<lparr>vr_checks := parsed_checks (vr_checks base') parsed\<rparr>) artifact_root parsed require_success))"

definition validate_run ::
  "'r validation_host \<Rightarrow> 'r docker_runtime \<Rightarrow> string \<Rightarrow> json \<Rightarrow> bool \<Rightarrow> int option \<Rightarrow> worker_image_definition \<Rightarrow> string option \<Rightarrow>
   string list \<Rightarrow> ('r world, worker_validation_result) op" where
  "validate_run h rt kind input_payload require_success timeout_seconds worker image_digest checks =
     bind (validation_job_id kind) (\<lambda>job_id.
     bind (vh_iso_now h) (\<lambda>iso_now.
     bind (new_run_context iso_now job_id kind 1) (\<lambda>context0.
     let artifact_root = path_text (path_join (path_join (path_parent (dr_run_root rt)) (path_of ''artifacts''))
                           (path_of (ctx_run_id context0)));
         context = context0\<lparr>ctx_artifact_root := artifact_root\<rparr> in
     bind (lift_result (container_only_definition kind)) (\<lambda>definition.
     bind (docker_run (vh_docker h) rt definition input_payload context timeout_seconds None) (\<lambda>result.
     validate_result_file h
       ((validation_result kind False checks)\<lparr>vr_image := Some (wi_image worker), vr_image_digest := image_digest\<rparr>)
       (path_join (path_join (dr_run_root rt) (path_of (ctx_run_id context))) (path_of ''result.json''))
       artifact_root result require_success)))))"

definition validate_one ::
  "'r validation_host \<Rightarrow> 'r docker_runtime \<Rightarrow> worker_image_map \<Rightarrow> string \<Rightarrow> json \<Rightarrow> bool \<Rightarrow> bool \<Rightarrow> bool \<Rightarrow> int option \<Rightarrow>
   ('r world, worker_validation_result) op" where
  "validate_one h rt workers kind input_payload build require_success prebuilt_image timeout_seconds =
     bind (prepare_image h rt workers kind build prebuilt_image) (\<lambda>prepared.
     case prepared of
       Inl early \<Rightarrow> return early
     | Inr (worker, image_digest, checks) \<Rightarrow>
         validate_run h rt kind input_payload require_success timeout_seconds worker image_digest checks)"

section \<open>Validating workers\<close>

record validation_args =
  va_input :: json
  va_kinds :: "string list"
  va_build :: bool
  va_require_success :: bool
  va_prebuilt_image :: bool
  va_timeout_seconds :: "int option"
  va_redis_url :: string
  va_run_root :: "string option"

definition validate_workers ::
  "'r validation_host \<Rightarrow> goblin_registry \<Rightarrow> worker_image_map \<Rightarrow> validation_args \<Rightarrow> ('r world, worker_validation_result list) op" where
  "validate_workers h registry workers args =
     (let definitions = (if va_kinds args = [] then registry_list registry
            else filter (\<lambda>d. gd_kind d \<in> set (va_kinds args)) (registry_list registry));
          missing = sort (remdups (filter (\<lambda>k. k \<notin> gd_kind ` set definitions) (va_kinds args)));
          unknown = map (\<lambda>k. (validation_result k False [])\<lparr>vr_error := Some (''unknown goblin kind: '' @ k)\<rparr>) missing;
          environ = dh_environ (vh_docker h) in
      bind (vh_temp_dir h) (\<lambda>root.
      let configured = configured_docker_run_root environ (va_run_root args);
          effective_run_root =
            (if configured = None \<and> \<not> truthy_text (environ ''GOBLIN_KING_DOCKER_DATA_VOLUME'')
             then Some (path_join root (path_of ''runs'')) else configured) in
      bind (lift_result (new_docker_runtime environ workers (va_redis_url args)
             (map_option path_text effective_run_root) None)) (\<lambda>rt.
      bind (for_each (\<lambda>d. validate_one h rt workers (gd_kind d) (va_input args) (va_build args)
             (va_require_success args) (va_prebuilt_image args) (va_timeout_seconds args)) definitions) (\<lambda>results.
      return (unknown @ results)))))"

section \<open>Names are labels\<close>

text \<open>A DNS label as Kubernetes defines it.\<close>

definition lower_alnum :: "char \<Rightarrow> bool" where
  "lower_alnum c \<longleftrightarrow> (CHR ''a'' \<le> c \<and> c \<le> CHR ''z'') \<or> (CHR ''0'' \<le> c \<and> c \<le> CHR ''9'')"

definition is_dns_label :: "string \<Rightarrow> bool" where
  "is_dns_label s \<longleftrightarrow> s \<noteq> '''' \<and> length s \<le> 63 \<and> (\<forall>c \<in> set s. lower_alnum c \<or> c = CHR ''-'') \<and>
     hd s \<noteq> CHR ''-'' \<and> last s \<noteq> CHR ''-''"

lemma strip_dash_sub: "set (strip_dash s) \<subseteq> set s"
  unfolding strip_dash_def by (auto dest!: set_dropWhileD)

lemma strip_dash_length: "length (strip_dash s) \<le> length s"
  unfolding strip_dash_def
  using length_dropWhile_le [of "\<lambda>c. c = CHR ''-''" s]
    length_dropWhile_le [of "\<lambda>c. c = CHR ''-''" "rev (dropWhile (\<lambda>c. c = CHR ''-'') s)"]
  by simp

lemma strip_dash_ends:
  assumes "strip_dash s \<noteq> ''''"
  shows "hd (strip_dash s) \<noteq> CHR ''-''" and "last (strip_dash s) \<noteq> CHR ''-''"
proof -
  let ?P = "\<lambda>c. c = CHR ''-''"
  let ?t = "dropWhile ?P s"
  have last: "dropWhile ?P (rev ?t) \<noteq> []" using assms by (simp add: strip_dash_def)
  show "last (strip_dash s) \<noteq> CHR ''-''"
    using hd_dropWhile [OF last] last by (simp add: strip_dash_def last_rev)
  have t: "?t = rev (dropWhile ?P (rev ?t)) @ rev (takeWhile ?P (rev ?t))"
    by (metis rev_append rev_rev_ident takeWhile_dropWhile_id)
  have "hd ?t = hd (rev (dropWhile ?P (rev ?t)) @ rev (takeWhile ?P (rev ?t)))" by (rule arg_cong [OF t])
  also have "\<dots> = hd (rev (dropWhile ?P (rev ?t)))" by (rule hd_append2) (unfold rev_is_Nil_conv, rule last)
  finally have "hd ?t = hd (strip_dash s)" by (simp only: strip_dash_def)
  moreover have "?t \<noteq> []" using last by (metis dropWhile.simps(1) rev.simps(1))
  ultimately show "hd (strip_dash s) \<noteq> CHR ''-''" using hd_dropWhile [of ?P s] by argo
qed

lemma set_split_dash: "p \<in> set (split_dash s) \<Longrightarrow> set p \<subseteq> set s"
proof (induction s arbitrary: p)
  case (Cons c s)
  have "\<forall>q \<in> set (split_dash s). set q \<subseteq> set s" using Cons.IH by blast
  then show ?case using Cons.prems by (cases "split_dash s") (auto split: if_splits)
qed simp

lemma set_join_dash: "set (join_dash ps) \<subseteq> insert (CHR ''-'') (\<Union> (set ` set ps))"
  by (induction ps rule: join_dash.induct) auto

lemma lowered_alnum: "c \<in> set (py_lower v) \<Longrightarrow> is_alnum c \<Longrightarrow> lower_alnum c"
proof -
  assume "c \<in> set (py_lower v)" and c: "is_alnum c"
  then obtain x where x: "c = lower_char x" by (auto simp: py_lower_def)
  show "lower_alnum c"
  proof (cases "CHR ''A'' \<le> x \<and> x \<le> CHR ''Z''")
    case True
    then have n: "(65::nat) \<le> of_char x" "(of_char x :: nat) \<le> 90" by (simp_all add: less_eq_char_def)
    then have "(of_char c :: nat) = of_char x + 32" using True by (simp add: x lower_char_def)
    then show ?thesis using n by (simp add: lower_alnum_def less_eq_char_def)
  next
    case False
    then show ?thesis using c x by (auto simp: lower_char_def is_alnum_def lower_alnum_def)
  qed
qed

lemma kubernetes_name_chars: "c \<in> set (kubernetes_name v) \<Longrightarrow> lower_alnum c \<or> c = CHR ''-''"
proof -
  let ?low = "map (\<lambda>c. if is_alnum c then c else CHR ''-'') (py_lower v)"
  have low: "lower_alnum c \<or> c = CHR ''-''" if "c \<in> set ?low" for c
    using that lowered_alnum by (auto split: if_splits)
  have "set (join_dash (filter (\<lambda>p. p \<noteq> '''') (split_dash ?low))) \<subseteq> insert (CHR ''-'') (set ?low)"
    using set_join_dash [of "filter (\<lambda>p. p \<noteq> '''') (split_dash ?low)"] set_split_dash [of _ ?low] by fastforce
  then have "lower_alnum c \<or> c = CHR ''-''"
    if "c \<in> set (strip_dash (take 63 (join_dash (filter (\<lambda>p. p \<noteq> '''') (split_dash ?low)))))" for c
    using that strip_dash_sub low by (meson in_set_takeD insertE subsetD)
  moreover have "lower_alnum c \<or> c = CHR ''-''" if "c \<in> set ''goblin-worker''" for c
    using that by (auto simp: lower_alnum_def less_eq_char_def of_char_Char)
  ultimately show "c \<in> set (kubernetes_name v) \<Longrightarrow> lower_alnum c \<or> c = CHR ''-''"
    unfolding kubernetes_name_def Let_def by (simp only: split: if_splits)
qed

section \<open>What a passed validation rests on\<close>

text \<open>What an operation can have returned, in some world.\<close>

definition seen :: "('s \<Rightarrow> 'a result \<times> 's) \<Rightarrow> 'a \<Rightarrow> bool" where
  "seen m a \<longleftrightarrow> (\<exists>w w'. m w = (Inr a, w'))"

lemma yields_seen: "yields (seen m) m"
  by (auto simp: yields_def seen_def)

lemma yields_mono: "yields P m \<Longrightarrow> (\<And>a. P a \<Longrightarrow> Q a) \<Longrightarrow> yields Q m"
  by (auto simp: yields_def)

lemma yields_catching: "yields (\<lambda>r. \<forall>a. r = Inr a \<longrightarrow> seen m a) (catching P m)"
  by (auto simp: yields_def catching_def seen_def split: prod.splits sum.splits if_splits)

text \<open>
  The evidence read from a world: the run wrote its result file, the file held an envelope, every
  artifact the envelope names by an \<^verbatim>\<open>artifact://\<close> URI was found below the artifact root, and the
  reported status is the envelope's, a success where one is required. Every reading happens in the
  world the one before it left.
\<close>

definition artifact_there :: "'r validation_host \<Rightarrow> string \<Rightarrow> artifact_record \<Rightarrow> 'r world \<Rightarrow> 'r world \<Rightarrow> bool" where
  "artifact_there h artifact_root a w w' \<longleftrightarrow>
     (if take 11 (art_uri a) = ''artifact://''
      then vh_exists h (path_join (path_of artifact_root) (path_of (art_name a))) w = (Inr True, w') else w' = w)"

fun artifacts_there :: "'r validation_host \<Rightarrow> string \<Rightarrow> artifact_record list \<Rightarrow> 'r world \<Rightarrow> 'r world \<Rightarrow> bool" where
  "artifacts_there h artifact_root [] w w' \<longleftrightarrow> w' = w"
| "artifacts_there h artifact_root (a # as) w w' \<longleftrightarrow>
     (\<exists>v. artifact_there h artifact_root a w v \<and> artifacts_there h artifact_root as v w')"

definition evidence ::
  "'r validation_host \<Rightarrow> path \<Rightarrow> string \<Rightarrow> bool \<Rightarrow> worker_validation_result \<Rightarrow> 'r world \<Rightarrow> bool" where
  "evidence h result_file artifact_root require_success r w \<longleftrightarrow> (\<exists>parsed w1 w2 w3.
     vh_is_file h result_file w = (Inr True, w1) \<and> vh_read_envelope h result_file w1 = (Inr parsed, w2) \<and>
     artifacts_there h artifact_root (res_artifacts parsed) w2 w3 \<and>
     vr_result_status r = Some (res_status parsed) \<and> (require_success \<longrightarrow> res_status parsed = ResSuccess))"

lemma catching_all_Inr: "catching (\<lambda>_. True) m w = (Inr (Inr a), w') \<longleftrightarrow> m w = (Inr a, w')"
  by (auto simp: catching_def split: prod.splits sum.splits)

lemma none_missing: "missing_artifacts h root as w = (Inr [], w') \<Longrightarrow> artifacts_there h root as w w'"
proof (induction as arbitrary: w)
  case (Cons a as)
  let ?one = "\<lambda>a. if take 11 (art_uri a) = ''artifact://''
       then bind (vh_exists h (path_join (path_of root) (path_of (art_name a)))) (\<lambda>there. return (if there then [] else [art_name a]))
       else return []"
  obtain x xs v where one: "?one a w = (Inr x, v)" and rest: "for_each ?one as v = (Inr xs, w')" and "x = []" "concat xs = []"
    using Cons.prems by (auto simp: missing_artifacts_def bind_Inr_iff return_eq)
  then have "missing_artifacts h root as v = (Inr [], w')" by (simp add: missing_artifacts_def bind_def return_eq)
  from Cons.IH [OF this] show ?case
    using one \<open>x = []\<close> by (auto simp: artifact_there_def bind_Inr_iff return_eq split: if_splits)
qed (simp add: missing_artifacts_def bind_def return_eq)

lemma judged_ok:
  assumes "judge_envelope h base root parsed req w = (Inr r, w')" and "vr_ok r" and "\<not> vr_ok base"
  shows "(\<exists>v. artifacts_there h root (res_artifacts parsed) w v) \<and> vr_result_status r = Some (res_status parsed) \<and>
    (req \<longrightarrow> res_status parsed = ResSuccess) \<and> vr_kind r = vr_kind base \<and> vr_image r = vr_image base"
proof -
  obtain missing v now u where missing: "missing_artifacts h root (res_artifacts parsed) w = (Inr missing, v)"
    and now: "vh_local_now h v = (Inr now, u)"
    using assms(1) unfolding judge_envelope_def bind_Inr_iff by blast
  have run: "judge_envelope h base root parsed req w =
      (let r = base\<lparr>vr_validated_at := Some now, vr_result_status := Some (res_status parsed),
                  vr_artifact_count := int (length (res_artifacts parsed))\<rparr>;
         complete = vr_checks base @ [''artifacts''] in
       if missing \<noteq> []
       then return (r\<lparr>vr_error := Some (''artifact metadata points to missing files: '' @ join_comma missing)\<rparr>)
       else if req \<and> res_status parsed \<noteq> ResSuccess
       then return (r\<lparr>vr_error := Some (or_else (res_error parsed) ''worker returned failed status''), vr_checks := complete\<rparr>)
       else return (r\<lparr>vr_ok := True, vr_checks := complete\<rparr>)) u"
    by (simp add: judge_envelope_def bind_def missing now)
  have "missing = []" using assms unfolding run Let_def return_eq by (auto split: if_splits)
  moreover have "req \<longrightarrow> res_status parsed = ResSuccess"
    using assms \<open>missing = []\<close> unfolding run Let_def return_eq by (auto split: if_splits)
  moreover have "artifacts_there h root (res_artifacts parsed) w v" using none_missing missing \<open>missing = []\<close> by blast
  ultimately show ?thesis using assms unfolding run Let_def return_eq by auto
qed

lemma result_file_evidence:
  assumes "validate_result_file h base file root result req w = (Inr r, w')" and "vr_ok r" and "\<not> vr_ok base"
  shows "evidence h file root req r w \<and> vr_kind r = vr_kind base \<and> vr_image r = vr_image base"
proof -
  obtain there w1 where there: "vh_is_file h file w = (Inr there, w1)"
    using assms(1) unfolding validate_result_file_def bind_Inr_iff by blast
  let ?base = "base\<lparr>vr_result_file := Some (path_text file), vr_checks := vr_checks base @ [''result-file'']\<rparr>"
  have "there"
    using assms there by (cases there) (auto simp: validate_result_file_def bind_Inr_iff return_eq)
  then have "validate_result_file h base file root result req w =
      bind (catching (\<lambda>_. True) (vh_read_envelope h file)) (\<lambda>outcome. case outcome of
         Inl e \<Rightarrow> bind (vh_local_now h) (\<lambda>now.
           return (?base\<lparr>vr_validated_at := Some now, vr_error := Some (''result envelope invalid: '' @ error_message e)\<rparr>))
       | Inr p \<Rightarrow> judge_envelope h (?base\<lparr>vr_checks := parsed_checks (vr_checks ?base) p\<rparr>) root p req) w1"
    unfolding validate_result_file_def Let_def
    by (subst bind_Inr [where m = "vh_is_file h file", OF there]) (simp only: simp_thms if_False)
  from trans [OF this [symmetric] assms(1), unfolded bind_Inr_iff] obtain outcome w2 where
    read: "catching (\<lambda>_. True) (vh_read_envelope h file) w1 = (Inr outcome, w2)"
    and rest: "(case outcome of
         Inl e \<Rightarrow> bind (vh_local_now h) (\<lambda>now.
           return (?base\<lparr>vr_validated_at := Some now, vr_error := Some (''result envelope invalid: '' @ error_message e)\<rparr>))
       | Inr p \<Rightarrow> judge_envelope h (?base\<lparr>vr_checks := parsed_checks (vr_checks ?base) p\<rparr>) root p req) w2 = (Inr r, w')"
    by (elim exE conjE)
  obtain parsed where parsed: "outcome = Inr parsed"
    using rest assms(2,3) by (cases outcome) (auto simp: bind_Inr_iff return_eq)
  have "judge_envelope h (?base\<lparr>vr_checks := parsed_checks (vr_checks ?base) parsed\<rparr>) root parsed req w2 = (Inr r, w')"
    using rest by (simp add: parsed)
  from judged_ok [OF this assms(2)] show ?thesis
    using assms(3) there \<open>there\<close> read unfolding evidence_def parsed catching_all_Inr by auto
qed

definition prepared_ok :: "worker_image_map \<Rightarrow> string \<Rightarrow> worker_validation_result + worker_image_definition \<times> string option \<times> string list \<Rightarrow> bool" where
  "prepared_ok workers kind x \<longleftrightarrow>
     (case x of Inl r \<Rightarrow> \<not> vr_ok r | Inr (worker, digest, checks) \<Rightarrow> workers_get workers kind = Inr worker)"

lemma yields_prepare: "yields (prepared_ok workers kind) (prepare_image h rt workers kind build prebuilt)"
proof -
  have fail: "yields (prepared_ok workers kind) (bind (config_failure h kind c e) (\<lambda>r. return (Inl r)))" for c e
    unfolding config_failure_def
    by (rule yields_bind [where R = "\<lambda>r. \<not> vr_ok r"]) (auto simp: prepared_ok_def validation_result_def intro!: yields_bind_any)
  show ?thesis
  proof (cases "workers_get workers kind")
    case (Inl e)
    then show ?thesis using fail by (simp add: prepare_image_def)
  next
    case (Inr worker)
    then have inspect: "yields (prepared_ok workers kind) (inspect_worker h rt kind worker c p)" for c p
      unfolding inspect_worker_def case_prod_unfold
      by (auto split: option.split simp: prepared_ok_def validation_result_def intro!: yields_bind_any)
    have early: "prepared_ok workers kind (Inl (validation_failure kind c i t m))" for c i t m
      by (simp add: prepared_ok_def validation_result_def)
    show ?thesis unfolding prepare_image_def Let_def Inr sum.case
      by (auto simp: inspect fail early split: sum.split unit.split intro!: yields_bind_any)
  qed
qed

section \<open>Properties\<close>


definition valid_host :: "unit validation_host" where
  "valid_host = \<lparr>vh_docker = working_host, vh_command = (\<lambda>_. return (0, ''sha256:1'', '''')), vh_is_dir = (\<lambda>_. return True),
     vh_is_file = (\<lambda>_. return True), vh_exists = (\<lambda>_. return True), vh_read_envelope = (\<lambda>_. return ok_result),
     vh_temp_dir = return (path_of ''/tmp/v''), vh_local_now = return (utc 5), vh_iso_now = return ''1970-01-01T00:00:00+00:00'',
     vh_cwd = ''/''\<rparr>"

definition quiet_runtime :: "unit docker_runtime" where
  "quiet_runtime = echo_runtime\<lparr>dr_event_bus := None\<rparr>"

lemma valid_host_passes:
  "map_sum (\<lambda>_. ()) (\<lambda>r. (vr_ok r, vr_checks r)) (fst (validate_one valid_host quiet_runtime (dr_workers quiet_runtime) ''example.echo''
     (JObj []) False True True None (fresh_world empty_db))) = Inr (True, [''image'', ''result-file'', ''result-envelope'', ''artifacts''])"
  by code_simp


text \<open>
  Whatever the run, goblin or service is called, the name made from it is a valid Kubernetes
  label: not empty, at most 63 characters, lower-case letters, digits and dashes, with no dash at
  either end.
\<close>

theorem kubernetes_name_label: "is_dns_label (kubernetes_name v)"
proof -
  let ?n = "strip_dash (take 63 (join_dash (filter (\<lambda>p. p \<noteq> '''') (split_dash
    (map (\<lambda>c. if is_alnum c then c else CHR ''-'') (py_lower v))))))"
  have n: "kubernetes_name v = (if ?n \<noteq> '''' then ?n else ''goblin-worker'')"
    by (simp only: kubernetes_name_def Let_def)
  have "length ?n \<le> 63" by (rule order_trans [OF strip_dash_length]) simp
  then show ?thesis
    unfolding is_dns_label_def using kubernetes_name_chars [of _ v] strip_dash_ends
    by (cases "?n = ''''") (simp_all add: n)
qed

text \<open>
  The id of a validation job is a label too, short enough for Docker and Kubernetes, when the
  random id it is made from consists of lower-case hexadecimal digits.
\<close>

theorem validation_job_id_label:
  assumes "validation_job_id kind w = (Inr i, w')"
    and "\<forall>c \<in> set (uuid_hex (w_uuids w (w_drawn w))). lower_alnum c" and "uuid_hex (w_uuids w (w_drawn w)) \<noteq> ''''"
  shows "is_dns_label i"
proof -
  let ?u = "uuid_hex (w_uuids w (w_drawn w))"
  let ?base = "kubernetes_name (''validation-'' @ kind)"
  let ?s = "strip_dash (take (63 - length (take 12 ?u) - 1) ?base)"
  define prefix where "prefix = (if ?s \<noteq> '''' then ?s else ''validation'')"
  have i: "i = prefix @ ''-'' @ take 12 ?u"
    using assms(1) unfolding validation_job_id_def bind_def uuid4_def return_eq Let_def prefix_def
    by (auto simp only: prod.case sum.case prod.inject sum.inject)
  have "length ?s \<le> 63 - length (take 12 ?u) - 1" by (rule order_trans [OF strip_dash_length]) simp
  moreover have "length ''validation'' \<le> 63 - length (take 12 ?u) - 1" by (simp add: min_def) arith
  ultimately have "length prefix \<le> 63 - length (take 12 ?u) - 1" by (simp only: prefix_def simp_thms split: if_split)
  then have "length i \<le> 63" by (simp add: i)
  moreover have "\<forall>c \<in> set prefix. lower_alnum c \<or> c = CHR ''-''"
    using kubernetes_name_chars [of _ "''validation-'' @ kind"] strip_dash_sub [of "take (63 - length (take 12 ?u) - 1) ?base"]
    by (auto simp: prefix_def lower_alnum_def less_eq_char_def dest: in_set_takeD)
  moreover have "prefix \<noteq> ''''" "hd prefix \<noteq> CHR ''-''" using strip_dash_ends by (auto simp: prefix_def)
  moreover have u: "take 12 ?u \<noteq> ''''" "\<forall>c \<in> set (take 12 ?u). lower_alnum c" using assms(2,3) by (auto dest: in_set_takeD)
  moreover have "last (take 12 ?u) \<noteq> CHR ''-''"
    using bspec [OF u(2) last_in_set [OF u(1)]] by (auto simp: lower_alnum_def less_eq_char_def)
  ultimately show ?thesis unfolding is_dns_label_def i by auto
qed

theorem validation_job_id_label_witness:
  "\<exists>i w'. validation_job_id ''example.echo'' (fresh_world empty_db) = (Inr i, w') \<and> is_dns_label i"
proof -
  obtain i w' where i: "validation_job_id ''example.echo'' (fresh_world empty_db) = (Inr i, w')"
    by (simp add: validation_job_id_def bind_def uuid4_def return_eq Let_def)
  have "is_dns_label i"
    by (rule validation_job_id_label [OF i]) (simp_all add: fresh_world_def uuid_hex_def lower_alnum_def less_eq_char_def)
  then show ?thesis using i by blast
qed

end
