(* ===== verification/Auth.thy ===== *)
theory Auth
  imports Store_Admin Event_Bus
begin

text \<open>
  Who a caller is and what it may do: \<^verbatim>\<open>src/src/goblin_king/auth.py\<close>. A bearer token is the bootstrap
  token, a local token (looked up by its hash), an OIDC token or a JupyterHub token, tried in this
  order; the result is a principal with a role and a project. Hashing, decoding a JWT, asking the
  Hub and drawing a token are the parameter \<open>auth_host\<close>; the module's token cache is part of the
  state. The theorems: only a live local token of an enabled user, or the bootstrap token, yields a
  principal when no provider is configured; a created token authenticates as what it was created
  for; a token passes a rate-limited route at most as often as allowed within a minute.
\<close>

section \<open>Data\<close>

record oidc_config =
  oc_enabled :: bool
  oc_issuer :: "string option"
  oc_audience :: "string option"
  oc_jwks_url :: "string option"
  oc_clock_skew_seconds :: int
  oc_user_claim :: string
  oc_role_claim :: string
  oc_project_claim :: string
  oc_admin_roles :: "string list"

record jupyterhub_config =
  jh_enabled :: bool
  jh_api_url :: "string option"
  jh_service_token :: "string option"
  jh_cache_ttl_seconds :: int
  jh_allowed_users :: "string list"
  jh_allowed_groups :: "string list"
  jh_admin_groups :: "string list"
  jh_viewer_groups :: "string list"
  jh_project_groups :: "(string \<times> string) list"
  jh_default_project_id :: "string option"

record principal =
  pr_user_id :: string
  pr_token_id :: string
  pr_role :: principal_role
  pr_project_id :: "string option"
  pr_bootstrap :: bool
  pr_auth_provider :: string

definition is_admin :: "principal \<Rightarrow> bool" where
  "is_admin p \<longleftrightarrow> pr_role p = RoleAdmin"

definition auth_error :: "string \<Rightarrow> int \<Rightarrow> error" where
  "auth_error message status_code = Raise (AuthError status_code) message"

text \<open>What a request to the Hub gives: a JSON value, an HTTP error, or nothing that can be read.\<close>

datatype hub_response = HubJson json | HubHttpError int | HubUnavailable

record 'r auth_host =
  ah_sha256 :: "string \<Rightarrow> string"
  ah_token_urlsafe :: "('r world, string) op"
  ah_decode_jwt :: "oidc_config \<Rightarrow> string \<Rightarrow> ('r world, string + json) op"
  ah_hub_get :: "string \<Rightarrow> string \<Rightarrow> ('r world, hub_response) op"
  ah_quote :: "string \<Rightarrow> string"

text \<open>The module's token cache, beside the world.\<close>

type_synonym hub_cache = "(string \<times> datetime \<times> json) list"
type_synonym 'r session = "'r world \<times> hub_cache"

definition in_world :: "('r world, 'a) op \<Rightarrow> ('r session, 'a) op" where
  "in_world m s = (let (x, w) = m (fst s) in (x, (w, snd s)))"

definition hash_api_token :: "'r auth_host \<Rightarrow> string \<Rightarrow> string" where
  "hash_api_token h token = ah_sha256 h token"

section \<open>OIDC\<close>

definition claim_as_string :: "json \<Rightarrow> string \<Rightarrow> string option" where
  "claim_as_string claims key =
     (case obj_get claims key of Some (JStr v) \<Rightarrow> if v \<noteq> '''' then Some v else None | _ \<Rightarrow> None)"

fun claim_values :: "json option \<Rightarrow> string list" where
  "claim_values (Some (JStr v)) = [v]"
| "claim_values (Some (JArr vs)) = List.map_filter (\<lambda>v. case v of JStr s \<Rightarrow> Some s | _ \<Rightarrow> None) vs"
| "claim_values _ = []"

definition role_from_claims :: "json \<Rightarrow> oidc_config \<Rightarrow> principal_role" where
  "role_from_claims claims oidc =
     (let values = claim_values (obj_get claims (oc_role_claim oidc)) in
      if \<exists>v \<in> set values. v \<in> set (oc_admin_roles oidc) then RoleAdmin
      else if ''viewer'' \<in> set values then RoleViewer else RoleMember)"

definition decode_oidc_jwt :: "'r auth_host \<Rightarrow> string \<Rightarrow> oidc_config \<Rightarrow> ('r world, json) op" where
  "decode_oidc_jwt h token oidc =
     (if \<not> truthy_text (oc_issuer oidc) \<or> \<not> truthy_text (oc_audience oidc) \<or> \<not> truthy_text (oc_jwks_url oidc)
      then throw (auth_error ''OIDC issuer, audience, and JWKS URL are required'' 500)
      else bind (ah_decode_jwt h oidc token) (\<lambda>decoded.
        case decoded of
          Inl m \<Rightarrow> throw (auth_error (''missing or invalid OIDC bearer token: '' @ m) 401)
        | Inr claims \<Rightarrow> return claims))"

definition authenticate_oidc_token :: "'r auth_host \<Rightarrow> string \<Rightarrow> oidc_config \<Rightarrow> ('r world, principal) op" where
  "authenticate_oidc_token h token oidc =
     bind (decode_oidc_jwt h token oidc) (\<lambda>claims.
     case claim_as_string claims (oc_user_claim oidc) of
       None \<Rightarrow> throw (auth_error (''OIDC token missing required claim: '' @ oc_user_claim oidc) 401)
     | Some user_id \<Rightarrow> return \<lparr>pr_user_id = user_id, pr_token_id = ''oidc:'' @ user_id,
         pr_role = role_from_claims claims oidc, pr_project_id = claim_as_string claims (oc_project_claim oidc),
         pr_bootstrap = False, pr_auth_provider = ''oidc''\<rparr>)"

section \<open>JupyterHub\<close>

definition request_jupyterhub_json ::
  "'r auth_host \<Rightarrow> string \<Rightarrow> string \<Rightarrow> string \<Rightarrow> string option \<Rightarrow> ('r world, json) op" where
  "request_jupyterhub_json h url token invalid_token_message permission_message =
     bind (ah_hub_get h url token) (\<lambda>response.
     case response of
       HubJson model \<Rightarrow> if is_obj model then return model
         else throw (auth_error ''JupyterHub token response was not an object'' 503)
     | HubHttpError code \<Rightarrow>
         if code \<in> {401, 404} then throw (auth_error invalid_token_message 401)
         else if code = 403 \<and> permission_message \<noteq> None then throw (auth_error (the permission_message) 500)
         else if code = 403 then throw (auth_error invalid_token_message 401)
         else throw (auth_error ''JupyterHub token validation failed'' 503)
     | HubUnavailable \<Rightarrow> throw (auth_error ''JupyterHub is unavailable for token validation'' 503))"

definition jupyterhub_user_model :: "json \<Rightarrow> json result" where
  "jupyterhub_user_model model0 =
     (let model = (case obj_get model0 ''user'' of Some user \<Rightarrow> if is_obj user then user else model0 | None \<Rightarrow> model0) in
      case obj_get model ''kind'' of
        None \<Rightarrow> Inr model
      | Some kind \<Rightarrow> if kind = JNull \<or> kind = JStr ''user'' then Inr model
          else Inl (auth_error ''JupyterHub token does not belong to a user'' 403))"

definition user_name :: "json \<Rightarrow> string option" where
  "user_name user = claim_as_string user ''name''"

fun group_name :: "json \<Rightarrow> string option" where
  "group_name (JStr s) = Some s"
| "group_name (JObj ms) = (case obj_get (JObj ms) ''name'' of Some (JStr s) \<Rightarrow> Some s | _ \<Rightarrow> None)"
| "group_name _ = None"

definition jupyterhub_groups :: "json \<Rightarrow> string list" where
  "jupyterhub_groups model =
     (case obj_get model ''groups'' of Some (JArr items) \<Rightarrow> List.map_filter group_name items | _ \<Rightarrow> [])"

definition meets :: "string list \<Rightarrow> string list \<Rightarrow> bool" where
  "meets xs ys \<longleftrightarrow> (\<exists>x \<in> set xs. x \<in> set ys)"

definition jupyterhub_user_allowed :: "string \<Rightarrow> string list \<Rightarrow> jupyterhub_config \<Rightarrow> bool" where
  "jupyterhub_user_allowed user_id groups hub \<longleftrightarrow>
     jh_allowed_users hub = [] \<and> jh_allowed_groups hub = [] \<or>
     user_id \<in> set (jh_allowed_users hub) \<or> meets groups (jh_allowed_groups hub)"

definition jupyterhub_role :: "json \<Rightarrow> string list \<Rightarrow> jupyterhub_config \<Rightarrow> principal_role" where
  "jupyterhub_role model groups hub =
     (if obj_get model ''admin'' = Some (JBool True) \<or> meets groups (jh_admin_groups hub) then RoleAdmin
      else if meets groups (jh_viewer_groups hub) then RoleViewer else RoleMember)"

fun jupyterhub_project_id :: "string list \<Rightarrow> jupyterhub_config \<Rightarrow> string option" where
  "jupyterhub_project_id [] hub = jh_default_project_id hub"
| "jupyterhub_project_id (g # gs) hub =
     (if truthy_text (map_of (jh_project_groups hub) g) then map_of (jh_project_groups hub) g
      else jupyterhub_project_id gs hub)"

definition strip_slashes :: "string \<Rightarrow> string" where
  "strip_slashes s = rev (dropWhile (\<lambda>c. c = CHR ''/'') (rev s))"

definition cached_user :: "jupyterhub_config \<Rightarrow> string \<Rightarrow> ('r session, json option) op" where
  "cached_user hub cache_key =
     (if jh_cache_ttl_seconds hub \<le> 0 then return None
      else bind (gets (\<lambda>s. map_of (snd s) cache_key)) (\<lambda>cached.
        case cached of
          None \<Rightarrow> return None
        | Some (at, model) \<Rightarrow> bind (in_world utc_now) (\<lambda>now.
            return (if utc_instant now - utc_instant at < seconds (jh_cache_ttl_seconds hub) then Some model else None))))"

definition identify_jupyterhub_token :: "'r auth_host \<Rightarrow> string \<Rightarrow> jupyterhub_config \<Rightarrow> ('r session, json) op" where
  "identify_jupyterhub_token h token hub =
     (if \<not> truthy_text (jh_api_url hub) then throw (auth_error ''JupyterHub api_url is required'' 500)
      else if \<not> truthy_text (jh_service_token hub) then throw (auth_error ''JupyterHub service token is required'' 500)
      else
        let cache_key = hash_api_token h token; api_url = strip_slashes (the (jh_api_url hub)) in
        bind (cached_user hub cache_key) (\<lambda>cached.
        case cached of
          Some model \<Rightarrow> return model
        | None \<Rightarrow>
            bind (in_world (request_jupyterhub_json h (api_url @ ''/user'') token
                   ''missing or invalid JupyterHub bearer token'' None)) (\<lambda>model.
            bind (lift_result (jupyterhub_user_model model)) (\<lambda>user0.
            bind (case user_name user0 of
                    None \<Rightarrow> return user0
                  | Some user_id \<Rightarrow>
                      bind (in_world (request_jupyterhub_json h (api_url @ ''/users/'' @ ah_quote h user_id)
                             (the (jh_service_token hub)) ''JupyterHub service token is invalid''
                             (Some ''JupyterHub service token lacks user/group permission''))) (\<lambda>user_detail.
                      return (obj_merge user0 user_detail))) (\<lambda>user.
            bind (if 0 < jh_cache_ttl_seconds hub
                  then bind (in_world utc_now) (\<lambda>now. modify (\<lambda>(w, c). (w, assoc_set cache_key (now, user) c)))
                  else return ()) (\<lambda>_.
            return user))))))"

definition authenticate_jupyterhub_token :: "'r auth_host \<Rightarrow> string \<Rightarrow> jupyterhub_config \<Rightarrow> ('r session, principal) op" where
  "authenticate_jupyterhub_token h token hub =
     bind (identify_jupyterhub_token h token hub) (\<lambda>model.
     bind (lift_result (jupyterhub_user_model model)) (\<lambda>user.
     case user_name user of
       None \<Rightarrow> throw (auth_error ''JupyterHub token response missing user name'' 401)
     | Some user_id \<Rightarrow>
         let groups = jupyterhub_groups user in
         if \<not> jupyterhub_user_allowed user_id groups hub
         then throw (auth_error ''JupyterHub user is not authorized'' 403)
         else return \<lparr>pr_user_id = user_id, pr_token_id = ''jupyterhub:'' @ take 16 (hash_api_token h token),
                      pr_role = jupyterhub_role user groups hub, pr_project_id = jupyterhub_project_id groups hub,
                      pr_bootstrap = False, pr_auth_provider = ''jupyterhub''\<rparr>))"

section \<open>Authentication\<close>

definition error_status :: "error \<Rightarrow> int option" where
  "error_status e = (case error_class e of AuthError code \<Rightarrow> Some code | _ \<Rightarrow> None)"

definition authenticate_external ::
  "'r auth_host \<Rightarrow> string \<Rightarrow> oidc_config option \<Rightarrow> jupyterhub_config option \<Rightarrow> ('r session, principal) op" where
  "authenticate_external h token oidc hub =
     (let hub_enabled = (case hub of None \<Rightarrow> False | Some c \<Rightarrow> jh_enabled c);
          try_hub = (if hub_enabled then authenticate_jupyterhub_token h token (the hub)
                     else throw (auth_error ''missing or invalid bearer token'' 401)) in
      if (case oidc of None \<Rightarrow> False | Some c \<Rightarrow> oc_enabled c)
      then handle (in_world (authenticate_oidc_token h token (the oidc))) (\<lambda>e.
             case error_status e of
               None \<Rightarrow> throw e
             | Some code \<Rightarrow> if 500 \<le> code \<or> \<not> hub_enabled then throw e else try_hub)
      else try_hub)"

definition authenticate_token ::
  "'r auth_host \<Rightarrow> string \<Rightarrow> string \<Rightarrow> oidc_config option \<Rightarrow> jupyterhub_config option \<Rightarrow> ('r session, principal) op" where
  "authenticate_token h token bootstrap_token oidc hub =
     (if token = bootstrap_token
      then return \<lparr>pr_user_id = ''bootstrap-admin'', pr_token_id = ''bootstrap'', pr_role = RoleAdmin, pr_project_id = None,
                   pr_bootstrap = True, pr_auth_provider = ''local''\<rparr>
      else bind (\<lambda>s. (get_api_token_by_hash (w_db (fst s)) (hash_api_token h token), s)) (\<lambda>found.
        case found of
          None \<Rightarrow> authenticate_external h token oidc hub
        | Some record \<Rightarrow>
            bind (gets (\<lambda>s. get_user (w_db (fst s)) (tk_user_id record))) (\<lambda>user.
            if (case user of None \<Rightarrow> True | Some u \<Rightarrow> u_disabled u)
            then throw (auth_error ''user is disabled or missing'' 403)
            else return \<lparr>pr_user_id = tk_user_id record, pr_token_id = tk_id record, pr_role = tk_role record,
                         pr_project_id = tk_project_id record, pr_bootstrap = False, pr_auth_provider = ''local''\<rparr>)))"

definition require_admin :: "principal \<Rightarrow> unit result" where
  "require_admin p = (if is_admin p then Inr () else Inl (auth_error ''admin role required'' 403))"

definition require_project_access :: "principal \<Rightarrow> string option \<Rightarrow> unit result" where
  "require_project_access p project_id =
     (if is_admin p then Inr ()
      else if pr_project_id p = None \<or> project_id \<noteq> pr_project_id p then Inl (auth_error ''project access denied'' 403)
      else Inr ())"

section \<open>Creating users, projects and tokens\<close>

definition generate_api_token :: "'r auth_host \<Rightarrow> ('r world, string) op" where
  "generate_api_token h = bind (ah_token_urlsafe h) (\<lambda>t. return (''gk_'' @ t))"

definition create_user :: "string \<Rightarrow> string \<Rightarrow> ('r world, user_record) op" where
  "create_user email display_name = bind uuid4 (\<lambda>i. bind utc_now (\<lambda>now.
     let user = \<lparr>u_id = i, u_email = email, u_display_name = display_name, u_created_at = now, u_disabled = False\<rparr> in
     bind (on_store (save_user user)) (\<lambda>_. return user)))"

definition create_project :: "string \<Rightarrow> ('r world, project_record) op" where
  "create_project name = bind uuid4 (\<lambda>i. bind utc_now (\<lambda>now.
     let project = \<lparr>p_id = i, p_name = name, p_created_at = now\<rparr> in
     bind (on_store (save_project project)) (\<lambda>_. return project)))"

definition create_api_token ::
  "'r auth_host \<Rightarrow> string \<Rightarrow> string \<Rightarrow> string option \<Rightarrow> principal_role \<Rightarrow> ('r world, api_token_record \<times> string) op" where
  "create_api_token h name user_id project_id role =
     bind (generate_api_token h) (\<lambda>raw_token. bind uuid4 (\<lambda>i. bind utc_now (\<lambda>now.
     let token = \<lparr>tk_id = i, tk_name = name, tk_token_hash = hash_api_token h raw_token, tk_created_at = now,
                  tk_user_id = user_id, tk_project_id = project_id, tk_role = role, tk_revoked_at = None\<rparr> in
     bind (on_store (save_api_token token)) (\<lambda>_. return (token, raw_token)))))"

section \<open>Audit and rate limits\<close>

definition audit ::
  "string \<Rightarrow> string \<Rightarrow> principal option \<Rightarrow> string option \<Rightarrow> string option \<Rightarrow> string option \<Rightarrow> json option \<Rightarrow> ('r world, unit) op" where
  "audit action outcome who project_id resource_type resource_id detail =
     bind uuid4 (\<lambda>i. bind utc_now (\<lambda>now.
     on_store (save_audit_log \<lparr>al_id = i, al_created_at = now, al_action = action, al_outcome = outcome,
       al_user_id = map_option pr_user_id who, al_token_id = map_option pr_token_id who, al_project_id = project_id,
       al_resource_type = resource_type, al_resource_id = resource_id, al_detail = or_empty detail\<rparr>)))"

definition rate_window :: "string \<Rightarrow> datetime \<Rightarrow> (db, rate_limit_record) op" where
  "rate_window key now =
     bind (increment_rate_limit key now False) (\<lambda>existing.
     if seconds 60 \<le> utc_instant now - utc_instant (rl_window_started_at existing)
     then increment_rate_limit key now True else return existing)"

definition check_rate_limit :: "principal \<Rightarrow> string \<Rightarrow> int \<Rightarrow> ('r world, unit) op" where
  "check_rate_limit p route max_per_minute =
     (if max_per_minute \<le> 0 then return ()
      else bind utc_now (\<lambda>now.
        bind (on_store (rate_window (pr_token_id p @ '':'' @ route) now)) (\<lambda>existing.
        if max_per_minute < rl_count existing
        then bind (audit ''rate_limit.denied'' ''denied'' (Some p) None None None
               (Some (JObj [(''route'', JStr route), (''limit'', JInt max_per_minute), (''count'', JInt (rl_count existing))])))
               (\<lambda>_. throw (Raise RateLimitExceeded ''rate limit exceeded''))
        else return ())))"

section \<open>The rate limit counts\<close>

text \<open>The state of the counter of a key: when its window began and how often it was used.\<close>

definition window_state :: "string \<Rightarrow> db \<Rightarrow> (int \<times> int) option" where
  "window_state key d = map_option (\<lambda>r. (dt_wall (rl_window_started_at r), rl_count r)) (by_key rl_key key (rate_limits_table d))"

text \<open>What the table of counters holds: naive start times, as the driver returns them, and no negative count.\<close>

definition limits_stored :: "db \<Rightarrow> bool" where
  "limits_stored d \<longleftrightarrow> (\<forall>r \<in> set (rate_limits_table d).
     (case rl_window_started_at r of Naive _ \<Rightarrow> True | Aware _ _ \<Rightarrow> False) \<and> 0 \<le> rl_count r)"

lemma increment_none:
  assumes "by_key rl_key key (rate_limits_table d) = None"
  shows "increment_rate_limit key now b d =
    (Inr \<lparr>rl_key = key, rl_window_started_at = now, rl_count = 1\<rparr>,
     d\<lparr>rate_limits_table := rate_limits_table d @ [\<lparr>rl_key = key, rl_window_started_at = db_datetime now, rl_count = 1\<rparr>]\<rparr>)"
proof -
  have "key \<notin> rl_key ` set (rate_limits_table d)" using assms by (simp add: by_key_None_iff)
  then have "insert_row ''rate_limits.key'' rl_key (rate_limit_to_row \<lparr>rl_key = key, rl_window_started_at = now, rl_count = 1\<rparr>)
      (rate_limits_table d) = Inr (rate_limits_table d @ [\<lparr>rl_key = key, rl_window_started_at = db_datetime now, rl_count = 1\<rparr>])"
    by (simp add: insert_row_def rate_limit_to_row_def)
  then show ?thesis using assms by (simp add: increment_rate_limit_def atomically_def bind_def insert_into_def return_eq)
qed

lemma increment_some:
  assumes "by_key rl_key key (rate_limits_table d) = Some row"
  shows "increment_rate_limit key now False d =
    (Inr \<lparr>rl_key = key, rl_window_started_at = coerce_datetime (rl_window_started_at row), rl_count = rl_count row + 1\<rparr>,
     d\<lparr>rate_limits_table := update_where (\<lambda>r. rl_key r = key) (\<lambda>r. r\<lparr>rl_count := rl_count row + 1\<rparr>) (rate_limits_table d)\<rparr>)"
  and "increment_rate_limit key now True d =
    (Inr \<lparr>rl_key = key, rl_window_started_at = now, rl_count = 1\<rparr>,
     d\<lparr>rate_limits_table := update_where (\<lambda>r. rl_key r = key)
        (\<lambda>r. r\<lparr>rl_window_started_at := db_datetime now, rl_count := 1\<rparr>) (rate_limits_table d)\<rparr>)"
  using assms by (simp_all add: increment_rate_limit_def atomically_def)

text \<open>One use at a UTC time: the window goes on and counts, or a new one begins.\<close>

lemma rate_window_step:
  assumes "is_utc now" and "limits_stored d"
  obtains r d' where "rate_window key now d = (Inr r, d')"
    and "limits_stored d'"
    and "window_state key d' = Some (case window_state key d of
        None \<Rightarrow> (dt_wall now, 1)
      | Some (t, n) \<Rightarrow> if seconds 60 \<le> dt_wall now - t then (dt_wall now, 1) else (t, n + 1))"
    and "window_state key d' = Some (dt_wall (rl_window_started_at r), rl_count r)"
    and "\<And>k. k \<noteq> key \<Longrightarrow> window_state k d' = window_state k d"
proof (cases "by_key rl_key key (rate_limits_table d)")
  case None
  have now: "utc_instant now - utc_instant now = 0" by simp
  show ?thesis
    by (rule that [of "\<lparr>rl_key = key, rl_window_started_at = now, rl_count = 1\<rparr>"
          "d\<lparr>rate_limits_table := rate_limits_table d @ [\<lparr>rl_key = key, rl_window_started_at = db_datetime now, rl_count = 1\<rparr>]\<rparr>"])
      (use assms(2) None in \<open>auto simp: rate_window_def bind_def increment_none [OF None] seconds_def return_eq window_state_def
        by_key_append db_datetime_def limits_stored_def split: option.split\<close>)
next
  case (Some row)
  obtain t where t: "rl_window_started_at row = Naive t" 
    using assms(2) by_key_SomeD [OF Some] by (cases "rl_window_started_at row") (fastforce simp: limits_stored_def)+
  have n: "0 \<le> rl_count row" using assms(2) by_key_SomeD [OF Some] by (auto simp: limits_stored_def)
  have now: "utc_instant now = dt_wall now" using assms(1) by (auto simp: is_utc_def split: datetime.splits)
  have key: "rl_key row = key" using by_key_SomeD [OF Some] by simp
  let ?d1 = "d\<lparr>rate_limits_table := update_where (\<lambda>r. rl_key r = key) (\<lambda>r. r\<lparr>rl_count := rl_count row + 1\<rparr>) (rate_limits_table d)\<rparr>"
  have row1: "by_key rl_key key (rate_limits_table ?d1) = Some (row\<lparr>rl_count := rl_count row + 1\<rparr>)"
    using Some key by (simp add: by_key_update)
  have naive1: "limits_stored ?d1"
    using assms(2) n by (auto simp: update_where_def limits_stored_def)
  have other1: "window_state k ?d1 = window_state k d" if "k \<noteq> key" for k
    using that by (cases "by_key rl_key k (rate_limits_table d)") (auto simp: window_state_def by_key_update dest: by_key_SomeD)
  show ?thesis
  proof (cases "seconds 60 \<le> dt_wall now - t")
    case False
    then show ?thesis
      by (intro that [of "\<lparr>rl_key = key, rl_window_started_at = utc t, rl_count = rl_count row + 1\<rparr>" ?d1])
        (use naive1 other1 Some t row1 now in \<open>auto simp: rate_window_def bind_def increment_some(1) [OF Some] return_eq
          coerce_datetime_def window_state_def\<close>)
  next
    case True
    let ?d2 = "?d1\<lparr>rate_limits_table := update_where (\<lambda>r. rl_key r = key)
        (\<lambda>r. r\<lparr>rl_window_started_at := db_datetime now, rl_count := 1\<rparr>) (rate_limits_table ?d1)\<rparr>"
    have row2: "by_key rl_key key (rate_limits_table ?d2) = Some (row\<lparr>rl_window_started_at := db_datetime now, rl_count := 1\<rparr>)"
      using Some key by (simp add: by_key_update)
    have naive2: "limits_stored ?d2"
      using naive1 by (auto simp: update_where_def db_datetime_def limits_stored_def)
    have "window_state k ?d2 = window_state k ?d1" if "k \<noteq> key" for k
      using that by (cases "by_key rl_key k (rate_limits_table ?d1)") (auto simp: window_state_def by_key_update dest: by_key_SomeD)
    then have other2: "window_state k ?d2 = window_state k d" if "k \<noteq> key" for k using other1 that by simp
    have run: "rate_window key now d = (Inr \<lparr>rl_key = key, rl_window_started_at = now, rl_count = 1\<rparr>, ?d2)"
      using True t now by (simp add: rate_window_def bind_def increment_some(1) [OF Some] increment_some(2) [OF row1] coerce_datetime_def)
    have state2: "window_state key ?d2 = Some (dt_wall now, 1)"
      unfolding window_state_def row2 by (simp add: db_datetime_def)
    have state: "window_state key d = Some (t, rl_count row)" using Some t by (simp add: window_state_def)
    show ?thesis
    proof (rule that [OF run naive2 _ _ other2])
      show "window_state key ?d2 = Some (case window_state key d of None \<Rightarrow> (dt_wall now, 1)
          | Some (t, n) \<Rightarrow> if seconds 60 \<le> dt_wall now - t then (dt_wall now, 1) else (t, n + 1))"
        unfolding state2 using True state by simp
      show "window_state key ?d2 = Some (dt_wall (rl_window_started_at \<lparr>rl_key = key, rl_window_started_at = now, rl_count = 1\<rparr>),
          rl_count \<lparr>rl_key = key, rl_window_started_at = now, rl_count = 1\<rparr>)"
        unfolding state2 by simp
    qed
  qed
qed

section \<open>The limit over a minute\<close>

text \<open>
  What the counter does, abstractly: the uses of one key at given times, each with whether it is
  within the limit. The window is fixed: it starts at its first use, and the next one at the
  first use a minute or more later.
\<close>

definition next_window :: "(int \<times> int) option \<Rightarrow> int \<Rightarrow> int \<times> int" where
  "next_window st now = (case st of
       None \<Rightarrow> (now, 1)
     | Some (t, n) \<Rightarrow> if seconds 60 \<le> now - t then (now, 1) else (t, n + 1))"

fun limiter :: "int \<Rightarrow> (int \<times> int) option \<Rightarrow> int list \<Rightarrow> (int \<times> bool) list" where
  "limiter m st [] = []"
| "limiter m st (now # ts) = (now, snd (next_window st now) \<le> m) # limiter m (Some (next_window st now)) ts"

definition passes :: "int \<Rightarrow> (int \<times> bool) list \<Rightarrow> (int \<times> bool) list" where
  "passes t uses = filter (\<lambda>(at, ok). ok \<and> t \<le> at \<and> at < t + seconds 60) uses"

lemma passes_simps [simp]:
  "passes t [] = []"
  "passes t ((at, ok) # uses) = (if ok \<and> t \<le> at \<and> at < t + seconds 60 then [(at, ok)] else []) @ passes t uses"
  by (simp_all add: passes_def)

lemma limiter_times: "map fst (limiter m st ts) = ts"
  by (induction ts arbitrary: st) auto

lemma passes_late: "\<forall>(at, ok) \<in> set uses. t + seconds 60 \<le> at \<Longrightarrow> passes t uses = []"
  by (auto simp: passes_def filter_empty_conv)

lemma passes_limiter_late: "\<forall>at \<in> set ts. t + seconds 60 \<le> at \<Longrightarrow> passes t (limiter m st ts) = []"
  using limiter_times [of m st ts] by (intro passes_late) (metis (mono_tags, lifting) case_prodI2 fst_conv image_eqI list.set_map)

lemma limiter_within_window:
  assumes "0 \<le> n" and "t \<le> s" and "sorted ts"
  shows "int (length (passes t (limiter m (Some (s, n)) ts))) \<le> max 0 (m - n)"
  using assms
proof (induction ts arbitrary: n)
  case (Cons now ts)
  show ?case
  proof (cases "t + seconds 60 \<le> now")
    case True
    then have "passes t (limiter m (Some (s, n)) (now # ts)) = []"
      using Cons.prems(3) by (intro passes_limiter_late) auto
    then show ?thesis by simp
  next
    case False
    then have "next_window (Some (s, n)) now = (s, n + 1)" using Cons.prems(2) by (simp add: next_window_def)
    then show ?thesis using Cons.IH [of "n + 1"] Cons.prems by auto
  qed
qed simp

lemma limiter_over_windows:
  assumes "case st of None \<Rightarrow> True | Some (s, n) \<Rightarrow> 0 \<le> n" and "0 \<le> m" and "sorted ts" and "\<forall>at \<in> set ts. t \<le> at"
  shows "int (length (passes t (limiter m st ts))) \<le> (case st of None \<Rightarrow> m | Some (s, n) \<Rightarrow> max 0 (m - n)) + m"
  using assms
proof (induction ts arbitrary: st)
  case (Cons now ts)
  obtain s n where w: "next_window st now = (s, n)" by fastforce
  have n: "1 \<le> n" using w Cons.prems(1) by (auto simp: next_window_def split: option.splits if_splits)
  have IH: "int (length (passes t (limiter m (Some (s, n)) ts))) \<le> max 0 (m - n) + m"
    using Cons.IH [of "Some (s, n)"] Cons.prems n by simp
  have new: "int (length (passes t (limiter m (Some (s, n)) ts))) \<le> max 0 (m - n)" if "t \<le> s"
    using limiter_within_window [OF _ that] n Cons.prems(3) by simp
  consider (kept) s0 n0 where "st = Some (s0, n0)" "s = s0" "n = n0 + 1" "0 \<le> n0" | (fresh) "s = now" "n = 1"
    using w Cons.prems(1) by (auto simp: next_window_def split: option.splits if_splits)
  then show ?case
  proof cases
    case kept
    then show ?thesis using IH w by auto
  next
    case fresh
    then show ?thesis using new w Cons.prems(2,4) by (auto split: option.splits)
  qed
qed (auto split: option.splits)

lemma limiter_passes_bound:
  assumes "case st of None \<Rightarrow> True | Some (s, n) \<Rightarrow> 0 \<le> n" and "0 \<le> m" and "sorted ts"
  shows "int (length (passes t (limiter m st ts))) \<le> 2 * m"
  using assms
proof (induction ts arbitrary: st)
  case (Cons now ts)
  show ?case
  proof (cases "t \<le> now")
    case True
    then have "\<forall>at \<in> set (now # ts). t \<le> at" using Cons.prems(3) by auto
    then show ?thesis using limiter_over_windows [OF Cons.prems, of t] Cons.prems(1,2) by (auto split: option.splits)
  next
    case False
    have "case next_window st now of (s, n) \<Rightarrow> 0 \<le> n" using Cons.prems(1) by (auto simp: next_window_def split: option.splits)
    then show ?thesis using False Cons.IH [of "Some (next_window st now)"] Cons.prems(2,3) by simp
  qed
qed simp

section \<open>The limited route\<close>

text \<open>\<open>n\<close> uses of a route by one token, one after the other, each with the time the process clock gives it.\<close>

definition check_outcome :: "principal \<Rightarrow> string \<Rightarrow> int \<Rightarrow> 'r world \<Rightarrow> bool" where
  "check_outcome p route m w \<longleftrightarrow> (case fst (check_rate_limit p route m w) of Inr _ \<Rightarrow> True | Inl _ \<Rightarrow> False)"

fun route_uses :: "principal \<Rightarrow> string \<Rightarrow> int \<Rightarrow> nat \<Rightarrow> 'r world \<Rightarrow> (int \<times> bool) list" where
  "route_uses p route m 0 w = []"
| "route_uses p route m (Suc n) w =
     (utc_instant (fst (monotonic_utc_now (w_clock w))), check_outcome p route m w) #
     route_uses p route m n (snd (check_rate_limit p route m w))"

definition utc_clock :: "clock \<Rightarrow> bool" where
  "utc_clock c \<longleftrightarrow> (case clock_last c of None \<Rightarrow> True | Some l \<Rightarrow> is_utc l)"

text \<open>The stamps of a clock only grow.\<close>

definition later_clock :: "clock \<Rightarrow> clock \<Rightarrow> bool" where
  "later_clock c c' \<longleftrightarrow> (case clock_last c of None \<Rightarrow> True
     | Some l \<Rightarrow> (case clock_last c' of None \<Rightarrow> False | Some l' \<Rightarrow> utc_instant l \<le> utc_instant l'))"

lemma later_clock_refl: "later_clock c c"
  by (simp add: later_clock_def split: option.split)

lemma clock_step:
  assumes "monotonic_utc_now c = (now, c')" and "utc_clock c"
  shows "is_utc now" "utc_clock c'" "clock_last c' = Some now" "later_clock c c'"
    and "clock_last c = Some l \<Longrightarrow> utc_instant l < utc_instant now"
proof -
  note stamp = clock_now_stamp [OF assms(1) [unfolded monotonic_utc_now_def]]
  show "is_utc now" using stamp(4) assms(2) by (simp add: utc_clock_def)
  then show "utc_clock c'" using stamp(1) by (simp add: utc_clock_def)
  show "clock_last c' = Some now" by (rule stamp(1))
  show "clock_last c = Some l \<Longrightarrow> utc_instant l < utc_instant now" for l by (rule stamp(2))
  then show "later_clock c c'" using stamp(1,2) by (auto simp: later_clock_def less_imp_le split: option.split)
qed

lemma audit_frame:
  assumes "utc_clock (w_clock w)"
  shows "rate_limits_table (w_db (snd (audit action outcome who project_id rt ri detail w))) = rate_limits_table (w_db w)"
    and "utc_clock (w_clock (snd (audit action outcome who project_id rt ri detail w)))"
    and "later_clock (w_clock w) (w_clock (snd (audit action outcome who project_id rt ri detail w)))"
proof -
  obtain now c' where now: "monotonic_utc_now (w_clock w) = (now, c')" by fastforce
  show "rate_limits_table (w_db (snd (audit action outcome who project_id rt ri detail w))) = rate_limits_table (w_db w)"
    "utc_clock (w_clock (snd (audit action outcome who project_id rt ri detail w)))"
    "later_clock (w_clock w) (w_clock (snd (audit action outcome who project_id rt ri detail w)))"
    using now clock_step [OF now assms]
    by (auto simp: audit_def uuid4_def utc_now_def bind_def on_store_def save_audit_log_def insert_into_def split: sum.splits)
qed

lemma check_rate_limit_step:
  fixes p :: principal and route :: string and m :: int and w :: "'r world"
  assumes "0 < m" and "limits_stored (w_db w)" and "utc_clock (w_clock w)"
    and now: "monotonic_utc_now (w_clock w) = (now, c')"
  defines "key \<equiv> pr_token_id p @ '':'' @ route" and "w' \<equiv> snd (check_rate_limit p route m w)"
  shows "check_outcome p route m w \<longleftrightarrow> snd (next_window (window_state key (w_db w)) (utc_instant now)) \<le> m"
    and "window_state key (w_db w') = Some (next_window (window_state key (w_db w)) (utc_instant now))"
    and "limits_stored (w_db w')" and "utc_clock (w_clock w')" and "later_clock c' (w_clock w')"
proof -
  note clock = clock_step [OF now assms(3)]
  have wall: "dt_wall now = utc_instant now" using clock(1) by (rule dt_wall_is_utc)
  obtain r d' where run: "rate_window key now (w_db w) = (Inr r, d')" and stored: "limits_stored d'"
    and st: "window_state key d' = Some (case window_state key (w_db w) of
        None \<Rightarrow> (dt_wall now, 1)
      | Some (t, n) \<Rightarrow> if seconds 60 \<le> dt_wall now - t then (dt_wall now, 1) else (t, n + 1))"
    and r: "window_state key d' = Some (dt_wall (rl_window_started_at r), rl_count r)"
    using rate_window_step [OF clock(1) assms(2)] by blast
  have st: "window_state key d' = Some (next_window (window_state key (w_db w)) (utc_instant now))"
    using st by (simp add: next_window_def wall split: option.split)
  then have n: "rl_count r = snd (next_window (window_state key (w_db w)) (utc_instant now))"
    using r by (metis option.inject snd_conv)
  let ?w1 = "w\<lparr>w_clock := c', w_db := d'\<rparr>"
  let ?audit = "audit ''rate_limit.denied'' ''denied'' (Some p) None None None
      (Some (JObj [(''route'', JStr route), (''limit'', JInt m), (''count'', JInt (rl_count r))]))"
  have eq: "check_rate_limit p route m w =
      (if m < rl_count r then bind ?audit (\<lambda>_. throw (Raise RateLimitExceeded ''rate limit exceeded'')) ?w1 else (Inr (), ?w1))"
    using assms(1) now run by (simp add: check_rate_limit_def bind_def utc_now_def on_store_def key_def return_eq)
  have over: "case fst (bind ?audit (\<lambda>_. throw (Raise RateLimitExceeded ''rate limit exceeded'')) ?w1) of Inr (_ :: unit) \<Rightarrow> False | Inl _ \<Rightarrow> True"
    by (simp add: bind_def throw_def split: prod.split sum.split)
  show "check_outcome p route m w \<longleftrightarrow> snd (next_window (window_state key (w_db w)) (utc_instant now)) \<le> m"
    using over n by (auto simp: check_outcome_def eq split: sum.splits)
  have snd_eq: "w' = (if m < rl_count r then snd (?audit ?w1) else ?w1)"
    by (auto simp: w'_def eq bind_def throw_def split: prod.split sum.split)
  have "rate_limits_table (w_db w') = rate_limits_table d' \<and> utc_clock (w_clock w') \<and> later_clock c' (w_clock w')"
    using audit_frame [of ?w1] clock(2) by (simp add: snd_eq later_clock_refl)
  then show "window_state key (w_db w') = Some (next_window (window_state key (w_db w)) (utc_instant now))"
    "limits_stored (w_db w')" "utc_clock (w_clock w')" "later_clock c' (w_clock w')"
    using st stored by (auto simp: window_state_def limits_stored_def)
qed

lemma route_uses_limiter:
  assumes "0 < m" and "limits_stored (w_db w)" and "utc_clock (w_clock w)"
  shows "\<exists>ts. route_uses p route m n w = limiter m (window_state (pr_token_id p @ '':'' @ route) (w_db w)) ts \<and> sorted ts \<and>
           (\<forall>t \<in> set ts. case clock_last (w_clock w) of None \<Rightarrow> True | Some l \<Rightarrow> utc_instant l < t)"
  using assms
proof (induction n arbitrary: w)
  case 0
  show ?case by (intro exI [of _ "[]"]) simp
next
  case (Suc n)
  obtain now c' where now: "monotonic_utc_now (w_clock w) = (now, c')" by fastforce
  let ?w' = "snd (check_rate_limit p route m w)"
  note step = check_rate_limit_step [OF Suc.prems now, of p route]
  note clock = clock_step [OF now Suc.prems(3)]
  obtain ts where ts: "route_uses p route m n ?w' = limiter m (window_state (pr_token_id p @ '':'' @ route) (w_db ?w')) ts"
    and sorted: "sorted ts"
    and later: "\<forall>t \<in> set ts. case clock_last (w_clock ?w') of None \<Rightarrow> True | Some l \<Rightarrow> utc_instant l < t"
    using Suc.IH [OF Suc.prems(1) step(3,4)] by blast
  have after: "\<forall>t \<in> set ts. utc_instant now < t"
    using later step(5) clock(3) by (fastforce simp: later_clock_def split: option.splits)
  show ?case
  proof (intro exI [of _ "utc_instant now # ts"] conjI)
    show "route_uses p route m (Suc n) w =
        limiter m (window_state (pr_token_id p @ '':'' @ route) (w_db w)) (utc_instant now # ts)"
      using ts step(1,2) now by simp
    show "sorted (utc_instant now # ts)" using sorted after by auto
    show "\<forall>t \<in> set (utc_instant now # ts). case clock_last (w_clock w) of None \<Rightarrow> True | Some l \<Rightarrow> utc_instant l < t"
      using after clock(5) by (fastforce split: option.split)
  qed
qed

text \<open>
  The rate limit holds over every minute: however often a token uses a limited route, and
  whatever the wall clock does between the uses, at most twice the configured number of uses
  pass in any interval of sixty seconds (the windows are fixed ones, so a burst at the end of one
  and a burst at the start of the next can meet), and every other use in it is refused.
\<close>

theorem rate_limit_over_a_minute:
  assumes "0 < m" and "limits_stored (w_db w)" and "utc_clock (w_clock w)"
  shows "int (length (passes t (route_uses p route m n w))) \<le> 2 * m"
proof -
  let ?key = "pr_token_id p @ '':'' @ route"
  obtain ts where ts: "route_uses p route m n w = limiter m (window_state ?key (w_db w)) ts" "sorted ts"
    using route_uses_limiter [OF assms, of p route n] by blast
  have "case window_state ?key (w_db w) of None \<Rightarrow> True | Some (s, n) \<Rightarrow> 0 \<le> n"
    using assms(2) by (auto simp: window_state_def limits_stored_def dest: by_key_SomeD split: option.split)
  then show ?thesis using limiter_passes_bound [OF _ _ ts(2)] assms(1) ts(1) by simp
qed

lemma rate_limit_over_a_minute_witness:
  "int (length (passes 0 (route_uses \<lparr>pr_user_id = ''u'', pr_token_id = ''t'', pr_role = RoleMember, pr_project_id = None,
       pr_bootstrap = False, pr_auth_provider = ''local''\<rparr> ''jobs.create'' 2 5 (fresh_world empty_db)))) \<le> 4"
  using rate_limit_over_a_minute [of 2 "fresh_world empty_db" 0 "\<lparr>pr_user_id = ''u'', pr_token_id = ''t'', pr_role = RoleMember,
      pr_project_id = None, pr_bootstrap = False, pr_auth_provider = ''local''\<rparr>" "''jobs.create''" 5]
  by (simp add: limits_stored_def utc_clock_def fresh_world_def empty_db_def)

section \<open>Who is authenticated\<close>

definition live_tokens :: "db \<Rightarrow> string \<Rightarrow> api_token_record list" where
  "live_tokens d token_hash = select_where (\<lambda>t. tk_token_hash t = token_hash \<and> tk_revoked_at t = None) (api_tokens_table d)"

definition user_enabled :: "db \<Rightarrow> string \<Rightarrow> bool" where
  "user_enabled d user_id \<longleftrightarrow> (case by_key u_id user_id (users_table d) of None \<Rightarrow> False | Some u \<Rightarrow> \<not> u_disabled u)"

definition bootstrap_principal :: principal where
  "bootstrap_principal = \<lparr>pr_user_id = ''bootstrap-admin'', pr_token_id = ''bootstrap'', pr_role = RoleAdmin, pr_project_id = None,
     pr_bootstrap = True, pr_auth_provider = ''local''\<rparr>"

definition token_principal :: "api_token_record \<Rightarrow> principal" where
  "token_principal t = \<lparr>pr_user_id = tk_user_id t, pr_token_id = tk_id t, pr_role = tk_role t, pr_project_id = tk_project_id t,
     pr_bootstrap = False, pr_auth_provider = ''local''\<rparr>"

lemma get_user_enabled: "(case get_user d user_id of None \<Rightarrow> True | Some u \<Rightarrow> u_disabled u) \<longleftrightarrow> \<not> user_enabled d user_id"
  by (simp add: get_user_def user_enabled_def row_to_user_def split: option.split)

lemma row_to_token_principal: "token_principal (row_to_api_token t) = token_principal t"
  by (simp add: token_principal_def row_to_api_token_def)

lemma one_or_none_cases:
  "one_or_none rs = (case rs of [] \<Rightarrow> Inr None | [r] \<Rightarrow> Inr (Some r) | _ \<Rightarrow> one_or_none rs)"
  by (cases rs rule: one_or_none.cases) simp_all

lemma authenticate_local:
  assumes "token \<noteq> bootstrap_token"
  shows "authenticate_token h token bootstrap_token oidc hub s =
    (case live_tokens (w_db (fst s)) (hash_api_token h token) of
       [] \<Rightarrow> authenticate_external h token oidc hub s
     | [t] \<Rightarrow> (if user_enabled (w_db (fst s)) (tk_user_id t) then Inr (token_principal t)
               else Inl (auth_error ''user is disabled or missing'' 403), s)
     | _ \<Rightarrow> (fst (authenticate_token h token bootstrap_token oidc hub s), s))"
  and "live_tokens (w_db (fst s)) (hash_api_token h token) = t # t' # ts \<Longrightarrow>
    \<exists>e. fst (authenticate_token h token bootstrap_token oidc hub s) = Inl e"
  using assms get_user_enabled [of "w_db (fst s)"]
  by (cases "live_tokens (w_db (fst s)) (hash_api_token h token)" rule: one_or_none.cases;
      simp add: authenticate_token_def live_tokens_def get_api_token_by_hash_def bind_def token_principal_def
        row_to_api_token_def gets_def throw_def return_eq)+

definition no_provider :: "oidc_config option \<Rightarrow> jupyterhub_config option \<Rightarrow> bool" where
  "no_provider oidc hub \<longleftrightarrow> (case oidc of None \<Rightarrow> True | Some c \<Rightarrow> \<not> oc_enabled c) \<and>
     (case hub of None \<Rightarrow> True | Some c \<Rightarrow> \<not> jh_enabled c)"

lemma authenticate_no_provider:
  "no_provider oidc hub \<Longrightarrow> authenticate_external h token oidc hub = throw (auth_error ''missing or invalid bearer token'' 401)"
  by (auto simp: no_provider_def authenticate_external_def split: option.splits)

text \<open>
  C39. With no OIDC and no JupyterHub provider enabled, authentication accepts exactly the bootstrap
  token, as the bootstrap administrator, and the token whose hash is the hash of exactly one
  unrevoked token row whose user exists and is not disabled, as that row's user, role and project.
  It changes neither the store nor the cache.
\<close>

theorem local_authentication_iff:
  assumes "no_provider oidc hub"
  shows "authenticate_token h token bootstrap_token oidc hub s = (Inr p, s') \<longleftrightarrow>
    s' = s \<and>
    (token = bootstrap_token \<and> p = bootstrap_principal \<or>
     token \<noteq> bootstrap_token \<and>
     (\<exists>t. live_tokens (w_db (fst s)) (hash_api_token h token) = [t] \<and> user_enabled (w_db (fst s)) (tk_user_id t) \<and>
          p = token_principal t))"
proof (cases "token = bootstrap_token")
  case True
  then show ?thesis by (auto simp: authenticate_token_def bootstrap_principal_def return_eq)
next
  case False
  note local = authenticate_local [OF False, where h = h and oidc = oidc and hub = hub and s = s] and none = authenticate_no_provider [OF assms, of h token]
  show ?thesis
    using False local none
    by (cases "live_tokens (w_db (fst s)) (hash_api_token h token)" rule: one_or_none.cases) (auto simp: throw_def)
qed

lemma local_authentication_iff_witness:
  "\<exists>h :: unit auth_host. authenticate_token h ''boot'' ''boot'' None None (fresh_world empty_db, []) =
     (Inr bootstrap_principal, (fresh_world empty_db, []))"
  using local_authentication_iff [of None None _ "''boot''" "''boot''" "(fresh_world empty_db, [])" bootstrap_principal
      "(fresh_world empty_db, [])"]
  by (simp add: no_provider_def)

lemma create_api_token_effect:
  assumes "create_api_token h name user_id project_id role w = (Inr (token, raw), w')"
  shows "tk_token_hash token = hash_api_token h raw \<and> tk_user_id token = user_id \<and>
      tk_project_id token = project_id \<and> tk_role token = role \<and> tk_revoked_at token = None"
    and "\<exists>w1. generate_api_token h w = (Inr raw, w1) \<and> tk_id token \<notin> tk_id ` set (api_tokens_table (w_db w1)) \<and>
      w_db w' = (w_db w1)\<lparr>api_tokens_table := api_tokens_table (w_db w1) @ [api_token_to_row token]\<rparr>"
proof -
  obtain w1 where raw: "generate_api_token h w = (Inr raw, w1)"
    using assms by (auto simp: create_api_token_def bind_Inr_iff Let_def return_eq)
  obtain now c' where now: "monotonic_utc_now (w_clock w1) = (now, c')" by fastforce
  let ?t = "\<lparr>tk_id = w_uuids w1 (w_drawn w1), tk_name = name, tk_token_hash = hash_api_token h raw, tk_created_at = now,
      tk_user_id = user_id, tk_project_id = project_id, tk_role = role, tk_revoked_at = None\<rparr>"
  have "create_api_token h name user_id project_id role w =
      (case insert_row ''api_tokens.id'' tk_id (api_token_to_row ?t) (api_tokens_table (w_db w1)) of
         Inl e \<Rightarrow> (Inl e, w1\<lparr>w_drawn := Suc (w_drawn w1), w_clock := c', w_db := w_db w1\<rparr>)
       | Inr t \<Rightarrow> (Inr (?t, raw), w1\<lparr>w_drawn := Suc (w_drawn w1), w_clock := c', w_db := (w_db w1)\<lparr>api_tokens_table := t\<rparr>\<rparr>))"
    using raw now by (simp add: create_api_token_def bind_def uuid4_def utc_now_def on_store_def save_api_token_def
        insert_into_def return_eq Let_def split: sum.split)
  then have "token = ?t" and rows: "\<exists>t. insert_row ''api_tokens.id'' tk_id (api_token_to_row ?t) (api_tokens_table (w_db w1)) = Inr t \<and>
      w_db w' = (w_db w1)\<lparr>api_tokens_table := t\<rparr>"
    using assms by (auto split: sum.splits)
  then show "tk_token_hash token = hash_api_token h raw \<and> tk_user_id token = user_id \<and>
      tk_project_id token = project_id \<and> tk_role token = role \<and> tk_revoked_at token = None" by simp
  show "\<exists>w1. generate_api_token h w = (Inr raw, w1) \<and> tk_id token \<notin> tk_id ` set (api_tokens_table (w_db w1)) \<and>
      w_db w' = (w_db w1)\<lparr>api_tokens_table := api_tokens_table (w_db w1) @ [api_token_to_row token]\<rparr>"
    using raw rows \<open>token = ?t\<close> by (auto simp: insert_row_Inr_iff token_rows.key_to_row)
qed

lemma live_tokens_append:
  "live_tokens (d\<lparr>api_tokens_table := ts @ [t]\<rparr>) token_hash =
   live_tokens (d\<lparr>api_tokens_table := ts\<rparr>) token_hash @ (if tk_token_hash t = token_hash \<and> tk_revoked_at t = None then [t] else [])"
  by (simp add: live_tokens_def select_where_def)

lemma live_tokens_revoke:
  assumes "w_db w' = d\<lparr>api_tokens_table := ts @ [t]\<rparr>" and "live_tokens (d\<lparr>api_tokens_table := ts\<rparr>) token_hash = []"
  shows "live_tokens (snd (revoke_api_token (tk_id t) at (w_db w'))) token_hash = []"
  using assms
  by (auto simp: live_tokens_def select_where_def revoke_api_token_def update_where_def filter_empty_conv)

text \<open>
  The life of an API token: the raw token that creation returns authenticates, against the
  store that creation left, as the user, the role and the project it was created for; once the
  token is revoked, it is refused with status 401. (No other live row carries its hash, the user
  is enabled, it is not the bootstrap token, and no external provider is enabled.)
\<close>

theorem api_token_lifecycle:
  assumes "create_api_token h name user_id project_id role w = (Inr (token, raw), w')"
    and "live_tokens (w_db w') (hash_api_token h raw) = [api_token_to_row token]"
    and "user_enabled (w_db w') user_id" and "raw \<noteq> bootstrap_token" and "no_provider oidc hub"
  shows "authenticate_token h raw bootstrap_token oidc hub (w', cache) =
      (Inr \<lparr>pr_user_id = user_id, pr_token_id = tk_id token, pr_role = role, pr_project_id = project_id,
            pr_bootstrap = False, pr_auth_provider = ''local''\<rparr>, (w', cache)) \<and>
    fst (authenticate_token h raw bootstrap_token oidc hub (snd (on_store (revoke_api_token (tk_id token) at) w'), cache)) =
      Inl (auth_error ''missing or invalid bearer token'' 401)"
    (is "?created \<and> ?revoked")
proof
  note effect = create_api_token_effect [OF assms(1)]
  have row: "tk_id (api_token_to_row token) = tk_id token" "tk_user_id (api_token_to_row token) = user_id"
    "token_principal (api_token_to_row token) = token_principal token"
    using effect(1) by (simp_all add: api_token_to_row_def token_principal_def)
  show ?created
    using assms(2,3,5) row effect(1) authenticate_local(1) [OF assms(4), of h oidc hub "(w', cache)"]
    by (simp add: token_principal_def)
  obtain d where d: "w_db w' = d\<lparr>api_tokens_table := api_tokens_table d @ [api_token_to_row token]\<rparr>" using effect(2) by blast
  have "live_tokens (d\<lparr>api_tokens_table := api_tokens_table d\<rparr>) (hash_api_token h raw) = []"
    using assms(2) effect(1) unfolding d live_tokens_append by (simp add: api_token_to_row_def)
  then have "live_tokens (snd (revoke_api_token (tk_id (api_token_to_row token)) at (w_db w'))) (hash_api_token h raw) = []"
    by (rule live_tokens_revoke [OF d])
  moreover obtain y d' where "revoke_api_token (tk_id token) at (w_db w') = (y, d')" by fastforce
  ultimately show ?revoked
    using authenticate_local(1) [OF assms(4), of h oidc hub "(w'\<lparr>w_db := d'\<rparr>, cache)"] authenticate_no_provider [OF assms(5), of h raw] row(1)
    by (simp add: on_store_def throw_def)
qed

definition demo_auth_host :: "unit auth_host" where
  "demo_auth_host = \<lparr>ah_sha256 = rev, ah_token_urlsafe = return ''abc'', ah_decode_jwt = (\<lambda>_ _. return (Inl ''no key'')),
     ah_hub_get = (\<lambda>_ _. return HubUnavailable), ah_quote = id\<rparr>"

lemma api_token_lifecycle_witness:
  "\<exists>(token :: api_token_record) w'. fst (authenticate_token demo_auth_host ''gk_abc'' ''boot'' None None (w', [])) =
      Inr \<lparr>pr_user_id = ''u'', pr_token_id = tk_id token, pr_role = RoleViewer, pr_project_id = Some ''p'',
           pr_bootstrap = False, pr_auth_provider = ''local''\<rparr>"
proof -
  let ?w = "fresh_world (empty_db\<lparr>users_table := [\<lparr>u_id = ''u'', u_email = ''e'', u_display_name = ''n'',
      u_created_at = Naive 0, u_disabled = False\<rparr>]\<rparr>)"
  obtain x w' where run: "create_api_token demo_auth_host ''ci'' ''u'' (Some ''p'') RoleViewer ?w = (x, w')" by fastforce
  note defs = create_api_token_def generate_api_token_def demo_auth_host_def bind_def uuid4_def utc_now_def on_store_def
    save_api_token_def insert_into_def insert_row_def fresh_world_def empty_db_def return_eq monotonic_utc_now_def
    clock_now_def ensure_utc_def hash_api_token_def api_token_to_row_def
  have x: "\<exists>token. x = Inr (token, ''gk_abc'')" using run by (auto simp: defs Let_def)
  then obtain token where token: "x = Inr (token, ''gk_abc'')" by blast
  have live: "live_tokens (w_db w') (hash_api_token demo_auth_host ''gk_abc'') = [api_token_to_row token]"
    and user: "user_enabled (w_db w') ''u''"
    using run token by (auto simp: defs Let_def live_tokens_def select_where_def user_enabled_def by_key_def)
  show ?thesis
    using api_token_lifecycle [OF run [unfolded token] live user, of "''boot''" None None "[]"]
    by (intro exI [of _ token] exI [of _ w']) (simp add: no_provider_def)
qed
end
