(* ===== verification/Scheduler.thy ===== *)
theory Scheduler
  imports Scheduler_Leases Validation Fanout Auth
begin

text \<open>
  The scheduler: \<^verbatim>\<open>src/src/goblin_king/scheduler.py\<close>, \<^verbatim>\<open>scheduler_failures.py\<close>, and the notebook fallback of
  \<^verbatim>\<open>notebooks.py\<close>. A pass (\<open>run_once\<close>) turns due schedules into jobs, leases due jobs, and executes each of
  them: mark running, resolve, gate on validation, run, finalize. Everything the scheduler asks of
  the machine or of code outside the repository is the parameter \<open>scheduler_host\<close>: the validation
  host, importing and calling an entrypoint, \<^verbatim>\<open>croniter\<close>, SHA-256, the monotonic clock and the
  Kubernetes runtime, which is known by its \<^verbatim>\<open>run\<close> method only. Since the machine's operations act on
  the whole world, they also stand for what other processes do to the database in the meantime.
\<close>

section \<open>Data\<close>

definition DEFAULT_LEASE_SECONDS :: int where
  "DEFAULT_LEASE_SECONDS = 60"

definition DEFAULT_CLAIM_LIMIT :: int where
  "DEFAULT_CLAIM_LIMIT = 10"

datatype runtime_mode = ModeDocker | ModeKubernetes | ModeInProcess

primrec runtime_mode_text :: "runtime_mode \<Rightarrow> string" where
  "runtime_mode_text ModeDocker = ''docker''"
| "runtime_mode_text ModeKubernetes = ''kubernetes''"
| "runtime_mode_text ModeInProcess = ''in-process''"

record 'r kubernetes_runtime =
  kr_run :: "goblin_definition \<Rightarrow> json \<Rightarrow> goblin_context \<Rightarrow> int option \<Rightarrow> resource_policy option \<Rightarrow> ('r world, goblin_result) op"
  kr_validation_image_identity :: "string \<Rightarrow> string \<Rightarrow> string"
  kr_effective_workload_security :: "string \<Rightarrow> json"

datatype 'r runtime = DockerRt "'r docker_runtime" | KubernetesRt "'r kubernetes_runtime" | InProcessRt

record 'r scheduler_host =
  sh_validation :: "'r validation_host"
  sh_kubernetes :: "worker_image_map \<Rightarrow> 'r kubernetes_runtime result"
  sh_import :: "string \<Rightarrow> (string \<Rightarrow> bool option) option"
  sh_call :: "goblin_definition \<Rightarrow> json \<Rightarrow> goblin_context \<Rightarrow> ('r world, entrypoint_outcome) op"
  sh_monotonic :: "('r world, rat) op"
  sh_croniter :: "string \<Rightarrow> string \<Rightarrow> datetime \<Rightarrow> datetime result"
  sh_sha256 :: "string \<Rightarrow> string"
  sh_isoformat :: "datetime \<Rightarrow> string"
  sh_type_name :: "error \<Rightarrow> string"
  sh_coercions :: coercions

record 'r scheduler =
  sd_registry :: goblin_registry
  sd_workers :: "worker_image_map option"
  sd_redis_url :: string
  sd_worker_id :: string
  sd_lease_seconds :: int
  sd_claim_limit :: int
  sd_runtime_mode :: runtime_mode
  sd_discovery_version :: int
  sd_event_bus :: "'r event_bus"
  sd_resource_policies :: "resource_policy_set option"
  sd_docker_run_root :: "string option"
  sd_runtime :: "'r runtime"

section \<open>Runtimes\<close>

definition container_mode :: "runtime_mode \<Rightarrow> bool" where
  "container_mode m \<longleftrightarrow> m \<in> {ModeDocker, ModeKubernetes}"

definition build_runtime ::
  "'r scheduler_host \<Rightarrow> runtime_mode \<Rightarrow> worker_image_map option \<Rightarrow> string \<Rightarrow> string option \<Rightarrow> 'r event_bus \<Rightarrow> 'r runtime result" where
  "build_runtime h mode workers redis_url docker_run_root bus =
     (case mode of
        ModeDocker \<Rightarrow> bind_result (new_docker_runtime (dh_environ (vh_docker (sh_validation h))) (the workers) redis_url
             docker_run_root (Some bus)) (\<lambda>rt. Inr (DockerRt rt))
      | ModeKubernetes \<Rightarrow> bind_result (sh_kubernetes h (the workers)) (\<lambda>rt. Inr (KubernetesRt rt))
      | ModeInProcess \<Rightarrow> Inr InProcessRt)"

definition workers_required :: "runtime_mode \<Rightarrow> error" where
  "workers_required mode =
     Raise ValueError (''workers image map is required when runtime_mode='' @ py_repr (runtime_mode_text mode))"

definition new_scheduler :: "'r scheduler_host \<Rightarrow> string option \<Rightarrow> 'r scheduler \<Rightarrow> ('r world, 'r scheduler) op" where
  "new_scheduler h worker_id args =
     bind (if truthy_text worker_id then return (the worker_id)
           else bind uuid4 (\<lambda>u. return (''scheduler-'' @ u))) (\<lambda>wid.
     if container_mode (sd_runtime_mode args) \<and> sd_workers args = None then throw (workers_required (sd_runtime_mode args))
     else bind (lift_result (build_runtime h (sd_runtime_mode args) (sd_workers args) (sd_redis_url args)
                  (sd_docker_run_root args) (sd_event_bus args))) (\<lambda>rt.
     return (args\<lparr>sd_worker_id := wid, sd_discovery_version := 1, sd_runtime := rt\<rparr>)))"

definition reload_discovery ::
  "'r scheduler_host \<Rightarrow> 'r scheduler \<Rightarrow> goblin_registry \<Rightarrow> worker_image_map option \<Rightarrow> (int \<times> 'r scheduler) result" where
  "reload_discovery h s registry workers =
     (if container_mode (sd_runtime_mode s) \<and> workers = None then Inl (workers_required (sd_runtime_mode s))
      else
        let s' = s\<lparr>sd_registry := registry, sd_workers := (if workers \<noteq> None then workers else sd_workers s)\<rparr> in
        bind_result (build_runtime h (sd_runtime_mode s') (sd_workers s') (sd_redis_url s') (sd_docker_run_root s')
          (sd_event_bus s')) (\<lambda>rt.
        Inr (sd_discovery_version s + 1, s'\<lparr>sd_runtime := rt, sd_discovery_version := sd_discovery_version s + 1\<rparr>)))"

definition build_runtime_for_workers ::
  "'r scheduler_host \<Rightarrow> 'r scheduler \<Rightarrow> worker_image_map \<Rightarrow> 'r runtime result" where
  "build_runtime_for_workers h s workers =
     (if container_mode (sd_runtime_mode s)
      then build_runtime h (sd_runtime_mode s) (Some workers) (sd_redis_url s) (sd_docker_run_root s) (sd_event_bus s)
      else Inr (sd_runtime s))"

section \<open>Materializing schedules\<close>

definition next_run_after :: "'r scheduler_host \<Rightarrow> schedule_record \<Rightarrow> datetime \<Rightarrow> datetime result" where
  "next_run_after h schedule now =
     bind_result (sh_croniter h (sc_cron schedule) (sc_timezone schedule) (ensure_utc now)) (\<lambda>next_local.
     Inr (ensure_utc next_local))"

definition scheduled_job ::
  "goblin_definition \<Rightarrow> schedule_record \<Rightarrow> datetime \<Rightarrow> resource_policy option \<Rightarrow> string \<Rightarrow> job_record" where
  "scheduled_job definition schedule current policy jid =
     \<lparr>j_id = jid, j_kind = gd_kind definition, j_input = sc_input schedule, j_created_at = current,
      j_created_by = ''scheduler'', j_correlation_id = None, j_project_id = sc_project_id schedule, j_fanout_id = None,
      j_metadata = goblin_job_metadata definition policy, j_status = Queued, j_priority = sc_priority schedule,
      j_schedule_id = Some (sc_id schedule), j_due_at = Some current, j_lease_owner = None, j_leased_until = None,
      j_attempt_count = 0, j_max_retries = policy_retries policy (sc_max_retries schedule),
      j_timeout_seconds = policy_timeout policy (sc_timeout_seconds schedule), j_last_error = None\<rparr>"

definition schedule_policy ::
  "'r scheduler_host \<Rightarrow> 'r scheduler \<Rightarrow> schedule_record \<Rightarrow> resource_policy option result" where
  "schedule_policy h s schedule =
     (case sd_resource_policies s of
        None \<Rightarrow> Inr None
      | Some ps \<Rightarrow> bind_result (effective_for (sh_coercions h) ps (sc_kind schedule) (sc_timeout_seconds schedule)
                     (Some (sc_max_retries schedule))) (\<lambda>p. Inr (Some p)))"

definition materialize_schedule ::
  "'r scheduler_host \<Rightarrow> 'r scheduler \<Rightarrow> datetime \<Rightarrow> schedule_record \<Rightarrow> ('r world, job_record option) op" where
  "materialize_schedule h s current schedule =
     bind (lift_result (registry_get (sd_registry s) (sc_kind schedule))) (\<lambda>definition.
     bind uuid4 (\<lambda>jid.
     case schedule_policy h s schedule of
       Inl e \<Rightarrow>
         if is_value_error e
         then bind (emit (sd_event_bus s) ''resource_policy.rejected'' SrcScheduler
                (no_args\<lparr>a_project_id := sc_project_id schedule, a_schedule_id := Some (sc_id schedule),
                   a_scheduler_id := Some (sd_worker_id s),
                   a_payload := Some (JObj [(''kind'', JStr (sc_kind schedule)), (''error'', JStr (error_message e))])\<rparr>))
                (\<lambda>_. return None)
         else throw e
     | Inr policy \<Rightarrow>
         let job = scheduled_job definition schedule current policy jid in
         bind (on_store (save_job job)) (\<lambda>_.
         bind (lift_result (next_run_after h schedule current)) (\<lambda>next_run_at.
         bind (on_store (update_schedule_after_materialize (sc_id schedule) current next_run_at)) (\<lambda>_.
         bind (emit (sd_event_bus s) ''schedule.materialized'' SrcScheduler
                (no_args\<lparr>a_project_id := sc_project_id schedule, a_job_id := Some (j_id job),
                   a_schedule_id := Some (sc_id schedule), a_scheduler_id := Some (sd_worker_id s),
                   a_payload := Some (JObj [(''kind'', JStr (sc_kind schedule)), (''due_at'', JStr (sh_isoformat h current))]),
                   a_after := Some (j_created_at job)\<rparr>)) (\<lambda>_.
         return (Some job)))))))"

definition materialize_due_schedules ::
  "'r scheduler_host \<Rightarrow> 'r scheduler \<Rightarrow> datetime \<Rightarrow> ('r world, job_record list) op" where
  "materialize_due_schedules h s now =
     (let current = ensure_utc now in
      bind (gets (\<lambda>w. list_due_schedules current (w_db w))) (\<lambda>schedules.
      bind (for_each (materialize_schedule h s current) schedules) (\<lambda>jobs.
      return (List.map_filter id jobs))))"

section \<open>Claiming\<close>

definition job_event_args :: "'r scheduler \<Rightarrow> job_record \<Rightarrow> emit_args" where
  "job_event_args s job = no_args\<lparr>a_project_id := j_project_id job, a_job_id := Some (j_id job),
     a_schedule_id := j_schedule_id job, a_fanout_id := j_fanout_id job, a_scheduler_id := Some (sd_worker_id s)\<rparr>"

datatype concurrency_scope = ScopeProject | ScopeGoblin

definition scope_text :: "concurrency_scope \<Rightarrow> string" where
  "scope_text sc = (case sc of ScopeProject \<Rightarrow> ''project'' | ScopeGoblin \<Rightarrow> ''goblin'')"

definition limit_name :: "concurrency_scope \<Rightarrow> string" where
  "limit_name sc = (case sc of ScopeProject \<Rightarrow> ''max_project_running'' | ScopeGoblin \<Rightarrow> ''max_running'')"

definition deferral_message :: "concurrency_scope \<Rightarrow> int \<Rightarrow> int \<Rightarrow> string" where
  "deferral_message sc active_count limit = ''deferred by '' @ scope_text sc @ '' concurrency policy: active='' @
     str_int active_count @ '' '' @ limit_name sc @ ''='' @ str_int limit"

definition defer_job ::
  "'r scheduler \<Rightarrow> datetime \<Rightarrow> job_record \<Rightarrow> concurrency_scope \<Rightarrow> int \<Rightarrow> int \<Rightarrow> ('r world, job_record option) op" where
  "defer_job s current job sc active_count limit =
     (let message = deferral_message sc active_count limit in
      bind (on_store (finish_job (j_id job) Queued (Some message) (Some current))) (\<lambda>_.
      bind (emit (sd_event_bus s) ''resource_policy.concurrency_deferred'' SrcScheduler
             ((job_event_args s job)\<lparr>a_payload := Some (JObj
                [(''kind'', JStr (j_kind job)), (''scope'', JStr (scope_text sc)), (limit_name sc, JInt limit),
                 (''active_count'', JInt active_count), (''reason'', JStr message)])\<rparr>)) (\<lambda>_.
      return None)))"

definition admit_job :: "'r scheduler_host \<Rightarrow> 'r scheduler \<Rightarrow> job_record \<Rightarrow> ('r world, job_record option) op" where
  "admit_job h s job =
     bind (emit (sd_event_bus s) ''job.leased'' SrcScheduler
            ((job_event_args s job)\<lparr>a_payload := Some (JObj [(''kind'', JStr (j_kind job)),
                (''leased_until'', JStr (sh_isoformat h (the (j_leased_until job))))]),
               a_after := Some (j_created_at job)\<rparr>)) (\<lambda>_. return (Some job))"

definition consider_job ::
  "'r scheduler_host \<Rightarrow> 'r scheduler \<Rightarrow> datetime \<Rightarrow> job_record \<Rightarrow> ('r world, job_record option) op" where
  "consider_job h s current job =
     bind (lift_result (policy_from_job_metadata (sh_coercions h) (j_metadata job))) (\<lambda>policy.
     let max_project_running = Option.bind policy (\<lambda>p. max_project_running (rp_concurrency p));
         max_running = Option.bind policy (\<lambda>p. max_running (rp_concurrency p)) in
     bind (gets (\<lambda>w. int (count_active_project_jobs (w_db w) (j_project_id job) (Some (j_id job))))) (\<lambda>project_active.
     if (case max_project_running of None \<Rightarrow> False | Some m \<Rightarrow> m \<le> project_active)
     then defer_job s current job ScopeProject project_active (the max_project_running)
     else bind (gets (\<lambda>w. int (count_active_jobs (w_db w) (j_kind job) (Some (j_id job))))) (\<lambda>active.
     if (case max_running of None \<Rightarrow> False | Some m \<Rightarrow> m \<le> active)
     then defer_job s current job ScopeGoblin active (the max_running)
     else admit_job h s job)))"

definition scheduler_claim_due_jobs :: "'r scheduler_host \<Rightarrow> 'r scheduler \<Rightarrow> datetime \<Rightarrow> ('r world, job_record list) op" where
  "scheduler_claim_due_jobs h s now =
     (let current = ensure_utc now in
      bind (on_store (claim_due_jobs (sd_worker_id s) current (plus_microseconds current (seconds (sd_lease_seconds s)))
             (sd_claim_limit s))) (\<lambda>jobs.
      bind (for_each (consider_job h s current) jobs) (\<lambda>runnable.
      return (List.map_filter id runnable))))"

section \<open>Notebook goblins\<close>

definition NOTEBOOK_WORKER_MODULE :: string where
  "NOTEBOOK_WORKER_MODULE = ''goblin_king.container_only''"

definition notebook_validation_identity :: "(string \<Rightarrow> string) \<Rightarrow> string option \<Rightarrow> string \<Rightarrow> string" where
  "notebook_validation_identity sha256 image_identity source_hash =
     sha256 (or_else image_identity ''<unresolved-runner-image>'' @ [CHR 0x00] @ source_hash)"

definition notebook_definition :: "notebook_goblin_record \<Rightarrow> goblin_definition result" where
  "notebook_definition nb = new_goblin_definition
     \<lparr>gd_kind = ng_kind nb, gd_display_name = ng_display_name nb, gd_module = NOTEBOOK_WORKER_MODULE, gd_entrypoint = ''run'',
      gd_timeout_seconds = ng_timeout_seconds nb, gd_max_retries = Some (ng_max_retries nb),
      gd_metadata = obj_merge (ng_metadata nb) (JObj [(''workload_type'', JStr ''notebook-python-function''),
        (''source_hash'', JStr (ng_source_hash nb)), (''function_name'', JStr (ng_function_name nb))])\<rparr>"

definition notebook_worker_map :: "'r validation_host \<Rightarrow> notebook_goblin_record \<Rightarrow> worker_image_map" where
  "notebook_worker_map h nb = workers_from_definitions h
     [(ng_kind nb, \<lparr>wi_context = ''.'', wi_dockerfile = ''Dockerfile'', wi_image = ng_image nb\<rparr>)]"

definition notebook_worker_input :: "notebook_goblin_record \<Rightarrow> json \<Rightarrow> json" where
  "notebook_worker_input nb payload = JObj [(''kind'', JStr (ng_kind nb)), (''source'', JStr (ng_source nb)),
     (''source_hash'', JStr (ng_source_hash nb)), (''function'', JStr (ng_function_name nb)),
     (''payload'', or_empty (Some payload))]"

section \<open>The validation gate\<close>

text \<open>What the gate is asked about: the job, the kind, and what the runtime would run.\<close>

record 'r gate_request =
  gq_job :: job_record
  gq_kind :: string
  gq_registry :: goblin_registry
  gq_workers :: "worker_image_map option"
  gq_runtime :: "'r runtime"
  gq_input :: json
  gq_notebook_source_hash :: "string option"
  gq_resource_policy :: json

fun validation_runtime_of :: "'r runtime \<Rightarrow> validation_runtime" where
  "validation_runtime_of (KubernetesRt _) = ValidateKubernetes"
| "validation_runtime_of _ = ValidateDocker"

definition gate_policy :: "'r gate_request \<Rightarrow> json" where
  "gate_policy q = (case gq_runtime q of
     KubernetesRt rt \<Rightarrow> obj_merge (gq_resource_policy q)
       (JObj [(''kubernetes_workload_security'', kr_effective_workload_security rt (gq_kind q))])
   | _ \<Rightarrow> gq_resource_policy q)"

definition gate_identity ::
  "'r scheduler_host \<Rightarrow> 'r gate_request \<Rightarrow> worker_image_definition \<Rightarrow> ('r world, string option \<times> string option) op" where
  "gate_identity h q worker = (case gq_runtime q of
     KubernetesRt rt \<Rightarrow> return (Some (kr_validation_image_identity rt (wi_image worker) (gq_kind q)), None)
   | DockerRt rt \<Rightarrow> inspect_image_identity (sh_validation h) (dr_docker_executable rt) (wi_image worker)
   | InProcessRt \<Rightarrow> inspect_image_identity (sh_validation h) ''docker'' (wi_image worker))"

definition bind_source ::
  "'r scheduler_host \<Rightarrow> 'r gate_request \<Rightarrow> string option \<Rightarrow> string option" where
  "bind_source h q digest = (case gq_notebook_source_hash q of
     Some source_hash \<Rightarrow> Some (notebook_validation_identity (sh_sha256 h) digest source_hash) | None \<Rightarrow> digest)"

text \<open>
  Validate the one kind, bind the source identity into the result and record it. \<^verbatim>\<open>validate_workers\<close>
  gives at least one result for a requested kind, so \<^verbatim>\<open>[0]\<close> does not raise.
\<close>

definition validate_and_record ::
  "'r scheduler_host \<Rightarrow> 'r scheduler \<Rightarrow> 'r gate_request \<Rightarrow> worker_image_map \<Rightarrow> int option \<Rightarrow> ('r world, worker_validation_result) op" where
  "validate_and_record h s q worker_map timeout_seconds =
     bind (validate_workers (sh_validation h) (gq_registry q) worker_map
            \<lparr>va_input = gq_input q, va_kinds = [gq_kind q], va_build = False, va_require_success = False,
             va_prebuilt_image = True, va_timeout_seconds = timeout_seconds, va_redis_url = sd_redis_url s,
             va_run_root = (case gq_runtime q of DockerRt rt \<Rightarrow> Some (path_text (dr_run_root rt)) | _ \<Rightarrow> None)\<rparr>) (\<lambda>results.
     let result = (hd results)\<lparr>vr_image_digest := bind_source h q (vr_image_digest (hd results))\<rparr> in
     bind (validation_record (sh_validation h) result (Some (gate_policy q))) (\<lambda>record.
     bind (on_store (save_worker_validation record)) (\<lambda>_.
     return result)))"

definition validate_before_container_run ::
  "'r scheduler_host \<Rightarrow> 'r scheduler \<Rightarrow> 'r gate_request \<Rightarrow> ('r world, string option) op" where
  "validate_before_container_run h s q =
     (let kind = gq_kind q;
          runtime = validation_runtime_of (gq_runtime q);
          refuse = (\<lambda>g. return (Some (format_validation_gate_error g))) in
      case (case gq_workers q of None \<Rightarrow> sd_workers s | Some m \<Rightarrow> Some m) of
        None \<Rightarrow> refuse (gate_error_of kind None ''worker image map is required for validation'' runtime)
      | Some worker_map \<Rightarrow>
     (case workers_get worker_map kind of
        Inl e \<Rightarrow> if is_worker_config_error e then refuse (gate_error_of kind None (error_message e) runtime) else throw e
      | Inr worker \<Rightarrow>
      bind (gate_identity h q worker) (\<lambda>(image_digest, image_error).
      let validation_identity = bind_source h q image_digest;
          known_identity = (if truthy_text validation_identity then validation_identity else image_digest) in
      bind (gets (\<lambda>w. latest_worker_validation_for_kind (w_db w) kind)) (\<lambda>latest_for_kind.
      let latest_digest = map_option wv_image_digest latest_for_kind in
      if image_error \<noteq> None \<or> image_digest = None
      then
        bind (validate_and_record h s q worker_map None) (\<lambda>_.
        refuse ((gate_error_of kind (Some (wi_image worker))
            (or_else image_error (''worker image digest unavailable: '' @ wi_image worker)) runtime)
          \<lparr>ge_image_digest := validation_identity, ge_stale_from_digest := latest_digest\<rparr>))
      else
        bind (gets (\<lambda>w. get_latest_worker_validation (w_db w) kind (the known_identity)
               GOBLIN_CONTAINER_CONTRACT_VERSION VALIDATOR_VERSION)) (\<lambda>cached.
        if (case cached of None \<Rightarrow> False | Some v \<Rightarrow> wv_status v = ValPassed) then return None
        else if runtime = ValidateKubernetes
        then refuse ((gate_error_of kind (Some (wi_image worker))
            ''no current Kubernetes validation proof exists; validate first'' runtime)
          \<lparr>ge_image_digest := known_identity, ge_stale_from_digest := latest_digest\<rparr>)
        else
          bind (validate_and_record h s q worker_map (j_timeout_seconds (gq_job q))) (\<lambda>result.
          if vr_ok result then return None
          else refuse ((gate_error_of kind
              (Some (or_else (vr_image result) (wi_image worker)))
              (or_else (vr_error result) ''worker validation failed'') runtime)
            \<lparr>ge_image_digest := (if truthy_text (vr_image_digest result) then vr_image_digest result else known_identity),
             ge_stale_from_digest := (case latest_for_kind of
                Some v \<Rightarrow> if wv_status v = ValPassed \<and> Some (wv_image_digest v) \<noteq> image_digest
                          then Some (wv_image_digest v) else None
              | None \<Rightarrow> None),
             ge_contract_version := vr_contract_version result,
             ge_validator_version := vr_validator_version result\<rparr>)))))))"

section \<open>Executing a claimed job\<close>

definition status_for_result :: "goblin_result \<Rightarrow> rat \<Rightarrow> int option \<Rightarrow> run_status" where
  "status_for_result result elapsed_seconds timeout_seconds =
     (if (case timeout_seconds of None \<Rightarrow> False | Some t \<Rightarrow> of_int t < elapsed_seconds) then RunTimedOut
      else if res_status result = ResSuccess then RunCompleted else RunFailed)"

primrec job_status_of :: "run_status \<Rightarrow> job_status" where
  "job_status_of RunRunning = Running"
| "job_status_of RunCompleted = Completed"
| "job_status_of RunFailed = Failed"
| "job_status_of RunTimedOut = TimedOut"

record 'r attempt_setup =
  as_definition :: goblin_definition
  as_runtime :: "'r runtime"
  as_workers :: "worker_image_map option"
  as_registry :: goblin_registry
  as_input :: json
  as_notebook :: "notebook_goblin_record option"

definition resolve_attempt :: "'r scheduler_host \<Rightarrow> 'r scheduler \<Rightarrow> job_record \<Rightarrow> ('r world, 'r attempt_setup) op" where
  "resolve_attempt h s job =
     (let found = (if container_mode (sd_runtime_mode s) then registry_get (sd_registry s) (j_kind job)
                   else registry_resolve (sh_import h) (sd_registry s) (j_kind job)) in
      case found of
        Inr definition \<Rightarrow> return \<lparr>as_definition = definition, as_runtime = sd_runtime s, as_workers = sd_workers s,
            as_registry = sd_registry s, as_input = j_input job, as_notebook = None\<rparr>
      | Inl e \<Rightarrow>
          if error_class e \<noteq> RegistryError then throw e
          else bind (gets (\<lambda>w. get_notebook_goblin (w_db w) (j_kind job))) (\<lambda>notebook.
            case notebook of
              None \<Rightarrow> throw e
            | Some nb \<Rightarrow>
                bind (lift_result (notebook_definition nb)) (\<lambda>definition.
                if container_mode (sd_runtime_mode s)
                then
                  let workers = notebook_worker_map (sh_validation h) nb in
                  bind (lift_result (registry_from_definitions [definition])) (\<lambda>registry.
                  bind (lift_result (build_runtime_for_workers h s workers)) (\<lambda>runtime.
                  return \<lparr>as_definition = definition, as_runtime = runtime, as_workers = Some workers, as_registry = registry,
                          as_input = notebook_worker_input nb (j_input job), as_notebook = Some nb\<rparr>))
                else return \<lparr>as_definition = definition, as_runtime = sd_runtime s, as_workers = sd_workers s,
                       as_registry = sd_registry s, as_input = notebook_worker_input nb (j_input job),
                       as_notebook = Some nb\<rparr>)))"

definition present_member :: "json \<Rightarrow> string \<Rightarrow> (string \<times> json) list" where
  "present_member obj key = (case obj_get obj key of None \<Rightarrow> [] | Some JNull \<Rightarrow> [] | Some v \<Rightarrow> [(key, v)])"

definition attempt_context :: "job_record \<Rightarrow> resource_policy option \<Rightarrow> goblin_context \<Rightarrow> goblin_context" where
  "attempt_context job policy context =
     context\<lparr>ctx_metadata := obj_merge (ctx_metadata context) (JObj
       ((case j_project_id job of None \<Rightarrow> [] | Some p \<Rightarrow> [(''project_id'', JStr p)]) @
        present_member (j_metadata job) ''goblin_source'' @ present_member (j_metadata job) ''goblin_definition'' @
        policy_member policy))\<rparr>"

definition attempt_run ::
  "job_record \<Rightarrow> string \<Rightarrow> string \<Rightarrow> int \<Rightarrow> run_status \<Rightarrow> datetime \<Rightarrow> datetime option \<Rightarrow> goblin_result option \<Rightarrow> string option \<Rightarrow>
   resource_policy option \<Rightarrow> run_record result" where
  "attempt_run job kind run_id attempt status started_at finished_at result err policy = new_run_record
     \<lparr>r_id = run_id, r_job_id = j_id job, r_kind = kind, r_project_id = j_project_id job, r_attempt = attempt,
      r_status = status, r_started_at = started_at, r_finished_at = finished_at, r_result = result, r_error = err,
      r_timeout_seconds = j_timeout_seconds job, r_max_retries = j_max_retries job, r_leased_until = j_leased_until job,
      r_resource_policy = map_option compact policy\<rparr>"

definition finish_attempt_timestamp :: "string \<Rightarrow> datetime \<Rightarrow> ('r world, datetime) op" where
  "finish_attempt_timestamp job_id started_at =
     bind (gets (\<lambda>w. latest_event_created_at (w_db w) (Some job_id) None)) (\<lambda>latest.
     bind utc_now (\<lambda>now.
     return (causally_after [Some started_at, latest] now)))"

primrec outcome_text :: "attempt_outcome \<Rightarrow> string" where
  "outcome_text Finalized = ''finalized''"
| "outcome_text OutcomeCancelled = ''cancelled''"
| "outcome_text Stale = ''stale''"

fun in_container :: "'r runtime \<Rightarrow> bool" where
  "in_container (DockerRt _) = True"
| "in_container (KubernetesRt _) = True"
| "in_container InProcessRt = False"

definition gate_attempt ::
  "'r scheduler_host \<Rightarrow> 'r scheduler \<Rightarrow> job_record \<Rightarrow> 'r attempt_setup \<Rightarrow> resource_policy option \<Rightarrow> ('r world, string option) op" where
  "gate_attempt h s job setup policy =
     bind (catching (\<lambda>_. True)
       (bind (lift_result (goblin_validation_input (as_definition setup) (as_input setup))) (\<lambda>input.
        validate_before_container_run h s
          \<lparr>gq_job = job, gq_kind = gd_kind (as_definition setup), gq_registry = as_registry setup,
           gq_workers = as_workers setup, gq_runtime = as_runtime setup, gq_input = input,
           gq_notebook_source_hash = map_option ng_source_hash (as_notebook setup),
           gq_resource_policy = (case policy of None \<Rightarrow> JObj [] | Some p \<Rightarrow> compact p)\<rparr>))) (\<lambda>outcome.
     case outcome of
       Inr verdict \<Rightarrow> return verdict
     | Inl e \<Rightarrow> return (Some (''Goblin image validation could not start; the job was failed and its lease was released. '' @
         sh_type_name h e @ '': '' @ error_message e)))"

definition reject_attempt ::
  "'r scheduler \<Rightarrow> job_record \<Rightarrow> string \<Rightarrow> goblin_context \<Rightarrow> int \<Rightarrow> datetime \<Rightarrow> resource_policy option \<Rightarrow> string \<Rightarrow>
   ('r world, run_record) op" where
  "reject_attempt s job kind context attempt started_at policy validation_error =
     bind (finish_attempt_timestamp (j_id job) started_at) (\<lambda>finished_at.
     bind (lift_result (attempt_run job kind (ctx_run_id context) attempt RunFailed started_at (Some finished_at)
            (Some (failed_result validation_error)) (Some validation_error) policy)) (\<lambda>run0.
     bind (on_store (finalize_job_attempt run0 Failed (Some validation_error) None (sd_worker_id s))) (\<lambda>finalization.
     let run = af_run finalization in
     bind (if af_outcome finalization = Finalized
           then bind (emit (sd_event_bus s) ''validation.scheduling_rejected'' SrcScheduler
                  ((job_event_args s job)\<lparr>a_run_id := Some (r_id run),
                     a_payload := Some (JObj [(''kind'', JStr (j_kind job)), (''error'', JStr validation_error)]),
                     a_after := r_finished_at run\<rparr>)) (\<lambda>_. return ())
           else return ()) (\<lambda>_.
     bind (audit ''validation.scheduling_rejected'' ''failure'' None (j_project_id job) (Some ''job'') (Some (j_id job))
            (Some (JObj [(''kind'', JStr (j_kind job)), (''error'', JStr validation_error),
                         (''job_transition'', JStr (outcome_text (af_outcome finalization)))]))) (\<lambda>_.
     return run)))))"

definition run_attempt ::
  "'r scheduler_host \<Rightarrow> job_record \<Rightarrow> 'r attempt_setup \<Rightarrow> goblin_context \<Rightarrow> resource_policy option \<Rightarrow> ('r world, goblin_result) op" where
  "run_attempt h job setup context policy =
     (case as_runtime setup of
        DockerRt rt \<Rightarrow> docker_run (vh_docker (sh_validation h)) rt (as_definition setup) (as_input setup) context
          (j_timeout_seconds job) policy
      | KubernetesRt rt \<Rightarrow> kr_run rt (as_definition setup) (as_input setup) context (j_timeout_seconds job) policy
      | InProcessRt \<Rightarrow>
          if as_notebook setup \<noteq> None
          then return (failed_result ''notebook-defined goblins require docker or kubernetes runtime'')
          else bind (sh_call h (as_definition setup) (as_input setup) context) (\<lambda>outcome.
               return (in_process_run (as_definition setup) outcome)))"

text \<open>The part of \<^verbatim>\<open>_execute_claimed_job\<close> after the runtime has returned.\<close>

definition conclude_attempt ::
  "'r scheduler \<Rightarrow> job_record \<Rightarrow> string \<Rightarrow> int \<Rightarrow> datetime \<Rightarrow> datetime \<Rightarrow> rat \<Rightarrow> resource_policy option \<Rightarrow> goblin_result \<Rightarrow> datetime \<Rightarrow>
   ('r world, run_record) op" where
  "conclude_attempt s job run_id attempt requested_start started_at elapsed policy result0 finished_at =
     (let status = status_for_result result0 elapsed (j_timeout_seconds job);
          late = (status = RunTimedOut \<and> res_error result0 = None);
          err = (if late then Some (''job exceeded timeout_seconds='' @ str_int (the (j_timeout_seconds job)))
                 else res_error result0);
          result = (if late then goblin_result_failed (the err) (Some (res_data result0)) [] None [] else result0);
          retrying = (status = RunFailed \<and> attempt \<le> j_max_retries job) in
      bind (lift_result (attempt_run job (j_kind job) run_id attempt status started_at (Some finished_at)
             (Some result) err policy)) (\<lambda>run0.
      bind (on_store (finalize_job_attempt run0 (if retrying then Retrying else job_status_of status) err
             (if retrying then Some requested_start else None) (sd_worker_id s))) (\<lambda>finalization.
      let run = af_run finalization in
      if af_outcome finalization \<noteq> Finalized then return run
      else bind (emit (sd_event_bus s) (if retrying then ''job.retrying'' else ''job.'' @ run_status_text status) SrcScheduler
             ((job_event_args s job)\<lparr>a_run_id := Some (r_id run),
                a_payload := Some (JObj [(''kind'', JStr (j_kind job)), (''attempt'', JInt attempt), (''error'', json_opt JStr err)]),
                a_after := r_finished_at run\<rparr>)) (\<lambda>_. return run))))"

definition execute_claimed_job :: "'r scheduler_host \<Rightarrow> 'r scheduler \<Rightarrow> job_record \<Rightarrow> datetime \<Rightarrow> ('r world, run_record) op" where
  "execute_claimed_job h s job now =
     (let requested_start = ensure_utc now; attempt = j_attempt_count job + 1 in
      bind (on_store (try_mark_job_running (j_id job) attempt (sd_worker_id s))) (\<lambda>marked.
      if \<not> marked
      then throw (Raise JobAttemptSuperseded (''job '' @ py_repr (j_id job) @ '' no longer belongs to scheduler '' @
             py_repr (sd_worker_id s)))
      else
        bind (emit (sd_event_bus s) ''job.running'' SrcScheduler
               ((job_event_args s job)\<lparr>a_payload := Some (JObj [(''kind'', JStr (j_kind job)), (''attempt'', JInt attempt)]),
                  a_after := Some (j_created_at job)\<rparr>)) (\<lambda>running_event.
        let started_at = causally_after [Some (e_created_at running_event)] requested_start in
        bind (sh_monotonic h) (\<lambda>started_monotonic.
        bind (resolve_attempt h s job) (\<lambda>setup.
        bind (vh_iso_now (sh_validation h)) (\<lambda>iso_now.
        bind (new_run_context iso_now (j_id job) (j_kind job) attempt) (\<lambda>context0.
        bind (lift_result (policy_from_job_metadata (sh_coercions h) (j_metadata job))) (\<lambda>policy.
        let context = attempt_context job policy context0 in
        bind (if in_container (as_runtime setup) then gate_attempt h s job setup policy else return None) (\<lambda>validation_error.
        case validation_error of
          Some m \<Rightarrow> reject_attempt s job (gd_kind (as_definition setup)) context attempt started_at policy m
        | None \<Rightarrow>
            bind (lift_result (attempt_run job (j_kind job) (ctx_run_id context) attempt RunRunning started_at None None None policy)) (\<lambda>run.
            bind (on_store (start_run run)) (\<lambda>_.
            bind (run_attempt h job setup context policy) (\<lambda>result.
            bind (finish_attempt_timestamp (j_id job) started_at) (\<lambda>finished_at.
            bind (sh_monotonic h) (\<lambda>finished_monotonic.
            conclude_attempt s job (ctx_run_id context) attempt requested_start started_at
              (finished_monotonic - started_monotonic) policy result finished_at))))))))))))))"

section \<open>Recovering from a raised attempt\<close>

definition run_order :: "run_record \<Rightarrow> int \<times> bool \<times> int" where
  "run_order run = (r_attempt run, r_finished_at run \<noteq> None,
     utc_instant (case r_finished_at run of None \<Rightarrow> r_started_at run | Some t \<Rightarrow> t))"

text \<open>\<^verbatim>\<open>max(prior_runs, key=...)\<close>: the first of the greatest.\<close>

fun latest_run :: "run_record \<Rightarrow> run_record list \<Rightarrow> run_record" where
  "latest_run best [] = best"
| "latest_run best (r # rs) = (if run_order best < run_order r then latest_run r rs else latest_run best rs)"

datatype recovery = RecoveryDone run_record | RecoverWith "run_record option"

definition prior_state :: "job_record \<Rightarrow> run_record list \<Rightarrow> ('r world, recovery) op" where
  "prior_state current prior_runs =
     (case prior_runs of
        [] \<Rightarrow> return (RecoverWith None)
      | r # rs \<Rightarrow>
          let latest = latest_run r rs in
          if r_status latest \<noteq> RunRunning
          then if j_status current \<in> TERMINAL_JOB_STATUSES \<and> j_attempt_count current \<le> r_attempt latest
               then return (RecoveryDone latest)
               else if j_status current \<noteq> Leased \<and> j_attempt_count current \<le> r_attempt latest
               then bind (on_store (finish_job (j_id current) (job_status_of (r_status latest)) (r_error latest) None))
                      (\<lambda>_. return (RecoveryDone latest))
               else return (RecoverWith None)
          else if j_attempt_count current \<le> r_attempt latest then return (RecoverWith (Some latest))
          else return (RecoverWith None))"

definition failed_attempt_number :: "job_record \<Rightarrow> job_record \<Rightarrow> int" where
  "failed_attempt_number current claimed_job =
     max (if j_status current = Leased then j_attempt_count current + 1 else j_attempt_count current)
         (j_attempt_count claimed_job + 1)"

definition record_failed_run ::
  "'r scheduler_host \<Rightarrow> 'r event_bus \<Rightarrow> string \<Rightarrow> job_record \<Rightarrow> job_record \<Rightarrow> datetime \<Rightarrow> error \<Rightarrow> run_record option \<Rightarrow>
   ('r world, run_record) op" where
  "record_failed_run h bus scheduler_id claimed_job current started_at err running_run =
     (let attempt = failed_attempt_number current claimed_job;
          message = ''Scheduler job execution failed at the job boundary; the lease was released. '' @
            sh_type_name h err @ '': '' @ error_message err in
      bind (vh_iso_now (sh_validation h)) (\<lambda>iso_now.
      bind (new_run_context iso_now (j_id current) (j_kind current) attempt) (\<lambda>context.
      bind (lift_result (policy_from_job_metadata (sh_coercions h) (j_metadata current))) (\<lambda>policy.
      bind (gets (\<lambda>w. latest_event_created_at (w_db w) (Some (j_id current)) (Some ''job.running''))) (\<lambda>running_event.
      let attempt_started_at = (case running_run of
            Some r \<Rightarrow> r_started_at r
          | None \<Rightarrow> causally_after [Some (j_created_at current), running_event] started_at) in
      bind (finish_attempt_timestamp (j_id current) attempt_started_at) (\<lambda>finished_at.
      bind (lift_result (attempt_run current (j_kind current)
              (case running_run of Some r \<Rightarrow> r_id r | None \<Rightarrow> ctx_run_id context) attempt RunFailed attempt_started_at
              (Some finished_at) (Some (failed_result message)) (Some message) policy)) (\<lambda>run0.
      bind (on_store (finalize_job_attempt run0 Failed (Some message) None scheduler_id)) (\<lambda>finalization.
      let run = af_run finalization in
      if af_outcome finalization \<noteq> Finalized then return run
      else bind (emit bus ''job.failed'' SrcScheduler
             (no_args\<lparr>a_project_id := j_project_id current, a_job_id := Some (j_id current), a_run_id := Some (r_id run),
                a_schedule_id := j_schedule_id current, a_fanout_id := j_fanout_id current, a_scheduler_id := Some scheduler_id,
                a_payload := Some (JObj [(''kind'', JStr (j_kind current)), (''attempt'', JInt attempt), (''error'', JStr message),
                                         (''scheduler_exception'', JBool True)]),
                a_after := r_finished_at run\<rparr>)) (\<lambda>_. return run)))))))))"

definition record_unexpected_job_failure ::
  "'r scheduler_host \<Rightarrow> 'r event_bus \<Rightarrow> string \<Rightarrow> job_record \<Rightarrow> datetime \<Rightarrow> error \<Rightarrow> ('r world, run_record) op" where
  "record_unexpected_job_failure h bus scheduler_id claimed_job started_at err =
     bind (gets (\<lambda>w. get_job (w_db w) (j_id claimed_job))) (\<lambda>found.
     case found of
       None \<Rightarrow> throw (Raise RuntimeError (''cannot recover scheduler failure because job '' @ py_repr (j_id claimed_job) @
                 '' disappeared''))
     | Some current \<Rightarrow>
         bind (\<lambda>w. (list_job_runs (w_db w) (j_id current), w)) (\<lambda>prior_runs.
         bind (prior_state current prior_runs) (\<lambda>state.
         case state of
           RecoveryDone run \<Rightarrow> return run
         | RecoverWith running_run \<Rightarrow>
             record_failed_run h bus scheduler_id claimed_job current started_at err running_run)))"

section \<open>A pass\<close>

definition run_claimed_job :: "'r scheduler_host \<Rightarrow> 'r scheduler \<Rightarrow> job_record \<Rightarrow> datetime \<Rightarrow> ('r world, run_record) op" where
  "run_claimed_job h s job now =
     bind (lift_result (new_active_job_lease try_renew_job_lease (j_id job) (sd_worker_id s) (sd_lease_seconds s))) (\<lambda>_.
     execute_claimed_job h s job now)"

definition attempt_job :: "'r scheduler_host \<Rightarrow> 'r scheduler \<Rightarrow> datetime \<Rightarrow> job_record \<Rightarrow> ('r world, run_record option) op" where
  "attempt_job h s current job =
     bind (catching (\<lambda>_. True) (execute_claimed_job h s job current)) (\<lambda>outcome.
     case outcome of
       Inr run \<Rightarrow> return (Some run)
     | Inl e \<Rightarrow>
         if error_class e = JobAttemptSuperseded then return None
         else bind (record_unexpected_job_failure h (sd_event_bus s) (sd_worker_id s) job current e) (\<lambda>run.
              return (Some run)))"

definition run_once :: "'r scheduler_host \<Rightarrow> 'r scheduler \<Rightarrow> datetime \<Rightarrow> ('r world, run_record list) op" where
  "run_once h s now =
     (let current = ensure_utc now in
      bind (heartbeat (sd_event_bus s) (sd_worker_id s) OwnerScheduler ''running''
             (Some (JObj [(''runtime'', JStr (runtime_mode_text (sd_runtime_mode s)))])) None None) (\<lambda>_.
      bind (materialize_due_schedules h s current) (\<lambda>_.
      bind (scheduler_claim_due_jobs h s current) (\<lambda>claimed_jobs.
      bind (for_each (\<lambda>job. lift_result (new_active_job_lease try_renew_job_lease (j_id job) (sd_worker_id s)
             (sd_lease_seconds s))) claimed_jobs) (\<lambda>_.
      bind (for_each (attempt_job h s current) claimed_jobs) (\<lambda>runs.
      return (List.map_filter id runs)))))))"

text \<open>\<open>stops\<close> are the values of the stop event at the head of the loop.\<close>

fun run_loop :: "'r scheduler_host \<Rightarrow> 'r scheduler \<Rightarrow> bool list \<Rightarrow> ('r world, unit) op" where
  "run_loop h s [] = return ()"
| "run_loop h s (stop # stops) =
     (if stop then return ()
      else bind utc_now (\<lambda>now. bind (run_once h s now) (\<lambda>_. run_loop h s stops)))"

end
