(* ===== verification/Scheduler_Pass.thy ===== *)
theory Scheduler_Pass
  imports Scheduler
begin

text \<open>
  What a scheduler pass guarantees, over the operations of theory \<open>Scheduler\<close>: the concurrency limits
  of the policies hold for what is admitted, an attempt whose job was cancelled or taken over runs
  nothing, a container runs only with a passed proof on record, an attempt ends with the status and
  retry the rules say, and due schedules become jobs. Two theorems state how far the isolation of
  one bad job or schedule does not reach.
\<close>

section \<open>A scheduler to instantiate the theorems with\<close>

definition demo_host :: "unit scheduler_host" where
  "demo_host = \<lparr>sh_validation = valid_host, sh_kubernetes = (\<lambda>_. Inl (Raise RuntimeError ''no cluster'')), sh_import = (\<lambda>_. None),
     sh_call = (\<lambda>_ _ _. return (EntrypointRaised ''not importable'')), sh_monotonic = return 0,
     sh_croniter = (\<lambda>_ _ t. Inr (plus_microseconds t 60000000)), sh_sha256 = (\<lambda>s. s), sh_isoformat = (\<lambda>_. ''t''),
     sh_type_name = (\<lambda>_. ''Exception''), sh_coercions = strict_coercions\<rparr>"

definition demo_scheduler :: "unit scheduler" where
  "demo_scheduler = \<lparr>sd_registry = echo_registry, sd_workers = Some (dr_workers quiet_runtime), sd_redis_url = ''redis://localhost:6379/0'',
     sd_worker_id = ''w1'', sd_lease_seconds = DEFAULT_LEASE_SECONDS, sd_claim_limit = DEFAULT_CLAIM_LIMIT, sd_runtime_mode = ModeDocker,
     sd_discovery_version = 1, sd_event_bus = down_bus, sd_resource_policies = None, sd_docker_run_root = None,
     sd_runtime = DockerRt quiet_runtime\<rparr>"

definition one_at_a_time :: resource_policy where
  "one_at_a_time = empty_policy\<lparr>rp_concurrency := \<lparr>max_running = Some 1, max_project_running = None\<rparr>\<rparr>"

definition limited_db :: db where
  "limited_db = empty_db\<lparr>jobs_table := map (\<lambda>j. j\<lparr>j_metadata := JObj [(''resource_policy'', compact one_at_a_time)]\<rparr>)
     (jobs_table two_jobs_db)\<rparr>"

definition hourly :: "string \<Rightarrow> schedule_record" where
  "hourly kind = \<lparr>sc_id = ''s1'', sc_kind = kind, sc_project_id = None, sc_input = JObj [], sc_cron = ''0 * * * *'',
     sc_timezone = ''UTC'', sc_enabled = True, sc_priority = 100, sc_created_at = Naive 0, sc_next_run_at = Naive 5,
     sc_last_materialized_at = None, sc_max_retries = 1, sc_timeout_seconds = None\<rparr>"

section \<open>Loops\<close>

lemma for_each_member:
  assumes "for_each f xs s = (Inr ys, s')" and "y \<in> set ys" and "I s"
    and step: "\<And>x s r t. x \<in> set xs \<Longrightarrow> I s \<Longrightarrow> f x s = (r, t) \<Longrightarrow> I t \<and> R s t"
    and refl: "\<And>s. R s s" and trans: "\<And>a b c. R a b \<Longrightarrow> R b c \<Longrightarrow> R a c"
  shows "\<exists>x t t'. x \<in> set xs \<and> I t \<and> f x t = (Inr y, t') \<and> R t' s'"
  using assms(1-4)
proof (induction xs arbitrary: s ys)
  case (Cons x xs)
  obtain a t zs where x: "f x s = (Inr a, t)" and zs: "for_each f xs t = (Inr zs, s')" and ys: "ys = a # zs"
    using Cons.prems(1) by (auto simp: bind_Inr_iff return_eq)
  have t: "I t" "R s t" using Cons.prems(4) [OF _ Cons.prems(3) x] by simp_all
  have rest: "I u \<Longrightarrow> I (snd (for_each f xs u)) \<and> R u (snd (for_each f xs u))" for u
    using Cons.prems(4)
  proof (induction xs arbitrary: u)
    case (Cons z zs)
    obtain r v where z: "f z u = (r, v)" by fastforce
    have v: "I v" "R u v" using Cons.prems(2) [OF _ Cons.prems(1) z] by simp_all
    have "I (snd (for_each f zs v)) \<and> R v (snd (for_each f zs v))"
      using Cons.prems(2) by (intro Cons.IH v) auto
    then show ?case using v z trans by (cases r) (auto simp: bind_def return_eq split: prod.splits sum.splits)
  qed (simp add: return_eq refl)
  show ?case
  proof (cases "y = a")
    case True
    have "R t s'" using rest [OF t(1)] zs by simp
    then show ?thesis using True x Cons.prems(3) by auto
  next
    case False
    then have "y \<in> set zs" using Cons.prems(2) ys by simp
    moreover have "\<And>x s r t. x \<in> set xs \<Longrightarrow> I s \<Longrightarrow> f x s = (r, t) \<Longrightarrow> I t \<and> R s t"
      using Cons.prems(4) by (meson list.set_intros(2))
    ultimately show ?thesis using Cons.IH [OF zs _ t(1)] by auto
  qed
qed (simp add: return_eq)

text \<open>A loop over a step that always raises does not return.\<close>

lemma for_each_raises:
  assumes "x \<in> set xs" and "\<And>s. \<exists>e t. f x s = (Inl e, t)"
  shows "\<exists>e t. for_each f xs s = (Inl e, t)"
  using assms(1)
proof (induction xs arbitrary: s)
  case (Cons z zs)
  obtain r t where z: "f z s = (r, t)" by fastforce
  show ?case
  proof (cases r)
    case (Inl e)
    then show ?thesis using z by (simp add: bind_def)
  next
    case (Inr a)
    have "x \<in> set zs"
    proof (rule ccontr)
      assume "x \<notin> set zs"
      then have "z = x" using Cons.prems by simp
      then show False using assms(2) [of s] z Inr by auto
    qed
    then obtain e u where "for_each f zs t = (Inl e, u)" using Cons.IH [of t] by blast
    then show ?thesis using z Inr by (simp add: bind_def)
  qed
qed simp

section \<open>What considering a claimed job does to the jobs\<close>

definition same_or_released :: "job_record \<Rightarrow> job_record \<Rightarrow> bool" where
  "same_or_released r r' \<longleftrightarrow> j_id r' = j_id r \<and> j_kind r' = j_kind r \<and> j_project_id r' = j_project_id r \<and>
     (j_status r' \<in> {Leased, Running} \<longrightarrow> j_status r \<in> {Leased, Running})"

definition shrinks :: "'r world \<Rightarrow> 'r world \<Rightarrow> bool" where
  "shrinks w w' \<longleftrightarrow> list_all2 same_or_released (jobs_table (w_db w)) (jobs_table (w_db w'))"

lemma shrinks_refl [simp]: "shrinks w w"
  by (simp add: shrinks_def same_or_released_def list_all2_refl)

lemma shrinks_trans: "shrinks a b \<Longrightarrow> shrinks b c \<Longrightarrow> shrinks a c"
  unfolding shrinks_def by (erule (1) list_all2_trans [rotated]) (auto simp: same_or_released_def)

lemma shrinks_rowcount:
  assumes "shrinks w w'" and "\<And>r r'. same_or_released r r' \<Longrightarrow> P r' \<Longrightarrow> P r"
  shows "rowcount P (jobs_table (w_db w')) \<le> rowcount P (jobs_table (w_db w))"
  using assms(1) unfolding shrinks_def
  by (induction rule: list_all2_induct) (auto simp: rowcount_def dest: assms(2))

lemma shrinks_ids: "shrinks w w' \<Longrightarrow> map j_id (jobs_table (w_db w')) = map j_id (jobs_table (w_db w))"
  unfolding shrinks_def by (induction rule: list_all2_induct) (auto simp: same_or_released_def)

lemma bus_step_jobs: "bus_step w w' \<Longrightarrow> jobs_table (w_db w') = jobs_table (w_db w)"
  by (simp add: bus_step_def log_only_tables)

lemma finish_queued_shrinks:
  "shrinks w (w\<lparr>w_db := (w_db w)\<lparr>jobs_table := update_where P (release_row Queued e t) (jobs_table (w_db w))\<rparr>\<rparr>)"
  by (auto simp: shrinks_def update_where_def list_all2_map2 same_or_released_def release_row_def intro!: list_all2_refl)

lemma defer_job_jobs:
  assumes "defer_job s current job sc n m w = (r, w')"
  shows "jobs_table (w_db w') = update_where (\<lambda>r. j_id r = j_id job)
    (release_row Queued (Some (deferral_message sc n m)) (Some current)) (jobs_table (w_db w))"
proof -
  have "bus_step (w\<lparr>w_db := (w_db w)\<lparr>jobs_table := update_where (\<lambda>r. j_id r = j_id job)
      (release_row Queued (Some (deferral_message sc n m)) (Some current)) (jobs_table (w_db w))\<rparr>\<rparr>) w'"
    using assms unfolding defer_job_def Let_def
    by (simp add: bind_def [of "on_store _"] on_store_def finish_job_def) (erule bus_opD [rotated], simp add: bus_op_bind)
  then show ?thesis by (simp add: bus_step_jobs)
qed

lemma defer_job_none: "yields (\<lambda>x. x = None) (defer_job s current job sc n m)"
  unfolding defer_job_def Let_def by (intro yields_bind_any) simp

lemma consider_job_shrinks:
  assumes "consider_job h s current job w = (r, w')"
  shows "shrinks w w'"
proof -
  have same: "shrinks w w'" if "jobs_table (w_db w') = jobs_table (w_db w)"
    using that by (simp add: shrinks_def same_or_released_def list.rel_refl)
  have deferred: "shrinks w w'" if "defer_job s current job sc n m w = (r, w')" for sc n m
    using defer_job_jobs [OF that] finish_queued_shrinks by (simp add: shrinks_def)
  have admit: "shrinks w w'" if "admit_job h s job w = (r, w')"
    by (rule same, rule bus_step_jobs, rule bus_opD [of "admit_job h s job", OF _ that]) (simp add: admit_job_def bus_op_bind)
  show ?thesis using assms
    by (cases "policy_from_job_metadata (sh_coercions h) (j_metadata job)")
      (auto simp: consider_job_def Let_def bind_gets throw_eq split: if_splits intro: same deferred admit)
qed

lemma consider_job_self: "yields (\<lambda>x. x = None \<or> x = Some job) (consider_job h s current job)"
proof -
  have "yields (\<lambda>x. x = None \<or> x = Some job) (admit_job h s job)"
    unfolding admit_job_def by (intro yields_bind_any) simp
  moreover have "yields (\<lambda>x. x = None \<or> x = Some job) (defer_job s current job sc n m)" for sc n m
    using defer_job_none [of s current job sc n m] by (auto simp: yields_def)
  ultimately show ?thesis unfolding consider_job_def Let_def by (auto intro!: yields_bind_any)
qed

text \<open>A job is admitted only below its limits, and then no job row changes.\<close>

lemma consider_job_admits:
  assumes run: "consider_job h s current job w = (Inr (Some x), w')"
    and policy: "policy_from_job_metadata (sh_coercions h) (j_metadata job) = Inr (Some p)"
  shows "jobs_table (w_db w') = jobs_table (w_db w)"
    and "max_running (rp_concurrency p) = Some m \<Longrightarrow> int (count_active_jobs (w_db w) (j_kind job) (Some (j_id job))) < m"
    and "max_project_running (rp_concurrency p) = Some m \<Longrightarrow>
      int (count_active_project_jobs (w_db w) (j_project_id job) (Some (j_id job))) < m"
proof -
  have no: "defer_job s current job sc n k w \<noteq> (Inr (Some x), w')" for sc n k
    by (rule notI) (drule yieldsD [OF defer_job_none], simp)
  have admit: "admit_job h s job w = (Inr (Some x), w')"
    and "\<not> (case max_running (rp_concurrency p) of None \<Rightarrow> False
      | Some m \<Rightarrow> m \<le> int (count_active_jobs (w_db w) (j_kind job) (Some (j_id job))))"
    and "\<not> (case max_project_running (rp_concurrency p) of None \<Rightarrow> False
      | Some m \<Rightarrow> m \<le> int (count_active_project_jobs (w_db w) (j_project_id job) (Some (j_id job))))"
    using run no by (auto simp: consider_job_def policy bind_gets Let_def split: if_splits)
  then show "max_running (rp_concurrency p) = Some m \<Longrightarrow> int (count_active_jobs (w_db w) (j_kind job) (Some (j_id job))) < m"
    and "max_project_running (rp_concurrency p) = Some m \<Longrightarrow>
      int (count_active_project_jobs (w_db w) (j_project_id job) (Some (j_id job))) < m"
    by simp_all
  show "jobs_table (w_db w') = jobs_table (w_db w)"
    by (rule bus_step_jobs, rule bus_opD [of "admit_job h s job", OF _ admit]) (simp add: admit_job_def bus_op_bind)
qed

lemma rowcount_but_one:
  assumes "distinct_key j_id t"
  shows "rowcount P t \<le> rowcount (\<lambda>r. P r \<and> j_id r \<noteq> k) t + 1"
proof -
  have "rowcount P t = rowcount (\<lambda>r. P r \<and> j_id r \<noteq> k) t + rowcount (\<lambda>r. j_id r = k \<and> P r) t"
    by (induction t) (auto simp: rowcount_def)
  then show ?thesis using rowcount_key_le_1 [OF assms, of k P] by simp
qed

section \<open>Properties\<close>

text \<open>
  C3. The concurrency limits hold for whatever a pass admits: when a claimed job is let through,
  no more jobs of its kind, and of its project, are leased or running in the whole database than
  its effective policy allows, itself and the other jobs of the same batch included.
\<close>

theorem concurrency_limit_respected:
  assumes keys: "distinct_key j_id (jobs_table (w_db w))"
    and run: "scheduler_claim_due_jobs h s now w = (Inr admitted, w')" and job: "job \<in> set admitted"
    and policy: "policy_from_job_metadata (sh_coercions h) (j_metadata job) = Inr (Some p)"
  shows "(\<forall>m. max_running (rp_concurrency p) = Some m \<longrightarrow> int (count_active_jobs (w_db w') (j_kind job) None) \<le> m) \<and>
    (\<forall>m. max_project_running (rp_concurrency p) = Some m \<longrightarrow>
      int (count_active_project_jobs (w_db w') (j_project_id job) None) \<le> m)"
proof -
  let ?c = "ensure_utc now"
  let ?u = "plus_microseconds ?c (seconds (sd_lease_seconds s))"
  obtain claimed d where claim: "claim_due_jobs (sd_worker_id s) ?c ?u (sd_claim_limit s) (w_db w) = (Inr claimed, d)"
    using claim_due_jobs_returns by blast
  then have d: "distinct_key j_id (jobs_table d)"
    using keys claim_due_jobs_eq [OF keys] by (auto simp: distinct_key_update)
  obtain considered where loop: "for_each (consider_job h s ?c) claimed (w\<lparr>w_db := d\<rparr>) = (Inr considered, w')"
    and admitted: "admitted = List.map_filter id considered"
    using run claim by (auto simp: scheduler_claim_due_jobs_def Let_def bind_Inr_iff on_store_def return_eq)
  have "Some job \<in> set considered" using job by (auto simp: admitted List.map_filter_def)
  have step: "distinct_key j_id (jobs_table (w_db b)) \<and> shrinks a b"
    if "distinct_key j_id (jobs_table (w_db a))" "consider_job h s ?c y a = (r, b)" for y a b r
    using that consider_job_shrinks [OF that(2)] by (simp add: distinct_key_def shrinks_ids)
  have "\<exists>x t t'. x \<in> set claimed \<and> distinct_key j_id (jobs_table (w_db t)) \<and>
      consider_job h s ?c x t = (Inr (Some job), t') \<and> shrinks t' w'"
    by (rule for_each_member [OF loop \<open>Some job \<in> set considered\<close>]) (use d step shrinks_trans in auto)
  then obtain x t t' where t: "distinct_key j_id (jobs_table (w_db t))"
    and x: "consider_job h s ?c x t = (Inr (Some job), t')" and sh: "shrinks t' w'" by blast
  have "x = job" using yieldsD [OF consider_job_self x] by simp
  note adm = consider_job_admits [OF x [unfolded this] policy]
  have kind: "count_active_jobs (w_db w') k None \<le> count_active_jobs (w_db t') k None"
    and project: "count_active_project_jobs (w_db w') q None \<le> count_active_project_jobs (w_db t') q None" for k q
    unfolding count_active_jobs_def count_active_project_jobs_def
    by (rule shrinks_rowcount [OF sh]; auto simp: same_or_released_def)+
  have one: "count_active_jobs (w_db t') k None \<le> count_active_jobs (w_db t) k (Some (j_id job)) + 1"
    "count_active_project_jobs (w_db t') q None \<le> count_active_project_jobs (w_db t) q (Some (j_id job)) + 1" for k q
    using rowcount_but_one [OF t, of "\<lambda>r. j_kind r = k \<and> j_status r \<in> {Leased, Running}" "j_id job"]
      rowcount_but_one [OF t, of "\<lambda>r. j_status r \<in> {Leased, Running} \<and> j_project_id r = q" "j_id job"]
    by (simp_all add: count_active_jobs_def count_active_project_jobs_def adm(1) conj_assoc)
  show ?thesis
  proof (intro conjI allI impI)
    fix m assume "max_running (rp_concurrency p) = Some m"
    from adm(2) [OF this] show "int (count_active_jobs (w_db w') (j_kind job) None) \<le> m"
      using kind [of "j_kind job"] one(1) [of "j_kind job"] by linarith
  next
    fix m assume "max_project_running (rp_concurrency p) = Some m"
    from adm(3) [OF this] show "int (count_active_project_jobs (w_db w') (j_project_id job) None) \<le> m"
      using project [of "j_project_id job"] one(2) [of "j_project_id job"] by linarith
  qed
qed

theorem concurrency_limit_respected_witness:
  "\<exists>admitted w'. scheduler_claim_due_jobs demo_host demo_scheduler (utc 10) (fresh_world limited_db) = (Inr admitted, w') \<and>
     map j_id admitted = [''a''] \<and> count_active_jobs (w_db w') ''example.echo'' None \<le> 1"
proof -
  let ?run = "scheduler_claim_due_jobs demo_host demo_scheduler (utc 10) (fresh_world limited_db)"
  have ids: "map_sum (\<lambda>_. ()) (map (\<lambda>j. (j_id j, j_kind j, policy_from_job_metadata strict_coercions (j_metadata j)))) (fst ?run) =
      Inr [(''a'', ''example.echo'', Inr (Some one_at_a_time))]" by code_simp
  obtain x w' where x: "?run = (x, w')" by fastforce
  then obtain admitted where adm: "x = Inr admitted" using ids by (cases x) auto
  with ids x obtain job where job: "admitted = [job]" "j_id job = ''a''" "j_kind job = ''example.echo''"
    "policy_from_job_metadata strict_coercions (j_metadata job) = Inr (Some one_at_a_time)" by auto
  have keys: "distinct_key j_id (jobs_table (w_db (fresh_world limited_db)))" by code_simp
  have "int (count_active_jobs (w_db w') (j_kind job) None) \<le> 1"
    using concurrency_limit_respected [OF keys x [unfolded adm], of job one_at_a_time] job
    by (simp add: demo_host_def one_at_a_time_def)
  then show ?thesis using x adm job by auto
qed

text \<open>
  C16. An attempt that lost its job runs nothing: when the job is no longer leased to this scheduler,
  because it was cancelled, finished or taken over since the claim, the attempt is skipped without
  an event, a Run, a container or any other effect.
\<close>

theorem superseded_attempt_runs_nothing:
  assumes "\<forall>r \<in> set (jobs_table (w_db w)). j_id r = j_id job \<longrightarrow>
      j_status r \<noteq> Leased \<or> j_lease_owner r \<noteq> Some (sd_worker_id s)"
  shows "attempt_job h s current job w = (Inr None, w)"
proof -
  have none: "\<not> leased_by (j_id job) (sd_worker_id s) r" if "r \<in> set (jobs_table (w_db w))" for r
    using assms that by (auto simp: leased_by_def)
  then have "rowcount (leased_by (j_id job) (sd_worker_id s)) (jobs_table (w_db w)) = 0"
    by (simp add: rowcount_def filter_empty_conv)
  then have "on_store (try_mark_job_running (j_id job) n (sd_worker_id s)) w = (Inr False, w)" for n
    using none by (simp add: on_store_def try_mark_job_running_def update_where_none)
  then show ?thesis
    by (simp add: attempt_job_def execute_claimed_job_def Let_def bind_def catching_def throw_eq return_eq)
qed

theorem superseded_attempt_runs_nothing_witness:
  "attempt_job demo_host demo_scheduler (utc 10) (sample_job ''a'' 100 1) (fresh_world two_jobs_db) = (Inr None, fresh_world two_jobs_db)"
  by (rule superseded_attempt_runs_nothing)
    (simp add: fresh_world_def two_jobs_db_def sample_job_def job_to_row_def empty_db_def)

text \<open>
  Deferring a job by a concurrency limit writes the job row whatever its status has become: a
  job that was cancelled between the claim and the deferral is queued again.
\<close>

theorem deferral_requeues_any_status:
  assumes "by_key j_id (j_id job) (jobs_table (w_db w)) = Some row"
  shows "by_key j_id (j_id job) (jobs_table (w_db (snd (defer_job s current job sc active_count limit w)))) =
    Some (row\<lparr>j_status := Queued, j_last_error := Some (deferral_message sc active_count limit), j_lease_owner := None,
      j_leased_until := None, j_due_at := Some (db_datetime current)\<rparr>)"
proof -
  obtain r w' where run: "defer_job s current job sc active_count limit w = (r, w')" by fastforce
  show ?thesis
    using by_key_SomeD [OF assms] by (simp add: run defer_job_jobs [OF run] by_key_update assms) (simp add: release_row_def)
qed

theorem deferral_requeues_any_status_witness:
  "map_option j_status (by_key j_id ''a'' (jobs_table (w_db (snd (defer_job demo_scheduler (utc 10) (sample_job ''a'' 100 1)
     ScopeGoblin 1 1 (fresh_world (empty_db\<lparr>jobs_table := [(sample_job ''a'' 100 1)\<lparr>j_status := Cancelled\<rparr>]\<rparr>))))))) = Some Queued"
proof -
  have "by_key j_id (j_id (sample_job ''a'' 100 1)) (jobs_table (w_db (fresh_world
      (empty_db\<lparr>jobs_table := [(sample_job ''a'' 100 1)\<lparr>j_status := Cancelled\<rparr>]\<rparr>)))) =
      Some ((sample_job ''a'' 100 1)\<lparr>j_status := Cancelled\<rparr>)"
    by (simp add: fresh_world_def by_key_def sample_job_def)
  from deferral_requeues_any_status [OF this, of demo_scheduler "utc 10" ScopeGoblin 1 1]
  show ?thesis by (simp add: sample_job_def)
qed

text \<open>What leaves a part of the database alone.\<close>

definition leaves :: "(db \<Rightarrow> 'x) \<Rightarrow> ('r world, 'a) op \<Rightarrow> bool" where
  "leaves part m \<longleftrightarrow> (\<forall>w. part (w_db (snd (m w))) = part (w_db w))"

lemma leavesD: "leaves part m \<Longrightarrow> m w = (r, w') \<Longrightarrow> part (w_db w') = part (w_db w)"
  unfolding leaves_def by (metis snd_conv)

lemma leaves_bind: "leaves part m \<Longrightarrow> (\<And>a. leaves part (f a)) \<Longrightarrow> leaves part (bind m f)"
  unfolding leaves_def bind_def by (auto split: prod.splits sum.splits) (metis snd_conv)+

lemma leaves_pure [simp]: "leaves part (return a)" "leaves part (throw e)" "leaves part (lift_result r)" "leaves part (gets f)"
  by (simp_all add: leaves_def return_eq throw_eq lift_result_eq gets_eq)

lemma leaves_for_each: "(\<And>x. leaves part (f x)) \<Longrightarrow> leaves part (for_each f xs)"
  by (induction xs) (auto intro!: leaves_bind)

lemma leaves_bus_op: "bus_op m \<Longrightarrow> leaves runs_table m" "bus_op m \<Longrightarrow> leaves schedules_table m"
  "bus_op m \<Longrightarrow> leaves jobs_table m"
  by (simp_all add: bus_op_def leaves_def bus_step_def log_only_tables)

lemma leaves_save_job: "leaves runs_table (on_store (save_job job))" "leaves schedules_table (on_store (save_job job))"
  by (simp_all add: leaves_def on_store_def save_job_def insert_into_def split: prod.split sum.split)

lemma leaves_upsert:
  "leaves runs_table (on_store (upsert_heartbeat hb))" "leaves schedules_table (on_store (upsert_heartbeat hb))"
  "leaves jobs_table (on_store (upsert_heartbeat hb))"
  by (auto simp: leaves_def on_store_def upsert_heartbeat_def atomically_def insert_into_def
      split: prod.splits sum.splits option.splits)

lemma leaves_heartbeat:
  "leaves runs_table (heartbeat bus i ty st p j r)" "leaves schedules_table (heartbeat bus i ty st p j r)"
  "leaves jobs_table (heartbeat bus i ty st p j r)"
  unfolding heartbeat_def Let_def by (auto intro!: leaves_bind simp: leaves_bus_op leaves_upsert)

lemma leaves_materialize: "leaves runs_table (materialize_schedule h s current schedule)"
proof -
  have "leaves runs_table (on_store (update_schedule_after_materialize i t u))" for i t u
    by (simp add: leaves_def on_store_def update_schedule_after_materialize_def)
  then show ?thesis unfolding materialize_schedule_def Let_def
    by (auto intro!: leaves_bind simp: leaves_bus_op leaves_save_job split: sum.split)
qed

text \<open>
  A due schedule whose kind is no longer registered stops every pass: \<^verbatim>\<open>run_once\<close> raises before
  anything is claimed or executed, so the isolation of failing attempts does not reach schedules.
\<close>

theorem bad_schedule_stops_pass:
  assumes "schedule \<in> set (list_due_schedules (ensure_utc now) (w_db w))"
    and "registry_get (sd_registry s) (sc_kind schedule) = Inl e"
  shows "\<exists>e' w'. run_once h s now w = (Inl e', w') \<and> runs_table (w_db w') = runs_table (w_db w)"
proof -
  let ?beat = "heartbeat (sd_event_bus s) (sd_worker_id s) OwnerScheduler ''running''
     (Some (JObj [(''runtime'', JStr (runtime_mode_text (sd_runtime_mode s)))])) None None"
  obtain r w1 where beat: "?beat w = (r, w1)" by fastforce
  have same: "runs_table (w_db w1) = runs_table (w_db w)" "schedules_table (w_db w1) = schedules_table (w_db w)"
    using leavesD [OF leaves_heartbeat(1) beat] leavesD [OF leaves_heartbeat(2) beat] by simp_all
  show ?thesis
  proof (cases r)
    case (Inl e')
    then show ?thesis using beat same by (simp add: run_once_def Let_def bind_def)
  next
    case (Inr hb)
    let ?due = "list_due_schedules (ensure_utc now) (w_db w1)"
    have due: "schedule \<in> set ?due" using assms(1) same by (simp add: list_due_schedules_def)
    obtain e' w2 where loop: "for_each (materialize_schedule h s (ensure_utc now)) ?due w1 = (Inl e', w2)"
      using for_each_raises [OF due, of "materialize_schedule h s (ensure_utc now)" w1] assms(2)
      by (auto simp: materialize_schedule_def throw_eq)
    have "runs_table (w_db w2) = runs_table (w_db w)"
      using leavesD [OF leaves_for_each [OF leaves_materialize] loop] same by simp
    moreover have "materialize_due_schedules h s (ensure_utc now) w1 = (Inl e', w2)"
      using loop by (simp add: materialize_due_schedules_def Let_def bind_gets bind_Inl)
    ultimately show ?thesis using beat Inr by (simp add: run_once_def Let_def bind_def)
  qed
qed

theorem bad_schedule_stops_pass_witness:
  "\<exists>e' w'. run_once demo_host demo_scheduler (utc 10) (fresh_world (limited_db\<lparr>schedules_table := [hourly ''example.gone'']\<rparr>)) = (Inl e', w') \<and>
     runs_table (w_db w') = []"
proof -
  let ?w = "fresh_world (limited_db\<lparr>schedules_table := [hourly ''example.gone'']\<rparr>)"
  have due: "row_to_schedule (hourly ''example.gone'') \<in> set (list_due_schedules (ensure_utc (utc 10)) (w_db ?w))"
    by (simp add: fresh_world_def list_due_schedules_def select_where_def hourly_def ensure_utc_def db_datetime_def order_by_def)
  have unknown: "\<exists>e. registry_get (sd_registry demo_scheduler) (sc_kind (row_to_schedule (hourly ''example.gone''))) = Inl e"
    by (simp add: registry_get_def demo_scheduler_def echo_registry_def hourly_def row_to_schedule_def)
  then obtain e where "registry_get (sd_registry demo_scheduler) (sc_kind (row_to_schedule (hourly ''example.gone''))) = Inl e" by blast
  from bad_schedule_stops_pass [OF due this, of demo_host]
  show ?thesis by (simp add: fresh_world_def limited_db_def empty_db_def)
qed

text \<open>
  A claimed job whose stored policy does not validate stops the claim of its whole batch: the
  claim raises after the store has leased the jobs, and none of them is executed.
\<close>

theorem bad_policy_stops_claim:
  assumes "claim_due_jobs (sd_worker_id s) (ensure_utc now) (plus_microseconds (ensure_utc now) (seconds (sd_lease_seconds s)))
      (sd_claim_limit s) (w_db w) = (Inr claimed, d)"
    and "job \<in> set claimed" and "policy_from_job_metadata (sh_coercions h) (j_metadata job) = Inl e"
  shows "\<exists>e' w'. scheduler_claim_due_jobs h s now w = (Inl e', w')"
proof -
  obtain e' w' where "for_each (consider_job h s (ensure_utc now)) claimed (w\<lparr>w_db := d\<rparr>) = (Inl e', w')"
    using for_each_raises [OF assms(2), of "consider_job h s (ensure_utc now)" "w\<lparr>w_db := d\<rparr>"] assms(3)
    by (auto simp: consider_job_def throw_eq)
  then show ?thesis using assms(1)
    by (simp add: scheduler_claim_due_jobs_def Let_def bind_def on_store_def)
qed

theorem bad_policy_stops_claim_witness:
  "\<exists>e' w'. scheduler_claim_due_jobs demo_host demo_scheduler (utc 10) (fresh_world (empty_db\<lparr>jobs_table :=
     [(sample_job ''a'' 100 1)\<lparr>j_metadata := JObj [(''resource_policy'', JStr ''none'')]\<rparr>]\<rparr>)) = (Inl e', w')"
proof -
  let ?d = "empty_db\<lparr>jobs_table := [(sample_job ''a'' 100 1)\<lparr>j_metadata := JObj [(''resource_policy'', JStr ''none'')]\<rparr>]\<rparr>"
  let ?claim = "claim_due_jobs (sd_worker_id demo_scheduler) (ensure_utc (utc 10))
    (plus_microseconds (ensure_utc (utc 10)) (seconds (sd_lease_seconds demo_scheduler))) (sd_claim_limit demo_scheduler)"
  obtain claimed d where claim: "?claim ?d = (Inr claimed, d)" using claim_due_jobs_returns by blast
  have "map_sum (\<lambda>_. ()) (map (\<lambda>j. map_sum (\<lambda>_. ()) (\<lambda>_. ()) (policy_from_job_metadata strict_coercions (j_metadata j))))
      (fst (?claim ?d)) = Inr [Inl ()]" by code_simp
  with claim obtain job e where "job \<in> set claimed" "policy_from_job_metadata strict_coercions (j_metadata job) = Inl e"
    by (cases claimed; cases "policy_from_job_metadata strict_coercions (j_metadata (hd claimed))") auto
  from bad_policy_stops_claim [of demo_scheduler "utc 10" "fresh_world ?d", OF _ this(1), of d demo_host e] claim this(2)
  show ?thesis by (simp add: fresh_world_def demo_host_def)
qed

section \<open>The validation gate\<close>

definition stamped :: "string \<Rightarrow> worker_validation_result \<Rightarrow> bool" where
  "stamped kind r \<longleftrightarrow> vr_kind r = kind \<and> vr_contract_version r = GOBLIN_CONTAINER_CONTRACT_VERSION \<and>
     vr_validator_version r = VALIDATOR_VERSION"

lemma stamped_result [simp]: "stamped kind (validation_result kind ok checks)"
  by (simp add: stamped_def validation_result_def)

lemma stamped_update [simp]:
  "stamped k (r\<lparr>vr_image := a\<rparr>) = stamped k r" "stamped k (r\<lparr>vr_image_digest := a\<rparr>) = stamped k r"
  "stamped k (r\<lparr>vr_validated_at := t\<rparr>) = stamped k r" "stamped k (r\<lparr>vr_result_status := st\<rparr>) = stamped k r"
  "stamped k (r\<lparr>vr_result_file := a\<rparr>) = stamped k r" "stamped k (r\<lparr>vr_artifact_count := n\<rparr>) = stamped k r"
  "stamped k (r\<lparr>vr_error := a\<rparr>) = stamped k r" "stamped k (r\<lparr>vr_checks := cs\<rparr>) = stamped k r"
  "stamped k (r\<lparr>vr_ok := b\<rparr>) = stamped k r"
  by (simp_all add: stamped_def)

lemma stamped_result_file: "stamped k base \<Longrightarrow> yields (stamped k) (validate_result_file h base file dir result req)"
  unfolding validate_result_file_def judge_envelope_def Let_def
  by (auto intro!: yields_bind_any split: sum.split)

lemma stamped_prepare:
  "yields (\<lambda>x. \<forall>r. x = Inl r \<longrightarrow> stamped k r) (prepare_image h rt workers k build prebuilt)"
proof -
  have fail: "yields (\<lambda>x. \<forall>r. x = Inl r \<longrightarrow> stamped k r) (bind (config_failure h k c e) (\<lambda>r. return (Inl r)))"
    for c e and h :: "'r validation_host"
    unfolding config_failure_def by (rule yields_bind [where R = "stamped k"]) (auto intro!: yields_bind_any)
  have inspect: "yields (\<lambda>x. \<forall>r. x = Inl r \<longrightarrow> stamped k r) (inspect_worker h rt k worker c p)"
    for worker c p and h :: "'r validation_host" and rt
    unfolding inspect_worker_def case_prod_unfold by (auto intro!: yields_bind_any split: option.split)
  show ?thesis unfolding prepare_image_def Let_def
    by (auto intro!: yields_bind_any simp: fail inspect split: sum.split unit.split)
qed

lemma stamped_one: "yields (stamped k) (validate_one h rt workers k input build req prebuilt timeout)"
proof -
  have "yields (stamped k) (validate_run h rt k input req timeout worker digest checks)" for worker digest checks
    unfolding validate_run_def Let_def by (intro yields_bind_any stamped_result_file) simp
  then show ?thesis unfolding validate_one_def
    by (intro yields_bind [OF stamped_prepare]) (auto split: sum.split prod.split)
qed

lemma validate_workers_one:
  assumes run: "validate_workers h registry workers args w = (Inr rs, w')" and k: "va_kinds args = [k]"
  shows "rs \<noteq> [] \<and> (\<forall>r \<in> set rs. stamped k r)"
proof -
  let ?ds = "filter (\<lambda>d. gd_kind d = k) (registry_list registry)"
  let ?f = "\<lambda>rt d. validate_one h rt workers (gd_kind d) (va_input args) (va_build args)
             (va_require_success args) (va_prebuilt_image args) (va_timeout_seconds args)"
  have each: "yields (\<lambda>rs. length rs = length ds \<and> (\<forall>r \<in> set rs. stamped k r)) (for_each (?f rt) ds)"
    if "\<forall>d \<in> set ds. gd_kind d = k" for rt ds
    using that
  proof (induction ds)
    case (Cons d ds)
    have d: "gd_kind d = k" and IH: "yields (\<lambda>rs. length rs = length ds \<and> (\<forall>r \<in> set rs. stamped k r)) (for_each (?f rt) ds)"
      using Cons by simp_all
    show ?case unfolding for_each.simps d by (rule yields_bind [OF stamped_one], rule yields_bind [OF IH]) simp
  qed simp
  have "yields (\<lambda>rs. rs \<noteq> [] \<and> (\<forall>r \<in> set rs. stamped k r)) (validate_workers h registry workers args)"
    unfolding validate_workers_def Let_def k
    by (rule yields_bind_any, rule yields_bind_any, rule yields_bind [OF each])
      (auto simp: image_iff filter_empty_conv)
  from yieldsD [OF this run] show ?thesis .
qed

text \<open>A passed proof on record for a kind under the current versions.\<close>

definition proof_on_record :: "string \<Rightarrow> db \<Rightarrow> bool" where
  "proof_on_record kind d \<longleftrightarrow> (\<exists>v \<in> set (worker_validations_table d). wv_kind v = kind \<and> wv_status v = ValPassed \<and>
     wv_contract_version v = GOBLIN_CONTAINER_CONTRACT_VERSION \<and> wv_validator_version v = VALIDATOR_VERSION)"

lemma validate_and_record_proof:
  assumes "validate_and_record h s q m t w = (Inr result, w')" and "vr_ok result"
  shows "proof_on_record (gq_kind q) (w_db w')"
proof -
  obtain rs w1 rec w2 where rs: "validate_workers (sh_validation h) (gq_registry q) m
            \<lparr>va_input = gq_input q, va_kinds = [gq_kind q], va_build = False, va_require_success = False,
             va_prebuilt_image = True, va_timeout_seconds = t, va_redis_url = sd_redis_url s,
             va_run_root = (case gq_runtime q of DockerRt rt \<Rightarrow> Some (path_text (dr_run_root rt)) | _ \<Rightarrow> None)\<rparr> w = (Inr rs, w1)"
    and result: "result = (hd rs)\<lparr>vr_image_digest := bind_source h q (vr_image_digest (hd rs))\<rparr>"
    and rec: "validation_record (sh_validation h) result (Some (gate_policy q)) w1 = (Inr rec, w2)"
    and save: "on_store (save_worker_validation rec) w2 = (Inr (), w')"
    using assms(1) by (auto simp: validate_and_record_def Let_def bind_Inr_iff return_eq)
  have "stamped (gq_kind q) result"
    using validate_workers_one [OF rs] result by auto
  moreover have "wv_kind rec = vr_kind result \<and> wv_status rec = ValPassed \<and> wv_contract_version rec = vr_contract_version result \<and>
      wv_validator_version rec = vr_validator_version result"
    using rec assms(2) by (auto simp: validation_record_def bind_Inr_iff return_eq)
  moreover have "worker_validation_to_row rec \<in> set (worker_validations_table (w_db w'))"
    using save by (auto simp: on_store_def save_worker_validation_def insert_into_def insert_row_def
        split: prod.splits sum.splits if_splits)
  ultimately show ?thesis
    unfolding proof_on_record_def by (intro bexI [of _ "worker_validation_to_row rec"]) (auto simp: stamped_def worker_validation_to_row_def)
qed

lemma first_row_set: "first_row rows = Some r \<Longrightarrow> r \<in> set rows"
  by (cases rows) auto

text \<open>
  C4. The gate opens only on proof: if it lets a container of a kind run, then a passed validation
  of that kind, under the contract and validator versions in force, is on record in the database
  it leaves behind, either found there or recorded by a validation that has just passed.
\<close>

theorem gate_opens_only_on_proof:
  assumes "validate_before_container_run h s q w = (Inr None, w')"
  shows "proof_on_record (gq_kind q) (w_db w')"
proof -
  obtain m where m: "(case gq_workers q of None \<Rightarrow> sd_workers s | Some m \<Rightarrow> Some m) = Some m"
    using assms by (auto simp: validate_before_container_run_def Let_def return_eq split: option.splits)
  obtain worker where worker: "workers_get m (gq_kind q) = Inr worker"
    using assms by (auto simp: validate_before_container_run_def Let_def m return_eq throw_eq split: sum.splits if_splits)
  obtain digest err w1 where id: "gate_identity h q worker w = (Inr (digest, err), w1)"
    using assms by (auto simp: validate_before_container_run_def Let_def m worker bind_Inr_iff)
  have open_: "err = None \<and> digest \<noteq> None"
    using assms by (auto simp: validate_before_container_run_def Let_def m worker bind_def [of "gate_identity _ _ _"] id bind_gets
        bind_Inr_iff return_eq split: if_splits)
  let ?known = "if truthy_text (bind_source h q digest) then bind_source h q digest else digest"
  let ?cached = "get_latest_worker_validation (w_db w1) (gq_kind q) (the ?known) GOBLIN_CONTAINER_CONTRACT_VERSION VALIDATOR_VERSION"
  show ?thesis
  proof (cases "case ?cached of None \<Rightarrow> False | Some v \<Rightarrow> wv_status v = ValPassed")
    case True
    then obtain v where v: "v \<in> set (worker_validations_table (w_db w1))" "wv_kind v = gq_kind q" "wv_status v = ValPassed"
      "wv_contract_version v = GOBLIN_CONTAINER_CONTRACT_VERSION" "wv_validator_version v = VALIDATOR_VERSION"
      by (auto simp: get_latest_worker_validation_def newest_validation_first_def select_where_def row_to_worker_validation_def
          split: option.splits dest!: first_row_set)
    moreover have "w' = w1" using assms True open_
      by (auto simp: validate_before_container_run_def Let_def m worker bind_def [of "gate_identity _ _ _"] id bind_gets return_eq
          split: if_splits option.splits)
    ultimately show ?thesis by (auto simp: proof_on_record_def)
  next
    case False
    then obtain result where "validate_and_record h s q m (j_timeout_seconds (gq_job q)) w1 = (Inr result, w')" "vr_ok result"
      using assms open_
      by (auto simp: validate_before_container_run_def Let_def m worker bind_def [of "gate_identity _ _ _"] id bind_gets
          bind_Inr_iff return_eq split: if_splits)
    then show ?thesis by (rule validate_and_record_proof)
  qed
qed

definition demo_gate :: "unit gate_request" where
  "demo_gate = \<lparr>gq_job = sample_job ''a'' 100 1, gq_kind = ''example.echo'', gq_registry = echo_registry,
     gq_workers = sd_workers demo_scheduler, gq_runtime = sd_runtime demo_scheduler, gq_input = JObj [],
     gq_notebook_source_hash = None, gq_resource_policy = JObj []\<rparr>"

theorem gate_opens_only_on_proof_witness:
  "\<exists>w'. validate_before_container_run demo_host demo_scheduler demo_gate (fresh_world empty_db) = (Inr None, w') \<and>
     proof_on_record ''example.echo'' (w_db w')"
proof -
  let ?run = "validate_before_container_run demo_host demo_scheduler demo_gate (fresh_world empty_db)"
  have "map_sum (\<lambda>_. ()) id (fst ?run) = Inr None" by code_simp
  then obtain w' where run: "?run = (Inr None, w')" by (cases ?run; cases "fst ?run") auto
  have "gq_kind demo_gate = ''example.echo''" by (simp add: demo_gate_def)
  with gate_opens_only_on_proof [OF run] run show ?thesis by auto
qed

section \<open>Ending an attempt\<close>

lemma bus_ready_same_log:
  assumes "bus_ready w" and "events_table d = events_table (w_db w)" and "causal_sequences_table d = causal_sequences_table (w_db w)"
  shows "bus_ready (w\<lparr>w_db := d\<rparr>)"
  using assms by (simp add: bus_ready_def event_log_ok_def event_log_def event_counter_def)

lemma written_run_log [simp]:
  "causal_sequences_table (written_run run d) = causal_sequences_table d"
  by (simp add: written_run_def insert_run_children_def split: option.split)

lemma status_for_result_terminal: "status_for_result r e t \<in> TERMINAL_RUN_STATUSES"
  by (simp add: status_for_result_def TERMINAL_RUN_STATUSES_def)

text \<open>
  C11. How an attempt ends. When the scheduler still owns the attempt and its running Run, ending it
  returns the Run with the status of the result (timed out when it took longer than the timeout,
  whatever the result says), stores it, and releases the job with that status; a failed attempt
  within the allowed number of retries leaves the job retrying, due again at the requested start.
\<close>

theorem conclude_attempt_effect:
  fixes s :: "'r scheduler" and result :: goblin_result and job :: job_record and elapsed :: rat and attempt :: int
  defines "status \<equiv> status_for_result result elapsed (j_timeout_seconds job)"
  defines "retrying \<equiv> status = RunFailed \<and> attempt \<le> j_max_retries job"
  assumes row: "by_key j_id (j_id job) (jobs_table (w_db w)) = Some row" and own: "owns_attempt (sd_worker_id s) attempt row"
    and running: "by_key r_id run_id (runs_table (w_db w)) = Some rr" "r_status rr = RunRunning"
      "lineage rr = (j_id job, j_kind job, j_project_id job, attempt)"
    and time: "utc_instant started_at \<le> utc_instant finished_at"
    and bus: "bus_ok (sd_event_bus s)" "bus_ready w"
  shows "\<exists>run w'. conclude_attempt s job run_id attempt requested_start started_at elapsed policy result finished_at w = (Inr run, w') \<and>
    r_status run = status \<and> by_key r_id run_id (runs_table (w_db w')) = Some (run_to_row run) \<and>
    by_key j_id (j_id job) (jobs_table (w_db w')) = Some (release_row (if retrying then Retrying else job_status_of status)
      (r_error run) (if retrying then Some requested_start else None) row)"
proof -
  define late where "late = (status = RunTimedOut \<and> res_error result = None)"
  define err where "err = (if late then Some (''job exceeded timeout_seconds='' @ str_int (the (j_timeout_seconds job))) else res_error result)"
  define res where "res = (if late then goblin_result_failed (the err) (Some (res_data result)) [] None [] else result)"
  define st where "st = (if retrying then Retrying else job_status_of status)"
  define due_at where "due_at = (if retrying then Some requested_start else None)"
  define run where "run = \<lparr>r_id = run_id, r_job_id = j_id job, r_kind = j_kind job, r_project_id = j_project_id job,
      r_attempt = attempt, r_status = status, r_started_at = started_at, r_finished_at = Some finished_at, r_result = Some res,
      r_error = err, r_timeout_seconds = j_timeout_seconds job, r_max_retries = j_max_retries job,
      r_leased_until = j_leased_until job, r_resource_policy = map_option compact policy\<rparr>"
  have rec: "attempt_run job (j_kind job) run_id attempt status started_at (Some finished_at) (Some res) err policy = Inr run"
    using time by (simp add: attempt_run_def new_run_record_def run_timestamps_ordered_def run_def)
  have norm: "normalize_persisted_run run = run" by (simp add: normalize_persisted_run_def run_def)
  have ok: "\<not> finalize_refused run (w_db w)"
    using running status_for_result_terminal by (simp add: finalize_refused_def run_def lineage_def status_def)
  have r: "r_job_id run = j_id job" "r_attempt run = attempt" "r_id run = run_id" "r_error run = err" "r_status run = status"
    by (simp_all add: run_def)
  define d where "d = written_run run ((w_db w)\<lparr>jobs_table := finalized_jobs run st err due_at (jobs_table (w_db w))\<rparr>)"
  have fin: "finalize_job_attempt run st err due_at (sd_worker_id s) (w_db w) = (Inr \<lparr>af_run = run, af_outcome = Finalized\<rparr>, d)"
    using finalize_attempt_eq [of run "w_db w" row st err due_at "sd_worker_id s"] row own ok
    by (simp add: finalize_job_attempt_def r norm d_def)
  have store: "on_store (finalize_job_attempt run st err due_at (sd_worker_id s)) w =
      (Inr \<lparr>af_run = run, af_outcome = Finalized\<rparr>, w\<lparr>w_db := d\<rparr>)" by (simp add: on_store_def fin)
  have ready: "bus_ready (w\<lparr>w_db := d\<rparr>)"
    by (rule bus_ready_same_log [OF bus(2)]) (simp_all add: d_def)
  define ty where "ty = (if retrying then ''job.retrying'' else ''job.'' @ run_status_text status)"
  let ?args = "(job_event_args s job)\<lparr>a_run_id := Some (r_id run),
     a_payload := Some (JObj [(''kind'', JStr (j_kind job)), (''attempt'', JInt attempt), (''error'', json_opt JStr err)]),
     a_after := r_finished_at run\<rparr>"
  have ty: "ty \<noteq> ''''" by (simp add: ty_def)
  obtain e w' where em: "emit (sd_event_bus s) ty SrcScheduler ?args (w\<lparr>w_db := d\<rparr>) = (Inr e, w')"
    using keeps_returns [OF keeps_emit [OF bus(1) ty, of SrcScheduler ?args] ready] by blast
  have "log_only d (w_db w')" using bus_opD [OF bus_op_emit em] by (simp add: bus_step_def)
  then have tables: "runs_table (w_db w') = runs_table d" "jobs_table (w_db w') = jobs_table d" by (simp_all add: log_only_tables)
  have "conclude_attempt s job run_id attempt requested_start started_at elapsed policy result finished_at w = (Inr run, w')"
    unfolding conclude_attempt_def Let_def status_def [symmetric] late_def [symmetric] err_def [symmetric] res_def [symmetric]
      retrying_def [symmetric] st_def [symmetric] due_at_def [symmetric] ty_def [symmetric] rec bind_lift_result
    by (simp add: bind_def store em return_eq)
  moreover have "by_key r_id run_id (runs_table (w_db w')) = Some (run_to_row run)"
    by (simp add: tables d_def written_run_get r)
  moreover have "by_key j_id (j_id job) (jobs_table (w_db w')) = Some (release_row st err due_at row)"
    using row by_key_SomeD [OF row] by (simp add: tables d_def finalized_jobs_def by_key_update r)
  ultimately show ?thesis using r by (auto simp: st_def due_at_def)
qed

definition running_run_db :: db where
  "running_run_db = running_job_db\<lparr>runs_table := [run_to_row (sample_run ''r1'' ''a'' 1 RunRunning)]\<rparr>"

theorem conclude_attempt_effect_witness:
  "\<exists>run w'. conclude_attempt demo_scheduler (sample_job ''a'' 100 1) ''r1'' 1 (utc 10) (utc 20) 5 None (failed_result ''boom'') (utc 30)
       (fresh_world running_run_db) = (Inr run, w') \<and> r_status run = RunFailed \<and>
     map_option j_status (by_key j_id ''a'' (jobs_table (w_db w'))) = Some Retrying"
proof -
  let ?job = "sample_job ''a'' 100 1" and ?w = "fresh_world running_run_db"
  let ?row = "hd (jobs_table running_run_db)"
  have row: "by_key j_id (j_id ?job) (jobs_table (w_db ?w)) = Some ?row"
    by (simp add: fresh_world_def running_run_db_def running_job_db_def by_key_def sample_job_def job_to_row_def)
  have own: "owns_attempt (sd_worker_id demo_scheduler) 1 ?row" by code_simp
  let ?rr = "run_to_row (sample_run ''r1'' ''a'' 1 RunRunning)"
  have rr: "by_key r_id ''r1'' (runs_table (w_db ?w)) = Some ?rr" "r_status ?rr = RunRunning"
    "lineage ?rr = (j_id ?job, j_kind ?job, j_project_id ?job, 1)"
    by (simp_all add: fresh_world_def running_run_db_def by_key_def sample_run_def run_to_row_def lineage_def sample_job_def)
  have ready: "bus_ready ?w"
    using bus_ready_same_log [OF fresh_world_ready, of running_run_db]
    by (simp add: running_run_db_def running_job_db_def fresh_world_def)
  have bus: "bus_ok (sd_event_bus demo_scheduler)" using down_bus_ok by (simp add: demo_scheduler_def)
  have st: "status_for_result (failed_result ''boom'') 5 (j_timeout_seconds ?job) = RunFailed" "(1::int) \<le> j_max_retries ?job"
    by (simp_all add: status_for_result_def failed_result_def goblin_result_failed_def sample_job_def)
  obtain run w' where run: "conclude_attempt demo_scheduler ?job ''r1'' 1 (utc 10) (utc 20) 5 None (failed_result ''boom'') (utc 30) ?w =
      (Inr run, w')" "r_status run = RunFailed"
      "by_key j_id (j_id ?job) (jobs_table (w_db w')) = Some (release_row Retrying (r_error run) (Some (utc 10)) ?row)"
    using conclude_attempt_effect [OF row own rr _ bus ready, of "utc 20" "utc 30" "utc 10" 5 None "failed_result ''boom''"] st by auto
  have "map_option j_status (by_key j_id ''a'' (jobs_table (w_db w'))) = Some Retrying"
    using run(3) by (simp add: sample_job_def release_row_def)
  then show ?thesis using run(1,2) by blast
qed

section \<open>Due schedules become jobs\<close>

definition due_rows :: "datetime \<Rightarrow> db \<Rightarrow> schedule_record set" where
  "due_rows c d = {x \<in> set (schedules_table d). sc_enabled x \<and> dt_wall (sc_next_run_at x) \<le> dt_wall c}"

lemma list_due_rows: "set (list_due_schedules c d) = row_to_schedule ` due_rows c d"
  by (auto simp: list_due_schedules_def due_rows_def select_where_def db_datetime_def)

text \<open>When jobs can be created: the bus is usable and no id to come is a job's.\<close>

definition can_create :: "'r world \<Rightarrow> bool" where
  "can_create w \<longleftrightarrow> bus_ready w \<and> (\<forall>n\<ge>w_drawn w. w_uuids w n \<notin> j_id ` set (jobs_table (w_db w)))"

text \<open>The expressions and zones of the given schedules are valid and have a next time, later than the one given.\<close>

definition cron_advances :: "'r scheduler_host \<Rightarrow> datetime \<Rightarrow> schedule_record list \<Rightarrow> bool" where
  "cron_advances h t schs \<longleftrightarrow>
     list_all (\<lambda>x. \<exists>u. sh_croniter h (sc_cron x) (sc_timezone x) t = Inr u \<and> utc_instant t < utc_instant u) schs"

text \<open>What a materialized job takes from its schedule, and the queued job that a schedule asks for.\<close>

definition job_request :: "job_record \<Rightarrow> string option \<times> job_status \<times> datetime option \<times> string option \<times> json \<times> int" where
  "job_request j = (j_schedule_id j, j_status j, j_due_at j, j_project_id j, j_input j, j_priority j)"

definition asked_job :: "datetime \<Rightarrow> schedule_record \<Rightarrow> string option \<times> job_status \<times> datetime option \<times> string option \<times> json \<times> int" where
  "asked_job c x = (Some (sc_id x), Queued, Some c, sc_project_id x, sc_input x, sc_priority x)"

lemma materialize_one:
  assumes cron: "cron_advances h c [sch]" and bus: "bus_ok (sd_event_bus s)" and policies: "sd_resource_policies s = None"
    and known: "registry_get (sd_registry s) (sc_kind sch) = Inr definition" and w: "can_create w" and c: "is_utc c"
  obtains job w' where "materialize_schedule h s c sch w = (Inr (Some job), w')" and "can_create w'"
    and "job_request job = asked_job c sch" and "jobs_table (w_db w') = jobs_table (w_db w) @ [job_to_row job]"
    and "due_rows c (w_db w') \<subseteq> {x \<in> due_rows c (w_db w). sc_id x \<noteq> sc_id sch}"
proof -
  let ?jid = "w_uuids w (w_drawn w)"
  define job where "job = scheduled_job definition sch c None ?jid"
  obtain v where v: "sh_croniter h (sc_cron sch) (sc_timezone sch) c = Inr v" "utc_instant c < utc_instant v"
    using cron unfolding cron_advances_def by auto
  define u where "u = ensure_utc v"
  have u: "next_run_after h sch c = Inr u" "utc_instant c < utc_instant u" "is_utc u"
    using v c by (simp_all add: next_run_after_def u_def)
  let ?d = "(w_db w)\<lparr>jobs_table := jobs_table (w_db w) @ [job_to_row job]\<rparr>"
  let ?f = "\<lambda>x. x\<lparr>sc_last_materialized_at := Some (db_datetime c), sc_next_run_at := db_datetime u\<rparr>"
  let ?d' = "?d\<lparr>schedules_table := update_where (\<lambda>x. sc_id x = sc_id sch) ?f (schedules_table (w_db w))\<rparr>"
  let ?w = "w\<lparr>w_drawn := Suc (w_drawn w), w_db := ?d'\<rparr>"
  have jid: "j_id job = ?jid" by (simp add: job_def scheduled_job_def)
  have save: "save_job job (w_db w) = (Inr (), ?d)"
    using w jid by (auto simp: save_job_def insert_into_def insert_row_def can_create_def)
  have ready: "bus_ready ?w"
    using w by (auto simp: can_create_def bus_ready_def event_log_ok_def event_log_def event_counter_def)
  let ?args = "no_args\<lparr>a_project_id := sc_project_id sch, a_job_id := Some (j_id job), a_schedule_id := Some (sc_id sch),
     a_scheduler_id := Some (sd_worker_id s),
     a_payload := Some (JObj [(''kind'', JStr (sc_kind sch)), (''due_at'', JStr (sh_isoformat h c))]), a_after := Some (j_created_at job)\<rparr>"
  obtain e w' where em: "emit (sd_event_bus s) ''schedule.materialized'' SrcScheduler ?args ?w = (Inr e, w')" and w': "bus_ready w'"
    using keeps_returns [OF keeps_emit [OF bus, of "''schedule.materialized''" SrcScheduler ?args] ready] by auto
  have step: "bus_step ?w w'" by (rule bus_opD [OF bus_op_emit em])
  then have tables: "jobs_table (w_db w') = jobs_table (w_db w) @ [job_to_row job]" "schedules_table (w_db w') = schedules_table ?d'"
    and ids: "w_uuids w' = w_uuids w" "Suc (w_drawn w) \<le> w_drawn w'"
    by (auto simp: bus_step_def log_only_tables)
  have run: "materialize_schedule h s c sch w = (Inr (Some job), w')"
    using em save by (simp add: materialize_schedule_def known policies schedule_policy_def u bind_def uuid4_def on_store_def Let_def
        job_def [symmetric] update_schedule_after_materialize_def return_eq lift_result_eq)
  have "w_uuids w n \<noteq> ?jid" if "w_drawn w' \<le> n" for n
    using w ids(2) that by (auto simp: can_create_def bus_ready_def dest: injD)
  then have "can_create w'" using w w' ids by (auto simp: can_create_def tables jid)
  moreover have "job_request job = asked_job c sch" by (simp add: job_request_def asked_job_def job_def scheduled_job_def)
  moreover have late: "dt_wall c < dt_wall u" using u c by (auto simp: is_utc_def split: datetime.splits)
  have "x \<in> due_rows c (w_db w) \<and> sc_id x \<noteq> sc_id sch" if x: "x \<in> due_rows c (w_db w')" for x
  proof -
    obtain r where r: "r \<in> set (schedules_table (w_db w))" "x = (if sc_id r = sc_id sch then ?f r else r)"
      using x by (auto simp: due_rows_def tables in_update_where)
    have "sc_id r \<noteq> sc_id sch" using x late by (auto simp: r due_rows_def db_datetime_def)
    then show ?thesis using x r by (simp add: due_rows_def)
  qed
  then have "due_rows c (w_db w') \<subseteq> {x \<in> due_rows c (w_db w). sc_id x \<noteq> sc_id sch}" by blast
  ultimately show ?thesis using that [OF run] tables(1) by blast
qed

lemma materialize_all:
  assumes bus: "bus_ok (sd_event_bus s)" and policies: "sd_resource_policies s = None"
    and c: "is_utc c" and "can_create w" and "cron_advances h c schs" and "\<forall>sch \<in> set schs. \<exists>definition. registry_get (sd_registry s) (sc_kind sch) = Inr definition"
  shows "\<exists>jobs w'. for_each (materialize_schedule h s c) schs w = (Inr (map Some jobs), w') \<and>
    map job_request jobs = map (asked_job c) schs \<and> jobs_table (w_db w') = jobs_table (w_db w) @ map job_to_row jobs \<and>
    due_rows c (w_db w') \<subseteq> {x \<in> due_rows c (w_db w). sc_id x \<notin> sc_id ` set schs}"
  using assms(4-6)
proof (induction schs arbitrary: w)
  case Nil
  then show ?case by (auto simp: return_eq intro!: exI [of _ "[]"])
next
  case (Cons sch schs)
  obtain defn where known: "registry_get (sd_registry s) (sc_kind sch) = Inr defn" using Cons.prems(3) by auto
  have cron: "cron_advances h c [sch]" "cron_advances h c schs" using Cons.prems(2) by (simp_all add: cron_advances_def)
  obtain job w1 where one: "materialize_schedule h s c sch w = (Inr (Some job), w1)" "can_create w1"
    "job_request job = asked_job c sch" "jobs_table (w_db w1) = jobs_table (w_db w) @ [job_to_row job]"
    "due_rows c (w_db w1) \<subseteq> {x \<in> due_rows c (w_db w). sc_id x \<noteq> sc_id sch}"
    by (rule materialize_one [OF cron(1) bus policies known Cons.prems(1) c])
  obtain jobs w' where rest: "for_each (materialize_schedule h s c) schs w1 = (Inr (map Some jobs), w')"
    "map job_request jobs = map (asked_job c) schs" "jobs_table (w_db w') = jobs_table (w_db w1) @ map job_to_row jobs"
    "due_rows c (w_db w') \<subseteq> {x \<in> due_rows c (w_db w1). sc_id x \<notin> sc_id ` set schs}"
    using Cons.IH [OF one(2) cron(2)] Cons.prems(3) by auto
  have "for_each (materialize_schedule h s c) (sch # schs) w = (Inr (map Some (job # jobs)), w')"
    using one(1) rest(1) by (simp add: bind_def return_eq)
  then show ?case using one(3-5) rest(2-4) by (intro exI [of _ "job # jobs"] exI [of _ w']) auto
qed

text \<open>
  C18. No due schedule is left behind: when the kinds of the due schedules are registered, their cron
  expressions and zones are valid and no policy set is configured, a pass creates exactly one job for
  every due schedule, in the order of their due times, queued, due now and with the schedule's project,
  input and priority; and afterwards no schedule is due, so a schedule fires once per due time.
\<close>

theorem due_schedules_materialize:
  assumes "bus_ok (sd_event_bus s)" and "sd_resource_policies s = None" and "can_create w"
    and "cron_advances h (ensure_utc now) (list_due_schedules (ensure_utc now) (w_db w))"
    and "\<forall>schedule \<in> set (list_due_schedules (ensure_utc now) (w_db w)).
      \<exists>definition. registry_get (sd_registry s) (sc_kind schedule) = Inr definition"
  shows "\<exists>jobs w'. materialize_due_schedules h s now w = (Inr jobs, w') \<and>
    map job_request jobs = map (asked_job (ensure_utc now)) (list_due_schedules (ensure_utc now) (w_db w)) \<and>
    jobs_table (w_db w') = jobs_table (w_db w) @ map job_to_row jobs \<and>
    list_due_schedules (ensure_utc now) (w_db w') = []"
proof -
  let ?c = "ensure_utc now"
  let ?due = "list_due_schedules ?c (w_db w)"
  obtain jobs w' where run: "for_each (materialize_schedule h s ?c) ?due w = (Inr (map Some jobs), w')"
    and jobs: "map job_request jobs = map (asked_job ?c) ?due" "jobs_table (w_db w') = jobs_table (w_db w) @ map job_to_row jobs"
    and left: "due_rows ?c (w_db w') \<subseteq> {x \<in> due_rows ?c (w_db w). sc_id x \<notin> sc_id ` set ?due}"
    using materialize_all [OF assms(1,2) is_utc_ensure_utc [of now] assms(3-5)] by (elim exE conjE)
  have "sc_id ` set ?due = sc_id ` due_rows ?c (w_db w)"
    by (simp add: list_due_rows image_image row_to_schedule_def)
  then have "due_rows ?c (w_db w') = {}" using left by auto
  then have "set (list_due_schedules ?c (w_db w')) = {}" by (simp add: list_due_rows)
  moreover have "List.map_filter id (map Some jobs) = jobs" by (induction jobs) (simp_all add: List.map_filter_def)
  ultimately show ?thesis using run jobs
    by (auto simp: materialize_due_schedules_def Let_def gets_eq bind_def return_eq)
qed

theorem due_schedules_materialize_witness:
  "\<exists>jobs w'. materialize_due_schedules demo_host demo_scheduler (utc 10) (fresh_world (empty_db\<lparr>schedules_table := [hourly ''example.echo'']\<rparr>)) =
     (Inr jobs, w') \<and> map j_schedule_id jobs = [Some ''s1''] \<and> map j_status jobs = [Queued] \<and> list_due_schedules (ensure_utc (utc 10)) (w_db w') = []"
proof -
  let ?w = "fresh_world (empty_db\<lparr>schedules_table := [hourly ''example.echo'']\<rparr>)"
  have bus: "bus_ok (sd_event_bus demo_scheduler)" using down_bus_ok by (simp add: demo_scheduler_def)
  have ps: "sd_resource_policies demo_scheduler = None" by (simp add: demo_scheduler_def)
  have "bus_ready ?w"
    using bus_ready_same_log [OF fresh_world_ready, of "empty_db\<lparr>schedules_table := [hourly ''example.echo'']\<rparr>"]
    by (simp add: fresh_world_def)
  then have w: "can_create ?w" by (simp add: can_create_def) (simp add: fresh_world_def empty_db_def)
  have due: "list_due_schedules (ensure_utc (utc 10)) (w_db ?w) = [row_to_schedule (hourly ''example.echo'')]"
    by (simp add: fresh_world_def list_due_schedules_def select_where_def hourly_def ensure_utc_def db_datetime_def order_by_def)
  have known: "\<forall>schedule \<in> set (list_due_schedules (ensure_utc (utc 10)) (w_db ?w)).
      \<exists>definition. registry_get (sd_registry demo_scheduler) (sc_kind schedule) = Inr definition"
    unfolding due by (simp add: registry_get_def demo_scheduler_def echo_registry_def hourly_def row_to_schedule_def)
  have cron: "cron_advances demo_host (ensure_utc (utc 10)) (list_due_schedules (ensure_utc (utc 10)) (w_db ?w))"
    unfolding due by (simp add: cron_advances_def demo_host_def)
  have "map j_schedule_id jobs = [Some ''s1''] \<and> map j_status jobs = [Queued]"
    if "map job_request jobs = map (asked_job c) [row_to_schedule (hourly ''example.echo'')]" for jobs c
    using that by (auto simp: job_request_def asked_job_def hourly_def row_to_schedule_def)
  then show ?thesis using due_schedules_materialize [OF bus ps w cron known, unfolded due] by metis
qed

end
