(* ===== verification/Api_Access.thy ===== *)
theory Api_Access
  imports Scheduler_Pass
begin

text \<open>
  The ground of the HTTP API: \<^verbatim>\<open>src/src/goblin_king/api.py\<close>, the dependencies that authenticate a
  request and resolve its project, with \<^verbatim>\<open>api_runtime.py\<close>, \<^verbatim>\<open>api_schedules.py\<close>, \<^verbatim>\<open>termination.py\<close>
  and the artifact paths of \<^verbatim>\<open>api_artifacts.py\<close>. An \<^verbatim>\<open>HTTPException\<close> is an exception that carries its
  status code. A route is a function of the principal on the world; \<open>route\<close> composes it with the
  authentication. The parameters of the application, its settings and what it asks of other code
  (\<^verbatim>\<open>croniter\<close>, \<^verbatim>\<open>ZoneInfo\<close>, URL parsing, path resolution, \<^verbatim>\<open>docker\<close> and the cluster) are the record
  \<open>api\<close>. \<^verbatim>\<open>ap_unlink\<close> returns whether the file was there.
\<close>

section \<open>The application\<close>

datatype runtime_target = TargetDocker | TargetKubernetes | TargetBoth

primrec runtime_target_text :: "runtime_target \<Rightarrow> string" where
  "runtime_target_text TargetDocker = ''docker''"
| "runtime_target_text TargetKubernetes = ''kubernetes''"
| "runtime_target_text TargetBoth = ''both''"

text \<open>
  The runtime of notebook services, \<^verbatim>\<open>NotebookServiceRuntimeManager\<close>: what it has started, or the message of
  its \<^verbatim>\<open>NotebookServiceRuntimeError\<close>. The response to an HTTP request: its status code and what is kept of it.
\<close>

record service_runtime =
  sr_backend :: string
  sr_name :: string
  sr_base_url :: string
  sr_probe :: "json option"

record 'r service_manager =
  sm_validate :: "notebook_service_record \<Rightarrow> int \<Rightarrow> ('r world, string + service_runtime) op"
  sm_start :: "notebook_service_record \<Rightarrow> string option \<Rightarrow> int \<Rightarrow> ('r world, string + service_runtime) op"
  sm_stop_by_backend :: "string \<Rightarrow> string \<Rightarrow> ('r world, unit) op"

record http_response =
  hr_status_code :: "int option"
  hr_payload :: json

text \<open>What \<^verbatim>\<open>urlopen\<close> gives: a response, an \<^verbatim>\<open>HTTPError\<close> (status, headers, text), or the text of an \<^verbatim>\<open>OSError\<close>.\<close>

datatype url_reply =
    UrlAnswered int "(string \<times> string) list" string
  | UrlRefused int "(string \<times> string) list" string
  | UrlFailed string

text \<open>The status code and the payload that a probe records, with the parser of JSON text.\<close>

fun probe_reply :: "(string \<Rightarrow> json option) \<Rightarrow> url_reply \<Rightarrow> http_response" where
  "probe_reply loads (UrlAnswered status headers body) = \<lparr>hr_status_code = Some status,
     hr_payload = JObj ([(''status_code'', JInt status), (''headers'', JObj (map (\<lambda>(k, v). (k, JStr v)) headers))] @
       (case loads body of Some j \<Rightarrow> [(''json'', j)] | None \<Rightarrow> [(''json'', JNull), (''text'', JStr body)]))\<rparr>"
| "probe_reply loads (UrlRefused status headers body) = \<lparr>hr_status_code = Some status,
     hr_payload = JObj [(''status_code'', JInt status), (''headers'', JObj (map (\<lambda>(k, v). (k, JStr v)) headers)),
       (''text'', JStr body), (''json'', JNull)]\<rparr>"
| "probe_reply loads (UrlFailed message) = \<lparr>hr_status_code = None,
     hr_payload = JObj [(''status_code'', JNull), (''headers'', JObj []), (''text'', JStr message), (''json'', JNull)]\<rparr>"

text \<open>Running \<^verbatim>\<open>docker\<close> (exit code, output, error output), listing and deleting Kubernetes Jobs.\<close>

record 'r termination_host =
  tm_run :: "string list \<Rightarrow> ('r world, int \<times> string \<times> string) op"
  tm_list_jobs :: "string option \<Rightarrow> string \<Rightarrow> ('r world, string \<times> string list) op"
  tm_delete_job :: "string \<Rightarrow> string \<Rightarrow> ('r world, unit) op"

record url_parts =
  up_netloc :: string
  up_path :: string
  up_query :: string
  up_fragment :: string

record 'r api =
  ap_auth :: "'r auth_host"
  ap_host :: "'r scheduler_host"
  ap_termination :: "'r termination_host"
  ap_croniter :: "string \<Rightarrow> unit result"
  ap_zoneinfo :: "string \<Rightarrow> unit result"
  ap_urlsplit :: "string \<Rightarrow> url_parts result"
  ap_unquote :: "string \<Rightarrow> string"
  ap_resolve :: "path \<Rightarrow> path"
  ap_is_file :: "path \<Rightarrow> bool"
  ap_mtime :: "path \<Rightarrow> rat"
  ap_size :: "path \<Rightarrow> int"
  ap_unlink :: "path \<Rightarrow> ('r world, bool) op"
  ap_codec :: event_codec
  ap_event_redis :: "string \<Rightarrow> 'r run_event_redis result"
  ap_event_bus :: "'r event_bus"
  ap_registry :: goblin_registry
  ap_workers :: worker_image_map
  ap_policies :: "resource_policy_set option"
  ap_artifact_root :: path
  ap_redis_url :: string
  ap_bootstrap_token :: string
  ap_oidc :: "oidc_config option"
  ap_jupyterhub :: "jupyterhub_config option"
  ap_rate_limit :: int
  ap_default_project_id :: "string option"
  ap_repository_enabled :: bool
  ap_function_image :: string
  ap_service_image :: string
  ap_in_kubernetes :: bool
  ap_kubernetes_validate :: "notebook_goblin_record \<Rightarrow> json \<Rightarrow> bool \<Rightarrow> int option \<Rightarrow> ('r world, worker_validation_result) op"
  ap_workload_security :: "string \<Rightarrow> json"
  ap_services :: "'r service_manager"
  ap_urlopen :: "string \<Rightarrow> ('r world, url_reply) op"
  ap_loads :: "string \<Rightarrow> json option"
  ap_validation_dump :: "worker_validation_result \<Rightarrow> json"

definition http_error :: "int \<Rightarrow> string \<Rightarrow> error" where
  "http_error status_code detail = Raise (HTTPException status_code) detail"

section \<open>Dependencies of the routes\<close>

definition audit_refusal :: "string \<Rightarrow> string \<Rightarrow> ('r world, unit) op" where
  "audit_refusal path reason = audit ''auth.failure'' ''denied'' None None None None
     (Some (JObj [(''route'', JStr path), (''reason'', JStr reason)]))"

definition require_principal :: "'r api \<Rightarrow> string option \<Rightarrow> string \<Rightarrow> ('r session, principal) op" where
  "require_principal api credentials path =
     (case credentials of
        None \<Rightarrow> in_world (bind (audit_refusal path ''missing token'')
                  (\<lambda>_. throw (http_error 401 ''missing or invalid bearer token'')))
      | Some token \<Rightarrow>
          handle (bind (authenticate_token (ap_auth api) token (ap_bootstrap_token api) (ap_oidc api) (ap_jupyterhub api)) (\<lambda>p.
                  bind (in_world (check_rate_limit p path (ap_rate_limit api))) (\<lambda>_. return p)))
            (\<lambda>e. case error_class e of
                AuthError code \<Rightarrow> in_world (bind (audit_refusal path (error_message e)) (\<lambda>_. throw (http_error code (error_message e))))
              | RateLimitExceeded \<Rightarrow> throw (http_error 429 (error_message e))
              | _ \<Rightarrow> throw e))"

definition require_admin_principal :: "principal \<Rightarrow> ('r world, unit) op" where
  "require_admin_principal p =
     handle (lift_result (require_admin p)) (\<lambda>e. case error_class e of
         AuthError code \<Rightarrow> bind (audit ''auth.forbidden'' ''denied'' (Some p) None None None
             (Some (JObj [(''reason'', JStr (error_message e))]))) (\<lambda>_. throw (http_error code (error_message e)))
       | _ \<Rightarrow> throw e)"

definition resolved_project :: "'r api \<Rightarrow> principal \<Rightarrow> string option \<Rightarrow> string option" where
  "resolved_project api p requested =
     (if truthy_text requested then requested
      else if truthy_text (pr_project_id p) then pr_project_id p else ap_default_project_id api)"

definition project_for_request :: "'r api \<Rightarrow> principal \<Rightarrow> string option \<Rightarrow> ('r world, string option) op" where
  "project_for_request api p requested_project_id =
     (let project_id = resolved_project api p requested_project_id in
      bind (handle (lift_result (require_project_access p project_id)) (\<lambda>e. case error_class e of
          AuthError code \<Rightarrow> bind (audit ''project.access_denied'' ''denied'' (Some p) project_id None None None)
            (\<lambda>_. throw (http_error code (error_message e)))
        | _ \<Rightarrow> throw e)) (\<lambda>_. return project_id))"

definition project_id_for_run :: "db \<Rightarrow> run_record \<Rightarrow> string option" where
  "project_id_for_run d run =
     (case get_job d (r_job_id run) of Some job \<Rightarrow> j_project_id job | None \<Rightarrow> r_project_id run)"

definition run_for_principal :: "'r api \<Rightarrow> string \<Rightarrow> principal \<Rightarrow> ('r world, run_record) op" where
  "run_for_principal api run_id p =
     bind (on_store (\<lambda>d. (get_run d run_id, d))) (\<lambda>found.
     case found of
       None \<Rightarrow> throw (http_error 404 (''run not found: '' @ run_id))
     | Some run \<Rightarrow>
         bind (gets (\<lambda>w. project_id_for_run (w_db w) run)) (\<lambda>project_id.
         bind (project_for_request api p project_id) (\<lambda>_. return run)))"

text \<open>A route: the principal first, then its body; an admin route requires the role before it.\<close>

definition route :: "'r api \<Rightarrow> string option \<Rightarrow> string \<Rightarrow> (principal \<Rightarrow> ('r world, 'a) op) \<Rightarrow> ('r session, 'a) op" where
  "route api credentials path body = bind (require_principal api credentials path) (\<lambda>p. in_world (body p))"

definition admin_only :: "(principal \<Rightarrow> ('r world, 'a) op) \<Rightarrow> principal \<Rightarrow> ('r world, 'a) op" where
  "admin_only body p = bind (require_admin_principal p) (\<lambda>_. body p)"

text \<open>The bounds FastAPI checks on the query parameters of a page.\<close>

definition valid_page :: "int \<Rightarrow> int \<Rightarrow> unit result" where
  "valid_page limit offset =
     (if 1 \<le> limit \<and> limit \<le> 500 \<and> 0 \<le> offset then Inr () else Inl (http_error 422 ''query''))"

record 'a page_response =
  pg_items :: "'a list"
  pg_limit :: int
  pg_offset :: int
  pg_count :: int

definition page_of :: "int \<Rightarrow> int \<Rightarrow> 'a list \<Rightarrow> 'a page_response" where
  "page_of limit offset items = \<lparr>pg_items = items, pg_limit = limit, pg_offset = offset, pg_count = int (length items)\<rparr>"

section \<open>Policies and terminations\<close>

definition effective_policy :: "'r api \<Rightarrow> string \<Rightarrow> int option \<Rightarrow> int option \<Rightarrow> resource_policy option result" where
  "effective_policy api kind timeout_seconds max_retries =
     (case ap_policies api of
        None \<Rightarrow> Inr None
      | Some ps \<Rightarrow> bind_result (effective_for (sh_coercions (ap_host api)) ps kind timeout_seconds max_retries) (\<lambda>p. Inr (Some p)))"

definition record_policy_rejection ::
  "'r api \<Rightarrow> principal \<Rightarrow> string option \<Rightarrow> string \<Rightarrow> string \<Rightarrow> ('r world, unit) op" where
  "record_policy_rejection api p project_id kind message =
     (let payload = JObj [(''kind'', JStr kind), (''error'', JStr message)] in
      bind (emit (ap_event_bus api) ''resource_policy.rejected'' SrcApi
              (no_args\<lparr>a_project_id := project_id, a_payload := Some payload\<rparr>)) (\<lambda>_.
      audit ''resource_policy.rejected'' ''failure'' (Some p) project_id (Some ''resource_policy'') None (Some payload)))"

text \<open>The policy of a request, or its rejection as status 422.\<close>

definition checked_policy ::
  "'r api \<Rightarrow> principal \<Rightarrow> string option \<Rightarrow> string \<Rightarrow> int option \<Rightarrow> int \<Rightarrow> ('r world, resource_policy option) op" where
  "checked_policy api p project_id kind timeout_seconds max_retries =
     handle (lift_result (effective_policy api kind timeout_seconds (Some max_retries))) (\<lambda>e.
       if error_class e = ResourcePolicyError
       then bind (record_policy_rejection api p project_id kind (error_message e)) (\<lambda>_. throw (http_error 422 (error_message e)))
       else throw e)"

record runtime_termination =
  rt_target_type :: string
  rt_target_id :: string
  rt_runtime :: runtime_target
  rt_killed :: "string list"
  rt_errors :: "string list"
  rt_cancelled :: bool

definition record_runtime_termination ::
  "'r api \<Rightarrow> principal \<Rightarrow> string option \<Rightarrow> runtime_termination \<Rightarrow> ('r world, runtime_termination) op" where
  "record_runtime_termination api p project_id t =
     (let payload = JObj [(''target_type'', JStr (rt_target_type t)), (''target_id'', JStr (rt_target_id t)),
            (''runtime'', JStr (runtime_target_text (rt_runtime t))), (''killed'', JArr (map JStr (rt_killed t))),
            (''errors'', JArr (map JStr (rt_errors t))), (''cancelled'', JBool (rt_cancelled t))] in
      bind (emit (ap_event_bus api) ''runtime.terminated'' SrcApi
              (no_args\<lparr>a_project_id := project_id, a_payload := Some payload\<rparr>)) (\<lambda>_.
      bind (audit ''runtime.terminated'' (if rt_errors t = [] then ''success'' else ''partial'') (Some p) project_id
              (Some (rt_target_type t)) (Some (rt_target_id t)) (Some payload)) (\<lambda>_.
      return t)))"

definition label_filters :: "string option \<Rightarrow> string option \<Rightarrow> string list" where
  "label_filters job_id run_id = ''goblin-king.worker=true'' #
     (if truthy_text job_id then [''goblin-king.job-id='' @ the job_id] else []) @
     (if truthy_text run_id then [''goblin-king.run-id='' @ the run_id] else [])"

text \<open>\<^verbatim>\<open>str.splitlines()\<close> on ASCII line ends, without the empty lines, each one stripped.\<close>

definition line_end :: "char \<Rightarrow> bool" where
  "line_end c \<longleftrightarrow> (let n = of_char c :: nat in 10 \<le> n \<and> n \<le> 13 \<or> 28 \<le> n \<and> n \<le> 30)"

function lines_of :: "string \<Rightarrow> string list" where
  "lines_of s = (if s = [] then [] else
     let line = takeWhile (\<lambda>c. \<not> line_end c) s in
     (if py_strip line = '''' then [] else [py_strip line]) @ lines_of (drop (Suc (length line)) s))"
  by pat_completeness auto
termination by (relation "measure length") auto

declare lines_of.simps [simp del]

definition kill_container ::
  "'r termination_host \<Rightarrow> string \<Rightarrow> string list \<times> string list \<Rightarrow> string \<Rightarrow> ('r world, string list \<times> string list) op" where
  "kill_container h docker result container_id =
     bind (tm_run h [docker, ''kill'', container_id]) (\<lambda>(returncode, _, stderr).
     return (if returncode = 0 then (fst result @ [''docker:'' @ container_id], snd result)
             else (fst result, snd result @ [if py_strip stderr \<noteq> '''' then py_strip stderr else ''docker kill failed: '' @ container_id])))"

fun kill_containers ::
  "'r termination_host \<Rightarrow> string \<Rightarrow> string list \<times> string list \<Rightarrow> string list \<Rightarrow> ('r world, string list \<times> string list) op" where
  "kill_containers h docker result [] = return result"
| "kill_containers h docker result (c # cs) =
     bind (kill_container h docker result c) (\<lambda>result'. kill_containers h docker result' cs)"

definition terminate_docker ::
  "'r termination_host \<Rightarrow> string \<Rightarrow> string list \<Rightarrow> string list \<times> string list \<Rightarrow> ('r world, string list \<times> string list) op" where
  "terminate_docker h docker labels result =
     bind (tm_run h ([docker, ''ps'', ''-q''] @ concat (map (\<lambda>l. [''--filter'', ''label='' @ l]) labels)))
       (\<lambda>(returncode, stdout, stderr).
     if returncode \<noteq> 0
     then return (fst result, snd result @ [if py_strip stderr \<noteq> '''' then py_strip stderr else ''docker ps failed''])
     else kill_containers h docker result (lines_of stdout))"

text \<open>What was deleted before a failure stays in the result.\<close>

fun delete_jobs ::
  "'r termination_host \<Rightarrow> string \<Rightarrow> string list \<times> string list \<Rightarrow> string list \<Rightarrow> ('r world, string list \<times> string list) op" where
  "delete_jobs h namespace result [] = return result"
| "delete_jobs h namespace result (name # names) =
     bind (handle (bind (tm_delete_job h namespace name) (\<lambda>_. return None)) (\<lambda>e. return (Some e))) (\<lambda>failed.
     case failed of
       Some e \<Rightarrow> return (fst result, snd result @ [''kubernetes termination unavailable: '' @ error_message e])
     | None \<Rightarrow> delete_jobs h namespace (fst result @ [''kubernetes:'' @ namespace @ ''/'' @ name], snd result) names)"

fun join_commas :: "string list \<Rightarrow> string" where
  "join_commas [] = ''''"
| "join_commas [x] = x"
| "join_commas (x # xs) = x @ '','' @ join_commas xs"

definition terminate_kubernetes ::
  "'r termination_host \<Rightarrow> string list \<Rightarrow> string option \<Rightarrow> string list \<times> string list \<Rightarrow> ('r world, string list \<times> string list) op" where
  "terminate_kubernetes h labels namespace result =
     bind (handle (bind (tm_list_jobs h namespace (join_commas labels)) (\<lambda>found. return (Inr found))) (\<lambda>e. return (Inl e))) (\<lambda>listed.
     case listed of
       Inl e \<Rightarrow> return (fst result, snd result @ [''kubernetes termination unavailable: '' @ error_message e])
     | Inr (selected_namespace, names) \<Rightarrow> delete_jobs h selected_namespace result names)"

definition terminate_runtime ::
  "'r termination_host \<Rightarrow> string option \<Rightarrow> string option \<Rightarrow> runtime_target \<Rightarrow> string option \<Rightarrow>
   ('r world, string list \<times> string list) op" where
  "terminate_runtime h job_id run_id runtime namespace =
     (let labels = label_filters job_id run_id in
      bind (if runtime \<in> {TargetDocker, TargetBoth} then terminate_docker h ''docker'' labels ([], []) else return ([], []))
        (\<lambda>result.
      if runtime \<in> {TargetKubernetes, TargetBoth} then terminate_kubernetes h labels namespace result else return result))"

section \<open>Artifact files\<close>

definition has_prefix :: "string \<Rightarrow> string \<Rightarrow> bool" where
  "has_prefix p s \<longleftrightarrow> take (length p) s = p"

definition artifact_candidate :: "'r api \<Rightarrow> artifact_record \<Rightarrow> path option \<Rightarrow> path option result" where
  "artifact_candidate api artifact mounted_artifact_root =
     (let uri = art_uri artifact in
      if has_prefix ''artifact://'' uri
      then bind_result (ap_urlsplit api uri) (\<lambda>parsed.
        case mounted_artifact_root of
          None \<Rightarrow> Inr None
        | Some mounted \<Rightarrow>
            if up_query parsed \<noteq> '''' \<or> up_fragment parsed \<noteq> '''' then Inr None
            else let relative = dropWhile (\<lambda>c. c = CHR ''/'') (ap_unquote api (up_netloc parsed @ up_path parsed)) in
              if relative \<noteq> art_name artifact then Inr None else Inr (Some (path_join mounted (path_of relative))))
      else if has_prefix ''file://'' uri
      then bind_result (ap_urlsplit api uri) (\<lambda>parsed.
        if up_netloc parsed \<notin> {'''', ''localhost''} then Inr None
        else Inr (Some (path_of (ap_unquote api (ap_unquote api (up_path parsed))))))
      else if has_infix ''://'' uri then Inr None
      else Inr (Some (path_of uri)))"

definition artifact_file_path :: "'r api \<Rightarrow> artifact_record \<Rightarrow> path option \<Rightarrow> path option result" where
  "artifact_file_path api artifact mounted_artifact_root =
     bind_result (artifact_candidate api artifact mounted_artifact_root) (\<lambda>candidate.
     Inr (case candidate of
       None \<Rightarrow> None
     | Some c \<Rightarrow>
         let resolved = ap_resolve api (if is_absolute c then c else path_join (ap_artifact_root api) c) in
         if relative_to resolved (ap_resolve api (ap_artifact_root api)) = None then None else Some resolved))"

section \<open>Schedules\<close>

record schedule_create_request =
  sq_kind :: string
  sq_cron :: string
  sq_input :: json
  sq_timezone :: string
  sq_project_id :: "string option"
  sq_enabled :: bool
  sq_priority :: int
  sq_max_retries :: int
  sq_timeout_seconds :: "int option"
  sq_due_now :: bool

definition validate_cron :: "'r api \<Rightarrow> string \<Rightarrow> unit result" where
  "validate_cron api v = (case ap_croniter api v of
       Inl e \<Rightarrow> if is_value_error e then Inl (http_error 422 (''invalid cron expression: '' @ v)) else Inl e
     | Inr _ \<Rightarrow> Inr ())"

text \<open>\<^verbatim>\<open>ZoneInfoNotFoundError\<close> is a \<^verbatim>\<open>KeyError\<close>.\<close>

definition validate_timezone :: "'r api \<Rightarrow> string \<Rightarrow> unit result" where
  "validate_timezone api v = (case ap_zoneinfo api v of
       Inl e \<Rightarrow> if error_class e = KeyError then Inl (http_error 422 (''unknown timezone: '' @ v)) else Inl e
     | Inr _ \<Rightarrow> Inr ())"

definition schedule_from_request :: "'r api \<Rightarrow> schedule_create_request \<Rightarrow> ('r world, schedule_record) op" where
  "schedule_from_request api request =
     (case registry_get (ap_registry api) (sq_kind request) of
        Inl e \<Rightarrow> throw (if error_class e = RegistryError then http_error 404 (error_message e) else e)
      | Inr definition \<Rightarrow>
          bind (lift_result (validate_cron api (sq_cron request))) (\<lambda>_.
          bind (lift_result (validate_timezone api (sq_timezone request))) (\<lambda>_.
          bind utc_now (\<lambda>created_at.
          bind uuid4 (\<lambda>i.
          let provisional = \<lparr>sc_id = i, sc_kind = gd_kind definition, sc_project_id = None, sc_input = sq_input request,
                sc_cron = sq_cron request, sc_timezone = sq_timezone request, sc_enabled = sq_enabled request,
                sc_priority = sq_priority request, sc_created_at = created_at, sc_next_run_at = created_at,
                sc_last_materialized_at = None, sc_max_retries = sq_max_retries request,
                sc_timeout_seconds = sq_timeout_seconds request\<rparr> in
          bind (if sq_due_now request then return created_at
                else lift_result (next_run_after (ap_host api) provisional created_at)) (\<lambda>next_run_at.
          return (provisional\<lparr>sc_next_run_at := next_run_at\<rparr>)))))))"

section \<open>Scope\<close>

text \<open>What a principal may touch: an admin everything, others their project and what has none.\<close>

definition in_scope :: "principal \<Rightarrow> string option \<Rightarrow> bool" where
  "in_scope p project_id \<longleftrightarrow> is_admin p \<or> \<not> truthy_text project_id \<or> project_id = pr_project_id p"

definition may_access :: "principal \<Rightarrow> string option \<Rightarrow> bool" where
  "may_access p project_id \<longleftrightarrow> is_admin p \<or> pr_project_id p \<noteq> None \<and> project_id = pr_project_id p"

lemma require_project_access_eq:
  "require_project_access p x = (if may_access p x then Inr () else Inl (auth_error ''project access denied'' 403))"
  by (auto simp: require_project_access_def may_access_def)

lemma handle_lift: "handle (lift_result r) h = (case r of Inl e \<Rightarrow> h e | Inr a \<Rightarrow> return a)"
  by (rule ext) (simp add: handle_def lift_result_def return_def split: sum.split)

lemma project_for_request_eq:
  "project_for_request api p x =
     (let y = resolved_project api p x in
      if may_access p y then return y
      else bind (audit ''project.access_denied'' ''denied'' (Some p) y None None None)
             (\<lambda>_. throw (http_error 403 ''project access denied'')))"
  by (rule ext) (simp add: project_for_request_def require_project_access_eq handle_lift Let_def auth_error_def bind_assoc)

lemma bind_throw_Inr: "bind m (\<lambda>_. throw e) w \<noteq> (Inr a, w')"
  by (simp add: bind_def throw_def split: prod.split sum.split)

lemma project_for_request_Inr:
  "project_for_request api p x w = (Inr y, w') \<Longrightarrow> w' = w \<and> in_scope p x \<and> may_access p y"
  by (auto simp: project_for_request_eq Let_def bind_throw_Inr return_eq in_scope_def may_access_def resolved_project_def split: if_splits)

lemma may_access_scope: "may_access p x \<Longrightarrow> in_scope p x"
  by (auto simp: may_access_def in_scope_def)

lemma handle_Inr_iff:
  "handle m h w = (Inr a, w') \<longleftrightarrow> m w = (Inr a, w') \<or> (\<exists>e w1. m w = (Inl e, w1) \<and> h e w1 = (Inr a, w'))"
  by (auto simp: handle_def split: prod.splits sum.splits)

lemma throw_Inr [simp]: "throw e w \<noteq> (Inr a, w')" "(if b then throw e else throw e') w \<noteq> (Inr a, w')"
  by (simp_all add: throw_eq)

lemma on_store_read: "on_store (\<lambda>d. (f d, d)) w = (f (w_db w), w)"
  by (simp add: on_store_def)

lemma on_store_Inr: "on_store m w = (Inr a, w') \<longleftrightarrow> (\<exists>d. m (w_db w) = (Inr a, d) \<and> w' = w\<lparr>w_db := d\<rparr>)"
  by (auto simp: on_store_def split: prod.split)

lemma if_throw_Inr: "(if b then throw e else m) w = (Inr a, w') \<longleftrightarrow> \<not> b \<and> m w = (Inr a, w')"
  by (simp add: throw_eq)

lemma case_found_Inr:
  "(case found of None \<Rightarrow> throw e | Some x \<Rightarrow> f x) w = (Inr a, w') \<longleftrightarrow> (\<exists>x. found = Some x \<and> f x w = (Inr a, w'))"
  by (simp add: throw_eq split: option.split)

lemmas returns = bind_Inr_iff return_eq gets_eq lift_result_Inr_iff if_throw_Inr case_found_Inr handle_Inr_iff
  on_store_read bind_throw_Inr

lemma run_scope_Inr:
  "run_for_principal api i p w = (Inr run, w') \<Longrightarrow>
   w' = w \<and> get_run (w_db w) i = Inr (Some run) \<and> in_scope p (project_id_for_run (w_db w) run)"
  unfolding run_for_principal_def by (auto simp: returns dest!: project_for_request_Inr)

section \<open>A concrete application\<close>

text \<open>One application without providers, policies or a cluster, and a member of a project.\<close>

definition demo_runtime :: service_runtime where
  "demo_runtime = \<lparr>sr_backend = ''docker'', sr_name = ''svc'', sr_base_url = ''http://svc:8080'', sr_probe = None\<rparr>"

definition demo_api :: "unit api" where
  "demo_api = \<lparr>ap_auth = demo_auth_host, ap_host = demo_host,
     ap_termination = \<lparr>tm_run = (\<lambda>_. return (0, '''', '''')), tm_list_jobs = (\<lambda>_ _. throw (Raise RuntimeError ''no cluster'')),
       tm_delete_job = (\<lambda>_ _. return ())\<rparr>,
     ap_croniter = (\<lambda>_. Inr ()), ap_zoneinfo = (\<lambda>_. Inr ()), ap_urlsplit = (\<lambda>_. Inl (Raise ValueError ''not a url'')),
     ap_unquote = id, ap_resolve = id, ap_is_file = (\<lambda>_. True), ap_mtime = (\<lambda>_. 0), ap_size = (\<lambda>_. 10),
     ap_unlink = (\<lambda>_. return True), ap_codec = demo_codec, ap_event_redis = (\<lambda>_. Inr demo_events),
     ap_event_bus = down_bus, ap_registry = echo_registry, ap_workers = dr_workers quiet_runtime, ap_policies = None,
     ap_artifact_root = path_of ''/artifacts'', ap_redis_url = ''redis'', ap_bootstrap_token = ''boot'', ap_oidc = None,
     ap_jupyterhub = None, ap_rate_limit = 0, ap_default_project_id = None, ap_repository_enabled = True,
     ap_function_image = ''runner'', ap_service_image = ''service-runner'', ap_in_kubernetes = False,
     ap_kubernetes_validate = (\<lambda>_ _ _ _. throw (Raise RuntimeError ''no cluster'')), ap_workload_security = (\<lambda>_. JObj []),
     ap_services = \<lparr>sm_validate = (\<lambda>_ _. return (Inr demo_runtime)), sm_start = (\<lambda>_ _ _. return (Inr demo_runtime)),
       sm_stop_by_backend = (\<lambda>_ _. return ())\<rparr>,
     ap_urlopen = (\<lambda>_. return (UrlAnswered 200 [] ''hello'')), ap_loads = (\<lambda>_. None),
     ap_validation_dump = (\<lambda>r. JObj [(''ok'', JBool (vr_ok r))])\<rparr>"

definition demo_member :: "string \<Rightarrow> principal" where
  "demo_member project = \<lparr>pr_user_id = ''u'', pr_token_id = ''t'', pr_role = RoleMember, pr_project_id = Some project,
     pr_bootstrap = False, pr_auth_provider = ''local''\<rparr>"

lemma demo_api_files [simp]: "ap_mtime demo_api f = 0" "ap_size demo_api f = 10"
  by (simp_all add: demo_api_def)

end
