(* ===== verification/Api_Jobs.thy ===== *)
theory Api_Jobs
  imports Api_Access
begin

text \<open>
  The routes of jobs, runs, fanouts, schedules and events of \<^verbatim>\<open>src/src/goblin_king/api.py\<close>. Each is a
  function of the principal (theory Api_Access composes it with the authentication). The theorems
  are about project isolation: what a principal without the admin role reads belongs to its
  project or to none, and what it does leaves the rows of every other project as they are.
\<close>

section \<open>Queueing jobs\<close>

record job_create_request =
  jq_kind :: string
  jq_input :: json
  jq_priority :: int
  jq_project_id :: "string option"
  jq_correlation_id :: "string option"
  jq_max_retries :: int
  jq_timeout_seconds :: "int option"

text \<open>The definition of a kind: the registry's, or that of a notebook goblin.\<close>

definition job_definition :: "'r api \<Rightarrow> string \<Rightarrow> ('r world, goblin_definition \<times> notebook_goblin_record option) op" where
  "job_definition api kind =
     (case registry_get (ap_registry api) kind of
        Inr d \<Rightarrow> return (d, None)
      | Inl e \<Rightarrow>
          if error_class e \<noteq> RegistryError then throw e
          else bind (gets (\<lambda>w. get_notebook_goblin (w_db w) kind)) (\<lambda>found.
            case found of
              None \<Rightarrow> throw (http_error 404 (error_message e))
            | Some nb \<Rightarrow> bind (lift_result (notebook_definition nb)) (\<lambda>d. return (d, Some nb))))"

definition or_int_opt :: "int option \<Rightarrow> int option \<Rightarrow> int option" where
  "or_int_opt given other = (case given of None \<Rightarrow> other | Some n \<Rightarrow> if n = 0 then other else Some n)"

text \<open>Metadata, retries and timeout: of a notebook goblin, or under the resource policy.\<close>

definition job_limits ::
  "'r api \<Rightarrow> principal \<Rightarrow> string option \<Rightarrow> job_create_request \<Rightarrow> goblin_definition \<Rightarrow> notebook_goblin_record option \<Rightarrow>
   ('r world, json \<times> int \<times> int option) op" where
  "job_limits api p project_id request definition notebook_record =
     (case notebook_record of
        Some nb \<Rightarrow>
          if jq_project_id request \<noteq> None \<and> jq_project_id request \<noteq> ng_project_id nb
          then throw (http_error 403 ''notebook goblin cannot be submitted outside its project'')
          else return (obj_merge (goblin_job_metadata definition None) (JObj [(''goblin_source'', JStr ''notebook''),
                   (''notebook_source_hash'', JStr (ng_source_hash nb)), (''notebook_function_name'', JStr (ng_function_name nb))]),
                 if jq_max_retries request = 0 then ng_max_retries nb else jq_max_retries request,
                 or_int_opt (jq_timeout_seconds request) (ng_timeout_seconds nb))
      | None \<Rightarrow>
          bind (checked_policy api p project_id (gd_kind definition) (jq_timeout_seconds request) (jq_max_retries request)) (\<lambda>policy.
          return (goblin_job_metadata definition policy, policy_retries policy (jq_max_retries request),
                  policy_timeout policy (jq_timeout_seconds request))))"

definition repository_metadata :: "(repository_entry_record \<times> repository_version_record) option \<Rightarrow> json \<Rightarrow> json" where
  "repository_metadata source metadata =
     (case source of
        None \<Rightarrow> metadata
      | Some (entry, version) \<Rightarrow> obj_merge metadata (JObj [(''goblin_source'', JStr ''repository''),
          (''repository_entry_id'', JStr (re_id entry)), (''repository_name'', JStr (re_name entry)),
          (''repository_version'', JInt (rv_version version)), (''repository_source_hash'', JStr (rv_source_hash version))]))"

definition queued_job ::
  "string \<Rightarrow> string \<Rightarrow> datetime \<Rightarrow> principal \<Rightarrow> string option \<Rightarrow> job_create_request \<Rightarrow> json \<times> int \<times> int option \<Rightarrow> job_record" where
  "queued_job i kind created_at p project_id request limits =
     (let (metadata, max_retries, timeout_seconds) = limits in
      \<lparr>j_id = i, j_kind = kind, j_input = jq_input request, j_created_at = created_at, j_created_by = pr_user_id p,
       j_correlation_id = jq_correlation_id request, j_project_id = project_id, j_fanout_id = None, j_metadata = metadata,
       j_status = Queued, j_priority = jq_priority request, j_schedule_id = None, j_due_at = Some created_at,
       j_lease_owner = None, j_leased_until = None, j_attempt_count = 0, j_max_retries = max_retries,
       j_timeout_seconds = timeout_seconds, j_last_error = None\<rparr>)"

definition queue_job ::
  "'r api \<Rightarrow> principal \<Rightarrow> job_create_request \<Rightarrow> (repository_entry_record \<times> repository_version_record) option \<Rightarrow>
   ('r world, job_record) op" where
  "queue_job api p request source =
     bind (job_definition api (jq_kind request)) (\<lambda>(definition, notebook_record).
     bind (project_for_request api p
            (if truthy_text (jq_project_id request) then jq_project_id request
             else (case notebook_record of None \<Rightarrow> None | Some nb \<Rightarrow> ng_project_id nb))) (\<lambda>project_id.
     bind (job_limits api p project_id request definition notebook_record) (\<lambda>(metadata, max_retries, timeout_seconds).
     bind utc_now (\<lambda>created_at.
     bind uuid4 (\<lambda>i.
     let job = queued_job i (gd_kind definition) created_at p project_id request
                 (repository_metadata source metadata, max_retries, timeout_seconds) in
     bind (on_store (save_job job)) (\<lambda>_.
     bind (emit (ap_event_bus api) ''job.queued'' SrcApi (no_args\<lparr>a_project_id := project_id, a_job_id := Some (j_id job),
             a_payload := Some (JObj [(''kind'', JStr (j_kind job)), (''created_by'', JStr (j_created_by job))]),
             a_after := Some (j_created_at job)\<rparr>)) (\<lambda>_.
     bind (audit ''job.created'' ''success'' (Some p) project_id (Some ''job'') (Some (j_id job)) None) (\<lambda>_.
     return job))))))))"

definition create_job :: "'r api \<Rightarrow> job_create_request \<Rightarrow> principal \<Rightarrow> ('r world, job_record) op" where
  "create_job api request p = queue_job api p request None"

section \<open>Reading and cancelling jobs\<close>

definition job_status_named :: "string \<Rightarrow> job_status option" where
  "job_status_named s = List.find (\<lambda>x. job_status_text x = s)
     [Queued, Leased, Running, Completed, Failed, Retrying, TimedOut, Cancelled]"

text \<open>The status is any text of the query; one that is no status selects nothing.\<close>

definition jobs_with_status :: "db \<Rightarrow> string option \<Rightarrow> string option \<Rightarrow> int \<Rightarrow> int \<Rightarrow> job_record list" where
  "jobs_with_status d project_id status limit offset =
     (case status of
        None \<Rightarrow> list_jobs_page d project_id None limit offset
      | Some t \<Rightarrow> (case job_status_named t of None \<Rightarrow> []
          | Some s \<Rightarrow> list_jobs_page d project_id (Some s) limit offset))"

definition api_list_jobs ::
  "'r api \<Rightarrow> int \<Rightarrow> int \<Rightarrow> string option \<Rightarrow> string option \<Rightarrow> principal \<Rightarrow> ('r world, job_record page_response) op" where
  "api_list_jobs api limit offset status project_id p =
     bind (lift_result (valid_page limit offset)) (\<lambda>_.
     bind (project_for_request api p project_id) (\<lambda>scoped_project.
     bind (gets (\<lambda>w. jobs_with_status (w_db w) scoped_project status limit offset)) (\<lambda>items.
     return (page_of limit offset items))))"

definition found_job :: "string \<Rightarrow> ('r world, job_record) op" where
  "found_job job_id = bind (gets (\<lambda>w. get_job (w_db w) job_id)) (\<lambda>found.
     case found of None \<Rightarrow> throw (http_error 404 (''job not found: '' @ job_id)) | Some job \<Rightarrow> return job)"

definition api_get_job :: "'r api \<Rightarrow> string \<Rightarrow> principal \<Rightarrow> ('r world, job_record) op" where
  "api_get_job api job_id p =
     bind (found_job job_id) (\<lambda>job. bind (project_for_request api p (j_project_id job)) (\<lambda>_. return job))"

definition api_cancel_job :: "'r api \<Rightarrow> string \<Rightarrow> principal \<Rightarrow> ('r world, job_record) op" where
  "api_cancel_job api job_id p =
     bind (found_job job_id) (\<lambda>before.
     bind (project_for_request api p (j_project_id before)) (\<lambda>_.
     if j_status before \<in> TERMINAL_JOB_STATUSES
     then throw (http_error 409 (''job is terminal: '' @ job_status_text (j_status before)))
     else
     bind (on_store (try_cancel_job job_id)) (\<lambda>(result, changed).
     case result of
       None \<Rightarrow> throw (http_error 404 (''job not found: '' @ job_id))
     | Some cancelled \<Rightarrow>
         if \<not> changed then throw (http_error 409 (''job is terminal: '' @ job_status_text (j_status cancelled)))
         else
         bind (emit (ap_event_bus api) ''job.cancelled'' SrcApi (no_args\<lparr>a_project_id := j_project_id cancelled,
                 a_job_id := Some (j_id cancelled), a_fanout_id := j_fanout_id cancelled, a_schedule_id := j_schedule_id cancelled,
                 a_payload := Some (JObj [(''kind'', JStr (j_kind cancelled))]), a_after := Some (j_created_at cancelled)\<rparr>)) (\<lambda>_.
         bind (audit ''job.cancelled'' ''success'' (Some p) (j_project_id cancelled) (Some ''job'') (Some (j_id cancelled)) None) (\<lambda>_.
         return cancelled)))))"

record termination_request =
  tq_runtime :: runtime_target
  tq_namespace :: "string option"

definition kill_job_runtime :: "'r api \<Rightarrow> string \<Rightarrow> termination_request \<Rightarrow> principal \<Rightarrow> ('r world, runtime_termination) op" where
  "kill_job_runtime api job_id request = admin_only (\<lambda>p.
     bind (found_job job_id) (\<lambda>job.
     bind (project_for_request api p (j_project_id job)) (\<lambda>_.
     bind (terminate_runtime (ap_termination api) (Some job_id) None (tq_runtime request) (tq_namespace request)) (\<lambda>(killed, errors).
     bind (if j_status job \<notin> TERMINAL_JOB_STATUSES
           then bind (on_store (cancel_job job_id)) (\<lambda>r. return (r \<noteq> None)) else return False) (\<lambda>cancelled.
     record_runtime_termination api p (j_project_id job)
       \<lparr>rt_target_type = ''job'', rt_target_id = job_id, rt_runtime = tq_runtime request, rt_killed = killed,
        rt_errors = errors, rt_cancelled = cancelled\<rparr>)))))"

definition kill_run_runtime :: "'r api \<Rightarrow> string \<Rightarrow> termination_request \<Rightarrow> principal \<Rightarrow> ('r world, runtime_termination) op" where
  "kill_run_runtime api run_id request = admin_only (\<lambda>p.
     bind (on_store (\<lambda>d. (get_run d run_id, d))) (\<lambda>found.
     case found of
       None \<Rightarrow> throw (http_error 404 (''run not found: '' @ run_id))
     | Some run \<Rightarrow>
     bind (gets (\<lambda>w. project_id_for_run (w_db w) run)) (\<lambda>project_id.
     bind (project_for_request api p project_id) (\<lambda>_.
     bind (terminate_runtime (ap_termination api) None (Some run_id) (tq_runtime request) (tq_namespace request)) (\<lambda>(killed, errors).
     record_runtime_termination api p project_id
       \<lparr>rt_target_type = ''run'', rt_target_id = run_id, rt_runtime = tq_runtime request, rt_killed = killed,
        rt_errors = errors, rt_cancelled = False\<rparr>)))))"

section \<open>Fanouts and retries\<close>

definition create_jobs_fanout :: "'r api \<Rightarrow> fanout_create_request \<Rightarrow> principal \<Rightarrow> ('r world, fanout_detail) op" where
  "create_jobs_fanout api request p =
     bind (project_for_request api p None) (\<lambda>project_id.
     handle
       (bind (create_fanout (sh_coercions (ap_host api)) (ap_registry api) request (pr_user_id p) project_id (ap_policies api)) (\<lambda>detail.
        bind (emit (ap_event_bus api) ''fanout.created'' SrcApi (no_args\<lparr>a_project_id := project_id,
                a_fanout_id := Some (f_id (fd_fanout detail)),
                a_payload := Some (JObj [(''jobs'', JArr (map (\<lambda>j. JStr (j_id j)) (fd_jobs detail))),
                  (''count'', JInt (int (length (fd_jobs detail))))])\<rparr>)) (\<lambda>_.
        bind (for_each (\<lambda>job. emit (ap_event_bus api) ''job.queued'' SrcApi (no_args\<lparr>a_project_id := project_id,
                a_job_id := Some (j_id job), a_fanout_id := j_fanout_id job,
                a_payload := Some (JObj [(''kind'', JStr (j_kind job)), (''created_by'', JStr (j_created_by job))]),
                a_after := Some (j_created_at job)\<rparr>)) (fd_jobs detail)) (\<lambda>_.
        bind (audit ''fanout.created'' ''success'' (Some p) project_id (Some ''fanout'') (Some (f_id (fd_fanout detail))) None) (\<lambda>_.
        return detail)))))
       (\<lambda>e. if error_class e = RegistryError then throw (http_error 404 (error_message e)) else throw e))"

definition sees_everything :: "principal \<Rightarrow> bool" where
  "sees_everything p \<longleftrightarrow> is_admin p \<and> pr_project_id p = None"

definition get_fanouts :: "'r api \<Rightarrow> principal \<Rightarrow> ('r world, fanout_detail list) op" where
  "get_fanouts api p =
     bind (on_store (\<lambda>d. (list_fanout_details d, d))) (\<lambda>details.
     return (if sees_everything p then details
             else filter (\<lambda>detail. f_project_id (fd_fanout detail) = pr_project_id p) details))"

definition api_get_fanout :: "'r api \<Rightarrow> string \<Rightarrow> principal \<Rightarrow> ('r world, fanout_detail) op" where
  "api_get_fanout api fanout_id p =
     handle (bind (on_store (\<lambda>d. (fanout_detail_of d fanout_id, d))) (\<lambda>detail.
             bind (project_for_request api p (f_project_id (fd_fanout detail))) (\<lambda>_. return detail)))
       (\<lambda>e. if error_class e = KeyError then throw (http_error 404 (''fanout not found: '' @ fanout_id)) else throw e)"

definition retry_api_job :: "'r api \<Rightarrow> string \<Rightarrow> retry_create_request \<Rightarrow> principal \<Rightarrow> ('r world, job_record) op" where
  "retry_api_job api job_id request p =
     bind (gets (\<lambda>w. get_job (w_db w) job_id)) (\<lambda>found.
     handle
       (case found of
          None \<Rightarrow> throw (Raise KeyError job_id)
        | Some source \<Rightarrow>
            bind (project_for_request api p (j_project_id source)) (\<lambda>_.
            bind (retry_job (sh_coercions (ap_host api)) job_id request (pr_user_id p) (ap_policies api)) (\<lambda>retry.
            bind (emit (ap_event_bus api) ''job.retry_queued'' SrcApi (no_args\<lparr>a_project_id := j_project_id retry,
                    a_job_id := Some (j_id retry), a_fanout_id := j_fanout_id retry,
                    a_payload := Some (JObj [(''kind'', JStr (j_kind retry)), (''source_job_id'', JStr job_id),
                      (''reason'', json_opt JStr (rq_reason request))]), a_after := Some (j_created_at retry)\<rparr>)) (\<lambda>_.
            bind (audit ''job.retry_queued'' ''success'' (Some p) (j_project_id retry) (Some ''job'') (Some (j_id retry)) None) (\<lambda>_.
            return retry)))))
       (\<lambda>e. if error_class e = KeyError then throw (http_error 404 (''job not found: '' @ job_id))
            else if error_class e = ResourcePolicyError
            then bind (record_policy_rejection api p (case found of None \<Rightarrow> None | Some source \<Rightarrow> j_project_id source)
                         (case found of None \<Rightarrow> job_id | Some source \<Rightarrow> j_kind source) (error_message e))
                   (\<lambda>_. throw (http_error 422 (error_message e)))
            else if is_value_error e then throw (http_error 409 (error_message e)) else throw e))"

section \<open>Schedules\<close>

definition create_schedule :: "'r api \<Rightarrow> schedule_create_request \<Rightarrow> principal \<Rightarrow> ('r world, schedule_record) op" where
  "create_schedule api request p =
     bind (project_for_request api p (sq_project_id request)) (\<lambda>project_id.
     bind (schedule_from_request api request) (\<lambda>schedule0.
     let schedule = schedule0\<lparr>sc_project_id := project_id\<rparr> in
     bind (checked_policy api p project_id (sc_kind schedule) (sc_timeout_seconds schedule) (sc_max_retries schedule)) (\<lambda>_.
     bind (on_store (save_schedule schedule)) (\<lambda>_.
     bind (emit (ap_event_bus api) ''schedule.created'' SrcApi (no_args\<lparr>a_project_id := project_id,
             a_schedule_id := Some (sc_id schedule), a_payload := Some (JObj [(''kind'', JStr (sc_kind schedule)),
               (''next_run_at'', JStr (sh_isoformat (ap_host api) (sc_next_run_at schedule)))])\<rparr>)) (\<lambda>_.
     bind (audit ''schedule.created'' ''success'' (Some p) project_id (Some ''schedule'') (Some (sc_id schedule)) None) (\<lambda>_.
     return schedule))))))"

definition api_list_schedules :: "'r api \<Rightarrow> principal \<Rightarrow> ('r world, schedule_record list) op" where
  "api_list_schedules api p = gets (\<lambda>w. let schedules = list_schedules (w_db w) in
     if sees_everything p then schedules else filter (\<lambda>s. sc_project_id s = pr_project_id p) schedules)"

text \<open>A patch: the members the request sets.\<close>

record schedule_patch =
  sp_cron :: "string option"
  sp_input :: "json option"
  sp_timezone :: "string option"
  sp_enabled :: "bool option"
  sp_priority :: "int option"
  sp_max_retries :: "int option"
  sp_timeout_seconds :: "int option option"

definition patched_schedule :: "schedule_record \<Rightarrow> schedule_patch \<Rightarrow> schedule_record" where
  "patched_schedule s u = s\<lparr>sc_cron := or_given_val (sp_cron u) (sc_cron s), sc_input := or_given_val (sp_input u) (sc_input s),
     sc_timezone := or_given_val (sp_timezone u) (sc_timezone s), sc_enabled := or_given_val (sp_enabled u) (sc_enabled s),
     sc_priority := or_given_val (sp_priority u) (sc_priority s), sc_max_retries := or_given_val (sp_max_retries u) (sc_max_retries s),
     sc_timeout_seconds := or_given_val (sp_timeout_seconds u) (sc_timeout_seconds s)\<rparr>"

definition retimed :: "'r api \<Rightarrow> schedule_patch \<Rightarrow> schedule_record \<Rightarrow> ('r world, schedule_record) op" where
  "retimed api u patched =
     (if sp_cron u \<noteq> None \<or> sp_timezone u \<noteq> None \<or> sp_enabled u \<noteq> None
      then bind utc_now (\<lambda>now. bind (lift_result (next_run_after (ap_host api) patched now)) (\<lambda>t.
             return (patched\<lparr>sc_next_run_at := t\<rparr>)))
      else return patched)"

definition patch_schedule :: "'r api \<Rightarrow> string \<Rightarrow> schedule_patch \<Rightarrow> principal \<Rightarrow> ('r world, schedule_record) op" where
  "patch_schedule api schedule_id u p =
     bind (gets (\<lambda>w. get_schedule (w_db w) schedule_id)) (\<lambda>found.
     case found of
       None \<Rightarrow> throw (http_error 404 (''schedule not found: '' @ schedule_id))
     | Some schedule \<Rightarrow>
     bind (project_for_request api p (sc_project_id schedule)) (\<lambda>_.
     bind (lift_result (validate_cron api (or_given_val (sp_cron u) (sc_cron schedule)))) (\<lambda>_.
     bind (lift_result (validate_timezone api (or_given_val (sp_timezone u) (sc_timezone schedule)))) (\<lambda>_.
     bind (retimed api u (patched_schedule schedule u)) (\<lambda>patched.
     bind (on_store (update_schedule patched)) (\<lambda>_.
     bind (emit (ap_event_bus api) ''schedule.updated'' SrcApi (no_args\<lparr>a_project_id := sc_project_id patched,
             a_schedule_id := Some (sc_id patched), a_payload := Some (JObj [(''kind'', JStr (sc_kind patched)),
               (''enabled'', JBool (sc_enabled patched))])\<rparr>)) (\<lambda>_.
     return patched)))))))"

end
