(* ===== verification/Api_Runs.thy ===== *)
theory Api_Runs
  imports Api_Jobs Run_Events
begin

text \<open>
  The routes of events, runs, artifacts and heartbeats of \<^verbatim>\<open>src/src/goblin_king/api.py\<close> and the artifact
  cleanup of \<^verbatim>\<open>api_artifacts.py\<close>. A live stream is the list of messages it sends and the code it is
  closed with, for a given number of polls (the client disconnects after them). The theorems: a
  stream sends every sequence once and in order, and a cleanup under a byte limit takes the oldest
  files, no more than it has to, and leaves no more than the limit.
\<close>

section \<open>Events\<close>

definition api_list_events ::
  "'r api \<Rightarrow> event_query \<Rightarrow> principal \<Rightarrow> ('r world, event_record page_response) op" where
  "api_list_events api q p =
     bind (lift_result (valid_page (q_limit q) (q_offset q))) (\<lambda>_.
     bind (project_for_request api p (q_project_id q)) (\<lambda>scoped_project.
     bind (gets (\<lambda>w. list_events (w_db w) (q\<lparr>q_project_id := scoped_project\<rparr>))) (\<lambda>items.
     return (page_of (q_limit q) (q_offset q) items))))"

record run_event_record =
  er_event :: run_event
  er_job_id :: string
  er_project_id :: "string option"

definition run_event_record_of :: "run_record \<Rightarrow> run_event \<Rightarrow> ('r world, run_event_record) op" where
  "run_event_record_of run event = gets (\<lambda>w.
     \<lparr>er_event = event, er_job_id = r_job_id run, er_project_id = project_id_for_run (w_db w) run\<rparr>)"

definition read_entries :: "'r api \<Rightarrow> string \<Rightarrow> int \<Rightarrow> int \<Rightarrow> ('r world, (string \<times> run_event) list) op" where
  "read_entries api run_id after_sequence limit =
     on_client (read_run_event_entries (ap_codec api) (ap_event_redis api) (ap_redis_url api) run_id after_sequence limit)"

record run_event_page =
  ep_items :: "run_event_record list"
  ep_next_sequence :: int

definition api_list_run_events :: "'r api \<Rightarrow> string \<Rightarrow> int \<Rightarrow> int \<Rightarrow> principal \<Rightarrow> ('r world, run_event_page) op" where
  "api_list_run_events api run_id after_sequence limit p =
     (if \<not> (0 \<le> after_sequence \<and> 1 \<le> limit \<and> limit \<le> MAX_RUN_EVENT_READ_LIMIT) then throw (http_error 422 ''query'')
      else
      bind (run_for_principal api run_id p) (\<lambda>run.
      bind (handle (read_entries api (r_id run) after_sequence limit) (\<lambda>e.
              if error_class e = RunEventTransportError then throw (http_error 503 (error_message e)) else throw e)) (\<lambda>entries.
      bind (for_each (\<lambda>entry. run_event_record_of run (snd entry)) entries) (\<lambda>items.
      return \<lparr>ep_items = items,
              ep_next_sequence = (if items = [] then after_sequence else re_sequence (er_event (last items)))\<rparr>))))"

text \<open>
  The websocket \<^verbatim>\<open>/ws/runs/{run_id}/events\<close>. What was sent, in order, and the closing code when the
  server closes; a refused handshake is closed with 1008 and nothing is sent.
\<close>

record stream_outcome =
  so_sent :: "run_event_record list"
  so_closed :: "int option"

fun stream_polls :: "'r api \<Rightarrow> run_record \<Rightarrow> nat \<Rightarrow> int \<Rightarrow> ('r world, stream_outcome) op" where
  "stream_polls api run 0 last_sequence = return \<lparr>so_sent = [], so_closed = None\<rparr>"
| "stream_polls api run (Suc polls) last_sequence =
     bind (catching (\<lambda>e. error_class e = RunEventTransportError)
            (read_entries api (r_id run) last_sequence MAX_RUN_EVENT_READ_LIMIT)) (\<lambda>entries.
     case entries of
       Inl _ \<Rightarrow> return \<lparr>so_sent = [], so_closed = Some 1011\<rparr>
     | Inr es \<Rightarrow>
         bind (for_each (\<lambda>entry. run_event_record_of run (snd entry)) es) (\<lambda>sent.
         bind (stream_polls api run polls (if sent = [] then last_sequence else re_sequence (er_event (last sent)))) (\<lambda>rest.
         return (rest\<lparr>so_sent := sent @ so_sent rest\<rparr>))))"

text \<open>\<^verbatim>\<open>int(...)\<close> of the query parameter is \<^verbatim>\<open>None\<close> where it raises.\<close>

definition closes_handshake :: "error \<Rightarrow> bool" where
  "closes_handshake e \<longleftrightarrow> is_value_error e \<or> (case error_class e of AuthError _ \<Rightarrow> True | HTTPException _ \<Rightarrow> True | _ \<Rightarrow> False)"

definition open_stream :: "'r api \<Rightarrow> string \<Rightarrow> string \<Rightarrow> int option \<Rightarrow> ('r session, run_record \<times> int) op" where
  "open_stream api token run_id requested =
     bind (authenticate_token (ap_auth api) token (ap_bootstrap_token api) (ap_oidc api) (ap_jupyterhub api)) (\<lambda>p.
     bind (in_world (run_for_principal api run_id p)) (\<lambda>run.
     case requested of
       None \<Rightarrow> throw (Raise ValueError ''invalid literal for int() with base 10'')
     | Some after_sequence \<Rightarrow>
         if after_sequence < 0 then throw (Raise ValueError ''after_sequence must be non-negative'')
         else return (run, after_sequence)))"

definition stream_run_events ::
  "'r api \<Rightarrow> string option \<Rightarrow> string \<Rightarrow> int option \<Rightarrow> nat \<Rightarrow> ('r session, stream_outcome) op" where
  "stream_run_events api credentials run_id requested polls =
     (case credentials of
        None \<Rightarrow> return \<lparr>so_sent = [], so_closed = Some 1008\<rparr>
      | Some token \<Rightarrow>
          bind (catching closes_handshake (open_stream api token run_id requested)) (\<lambda>opened.
          case opened of
            Inl _ \<Rightarrow> return \<lparr>so_sent = [], so_closed = Some 1008\<rparr>
          | Inr (run, after_sequence) \<Rightarrow> in_world (stream_polls api run polls after_sequence)))"

section \<open>Heartbeats and runs\<close>

definition api_list_heartbeats :: "principal \<Rightarrow> ('r world, heartbeat_record list) op" where
  "api_list_heartbeats _ = gets (\<lambda>w. list_heartbeats (w_db w))"

definition api_get_heartbeat :: "string \<Rightarrow> principal \<Rightarrow> ('r world, heartbeat_record) op" where
  "api_get_heartbeat owner_id _ = bind (gets (\<lambda>w. get_heartbeat (w_db w) owner_id)) (\<lambda>found.
     case found of None \<Rightarrow> throw (http_error 404 (''heartbeat not found: '' @ owner_id)) | Some h \<Rightarrow> return h)"

definition run_status_named :: "string \<Rightarrow> run_status option" where
  "run_status_named s = List.find (\<lambda>x. run_status_text x = s) [RunRunning, RunCompleted, RunFailed, RunTimedOut]"

definition runs_with_status ::
  "string option \<Rightarrow> string option \<Rightarrow> string option \<Rightarrow> int \<Rightarrow> int \<Rightarrow> db \<Rightarrow> run_record list result" where
  "runs_with_status project_id status kind limit offset d =
     (case status of
        None \<Rightarrow> list_runs_page d project_id None kind limit offset
      | Some t \<Rightarrow> (case run_status_named t of None \<Rightarrow> Inr []
          | Some s \<Rightarrow> list_runs_page d project_id (Some s) kind limit offset))"

definition api_list_runs ::
  "'r api \<Rightarrow> int \<Rightarrow> int \<Rightarrow> string option \<Rightarrow> string option \<Rightarrow> string option \<Rightarrow> principal \<Rightarrow>
   ('r world, run_record page_response) op" where
  "api_list_runs api limit offset status kind project_id p =
     bind (lift_result (valid_page limit offset)) (\<lambda>_.
     bind (project_for_request api p project_id) (\<lambda>scoped_project.
     bind (on_store (\<lambda>d. (runs_with_status scoped_project status kind limit offset d, d))) (\<lambda>items.
     return (page_of limit offset items))))"

definition api_list_run_artifacts :: "'r api \<Rightarrow> string \<Rightarrow> principal \<Rightarrow> ('r world, (artifact_record \<times> string) list) op" where
  "api_list_run_artifacts api run_id p =
     bind (run_for_principal api run_id p) (\<lambda>_.
     gets (\<lambda>w. map (\<lambda>a. (a, ''/runs/'' @ run_id @ ''/artifacts/'' @ art_name a)) (list_run_artifacts (w_db w) run_id)))"

record file_response =
  fr_path :: path
  fr_media_type :: "string option"
  fr_filename :: string

definition download_artifact :: "'r api \<Rightarrow> string \<Rightarrow> string \<Rightarrow> principal \<Rightarrow> ('r world, file_response) op" where
  "download_artifact api run_id artifact_name p =
     bind (run_for_principal api run_id p) (\<lambda>run.
     bind (gets (\<lambda>w. List.find (\<lambda>a. art_name a = artifact_name) (list_run_artifacts (w_db w) run_id))) (\<lambda>found.
     case found of
       None \<Rightarrow> throw (http_error 404 (''artifact not found: '' @ artifact_name))
     | Some artifact \<Rightarrow>
         bind (lift_result (artifact_file_path api artifact
                 (Some (path_join (ap_artifact_root api) (path_of (r_job_id run)))))) (\<lambda>path.
         case path of
           None \<Rightarrow> throw (http_error 404 (''artifact file not found: '' @ artifact_name))
         | Some file \<Rightarrow>
             if \<not> ap_is_file api file then throw (http_error 404 (''artifact file not found: '' @ artifact_name))
             else return \<lparr>fr_path = file, fr_media_type = art_media_type artifact, fr_filename = art_name artifact\<rparr>)))"

section \<open>Artifact cleanup\<close>

record artifact_cleanup_request =
  aq_dry_run :: bool
  aq_project_id :: "string option"
  aq_max_age_seconds :: "int option"
  aq_max_total_bytes :: "int option"

text \<open>\<^verbatim>\<open>sorted(set(paths), key=...)\<close>; files of one time are in the order of the listing.\<close>

definition project_artifact_paths :: "'r api \<Rightarrow> string option \<Rightarrow> db \<Rightarrow> path list result" where
  "project_artifact_paths api project_id d =
     bind_result (traverse (\<lambda>artifact. artifact_file_path api artifact None) (list_artifacts_for_project d project_id)) (\<lambda>found.
     Inr (sort_key (ap_mtime api) (remdups (filter (ap_is_file api) (List.map_filter id found)))))"

definition total_bytes :: "'r api \<Rightarrow> path list \<Rightarrow> int" where
  "total_bytes api paths = sum_list (map (ap_size api) paths)"

text \<open>The loop over the bytes: it takes files until the rest is within the limit.\<close>

fun take_over_limit :: "'r api \<Rightarrow> int \<Rightarrow> int \<Rightarrow> path list \<Rightarrow> path list" where
  "take_over_limit api limit remaining [] = []"
| "take_over_limit api limit remaining (p # ps) =
     (if remaining \<le> limit then [] else p # take_over_limit api limit (remaining - ap_size api p) ps)"

definition select_artifact_cleanup_candidates ::
  "'r api \<Rightarrow> rat \<Rightarrow> path list \<Rightarrow> int option \<Rightarrow> int option \<Rightarrow> path list" where
  "select_artifact_cleanup_candidates api now paths max_age_seconds max_total_bytes =
     (let aged = (case max_age_seconds of None \<Rightarrow> []
                    | Some age \<Rightarrow> filter (\<lambda>p. of_int age \<le> now - ap_mtime api p) paths);
          large = (case max_total_bytes of None \<Rightarrow> []
                    | Some limit \<Rightarrow> take_over_limit api limit (total_bytes api paths) paths) in
      sort_key (ap_mtime api) (filter (\<lambda>p. p \<in> set aged \<union> set large) paths))"

record artifact_cleanup_result =
  ac_dry_run :: bool
  ac_bytes_selected :: int
  ac_files :: "path list"

definition cleanup_artifact_files ::
  "'r api \<Rightarrow> rat \<Rightarrow> artifact_cleanup_request \<Rightarrow> string option \<Rightarrow> ('r world, artifact_cleanup_result) op" where
  "cleanup_artifact_files api now request project_id =
     bind (on_store (\<lambda>d. (project_artifact_paths api project_id d, d))) (\<lambda>candidates.
     let selected = select_artifact_cleanup_candidates api now candidates (aq_max_age_seconds request) (aq_max_total_bytes request) in
     bind (if aq_dry_run request then return [] else for_each (ap_unlink api) selected) (\<lambda>_.
     return \<lparr>ac_dry_run = aq_dry_run request, ac_bytes_selected = total_bytes api selected, ac_files = selected\<rparr>))"

definition cleanup_result_json :: "artifact_cleanup_result \<Rightarrow> (path \<Rightarrow> string) \<Rightarrow> json" where
  "cleanup_result_json r shown = JObj [(''dry_run'', JBool (ac_dry_run r)), (''deleted'', JBool (\<not> ac_dry_run r)),
     (''files_selected'', JInt (int (length (ac_files r)))), (''bytes_selected'', JInt (ac_bytes_selected r)),
     (''files'', JArr (map (JStr \<circ> shown) (ac_files r)))]"

section \<open>A stream sends each event once\<close>

abbreviation record_sequence :: "run_event_record \<Rightarrow> int" where
  "record_sequence r \<equiv> re_sequence (er_event r)"

lemma run_event_records:
  "for_each (\<lambda>entry. run_event_record_of run (snd entry)) entries w =
   (Inr (map (\<lambda>entry. \<lparr>er_event = snd entry, er_job_id = r_job_id run, er_project_id = project_id_for_run (w_db w) run\<rparr>) entries), w)"
  by (induction entries) (simp_all add: return_eq run_event_record_of_def bind_def gets_def)

lemma sorted_lt_last: "sorted_wrt (<) (xs :: int list) \<Longrightarrow> x \<in> set xs \<Longrightarrow> x \<le> last xs"
  by (induction xs) (auto simp: less_imp_le)

lemma stream_polls_sent:
  "stream_polls api run polls l w = (Inr out, w') \<Longrightarrow>
   sorted_wrt (<) (map record_sequence (so_sent out)) \<and>
   (\<forall>r \<in> set (so_sent out). l < record_sequence r \<and> re_run_id (er_event r) = r_id run \<and> er_job_id r = r_job_id run)"
proof (induction polls arbitrary: l w out)
  case (Suc polls)
  obtain x w1 where read: "read_entries api (r_id run) l MAX_RUN_EVENT_READ_LIMIT w = (x, w1)" by fastforce
  show ?case
  proof (cases x)
    case (Inl e)
    then show ?thesis using Suc.prems read
      by (auto simp: bind_def catching_def return_def split: if_splits)
  next
    case (Inr es)
    let ?sent = "map (\<lambda>entry. \<lparr>er_event = snd entry, er_job_id = r_job_id run, er_project_id = project_id_for_run (w_db w1) run\<rparr>) es"
    let ?l = "if es = [] then l else item_sequence (last es)"
    obtain rest where rest: "stream_polls api run polls ?l w1 = (Inr rest, w')" and out: "so_sent out = ?sent @ so_sent rest"
      using Suc.prems read Inr
      by (auto simp: catching_def run_event_records return_def last_map bind_def split: prod.splits sum.splits if_splits)
    have es: "sorted_wrt (<) (map item_sequence es)"
      "\<forall>item \<in> set es. l < item_sequence item \<and> re_run_id (snd item) = r_id run"
      using read Inr read_run_events_page [of "ap_codec api" "ap_event_redis api" "ap_redis_url api" "r_id run" l
        MAX_RUN_EVENT_READ_LIMIT "w_redis w" es]
      by (auto simp: read_entries_def on_client_def split: prod.splits)
    have upto: "item_sequence item \<le> ?l" if "item \<in> set es" for item
      using sorted_lt_last [OF es(1), of "item_sequence item"] that by (auto simp: last_map)
    have "l \<le> ?l" using es(2) by (auto simp: less_imp_le)
    then show ?thesis
      using Suc.IH [OF rest] es upto unfolding out
      by (force simp: sorted_wrt_append comp_def)
  qed
qed (simp add: return_eq)

section \<open>A cleanup takes the oldest files\<close>

lemma take_over_limit_take:
  "\<exists>m \<le> length paths. take_over_limit api limit (total_bytes api paths) paths = take m paths \<and>
     (0 \<le> limit \<longrightarrow> total_bytes api (drop m paths) \<le> limit) \<and>
     (0 < m \<longrightarrow> limit < total_bytes api (drop (m - 1) paths))"
proof (induction paths)
  case (Cons p ps)
  then obtain m where m: "m \<le> length ps" "take_over_limit api limit (total_bytes api ps) ps = take m ps"
    "0 \<le> limit \<longrightarrow> total_bytes api (drop m ps) \<le> limit" "0 < m \<longrightarrow> limit < total_bytes api (drop (m - 1) ps)" by blast
  show ?case
  proof (cases "total_bytes api (p # ps) \<le> limit")
    case True
    then show ?thesis by (intro exI [of _ 0]) simp
  next
    case False
    have "limit < total_bytes api (drop (Suc m - 1) (p # ps))" using False m(4) by (cases m) auto
    then show ?thesis using m(1-3) False by (intro exI [of _ "Suc m"]) (simp add: total_bytes_def)
  qed
qed (simp add: total_bytes_def)

lemma total_bytes_drop: "(\<And>p. 0 \<le> ap_size api p) \<Longrightarrow> total_bytes api (drop n (drop m paths)) \<le> total_bytes api (drop m paths)"
proof (induction n)
  case (Suc n)
  have "total_bytes api (drop 1 xs) \<le> total_bytes api xs" for xs
    using Suc.prems by (cases xs) (simp_all add: total_bytes_def)
  from this [of "drop n (drop m paths)"] show ?case using Suc.IH Suc.prems by (simp add: add.commute add.left_commute)
qed simp

lemma filter_aged_take:
  "sorted (map f paths) \<Longrightarrow> filter (\<lambda>p. f p \<le> (t :: rat)) paths = take (length (filter (\<lambda>p. f p \<le> t) paths)) paths"
proof (induction paths)
  case (Cons p ps)
  show ?case
  proof (cases "f p \<le> t")
    case False
    have "t < f q" if "q \<in> set ps" for q using Cons.prems False that by force
    then have "filter (\<lambda>p. f p \<le> t) ps = []" by (simp add: filter_empty_conv linorder_not_le)
    then show ?thesis using False by simp
  qed (use Cons in simp)
qed simp

lemma filter_prefix_union:
  "distinct paths \<Longrightarrow> filter (\<lambda>p. p \<in> set (take a paths) \<union> set (take b paths)) paths = take (max a b) paths"
proof (induction paths arbitrary: a b)
  case (Cons p ps)
  have split: "filter (\<lambda>x. x \<in> set (take a (p # ps)) \<union> set (take b (p # ps))) ps =
    filter (\<lambda>x. x \<in> set (take (a - 1) ps) \<union> set (take (b - 1) ps)) ps"
    by (rule filter_cong) (use Cons.prems in \<open>auto simp: take_Cons'\<close>)
  show ?case using Cons.IH [of "a - 1" "b - 1"] Cons.prems split
    by (cases a; cases b) (auto simp: take_Cons')
qed simp

text \<open>
  A cleanup selects a prefix of the files sorted by time: every file older than the age limit is in
  it, what is left is within the byte limit, and each selected file is too old or was needed to get
  within the limit.
\<close>

theorem cleanup_takes_oldest:
  assumes "distinct paths" and "sorted (map (ap_mtime api) paths)" and "\<And>limit. max_bytes = Some limit \<Longrightarrow> 0 \<le> limit"
    and "\<And>p. 0 \<le> ap_size api p"
  shows "\<exists>k \<le> length paths. select_artifact_cleanup_candidates api now paths max_age max_bytes = take k paths \<and>
    (case max_bytes of None \<Rightarrow> True | Some limit \<Rightarrow> total_bytes api (drop k paths) \<le> limit) \<and>
    (case max_age of None \<Rightarrow> True | Some age \<Rightarrow> \<forall>p \<in> set (drop k paths). now - ap_mtime api p < of_int age) \<and>
    (0 < k \<longrightarrow> (\<exists>age. max_age = Some age \<and> of_int age \<le> now - ap_mtime api (paths ! (k - 1))) \<or>
                (\<exists>limit. max_bytes = Some limit \<and> limit < total_bytes api (drop (k - 1) paths)))"
proof -
  let ?f = "ap_mtime api"
  obtain a where a: "(case max_age of None \<Rightarrow> [] | Some age \<Rightarrow> filter (\<lambda>p. of_int age \<le> now - ?f p) paths) = take a paths"
    and a_le: "a \<le> length paths" and a_max: "max_age = None \<Longrightarrow> a = 0"
  proof (cases max_age)
    case (Some age)
    have "filter (\<lambda>p. of_int age \<le> now - ?f p) paths = filter (\<lambda>p. ?f p \<le> now - of_int age) paths" by (rule filter_cong) auto
    then show ?thesis using that Some filter_aged_take [OF assms(2), of "now - of_int age"] by simp
  qed (use that in simp)
  obtain b where b: "(case max_bytes of None \<Rightarrow> [] | Some limit \<Rightarrow> take_over_limit api limit (total_bytes api paths) paths) = take b paths"
    and b_le: "b \<le> length paths" and left: "\<And>limit. max_bytes = Some limit \<Longrightarrow> total_bytes api (drop b paths) \<le> limit"
    and needed: "0 < b \<Longrightarrow> \<exists>limit. max_bytes = Some limit \<and> limit < total_bytes api (drop (b - 1) paths)"
  proof (cases max_bytes)
    case (Some limit)
    then show ?thesis using that take_over_limit_take [of paths api limit] assms(3) [of limit] by auto
  next
    case None
    then show ?thesis using that [of 0] by simp
  qed
  let ?k = "max a b"
  have "select_artifact_cleanup_candidates api now paths max_age max_bytes = take ?k paths"
    using assms(2) unfolding select_artifact_cleanup_candidates_def Let_def a b filter_prefix_union [OF assms(1)]
    by (simp add: sort_key_id_if_sorted sorted_wrt_take take_map [symmetric])
  moreover have "total_bytes api (drop ?k paths) \<le> total_bytes api (drop b paths)"
    using total_bytes_drop [of api "?k - b" b paths] assms(4) by simp
  moreover have "now - ?f p < of_int age" if "max_age = Some age" "p \<in> set (drop ?k paths)" for p age
  proof (rule ccontr)
    assume "\<not> now - ?f p < of_int age"
    then have "p \<in> set (filter (\<lambda>p. of_int age \<le> now - ?f p) paths)" using that(2) by (auto dest: in_set_dropD)
    then have "p \<in> set (take a paths)" using a that(1) by (simp del: set_filter)
    then show False using that(2) assms(1) set_take_disj_set_drop_if_distinct [of paths a ?k] by auto
  qed
  moreover have "\<exists>age. max_age = Some age \<and> of_int age \<le> now - ?f (paths ! (?k - 1))" if "0 < ?k" "b < a"
  proof -
    have "paths ! (a - 1) \<in> set (take a paths)" using that a_le by (auto simp: in_set_conv_nth intro!: exI [of _ "a - 1"])
    then have mem: "paths ! (?k - 1) \<in> set (take a paths)" using that by (simp add: max_def)
    show ?thesis using mem a a_max that by (cases max_age) (auto simp flip: a)
  qed
  ultimately show ?thesis
    using a_le b_le left needed by (intro exI [of _ ?k]) (auto split: option.splits simp: max_def)
qed

theorem cleanup_takes_oldest_witness:
  "\<exists>k \<le> 3. select_artifact_cleanup_candidates demo_api 5 [path_of ''/a'', path_of ''/b'', path_of ''/c''] None (Some 15) =
     take k [path_of ''/a'', path_of ''/b'', path_of ''/c''] \<and>
     total_bytes demo_api (drop k [path_of ''/a'', path_of ''/b'', path_of ''/c'']) \<le> 15"
proof -
  define paths where "paths = [path_of ''/a'', path_of ''/b'', path_of ''/c'']"
  have "distinct [path_of ''/a'', path_of ''/b'', path_of ''/c'']" by code_simp
  then have "distinct paths" "length paths = 3" "sorted (map (ap_mtime demo_api) paths)"
    unfolding paths_def by (simp_all only: list.size) (simp_all add: list.map)
  then have "\<exists>k \<le> 3. select_artifact_cleanup_candidates demo_api 5 paths None (Some 15) = take k paths \<and>
      total_bytes demo_api (drop k paths) \<le> 15"
    using cleanup_takes_oldest [of paths demo_api "Some 15" 5 None] by auto
  then show ?thesis unfolding paths_def .
qed

text \<open>
  The live stream of a run sends events of that run only, each sequence once, in increasing order
  and after the position the client asked for, however many polls it makes.
\<close>

theorem stream_sends_each_event_once:
  assumes "stream_run_events api (Some token) run_id (Some after) polls s = (Inr out, s')" and "so_sent out \<noteq> []"
  shows "sorted_wrt (<) (map record_sequence (so_sent out)) \<and>
    (\<exists>p s1 run. authenticate_token (ap_auth api) token (ap_bootstrap_token api) (ap_oidc api) (ap_jupyterhub api) s = (Inr p, s1) \<and>
       get_run (w_db (fst s1)) run_id = Inr (Some run) \<and> in_scope p (project_id_for_run (w_db (fst s1)) run) \<and>
       (\<forall>r \<in> set (so_sent out). after < record_sequence r \<and> re_run_id (er_event r) = r_id run))"
proof -
  obtain run l s2 where opened: "open_stream api token run_id (Some after) s = (Inr (run, l), s2)"
    and sent: "in_world (stream_polls api run polls l) s2 = (Inr out, s')"
    using assms unfolding stream_run_events_def
    by (cases "open_stream api token run_id (Some after) s"; cases "fst (open_stream api token run_id (Some after) s)")
      (auto simp: catching_def bind_def return_eq split: if_splits)
  obtain p s1 where auth: "authenticate_token (ap_auth api) token (ap_bootstrap_token api) (ap_oidc api) (ap_jupyterhub api) s = (Inr p, s1)"
    and run: "in_world (run_for_principal api run_id p) s1 = (Inr run, s2)" and l: "l = after"
    using opened unfolding open_stream_def by (auto simp: bind_Inr_iff return_eq throw_eq split: if_splits)
  have "run_for_principal api run_id p (fst s1) = (Inr run, fst s2)"
    using run by (auto simp: in_world_def split: prod.splits)
  moreover have "stream_polls api run polls after (fst s2) = (Inr out, fst s')"
    using sent l by (auto simp: in_world_def split: prod.splits)
  ultimately show ?thesis using auth stream_polls_sent run_scope_Inr by blast
qed

definition run_of_p1 :: db where
  "run_of_p1 = empty_db\<lparr>runs_table := [(sample_run ''r'' ''a'' 1 RunRunning)\<lparr>r_project_id := Some ''p1''\<rparr>]\<rparr>"

theorem stream_sends_each_event_once_witness:
  "\<exists>out s'. stream_run_events demo_api (Some ''boot'') ''r'' (Some 0) 2 (fresh_world run_of_p1, []) = (Inr out, s') \<and>
     sorted_wrt (<) (map record_sequence (so_sent out)) \<and> length (so_sent out) = 3"
proof -
  let ?run = "stream_run_events demo_api (Some ''boot'') ''r'' (Some 0) 2 (fresh_world run_of_p1, [])"
  have "map_sum (\<lambda>_. ()) (\<lambda>out. length (so_sent out)) (fst ?run) = Inr 3" by code_simp
  then obtain out s' where out: "?run = (Inr out, s')" "length (so_sent out) = 3"
    by (cases ?run; cases "fst ?run") auto
  then have "so_sent out \<noteq> []" by auto
  from stream_sends_each_event_once [OF out(1) this] out show ?thesis by blast
qed

end
