(* ===== verification/Store_Relation.thy ===== *)
theory Store_Relation
  imports Api_Jobs
begin

text \<open>
  What the routes of the API do to the store, up to a relation between the store before and after:
  the contract of such a relation is a locale, and the parts that all routes share (the access
  check, the audit log, the events, the policy check) are shown to respect every relation that
  meets it.
\<close>

definition related :: "(db \<Rightarrow> db \<Rightarrow> bool) \<Rightarrow> ('r world, 'a) op \<Rightarrow> 'r world \<Rightarrow> bool" where
  "related R m w \<longleftrightarrow> R (w_db w) (w_db (snd (m w)))"

locale store_relation =
  fixes R :: "db \<Rightarrow> db \<Rightarrow> bool"
  assumes relation_refl: "R d d"
    and relation_trans: "R a b \<Longrightarrow> R b c \<Longrightarrow> R a c"
    and relation_log: "log_only d d' \<Longrightarrow> R d d'"
    and relation_audit: "R d (snd (save_audit_log l d))"
begin

lemma related_bind:
  assumes "related R m w" and "\<And>a t. m w = (Inr a, t) \<Longrightarrow> related R (f a) t"
  shows "related R (bind m f) w"
  using assms unfolding related_def bind_def by (auto split: prod.splits sum.splits intro: relation_trans)

lemma related_handle:
  assumes "related R m w" and "\<And>e t. m w = (Inl e, t) \<Longrightarrow> related R (h e) t"
  shows "related R (handle m h) w"
  using assms unfolding related_def handle_def by (auto split: prod.splits sum.splits intro: relation_trans)

lemma related_pure [simp]:
  "related R (return a) w" "related R (throw e) w" "related R (lift_result r) w" "related R (gets f) w"
  "related R (on_store (\<lambda>d. (g d, d))) w"
  by (simp_all add: related_def return_eq throw_eq lift_result_eq gets_eq on_store_read relation_refl)

lemma related_sum:
  "(\<And>e. r = Inl e \<Longrightarrow> related R (f e) w) \<Longrightarrow> (\<And>a. r = Inr a \<Longrightarrow> related R (g a) w) \<Longrightarrow>
   related R (case r of Inl e \<Rightarrow> f e | Inr a \<Rightarrow> g a) w"
  by (cases r) simp_all

lemma related_option:
  "(r = None \<Longrightarrow> related R f w) \<Longrightarrow> (\<And>a. r = Some a \<Longrightarrow> related R (g a) w) \<Longrightarrow>
   related R (case r of None \<Rightarrow> f | Some a \<Rightarrow> g a) w"
  by (cases r) simp_all

lemma related_if: "(b \<Longrightarrow> related R f w) \<Longrightarrow> (\<not> b \<Longrightarrow> related R g w) \<Longrightarrow> related R (if b then f else g) w"
  by simp

lemma related_prod: "(\<And>a b. r = (a, b) \<Longrightarrow> related R (f a b) w) \<Longrightarrow> related R (case r of (a, b) \<Rightarrow> f a b) w"
  by (cases r) simp

lemma related_unit: "related R f w \<Longrightarrow> related R (case_unit f u) w"
  by (cases u) (simp only: unit.case)

lemmas related_cases = related_sum related_option related_if related_prod related_unit

lemma related_for_each: "(\<And>x w. x \<in> set xs \<Longrightarrow> related R (f x) w) \<Longrightarrow> related R (for_each f xs) w"
  by (induction xs arbitrary: w) (auto intro!: related_bind)

lemma related_bus_op: "bus_op m \<Longrightarrow> related R m w"
  by (simp add: bus_op_def bus_step_def related_def relation_log)

lemma related_bus [simp]:
  "related R (emit bus t src args) w" "related R utc_now w" "related R uuid4 w" "related R (on_client m) w"
  by (simp_all add: related_bus_op)

lemma related_store: "(\<And>d. R d (snd (m d))) \<Longrightarrow> related R (on_store m) w"
  by (simp add: related_def on_store_def split: prod.split) (metis snd_conv)

lemma related_audit [simp]: "related R (audit a out who x t i d) w"
  by (simp add: audit_def related_bind related_store relation_audit)

lemma related_project_for_request [simp]: "related R (project_for_request api p x) w"
  by (simp add: project_for_request_eq Let_def related_bind)

lemma related_guarded:
  assumes "\<And>y. in_scope p x \<Longrightarrow> may_access p y \<Longrightarrow> related R (f y) w"
  shows "related R (bind (project_for_request api p x) f) w"
  using assms by (auto intro!: related_bind dest!: project_for_request_Inr)

lemma related_not_admin: "\<not> is_admin p \<Longrightarrow> related R (admin_only body p) w"
  by (auto simp: admin_only_def require_admin_principal_def require_admin_def handle_lift auth_error_def bind_throw_Inr
      intro!: related_bind)

lemma related_admin: "(\<And>t. related R (body p) t) \<Longrightarrow> related R (admin_only body p) w"
  by (auto simp: admin_only_def require_admin_principal_def require_admin_def handle_lift auth_error_def
      intro!: related_bind)

lemma related_checked_policy [simp]: "related R (checked_policy api p x kind t r) w"
  by (auto simp: checked_policy_def record_policy_rejection_def Let_def intro!: related_handle related_bind)

lemma related_found_job [simp]: "related R (found_job i) w"
  by (auto simp: found_job_def intro!: related_bind split: option.split)

lemma related_definition [simp]: "related R (job_definition api kind) w"
  by (auto simp: job_definition_def intro!: related_bind split: sum.split option.split)

lemma related_limits [simp]: "related R (job_limits api p x request d nb) w"
  by (auto simp: job_limits_def intro!: related_bind split: option.split)

end

section \<open>Runs of containers\<close>

text \<open>What is outside the program does not write the store: operations of the machine, a cluster, a registry.\<close>

definition silent :: "('r world, 'a) op \<Rightarrow> bool" where
  "silent m \<longleftrightarrow> (\<forall>w. w_db (snd (m w)) = w_db w)"

definition silent_docker :: "'r docker_host \<Rightarrow> bool" where
  "silent_docker h \<longleftrightarrow> (\<forall>d a i c. silent (dh_prepare h d a i c)) \<and> (\<forall>c t. silent (dh_docker h c t)) \<and>
     (\<forall>k. silent (dh_lrange h k) \<and> silent (dh_get h k)) \<and> (\<forall>k n. silent (dh_expire h k n)) \<and> (\<forall>f. silent (dh_result_file h f))"

definition silent_validation :: "'r validation_host \<Rightarrow> bool" where
  "silent_validation h \<longleftrightarrow> silent_docker (vh_docker h) \<and> (\<forall>c. silent (vh_command h c)) \<and>
     (\<forall>f. silent (vh_is_dir h f) \<and> silent (vh_is_file h f) \<and> silent (vh_exists h f) \<and> silent (vh_read_envelope h f)) \<and>
     silent (vh_temp_dir h) \<and> silent (vh_local_now h) \<and> silent (vh_iso_now h)"

locale runtime_relation = store_relation R for R :: "db \<Rightarrow> db \<Rightarrow> bool" +
  assumes relation_heartbeat: "R d (snd (upsert_heartbeat h d))"
begin

lemma related_silent: "silent m \<Longrightarrow> related R m w"
  by (simp add: silent_def related_def relation_refl)

lemma related_catching: "related R m w \<Longrightarrow> related R (catching P m) w"
  by (auto simp: related_def catching_def split: prod.split sum.split)

lemma related_heartbeat_payload: "related R (record_worker_heartbeat_payload bus decode raw) w"
  by (auto simp: record_worker_heartbeat_payload_def relation_heartbeat related_bus_op
      intro!: related_bind related_store split: sum.split)

lemma related_worker_event: "related R (emit_worker_event rt t context i payload) w"
  by (auto simp: emit_worker_event_def intro!: related_bind split: option.split)

lemma related_heartbeats:
  assumes "silent_docker h"
  shows "related R (record_worker_heartbeats h rt context) w"
proof -
  have "related R (catching is_redis_error (bind (dh_lrange h k) (\<lambda>payloads.
      bind (for_each (record_worker_heartbeat_payload bus (dh_decode_heartbeat h)) payloads) (\<lambda>_. dh_expire h k 3600)))) t" for bus k t
    using assms unfolding silent_docker_def
    by (intro related_catching related_bind related_for_each related_heartbeat_payload related_silent) simp_all
  then show ?thesis unfolding record_worker_heartbeats_def
    by (auto simp: Let_def intro!: related_bind split: option.split sum.split unit.split)
qed

lemma related_finish_container:
  assumes "silent_docker h"
  shows "related R (finish_container h rt d context i run_dir policy returncode out err) w"
  using assms unfolding finish_container_def load_result_def
  by (auto simp: silent_docker_def related_silent intro!: related_bind related_catching related_worker_event
      split: option.split sum.split)

lemma related_run_container:
  assumes "silent_docker h"
  shows "related R (run_container h rt d worker context i run_dir t policy command) w"
  using assms unfolding run_container_def emit_container_log_event_def
  by (auto simp: silent_docker_def related_silent intro!: related_bind related_worker_event related_heartbeats [OF assms]
      related_finish_container [OF assms] split: process_outcome.split)

lemma related_docker_run:
  assumes "silent_docker h"
  shows "related R (docker_run h rt d input context t policy) w"
  unfolding docker_run_def Let_def
  by (intro related_bind related_catching related_cases related_run_container assms)
    (use assms in \<open>simp_all add: silent_docker_def related_silent\<close>)

lemma related_prepare_image:
  assumes "silent_validation h"
  shows "related R (prepare_image h rt workers kind build prebuilt) w"
  unfolding prepare_image_def inspect_worker_def inspect_image_identity_def config_failure_def build_image_def Let_def
  by (intro related_bind related_catching related_cases)
    (use assms in \<open>simp_all add: silent_validation_def related_silent\<close>)

lemma related_result_file:
  assumes "silent_validation h"
  shows "related R (validate_result_file h base file artifact_root result success) w"
  unfolding validate_result_file_def judge_envelope_def missing_artifacts_def Let_def
  by (intro related_bind related_catching related_for_each related_cases)
    (use assms in \<open>simp_all add: silent_validation_def related_silent\<close>)

lemma related_validate_one:
  assumes "silent_validation h"
  shows "related R (validate_one h rt workers kind input build success prebuilt t) w"
proof -
  have docker: "silent_docker (vh_docker h)" "silent (vh_iso_now h)" using assms by (simp_all add: silent_validation_def)
  have "related R (validate_run h rt kind input success t worker digest checks) w" for worker digest checks w
    unfolding validate_run_def validation_job_id_def new_run_context_def
    unfolding Let_def by (intro related_bind related_docker_run related_result_file assms docker(1)) (simp_all add: related_silent docker)
  then show ?thesis
    unfolding validate_one_def by (intro related_bind related_prepare_image assms related_cases) simp_all
qed

lemma related_validate_workers:
  assumes "silent_validation h"
  shows "related R (validate_workers h registry workers args) w"
  unfolding validate_workers_def Let_def
  by (intro related_bind related_for_each related_validate_one assms)
    (use assms in \<open>simp_all add: silent_validation_def related_silent\<close>)

end

section \<open>A queued job\<close>

lemma leaves_audit: "leaves jobs_table (audit a out who x t i d)"
proof -
  have "leaves jobs_table (on_store (save_audit_log l))" for l
    by (auto simp: leaves_def on_store_def save_audit_log_def insert_into_def split: prod.splits sum.splits)
  then show ?thesis by (auto simp: audit_def leaves_bus_op intro!: leaves_bind)
qed

lemma job_definition_Inr:
  "job_definition api kind w = (Inr (d, nb), w') \<Longrightarrow> w' = w \<and> (\<forall>d'. registry_get (ap_registry api) kind = Inr d' \<longrightarrow> d' = d \<and> nb = None)"
  by (auto simp: job_definition_def returns split: sum.splits if_splits)

lemma limits_unchanged: "job_limits api p x request d nb w = (Inr l, w') \<Longrightarrow> w' = w"
  by (auto simp: job_limits_def checked_policy_def returns split: option.splits if_splits)

lemma job_limits_Inr:
  assumes "job_limits api p x request d None w = (Inr (m, r, t), w')"
  shows "w' = w \<and> (\<exists>policy. effective_policy api (gd_kind d) (jq_timeout_seconds request) (Some (jq_max_retries request)) = Inr policy \<and>
    r = policy_retries policy (jq_max_retries request) \<and> t = policy_timeout policy (jq_timeout_seconds request))"
  using assms by (auto simp: job_limits_def checked_policy_def returns split: if_splits)

text \<open>Queueing appends one row and writes nothing else of the jobs table.\<close>

lemma queue_job_appends:
  assumes "queue_job api p request source w = (Inr job, w')"
  shows "\<exists>d nb x m r t now i w0. job_definition api (jq_kind request) w = (Inr (d, nb), w) \<and>
    (\<forall>d'. registry_get (ap_registry api) (jq_kind request) = Inr d' \<longrightarrow> d' = d \<and> nb = None) \<and> may_access p x \<and>
    x = resolved_project api p (if truthy_text (jq_project_id request) then jq_project_id request
      else (case nb of None \<Rightarrow> None | Some n \<Rightarrow> ng_project_id n)) \<and>
    job_limits api p x request d nb w = (Inr (m, r, t), w0) \<and>
    job = queued_job i (gd_kind d) now p x request (repository_metadata source m, r, t) \<and>
    jobs_table (w_db w') = jobs_table (w_db w) @ [job_to_row job]"
proof -
  obtain d nb x m r t now i w0 w1 w2 w3 w4 args e where def: "job_definition api (jq_kind request) w = (Inr (d, nb), w)"
    and reg: "\<forall>d'. registry_get (ap_registry api) (jq_kind request) = Inr d' \<longrightarrow> d' = d \<and> nb = None"
    and scope: "project_for_request api p (if truthy_text (jq_project_id request) then jq_project_id request
      else (case nb of None \<Rightarrow> None | Some n \<Rightarrow> ng_project_id n)) w = (Inr x, w)"
    and limits: "job_limits api p x request d nb w = (Inr (m, r, t), w0)"
    and now: "utc_now w0 = (Inr now, w1)" and i: "uuid4 w1 = (Inr i, w2)"
    and job: "job = queued_job i (gd_kind d) now p x request (repository_metadata source m, r, t)"
    and saved: "on_store (save_job job) w2 = (Inr (), w3)"
    and emitted: "emit (ap_event_bus api) ''job.queued'' SrcApi args w3 = (Inr e, w4)"
    and audited: "audit ''job.created'' ''success'' (Some p) x (Some ''job'') (Some (j_id job)) None w4 = (Inr (), w')"
    using assms unfolding queue_job_def
    by (clarsimp simp: returns Let_def) (metis job_definition_Inr project_for_request_Inr)
  have "jobs_table (w_db w3) = jobs_table (w_db w2) @ [job_to_row job]"
    using saved by (auto simp: on_store_def save_job_def insert_into_def insert_row_def split: if_splits)
  moreover have "jobs_table (w_db w2) = jobs_table (w_db w)"
    using leavesD [OF leaves_bus_op(3) [OF bus_op_clock(1)] now] leavesD [OF leaves_bus_op(3) [OF bus_op_clock(3)] i]
      limits_unchanged [OF limits] by simp
  moreover have "jobs_table (w_db w') = jobs_table (w_db w3)"
    using leavesD [OF leaves_bus_op(3) [OF bus_op_emit] emitted] leavesD [OF leaves_audit audited] by simp
  moreover have "may_access p x" "x = resolved_project api p (if truthy_text (jq_project_id request) then jq_project_id request
      else (case nb of None \<Rightarrow> None | Some n \<Rightarrow> ng_project_id n))"
    using scope by (auto simp: project_for_request_eq Let_def return_eq bind_throw_Inr split: if_splits)
  ultimately show ?thesis using def reg limits job by metis
qed

end
