(* ===== verification/Api_Isolation.thy ===== *)
theory Api_Isolation
  imports Api_Runs Store_Relation
begin

text \<open>
  Project isolation of the HTTP API. A request is a value of \<open>api_call\<close>; \<open>perform\<close> runs the route it
  names for a principal. For a principal without the admin role, what is answered belongs to the
  principal's project or to no project, and after any sequence of requests of such principals the
  jobs, runs, fanouts and schedules of every other project are what they were.
\<close>

section \<open>Requests and answers\<close>

datatype api_call =
    CreateJob job_create_request
  | ListJobs int int "string option" "string option"
  | GetJob string
  | CancelJob string
  | KillJob string termination_request
  | KillRun string termination_request
  | CreateFanout fanout_create_request
  | ListFanouts
  | GetFanout string
  | RetryJob string retry_create_request
  | CreateSchedule schedule_create_request
  | ListSchedules
  | PatchSchedule string schedule_patch
  | ListEvents event_query
  | ListRunEvents string int int
  | GetRun string
  | ListRuns int int "string option" "string option" "string option"
  | ListRunArtifacts string
  | DownloadArtifact string string

datatype api_answer =
    AJob job_record
  | AJobs "job_record page_response"
  | ATermination runtime_termination
  | AFanout fanout_detail
  | AFanouts "fanout_detail list"
  | ASchedule schedule_record
  | ASchedules "schedule_record list"
  | AEvents "event_record page_response"
  | ARunEvents run_event_page
  | ARun run_record
  | ARuns "run_record page_response"
  | AArtifacts "(artifact_record \<times> string) list"
  | AFile file_response

definition answer :: "('a \<Rightarrow> 'b) \<Rightarrow> ('s, 'a) op \<Rightarrow> ('s, 'b) op" where
  "answer f m = bind m (\<lambda>a. return (f a))"

fun perform :: "'r api \<Rightarrow> api_call \<Rightarrow> principal \<Rightarrow> ('r world, api_answer) op" where
  "perform api (CreateJob request) p = answer AJob (create_job api request p)"
| "perform api (ListJobs limit offset status project_id) p = answer AJobs (api_list_jobs api limit offset status project_id p)"
| "perform api (GetJob job_id) p = answer AJob (api_get_job api job_id p)"
| "perform api (CancelJob job_id) p = answer AJob (api_cancel_job api job_id p)"
| "perform api (KillJob job_id request) p = answer ATermination (kill_job_runtime api job_id request p)"
| "perform api (KillRun run_id request) p = answer ATermination (kill_run_runtime api run_id request p)"
| "perform api (CreateFanout request) p = answer AFanout (create_jobs_fanout api request p)"
| "perform api ListFanouts p = answer AFanouts (get_fanouts api p)"
| "perform api (GetFanout fanout_id) p = answer AFanout (api_get_fanout api fanout_id p)"
| "perform api (RetryJob job_id request) p = answer AJob (retry_api_job api job_id request p)"
| "perform api (CreateSchedule request) p = answer ASchedule (create_schedule api request p)"
| "perform api ListSchedules p = answer ASchedules (api_list_schedules api p)"
| "perform api (PatchSchedule schedule_id u) p = answer ASchedule (patch_schedule api schedule_id u p)"
| "perform api (ListEvents q) p = answer AEvents (api_list_events api q p)"
| "perform api (ListRunEvents run_id after_sequence limit) p =
     answer ARunEvents (api_list_run_events api run_id after_sequence limit p)"
| "perform api (GetRun run_id) p = answer ARun (run_for_principal api run_id p)"
| "perform api (ListRuns limit offset status kind project_id) p =
     answer ARuns (api_list_runs api limit offset status kind project_id p)"
| "perform api (ListRunArtifacts run_id) p = answer AArtifacts (api_list_run_artifacts api run_id p)"
| "perform api (DownloadArtifact run_id name) p = answer AFile (download_artifact api run_id name p)"

text \<open>A sequence of requests, each of its own principal; a request that fails does not stop the rest.\<close>

fun perform_all :: "'r api \<Rightarrow> (api_call \<times> principal) list \<Rightarrow> 'r world \<Rightarrow> api_answer result list \<times> 'r world" where
  "perform_all api [] w = ([], w)"
| "perform_all api ((call, p) # requests) w =
     (let (r, w1) = perform api call p w; (rs, w2) = perform_all api requests w1 in (r # rs, w2))"

section \<open>What is answered\<close>

text \<open>The projects of the rows an answer shows; a run has the project of its job while there is one.\<close>

definition run_scope :: "db \<Rightarrow> string \<Rightarrow> string option list" where
  "run_scope d run_id = (case get_run d run_id of Inr (Some run) \<Rightarrow> [project_id_for_run d run] | _ \<Rightarrow> [])"

fun answer_scopes :: "db \<Rightarrow> api_call \<Rightarrow> api_answer \<Rightarrow> string option list" where
  "answer_scopes d call (AJob job) = [j_project_id job]"
| "answer_scopes d call (AJobs jobs) = map j_project_id (pg_items jobs)"
| "answer_scopes d call (ATermination t) = []"
| "answer_scopes d call (AFanout detail) = [f_project_id (fd_fanout detail)]"
| "answer_scopes d call (AFanouts details) = map (\<lambda>detail. f_project_id (fd_fanout detail)) details"
| "answer_scopes d call (ASchedule schedule) = [sc_project_id schedule]"
| "answer_scopes d call (ASchedules schedules) = map sc_project_id schedules"
| "answer_scopes d call (AEvents events) = map e_project_id (pg_items events)"
| "answer_scopes d call (ARunEvents events) = map er_project_id (ep_items events)"
| "answer_scopes d call (ARun run) = [project_id_for_run d run]"
| "answer_scopes d call (ARuns runs) = map r_project_id (pg_items runs)"
| "answer_scopes d (ListRunArtifacts run_id) (AArtifacts artifacts) = run_scope d run_id"
| "answer_scopes d (DownloadArtifact run_id name) (AFile response) = run_scope d run_id"
| "answer_scopes d _ (AArtifacts artifacts) = []"
| "answer_scopes d _ (AFile response) = []"

named_theorems scoped \<open>what a route returns is in the scope of its principal\<close>

lemma answer_Inr: "answer f m w = (Inr b, w') \<longleftrightarrow> (\<exists>a. m w = (Inr a, w') \<and> b = f a)"
  by (auto simp: answer_def bind_Inr_iff return_eq)

lemma found_job_Inr: "found_job i w = (Inr job, w') \<longleftrightarrow> w' = w \<and> get_job (w_db w) i = Some job"
  by (auto simp: found_job_def bind_gets return_eq throw_eq split: option.split)

lemmas job_returns = returns found_job_Inr

lemma get_job_scope [scoped]: "api_get_job api i p w = (Inr job, w') \<Longrightarrow> in_scope p (j_project_id job)"
  by (auto simp: api_get_job_def bind_Inr_iff found_job_Inr return_eq dest: project_for_request_Inr)

lemma create_job_scope [scoped]: "create_job api request p w = (Inr job, w') \<Longrightarrow> in_scope p (j_project_id job)"
  unfolding create_job_def queue_job_def
  by (auto simp: bind_Inr_iff return_eq Let_def queued_job_def split: prod.splits dest!: project_for_request_Inr may_access_scope)

lemma row_to_job_ids [simp]: "j_project_id (row_to_job r) = j_project_id r" "j_id (row_to_job r) = j_id r"
  by (simp_all add: row_to_job_def)

lemma jobs_with_status_project: "job \<in> set (jobs_with_status d (Some P) status limit offset) \<Longrightarrow> j_project_id job = Some P"
  by (auto simp: jobs_with_status_def list_jobs_page_def page_def sql_limit_def sql_offset_def order_by_def select_where_def
      split: if_splits option.splits dest!: in_set_takeD in_set_dropD)

lemma scoped_page:
  "may_access p y \<Longrightarrow> (\<And>P. y = Some P \<Longrightarrow> project r = Some P) \<Longrightarrow> in_scope p (project r)"
  by (cases y) (auto simp: may_access_def in_scope_def)

lemma jobs_page_scope:
  "may_access p y \<Longrightarrow> job \<in> set (jobs_with_status d y status limit offset) \<Longrightarrow> in_scope p (j_project_id job)"
  using jobs_with_status_project [of job d _ status limit offset] scoped_page [of p y j_project_id job] by blast

lemma list_jobs_scope [scoped]:
  "api_list_jobs api limit offset status x p w = (Inr jobs, w') \<Longrightarrow> job \<in> set (pg_items jobs) \<Longrightarrow> in_scope p (j_project_id job)"
  unfolding api_list_jobs_def page_of_def
  by (auto simp: bind_Inr_iff return_eq gets_eq lift_result_Inr_iff dest!: project_for_request_Inr
      intro: jobs_page_scope)

lemma try_cancel_Inr:
  "try_cancel_job i d = (Inr (Some cancelled, changed), d') \<Longrightarrow>
   \<exists>before. get_job d i = Some before \<and> j_project_id cancelled = j_project_id before"
proof -
  let ?upd = "\<lambda>r. if cancellable i r then r\<lparr>j_status := Cancelled, j_lease_owner := None, j_leased_until := None,
                         j_last_error := Some ''cancelled by API''\<rparr> else r"
  have "by_key j_id i (map ?upd t) = map_option ?upd (by_key j_id i t)" for t
    by (induction t) (simp_all add: by_key_def)
  then show "try_cancel_job i d = (Inr (Some cancelled, changed), d') \<Longrightarrow> ?thesis"
    by (auto simp: try_cancel_job_def Let_def get_job_def update_where_def)
qed

lemma cancel_job_scope [scoped]: "api_cancel_job api i p w = (Inr job, w') \<Longrightarrow> in_scope p (j_project_id job)"
  unfolding api_cancel_job_def
  by (auto simp: job_returns on_store_Inr split: prod.splits dest!: project_for_request_Inr try_cancel_Inr)

lemma fanout_detail_project:
  "fanout_detail_of d i = Inr detail \<Longrightarrow> \<exists>f. get_fanout d i = Some f \<and> f_project_id (fd_fanout detail) = f_project_id f"
  by (auto simp: fanout_detail_of_def Let_def bind_result_Inr_iff split: option.splits)

lemma get_fanout_scope [scoped]: "api_get_fanout api i p w = (Inr detail, w') \<Longrightarrow> in_scope p (f_project_id (fd_fanout detail))"
  unfolding api_get_fanout_def by (auto simp: job_returns dest!: project_for_request_Inr)

lemma get_fanouts_scope [scoped]:
  "get_fanouts api p w = (Inr details, w') \<Longrightarrow> detail \<in> set details \<Longrightarrow> in_scope p (f_project_id (fd_fanout detail))"
  unfolding get_fanouts_def
  by (cases "sees_everything p") (auto simp: job_returns in_scope_def sees_everything_def)

lemma list_schedules_scope [scoped]:
  "api_list_schedules api p w = (Inr schedules, w') \<Longrightarrow> s \<in> set schedules \<Longrightarrow> in_scope p (sc_project_id s)"
  unfolding api_list_schedules_def by (auto simp: job_returns Let_def in_scope_def sees_everything_def split: if_splits)

lemma by_key_snoc: "k \<notin> key ` set t \<Longrightarrow> key r = k \<Longrightarrow> by_key key k (t @ [r]) = Some r"
  by (induction t) (auto simp: by_key_def)

lemma saved_fanout:
  "save_fanout f d = (Inr (), d') \<Longrightarrow> by_key f_id (f_id f) (fanouts_table d') = Some (fanout_to_row f)"
  by (auto simp: save_fanout_def insert_into_def insert_row_def fanout_to_row_def by_key_snoc
      split: sum.splits if_splits)

lemma saved_jobs_fanouts:
  "for_each (\<lambda>job. on_store (save_job job)) jobs w = (r, w') \<Longrightarrow> fanouts_table (w_db w') = fanouts_table (w_db w)"
proof -
  have "fanouts_table (w_db (snd (for_each (\<lambda>job. on_store (save_job job)) jobs w))) = fanouts_table (w_db w)"
    by (rule for_each_preserves [where I = "\<lambda>w'. fanouts_table (w_db w') = fanouts_table (w_db w)"])
      (auto simp: on_store_def save_job_def insert_into_def split: prod.splits sum.splits)
  then show "for_each (\<lambda>job. on_store (save_job job)) jobs w = (r, w') \<Longrightarrow> ?thesis" by simp
qed

lemma create_fanout_project:
  assumes "create_fanout cv registry request who x policies w = (Inr detail, w')"
  shows "f_project_id (fd_fanout detail) = x"
  using assms unfolding create_fanout_def
  by (auto simp: job_returns Let_def on_store_Inr get_fanout_def row_to_fanout_def fanout_to_row_def
      dest!: fanout_detail_project saved_jobs_fanouts saved_fanout)

lemma create_jobs_fanout_scope [scoped]:
  "create_jobs_fanout api request p w = (Inr detail, w') \<Longrightarrow> in_scope p (f_project_id (fd_fanout detail))"
  unfolding create_jobs_fanout_def
  by (auto simp: job_returns dest!: project_for_request_Inr create_fanout_project intro: may_access_scope)

lemma retry_job_project:
  "retry_job cv i request who policies w = (Inr job, w') \<Longrightarrow>
   \<exists>source. get_job (w_db w) i = Some source \<and> j_project_id job = j_project_id source"
  unfolding retry_job_def by (auto simp: job_returns Let_def retry_record_def)

lemma retry_job_scope [scoped]: "retry_api_job api i request p w = (Inr job, w') \<Longrightarrow> in_scope p (j_project_id job)"
  unfolding retry_api_job_def
  by (auto simp: job_returns split: if_splits dest!: project_for_request_Inr retry_job_project)

lemma schedule_from_request_kept:
  "create_schedule api request p w = (Inr s, w') \<Longrightarrow> in_scope p (sc_project_id s)"
  unfolding create_schedule_def
  by (auto simp: job_returns Let_def dest!: project_for_request_Inr intro: may_access_scope)

lemmas create_schedule_scope [scoped] = schedule_from_request_kept

lemma retimed_kept:
  "retimed api u s w = (Inr t, w') \<Longrightarrow> w_db w' = w_db w \<and> sc_project_id t = sc_project_id s \<and> sc_id t = sc_id s"
  by (auto simp: retimed_def job_returns utc_now_def split: if_splits prod.splits)

lemma patched_kept [simp]: "sc_project_id (patched_schedule s u) = sc_project_id s" "sc_id (patched_schedule s u) = sc_id s"
  by (simp_all add: patched_schedule_def)

lemma patch_schedule_scope [scoped]: "patch_schedule api i u p w = (Inr s, w') \<Longrightarrow> in_scope p (sc_project_id s)"
  unfolding patch_schedule_def by (auto simp: job_returns dest!: project_for_request_Inr retimed_kept)

lemma list_events_project: "e \<in> set (list_events d (q\<lparr>q_project_id := Some P\<rparr>)) \<Longrightarrow> e_project_id e = Some P"
  by (auto simp: list_events_def page_def sql_limit_def sql_offset_def order_by_def select_where_def row_to_event_def
      event_matches_def opt_col_def split: if_splits dest!: in_set_takeD in_set_dropD)

lemma list_events_scope [scoped]:
  assumes "api_list_events api q p w = (Inr events, w')" and "e \<in> set (pg_items events)"
  shows "in_scope p (e_project_id e)"
proof -
  obtain y where "may_access p y" and "e \<in> set (list_events (w_db w) (q\<lparr>q_project_id := y\<rparr>))"
    using assms by (auto simp: api_list_events_def page_of_def job_returns dest!: project_for_request_Inr)
  then show ?thesis using list_events_project [of e "w_db w" _ q] scoped_page [of p y e_project_id e] by blast
qed

lemma read_entries_db: "read_entries api i l n w = (r, w') \<Longrightarrow> w_db w' = w_db w"
  by (auto simp: read_entries_def on_client_def split: prod.splits)

lemma list_run_events_scope [scoped]:
  "api_list_run_events api i l n p w = (Inr events, w') \<Longrightarrow> e \<in> set (ep_items events) \<Longrightarrow> in_scope p (er_project_id e)"
  unfolding api_list_run_events_def
  by (auto simp: job_returns run_event_records split: if_splits dest!: run_scope_Inr read_entries_db)

lemma traverse_set: "traverse f xs = Inr ys \<Longrightarrow> y \<in> set ys \<Longrightarrow> \<exists>x \<in> set xs. f x = Inr y"
  by (induction xs arbitrary: ys) (auto simp: bind_result_Inr_iff)

lemma runs_with_status_project:
  "runs_with_status (Some P) status kind limit offset d = Inr runs \<Longrightarrow> run \<in> set runs \<Longrightarrow> r_project_id run = Some P"
  by (auto simp: runs_with_status_def list_runs_page_def page_def sql_limit_def sql_offset_def order_by_def select_where_def
      row_to_run_def new_run_record_def split: if_splits option.splits dest!: traverse_set in_set_takeD in_set_dropD)

lemma list_runs_scope [scoped]:
  assumes "api_list_runs api limit offset status kind x p w = (Inr runs, w')" and "run \<in> set (pg_items runs)"
  shows "in_scope p (r_project_id run)"
proof -
  obtain y rows where "may_access p y" and "runs_with_status y status kind limit offset (w_db w) = Inr rows" and "run \<in> set rows"
    using assms by (auto simp: api_list_runs_def page_of_def job_returns dest!: project_for_request_Inr)
  then show ?thesis using runs_with_status_project [of _ status kind limit offset "w_db w" rows run] scoped_page [of p y r_project_id run]
    by blast
qed

lemma run_scope_of:
  "run_for_principal api i p w = (Inr run, w') \<Longrightarrow> x \<in> set (run_scope (w_db w) i) \<Longrightarrow> in_scope p x"
  by (auto simp: run_scope_def dest: run_scope_Inr)

lemma list_run_artifacts_scope [scoped]:
  "api_list_run_artifacts api i p w = (Inr artifacts, w') \<Longrightarrow> x \<in> set (run_scope (w_db w) i) \<Longrightarrow> in_scope p x"
  unfolding api_list_run_artifacts_def by (auto simp: job_returns dest: run_scope_of)

lemma download_artifact_scope [scoped]:
  "download_artifact api i name p w = (Inr response, w') \<Longrightarrow> x \<in> set (run_scope (w_db w) i) \<Longrightarrow> in_scope p x"
  unfolding download_artifact_def by (auto simp: job_returns dest: run_scope_of)


definition two_projects :: db where
  "two_projects = empty_db\<lparr>jobs_table := [(sample_job ''a'' 100 1)\<lparr>j_project_id := Some ''p1''\<rparr>,
     (sample_job ''b'' 100 2)\<lparr>j_project_id := Some ''p2''\<rparr>]\<rparr>"


section \<open>What is written\<close>

text \<open>The rows of one project, and the keys of the tables that are updated by id.\<close>

definition rows_of_project :: "string \<Rightarrow> db \<Rightarrow> job_record list \<times> run_record list \<times> fanout_record list \<times> schedule_record list" where
  "rows_of_project Q d =
     (filter (\<lambda>j. j_project_id j = Some Q) (jobs_table d), filter (\<lambda>r. r_project_id r = Some Q) (runs_table d),
      filter (\<lambda>f. f_project_id f = Some Q) (fanouts_table d), filter (\<lambda>s. sc_project_id s = Some Q) (schedules_table d))"

definition keyed :: "db \<Rightarrow> bool" where
  "keyed d \<longleftrightarrow> distinct_key j_id (jobs_table d) \<and> distinct_key sc_id (schedules_table d)"

definition spares :: "string \<Rightarrow> db \<Rightarrow> db \<Rightarrow> bool" where
  "spares Q d d' \<longleftrightarrow> (keyed d \<longrightarrow> keyed d' \<and> rows_of_project Q d' = rows_of_project Q d)"

abbreviation sparing :: "string \<Rightarrow> ('r world, 'a) op \<Rightarrow> 'r world \<Rightarrow> bool" where
  "sparing Q \<equiv> related (spares Q)"

interpretation sp: store_relation "spares Q" for Q
proof unfold_locales
  show "log_only d d' \<Longrightarrow> spares Q d d'" for d d'
    by (simp add: spares_def keyed_def rows_of_project_def log_only_tables)
  show "spares Q d (snd (save_audit_log l d))" for d l
    by (auto simp: spares_def keyed_def rows_of_project_def save_audit_log_def insert_into_def split: sum.splits)
qed (simp_all add: spares_def)

lemma sparing_save_job: "j_project_id job \<noteq> Some Q \<Longrightarrow> sparing Q (on_store (save_job job)) w"
  by (auto simp: related_def spares_def keyed_def rows_of_project_def on_store_def save_job_def insert_into_def insert_row_def
      distinct_key_def job_to_row_def split: prod.splits sum.splits)

lemma sparing_save_fanout: "f_project_id fanout \<noteq> Some Q \<Longrightarrow> sparing Q (on_store (save_fanout fanout)) w"
  by (auto simp: related_def spares_def keyed_def rows_of_project_def on_store_def save_fanout_def insert_into_def insert_row_def
      distinct_key_def fanout_to_row_def split: prod.splits sum.splits)

lemma sparing_save_schedule: "sc_project_id schedule \<noteq> Some Q \<Longrightarrow> sparing Q (on_store (save_schedule schedule)) w"
  by (auto simp: related_def spares_def keyed_def rows_of_project_def on_store_def save_schedule_def insert_into_def insert_row_def
      distinct_key_def schedule_to_row_def split: prod.splits sum.splits)

lemma filter_update_other:
  "distinct_key key t \<Longrightarrow> by_key key k t = Some r \<Longrightarrow> \<not> P r \<Longrightarrow> \<not> P (f r) \<Longrightarrow> (\<And>r. C r \<Longrightarrow> key r = k) \<Longrightarrow>
   filter P (update_where C f t) = filter P t"
proof (induction t)
  case (Cons x t)
  show ?case
  proof (cases "key x = k")
    case True
    have "\<not> C y" if "y \<in> set t" for y using Cons.prems(1,5) True that by (auto simp: distinct_key_def rev_image_eqI)
    then have "update_where C f t = t" by (simp add: update_where_def map_idI)
    then show ?thesis using Cons.prems True by (auto simp: by_key_def update_where_def)
  next
    case False
    have "\<not> C x" using Cons.prems(5) False by blast
    then show ?thesis using Cons False by (auto simp: by_key_def distinct_key_def update_where_def)
  qed
qed (simp add: update_where_def)

lemma sparing_try_cancel:
  assumes "get_job (w_db w) i = Some job" and "j_project_id job \<noteq> Some Q"
  shows "sparing Q (on_store (try_cancel_job i)) w"
proof -
  obtain r where r: "by_key j_id i (jobs_table (w_db w)) = Some r" "j_project_id r \<noteq> Some Q"
    using assms by (auto simp: get_job_def)
  have "map j_id (update_where (cancellable i) f (jobs_table (w_db w))) = map j_id (jobs_table (w_db w))"
    if "\<And>r. j_id (f r) = j_id r" for f using that by (simp add: update_where_def)
  then show ?thesis using r
    by (auto simp: related_def spares_def keyed_def distinct_key_def rows_of_project_def on_store_def try_cancel_job_def Let_def
        cancellable_def intro!: filter_update_other [of j_id _ i r])
qed

lemma sparing_update_schedule:
  assumes "get_schedule (w_db w) (sc_id s) = Some old" and "sc_project_id old \<noteq> Some Q" and "sc_project_id s \<noteq> Some Q"
  shows "sparing Q (on_store (update_schedule s)) w"
proof -
  obtain r where r: "by_key sc_id (sc_id s) (schedules_table (w_db w)) = Some r" "sc_project_id r \<noteq> Some Q"
    using assms(1,2) by (auto simp: get_schedule_def row_to_schedule_def)
  have "map sc_id (update_where C f (schedules_table (w_db w))) = map sc_id (schedules_table (w_db w))"
    if "\<And>r. sc_id (f r) = sc_id r" for f C using that by (simp add: update_where_def)
  then show ?thesis using r assms(3)
    by (auto simp: related_def spares_def keyed_def distinct_key_def rows_of_project_def on_store_def update_schedule_def
        schedule_to_row_def intro!: filter_update_other [of sc_id _ "sc_id s" r])
qed

text \<open>A principal of another project, without the admin role.\<close>

definition outsider :: "string \<Rightarrow> principal \<Rightarrow> bool" where
  "outsider Q p \<longleftrightarrow> \<not> is_admin p \<and> pr_project_id p \<noteq> Some Q \<and> Q \<noteq> ''''"

lemma outsider_scope: "outsider Q p \<Longrightarrow> in_scope p x \<Longrightarrow> x \<noteq> Some Q"
  by (auto simp: outsider_def in_scope_def truthy_text_def)

lemma sparing_guarded:
  assumes "outsider Q p" and "\<And>y. x \<noteq> Some Q \<Longrightarrow> y \<noteq> Some Q \<Longrightarrow> sparing Q (f y) w"
  shows "sparing Q (bind (project_for_request api p x) f) w"
  using assms by (auto intro!: sp.related_guarded dest: may_access_scope outsider_scope)

lemma sparing_admin_only: "outsider Q p \<Longrightarrow> sparing Q (admin_only body p) w"
  by (simp add: outsider_def sp.related_not_admin)

lemma sparing_definition [simp]: "sparing Q (job_definition api kind) w"
  by (auto simp: job_definition_def intro!: sp.related_bind split: sum.split option.split)

lemma sparing_queue_job: "outsider Q p \<Longrightarrow> sparing Q (queue_job api p request source) w"
  unfolding queue_job_def
  by (auto simp: Let_def queued_job_def intro!: sp.related_bind [of Q "job_definition api (jq_kind request)"] sparing_guarded)
    (auto intro!: sp.related_bind sparing_save_job)

lemma sparing_cancel_job: "outsider Q p \<Longrightarrow> sparing Q (api_cancel_job api i p) w"
  unfolding api_cancel_job_def
  by (auto simp: found_job_Inr intro!: sp.related_bind [of Q "found_job i"] sparing_guarded)
    (auto intro!: sp.related_bind sparing_try_cancel split: option.split prod.splits)

lemma sparing_retry_job: "(\<And>job. get_job (w_db w) i = Some job \<Longrightarrow> j_project_id job \<noteq> Some Q) \<Longrightarrow>
   sparing Q (retry_job cv i request who policies) w"
  by (auto simp: retry_job_def Let_def retry_record_def gets_eq intro!: sp.related_bind sparing_save_job split: option.split)

lemma sparing_retry_api_job: "outsider Q p \<Longrightarrow> sparing Q (retry_api_job api i request p) w"
  unfolding retry_api_job_def
  by (auto simp: gets_eq record_policy_rejection_def Let_def intro!: sp.related_bind [of Q "gets f" for f] sp.related_handle sparing_guarded
      split: option.split)
    (auto intro!: sp.related_bind sparing_retry_job)

lemma sparing_schedule_from_request [simp]: "sparing Q (schedule_from_request api request) w"
  by (auto simp: schedule_from_request_def Let_def intro!: sp.related_bind split: sum.split)

lemma sparing_create_schedule: "outsider Q p \<Longrightarrow> sparing Q (create_schedule api request p) w"
  unfolding create_schedule_def
  by (auto simp: Let_def intro!: sparing_guarded) (auto intro!: sp.related_bind sparing_save_schedule)

lemma sparing_patch_schedule: "outsider Q p \<Longrightarrow> sparing Q (patch_schedule api i u p) w"
proof -
  assume p: "outsider Q p"
  have "sparing Q (retimed api u s) w" for s and w :: "'a world"
    by (auto simp: retimed_def intro!: sp.related_bind)
  moreover have "sparing Q (on_store (update_schedule t)) w'"
    if "retimed api u (patched_schedule s u) w = (Inr t, w')" "get_schedule (w_db w) i = Some s" "sc_project_id s \<noteq> Some Q"
    for s t w' and w :: "'a world"
  proof -
    have "sc_id s = i" using that(2) by (auto simp: get_schedule_def row_to_schedule_def by_key_def find_Some_iff)
    then show ?thesis using that retimed_kept [OF that(1)] by (auto intro!: sparing_update_schedule [of _ _ s])
  qed
  ultimately show ?thesis
    using p unfolding patch_schedule_def
    by (auto simp: gets_eq intro!: sp.related_bind [of Q "gets f" for f] sparing_guarded split: option.split)
      (auto simp: lift_result_Inr_iff intro!: sp.related_bind)
qed

lemma for_each_set:
  "for_each f xs w = (Inr ys, w') \<Longrightarrow> y \<in> set ys \<Longrightarrow> \<exists>x \<in> set xs. \<exists>t t'. f x t = (Inr y, t')"
proof (induction xs arbitrary: ys w)
  case (Cons x xs)
  then obtain z zs t where "f x w = (Inr z, t)" "for_each f xs t = (Inr zs, w')" "ys = z # zs"
    by (auto simp: bind_Inr_iff return_eq)
  then show ?case using Cons.IH [of t zs] Cons.prems(2) by auto
qed (simp add: return_eq)

lemma sparing_create_fanout:
  assumes "x \<noteq> Some Q"
  shows "sparing Q (create_fanout cv registry request who x policies) w"
proof -
  have "j_project_id job = x"
    if "for_each (\<lambda>y. bind uuid4 (\<lambda>jid. return (fanout_job f now who y jid))) xs w = (Inr jobs, w')"
      "job \<in> set jobs" "f_project_id f = x" for f now xs jobs job w' and w :: "'a world"
    using for_each_set [OF that(1,2)] that(3) by (auto simp: bind_Inr_iff return_eq fanout_job_def split: prod.splits)
  then show ?thesis
    using assms unfolding create_fanout_def Let_def
    by (auto intro!: sp.related_bind sp.related_for_each sparing_save_fanout sparing_save_job)
qed

lemma sparing_create_jobs_fanout: "outsider Q p \<Longrightarrow> sparing Q (create_jobs_fanout api request p) w"
  unfolding create_jobs_fanout_def
  by (rule sparing_guarded) (auto intro!: sp.related_handle sp.related_bind sparing_create_fanout sp.related_for_each)

lemma sparing_run_for_principal [simp]: "sparing Q (run_for_principal api i p) w"
  by (auto simp: run_for_principal_def intro!: sp.related_bind split: option.split)

lemma sparing_reads [simp]:
  "sparing Q (api_list_jobs api limit offset status x p) w" "sparing Q (api_get_job api i p) w"
  "sparing Q (get_fanouts api p) w" "sparing Q (api_get_fanout api i p) w" "sparing Q (api_list_schedules api p) w"
  "sparing Q (api_list_events api q p) w" "sparing Q (api_list_run_events api i l n p) w"
  "sparing Q (api_list_runs api limit offset status kind x p) w" "sparing Q (api_list_run_artifacts api i p) w"
  "sparing Q (download_artifact api i name p) w"
  by (auto simp: api_list_jobs_def api_get_job_def get_fanouts_def api_get_fanout_def api_list_schedules_def api_list_events_def
      api_list_run_events_def api_list_runs_def api_list_run_artifacts_def download_artifact_def read_entries_def
      run_event_record_of_def intro!: sp.related_bind sp.related_handle sp.related_for_each split: option.split)

lemma sparing_perform: "outsider Q p \<Longrightarrow> sparing Q (perform api call p) w"
  by (cases call) (auto simp: answer_def create_job_def kill_job_runtime_def kill_run_runtime_def intro!: sp.related_bind
      sparing_queue_job sparing_cancel_job sparing_admin_only sparing_create_jobs_fanout sparing_retry_api_job
      sparing_create_schedule sparing_patch_schedule)



section \<open>A created job\<close>

text \<open>
  Creating a job of a registered kind adds exactly that job to the store: queued, not yet attempted,
  in a project of the principal, with the retries and the timeout of the effective resource policy.
\<close>

theorem create_job_effect:
  assumes "create_job api request p w = (Inr job, w')" and "registry_get (ap_registry api) (jq_kind request) = Inr d"
  shows "jobs_table (w_db w') = jobs_table (w_db w) @ [job_to_row job] \<and> j_status job = Queued \<and> j_attempt_count job = 0 \<and>
    j_kind job = gd_kind d \<and> j_input job = jq_input request \<and> j_created_by job = pr_user_id p \<and>
    (is_admin p \<or> pr_project_id p \<noteq> None \<and> j_project_id job = pr_project_id p) \<and>
    (\<exists>policy. effective_policy api (gd_kind d) (jq_timeout_seconds request) (Some (jq_max_retries request)) = Inr policy \<and>
       j_max_retries job = policy_retries policy (jq_max_retries request) \<and>
       j_timeout_seconds job = policy_timeout policy (jq_timeout_seconds request))"
proof -
  obtain x m r t now i w0 where scope: "may_access p x" and limits: "job_limits api p x request d None w = (Inr (m, r, t), w0)"
    and job: "job = queued_job i (gd_kind d) now p x request (m, r, t)"
    and rows: "jobs_table (w_db w') = jobs_table (w_db w) @ [job_to_row job]"
    using queue_job_appends [OF assms(1) [unfolded create_job_def]] assms(2) by (auto simp: repository_metadata_def)
  show ?thesis using scope rows job_limits_Inr [OF limits] by (simp add: job queued_job_def may_access_def)
qed

theorem create_job_effect_witness:
  "\<exists>job w'. create_job demo_api \<lparr>jq_kind = ''example.echo'', jq_input = JInt 1, jq_priority = 100, jq_project_id = None,
       jq_correlation_id = None, jq_max_retries = 2, jq_timeout_seconds = None\<rparr> (demo_member ''p1'') (fresh_world empty_db) = (Inr job, w') \<and>
     jobs_table (w_db w') = [job_to_row job] \<and> j_project_id job = Some ''p1'' \<and> j_max_retries job = 2"
proof -
  let ?request = "\<lparr>jq_kind = ''example.echo'', jq_input = JInt 1, jq_priority = 100, jq_project_id = None,
       jq_correlation_id = None, jq_max_retries = 2, jq_timeout_seconds = None\<rparr>"
  have "map_sum (\<lambda>_. ()) (\<lambda>_. ()) (fst (create_job demo_api ?request (demo_member ''p1'') (fresh_world empty_db))) = Inr ()" by code_simp
  then obtain job w' where run: "create_job demo_api ?request (demo_member ''p1'') (fresh_world empty_db) = (Inr job, w')"
    by (cases "create_job demo_api ?request (demo_member ''p1'') (fresh_world empty_db)";
        cases "fst (create_job demo_api ?request (demo_member ''p1'') (fresh_world empty_db))") auto
  have kind: "registry_get (ap_registry demo_api) (jq_kind ?request) = Inr echo_definition"
    by (simp add: registry_get_def demo_api_def echo_registry_def)
  have "\<not> is_admin (demo_member ''p1'')" "pr_project_id (demo_member ''p1'') = Some ''p1''" "ap_policies demo_api = None"
    by (simp_all add: demo_member_def is_admin_def demo_api_def)
  with create_job_effect [OF run kind] run show ?thesis
    by (auto simp: fresh_world_def empty_db_def effective_policy_def policy_retries_def)
qed

end
