(* ===== verification/Api_Notebooks.thy ===== *)
theory Api_Notebooks
  imports Api_Jobs Run_Events
begin

text \<open>
  The routes of notebook goblins, notebook services and long-running services of
  \<^verbatim>\<open>src/src/goblin_king/api.py\<close>. Starting and stopping a service runtime, an HTTP request and a validation
  in a cluster are parameters. The structured detail of an \<^verbatim>\<open>HTTPException\<close> is not kept, its status is.
\<close>

section \<open>Notebook goblins\<close>

definition forbid_viewer_write :: "principal \<Rightarrow> ('s, unit) op" where
  "forbid_viewer_write p =
     (if pr_role p = RoleViewer then throw (http_error 403 ''viewer role cannot create notebook goblins'') else return ())"

definition normalize_probe_path :: "string option \<Rightarrow> string" where
  "normalize_probe_path v = validate_probe_path (or_else v ''/hello'')"

definition notebook_source_hash :: "(string \<Rightarrow> string) \<Rightarrow> string \<Rightarrow> string \<Rightarrow> string" where
  "notebook_source_hash sha256 source function_name = sha256 (function_name @ [CHR 0x00] @ source)"

record notebook_goblin_request =
  nq_kind :: string
  nq_source :: string
  nq_function_name :: string
  nq_display_name :: "string option"
  nq_image :: "string option"
  nq_project_id :: "string option"
  nq_timeout_seconds :: "int option"
  nq_max_retries :: int
  nq_metadata :: json

definition require_unregistered :: "'r api \<Rightarrow> string \<Rightarrow> ('r world, unit) op" where
  "require_unregistered api kind = (case registry_get (ap_registry api) kind of
       Inr _ \<Rightarrow> throw (http_error 409 (''goblin kind already exists in registry: '' @ kind))
     | Inl e \<Rightarrow> if error_class e = RegistryError then return () else throw e)"

definition create_notebook_goblin :: "'r api \<Rightarrow> notebook_goblin_request \<Rightarrow> principal \<Rightarrow> ('r world, notebook_goblin_record) op" where
  "create_notebook_goblin api request p =
     bind (forbid_viewer_write p) (\<lambda>_.
     bind (require_unregistered api (nq_kind request)) (\<lambda>_.
     bind (project_for_request api p (nq_project_id request)) (\<lambda>project_id.
     bind utc_now (\<lambda>now.
     bind (gets (\<lambda>w. get_notebook_goblin (w_db w) (nq_kind request))) (\<lambda>existing.
     bind (case existing of
             None \<Rightarrow> return ()
           | Some old \<Rightarrow> bind (project_for_request api p (ng_project_id old)) (\<lambda>_.
               if ng_project_id old \<noteq> project_id
               then throw (http_error 409 ''notebook goblin kind already belongs to another project'') else return ())) (\<lambda>_.
     bind (lift_result (validate_kind (nq_kind request))) (\<lambda>kind.
     let record = \<lparr>ng_kind = kind, ng_project_id = project_id, ng_display_name = or_else (nq_display_name request) kind,
           ng_image = or_else (nq_image request) (ap_function_image api), ng_source = nq_source request,
           ng_source_hash = notebook_source_hash (sh_sha256 (ap_host api)) (nq_source request) (nq_function_name request),
           ng_function_name = nq_function_name request, ng_timeout_seconds = nq_timeout_seconds request,
           ng_max_retries = nq_max_retries request,
           ng_created_at = (case existing of None \<Rightarrow> now | Some old \<Rightarrow> ng_created_at old), ng_updated_at = now,
           ng_created_by = (case existing of None \<Rightarrow> pr_user_id p | Some old \<Rightarrow> ng_created_by old),
           ng_metadata = nq_metadata request\<rparr> in
     bind (on_store (save_notebook_goblin record)) (\<lambda>_.
     bind (audit ''notebook_goblin.built'' ''success'' (Some p) project_id (Some ''notebook_goblin'') (Some (ng_kind record))
             (Some (JObj [(''image'', JStr (ng_image record)), (''source_hash'', JStr (ng_source_hash record)),
               (''function_name'', JStr (ng_function_name record))]))) (\<lambda>_.
     return record)))))))))"

definition is_http_error :: "error \<Rightarrow> bool" where
  "is_http_error e \<longleftrightarrow> (case error_class e of HTTPException _ \<Rightarrow> True | _ \<Rightarrow> False)"

text \<open>The loop that leaves out the records whose project the caller may not access.\<close>

fun visible_records :: "'r api \<Rightarrow> principal \<Rightarrow> ('a \<Rightarrow> string option) \<Rightarrow> 'a list \<Rightarrow> ('r world, 'a list) op" where
  "visible_records api p project [] = return []"
| "visible_records api p project (x # xs) =
     bind (catching is_http_error (project_for_request api p (project x))) (\<lambda>allowed.
     bind (visible_records api p project xs) (\<lambda>rest.
     return (case allowed of Inl _ \<Rightarrow> rest | Inr _ \<Rightarrow> x # rest)))"

definition api_list_notebook_goblins :: "'r api \<Rightarrow> principal \<Rightarrow> ('r world, notebook_goblin_record list) op" where
  "api_list_notebook_goblins api p =
     bind (gets (\<lambda>w. list_notebook_goblins (w_db w) None)) (\<lambda>records. visible_records api p ng_project_id records)"

text \<open>Validate a notebook function where the API runs, bind its source into the identity, and record the proof.\<close>

record validate_request =
  vq_input :: json
  vq_require_success :: bool
  vq_timeout_seconds :: "int option"

definition notebook_validation ::
  "'r api \<Rightarrow> notebook_goblin_record \<Rightarrow> validate_request \<Rightarrow> ('r world, worker_validation_result) op" where
  "notebook_validation api nb request =
     (let input_payload = notebook_worker_input nb (vq_input request);
          timeout_seconds = or_int_opt (vq_timeout_seconds request) (ng_timeout_seconds nb);
          h = sh_validation (ap_host api) in
      if ap_in_kubernetes api
      then ap_kubernetes_validate api nb input_payload (vq_require_success request) timeout_seconds
      else
        bind (lift_result (notebook_definition nb)) (\<lambda>definition.
        bind (lift_result (registry_from_definitions [definition])) (\<lambda>registry.
        bind (validate_workers h registry (notebook_worker_map h nb)
               \<lparr>va_input = input_payload, va_kinds = [ng_kind nb], va_build = False,
                va_require_success = vq_require_success request, va_prebuilt_image = True,
                va_timeout_seconds = timeout_seconds, va_redis_url = ap_redis_url api, va_run_root = None\<rparr>) (\<lambda>results.
        return ((hd results)\<lparr>vr_image_digest := Some (notebook_validation_identity (sh_sha256 (ap_host api))
                  (vr_image_digest (hd results)) (ng_source_hash nb))\<rparr>)))))"

definition validation_policy :: "'r api \<Rightarrow> string \<Rightarrow> json option" where
  "validation_policy api kind =
     (if ap_in_kubernetes api then Some (JObj [(''kubernetes_workload_security'', ap_workload_security api kind)]) else None)"

definition recorded_validation ::
  "'r api \<Rightarrow> notebook_goblin_record \<Rightarrow> validate_request \<Rightarrow> ('r world, worker_validation_result) op" where
  "recorded_validation api nb request =
     bind (notebook_validation api nb request) (\<lambda>result.
     bind (validation_record (sh_validation (ap_host api)) result (validation_policy api (ng_kind nb))) (\<lambda>row.
     bind (on_store (save_worker_validation row)) (\<lambda>_.
     return result)))"

definition validate_notebook_goblin ::
  "'r api \<Rightarrow> string \<Rightarrow> validate_request \<Rightarrow> principal \<Rightarrow> ('r world, notebook_goblin_record \<times> worker_validation_result) op" where
  "validate_notebook_goblin api kind request p =
     bind (forbid_viewer_write p) (\<lambda>_.
     bind (gets (\<lambda>w. get_notebook_goblin (w_db w) kind)) (\<lambda>found.
     case found of
       None \<Rightarrow> throw (http_error 404 (''notebook goblin not found: '' @ kind))
     | Some nb \<Rightarrow>
     bind (project_for_request api p (ng_project_id nb)) (\<lambda>_.
     bind (recorded_validation api nb request) (\<lambda>result.
     bind (audit ''notebook_goblin.validated'' (if vr_ok result then ''success'' else ''failure'') (Some p) (ng_project_id nb)
             (Some ''notebook_goblin'') (Some (ng_kind nb)) (Some (JObj [(''image'', JStr (ng_image nb)),
               (''source_hash'', JStr (ng_source_hash nb)), (''ok'', JBool (vr_ok result))]))) (\<lambda>_.
     return (nb, result))))))"

section \<open>Long-running services\<close>

definition service_probe_url :: "long_service_record \<Rightarrow> string" where
  "service_probe_url service = strip_slashes (ls_base_url service) @ normalize_probe_path (Some (ls_probe_path service))"

record service_probe =
  pv_service :: long_service_record
  pv_url :: string
  pv_response :: http_response

definition probe_long_service_record :: "'r api \<Rightarrow> long_service_record \<Rightarrow> ('r world, service_probe) op" where
  "probe_long_service_record api service =
     (let url = service_probe_url service in
      bind (ap_urlopen api url) (\<lambda>reply.
      let response = probe_reply (ap_loads api) reply;
          ok = (case hr_status_code response of Some code \<Rightarrow> 200 \<le> code \<and> code < 300 | None \<Rightarrow> False) in
      bind utc_now (\<lambda>now.
      bind (on_store (update_long_service_probe (ls_id service) (if ok then SvcRunning else SvcFailed) now (hr_payload response))) (\<lambda>updated.
      case updated of
        None \<Rightarrow> throw (Raise AssertionError '''')
      | Some service' \<Rightarrow>
          bind (emit (ap_event_bus api) ''admin.service.probed'' SrcApi (no_args\<lparr>a_project_id := ls_project_id service,
                  a_worker_id := Some (ls_id service), a_payload := Some (JObj [(''kind'', JStr (ls_kind service)),
                    (''status'', JStr (if ok then ''running'' else ''failed'')),
                    (''status_code'', json_opt JInt (hr_status_code response))])\<rparr>)) (\<lambda>_.
          if \<not> ok then throw (http_error 502 (ls_id service))
          else return \<lparr>pv_service = service', pv_url = url, pv_response = response\<rparr>)))))"

record long_service_request =
  lq_kind :: string
  lq_project_id :: "string option"
  lq_base_url :: "string option"
  lq_probe_path :: "string option"
  lq_image :: "string option"

text \<open>The registered definition and worker of a kind; neither when one of the lookups fails and a URL is given.\<close>

definition service_definition ::
  "'r api \<Rightarrow> long_service_request \<Rightarrow> ('r world, goblin_definition option \<times> worker_image_definition option) op" where
  "service_definition api request =
     (let refuse = (\<lambda>e. error_class e = RegistryError \<or> is_value_error e) in
      case registry_get (ap_registry api) (lq_kind request) of
        Inl e \<Rightarrow> if \<not> refuse e then throw e
                 else if \<not> truthy_text (lq_base_url request) then throw (http_error 404 (error_message e)) else return (None, None)
      | Inr d \<Rightarrow>
          (case workers_get (ap_workers api) (lq_kind request) of
             Inl e \<Rightarrow> if \<not> refuse e then throw e
                 else if \<not> truthy_text (lq_base_url request) then throw (http_error 404 (error_message e)) else return (Some d, None)
           | Inr worker \<Rightarrow> return (Some d, Some worker)))"

definition metadata_text :: "goblin_definition option \<Rightarrow> string \<Rightarrow> string option" where
  "metadata_text d key = (case d of None \<Rightarrow> None
     | Some x \<Rightarrow> (case obj_get (gd_metadata x) key of Some (JStr s) \<Rightarrow> Some s | _ \<Rightarrow> None))"

definition register_long_running_service :: "'r api \<Rightarrow> long_service_request \<Rightarrow> principal \<Rightarrow> ('r world, long_service_record) op" where
  "register_long_running_service api request p =
     bind (service_definition api request) (\<lambda>(definition, worker).
     bind (project_for_request api p (lq_project_id request)) (\<lambda>project_id.
     let probe_path = normalize_probe_path (or_text (lq_probe_path request) (metadata_text definition ''probe_path''));
         base_url = or_text (lq_base_url request) (metadata_text definition ''base_url'') in
     if \<not> truthy_text base_url
     then throw (http_error 422 ''base_url is required unless the service metadata defines base_url'')
     else
     bind uuid4 (\<lambda>i.
     bind utc_now (\<lambda>now.
     let service = \<lparr>ls_id = i, ls_kind = (case definition of None \<Rightarrow> lq_kind request | Some d \<Rightarrow> gd_kind d),
           ls_project_id = project_id,
           ls_image = Some (case worker of Some wk \<Rightarrow> wi_image wk | None \<Rightarrow> or_else (lq_image request) (lq_kind request)),
           ls_base_url = strip_slashes (the base_url), ls_probe_path = probe_path, ls_status = SvcRegistered,
           ls_created_at = now, ls_created_by = pr_user_id p, ls_last_probe_at = None, ls_last_probe_json = None\<rparr> in
     bind (on_store (save_long_service service)) (\<lambda>_.
     bind (emit (ap_event_bus api) ''admin.service.registered'' SrcApi (no_args\<lparr>a_project_id := project_id,
             a_worker_id := Some i, a_payload := Some (JObj [(''kind'', JStr (ls_kind service)), (''base_url'', JStr (ls_base_url service)),
               (''probe_path'', JStr (ls_probe_path service)), (''image'', json_opt JStr (ls_image service))])\<rparr>)) (\<lambda>_.
     bind (audit ''service.registered'' ''success'' (Some p) project_id (Some ''long_service'') (Some i) None) (\<lambda>_.
     return service)))))))"

definition list_long_running_services :: "principal \<Rightarrow> ('r world, long_service_record list) op" where
  "list_long_running_services p = gets (\<lambda>w. list_long_services (w_db w) (pr_project_id p))"

definition get_long_running_service :: "'r api \<Rightarrow> string \<Rightarrow> principal \<Rightarrow> ('r world, long_service_record) op" where
  "get_long_running_service api service_id p =
     bind (gets (\<lambda>w. get_long_service (w_db w) service_id)) (\<lambda>found.
     case found of
       None \<Rightarrow> throw (http_error 404 (''long service not found: '' @ service_id))
     | Some service \<Rightarrow> bind (project_for_request api p (ls_project_id service)) (\<lambda>_. return service))"

definition probe_long_running_service :: "'r api \<Rightarrow> string \<Rightarrow> principal \<Rightarrow> ('r world, service_probe) op" where
  "probe_long_running_service api service_id p =
     bind (get_long_running_service api service_id p) (\<lambda>service.
     if ls_status service = SvcStopped then throw (http_error 409 (''long service is stopped: '' @ ls_id service))
     else
     bind (probe_long_service_record api service) (\<lambda>proof_doc.
     bind (audit ''service.probed'' ''success'' (Some p) (ls_project_id service) (Some ''long_service'') (Some (ls_id service))
             (Some (JObj [(''url'', JStr (pv_url proof_doc))]))) (\<lambda>_.
     return proof_doc)))"

fun service_status_text :: "long_service_status \<Rightarrow> string" where
  "service_status_text SvcRegistered = ''registered''"
| "service_status_text SvcRunning = ''running''"
| "service_status_text SvcFailed = ''failed''"
| "service_status_text SvcStopped = ''stopped''"

definition stopped_note :: "string \<Rightarrow> long_service_record \<Rightarrow> json" where
  "stopped_note message service =
     JObj [(''message'', JStr message), (''previous_status'', JStr (service_status_text (ls_status service)))]"

definition asserted :: "'a option \<Rightarrow> ('s, 'a) op" where
  "asserted v = (case v of None \<Rightarrow> throw (Raise AssertionError '''') | Some a \<Rightarrow> return a)"

definition stop_long_running_service :: "'r api \<Rightarrow> string \<Rightarrow> principal \<Rightarrow> ('r world, long_service_record) op" where
  "stop_long_running_service api service_id p =
     bind (get_long_running_service api service_id p) (\<lambda>service.
     if ls_status service = SvcStopped then return service
     else
     bind (on_store (update_long_service_status (ls_id service) SvcStopped
             (Some (stopped_note ''service stopped by King-side admin control'' service)))) (\<lambda>updated.
     bind (asserted updated) (\<lambda>stopped.
     bind (emit (ap_event_bus api) ''admin.service.stopped'' SrcApi (no_args\<lparr>a_project_id := ls_project_id service,
             a_worker_id := Some (ls_id service), a_payload := Some (JObj [(''kind'', JStr (ls_kind service)),
               (''base_url'', JStr (ls_base_url service))])\<rparr>)) (\<lambda>_.
     bind (audit ''service.stopped'' ''success'' (Some p) (ls_project_id service) (Some ''long_service'') (Some (ls_id service)) None) (\<lambda>_.
     return stopped)))))"

definition kill_long_running_service_runtime :: "'r api \<Rightarrow> string \<Rightarrow> principal \<Rightarrow> ('r world, runtime_termination) op" where
  "kill_long_running_service_runtime api service_id = admin_only (\<lambda>p.
     bind (get_long_running_service api service_id p) (\<lambda>service.
     bind (on_store (update_long_service_status (ls_id service) SvcStopped
             (Some (stopped_note ''service stopped by scoped runtime termination control'' service)))) (\<lambda>_.
     record_runtime_termination api p (ls_project_id service)
       \<lparr>rt_target_type = ''long_service'', rt_target_id = service_id, rt_runtime = TargetBoth,
        rt_killed = [''registered-service:'' @ service_id], rt_errors = [], rt_cancelled = True\<rparr>)))"

section \<open>Notebook services\<close>

record notebook_service_request =
  sv_kind :: string
  sv_source :: string
  sv_app_name :: string
  sv_requirements :: "string list"
  sv_display_name :: "string option"
  sv_image :: "string option"
  sv_project_id :: "string option"
  sv_port :: int
  sv_probe_path :: string
  sv_metadata :: json

text \<open>\<^verbatim>\<open>json.dumps(payload, sort_keys=True)\<close> of the three members, whose names are in order; the text is ASCII.\<close>

fun spaced_commas :: "string list \<Rightarrow> string" where
  "spaced_commas [] = ''''"
| "spaced_commas [x] = x"
| "spaced_commas (x # xs) = x @ '', '' @ spaced_commas xs"

definition service_source_text :: "string \<Rightarrow> string \<Rightarrow> string list \<Rightarrow> string" where
  "service_source_text source app_name requirements =
     ''{'' @ spaced_commas (map (\<lambda>(k, v). json_string k @ '': '' @ v)
       [(''app_name'', json_string app_name), (''requirements'', ''['' @ spaced_commas (map json_string requirements) @ '']''),
        (''source'', json_string source)]) @ ''}''"

definition notebook_service_source_hash :: "(string \<Rightarrow> string) \<Rightarrow> string \<Rightarrow> string \<Rightarrow> string list \<Rightarrow> string" where
  "notebook_service_source_hash sha256 source app_name requirements = sha256 (service_source_text source app_name requirements)"

definition create_notebook_service :: "'r api \<Rightarrow> notebook_service_request \<Rightarrow> principal \<Rightarrow> ('r world, notebook_service_record) op" where
  "create_notebook_service api request p =
     bind (forbid_viewer_write p) (\<lambda>_.
     bind (require_unregistered api (sv_kind request)) (\<lambda>_.
     bind (gets (\<lambda>w. get_notebook_goblin (w_db w) (sv_kind request))) (\<lambda>goblin.
     if goblin \<noteq> None then throw (http_error 409 (''notebook function goblin already exists: '' @ sv_kind request))
     else
     bind (project_for_request api p (sv_project_id request)) (\<lambda>project_id.
     bind utc_now (\<lambda>now.
     bind (gets (\<lambda>w. get_notebook_service (w_db w) (sv_kind request))) (\<lambda>existing.
     bind (case existing of
             None \<Rightarrow> return ()
           | Some old \<Rightarrow> bind (project_for_request api p (ns_project_id old)) (\<lambda>_.
               if ns_project_id old \<noteq> project_id
               then throw (http_error 409 ''notebook service kind already belongs to another project'')
               else if truthy_text (ns_active_service_id old) \<and> ns_runtime_status old = ''running''
               then throw (http_error 409 ''stop the notebook service before declaring new source'') else return ())) (\<lambda>_.
     bind (lift_result (validate_kind (sv_kind request))) (\<lambda>kind.
     let record = \<lparr>ns_kind = kind, ns_project_id = project_id, ns_display_name = or_else (sv_display_name request) kind,
           ns_image = or_else (sv_image request) (ap_service_image api), ns_source = sv_source request,
           ns_source_hash = notebook_service_source_hash (sh_sha256 (ap_host api)) (sv_source request) (sv_app_name request) (sv_requirements request),
           ns_app_name = sv_app_name request, ns_requirements = sv_requirements request, ns_port = sv_port request,
           ns_probe_path = normalize_probe_path (Some (sv_probe_path request)),
           ns_created_at = (case existing of None \<Rightarrow> now | Some old \<Rightarrow> ns_created_at old), ns_updated_at = now,
           ns_created_by = (case existing of None \<Rightarrow> pr_user_id p | Some old \<Rightarrow> ns_created_by old),
           ns_metadata = sv_metadata request, ns_runtime_backend = None, ns_runtime_name = None,
           ns_runtime_status = ''declared'', ns_active_service_id = None\<rparr> in
     bind (on_store (save_notebook_service record)) (\<lambda>_.
     bind (audit ''notebook_service.declared'' ''success'' (Some p) project_id (Some ''notebook_service'') (Some (ns_kind record))
             (Some (JObj [(''image'', JStr (ns_image record)), (''source_hash'', JStr (ns_source_hash record)),
               (''app_name'', JStr (ns_app_name record)), (''probe_path'', JStr (ns_probe_path record))]))) (\<lambda>_.
     return record))))))))))"

definition api_list_notebook_services :: "'r api \<Rightarrow> principal \<Rightarrow> ('r world, notebook_service_record list) op" where
  "api_list_notebook_services api p =
     bind (gets (\<lambda>w. list_notebook_services (w_db w) None)) (\<lambda>records. visible_records api p ns_project_id records)"

definition found_service :: "'r api \<Rightarrow> string \<Rightarrow> principal \<Rightarrow> ('r world, notebook_service_record) op" where
  "found_service api kind p =
     bind (forbid_viewer_write p) (\<lambda>_.
     bind (gets (\<lambda>w. get_notebook_service (w_db w) kind)) (\<lambda>found.
     case found of
       None \<Rightarrow> throw (http_error 404 (''notebook service not found: '' @ kind))
     | Some record \<Rightarrow> bind (project_for_request api p (ns_project_id record)) (\<lambda>_. return record)))"

text \<open>\<^verbatim>\<open>update_notebook_service_runtime\<close> at the current time; what a call leaves out becomes NULL.\<close>

definition set_runtime ::
  "string \<Rightarrow> string \<Rightarrow> string option \<Rightarrow> string option \<Rightarrow> string option \<Rightarrow> ('r world, notebook_service_record option) op" where
  "set_runtime kind status backend name service_id =
     bind utc_now (\<lambda>now. on_store (update_notebook_service_runtime kind status backend name service_id (Some now)))"

definition runtime_json :: "service_runtime \<Rightarrow> json" where
  "runtime_json r = JObj [(''backend'', JStr (sr_backend r)), (''name'', JStr (sr_name r)), (''base_url'', JStr (sr_base_url r)),
     (''probe'', json_opt id (sr_probe r))]"

definition audit_service ::
  "string \<Rightarrow> string \<Rightarrow> principal \<Rightarrow> notebook_service_record \<Rightarrow> json \<Rightarrow> ('r world, unit) op" where
  "audit_service action outcome p record detail =
     audit action outcome (Some p) (ns_project_id record) (Some ''notebook_service'') (Some (ns_kind record)) (Some detail)"

definition validate_notebook_service ::
  "'r api \<Rightarrow> string \<Rightarrow> int \<Rightarrow> principal \<Rightarrow> ('r world, notebook_service_record \<times> json) op" where
  "validate_notebook_service api kind timeout_seconds p =
     bind (found_service api kind p) (\<lambda>record.
     bind (sm_validate (ap_services api) record timeout_seconds) (\<lambda>validated.
     case validated of
       Inl message \<Rightarrow>
         bind (set_runtime (ns_kind record) ''failed'' None None None) (\<lambda>_.
         bind (audit_service ''notebook_service.validated'' ''failure'' p record
                 (JObj [(''error'', JStr message), (''source_hash'', JStr (ns_source_hash record))])) (\<lambda>_.
         throw (http_error 422 message)))
     | Inr runtime \<Rightarrow>
         bind (set_runtime (ns_kind record) ''validated'' None None None) (\<lambda>result.
         bind (asserted result) (\<lambda>updated.
         bind (audit_service ''notebook_service.validated'' ''success'' p updated
                 (JObj [(''runtime'', runtime_json runtime), (''source_hash'', JStr (ns_source_hash updated))])) (\<lambda>_.
         return (updated, runtime_json runtime))))))"

definition stop_existing_notebook_service_runtime :: "'r api \<Rightarrow> notebook_service_record \<Rightarrow> ('r world, unit) op" where
  "stop_existing_notebook_service_runtime api record =
     bind (if truthy_text (ns_active_service_id record)
           then bind (on_store (update_long_service_status (the (ns_active_service_id record)) SvcStopped
                  (Some (JObj [(''stopped_by'', JStr ''notebook_service.restart'')])))) (\<lambda>_. return ())
           else return ()) (\<lambda>_.
     if truthy_text (ns_runtime_backend record) \<and> truthy_text (ns_runtime_name record)
     then bind (sm_stop_by_backend (ap_services api) (the (ns_runtime_backend record)) (the (ns_runtime_name record))) (\<lambda>_.
          bind (set_runtime (ns_kind record) ''stopped'' None None None) (\<lambda>_. return ()))
     else return ())"

record started_service =
  st_notebook_service :: notebook_service_record
  st_probe :: service_probe
  st_runtime :: json

definition start_notebook_service :: "'r api \<Rightarrow> string \<Rightarrow> int \<Rightarrow> principal \<Rightarrow> ('r world, started_service) op" where
  "start_notebook_service api kind timeout_seconds p =
     bind (found_service api kind p) (\<lambda>record.
     bind (stop_existing_notebook_service_runtime api record) (\<lambda>_.
     bind (sm_start (ap_services api) record None timeout_seconds) (\<lambda>started.
     case started of
       Inl message \<Rightarrow>
         bind (set_runtime (ns_kind record) ''failed'' None None None) (\<lambda>_.
         bind (audit_service ''notebook_service.started'' ''failure'' p record
                 (JObj [(''error'', JStr message), (''source_hash'', JStr (ns_source_hash record))])) (\<lambda>_.
         throw (http_error 422 message)))
     | Inr runtime \<Rightarrow>
         bind uuid4 (\<lambda>i. bind utc_now (\<lambda>now.
         let service = \<lparr>ls_id = i, ls_kind = ns_kind record, ls_project_id = ns_project_id record, ls_image = Some (ns_image record),
               ls_base_url = strip_slashes (sr_base_url runtime), ls_probe_path = ns_probe_path record, ls_status = SvcRegistered,
               ls_created_at = now, ls_created_by = pr_user_id p, ls_last_probe_at = None, ls_last_probe_json = None\<rparr> in
         bind (on_store (save_long_service service)) (\<lambda>_.
         bind (set_runtime (ns_kind record) ''running'' (Some (sr_backend runtime)) (Some (sr_name runtime)) (Some i)) (\<lambda>result.
         bind (asserted result) (\<lambda>updated.
         bind (handle (probe_long_service_record api service) (\<lambda>e.
                 if is_http_error e
                 then bind (sm_stop_by_backend (ap_services api) (sr_backend runtime) (sr_name runtime)) (\<lambda>_.
                      bind (set_runtime (ns_kind record) ''failed'' (Some (sr_backend runtime)) (Some (sr_name runtime)) (Some i)) (\<lambda>_.
                      throw e))
                 else throw e)) (\<lambda>probe.
         bind (emit (ap_event_bus api) ''notebook.service.started'' SrcApi (no_args\<lparr>a_project_id := ns_project_id updated,
                 a_worker_id := Some i, a_payload := Some (JObj [(''kind'', JStr (ns_kind updated)), (''runtime'', runtime_json runtime),
                   (''probe_status'', json_opt JInt (hr_status_code (pv_response probe)))])\<rparr>)) (\<lambda>_.
         bind (audit_service ''notebook_service.started'' ''success'' p updated
                 (JObj [(''service_id'', JStr i), (''runtime'', runtime_json runtime)])) (\<lambda>_.
         return \<lparr>st_notebook_service = updated, st_probe = probe, st_runtime = runtime_json runtime\<rparr>)))))))))))"

text \<open>\<^verbatim>\<open>NotebookServiceRuntimeManager.stop\<close>.\<close>

definition stop_service_runtime :: "'r api \<Rightarrow> notebook_service_record \<Rightarrow> ('r world, json) op" where
  "stop_service_runtime api record =
     (if \<not> truthy_text (ns_runtime_backend record) \<or> \<not> truthy_text (ns_runtime_name record)
      then return (JObj [(''backend'', JNull), (''name'', JNull), (''stopped'', JBool False), (''detail'', JStr ''no runtime'')])
      else bind (sm_stop_by_backend (ap_services api) (the (ns_runtime_backend record)) (the (ns_runtime_name record))) (\<lambda>_.
           return (JObj [(''backend'', json_opt JStr (ns_runtime_backend record)), (''name'', json_opt JStr (ns_runtime_name record)),
             (''stopped'', JBool True)])))"

definition stop_active_service :: "notebook_service_record \<Rightarrow> string \<Rightarrow> ('r world, long_service_record option) op" where
  "stop_active_service record stopped_by =
     (if truthy_text (ns_active_service_id record)
      then on_store (update_long_service_status (the (ns_active_service_id record)) SvcStopped
             (Some (JObj [(''stopped_by'', JStr stopped_by)])))
      else return None)"

record stopped_service =
  sp_notebook_service :: notebook_service_record
  sp_service :: "long_service_record option"
  sp_runtime :: json

definition stop_notebook_service :: "'r api \<Rightarrow> string \<Rightarrow> principal \<Rightarrow> ('r world, stopped_service) op" where
  "stop_notebook_service api kind p =
     bind (found_service api kind p) (\<lambda>record.
     bind (stop_service_runtime api record) (\<lambda>runtime.
     bind (stop_active_service record ''notebook_service.stop'') (\<lambda>service.
     bind (set_runtime (ns_kind record) ''stopped'' None None None) (\<lambda>result.
     bind (asserted result) (\<lambda>updated.
     bind (audit_service ''notebook_service.stopped'' ''success'' p updated runtime) (\<lambda>_.
     return \<lparr>sp_notebook_service = updated, sp_service = service, sp_runtime = runtime\<rparr>))))))"

end
