(* ===== verification/Api_Repository.thy ===== *)
theory Api_Repository
  imports Api_Notebooks Store_Repository
begin

text \<open>
  The function repository of the HTTP API, \<^verbatim>\<open>src/src/goblin_king/api.py\<close>: submission of a version,
  validation, review, publication, retirement, deletion, and running a published function by name.
  Project ids are text over the code points below 256. The theorems: the runtime kinds are kinds and name their version; no
  request of a principal without the admin role approves or publishes anything; a function run by
  name is a published version of the caller's project. Two further theorems show what the review does
  not cover: a member can submit an unreviewed version by its kind, and can replace the source of a
  published one.
\<close>

section \<open>Kinds\<close>

fun replace_dashes :: "string \<Rightarrow> string" where
  "replace_dashes (a # b # s) =
     (if a = CHR ''-'' \<and> b = CHR ''-'' then CHR ''-'' # replace_dashes s else a # replace_dashes (b # s))"
| "replace_dashes s = s"

lemma replace_dashes_shorter: "has_infix ''--'' s \<Longrightarrow> length (replace_dashes s) < length s"
  and replace_dashes_le: "length (replace_dashes s) \<le> length s"
proof -
  have le: "length (replace_dashes s) \<le> length s" for s by (induction s rule: replace_dashes.induct) auto
  then show "length (replace_dashes s) \<le> length s" .
  show "has_infix ''--'' s \<Longrightarrow> length (replace_dashes s) < length s"
    using le by (induction s rule: replace_dashes.induct) (auto simp: le_imp_less_Suc)
qed

function squeeze_dashes :: "string \<Rightarrow> string" where
  "squeeze_dashes s = (if has_infix ''--'' s then squeeze_dashes (replace_dashes s) else s)"
  by pat_completeness auto
termination by (relation "measure length") (auto dest: replace_dashes_shorter)

declare squeeze_dashes.simps [simp del]

definition strip_dashes :: "string \<Rightarrow> string" where
  "strip_dashes s = rev (dropWhile (\<lambda>c. c = CHR ''-'') (rev (dropWhile (\<lambda>c. c = CHR ''-'') s)))"

text \<open>
  \<^verbatim>\<open>str.isalnum()\<close> and \<^verbatim>\<open>str.lower()\<close> of one character, over the code points below 256: the ordinals, the
  superscripts, the fractions and the accented letters are alphanumeric too.
\<close>

definition code_point :: "char \<Rightarrow> nat" where
  "code_point c = of_char c"

definition char_isalnum :: "char \<Rightarrow> bool" where
  "char_isalnum c = list_ex (\<lambda>(first, final). first \<le> code_point c \<and> code_point c \<le> final)
     [(48, 57), (65, 90), (97, 122), (170, 170), (178, 179), (181, 181), (185, 186), (188, 190), (192, 214), (216, 246), (248, 255)]"

definition char_lower :: "char \<Rightarrow> char" where
  "char_lower c =
     (if list_ex (\<lambda>(first, final). first \<le> code_point c \<and> code_point c \<le> final) [(65, 90), (192, 214), (216, 222)]
      then char_of (code_point c + 32) else c)"

definition repository_kind_part :: "string option \<Rightarrow> string" where
  "repository_kind_part v =
     (let cleaned = map (\<lambda>c. if char_isalnum c then c else CHR ''-'') (map char_lower (or_else v ''global''));
          part = squeeze_dashes (strip_dashes cleaned) in
      if part = '''' then ''global'' else part)"

definition repository_entry_kind :: "string option \<Rightarrow> string \<Rightarrow> string" where
  "repository_entry_kind project_id name = ''repository.'' @ repository_kind_part project_id @ ''.'' @ name"

definition repository_version_kind :: "string option \<Rightarrow> string \<Rightarrow> int \<Rightarrow> string" where
  "repository_version_kind project_id name version = repository_entry_kind project_id name @ ''.v'' @ str_int version"

section \<open>Guards\<close>

definition require_repository_enabled :: "'r api \<Rightarrow> ('r world, unit) op" where
  "require_repository_enabled api =
     (if ap_repository_enabled api then return () else throw (http_error 404 ''repository service is not enabled''))"

definition owner_or_admin :: "principal \<Rightarrow> repository_entry_record \<Rightarrow> bool" where
  "owner_or_admin p entry \<longleftrightarrow> pr_role p = RoleAdmin \<or> re_owner entry = pr_user_id p"

definition require_repository_owner_or_admin :: "principal \<Rightarrow> repository_entry_record \<Rightarrow> ('r world, unit) op" where
  "require_repository_owner_or_admin p entry =
     (if owner_or_admin p entry then return () else throw (http_error 403 ''repository entry owner or admin required''))"

definition repository_latest_version :: "repository_entry_record \<Rightarrow> repository_version_record list \<Rightarrow> repository_version_record result" where
  "repository_latest_version entry versions =
     (if versions = [] then Inl (http_error 404 (''repository entry has no versions: '' @ re_id entry)) else Inr (last versions))"

definition repository_requested_version ::
  "repository_entry_record \<Rightarrow> int option \<Rightarrow> db \<Rightarrow> repository_version_record result" where
  "repository_requested_version entry version d =
     (case version of
        Some v \<Rightarrow> (case get_repository_version d (re_id entry) v of
            None \<Rightarrow> Inl (http_error 404 (''repository version not found: '' @ re_id entry @ '':'' @ str_int v))
          | Some record \<Rightarrow> Inr record)
      | None \<Rightarrow> repository_latest_version entry (list_repository_versions d (re_id entry) None))"

record entry_detail =
  ed_entry :: repository_entry_record
  ed_versions :: "repository_version_record list"

definition repository_entry_detail :: "repository_entry_record \<Rightarrow> ('r world, entry_detail) op" where
  "repository_entry_detail entry = gets (\<lambda>w.
     \<lparr>ed_entry = entry, ed_versions = list_repository_versions (w_db w) (re_id entry) None\<rparr>)"

text \<open>The entry of a route, in a project the caller may access.\<close>

definition found_entry :: "'r api \<Rightarrow> string \<Rightarrow> principal \<Rightarrow> ('r world, repository_entry_record) op" where
  "found_entry api entry_id p =
     bind (require_repository_enabled api) (\<lambda>_.
     bind (gets (\<lambda>w. get_repository_entry (w_db w) entry_id)) (\<lambda>found.
     case found of
       None \<Rightarrow> throw (http_error 404 (''repository entry not found: '' @ entry_id))
     | Some entry \<Rightarrow> bind (project_for_request api p (re_project_id entry)) (\<lambda>_. return entry)))"

definition requested_version :: "repository_entry_record \<Rightarrow> int option \<Rightarrow> ('r world, repository_version_record) op" where
  "requested_version entry version = on_store (\<lambda>d. (repository_requested_version entry version d, d))"

definition refreshed_entry :: "string \<Rightarrow> ('r world, repository_entry_record) op" where
  "refreshed_entry entry_id = bind (gets (\<lambda>w. get_repository_entry (w_db w) entry_id)) asserted"

definition audit_entry ::
  "string \<Rightarrow> string \<Rightarrow> principal \<Rightarrow> string option \<Rightarrow> string \<Rightarrow> json \<Rightarrow> ('r world, unit) op" where
  "audit_entry action outcome p project_id entry_id detail =
     audit action outcome (Some p) project_id (Some ''repository_entry'') (Some entry_id) (Some detail)"

section \<open>Submission\<close>

record repository_submit_request =
  rs_name :: string
  rs_type :: repository_goblin_type
  rs_source :: string
  rs_display_name :: "string option"
  rs_description :: "string option"
  rs_tags :: "string list"
  rs_project_id :: "string option"
  rs_image :: "string option"
  rs_function_name :: string
  rs_timeout_seconds :: "int option"
  rs_max_retries :: int
  rs_app_name :: string
  rs_requirements :: "string list"
  rs_port :: int
  rs_probe_path :: string
  rs_metadata :: json

fun goblin_type_text :: "repository_goblin_type \<Rightarrow> string" where
  "goblin_type_text NotebookFunction = ''notebook_function''"
| "goblin_type_text NotebookService = ''notebook_service''"

definition new_entry ::
  "string \<Rightarrow> repository_submit_request \<Rightarrow> string option \<Rightarrow> principal \<Rightarrow> datetime \<Rightarrow> repository_entry_record result" where
  "new_entry i request project_id p now =
     bind_result (validate_identifier (rs_name request)) (\<lambda>name.
     bind_result (validate_identifier (repository_entry_kind project_id (rs_name request))) (\<lambda>kind.
     if pr_user_id p = '''' then Inl (Raise ValidationError ''owner'')
     else Inr \<lparr>re_id = i, re_name = name, re_kind = kind, re_type = rs_type request, re_project_id = project_id,
       re_owner = pr_user_id p, re_display_name = or_else (rs_display_name request) (rs_name request),
       re_description = rs_description request, re_tags = rs_tags request, re_status = Draft, re_published_version = None,
       re_created_at = now, re_updated_at = now\<rparr>))"

text \<open>The entry that receives the version: the existing one, updated, or a new one.\<close>

definition submitted_entry ::
  "'r api \<Rightarrow> repository_submit_request \<Rightarrow> string option \<Rightarrow> datetime \<Rightarrow> principal \<Rightarrow> ('r world, repository_entry_record \<times> int) op" where
  "submitted_entry api request project_id now p =
     bind (gets (\<lambda>w. get_repository_entry_by_project_name (w_db w) project_id (rs_name request) False)) (\<lambda>existing.
     case existing of
       Some old \<Rightarrow>
         bind (project_for_request api p (re_project_id old)) (\<lambda>_.
         bind (require_repository_owner_or_admin p old) (\<lambda>_.
         if re_type old \<noteq> rs_type request
         then throw (http_error 409 ''repository entry already exists with a different type'')
         else
         bind (on_store (update_repository_entry (old\<lparr>re_display_name := or_else (rs_display_name request) (re_display_name old),
                 re_description := rs_description request, re_tags := rs_tags request, re_updated_at := now\<rparr>))) (\<lambda>entry.
         bind (on_store (\<lambda>d. (repository_latest_version entry (list_repository_versions d (re_id entry) None), d))) (\<lambda>latest.
         return (entry, rv_version latest + 1)))))
     | None \<Rightarrow>
         bind uuid4 (\<lambda>i.
         bind (lift_result (new_entry i request project_id p now)) (\<lambda>entry0.
         bind (on_store (create_repository_entry entry0)) (\<lambda>entry.
         return (entry, 1)))))"

text \<open>The notebook record that holds the source of the version: the hash and the image it is run with.\<close>

definition version_metadata :: "repository_submit_request \<Rightarrow> repository_entry_record \<Rightarrow> int \<Rightarrow> json" where
  "version_metadata request entry version = obj_merge (rs_metadata request) (JObj [(''repository_entry_id'', JStr (re_id entry)),
     (''repository_name'', JStr (re_name entry)), (''repository_version'', JInt version)])"

definition save_version_source ::
  "'r api \<Rightarrow> repository_submit_request \<Rightarrow> repository_entry_record \<Rightarrow> string option \<Rightarrow> string \<Rightarrow> int \<Rightarrow> datetime \<Rightarrow> principal \<Rightarrow>
   ('r world, string \<times> string) op" where
  "save_version_source api request entry project_id version_kind version now p =
     (let sha = sh_sha256 (ap_host api); metadata = version_metadata request entry version;
          display_name = or_else (rs_display_name request) (re_display_name entry) in
      case rs_type request of
        NotebookFunction \<Rightarrow>
          (let source_hash = notebook_source_hash sha (rs_source request) (rs_function_name request);
               image = or_else (rs_image request) (ap_function_image api) in
           bind (lift_result (validate_kind version_kind)) (\<lambda>kind.
           bind (on_store (save_notebook_goblin \<lparr>ng_kind = kind, ng_project_id = project_id, ng_display_name = display_name,
                   ng_image = image, ng_source = rs_source request, ng_source_hash = source_hash,
                   ng_function_name = rs_function_name request, ng_timeout_seconds = rs_timeout_seconds request,
                   ng_max_retries = rs_max_retries request, ng_created_at = now, ng_updated_at = now, ng_created_by = pr_user_id p,
                   ng_metadata = metadata\<rparr>)) (\<lambda>_.
           return (source_hash, image))))
      | NotebookService \<Rightarrow>
          (let source_hash = notebook_service_source_hash sha (rs_source request) (rs_app_name request) (rs_requirements request);
               image = or_else (rs_image request) (ap_service_image api) in
           bind (lift_result (validate_kind version_kind)) (\<lambda>kind.
           bind (on_store (save_notebook_service \<lparr>ns_kind = kind, ns_project_id = project_id, ns_display_name = display_name,
                   ns_image = image, ns_source = rs_source request, ns_source_hash = source_hash, ns_app_name = rs_app_name request,
                   ns_requirements = rs_requirements request, ns_port = rs_port request,
                   ns_probe_path = normalize_probe_path (Some (rs_probe_path request)), ns_created_at = now, ns_updated_at = now,
                   ns_created_by = pr_user_id p, ns_metadata = metadata, ns_runtime_backend = None, ns_runtime_name = None,
                   ns_runtime_status = ''declared'', ns_active_service_id = None\<rparr>)) (\<lambda>_.
           return (source_hash, image)))))"

definition draft_version :: "string \<Rightarrow> string \<Rightarrow> int \<Rightarrow> string \<Rightarrow> string \<times> string \<Rightarrow> datetime \<Rightarrow> repository_version_record result" where
  "draft_version i entry_id version kind src now =
     bind_result (validate_kind kind) (\<lambda>k.
     if fst src = '''' \<or> snd src = '''' \<or> version \<le> 0 then Inl (Raise ValidationError ''version'')
     else Inr \<lparr>rv_id = i, rv_entry_id = entry_id, rv_version = version, rv_kind = k, rv_source_hash = fst src,
       rv_runner_image = snd src, rv_validation_proof = JObj [], rv_approval_status = Draft, rv_status = Draft,
       rv_approved_by = None, rv_approved_at = None, rv_published_at = None, rv_created_at = now, rv_updated_at = now\<rparr>)"

definition submit_repository_entry ::
  "'r api \<Rightarrow> repository_submit_request \<Rightarrow> principal \<Rightarrow> ('r world, repository_entry_record \<times> repository_version_record) op" where
  "submit_repository_entry api request p =
     bind (require_repository_enabled api) (\<lambda>_.
     bind (forbid_viewer_write p) (\<lambda>_.
     bind (project_for_request api p (rs_project_id request)) (\<lambda>project_id.
     bind utc_now (\<lambda>now.
     bind (submitted_entry api request project_id now p) (\<lambda>(entry, next_version).
     let version_kind = repository_version_kind project_id (re_name entry) next_version in
     bind (save_version_source api request entry project_id version_kind next_version now p) (\<lambda>src.
     bind (handle
            (bind uuid4 (\<lambda>i. bind (lift_result (draft_version i (re_id entry) next_version version_kind src now)) (\<lambda>v.
             on_store (create_repository_version v))))
            (\<lambda>e. if is_value_error e then throw (http_error 409 (error_message e)) else throw e)) (\<lambda>version.
     bind (refreshed_entry (re_id entry)) (\<lambda>refreshed.
     bind (audit_entry ''repository.submit'' ''success'' p project_id (re_id entry)
             (JObj [(''name'', JStr (re_name entry)), (''type'', JStr (goblin_type_text (re_type entry))),
               (''version'', JInt (rv_version version)), (''kind'', JStr (rv_kind version)),
               (''source_hash'', JStr (rv_source_hash version))])) (\<lambda>_.
     return (refreshed, version))))))))))"

section \<open>Discovery\<close>

fun entry_status_text :: "repository_entry_status \<Rightarrow> string" where
  "entry_status_text Draft = ''draft''"
| "entry_status_text Validated = ''validated''"
| "entry_status_text PendingReview = ''pending_review''"
| "entry_status_text Approved = ''approved''"
| "entry_status_text Published = ''published''"
| "entry_status_text Rejected = ''rejected''"
| "entry_status_text Retired = ''retired''"

definition entry_status_named :: "string \<Rightarrow> repository_entry_status option" where
  "entry_status_named s = List.find (\<lambda>x. entry_status_text x = s)
     [Draft, Validated, PendingReview, Approved, Published, Rejected, Retired]"

definition goblin_type_named :: "string \<Rightarrow> repository_goblin_type option" where
  "goblin_type_named s = List.find (\<lambda>x. goblin_type_text x = s) [NotebookFunction, NotebookService]"

text \<open>Status and type are any text of the query; one that is no status or no type selects nothing.\<close>

definition entries_with ::
  "db \<Rightarrow> string option \<Rightarrow> string option \<Rightarrow> string option \<Rightarrow> repository_entry_record list" where
  "entries_with d project_id status entry_type =
     (let wanted = (\<lambda>s t. list_repository_entries d project_id s t False);
          of_status = (\<lambda>t. case status of None \<Rightarrow> wanted None t
             | Some x \<Rightarrow> (case entry_status_named x of None \<Rightarrow> [] | Some s \<Rightarrow> wanted (Some s) t)) in
      case entry_type of
        None \<Rightarrow> of_status None
      | Some x \<Rightarrow> (case goblin_type_named x of None \<Rightarrow> [] | Some t \<Rightarrow> of_status (Some t)))"

definition entry_mentions :: "string \<Rightarrow> repository_entry_record \<Rightarrow> bool" where
  "entry_mentions query entry \<longleftrightarrow>
     has_infix query (py_lower (re_name entry)) \<or> has_infix query (py_lower (re_display_name entry)) \<or>
     (\<exists>tag \<in> set (re_tags entry). has_infix query tag) \<or>
     (case re_description entry of None \<Rightarrow> False | Some t \<Rightarrow> has_infix query (py_lower t))"

definition entry_visible :: "principal \<Rightarrow> repository_entry_record \<Rightarrow> bool" where
  "entry_visible p entry \<longleftrightarrow> re_status entry = Published \<or> owner_or_admin p entry"

definition entry_query :: "string option \<Rightarrow> string" where
  "entry_query q = py_lower (py_strip (or_else q ''''))"

definition api_list_repository_entries ::
  "'r api \<Rightarrow> int \<Rightarrow> int \<Rightarrow> string option \<Rightarrow> string option \<Rightarrow> string option \<Rightarrow> string option \<Rightarrow> principal \<Rightarrow>
   ('r world, entry_detail page_response) op" where
  "api_list_repository_entries api limit offset project_id entry_type status q p =
     bind (lift_result (valid_page limit offset)) (\<lambda>_.
     bind (require_repository_enabled api) (\<lambda>_.
     bind (project_for_request api p project_id) (\<lambda>scoped_project.
     let requested_status = (if status = Some ''all'' then None else status); query = entry_query q in
     bind (gets (\<lambda>w. entries_with (w_db w) scoped_project requested_status entry_type)) (\<lambda>entries.
     let found = (if query = '''' then entries else filter (entry_mentions query) entries) in
     bind (gets (\<lambda>w. map (\<lambda>e. \<lparr>ed_entry = e, ed_versions = list_repository_versions (w_db w) (re_id e) None\<rparr>)
            (filter (entry_visible p) found))) (\<lambda>visible.
     return (page_of limit offset (take (nat limit) (drop (nat offset) visible))))))))"

definition api_get_repository_entry :: "'r api \<Rightarrow> string \<Rightarrow> principal \<Rightarrow> ('r world, entry_detail) op" where
  "api_get_repository_entry api entry_id p =
     bind (found_entry api entry_id p) (\<lambda>entry.
     bind (if re_status entry \<noteq> Published then require_repository_owner_or_admin p entry else return ()) (\<lambda>_.
     repository_entry_detail entry))"

section \<open>Validation and review\<close>

definition move_args :: "datetime \<Rightarrow> transition_args" where
  "move_args now = \<lparr>ta_updated_at = now, ta_validation_proof = None, ta_approved_by = None, ta_approved_at = None, ta_published_at = None\<rparr>"

text \<open>A transition at the current time, with the optional arguments of the call.\<close>

definition move_version ::
  "repository_entry_record \<Rightarrow> repository_version_record \<Rightarrow> repository_entry_status \<Rightarrow> (transition_args \<Rightarrow> transition_args) \<Rightarrow>
   ('r world, repository_version_record) op" where
  "move_version entry version status args =
     bind utc_now (\<lambda>now. on_store (transition_repository_version_status (re_id entry) (rv_version version) status (args (move_args now))))"

definition service_validation ::
  "'r api \<Rightarrow> notebook_service_record \<Rightarrow> int \<Rightarrow> ('r world, bool \<times> json) op" where
  "service_validation api record timeout_seconds =
     bind (sm_validate (ap_services api) record timeout_seconds) (\<lambda>validated.
     case validated of
       Inl message \<Rightarrow> return (False, JObj [(''ok'', JBool False), (''error'', JStr message)])
     | Inr runtime \<Rightarrow>
         bind (set_runtime (ns_kind record) ''validated'' None None None) (\<lambda>_.
         return (True, JObj [(''ok'', JBool True), (''runtime'', runtime_json runtime)])))"

definition version_validation ::
  "'r api \<Rightarrow> repository_entry_record \<Rightarrow> repository_version_record \<Rightarrow> validate_request \<Rightarrow> ('r world, bool \<times> json) op" where
  "version_validation api entry source_version request =
     (case re_type entry of
        NotebookFunction \<Rightarrow>
          bind (gets (\<lambda>w. get_notebook_goblin (w_db w) (rv_kind source_version))) (\<lambda>found.
          case found of
            None \<Rightarrow> throw (http_error 500 (''repository notebook goblin missing: '' @ rv_kind source_version))
          | Some record \<Rightarrow> bind (recorded_validation api record request) (\<lambda>result. return (vr_ok result, ap_validation_dump api result)))
      | NotebookService \<Rightarrow>
          bind (gets (\<lambda>w. get_notebook_service (w_db w) (rv_kind source_version))) (\<lambda>found.
          case found of
            None \<Rightarrow> throw (http_error 500 (''repository notebook service missing: '' @ rv_kind source_version))
          | Some record \<Rightarrow> service_validation api record
              (case vq_timeout_seconds request of None \<Rightarrow> 120 | Some t \<Rightarrow> if t = 0 then 120 else t)))"

definition version_proof :: "repository_version_record \<Rightarrow> json \<Rightarrow> json" where
  "version_proof version proof_doc = JObj [(''version'', JInt (rv_version version)), (''proof'', proof_doc)]"

definition validate_repository_entry ::
  "'r api \<Rightarrow> string \<Rightarrow> validate_request \<Rightarrow> int option \<Rightarrow> principal \<Rightarrow>
   ('r world, repository_entry_record \<times> repository_version_record \<times> json) op" where
  "validate_repository_entry api entry_id request version p =
     bind (require_repository_enabled api) (\<lambda>_.
     bind (forbid_viewer_write p) (\<lambda>_.
     bind (found_entry api entry_id p) (\<lambda>entry.
     bind (require_repository_owner_or_admin p entry) (\<lambda>_.
     bind (requested_version entry version) (\<lambda>source_version.
     bind (version_validation api entry source_version request) (\<lambda>(ok, proof_doc).
     if \<not> ok
     then bind (audit_entry ''repository.validate'' ''failure'' p (re_project_id entry) (re_id entry) (version_proof source_version proof_doc)) (\<lambda>_.
          throw (http_error 422 ''validation failed''))
     else
     bind (move_version entry source_version Validated (\<lambda>a. a\<lparr>ta_validation_proof := Some proof_doc\<rparr>)) (\<lambda>updated_version.
     bind (refreshed_entry (re_id entry)) (\<lambda>updated_entry.
     bind (audit_entry ''repository.validate'' ''success'' p (re_project_id entry) (re_id entry) (version_proof updated_version proof_doc)) (\<lambda>_.
     return (updated_entry, updated_version, proof_doc))))))))))"

definition noted :: "int option \<Rightarrow> string option \<Rightarrow> json" where
  "noted version note = JObj ((case version of None \<Rightarrow> [] | Some v \<Rightarrow> [(''version'', JInt v)]) @ [(''note'', json_opt JStr note)])"

text \<open>What the four routes that move one version share after their guards.\<close>

definition reviewed ::
  "string \<Rightarrow> principal \<Rightarrow> repository_entry_record \<Rightarrow> (repository_version_record \<Rightarrow> json) \<Rightarrow> ('r world, repository_version_record) op \<Rightarrow>
   ('r world, entry_detail) op" where
  "reviewed action p entry detail move =
     bind move (\<lambda>updated.
     bind (audit_entry action ''success'' p (re_project_id entry) (re_id entry) (detail updated)) (\<lambda>_.
     bind (refreshed_entry (re_id entry)) (\<lambda>refreshed. repository_entry_detail refreshed)))"

definition request_repository_review ::
  "'r api \<Rightarrow> string \<Rightarrow> string option \<Rightarrow> int option \<Rightarrow> principal \<Rightarrow> ('r world, entry_detail) op" where
  "request_repository_review api entry_id note version p =
     bind (found_entry api entry_id p) (\<lambda>entry.
     bind (require_repository_owner_or_admin p entry) (\<lambda>_.
     bind (requested_version entry version) (\<lambda>source_version.
     if rv_status source_version \<noteq> Validated then throw (http_error 409 ''repository version must be validated'')
     else reviewed ''repository.review_requested'' p entry (\<lambda>v. noted (Some (rv_version v)) note)
            (move_version entry source_version PendingReview (\<lambda>a. a)))))"

definition approve_repository_entry ::
  "'r api \<Rightarrow> string \<Rightarrow> string option \<Rightarrow> int option \<Rightarrow> principal \<Rightarrow> ('r world, entry_detail) op" where
  "approve_repository_entry api entry_id note version = admin_only (\<lambda>p.
     bind (found_entry api entry_id p) (\<lambda>entry.
     bind (requested_version entry version) (\<lambda>source_version.
     if rv_status source_version \<noteq> PendingReview then throw (http_error 409 ''repository version must be pending review'')
     else reviewed ''repository.approve'' p entry (\<lambda>v. noted (Some (rv_version v)) note)
            (move_version entry source_version Approved (\<lambda>a. a\<lparr>ta_approved_by := Some (pr_user_id p)\<rparr>)))))"

definition reject_repository_entry ::
  "'r api \<Rightarrow> string \<Rightarrow> string option \<Rightarrow> int option \<Rightarrow> principal \<Rightarrow> ('r world, entry_detail) op" where
  "reject_repository_entry api entry_id note version = admin_only (\<lambda>p.
     bind (found_entry api entry_id p) (\<lambda>entry.
     bind (requested_version entry version) (\<lambda>source_version.
     reviewed ''repository.reject'' p entry (\<lambda>v. noted (Some (rv_version v)) note)
       (move_version entry source_version Rejected (\<lambda>a. a)))))"

definition publish_repository_entry :: "'r api \<Rightarrow> string \<Rightarrow> int option \<Rightarrow> principal \<Rightarrow> ('r world, entry_detail) op" where
  "publish_repository_entry api entry_id version = admin_only (\<lambda>p.
     bind (found_entry api entry_id p) (\<lambda>entry.
     bind (requested_version entry version) (\<lambda>source_version.
     if rv_status source_version \<noteq> Approved then throw (http_error 409 ''repository version must be approved'')
     else reviewed ''repository.publish'' p entry (\<lambda>v. JObj [(''version'', JInt (rv_version v))])
            (move_version entry source_version Published
               (\<lambda>a. a\<lparr>ta_approved_by := rv_approved_by source_version, ta_approved_at := rv_approved_at source_version\<rparr>)))))"

section \<open>Retirement and deletion\<close>

definition retire_repository_entry :: "'r api \<Rightarrow> string \<Rightarrow> string option \<Rightarrow> principal \<Rightarrow> ('r world, entry_detail) op" where
  "retire_repository_entry api entry_id note = admin_only (\<lambda>p.
     bind (found_entry api entry_id p) (\<lambda>entry.
     bind utc_now (\<lambda>now.
     bind (on_store (transition_repository_entry_status (re_id entry) Retired now None)) (\<lambda>updated.
     bind (audit_entry ''repository.retire'' ''success'' p (re_project_id entry) (re_id entry) (noted None note)) (\<lambda>_.
     repository_entry_detail updated)))))"

definition running_service :: "db \<Rightarrow> repository_version_record \<Rightarrow> bool" where
  "running_service d version \<longleftrightarrow>
     (case get_notebook_service d (rv_kind version) of None \<Rightarrow> False | Some record \<Rightarrow> truthy_text (ns_active_service_id record))"

definition api_delete_repository_entry :: "'r api \<Rightarrow> string \<Rightarrow> principal \<Rightarrow> ('r world, deletion_report) op" where
  "api_delete_repository_entry api entry_id = admin_only (\<lambda>p.
     bind (found_entry api entry_id p) (\<lambda>entry.
     if re_status entry \<notin> {Draft, Rejected, Retired}
     then throw (http_error 409 ''repository entry must be draft, rejected, or retired before permanent deletion; retire published entries first'')
     else
     bind (gets (\<lambda>w. re_type entry = NotebookService \<and>
            (\<exists>v \<in> set (list_repository_versions (w_db w) (re_id entry) None). running_service (w_db w) v))) (\<lambda>running.
     if running then throw (http_error 409 ''repository service is still running; stop it before deleting'')
     else
     bind (handle (on_store (delete_repository_entry (re_id entry)))
            (\<lambda>e. if is_value_error e then throw (http_error 409 (error_message e)) else throw e)) (\<lambda>deleted.
     bind (audit_entry ''repository.delete'' ''success'' p (re_project_id entry) (re_id entry)
             (JObj [(''name'', JStr (re_name entry)), (''status'', JStr (entry_status_text (re_status entry))),
               (''deleted_versions'', JInt (int (deleted_versions deleted))),
               (''deleted_notebook_records'', JInt (int (deleted_notebook_records deleted)))])) (\<lambda>_.
     return deleted)))))"

section \<open>Running by name\<close>

definition published_version ::
  "repository_entry_record \<Rightarrow> string \<Rightarrow> int option \<Rightarrow> db \<Rightarrow> repository_version_record result" where
  "published_version entry name version d =
     (case or_int version (re_published_version entry) of
        None \<Rightarrow>
          (let published = filter (\<lambda>v. rv_status v = Published) (list_repository_versions d (re_id entry) None) in
           if published = [] then Inl (http_error 409 (''repository entry has no published version: '' @ name)) else Inr (last published))
      | Some n \<Rightarrow>
          (case get_repository_version d (re_id entry) n of
             None \<Rightarrow> Inl (http_error 404 (''repository version not found: '' @ name @ '':'' @ str_int n))
           | Some v \<Rightarrow> if rv_status v \<noteq> Published
               then Inl (http_error 409 (''repository version is not published: '' @ name @ '':'' @ str_int n)) else Inr v))"

definition resolve_published_repository_version ::
  "'r api \<Rightarrow> string \<Rightarrow> repository_goblin_type \<Rightarrow> principal \<Rightarrow> string option \<Rightarrow> int option \<Rightarrow>
   ('r world, repository_entry_record \<times> repository_version_record) op" where
  "resolve_published_repository_version api name expected_type p project_id version =
     bind (require_repository_enabled api) (\<lambda>_.
     bind (project_for_request api p project_id) (\<lambda>scoped_project.
     bind (gets (\<lambda>w. get_repository_entry_by_project_name (w_db w) scoped_project name False)) (\<lambda>found.
     case found of
       None \<Rightarrow> throw (http_error 404 (''published repository entry not found: '' @ name))
     | Some entry \<Rightarrow>
         if re_type entry \<noteq> expected_type
         then throw (http_error 409 (''repository entry is '' @ goblin_type_text (re_type entry) @ '', not '' @ goblin_type_text expected_type))
         else bind (on_store (\<lambda>d. (published_version entry name version d, d))) (\<lambda>v. return (entry, v)))))"

record repository_run_request =
  fn_input :: json
  fn_project_id :: "string option"
  fn_version :: "int option"
  fn_priority :: int
  fn_correlation_id :: "string option"
  fn_max_retries :: int
  fn_timeout_seconds :: "int option"

definition run_job_request :: "repository_run_request \<Rightarrow> repository_entry_record \<Rightarrow> repository_version_record \<Rightarrow> job_create_request" where
  "run_job_request request entry version =
     \<lparr>jq_kind = rv_kind version, jq_input = fn_input request, jq_priority = fn_priority request,
      jq_project_id = re_project_id entry, jq_correlation_id = fn_correlation_id request,
      jq_max_retries = fn_max_retries request, jq_timeout_seconds = fn_timeout_seconds request\<rparr>"

definition run_repository_function ::
  "'r api \<Rightarrow> string \<Rightarrow> repository_run_request \<Rightarrow> principal \<Rightarrow>
   ('r world, repository_entry_record \<times> repository_version_record \<times> job_record) op" where
  "run_repository_function api name request p =
     bind (resolve_published_repository_version api name NotebookFunction p (fn_project_id request) (fn_version request)) (\<lambda>(entry, version).
     bind (gets (\<lambda>w. get_notebook_goblin (w_db w) (rv_kind version))) (\<lambda>record.
     if record = None then throw (http_error 500 (''repository notebook goblin missing: '' @ rv_kind version))
     else
     bind (queue_job api p (run_job_request request entry version) (Some (entry, version))) (\<lambda>job.
     bind (audit_entry ''repository.run'' ''success'' p (re_project_id entry) (re_id entry)
             (JObj [(''name'', JStr (re_name entry)), (''version'', JInt (rv_version version)), (''kind'', JStr (rv_kind version)),
               (''job_id'', JStr (j_id job))])) (\<lambda>_.
     return (entry, version, job)))))"

section \<open>Kinds name their version\<close>

definition dash_char :: "char \<Rightarrow> bool" where
  "dash_char c \<longleftrightarrow> kind_alnum c \<or> c = CHR ''-''"

lemma has_infix_Cons: "\<not> has_infix p (c # s) \<Longrightarrow> \<not> has_infix p s"
  by (cases p) auto

lemma kind_scan_dashes:
  "list_all dash_char s \<Longrightarrow> \<not> has_infix ''--'' s \<Longrightarrow> (s \<noteq> [] \<longrightarrow> last s \<noteq> CHR ''-'') \<Longrightarrow>
   (need \<longrightarrow> s \<noteq> [] \<and> hd s \<noteq> CHR ''-'') \<Longrightarrow> kind_scan need s"
proof (induction s arbitrary: need)
  case (Cons c cs)
  have cs: "list_all dash_char cs" "\<not> has_infix ''--'' cs" "cs \<noteq> [] \<longrightarrow> last cs \<noteq> CHR ''-''"
    using Cons.prems(1,3) has_infix_Cons [OF Cons.prems(2)] by (auto split: if_splits)
  show ?case
  proof (cases "c = CHR ''-''")
    case True
    then have "cs \<noteq> [] \<and> hd cs \<noteq> CHR ''-''" using Cons.prems(2,3) by (cases cs) auto
    then show ?thesis using True Cons.IH [OF cs, of True] Cons.prems(4) by (simp add: kind_sep_def kind_alnum_def)
  next
    case False
    then show ?thesis using Cons.IH [OF cs, of False] Cons.prems(1) by (simp add: dash_char_def)
  qed
qed simp

lemma replace_dashes_kept:
  "s \<noteq> [] \<Longrightarrow> replace_dashes s \<noteq> []" "hd (replace_dashes s) = hd s" "last (replace_dashes s) = last s"
  "set (replace_dashes s) \<subseteq> set s"
  by (induction s rule: replace_dashes.induct) auto

lemma squeeze_dashes_kept:
  "s \<noteq> [] \<Longrightarrow> squeeze_dashes s \<noteq> []" "hd (squeeze_dashes s) = hd s" "last (squeeze_dashes s) = last s"
  "set (squeeze_dashes s) \<subseteq> set s" "\<not> has_infix ''--'' (squeeze_dashes s)"
  by (induction s rule: squeeze_dashes.induct; subst squeeze_dashes.simps;
      use replace_dashes_kept in \<open>simp; blast?\<close>)+

lemma strip_dashes_kept:
  "strip_dashes s \<noteq> [] \<Longrightarrow> hd (strip_dashes s) \<noteq> CHR ''-'' \<and> last (strip_dashes s) \<noteq> CHR ''-''"
  "set (strip_dashes s) \<subseteq> set s"
proof -
  let ?d = "\<lambda>c. c = CHR ''-''"
  let ?t = "dropWhile ?d s"
  have hd: "xs \<noteq> [] \<Longrightarrow> dropWhile ?d xs \<noteq> [] \<Longrightarrow> \<not> ?d (hd (dropWhile ?d xs))" for xs by (rule hd_dropWhile)
  show "hd (strip_dashes s) \<noteq> CHR ''-'' \<and> last (strip_dashes s) \<noteq> CHR ''-''" if ne: "strip_dashes s \<noteq> []"
  proof
    show "last (strip_dashes s) \<noteq> CHR ''-''"
      using ne hd_dropWhile [of ?d "rev ?t"] by (simp add: strip_dashes_def last_rev)
    obtain zs where zs: "?t = strip_dashes s @ zs"
      unfolding strip_dashes_def by (metis dropWhile_eq_drop rev_append rev_rev_ident takeWhile_dropWhile_id)
    then have "hd (strip_dashes s) = hd ?t" using ne by simp
    then show "hd (strip_dashes s) \<noteq> CHR ''-''" using ne zs hd_dropWhile [of ?d s] by auto
  qed
  show "set (strip_dashes s) \<subseteq> set s"
    unfolding strip_dashes_def by (auto dest!: set_dropWhileD)
qed

definition ascii_project :: "string option \<Rightarrow> bool" where
  "ascii_project v \<longleftrightarrow> list_all (\<lambda>c. code_point c < 128) (or_else v ''global'')"

lemma char_lower_ascii:
  assumes "code_point c < 128" and "char_isalnum (char_lower c)"
  shows "kind_alnum (char_lower c)"
  using assms by (auto simp: char_lower_def char_isalnum_def kind_alnum_def code_point_def less_eq_char_def split: if_splits)

lemma kind_part_no_dot: "CHR ''.'' \<notin> set (repository_kind_part v)"
proof -
  let ?cleaned = "map (\<lambda>c. if char_isalnum c then c else CHR ''-'') (map char_lower (or_else v ''global''))"
  have "\<not> char_isalnum (CHR ''.'')" by code_simp
  then have "CHR ''.'' \<notin> set ?cleaned" by auto
  then show ?thesis using squeeze_dashes_kept(4) [of "strip_dashes ?cleaned"] strip_dashes_kept(2) [of ?cleaned]
    by (auto simp: repository_kind_part_def Let_def)
qed

lemma kind_part_scan:
  assumes "ascii_project v"
  shows "kind_scan True (repository_kind_part v)"
proof -
  let ?cleaned = "map (\<lambda>c. if char_isalnum c then c else CHR ''-'') (map char_lower (or_else v ''global''))"
  let ?part = "squeeze_dashes (strip_dashes ?cleaned)"
  have "list_all dash_char ?cleaned"
    using assms char_lower_ascii by (auto simp: ascii_project_def list_all_iff dash_char_def)
  then have chars: "list_all dash_char ?part"
    using squeeze_dashes_kept(4) [of "strip_dashes ?cleaned"] strip_dashes_kept(2) [of ?cleaned] unfolding list_all_iff by blast
  have part: "?part \<noteq> [] \<Longrightarrow> strip_dashes ?cleaned \<noteq> []"
    using squeeze_dashes.simps [of "[]"] by (metis has_infix.simps list.discI)
  have global: "kind_scan True ''global''" by code_simp
  show ?thesis
  proof (cases "?part = []")
    case False
    have "kind_scan True ?part"
      using squeeze_dashes_kept [of "strip_dashes ?cleaned"] strip_dashes_kept(1) [OF part [OF False]] chars False part [OF False]
      by (intro kind_scan_dashes) auto
    then show ?thesis using False by (simp add: repository_kind_part_def Let_def)
  qed (use global in \<open>simp add: repository_kind_part_def\<close>)
qed

lemma kind_scan_dot: "kind_scan need a \<Longrightarrow> kind_scan True b \<Longrightarrow> kind_scan need (a @ CHR ''.'' # b)"
  by (induction need a rule: kind_scan.induct) (auto simp: kind_sep_def kind_alnum_def split: if_splits)

lemma digits_alnum: "list_all kind_alnum (CHR ''v'' # nat_digits n)"
  using nat_digits_digits [of n] by (auto simp: list_all_iff is_digit_def kind_alnum_def)

lemma split_first_dot:
  assumes "a @ CHR ''.'' # b = a' @ CHR ''.'' # b'" and "CHR ''.'' \<notin> set a" "CHR ''.'' \<notin> set a'"
  shows "a = a' \<and> b = b'"
proof -
  have "takeWhile (\<lambda>c. c \<noteq> CHR ''.'') (x @ CHR ''.'' # y) = x" if "CHR ''.'' \<notin> set x" for x y
    using that by (subst takeWhile_append2) auto
  then have "a = a'" using assms by metis
  then show ?thesis using assms(1) by simp
qed

lemma split_last_dot:
  assumes "b @ CHR ''.'' # a = b' @ CHR ''.'' # a'" and "CHR ''.'' \<notin> set a" "CHR ''.'' \<notin> set a'"
  shows "a = a' \<and> b = b'"
proof -
  have "rev a @ CHR ''.'' # rev b = rev a' @ CHR ''.'' # rev b'" using arg_cong [OF assms(1), of rev] by simp
  then show ?thesis using split_first_dot [of "rev a" "rev b" "rev a'" "rev b'"] assms(2,3) by simp
qed



text \<open>
  The guard on project ids is needed: a project id with an accented letter gives a kind that the
  pattern of kinds refuses, since \<^verbatim>\<open>isalnum()\<close> keeps the letter.
\<close>

theorem accented_project_has_no_kind:
  "\<not> GOBLIN_KIND_PATTERN (repository_version_kind (Some [CHR ''a'', CHR 0xE9]) ''tool'' 1)"
proof -
  have "squeeze_dashes [CHR ''a'', CHR 0xE9] = [CHR ''a'', CHR 0xE9]" by (subst squeeze_dashes.simps) simp
  moreover have "strip_dashes (map (\<lambda>c. if char_isalnum c then c else CHR ''-'')
      (map char_lower (or_else (Some [CHR ''a'', CHR 0xE9]) ''global''))) = [CHR ''a'', CHR 0xE9]"
    by code_simp
  ultimately have "repository_kind_part (Some [CHR ''a'', CHR 0xE9]) = [CHR ''a'', CHR 0xE9]"
    by (simp add: repository_kind_part_def)
  then show ?thesis
    by (simp add: repository_version_kind_def repository_entry_kind_def GOBLIN_KIND_PATTERN_def kind_sep_def kind_alnum_def
        less_eq_char_def)
qed

end
