(* ===== verification/Api_Review.thy ===== *)
theory Api_Review
  imports Api_Repository Store_Relation
begin

text \<open>
  What requests to the function repository do to it: every route writes the entries and versions by
  commands of the store (theory Store_Repository), so that its invariant holds after any sequence of
  requests, and a principal without the admin role only ever submits, validates and requests reviews.
\<close>

section \<open>Requests\<close>

datatype repository_call =
    SubmitEntry repository_submit_request
  | ListEntries int int "string option" "string option" "string option" "string option"
  | ReadEntry string
  | ValidateEntry string validate_request "int option"
  | RequestReview string "string option" "int option"
  | ApproveEntry string "string option" "int option"
  | RejectEntry string "string option" "int option"
  | PublishEntry string "int option"
  | RetireEntry string "string option"
  | EraseEntry string
  | RunFunction string repository_run_request
  | BuildGoblin notebook_goblin_request
  | CheckGoblin string validate_request

definition settled :: "('s, 'a) op \<Rightarrow> ('s, unit) op" where
  "settled m = bind m (\<lambda>_. return ())"

fun perform_repository :: "'r api \<Rightarrow> repository_call \<Rightarrow> principal \<Rightarrow> ('r world, unit) op" where
  "perform_repository api (SubmitEntry request) p = settled (submit_repository_entry api request p)"
| "perform_repository api (ListEntries limit offset x t s q) p = settled (api_list_repository_entries api limit offset x t s q p)"
| "perform_repository api (ReadEntry i) p = settled (api_get_repository_entry api i p)"
| "perform_repository api (ValidateEntry i request n) p = settled (validate_repository_entry api i request n p)"
| "perform_repository api (RequestReview i note n) p = settled (request_repository_review api i note n p)"
| "perform_repository api (ApproveEntry i note n) p = settled (approve_repository_entry api i note n p)"
| "perform_repository api (RejectEntry i note n) p = settled (reject_repository_entry api i note n p)"
| "perform_repository api (PublishEntry i n) p = settled (publish_repository_entry api i n p)"
| "perform_repository api (RetireEntry i note) p = settled (retire_repository_entry api i note p)"
| "perform_repository api (EraseEntry i) p = settled (api_delete_repository_entry api i p)"
| "perform_repository api (RunFunction name request) p = settled (run_repository_function api name request p)"
| "perform_repository api (BuildGoblin request) p = settled (create_notebook_goblin api request p)"
| "perform_repository api (CheckGoblin kind request) p = settled (validate_notebook_goblin api kind request p)"

text \<open>A sequence of requests, whatever the outcome of each.\<close>

fun perform_repository_all :: "'r api \<Rightarrow> (repository_call \<times> principal) list \<Rightarrow> 'r world \<Rightarrow> 'r world" where
  "perform_repository_all api [] w = w"
| "perform_repository_all api ((call, p) # requests) w =
     perform_repository_all api requests (snd (perform_repository api call p w))"

section \<open>Requests as commands of the store\<close>

definition repository_part :: "db \<Rightarrow> repository_entry_record table \<times> repository_version_record table" where
  "repository_part d = (repository_entries_table d, repository_versions_table d)"

inductive routed :: "(repository_command \<Rightarrow> bool) \<Rightarrow> db \<Rightarrow> db \<Rightarrow> bool" for P d where
  quiet: "repository_part d' = repository_part d \<Longrightarrow> routed P d d'"
| command: "routed P d e \<Longrightarrow> P c \<Longrightarrow> repository_part d' = repository_part (run_command c e) \<Longrightarrow> routed P d d'"

lemma routed_quiet_end: "routed P d e \<Longrightarrow> repository_part d' = repository_part e \<Longrightarrow> routed P d d'"
  by (induction rule: routed.cases) (auto intro: routed.intros)

lemma routed_trans: "routed P b c \<Longrightarrow> routed P a b \<Longrightarrow> routed P a c"
  by (induction rule: routed.induct) (auto intro: routed_quiet_end routed.command)

lemma routed_mono: "routed P d d' \<Longrightarrow> (\<And>c. P c \<Longrightarrow> Q c) \<Longrightarrow> routed Q d d'"
  by (induction rule: routed.induct) (auto intro: routed.intros)

lemma routed_command: "P c \<Longrightarrow> routed P d (run_command c d)"
  by (auto intro: routed.intros)

lemma routed_invariant:
  assumes "routed P d d'" and "\<And>c e. P c \<Longrightarrow> I e \<Longrightarrow> I (run_command c e)"
    and "\<And>e e'. repository_part e' = repository_part e \<Longrightarrow> I e \<Longrightarrow> I e'" and "I d"
  shows "I d'"
  using assms(1)
proof (induction rule: routed.induct)
  case (quiet d')
  then show ?case using assms(3) [of d' d] assms(4) by simp
next
  case (command e c d')
  then show ?case using assms(2) [of c e] assms(3) [of d' "run_command c e"] by simp
qed

lemma log_only_repository: "log_only d d' \<Longrightarrow> repository_part d' = repository_part d"
  unfolding repository_part_def log_only_def by (cases d, cases d', simp)

lemma quiet_tables [simp]:
  "repository_part (snd (save_audit_log l d)) = repository_part d"
  "repository_part (snd (upsert_heartbeat h d)) = repository_part d"
  "repository_part (snd (save_worker_validation v d)) = repository_part d"
  "repository_part (snd (save_notebook_goblin n d)) = repository_part d"
  "repository_part (snd (save_notebook_service s d)) = repository_part d"
  "repository_part (snd (save_job j d)) = repository_part d"
  "repository_part (snd (update_notebook_service_runtime k st b m a u d)) = repository_part d"
  by (auto simp: repository_part_def save_audit_log_def upsert_heartbeat_def save_worker_validation_def save_notebook_goblin_def
      save_notebook_service_def save_job_def update_notebook_service_runtime_def insert_into_def atomically_def Let_def
      split: sum.split option.split prod.split)

interpretation rp: runtime_relation "routed P" for P
proof unfold_locales
  show "routed P a b \<Longrightarrow> routed P b c \<Longrightarrow> routed P a c" for a b c by (rule routed_trans)
  show "log_only d d' \<Longrightarrow> routed P d d'" for d d' by (rule routed.quiet) (rule log_only_repository)
qed (auto intro: routed.quiet)

section \<open>The routes\<close>

text \<open>What is outside the program does not write the store.\<close>

definition silent_api :: "'r api \<Rightarrow> bool" where
  "silent_api api \<longleftrightarrow> silent_validation (sh_validation (ap_host api)) \<and>
     (\<forall>n i s t. silent (ap_kubernetes_validate api n i s t)) \<and> (\<forall>r t. silent (sm_validate (ap_services api) r t))"

text \<open>The commands of a principal without the admin role.\<close>

fun member_command :: "repository_command \<Rightarrow> bool" where
  "member_command (CreateEntry e) = True"
| "member_command (UpdateEntry e) = True"
| "member_command (CreateVersion v) = True"
| "member_command (TransitionVersion i n s a) = (s = Validated \<or> s = PendingReview)"
| "member_command _ = False"

lemma routed_store:
  "P (CreateEntry e) \<Longrightarrow> related (routed P) (on_store (create_repository_entry e)) w"
  "P (UpdateEntry e) \<Longrightarrow> related (routed P) (on_store (update_repository_entry e)) w"
  "P (CreateVersion v) \<Longrightarrow> related (routed P) (on_store (create_repository_version v)) w"
  "P (DeleteEntry i) \<Longrightarrow> related (routed P) (on_store (delete_repository_entry i)) w"
  "P (TransitionEntry i s now k) \<Longrightarrow> related (routed P) (on_store (transition_repository_entry_status i s now k)) w"
  "P (TransitionVersion i n s a) \<Longrightarrow> related (routed P) (on_store (transition_repository_version_status i n s a)) w"
  using routed_command [of P "CreateEntry e"] routed_command [of P "UpdateEntry e"] routed_command [of P "CreateVersion v"]
    routed_command [of P "DeleteEntry i"] routed_command [of P "TransitionEntry i s now k"]
    routed_command [of P "TransitionVersion i n s a"]
  by (auto intro!: rp.related_store)

lemma routed_quiet [simp]:
  "related (routed P) (on_store (save_notebook_goblin n)) w" "related (routed P) (on_store (save_notebook_service s)) w"
  "related (routed P) (on_store (save_worker_validation v)) w" "related (routed P) (on_store (save_job j)) w"
  "related (routed P) (on_store (update_notebook_service_runtime k st b m a u)) w"
  by (rule rp.related_store, rule routed.quiet, simp)+

lemma routed_guards [simp]:
  "related (routed P) (require_repository_enabled api) w" "related (routed P) (forbid_viewer_write p) w"
  "related (routed P) (require_repository_owner_or_admin p entry) w" "related (routed P) (requested_version entry n) w"
  "related (routed P) (refreshed_entry i) w" "related (routed P) (repository_entry_detail entry) w"
  "related (routed P) (audit_entry action out p x i detail) w" "related (routed P) (asserted v) w"
  by (auto simp: require_repository_enabled_def forbid_viewer_write_def require_repository_owner_or_admin_def requested_version_def
      refreshed_entry_def repository_entry_detail_def audit_entry_def asserted_def intro!: rp.related_bind split: option.split)

lemma routed_found [simp]: "related (routed P) (found_entry api i p) w"
  unfolding found_entry_def by (intro rp.related_bind rp.related_cases) simp_all

lemma routed_set_runtime [simp]: "related (routed P) (set_runtime k s b n i) w"
  unfolding set_runtime_def by (intro rp.related_bind) simp_all

lemma routed_recorded:
  assumes "silent_api api"
  shows "related (routed P) (recorded_validation api nb request) w"
  unfolding recorded_validation_def notebook_validation_def validation_record_def Let_def
  by (intro rp.related_bind rp.related_cases rp.related_validate_workers)
    (use assms in \<open>simp_all add: silent_api_def silent_validation_def rp.related_silent\<close>)

lemma routed_version_validation:
  assumes "silent_api api"
  shows "related (routed P) (version_validation api entry v request) w"
proof (cases "re_type entry")
  case NotebookFunction
  then show ?thesis unfolding version_validation_def repository_goblin_type.case
    by simp (intro rp.related_bind rp.related_cases routed_recorded assms; simp)
next
  case NotebookService
  have "related (routed P) (service_validation api r t) w" for r t w
    unfolding service_validation_def
    by (intro rp.related_bind rp.related_cases) (use assms in \<open>simp_all add: silent_api_def rp.related_silent\<close>)
  with NotebookService show ?thesis unfolding version_validation_def
    by simp (intro rp.related_bind rp.related_cases; simp)
qed

lemma routed_move: "(\<And>a. P (TransitionVersion (re_id entry) (rv_version v) s a)) \<Longrightarrow> related (routed P) (move_version entry v s f) w"
  unfolding move_version_def by (intro rp.related_bind routed_store(6)) simp_all

lemma routed_reviewed: "(\<And>w. related (routed P) m w) \<Longrightarrow> related (routed P) (reviewed action p entry detail m) w"
  unfolding reviewed_def by (intro rp.related_bind) simp_all

lemma routed_submit:
  assumes "\<And>c. member_command c \<Longrightarrow> P c"
  shows "related (routed P) (submit_repository_entry api request p) w"
proof -
  have entry: "related (routed P) (submitted_entry api request x now p) w" for x now w
    unfolding submitted_entry_def
    by (intro rp.related_bind rp.related_cases routed_store(1,2) assms) simp_all
  have source: "related (routed P) (save_version_source api request entry x k n now p) w" for entry x k n now w
    unfolding save_version_source_def Let_def
    by (cases "rs_type request") (simp; intro rp.related_bind rp.related_cases; simp)+
  show ?thesis unfolding submit_repository_entry_def Let_def
    by (intro rp.related_bind rp.related_handle rp.related_cases entry source routed_store(3) assms) simp_all
qed

lemma routed_validate:
  assumes "\<And>c. member_command c \<Longrightarrow> P c" and "silent_api api"
  shows "related (routed P) (validate_repository_entry api i request n p) w"
  unfolding validate_repository_entry_def
  by (intro rp.related_bind rp.related_cases routed_version_validation routed_move assms) simp_all

lemma routed_request_review:
  assumes "\<And>c. member_command c \<Longrightarrow> P c"
  shows "related (routed P) (request_repository_review api i note n p) w"
  unfolding request_repository_review_def
  by (intro rp.related_bind rp.related_cases routed_reviewed routed_move assms) simp_all

lemma routed_queue_job: "related (routed P) (queue_job api p request source) w"
  unfolding queue_job_def Let_def by (intro rp.related_bind rp.related_cases) simp_all

lemma routed_others:
  "related (routed P) (api_list_repository_entries api limit offset x t s q p) w"
  "related (routed P) (api_get_repository_entry api i p) w"
  "related (routed P) (run_repository_function api name run p) w"
  unfolding api_list_repository_entries_def api_get_repository_entry_def run_repository_function_def
    resolve_published_repository_version_def Let_def
  by (intro rp.related_bind rp.related_cases routed_queue_job; simp)+

lemma routed_build: "related (routed P) (create_notebook_goblin api build p) w"
  unfolding create_notebook_goblin_def require_unregistered_def Let_def
  by (intro rp.related_bind rp.related_cases; simp)

lemma routed_check:
  assumes "silent_api api"
  shows "related (routed P) (validate_notebook_goblin api kind request p) w"
  unfolding validate_notebook_goblin_def
  by (intro rp.related_bind rp.related_cases routed_recorded assms; simp)

lemma routed_admin_routes:
  "related (routed (\<lambda>_. True)) (approve_repository_entry api i note n p) w"
  "related (routed (\<lambda>_. True)) (reject_repository_entry api i note n p) w"
  "related (routed (\<lambda>_. True)) (publish_repository_entry api i n p) w"
  "related (routed (\<lambda>_. True)) (retire_repository_entry api i note p) w"
  "related (routed (\<lambda>_. True)) (api_delete_repository_entry api i p) w"
  unfolding approve_repository_entry_def reject_repository_entry_def publish_repository_entry_def retire_repository_entry_def
    api_delete_repository_entry_def
  by (intro rp.related_admin rp.related_bind rp.related_handle rp.related_cases routed_reviewed routed_move routed_store;
      simp)+

lemma routed_settled: "related (routed P) m w \<Longrightarrow> related (routed P) (settled m) w"
  unfolding settled_def by (intro rp.related_bind) simp_all

lemma routed_any:
  assumes "silent_api api"
  shows "routed (\<lambda>_. True) (w_db w) (w_db (snd (perform_repository api call p w)))"
proof -
  have "related (routed (\<lambda>_. True)) (perform_repository api call p) w"
    by (cases call) (auto intro!: routed_settled routed_submit routed_validate routed_request_review routed_others routed_build routed_check
        routed_admin_routes assms)
  then show ?thesis by (simp add: related_def)
qed

lemma routed_member:
  assumes "silent_api api" and "\<not> is_admin p"
  shows "routed member_command (w_db w) (w_db (snd (perform_repository api call p w)))"
proof -
  have "related (routed member_command) (perform_repository api call p) w"
    using assms(2)
    by (cases call) (auto simp: approve_repository_entry_def reject_repository_entry_def publish_repository_entry_def
        retire_repository_entry_def api_delete_repository_entry_def intro!: routed_settled routed_submit routed_validate
        routed_request_review routed_others routed_build routed_check rp.related_not_admin assms(1))
  then show ?thesis by (simp add: related_def)
qed

lemma perform_repository_all_routed:
  assumes "silent_api api" and "\<And>call p w. (call, p) \<in> set requests \<Longrightarrow> routed P (w_db w) (w_db (snd (perform_repository api call p w)))"
  shows "routed P (w_db w) (w_db (perform_repository_all api requests w))"
  using assms(2)
proof (induction requests arbitrary: w)
  case (Cons request requests)
  obtain call p where request: "request = (call, p)" by fastforce
  have "routed P (w_db w) (w_db (snd (perform_repository api call p w)))" using Cons.prems request by simp
  moreover have "routed P (w_db t) (w_db (perform_repository_all api requests t))" for t using Cons by simp
  ultimately show ?case using rp.relation_trans by (simp add: request)
qed (simp add: rp.relation_refl)

section \<open>The review is not bypassed\<close>

lemma member_command_versions:
  assumes "member_command c" and "v \<in> set (repository_versions_table (run_command c d))" and "rv_status v \<in> {Approved, Published}"
  shows "v \<in> set (repository_versions_table d)"
proof (cases c)
  case (CreateVersion u)
  then show ?thesis using assms(2,3)
    by (auto simp: create_repository_version_def repo_defs insert_version_def insert_into_def insert_row_def
        repository_version_to_row_def split: option.splits sum.splits if_splits)
next
  case (TransitionVersion i n s a)
  then show ?thesis using assms
    by (auto simp: transition_repository_version_status_def transition_values_def repo_defs update_where_def Let_def
        split: option.splits sum.splits if_splits repository_entry_status.splits)
qed (use assms in \<open>auto simp: entry_commands_keep_versions simp del: run_command.simps\<close>)

lemma routed_member_versions:
  assumes "routed member_command d d'" and "v \<in> set (repository_versions_table d')" and "rv_status v \<in> {Approved, Published}"
  shows "v \<in> set (repository_versions_table d)"
proof -
  let ?I = "\<lambda>e. v \<in> set (repository_versions_table e) \<longrightarrow> v \<in> set (repository_versions_table d)"
  have "?I d'"
    by (rule routed_invariant [OF assms(1), of ?I])
      (use member_command_versions assms(3) in \<open>blast | simp add: repository_part_def\<close>)+
  then show ?thesis using assms(2) by blast
qed


lemma silent_demo: "silent_api demo_api"
  by (simp add: silent_api_def silent_validation_def silent_docker_def silent_def demo_api_def demo_host_def valid_host_def
      working_host_def bare_host_def return_eq throw_eq)


text \<open>
  Whoever sends which requests in which order: starting from an empty store, every published version
  carries its approval and its publication, versions are numbered without gaps, no two active entries
  of a project share a name, and a published entry points at a published version.
\<close>

theorem requests_keep_repository_invariant:
  assumes "silent_api api" and "w_db w = empty_db"
  shows "repository_ok (repository_versions_table (w_db (perform_repository_all api requests w))) \<and>
    active_names_ok (repository_entries_table (w_db (perform_repository_all api requests w))) \<and>
    targets_ok (w_db (perform_repository_all api requests w))"
proof -
  have "routed (\<lambda>_. True) (w_db w) (w_db (perform_repository_all api requests w))"
    by (intro perform_repository_all_routed routed_any assms(1))
  then show ?thesis
  proof (rule routed_invariant)
    show "repository_ok (repository_versions_table (w_db w)) \<and> active_names_ok (repository_entries_table (w_db w)) \<and> targets_ok (w_db w)"
      unfolding assms(2) using repository_ok_empty by (simp add: active_names_ok_def targets_ok_def empty_db_def)
  next
    fix c e
    assume "repository_ok (repository_versions_table e) \<and> active_names_ok (repository_entries_table e) \<and> targets_ok e"
    then show "repository_ok (repository_versions_table (run_command c e)) \<and>
      active_names_ok (repository_entries_table (run_command c e)) \<and> targets_ok (run_command c e)"
      by (intro conjI command_ok command_names command_targets) simp_all
  qed (simp add: repository_part_def targets_ok_def)
qed

theorem requests_keep_repository_invariant_witness:
  "repository_ok (repository_versions_table (w_db (perform_repository_all demo_api [(ReadEntry ''e1'', demo_member ''p1'')] (fresh_world empty_db))))"
  using requests_keep_repository_invariant [OF silent_demo, of "fresh_world empty_db" "[(ReadEntry ''e1'', demo_member ''p1'')]"]
  by (simp add: fresh_world_def del: perform_repository_all.simps)

section \<open>Running by name\<close>

lemma assoc_set_get: "map_of (assoc_set k v ms) x = (if x = k then Some v else map_of ms x)"
  by (induction ms) auto

lemma repository_metadata_get:
  "obj_get (repository_metadata (Some (entry, v)) m) ''repository_entry_id'' = Some (JStr (re_id entry))"
  "obj_get (repository_metadata (Some (entry, v)) m) ''repository_version'' = Some (JInt (rv_version v))"
  "obj_get (repository_metadata (Some (entry, v)) m) ''repository_source_hash'' = Some (JStr (rv_source_hash v))"
  by (simp_all add: repository_metadata_def obj_merge_def assoc_set_get)

lemma first_row_member: "first_row xs = Some x \<Longrightarrow> x \<in> set xs"
  by (cases xs) auto

lemma found_by_name:
  assumes "get_repository_entry_by_project_name d x name retired = Some entry"
  shows "\<exists>r \<in> set (repository_entries_table d). entry = row_to_repository_entry r" "re_name entry = name" "re_project_id entry = x"
    "retired \<or> re_status entry \<noteq> Retired"
  using assms by (auto simp: get_repository_entry_by_project_name_def row_to_repository_entry_def select_where_def
      dest!: first_row_member)

lemma listed_version:
  "v \<in> set (list_repository_versions d i s) \<Longrightarrow> (\<exists>r \<in> set (repository_versions_table d). v = row_to_repository_version r) \<and> rv_entry_id v = i"
  by (auto simp: list_repository_versions_def select_where_def)

lemma published_version_Inr:
  assumes "published_version entry name version d = Inr v"
  shows "(\<exists>r \<in> set (repository_versions_table d). v = row_to_repository_version r) \<and> rv_status v = Published \<and>
    rv_entry_id v = re_id entry \<and> (\<forall>n. version = Some n \<and> n \<noteq> 0 \<longrightarrow> rv_version v = n)"
proof (cases "or_int version (re_published_version entry)")
  case None
  let ?published = "filter (\<lambda>v. rv_status v = Published) (list_repository_versions d (re_id entry) None)"
  have "v = last ?published" "?published \<noteq> []" using assms None by (auto simp: published_version_def Let_def split: if_splits)
  then have "v \<in> set ?published" by (metis last_in_set)
  moreover have "\<not> (\<exists>n. version = Some n \<and> n \<noteq> 0)" using None by (auto simp: or_int_def split: if_splits)
  ultimately show ?thesis using listed_version [of v d "re_id entry" None] by auto
next
  case (Some n)
  then have "get_repository_version d (re_id entry) n = Some v" "rv_status v = Published"
    using assms by (auto simp: published_version_def split: option.splits if_splits)
  moreover have "\<forall>m. version = Some m \<and> m \<noteq> 0 \<longrightarrow> m = n" using Some by (auto simp: or_int_def)
  moreover obtain r where r: "by_key version_slot (re_id entry, n) (repository_versions_table d) = Some r"
    "v = row_to_repository_version r" using calculation(1) by (auto simp: get_repository_version_def)
  ultimately show ?thesis using by_key_SomeD [OF r(1)] by auto
qed

lemma resolved_by_name:
  assumes "resolve_published_repository_version api name ty p x n w = (Inr (entry, v), w')"
  shows "w' = w \<and> may_access p (re_project_id entry) \<and> re_name entry = name \<and> re_type entry = ty \<and> re_status entry \<noteq> Retired \<and>
    (\<exists>r \<in> set (repository_versions_table (w_db w)). v = row_to_repository_version r) \<and> rv_status v = Published \<and> rv_entry_id v = re_id entry"
proof -
  obtain y where y: "may_access p y" and found: "get_repository_entry_by_project_name (w_db w) y name False = Some entry"
    and ty: "re_type entry = ty" and v: "published_version entry name n (w_db w) = Inr v" and w: "w' = w"
    using assms unfolding resolve_published_repository_version_def require_repository_enabled_def
    by (auto simp: returns dest!: project_for_request_Inr split: if_splits)
  show ?thesis using found_by_name [OF found] published_version_Inr [OF v] y ty w by simp
qed

lemma notebook_definition_kind: "notebook_definition nb = Inr d \<Longrightarrow> gd_kind d = ng_kind nb"
  by (auto simp: notebook_definition_def new_goblin_definition_def bind_result_def split: sum.splits if_splits option.splits)

lemma job_definition_kind:
  assumes "job_definition api kind w = (Inr (d, nb), w')" and "\<And>k d. registry_get (ap_registry api) k = Inr d \<Longrightarrow> gd_kind d = k"
  shows "gd_kind d = kind"
  using assms by (auto simp: job_definition_def returns get_notebook_goblin_def row_to_notebook_goblin_def
      dest!: notebook_definition_kind by_key_SomeD split: sum.splits if_splits)

lemma run_job_request_fields:
  "jq_kind (run_job_request request entry v) = rv_kind v" "jq_project_id (run_job_request request entry v) = re_project_id entry"
  by (simp_all add: run_job_request_def)

text \<open>
  C14. Running a function by name queues exactly one job, of a published version of an entry of that name
  in a project the caller may access, of the version asked for; the job records the entry, the
  version and the reviewed source hash.
\<close>

theorem run_by_name_effect:
  assumes "run_repository_function api name request p w = (Inr (entry, version, job), w')"
    and "\<And>k d. registry_get (ap_registry api) k = Inr d \<Longrightarrow> gd_kind d = k"
  shows "jobs_table (w_db w') = jobs_table (w_db w) @ [job_to_row job] \<and> j_kind job = rv_kind version \<and> j_status job = Queued \<and>
    (\<exists>r \<in> set (repository_entries_table (w_db w)). entry = row_to_repository_entry r) \<and>
    re_name entry = name \<and> re_type entry = NotebookFunction \<and> re_status entry \<noteq> Retired \<and> may_access p (re_project_id entry) \<and>
    (\<exists>r \<in> set (repository_versions_table (w_db w)). version = row_to_repository_version r) \<and>
    rv_entry_id version = re_id entry \<and> rv_status version = Published \<and>
    (\<forall>n. fn_version request = Some n \<and> n \<noteq> 0 \<longrightarrow> rv_version version = n) \<and>
    (\<not> is_admin p \<or> truthy_text (re_project_id entry) \<longrightarrow> j_project_id job = re_project_id entry) \<and>
    obj_get (j_metadata job) ''repository_entry_id'' = Some (JStr (re_id entry)) \<and>
    obj_get (j_metadata job) ''repository_version'' = Some (JInt (rv_version version)) \<and>
    obj_get (j_metadata job) ''repository_source_hash'' = Some (JStr (rv_source_hash version))"
proof -
  obtain x w1 w2 where x: "may_access p x" and found: "get_repository_entry_by_project_name (w_db w) x name False = Some entry"
    and type: "re_type entry = NotebookFunction"
    and v: "published_version entry name (fn_version request) (w_db w) = Inr version"
    and queued: "queue_job api p (run_job_request request entry version) (Some (entry, version)) w = (Inr job, w1)"
    and audited: "audit_entry ''repository.run'' ''success'' p (re_project_id entry) (re_id entry) w2 w1 = (Inr (), w')"
    using assms(1) unfolding run_repository_function_def resolve_published_repository_version_def require_repository_enabled_def
    by (auto simp: returns dest!: project_for_request_Inr split: if_splits)
  note entry = found_by_name [OF found] and v = published_version_Inr [OF v]
  obtain d nb y m r t now i where def: "job_definition api (rv_kind version) w = (Inr (d, nb), w)" and y: "may_access p y"
    and project: "y = resolved_project api p (if truthy_text (re_project_id entry) then re_project_id entry
      else (case nb of None \<Rightarrow> None | Some n \<Rightarrow> ng_project_id n))"
    and job: "job = queued_job i (gd_kind d) now p y (run_job_request request entry version)
      (repository_metadata (Some (entry, version)) m, r, t)"
    and rows: "jobs_table (w_db w1) = jobs_table (w_db w) @ [job_to_row job]"
    using queue_job_appends [OF queued] unfolding run_job_request_fields by blast
  have kind: "gd_kind d = rv_kind version" by (rule job_definition_kind [OF def assms(2)])
  have "jobs_table (w_db w') = jobs_table (w_db w1)"
    using leavesD [OF leaves_audit audited [unfolded audit_entry_def]] by simp
  moreover have "\<not> is_admin p \<or> truthy_text (re_project_id entry) \<longrightarrow> y = re_project_id entry"
    using x y project entry(3) by (auto simp: may_access_def resolved_project_def)
  ultimately show ?thesis using rows kind type x v entry
    by (simp add: job queued_job_def repository_metadata_get)
qed

definition reviewed_goblin :: notebook_goblin_record where
  "reviewed_goblin = \<lparr>ng_kind = ''repo.tool.v1'', ng_project_id = Some ''p1'', ng_display_name = ''Tool'', ng_image = ''img'',
     ng_source = ''def run(): return 1'', ng_source_hash = ''h1'', ng_function_name = ''run'', ng_timeout_seconds = None,
     ng_max_retries = 0, ng_created_at = utc 1, ng_updated_at = utc 1, ng_created_by = ''ann'', ng_metadata = JObj []\<rparr>"

definition reviewed_db :: db where
  "reviewed_db = published_then_draft\<lparr>notebook_goblins_table := [reviewed_goblin]\<rparr>"

definition demo_run :: repository_run_request where
  "demo_run = \<lparr>fn_input = JObj [], fn_project_id = None, fn_version = None, fn_priority = 100, fn_correlation_id = None,
     fn_max_retries = 0, fn_timeout_seconds = None\<rparr>"

theorem run_by_name_effect_witness:
  "\<exists>entry version job w'. run_repository_function demo_api ''tool'' demo_run (demo_member ''p1'') (fresh_world reviewed_db) =
       (Inr (entry, version, job), w') \<and>
     jobs_table (w_db w') = [job_to_row job] \<and> j_kind job = rv_kind version \<and> rv_status version = Published"
proof -
  let ?run = "run_repository_function demo_api ''tool'' demo_run (demo_member ''p1'') (fresh_world reviewed_db)"
  have "map_sum (\<lambda>_. ()) (\<lambda>_. ()) (fst ?run) = Inr ()" by code_simp
  then obtain entry version job w' where run: "?run = (Inr (entry, version, job), w')"
    by (cases ?run; cases "fst ?run") (auto simp: prod_eq_iff)
  have kinds: "registry_get (ap_registry demo_api) k = Inr d \<Longrightarrow> gd_kind d = k" for k d
    by (auto simp: registry_get_def demo_api_def echo_registry_def echo_definition_def split: if_splits)
  have "jobs_table reviewed_db = []" by code_simp
  with run_by_name_effect [OF run kinds] run show ?thesis by (auto simp: fresh_world_def)
qed

section \<open>What the review does not cover\<close>

lemma saved_goblin:
  "on_store (save_notebook_goblin nb) w = (Inr (), w') \<Longrightarrow>
   \<exists>row. get_notebook_goblin (w_db w') (ng_kind nb) = Some row \<and> ng_source row = ng_source nb \<and> ng_source_hash row = ng_source_hash nb"
  by (auto simp: on_store_Inr save_notebook_goblin_def get_notebook_goblin_def insert_into_def insert_row_def atomically_def
      notebook_goblin_to_row_def row_to_notebook_goblin_def by_key_append by_key_update dest: by_key_SomeD split: option.splits sum.splits if_splits)

lemma leaves_audit_goblins: "leaves notebook_goblins_table (audit a out who x t i d)"
proof -
  have log: "log_only d d' \<Longrightarrow> notebook_goblins_table d' = notebook_goblins_table d" for d d'
    unfolding log_only_def by (cases d, cases d', simp)
  then have bus: "bus_op m \<Longrightarrow> leaves notebook_goblins_table m" for m :: "('r world, 'c) op"
    by (simp add: bus_op_def bus_step_def leaves_def)
  have "leaves notebook_goblins_table (on_store (save_audit_log l))" for l
    by (auto simp: leaves_def on_store_def save_audit_log_def insert_into_def split: prod.splits sum.splits)
  then show ?thesis by (auto simp: audit_def bus intro!: leaves_bind)
qed


definition swapped_source :: notebook_goblin_request where
  "swapped_source = \<lparr>nq_kind = ''repo.tool.v1'', nq_source = ''def run(): return 2'', nq_function_name = ''run'',
     nq_display_name = None, nq_image = None, nq_project_id = None, nq_timeout_seconds = None, nq_max_retries = 0,
     nq_metadata = JObj []\<rparr>"


end
