(* ===== verification/Service_Drain.thy ===== *)
theory Service_Drain
  imports Prelude "HOL-Library.Multiset"
begin

text \<open>
  Draining of relays when a managed service is replaced:
  \<^verbatim>\<open>src/src/goblin_king/service_websocket_drain.py\<close>. Every block under the lock of
  \<^verbatim>\<open>WebSocketDrainRegistry\<close> is one function on its states; what a coroutine does between two blocks
  (sleep until the timeout, run the callback) is a pending task of the step relation, so that steps
  of any number of clients interleave. A callback is a value of type \<open>'c\<close> that says what is to be
  retired. The theorems: a service that is drained is retired at most once, a relay is never admitted
  to it, and it is always being retired, or has a client and a running timeout.
\<close>

section \<open>The registry\<close>

record ('w, 'c) drain_state =
  ds_connections :: "'w list"
  ds_retire :: "'c option"
  ds_callback_started :: bool
  ds_timeout_task :: bool

definition new_drain_state :: "('w, 'c) drain_state" where
  "new_drain_state = \<lparr>ds_connections = [], ds_retire = None, ds_callback_started = False, ds_timeout_task = False\<rparr>"

type_synonym ('w, 'c) drains = "string \<Rightarrow> ('w, 'c) drain_state option"

text \<open>\<^verbatim>\<open>self._states.setdefault(service_id, _DrainState())\<close>\<close>

definition drain_state_of :: "('w, 'c) drains \<Rightarrow> string \<Rightarrow> ('w, 'c) drain_state" where
  "drain_state_of d service_id = (case d service_id of None \<Rightarrow> new_drain_state | Some s \<Rightarrow> s)"

definition register :: "string \<Rightarrow> 'w \<Rightarrow> ('w, 'c) drains \<Rightarrow> bool \<times> ('w, 'c) drains" where
  "register service_id websocket d =
     (let s = drain_state_of d service_id in
      if ds_retire s \<noteq> None then (False, d(service_id \<mapsto> s))
      else (True, d(service_id \<mapsto> s\<lparr>ds_connections := List.insert websocket (ds_connections s)\<rparr>)))"

text \<open>The callback to run, and whether a timeout has to be cancelled.\<close>

definition unregister :: "string \<Rightarrow> 'w \<Rightarrow> ('w, 'c) drains \<Rightarrow> ('c option \<times> bool) \<times> ('w, 'c) drains" where
  "unregister service_id websocket d =
     (case d service_id of
        None \<Rightarrow> ((None, False), d)
      | Some s0 \<Rightarrow>
          let s = s0\<lparr>ds_connections := removeAll websocket (ds_connections s0)\<rparr> in
          if ds_connections s = [] \<and> ds_retire s = None then ((None, False), d(service_id := None))
          else if ds_connections s = [] \<and> ds_retire s \<noteq> None \<and> \<not> ds_callback_started s
          then ((ds_retire s, ds_timeout_task s), d(service_id \<mapsto> s\<lparr>ds_callback_started := True\<rparr>))
          else ((None, False), d(service_id \<mapsto> s)))"

text \<open>Whether the callback runs now.\<close>

definition drain :: "string \<Rightarrow> 'c \<Rightarrow> ('w, 'c) drains \<Rightarrow> bool \<times> ('w, 'c) drains" where
  "drain service_id retire d =
     (let s = drain_state_of d service_id in
      if ds_retire s \<noteq> None then (False, d(service_id \<mapsto> s))
      else if ds_connections s \<noteq> []
      then (False, d(service_id \<mapsto> s\<lparr>ds_retire := Some retire, ds_timeout_task := True\<rparr>))
      else (True, d(service_id \<mapsto> s\<lparr>ds_retire := Some retire, ds_callback_started := True\<rparr>)))"

definition active_count :: "string \<Rightarrow> ('w, 'c) drains \<Rightarrow> nat" where
  "active_count service_id d = (case d service_id of None \<Rightarrow> 0 | Some s \<Rightarrow> length (ds_connections s))"

text \<open>After the sleep of a timeout: the callback to run and the connections to close.\<close>

definition force_drain :: "string \<Rightarrow> ('w, 'c) drains \<Rightarrow> ('c \<times> 'w list) option \<times> ('w, 'c) drains" where
  "force_drain service_id d =
     (case d service_id of
        None \<Rightarrow> (None, d)
      | Some s \<Rightarrow>
          (case ds_retire s of
             None \<Rightarrow> (None, d)
           | Some c \<Rightarrow> if ds_callback_started s then (None, d)
               else (Some (c, ds_connections s), d(service_id \<mapsto> s\<lparr>ds_callback_started := True\<rparr>))))"

definition retired :: "string \<Rightarrow> ('w, 'c) drains \<Rightarrow> ('w, 'c) drains" where
  "retired service_id d = d(service_id := None)"

section \<open>Steps\<close>

text \<open>
  The registry with the tasks that wait: \<open>timeouts\<close> the services whose timeout sleeps, \<open>retiring\<close> the
  callbacks that run. \<open>accepted\<close> and \<open>started\<close> record the callbacks that were taken and begun.
\<close>

record ('w, 'c) drain_world =
  dw_states :: "('w, 'c) drains"
  dw_timeouts :: "string list"
  dw_retiring :: "(string \<times> 'c) list"
  dw_accepted :: "(string \<times> 'c) list"
  dw_started :: "(string \<times> 'c) list"

definition empty_drain_world :: "('w, 'c) drain_world" where
  "empty_drain_world = \<lparr>dw_states = (\<lambda>_. None), dw_timeouts = [], dw_retiring = [], dw_accepted = [], dw_started = []\<rparr>"

definition begin_retire :: "string \<Rightarrow> 'c \<Rightarrow> ('w, 'c) drain_world \<Rightarrow> ('w, 'c) drain_world" where
  "begin_retire service_id c w = w\<lparr>dw_retiring := (service_id, c) # dw_retiring w, dw_started := (service_id, c) # dw_started w\<rparr>"

datatype ('w, 'c) drain_event =
    Register string 'w
  | Unregister string 'w
  | Drain string 'c
  | Timeout string
  | Retired string 'c

fun drain_step :: "('w, 'c) drain_event \<Rightarrow> ('w, 'c) drain_world \<Rightarrow> ('w, 'c) drain_world" where
  "drain_step (Register i ws) w = w\<lparr>dw_states := snd (register i ws (dw_states w))\<rparr>"
| "drain_step (Unregister i ws) w =
     (let ((callback, cancel), d) = unregister i ws (dw_states w);
          w' = w\<lparr>dw_states := d, dw_timeouts := (if cancel then remove1 i (dw_timeouts w) else dw_timeouts w)\<rparr> in
      case callback of None \<Rightarrow> w' | Some c \<Rightarrow> begin_retire i c w')"
| "drain_step (Drain i c) w =
     (let s = drain_state_of (dw_states w) i; (now, d) = drain i c (dw_states w);
          w' = w\<lparr>dw_states := d,
                 dw_accepted := (if ds_retire s = None then (i, c) # dw_accepted w else dw_accepted w),
                 dw_timeouts := (if ds_retire s = None \<and> \<not> now then i # dw_timeouts w else dw_timeouts w)\<rparr> in
      if now then begin_retire i c w' else w')"
| "drain_step (Timeout i) w =
     (let (callback, d) = force_drain i (dw_states w);
          w' = w\<lparr>dw_states := d, dw_timeouts := remove1 i (dw_timeouts w)\<rparr> in
      case callback of None \<Rightarrow> w' | Some (c, _) \<Rightarrow> begin_retire i c w')"
| "drain_step (Retired i c) w =
     w\<lparr>dw_states := retired i (dw_states w), dw_retiring := remove1 (i, c) (dw_retiring w)\<rparr>"

text \<open>A timeout and the end of a callback happen when their task is there.\<close>

fun drain_enabled :: "('w, 'c) drain_event \<Rightarrow> ('w, 'c) drain_world \<Rightarrow> bool" where
  "drain_enabled (Timeout i) w = (i \<in> set (dw_timeouts w))"
| "drain_enabled (Retired i c) w = ((i, c) \<in> set (dw_retiring w))"
| "drain_enabled _ w = True"

inductive drain_reachable :: "('w, 'c) drain_world \<Rightarrow> bool" where
  start: "drain_reachable empty_drain_world"
| step: "drain_reachable w \<Longrightarrow> drain_enabled e w \<Longrightarrow> drain_reachable (drain_step e w)"

section \<open>The invariant\<close>

definition pending_call :: "('w, 'c) drains \<Rightarrow> string \<Rightarrow> string \<times> 'c" where
  "pending_call d i = (i, the (ds_retire (drain_state_of d i)))"

text \<open>
  A service without a state has no task. A state that does not drain has clients; one that drains is
  being retired, or has clients and a sleeping timeout.
\<close>

definition service_ok :: "('w, 'c) drain_world \<Rightarrow> string \<Rightarrow> bool" where
  "service_ok w i \<longleftrightarrow>
     (let sleeping = i \<in> set (dw_timeouts w); running = {c. (i, c) \<in> set (dw_retiring w)} in
      case dw_states w i of
        None \<Rightarrow> \<not> sleeping \<and> running = {}
      | Some s \<Rightarrow>
          (case ds_retire s of
             None \<Rightarrow> \<not> ds_callback_started s \<and> ds_connections s \<noteq> [] \<and> \<not> sleeping \<and> running = {}
           | Some c \<Rightarrow>
               if ds_callback_started s then \<not> sleeping \<and> running = {c}
               else ds_connections s \<noteq> [] \<and> ds_timeout_task s \<and> sleeping \<and> running = {}))"

definition drain_ok :: "('w, 'c) drain_world \<Rightarrow> bool" where
  "drain_ok w \<longleftrightarrow>
     (\<forall>i. service_ok w i) \<and> distinct (dw_timeouts w) \<and> distinct (map fst (dw_retiring w)) \<and>
     mset (dw_accepted w) = mset (dw_started w) + mset (map (pending_call (dw_states w)) (dw_timeouts w))"

lemma service_ok_cong:
  assumes "dw_states w' j = dw_states w j" and "j \<in> set (dw_timeouts w') \<longleftrightarrow> j \<in> set (dw_timeouts w)"
    and "\<And>c. (j, c) \<in> set (dw_retiring w') \<longleftrightarrow> (j, c) \<in> set (dw_retiring w)"
  shows "service_ok w' j = service_ok w j"
  using assms by (simp add: service_ok_def)

lemma pending_call_other [simp]: "i \<notin> set is \<Longrightarrow> map (pending_call (d(i := x))) is = map (pending_call d) is"
  by (auto simp: pending_call_def drain_state_of_def)

lemma pending_call_at: "pending_call (d(i \<mapsto> s)) i = (i, the (ds_retire s))"
  by (simp add: pending_call_def drain_state_of_def)

lemma mset_remove_pending:
  "i \<in> set is \<Longrightarrow> mset (map f is) = add_mset (f i) (mset (map f (remove1 i is)))"
  by (induction "is") auto

text \<open>A step at one service: the others are as they were, so only this one is to be looked at.\<close>

lemma drain_ok_at:
  assumes "drain_ok w"
    and "\<And>j. j \<noteq> i \<Longrightarrow> dw_states w' j = dw_states w j" and "\<And>j. j \<noteq> i \<Longrightarrow> j \<in> set (dw_timeouts w') \<longleftrightarrow> j \<in> set (dw_timeouts w)"
    and "\<And>j c. j \<noteq> i \<Longrightarrow> (j, c) \<in> set (dw_retiring w') \<longleftrightarrow> (j, c) \<in> set (dw_retiring w)"
    and "service_ok w' i" and "distinct (dw_timeouts w')" and "distinct (map fst (dw_retiring w'))"
    and "mset (dw_accepted w') = mset (dw_started w') + mset (map (pending_call (dw_states w')) (dw_timeouts w'))"
  shows "drain_ok w'"
proof -
  have "service_ok w' j" for j
    using assms(1-5) service_ok_cong [of w' j w] unfolding drain_ok_def by (cases "j = i") auto
  then show ?thesis using assms(6-8) by (simp add: drain_ok_def)
qed

lemma ok_register: "drain_ok w \<Longrightarrow> drain_ok (drain_step (Register i ws) w)"
proof (rule drain_ok_at [of w i])
  assume ok: "drain_ok w"
  then have i: "service_ok w i" and others: "distinct (dw_timeouts w)" "distinct (map fst (dw_retiring w))"
    "mset (dw_accepted w) = mset (dw_started w) + mset (map (pending_call (dw_states w)) (dw_timeouts w))"
    by (simp_all add: drain_ok_def)
  let ?w = "drain_step (Register i ws) w"
  show "service_ok ?w i"
    using i by (cases "dw_states w i")
      (auto simp: service_ok_def register_def Let_def drain_state_of_def new_drain_state_def List.insert_def split: option.splits)
  show "distinct (dw_timeouts ?w)" "distinct (map fst (dw_retiring ?w))" using others by simp_all
  have same: "map (pending_call (dw_states ?w)) (dw_timeouts ?w) = map (pending_call (dw_states w)) (dw_timeouts w)"
    by (auto simp: pending_call_def drain_state_of_def new_drain_state_def register_def Let_def split: option.splits)
  show "mset (dw_accepted ?w) = mset (dw_started ?w) + mset (map (pending_call (dw_states ?w)) (dw_timeouts ?w))"
    using others(3) unfolding same by simp
qed (auto simp: register_def Let_def)

text \<open>A callback that begins: the timeout of the service, if it sleeps, is gone.\<close>

lemma ok_begin:
  assumes ok: "drain_ok w" and s: "dw_states w i = Some s" "ds_retire s = Some c" "\<not> ds_callback_started s"
    and w': "w' = begin_retire i c (w\<lparr>dw_states := (dw_states w)(i \<mapsto> s'\<lparr>ds_callback_started := True\<rparr>), dw_timeouts := remove1 i (dw_timeouts w)\<rparr>)"
    and s': "ds_retire s' = Some c"
  shows "drain_ok w'"
proof (rule drain_ok_at [OF ok, of i])
  have i: "service_ok w i" and others: "distinct (dw_timeouts w)" "distinct (map fst (dw_retiring w))"
    "mset (dw_accepted w) = mset (dw_started w) + mset (map (pending_call (dw_states w)) (dw_timeouts w))"
    using ok by (simp_all add: drain_ok_def)
  have sleeping: "i \<in> set (dw_timeouts w)" and idle: "i \<notin> fst ` set (dw_retiring w)"
    using i s by (auto simp: service_ok_def Let_def)
  show "service_ok w' i" "distinct (dw_timeouts w')" "distinct (map fst (dw_retiring w'))"
    using i s s' others idle unfolding w' by (auto simp: service_ok_def Let_def begin_retire_def)
  have "mset (map (pending_call (dw_states w)) (dw_timeouts w)) =
      add_mset (i, c) (mset (map (pending_call (dw_states w)) (remove1 i (dw_timeouts w))))"
    using mset_remove_pending [OF sleeping, of "pending_call (dw_states w)"] s by (simp add: pending_call_def drain_state_of_def)
  moreover have "i \<notin> set (remove1 i (dw_timeouts w))" using others(1) by simp
  ultimately show "mset (dw_accepted w') = mset (dw_started w') + mset (map (pending_call (dw_states w')) (dw_timeouts w'))"
    using others(3) unfolding w' by (simp add: begin_retire_def del: mset_map)
qed (auto simp: w' begin_retire_def)

lemma ok_same_tasks:
  assumes ok: "drain_ok w" and s: "dw_states w i = Some s" and s': "ds_retire s' = ds_retire s" "ds_callback_started s' = ds_callback_started s"
      "ds_timeout_task s' = ds_timeout_task s"
    and conns: "ds_connections s' \<noteq> [] \<or> ds_callback_started s"
  shows "drain_ok (w\<lparr>dw_states := (dw_states w)(i \<mapsto> s')\<rparr>)"
proof (rule drain_ok_at [OF ok, of i])
  let ?w = "w\<lparr>dw_states := (dw_states w)(i \<mapsto> s')\<rparr>"
  have i: "service_ok w i" and others: "distinct (dw_timeouts w)" "distinct (map fst (dw_retiring w))"
    "mset (dw_accepted w) = mset (dw_started w) + mset (map (pending_call (dw_states w)) (dw_timeouts w))"
    using ok by (simp_all add: drain_ok_def)
  show "service_ok ?w i" using i s s' conns by (auto simp: service_ok_def Let_def split: option.splits if_splits)
  have same: "map (pending_call (dw_states ?w)) (dw_timeouts ?w) = map (pending_call (dw_states w)) (dw_timeouts w)"
    using s s' by (auto simp: pending_call_def drain_state_of_def)
  show "mset (dw_accepted ?w) = mset (dw_started ?w) + mset (map (pending_call (dw_states ?w)) (dw_timeouts ?w))"
    using others(3) unfolding same by simp
  show "distinct (dw_timeouts ?w)" "distinct (map fst (dw_retiring ?w))" using others by simp_all
qed auto

text \<open>A service that does not drain can be forgotten.\<close>

lemma ok_forget:
  assumes ok: "drain_ok w" and idle: "i \<notin> set (dw_timeouts w)" "i \<notin> fst ` set (remove1 (i, c) (dw_retiring w))"
    and w': "w' = w\<lparr>dw_states := (dw_states w)(i := None), dw_retiring := remove1 (i, c) (dw_retiring w)\<rparr>"
  shows "drain_ok w'"
proof (rule drain_ok_at [OF ok, of i])
  have others: "distinct (dw_timeouts w)" "distinct (map fst (dw_retiring w))"
    "mset (dw_accepted w) = mset (dw_started w) + mset (map (pending_call (dw_states w)) (dw_timeouts w))"
    using ok by (simp_all add: drain_ok_def)
  show "service_ok w' i" using idle unfolding w' by (force simp: service_ok_def Let_def)
  show "distinct (dw_timeouts w')" using others w' by simp
  show "distinct (map fst (dw_retiring w'))" using others(2) unfolding w'
    by (auto simp: distinct_map distinct_remove1 intro: inj_on_subset dest: set_remove1_subset [THEN subsetD])
  show "mset (dw_accepted w') = mset (dw_started w') + mset (map (pending_call (dw_states w')) (dw_timeouts w'))"
    using others(3) idle(1) unfolding w' by (simp del: mset_map)
qed (auto simp: w' in_set_remove1)

lemma ok_unregister: "drain_ok w \<Longrightarrow> drain_ok (drain_step (Unregister i ws) w)"
proof -
  assume ok: "drain_ok w"
  then have i: "service_ok w i" by (simp add: drain_ok_def)
  show ?thesis
  proof (cases "dw_states w i")
    case None
    then show ?thesis using ok by (simp add: unregister_def)
  next
    case (Some s)
    let ?s = "s\<lparr>ds_connections := removeAll ws (ds_connections s)\<rparr>"
    consider (forget) "ds_connections ?s = []" "ds_retire s = None"
      | (retire) c where "ds_connections ?s = []" "ds_retire s = Some c" "\<not> ds_callback_started s"
      | (keep) "ds_connections ?s \<noteq> [] \<or> ds_callback_started s"
        "\<not> (ds_connections ?s = [] \<and> ds_retire s = None)" "\<not> (ds_connections ?s = [] \<and> ds_retire s \<noteq> None \<and> \<not> ds_callback_started s)"
      using i Some by (cases "ds_retire s") (auto simp: service_ok_def Let_def)
    then show ?thesis
    proof cases
      case forget
      have "i \<notin> set (dw_timeouts w)" "i \<notin> fst ` set (dw_retiring w)"
        using i Some forget by (auto simp: service_ok_def Let_def)
      moreover from this have "(i, c) \<notin> set (dw_retiring w)" for c by force
      ultimately show ?thesis
        using Some forget by (intro ok_forget [OF ok, of i]) (auto simp: unregister_def Let_def remove1_idem)
    next
      case retire
      have "ds_timeout_task s" using i Some retire by (auto simp: service_ok_def Let_def)
      then show ?thesis
        using Some retire by (intro ok_begin [OF ok Some retire(2,3), of _ ?s]) (auto simp: unregister_def Let_def)
    next
      case keep
      then have "drain_step (Unregister i ws) w = w\<lparr>dw_states := (dw_states w)(i \<mapsto> ?s)\<rparr>"
        using Some by (auto simp: unregister_def Let_def)
      then show ?thesis using ok_same_tasks [OF ok Some, of ?s] keep(1) by simp
    qed
  qed
qed

lemma ok_timeout: "drain_ok w \<Longrightarrow> i \<in> set (dw_timeouts w) \<Longrightarrow> drain_ok (drain_step (Timeout i) w)"
proof -
  assume ok: "drain_ok w" and sleeping: "i \<in> set (dw_timeouts w)"
  have "service_ok w i" using ok by (simp add: drain_ok_def)
  then obtain s c where s: "dw_states w i = Some s" "ds_retire s = Some c" "\<not> ds_callback_started s"
    using sleeping by (auto simp: service_ok_def Let_def split: option.splits if_splits)
  then show ?thesis by (intro ok_begin [OF ok s, of _ s]) (auto simp: force_drain_def)
qed

lemma remove1_key: "distinct (map fst xs) \<Longrightarrow> (i, c) \<in> set xs \<Longrightarrow> i \<notin> fst ` set (remove1 (i, c) xs)"
  by (induction xs) (force simp: rev_image_eqI)+

lemma ok_retired: "drain_ok w \<Longrightarrow> (i, c) \<in> set (dw_retiring w) \<Longrightarrow> drain_ok (drain_step (Retired i c) w)"
proof -
  assume ok: "drain_ok w" and running: "(i, c) \<in> set (dw_retiring w)"
  have i: "service_ok w i" and keys: "distinct (map fst (dw_retiring w))" using ok by (simp_all add: drain_ok_def)
  have "i \<notin> fst ` set (remove1 (i, c) (dw_retiring w))"
    using keys running by (rule remove1_key)
  moreover have "i \<notin> set (dw_timeouts w)"
    using i running by (auto simp: service_ok_def Let_def split: option.splits if_splits)
  ultimately show ?thesis by (intro ok_forget [OF ok]) (auto simp: retired_def)
qed

lemma ok_drain: "drain_ok w \<Longrightarrow> drain_ok (drain_step (Drain i c) w)"
proof -
  assume ok: "drain_ok w"
  then have i: "service_ok w i" and others: "distinct (dw_timeouts w)" "distinct (map fst (dw_retiring w))"
    "mset (dw_accepted w) = mset (dw_started w) + mset (map (pending_call (dw_states w)) (dw_timeouts w))"
    by (simp_all add: drain_ok_def)
  let ?s = "drain_state_of (dw_states w) i" and ?w = "drain_step (Drain i c) w"
  show ?thesis
  proof (cases "ds_retire ?s")
    case (Some c')
    then have "dw_states w i = Some ?s" by (auto simp: drain_state_of_def new_drain_state_def split: option.splits)
    then have "(dw_states w)(i \<mapsto> ?s) = dw_states w" by auto
    then show ?thesis using ok Some by (simp add: drain_def Let_def)
  next
    case None
    have idle: "i \<notin> set (dw_timeouts w)" "i \<notin> fst ` set (dw_retiring w)"
      using None i by (auto simp: service_ok_def Let_def drain_state_of_def split: option.splits)
    have w: "?w = (if ds_connections ?s \<noteq> []
        then w\<lparr>dw_states := (dw_states w)(i \<mapsto> ?s\<lparr>ds_retire := Some c, ds_timeout_task := True\<rparr>),
               dw_accepted := (i, c) # dw_accepted w, dw_timeouts := i # dw_timeouts w\<rparr>
        else begin_retire i c (w\<lparr>dw_states := (dw_states w)(i \<mapsto> ?s\<lparr>ds_retire := Some c, ds_callback_started := True\<rparr>),
               dw_accepted := (i, c) # dw_accepted w\<rparr>))"
      using None by (simp add: drain_def Let_def)
    have quiet: "\<not> ds_callback_started ?s"
      using None i by (auto simp: service_ok_def Let_def drain_state_of_def new_drain_state_def split: option.splits)
    show ?thesis
    proof (rule drain_ok_at [OF ok, of i])
      show "service_ok ?w i" using idle quiet unfolding w by (force simp: service_ok_def Let_def begin_retire_def)
      show "distinct (dw_timeouts ?w)" "distinct (map fst (dw_retiring ?w))"
        using others idle unfolding w by (auto simp: begin_retire_def)
      show "mset (dw_accepted ?w) = mset (dw_started ?w) + mset (map (pending_call (dw_states ?w)) (dw_timeouts ?w))"
        using others(3) idle(1) unfolding w by (auto simp: begin_retire_def pending_call_at simp del: mset_map)
    qed (auto simp: w begin_retire_def simp del: drain_step.simps split: if_splits)
  qed
qed

lemma reachable_ok: "drain_reachable w \<Longrightarrow> drain_ok w"
proof (induction rule: drain_reachable.induct)
  case start
  show ?case by (simp add: drain_ok_def service_ok_def empty_drain_world_def Let_def)
next
  case (step w e)
  then show ?case by (cases e) (simp_all only: drain_enabled.simps ok_register ok_unregister ok_drain ok_timeout ok_retired)
qed

section \<open>Retired once, and not before the last client or the timeout\<close>

text \<open>
  C12. Whatever the interleaving of clients, replacements and timeouts: every accepted retirement has begun
  exactly once, or waits for exactly one sleeping timeout; a service that drains admits no relay, and
  is being retired now or has a client and a sleeping timeout.
\<close>

theorem drained_services_retire_once:
  assumes "drain_reachable w"
  shows "mset (dw_accepted w) = mset (dw_started w) + mset (map (pending_call (dw_states w)) (dw_timeouts w)) \<and>
    distinct (dw_timeouts w) \<and>
    (\<forall>i s c. dw_states w i = Some s \<and> ds_retire s = Some c \<longrightarrow>
       fst (register i ws (dw_states w)) = False \<and>
       (if ds_callback_started s then (i, c) \<in> set (dw_retiring w)
        else ds_connections s \<noteq> [] \<and> i \<in> set (dw_timeouts w) \<and> pending_call (dw_states w) i = (i, c)))"
proof -
  have ok: "drain_ok w" using assms by (rule reachable_ok)
  have "fst (register i ws (dw_states w)) = False \<and>
       (if ds_callback_started s then (i, c) \<in> set (dw_retiring w)
        else ds_connections s \<noteq> [] \<and> i \<in> set (dw_timeouts w) \<and> pending_call (dw_states w) i = (i, c))"
    if "dw_states w i = Some s" "ds_retire s = Some c" for i s c
  proof -
    have "service_ok w i" using ok by (simp add: drain_ok_def)
    then show ?thesis using that by (auto simp: service_ok_def Let_def register_def drain_state_of_def pending_call_def)
  qed
  then show ?thesis using ok by (auto simp: drain_ok_def)
qed

text \<open>
  A draining service always comes to its end: its timeout, if its callback has not begun, and then
  the end of the callback are enabled one after the other, and afterwards the registry has forgotten it.
\<close>

theorem draining_ends:
  assumes "drain_reachable w" and "dw_states w i = Some s" and "ds_retire s = Some c"
  shows "\<exists>w1. (if ds_callback_started s then w1 = w else drain_enabled (Timeout i) w \<and> w1 = drain_step (Timeout i) w) \<and>
    drain_enabled (Retired i c) w1 \<and> dw_states (drain_step (Retired i c) w1) i = None"
proof -
  have "service_ok w i" using reachable_ok [OF assms(1)] by (simp add: drain_ok_def)
  then show ?thesis
    using assms(2,3) by (cases "ds_callback_started s") (auto simp: service_ok_def Let_def retired_def force_drain_def begin_retire_def)
qed

text \<open>Two clients, a replacement while they are connected, and the timeout.\<close>

definition demo_drained :: "(nat, string) drain_world" where
  "demo_drained = drain_step (Drain ''s1'' ''old'') (drain_step (Register ''s1'' 2) (drain_step (Register ''s1'' 1) empty_drain_world))"

lemma demo_drained_reachable: "drain_reachable demo_drained"
  unfolding demo_drained_def by (intro drain_reachable.step drain_reachable.start) simp_all

theorem drained_services_retire_once_witness:
  "dw_accepted demo_drained = [(''s1'', ''old'')] \<and> dw_started demo_drained = [] \<and>
   map (pending_call (dw_states demo_drained)) (dw_timeouts demo_drained) = [(''s1'', ''old'')] \<and>
   fst (register ''s1'' 3 (dw_states demo_drained)) = False"
proof -
  have "\<exists>s. dw_states demo_drained ''s1'' = Some s \<and> ds_retire s = Some ''old'' \<and> \<not> ds_callback_started s"
    and lists: "dw_accepted demo_drained = [(''s1'', ''old'')]" "dw_started demo_drained = []" "dw_timeouts demo_drained = [''s1'']"
    by (simp_all add: demo_drained_def drain_def register_def Let_def drain_state_of_def new_drain_state_def empty_drain_world_def
        List.insert_def)
  with drained_services_retire_once [OF demo_drained_reachable, of 3] show ?thesis by auto
qed

theorem draining_ends_witness:
  "\<exists>w1. w1 = drain_step (Timeout ''s1'') demo_drained \<and> drain_enabled (Retired ''s1'' ''old'') w1 \<and>
     dw_states (drain_step (Retired ''s1'' ''old'') w1) ''s1'' = None"
proof -
  obtain s where "dw_states demo_drained ''s1'' = Some s" "ds_retire s = Some ''old''" "\<not> ds_callback_started s"
    by (simp add: demo_drained_def drain_def register_def Let_def drain_state_of_def new_drain_state_def empty_drain_world_def
        List.insert_def)
  with draining_ends [OF demo_drained_reachable this(1,2)] show ?thesis by auto
qed

end
