(* ===== verification/Service_Runtime.thy ===== *)
theory Service_Runtime
  imports Api_Access
begin

text \<open>
  The runtimes of notebook services, \<^verbatim>\<open>src/src/goblin_king/notebook_services.py\<close>: start in Docker or in a
  cluster, probe over HTTP, stop. Processes, the cluster client, HTTP, the clock and the file system
  are operations of a host. The theorems: probing ends within its timeout; a service that is started
  was probed, and one whose start fails in the cluster leaves no resource behind; and two findings, a
  container that is left running when its port cannot be read, and names that services share.
\<close>

section \<open>The host\<close>

record proxy_parts =
  pp_scheme :: string
  pp_hostname :: "string option"
  pp_username :: "string option"
  pp_password :: "string option"
  pp_path :: string
  pp_query :: string
  pp_fragment :: string
  pp_port :: "int option result"

record 'r cluster_client =
  cc_load_incluster_config :: "('r world, unit) op"
  cc_load_kube_config :: "('r world, unit) op"
  cc_create_config_map :: "string \<Rightarrow> json \<Rightarrow> ('r world, unit) op"
  cc_create_deployment :: "string \<Rightarrow> json \<Rightarrow> ('r world, unit) op"
  cc_create_service :: "string \<Rightarrow> json \<Rightarrow> ('r world, unit) op"
  cc_available_replicas :: "string \<Rightarrow> string \<Rightarrow> ('r world, int option) op"
  cc_delete_deployment :: "string \<Rightarrow> string \<Rightarrow> ('r world, unit) op"
  cc_delete_service :: "string \<Rightarrow> string \<Rightarrow> ('r world, unit) op"
  cc_delete_config_map :: "string \<Rightarrow> string \<Rightarrow> ('r world, unit) op"
  cc_list_pods :: "string \<Rightarrow> string \<Rightarrow> ('r world, string list) op"
  cc_pod_log :: "string \<Rightarrow> string \<Rightarrow> ('r world, string) op"

record 'r service_host =
  sx_environ :: "string \<Rightarrow> string option"
  sx_urlsplit :: "string \<Rightarrow> proxy_parts result"
  sx_resolve :: "path \<Rightarrow> path"
  sx_write_files :: "path \<Rightarrow> (string \<times> string) list \<Rightarrow> ('r world, unit) op"
  sx_run :: "string list \<Rightarrow> ('r world, int \<times> string \<times> string) op"
  sx_clock :: "('r world, rat) op"
  sx_sleep :: "rat \<Rightarrow> ('r world, unit) op"
  sx_urlopen :: "string \<Rightarrow> rat \<Rightarrow> ('r world, int \<times> (string \<times> string) list \<times> string) op"
  sx_loads :: "string \<Rightarrow> json result"
  sx_cluster :: "'r cluster_client"

text \<open>The fields of \<^verbatim>\<open>NotebookServiceRuntimeManager\<close>.\<close>

record runtime_manager =
  rm_image :: string
  rm_runtime :: string
  rm_work_root :: path
  rm_docker_executable :: string
  rm_namespace :: string
  rm_image_pull_policy :: string

definition runtime_error :: "string \<Rightarrow> error" where
  "runtime_error m = Raise NotebookServiceRuntimeError m"

definition is_runtime_error :: "error \<Rightarrow> bool" where
  "is_runtime_error e \<longleftrightarrow> error_class e = NotebookServiceRuntimeError"

definition environ_text :: "'r service_host \<Rightarrow> string \<Rightarrow> string" where
  "environ_text h k = (case sx_environ h k of None \<Rightarrow> '''' | Some v \<Rightarrow> v)"

section \<open>Names, proxies\<close>

definition notebook_service_runtime_name :: "string \<Rightarrow> string \<Rightarrow> string option \<Rightarrow> string" where
  "notebook_service_runtime_name kind source_hash suffix =
     (let base = kubernetes_name (''gk-nbsvc-'' @ kind @ ''-'' @ take 12 source_hash) in
      case suffix of
        None \<Rightarrow> strip_dash (take 63 base)
      | Some x \<Rightarrow> (let suffix_part = kubernetes_name x; max_base = 63 - int (length suffix_part) - 1;
            cut = (if 0 \<le> max_base then take (nat max_base) base else take (nat (int (length base) + max_base)) base) in
          strip_dash (strip_dash cut @ ''-'' @ suffix_part)))"

definition DEPENDENCY_PROXY_SETTING :: string where
  "DEPENDENCY_PROXY_SETTING = ''GOBLIN_KING_NOTEBOOK_SERVICE_DEPENDENCY_PROXY''"

definition dependency_proxy_environment :: "'r service_host \<Rightarrow> (string \<times> string) list result" where
  "dependency_proxy_environment h =
     (let v = py_strip (environ_text h DEPENDENCY_PROXY_SETTING) in
      if v = '''' then Inr []
      else bind_result (sx_urlsplit h v) (\<lambda>parsed.
      if pp_scheme parsed \<notin> {''http'', ''https''} \<or> \<not> truthy_text (pp_hostname parsed) \<or> pp_username parsed \<noteq> None \<or>
         pp_password parsed \<noteq> None \<or> pp_path parsed \<notin> {'''', ''/''} \<or> pp_query parsed \<noteq> '''' \<or> pp_fragment parsed \<noteq> ''''
      then Inl (runtime_error (DEPENDENCY_PROXY_SETTING @ '' must be a credential-free HTTP(S) origin''))
      else bind_result (pp_port parsed) (\<lambda>port.
      let origin = pp_scheme parsed @ ''://'' @ the (pp_hostname parsed) @ (case port of None \<Rightarrow> '''' | Some n \<Rightarrow> '':'' @ str_int n) in
      Inr [(''HTTP_PROXY'', origin), (''HTTPS_PROXY'', origin), (''NO_PROXY'', ''127.0.0.1,localhost,.svc,.cluster.local'')])))"

section \<open>Probing\<close>

fun is_container :: "json \<Rightarrow> bool" where
  "is_container (JObj _) = True"
| "is_container (JArr _) = True"
| "is_container _ = False"

definition probe_payload :: "(string \<Rightarrow> json result) \<Rightarrow> int \<Rightarrow> (string \<times> string) list \<Rightarrow> string \<Rightarrow> json result" where
  "probe_payload loads status headers body =
     (case loads body of
        Inl e \<Rightarrow> if error_class e = ValueError
                 then Inr (JObj [(''ok'', JBool (200 \<le> status \<and> status < 300)), (''status_code'', JInt status),
                    (''headers'', JObj (map (\<lambda>(k, v). (k, JStr v)) headers)), (''json'', JNull), (''text'', JStr body)])
                 else Inl e
      | Inr parsed \<Rightarrow> Inr (JObj [(''ok'', JBool (200 \<le> status \<and> status < 300)), (''status_code'', JInt status),
          (''headers'', JObj (map (\<lambda>(k, v). (k, JStr v)) headers)),
          (''json'', if is_container parsed then parsed else JNull),
          (''text'', case parsed of JStr s \<Rightarrow> JStr s | _ \<Rightarrow> JStr body)]))"

text \<open>One request; \<open>None\<close> when it failed and the loop sleeps and goes on, with the text of the error.\<close>

definition probe_once :: "'r service_host \<Rightarrow> string \<Rightarrow> rat \<Rightarrow> ('r world, string + json) op" where
  "probe_once h url timeout_seconds =
     bind (catching is_os_error
       (bind (sx_urlopen h url (min 5 timeout_seconds)) (\<lambda>(status, headers, body).
        lift_result (probe_payload (sx_loads h) status headers body)))) (\<lambda>outcome.
     case outcome of
       Inr payload \<Rightarrow> return (Inr payload)
     | Inl e \<Rightarrow> bind (sx_sleep h 1) (\<lambda>_. return (Inl (error_message e))))"

fun probe_loop :: "nat \<Rightarrow> 'r service_host \<Rightarrow> string \<Rightarrow> rat \<Rightarrow> rat \<Rightarrow> string \<Rightarrow> ('r world, json) op" where
  "probe_loop 0 h url timeout_seconds deadline last_error =
     throw (runtime_error (''service probe failed for '' @ url @ '': '' @ last_error))"
| "probe_loop (Suc n) h url timeout_seconds deadline last_error =
     bind (sx_clock h) (\<lambda>now.
     if \<not> now < deadline
     then throw (runtime_error (''service probe failed for '' @ url @ '': '' @ last_error))
     else bind (probe_once h url timeout_seconds) (\<lambda>outcome.
     case outcome of
       Inr payload \<Rightarrow> return payload
     | Inl message \<Rightarrow> probe_loop n h url timeout_seconds deadline message))"

text \<open>Every failed request sleeps a second, so this many turns reach the deadline (theorem below).\<close>

definition turns :: "rat \<Rightarrow> nat" where
  "turns timeout_seconds = nat \<lceil>timeout_seconds\<rceil> + 1"

definition probe_http :: "'r service_host \<Rightarrow> string \<Rightarrow> rat \<Rightarrow> ('r world, json) op" where
  "probe_http h url timeout_seconds =
     bind (sx_clock h) (\<lambda>start.
     probe_loop (turns timeout_seconds) h url timeout_seconds (start + timeout_seconds) ''probe timed out'')"

section \<open>Docker\<close>

definition stop_docker :: "'r service_host \<Rightarrow> runtime_manager \<Rightarrow> string \<Rightarrow> ('r world, unit) op" where
  "stop_docker h m name = bind (sx_run h [rm_docker_executable m, ''rm'', ''-f'', name]) (\<lambda>_. return ())"

fun join_newline :: "string list \<Rightarrow> string" where
  "join_newline [] = ''''"
| "join_newline [x] = x"
| "join_newline (x # xs) = x @ [CHR 0x0A] @ join_newline xs"

definition write_bundle :: "'r service_host \<Rightarrow> runtime_manager \<Rightarrow> notebook_service_record \<Rightarrow> string \<Rightarrow> ('r world, path) op" where
  "write_bundle h m record name =
     (let bundle_dir = sx_resolve h (path_join (rm_work_root m) (path_of name)) in
      bind (sx_write_files h bundle_dir [(''source.py'', ns_source record),
             (''requirements.txt'', join_newline (ns_requirements record) @ (if ns_requirements record = [] then '''' else [CHR 0x0A]))]) (\<lambda>_.
      return bundle_dir))"

definition docker_bundle_volume_args ::
  "'r service_host \<Rightarrow> runtime_manager \<Rightarrow> path \<Rightarrow> (string list \<times> string \<times> string) result" where
  "docker_bundle_volume_args h m bundle_dir =
     (let data_mount = (case sx_environ h ''GOBLIN_KING_DOCKER_DATA_MOUNT'' of None \<Rightarrow> ''/goblin-data'' | Some v \<Rightarrow> v) in
      if \<not> truthy_text (sx_environ h ''GOBLIN_KING_DOCKER_DATA_VOLUME'')
      then Inr ([''-v'', path_text bundle_dir @ '':/goblin-service:ro''], ''/goblin-service/source.py'', ''/goblin-service/requirements.txt'')
      else
        let data_root = path_parent (sx_resolve h (rm_work_root m)) in
        case relative_to bundle_dir data_root of
          None \<Rightarrow> Inl (Raise ValueError (path_text bundle_dir @ '' is not in the subpath of '' @ path_text data_root))
        | Some rel \<Rightarrow> Inr ([''-v'', environ_text h ''GOBLIN_KING_DOCKER_DATA_VOLUME'' @ '':'' @ data_mount @ '':ro''],
            data_mount @ ''/'' @ path_text rel @ ''/source.py'', data_mount @ ''/'' @ path_text rel @ ''/requirements.txt''))"

definition line_break :: "char \<Rightarrow> bool" where
  "line_break c \<longleftrightarrow> c = CHR 0x0A \<or> c = CHR 0x0B \<or> c = CHR 0x0C \<or> c = CHR 0x0D \<or> c = CHR 0x1C \<or> c = CHR 0x1D \<or>
     c = CHR 0x1E \<or> c = CHR 0x85"

definition docker_host_port :: "'r service_host \<Rightarrow> runtime_manager \<Rightarrow> string \<Rightarrow> int \<Rightarrow> ('r world, string) op" where
  "docker_host_port h m name port =
     bind (sx_run h [rm_docker_executable m, ''port'', name, str_int port @ ''/tcp'']) (\<lambda>(code, out, err).
     if code \<noteq> 0
     then throw (runtime_error (''could not inspect Docker service port for '' @ name @ '': '' @ py_strip err))
     else if py_strip out = '''' then throw (Raise IndexError ''list index out of range'')
     else return (rev (takeWhile (\<lambda>c. c \<noteq> CHR '':'') (rev (takeWhile (\<lambda>c. \<not> line_break c) (py_strip out))))))"

definition docker_logs :: "'r service_host \<Rightarrow> runtime_manager \<Rightarrow> string \<Rightarrow> ('r world, string) op" where
  "docker_logs h m name =
     bind (sx_run h [rm_docker_executable m, ''logs'', name]) (\<lambda>(code, out, err).
     let t = py_strip (out @ err) in return (drop (length t - 4000) t))"

definition docker_service_command ::
  "'r service_host \<Rightarrow> runtime_manager \<Rightarrow> notebook_service_record \<Rightarrow> string \<Rightarrow> string list \<times> string \<times> string \<Rightarrow>
   (string \<times> string) list \<Rightarrow> string list" where
  "docker_service_command h m record name mounts proxy =
     (let (volume_args, source_path, requirements_path) = mounts; network = sx_environ h ''GOBLIN_KING_DOCKER_NETWORK'' in
      [rm_docker_executable m, ''run'', ''-d'', ''--name'', name,
       ''--label'', ''goblin-king.notebook-service=true'',
       ''--label'', ''goblin-king.notebook-service-kind='' @ ns_kind record,
       ''--label'', ''goblin-king.notebook-service-source='' @ ns_source_hash record,
       ''--add-host'', ''host.docker.internal:host-gateway'',
       ''-e'', ''GOBLIN_NOTEBOOK_SERVICE_APP='' @ ns_app_name record,
       ''-e'', ''GOBLIN_NOTEBOOK_SERVICE_SOURCE='' @ source_path,
       ''-e'', ''GOBLIN_NOTEBOOK_SERVICE_REQUIREMENTS='' @ requirements_path,
       ''-e'', ''PORT='' @ str_int (ns_port record)] @
      (if truthy_text network then [''--network'', the network] else [''-p'', ''127.0.0.1::'' @ str_int (ns_port record)]) @
      concat (map (\<lambda>(k, v). [''-e'', k @ ''='' @ v]) proxy) @ volume_args @ [rm_image m, ''serve''])"

text \<open>The part of \<^verbatim>\<open>_start_docker\<close> after the container has been started.\<close>

definition probed_container ::
  "'r service_host \<Rightarrow> runtime_manager \<Rightarrow> notebook_service_record \<Rightarrow> string \<Rightarrow> rat \<Rightarrow> ('r world, service_runtime) op" where
  "probed_container h m record name timeout_seconds =
     bind (if truthy_text (sx_environ h ''GOBLIN_KING_DOCKER_NETWORK'')
           then return (''http://'' @ name @ '':'' @ str_int (ns_port record))
           else bind (docker_host_port h m name (ns_port record)) (\<lambda>port. return (''http://127.0.0.1:'' @ port))) (\<lambda>base_url.
     bind (handle (probe_http h (strip_slashes base_url @ ns_probe_path record) timeout_seconds)
            (\<lambda>e. if is_runtime_error e
                  then bind (docker_logs h m name) (\<lambda>logs. bind (stop_docker h m name) (\<lambda>_.
                       throw (runtime_error (error_message e @ ''; container logs: '' @ logs))))
                  else throw e)) (\<lambda>payload.
     return \<lparr>sr_backend = ''docker'', sr_name = name, sr_base_url = base_url, sr_probe = Some payload\<rparr>))"

definition start_docker ::
  "'r service_host \<Rightarrow> runtime_manager \<Rightarrow> notebook_service_record \<Rightarrow> string \<Rightarrow> rat \<Rightarrow> ('r world, service_runtime) op" where
  "start_docker h m record name timeout_seconds =
     bind (write_bundle h m record name) (\<lambda>bundle_dir.
     bind (stop_docker h m name) (\<lambda>_.
     bind (lift_result (docker_bundle_volume_args h m bundle_dir)) (\<lambda>mounts.
     bind (lift_result (dependency_proxy_environment h)) (\<lambda>proxy.
     bind (sx_run h (docker_service_command h m record name mounts proxy)) (\<lambda>(code, out, err).
     if code \<noteq> 0
     then throw (runtime_error (''failed to start Docker notebook service '' @ name @ '': '' @ py_strip err))
     else probed_container h m record name timeout_seconds)))))"

section \<open>Kubernetes\<close>

definition load_cluster_config :: "'r cluster_client \<Rightarrow> ('r world, unit) op" where
  "load_cluster_config cc = handle (cc_load_incluster_config cc)
     (\<lambda>e. if error_class e = ConfigException then cc_load_kube_config cc else throw e)"

definition ignoring_missing :: "('r world, unit) op \<Rightarrow> ('r world, unit) op" where
  "ignoring_missing m = handle m (\<lambda>e. case error_class e of ApiException status \<Rightarrow> if status \<noteq> 404 then throw e else return () | _ \<Rightarrow> throw e)"

definition delete_kubernetes_resources :: "'r cluster_client \<Rightarrow> string \<Rightarrow> string \<Rightarrow> ('r world, unit) op" where
  "delete_kubernetes_resources cc namespace name =
     bind (load_cluster_config cc) (\<lambda>_.
     bind (ignoring_missing (cc_delete_deployment cc name namespace)) (\<lambda>_.
     bind (ignoring_missing (cc_delete_service cc name namespace)) (\<lambda>_.
     ignoring_missing (cc_delete_config_map cc name namespace))))"

definition kubernetes_logs :: "'r cluster_client \<Rightarrow> string \<Rightarrow> string \<Rightarrow> ('r world, string) op" where
  "kubernetes_logs cc namespace name = handle
     (bind (cc_list_pods cc namespace (''goblin-king.io/notebook-service-name='' @ name)) (\<lambda>pods.
      case pods of [] \<Rightarrow> return '''' | pod # _ \<Rightarrow> cc_pod_log cc pod namespace))
     (\<lambda>e. return (''could not read pod logs: '' @ error_message e))"

definition json_texts :: "(string \<times> string) list \<Rightarrow> json" where
  "json_texts ms = JObj (map (\<lambda>(k, v). (k, JStr v)) ms)"

definition kubernetes_labels :: "notebook_service_record \<Rightarrow> string \<Rightarrow> json" where
  "kubernetes_labels record name = json_texts
     [(''app.kubernetes.io/name'', ''goblin-king''), (''app.kubernetes.io/component'', ''notebook-service''),
      (''goblin-king.io/notebook-service'', ''true''), (''goblin-king.io/notebook-service-name'', name),
      (''goblin-king.io/source-hash'', take 32 (ns_source_hash record))]"

definition kubernetes_service_resources :: json where
  "kubernetes_service_resources = JObj [(''requests'', json_texts [(''cpu'', ''100m''), (''memory'', ''64Mi'')]),
     (''limits'', json_texts [(''cpu'', ''1''), (''memory'', ''512Mi'')])]"

definition kubernetes_service_security_context :: json where
  "kubernetes_service_security_context = JObj [(''allowPrivilegeEscalation'', JBool False),
     (''capabilities'', JObj [(''drop'', JArr [JStr ''ALL''])]), (''privileged'', JBool False),
     (''readOnlyRootFilesystem'', JBool True), (''runAsNonRoot'', JBool True), (''runAsUser'', JInt 65532), (''runAsGroup'', JInt 65532)]"

definition kubernetes_service_pod_security_context :: json where
  "kubernetes_service_pod_security_context = JObj [(''runAsNonRoot'', JBool True), (''runAsUser'', JInt 65532),
     (''runAsGroup'', JInt 65532), (''fsGroup'', JInt 65532), (''fsGroupChangePolicy'', JStr ''OnRootMismatch''),
     (''seccompProfile'', JObj [(''type'', JStr ''RuntimeDefault'')])]"

definition env_entry :: "string \<times> string \<Rightarrow> json" where
  "env_entry kv = json_texts [(''name'', fst kv), (''value'', snd kv)]"

definition service_container :: "runtime_manager \<Rightarrow> notebook_service_record \<Rightarrow> (string \<times> string) list \<Rightarrow> json" where
  "service_container m record proxy = JObj
     [(''name'', JStr ''service''), (''image'', JStr (rm_image m)), (''imagePullPolicy'', JStr (rm_image_pull_policy m)),
      (''ports'', JArr [JObj [(''containerPort'', JInt (ns_port record))]]),
      (''env'', JArr (map env_entry ([(''GOBLIN_NOTEBOOK_SERVICE_APP'', ns_app_name record),
         (''GOBLIN_NOTEBOOK_SERVICE_SOURCE'', ''/goblin-service/source.py''),
         (''GOBLIN_NOTEBOOK_SERVICE_REQUIREMENTS'', ''/goblin-service/requirements.txt''), (''PORT'', str_int (ns_port record)),
         (''HOME'', ''/tmp''), (''PIP_TARGET'', ''/tmp/goblin-service-runtime''), (''PYTHONPATH'', ''/tmp/goblin-service-runtime''),
         (''PYTHONDONTWRITEBYTECODE'', ''1'')] @ proxy))),
      (''resources'', kubernetes_service_resources), (''securityContext'', kubernetes_service_security_context),
      (''volumeMounts'', JArr [JObj [(''name'', JStr ''bundle''), (''mountPath'', JStr ''/goblin-service''), (''readOnly'', JBool True)],
         json_texts [(''name'', ''runtime''), (''mountPath'', ''/tmp'')]])]"

definition deployment_manifest :: "runtime_manager \<Rightarrow> notebook_service_record \<Rightarrow> string \<Rightarrow> (string \<times> string) list \<Rightarrow> json" where
  "deployment_manifest m record name proxy = JObj
     [(''apiVersion'', JStr ''apps/v1''), (''kind'', JStr ''Deployment''),
      (''metadata'', JObj [(''name'', JStr name), (''labels'', kubernetes_labels record name)]),
      (''spec'', JObj [(''replicas'', JInt 1),
         (''selector'', JObj [(''matchLabels'', json_texts [(''goblin-king.io/notebook-service-name'', name)])]),
         (''template'', JObj [(''metadata'', JObj [(''labels'', kubernetes_labels record name)]),
            (''spec'', JObj [(''automountServiceAccountToken'', JBool False),
               (''securityContext'', kubernetes_service_pod_security_context),
               (''containers'', JArr [service_container m record proxy]),
               (''volumes'', JArr [JObj [(''name'', JStr ''bundle''), (''configMap'', json_texts [(''name'', name)])],
                  JObj [(''name'', JStr ''runtime''), (''emptyDir'', json_texts [(''sizeLimit'', ''512Mi'')])]])])])])]"

definition service_manifest :: "notebook_service_record \<Rightarrow> string \<Rightarrow> json" where
  "service_manifest record name = JObj
     [(''apiVersion'', JStr ''v1''), (''kind'', JStr ''Service''),
      (''metadata'', JObj [(''name'', JStr name), (''labels'', kubernetes_labels record name)]),
      (''spec'', JObj [(''selector'', json_texts [(''goblin-king.io/notebook-service-name'', name)]),
         (''ports'', JArr [JObj [(''name'', JStr ''http''), (''port'', JInt (ns_port record)), (''targetPort'', JInt (ns_port record))]])])]"

definition bundle_config_map :: "notebook_service_record \<Rightarrow> string \<Rightarrow> json" where
  "bundle_config_map record name = JObj
     [(''apiVersion'', JStr ''v1''), (''kind'', JStr ''ConfigMap''),
      (''metadata'', JObj [(''name'', JStr name), (''labels'', kubernetes_labels record name)]),
      (''data'', json_texts [(''source.py'', ns_source record), (''requirements.txt'', join_newline (ns_requirements record))])]"

fun deployment_loop :: "nat \<Rightarrow> 'r service_host \<Rightarrow> runtime_manager \<Rightarrow> string \<Rightarrow> rat \<Rightarrow> ('r world, unit) op" where
  "deployment_loop 0 h m name deadline =
     throw (runtime_error (''kubernetes notebook service deployment did not become available: '' @ name))"
| "deployment_loop (Suc n) h m name deadline =
     bind (sx_clock h) (\<lambda>now.
     if \<not> now < deadline
     then throw (runtime_error (''kubernetes notebook service deployment did not become available: '' @ name))
     else bind (cc_available_replicas (sx_cluster h) name (rm_namespace m)) (\<lambda>available.
     if 1 \<le> (case available of None \<Rightarrow> 0 | Some k \<Rightarrow> k) then return ()
     else bind (sx_sleep h 1) (\<lambda>_. deployment_loop n h m name deadline)))"

definition wait_for_kubernetes_deployment ::
  "'r service_host \<Rightarrow> runtime_manager \<Rightarrow> string \<Rightarrow> rat \<Rightarrow> ('r world, unit) op" where
  "wait_for_kubernetes_deployment h m name timeout_seconds =
     bind (sx_clock h) (\<lambda>start. deployment_loop (turns timeout_seconds) h m name (start + timeout_seconds))"

text \<open>The block under \<^verbatim>\<open>try\<close> in \<^verbatim>\<open>_start_kubernetes\<close>.\<close>

definition created_deployment ::
  "'r service_host \<Rightarrow> runtime_manager \<Rightarrow> notebook_service_record \<Rightarrow> string \<Rightarrow> rat \<Rightarrow> ('r world, service_runtime) op" where
  "created_deployment h m record name timeout_seconds =
     (let cc = sx_cluster h; namespace = rm_namespace m in
      bind (delete_kubernetes_resources cc namespace name) (\<lambda>_.
      bind (cc_create_config_map cc namespace (bundle_config_map record name)) (\<lambda>_.
      bind (lift_result (dependency_proxy_environment h)) (\<lambda>proxy.
      bind (cc_create_deployment cc namespace (deployment_manifest m record name proxy)) (\<lambda>_.
      bind (cc_create_service cc namespace (service_manifest record name)) (\<lambda>_.
      bind (wait_for_kubernetes_deployment h m name timeout_seconds) (\<lambda>_.
      let base_url = ''http://'' @ name @ ''.'' @ namespace @ ''.svc.cluster.local:'' @ str_int (ns_port record) in
      bind (probe_http h (strip_slashes base_url @ ns_probe_path record) timeout_seconds) (\<lambda>payload.
      return \<lparr>sr_backend = ''kubernetes'', sr_name = name, sr_base_url = base_url, sr_probe = Some payload\<rparr>))))))))"

definition start_kubernetes ::
  "'r service_host \<Rightarrow> runtime_manager \<Rightarrow> notebook_service_record \<Rightarrow> string \<Rightarrow> rat \<Rightarrow> ('r world, service_runtime) op" where
  "start_kubernetes h m record name timeout_seconds =
     (let cc = sx_cluster h; namespace = rm_namespace m in
      bind (load_cluster_config cc) (\<lambda>_.
      handle (created_deployment h m record name timeout_seconds) (\<lambda>e.
        bind (kubernetes_logs cc namespace name) (\<lambda>logs.
        bind (delete_kubernetes_resources cc namespace name) (\<lambda>_.
        if is_runtime_error e then throw (runtime_error (error_message e @ ''; pod logs: '' @ logs))
        else throw (runtime_error (''kubernetes notebook service start failed: '' @ error_message e @ ''; pod logs: '' @ logs)))))))"

section \<open>The manager\<close>

definition resolved_backend :: "'r service_host \<Rightarrow> runtime_manager \<Rightarrow> string" where
  "resolved_backend h m = (if rm_runtime m \<noteq> ''auto'' then rm_runtime m
     else if truthy_text (sx_environ h ''KUBERNETES_SERVICE_HOST'') then ''kubernetes'' else ''docker'')"

definition stop_by_backend :: "'r service_host \<Rightarrow> runtime_manager \<Rightarrow> string \<Rightarrow> string \<Rightarrow> ('r world, unit) op" where
  "stop_by_backend h m backend name =
     (if backend = ''docker'' then stop_docker h m name
      else if backend = ''kubernetes'' then delete_kubernetes_resources (sx_cluster h) (rm_namespace m) name
      else throw (runtime_error (''unsupported notebook service runtime: '' @ backend)))"

definition start_service ::
  "'r service_host \<Rightarrow> runtime_manager \<Rightarrow> notebook_service_record \<Rightarrow> string option \<Rightarrow> rat \<Rightarrow> ('r world, service_runtime) op" where
  "start_service h m record name timeout_seconds =
     (let backend = resolved_backend h m;
          runtime_name = or_else name (notebook_service_runtime_name (ns_kind record) (ns_source_hash record) None) in
      if backend = ''kubernetes'' then start_kubernetes h m record runtime_name timeout_seconds
      else if backend = ''docker'' then start_docker h m record runtime_name timeout_seconds
      else throw (runtime_error (''unsupported notebook service runtime: '' @ backend)))"

definition validate_service ::
  "'r service_host \<Rightarrow> runtime_manager \<Rightarrow> notebook_service_record \<Rightarrow> rat \<Rightarrow> ('r world, service_runtime) op" where
  "validate_service h m record timeout_seconds =
     bind (start_service h m record (Some (notebook_service_runtime_name (ns_kind record) (ns_source_hash record) (Some ''validate'')))
            timeout_seconds) (\<lambda>runtime.
     bind (stop_by_backend h m (sr_backend runtime) (sr_name runtime)) (\<lambda>_. return runtime))"

text \<open>The manager as the routes of the API use it: \<^verbatim>\<open>NotebookServiceRuntimeError\<close> is what they catch.\<close>

definition caught :: "('r world, 'a) op \<Rightarrow> ('r world, string + 'a) op" where
  "caught m = bind (catching is_runtime_error m) (\<lambda>r. return (map_sum error_message id r))"

definition managed_services :: "'r service_host \<Rightarrow> runtime_manager \<Rightarrow> 'r service_manager" where
  "managed_services h m = \<lparr>sm_validate = (\<lambda>r t. caught (validate_service h m r (of_int t))),
     sm_start = (\<lambda>r name t. caught (start_service h m r name (of_int t))), sm_stop_by_backend = stop_by_backend h m\<rparr>"

section \<open>Waiting ends\<close>

text \<open>A monotonic clock read off the world, that a sleep advances by what it sleeps and nothing sets back.\<close>

definition ticking :: "('r world \<Rightarrow> rat) \<Rightarrow> 'r service_host \<Rightarrow> bool" where
  "ticking now h \<longleftrightarrow> (\<forall>w. sx_clock h w = (Inr (now w), w)) \<and>
     (\<forall>d w. fst (sx_sleep h d w) = Inr () \<and> now w + d \<le> now (snd (sx_sleep h d w))) \<and>
     (\<forall>url t w. now w \<le> now (snd (sx_urlopen h url t w))) \<and>
     (\<forall>n ns w. now w \<le> now (snd (cc_available_replicas (sx_cluster h) n ns w)))"

lemma catching_Inr:
  "catching P m w = (Inr r, w') \<longleftrightarrow> (case r of Inr a \<Rightarrow> m w = (Inr a, w') | Inl e \<Rightarrow> m w = (Inl e, w') \<and> P e)"
  by (cases "m w"; cases "fst (m w)") (auto simp: catching_def split: sum.splits)

lemma probe_once_later:
  assumes "ticking now h" and "probe_once h url t w = (Inr (Inl m), w')"
  shows "now w + 1 \<le> now w'"
proof -
  let ?request = "bind (sx_urlopen h url (min 5 t)) (\<lambda>(status, headers, body). lift_result (probe_payload (sx_loads h) status headers body))"
  obtain outcome t1 where "catching is_os_error ?request w = (Inr outcome, t1)"
    "(case outcome of Inr payload \<Rightarrow> return (Inr payload) | Inl e \<Rightarrow> bind (sx_sleep h 1) (\<lambda>_. return (Inl (error_message e)))) t1 =
      (Inr (Inl m), w')"
    using assms(2) unfolding probe_once_def bind_Inr_iff [of "catching _ _"] by blast
  then obtain e w1 where request: "?request w = (Inl e, w1)" and slept: "sx_sleep h 1 w1 = (Inr (), w')"
    by (cases outcome) (auto simp: catching_Inr bind_Inr_iff return_eq)
  have "snd (?request w) = snd (sx_urlopen h url (min 5 t) w)"
    by (auto simp: bind_def lift_result_def split: prod.split sum.split)
  then have "now w \<le> now w1" using assms(1) request by (simp add: ticking_def)
  moreover have "now w1 + 1 \<le> now w'" using assms(1) slept by (simp add: ticking_def) (metis snd_conv)
  ultimately show ?thesis by simp
qed

lemma probe_loop_fuel:
  assumes "ticking now h" and "deadline - now w \<le> of_nat k" and "k < n"
  shows "probe_loop n h url t deadline m w = probe_loop (Suc k) h url t deadline m w"
  using assms(2,3)
proof (induction k arbitrary: n w m)
  case 0
  then obtain n' where n: "n = Suc n'" by (cases n) auto
  show ?case using 0 assms(1) by (simp add: n ticking_def bind_def)
next
  case (Suc k)
  then obtain n' where n: "n = Suc n'" "k < n'" by (cases n) auto
  have "probe_loop n' h url t deadline message w1 = probe_loop (Suc k) h url t deadline message w1"
    if "probe_once h url t w = (Inr (Inl message), w1)" for message w1
    using probe_once_later [OF assms(1) that] Suc.prems n by (intro Suc.IH) simp_all
  then show ?case using assms(1) unfolding n(1) probe_loop.simps(2)
    by (auto simp: ticking_def bind_def simp del: probe_loop.simps split: prod.split sum.split)
qed

text \<open>
  Probing a service ends: when the clock ticks, a loop with no bound on its turns answers what the
  bounded one answers, because after as many failed requests as the timeout has seconds the deadline
  has passed.
\<close>

theorem probing_ends:
  assumes "ticking now h" and "turns timeout \<le> n"
  shows "probe_loop n h url timeout (now w + timeout) ''probe timed out'' w = probe_http h url timeout w"
proof -
  have "now w + timeout - now w \<le> of_nat (nat \<lceil>timeout\<rceil>)" by (simp add: of_nat_ceiling)
  from probe_loop_fuel [OF assms(1) this, of n] show ?thesis
    using assms by (simp add: probe_http_def ticking_def bind_def turns_def del: probe_loop.simps)
qed

text \<open>A host on which the service answers at the third request, and a manager on it.\<close>

definition demo_cluster :: "'r cluster_client" where
  "demo_cluster = \<lparr>cc_load_incluster_config = return (), cc_load_kube_config = return (), cc_create_config_map = (\<lambda>_ _. return ()),
     cc_create_deployment = (\<lambda>_ _. return ()), cc_create_service = (\<lambda>_ _. return ()), cc_available_replicas = (\<lambda>_ _. return (Some 1)),
     cc_delete_deployment = (\<lambda>_ _. return ()), cc_delete_service = (\<lambda>_ _. return ()), cc_delete_config_map = (\<lambda>_ _. return ()),
     cc_list_pods = (\<lambda>_ _. return []), cc_pod_log = (\<lambda>_ _. return '''')\<rparr>"

definition slow_host :: "rat service_host" where
  "slow_host = \<lparr>sx_environ = (\<lambda>_. None), sx_urlsplit = (\<lambda>_. Inl (Raise ValueError '''')), sx_resolve = id,
     sx_write_files = (\<lambda>_ _. return ()), sx_run = (\<lambda>c. return (0, ''127.0.0.1:49153'', '''')), sx_clock = gets w_redis,
     sx_sleep = (\<lambda>d. modify (\<lambda>w. w\<lparr>w_redis := w_redis w + d\<rparr>)),
     sx_urlopen = (\<lambda>_ _. bind (gets w_redis) (\<lambda>now. if now < 2 then throw (Raise OSError ''connection refused'') else return (200, [], ''hello''))),
     sx_loads = (\<lambda>_. Inl (Raise ValueError ''not JSON'')), sx_cluster = demo_cluster\<rparr>"

definition demo_manager :: runtime_manager where
  "demo_manager = \<lparr>rm_image = ''runner'', rm_runtime = ''auto'', rm_work_root = path_of ''/data/services'', rm_docker_executable = ''docker'',
     rm_namespace = ''default'', rm_image_pull_policy = ''IfNotPresent''\<rparr>"

definition demo_service :: notebook_service_record where
  "demo_service = \<lparr>ns_kind = ''hello.app'', ns_project_id = Some ''p1'', ns_display_name = ''Hello'', ns_image = ''runner'',
     ns_source = ''app = 1'', ns_source_hash = ''0123456789abcdef'', ns_app_name = ''app'', ns_requirements = [], ns_port = 80,
     ns_probe_path = ''/hello'', ns_created_at = utc 1, ns_updated_at = utc 1, ns_created_by = ''u'', ns_metadata = JObj [],
     ns_runtime_backend = None, ns_runtime_name = None, ns_runtime_status = ''declared'', ns_active_service_id = None\<rparr>"

definition slow_world :: "rat world" where
  "slow_world = \<lparr>w_db = empty_db, w_redis = 0, w_clock = w_clock (fresh_world empty_db), w_uuids = w_uuids (fresh_world empty_db), w_drawn = 0\<rparr>"

lemma slow_host_ticks: "ticking w_redis slow_host"
  by (simp add: ticking_def slow_host_def demo_cluster_def gets_eq modify_def bind_def return_eq throw_eq)

theorem probing_ends_witness:
  "probe_loop 100 slow_host ''http://svc/hello'' 5 5 ''probe timed out'' slow_world = probe_http slow_host ''http://svc/hello'' 5 slow_world"
proof -
  have "w_redis slow_world = 0" "turns 5 \<le> 100" by (simp_all add: slow_world_def turns_def)
  then show ?thesis using probing_ends [OF slow_host_ticks, of 5 100 "''http://svc/hello''" slow_world] by simp
qed

section \<open>What a start leaves behind\<close>

lemma probe_payload_ok:
  "probe_payload loads s hs b = Inr payload \<Longrightarrow> obj_get payload ''ok'' = Some (JBool (200 \<le> s \<and> s < 300))"
  by (auto simp: probe_payload_def split: sum.split_asm if_splits)

lemma probe_once_Inr:
  assumes "probe_once h url t w = (Inr (Inr payload), w')"
  shows "\<exists>s hs b. sx_urlopen h url (min 5 t) w = (Inr (s, hs, b), w') \<and> probe_payload (sx_loads h) s hs b = Inr payload"
proof -
  let ?request = "bind (sx_urlopen h url (min 5 t)) (\<lambda>(status, headers, body). lift_result (probe_payload (sx_loads h) status headers body))"
  obtain outcome t1 where "catching is_os_error ?request w = (Inr outcome, t1)"
    "(case outcome of Inr payload \<Rightarrow> return (Inr payload) | Inl e \<Rightarrow> bind (sx_sleep h 1) (\<lambda>_. return (Inl (error_message e)))) t1 =
      (Inr (Inr payload), w')"
    using assms unfolding probe_once_def bind_Inr_iff [of "catching _ _"] by blast
  then have "?request w = (Inr payload, w')" by (cases outcome) (auto simp: catching_Inr bind_Inr_iff return_eq)
  then show ?thesis by (auto simp: bind_Inr_iff lift_result_Inr_iff)
qed

lemma probe_http_ok:
  assumes "probe_http h url t w = (Inr payload, w')"
    and urlopen: "\<And>u d v s hs b v'. sx_urlopen h u d v = (Inr (s, hs, b), v') \<Longrightarrow> 200 \<le> s \<and> s < 300"
  shows "obj_get payload ''ok'' = Some (JBool True)"
proof -
  have once: "obj_get payload ''ok'' = Some (JBool True)" if "probe_once h url t w = (Inr (Inr payload), w')" for w w'
    using probe_once_Inr [OF that] urlopen probe_payload_ok by fastforce
  have "probe_loop n h url t deadline m w = (Inr payload, w') \<Longrightarrow> obj_get payload ''ok'' = Some (JBool True)" for n deadline m w
  proof (induction n arbitrary: w m)
    case (Suc n)
    from Suc.prems obtain outcome w1 w2 where "probe_once h url t w1 = (Inr outcome, w2)"
      "(case outcome of Inr payload \<Rightarrow> return payload | Inl message \<Rightarrow> probe_loop n h url t deadline message) w2 = (Inr payload, w')"
      by (auto simp: bind_Inr_iff if_throw_Inr)
    then show ?case using Suc.IH once by (cases outcome) (auto simp: return_eq)
  qed (simp add: throw_eq)
  then show ?thesis using assms(1) by (auto simp: probe_http_def bind_Inr_iff simp del: probe_loop.simps)
qed

text \<open>
  A service that is reported started runs in Docker or in the cluster under the name asked for, and
  answered its probe with a success.
\<close>

theorem started_service_answered:
  assumes "start_service h m record name t w = (Inr r, w')"
    and "\<And>u d v s hs b v'. sx_urlopen h u d v = (Inr (s, hs, b), v') \<Longrightarrow> 200 \<le> s \<and> s < 300"
  shows "sr_backend r = resolved_backend h m \<and> sr_backend r \<in> {''docker'', ''kubernetes''} \<and>
    sr_name r = or_else name (notebook_service_runtime_name (ns_kind record) (ns_source_hash record) None) \<and>
    (\<exists>payload. sr_probe r = Some payload \<and> obj_get payload ''ok'' = Some (JBool True))"
proof -
  have docker: "sr_backend r = ''docker'' \<and> sr_name r = n \<and> (\<exists>payload. sr_probe r = Some payload \<and> obj_get payload ''ok'' = Some (JBool True))"
    if "start_docker h m record n t w = (Inr r, w')" for n
    using that probe_http_ok [OF _ assms(2)] unfolding start_docker_def probed_container_def
    by (fastforce simp: returns split: prod.splits if_splits)
  have cluster: "sr_backend r = ''kubernetes'' \<and> sr_name r = n \<and> (\<exists>payload. sr_probe r = Some payload \<and> obj_get payload ''ok'' = Some (JBool True))"
    if "start_kubernetes h m record n t w = (Inr r, w')" for n
    using that probe_http_ok [OF _ assms(2)] unfolding start_kubernetes_def created_deployment_def
    by (fastforce simp: returns Let_def split: prod.splits if_splits)
  show ?thesis using assms(1) docker cluster unfolding start_service_def
    by (auto simp: Let_def throw_eq split: if_splits)
qed

theorem started_service_answered_witness:
  "\<exists>r w'. start_service slow_host demo_manager demo_service (Some ''svc'') 5 slow_world = (Inr r, w') \<and> sr_backend r = ''docker'' \<and>
     (\<exists>payload. sr_probe r = Some payload \<and> obj_get payload ''ok'' = Some (JBool True))"
proof -
  let ?run = "start_service slow_host demo_manager demo_service (Some ''svc'') 5 slow_world"
  have "map_sum (\<lambda>_. ()) (\<lambda>_. ()) (fst ?run) = Inr ()" by code_simp
  then obtain r w' where run: "?run = (Inr r, w')" by (cases ?run; cases "fst ?run") auto
  have "200 \<le> s \<and> s < 300" if "sx_urlopen slow_host u d v = (Inr (s, hs, b), v')" for u d v s hs b and v' :: "rat world"
    using that by (auto simp: slow_host_def bind_Inr_iff gets_eq if_throw_Inr return_eq)
  from started_service_answered [OF run this] run show ?thesis
    by (auto simp: resolved_backend_def demo_manager_def slow_host_def truthy_text_def)
qed

text \<open>
  A cluster that keeps what was created until it is deleted: \<open>there\<close> says which resources of a name
  exist. A delete that succeeds, or says 404, leaves none of its sort; it never creates one. The
  client raises errors of its own.
\<close>

definition deletes :: "('r world \<Rightarrow> bool) \<Rightarrow> ('r world, unit) op \<Rightarrow> bool" where
  "deletes there del \<longleftrightarrow> (\<forall>w r w'. del w = (r, w') \<longrightarrow> (r = Inr () \<or> (\<exists>m. r = Inl (Raise (ApiException 404) m)) \<longrightarrow> \<not> there w') \<and>
     (\<forall>e. r = Inl e \<longrightarrow> \<not> is_runtime_error e))"

definition spares_absent :: "('r world \<Rightarrow> bool) \<Rightarrow> ('r world, 'a) op \<Rightarrow> bool" where
  "spares_absent there m \<longleftrightarrow> (\<forall>w. \<not> there w \<longrightarrow> \<not> there (snd (m w)))"

record 'r cluster_state =
  cs_deployment :: "string \<Rightarrow> string \<Rightarrow> 'r world \<Rightarrow> bool"
  cs_service :: "string \<Rightarrow> string \<Rightarrow> 'r world \<Rightarrow> bool"
  cs_config_map :: "string \<Rightarrow> string \<Rightarrow> 'r world \<Rightarrow> bool"

definition cluster_keeps_its_word :: "'r cluster_state \<Rightarrow> 'r cluster_client \<Rightarrow> bool" where
  "cluster_keeps_its_word st cc \<longleftrightarrow>
     (\<forall>n ns. deletes (cs_deployment st n ns) (cc_delete_deployment cc n ns) \<and> deletes (cs_service st n ns) (cc_delete_service cc n ns) \<and>
        deletes (cs_config_map st n ns) (cc_delete_config_map cc n ns) \<and>
        spares_absent (cs_deployment st n ns) (cc_delete_service cc n ns) \<and>
        spares_absent (cs_deployment st n ns) (cc_delete_config_map cc n ns) \<and>
        spares_absent (cs_service st n ns) (cc_delete_config_map cc n ns)) \<and>
     (\<forall>w e w'. cc_load_incluster_config cc w = (Inl e, w') \<or> cc_load_kube_config cc w = (Inl e, w') \<longrightarrow> \<not> is_runtime_error e)"

definition nothing_left :: "'r cluster_state \<Rightarrow> string \<Rightarrow> string \<Rightarrow> 'r world \<Rightarrow> bool" where
  "nothing_left st n ns w \<longleftrightarrow> \<not> cs_deployment st n ns w \<and> \<not> cs_service st n ns w \<and> \<not> cs_config_map st n ns w"

lemma ignoring_missing_Inr:
  assumes "ignoring_missing del w = (Inr (), w')" and "deletes there del"
  shows "\<not> there w' \<and> snd (del w) = w'"
proof -
  obtain r t where del: "del w = (r, t)" by fastforce
  have "t = w' \<and> (r = Inr () \<or> (\<exists>m. r = Inl (Raise (ApiException 404) m)))"
  proof (cases r)
    case (Inl e)
    then show ?thesis using assms(1) del
      by (cases e) (auto simp: ignoring_missing_def handle_def throw_eq return_eq split: exc_class.splits if_splits)
  qed (use assms(1) del in \<open>auto simp: ignoring_missing_def handle_def\<close>)
  then show ?thesis using assms(2) del unfolding deletes_def by (metis snd_conv)
qed

lemma load_cluster_config_Inl:
  "load_cluster_config cc w = (Inl e, w') \<Longrightarrow> cluster_keeps_its_word st cc \<Longrightarrow> \<not> is_runtime_error e"
  by (auto simp: load_cluster_config_def handle_def cluster_keeps_its_word_def throw_eq split: prod.splits sum.splits if_splits)

lemma ignoring_missing_Inl:
  "ignoring_missing del w = (Inl e, w') \<Longrightarrow> deletes there del \<Longrightarrow> \<not> is_runtime_error e"
  by (cases "del w"; cases "fst (del w)")
    (auto simp: ignoring_missing_def handle_def deletes_def throw_eq return_eq split: exc_class.splits if_splits)

lemma bind_Inl_iff: "bind m f w = (Inl e, w') \<longleftrightarrow> m w = (Inl e, w') \<or> (\<exists>a t. m w = (Inr a, t) \<and> f a t = (Inl e, w'))"
  by (auto simp: bind_def split: prod.split sum.split)

lemma handle_Inl_iff: "handle m f w = (Inl e, w') \<longleftrightarrow> (\<exists>e1 t. m w = (Inl e1, t) \<and> f e1 t = (Inl e, w'))"
  by (cases "m w"; cases "fst (m w)") (auto simp: handle_def)

lemma delete_resources:
  assumes "cluster_keeps_its_word st cc"
  shows "delete_kubernetes_resources cc ns n w = (Inr (), w') \<Longrightarrow> nothing_left st n ns w'"
    and "delete_kubernetes_resources cc ns n w = (Inl e, w') \<Longrightarrow> \<not> is_runtime_error e"
proof -
  note word = assms [unfolded cluster_keeps_its_word_def, THEN conjunct1, rule_format, of n ns]
  show "nothing_left st n ns w'" if deleted: "delete_kubernetes_resources cc ns n w = (Inr (), w')"
  proof -
    obtain w1 w2 w3 where steps: "ignoring_missing (cc_delete_deployment cc n ns) w1 = (Inr (), w2)"
      "ignoring_missing (cc_delete_service cc n ns) w2 = (Inr (), w3)" "ignoring_missing (cc_delete_config_map cc n ns) w3 = (Inr (), w')"
      using deleted by (auto simp: delete_kubernetes_resources_def bind_Inr_iff)
    note a = ignoring_missing_Inr [OF steps(1), of "cs_deployment st n ns"]
      and b = ignoring_missing_Inr [OF steps(2), of "cs_service st n ns"]
      and c = ignoring_missing_Inr [OF steps(3), of "cs_config_map st n ns"]
    show ?thesis using word a b c by (auto simp: nothing_left_def spares_absent_def)
  qed
  show "\<not> is_runtime_error e" if "delete_kubernetes_resources cc ns n w = (Inl e, w')"
    using that word load_cluster_config_Inl [OF _ assms] ignoring_missing_Inl
    unfolding delete_kubernetes_resources_def bind_Inl_iff by blast
qed

text \<open>
  C22. A start in the cluster that fails with the error its callers handle has removed the deployment, the
  service and the config map of the name: nothing of the service is left to run.
\<close>

theorem failed_cluster_start_leaves_nothing:
  assumes "cluster_keeps_its_word st (sx_cluster h)" and "start_kubernetes h m record name t w = (Inl e, w')" and "is_runtime_error e"
  shows "nothing_left st name (rm_namespace m) w'"
proof -
  let ?cc = "sx_cluster h"
  obtain e1 w1 where "bind (kubernetes_logs ?cc (rm_namespace m) name) (\<lambda>logs. bind (delete_kubernetes_resources ?cc (rm_namespace m) name) (\<lambda>_.
        if is_runtime_error e1 then throw (runtime_error (error_message e1 @ ''; pod logs: '' @ logs))
        else throw (runtime_error (''kubernetes notebook service start failed: '' @ error_message e1 @ ''; pod logs: '' @ logs)))) w1 =
        (Inl e :: service_runtime result, w')"
    using assms(2) load_cluster_config_Inl [OF _ assms(1), of w e w'] assms(3)
    unfolding start_kubernetes_def Let_def bind_Inl_iff [of "load_cluster_config _"] handle_Inl_iff
    by (elim disjE exE conjE) simp_all
  then obtain w2 where "delete_kubernetes_resources ?cc (rm_namespace m) name w2 = (Inr (), w')
      \<or> delete_kubernetes_resources ?cc (rm_namespace m) name w2 = (Inl e, w')
      \<or> kubernetes_logs ?cc (rm_namespace m) name w1 = (Inl e, w')"
    unfolding bind_Inl_iff by (auto simp: throw_eq split: if_splits)
  moreover have "kubernetes_logs ?cc (rm_namespace m) name w1 \<noteq> (Inl e, w')"
    by (auto simp: kubernetes_logs_def handle_def return_eq split: prod.splits sum.splits)
  ultimately show ?thesis using delete_resources [OF assms(1)] assms(3) by blast
qed

text \<open>A cluster whose deployments never become available: the clock and which of the three resources exist.\<close>

definition stuck_cluster :: "(rat \<times> bool \<times> bool \<times> bool) cluster_client" where
  "stuck_cluster =
     (let set = (\<lambda>f. modify (\<lambda>w. w\<lparr>w_redis := (fst (w_redis w), f (snd (w_redis w)))\<rparr>)) in
      \<lparr>cc_load_incluster_config = return (), cc_load_kube_config = return (),
       cc_create_config_map = (\<lambda>_ _. set (\<lambda>(d, s, c). (d, s, True))), cc_create_deployment = (\<lambda>_ _. set (\<lambda>(d, s, c). (True, s, c))),
       cc_create_service = (\<lambda>_ _. set (\<lambda>(d, s, c). (d, True, c))), cc_available_replicas = (\<lambda>_ _. return None),
       cc_delete_deployment = (\<lambda>_ _. set (\<lambda>(d, s, c). (False, s, c))), cc_delete_service = (\<lambda>_ _. set (\<lambda>(d, s, c). (d, False, c))),
       cc_delete_config_map = (\<lambda>_ _. set (\<lambda>(d, s, c). (d, s, False))),
       cc_list_pods = (\<lambda>_ _. throw (Raise (ApiException 403) ''forbidden'')), cc_pod_log = (\<lambda>_ _. return '''')\<rparr>)"

definition stuck_state :: "(rat \<times> bool \<times> bool \<times> bool) cluster_state" where
  "stuck_state = \<lparr>cs_deployment = (\<lambda>_ _ w. fst (snd (w_redis w))), cs_service = (\<lambda>_ _ w. fst (snd (snd (w_redis w)))),
     cs_config_map = (\<lambda>_ _ w. snd (snd (snd (w_redis w))))\<rparr>"

definition stuck_host :: "(rat \<times> bool \<times> bool \<times> bool) service_host" where
  "stuck_host = \<lparr>sx_environ = (\<lambda>_. None), sx_urlsplit = (\<lambda>_. Inl (Raise ValueError '''')), sx_resolve = id,
     sx_write_files = (\<lambda>_ _. return ()), sx_run = (\<lambda>c. return (0, '''', '''')), sx_clock = gets (\<lambda>w. fst (w_redis w)),
     sx_sleep = (\<lambda>d. modify (\<lambda>w. w\<lparr>w_redis := (fst (w_redis w) + d, snd (w_redis w))\<rparr>)),
     sx_urlopen = (\<lambda>_ _. throw (Raise OSError ''connection refused'')), sx_loads = (\<lambda>_. Inl (Raise ValueError ''not JSON'')),
     sx_cluster = stuck_cluster\<rparr>"

definition stuck_world :: "(rat \<times> bool \<times> bool \<times> bool) world" where
  "stuck_world = \<lparr>w_db = empty_db, w_redis = (0, False, False, False), w_clock = w_clock (fresh_world empty_db),
     w_uuids = w_uuids (fresh_world empty_db), w_drawn = 0\<rparr>"

lemma stuck_cluster_word: "cluster_keeps_its_word stuck_state (sx_cluster stuck_host)"
  by (auto simp: cluster_keeps_its_word_def deletes_def spares_absent_def stuck_state_def stuck_host_def stuck_cluster_def
      modify_def return_eq Let_def split: prod.splits)

theorem failed_cluster_start_leaves_nothing_witness:
  "\<exists>e w'. start_kubernetes stuck_host demo_manager demo_service ''svc'' 2 stuck_world = (Inl e, w') \<and> is_runtime_error e \<and>
     nothing_left stuck_state ''svc'' ''default'' w'"
proof -
  let ?run = "start_kubernetes stuck_host demo_manager demo_service ''svc'' 2 stuck_world"
  have "(case fst ?run of Inl e \<Rightarrow> is_runtime_error e | Inr _ \<Rightarrow> False)" by code_simp
  then obtain e w' where run: "?run = (Inl e, w')" and e: "is_runtime_error e" by (cases ?run; cases "fst ?run") auto
  have "rm_namespace demo_manager = ''default''" by (simp add: demo_manager_def)
  with failed_cluster_start_leaves_nothing [OF stuck_cluster_word run e] run e show ?thesis by auto
qed

section \<open>What is left running, and shared names\<close>

text \<open>
  In Docker without a network, a container that has been started is not removed when its host port
  cannot be read: the start fails, and the commands it issued end with the inspection of the port.
\<close>

theorem unreadable_port_leaves_container:
  fixes h :: "string list list service_host"
  assumes run: "\<And>c w. sx_run h c w = (Inr (answer c), w\<lparr>w_redis := w_redis w @ [c]\<rparr>)" and files: "\<And>d fs w. sx_write_files h d fs w = (Inr (), w)"
    and env: "\<And>k. sx_environ h k = None" and started: "fst (answer (docker_service_command h m record name mounts [])) = 0"
    and mounts: "docker_bundle_volume_args h m (sx_resolve h (path_join (rm_work_root m) (path_of name))) = Inr mounts"
    and port: "fst (answer [rm_docker_executable m, ''port'', name, str_int (ns_port record) @ ''/tcp'']) \<noteq> 0"
  shows "\<exists>e. fst (start_docker h m record name t w) = Inl e \<and> is_runtime_error e \<and>
    w_redis (snd (start_docker h m record name t w)) = w_redis w @
      [[rm_docker_executable m, ''rm'', ''-f'', name], docker_service_command h m record name mounts [],
       [rm_docker_executable m, ''port'', name, str_int (ns_port record) @ ''/tcp'']]"
proof -
  have proxy: "dependency_proxy_environment h = Inr []"
    by (simp add: dependency_proxy_environment_def environ_text_def env py_strip_def)
  obtain out err where started': "answer (docker_service_command h m record name mounts []) = (0, out, err)"
    using started by (cases "answer (docker_service_command h m record name mounts [])") auto
  obtain code out' err' where port': "answer [rm_docker_executable m, ''port'', name, str_int (ns_port record) @ ''/tcp''] = (code, out', err')"
    "code \<noteq> 0" using port by (cases "answer [rm_docker_executable m, ''port'', name, str_int (ns_port record) @ ''/tcp'']") auto
  show ?thesis
    unfolding start_docker_def write_bundle_def Let_def bind_def files prod.case sum.case return_eq stop_docker_def run mounts
      lift_result_eq proxy started' probed_container_def docker_host_port_def env truthy_text_def port'
    by (simp add: port'(2) return_eq throw_eq bind_def run port'(1) is_runtime_error_def runtime_error_def)
qed

lemma docker_service_command_run: "\<exists>cs. docker_service_command h m record name mounts proxy = rm_docker_executable m # ''run'' # cs"
  by (cases mounts) (simp add: docker_service_command_def Let_def)

definition recording_host :: "string list list service_host" where
  "recording_host = \<lparr>sx_environ = (\<lambda>_. None), sx_urlsplit = (\<lambda>_. Inl (Raise ValueError '''')), sx_resolve = id,
     sx_write_files = (\<lambda>_ _. return ()),
     sx_run = (\<lambda>c w. (Inr (if c ! 1 = ''port'' then (1, '''', ''no such port'') else (0, '''', '''')), w\<lparr>w_redis := w_redis w @ [c]\<rparr>)),
     sx_clock = return 0, sx_sleep = (\<lambda>_. return ()), sx_urlopen = (\<lambda>_ _. throw (Raise OSError ''connection refused'')),
     sx_loads = (\<lambda>_. Inl (Raise ValueError ''not JSON'')), sx_cluster = demo_cluster\<rparr>"

theorem unreadable_port_leaves_container_witness:
  "\<exists>e cs. fst (start_docker recording_host demo_manager demo_service ''svc'' 5 (w :: string list list world)) = Inl e \<and>
     w_redis (snd (start_docker recording_host demo_manager demo_service ''svc'' 5 w)) =
       w_redis w @ [[''docker'', ''rm'', ''-f'', ''svc''], ''docker'' # ''run'' # cs, [''docker'', ''port'', ''svc'', ''80/tcp'']]"
proof -
  let ?answer = "\<lambda>c. if c ! 1 = ''port'' then (1, '''', ''no such port'') else (0, '''', '''') :: int \<times> string \<times> string"
  obtain mounts where mounts: "docker_bundle_volume_args recording_host demo_manager
      (sx_resolve recording_host (path_join (rm_work_root demo_manager) (path_of ''svc''))) = Inr mounts"
    by (simp add: docker_bundle_volume_args_def recording_host_def truthy_text_def Let_def)
  have docker: "rm_docker_executable demo_manager = ''docker''" and port: "str_int (ns_port demo_service) = ''80''"
    by (simp add: demo_manager_def, code_simp)
  let ?command = "docker_service_command recording_host demo_manager demo_service ''svc'' mounts []"
  obtain cs where command: "?command = ''docker'' # ''run'' # cs"
    using docker_service_command_run [of recording_host demo_manager] docker by metis
  then have started: "fst (?answer ?command) = 0" by simp
  have "\<exists>e. fst (start_docker recording_host demo_manager demo_service ''svc'' 5 w) = Inl e \<and> is_runtime_error e \<and>
    w_redis (snd (start_docker recording_host demo_manager demo_service ''svc'' 5 w)) = w_redis w @
      [[rm_docker_executable demo_manager, ''rm'', ''-f'', ''svc''], ?command,
       [rm_docker_executable demo_manager, ''port'', ''svc'', str_int (ns_port demo_service) @ ''/tcp'']]"
    by (rule unreadable_port_leaves_container [where answer = ?answer, OF _ _ _ started mounts])
      (simp_all add: recording_host_def return_eq)
  with command show ?thesis unfolding docker port by auto
qed

lemma split_dash_alnums: "list_all is_alnum p \<Longrightarrow> split_dash (p @ s) = (p @ hd (split_dash s)) # tl (split_dash s)"
proof (induction p)
  case Nil
  then show ?case by (cases s) (auto split: list.split)
next
  case (Cons c p)
  then have "c \<noteq> CHR ''-''" by (auto simp: is_alnum_def is_digit_def)
  then show ?case using Cons by simp
qed

text \<open>
  Kinds that agree on their first 54 characters run under one name in Docker and in the cluster,
  whatever their sources are: starting one first removes the other.
\<close>

theorem long_kinds_share_runtime_name:
  assumes "length p = 54" and "list_all kind_alnum p"
  shows "notebook_service_runtime_name (p @ rest) source_hash None = notebook_service_runtime_name (p @ rest') source_hash' None"
proof -
  let ?clean = "\<lambda>s. map (\<lambda>c. if is_alnum c then c else CHR ''-'') (py_lower s)"
  have kept: "is_alnum c \<and> lower_char c = c" if "kind_alnum c" for c
    using that by (auto simp: kind_alnum_def is_alnum_def lower_char_def less_eq_char_def)
  then have clean: "?clean p = p" and alnum: "list_all is_alnum p"
    using assms(2) by (auto simp: list_all_iff py_lower_def map_idI)
  have prefix: "?clean ''gk-nbsvc-'' = ''gk-nbsvc-''" by code_simp
  have "kubernetes_name (''gk-nbsvc-'' @ (p @ x) @ y) = strip_dash (''gk-nbsvc-'' @ p)" for x y
  proof -
    obtain h t where "split_dash (p @ ?clean (x @ y)) = (p @ h) # t" using split_dash_alnums [OF alnum] by blast
    moreover have "?clean (''gk-nbsvc-'' @ (p @ x) @ y) = ''gk-nbsvc-'' @ p @ ?clean (x @ y)"
      using clean prefix by (simp add: py_lower_def)
    moreover obtain z where "join_dash ((p @ h) # filter (\<lambda>q. q \<noteq> '''') t) = p @ z"
      by (cases "filter (\<lambda>q. q \<noteq> '''') t") auto
    ultimately have "join_dash (filter (\<lambda>q. q \<noteq> '''') (split_dash (?clean (''gk-nbsvc-'' @ (p @ x) @ y)))) = ''gk-nbsvc-'' @ p @ z"
      using assms(1) by auto
    then have "take 63 (join_dash (filter (\<lambda>q. q \<noteq> '''') (split_dash (?clean (''gk-nbsvc-'' @ (p @ x) @ y))))) = ''gk-nbsvc-'' @ p"
      using assms(1) by simp
    moreover have "strip_dash (''gk-nbsvc-'' @ p) \<noteq> ''''" 
      using alnum by (simp add: strip_dash_def)
    ultimately show ?thesis unfolding kubernetes_name_def Let_def by simp
  qed
  then show ?thesis unfolding notebook_service_runtime_name_def Let_def option.case by simp
qed

theorem long_kinds_share_runtime_name_witness:
  "notebook_service_runtime_name (replicate 54 (CHR ''a'') @ ''.v1'') ''1111'' None =
   notebook_service_runtime_name (replicate 54 (CHR ''a'') @ ''.v2'') ''2222'' None"
  by (rule long_kinds_share_runtime_name) (simp_all add: list_all_iff kind_alnum_def)

end
