(* ===== verification/Api_Services.thy ===== *)
theory Api_Services
  imports Api_Review Service_Drain Service_Runtime
begin

text \<open>
  Published services of the function repository: start, probe and stop by name, and the retirement of
  the runtime that a start replaces (\<^verbatim>\<open>src/src/goblin_king/api.py\<close>), with the access check of a
  relay (\<^verbatim>\<open>src/src/goblin_king/api_service_websockets.py\<close>). A start works on the world and on the
  registry of drains of theory Service_Drain; the callback it registers is the data of type
  \<open>retirement\<close>, which \<open>retire_replaced\<close> runs.
\<close>

section \<open>Retirement of a replaced runtime\<close>

record retirement =
  rt_record :: notebook_service_record
  rt_service :: long_service_record
  rt_replacement :: long_service_record
  rt_principal :: principal
  rt_action :: string
  rt_resource_type :: string
  rt_resource_id :: string

definition stop_replaced :: "'r api \<Rightarrow> retirement \<Rightarrow> ('r world, unit) op" where
  "stop_replaced api ret =
     (let record = rt_record ret in
      bind (if truthy_text (ns_runtime_backend record) \<and> truthy_text (ns_runtime_name record)
            then sm_stop_by_backend (ap_services api) (the (ns_runtime_backend record)) (the (ns_runtime_name record))
            else return ()) (\<lambda>_.
      bind (gets (\<lambda>w. get_notebook_service (w_db w) (ns_kind record))) (\<lambda>current.
      case current of
        None \<Rightarrow> return ()
      | Some c \<Rightarrow> if ns_active_service_id c = Some (ls_id (rt_service ret))
          then bind (set_runtime (ns_kind c) ''stopped'' None None None) (\<lambda>_. return ()) else return ())))"

definition retire_replaced :: "'r api \<Rightarrow> retirement \<Rightarrow> ('r world, unit) op" where
  "retire_replaced api ret =
     bind (catching (\<lambda>_. True) (stop_replaced api ret)) (\<lambda>stopped.
     let outcome = (case stopped of Inr _ \<Rightarrow> ''success'' | Inl _ \<Rightarrow> ''failed'');
         service = rt_service ret;
         detail = [(''service_id'', JStr (ls_id service)), (''replacement_service_id'', JStr (ls_id (rt_replacement ret))),
           (''runtime_backend'', json_opt JStr (ns_runtime_backend (rt_record ret))),
           (''runtime_name'', json_opt JStr (ns_runtime_name (rt_record ret))),
           (''error'', case stopped of Inr _ \<Rightarrow> JNull | Inl e \<Rightarrow> JStr (error_message e))] in
     bind (audit (rt_action ret) outcome (Some (rt_principal ret)) (ls_project_id service) (Some (rt_resource_type ret))
            (Some (rt_resource_id ret)) (Some (JObj detail))) (\<lambda>_.
     bind (emit (ap_event_bus api) ''service.websocket_drain_completed'' SrcApi (no_args\<lparr>a_project_id := ls_project_id service,
             a_worker_id := Some (ls_id service),
             a_payload := Some (JObj ([(''kind'', JStr (ls_kind service)), (''outcome'', JStr outcome)] @ detail))\<rparr>)) (\<lambda>_.
     return ())))"

section \<open>Relays\<close>

definition service_websocket_ready :: "long_service_record \<Rightarrow> bool" where
  "service_websocket_ready service \<longleftrightarrow> ls_status service = SvcRunning \<and> ls_last_probe_at service \<noteq> None \<and>
     (case obj_get (or_empty (ls_last_probe_json service)) ''status_code'' of Some (JInt code) \<Rightarrow> 200 \<le> code \<and> code < 300 | _ \<Rightarrow> False)"

datatype admission = NotReady | Draining | Admitted

text \<open>The part of \<^verbatim>\<open>proxy_service_websocket\<close> before the relay: the close code of a refusal.\<close>

definition admit_relay ::
  "string \<Rightarrow> string \<Rightarrow> string \<Rightarrow> principal \<Rightarrow> (string \<times> json) list \<Rightarrow> 'w \<Rightarrow> long_service_record \<Rightarrow>
   ('w, 'c) drains \<Rightarrow> ('r world, admission \<times> ('w, 'c) drains) op" where
  "admit_relay action resource_type resource_id p detail websocket service d =
     (let refused = (\<lambda>outcome reason. audit action outcome (Some p) (ls_project_id service) (Some resource_type) (Some resource_id)
            (Some (JObj (detail @ [(''reason'', JStr reason)])))) in
      if \<not> service_websocket_ready service
      then bind (refused ''denied'' ''service is not ready'') (\<lambda>_. return (NotReady, d))
      else case register (ls_id service) websocket d of
        (True, d') \<Rightarrow> return (Admitted, d')
      | (False, d') \<Rightarrow> bind (refused ''draining'' ''service route is draining'') (\<lambda>_. return (Draining, d')))"

section \<open>Services by name\<close>

definition repository_service_record ::
  "repository_entry_record \<Rightarrow> repository_version_record \<Rightarrow> ('r world, notebook_service_record) op" where
  "repository_service_record entry version =
     bind (gets (\<lambda>w. get_notebook_service (w_db w) (rv_kind version))) (\<lambda>found.
     case found of
       None \<Rightarrow> throw (http_error 500 (''repository notebook service missing: '' @ rv_kind version))
     | Some record \<Rightarrow>
         if ns_project_id record \<noteq> re_project_id entry
         then throw (http_error 500 (''repository notebook service project mismatch: '' @ rv_kind version)) else return record)"

text \<open>The newest published version with a ready runtime.\<close>

definition ready_runtime :: "db \<Rightarrow> repository_version_record \<Rightarrow> (notebook_service_record \<times> long_service_record) option" where
  "ready_runtime d version =
     (case get_notebook_service d (rv_kind version) of
        None \<Rightarrow> None
      | Some record \<Rightarrow>
          if \<not> truthy_text (ns_active_service_id record) then None
          else (case get_long_service d (the (ns_active_service_id record)) of
              None \<Rightarrow> None
            | Some service \<Rightarrow> if service_websocket_ready service then Some (record, service) else None))"

fun first_ready :: "db \<Rightarrow> repository_version_record list \<Rightarrow> (notebook_service_record \<times> long_service_record) option" where
  "first_ready d [] = None"
| "first_ready d (v # vs) = (case ready_runtime d v of Some r \<Rightarrow> Some r | None \<Rightarrow> first_ready d vs)"

definition last_known_good_repository_service ::
  "db \<Rightarrow> repository_entry_record \<Rightarrow> (notebook_service_record \<times> long_service_record) option" where
  "last_known_good_repository_service d entry = first_ready d (rev (list_repository_versions d (re_id entry) (Some Published)))"

record started_repository_service =
  sq_entry :: repository_entry_record
  sq_version :: repository_version_record
  sq_notebook_service :: notebook_service_record
  sq_probe :: service_probe
  sq_runtime :: json

definition audit_start ::
  "string \<Rightarrow> principal \<Rightarrow> notebook_service_record \<Rightarrow> repository_entry_record \<Rightarrow> repository_version_record \<Rightarrow> (string \<times> json) list \<Rightarrow>
   ('r world, unit) op" where
  "audit_start outcome p record entry version detail =
     audit ''repository.start'' outcome (Some p) (ns_project_id record) (Some ''repository_entry'') (Some (re_id entry))
       (Some (JObj ([(''name'', JStr (re_name entry)), (''version'', JInt (rv_version version))] @ detail)))"

text \<open>The part of the start up to the probe: the candidate, or the error of the response after its audit.\<close>

definition started_candidate ::
  "'r api \<Rightarrow> repository_entry_record \<Rightarrow> repository_version_record \<Rightarrow> notebook_service_record \<Rightarrow>
   (notebook_service_record \<times> long_service_record) option \<Rightarrow> int \<Rightarrow> principal \<Rightarrow>
   ('r world, service_runtime \<times> service_probe) op" where
  "started_candidate api entry version record previous timeout_seconds p =
     bind uuid4 (\<lambda>u.
     let candidate_name = notebook_service_runtime_name (ns_kind record) (ns_source_hash record) (Some (''route-'' @ take 8 (uuid_hex u))) in
     bind (sm_start (ap_services api) record (Some candidate_name) timeout_seconds) (\<lambda>started.
     case started of
       Inl message \<Rightarrow>
         bind (audit_start ''failure'' p record entry version [(''error'', JStr message)]) (\<lambda>_. throw (http_error 422 message))
     | Inr runtime \<Rightarrow>
         bind uuid4 (\<lambda>i. bind utc_now (\<lambda>now.
         let service = \<lparr>ls_id = i, ls_kind = ns_kind record, ls_project_id = ns_project_id record, ls_image = Some (ns_image record),
               ls_base_url = strip_slashes (sr_base_url runtime), ls_probe_path = ns_probe_path record, ls_status = SvcRegistered,
               ls_created_at = now, ls_created_by = pr_user_id p, ls_last_probe_at = None, ls_last_probe_json = sr_probe runtime\<rparr> in
         bind (on_store (save_long_service service)) (\<lambda>_.
         bind (handle (probe_long_service_record api service) (\<lambda>e.
                 if is_http_error e
                 then bind (sm_stop_by_backend (ap_services api) (sr_backend runtime) (sr_name runtime)) (\<lambda>_.
                      bind (audit_start ''readiness_failed'' p record entry version [(''candidate_service_id'', JStr i),
                              (''retained_service_id'', json_opt (\<lambda>pv. JStr (ls_id (snd pv))) previous)]) (\<lambda>_. throw e))
                 else throw e)) (\<lambda>probe.
         return (runtime, probe)))))))"

text \<open>The world and the registry of drains.\<close>

type_synonym ('r, 'w) drained = "'r world \<times> ('w, retirement) drains"

definition on_world :: "('r world, 'a) op \<Rightarrow> (('r, 'w) drained, 'a) op" where
  "on_world m = (\<lambda>(w, d). case m w of (r, w') \<Rightarrow> (r, (w', d)))"

text \<open>\<^verbatim>\<open>await websocket_drains.drain(...)\<close>: without clients the callback runs now.\<close>

definition drain_service :: "'r api \<Rightarrow> string \<Rightarrow> retirement \<Rightarrow> (('r, 'w) drained, unit) op" where
  "drain_service api service_id ret = (\<lambda>(w, d).
     case drain service_id ret d of
       (False, d') \<Rightarrow> (Inr (), (w, d'))
     | (True, d') \<Rightarrow> (case retire_replaced api ret w of (r, w') \<Rightarrow> (r, (w', retired service_id d'))))"

definition replaced_by ::
  "'r api \<Rightarrow> repository_entry_record \<Rightarrow> (notebook_service_record \<times> long_service_record) option \<Rightarrow> long_service_record \<Rightarrow> principal \<Rightarrow>
   (('r, 'w) drained, unit) op" where
  "replaced_by api entry previous active p =
     (case previous of
        None \<Rightarrow> return ()
      | Some (previous_record, previous_service) \<Rightarrow>
          if ls_id previous_service = ls_id active then return ()
          else
          bind (on_world (on_store (update_long_service_status (ls_id previous_service) SvcStopped
                 (Some (JObj [(''stopped_by'', JStr ''repository.service.replaced''), (''draining'', JBool True),
                   (''replacement_service_id'', JStr (ls_id active))]))))) (\<lambda>_.
          drain_service api (ls_id previous_service) \<lparr>rt_record = previous_record, rt_service = previous_service, rt_replacement = active,
            rt_principal = p, rt_action = ''repository.websocket_drain'', rt_resource_type = ''repository_entry'', rt_resource_id = re_id entry\<rparr>))"

definition start_repository_service ::
  "'r api \<Rightarrow> string \<Rightarrow> string option \<Rightarrow> int option \<Rightarrow> int \<Rightarrow> principal \<Rightarrow> (('r, 'w) drained, started_repository_service) op" where
  "start_repository_service api name project_id version timeout_seconds p =
     bind (on_world (forbid_viewer_write p)) (\<lambda>_.
     bind (on_world (resolve_published_repository_version api name NotebookService p project_id version)) (\<lambda>(entry, v).
     bind (on_world (repository_service_record entry v)) (\<lambda>record.
     bind (on_world (gets (\<lambda>w. last_known_good_repository_service (w_db w) entry))) (\<lambda>previous.
     bind (on_world (started_candidate api entry v record previous timeout_seconds p)) (\<lambda>(runtime, probe).
     let active = pv_service probe in
     bind (on_world (bind (set_runtime (ns_kind record) ''running'' (Some (sr_backend runtime)) (Some (sr_name runtime)) (Some (ls_id active))) asserted)) (\<lambda>updated.
     bind (replaced_by api entry previous active p) (\<lambda>_.
     bind (on_world (emit (ap_event_bus api) ''repository.service.started'' SrcApi (no_args\<lparr>a_project_id := ns_project_id record,
             a_worker_id := Some (ls_id active), a_payload := Some (JObj [(''name'', JStr (re_name entry)), (''version'', JInt (rv_version v)),
               (''kind'', JStr (ns_kind record)), (''backend'', JStr (sr_backend runtime))])\<rparr>))) (\<lambda>_.
     bind (on_world (audit_start ''success'' p record entry v [(''kind'', JStr (ns_kind record)), (''service_id'', JStr (ls_id active)),
             (''runtime'', runtime_json runtime)])) (\<lambda>_.
     return \<lparr>sq_entry = entry, sq_version = v, sq_notebook_service = updated, sq_probe = probe, sq_runtime = runtime_json runtime\<rparr>)))))))))"

definition active_repository_service ::
  "repository_entry_record \<Rightarrow> repository_version_record \<Rightarrow> ('r world, notebook_service_record \<times> long_service_record) op" where
  "active_repository_service entry version =
     bind (repository_service_record entry version) (\<lambda>record.
     if \<not> truthy_text (ns_active_service_id record)
     then throw (http_error 409 (''repository service is not running: '' @ re_name entry))
     else bind (gets (\<lambda>w. get_long_service (w_db w) (the (ns_active_service_id record)))) (\<lambda>found.
     case found of
       None \<Rightarrow> throw (http_error 409 (''repository service runtime is missing: '' @ re_name entry))
     | Some service \<Rightarrow> return (record, service)))"

definition probe_repository_service ::
  "'r api \<Rightarrow> string \<Rightarrow> string option \<Rightarrow> int option \<Rightarrow> principal \<Rightarrow>
   ('r world, repository_entry_record \<times> repository_version_record \<times> notebook_service_record \<times> service_probe) op" where
  "probe_repository_service api name project_id version p =
     bind (resolve_published_repository_version api name NotebookService p project_id version) (\<lambda>(entry, v).
     bind (active_repository_service entry v) (\<lambda>(record, service).
     bind (project_for_request api p (ls_project_id service)) (\<lambda>_.
     if ls_status service = SvcStopped then throw (http_error 409 (''long service is stopped: '' @ ls_id service))
     else
     bind (probe_long_service_record api service) (\<lambda>probe.
     bind (audit ''repository.probe'' ''success'' (Some p) (ls_project_id service) (Some ''repository_entry'') (Some (re_id entry))
             (Some (JObj [(''name'', JStr (re_name entry)), (''version'', JInt (rv_version v)), (''kind'', JStr (ns_kind record)),
               (''service_id'', JStr (ls_id service)), (''url'', JStr (pv_url probe))]))) (\<lambda>_.
     return (entry, v, record, probe))))))"

definition stop_repository_service ::
  "'r api \<Rightarrow> string \<Rightarrow> string option \<Rightarrow> int option \<Rightarrow> principal \<Rightarrow>
   ('r world, repository_entry_record \<times> repository_version_record \<times> stopped_service) op" where
  "stop_repository_service api name project_id version p =
     bind (forbid_viewer_write p) (\<lambda>_.
     bind (resolve_published_repository_version api name NotebookService p project_id version) (\<lambda>(entry, v).
     bind (repository_service_record entry v) (\<lambda>record.
     bind (stop_service_runtime api record) (\<lambda>runtime.
     bind (stop_active_service record ''repository.stop'') (\<lambda>service.
     bind (bind (set_runtime (ns_kind record) ''stopped'' None None None) asserted) (\<lambda>updated.
     bind (audit ''repository.stop'' ''success'' (Some p) (ns_project_id record) (Some ''repository_entry'') (Some (re_id entry))
             (Some (JObj [(''name'', JStr (re_name entry)), (''version'', JInt (rv_version v)), (''kind'', JStr (ns_kind record)),
               (''service_id'', json_opt (\<lambda>s. JStr (ls_id s)) service), (''runtime'', runtime)]))) (\<lambda>_.
     return (entry, v, \<lparr>sp_notebook_service = updated, sp_service = service, sp_runtime = runtime\<rparr>))))))))"

section \<open>Runtime pointers\<close>

definition cleared :: "datetime \<Rightarrow> notebook_service_record \<Rightarrow> notebook_service_record" where
  "cleared now n = n\<lparr>ns_runtime_status := ''stopped'', ns_runtime_backend := None, ns_runtime_name := None, ns_active_service_id := None,
     ns_updated_at := db_datetime now\<rparr>"

definition same_services :: "db \<Rightarrow> db \<Rightarrow> bool" where
  "same_services d d' \<longleftrightarrow> notebook_services_table d' = notebook_services_table d"

interpretation ss: store_relation same_services
proof unfold_locales
  show "log_only d d' \<Longrightarrow> same_services d d'" for d d'
    unfolding log_only_def same_services_def by (cases d, cases d', simp)
  show "same_services d (snd (save_audit_log l d))" for d l
    by (auto simp: same_services_def save_audit_log_def insert_into_def split: sum.splits)
qed (simp_all add: same_services_def)

lemma related_services:
  "related same_services m w \<Longrightarrow> m w = (r, w') \<Longrightarrow> notebook_services_table (w_db w') = notebook_services_table (w_db w)"
  by (simp add: related_def same_services_def)

lemma case_sum_apply:
  "(case r of Inl e \<Rightarrow> f e | Inr a \<Rightarrow> g a) w = z \<longleftrightarrow> (\<exists>e. r = Inl e \<and> f e w = z) \<or> (\<exists>a. r = Inr a \<and> g a w = z)"
  by (cases r) auto

lemma set_runtime_Inr:
  assumes "set_runtime kind st b n i w = (r, w')"
  shows "\<exists>now. notebook_services_table (w_db w') = update_where (\<lambda>s. ns_kind s = kind)
     (\<lambda>s. s\<lparr>ns_runtime_status := st, ns_runtime_backend := b, ns_runtime_name := n, ns_active_service_id := i,
        ns_updated_at := db_datetime now\<rparr>) (notebook_services_table (w_db w)) \<and> r = Inr (get_notebook_service (w_db w') kind)"
proof -
  obtain now c where "monotonic_utc_now (w_clock w) = (now, c)" by fastforce
  then have "utc_now w = (Inr now, w\<lparr>w_clock := c\<rparr>)" by (simp add: utc_now_def)
  then show ?thesis using assms
    by (intro exI [of _ now]) (auto simp: set_runtime_def bind_def on_store_def update_notebook_service_runtime_def Let_def)
qed

text \<open>
  Retiring a replaced runtime never takes down its successor: the row of the service loses its runtime
  only when it still points at the replaced service; otherwise no row changes.
\<close>

theorem retirement_spares_successor:
  assumes "retire_replaced api ret w = (r, w')" and silent: "\<And>b n. silent (sm_stop_by_backend (ap_services api) b n)"
  shows "notebook_services_table (w_db w') = notebook_services_table (w_db w) \<or>
    (\<exists>row now. get_notebook_service (w_db w) (ns_kind (rt_record ret)) = Some row \<and>
       ns_active_service_id row = Some (ls_id (rt_service ret)) \<and>
       notebook_services_table (w_db w') =
         update_where (\<lambda>s. ns_kind s = ns_kind row) (cleared now) (notebook_services_table (w_db w)))"
proof -
  obtain x w1 where stopped: "stop_replaced api ret w = (x, w1)" by fastforce
  then obtain y where "catching (\<lambda>_. True) (stop_replaced api ret) w = (Inr y, w1)"
    by (cases x) (auto simp: catching_def)
  moreover have "related same_services (bind (audit a out who q u i dt) (\<lambda>_. bind (emit bus e src args) (\<lambda>_. return ()))) w1"
    for a out who q u i dt bus e src args by (intro ss.related_bind) simp_all
  ultimately have "notebook_services_table (w_db w') = notebook_services_table (w_db w1)"
    using assms(1) unfolding retire_replaced_def Let_def bind_def [of "catching _ _"]
    by (auto dest!: related_services [rotated])
  moreover have "notebook_services_table (w_db w1) = notebook_services_table (w_db w) \<or>
    (\<exists>row now. get_notebook_service (w_db w) (ns_kind (rt_record ret)) = Some row \<and>
       ns_active_service_id row = Some (ls_id (rt_service ret)) \<and>
       notebook_services_table (w_db w1) =
         update_where (\<lambda>s. ns_kind s = ns_kind row) (cleared now) (notebook_services_table (w_db w)))"
  proof -
    let ?old = "rt_record ret"
    let ?stop = "if truthy_text (ns_runtime_backend ?old) \<and> truthy_text (ns_runtime_name ?old)
      then sm_stop_by_backend (ap_services api) (the (ns_runtime_backend ?old)) (the (ns_runtime_name ?old)) else return ()"
    obtain r0 t where stop: "?stop w = (r0, t)" by fastforce
    have db: "w_db t = w_db w" using silent stop by (auto simp: silent_def return_eq split: if_splits) (metis snd_conv)
    let ?after = "\<lambda>current. case current of None \<Rightarrow> return ()
      | Some c \<Rightarrow> if ns_active_service_id c = Some (ls_id (rt_service ret))
          then bind (set_runtime (ns_kind c) ''stopped'' None None None) (\<lambda>_. return ()) else return ()"
    have run: "(x, w1) = (case r0 of Inl e \<Rightarrow> (Inl e, t) | Inr _ \<Rightarrow> ?after (get_notebook_service (w_db w) (ns_kind ?old)) t)"
      using stopped unfolding stop_replaced_def Let_def bind_def [of ?stop] stop
      by (cases r0) (auto simp: bind_def [of "gets _"] gets_eq db)
    show ?thesis
    proof (cases "\<exists>u c. r0 = Inr u \<and> get_notebook_service (w_db w) (ns_kind ?old) = Some c \<and>
        ns_active_service_id c = Some (ls_id (rt_service ret))")
      case False
      then have "w1 = t" using run by (auto simp: return_eq split: sum.splits option.splits if_splits)
      then show ?thesis using db by simp
    next
      case True
      then obtain u c where c: "r0 = Inr u" "get_notebook_service (w_db w) (ns_kind ?old) = Some c"
        "ns_active_service_id c = Some (ls_id (rt_service ret))" by blast
      obtain z t1 where set: "set_runtime (ns_kind c) ''stopped'' None None None t = (z, t1)" by fastforce
      then have "w1 = t1" using run c set_runtime_Inr [OF set] by (auto simp: bind_def return_eq)
      then show ?thesis using set_runtime_Inr [OF set] c db by (auto simp: cleared_def [abs_def])
    qed
  qed
  ultimately show ?thesis by simp
qed

text \<open>
  Validating a notebook service forgets the runtime it has: afterwards its row points at no runtime and
  no service, so that stopping the service stops nothing.
\<close>

theorem validation_forgets_runtime:
  assumes "validate_notebook_service api kind t p w = (Inr (row, doc), w')"
  shows "get_notebook_service (w_db w') (ns_kind row) = Some row \<and> ns_runtime_backend row = None \<and> ns_active_service_id row = None \<and>
    stop_service_runtime api row = return (JObj [(''backend'', JNull), (''name'', JNull), (''stopped'', JBool False), (''detail'', JStr ''no runtime'')])"
proof -
  obtain r0 :: notebook_service_record and w1 w2 found a b where set: "set_runtime (ns_kind r0) ''validated'' None None None w1 = (Inr (Some row), w2)"
    and audited: "audit_service a b p row found w2 = (Inr (), w')"
    using assms unfolding validate_notebook_service_def asserted_def
    by (auto simp: returns throw_eq case_sum_apply)
  have "notebook_services_table (w_db w') = notebook_services_table (w_db w2)"
    using audited unfolding audit_service_def by (rule related_services [rotated]) simp
  moreover obtain now where table: "notebook_services_table (w_db w2) = update_where (\<lambda>s. ns_kind s = ns_kind r0)
      (\<lambda>s. s\<lparr>ns_runtime_status := ''validated'', ns_runtime_backend := None, ns_runtime_name := None, ns_active_service_id := None,
        ns_updated_at := db_datetime now\<rparr>) (notebook_services_table (w_db w1))" and row: "get_notebook_service (w_db w2) (ns_kind r0) = Some row"
    using set_runtime_Inr [OF set] by auto
  moreover obtain x where x: "by_key ns_kind (ns_kind r0) (notebook_services_table (w_db w2)) = Some x" "row = row_to_notebook_service x"
    using row by (auto simp: get_notebook_service_def)
  moreover have "ns_kind x = ns_kind r0 \<and> ns_runtime_backend x = None \<and> ns_active_service_id x = None"
    using x(1) by_key_SomeD [OF x(1)] unfolding table by (auto simp: update_where_def)
  ultimately have "ns_kind row = ns_kind r0 \<and> ns_runtime_backend row = None \<and> ns_active_service_id row = None"
    by (simp add: row_to_notebook_service_def)
  moreover note row
  moreover have "notebook_services_table (w_db w') = notebook_services_table (w_db w2)"
    using audited unfolding audit_service_def by (rule related_services [rotated]) simp
  ultimately show ?thesis by (simp add: get_notebook_service_def stop_service_runtime_def truthy_text_def)
qed

section \<open>A start by name\<close>

lemma on_world_Inr: "on_world m (w, d) = (Inr a, s) \<longleftrightarrow> (\<exists>w'. m w = (Inr a, w') \<and> s = (w', d))"
  by (auto simp: on_world_def split: prod.splits)

lemma probe_record_Inr:
  "probe_long_service_record api service w = (Inr probe, w') \<Longrightarrow>
   \<exists>code. hr_status_code (pv_response probe) = Some code \<and> 200 \<le> code \<and> code < 300"
  by (auto simp: probe_long_service_record_def returns Let_def throw_eq split: option.splits if_splits)

lemma started_candidate_Inr:
  assumes "started_candidate api entry v record previous t p w = (Inr (runtime, probe), w')"
  shows "\<exists>code. hr_status_code (pv_response probe) = Some code \<and> 200 \<le> code \<and> code < 300"
  using assms probe_record_Inr unfolding started_candidate_def
  by (auto simp: returns Let_def case_sum_apply throw_eq split: if_splits) blast+

text \<open>What leaves the rows of the services alone and only adds to the audit log.\<close>

definition services_kept :: "db \<Rightarrow> db \<Rightarrow> bool" where
  "services_kept d d' \<longleftrightarrow> long_services_table d' = long_services_table d \<and> set (audit_logs_table d) \<subseteq> set (audit_logs_table d')"

interpretation sk: store_relation services_kept
proof unfold_locales
  show "log_only d d' \<Longrightarrow> services_kept d d'" for d d'
    unfolding log_only_def services_kept_def by (cases d, cases d', simp)
  show "services_kept d (snd (save_audit_log l d))" for d l
    by (auto simp: services_kept_def save_audit_log_def insert_into_def insert_row_def)
qed (auto simp: services_kept_def)

lemma related_kept: "related services_kept m w \<Longrightarrow> m w = (r, w') \<Longrightarrow> services_kept (w_db w) (w_db w')"
  by (simp add: related_def)

text \<open>An audit row of the given action and outcome.\<close>

definition audited_as :: "string \<Rightarrow> string \<Rightarrow> db \<Rightarrow> bool" where
  "audited_as action outcome d \<longleftrightarrow> (\<exists>l \<in> set (audit_logs_table d). al_action l = action \<and> al_outcome l = outcome)"

lemma audited_later: "audited_as a o' d \<Longrightarrow> services_kept d d' \<Longrightarrow> audited_as a o' d'"
  by (auto simp: audited_as_def services_kept_def)

lemma audit_writes: "audit a out who x t i dt w = (Inr u, w') \<Longrightarrow> audited_as a out (w_db w')"
  by (auto simp: audit_def bind_Inr_iff on_store_Inr save_audit_log_def insert_into_def insert_row_def audit_log_to_row_def audited_as_def
      split: if_splits)

text \<open>The runtime of a record was asked to stop, and the audit log says whether it did.\<close>

definition stop_asked :: "'r api \<Rightarrow> retirement \<Rightarrow> db \<Rightarrow> bool" where
  "stop_asked api ret d' \<longleftrightarrow>
     (let record = rt_record ret in
      truthy_text (ns_runtime_backend record) \<and> truthy_text (ns_runtime_name record) \<longrightarrow>
      (\<exists>v y v'. sm_stop_by_backend (ap_services api) (the (ns_runtime_backend record)) (the (ns_runtime_name record)) v = (y, v') \<and>
         audited_as (rt_action ret) (case y of Inl _ \<Rightarrow> ''failed'' | Inr _ \<Rightarrow> ''success'') d'))"

lemma stop_replaced_kept:
  assumes silent: "\<And>b n. silent (sm_stop_by_backend (ap_services api) b n)"
  shows "related services_kept (stop_replaced api ret) w"
proof -
  have "related services_kept (sm_stop_by_backend (ap_services api) b n) t" for b n t
    using silent [of b n] by (simp add: silent_def related_def services_kept_def)
  moreover have "related services_kept (set_runtime k st b n i) t" for k st b n i t
    unfolding set_runtime_def
    by (intro sk.related_bind sk.related_store) (auto simp: update_notebook_service_runtime_def services_kept_def Let_def)
  ultimately show ?thesis unfolding stop_replaced_def Let_def
    by (intro sk.related_bind sk.related_cases) simp_all
qed

lemma stop_replaced_asks:
  assumes "stop_replaced api ret w = (x, w1)" and "truthy_text (ns_runtime_backend (rt_record ret))" "truthy_text (ns_runtime_name (rt_record ret))"
  shows "\<exists>y v'. sm_stop_by_backend (ap_services api) (the (ns_runtime_backend (rt_record ret))) (the (ns_runtime_name (rt_record ret))) w = (y, v') \<and>
    ((\<exists>e. x = Inl e) \<longleftrightarrow> (\<exists>e. y = Inl e))"
proof -
  obtain y v' where stop: "sm_stop_by_backend (ap_services api) (the (ns_runtime_backend (rt_record ret)))
      (the (ns_runtime_name (rt_record ret))) w = (y, v')" by fastforce
  have "(\<exists>e. x = Inl e) \<longleftrightarrow> (\<exists>e. y = Inl e)"
  proof (cases y)
    case (Inl e)
    then show ?thesis using assms stop by (simp add: stop_replaced_def Let_def bind_def)
  next
    case (Inr u)
    let ?current = "get_notebook_service (w_db v') (ns_kind (rt_record ret))"
    have x: "(x, w1) = (case ?current of None \<Rightarrow> return ()
      | Some c \<Rightarrow> if ns_active_service_id c = Some (ls_id (rt_service ret))
          then bind (set_runtime (ns_kind c) ''stopped'' None None None) (\<lambda>_. return ()) else return ()) v'"
      using assms stop Inr by (simp add: stop_replaced_def Let_def bind_Inr [OF gets_eq] bind_Inr [where s = w])
    have "x = Inr ()"
    proof (cases ?current)
      case (Some c)
      obtain z t where set: "set_runtime (ns_kind c) ''stopped'' None None None v' = (z, t)" by fastforce
      then obtain z' where "z = Inr z'" using set_runtime_Inr [OF set] by blast
      then show ?thesis using x Some set by (auto simp: bind_def return_eq split: if_splits)
    qed (use x in \<open>simp add: return_eq\<close>)
    then show ?thesis using Inr by simp
  qed
  then show ?thesis using stop by blast
qed

lemma retire_replaced_Inr:
  assumes run: "retire_replaced api ret w = (Inr u, w')" and silent: "\<And>b n. silent (sm_stop_by_backend (ap_services api) b n)"
  shows "services_kept (w_db w) (w_db w')" "stop_asked api ret (w_db w')"
proof -
  obtain x w1 where stopped: "stop_replaced api ret w = (x, w1)" by fastforce
  then obtain a i dt w2 args b t e where audited: "audit (rt_action ret) (case x of Inr _ \<Rightarrow> ''success'' | Inl _ \<Rightarrow> ''failed'') (Some (rt_principal ret))
      (ls_project_id (rt_service ret)) (Some (rt_resource_type ret)) (Some (rt_resource_id ret)) dt w1 = (Inr a, w2)"
    and told: "emit b t SrcApi args w2 = (Inr e, w')"
    using run unfolding retire_replaced_def Let_def bind_Inr_iff return_eq
    by (cases x) (auto simp: catching_def)
  have "related services_kept (emit b t SrcApi args) w2" by simp
  from related_kept [OF this told] have later: "services_kept (w_db w2) (w_db w')" .
  have "services_kept (w_db w) (w_db w1)" by (rule related_kept [OF stop_replaced_kept [OF silent] stopped])
  moreover have "services_kept (w_db w1) (w_db w2)" by (rule related_kept [OF sk.related_audit audited])
  ultimately show "services_kept (w_db w) (w_db w')" using later by (meson sk.relation_trans)
  have "audited_as (rt_action ret) (case x of Inr _ \<Rightarrow> ''success'' | Inl _ \<Rightarrow> ''failed'') (w_db w')"
    by (rule audited_later [OF audit_writes [OF audited] later])
  then show "stop_asked api ret (w_db w')"
    using stop_replaced_asks [OF stopped] unfolding stop_asked_def Let_def by (auto split: sum.splits) blast+
qed

text \<open>
  What a start leaves of a service it replaces. A service that is already draining goes on as it was; one
  with connected relays is left to the registry of drains with the retirement as its callback and a
  timeout; one without relays is retired now: its runtime has been asked to stop and its drain is over.
\<close>

definition handed_over :: "'r api \<Rightarrow> retirement \<Rightarrow> ('w, retirement) drains \<Rightarrow> ('w, retirement) drains \<Rightarrow> db \<Rightarrow> bool" where
  "handed_over api ret d d' store \<longleftrightarrow>
     (let i = ls_id (rt_service ret); s = drain_state_of d i in
      if ds_retire s \<noteq> None then d' i = Some s
      else if ds_connections s \<noteq> [] then d' i = Some (s\<lparr>ds_retire := Some ret, ds_timeout_task := True\<rparr>)
      else d' i = None \<and> stop_asked api ret store)"

lemma handed_over_later: "handed_over api ret d d' store \<Longrightarrow> services_kept store store' \<Longrightarrow> handed_over api ret d d' store'"
  using audited_later by (auto simp: handed_over_def stop_asked_def Let_def split: if_splits) blast+

lemma drain_service_Inr:
  assumes "drain_service api (ls_id (rt_service ret)) ret (w, d) = (Inr u, (w', d'))"
    and silent: "\<And>b n. silent (sm_stop_by_backend (ap_services api) b n)"
  shows "services_kept (w_db w) (w_db w')" "handed_over api ret d d' (w_db w')"
proof -
  have "services_kept (w_db w) (w_db w') \<and> handed_over api ret d d' (w_db w')"
  proof (cases "ds_retire (drain_state_of d (ls_id (rt_service ret))) = None \<and> ds_connections (drain_state_of d (ls_id (rt_service ret))) = []")
    case True
    then obtain d1 where "drain (ls_id (rt_service ret)) ret d = (True, d1)" by (simp add: drain_def Let_def)
    then have "retire_replaced api ret w = (Inr u, w')" "d' = retired (ls_id (rt_service ret)) d1"
      using assms(1) by (auto simp: drain_service_def split: prod.splits)
    then show ?thesis using retire_replaced_Inr [OF _ silent] True by (auto simp: handed_over_def retired_def Let_def)
  next
    case False
    then show ?thesis using assms(1)
      by (auto simp: drain_service_def drain_def Let_def handed_over_def sk.relation_refl split: if_splits)
  qed
  then show "services_kept (w_db w) (w_db w')" "handed_over api ret d d' (w_db w')" by simp_all
qed

lemma replaced_by_Inr:
  assumes "replaced_by api entry (Some (record, previous)) active p (w, d) = (Inr (), (w', d'))" and "ls_id previous \<noteq> ls_id active"
    and silent: "\<And>b n. silent (sm_stop_by_backend (ap_services api) b n)"
  shows "list_all (\<lambda>r. ls_id r = ls_id previous \<longrightarrow> ls_status r = SvcStopped) (long_services_table (w_db w')) \<and>
    (\<exists>ret. rt_record ret = record \<and> rt_service ret = previous \<and> handed_over api ret d d' (w_db w'))"
proof -
  obtain a w1 info where marked: "on_store (update_long_service_status (ls_id previous) SvcStopped (Some info)) w = (Inr a, w1)"
    and drained: "drain_service api (ls_id previous) \<lparr>rt_record = record, rt_service = previous, rt_replacement = active,
            rt_principal = p, rt_action = ''repository.websocket_drain'', rt_resource_type = ''repository_entry'', rt_resource_id = re_id entry\<rparr> (w1, d) =
      (Inr (), (w', d'))"
    using assms(1,2) by (auto simp: replaced_by_def bind_Inr_iff on_world_Inr)
  let ?ret = "\<lparr>rt_record = record, rt_service = previous, rt_replacement = active,
            rt_principal = p, rt_action = ''repository.websocket_drain'', rt_resource_type = ''repository_entry'', rt_resource_id = re_id entry\<rparr>"
  have ret: "drain_service api (ls_id (rt_service ?ret)) ?ret (w1, d) = (Inr (), (w', d'))" using drained by simp
  have "list_all (\<lambda>r. ls_id r = ls_id previous \<longrightarrow> ls_status r = SvcStopped) (long_services_table (w_db w1))"
    using marked by (auto simp: on_store_Inr update_long_service_status_def Let_def list_all_iff in_update_where)
  with drain_service_Inr [OF ret silent] show ?thesis
    by (intro conjI exI [of _ ?ret]) (simp_all add: services_kept_def)
qed


definition old_service :: long_service_record where
  "old_service = \<lparr>ls_id = ''old'', ls_kind = ''repo.tool.v1'', ls_project_id = Some ''p1'', ls_image = None, ls_base_url = ''http://old'',
     ls_probe_path = ''/hello'', ls_status = SvcRunning, ls_created_at = utc 1, ls_created_by = ''u'', ls_last_probe_at = Some (utc 2),
     ls_last_probe_json = Some (JObj [(''status_code'', JInt 200)])\<rparr>"

definition running_row :: notebook_service_record where
  "running_row = demo_service\<lparr>ns_kind := ''repo.tool.v1'', ns_runtime_backend := Some ''docker'', ns_runtime_name := Some ''c0'',
     ns_runtime_status := ''running'', ns_active_service_id := Some ''old''\<rparr>"

definition served_db :: db where
  "served_db = (fold run_command (CreateEntry (sample_entry\<lparr>re_type := NotebookService\<rparr>) # tl publish_first) empty_db)
     \<lparr>notebook_services_table := [running_row], long_services_table := [old_service]\<rparr>"

definition one_client :: "(nat, retirement) drains" where
  "one_client = snd (register ''old'' 0 (\<lambda>_. None))"


theorem retirement_spares_successor_witness:
  "\<exists>r w' row now. retire_replaced demo_api \<lparr>rt_record = running_row, rt_service = old_service, rt_replacement = old_service\<lparr>ls_id := ''new''\<rparr>,
       rt_principal = demo_member ''p1'', rt_action = ''repository.websocket_drain'', rt_resource_type = ''repository_entry'',
       rt_resource_id = ''e1''\<rparr> (fresh_world (served_db\<lparr>notebook_services_table := [running_row\<lparr>ns_active_service_id := Some ''new''\<rparr>]\<rparr>)) = (r, w') \<and>
     map ns_active_service_id (notebook_services_table (w_db w')) = [Some ''new'']"
proof -
  let ?w = "fresh_world (served_db\<lparr>notebook_services_table := [running_row\<lparr>ns_active_service_id := Some ''new''\<rparr>]\<rparr>)"
  let ?ret = "\<lparr>rt_record = running_row, rt_service = old_service, rt_replacement = old_service\<lparr>ls_id := ''new''\<rparr>,
       rt_principal = demo_member ''p1'', rt_action = ''repository.websocket_drain'', rt_resource_type = ''repository_entry'',
       rt_resource_id = ''e1''\<rparr>"
  obtain r w' where run: "retire_replaced demo_api ?ret ?w = (r, w')" by fastforce
  have "silent (sm_stop_by_backend (ap_services demo_api) b n)" for b n
    by (simp add: demo_api_def silent_def return_eq)
  moreover have "get_notebook_service (w_db ?w) (ns_kind running_row) = Some row \<Longrightarrow> ns_active_service_id row \<noteq> Some ''old''" for row
    by (auto simp: get_notebook_service_def by_key_def fresh_world_def row_to_notebook_service_def)
  ultimately have "notebook_services_table (w_db w') = notebook_services_table (w_db ?w)"
    using retirement_spares_successor [OF run] by (auto simp: old_service_def)
  then show ?thesis using run by (simp add: fresh_world_def)
qed

theorem validation_forgets_runtime_witness:
  "\<exists>row doc w'. validate_notebook_service demo_api ''repo.tool.v1'' 5 (demo_member ''p1'') (fresh_world served_db) = (Inr (row, doc), w') \<and>
     ns_active_service_id running_row = Some ''old'' \<and> ns_active_service_id row = None"
proof -
  let ?run = "validate_notebook_service demo_api ''repo.tool.v1'' 5 (demo_member ''p1'') (fresh_world served_db)"
  have "map_sum (\<lambda>_. ()) (\<lambda>_. ()) (fst ?run) = Inr ()" by code_simp
  then obtain row doc w' where run: "?run = (Inr (row, doc), w')" by (cases ?run; cases "fst ?run") auto
  with validation_forgets_runtime [OF run] show ?thesis by (simp add: running_row_def)
qed

end
