(* ===== verification/Kubernetes_Manifest.thy ===== *)
theory Kubernetes_Manifest
  imports Complex_Main Validation Fanout
begin

text \<open>
  The Job that runs one worker in a cluster: \<^verbatim>\<open>src/src/goblin_king/kubernetes_job_manifest.py\<close>,
  \<^verbatim>\<open>kubernetes_placement.py\<close>, \<^verbatim>\<open>kubernetes_runtime_settings.py\<close>, \<^verbatim>\<open>kubernetes_workload_security.py\<close>,
  \<^verbatim>\<open>kubernetes_service_account.py\<close> and \<^verbatim>\<open>kubernetes_artifact_config.py\<close>. A manifest is the JSON document
  that is sent. The Python code changes the dictionaries of the two containers after they have been put
  into the Pod; here they are put there last, at the place the key has. Parameters are the parser of
  quantities of the Kubernetes client, \<^verbatim>\<open>str\<close> of fractions and containers, \<^verbatim>\<open>json.dumps\<close> and the text of
  the forwarder script. A validator raises the error of its body, which pydantic wraps. The theorems: a restricted Pod is confined, and no two mounts of a worker share a path.
\<close>

section \<open>Names\<close>

definition object_name_ok :: "string \<Rightarrow> bool" where
  "object_name_ok n \<longleftrightarrow> n \<noteq> '''' \<and> length n \<le> 253 \<and>
     list_all (\<lambda>c. lower_alnum c \<or> c = CHR ''-'' \<or> c = CHR ''.'') n \<and> lower_alnum (hd n) \<and> lower_alnum (last n)"

definition kubernetes_object_name :: "string \<Rightarrow> json \<Rightarrow> string result" where
  "kubernetes_object_name field_name v =
     (case v of
        JStr s \<Rightarrow>
          (let n = py_strip s in
           if n = '''' then Inl (Raise ValueError (field_name @ '' must be a non-empty string''))
           else if \<not> object_name_ok n then Inl (Raise ValueError (field_name @ '' must be a Kubernetes DNS subdomain name''))
           else Inr n)
      | _ \<Rightarrow> Inl (Raise ValueError (field_name @ '' must be a non-empty string'')))"

section \<open>Resources of a container\<close>

record container_resources =
  cr_cpu_request :: string
  cr_cpu_limit :: string
  cr_memory_request :: string
  cr_memory_limit :: string

definition valid_quantity :: "(string \<Rightarrow> rat option) \<Rightarrow> string \<Rightarrow> string result" where
  "valid_quantity quantity v =
     (let s = py_strip v in
      if s = '''' then Inl (Raise ValidationError ''too short'')
      else case quantity s of
        None \<Rightarrow> Inl (Raise ValidationError (''invalid Kubernetes resource quantity: '' @ s))
      | Some q \<Rightarrow> if q \<le> 0 then Inl (Raise ValidationError ''Kubernetes resource quantities must be greater than zero'') else Inr s)"

definition new_container_resources ::
  "(string \<Rightarrow> rat option) \<Rightarrow> string \<Rightarrow> string \<Rightarrow> string \<Rightarrow> string \<Rightarrow> container_resources result" where
  "new_container_resources quantity cpu_req cpu_lim mem_req mem_lim =
     bind_result (valid_quantity quantity cpu_req) (\<lambda>a. bind_result (valid_quantity quantity cpu_lim) (\<lambda>b.
     bind_result (valid_quantity quantity mem_req) (\<lambda>c. bind_result (valid_quantity quantity mem_lim) (\<lambda>d.
     if the (quantity a) > the (quantity b) then Inl (Raise ValidationError ''CPU request must not exceed CPU limit'')
     else if the (quantity c) > the (quantity d) then Inl (Raise ValidationError ''memory request must not exceed memory limit'')
     else Inr \<lparr>cr_cpu_request = a, cr_cpu_limit = b, cr_memory_request = c, cr_memory_limit = d\<rparr>))))"

definition resources_manifest :: "container_resources \<Rightarrow> json" where
  "resources_manifest r = JObj
     [(''requests'', JObj [(''cpu'', JStr (cr_cpu_request r)), (''memory'', JStr (cr_memory_request r))]),
      (''limits'', JObj [(''cpu'', JStr (cr_cpu_limit r)), (''memory'', JStr (cr_memory_limit r))])]"

definition default_worker_resources :: container_resources where
  "default_worker_resources = \<lparr>cr_cpu_request = ''100m'', cr_cpu_limit = ''1'', cr_memory_request = ''64Mi'', cr_memory_limit = ''512Mi''\<rparr>"

definition default_forwarder_resources :: container_resources where
  "default_forwarder_resources = \<lparr>cr_cpu_request = ''10m'', cr_cpu_limit = ''100m'', cr_memory_request = ''64Mi'', cr_memory_limit = ''128Mi''\<rparr>"

section \<open>The restricted profile\<close>

record restricted_workload =
  rw_run_as_user :: int
  rw_run_as_group :: int
  rw_fs_group :: int
  rw_worker_resources :: container_resources
  rw_forwarder_resources :: container_resources
  rw_service_accounts :: "(string \<times> string) list"

text \<open>\<^verbatim>\<open>validate_service_accounts\<close>: the loop over the bindings; a later binding of a kind replaces an earlier one.\<close>

fun bound_accounts :: "(string \<times> json) list \<Rightarrow> (string \<times> string) list \<Rightarrow> (string \<times> string) list result" where
  "bound_accounts [] bindings = Inr (sort_key fst bindings)"
| "bound_accounts ((kind, n) # ms) bindings =
     (if py_strip kind = '''' then Inl (Raise ValueError ''worker service account kinds must be non-empty strings'')
      else bind_result (kubernetes_object_name (''worker service account for '' @ kind) n) (\<lambda>account.
        bound_accounts ms (assoc_set (py_strip kind) account bindings)))"

definition validate_service_accounts :: "json \<Rightarrow> (string \<times> string) list result" where
  "validate_service_accounts v =
     (case v of JNull \<Rightarrow> Inr [] | JObj ms \<Rightarrow> bound_accounts ms []
      | _ \<Rightarrow> Inl (Raise ValueError ''worker_service_account_names must be an object''))"

definition new_restricted_workload ::
  "int \<Rightarrow> int \<Rightarrow> int \<Rightarrow> container_resources \<Rightarrow> container_resources \<Rightarrow> json \<Rightarrow> restricted_workload result" where
  "new_restricted_workload user gid fs_gid worker forwarder accounts =
     (if user < 1 \<or> gid < 1 \<or> fs_gid < 1 then Inl (Raise ValidationError ''greater than or equal to 1'')
      else bind_result (validate_service_accounts accounts) (\<lambda>bindings.
        Inr \<lparr>rw_run_as_user = user, rw_run_as_group = gid, rw_fs_group = fs_gid, rw_worker_resources = worker,
          rw_forwarder_resources = forwarder, rw_service_accounts = bindings\<rparr>))"

definition service_account_for :: "restricted_workload \<Rightarrow> string option \<Rightarrow> string option" where
  "service_account_for s kind = (case kind of None \<Rightarrow> None | Some k \<Rightarrow> map_of (rw_service_accounts s) k)"

definition RuntimeDefault :: json where
  "RuntimeDefault = JObj [(''type'', JStr ''RuntimeDefault'')]"

definition pod_security_context :: "restricted_workload \<Rightarrow> json" where
  "pod_security_context s = JObj [(''runAsNonRoot'', JBool True), (''runAsUser'', JInt (rw_run_as_user s)),
     (''runAsGroup'', JInt (rw_run_as_group s)), (''fsGroup'', JInt (rw_fs_group s)),
     (''fsGroupChangePolicy'', JStr ''OnRootMismatch''), (''seccompProfile'', RuntimeDefault)]"

definition container_security_context :: "restricted_workload \<Rightarrow> json" where
  "container_security_context s = JObj [(''allowPrivilegeEscalation'', JBool False),
     (''capabilities'', JObj [(''drop'', JArr [JStr ''ALL''])]), (''privileged'', JBool False),
     (''readOnlyRootFilesystem'', JBool True), (''runAsNonRoot'', JBool True), (''runAsUser'', JInt (rw_run_as_user s)),
     (''runAsGroup'', JInt (rw_run_as_group s)), (''seccompProfile'', RuntimeDefault)]"

definition token_volume :: json where
  "token_volume = JObj [(''name'', JStr ''worker-service-account-token''),
     (''projected'', JObj [(''defaultMode'', JInt 420), (''sources'', JArr
       [JObj [(''serviceAccountToken'', JObj [(''expirationSeconds'', JInt 3600), (''path'', JStr ''token'')])],
        JObj [(''configMap'', JObj [(''name'', JStr ''kube-root-ca.crt''),
          (''items'', JArr [JObj [(''key'', JStr ''ca.crt''), (''path'', JStr ''ca.crt'')]])])],
        JObj [(''downwardAPI'', JObj [(''items'', JArr [JObj [(''path'', JStr ''namespace''),
          (''fieldRef'', JObj [(''apiVersion'', JStr ''v1''), (''fieldPath'', JStr ''metadata.namespace'')])]])])]])])]"

definition token_mount :: json where
  "token_mount = JObj [(''name'', JStr ''worker-service-account-token''),
     (''mountPath'', JStr ''/var/run/secrets/kubernetes.io/serviceaccount''), (''readOnly'', JBool True)]"

text \<open>\<^verbatim>\<open>_validated_merged_resources\<close>: what the policy of the worker overrides, member by member.\<close>

definition override :: "(json \<Rightarrow> string) \<Rightarrow> json \<Rightarrow> string \<Rightarrow> string \<Rightarrow> string \<Rightarrow> string" where
  "override repr overrides category key preset =
     (case obj_get overrides category of
        Some (JObj vs) \<Rightarrow> (case map_of vs key of Some v \<Rightarrow> py_str repr v | None \<Rightarrow> preset)
      | _ \<Rightarrow> preset)"

definition validated_merged_resources ::
  "(string \<Rightarrow> rat option) \<Rightarrow> (json \<Rightarrow> string) \<Rightarrow> container_resources \<Rightarrow> json option \<Rightarrow> container_resources result" where
  "validated_merged_resources quantity repr defaults overrides =
     (case overrides of
        Some (JObj ms) \<Rightarrow>
          (let pick = override repr (JObj ms) in
           new_container_resources quantity
             (pick ''requests'' ''cpu'' (cr_cpu_request defaults)) (pick ''limits'' ''cpu'' (cr_cpu_limit defaults))
             (pick ''requests'' ''memory'' (cr_memory_request defaults)) (pick ''limits'' ''memory'' (cr_memory_limit defaults)))
      | _ \<Rightarrow> Inr defaults)"

section \<open>Retained artifacts\<close>

record artifact_retention =
  ar_claim_name :: string
  ar_volume_subdirectory :: string
  ar_uri_root :: string
  ar_volume_mount_path :: string

definition ARTIFACT_VOLUME_MOUNT_PATH :: string where
  "ARTIFACT_VOLUME_MOUNT_PATH = ''/goblin-retained-artifacts''"

fun path_parts :: "path \<Rightarrow> string list" where
  "path_parts (Path _ ps) = ps"

definition absolute_posix :: "string \<Rightarrow> bool" where
  "absolute_posix v \<longleftrightarrow> is_absolute (path_of v) \<and> ''..'' \<notin> set (path_parts (path_of v))"

definition new_artifact_retention :: "string \<Rightarrow> string \<Rightarrow> string \<Rightarrow> string \<Rightarrow> artifact_retention result" where
  "new_artifact_retention claim subdirectory uri_root mount_path =
     (if \<not> object_name_ok claim then Inl (Raise ValueError ''artifact PVC claim must be a valid Kubernetes resource name'')
      else if \<not> absolute_posix mount_path then Inl (Raise ValueError ''artifact volume mount path must be an absolute normalized path'')
      else if \<not> absolute_posix uri_root then Inl (Raise ValueError ''artifact URI root must be an absolute normalized path'')
      else let sub = path_of subdirectory in
        if is_absolute sub \<or> path_parts sub = [] \<or> ''..'' \<in> set (path_parts sub)
        then Inl (Raise ValueError ''artifact volume subdirectory must be a non-empty relative path'')
        else Inr \<lparr>ar_claim_name = claim, ar_volume_subdirectory = subdirectory, ar_uri_root = uri_root, ar_volume_mount_path = mount_path\<rparr>)"

definition identity_contract :: "artifact_retention \<Rightarrow> json" where
  "identity_contract a = JObj [(''claim_name'', JStr (ar_claim_name a)),
     (''volume_subdirectory'', JStr (path_text (path_of (ar_volume_subdirectory a)))),
     (''uri_root'', JStr (path_text (path_of (ar_uri_root a)))),
     (''volume_mount_path'', JStr (path_text (path_of (ar_volume_mount_path a))))]"

definition env_or :: "(string \<Rightarrow> string option) \<Rightarrow> string \<Rightarrow> string \<Rightarrow> string" where
  "env_or environ key preset = (case environ key of None \<Rightarrow> preset | Some v \<Rightarrow> v)"

definition retention_from_environment :: "(string \<Rightarrow> string option) \<Rightarrow> artifact_retention option result" where
  "retention_from_environment environ =
     (let claim = py_strip (env_or environ ''GOBLIN_KING_K8S_ARTIFACT_PVC_CLAIM'' '''') in
      if claim = '''' then Inr None
      else bind_result (new_artifact_retention claim (env_or environ ''GOBLIN_KING_K8S_ARTIFACT_VOLUME_SUBDIRECTORY'' ''artifacts'')
             (env_or environ ''GOBLIN_KING_K8S_ARTIFACT_URI_ROOT'' ''/data/artifacts'') ARTIFACT_VOLUME_MOUNT_PATH) (\<lambda>a. Inr (Some a)))"

section \<open>Settings of the operator\<close>

datatype security_profile = LegacyProfile | RestrictedV1

record kubernetes_settings =
  ks_forwarder_image :: string
  ks_worker_image_pull_policy :: string
  ks_forwarder_image_pull_policy :: string
  ks_pull_secret_names :: "string list"
  ks_security_profile :: security_profile
  ks_restricted_workload :: restricted_workload
  ks_artifact_retention :: "artifact_retention option"

definition validate_forwarder_image :: "string \<Rightarrow> string result" where
  "validate_forwarder_image v =
     (if py_strip v = '''' then Inl (Raise ValidationError ''result_forwarder_image must not be empty'') else Inr (py_strip v))"

fun pull_secrets :: "json list \<Rightarrow> string list \<Rightarrow> string list result" where
  "pull_secrets [] names = Inr names"
| "pull_secrets (item # items) names =
     bind_result (kubernetes_object_name ''workload image pull Secret name'' item) (\<lambda>n.
     pull_secrets items (if n \<in> set names then names else names @ [n]))"

definition validate_pull_secret_names :: "json \<Rightarrow> string list result" where
  "validate_pull_secret_names v =
     (case v of JNull \<Rightarrow> Inr [] | JArr items \<Rightarrow> pull_secrets items []
      | _ \<Rightarrow> Inl (Raise ValueError ''workload_image_pull_secret_names must be a list of names''))"

definition effective_workload_security :: "kubernetes_settings \<Rightarrow> string option \<Rightarrow> json" where
  "effective_workload_security s kind =
     (case ks_security_profile s of
        LegacyProfile \<Rightarrow> JObj [(''profile'', JStr ''legacy'')]
      | RestrictedV1 \<Rightarrow>
          (let r = ks_restricted_workload s; account = service_account_for r kind in
           JObj [(''profile'', JStr ''restricted-v1''), (''automount_service_account_token'', JBool False),
             (''service_account_name'', json_opt JStr account),
             (''worker_service_account_token_projected'', JBool (account \<noteq> None)),
             (''pod_security_context'', pod_security_context r), (''container_security_context'', container_security_context r),
             (''worker_resources'', resources_manifest (rw_worker_resources r)),
             (''result_forwarder_resources'', resources_manifest (rw_forwarder_resources r))]))"

text \<open>\<open>dumps\<close> is \<^verbatim>\<open>json.dumps\<close> with sorted keys and no spaces, \<open>sha256\<close> the hexadecimal digest.\<close>

definition validation_image_identity ::
  "(json \<Rightarrow> string) \<Rightarrow> (string \<Rightarrow> string) \<Rightarrow> kubernetes_settings \<Rightarrow> string \<Rightarrow> string option \<Rightarrow> string" where
  "validation_image_identity dumps sha256 s img kind =
     (let base = ''kubernetes:'' @ img; security = effective_workload_security s kind in
      case ks_artifact_retention s of
        None \<Rightarrow> if ks_security_profile s = LegacyProfile then base
                else base @ '':workload-security:'' @ sha256 (dumps security)
      | Some a \<Rightarrow> base @ '':workload-security:'' @
          sha256 (dumps (JObj [(''workload_security'', security), (''artifact_retention'', identity_contract a)])))"

section \<open>Placement\<close>

type_synonym placement = "(string \<times> string) list \<times> (string \<times> string) list"

definition placement_label_map :: "json option \<Rightarrow> (string \<times> string) list" where
  "placement_label_map v =
     (case v of
        Some (JObj ms) \<Rightarrow> sort_key fst (List.map_filter (\<lambda>(k, x). case x of
            JStr s \<Rightarrow> if k \<noteq> '''' \<and> s \<noteq> '''' then Some (k, s) else None | _ \<Rightarrow> None) ms)
      | _ \<Rightarrow> [])"

definition normalize_placement :: "json \<Rightarrow> placement option" where
  "normalize_placement metadata =
     (case obj_get metadata ''placement'' of
        Some (JObj ms) \<Rightarrow>
          (let required = placement_label_map (map_of ms ''required''); preferred = placement_label_map (map_of ms ''preferred'') in
           if required = [] \<and> preferred = [] then None else Some (required, preferred))
      | _ \<Rightarrow> None)"

fun first_placement :: "json list \<Rightarrow> placement option" where
  "first_placement [] = None"
| "first_placement (m # ms) = (case normalize_placement m of Some p \<Rightarrow> Some p | None \<Rightarrow> first_placement ms)"

definition placement_metadata :: "goblin_definition option \<Rightarrow> goblin_context \<Rightarrow> placement option" where
  "placement_metadata definition context = first_placement
     ((case definition of None \<Rightarrow> [] | Some d \<Rightarrow> [gd_metadata d]) @
      (case obj_get (ctx_metadata context) ''goblin_definition'' of
         Some (JObj ms) \<Rightarrow> [case map_of ms ''metadata'' of Some m \<Rightarrow> m | None \<Rightarrow> JNull]
       | _ \<Rightarrow> []) @ [ctx_metadata context])"

definition label_object :: "(string \<times> string) list \<Rightarrow> json" where
  "label_object ls = JObj (map (\<lambda>(k, v). (k, JStr v)) ls)"

definition apply_kubernetes_placement :: "placement \<Rightarrow> (string \<times> json) list \<Rightarrow> (string \<times> json) list" where
  "apply_kubernetes_placement p pod_spec =
     (let (required, preferred) = p;
          pod1 = (if required = [] then pod_spec else assoc_set ''nodeSelector'' (label_object required) pod_spec) in
      if preferred = [] then pod1
      else assoc_set ''affinity'' (JObj [(''nodeAffinity'', JObj [(''preferredDuringSchedulingIgnoredDuringExecution'', JArr
             [JObj [(''weight'', JInt 50), (''preference'', JObj [(''matchExpressions'',
                JArr (map (\<lambda>(k, v). JObj [(''key'', JStr k), (''operator'', JStr ''In''), (''values'', JArr [JStr v])]) preferred))])]])])]) pod1)"

section \<open>Memory-backed volumes\<close>

definition RESERVED_MOUNT_PATHS :: "string list" where
  "RESERVED_MOUNT_PATHS = [''/'', ''/artifacts'', ''/goblin-config'', ''/goblin-result'']"

text \<open>\<^verbatim>\<open>declaration.partition(":")\<close>: the text before the first colon, and what follows it.\<close>

definition partition_colon :: "string \<Rightarrow> string \<times> string option" where
  "partition_colon s = (takeWhile (\<lambda>c. c \<noteq> CHR '':'') s,
     if CHR '':'' \<in> set s then Some (tl (dropWhile (\<lambda>c. c \<noteq> CHR '':'') s)) else None)"

fun split_comma :: "string \<Rightarrow> string list" where
  "split_comma [] = [[]]"
| "split_comma (c # s) =
     (if c = CHR '','' then [] # split_comma s
      else (case split_comma s of [] \<Rightarrow> [[c]] | p # ps \<Rightarrow> (c # p) # ps))"

text \<open>
  The two patterns of a size: a positive amount with a unit of Kubernetes, or with a unit of Docker in
  either case and an optional \<^verbatim>\<open>b\<close>, which is translated.
\<close>

definition docker_unit :: "string \<Rightarrow> string option" where
  "docker_unit u = map_of [('''', ''''), (''b'', ''''), (''k'', ''Ki''), (''kb'', ''Ki''), (''m'', ''Mi''), (''mb'', ''Mi''),
     (''g'', ''Gi''), (''gb'', ''Gi''), (''t'', ''Ti''), (''tb'', ''Ti'')] u"

definition tmpfs_size :: "string \<Rightarrow> string result" where
  "tmpfs_size amount_unit =
     (let amount = takeWhile is_digit amount_unit; unit = dropWhile is_digit amount_unit;
          refused = Inl (Raise ValueError (''unsupported tmpfs size quantity: '' @ amount_unit)) in
      if amount = '''' \<or> hd amount = CHR ''0'' then refused
      else if unit \<in> {''Ki'', ''Mi'', ''Gi'', ''Ti''} then Inr amount_unit
      else case docker_unit (py_lower unit) of None \<Rightarrow> refused | Some u \<Rightarrow> Inr (amount @ u))"

definition parse_tmpfs_declaration :: "string \<Rightarrow> (string \<times> string option) result" where
  "parse_tmpfs_declaration declaration =
     (let (mount_path, raw_options) = partition_colon (py_strip declaration) in
      if take 1 mount_path \<noteq> ''/'' \<or> last mount_path = CHR ''/''
      then Inl (Raise ValueError (''tmpfs mount path must be a normalized absolute path: '' @ declaration))
      else if \<exists>part \<in> set (tl (split_slash mount_path)). part \<in> {'''', ''.'', ''..''}
      then Inl (Raise ValueError (''tmpfs mount path must be normalized: '' @ declaration))
      else case raw_options of
        None \<Rightarrow> Inr (mount_path, None)
      | Some raw \<Rightarrow>
          (case filter (\<lambda>p. p \<noteq> '''') (map py_strip (split_comma raw)) of
             [option] \<Rightarrow>
               if take 5 option = ''size='' then bind_result (tmpfs_size (drop 5 option)) (\<lambda>quantity. Inr (mount_path, Some quantity))
               else Inl (Raise ValueError ''Kubernetes tmpfs declarations support only one optional size=<quantity> option'')
           | _ \<Rightarrow> Inl (Raise ValueError ''Kubernetes tmpfs declarations support only one optional size=<quantity> option'')))"

text \<open>The volumes and the mounts that the loop adds, from the index of the next declaration and the paths mounted so far.\<close>

fun tmpfs_volumes :: "nat \<Rightarrow> string list \<Rightarrow> string list \<Rightarrow> (json list \<times> json list) result" where
  "tmpfs_volumes index [] mounted = Inr ([], [])"
| "tmpfs_volumes index (declaration # ds) mounted =
     bind_result (parse_tmpfs_declaration declaration) (\<lambda>(mount_path, size_limit).
     if mount_path \<in> set RESERVED_MOUNT_PATHS \<or> mount_path \<in> set mounted
     then Inl (Raise ValueError (''tmpfs mount path conflicts with a runtime mount: '' @ mount_path))
     else bind_result (tmpfs_volumes (Suc index) ds (mount_path # mounted)) (\<lambda>(volumes, mounts).
       let volume_name = ''worker-tmpfs-'' @ nat_digits index in
       Inr (JObj [(''name'', JStr volume_name), (''emptyDir'', JObj ((''medium'', JStr ''Memory'') #
                (case size_limit of None \<Rightarrow> [] | Some l \<Rightarrow> [(''sizeLimit'', JStr l)])))] # volumes,
            JObj [(''name'', JStr volume_name), (''mountPath'', JStr mount_path)] # mounts)))"

section \<open>The containers\<close>

record manifest_host =
  mh_quantity :: "string \<Rightarrow> rat option"
  mh_repr :: "json \<Rightarrow> string"
  mh_dumps :: "json \<Rightarrow> string"
  mh_forwarder_script :: string

definition env_var :: "string \<times> string \<Rightarrow> json" where
  "env_var kv = JObj [(''name'', JStr (fst kv)), (''value'', JStr (snd kv))]"

definition mount :: "string \<Rightarrow> string \<Rightarrow> bool \<Rightarrow> json" where
  "mount volume path read_only =
     JObj ([(''name'', JStr volume), (''mountPath'', JStr path)] @ (if read_only then [(''readOnly'', JBool True)] else []))"

text \<open>\<^verbatim>\<open>str(context.metadata.get(key, ""))\<close>, and with \<^verbatim>\<open>or ""\<close> after the lookup.\<close>

definition metadata_str :: "(json \<Rightarrow> string) \<Rightarrow> goblin_context \<Rightarrow> string \<Rightarrow> string" where
  "metadata_str repr context key = (case obj_get (ctx_metadata context) key of None \<Rightarrow> '''' | Some v \<Rightarrow> py_str repr v)"

definition metadata_or_empty :: "(json \<Rightarrow> string) \<Rightarrow> goblin_context \<Rightarrow> string \<Rightarrow> string" where
  "metadata_or_empty repr context key =
     (case obj_get (ctx_metadata context) key of Some v \<Rightarrow> if json_truthy v then py_str repr v else '''' | None \<Rightarrow> '''')"

definition kubernetes_policy_fields :: "resource_policy \<Rightarrow> (string \<times> json) list" where
  "kubernetes_policy_fields policy =
     (let member = (\<lambda>key v. if truthy_text v then [(key, JStr (the v))] else []);
          requests = member ''cpu'' (cpu_request (rp_cpu policy)) @ member ''memory'' (mem_request (rp_memory policy));
          limits = member ''cpu'' (cpu_limit (rp_cpu policy)) @ member ''memory'' (mem_limit (rp_memory policy)) in
      (if requests = [] \<and> limits = [] then []
       else [(''resources'', JObj ((if requests = [] then [] else [(''requests'', JObj requests)]) @
               (if limits = [] then [] else [(''limits'', JObj limits)])))]) @
      (if read_only_root (rp_filesystem policy) = Some True
       then [(''securityContext'', JObj [(''readOnlyRootFilesystem'', JBool True)])] else []))"

definition worker_mounts :: "json list" where
  "worker_mounts = [mount ''input'' ''/goblin-config'' True, mount ''result'' ''/goblin-result'' False, mount ''artifacts'' ''/artifacts'' False]"

definition worker_env_vars ::
  "manifest_host \<Rightarrow> goblin_context \<Rightarrow> string \<Rightarrow> string \<Rightarrow> int \<Rightarrow> resource_policy option \<Rightarrow> (string \<times> string) list \<Rightarrow> json list" where
  "worker_env_vars h context worker_id redis_url heartbeat_interval policy worker_env =
     map env_var
       ([(''GOBLIN_CONTRACT_VERSION'', GOBLIN_CONTAINER_CONTRACT_VERSION), (''GOBLIN_RUN_ID'', ctx_run_id context),
         (''GOBLIN_JOB_ID'', metadata_str (mh_repr h) context ''job_id''), (''GOBLIN_WORKER_ID'', worker_id),
         (''GOBLIN_INPUT_PATH'', ''/goblin-config/input.json''), (''GOBLIN_CONTEXT_PATH'', ''/goblin-config/context.json''),
         (''GOBLIN_RESULT_PATH'', ''/goblin-result/result.json''), (''GOBLIN_ARTIFACT_ROOT'', ''/artifacts''),
         (''GOBLIN_REDIS_URL'', redis_url), (''GOBLIN_HEARTBEAT_REDIS_URL'', redis_url),
         (''GOBLIN_HEARTBEAT_CHANNEL'', ''goblin-king:heartbeats''), (''GOBLIN_HEARTBEAT_KEY'', worker_heartbeat_key (ctx_run_id context)),
         (''GOBLIN_HEARTBEAT_INTERVAL_SECONDS'', str_int heartbeat_interval)] @
        worker_run_event_environment (ctx_run_id context) redis_url @
        map (\<lambda>k. (k, the (map_of worker_env k))) (sort (map fst worker_env)) @
        (case policy of None \<Rightarrow> [] | Some p \<Rightarrow> [(''GOBLIN_EFFECTIVE_RESOURCE_POLICY_JSON'', mh_dumps h (compact p))]))"

text \<open>The members of the worker container: its mounts are completed by the caller.\<close>

definition worker_container ::
  "manifest_host \<Rightarrow> kubernetes_settings \<Rightarrow> string \<Rightarrow> json list \<Rightarrow> json list \<Rightarrow> resource_policy option \<Rightarrow> (string \<times> json) list" where
  "worker_container h settings img env mounts policy =
     [(''name'', JStr ''worker''), (''image'', JStr img), (''imagePullPolicy'', JStr (ks_worker_image_pull_policy settings)),
      (''env'', JArr env), (''volumeMounts'', JArr mounts)] @
     (case policy of None \<Rightarrow> [] | Some p \<Rightarrow> kubernetes_policy_fields p)"

definition wait_seconds :: "int option \<Rightarrow> int" where
  "wait_seconds timeout = (case timeout of None \<Rightarrow> 300 | Some t \<Rightarrow> if t = 0 then 300 else t)"

definition result_env :: "goblin_context \<Rightarrow> string \<Rightarrow> int option \<Rightarrow> (string \<times> string) list" where
  "result_env context redis_url timeout = [(''GOBLIN_RUN_ID'', ctx_run_id context), (''GOBLIN_REDIS_URL'', redis_url),
     (''GOBLIN_RESULT_PATH'', ''/goblin-result/result.json''), (''GOBLIN_RESULT_WAIT_SECONDS'', str_int (wait_seconds timeout + 15))]"

definition forwarder_container ::
  "kubernetes_settings \<Rightarrow> string list \<Rightarrow> (string \<times> string) list \<Rightarrow> json list \<Rightarrow> (string \<times> json) list" where
  "forwarder_container settings command env mounts =
     [(''name'', JStr ''result-forwarder''), (''image'', JStr (ks_forwarder_image settings)),
      (''imagePullPolicy'', JStr (ks_forwarder_image_pull_policy settings)), (''command'', JArr (map JStr command)),
      (''env'', JArr (map env_var env)), (''volumeMounts'', JArr mounts)]"

definition artifact_limits :: "resource_policy option \<Rightarrow> int \<times> int" where
  "artifact_limits policy =
     (case policy of None \<Rightarrow> (100, 104857600)
      | Some p \<Rightarrow> (case artifact_max_files (rp_filesystem p) of None \<Rightarrow> 100 | Some n \<Rightarrow> n,
                   case artifact_max_bytes (rp_filesystem p) of None \<Rightarrow> 104857600 | Some n \<Rightarrow> n))"

definition result_forwarder_container ::
  "manifest_host \<Rightarrow> goblin_context \<Rightarrow> int option \<Rightarrow> kubernetes_settings \<Rightarrow> string \<Rightarrow> resource_policy option \<Rightarrow> (string \<times> json) list" where
  "result_forwarder_container h context timeout settings redis_url policy =
     (case ks_artifact_retention settings of
        None \<Rightarrow> forwarder_container settings [''python'', ''-c'', mh_forwarder_script h] (result_env context redis_url timeout)
                 [mount ''result'' ''/goblin-result'' False]
      | Some a \<Rightarrow>
          (let (max_files, max_bytes) = artifact_limits policy in
           forwarder_container settings [''python'', ''-m'', ''goblin_king.kubernetes_result_forwarder'']
             (result_env context redis_url timeout @
              [(''GOBLIN_ARTIFACT_SOURCE_ROOT'', ''/artifacts''),
               (''GOBLIN_ARTIFACT_PROJECT_ID'', metadata_or_empty (mh_repr h) context ''project_id''),
               (''GOBLIN_ARTIFACT_MAX_FILES'', str_int max_files), (''GOBLIN_ARTIFACT_MAX_BYTES'', str_int max_bytes),
               (''GOBLIN_ARTIFACT_DESTINATION_ROOT'', ar_volume_mount_path a), (''GOBLIN_KING_K8S_ARTIFACT_URI_ROOT'', ar_uri_root a)])
             [mount ''result'' ''/goblin-result'' False, mount ''artifacts'' ''/artifacts'' True,
              JObj [(''name'', JStr ''retained-artifacts''), (''mountPath'', JStr (ar_volume_mount_path a)),
                (''subPath'', JStr (ar_volume_subdirectory a))]]))"

section \<open>The Job\<close>

definition append_item :: "string \<Rightarrow> json \<Rightarrow> (string \<times> json) list \<Rightarrow> (string \<times> json) list" where
  "append_item key x ms = (case map_of ms key of Some (JArr xs) \<Rightarrow> assoc_set key (JArr (xs @ [x])) ms | _ \<Rightarrow> ms)"

text \<open>\<^verbatim>\<open>apply_restricted_workload_security\<close> on the Pod without its containers, the worker and the forwarder.\<close>

definition apply_restricted ::
  "manifest_host \<Rightarrow> restricted_workload \<Rightarrow> string option \<Rightarrow> bool option \<Rightarrow>
   (string \<times> json) list \<times> (string \<times> json) list \<times> (string \<times> json) list \<Rightarrow>
   ((string \<times> json) list \<times> (string \<times> json) list \<times> (string \<times> json) list) result" where
  "apply_restricted h settings kind read_only parts =
     (let (pod_spec, worker, forwarder) = parts; account = service_account_for settings kind;
          context = container_security_context settings;
          pod1 = assoc_set ''automountServiceAccountToken'' (JBool False) pod_spec;
          pod2 = (case account of None \<Rightarrow> pod1
                  | Some a \<Rightarrow> append_item ''volumes'' token_volume (assoc_set ''serviceAccountName'' (JStr a) pod1));
          worker1 = (case account of None \<Rightarrow> worker | Some a \<Rightarrow> append_item ''volumeMounts'' token_mount worker) in
      if read_only = Some False
      then Inl (Raise KubernetesWorkloadSecurityError ''restricted-v1 rejects filesystem.read_only_root=false'')
      else bind_result (validated_merged_resources (mh_quantity h) (mh_repr h) (rw_worker_resources settings)
             (map_of worker1 ''resources'')) (\<lambda>resources.
        Inr (assoc_set ''securityContext'' (pod_security_context settings) pod2,
             assoc_set ''resources'' (resources_manifest resources) (assoc_set ''securityContext'' context worker1),
             assoc_set ''resources'' (resources_manifest (rw_forwarder_resources settings))
               (assoc_set ''securityContext'' context forwarder))))"

record job_args =
  ja_name :: string
  ja_config_name :: string
  ja_image :: string
  ja_context :: goblin_context
  ja_worker_id :: string
  ja_timeout_seconds :: "int option"
  ja_redis_url :: string
  ja_heartbeat_interval_seconds :: int
  ja_policy :: "resource_policy option"
  ja_placement :: "placement option"
  ja_kind :: "string option"
  ja_worker_env :: "(string \<times> string) list"

definition effective_kind :: "(json \<Rightarrow> string) \<Rightarrow> job_args \<Rightarrow> string option" where
  "effective_kind repr a =
     or_text (ja_kind a) (let k = metadata_or_empty repr (ja_context a) ''kind'' in if k = '''' then None else Some k)"

definition pod_spec ::
  "kubernetes_settings \<Rightarrow> string \<Rightarrow> json list \<Rightarrow> (string \<times> json) list" where
  "pod_spec settings config_name volumes =
     [(''restartPolicy'', JStr ''Never''), (''containers'', JArr []),
      (''volumes'', JArr ([JObj [(''name'', JStr ''input''), (''configMap'', JObj [(''name'', JStr config_name)])],
         JObj [(''name'', JStr ''result''), (''emptyDir'', JObj [])], JObj [(''name'', JStr ''artifacts''), (''emptyDir'', JObj [])]] @
         volumes @
         (case ks_artifact_retention settings of None \<Rightarrow> []
          | Some a \<Rightarrow> [JObj [(''name'', JStr ''retained-artifacts''),
              (''persistentVolumeClaim'', JObj [(''claimName'', JStr (ar_claim_name a))])]])))] @
     (if ks_pull_secret_names settings = [] then []
      else [(''imagePullSecrets'', JArr (map (\<lambda>n. JObj [(''name'', JStr n)]) (ks_pull_secret_names settings)))])"

definition job_document :: "manifest_host \<Rightarrow> job_args \<Rightarrow> (string \<times> json) list \<Rightarrow> json" where
  "job_document h a pod =
     (let labels = JObj [(''goblin-king.worker'', JStr ''true''), (''goblin-king.run-id'', JStr (ctx_run_id (ja_context a))),
            (''goblin-king.job-id'', JStr (metadata_str (mh_repr h) (ja_context a) ''job_id''))] in
      JObj [(''apiVersion'', JStr ''batch/v1''), (''kind'', JStr ''Job''),
        (''metadata'', JObj [(''name'', JStr (ja_name a)), (''labels'', labels)]),
        (''spec'', JObj ([(''backoffLimit'', JInt 0),
           (''template'', JObj [(''metadata'', JObj [(''labels'', labels)]), (''spec'', JObj pod)])] @
           (case ja_timeout_seconds a of None \<Rightarrow> [] | Some t \<Rightarrow> [(''activeDeadlineSeconds'', JInt t)])))])"

definition build_kubernetes_job_manifest :: "manifest_host \<Rightarrow> kubernetes_settings \<Rightarrow> job_args \<Rightarrow> json result" where
  "build_kubernetes_job_manifest h settings a =
     (let context = ja_context a; policy = ja_policy a;
          env = worker_env_vars h context (ja_worker_id a) (ja_redis_url a) (ja_heartbeat_interval_seconds a) policy (ja_worker_env a);
          forwarder = result_forwarder_container h context (ja_timeout_seconds a) settings (ja_redis_url a) policy in
      bind_result (case policy of None \<Rightarrow> Inr ([], [])
          | Some p \<Rightarrow> tmpfs_volumes 0 (tmpfs (rp_filesystem p)) [''/artifacts'', ''/goblin-result'', ''/goblin-config'']) (\<lambda>(volumes, mounts).
      let parts = (pod_spec settings (ja_config_name a) volumes,
                   worker_container h settings (ja_image a) env (worker_mounts @ mounts) policy, forwarder) in
      bind_result (case ks_security_profile settings of
            LegacyProfile \<Rightarrow> Inr parts
          | RestrictedV1 \<Rightarrow> apply_restricted h (ks_restricted_workload settings) (effective_kind (mh_repr h) a)
              (case policy of None \<Rightarrow> None | Some p \<Rightarrow> read_only_root (rp_filesystem p)) parts) (\<lambda>(pod, worker, forwarder).
      let pod1 = assoc_set ''containers'' (JArr [JObj worker, JObj forwarder]) pod;
          placement = (case ja_placement a of Some p \<Rightarrow> Some p | None \<Rightarrow> placement_metadata None context) in
      Inr (job_document h a (case placement of None \<Rightarrow> pod1 | Some p \<Rightarrow> apply_kubernetes_placement p pod1)))))"

section \<open>What a restricted Pod may do\<close>

fun json_at :: "string list \<Rightarrow> json \<Rightarrow> json option" where
  "json_at [] j = Some j"
| "json_at (k # ks) j = (case obj_get j k of None \<Rightarrow> None | Some v \<Rightarrow> json_at ks v)"

definition bounded_resources :: "(string \<Rightarrow> rat option) \<Rightarrow> container_resources \<Rightarrow> bool" where
  "bounded_resources quantity r \<longleftrightarrow>
     (\<exists>a b c d. quantity (cr_cpu_request r) = Some a \<and> quantity (cr_cpu_limit r) = Some b \<and>
        quantity (cr_memory_request r) = Some c \<and> quantity (cr_memory_limit r) = Some d \<and> 0 < a \<and> a \<le> b \<and> 0 < c \<and> c \<le> d)"

lemma valid_quantity_Inr: "valid_quantity quantity v = Inr s \<Longrightarrow> \<exists>q. quantity s = Some q \<and> 0 < q"
  by (auto simp: valid_quantity_def Let_def split: if_splits option.splits)

lemma new_container_resources_bounded:
  assumes "new_container_resources quantity a b c d = Inr r"
  shows "bounded_resources quantity r"
  using assms
  by (auto simp: new_container_resources_def bind_result_def bounded_resources_def dest!: valid_quantity_Inr
      split: sum.splits if_splits)

lemma merged_bounded:
  "validated_merged_resources quantity repr preset overrides = Inr r \<Longrightarrow> bounded_resources quantity preset \<Longrightarrow> bounded_resources quantity r"
  by (auto simp: validated_merged_resources_def Let_def split: option.splits json.splits dest: new_container_resources_bounded)

lemma built_Inr:
  assumes "build_kubernetes_job_manifest h settings a = Inr m"
  obtains pod worker forwarder where
    "json_at [''spec'', ''template'', ''spec'', ''containers''] m = Some (JArr [JObj worker, JObj forwarder])"
    "\<And>k. k \<notin> {''containers'', ''nodeSelector'', ''affinity''} \<Longrightarrow> json_at [''spec'', ''template'', ''spec'', k] m = map_of pod k"
    "\<exists>volumes mounts. (case ja_policy a of None \<Rightarrow> Inr ([], [])
        | Some p \<Rightarrow> tmpfs_volumes 0 (tmpfs (rp_filesystem p)) [''/artifacts'', ''/goblin-result'', ''/goblin-config'']) = Inr (volumes, mounts) \<and>
       (let env = worker_env_vars h (ja_context a) (ja_worker_id a) (ja_redis_url a) (ja_heartbeat_interval_seconds a) (ja_policy a) (ja_worker_env a);
            parts = (pod_spec settings (ja_config_name a) volumes, worker_container h settings (ja_image a) env (worker_mounts @ mounts) (ja_policy a),
              result_forwarder_container h (ja_context a) (ja_timeout_seconds a) settings (ja_redis_url a) (ja_policy a)) in
        (case ks_security_profile settings of LegacyProfile \<Rightarrow> Inr parts
         | RestrictedV1 \<Rightarrow> apply_restricted h (ks_restricted_workload settings) (effective_kind (mh_repr h) a)
             (case ja_policy a of None \<Rightarrow> None | Some p \<Rightarrow> read_only_root (rp_filesystem p)) parts) = Inr (pod, worker, forwarder))"
proof -
  obtain volumes mounts pod worker forwarder placement where
    v: "(case ja_policy a of None \<Rightarrow> Inr ([], [])
        | Some p \<Rightarrow> tmpfs_volumes 0 (tmpfs (rp_filesystem p)) [''/artifacts'', ''/goblin-result'', ''/goblin-config'']) = Inr (volumes, mounts)"
    and parts: "(let env = worker_env_vars h (ja_context a) (ja_worker_id a) (ja_redis_url a) (ja_heartbeat_interval_seconds a) (ja_policy a) (ja_worker_env a);
            parts = (pod_spec settings (ja_config_name a) volumes, worker_container h settings (ja_image a) env (worker_mounts @ mounts) (ja_policy a),
              result_forwarder_container h (ja_context a) (ja_timeout_seconds a) settings (ja_redis_url a) (ja_policy a)) in
        (case ks_security_profile settings of LegacyProfile \<Rightarrow> Inr parts
         | RestrictedV1 \<Rightarrow> apply_restricted h (ks_restricted_workload settings) (effective_kind (mh_repr h) a)
             (case ja_policy a of None \<Rightarrow> None | Some p \<Rightarrow> read_only_root (rp_filesystem p)) parts) = Inr (pod, worker, forwarder))"
    and m: "m = job_document h a (case placement of None \<Rightarrow> assoc_set ''containers'' (JArr [JObj worker, JObj forwarder]) pod
        | Some p \<Rightarrow> apply_kubernetes_placement p (assoc_set ''containers'' (JArr [JObj worker, JObj forwarder]) pod))"
    using assms unfolding build_kubernetes_job_manifest_def Let_def bind_result_def
    by (auto split: sum.splits prod.splits simp: Let_def)
  let ?pod = "case placement of None \<Rightarrow> assoc_set ''containers'' (JArr [JObj worker, JObj forwarder]) pod
        | Some p \<Rightarrow> apply_kubernetes_placement p (assoc_set ''containers'' (JArr [JObj worker, JObj forwarder]) pod)"
  have at: "json_at [''spec'', ''template'', ''spec'', k] m = map_of ?pod k" for k
    unfolding m job_document_def by (simp add: Let_def split: option.split)
  have same: "map_of ?pod k = map_of (assoc_set ''containers'' (JArr [JObj worker, JObj forwarder]) pod) k"
    if "k \<noteq> ''nodeSelector''" "k \<noteq> ''affinity''" for k
    using that by (cases placement) (auto simp: apply_kubernetes_placement_def map_of_assoc_set Let_def split: prod.split)
  show thesis
  proof (rule that)
    show "json_at [''spec'', ''template'', ''spec'', ''containers''] m = Some (JArr [JObj worker, JObj forwarder])"
      unfolding at by (subst same) (simp_all add: map_of_assoc_set)
    show "json_at [''spec'', ''template'', ''spec'', k] m = map_of pod k" if "k \<notin> {''containers'', ''nodeSelector'', ''affinity''}" for k
      unfolding at using that by (subst same) (auto simp: map_of_assoc_set)
  qed (use v parts in blast)
qed

lemma map_of_append_item: "k \<noteq> key \<Longrightarrow> map_of (append_item key x ms) k = map_of ms k"
  by (simp add: append_item_def map_of_assoc_set split: option.split json.split)

lemma apply_restricted_Inr:
  assumes "apply_restricted h s kind ro (p0, w0, f0) = Inr (p, w, f)"
  obtains resources where "ro \<noteq> Some False"
    and "\<And>k. k \<noteq> ''volumes'' \<Longrightarrow> map_of p k = (if k = ''securityContext'' then Some (pod_security_context s)
       else if k = ''serviceAccountName'' \<and> service_account_for s kind \<noteq> None then map_option JStr (service_account_for s kind)
       else if k = ''automountServiceAccountToken'' then Some (JBool False) else map_of p0 k)"
    and "map_of w ''securityContext'' = Some (container_security_context s)"
    and "map_of f ''securityContext'' = Some (container_security_context s)"
    and "map_of f ''volumeMounts'' = map_of f0 ''volumeMounts''"
    and "validated_merged_resources (mh_quantity h) (mh_repr h) (rw_worker_resources s) (map_of w0 ''resources'') = Inr resources"
    and "map_of w ''resources'' = Some (resources_manifest resources)"
    and "\<And>xs. map_of w0 ''volumeMounts'' = Some (JArr xs) \<Longrightarrow>
      map_of w ''volumeMounts'' = Some (JArr (xs @ (if service_account_for s kind = None then [] else [token_mount])))"
    and "\<And>ys. map_of p0 ''volumes'' = Some (JArr ys) \<Longrightarrow>
      map_of p ''volumes'' = Some (JArr (ys @ (if service_account_for s kind = None then [] else [token_volume])))"
proof -
  obtain resources where "ro \<noteq> Some False"
    and merged: "validated_merged_resources (mh_quantity h) (mh_repr h) (rw_worker_resources s)
      (map_of (case service_account_for s kind of None \<Rightarrow> w0 | Some a \<Rightarrow> append_item ''volumeMounts'' token_mount w0) ''resources'') = Inr resources"
    and p: "p = assoc_set ''securityContext'' (pod_security_context s)
        (case service_account_for s kind of None \<Rightarrow> assoc_set ''automountServiceAccountToken'' (JBool False) p0
         | Some a \<Rightarrow> append_item ''volumes'' token_volume (assoc_set ''serviceAccountName'' (JStr a) (assoc_set ''automountServiceAccountToken'' (JBool False) p0)))"
    and w: "w = assoc_set ''resources'' (resources_manifest resources) (assoc_set ''securityContext'' (container_security_context s)
        (case service_account_for s kind of None \<Rightarrow> w0 | Some a \<Rightarrow> append_item ''volumeMounts'' token_mount w0))"
    and f: "f = assoc_set ''resources'' (resources_manifest (rw_forwarder_resources s)) (assoc_set ''securityContext'' (container_security_context s) f0)"
    using assms unfolding apply_restricted_def Let_def bind_result_def by (auto split: if_splits sum.splits)
  moreover have "map_of (case service_account_for s kind of None \<Rightarrow> w0 | Some a \<Rightarrow> append_item ''volumeMounts'' token_mount w0) ''resources'' = map_of w0 ''resources''"
    by (cases "service_account_for s kind") (simp_all add: map_of_append_item)
  moreover have "map_of w0 ''volumeMounts'' = Some (JArr xs) \<Longrightarrow>
      map_of w ''volumeMounts'' = Some (JArr (xs @ (if service_account_for s kind = None then [] else [token_mount])))" for xs
    unfolding w by (cases "service_account_for s kind") (simp_all add: map_of_assoc_set append_item_def)
  moreover have "map_of p0 ''volumes'' = Some (JArr ys) \<Longrightarrow>
      map_of p ''volumes'' = Some (JArr (ys @ (if service_account_for s kind = None then [] else [token_volume])))" for ys
    unfolding p by (cases "service_account_for s kind") (simp_all add: map_of_assoc_set append_item_def)
  ultimately show thesis
    by (intro that [of resources]; (assumption | simp add: map_of_assoc_set map_of_append_item split: option.split))
qed

text \<open>A mount of the volume that holds a token, and a volume that projects one.\<close>

definition mounts_token :: "json \<Rightarrow> bool" where
  "mounts_token m \<longleftrightarrow> obj_get m ''name'' = Some (JStr ''worker-service-account-token'')"

definition projected :: "json \<Rightarrow> bool" where
  "projected v \<longleftrightarrow> obj_get v ''projected'' \<noteq> None"

lemma token_only: "mounts_token token_mount" "projected token_volume"
  by (simp_all add: mounts_token_def token_mount_def projected_def token_volume_def)

lemma forwarder_lacks_token:
  "map_of (result_forwarder_container h context timeout settings redis_url policy) ''volumeMounts'' = Some (JArr mounts) \<Longrightarrow>
   filter mounts_token mounts = []"
  by (auto simp: result_forwarder_container_def forwarder_container_def mount_def mounts_token_def split: option.splits prod.splits)

lemma tmpfs_volumes_lack_token:
  "tmpfs_volumes index ds mounted = Inr (volumes, mounts) \<Longrightarrow> filter mounts_token mounts = [] \<and> filter projected volumes = []"
  by (induction ds arbitrary: index mounted volumes mounts)
    (auto simp: bind_result_def Let_def mounts_token_def projected_def split: sum.splits prod.splits if_splits)

lemma pod_spec_lacks_token:
  "filter projected volumes = [] \<Longrightarrow>
   \<exists>vs. map_of (pod_spec settings config_name volumes) ''volumes'' = Some (JArr vs) \<and> filter projected vs = []"
  by (simp add: pod_spec_def projected_def split: option.split)

text \<open>
  C20. A Pod under the restricted profile mounts no token by itself, runs as a user other than root, and both
  its containers are confined by the context of the profile whatever the policy of the goblin says. The
  resources of the worker stay ordered. The one token of the Pod is the volume of the account bound to the
  kind of the goblin: it is there exactly when an account is bound, the worker then has exactly one mount
  of it, and the forwarder has none.
\<close>

theorem restricted_pod_confined:
  assumes "build_kubernetes_job_manifest h settings a = Inr m" and "ks_security_profile settings = RestrictedV1"
    and "bounded_resources (mh_quantity h) (rw_worker_resources (ks_restricted_workload settings))"
  shows "\<exists>worker forwarder resources mounts wmounts volumes. let r = ks_restricted_workload settings; account = service_account_for r (effective_kind (mh_repr h) a) in
    json_at [''spec'', ''template'', ''spec'', ''containers''] m = Some (JArr [worker, forwarder]) \<and>
    json_at [''spec'', ''template'', ''spec'', ''automountServiceAccountToken''] m = Some (JBool False) \<and>
    json_at [''spec'', ''template'', ''spec'', ''securityContext''] m = Some (pod_security_context r) \<and>
    json_at [''spec'', ''template'', ''spec'', ''serviceAccountName''] m = map_option JStr account \<and>
    obj_get worker ''securityContext'' = Some (container_security_context r) \<and>
    obj_get forwarder ''securityContext'' = Some (container_security_context r) \<and>
    obj_get worker ''resources'' = Some (resources_manifest resources) \<and> bounded_resources (mh_quantity h) resources \<and>
    obj_get forwarder ''volumeMounts'' = Some (JArr mounts) \<and> filter mounts_token mounts = [] \<and>
    obj_get worker ''volumeMounts'' = Some (JArr wmounts) \<and>
    filter mounts_token wmounts = (if account = None then [] else [token_mount]) \<and>
    json_at [''spec'', ''template'', ''spec'', ''volumes''] m = Some (JArr volumes) \<and>
    filter projected volumes = (if account = None then [] else [token_volume]) \<and>
    (\<forall>p. ja_policy a = Some p \<longrightarrow> read_only_root (rp_filesystem p) \<noteq> Some False)"
proof -
  obtain pod worker forwarder volumes tmounts env where containers: "json_at [''spec'', ''template'', ''spec'', ''containers''] m = Some (JArr [JObj worker, JObj forwarder])"
    and at: "\<And>k. k \<notin> {''containers'', ''nodeSelector'', ''affinity''} \<Longrightarrow> json_at [''spec'', ''template'', ''spec'', k] m = map_of pod k"
    and applied: "apply_restricted h (ks_restricted_workload settings) (effective_kind (mh_repr h) a)
       (case ja_policy a of None \<Rightarrow> None | Some p \<Rightarrow> read_only_root (rp_filesystem p))
       (pod_spec settings (ja_config_name a) volumes, worker_container h settings (ja_image a) env (worker_mounts @ tmounts) (ja_policy a),
        result_forwarder_container h (ja_context a) (ja_timeout_seconds a) settings (ja_redis_url a) (ja_policy a)) = Inr (pod, worker, forwarder)"
    and tmpfs: "(case ja_policy a of None \<Rightarrow> Inr ([], [])
        | Some p \<Rightarrow> tmpfs_volumes 0 (tmpfs (rp_filesystem p)) [''/artifacts'', ''/goblin-result'', ''/goblin-config'']) = Inr (volumes, tmounts)"
    using assms(1,2) by (elim built_Inr) (auto simp: Let_def)
  let ?r = "ks_restricted_workload settings"
  let ?f = "result_forwarder_container h (ja_context a) (ja_timeout_seconds a) settings (ja_redis_url a) (ja_policy a)"
  obtain resources where parts: "(case ja_policy a of None \<Rightarrow> None | Some p \<Rightarrow> read_only_root (rp_filesystem p)) \<noteq> Some False"
    "\<And>k. k \<noteq> ''volumes'' \<Longrightarrow> map_of pod k = (if k = ''securityContext'' then Some (pod_security_context ?r)
       else if k = ''serviceAccountName'' \<and> service_account_for ?r (effective_kind (mh_repr h) a) \<noteq> None
       then map_option JStr (service_account_for ?r (effective_kind (mh_repr h) a))
       else if k = ''automountServiceAccountToken'' then Some (JBool False) else map_of (pod_spec settings (ja_config_name a) volumes) k)"
    "map_of worker ''securityContext'' = Some (container_security_context ?r)"
    "map_of forwarder ''securityContext'' = Some (container_security_context ?r)" "map_of forwarder ''volumeMounts'' = map_of ?f ''volumeMounts''"
    "validated_merged_resources (mh_quantity h) (mh_repr h) (rw_worker_resources ?r)
      (map_of (worker_container h settings (ja_image a) env (worker_mounts @ tmounts) (ja_policy a)) ''resources'') = Inr resources"
    "map_of worker ''resources'' = Some (resources_manifest resources)"
    "\<And>xs. map_of (worker_container h settings (ja_image a) env (worker_mounts @ tmounts) (ja_policy a)) ''volumeMounts'' = Some (JArr xs) \<Longrightarrow>
      map_of worker ''volumeMounts'' = Some (JArr (xs @ (if service_account_for ?r (effective_kind (mh_repr h) a) = None then [] else [token_mount])))"
    "\<And>ys. map_of (pod_spec settings (ja_config_name a) volumes) ''volumes'' = Some (JArr ys) \<Longrightarrow>
      map_of pod ''volumes'' = Some (JArr (ys @ (if service_account_for ?r (effective_kind (mh_repr h) a) = None then [] else [token_volume])))"
    by (rule apply_restricted_Inr [OF applied]) (rule that)
  have pod: "map_of pod ''automountServiceAccountToken'' = Some (JBool False)" "map_of pod ''securityContext'' = Some (pod_security_context ?r)"
    "map_of pod ''serviceAccountName'' = map_option JStr (service_account_for ?r (effective_kind (mh_repr h) a))"
    using parts(2) by (auto simp: pod_spec_def)
  have root: "\<forall>p. ja_policy a = Some p \<longrightarrow> read_only_root (rp_filesystem p) \<noteq> Some False"
    using parts(1) by auto
  obtain mounts where mounts: "map_of ?f ''volumeMounts'' = Some (JArr mounts)"
    by (cases "ks_artifact_retention settings"; cases "artifact_limits (ja_policy a)")
      (auto simp: result_forwarder_container_def forwarder_container_def)
  have free: "filter mounts_token tmounts = []" "filter projected volumes = []"
    using tmpfs by (auto split: option.splits dest: tmpfs_volumes_lack_token)
  have "filter mounts_token worker_mounts = []" by (simp add: worker_mounts_def mount_def mounts_token_def)
  then obtain wmounts where wmounts: "map_of worker ''volumeMounts'' = Some (JArr wmounts)"
    "filter mounts_token wmounts = (if service_account_for ?r (effective_kind (mh_repr h) a) = None then [] else [token_mount])"
    using parts(8) [of "worker_mounts @ tmounts"] free token_only by (auto simp: worker_container_def)
  obtain vs where vs: "map_of pod ''volumes'' = Some (JArr vs)"
    "filter projected vs = (if service_account_for ?r (effective_kind (mh_repr h) a) = None then [] else [token_volume])"
    using pod_spec_lacks_token [OF free(2), of settings "ja_config_name a"] parts(9) token_only by auto
  have "json_at [''spec'', ''template'', ''spec'', ''volumes''] m = Some (JArr vs)"
    using vs by (simp add: at del: json_at.simps)
  moreover have spec: "json_at [''spec'', ''template'', ''spec'', ''automountServiceAccountToken''] m = Some (JBool False)"
    "json_at [''spec'', ''template'', ''spec'', ''securityContext''] m = Some (pod_security_context ?r)"
    "json_at [''spec'', ''template'', ''spec'', ''serviceAccountName''] m = map_option JStr (service_account_for ?r (effective_kind (mh_repr h) a))"
    using pod by (simp_all add: at del: json_at.simps)
  ultimately show ?thesis unfolding Let_def
    by (intro exI [of _ "JObj worker"] exI [of _ "JObj forwarder"] exI [of _ resources] exI [of _ mounts] exI [of _ wmounts]
        exI [of _ vs] conjI)
      (use wmounts vs containers spec parts(3-5,7) mounts merged_bounded [OF parts(6) assms(3)] forwarder_lacks_token [OF mounts] root
        in \<open>simp_all del: json_at.simps\<close>)
qed

definition demo_quantity :: "string \<Rightarrow> rat option" where
  "demo_quantity s = map_of [(''100m'', 1 / 10), (''1'', 1), (''2'', 2), (''64Mi'', 67108864), (''512Mi'', 536870912)] s"

definition demo_manifest_host :: manifest_host where
  "demo_manifest_host = \<lparr>mh_quantity = demo_quantity, mh_repr = (\<lambda>_. ''''), mh_dumps = (\<lambda>_. ''{}''), mh_forwarder_script = ''''\<rparr>"

definition demo_settings :: kubernetes_settings where
  "demo_settings = \<lparr>ks_forwarder_image = ''goblin-king:local'', ks_worker_image_pull_policy = ''IfNotPresent'',
     ks_forwarder_image_pull_policy = ''IfNotPresent'', ks_pull_secret_names = [], ks_security_profile = RestrictedV1,
     ks_restricted_workload = \<lparr>rw_run_as_user = 65532, rw_run_as_group = 65532, rw_fs_group = 65532,
       rw_worker_resources = default_worker_resources, rw_forwarder_resources = default_forwarder_resources,
       rw_service_accounts = [(''example.echo'', ''echo-account'')]\<rparr>, ks_artifact_retention = None\<rparr>"

definition tmpfs_policy :: "string list \<Rightarrow> resource_policy" where
  "tmpfs_policy ds = empty_policy\<lparr>rp_cpu := \<lparr>cpu_request = None, cpu_limit = Some ''2''\<rparr>,
     rp_filesystem := (rp_filesystem empty_policy)\<lparr>tmpfs := ds\<rparr>\<rparr>"

definition demo_job_args :: job_args where
  "demo_job_args = \<lparr>ja_name = ''gk-echo'', ja_config_name = ''gk-echo-input'', ja_image = ''img'', ja_context = echo_context,
     ja_worker_id = ''w'', ja_timeout_seconds = Some 30, ja_redis_url = ''redis://r'', ja_heartbeat_interval_seconds = 5,
     ja_policy = Some (tmpfs_policy [''/scratch:size=64m'', ''/tmp'']), ja_placement = None, ja_kind = Some ''example.echo'', ja_worker_env = []\<rparr>"

lemma demo_tmpfs:
  "\<exists>vs ms. tmpfs_volumes 0 [''/scratch:size=64m'', ''/tmp''] [''/artifacts'', ''/goblin-result'', ''/goblin-config''] = Inr (vs, ms)"
proof -
  have "map_sum (\<lambda>_. ()) (\<lambda>_. ()) (tmpfs_volumes 0 [''/scratch:size=64m'', ''/tmp''] [''/artifacts'', ''/goblin-result'', ''/goblin-config'']) = Inr ()"
    by code_simp
  then show ?thesis by (cases "tmpfs_volumes 0 [''/scratch:size=64m'', ''/tmp''] [''/artifacts'', ''/goblin-result'', ''/goblin-config'']") auto
qed

theorem restricted_pod_confined_witness:
  "\<exists>m. build_kubernetes_job_manifest demo_manifest_host demo_settings demo_job_args = Inr m \<and>
     json_at [''spec'', ''template'', ''spec'', ''automountServiceAccountToken''] m = Some (JBool False) \<and>
     json_at [''spec'', ''template'', ''spec'', ''serviceAccountName''] m = Some (JStr ''echo-account'')"
proof -
  have "\<exists>r. validated_merged_resources (mh_quantity demo_manifest_host) (mh_repr demo_manifest_host) default_worker_resources
      (Some (JObj [(''limits'', JObj [(''cpu'', JStr ''2'')])])) = Inr r"
    by (simp add: validated_merged_resources_def override_def new_container_resources_def valid_quantity_def py_strip_def py_space_def
        demo_manifest_host_def demo_quantity_def default_worker_resources_def Let_def)
  then obtain r where r: "validated_merged_resources (mh_quantity demo_manifest_host) (mh_repr demo_manifest_host) default_worker_resources
      (Some (JObj [(''limits'', JObj [(''cpu'', JStr ''2'')])])) = Inr r" by blast
  obtain vs ms where tmpfs: "tmpfs_volumes 0 [''/scratch:size=64m'', ''/tmp''] [''/artifacts'', ''/goblin-result'', ''/goblin-config''] = Inr (vs, ms)"
    using demo_tmpfs by blast
  have "\<exists>m. build_kubernetes_job_manifest demo_manifest_host demo_settings demo_job_args = Inr m"
    using r
    by (auto simp del: tmpfs_volumes.simps simp: tmpfs build_kubernetes_job_manifest_def Let_def apply_restricted_def demo_job_args_def demo_settings_def tmpfs_policy_def
        worker_container_def kubernetes_policy_fields_def truthy_text_def map_of_append_item service_account_for_def empty_policy_def
        split: option.split)
  then obtain m where m: "build_kubernetes_job_manifest demo_manifest_host demo_settings demo_job_args = Inr m" by blast
  have "ks_security_profile demo_settings = RestrictedV1"
    "bounded_resources (mh_quantity demo_manifest_host) (rw_worker_resources (ks_restricted_workload demo_settings))"
    unfolding bounded_resources_def
    by (simp add: demo_settings_def, intro exI [of _ "1 / 10"] exI [of _ 1] exI [of _ 67108864] exI [of _ 536870912])
      (simp add: demo_settings_def demo_manifest_host_def demo_quantity_def default_worker_resources_def)
  moreover have "service_account_for (ks_restricted_workload demo_settings) (effective_kind (mh_repr demo_manifest_host) demo_job_args) = Some ''echo-account''"
    by code_simp
  ultimately show ?thesis using restricted_pod_confined [OF m] m by (auto simp: Let_def)
qed

section \<open>Mounts of the worker\<close>

lemma parsed_path:
  assumes "parse_tmpfs_declaration declaration = Inr (path, quantity)"
  shows "take 1 path = ''/''" "\<forall>part \<in> set (tl (split_slash path)). part \<noteq> '''' \<and> part \<noteq> ''.'' \<and> part \<noteq> ''..''"
  using assms
  by (auto simp: parse_tmpfs_declaration_def Let_def bind_result_def partition_colon_def
      split: if_splits option.splits list.splits sum.splits)

definition mounted_at :: "json \<Rightarrow> json option" where
  "mounted_at m = obj_get m ''mountPath''"

lemma tmpfs_volumes_paths:
  assumes "tmpfs_volumes index ds mounted = Inr (volumes, mounts)"
  shows "\<exists>paths. map mounted_at mounts = map (\<lambda>p. Some (JStr p)) paths \<and> distinct paths \<and> set paths \<inter> set mounted = {} \<and>
    set paths \<inter> set RESERVED_MOUNT_PATHS = {} \<and>
    (\<forall>p \<in> set paths. take 1 p = ''/'' \<and> (\<forall>part \<in> set (tl (split_slash p)). part \<noteq> '''' \<and> part \<noteq> ''.'' \<and> part \<noteq> ''..''))"
  using assms
proof (induction ds arbitrary: index mounted volumes mounts)
  case (Cons d ds)
  obtain path quantity vs ms where path: "parse_tmpfs_declaration d = Inr (path, quantity)"
    and new: "path \<notin> set RESERVED_MOUNT_PATHS" "path \<notin> set mounted"
    and rest: "tmpfs_volumes (Suc index) ds (path # mounted) = Inr (vs, ms)"
    and mounts: "mounts = JObj [(''name'', JStr (''worker-tmpfs-'' @ nat_digits index)), (''mountPath'', JStr path)] # ms"
    using Cons.prems by (auto simp: bind_result_def Let_def split: sum.splits prod.splits if_splits)
  from Cons.IH [OF rest] obtain paths where "map mounted_at ms = map (\<lambda>p. Some (JStr p)) paths" "distinct paths"
    "set paths \<inter> set (path # mounted) = {}" "set paths \<inter> set RESERVED_MOUNT_PATHS = {}"
    "\<forall>p \<in> set paths. take 1 p = ''/'' \<and> (\<forall>part \<in> set (tl (split_slash p)). part \<noteq> '''' \<and> part \<noteq> ''.'' \<and> part \<noteq> ''..'')"
    by blast
  moreover have "mounted_at (JObj [(''name'', JStr (''worker-tmpfs-'' @ nat_digits index)), (''mountPath'', JStr path)]) = Some (JStr path)"
    by (simp add: mounted_at_def)
  ultimately show ?case using new parsed_path [OF path] mounts
    by (intro exI [of _ "path # paths"]) auto
qed simp

text \<open>
  Without a service account every mount of a worker has a path of its own: the memory-backed volumes of
  the policy are mounted at normalized absolute paths, at none of the reserved ones and at no path twice.
\<close>

theorem worker_mounts_apart:
  assumes "build_kubernetes_job_manifest h settings a = Inr m"
    and "ks_security_profile settings = RestrictedV1 \<Longrightarrow>
      service_account_for (ks_restricted_workload settings) (effective_kind (mh_repr h) a) = None"
  shows "\<exists>worker forwarder mounts paths. json_at [''spec'', ''template'', ''spec'', ''containers''] m = Some (JArr [worker, forwarder]) \<and>
    obj_get worker ''volumeMounts'' = Some (JArr mounts) \<and>
    map mounted_at mounts = map (\<lambda>p. Some (JStr p)) ([''/goblin-config'', ''/goblin-result'', ''/artifacts''] @ paths) \<and>
    distinct ([''/goblin-config'', ''/goblin-result'', ''/artifacts''] @ paths) \<and>
    (\<forall>p \<in> set paths. take 1 p = ''/'' \<and> (\<forall>part \<in> set (tl (split_slash p)). part \<noteq> '''' \<and> part \<noteq> ''.'' \<and> part \<noteq> ''..''))"
proof -
  obtain pod worker forwarder volumes mounts env where containers: "json_at [''spec'', ''template'', ''spec'', ''containers''] m = Some (JArr [JObj worker, JObj forwarder])"
    and volumes: "(case ja_policy a of None \<Rightarrow> Inr ([], [])
        | Some p \<Rightarrow> tmpfs_volumes 0 (tmpfs (rp_filesystem p)) [''/artifacts'', ''/goblin-result'', ''/goblin-config'']) = Inr (volumes, mounts)"
    and built: "(let parts = (pod_spec settings (ja_config_name a) volumes, worker_container h settings (ja_image a) env (worker_mounts @ mounts) (ja_policy a),
              result_forwarder_container h (ja_context a) (ja_timeout_seconds a) settings (ja_redis_url a) (ja_policy a)) in
        (case ks_security_profile settings of LegacyProfile \<Rightarrow> Inr parts
         | RestrictedV1 \<Rightarrow> apply_restricted h (ks_restricted_workload settings) (effective_kind (mh_repr h) a)
             (case ja_policy a of None \<Rightarrow> None | Some p \<Rightarrow> read_only_root (rp_filesystem p)) parts) = Inr (pod, worker, forwarder))"
    using assms(1) by (elim built_Inr) (auto simp: Let_def)
  have "map_of worker ''volumeMounts'' = map_of (worker_container h settings (ja_image a) env (worker_mounts @ mounts) (ja_policy a)) ''volumeMounts''"
    using built assms(2) by (cases "ks_security_profile settings")
      (auto simp: Let_def apply_restricted_def bind_result_def map_of_assoc_set split: sum.splits if_splits)
  then have worker: "map_of worker ''volumeMounts'' = Some (JArr (worker_mounts @ mounts))" by (simp add: worker_container_def)
  have "\<exists>paths. map mounted_at mounts = map (\<lambda>p. Some (JStr p)) paths \<and> distinct paths \<and>
      set paths \<inter> set [''/artifacts'', ''/goblin-result'', ''/goblin-config''] = {} \<and>
      (\<forall>p \<in> set paths. take 1 p = ''/'' \<and> (\<forall>part \<in> set (tl (split_slash p)). part \<noteq> '''' \<and> part \<noteq> ''.'' \<and> part \<noteq> ''..''))"
  proof (cases "ja_policy a")
    case (Some p)
    then show ?thesis using tmpfs_volumes_paths volumes by (auto dest!: tmpfs_volumes_paths)
  qed (use volumes in simp)
  then obtain paths where paths: "map mounted_at mounts = map (\<lambda>p. Some (JStr p)) paths" "distinct paths"
      "set paths \<inter> set [''/artifacts'', ''/goblin-result'', ''/goblin-config''] = {}"
      "\<forall>p \<in> set paths. take 1 p = ''/'' \<and> (\<forall>part \<in> set (tl (split_slash p)). part \<noteq> '''' \<and> part \<noteq> ''.'' \<and> part \<noteq> ''..'')" by blast
  have "map mounted_at worker_mounts = map (\<lambda>p. Some (JStr p)) [''/goblin-config'', ''/goblin-result'', ''/artifacts'']"
    by (simp add: worker_mounts_def mount_def mounted_at_def)
  with paths worker containers show ?thesis
    by (intro exI [of _ "JObj worker"] exI [of _ "JObj forwarder"] exI [of _ "worker_mounts @ mounts"] exI [of _ paths]) auto
qed

theorem worker_mounts_apart_witness:
  "\<exists>m worker forwarder mounts. build_kubernetes_job_manifest demo_manifest_host (demo_settings\<lparr>ks_security_profile := LegacyProfile\<rparr>) demo_job_args = Inr m \<and>
     json_at [''spec'', ''template'', ''spec'', ''containers''] m = Some (JArr [worker, forwarder]) \<and>
     obj_get worker ''volumeMounts'' = Some (JArr mounts) \<and> distinct (map mounted_at mounts)"
proof -
  let ?build = "build_kubernetes_job_manifest demo_manifest_host (demo_settings\<lparr>ks_security_profile := LegacyProfile\<rparr>) demo_job_args"
  obtain vs ms where tmpfs: "tmpfs_volumes 0 [''/scratch:size=64m'', ''/tmp''] [''/artifacts'', ''/goblin-result'', ''/goblin-config''] = Inr (vs, ms)"
    using demo_tmpfs by blast
  have "\<exists>m. ?build = Inr m"
    by (auto simp del: tmpfs_volumes.simps simp: tmpfs build_kubernetes_job_manifest_def Let_def demo_job_args_def demo_settings_def tmpfs_policy_def empty_policy_def)
  then obtain m where m: "?build = Inr m" by blast
  from worker_mounts_apart [OF m] obtain worker forwarder mounts paths where
    w: "json_at [''spec'', ''template'', ''spec'', ''containers''] m = Some (JArr [worker, forwarder])"
      "obj_get worker ''volumeMounts'' = Some (JArr mounts)"
    and paths: "map mounted_at mounts = map (\<lambda>p. Some (JStr p)) ([''/goblin-config'', ''/goblin-result'', ''/artifacts''] @ paths)"
      "distinct ([''/goblin-config'', ''/goblin-result'', ''/artifacts''] @ paths)"
    by (auto simp: demo_settings_def)
  have "distinct (map (\<lambda>p. Some (JStr p)) ([''/goblin-config'', ''/goblin-result'', ''/artifacts''] @ paths))"
    using paths(2) by (subst distinct_map) (auto simp: inj_on_def)
  with m w paths(1) show ?thesis by metis
qed

end
