(* ===== verification/Kubernetes_Runtime.thy ===== *)
theory Kubernetes_Runtime
  imports Kubernetes_Manifest Scheduler
begin

text \<open>
  Running one attempt as a Job of a cluster: \<^verbatim>\<open>src/src/goblin_king/kubernetes_runtime.py\<close> with
  \<^verbatim>\<open>kubernetes_pod_diagnostics.py\<close> and \<^verbatim>\<open>kubernetes_result_keys.py\<close>. The API of the cluster, the clock
  and the keys of Redis are the parameter \<open>kubernetes_host\<close>. The waiting loop has fuel, \<open>wait_turns\<close>; theorem
  \<open>waiting_ends\<close> shows that it is enough. Every run, failed or raised, leaves neither its Job nor its
  ConfigMap; a success is a result that the worker published.
\<close>

section \<open>Bounded text\<close>

text \<open>\<^verbatim>\<open>len\<close> and a slice count characters: the bytes that do not continue one.\<close>

definition text_length :: "string \<Rightarrow> int" where
  "text_length s = int (length (filter (\<lambda>c. \<not> is_cont c) s))"

fun text_take :: "nat \<Rightarrow> string \<Rightarrow> string" where
  "text_take n [] = []"
| "text_take n (c # s) = (if is_cont c then c # text_take n s else case n of 0 \<Rightarrow> [] | Suc k \<Rightarrow> c # text_take k s)"

definition bounded_text :: "string \<Rightarrow> nat \<Rightarrow> string" where
  "bounded_text v limit = (if text_length v \<le> int limit then v else text_take (limit - 3) v @ ''...'')"

fun split_space :: "string \<Rightarrow> string list" where
  "split_space [] = [[]]"
| "split_space (c # s) =
     (if py_space c then [] # split_space s else (case split_space s of [] \<Rightarrow> [[c]] | p # ps \<Rightarrow> (c # p) # ps))"

fun join_space :: "string list \<Rightarrow> string" where
  "join_space [] = ''''"
| "join_space [p] = p"
| "join_space (p # ps) = p @ '' '' @ join_space ps"

definition bounded_message :: "string \<Rightarrow> string" where
  "bounded_message v = bounded_text (join_space (filter (\<lambda>p. p \<noteq> '''') (split_space v))) 400"

section \<open>Observations\<close>

record run_observation =
  ob_result :: goblin_result
  ob_job_created :: bool
  ob_result_received :: bool
  ob_envelope_valid :: bool
  ob_exit_code :: "int option"
  ob_logs :: "(string \<times> string) list"
  ob_log_truncated :: "(string \<times> bool) list"
  ob_log_observed_bytes :: "(string \<times> int) list"
  ob_log_read_failed :: "(string \<times> bool) list"

definition observed :: "goblin_result \<Rightarrow> run_observation" where
  "observed r = \<lparr>ob_result = r, ob_job_created = False, ob_result_received = False, ob_envelope_valid = False, ob_exit_code = None,
     ob_logs = [], ob_log_truncated = [], ob_log_observed_bytes = [], ob_log_read_failed = []\<rparr>"

section \<open>The cluster\<close>

record container_status =
  ct_name :: string
  ct_waiting :: "(string \<times> string) option"
  ct_exit_code :: "int option"

record pod_status =
  po_name :: string
  po_init_statuses :: "container_status list"
  po_statuses :: "container_status list"

text \<open>What a read of a log returns: bytes, which are decoded with replacement, or text.\<close>

datatype log_value = LogBytes string | LogText string

record 'r kubernetes_host =
  kh_clients :: "('r world, unit) op"
  kh_create_config_map :: "string \<Rightarrow> json \<Rightarrow> ('r world, unit) op"
  kh_create_job :: "string \<Rightarrow> json \<Rightarrow> ('r world, unit) op"
  kh_read_job :: "string \<Rightarrow> string \<Rightarrow> ('r world, int \<times> int) op"
  kh_list_pods :: "bool \<Rightarrow> string \<Rightarrow> string \<Rightarrow> ('r world, pod_status list) op"
  kh_read_log :: "nat \<Rightarrow> string \<Rightarrow> string \<Rightarrow> string \<Rightarrow> int \<Rightarrow> ('r world, log_value) op"
  kh_delete_job :: "string \<Rightarrow> string \<Rightarrow> ('r world, unit) op"
  kh_delete_config_map :: "string \<Rightarrow> string \<Rightarrow> ('r world, unit) op"
  kh_clock :: "('r world, rat) op"
  kh_sleep :: "rat \<Rightarrow> ('r world, unit) op"
  kh_get :: "string \<Rightarrow> ('r world, string option) op"
  kh_lrange :: "string \<Rightarrow> ('r world, string list) op"
  kh_expire :: "string \<Rightarrow> int \<Rightarrow> ('r world, unit) op"
  kh_decode_heartbeat :: "string \<Rightarrow> heartbeat_record result"
  kh_parse_result :: "string \<Rightarrow> goblin_result result"
  kh_context_json :: "goblin_context \<Rightarrow> string"
  kh_input_json :: "json \<Rightarrow> string"
  kh_sha256 :: "string \<Rightarrow> string"
  kh_manifest :: manifest_host

record 'r job_runtime =
  jr_workers :: worker_image_map
  jr_redis_url :: string
  jr_namespace :: string
  jr_settings :: kubernetes_settings
  jr_event_bus :: "'r event_bus option"
  jr_heartbeat_interval_seconds :: int
  jr_poll_interval_seconds :: rat

section \<open>Diagnostics of a Pod\<close>

definition list_job_pods :: "'r kubernetes_host \<Rightarrow> string \<Rightarrow> string \<Rightarrow> ('r world, pod_status list option) op" where
  "list_job_pods h namespace job_name =
     bind (catching (\<lambda>_. True) (kh_list_pods h True namespace job_name)) (\<lambda>r.
     case r of
       Inr pods \<Rightarrow> return (Some pods)
     | Inl e \<Rightarrow>
         if error_class e = TypeError
         then bind (catching (\<lambda>_. True) (kh_list_pods h False namespace job_name)) (\<lambda>r.
              return (case r of Inr pods \<Rightarrow> Some pods | Inl _ \<Rightarrow> None))
         else return None)"

definition IMAGE_PULL_FAILURE_REASONS :: "string list" where
  "IMAGE_PULL_FAILURE_REASONS = [''ErrImageNeverPull'', ''ErrImagePull'', ''ImagePullBackOff'', ''InvalidImageName'', ''RegistryUnavailable'']"

record start_failure =
  sf_pod_name :: string
  sf_container_name :: string
  sf_reason :: string
  sf_message :: string

definition describe_failure :: "string \<Rightarrow> start_failure \<Rightarrow> string" where
  "describe_failure job_name f = bounded_text (''Kubernetes Job '' @ job_name @ '' Pod '' @ sf_pod_name f @ '' container '' @
     sf_container_name f @ '' could not pull its image: '' @ sf_reason f @
     (if sf_message f = '''' then '''' else '': '' @ sf_message f)) 500"

definition status_failure :: "pod_status \<Rightarrow> container_status \<Rightarrow> start_failure option" where
  "status_failure pod status =
     (case ct_waiting status of
        None \<Rightarrow> None
      | Some (reason, message) \<Rightarrow>
          if reason \<notin> set IMAGE_PULL_FAILURE_REASONS then None
          else Some \<lparr>sf_pod_name = po_name pod, sf_container_name = ct_name status, sf_reason = reason, sf_message = bounded_message message\<rparr>)"

definition find_image_pull_failure :: "'r kubernetes_host \<Rightarrow> string \<Rightarrow> string \<Rightarrow> ('r world, start_failure option) op" where
  "find_image_pull_failure h namespace job_name =
     bind (list_job_pods h namespace job_name) (\<lambda>pods.
     return (case pods of None \<Rightarrow> None
       | Some ps \<Rightarrow> first_row (concat (map (\<lambda>p. List.map_filter (status_failure p) (po_init_statuses p @ po_statuses p)) ps))))"

fun log_text :: "log_value \<Rightarrow> string" where
  "log_text (LogBytes s) = utf8_replace s"
| "log_text (LogText s) = s"

text \<open>The three forms of the call, the next one when a client does not know an argument.\<close>

definition read_log_value :: "'r kubernetes_host \<Rightarrow> string \<Rightarrow> string \<Rightarrow> string \<Rightarrow> int \<Rightarrow> ('r world, string) op" where
  "read_log_value h namespace pod_name container limit_bytes =
     (let or_next = (\<lambda>m next. handle m (\<lambda>e. if error_class e = TypeError then next else throw e)) in
      bind (or_next (kh_read_log h 0 namespace pod_name container limit_bytes)
             (or_next (kh_read_log h 1 namespace pod_name container limit_bytes)
               (kh_read_log h 2 namespace pod_name container limit_bytes))) (\<lambda>v. return (log_text v)))"

definition unreadable_log :: "string \<Rightarrow> error \<Rightarrow> string" where
  "unreadable_log container e = bounded_text (''unable to read '' @ container @ '' logs: '' @ error_message e) 500"

definition DEFAULT_KUBERNETES_LOG_CAPTURE_BYTES :: int where
  "DEFAULT_KUBERNETES_LOG_CAPTURE_BYTES = 65536"

definition read_bounded_pod_log :: "'r kubernetes_host \<Rightarrow> string \<Rightarrow> string \<Rightarrow> string \<Rightarrow> ('r world, string) op" where
  "read_bounded_pod_log h namespace pod_name container =
     handle (read_log_value h namespace pod_name container DEFAULT_KUBERNETES_LOG_CAPTURE_BYTES) (\<lambda>e. return (unreadable_log container e))"

definition read_log_capture ::
  "'r kubernetes_host \<Rightarrow> string \<Rightarrow> string \<Rightarrow> string \<Rightarrow> int \<Rightarrow> ('r world, string \<times> bool \<times> int \<times> bool) op" where
  "read_log_capture h namespace pod_name container max_bytes =
     bind (catching (\<lambda>_. True) (read_log_value h namespace pod_name container (max_bytes + 1))) (\<lambda>r.
     return (case r of
       Inl e \<Rightarrow> (let m = unreadable_log container e in (m, False, int (length m), True))
     | Inr v \<Rightarrow> (let (text, truncated, bytes) = tail_text (OutputText v) max_bytes in (text, truncated, bytes, False))))"

definition container_exit_code :: "pod_status \<Rightarrow> string \<Rightarrow> int option" where
  "container_exit_code pod name = (case find (\<lambda>s. ct_name s = name) (po_statuses pod) of None \<Rightarrow> None | Some s \<Rightarrow> ct_exit_code s)"

definition capture_pod_diagnostics ::
  "'r kubernetes_host \<Rightarrow> string \<Rightarrow> string \<Rightarrow> run_observation \<Rightarrow> int option \<Rightarrow> ('r world, run_observation) op" where
  "capture_pod_diagnostics h namespace job_name ob max_bytes =
     bind (list_job_pods h namespace job_name) (\<lambda>pods.
     case pods of
       None \<Rightarrow> return ob
     | Some [] \<Rightarrow> return ob
     | Some (pod # _) \<Rightarrow>
         (let limit = min DEFAULT_KUBERNETES_LOG_CAPTURE_BYTES
                (case max_bytes of None \<Rightarrow> DEFAULT_KUBERNETES_LOG_CAPTURE_BYTES | Some n \<Rightarrow> max n 0) in
          bind (read_log_capture h namespace (po_name pod) ''worker'' limit) (\<lambda>(text, truncated, bytes, failed).
          bind (read_bounded_pod_log h namespace (po_name pod) ''result-forwarder'') (\<lambda>forwarder.
          return (ob\<lparr>ob_exit_code := container_exit_code pod ''worker'',
            ob_logs := [(''worker'', text), (''result-forwarder'', forwarder)],
            ob_log_truncated := [(''worker'', truncated), (''result-forwarder'', False)],
            ob_log_observed_bytes := [(''worker'', bytes), (''result-forwarder'', int (length forwarder))],
            ob_log_read_failed := [(''worker'', failed), (''result-forwarder'', False)]\<rparr>)))))"

definition worker_log_excerpt :: "'r kubernetes_host \<Rightarrow> string \<Rightarrow> string \<Rightarrow> ('r world, string) op" where
  "worker_log_excerpt h namespace job_name =
     bind (list_job_pods h namespace job_name) (\<lambda>pods.
     case pods of
       Some (pod # _) \<Rightarrow> bind (read_bounded_pod_log h namespace (po_name pod) ''worker'') (\<lambda>logs. return (bounded_text logs 500))
     | _ \<Rightarrow> return ''no worker pod found'')"

section \<open>Results\<close>

definition worker_result_key :: "string \<Rightarrow> string" where
  "worker_result_key run_id = ''goblin-king:results:'' @ run_id"

definition forwarded_result_key :: "string \<Rightarrow> string" where
  "forwarded_result_key run_id = ''goblin-king:forwarded-results:'' @ run_id"

definition result_key :: "'r job_runtime \<Rightarrow> string \<Rightarrow> string" where
  "result_key rt run_id = (if ks_artifact_retention (jr_settings rt) \<noteq> None then forwarded_result_key run_id else worker_result_key run_id)"

definition load_job_result :: "'r kubernetes_host \<Rightarrow> 'r job_runtime \<Rightarrow> string \<Rightarrow> ('r world, goblin_result option) op" where
  "load_job_result h rt run_id =
     bind (catching is_redis_error (kh_get h (result_key rt run_id))) (\<lambda>raw.
     case raw of
       Inr (Some text) \<Rightarrow>
         (case kh_parse_result h text of
            Inr r \<Rightarrow> return (Some r)
          | Inl e \<Rightarrow> if is_value_error e
              then return (Some (failed_result (''worker produced invalid result JSON: '' @ error_message e))) else throw e)
     | _ \<Rightarrow> return None)"

definition load_result_observed :: "'r kubernetes_host \<Rightarrow> 'r job_runtime \<Rightarrow> string \<Rightarrow> ('r world, run_observation) op" where
  "load_result_observed h rt run_id =
     bind (load_job_result h rt run_id) (\<lambda>r.
     return (case r of
       None \<Rightarrow> observed (failed_result ''worker result was not received'')
     | Some result \<Rightarrow> (observed result)\<lparr>ob_result_received := True,
         ob_envelope_valid := \<not> (res_status result = ResFailed \<and>
           (let prefix = ''worker produced invalid result JSON:'' in
            take (length prefix) (case res_error result of None \<Rightarrow> '''' | Some e \<Rightarrow> e) = prefix))\<rparr>))"

section \<open>Waiting\<close>

text \<open>One look at the Job: what the loop returns, or nothing when it sleeps and goes on.\<close>

definition look_at_job :: "'r kubernetes_host \<Rightarrow> 'r job_runtime \<Rightarrow> string \<Rightarrow> string \<Rightarrow> ('r world, run_observation option) op" where
  "look_at_job h rt name run_id =
     (let failed = (\<lambda>m. observed (failed_result m)) in
      bind (kh_read_job h name (jr_namespace rt)) (\<lambda>(succeeded, failures).
      if succeeded \<noteq> 0
      then bind (load_result_observed h rt run_id) (\<lambda>ob.
           return (Some (if ob_result_received ob then ob else failed (name @ '' completed without a Redis result''))))
      else if failures \<noteq> 0
      then bind (worker_log_excerpt h (jr_namespace rt) name) (\<lambda>logs.
           bind (load_result_observed h rt run_id) (\<lambda>forwarded.
           return (Some
             (if \<not> ob_result_received forwarded then failed (name @ '' failed: '' @ logs)
              else if res_status (ob_result forwarded) = ResFailed then forwarded
              else let r = ob_result forwarded in
                (observed (goblin_result_failed (name @ '' failed after publishing a result: '' @ logs)
                   (Some (res_data r)) (res_artifacts r) (Some (res_metrics r)) (res_handoff r)))
                   \<lparr>ob_result_received := True, ob_envelope_valid := ob_envelope_valid forwarded\<rparr>))))
      else bind (find_image_pull_failure h (jr_namespace rt) name) (\<lambda>f.
           return (map_option (\<lambda>x. failed (describe_failure name x)) f))))"

fun wait_loop ::
  "nat \<Rightarrow> 'r kubernetes_host \<Rightarrow> 'r job_runtime \<Rightarrow> string \<Rightarrow> string \<Rightarrow> rat \<Rightarrow> rat \<Rightarrow> ('r world, run_observation) op" where
  "wait_loop 0 h rt name run_id started limit = return (observed (failed_result (name @ '' exceeded wait timeout'')))"
| "wait_loop (Suc n) h rt name run_id started limit =
     bind (kh_clock h) (\<lambda>now.
     if \<not> now - started < limit then return (observed (failed_result (name @ '' exceeded wait timeout'')))
     else bind (look_at_job h rt name run_id) (\<lambda>seen.
       case seen of
         Some ob \<Rightarrow> return ob
       | None \<Rightarrow> bind (kh_sleep h (jr_poll_interval_seconds rt)) (\<lambda>_. wait_loop n h rt name run_id started limit)))"

definition wait_turns :: "rat \<Rightarrow> rat \<Rightarrow> nat" where
  "wait_turns poll limit = nat \<lceil>limit / poll\<rceil> + 1"

definition wait_limit :: "int option \<Rightarrow> rat" where
  "wait_limit timeout = of_int (wait_seconds timeout + 30)"

definition wait_for_result_observed ::
  "'r kubernetes_host \<Rightarrow> 'r job_runtime \<Rightarrow> string \<Rightarrow> string \<Rightarrow> int option \<Rightarrow> ('r world, run_observation) op" where
  "wait_for_result_observed h rt name run_id timeout =
     bind (kh_clock h) (\<lambda>started.
     wait_loop (wait_turns (jr_poll_interval_seconds rt) (wait_limit timeout)) h rt name run_id started (wait_limit timeout))"

section \<open>One run\<close>

definition emit_job_event ::
  "'r job_runtime \<Rightarrow> string \<Rightarrow> goblin_context \<Rightarrow> string \<Rightarrow> json \<Rightarrow> ('r world, unit) op" where
  "emit_job_event rt event_type context worker_id payload =
     (case jr_event_bus rt of None \<Rightarrow> return ()
      | Some bus \<Rightarrow> bind (emit bus event_type SrcRuntime
            (no_args\<lparr>a_project_id := ctx_text context ''project_id'', a_job_id := ctx_text context ''job_id'',
               a_run_id := Some (ctx_run_id context), a_worker_id := Some worker_id, a_payload := Some payload\<rparr>))
          (\<lambda>_. return ()))"

definition record_job_heartbeats :: "'r kubernetes_host \<Rightarrow> 'r job_runtime \<Rightarrow> goblin_context \<Rightarrow> ('r world, unit) op" where
  "record_job_heartbeats h rt context =
     (case jr_event_bus rt of None \<Rightarrow> return ()
      | Some bus \<Rightarrow>
          let key = worker_heartbeat_key (ctx_run_id context) in
          bind (catching is_redis_error
                 (bind (kh_lrange h key) (\<lambda>payloads.
                  bind (for_each (record_worker_heartbeat_payload bus (kh_decode_heartbeat h)) payloads) (\<lambda>_.
                  kh_expire h key 3600)))) (\<lambda>r.
          case r of
            Inr () \<Rightarrow> return ()
          | Inl e \<Rightarrow> bind (emit bus ''worker.heartbeat_read_failed'' SrcRuntime
                (no_args\<lparr>a_run_id := Some (ctx_run_id context), a_job_id := ctx_text context ''job_id'',
                   a_payload := Some (JObj [(''error'', JStr (error_message e))])\<rparr>)) (\<lambda>_. return ())))"

fun contains :: "string \<Rightarrow> string \<Rightarrow> bool" where
  "contains needle [] = (needle = [])"
| "contains needle (c # s) = (take (length needle) (c # s) = needle \<or> contains needle s)"

definition worker_entry :: "'a \<Rightarrow> (string \<times> 'a) list \<Rightarrow> 'a" where
  "worker_entry absent ms = (case map_of ms ''worker'' of None \<Rightarrow> absent | Some v \<Rightarrow> v)"

definition emit_job_log_event ::
  "'r job_runtime \<Rightarrow> goblin_definition \<Rightarrow> string \<Rightarrow> goblin_context \<Rightarrow> string \<Rightarrow> run_observation \<Rightarrow> int \<Rightarrow> ('r world, unit) op" where
  "emit_job_log_event rt definition worker_image context worker_id ob max_bytes =
     (let unread = worker_entry False (ob_log_read_failed ob);
          log = (if unread then '''' else worker_entry '''' (ob_logs ob));
          payload = container_log_payload
            \<lparr>lg_kind = gd_kind definition, lg_image = worker_image, lg_container_name = ''worker'', lg_stdout = OutputText log,
             lg_stderr = OutputText '''', lg_exit_code = ob_exit_code ob,
             lg_timed_out = contains ''exceeded wait timeout'' (case res_error (ob_result ob) of None \<Rightarrow> '''' | Some e \<Rightarrow> e),
             lg_max_bytes = max_bytes, lg_combined = True,
             lg_stdout_was_truncated = (if unread then False else worker_entry False (ob_log_truncated ob)),
             lg_stderr_was_truncated = False,
             lg_stdout_observed_bytes = (if unread then Some 0 else map_of (ob_log_observed_bytes ob) ''worker''),
             lg_stderr_observed_bytes = None\<rparr>;
          exact = (\<not> (unread \<or> obj_get payload ''stdout_truncated'' = Some (JBool True))) in
      emit_job_event rt ''worker.container_logs'' context worker_id
        (JObj (assoc_set ''byte_count_exact'' (JBool exact) (obj_members payload))))"

definition cleanup_job :: "'r kubernetes_host \<Rightarrow> string \<Rightarrow> string \<Rightarrow> string \<Rightarrow> ('r world, unit) op" where
  "cleanup_job h namespace job_name config_name =
     bind (catching (\<lambda>_. True) (kh_delete_job h job_name namespace)) (\<lambda>_.
     bind (catching (\<lambda>_. True) (kh_delete_config_map h config_name namespace)) (\<lambda>_. return ()))"

text \<open>\<^verbatim>\<open>try: m finally: f\<close> where \<open>f\<close> may raise.\<close>

definition ensuring :: "('s, 'a) op \<Rightarrow> ('s, unit) op \<Rightarrow> ('s, 'a) op" where
  "ensuring m f = (\<lambda>s. case m s of (r, s1) \<Rightarrow> (case f s1 of (Inl e, s2) \<Rightarrow> (Inl e, s2) | (Inr _, s2) \<Rightarrow> (r, s2)))"

definition job_manifest ::
  "'r kubernetes_host \<Rightarrow> 'r job_runtime \<Rightarrow> goblin_definition \<Rightarrow> string \<Rightarrow> string \<Rightarrow> goblin_context \<Rightarrow> string \<Rightarrow> int option \<Rightarrow>
   resource_policy option \<Rightarrow> json result" where
  "job_manifest h rt definition worker_image name context worker_id timeout policy =
     build_kubernetes_job_manifest (kh_manifest h) (jr_settings rt)
       \<lparr>ja_name = name, ja_config_name = name @ ''-input'', ja_image = worker_image, ja_context = context, ja_worker_id = worker_id,
        ja_timeout_seconds = timeout, ja_redis_url = jr_redis_url rt, ja_heartbeat_interval_seconds = jr_heartbeat_interval_seconds rt,
        ja_policy = policy, ja_placement = placement_metadata (Some definition) context, ja_kind = Some (gd_kind definition),
        ja_worker_env = literal_worker_environment (mh_repr (kh_manifest h)) definition\<rparr>"

text \<open>The block under \<^verbatim>\<open>try\<close>: creation, then the wait; any exception becomes a failed observation.\<close>

definition created_job ::
  "'r kubernetes_host \<Rightarrow> 'r job_runtime \<Rightarrow> goblin_definition \<Rightarrow> string \<Rightarrow> json \<Rightarrow> string \<Rightarrow> goblin_context \<Rightarrow> string \<Rightarrow> int option \<Rightarrow>
   resource_policy option \<Rightarrow> ('r world, unit) op" where
  "created_job h rt definition worker_image input_payload name context worker_id timeout policy =
     bind (kh_create_config_map h (jr_namespace rt) (JObj [(''apiVersion'', JStr ''v1''), (''kind'', JStr ''ConfigMap''),
             (''metadata'', JObj [(''name'', JStr (name @ ''-input''))]),
             (''data'', JObj [(''input.json'', JStr (kh_input_json h input_payload)), (''context.json'', JStr (kh_context_json h context))])])) (\<lambda>_.
     bind (lift_result (job_manifest h rt definition worker_image name context worker_id timeout policy)) (\<lambda>body.
     kh_create_job h (jr_namespace rt) body))"

definition attempted_job ::
  "'r kubernetes_host \<Rightarrow> 'r job_runtime \<Rightarrow> goblin_definition \<Rightarrow> string \<Rightarrow> json \<Rightarrow> string \<Rightarrow> goblin_context \<Rightarrow> string \<Rightarrow> int option \<Rightarrow>
   resource_policy option \<Rightarrow> ('r world, run_observation) op" where
  "attempted_job h rt definition worker_image input_payload name context worker_id timeout policy =
     (let failed = (\<lambda>e. observed (failed_result (gd_kind definition @ '' Kubernetes worker failed: '' @ error_message e))) in
      bind (catching (\<lambda>_. True) (created_job h rt definition worker_image input_payload name context worker_id timeout policy)) (\<lambda>created.
      case created of
        Inl e \<Rightarrow> return (failed e)
      | Inr _ \<Rightarrow>
          bind (catching (\<lambda>_. True) (wait_for_result_observed h rt name (ctx_run_id context) timeout)) (\<lambda>waited.
          return ((case waited of Inl e \<Rightarrow> failed e | Inr ob \<Rightarrow> ob)\<lparr>ob_job_created := True\<rparr>))))"

definition diagnosed_job ::
  "'r kubernetes_host \<Rightarrow> 'r job_runtime \<Rightarrow> goblin_definition \<Rightarrow> string \<Rightarrow> string \<Rightarrow> goblin_context \<Rightarrow> string \<Rightarrow> resource_policy option \<Rightarrow>
   bool \<Rightarrow> run_observation \<Rightarrow> ('r world, run_observation) op" where
  "diagnosed_job h rt definition worker_image name context worker_id policy capture ob =
     bind (record_job_heartbeats h rt context) (\<lambda>_.
     if capture \<and> ob_job_created ob
     then let max_bytes = min (log_capture_limit policy) DEFAULT_KUBERNETES_LOG_CAPTURE_BYTES in
          bind (capture_pod_diagnostics h (jr_namespace rt) name ob (Some max_bytes)) (\<lambda>ob1.
          bind (emit_job_log_event rt definition worker_image context worker_id ob1 max_bytes) (\<lambda>_. return ob1))
     else return ob)"

definition job_name :: "goblin_definition \<Rightarrow> goblin_context \<Rightarrow> string" where
  "job_name definition context = kubernetes_name (''gk-'' @ gd_kind definition @ ''-'' @ ctx_run_id context)"

definition run_observed ::
  "'r kubernetes_host \<Rightarrow> 'r job_runtime \<Rightarrow> goblin_definition \<Rightarrow> json \<Rightarrow> goblin_context \<Rightarrow> int option \<Rightarrow> resource_policy option \<Rightarrow> bool \<Rightarrow>
   ('r world, run_observation) op" where
  "run_observed h rt definition input_payload context timeout policy capture =
     (case workers_get (jr_workers rt) (gd_kind definition) of
        Inl e \<Rightarrow> if is_worker_config_error e then return (observed (failed_result (error_message e))) else throw e
      | Inr worker \<Rightarrow>
          bind (catching (\<lambda>_. True) (kh_clients h)) (\<lambda>clients.
          case clients of
            Inl e \<Rightarrow> return (observed (failed_result (''kubernetes runtime unavailable: '' @ error_message e)))
          | Inr _ \<Rightarrow>
              (let name = job_name definition context; worker_id = ''k8s-worker-'' @ ctx_run_id context in
               bind (emit_job_event rt ''worker.started'' context worker_id (JObj [(''kind'', JStr (gd_kind definition))])) (\<lambda>_.
               bind (attempted_job h rt definition (wi_image worker) input_payload name context worker_id timeout policy) (\<lambda>ob.
               bind (ensuring (diagnosed_job h rt definition (wi_image worker) name context worker_id policy capture ob)
                      (cleanup_job h (jr_namespace rt) name (name @ ''-input''))) (\<lambda>ob1.
               let result = ob_result ob1 in
               bind (emit_job_event rt (if res_status result = ResSuccess then ''worker.completed'' else ''worker.failed'') context worker_id
                      (JObj [(''kind'', JStr (gd_kind definition)),
                        (''status'', JStr (if res_status result = ResSuccess then ''success'' else ''failed'')),
                        (''error'', json_opt JStr (res_error result))])) (\<lambda>_.
               return ob1)))))))"

text \<open>The runtime as the scheduler calls it.\<close>

definition kubernetes_run ::
  "'r kubernetes_host \<Rightarrow> 'r job_runtime \<Rightarrow> goblin_definition \<Rightarrow> json \<Rightarrow> goblin_context \<Rightarrow> int option \<Rightarrow> resource_policy option \<Rightarrow>
   ('r world, goblin_result) op" where
  "kubernetes_run h rt definition input_payload context timeout policy =
     bind (run_observed h rt definition input_payload context timeout policy True) (\<lambda>ob. return (ob_result ob))"

definition scheduled_kubernetes_runtime :: "'r kubernetes_host \<Rightarrow> 'r job_runtime \<Rightarrow> 'r kubernetes_runtime" where
  "scheduled_kubernetes_runtime h rt =
     \<lparr>kr_run = kubernetes_run h rt,
      kr_validation_image_identity = (\<lambda>img kind. validation_image_identity (mh_dumps (kh_manifest h)) (kh_sha256 h) (jr_settings rt) img (Some kind)),
      kr_effective_workload_security = (\<lambda>kind. effective_workload_security (jr_settings rt) (Some kind))\<rparr>"

section \<open>Waiting ends\<close>

text \<open>A monotonic clock read off the world, that a sleep advances by what it sleeps and nothing sets back.\<close>

definition job_clock :: "('r world \<Rightarrow> rat) \<Rightarrow> 'r kubernetes_host \<Rightarrow> bool" where
  "job_clock now h \<longleftrightarrow> (\<forall>w. kh_clock h w = (Inr (now w), w)) \<and>
     (\<forall>d w. fst (kh_sleep h d w) = Inr () \<and> now w + d \<le> now (snd (kh_sleep h d w))) \<and>
     (\<forall>n ns w. now w \<le> now (snd (kh_read_job h n ns w))) \<and> (\<forall>b ns n w. now w \<le> now (snd (kh_list_pods h b ns n w)))"

lemma snd_catching: "snd (catching P m w) = snd (m w)"
  by (auto simp: catching_def split: prod.split sum.split)

lemma snd_bind_return: "snd (bind m (\<lambda>a. return (f a)) w) = snd (m w)"
  by (auto simp: bind_def return_eq split: prod.split sum.split)

lemma list_job_pods_later: "job_clock now h \<Longrightarrow> now w \<le> now (snd (list_job_pods h ns n w))"
proof -
  assume clock: "job_clock now h"
  obtain r t where pods: "catching (\<lambda>_. True) (kh_list_pods h True ns n) w = (Inr r, t)"
    by (cases "kh_list_pods h True ns n w"; cases "fst (kh_list_pods h True ns n w)") (auto simp: catching_def)
  then have later: "now w \<le> now t" using clock snd_catching [of "\<lambda>_. True" "kh_list_pods h True ns n" w] by (simp add: job_clock_def)
  have "now t \<le> now (snd (kh_list_pods h False ns n t))" using clock by (simp add: job_clock_def)
  with later pods show ?thesis
    by (cases r) (auto simp: list_job_pods_def bind_def [of "catching _ (kh_list_pods h True _ _)"] return_eq snd_bind_return snd_catching)
qed

lemma look_later:
  assumes "job_clock now h" and "look_at_job h rt name run_id w = (Inr None, w')"
  shows "now w \<le> now w'"
proof -
  obtain s f w1 where read: "kh_read_job h name (jr_namespace rt) w = (Inr (s, f), w1)"
    and pods: "find_image_pull_failure h (jr_namespace rt) name w1 = (Inr None, w')"
    using assms(2) unfolding look_at_job_def Let_def
    by (auto simp: bind_Inr_iff [of "kh_read_job _ _ _"] split: if_splits) (auto simp: bind_Inr_iff return_eq)
  have "now w \<le> now w1" using assms(1) read unfolding job_clock_def by (metis snd_conv)
  moreover have "snd (find_image_pull_failure h (jr_namespace rt) name w1) = snd (list_job_pods h (jr_namespace rt) name w1)"
    unfolding find_image_pull_failure_def by (rule snd_bind_return)
  ultimately show ?thesis using list_job_pods_later [OF assms(1), of w1 "jr_namespace rt" name] pods by simp
qed

lemma wait_loop_fuel:
  assumes "job_clock now h" and "0 < jr_poll_interval_seconds rt"
    and "limit - (now w - started) \<le> of_nat k * jr_poll_interval_seconds rt" and "k < n"
  shows "wait_loop n h rt name run_id started limit w = wait_loop (Suc k) h rt name run_id started limit w"
  using assms(3,4)
proof (induction k arbitrary: n w)
  case 0
  then obtain n' where n: "n = Suc n'" by (cases n) auto
  show ?case using 0 assms(1) by (simp add: n job_clock_def bind_def)
next
  case (Suc k)
  then obtain n' where n: "n = Suc n'" "k < n'" by (cases n) auto
  have "wait_loop n' h rt name run_id started limit w2 = wait_loop (Suc k) h rt name run_id started limit w2"
    if "look_at_job h rt name run_id w = (Inr None, w1)" "kh_sleep h (jr_poll_interval_seconds rt) w1 = (r, w2)" for w1 r w2
  proof (rule Suc.IH)
    have "now w1 + jr_poll_interval_seconds rt \<le> now w2" using assms(1) that(2) unfolding job_clock_def by (metis snd_conv)
    then show "limit - (now w2 - started) \<le> of_nat k * jr_poll_interval_seconds rt"
      using look_later [OF assms(1) that(1)] Suc.prems(1) by (simp add: algebra_simps)
  qed (use n in simp)
  then show ?case using assms(1) unfolding n(1) wait_loop.simps(2)
    by (auto simp: job_clock_def bind_def simp del: wait_loop.simps split: prod.split sum.split option.split)
qed

text \<open>
  C38. Waiting for a Job ends: when the clock ticks and the polling interval is positive, a loop with no bound
  on its turns returns what the bounded one returns.
\<close>

theorem waiting_ends:
  assumes "job_clock now h" and "0 < jr_poll_interval_seconds rt"
    and "wait_turns (jr_poll_interval_seconds rt) (wait_limit timeout) \<le> n"
  shows "wait_loop n h rt name run_id (now w) (wait_limit timeout) w = wait_for_result_observed h rt name run_id timeout w"
proof -
  let ?poll = "jr_poll_interval_seconds rt" and ?limit = "wait_limit timeout"
  have "?limit / ?poll \<le> of_nat (nat \<lceil>?limit / ?poll\<rceil>)" by (simp add: of_nat_ceiling)
  then have "?limit \<le> of_nat (nat \<lceil>?limit / ?poll\<rceil>) * ?poll" using assms(2) by (simp add: divide_le_eq)
  then have "?limit - (now w - now w) \<le> of_nat (nat \<lceil>?limit / ?poll\<rceil>) * ?poll" by simp
  from wait_loop_fuel [OF assms(1,2) this, of n] show ?thesis
    using assms by (simp add: wait_for_result_observed_def job_clock_def bind_def wait_turns_def del: wait_loop.simps)
qed

section \<open>A success was published\<close>

definition published_success :: "'r kubernetes_host \<Rightarrow> 'r job_runtime \<Rightarrow> string \<Rightarrow> string \<Rightarrow> run_observation \<Rightarrow> bool" where
  "published_success h rt name run_id ob \<longleftrightarrow> ob_result_received ob \<and> ob_envelope_valid ob \<and>
     (\<exists>raw. seen (kh_get h (result_key rt run_id)) (Some raw) \<and> kh_parse_result h raw = Inr (ob_result ob)) \<and>
     (\<exists>s f. seen (kh_read_job h name (jr_namespace rt)) (s, f) \<and> s \<noteq> 0)"

lemma failed_result_status [simp]: "res_status (failed_result m) = ResFailed" "res_status (goblin_result_failed m d a x g) = ResFailed"
  by (simp_all add: failed_result_def goblin_result_failed_def)

lemma observed_simps [simp]: "ob_result (observed r) = r" "ob_result_received (observed r) = False"
  by (simp_all add: observed_def)

lemma yields_load_job_result:
  "yields (\<lambda>l. \<forall>r. l = Some r \<and> res_status r = ResSuccess \<longrightarrow>
     (\<exists>raw. seen (kh_get h (result_key rt run_id)) (Some raw) \<and> kh_parse_result h raw = Inr r)) (load_job_result h rt run_id)"
  unfolding load_job_result_def
  by (rule yields_bind [OF yields_catching]) (auto split: sum.split option.split if_splits)

lemma yields_load_observed:
  "yields (\<lambda>ob. res_status (ob_result ob) = ResSuccess \<longrightarrow> ob_result_received ob \<and> ob_envelope_valid ob \<and>
     (\<exists>raw. seen (kh_get h (result_key rt run_id)) (Some raw) \<and> kh_parse_result h raw = Inr (ob_result ob))) (load_result_observed h rt run_id)"
  unfolding load_result_observed_def
  by (rule yields_bind [OF yields_load_job_result]) (auto split: option.split)

lemma yields_look:
  "yields (\<lambda>seen. \<forall>ob. seen = Some ob \<and> res_status (ob_result ob) = ResSuccess \<longrightarrow> published_success h rt name run_id ob)
     (look_at_job h rt name run_id)"
  unfolding look_at_job_def Let_def
  apply (rule yields_bind [OF yields_seen], clarify)
  subgoal for s f
    apply (cases "s \<noteq> 0")
     apply simp
     apply (rule yields_bind [OF yields_load_observed])
     apply (auto simp: published_success_def)[1]
    apply (cases "f \<noteq> 0")
     apply simp
     apply (intro yields_bind_any)
     apply (auto simp: Let_def)[1]
    apply simp
    apply (intro yields_bind_any)
    apply (auto split: option.splits)
    done
  done

lemma yields_wait_loop:
  "yields (\<lambda>ob. res_status (ob_result ob) = ResSuccess \<longrightarrow> published_success h rt name run_id ob) (wait_loop n h rt name run_id started limit)"
proof (induction n)
  case (Suc n)
  have "yields (\<lambda>ob. res_status (ob_result ob) = ResSuccess \<longrightarrow> published_success h rt name run_id ob)
      (bind (look_at_job h rt name run_id) (\<lambda>seen. case seen of Some ob \<Rightarrow> return ob
         | None \<Rightarrow> bind (kh_sleep h (jr_poll_interval_seconds rt)) (\<lambda>_. wait_loop n h rt name run_id started limit)))"
    by (rule yields_bind [OF yields_look]) (auto split: option.split intro: yields_bind_any Suc)
  then show ?case by (auto intro: yields_bind_any)
qed simp

lemma attempted_returns: "\<exists>ob w'. attempted_job h rt definition img inp name context worker_id timeout policy w = (Inr ob, w')"
proof -
  have caught: "\<exists>r w'. catching (\<lambda>_. True) m w = (Inr r, w')" for m :: "('r world, 'b) op" and w
    by (cases "m w"; cases "fst (m w)") (auto simp: catching_def)
  obtain r w1 where created: "catching (\<lambda>_. True) (created_job h rt definition img inp name context worker_id timeout policy) w = (Inr r, w1)"
    using caught by blast
  obtain r2 w2 where "catching (\<lambda>_. True) (wait_for_result_observed h rt name (ctx_run_id context) timeout) w1 = (Inr r2, w2)"
    using caught by blast
  with created show ?thesis
    by (cases r) (auto simp: attempted_job_def Let_def bind_def [of "catching _ _"] return_eq)
qed

lemma yields_attempted:
  "yields (\<lambda>ob. res_status (ob_result ob) = ResSuccess \<longrightarrow> ob_job_created ob \<and> published_success h rt name (ctx_run_id context) ob)
     (attempted_job h rt definition img inp name context worker_id timeout policy)"
proof -
  have wait: "yields (\<lambda>ob. res_status (ob_result ob) = ResSuccess \<longrightarrow> published_success h rt name (ctx_run_id context) ob)
      (wait_for_result_observed h rt name (ctx_run_id context) timeout)"
    unfolding wait_for_result_observed_def by (intro yields_bind_any yields_wait_loop)
  have "yields (\<lambda>r. \<forall>ob. r = Inr ob \<and> res_status (ob_result ob) = ResSuccess \<longrightarrow> published_success h rt name (ctx_run_id context) ob)
      (catching (\<lambda>_. True) (wait_for_result_observed h rt name (ctx_run_id context) timeout))"
    using wait by (auto simp: yields_def catching_def split: prod.splits sum.splits)
  then show ?thesis unfolding attempted_job_def Let_def
    by (intro yields_bind_any) (auto simp: published_success_def split: sum.splits intro!: yields_bind)
qed

lemma capture_keeps_result:
  "yields (\<lambda>ob'. ob_result ob' = ob_result ob \<and> ob_job_created ob' = ob_job_created ob \<and> ob_result_received ob' = ob_result_received ob \<and>
      ob_envelope_valid ob' = ob_envelope_valid ob) (capture_pod_diagnostics h ns name ob limit)"
  unfolding capture_pod_diagnostics_def Let_def
  by (intro yields_bind_any) (auto split: option.split list.split intro!: yields_bind_any)

lemma diagnosed_keeps_result:
  "yields (\<lambda>ob'. ob_result ob' = ob_result ob \<and> ob_job_created ob' = ob_job_created ob \<and> ob_result_received ob' = ob_result_received ob \<and>
      ob_envelope_valid ob' = ob_envelope_valid ob) (diagnosed_job h rt definition img name context worker_id policy capture ob)"
proof (cases "capture \<and> ob_job_created ob")
  case True
  then show ?thesis unfolding diagnosed_job_def Let_def
    by (simp only: if_True simp_thms, intro yields_bind_any [where m = "record_job_heartbeats h rt context"])
      (rule yields_bind [OF capture_keeps_result], rule yields_bind_any, simp)
next
  case False
  then show ?thesis unfolding diagnosed_job_def Let_def by (simp only: if_False yields_bind_any yields_return)
qed

lemma yields_ensuring: "yields Q m \<Longrightarrow> yields Q (ensuring m f)"
  by (auto simp: yields_def ensuring_def split: prod.splits sum.splits)

text \<open>
  C21. A run that succeeds had its Job reported as succeeded and its result read from Redis, under the key of
  the forwarder when artifacts are retained: the result is the one that was parsed from there.
\<close>

theorem successful_run_published:
  assumes "run_observed h rt definition input_payload context timeout policy capture w = (Inr ob, w')"
    and "res_status (ob_result ob) = ResSuccess"
  shows "ob_job_created ob \<and> published_success h rt (job_name definition context) (ctx_run_id context) ob"
proof -
  let ?Q = "\<lambda>ob. res_status (ob_result ob) = ResSuccess \<longrightarrow>
    ob_job_created ob \<and> published_success h rt (job_name definition context) (ctx_run_id context) ob"
  have finish: "yields ?Q (ensuring (diagnosed_job h rt definition img (job_name definition context) context worker_id policy capture ob0) c)"
    if "?Q ob0" for img worker_id ob0 c
  proof (rule yields_ensuring, rule yields_mono [OF diagnosed_keeps_result [of ob0]])
    show "?Q ob'" if "ob_result ob' = ob_result ob0 \<and> ob_job_created ob' = ob_job_created ob0 \<and>
        ob_result_received ob' = ob_result_received ob0 \<and> ob_envelope_valid ob' = ob_envelope_valid ob0" for ob'
      using that \<open>?Q ob0\<close> by (simp add: published_success_def)
  qed
  have body: "yields ?Q (bind (attempted_job h rt definition img input_payload (job_name definition context) context worker_id timeout policy) (\<lambda>ob0.
      bind (ensuring (diagnosed_job h rt definition img (job_name definition context) context worker_id policy capture ob0) c) (\<lambda>ob1.
      bind (e ob1) (\<lambda>_. return ob1))))" for img worker_id c e
    by (intro yields_bind [OF yields_attempted] yields_bind [OF finish] yields_bind_any) simp_all
  have "yields ?Q (run_observed h rt definition input_payload context timeout policy capture)"
    unfolding run_observed_def Let_def
    by (auto split: sum.split intro!: yields_bind_any body)
  then show ?thesis using assms by (auto dest: yieldsD)
qed

section \<open>What a run leaves in the cluster\<close>

text \<open>Which Jobs and ConfigMaps of a name exist. The cluster answers a delete, and the connection and the event bus create neither.\<close>

record 'r job_state =
  js_job :: "string \<Rightarrow> 'r world \<Rightarrow> bool"
  js_config_map :: "string \<Rightarrow> 'r world \<Rightarrow> bool"

definition nothing_of_run :: "'r job_state \<Rightarrow> string \<Rightarrow> 'r world \<Rightarrow> bool" where
  "nothing_of_run st name w \<longleftrightarrow> \<not> js_job st name w \<and> \<not> js_config_map st (name @ ''-input'') w"

definition cluster_answers :: "'r job_state \<Rightarrow> 'r kubernetes_host \<Rightarrow> 'r job_runtime \<Rightarrow> bool" where
  "cluster_answers st h rt \<longleftrightarrow>
     (\<forall>n w. \<not> js_job st n (snd (kh_delete_job h n (jr_namespace rt) w)) \<and>
        \<not> js_config_map st n (snd (kh_delete_config_map h n (jr_namespace rt) w))) \<and>
     (\<forall>n m w. \<not> js_job st n w \<longrightarrow> \<not> js_job st n (snd (kh_delete_config_map h m (jr_namespace rt) w))) \<and>
     (\<forall>n w. nothing_of_run st n w \<longrightarrow> nothing_of_run st n (snd (kh_clients h w)) \<and>
        (\<forall>e c k p. nothing_of_run st n (snd (emit_job_event rt e c k p w))))"

lemma cleanup_leaves_nothing:
  assumes "cluster_answers st h rt"
  shows "\<exists>w'. cleanup_job h (jr_namespace rt) name (name @ ''-input'') w = (Inr (), w') \<and> nothing_of_run st name w'"
proof -
  have caught: "\<exists>r. catching (\<lambda>_. True) m w = (Inr r, snd (m w))" for m :: "('r world, unit) op" and w
    by (cases "m w"; cases "fst (m w)") (auto simp: catching_def)
  show ?thesis
    using caught [of "kh_delete_job h name (jr_namespace rt)" w]
      caught [of "kh_delete_config_map h (name @ ''-input'') (jr_namespace rt)" "snd (kh_delete_job h name (jr_namespace rt) w)"] assms
    by (auto simp: cleanup_job_def bind_def return_eq nothing_of_run_def cluster_answers_def)
qed

lemma snd_bind_keeps: "I (snd (m s)) \<Longrightarrow> (\<And>a t. I t \<Longrightarrow> I (snd (f a t))) \<Longrightarrow> I (snd (bind m f s))"
  by (auto simp: bind_def split: prod.split sum.split)

lemma ensuring_cleanup:
  assumes "cluster_answers st h rt"
  shows "nothing_of_run st name (snd (ensuring m (cleanup_job h (jr_namespace rt) name (name @ ''-input'')) w))"
proof -
  obtain r w1 where "m w = (r, w1)" by fastforce
  with cleanup_leaves_nothing [OF assms, of name w1] show ?thesis by (auto simp: ensuring_def)
qed

text \<open>
  C19. However a run ends, with a result of either status or with an exception, neither its Job nor its
  ConfigMap is left in the cluster, provided the cluster answers the deletes.
\<close>

theorem finished_run_leaves_nothing:
  assumes "cluster_answers st h rt" and "nothing_of_run st (job_name definition context) w"
  shows "nothing_of_run st (job_name definition context)
    (snd (run_observed h rt definition input_payload context timeout policy capture w))"
proof (cases "workers_get (jr_workers rt) (gd_kind definition)")
  case (Inr worker)
  let ?n = "job_name definition context" and ?k = "''k8s-worker-'' @ ctx_run_id context"
  let ?after = "\<lambda>ob1. bind (emit_job_event rt (if res_status (ob_result ob1) = ResSuccess then ''worker.completed'' else ''worker.failed'') context ?k
      (JObj [(''kind'', JStr (gd_kind definition)), (''status'', JStr (if res_status (ob_result ob1) = ResSuccess then ''success'' else ''failed'')),
        (''error'', json_opt JStr (res_error (ob_result ob1)))])) (\<lambda>_. return ob1)"
  let ?ensured = "\<lambda>ob. ensuring (diagnosed_job h rt definition (wi_image worker) ?n context ?k policy capture ob)
      (cleanup_job h (jr_namespace rt) ?n (?n @ ''-input''))"
  have events: "nothing_of_run st ?n (snd (emit_job_event rt e c k p w))" if "nothing_of_run st ?n w" for e c k p w
    using assms(1) that by (simp add: cluster_answers_def)
  have after: "nothing_of_run st ?n (snd (?after ob1 w))" if "nothing_of_run st ?n w" for ob1 w
    using events [OF that] by (simp add: snd_bind_return)
  have job: "nothing_of_run st ?n (snd (bind (attempted_job h rt definition (wi_image worker) input_payload ?n context ?k timeout policy) (\<lambda>ob.
      bind (?ensured ob) ?after) w1))" for w1
  proof -
    obtain ob w2 where attempted: "attempted_job h rt definition (wi_image worker) input_payload ?n context ?k timeout policy w1 = (Inr ob, w2)"
      using attempted_returns by blast
    have "nothing_of_run st ?n (snd (bind (?ensured ob) ?after w2))"
      by (rule snd_bind_keeps [where I = "nothing_of_run st ?n"], rule ensuring_cleanup [OF assms(1)], rule after)
    then show ?thesis using attempted by (simp add: bind_Inr)
  qed
  have body: "nothing_of_run st ?n (snd (bind (emit_job_event rt ''worker.started'' context ?k (JObj [(''kind'', JStr (gd_kind definition))])) (\<lambda>_.
      bind (attempted_job h rt definition (wi_image worker) input_payload ?n context ?k timeout policy) (\<lambda>ob. bind (?ensured ob) ?after)) w1))"
    if "nothing_of_run st ?n w1" for w1
    by (rule snd_bind_keeps [where I = "nothing_of_run st ?n"], rule events [OF that], rule job)
  have clients: "nothing_of_run st ?n (snd (kh_clients h w))" using assms by (simp add: cluster_answers_def)
  obtain r where c: "catching (\<lambda>_. True) (kh_clients h) w = (Inr r, snd (kh_clients h w))"
    by (cases "kh_clients h w"; cases "fst (kh_clients h w)") (auto simp: catching_def)
  show ?thesis
  proof (cases r)
    case (Inl e)
    show ?thesis unfolding run_observed_def \<open>workers_get _ _ = Inr worker\<close> sum.case bind_Inr [where m = "catching (\<lambda>_. True) (kh_clients h)" and s = w, OF c] Inl return_eq
      using clients by simp
  next
    case r: (Inr u)
    show ?thesis unfolding run_observed_def \<open>workers_get _ _ = Inr worker\<close> sum.case bind_Inr [where m = "catching (\<lambda>_. True) (kh_clients h)" and s = w, OF c] r Let_def
      by (rule body [OF clients])
  qed
qed (use assms(2) in \<open>simp add: run_observed_def return_eq throw_eq\<close>)

section \<open>Shared names\<close>

lemma split_dash_alnum_prefix: "list_all is_alnum p \<Longrightarrow> split_dash (p @ s) = (p @ hd (split_dash s)) # tl (split_dash s)"
proof (induction p)
  case Nil
  then show ?case by (cases s) (auto split: list.split)
next
  case (Cons c p)
  then have "c \<noteq> CHR ''-''" by (auto simp: is_alnum_def)
  then show ?case using Cons by simp
qed

text \<open>
  Runs of kinds that agree on their first 60 characters have one Job name, whatever their run ids are:
  the first of two such runs to end deletes the Job of the other, and the second cannot create its own
  while the first runs.
\<close>

theorem long_kinds_share_job_name:
  assumes "gd_kind d = p @ x" and "gd_kind d' = p @ x'" and "length p = 60" and "list_all kind_alnum p"
  shows "job_name d context = job_name d' context'"
proof -
  let ?clean = "\<lambda>s. map (\<lambda>c. if is_alnum c then c else CHR ''-'') (py_lower s)"
  have kept: "is_alnum c \<and> lower_char c = c" if "kind_alnum c" for c
    using that by (auto simp: kind_alnum_def is_alnum_def lower_char_def less_eq_char_def)
  then have clean: "?clean p = p" and alnum: "list_all is_alnum p"
    using assms(4) by (auto simp: list_all_iff py_lower_def map_idI)
  have prefix: "?clean ''gk-'' = ''gk-''" by code_simp
  have "kubernetes_name (''gk-'' @ (p @ x) @ y) = strip_dash (''gk-'' @ p)" for x y
  proof -
    obtain h t where "split_dash (p @ ?clean (x @ y)) = (p @ h) # t" using split_dash_alnum_prefix [OF alnum] by blast
    moreover have "?clean (''gk-'' @ (p @ x) @ y) = ''gk-'' @ p @ ?clean (x @ y)"
      using clean prefix by (simp add: py_lower_def)
    moreover obtain z where "join_dash ((p @ h) # filter (\<lambda>q. q \<noteq> '''') t) = p @ z"
      by (cases "filter (\<lambda>q. q \<noteq> '''') t") auto
    ultimately have "join_dash (filter (\<lambda>q. q \<noteq> '''') (split_dash (?clean (''gk-'' @ (p @ x) @ y)))) = ''gk-'' @ p @ z"
      using assms(3) by auto
    then have "take 63 (join_dash (filter (\<lambda>q. q \<noteq> '''') (split_dash (?clean (''gk-'' @ (p @ x) @ y))))) = ''gk-'' @ p"
      using assms(3) by simp
    moreover have "strip_dash (''gk-'' @ p) \<noteq> ''''"
      using alnum by (simp add: strip_dash_def)
    ultimately show ?thesis unfolding kubernetes_name_def Let_def by simp
  qed
  then show ?thesis unfolding job_name_def assms(1,2) by simp
qed

theorem long_kinds_share_job_name_witness:
  "job_name (echo_definition\<lparr>gd_kind := replicate 60 (CHR ''a'') @ ''.v1''\<rparr>) (echo_context\<lparr>ctx_run_id := ''r1''\<rparr>) =
   job_name (echo_definition\<lparr>gd_kind := replicate 60 (CHR ''a'') @ ''.v1''\<rparr>) (echo_context\<lparr>ctx_run_id := ''r2''\<rparr>)"
  by (rule long_kinds_share_job_name [where p = "replicate 60 (CHR ''a'')" and x = "''.v1''" and x' = "''.v1''"])
    (simp_all add: list_all_iff kind_alnum_def)

section \<open>A cluster on which the Job succeeds\<close>

text \<open>The clock, and whether the Job and the ConfigMap exist; the Job has succeeded when it is read.\<close>

definition demo_job_host :: "(rat \<times> bool \<times> bool) kubernetes_host" where
  "demo_job_host =
     (let set = (\<lambda>f. modify (\<lambda>w. w\<lparr>w_redis := (fst (w_redis w), f (snd (w_redis w)))\<rparr>)) in
      \<lparr>kh_clients = return (), kh_create_config_map = (\<lambda>_ _. set (\<lambda>(j, c). (j, True))),
       kh_create_job = (\<lambda>_ _. set (\<lambda>(j, c). (True, c))),
       kh_read_job = (\<lambda>_ _. gets (\<lambda>w. if fst (w_redis w) < 0 then (0, 0) else (1, 0))),
       kh_list_pods = (\<lambda>_ _ _. return []), kh_read_log = (\<lambda>_ _ _ _ _. return (LogText '''')),
       kh_delete_job = (\<lambda>_ _. set (\<lambda>(j, c). (False, c))), kh_delete_config_map = (\<lambda>_ _. set (\<lambda>(j, c). (j, False))),
       kh_clock = gets (\<lambda>w. fst (w_redis w)),
       kh_sleep = (\<lambda>d. modify (\<lambda>w. w\<lparr>w_redis := (fst (w_redis w) + d, snd (w_redis w))\<rparr>)),
       kh_get = (\<lambda>_. return (Some ''ok'')), kh_lrange = (\<lambda>_. return []), kh_expire = (\<lambda>_ _. return ()),
       kh_decode_heartbeat = (\<lambda>_. Inl (Raise ValueError '''')), kh_parse_result = (\<lambda>_. Inr ok_result),
       kh_context_json = (\<lambda>_. ''{}''), kh_input_json = (\<lambda>_. ''{}''), kh_sha256 = id, kh_manifest = demo_manifest_host\<rparr>)"

definition demo_job_runtime :: "(rat \<times> bool \<times> bool) job_runtime" where
  "demo_job_runtime = \<lparr>jr_workers = \<lparr>wm_workers = [(''e'', \<lparr>wi_context = ''.'', wi_dockerfile = ''Dockerfile'', wi_image = ''e:1''\<rparr>)], wm_root = ''.''\<rparr>, jr_redis_url = ''redis://r'', jr_namespace = ''default'',
     jr_settings = demo_settings\<lparr>ks_security_profile := LegacyProfile\<rparr>, jr_event_bus = None, jr_heartbeat_interval_seconds = 5, jr_poll_interval_seconds = 1\<rparr>"

definition short_definition :: goblin_definition where
  "short_definition = echo_definition\<lparr>gd_kind := ''e''\<rparr>"

definition demo_job_world :: "(rat \<times> bool \<times> bool) world" where
  "demo_job_world = \<lparr>w_db = empty_db, w_redis = (0, False, False), w_clock = w_clock (fresh_world empty_db),
     w_uuids = w_uuids (fresh_world empty_db), w_drawn = 0\<rparr>"

lemma demo_job_clock: "job_clock (\<lambda>w. fst (w_redis w)) demo_job_host"
  by (simp add: job_clock_def demo_job_host_def gets_eq modify_eq return_eq Let_def)

theorem waiting_ends_witness:
  "wait_loop 400 demo_job_host demo_job_runtime ''j'' ''r1'' 0 (wait_limit (Some 5)) demo_job_world =
   wait_for_result_observed demo_job_host demo_job_runtime ''j'' ''r1'' (Some 5) demo_job_world"
proof -
  have "wait_turns (jr_poll_interval_seconds demo_job_runtime) (wait_limit (Some 5)) \<le> 400" "0 < jr_poll_interval_seconds demo_job_runtime"
    by (simp_all add: wait_turns_def wait_limit_def wait_seconds_def demo_job_runtime_def)
  from waiting_ends [OF demo_job_clock this(2,1), of "''j''" "''r1''" demo_job_world] show ?thesis
    by (simp add: demo_job_world_def del: wait_loop.simps)
qed

lemma demo_manifest: "\<exists>m. job_manifest demo_job_host demo_job_runtime short_definition img n echo_context k t None = Inr m"
  by (simp add: job_manifest_def build_kubernetes_job_manifest_def Let_def demo_job_runtime_def)

lemma demo_created:
  "\<exists>w'. created_job demo_job_host demo_job_runtime short_definition img inp n echo_context k t None w = (Inr (), w') \<and>
     fst (w_redis w') = fst (w_redis w)"
proof -
  obtain m where "job_manifest demo_job_host demo_job_runtime short_definition img n echo_context k t None = Inr m"
    using demo_manifest by blast
  then show ?thesis
    by (simp add: created_job_def bind_def modify_eq demo_job_host_def Let_def lift_result_eq)
qed

lemma demo_waited:
  "0 \<le> fst (w_redis w) \<Longrightarrow> wait_for_result_observed demo_job_host demo_job_runtime n ''r1'' t w =
     (Inr ((observed ok_result)\<lparr>ob_result_received := True, ob_envelope_valid := True\<rparr>), w)" if "0 < wait_limit t"
  using that
  by (simp add: wait_for_result_observed_def wait_turns_def look_at_job_def load_result_observed_def load_job_result_def demo_job_host_def
      bind_def gets_eq return_eq catching_def Let_def ok_result_def observed_def)

theorem successful_run_published_witness:
  "\<exists>ob w'. run_observed demo_job_host demo_job_runtime short_definition (JObj []) echo_context (Some 2) None True demo_job_world = (Inr ob, w') \<and>
     res_status (ob_result ob) = ResSuccess \<and> ob_job_created ob \<and>
     published_success demo_job_host demo_job_runtime (job_name short_definition echo_context) ''r1'' ob"
proof -
  let ?run = "run_observed demo_job_host demo_job_runtime short_definition (JObj []) echo_context (Some 2) None True demo_job_world"
  let ?name = "job_name short_definition echo_context" and ?ob = "(observed ok_result)\<lparr>ob_result_received := True, ob_envelope_valid := True, ob_job_created := True\<rparr>"
  have r1: "ctx_run_id echo_context = ''r1''" by (simp add: echo_context_def)
  have worker: "workers_get (jr_workers demo_job_runtime) (gd_kind short_definition) = Inr \<lparr>wi_context = ''.'', wi_dockerfile = ''Dockerfile'', wi_image = ''e:1''\<rparr>"
    by code_simp
  obtain w1 where "created_job demo_job_host demo_job_runtime short_definition ''e:1'' (JObj []) ?name echo_context ''k8s-worker-r1'' (Some 2) None demo_job_world = (Inr (), w1)"
    and "fst (w_redis w1) = 0" using demo_created [where w = demo_job_world] by (force simp: demo_job_world_def)
  then have attempted: "attempted_job demo_job_host demo_job_runtime short_definition ''e:1'' (JObj []) ?name echo_context ''k8s-worker-r1'' (Some 2) None demo_job_world = (Inr ?ob, w1)"
    using demo_waited [of "Some 2" w1 ?name]
    by (simp add: attempted_job_def Let_def bind_def catching_def return_eq r1 wait_limit_def wait_seconds_def)
  have diagnosed: "diagnosed_job demo_job_host demo_job_runtime short_definition ''e:1'' ?name echo_context ''k8s-worker-r1'' None True ?ob w1 = (Inr ?ob, w1)"
    by (simp add: diagnosed_job_def record_job_heartbeats_def capture_pod_diagnostics_def list_job_pods_def emit_job_log_event_def
        emit_job_event_def demo_job_runtime_def demo_job_host_def bind_def return_eq catching_def Let_def)
  obtain w2 where clean: "cleanup_job demo_job_host (jr_namespace demo_job_runtime) ?name (?name @ ''-input'') w1 = (Inr (), w2)"
    by (simp add: cleanup_job_def bind_def catching_def return_eq demo_job_host_def Let_def modify_eq)
  have quiet: "emit_job_event demo_job_runtime e echo_context k p w = (Inr (), w)" for e k p w
    by (simp add: emit_job_event_def demo_job_runtime_def return_eq)
  have clients: "kh_clients demo_job_host = return ()" by (simp add: demo_job_host_def Let_def)
  have run: "?run = (Inr ?ob, w2)"
    unfolding run_observed_def worker
    by (simp add: r1 Let_def bind_def catching_def clients return_eq quiet attempted ensuring_def diagnosed clean)
  have "res_status (ob_result ?ob) = ResSuccess" by (simp add: ok_result_def)
  from successful_run_published [OF run this] run this show ?thesis unfolding r1 by blast
qed

definition demo_job_state :: "(rat \<times> bool \<times> bool) job_state" where
  "demo_job_state = \<lparr>js_job = (\<lambda>_ w. fst (snd (w_redis w))), js_config_map = (\<lambda>_ w. snd (snd (w_redis w)))\<rparr>"

theorem finished_run_leaves_nothing_witness:
  "nothing_of_run demo_job_state (job_name short_definition echo_context)
     (snd (run_observed demo_job_host demo_job_runtime short_definition (JObj []) echo_context (Some 2) None True demo_job_world))"
proof -
  have "cluster_answers demo_job_state demo_job_host demo_job_runtime"
    by (auto simp: cluster_answers_def nothing_of_run_def demo_job_state_def demo_job_host_def demo_job_runtime_def emit_job_event_def
        modify_eq return_eq Let_def split: prod.split)
  moreover have "nothing_of_run demo_job_state (job_name short_definition echo_context) demo_job_world"
    by (simp add: nothing_of_run_def demo_job_state_def demo_job_world_def)
  ultimately show ?thesis by (rule finished_run_leaves_nothing)
qed

end
