(* ===== verification/Service_Relay.thy ===== *)
theory Service_Relay
  imports Kubernetes_Runtime
begin

text \<open>
  The relay of WebSocket frames between a client and a managed service:
  \<^verbatim>\<open>src/src/goblin_king/service_websocket_proxy.py\<close>. \<^verbatim>\<open>_relay\<close> runs three tasks, each of which gives way at
  every \<^verbatim>\<open>await\<close>: the points where a task waits are the constructors of its type, what it waits for is an
  event, and the code between two waits is one step. Frames are bytes, a text frame its UTF-8 encoding.
  \<open>ry_reported\<close> lists the calls of \<^verbatim>\<open>on_result\<close>, \<open>ry_up\<close> and \<open>ry_down\<close> the frames that were delivered. What
  \<^verbatim>\<open>websockets\<close> and the client do is the sequence of events. The theorems: a relay reports one outcome,
  with a close code that may be sent; no frame above the limit is delivered to the service.
\<close>

section \<open>Configuration and results\<close>

record proxy_config =
  px_max_message_bytes :: int
  px_max_queue_messages :: int
  px_write_limit_bytes :: int
  px_open_timeout_seconds :: rat
  px_idle_timeout_seconds :: rat
  px_close_timeout_seconds :: rat
  px_drain_timeout_seconds :: rat

definition default_proxy_config :: proxy_config where
  "default_proxy_config = \<lparr>px_max_message_bytes = 1048576, px_max_queue_messages = 16, px_write_limit_bytes = 32768,
     px_open_timeout_seconds = 10, px_idle_timeout_seconds = 300, px_close_timeout_seconds = 10, px_drain_timeout_seconds = 30\<rparr>"

datatype relay_outcome = ClientClosed | UpstreamClosed | IdleTimeout | MessageTooLarge

primrec relay_outcome_text :: "relay_outcome \<Rightarrow> string" where
  "relay_outcome_text ClientClosed = ''client_closed''"
| "relay_outcome_text UpstreamClosed = ''upstream_closed''"
| "relay_outcome_text IdleTimeout = ''idle_timeout''"
| "relay_outcome_text MessageTooLarge = ''message_too_large''"

primrec outcome_priority :: "relay_outcome \<Rightarrow> nat" where
  "outcome_priority ClientClosed = 1"
| "outcome_priority UpstreamClosed = 2"
| "outcome_priority IdleTimeout = 3"
| "outcome_priority MessageTooLarge = 4"

record relay_counters =
  ct_client_frames :: int
  ct_client_bytes :: int
  ct_upstream_frames :: int
  ct_upstream_bytes :: int

record relay_result =
  rr_outcome :: relay_outcome
  rr_close_code :: int
  rr_reason :: string
  rr_counters :: relay_counters

definition valid_close_code :: "int \<Rightarrow> bool" where
  "valid_close_code code \<longleftrightarrow> 1000 \<le> code \<and> code < 1015 \<and> code \<notin> {1004, 1005, 1006} \<or> 3000 \<le> code \<and> code < 5000"

definition close_code :: "int option \<Rightarrow> int \<Rightarrow> int" where
  "close_code v default_code = (case v of Some code \<Rightarrow> if valid_close_code code then code else default_code | None \<Rightarrow> default_code)"

definition close_reason :: "string option \<Rightarrow> string" where
  "close_reason v = text_take 123 (case v of None \<Rightarrow> '''' | Some reason \<Rightarrow> reason)"

datatype frame = TextFrame string | BytesFrame string

fun frame_size :: "frame \<Rightarrow> int" where
  "frame_size (TextFrame s) = int (length s)"
| "frame_size (BytesFrame s) = int (length s)"

section \<open>The tasks\<close>

datatype client_task = ClientReceives | ClientSends frame | ClientCloses relay_result | ClientEnded "relay_result result"
datatype upstream_task = UpstreamReceives | UpstreamSends frame | UpstreamCloses relay_result | UpstreamEnded "relay_result result"
datatype watchdog_task = WatchdogSleeps | WatchdogCloses relay_result | WatchdogEnded relay_result

record relay =
  ry_client :: client_task
  ry_upstream :: upstream_task
  ry_watchdog :: watchdog_task
  ry_counters :: relay_counters
  ry_activity :: rat
  ry_reported :: "relay_result list"
  ry_up :: "frame list"
  ry_down :: "frame list"

definition new_relay :: "rat \<Rightarrow> relay" where
  "new_relay now = \<lparr>ry_client = ClientReceives, ry_upstream = UpstreamReceives, ry_watchdog = WatchdogSleeps,
     ry_counters = \<lparr>ct_client_frames = 0, ct_client_bytes = 0, ct_upstream_frames = 0, ct_upstream_bytes = 0\<rparr>,
     ry_activity = now, ry_reported = [], ry_up = [], ry_down = []\<rparr>"

text \<open>\<^verbatim>\<open>finish(_result(outcome, code, reason, counters))\<close>: the first result is reported.\<close>

definition relay_result_of :: "relay_outcome \<Rightarrow> int \<Rightarrow> string \<Rightarrow> relay \<Rightarrow> relay_result" where
  "relay_result_of outcome code reason r = \<lparr>rr_outcome = outcome, rr_close_code = code, rr_reason = reason, rr_counters = ry_counters r\<rparr>"

definition finish :: "relay_result \<Rightarrow> relay \<Rightarrow> relay" where
  "finish result r = r\<lparr>ry_reported := (if ry_reported r = [] then [result] else ry_reported r)\<rparr>"

datatype relay_event =
    ClientMessage frame
  | ClientOther
  | ClientDisconnects "int option" "string option"
  | ClientFails error
  | ServiceTakes rat
  | ServiceRefuses error
  | ClientCloseEnds "unit result"
  | ServiceMessage frame
  | ServiceCloses "int option" "string option"
  | ServiceFails error
  | ClientTakes rat
  | ClientRefuses error
  | UpstreamCloseEnds
  | WatchdogWakes rat
  | WatchdogCloseEnds

text \<open>\<^verbatim>\<open>_client_to_upstream\<close>\<close>

fun client_step :: "proxy_config \<Rightarrow> relay_event \<Rightarrow> relay \<Rightarrow> relay" where
  "client_step config (ClientMessage frame) r =
     (if ry_client r = ClientReceives
      then if px_max_message_bytes config < frame_size frame
           then let result = relay_result_of MessageTooLarge 1009 (''message exceeds '' @ str_int (px_max_message_bytes config) @ '' bytes'') r in
                (finish result r)\<lparr>ry_client := ClientCloses result\<rparr>
           else r\<lparr>ry_client := ClientSends frame\<rparr>
      else r)"
| "client_step config (ClientDisconnects code reason) r =
     (if ry_client r = ClientReceives
      then let result = relay_result_of ClientClosed (close_code code 1000) (close_reason reason) r in
           (finish result r)\<lparr>ry_client := ClientCloses result\<rparr>
      else r)"
| "client_step config (ClientFails e) r = (if ry_client r = ClientReceives then r\<lparr>ry_client := ClientEnded (Inl e)\<rparr> else r)"
| "client_step config (ServiceTakes now) r =
     (case ry_client r of ClientSends frame \<Rightarrow>
        let c = ry_counters r in
        r\<lparr>ry_client := ClientReceives, ry_up := ry_up r @ [frame], ry_activity := now,
          ry_counters := c\<lparr>ct_client_frames := ct_client_frames c + 1, ct_client_bytes := ct_client_bytes c + frame_size frame\<rparr>\<rparr>
      | _ \<Rightarrow> r)"
| "client_step config (ServiceRefuses e) r =
     (case ry_client r of ClientSends _ \<Rightarrow> r\<lparr>ry_client := ClientEnded (Inl e)\<rparr> | _ \<Rightarrow> r)"
| "client_step config (ClientCloseEnds ended) r =
     (case ry_client r of ClientCloses result \<Rightarrow>
        r\<lparr>ry_client := ClientEnded (case ended of Inl e \<Rightarrow> if rr_outcome result = ClientClosed then Inl e else Inr result | Inr _ \<Rightarrow> Inr result)\<rparr>
      | _ \<Rightarrow> r)"
| "client_step config _ r = r"

text \<open>\<^verbatim>\<open>_upstream_to_client\<close>\<close>

fun upstream_step :: "proxy_config \<Rightarrow> relay_event \<Rightarrow> relay \<Rightarrow> relay" where
  "upstream_step config (ServiceMessage frame) r = (if ry_upstream r = UpstreamReceives then r\<lparr>ry_upstream := UpstreamSends frame\<rparr> else r)"
| "upstream_step config (ServiceCloses code reason) r =
     (if ry_upstream r = UpstreamReceives
      then let result = relay_result_of UpstreamClosed (close_code code 1011) (close_reason reason) r in
           (finish result r)\<lparr>ry_upstream := UpstreamCloses result\<rparr>
      else r)"
| "upstream_step config (ServiceFails e) r = (if ry_upstream r = UpstreamReceives then r\<lparr>ry_upstream := UpstreamEnded (Inl e)\<rparr> else r)"
| "upstream_step config (ClientTakes now) r =
     (case ry_upstream r of UpstreamSends frame \<Rightarrow>
        let c = ry_counters r in
        r\<lparr>ry_upstream := UpstreamReceives, ry_down := ry_down r @ [frame], ry_activity := now,
          ry_counters := c\<lparr>ct_upstream_frames := ct_upstream_frames c + 1, ct_upstream_bytes := ct_upstream_bytes c + frame_size frame\<rparr>\<rparr>
      | _ \<Rightarrow> r)"
| "upstream_step config (ClientRefuses e) r =
     (case ry_upstream r of UpstreamSends _ \<Rightarrow> r\<lparr>ry_upstream := UpstreamEnded (Inl e)\<rparr> | _ \<Rightarrow> r)"
| "upstream_step config UpstreamCloseEnds r =
     (case ry_upstream r of UpstreamCloses result \<Rightarrow> r\<lparr>ry_upstream := UpstreamEnded (Inr result)\<rparr> | _ \<Rightarrow> r)"
| "upstream_step config _ r = r"

text \<open>\<^verbatim>\<open>_idle_watchdog\<close>\<close>

fun watchdog_step :: "proxy_config \<Rightarrow> relay_event \<Rightarrow> relay \<Rightarrow> relay" where
  "watchdog_step config (WatchdogWakes now) r =
     (if ry_watchdog r \<noteq> WatchdogSleeps \<or> now - ry_activity r < px_idle_timeout_seconds config then r
      else let result = relay_result_of IdleTimeout 1001 ''managed service WebSocket idle timeout'' r in
           (finish result r)\<lparr>ry_watchdog := WatchdogCloses result\<rparr>)"
| "watchdog_step config WatchdogCloseEnds r =
     (case ry_watchdog r of WatchdogCloses result \<Rightarrow> r\<lparr>ry_watchdog := WatchdogEnded result\<rparr> | _ \<Rightarrow> r)"
| "watchdog_step config _ r = r"

definition relay_step :: "proxy_config \<Rightarrow> relay_event \<Rightarrow> relay \<Rightarrow> relay" where
  "relay_step config ev r = watchdog_step config ev (upstream_step config ev (client_step config ev r))"

inductive relayed :: "proxy_config \<Rightarrow> relay \<Rightarrow> bool" for config where
  started: "relayed config (new_relay now)"
| stepped: "relayed config r \<Longrightarrow> relayed config (relay_step config ev r)"

text \<open>What \<^verbatim>\<open>_relay\<close> makes of the tasks that have ended, the others being cancelled: the
  result of the highest priority, or an error. The tasks are a set there, whose order is not specified; here it is that of their creation.\<close>

definition ended_tasks :: "relay \<Rightarrow> relay_result result list" where
  "ended_tasks r = (case ry_client r of ClientEnded x \<Rightarrow> [x] | _ \<Rightarrow> []) @ (case ry_upstream r of UpstreamEnded x \<Rightarrow> [x] | _ \<Rightarrow> []) @
     (case ry_watchdog r of WatchdogEnded x \<Rightarrow> [Inr x] | _ \<Rightarrow> [])"

definition results_of :: "'a result list \<Rightarrow> 'a list" where
  "results_of xs = concat (map (\<lambda>x. case x of Inr a \<Rightarrow> [a] | Inl _ \<Rightarrow> []) xs)"

definition errors_of :: "'a result list \<Rightarrow> error list" where
  "errors_of xs = concat (map (\<lambda>x. case x of Inl e \<Rightarrow> [e] | Inr _ \<Rightarrow> []) xs)"

fun highest :: "relay_result \<Rightarrow> relay_result list \<Rightarrow> relay_result" where
  "highest best [] = best"
| "highest best (x # xs) =
     highest (if outcome_priority (rr_outcome best) < outcome_priority (rr_outcome x) then x else best) xs"

definition relay_conclusion :: "relay \<Rightarrow> relay_result result" where
  "relay_conclusion r =
     (case results_of (ended_tasks r) of
        x # xs \<Rightarrow> Inr (highest x xs)
      | [] \<Rightarrow> (case errors_of (ended_tasks r) of
          e # _ \<Rightarrow> Inl e
        | [] \<Rightarrow> Inl (Raise (ServiceWebSocketProxyError 1011) ''managed service WebSocket relay ended without a result'')))"

section \<open>One outcome\<close>

definition relay_ok :: "proxy_config \<Rightarrow> relay \<Rightarrow> bool" where
  "relay_ok config r \<longleftrightarrow>
     length (ry_reported r) \<le> 1 \<and>
     (\<forall>x \<in> set (ry_reported r). valid_close_code (rr_close_code x)) \<and>
     ((\<exists>x. ry_client r = ClientCloses x \<or> ry_client r = ClientEnded (Inr x) \<or> ry_upstream r = UpstreamCloses x \<or>
        ry_upstream r = UpstreamEnded (Inr x) \<or> ry_watchdog r = WatchdogCloses x \<or> ry_watchdog r = WatchdogEnded x) \<longrightarrow> ry_reported r \<noteq> []) \<and>
     (\<forall>f. f \<in> set (ry_up r) \<or> ry_client r = ClientSends f \<longrightarrow> frame_size f \<le> px_max_message_bytes config) \<and>
     ry_counters r = \<lparr>ct_client_frames = int (length (ry_up r)), ct_client_bytes = sum_list (map frame_size (ry_up r)),
       ct_upstream_frames = int (length (ry_down r)), ct_upstream_bytes = sum_list (map frame_size (ry_down r))\<rparr>"

lemma close_code_valid: "valid_close_code d \<Longrightarrow> valid_close_code (close_code v d)"
  by (simp add: close_code_def split: option.split)

lemma fixed_codes_valid [simp]: "valid_close_code 1000" "valid_close_code 1001" "valid_close_code 1009" "valid_close_code 1011"
  by (simp_all add: valid_close_code_def)

lemma finish_simps [simp]: "ry_client (finish x r) = ry_client r" "ry_upstream (finish x r) = ry_upstream r"
  "ry_watchdog (finish x r) = ry_watchdog r" "ry_counters (finish x r) = ry_counters r" "ry_up (finish x r) = ry_up r"
  "ry_down (finish x r) = ry_down r" "ry_reported (finish x r) \<noteq> []"
  by (simp_all add: finish_def)

lemma finish_reports: "ry_reported (finish x r) = (if ry_reported r = [] then [x] else ry_reported r)"
  by (simp add: finish_def)

lemma client_keeps: "relay_ok config r \<Longrightarrow> relay_ok config (client_step config ev r)"
  by (cases ev) (auto simp: relay_ok_def Let_def finish_reports relay_result_of_def close_code_valid split: client_task.split sum.split)

lemma upstream_keeps: "relay_ok config r \<Longrightarrow> relay_ok config (upstream_step config ev r)"
  by (cases ev) (auto simp: relay_ok_def Let_def finish_reports relay_result_of_def close_code_valid split: upstream_task.split)

lemma watchdog_keeps: "relay_ok config r \<Longrightarrow> relay_ok config (watchdog_step config ev r)"
  by (cases ev) (auto simp: relay_ok_def Let_def finish_reports relay_result_of_def split: watchdog_task.split)

lemma relayed_ok: "relayed config r \<Longrightarrow> relay_ok config r"
proof (induction rule: relayed.induct)
  case started
  show ?case by (simp add: relay_ok_def new_relay_def)
next
  case stepped
  then show ?case by (simp add: relay_step_def client_keeps upstream_keeps watchdog_keeps)
qed

lemma ended_results:
  "x \<in> set (results_of (ended_tasks r)) \<Longrightarrow>
     ry_client r = ClientEnded (Inr x) \<or> ry_upstream r = UpstreamEnded (Inr x) \<or> ry_watchdog r = WatchdogEnded x"
  by (auto simp: results_of_def ended_tasks_def split: client_task.splits upstream_task.splits watchdog_task.splits sum.splits)

text \<open>
  C37. A relay reports at most one outcome, whichever of its tasks end and in whatever order; it reports one
  when it returns a result; the close code that it reports is one that an endpoint may send.
\<close>

theorem relay_reports_once:
  assumes "relayed config r"
  shows "length (ry_reported r) \<le> 1 \<and> (\<forall>x \<in> set (ry_reported r). valid_close_code (rr_close_code x)) \<and>
    (\<forall>x. relay_conclusion r = Inr x \<longrightarrow> length (ry_reported r) = 1)"
proof -
  have ok: "relay_ok config r" using relayed_ok [OF assms] .
  have "ry_reported r \<noteq> []" if c: "relay_conclusion r = Inr x" for x
  proof -
    obtain y ys where "results_of (ended_tasks r) = y # ys"
      using c by (cases "results_of (ended_tasks r)"; cases "errors_of (ended_tasks r)") (auto simp: relay_conclusion_def)
    then show ?thesis using ended_results [of y r] ok by (auto simp: relay_ok_def)
  qed
  then show ?thesis using ok by (auto simp: relay_ok_def le_Suc_eq)
qed

definition small_config :: proxy_config where
  "small_config = default_proxy_config\<lparr>px_max_message_bytes := 4\<rparr>"

text \<open>A client that sends a message, then one that is too large, while the service closes.\<close>

definition relay_demo_events :: "relay_event list" where
  "relay_demo_events = [ClientMessage (TextFrame ''ping''), ServiceTakes 1, ServiceMessage (TextFrame ''pong!''), ClientTakes 2,
     ClientMessage (BytesFrame ''large''), ServiceCloses (Some 1005) None, ClientCloseEnds (Inr ()), UpstreamCloseEnds]"

definition demo_relay :: relay where
  "demo_relay = fold (relay_step small_config) relay_demo_events (new_relay 0)"

lemma demo_relayed: "relayed small_config demo_relay"
proof -
  have steps: "relayed small_config r \<Longrightarrow> relayed small_config (fold (relay_step small_config) evs r)" for evs r
    by (induction evs arbitrary: r) (auto intro: relayed.stepped)
  show ?thesis unfolding demo_relay_def by (rule steps [OF relayed.started])
qed

lemma demo_relay_value:
  "map rr_outcome (ry_reported demo_relay) = [MessageTooLarge]" "ry_up demo_relay = [TextFrame ''ping'']" "ry_down demo_relay = [TextFrame ''pong!'']"
  "map_sum (\<lambda>_. ()) rr_outcome (relay_conclusion demo_relay) = Inr MessageTooLarge"
  by (simp_all add: demo_relay_def relay_demo_events_def relay_step_def new_relay_def small_config_def default_proxy_config_def Let_def
      finish_def relay_result_of_def relay_conclusion_def ended_tasks_def results_of_def close_code_def valid_close_code_def)

theorem relay_reports_once_witness:
  "map rr_outcome (ry_reported demo_relay) = [MessageTooLarge] \<and> length (ry_reported demo_relay) \<le> 1 \<and>
   valid_close_code (rr_close_code (hd (ry_reported demo_relay)))"
  using relay_reports_once [OF demo_relayed] demo_relay_value(1) by (cases "ry_reported demo_relay") auto

text \<open>
  No frame above the limit is delivered to the service, and the counters that are reported are those of
  the frames that were delivered on either side.
\<close>

theorem relay_bounds_frames:
  assumes "relayed config r"
  shows "(\<forall>f \<in> set (ry_up r). frame_size f \<le> px_max_message_bytes config) \<and>
    ct_client_frames (ry_counters r) = int (length (ry_up r)) \<and> ct_client_bytes (ry_counters r) = sum_list (map frame_size (ry_up r)) \<and>
    ct_upstream_frames (ry_counters r) = int (length (ry_down r)) \<and> ct_upstream_bytes (ry_counters r) = sum_list (map frame_size (ry_down r))"
  using relayed_ok [OF assms] by (auto simp: relay_ok_def)

theorem relay_bounds_frames_witness:
  "ct_client_frames (ry_counters demo_relay) = 1 \<and> ct_client_bytes (ry_counters demo_relay) = 4 \<and>
   filter (\<lambda>f. 4 < frame_size f) (ry_up demo_relay) = []"
  using relay_bounds_frames [OF demo_relayed] demo_relay_value(2) by (simp add: small_config_def)

section \<open>How a relay ends for its caller\<close>

text \<open>
  \<^verbatim>\<open>proxy_managed_service_websocket\<close> around \<^verbatim>\<open>_relay\<close>: what was reported, and the close code, the reason and the
  message of the exception it raises. Without a connection nothing is relayed.
\<close>

type_synonym relay_run = "relay_result list \<times> (int \<times> string \<times> string) option"

definition upstream_failure :: "error \<Rightarrow> int \<times> string \<times> string" where
  "upstream_failure e = (1013, ''upstream unavailable'', ''managed service WebSocket upstream failed: '' @ error_message e)"

definition relay_failure :: "error \<Rightarrow> int \<times> string \<times> string" where
  "relay_failure e = (case error_class e of ServiceWebSocketProxyError code \<Rightarrow> (code, ''relay failed'', error_message e) | _ \<Rightarrow> upstream_failure e)"

definition relay_run_of :: "relay \<Rightarrow> relay_run" where
  "relay_run_of r = (ry_reported r, (case relay_conclusion r of Inr _ \<Rightarrow> None | Inl e \<Rightarrow> Some (relay_failure e)))"

end
