(* ===== verification/Url_Query.thy ===== *)
theory Url_Query
  imports Container_Logs
begin

text \<open>
  What the proxies use of \<^verbatim>\<open>urllib.parse\<close>: \<^verbatim>\<open>quote\<close>, \<^verbatim>\<open>unquote\<close>, \<^verbatim>\<open>parse_qsl(keep_blank_values=True)\<close> and
  \<^verbatim>\<open>urlencode(doseq=True)\<close>, on texts given by their UTF-8 bytes. Parsing an encoded query gives the pairs
  back, which is what makes the removal of a parameter from a query exact.
\<close>

section \<open>Quoting\<close>

definition ascii_alnum :: "char \<Rightarrow> bool" where
  "ascii_alnum c = list_ex (\<lambda>(first, final). first \<le> byte c \<and> byte c \<le> final) [(97, 122), (65, 90), (48, 57)]"

definition hex_char :: "nat \<Rightarrow> char" where
  "hex_char n = (if n < 10 then char_of (48 + n) else char_of (55 + n))"

definition quote_char :: "string \<Rightarrow> char \<Rightarrow> string" where
  "quote_char safe c = (if ascii_alnum c \<or> c \<in> set ''_.-~'' \<or> c \<in> set safe then [c]
     else [CHR ''%'', hex_char (byte c div 16), hex_char (byte c mod 16)])"

definition quote :: "string \<Rightarrow> string \<Rightarrow> string" where
  "quote safe s = concat (map (quote_char safe) s)"

definition quote_plus :: "string \<Rightarrow> string" where
  "quote_plus s = concat (map (\<lambda>c. if c = CHR '' '' then ''+'' else quote_char '''' c) s)"

definition hex_value :: "char \<Rightarrow> nat option" where
  "hex_value c = (let n = byte c in
     if 48 \<le> n \<and> n \<le> 57 then Some (n - 48) else if 65 \<le> n \<and> n \<le> 70 then Some (n - 55)
     else if 97 \<le> n \<and> n \<le> 102 then Some (n - 87) else None)"

text \<open>\<^verbatim>\<open>unquote_to_bytes\<close>: an escape that is not one stays.\<close>

fun percent_decode :: "string \<Rightarrow> string" where
  "percent_decode (c # a # b # s) =
     (if c = CHR ''%'' \<and> hex_value a \<noteq> None \<and> hex_value b \<noteq> None
      then char_of (16 * the (hex_value a) + the (hex_value b)) # percent_decode s
      else c # percent_decode (a # b # s))"
| "percent_decode s = s"

text \<open>Escapes are decoded in the longest pieces of ASCII characters.\<close>

fun ascii_runs :: "string \<Rightarrow> string list" where
  "ascii_runs [] = []"
| "ascii_runs (c # s) =
     (case ascii_runs s of
        (d # run) # runs \<Rightarrow> if (byte c < 128) = (byte d < 128) then (c # d # run) # runs else [c] # (d # run) # runs
      | runs \<Rightarrow> [c] # runs)"

definition unquote :: "string \<Rightarrow> string" where
  "unquote s = (if CHR ''%'' \<notin> set s then s
     else concat (map (\<lambda>run. if list_all (\<lambda>c. byte c < 128) run then utf8_replace (percent_decode run) else run) (ascii_runs s)))"

section \<open>Queries\<close>

fun split_on :: "char \<Rightarrow> string \<Rightarrow> string list" where
  "split_on d [] = [[]]"
| "split_on d (c # s) =
     (if c = d then [] # split_on d s else (case split_on d s of [] \<Rightarrow> [[c]] | p # ps \<Rightarrow> (c # p) # ps))"

definition plus_to_space :: "string \<Rightarrow> string" where
  "plus_to_space s = map (\<lambda>c. if c = CHR ''+'' then CHR '' '' else c) s"

definition parse_pair :: "string \<Rightarrow> string \<times> string" where
  "parse_pair p = (unquote (plus_to_space (takeWhile (\<lambda>c. c \<noteq> CHR ''='') p)),
     unquote (plus_to_space (drop 1 (dropWhile (\<lambda>c. c \<noteq> CHR ''='') p))))"

definition parse_qsl :: "string \<Rightarrow> (string \<times> string) list" where
  "parse_qsl qs = map parse_pair (filter (\<lambda>p. p \<noteq> '''') (split_on (CHR ''&'') qs))"

fun join_with :: "string \<Rightarrow> string list \<Rightarrow> string" where
  "join_with d [] = ''''"
| "join_with d [p] = p"
| "join_with d (p # ps) = p @ d @ join_with d ps"

definition urlencode :: "(string \<times> string) list \<Rightarrow> string" where
  "urlencode ps = join_with ''&'' (map (\<lambda>(k, v). quote_plus k @ ''='' @ quote_plus v) ps)"

section \<open>Parsing what was encoded\<close>

definition unreserved :: "char \<Rightarrow> bool" where
  "unreserved c \<longleftrightarrow> ascii_alnum c \<or> c \<in> set ''_.-~''"

lemma unreserved_plain:
  assumes "unreserved c"
  shows "c \<notin> set ''%+&= ''" "byte c < 128"
  using assms by (auto simp: unreserved_def ascii_alnum_def less_eq_char_def byte_def)

lemma hex_digit_value: "n < 16 \<Longrightarrow> hex_value (hex_char n) = Some n"
  by (auto simp: hex_value_def hex_char_def byte_def Let_def)

lemma hex_digit_plain: "n < 16 \<Longrightarrow> hex_char n \<notin> set ''%+&= ''" "n < 16 \<Longrightarrow> byte (hex_char n) < 128"
proof -
  show "byte (hex_char n) < 128" if "n < 16" using that by (auto simp: hex_char_def byte_def)
  have "byte (hex_char n) \<notin> byte ` set ''%+&= ''" if "n < 16"
    using that by (auto simp: hex_char_def byte_def)
  then show "n < 16 \<Longrightarrow> hex_char n \<notin> set ''%+&= ''" by auto
qed

lemma byte_bound: "byte c < 256"
  unfolding byte_def by (metis mod_less_divisor of_char_mod_256 zero_less_numeral)

lemma char_of_byte [simp]: "char_of (byte c) = c"
  by (simp add: byte_def)

lemma byte_parts: "char_of (16 * (byte c div 16) + byte c mod 16) = c"
  by (simp add: byte_def)

text \<open>One quoted character: it has no delimiter and decodes to itself.\<close>

lemma percent_decode_plain: "c \<noteq> CHR ''%'' \<Longrightarrow> percent_decode (c # s) = c # percent_decode s"
  by (cases "(c # s)" rule: percent_decode.cases) auto

lemma quoted_char_plain:
  "set (if c = CHR '' '' then ''+'' else quote_char '''' c) \<inter> {CHR ''&'', CHR ''='', CHR '' ''} = {}"
  "list_all (\<lambda>x. byte x < 128) (if c = CHR '' '' then ''+'' else quote_char '''' c)"
proof -
  have "byte c div 16 < 16" "byte c mod 16 < 16" using byte_bound [of c] by auto
  note digits = hex_digit_plain [OF this(1)] hex_digit_plain [OF this(2)]
  show "set (if c = CHR '' '' then ''+'' else quote_char '''' c) \<inter> {CHR ''&'', CHR ''='', CHR '' ''} = {}"
    using digits unreserved_plain [of c] by (auto simp: quote_char_def unreserved_def)
  show "list_all (\<lambda>x. byte x < 128) (if c = CHR '' '' then ''+'' else quote_char '''' c)"
    using digits unreserved_plain [of c] by (auto simp: quote_char_def unreserved_def byte_def)
qed

lemma decode_quoted_char:
  "percent_decode (plus_to_space (if c = CHR '' '' then ''+'' else quote_char '''' c) @ s) = c # percent_decode s"
proof -
  have n: "byte c div 16 < 16" "byte c mod 16 < 16" using byte_bound [of c] by auto
  have plain: "plus_to_space [CHR ''%'', hex_char (byte c div 16), hex_char (byte c mod 16)] =
      [CHR ''%'', hex_char (byte c div 16), hex_char (byte c mod 16)]"
    using hex_digit_plain(1) [OF n(1)] hex_digit_plain(1) [OF n(2)] by (simp add: plus_to_space_def)
  consider (space) "c = CHR '' ''" | (free) "unreserved c" | (quoted) "c \<noteq> CHR '' ''" "\<not> unreserved c" by blast
  then show ?thesis
  proof cases
    case space
    then show ?thesis by (simp add: plus_to_space_def percent_decode_plain)
  next
    case free
    then have "plus_to_space (quote_char '''' c) = [c]" "c \<noteq> CHR '' ''"
      using unreserved_plain [OF free] by (auto simp: quote_char_def unreserved_def plus_to_space_def)
    then show ?thesis using unreserved_plain [OF free] by (simp add: percent_decode_plain)
  next
    case quoted
    then have "quote_char '''' c = [CHR ''%'', hex_char (byte c div 16), hex_char (byte c mod 16)]"
      by (simp add: quote_char_def unreserved_def)
    then show ?thesis using quoted plain
      by (simp add: hex_digit_value [OF n(1)] hex_digit_value [OF n(2)] byte_parts)
  qed
qed

lemma plus_to_space_append: "plus_to_space (a @ b) = plus_to_space a @ plus_to_space b"
  by (simp add: plus_to_space_def)

lemma decode_quoted: "percent_decode (plus_to_space (quote_plus s)) = s"
proof (induction s)
  case (Cons c s)
  have "plus_to_space (quote_plus (c # s)) = plus_to_space (if c = CHR '' '' then ''+'' else quote_char '''' c) @ plus_to_space (quote_plus s)"
    by (simp add: quote_plus_def plus_to_space_def)
  then show ?case using Cons decode_quoted_char by simp
qed (simp add: quote_plus_def plus_to_space_def)

lemma quote_plus_plain:
  "set (quote_plus s) \<inter> {CHR ''&'', CHR ''='', CHR '' ''} = {}" "list_all (\<lambda>x. byte x < 128) (quote_plus s)"
proof -
  show "set (quote_plus s) \<inter> {CHR ''&'', CHR ''='', CHR '' ''} = {}"
    unfolding quote_plus_def using quoted_char_plain(1) by (induction s) (simp_all add: Int_Un_distrib2 del: disjoint_insert)
  show "list_all (\<lambda>x. byte x < 128) (quote_plus s)"
    unfolding quote_plus_def using quoted_char_plain(2) by (induction s) simp_all
qed

lemma percent_free: "CHR ''%'' \<notin> set s \<Longrightarrow> percent_decode s = s"
  by (induction s rule: percent_decode.induct) auto

lemma ascii_run: "list_all (\<lambda>x. byte x < 128) s \<Longrightarrow> s \<noteq> [] \<Longrightarrow> ascii_runs s = [s]"
proof (induction s)
  case (Cons c s)
  then show ?case by (cases s) auto
qed simp

lemma unquote_ascii:
  assumes "list_all (\<lambda>x. byte x < 128) s"
  shows "unquote s = (if CHR ''%'' \<in> set s then utf8_replace (percent_decode s) else s)"
  using assms ascii_run [OF assms] by (cases s) (auto simp: unquote_def)

lemma unquote_quoted:
  assumes "well_formed s"
  shows "unquote (plus_to_space (quote_plus s)) = s"
proof -
  have "list_all (\<lambda>x. byte x < 128) (plus_to_space (quote_plus s))"
    using quote_plus_plain(2) [of s] by (auto simp: plus_to_space_def list_all_iff byte_def)
  then have "unquote (plus_to_space (quote_plus s)) =
      (if CHR ''%'' \<in> set (plus_to_space (quote_plus s)) then utf8_replace s else s)"
    using unquote_ascii decode_quoted percent_free [of "plus_to_space (quote_plus s)"] by metis
  then show ?thesis using well_formed_replace [OF assms] by simp
qed

lemma split_on_plain: "d \<notin> set p \<Longrightarrow> split_on d p = [p]"
  by (induction p) auto

lemma split_on_append: "d \<notin> set p \<Longrightarrow> split_on d (p @ d # s) = p # split_on d s"
  by (induction p) auto

lemma split_on_join:
  "ps \<noteq> [] \<Longrightarrow> \<forall>p \<in> set ps. d \<notin> set p \<Longrightarrow> split_on d (join_with [d] ps) = ps"
proof (induction ps)
  case (Cons p ps)
  then show ?case by (cases ps) (simp_all add: split_on_plain split_on_append)
qed simp

text \<open>
  Parsing an encoded query gives the pairs back, whatever characters their texts hold.
\<close>

theorem query_roundtrip:
  assumes "list_all (\<lambda>(k, v). well_formed k \<and> well_formed v) ps"
  shows "parse_qsl (urlencode ps) = ps"
proof (cases "ps = []")
  case False
  let ?pair = "\<lambda>(k, v). quote_plus k @ ''='' @ quote_plus v"
  have plain: "CHR ''&'' \<notin> set (?pair kv)" for kv
    using quote_plus_plain(1) [of "fst kv"] quote_plus_plain(1) [of "snd kv"] by (cases kv) auto
  have "split_on (CHR ''&'') (urlencode ps) = map ?pair ps"
    unfolding urlencode_def using split_on_join [of "map ?pair ps" "CHR ''&''"] plain False by auto
  moreover have "filter (\<lambda>p. p \<noteq> '''') (map ?pair ps) = map ?pair ps"
    by (auto simp: filter_id_conv)
  moreover have "parse_pair (?pair kv) = kv" if "kv \<in> set ps" for kv
  proof -
    obtain k v where kv: "kv = (k, v)" by fastforce
    have eq: "CHR ''='' \<notin> set (quote_plus k)" using quote_plus_plain(1) [of k] by blast
    then have "takeWhile (\<lambda>c. c \<noteq> CHR ''='') (quote_plus k @ ''='' @ quote_plus v) = quote_plus k"
      "dropWhile (\<lambda>c. c \<noteq> CHR ''='') (quote_plus k @ ''='' @ quote_plus v) = ''='' @ quote_plus v"
      by (auto simp: takeWhile_append dropWhile_append takeWhile_eq_all_conv [THEN iffD2] dropWhile_eq_Nil_conv [THEN iffD2])
    then show ?thesis using assms that kv by (auto simp: parse_pair_def unquote_quoted list_all_iff)
  qed
  ultimately show ?thesis by (auto simp: parse_qsl_def map_idI)
qed (simp add: urlencode_def parse_qsl_def)

lemma percent_decode_ascii_well_formed: "list_all (\<lambda>x. byte x < 128) s \<Longrightarrow> well_formed (unquote s)"
proof -
  have plain: "list_all (\<lambda>x. byte x < 128) s \<Longrightarrow> well_formed s" for s
    by (induction s) (auto intro: well_formed.intros simp: lead_length_def)
  show "list_all (\<lambda>x. byte x < 128) s \<Longrightarrow> well_formed (unquote s)"
    by (simp add: unquote_ascii utf8_replace_well_formed plain)
qed

lemma parsed_well_formed:
  assumes "list_all (\<lambda>x. byte x < 128) qs"
  shows "list_all (\<lambda>(k, v). well_formed k \<and> well_formed v) (parse_qsl qs)"
proof -
  have sub: "p \<in> set (split_on d s) \<Longrightarrow> set p \<subseteq> set s" for p d s
  proof (induction s arbitrary: p)
    case (Cons c s)
    show ?case
    proof (cases "c = d")
      case False
      then show ?thesis using Cons by (cases "split_on d s") fastforce+
    qed (use Cons in auto)
  qed simp
  have "well_formed (unquote (plus_to_space t))" if "set t \<subseteq> set qs" for t
    using that assms by (intro percent_decode_ascii_well_formed) (auto simp: list_all_iff plus_to_space_def byte_def)
  moreover have "set (takeWhile P p) \<subseteq> set p" "set (drop 1 (dropWhile P p)) \<subseteq> set p" for P and p :: string
    by (auto dest: set_takeWhileD in_set_dropD set_dropWhileD)
  ultimately show ?thesis
    using sub by (auto simp: parse_qsl_def parse_pair_def list_all_iff) (meson subset_trans)+
qed

text \<open>
  Removing parameters from a query removes exactly them: what the service parses is what the client
  sent, without the pairs that were dropped.
\<close>

theorem filtered_query_exact:
  assumes "list_all (\<lambda>x. byte x < 128) raw"
  shows "parse_qsl (urlencode (filter P (parse_qsl raw))) = filter P (parse_qsl raw)"
  using parsed_well_formed [OF assms] by (intro query_roundtrip) (auto simp: list_all_iff)

end
