(* ===== verification/Service_Proxy.thy ===== *)
theory Service_Proxy
  imports Api_Services Service_Relay Url_Query Run_Events
begin

text \<open>
  The proxy of a managed service: in \<^verbatim>\<open>src/src/goblin_king/api.py\<close> the routes that forward an HTTP request
  or a WebSocket to a registered or a published service, \<^verbatim>\<open>api_service_websockets.py\<close> with the
  authentication and the audit of a relay, and from \<^verbatim>\<open>service_websocket_proxy.py\<close> what is sent upstream.
  The request that was received is the record \<open>proxied_request\<close>: what Starlette's accessors give of it.
  Sending a request upstream and running a relay (to its reports and its conclusion, see \<open>Service_Relay\<close>)
  are the parameter \<open>proxy_host\<close>, as are \<^verbatim>\<open>urlsplit\<close> and the close of a client.
  The theorems: a request leaves for the service of a row in the scope of the principal, below its base
  URL, without the credentials of the client; a relay is opened to a ready service only, and is audited.
\<close>

section \<open>Requests\<close>

record proxied_request =
  pq_method :: string
  pq_headers :: "(string \<times> string) list"
  pq_query :: string
  pq_body :: string

record upstream_request =
  uq_url :: string
  uq_method :: string
  uq_headers :: "(string \<times> string) list"
  uq_body :: "string option"

record ws_url =
  wu_scheme :: string
  wu_netloc :: string
  wu_path :: string
  wu_query :: string
  wu_fragment :: string
  wu_hostname :: "string option"
  wu_username :: "string option"
  wu_password :: "string option"

record 'r proxy_host =
  ph_send :: "upstream_request \<Rightarrow> ('r world, url_reply) op"
  ph_urlsplit :: "string \<Rightarrow> ws_url result"
  ph_relay :: "string \<Rightarrow> (string \<times> string) list \<Rightarrow> string list \<Rightarrow> ('r world, relay_run) op"

definition HOP_BY_HOP_HEADERS :: "string list" where
  "HOP_BY_HOP_HEADERS = [''connection'', ''keep-alive'', ''proxy-authenticate'', ''proxy-authorization'', ''te'', ''trailer'',
     ''transfer-encoding'', ''upgrade'']"

definition SENSITIVE_PROXY_REQUEST_HEADERS :: "string list" where
  "SENSITIVE_PROXY_REQUEST_HEADERS = [''authorization'', ''cookie'', ''host'', ''proxy-authorization'', ''x-api-key'', ''x-auth-token'']"

definition SENSITIVE_HEADERS :: "string list" where
  "SENSITIVE_HEADERS = [''authorization'', ''cookie'', ''host'', ''proxy-authorization'', ''x-api-key'', ''x-auth-token'']"

definition HANDSHAKE_HEADERS :: "string list" where
  "HANDSHAKE_HEADERS = [''connection'', ''keep-alive'', ''proxy-authenticate'', ''sec-websocket-accept'', ''sec-websocket-extensions'',
     ''sec-websocket-key'', ''sec-websocket-protocol'', ''sec-websocket-version'', ''te'', ''trailer'', ''transfer-encoding'', ''upgrade'']"

text \<open>A dict of pairs: of a repeated key the last value counts.\<close>

definition dict_of :: "(string \<times> 'v) list \<Rightarrow> (string \<times> 'v) list" where
  "dict_of ps = fold (\<lambda>(k, v) ms. assoc_set k v ms) ps []"

definition proxy_request_headers :: "proxied_request \<Rightarrow> (string \<times> string) list" where
  "proxy_request_headers request = dict_of (filter (\<lambda>(k, _). py_lower k \<notin> set SENSITIVE_PROXY_REQUEST_HEADERS \<and>
     py_lower k \<notin> set HOP_BY_HOP_HEADERS) (pq_headers request))"

definition proxy_response_headers :: "(string \<times> string) list \<Rightarrow> (string \<times> string) list" where
  "proxy_response_headers headers = filter (\<lambda>(k, _). py_lower k \<notin> set HOP_BY_HOP_HEADERS \<and>
     py_lower k \<notin> {''content-length'', ''set-cookie''}) (dict_of headers)"

definition service_proxy_url :: "long_service_record \<Rightarrow> string \<Rightarrow> string \<Rightarrow> string" where
  "service_proxy_url service path query =
     (let encoded_path = quote ''/'' path; base = strip_slashes (ls_base_url service);
          target = (if encoded_path \<noteq> '''' then base @ ''/'' @ encoded_path else base) in
      if query \<noteq> '''' then target @ ''?'' @ query else target)"

text \<open>\<^verbatim>\<open>_repository_proxy_query_string\<close> and \<^verbatim>\<open>filtered_query_string\<close>\<close>

definition repository_proxy_query_string :: "string \<Rightarrow> string" where
  "repository_proxy_query_string raw_query = urlencode (filter (\<lambda>(k, _). k \<notin> {''project_id'', ''version''}) (parse_qsl raw_query))"

definition filtered_query_string :: "string \<Rightarrow> string list \<Rightarrow> string" where
  "filtered_query_string raw_query excluded =
     urlencode (filter (\<lambda>(k, _). py_lower k \<notin> set (map py_lower excluded)) (parse_qsl raw_query))"

section \<open>HTTP\<close>

record proxy_context =
  pc_action :: string
  pc_resource_type :: string
  pc_resource_id :: string
  pc_detail :: "(string \<times> json) list"

definition audit_proxy ::
  "proxy_context \<Rightarrow> string \<Rightarrow> principal \<Rightarrow> long_service_record \<Rightarrow> (string \<times> json) list \<Rightarrow> ('r world, unit) op" where
  "audit_proxy c outcome p service detail =
     audit (pc_action c) outcome (Some p) (ls_project_id service) (Some (pc_resource_type c)) (Some (pc_resource_id c)) (Some (JObj detail))"

record proxied_response =
  ps_content :: string
  ps_status_code :: int
  ps_headers :: "(string \<times> string) list"

definition upstream_request_for :: "long_service_record \<Rightarrow> proxied_request \<Rightarrow> string \<Rightarrow> string \<Rightarrow> upstream_request" where
  "upstream_request_for service request path query = \<lparr>uq_url = service_proxy_url service path query, uq_method = pq_method request,
     uq_headers = proxy_request_headers request, uq_body = (if pq_body request = '''' then None else Some (pq_body request))\<rparr>"

definition proxy_long_service_request ::
  "'r api \<Rightarrow> 'r proxy_host \<Rightarrow> proxy_context \<Rightarrow> long_service_record \<Rightarrow> proxied_request \<Rightarrow> string \<Rightarrow> string option \<Rightarrow> principal \<Rightarrow>
   ('r world, proxied_response) op" where
  "proxy_long_service_request api h c service request path query_string p =
     (if ls_status service = SvcStopped
      then bind (audit_proxy c ''denied'' p service (dict_of ([(''method'', JStr (pq_method request)), (''path'', JStr path),
               (''reason'', JStr ''stopped'')] @ pc_detail c))) (\<lambda>_.
           throw (http_error 409 (''long service is stopped: '' @ ls_id service)))
      else
        (let upstream = upstream_request_for service request path (case query_string of None \<Rightarrow> pq_query request | Some q \<Rightarrow> q);
             detail = dict_of ([(''method'', JStr (pq_method request)), (''path'', JStr path), (''url'', JStr (uq_url upstream))] @ pc_detail c);
             note = (\<lambda>key v. assoc_set key v detail) in
         bind (ph_send h upstream) (\<lambda>reply.
         case reply of
           UrlAnswered status headers body \<Rightarrow>
             bind (audit_proxy c ''success'' p service (note ''status_code'' (JInt status))) (\<lambda>_.
             return \<lparr>ps_content = body, ps_status_code = status, ps_headers = proxy_response_headers headers\<rparr>)
         | UrlRefused status headers body \<Rightarrow>
             bind (audit_proxy c ''upstream_error'' p service (note ''status_code'' (JInt status))) (\<lambda>_.
             return \<lparr>ps_content = body, ps_status_code = status, ps_headers = proxy_response_headers headers\<rparr>)
         | UrlFailed message \<Rightarrow>
             bind (on_store (update_long_service_status (ls_id service) SvcFailed
                     (Some (JObj [(''proxy_error'', JStr ''upstream_unavailable'')])))) (\<lambda>_.
             bind (audit_proxy c ''failed'' p service (note ''error'' (JStr message))) (\<lambda>_.
             bind (emit (ap_event_bus api) ''service.proxy_failed'' SrcApi (no_args\<lparr>a_project_id := ls_project_id service,
                     a_worker_id := Some (ls_id service),
                     a_payload := Some (JObj [(''path'', JStr path), (''reason'', JStr ''upstream_unavailable'')])\<rparr>)) (\<lambda>_.
             throw (http_error 502 ''managed service upstream is unavailable'')))))))"

definition proxy_long_running_service ::
  "'r api \<Rightarrow> 'r proxy_host \<Rightarrow> string \<Rightarrow> proxied_request \<Rightarrow> string \<Rightarrow> principal \<Rightarrow> ('r world, proxied_response) op" where
  "proxy_long_running_service api h service_id request path p =
     bind (gets (\<lambda>w. get_long_service (w_db w) service_id)) (\<lambda>found.
     case found of
       None \<Rightarrow> throw (http_error 404 (''long service not found: '' @ service_id))
     | Some service \<Rightarrow>
         bind (project_for_request api p (ls_project_id service)) (\<lambda>_.
         proxy_long_service_request api h \<lparr>pc_action = ''service.proxy'', pc_resource_type = ''long_service'', pc_resource_id = ls_id service, pc_detail = []\<rparr>
           service request path None p))"

definition proxy_repository_service ::
  "'r api \<Rightarrow> 'r proxy_host \<Rightarrow> string \<Rightarrow> string option \<Rightarrow> int option \<Rightarrow> proxied_request \<Rightarrow> string \<Rightarrow> principal \<Rightarrow> ('r world, proxied_response) op" where
  "proxy_repository_service api h name project_id version request path p =
     bind (resolve_published_repository_version api name NotebookService p project_id version) (\<lambda>(entry, v).
     bind (active_repository_service entry v) (\<lambda>(record, service).
     bind (project_for_request api p (ls_project_id service)) (\<lambda>_.
     proxy_long_service_request api h \<lparr>pc_action = ''repository.proxy'', pc_resource_type = ''repository_entry'', pc_resource_id = re_id entry,
         pc_detail = [(''name'', JStr (re_name entry)), (''version'', JInt (rv_version v)), (''kind'', JStr (ns_kind record)),
           (''service_id'', JStr (ls_id service))]\<rparr>
       service request path (Some (repository_proxy_query_string (pq_query request))) p)))"

section \<open>WebSockets\<close>

record ws_request =
  wq_path :: string
  wq_headers :: "(string \<times> string) list"
  wq_query :: string

text \<open>\<^verbatim>\<open>headers.get\<close> and \<^verbatim>\<open>query_params.get\<close>\<close>

definition ws_header :: "ws_request \<Rightarrow> string \<Rightarrow> string option" where
  "ws_header q key = map_of (map (\<lambda>(k, v). (py_lower k, v)) (wq_headers q)) key"

definition query_param :: "ws_request \<Rightarrow> string \<Rightarrow> string option" where
  "query_param q key = map_of (rev (parse_qsl (wq_query q))) key"

definition websocket_token :: "ws_request \<Rightarrow> string option" where
  "websocket_token q =
     (case ws_header q ''authorization'' of
        Some authorization \<Rightarrow>
          let scheme = takeWhile (\<lambda>c. c \<noteq> CHR '' '') authorization; v = drop 1 (dropWhile (\<lambda>c. c \<noteq> CHR '' '') authorization) in
          if CHR '' '' \<in> set authorization \<and> py_lower scheme = ''bearer'' \<and> py_strip v \<noteq> '''' then Some (py_strip v) else None
      | None \<Rightarrow> (case query_param q ''token'' of Some t \<Rightarrow> if t = '''' then None else Some t | None \<Rightarrow> None))"

text \<open>The code and the reason with which a client is closed.\<close>

type_synonym ws_close = "int \<times> string"

definition audit_ws_failure :: "ws_request \<Rightarrow> string \<Rightarrow> string \<Rightarrow> ('r world, unit) op" where
  "audit_ws_failure q outcome reason = audit ''auth.failure'' outcome None None None None
     (Some (JObj [(''route'', JStr (wq_path q)), (''reason'', JStr reason)]))"

definition authenticate_service_websocket :: "'r api \<Rightarrow> ws_request \<Rightarrow> ('r session, ws_close + principal) op" where
  "authenticate_service_websocket api q =
     (case websocket_token q of
        None \<Rightarrow> in_world (bind (audit_ws_failure q ''denied'' ''missing token'') (\<lambda>_. return (Inl (1008, ''missing or invalid bearer token''))))
      | Some token \<Rightarrow>
          handle (bind (authenticate_token (ap_auth api) token (ap_bootstrap_token api) (ap_oidc api) (ap_jupyterhub api)) (\<lambda>p.
                  bind (in_world (check_rate_limit p (wq_path q) (ap_rate_limit api))) (\<lambda>_. return (Inr p))))
            (\<lambda>e. case error_class e of
                AuthError _ \<Rightarrow> in_world (bind (audit_ws_failure q ''denied'' (error_message e)) (\<lambda>_.
                  return (Inl (1008, ''missing or invalid bearer token''))))
              | RateLimitExceeded \<Rightarrow> in_world (bind (audit_ws_failure q ''rate_limited'' (error_message e)) (\<lambda>_.
                  return (Inl (1013, ''rate limit exceeded''))))
              | _ \<Rightarrow> throw e))"

definition authorize_service_websocket :: "ws_request \<Rightarrow> principal \<Rightarrow> string option \<Rightarrow> ('r world, ws_close option) op" where
  "authorize_service_websocket q p project_id =
     handle (bind (lift_result (require_project_access p project_id)) (\<lambda>_. return None)) (\<lambda>e. case error_class e of
         AuthError _ \<Rightarrow> bind (audit ''project.access_denied'' ''denied'' (Some p) project_id None None
             (Some (JObj [(''route'', JStr (wq_path q)), (''reason'', JStr (error_message e))]))) (\<lambda>_. return (Some (1008, ''project access denied'')))
       | _ \<Rightarrow> throw e)"

definition ws_scheme :: "string \<Rightarrow> string option" where
  "ws_scheme scheme = map_of [(''http'', ''ws''), (''https'', ''wss''), (''ws'', ''ws''), (''wss'', ''wss'')] (py_lower scheme)"

definition urlunsplit :: "string \<Rightarrow> string \<Rightarrow> string \<Rightarrow> string \<Rightarrow> string" where
  "urlunsplit scheme netloc path query =
     scheme @ ''://'' @ netloc @ (if path \<noteq> '''' \<and> take 1 path \<noteq> ''/'' then ''/'' @ path else path) @ (if query \<noteq> '''' then ''?'' @ query else '''')"

definition service_websocket_url :: "'r proxy_host \<Rightarrow> string \<Rightarrow> string \<Rightarrow> string \<Rightarrow> string result" where
  "service_websocket_url h base_url path query =
     bind_result (ph_urlsplit h base_url) (\<lambda>parsed.
     case (ws_scheme (wu_scheme parsed), Option.bind (wu_hostname parsed) (\<lambda>n. if n = '''' then None else Some n)) of
       (Some scheme, Some _) \<Rightarrow>
         if wu_username parsed \<noteq> None \<or> wu_password parsed \<noteq> None
         then Inl (Raise ValueError ''managed service base_url must not contain credentials'')
         else if wu_query parsed \<noteq> '''' \<or> wu_fragment parsed \<noteq> ''''
         then Inl (Raise ValueError ''managed service base_url must not contain a query or fragment'')
         else let encoded_path = quote ''/'' path; base_path = strip_slashes (wu_path parsed);
                target = (if encoded_path \<noteq> '''' then base_path @ ''/'' @ encoded_path else if base_path \<noteq> '''' then base_path else ''/'') in
              Inr (urlunsplit scheme (wu_netloc parsed) target query)
     | _ \<Rightarrow> Inl (Raise ValueError ''managed service base_url must use http, https, ws, or wss''))"

definition ws_proxy_request_headers :: "ws_request \<Rightarrow> (string \<times> string) list" where
  "ws_proxy_request_headers q = filter (\<lambda>(k, _). py_lower k \<notin> set SENSITIVE_HEADERS \<and> py_lower k \<notin> set HANDSHAKE_HEADERS \<and>
     py_lower k \<noteq> ''origin'') (wq_headers q)"

definition subprotocol_char :: "char \<Rightarrow> bool" where
  "subprotocol_char c \<longleftrightarrow> ascii_alnum c \<or> c \<in> set ''!#$%&*+-.^_`|~'' \<or> c = CHR 0x27"

text \<open>\<^verbatim>\<open>dict.fromkeys\<close> keeps the first of equal keys.\<close>

definition first_of_each :: "'a list \<Rightarrow> 'a list" where
  "first_of_each xs = rev (remdups (rev xs))"

definition requested_subprotocols :: "ws_request \<Rightarrow> (int \<times> string \<times> string) + string list" where
  "requested_subprotocols q =
     (let raw = (case ws_header q ''sec-websocket-protocol'' of None \<Rightarrow> '''' | Some v \<Rightarrow> v);
          values = filter (\<lambda>v. v \<noteq> '''') (map py_strip (split_on (CHR '','') raw)) in
      if 16 < length values \<or> \<not> list_all (list_all subprotocol_char) values
      then Inl (1008, ''invalid subprotocol'', ''invalid WebSocket subprotocol request'') else Inr (first_of_each values))"

definition record_proxy_outcome ::
  "'r api \<Rightarrow> proxy_context \<Rightarrow> string \<Rightarrow> principal \<Rightarrow> long_service_record \<Rightarrow> (string \<times> json) list \<Rightarrow> ('r world, unit) op" where
  "record_proxy_outcome api c outcome p service detail =
     bind (audit_proxy c outcome p service detail) (\<lambda>_.
     bind (emit (ap_event_bus api) ''service.websocket_proxy'' SrcApi (no_args\<lparr>a_project_id := ls_project_id service, a_worker_id := Some (ls_id service),
             a_payload := Some (JObj [(''kind'', JStr (ls_kind service)), (''outcome'', JStr outcome),
               (''close_code'', json_opt id (map_of detail ''close_code'')), (''reason'', json_opt id (map_of detail ''reason''))])\<rparr>)) (\<lambda>_. return ()))"

definition record_result ::
  "'r api \<Rightarrow> proxy_context \<Rightarrow> principal \<Rightarrow> long_service_record \<Rightarrow> (string \<times> json) list \<Rightarrow> relay_result \<Rightarrow> ('r world, unit) op" where
  "record_result api c p service detail x =
     (let outcome = (if rr_outcome x \<in> {ClientClosed, UpstreamClosed} \<and> rr_close_code x \<in> {1000, 1001} then ''success'' else relay_outcome_text (rr_outcome x));
          n = rr_counters x in
      record_proxy_outcome api c outcome p service (dict_of (detail @ [(''terminal'', JStr (relay_outcome_text (rr_outcome x))),
        (''close_code'', JInt (rr_close_code x)), (''reason'', JStr (rr_reason x)), (''client_frames'', JInt (ct_client_frames n)),
        (''client_bytes'', JInt (ct_client_bytes n)), (''upstream_frames'', JInt (ct_upstream_frames n)),
        (''upstream_bytes'', JInt (ct_upstream_bytes n))])))"

text \<open>From the URL of the service to the close of the client, or \<open>None\<close> when the relay closed it.\<close>

definition relay_failed ::
  "'r api \<Rightarrow> proxy_context \<Rightarrow> principal \<Rightarrow> long_service_record \<Rightarrow> (string \<times> json) list \<Rightarrow> int \<times> string \<times> string \<Rightarrow> ('r world, ws_close option) op" where
  "relay_failed api c p service detail failure =
     (let (code, reason, message) = failure in
      bind (record_proxy_outcome api c ''failed'' p service (dict_of (detail @ [(''close_code'', JInt code), (''reason'', JStr reason),
              (''error'', JStr message)]))) (\<lambda>_. return (Some (code, reason))))"

definition relay_frames ::
  "'r api \<Rightarrow> 'r proxy_host \<Rightarrow> proxy_context \<Rightarrow> principal \<Rightarrow> long_service_record \<Rightarrow> (string \<times> json) list \<Rightarrow> ws_request \<Rightarrow> string \<Rightarrow> string \<Rightarrow>
   ('r world, ws_close option) op" where
  "relay_frames api h c p service detail q path query =
     (case service_websocket_url h (ls_base_url service) path query of
        Inl e \<Rightarrow> if is_value_error e then relay_failed api c p service detail (1008, ''invalid route'', error_message e) else throw e
      | Inr upstream_url \<Rightarrow>
          (case requested_subprotocols q of
             Inl failure \<Rightarrow> relay_failed api c p service detail failure
           | Inr subprotocols \<Rightarrow>
               bind (ph_relay h upstream_url (ws_proxy_request_headers q) subprotocols) (\<lambda>(reports, failure).
               bind (for_each (record_result api c p service detail) reports) (\<lambda>_.
               case failure of None \<Rightarrow> return None | Some f \<Rightarrow> relay_failed api c p service detail f))))"

text \<open>\<^verbatim>\<open>await drains.unregister(...)\<close>: a service that waited for its last client is retired now.\<close>

definition unregister_relay :: "'r api \<Rightarrow> string \<Rightarrow> 'w \<Rightarrow> (('r, 'w) drained, unit) op" where
  "unregister_relay api service_id websocket = (\<lambda>(w, d).
     case unregister service_id websocket d of
       ((None, _), d') \<Rightarrow> (Inr (), (w, d'))
     | ((Some ret, _), d') \<Rightarrow> (case retire_replaced api ret w of (r, w') \<Rightarrow> (r, (w', retired service_id d'))))"

definition proxy_service_websocket ::
  "'r api \<Rightarrow> 'r proxy_host \<Rightarrow> proxy_context \<Rightarrow> long_service_record \<Rightarrow> ws_request \<Rightarrow> 'w \<Rightarrow> string \<Rightarrow> principal \<Rightarrow> string list \<Rightarrow>
   (('r, 'w) drained, ws_close option) op" where
  "proxy_service_websocket api h c service q websocket path p query_excluded =
     (let detail = dict_of ([(''path'', JStr path), (''service_id'', JStr (ls_id service)), (''kind'', JStr (ls_kind service))] @ pc_detail c) in
      bind (\<lambda>(w, d). case admit_relay (pc_action c) (pc_resource_type c) (pc_resource_id c) p detail websocket service d w of
              (Inl e, w') \<Rightarrow> (Inl e, (w', d)) | (Inr (admission, d'), w') \<Rightarrow> (Inr admission, (w', d'))) (\<lambda>admission.
      case admission of
        NotReady \<Rightarrow> return (Some (1013, ''managed service is not ready''))
      | Draining \<Rightarrow> return (Some (1012, ''managed service is being replaced''))
      | Admitted \<Rightarrow>
          ensuring (on_world (relay_frames api h c p service detail q path (filtered_query_string (wq_query q) query_excluded)))
            (unregister_relay api (ls_id service) websocket)))"

text \<open>The route of a registered service, after the authentication.\<close>

definition proxy_long_running_service_websocket ::
  "'r api \<Rightarrow> 'r proxy_host \<Rightarrow> string \<Rightarrow> string \<Rightarrow> ws_request \<Rightarrow> 'w \<Rightarrow> principal \<Rightarrow> (('r, 'w) drained, ws_close option) op" where
  "proxy_long_running_service_websocket api h service_id path q websocket p =
     bind (on_world (gets (\<lambda>w. get_long_service (w_db w) service_id))) (\<lambda>found.
     case found of
       None \<Rightarrow> return (Some (1008, ''managed service is unavailable''))
     | Some service \<Rightarrow>
         bind (on_world (authorize_service_websocket q p (ls_project_id service))) (\<lambda>refused.
         case refused of Some close \<Rightarrow> return (Some close)
         | None \<Rightarrow> proxy_service_websocket api h
             \<lparr>pc_action = ''service.websocket_proxy'', pc_resource_type = ''long_service'', pc_resource_id = ls_id service, pc_detail = []\<rparr>
             service q websocket path p [''token'']))"

text \<open>The runtime that a name stands for: the selected version, or the last that was known to be good.\<close>

definition requested_version_text :: "ws_request \<Rightarrow> int option option" where
  "requested_version_text q =
     (case query_param q ''version'' of
        None \<Rightarrow> Some None
      | Some raw \<Rightarrow> (case py_int raw of Inr n \<Rightarrow> if n \<le> 0 then None else Some (Some n) | Inl _ \<Rightarrow> None))"

text \<open>\<^verbatim>\<open>_last_known_good_repository_service\<close> with its version.\<close>

type_synonym service_route = "repository_version_record \<times> notebook_service_record \<times> long_service_record"

definition last_known_good_route :: "db \<Rightarrow> repository_entry_record \<Rightarrow> service_route option" where
  "last_known_good_route d entry =
     (case find (\<lambda>v. ready_runtime d v \<noteq> None) (rev (list_repository_versions d (re_id entry) (Some Published))) of
        None \<Rightarrow> None
      | Some v \<Rightarrow> map_option (\<lambda>(record, service). (v, record, service)) (ready_runtime d v))"

definition websocket_target ::
  "'r api \<Rightarrow> string \<Rightarrow> string option \<Rightarrow> int option \<Rightarrow> principal \<Rightarrow> ('r world, ws_close + repository_entry_record \<times> service_route) op" where
  "websocket_target api name project_id version p =
     bind (catching is_http_error (resolve_published_repository_version api name NotebookService p project_id version)) (\<lambda>chosen.
     case chosen of
       Inl _ \<Rightarrow> return (Inl (1008, ''repository service is unavailable''))
     | Inr (entry, v) \<Rightarrow>
         bind (catching is_http_error (active_repository_service entry v)) (\<lambda>active.
         bind (gets (\<lambda>w. last_known_good_route (w_db w) entry)) (\<lambda>fallback.
         return (case active of
           Inl _ \<Rightarrow>
             if version \<noteq> None then Inl (1008, ''repository service is unavailable'')
             else (case fallback of None \<Rightarrow> Inl (1013, ''repository service is not ready'') | Some r \<Rightarrow> Inr (entry, r))
         | Inr (record, service) \<Rightarrow>
             if version = None \<and> \<not> service_websocket_ready service
             then (case fallback of None \<Rightarrow> Inr (entry, v, record, service) | Some r \<Rightarrow> Inr (entry, r))
             else Inr (entry, v, record, service)))))"

definition proxy_repository_service_websocket ::
  "'r api \<Rightarrow> 'r proxy_host \<Rightarrow> string \<Rightarrow> string \<Rightarrow> ws_request \<Rightarrow> 'w \<Rightarrow> principal \<Rightarrow> (('r, 'w) drained, ws_close option) op" where
  "proxy_repository_service_websocket api h name path q websocket p =
     (case requested_version_text q of
        None \<Rightarrow> return (Some (1008, ''invalid repository service version''))
      | Some version \<Rightarrow>
          bind (on_world (websocket_target api name (query_param q ''project_id'') version p)) (\<lambda>target.
          case target of
            Inl close \<Rightarrow> return (Some close)
          | Inr (entry, v, record, service) \<Rightarrow>
              bind (on_world (authorize_service_websocket q p (ls_project_id service))) (\<lambda>refused.
              case refused of Some close \<Rightarrow> return (Some close)
              | None \<Rightarrow> proxy_service_websocket api h
                  \<lparr>pc_action = ''repository.websocket_proxy'', pc_resource_type = ''repository_entry'', pc_resource_id = re_id entry,
                   pc_detail = [(''name'', JStr (re_name entry)), (''version'', JInt (rv_version v)), (''kind'', JStr (ns_kind record))]\<rparr>
                  service q websocket path p [''token'', ''project_id'', ''version''])))"

section \<open>What is sent upstream\<close>

lemma set_dict_of: "set (dict_of ps) \<subseteq> set ps" "distinct (map fst (dict_of ps))"
proof -
  have one: "set (assoc_set k v ms) \<subseteq> insert (k, v) (set ms)" "distinct (map fst ms) \<Longrightarrow> distinct (map fst (assoc_set k v ms))" for k :: string and v :: 'a and ms
  proof -
    show "set (assoc_set k v ms) \<subseteq> insert (k, v) (set ms)" by (induction ms) (auto split: if_splits)
    show "distinct (map fst ms) \<Longrightarrow> distinct (map fst (assoc_set k v ms))"
    proof (induction ms)
      case (Cons x ms)
      have "fst ` set (assoc_set k v ms) \<subseteq> insert k (fst ` set ms)" by (induction ms) auto
      with Cons show ?case by (cases x) auto
    qed simp
  qed
  have sub: "set (fold (\<lambda>(k, v) ms. assoc_set k v ms) ps ms) \<subseteq> set ps \<union> set ms" for ms :: "(string \<times> 'a) list"
  proof (induction ps arbitrary: ms)
    case (Cons x ps)
    show ?case using Cons [of "assoc_set (fst x) (snd x) ms"] one(1) [of "fst x" "snd x" ms] by (cases x) auto
  qed simp
  have dist: "distinct (map fst ms) \<Longrightarrow> distinct (map fst (fold (\<lambda>(k, v) ms. assoc_set k v ms) ps ms))" for ms :: "(string \<times> 'a) list"
  proof (induction ps arbitrary: ms)
    case (Cons x ps)
    show ?case using Cons.IH [OF one(2) [OF Cons.prems, of "fst x" "snd x"]] by (cases x) simp
  qed simp
  show "set (dict_of ps) \<subseteq> set ps" "distinct (map fst (dict_of ps))"
    using sub [of "[]"] dist [of "[]"] by (simp_all add: dict_of_def)
qed

text \<open>The headers a relay leaves out, in either direction.\<close>

definition dropped_request_header :: "string \<Rightarrow> bool" where
  "dropped_request_header key \<longleftrightarrow> py_lower key \<in> {''authorization'', ''cookie'', ''host'', ''proxy-authorization'', ''x-api-key'',
     ''x-auth-token'', ''connection'', ''keep-alive'', ''proxy-authenticate'', ''te'', ''trailer'', ''transfer-encoding'', ''upgrade''}"

definition dropped_response_header :: "string \<Rightarrow> bool" where
  "dropped_response_header key \<longleftrightarrow> py_lower key \<in> {''content-length'', ''set-cookie'', ''connection'', ''keep-alive'',
     ''proxy-authenticate'', ''proxy-authorization'', ''te'', ''trailer'', ''transfer-encoding'', ''upgrade''}"

text \<open>The characters of a quoted path: none of them starts a query or a fragment.\<close>

definition path_char :: "char \<Rightarrow> bool" where
  "path_char c \<longleftrightarrow> unreserved c \<or> c = CHR ''/'' \<or> c = CHR ''%''"

lemma map_of_dict_of: "map_of (dict_of ps) k = map_of (rev ps) k"
proof -
  have "map_of (fold (\<lambda>(k, v) ms. assoc_set k v ms) ps ms) k = (map_of ms ++ map_of (rev ps)) k" for ms :: "(string \<times> 'a) list"
    by (induction ps arbitrary: ms) (auto simp: map_add_def split: option.split)
  then show ?thesis by (simp add: dict_of_def)
qed

lemma map_of_filter_key: "map_of (filter (\<lambda>(k, _). P k) ps) k = (if P k then map_of ps k else None)"
  by (induction ps) auto

lemma quoted_path: "list_all path_char (quote ''/'' path)"
proof -
  have "ascii_alnum (hex_char n)" if "n < 16" for n using that by (auto simp: ascii_alnum_def hex_char_def byte_def)
  then have "list_all path_char (quote_char ''/'' c)" for c
    using byte_bound [of c] by (auto simp: quote_char_def path_char_def unreserved_def)
  then show ?thesis by (auto simp: quote_def list_all_iff)
qed

lemma request_forwarded:
  "map_of (proxy_request_headers request) k = (if dropped_request_header k then None else map_of (rev (pq_headers request)) k)"
proof -
  have "(\<lambda>(k :: string, _ :: string). py_lower k \<notin> set SENSITIVE_PROXY_REQUEST_HEADERS \<and> py_lower k \<notin> set HOP_BY_HOP_HEADERS) =
      (\<lambda>(k, _). \<not> dropped_request_header k)"
    by (auto simp: dropped_request_header_def SENSITIVE_PROXY_REQUEST_HEADERS_def HOP_BY_HOP_HEADERS_def)
  then show ?thesis
    unfolding proxy_request_headers_def map_of_dict_of rev_filter by (simp only: map_of_filter_key split: if_split) simp
qed

lemma response_forwarded:
  "map_of (proxy_response_headers headers) k = (if dropped_response_header k then None else map_of (rev headers) k)"
proof -
  have "(\<lambda>(k :: string, _ :: string). py_lower k \<notin> set HOP_BY_HOP_HEADERS \<and> py_lower k \<notin> {''content-length'', ''set-cookie''}) =
      (\<lambda>(k, _). \<not> dropped_response_header k)"
    by (auto simp: dropped_response_header_def HOP_BY_HOP_HEADERS_def)
  then show ?thesis
    unfolding proxy_response_headers_def map_of_dict_of [symmetric] by (simp only: map_of_filter_key split: if_split) simp
qed

lemma proxied_Inr:
  assumes "proxy_long_service_request api h c service request path query p w = (Inr response, w')"
  shows "ls_status service \<noteq> SvcStopped \<and> (\<exists>q w1 reply w2. q = upstream_request_for service request path (case query of None \<Rightarrow> pq_query request | Some t \<Rightarrow> t) \<and>
     ph_send h q w = (Inr reply, w2) \<and>
     (\<exists>status headers body. (reply = UrlAnswered status headers body \<or> reply = UrlRefused status headers body) \<and>
        response = \<lparr>ps_content = body, ps_status_code = status, ps_headers = proxy_response_headers headers\<rparr>))"
proof -
  let ?q = "upstream_request_for service request path (case query of None \<Rightarrow> pq_query request | Some t \<Rightarrow> t)"
  have running: "ls_status service \<noteq> SvcStopped"
    using assms bind_throw_Inr by (fastforce simp: proxy_long_service_request_def)
  then obtain reply w2 where "ph_send h ?q w = (Inr reply, w2)"
    using assms by (auto simp: proxy_long_service_request_def Let_def bind_Inr_iff)
  with assms running show ?thesis
    by (cases reply) (auto simp: proxy_long_service_request_def Let_def bind_Inr_iff throw_eq return_eq)
qed


text \<open>
  What the service parses of the query of a relay is what the client sent, without the parameters that
  belong to the proxy: the token of the client never reaches the service.
\<close>

theorem relayed_query_exact:
  assumes "list_all (\<lambda>c. byte c < 128) raw"
  shows "parse_qsl (filtered_query_string raw excluded) =
    filter (\<lambda>(k, _). py_lower k \<notin> set (map py_lower excluded)) (parse_qsl raw)"
  unfolding filtered_query_string_def by (rule filtered_query_exact [OF assms])

theorem relayed_query_exact_witness:
  "parse_qsl (filtered_query_string ''a=1%202&Token=x%26y&b'' [''token'']) = [(''a'', ''1 2''), (''b'', '''')]"
proof -
  have raw: "list_all (\<lambda>c. byte c < 128) ''a=1%202&Token=x%26y&b''" by (simp add: byte_def)
  have "parse_qsl ''a=1%202&Token=x%26y&b'' = [(''a'', ''1 2''), (''Token'', ''x&y''), (''b'', '''')]" by code_simp
  moreover have "filter (\<lambda>(k, _). py_lower k \<notin> set (map py_lower [''token''])) [(''a'', ''1 2''), (''Token'', ''x&y''), (''b'', '''')] =
      [(''a'', ''1 2''), (''b'', '''')]" by code_simp
  ultimately show ?thesis unfolding relayed_query_exact [OF raw] by simp
qed

section \<open>Relays\<close>

definition connected :: "('w, 'c) drains \<Rightarrow> 'w \<Rightarrow> bool" where
  "connected d websocket \<longleftrightarrow> (\<exists>i s. d i = Some s \<and> websocket \<in> set (ds_connections s))"

lemma registered_elsewhere:
  assumes "\<not> connected d websocket" and "register service_id websocket d = (admitted, d')"
  shows "i \<noteq> service_id \<Longrightarrow> d' i = d i" "\<not> admitted \<Longrightarrow> \<not> connected d' websocket"
  using assms by (auto simp: register_def drain_state_of_def new_drain_state_def connected_def Let_def split: if_splits option.splits)

lemma unregistered:
  assumes "unregister service_id websocket d = (x, d')" and "\<And>i s. i \<noteq> service_id \<Longrightarrow> d i = Some s \<Longrightarrow> websocket \<notin> set (ds_connections s)"
  shows "\<not> connected d' websocket"
  using assms by (auto simp: unregister_def connected_def Let_def split: if_splits option.splits) (metis option.distinct(1))

lemma unregister_relay_disconnects:
  assumes "unregister_relay api service_id websocket (w, d) = (r, (w', d'))"
    and "\<And>i s. i \<noteq> service_id \<Longrightarrow> d i = Some s \<Longrightarrow> websocket \<notin> set (ds_connections s)"
  shows "\<not> connected d' websocket"
proof -
  obtain callback cancel d1 where u: "unregister service_id websocket d = ((callback, cancel), d1)" by (metis prod.exhaust)
  have "\<not> connected d1 websocket" using unregistered [OF u] assms(2) by blast
  moreover have "\<not> connected d1 websocket \<Longrightarrow> \<not> connected (retired service_id d1) websocket"
    by (auto simp: retired_def connected_def split: if_splits)
  ultimately show ?thesis using assms(1) u by (cases callback) (auto simp: unregister_relay_def split: prod.splits)
qed

lemma proxied_websocket_disconnects:
  assumes "proxy_service_websocket api h c service q websocket path p excluded (w, d) = (r, (w', d'))" and "\<not> connected d websocket"
  shows "\<not> connected d' websocket \<and> (r = Inr None \<longrightarrow> service_websocket_ready service)"
proof -
  let ?detail = "dict_of ([(''path'', JStr path), (''service_id'', JStr (ls_id service)), (''kind'', JStr (ls_kind service))] @ pc_detail c)"
  obtain a w1 where admit: "admit_relay (pc_action c) (pc_resource_type c) (pc_resource_id c) p ?detail websocket service d w = (a, w1)" by fastforce
  show ?thesis
  proof (cases a)
    case (Inl e)
    then show ?thesis using assms admit by (auto simp: proxy_service_websocket_def Let_def bind_def)
  next
    case (Inr ad)
    obtain admission d1 where ad: "ad = (admission, d1)" by fastforce
    have d1: "admission = Admitted \<Longrightarrow> service_websocket_ready service \<and> (\<forall>i. i \<noteq> ls_id service \<longrightarrow> d1 i = d i)"
      "admission \<noteq> Admitted \<Longrightarrow> \<not> connected d1 websocket"
      using admit registered_elsewhere [OF assms(2)] assms(2) unfolding Inr ad
      by (auto simp: admit_relay_def bind_Inr_iff return_eq Let_def split: if_splits prod.splits bool.splits)
    show ?thesis
    proof (cases "admission = Admitted")
      case False
      then show ?thesis using assms(1) admit d1(2) unfolding Inr ad
        by (cases admission) (auto simp: proxy_service_websocket_def Let_def bind_def return_eq)
    next
      case True
      have elsewhere: "websocket \<notin> set (ds_connections s)" if "i \<noteq> ls_id service" "d1 i = Some s" for i s
        using that d1(1) [OF True] assms(2) by (auto simp: connected_def)
      obtain r2 w2 where frames: "relay_frames api h c p service ?detail q path (filtered_query_string (wq_query q) excluded) w1 = (r2, w2)"
        by fastforce
      obtain r3 w3 d3 where u: "unregister_relay api (ls_id service) websocket (w2, d1) = (r3, (w3, d3))" by (metis prod.exhaust)
      have "\<not> connected d3 websocket" using unregister_relay_disconnects [OF u] elsewhere by blast
      moreover have "d' = d3" using assms(1) admit frames u unfolding Inr ad True
        by (auto simp: proxy_service_websocket_def Let_def bind_def ensuring_def on_world_def split: sum.splits)
      ultimately show ?thesis using d1(1) [OF True] by simp
    qed
  qed
qed

text \<open>
  C36. However a relay ends, and also when it is refused, its client is no longer registered with the service,
  so that a drain does not wait for it. A relay that came to an end of its own was opened to a service
  with a recorded readiness, to a principal that may access its project.
\<close>

theorem relay_leaves_registry:
  assumes "proxy_long_running_service_websocket api h service_id path q websocket p (w, d) = (r, (w', d'))" and "\<not> connected d websocket"
  shows "\<not> connected d' websocket \<and> (r = Inr None \<longrightarrow> (\<exists>service. get_long_service (w_db w) service_id = Some service \<and>
    service_websocket_ready service \<and> may_access p (ls_project_id service)))"
proof (cases "get_long_service (w_db w) service_id")
  case None
  then show ?thesis using assms
    by (auto simp: proxy_long_running_service_websocket_def on_world_def bind_def gets_eq return_eq)
next
  case (Some service)
  obtain a w1 where auth: "authorize_service_websocket q p (ls_project_id service) w = (a, w1)" by fastforce
  let ?c = "\<lparr>pc_action = ''service.websocket_proxy'', pc_resource_type = ''long_service'', pc_resource_id = ls_id service, pc_detail = []\<rparr>"
  have route: "(r, (w', d')) = (case a of Inl e \<Rightarrow> (Inl e, (w1, d)) | Inr (Some close) \<Rightarrow> (Inr (Some close), (w1, d))
      | Inr None \<Rightarrow> proxy_service_websocket api h ?c service q websocket path p [''token''] (w1, d))"
    using assms(1) Some auth
    by (auto simp: proxy_long_running_service_websocket_def on_world_def bind_def gets_eq return_eq split: sum.split option.split)
  have access: "a = Inr None \<Longrightarrow> may_access p (ls_project_id service)"
    using auth by (auto simp: authorize_service_websocket_def require_project_access_eq handle_def bind_def lift_result_def return_eq
        auth_error_def throw_eq split: if_splits prod.splits sum.splits)
  show ?thesis
  proof (cases "a = Inr None")
    case True
    then have "proxy_service_websocket api h ?c service q websocket path p [''token''] (w1, d) = (r, (w', d'))" using route by simp
    from proxied_websocket_disconnects [OF this assms(2)] show ?thesis using Some access [OF True] by auto
  next
    case False
    then show ?thesis using route assms(2) by (auto split: sum.splits option.splits)
  qed
qed

text \<open>
  The relay asks more of the principal than the HTTP proxy does: a service without a project is open to
  every member over HTTP, and refused to them over a WebSocket.
\<close>

theorem websocket_scope_narrower:
  assumes "\<not> is_admin p" and "pr_project_id p = Some x" and "x \<noteq> ''''"
  shows "project_for_request api p None w = (Inr (Some x), w) \<and>
    fst (authorize_service_websocket q p None w) \<noteq> Inr None"
proof
  show "project_for_request api p None w = (Inr (Some x), w)"
    using assms by (simp add: project_for_request_eq resolved_project_def may_access_def truthy_text_def return_eq)
  have refused: "require_project_access p None = Inl (auth_error ''project access denied'' 403)"
    using assms by (simp add: require_project_access_eq may_access_def)
  show "fst (authorize_service_websocket q p None w) \<noteq> Inr None"
    unfolding authorize_service_websocket_def refused
    by (simp add: handle_def bind_def lift_result_def auth_error_def return_eq split: prod.split sum.split)
qed

section \<open>A proxied service\<close>

definition demo_proxy_host :: "unit proxy_host" where
  "demo_proxy_host = \<lparr>ph_send = (\<lambda>_. return (UrlAnswered 200 [(''Set-Cookie'', ''s=1''), (''content-type'', ''text/plain'')] ''hello'')),
     ph_urlsplit = (\<lambda>_. Inr \<lparr>wu_scheme = ''http'', wu_netloc = ''old'', wu_path = '''', wu_query = '''', wu_fragment = '''',
       wu_hostname = Some ''old'', wu_username = None, wu_password = None\<rparr>),
     ph_relay = (\<lambda>_ _ _. return (relay_run_of demo_relay))\<rparr>"

definition service_db :: db where
  "service_db = empty_db\<lparr>long_services_table := [old_service]\<rparr>"

lemma demo_proxied_service: "get_long_service service_db ''old'' = Some old_service"
  by code_simp


theorem relay_leaves_registry_witness:
  "\<exists>w' d'. proxy_long_running_service_websocket demo_api demo_proxy_host ''old'' ''chat''
       \<lparr>wq_path = ''/ws'', wq_headers = [], wq_query = ''token=t''\<rparr> (7 :: nat) (demo_member ''p1'') (fresh_world service_db, \<lambda>_. None) = (Inr None, (w', d')) \<and>
     \<not> connected d' (7 :: nat) \<and> may_access (demo_member ''p1'') (Some ''p1'')"
proof -
  let ?run = "proxy_long_running_service_websocket demo_api demo_proxy_host ''old'' ''chat''
       \<lparr>wq_path = ''/ws'', wq_headers = [], wq_query = ''token=t''\<rparr> (7 :: nat) (demo_member ''p1'') (fresh_world service_db, \<lambda>_. None)"
  have "map_sum (\<lambda>_. ()) (\<lambda>c. c = None) (fst ?run) = Inr True" by code_simp
  then obtain w' d' where run: "?run = (Inr None, (w', d'))" by (cases ?run; cases "fst ?run") auto
  have "get_long_service (w_db (fresh_world service_db)) ''old'' = Some old_service"
    using demo_proxied_service by (simp add: fresh_world_def)
  then have "may_access (demo_member ''p1'') (Some ''p1'')" "\<not> connected d' (7 :: nat)"
    using relay_leaves_registry [OF run] by (auto simp: connected_def old_service_def)
  then show ?thesis using run by blast
qed

theorem websocket_scope_narrower_witness:
  "project_for_request demo_api (demo_member ''p1'') None (fresh_world empty_db) = (Inr (Some ''p1''), fresh_world empty_db) \<and>
   fst (authorize_service_websocket \<lparr>wq_path = ''/ws'', wq_headers = [], wq_query = ''''\<rparr> (demo_member ''p1'') None (fresh_world empty_db)) \<noteq> Inr None"
  by (rule websocket_scope_narrower) (simp_all add: demo_member_def is_admin_def)

end
