(* ===== verification/Kubernetes_Artifacts.thy ===== *)
theory Kubernetes_Artifacts
  imports Complex_Main Kubernetes_Runtime Run_Events Url_Query
begin

text \<open>
  The sidecar of a Kubernetes Job: \<^verbatim>\<open>src/src/goblin_king/kubernetes_artifacts.py\<close> (artifacts are copied
  into durable storage, each with its size and its digest, before the Pod goes away),
  \<^verbatim>\<open>kubernetes_result_forwarder.py\<close> (the result is published once its artifacts are retained) and the
  request of \<^verbatim>\<open>kubernetes_artifact_config.py\<close>, on Linux.

  The state \<open>sidecar\<close> is the file system and what was sent to Redis. Every system call is a step
  \<open>sys\<close>: before it the other processes of the Pod and of the storage change what they like (\<open>mc_others\<close>),
  then the call may fail (\<open>mc_fault\<close>). A file is a numbered object that may outlive its name; a directory
  is known by its path. Removing a tree, listing a directory and reading a stored file are one call each.
  The digest, \<^verbatim>\<open>urlsplit\<close>, \<^verbatim>\<open>unquote\<close>, \<^verbatim>\<open>guess_type\<close>, the clock, the names of \<^verbatim>\<open>mkdtemp\<close>, and what pydantic
  parses and prints are the record \<open>machine\<close>. The working directory is the root. A umask is not modelled: each mode is set by a later \<^verbatim>\<open>chmod\<close>.
\<close>

section \<open>The file system\<close>

datatype node = Directory nat | Regular nat | Link path | Special

record file_data =
  fd_bytes :: string
  fd_mtime :: int
  fd_ctime :: int
  fd_mode :: nat

record sidecar =
  sd_names :: "(string list \<times> node) list"
  sd_files :: "nat \<Rightarrow> file_data"
  sd_next :: nat
  sd_calls :: nat
  sd_redis :: "(string \<times> string) list"

record machine =
  mc_others :: "nat \<Rightarrow> sidecar \<Rightarrow> sidecar"
  mc_fault :: "nat \<Rightarrow> bool"
  mc_clock :: "nat \<Rightarrow> rat"
  mc_suffix :: "nat \<Rightarrow> nat \<Rightarrow> string"
  mc_sha256 :: "string \<Rightarrow> string"
  mc_urlsplit :: "string \<Rightarrow> (string \<times> string \<times> string) result"
  mc_unquote :: "string \<Rightarrow> string"
  mc_guess_type :: "string \<Rightarrow> string option"
  mc_parse :: "string \<Rightarrow> goblin_result result"
  mc_dump :: "goblin_result \<Rightarrow> string"
  mc_loads :: "string \<Rightarrow> json result"
  mc_dumps :: "json \<Rightarrow> string"
  mc_repr :: "json \<Rightarrow> string"

definition retention_error :: "string \<Rightarrow> error" where
  "retention_error reason = Raise ArtifactRetentionError reason"

definition between :: "machine \<Rightarrow> sidecar \<Rightarrow> sidecar" where
  "between mc s = (mc_others mc (sd_calls s) s)\<lparr>sd_calls := Suc (sd_calls s), sd_redis := sd_redis s\<rparr>"

definition sys :: "machine \<Rightarrow> (sidecar \<Rightarrow> 'a result \<times> sidecar) \<Rightarrow> (sidecar, 'a) op" where
  "sys mc call = (\<lambda>s. if mc_fault mc (sd_calls s) then (Inl (Raise OSError ''Input/output error''), between mc s) else call (between mc s))"

definition node_at :: "sidecar \<Rightarrow> string list \<Rightarrow> node option" where
  "node_at s p = (if p = [] then Some (Directory 493) else map_of (sd_names s) p)"

definition missing :: "'a result" where
  "missing = Inl (Raise FileNotFoundError ''No such file or directory'')"

fun is_directory :: "node \<Rightarrow> bool" where
  "is_directory (Directory _) = True"
| "is_directory _ = False"

text \<open>The walk along a path, following links, from a directory already reached; at most \<open>links\<close> of them.\<close>

function walk :: "sidecar \<Rightarrow> nat \<Rightarrow> string list \<Rightarrow> string list \<Rightarrow> string list result" where
  "walk s links done [] = Inr done"
| "walk s links done (c # cs) =
     (if c = ''..'' then walk s links (butlast done) cs
      else case node_at s (done @ [c]) of
        None \<Rightarrow> missing
      | Some (Link target) \<Rightarrow>
          (case links of 0 \<Rightarrow> Inl (Raise OSError ''Too many levels of symbolic links'')
           | Suc n \<Rightarrow> (case target of Path absolute ps \<Rightarrow> walk s n (if absolute then [] else done) (ps @ cs)))
      | Some n \<Rightarrow> if cs \<noteq> [] \<and> \<not> is_directory n then Inl (Raise OSError ''Not a directory'')
                  else walk s links (done @ [c]) cs)"
  by pat_completeness auto
termination by (relation "measures [\<lambda>(s, links, done, ps). links, \<lambda>(s, links, done, ps). length ps]") auto

definition resolved :: "sidecar \<Rightarrow> string list \<Rightarrow> string list result" where
  "resolved s p = walk s 40 [] p"

text \<open>Where a call that does not follow the last component finds its file.\<close>

definition located :: "sidecar \<Rightarrow> string list \<Rightarrow> string list result" where
  "located s p = (if p = [] then Inr [] else if last p = ''..'' then resolved s p else
     bind_result (resolved s (butlast p)) (\<lambda>parent.
     case node_at s parent of Some (Directory _) \<Rightarrow> Inr (parent @ [last p]) | _ \<Rightarrow> Inl (Raise OSError ''Not a directory'')))"

definition lstat :: "sidecar \<Rightarrow> string list \<Rightarrow> node result" where
  "lstat s p = bind_result (located s p) (\<lambda>q. case node_at s q of None \<Rightarrow> missing | Some n \<Rightarrow> Inr n)"

definition stat :: "sidecar \<Rightarrow> string list \<Rightarrow> node result" where
  "stat s p = bind_result (resolved s p) (\<lambda>q. case node_at s q of None \<Rightarrow> missing | Some n \<Rightarrow> Inr n)"

text \<open>A test of \<^verbatim>\<open>pathlib\<close> that answers no for a path that does not exist.\<close>

definition tests :: "node result \<Rightarrow> (node \<Rightarrow> bool) \<Rightarrow> bool" where
  "tests r P = (case r of Inl _ \<Rightarrow> False | Inr n \<Rightarrow> P n)"

fun is_regular :: "node \<Rightarrow> bool" where
  "is_regular (Regular _) = True"
| "is_regular _ = False"

fun is_link :: "node \<Rightarrow> bool" where
  "is_link (Link _) = True"
| "is_link _ = False"

definition pure_call :: "(sidecar \<Rightarrow> 'a result) \<Rightarrow> sidecar \<Rightarrow> 'a result \<times> sidecar" where
  "pure_call f = (\<lambda>s. (f s, s))"

definition put_node :: "string list \<Rightarrow> node \<Rightarrow> sidecar \<Rightarrow> sidecar" where
  "put_node p n s = s\<lparr>sd_names := assoc_set p n (sd_names s)\<rparr>"

definition make_directory :: "nat \<Rightarrow> string list \<Rightarrow> sidecar \<Rightarrow> unit result \<times> sidecar" where
  "make_directory mode p = (\<lambda>s. case located s p of
       Inl e \<Rightarrow> (Inl e, s)
     | Inr q \<Rightarrow> if node_at s q \<noteq> None then (Inl (Raise FileExistsError ''File exists''), s) else (Inr (), put_node q (Directory mode) s))"

definition change_mode :: "nat \<Rightarrow> string list \<Rightarrow> sidecar \<Rightarrow> unit result \<times> sidecar" where
  "change_mode mode p = (\<lambda>s. case resolved s p of
       Inl e \<Rightarrow> (Inl e, s)
     | Inr q \<Rightarrow> (case node_at s q of
         Some (Directory _) \<Rightarrow> (Inr (), if q = [] then s else put_node q (Directory mode) s)
       | Some (Regular i) \<Rightarrow> (Inr (), s\<lparr>sd_files := (sd_files s)(i := (sd_files s i)\<lparr>fd_mode := mode\<rparr>)\<rparr>)
       | _ \<Rightarrow> (Inr (), s)))"

definition below :: "string list \<Rightarrow> string list \<Rightarrow> bool" where
  "below p q \<longleftrightarrow> take (length p) q = p"

definition remove_tree :: "string list \<Rightarrow> sidecar \<Rightarrow> unit result \<times> sidecar" where
  "remove_tree p = (\<lambda>s. case lstat s p of
       Inr (Directory _) \<Rightarrow> (Inr (), s\<lparr>sd_names := filter (\<lambda>(q, _). \<not> below p q) (sd_names s)\<rparr>)
     | Inr _ \<Rightarrow> (Inl (Raise OSError ''Not a directory''), s)
     | Inl e \<Rightarrow> (Inl e, s))"

definition children :: "sidecar \<Rightarrow> string list \<Rightarrow> string list" where
  "children s p = map last (filter (\<lambda>q. q \<noteq> [] \<and> butlast q = p) (remdups (map fst (sd_names s))))"

definition list_directory :: "string list \<Rightarrow> sidecar \<Rightarrow> string list result" where
  "list_directory p s = bind_result (resolved s p) (\<lambda>q.
     case node_at s q of Some (Directory _) \<Rightarrow> Inr (children s q) | _ \<Rightarrow> Inl (Raise OSError ''Not a directory''))"

definition moved_name :: "string list \<Rightarrow> string list \<Rightarrow> string list \<Rightarrow> string list" where
  "moved_name p q r = (if below p r then q @ drop (length p) r else r)"

text \<open>\<^verbatim>\<open>rename\<close> of a directory; onto a directory that is not empty it is \<^verbatim>\<open>ENOTEMPTY\<close>.\<close>

definition rename_directory :: "string list \<Rightarrow> string list \<Rightarrow> sidecar \<Rightarrow> unit result \<times> sidecar" where
  "rename_directory p q = (\<lambda>s. case (lstat s p, located s q) of
       (Inr (Directory _), Inr target) \<Rightarrow>
         (case node_at s target of
            Some (Directory _) \<Rightarrow> if children s target \<noteq> [] then (Inl (Raise OSError ''Directory not empty''), s)
              else (Inr (), s\<lparr>sd_names := map (\<lambda>(r, n). (moved_name p target r, n)) (filter (\<lambda>(r, _). \<not> below target r) (sd_names s))\<rparr>)
          | Some _ \<Rightarrow> (Inl (Raise OSError ''Not a directory''), s)
          | None \<Rightarrow> (Inr (), s\<lparr>sd_names := map (\<lambda>(r, n). (moved_name p target r, n)) (filter (\<lambda>(r, _). \<not> below target r) (sd_names s))\<rparr>))
     | (Inl e, _) \<Rightarrow> (Inl e, s)
     | (_, Inl e) \<Rightarrow> (Inl e, s)
     | _ \<Rightarrow> (Inl (Raise OSError ''Not a directory''), s))"

text \<open>Opening for exclusive creation: the number of the new file.\<close>

definition create_file :: "nat \<Rightarrow> string list \<Rightarrow> sidecar \<Rightarrow> nat result \<times> sidecar" where
  "create_file mode p = (\<lambda>s. case located s p of
       Inl e \<Rightarrow> (Inl e, s)
     | Inr q \<Rightarrow> if node_at s q \<noteq> None then (Inl (Raise FileExistsError ''File exists''), s)
         else (Inr (sd_next s), (put_node q (Regular (sd_next s)) s)\<lparr>sd_next := Suc (sd_next s),
           sd_files := (sd_files s)(sd_next s := \<lparr>fd_bytes = '''', fd_mtime = 0, fd_ctime = 0, fd_mode = mode\<rparr>)\<rparr>))"

definition write_file :: "nat \<Rightarrow> string \<Rightarrow> sidecar \<Rightarrow> unit result \<times> sidecar" where
  "write_file i chunk = (\<lambda>s. (Inr (), s\<lparr>sd_files := (sd_files s)(i := (sd_files s i)\<lparr>fd_bytes := fd_bytes (sd_files s i) @ chunk\<rparr>)\<rparr>))"

definition read_stored :: "string list \<Rightarrow> sidecar \<Rightarrow> string result" where
  "read_stored p s = bind_result (stat s p) (\<lambda>n. case n of Regular i \<Rightarrow> Inr (fd_bytes (sd_files s i)) | _ \<Rightarrow> Inl (Raise OSError ''Is a directory''))"

section \<open>The request\<close>

record retention_request =
  rq_source_root :: path
  rq_destination_root :: "path option"
  rq_uri_root :: "string option"
  rq_run_id :: string
  rq_project_id :: "string option"
  rq_max_files :: int
  rq_max_bytes :: int

definition environment_limit :: "(string \<Rightarrow> string option) \<Rightarrow> string \<Rightarrow> int \<Rightarrow> int result" where
  "environment_limit environ name fallback =
     (case (case environ name of None \<Rightarrow> Inr fallback | Some v \<Rightarrow> py_int v) of
        Inl _ \<Rightarrow> Inl (Raise ValueError (name @ '' must be an integer''))
      | Inr v \<Rightarrow> if v < 0 then Inl (Raise ValueError (name @ '' must be non-negative'')) else Inr v)"

definition nonempty :: "string \<Rightarrow> string option" where
  "nonempty s = (if s = '''' then None else Some s)"

definition request_from_environment :: "string \<Rightarrow> (string \<Rightarrow> string option) \<Rightarrow> retention_request result" where
  "request_from_environment run_id environ =
     (let text = (\<lambda>name. nonempty (py_strip (case environ name of None \<Rightarrow> '''' | Some v \<Rightarrow> v))) in
      bind_result (environment_limit environ ''GOBLIN_ARTIFACT_MAX_FILES'' 100) (\<lambda>max_files.
      bind_result (environment_limit environ ''GOBLIN_ARTIFACT_MAX_BYTES'' 104857600) (\<lambda>max_bytes.
      Inr \<lparr>rq_source_root = path_of (case environ ''GOBLIN_ARTIFACT_SOURCE_ROOT'' of None \<Rightarrow> ''/artifacts'' | Some v \<Rightarrow> v),
        rq_destination_root = map_option path_of (text ''GOBLIN_ARTIFACT_DESTINATION_ROOT''),
        rq_uri_root = text ''GOBLIN_KING_K8S_ARTIFACT_URI_ROOT'', rq_run_id = run_id,
        rq_project_id = Option.bind (environ ''GOBLIN_ARTIFACT_PROJECT_ID'') nonempty,
        rq_max_files = max_files, rq_max_bytes = max_bytes\<rparr>)))"

section \<open>Names\<close>

definition validate_artifact_name :: "string \<Rightarrow> unit result" where
  "validate_artifact_name name =
     (if 255 < text_length name \<or> name \<in> {''.'', ''..''} \<or> CHR ''/'' \<in> set name \<or> CHR 0x5C \<in> set name \<or>
         list_ex (\<lambda>c. (of_char c :: nat) < 32) name
      then Inl (retention_error ''artifact names must be safe single path segments'') else Inr ())"

text \<open>\<^verbatim>\<open>Path(name).suffix\<close> of a single segment.\<close>

definition path_suffix :: "string \<Rightarrow> string" where
  "path_suffix name =
     (let tail = rev (takeWhile (\<lambda>c. c \<noteq> CHR ''.'') (rev name)) in
      if CHR ''.'' \<in> set name \<and> tail \<noteq> '''' \<and> length tail + 1 < length name then CHR ''.'' # tail else '''')"

definition safe_suffix :: "string \<Rightarrow> bool" where
  "safe_suffix suffix \<longleftrightarrow> 2 \<le> length suffix \<and> length suffix \<le> 11 \<and> take 1 suffix = ''.'' \<and> list_all ascii_alnum (drop 1 suffix)"

definition stored_name :: "machine \<Rightarrow> nat \<Rightarrow> string \<Rightarrow> string" where
  "stored_name mc index name =
     (let digits = nat_digits index; suffix = (if safe_suffix (path_suffix name) then path_suffix name else '''') in
      replicate (4 - length digits) (CHR ''0'') @ digits @ ''-'' @ take 16 (mc_sha256 mc name) @ py_lower suffix)"

definition retained_directory :: "machine \<Rightarrow> string option \<Rightarrow> string \<Rightarrow> string list" where
  "retained_directory mc project_id run_id =
     [''projects'', (case project_id of None \<Rightarrow> ''unscoped'' | Some p \<Rightarrow> mc_sha256 mc p), ''runs'', mc_sha256 mc run_id]"

definition strip_right_slash :: "string \<Rightarrow> string" where
  "strip_right_slash s = rev (dropWhile (\<lambda>c. c = CHR ''/'') (rev s))"

definition retained_uri :: "string \<Rightarrow> string list \<Rightarrow> string \<Rightarrow> string" where
  "retained_uri uri_root directory name =
     (let encoded = quote ''/'' (join_slash (directory @ [name])) in
      if take 7 uri_root = ''file://'' then strip_right_slash uri_root @ ''/'' @ encoded
      else ''file://'' @ strip_right_slash (quote ''/:'' (path_text (path_of uri_root))) @ ''/'' @ encoded)"

section \<open>Media types\<close>

definition media_char :: "char \<Rightarrow> bool" where
  "media_char c \<longleftrightarrow> ascii_alnum c \<or> c \<in> set ''!#$&^_.+-''"

definition value_char :: "char \<Rightarrow> bool" where
  "value_char c \<longleftrightarrow> media_char c \<or> c = CHR '' '' \<or> c = CHR 0x22"

fun split_semicolon :: "string \<Rightarrow> string list" where
  "split_semicolon [] = [[]]"
| "split_semicolon (c # s) =
     (if c = CHR '';'' then [] # split_semicolon s
      else (case split_semicolon s of [] \<Rightarrow> [[c]] | p # ps \<Rightarrow> (c # p) # ps))"

text \<open>One parameter: its name and value, with white space around it that only another parameter may follow.\<close>

definition media_parameter :: "bool \<Rightarrow> string \<Rightarrow> bool" where
  "media_parameter last_one p =
     (let q = dropWhile py_space p; name = takeWhile media_char q; rest = dropWhile media_char q in
      name \<noteq> '''' \<and> (case rest of c # v \<Rightarrow> c = CHR ''='' \<and> v \<noteq> '''' \<and> value_char (hd v) \<and>
         (let after = dropWhile value_char v in if last_one then after = '''' else list_all py_space after) | [] \<Rightarrow> False))"

fun media_parameters :: "string list \<Rightarrow> bool" where
  "media_parameters [] = True"
| "media_parameters [p] = media_parameter True p"
| "media_parameters (p # ps) = (media_parameter False p \<and> media_parameters ps)"

definition media_head :: "bool \<Rightarrow> string \<Rightarrow> bool" where
  "media_head last_one p =
     (let maintype = takeWhile media_char p; rest = dropWhile media_char p in
      maintype \<noteq> '''' \<and> (case rest of c # v \<Rightarrow> c = CHR ''/'' \<and> v \<noteq> '''' \<and> media_char (hd v) \<and>
         (let after = dropWhile media_char v in if last_one then after = '''' else list_all py_space after) | [] \<Rightarrow> False))"

definition media_type_ok :: "string \<Rightarrow> bool" where
  "media_type_ok s = (case split_semicolon s of [] \<Rightarrow> False | p # ps \<Rightarrow> media_head (ps = []) p \<and> media_parameters ps)"

definition validated_media_type :: "machine \<Rightarrow> artifact_record \<Rightarrow> string result" where
  "validated_media_type mc artifact =
     (let media_type = (case or_text (or_text (art_media_type artifact) (mc_guess_type mc (art_name artifact))) (Some ''application/octet-stream'')
          of None \<Rightarrow> ''application/octet-stream'' | Some t \<Rightarrow> t) in
      if 255 < length media_type \<or> \<not> media_type_ok media_type
      then Inl (retention_error (''artifact '' @ py_repr (art_name artifact) @ '' media type is invalid'')) else Inr media_type)"

section \<open>The metrics a worker declares\<close>

definition metric_key :: "string \<Rightarrow> string \<Rightarrow> string" where
  "metric_key name what = ''artifact.'' @ name @ what"

definition verify_declared_metrics :: "goblin_result \<Rightarrow> string \<Rightarrow> int \<Rightarrow> string \<Rightarrow> unit result" where
  "verify_declared_metrics result name actual_size actual_digest =
     bind_result (case obj_get (res_metrics result) (metric_key name ''.bytes'') of
         None \<Rightarrow> Inr () | Some JNull \<Rightarrow> Inr ()
       | Some v \<Rightarrow> if v = JInt actual_size then Inr ()
           else Inl (retention_error (''artifact '' @ py_repr name @ '' byte count does not match its metadata''))) (\<lambda>_.
     (case obj_get (res_metrics result) (metric_key name ''.sha256'') of
         None \<Rightarrow> Inr () | Some JNull \<Rightarrow> Inr ()
       | Some (JStr declared) \<Rightarrow>
           (let lowered = py_lower declared; normalized = (if take 7 lowered = ''sha256:'' then drop 7 lowered else lowered) in
            if length normalized = 64 \<and> list_all (\<lambda>c. CHR ''0'' \<le> c \<and> c \<le> CHR ''9'' \<or> CHR ''a'' \<le> c \<and> c \<le> CHR ''f'') normalized \<and>
               normalized = actual_digest
            then Inr () else Inl (retention_error (''artifact '' @ py_repr name @ '' SHA-256 digest does not match'')))
       | Some _ \<Rightarrow> Inl (retention_error (''artifact '' @ py_repr name @ '' SHA-256 metadata is invalid''))))"

section \<open>The source of an artifact\<close>

text \<open>The numbers that identify an open file: the file, its size and its times.\<close>

type_synonym identity = "nat \<times> int \<times> int"

record artifact_source =
  src_root :: "string list"
  src_relative :: "string list"
  src_identity :: identity

definition opened_file_identity :: "sidecar \<Rightarrow> nat \<Rightarrow> identity" where
  "opened_file_identity s i = (i, int (length (fd_bytes (sd_files s i))), fd_mtime (sd_files s i))"

definition file_identity :: "sidecar \<Rightarrow> nat \<Rightarrow> identity \<times> int" where
  "file_identity s i = (opened_file_identity s i, fd_ctime (sd_files s i))"

definition outside_root :: "string \<Rightarrow> error" where
  "outside_root name = retention_error (''artifact '' @ py_repr name @ '' is missing or outside the worker artifact root'')"

fun path_components :: "path \<Rightarrow> string list" where
  "path_components (Path _ ps) = ps"

text \<open>\<^verbatim>\<open>except (FileNotFoundError, ValueError)\<close>, or another set of classes, around \<open>m\<close>.\<close>

definition rewording :: "(error \<Rightarrow> bool) \<Rightarrow> error \<Rightarrow> (sidecar, 'a) op \<Rightarrow> (sidecar, 'a) op" where
  "rewording P e m = handle m (\<lambda>e'. throw (if P e' then e else e'))"

fun reject_links :: "machine \<Rightarrow> string list \<Rightarrow> string list \<Rightarrow> string \<Rightarrow> (sidecar, unit) op" where
  "reject_links mc current [] name = return ()"
| "reject_links mc current (part # parts) name =
     bind (rewording is_os_error (outside_root name) (sys mc (pure_call (\<lambda>s. lstat s (current @ [part]))))) (\<lambda>n.
     if is_link n then throw (retention_error (''artifact '' @ py_repr name @ '' may not use symbolic links''))
     else reject_links mc (current @ [part]) parts name)"

definition raw_path :: "machine \<Rightarrow> artifact_record \<Rightarrow> path result" where
  "raw_path mc artifact =
     bind_result (mc_urlsplit mc (art_uri artifact)) (\<lambda>(scheme, netloc, p).
     if scheme \<noteq> '''' \<and> scheme \<noteq> ''file''
     then Inl (retention_error (''artifact '' @ py_repr (art_name artifact) @ '' must use a local file URI''))
     else if scheme = ''file'' \<and> netloc \<notin> {'''', ''localhost''}
     then Inl (retention_error (''artifact '' @ py_repr (art_name artifact) @ '' has a remote file authority''))
     else Inr (path_of (if scheme = ''file'' then mc_unquote mc p else art_uri artifact)))"

definition resolve_source :: "machine \<Rightarrow> string list \<Rightarrow> artifact_record \<Rightarrow> (sidecar, artifact_source) op" where
  "resolve_source mc source_root artifact =
     (let name = art_name artifact in
      bind (lift_result (raw_path mc artifact)) (\<lambda>raw.
      let candidate = (if is_absolute raw then raw else path_join (Path True source_root) raw) in
      case relative_to candidate (Path True source_root) of
        None \<Rightarrow> throw (outside_root name)
      | Some relative \<Rightarrow>
          if ''..'' \<in> set (path_components relative) then throw (outside_root name)
          else
            bind (reject_links mc source_root (path_components relative) name) (\<lambda>_.
            bind (rewording (\<lambda>e. error_class e = FileNotFoundError \<or> is_value_error e) (outside_root name)
                    (bind (sys mc (pure_call (\<lambda>s. resolved s (path_components candidate)))) (\<lambda>target.
                     if below source_root target then return target else throw (Raise ValueError ''not in the subpath'')))) (\<lambda>target.
            bind (sys mc (pure_call (\<lambda>s. bind_result (stat s target) (\<lambda>n. Inr (n, case n of Regular i \<Rightarrow> opened_file_identity s i | _ \<Rightarrow> (0, 0, 0)))))) (\<lambda>(n, ident).
            if \<not> is_regular n then throw (retention_error (''artifact '' @ py_repr name @ '' is not a regular file''))
            else return \<lparr>src_root = source_root, src_relative = path_components relative, src_identity = ident\<rparr>)))))"

section \<open>Copying\<close>

definition became_unsafe :: "string \<Rightarrow> error" where
  "became_unsafe name = retention_error (''artifact '' @ py_repr name @ '' changed or became unsafe before retention'')"

text \<open>The directories on the way are opened one by one without following links.\<close>

fun open_directories :: "machine \<Rightarrow> string list \<Rightarrow> string list \<Rightarrow> (sidecar, string list) op" where
  "open_directories mc parent [] = return parent"
| "open_directories mc parent (c # cs) =
     bind (sys mc (pure_call (\<lambda>s. case node_at s (parent @ [c]) of
         Some (Directory _) \<Rightarrow> Inr () | None \<Rightarrow> missing | Some _ \<Rightarrow> Inl (Raise OSError ''Not a directory'')))) (\<lambda>_.
     open_directories mc (parent @ [c]) cs)"

definition open_source :: "machine \<Rightarrow> artifact_source \<Rightarrow> (sidecar, node) op" where
  "open_source mc source =
     bind (sys mc (pure_call (\<lambda>s. bind_result (located s (src_root source)) (\<lambda>q. case node_at s q of
         Some (Directory _) \<Rightarrow> Inr q | None \<Rightarrow> missing | Some _ \<Rightarrow> Inl (Raise OSError ''Not a directory''))))) (\<lambda>root.
     if src_relative source = [] then throw (Raise IndexError ''tuple index out of range'')
     else bind (open_directories mc root (butlast (src_relative source))) (\<lambda>parent.
     sys mc (pure_call (\<lambda>s. case node_at s (parent @ [last (src_relative source)]) of
         None \<Rightarrow> missing | Some (Link _) \<Rightarrow> Inl (Raise OSError ''Too many levels of symbolic links'') | Some n \<Rightarrow> Inr n))))"

definition CHUNK :: nat where
  "CHUNK = 1048576"

definition next_chunk :: "nat \<Rightarrow> string \<Rightarrow> string" where
  "next_chunk offset bytes = take CHUNK (drop offset bytes)"

lemma next_chunk_code [code]:
  "next_chunk offset bytes = (let rest = drop offset bytes in if int (length rest) \<le> 1048576 then rest else take CHUNK rest)"
  by (simp add: next_chunk_def CHUNK_def Let_def)

text \<open>The loop of reads and writes, \<open>sofar\<close> what was copied. Each turn copies at least one byte, so \<open>turns\<close> may be the bytes left and two more.\<close>

fun copy_loop :: "nat \<Rightarrow> machine \<Rightarrow> nat \<Rightarrow> nat \<Rightarrow> int \<Rightarrow> string \<Rightarrow> (sidecar, string) op" where
  "copy_loop 0 mc source destination remaining sofar = throw (Raise RuntimeError ''out of turns'')"
| "copy_loop (Suc turns) mc source destination remaining sofar =
     bind (sys mc (pure_call (\<lambda>s. Inr (next_chunk (length sofar) (fd_bytes (sd_files s source)))))) (\<lambda>chunk.
     if chunk = '''' then return sofar
     else if remaining < int (length (sofar @ chunk)) then throw (retention_error ''artifact bytes exceed policy'')
     else bind (sys mc (write_file destination chunk)) (\<lambda>_. copy_loop turns mc source destination remaining (sofar @ chunk)))"

definition copy_turns :: "int \<Rightarrow> nat" where
  "copy_turns remaining = nat remaining + 2"

definition copy_open_file :: "machine \<Rightarrow> node \<Rightarrow> string list \<Rightarrow> int \<Rightarrow> string \<Rightarrow> identity \<Rightarrow> (sidecar, int \<times> string) op" where
  "copy_open_file mc source_fd destination remaining name ident =
     (case source_fd of
        Regular i \<Rightarrow>
          bind (sys mc (pure_call (\<lambda>s. Inr (file_identity s i)))) (\<lambda>before.
          if fst before \<noteq> ident then throw (became_unsafe name)
          else bind (sys mc (create_file 438 destination)) (\<lambda>j.
            bind (sys mc (\<lambda>s. (Inr (), s\<lparr>sd_files := (sd_files s)(j := (sd_files s j)\<lparr>fd_mode := 432\<rparr>)\<rparr>))) (\<lambda>_.
            bind (copy_loop (copy_turns remaining) mc i j remaining '''') (\<lambda>copied.
            bind (sys mc (pure_call (\<lambda>s. Inr (file_identity s i, int (length (fd_bytes (sd_files s i))))))) (\<lambda>(after, size).
            if before \<noteq> after \<or> int (length copied) \<noteq> size
            then throw (retention_error (''artifact '' @ py_repr name @ '' changed while it was retained''))
            else return (int (length copied), mc_sha256 mc copied))))))
      | _ \<Rightarrow> bind (sys mc (pure_call (\<lambda>s. Inr ()))) (\<lambda>_.
               throw (retention_error (''artifact '' @ py_repr name @ '' is not a regular file''))))"

definition copy_and_hash :: "machine \<Rightarrow> artifact_source \<Rightarrow> string list \<Rightarrow> int \<Rightarrow> string \<Rightarrow> (sidecar, int \<times> string) op" where
  "copy_and_hash mc source destination remaining name =
     bind (rewording is_os_error (became_unsafe name) (open_source mc source)) (\<lambda>source_fd.
     copy_open_file mc source_fd destination remaining name (src_identity source))"

section \<open>Directories of the destination\<close>

text \<open>\<^verbatim>\<open>mkdir(exist_ok=True)\<close>, and with \<^verbatim>\<open>parents=True\<close>: the missing ancestors first.\<close>

definition mkdir_exist_ok :: "machine \<Rightarrow> nat \<Rightarrow> string list \<Rightarrow> (sidecar, unit) op" where
  "mkdir_exist_ok mc mode p = handle (sys mc (make_directory mode p)) (\<lambda>e.
     if error_class e = FileNotFoundError then throw e
     else bind (sys mc (pure_call (\<lambda>s. Inr (tests (stat s p) is_directory)))) (\<lambda>there. if there then return () else throw e))"

function mkdir_parents :: "machine \<Rightarrow> string list \<Rightarrow> (sidecar, unit) op" where
  "mkdir_parents mc p = handle (sys mc (make_directory 511 p)) (\<lambda>e.
     if error_class e = FileNotFoundError
     then if p = [] \<or> butlast p = p then throw e
          else bind (mkdir_parents mc (butlast p)) (\<lambda>_. mkdir_exist_ok mc 511 p)
     else bind (sys mc (pure_call (\<lambda>s. Inr (tests (stat s p) is_directory)))) (\<lambda>there. if there then return () else throw e))"
  by pat_completeness auto
termination by (relation "measure (\<lambda>(mc, p). length p)") auto

declare mkdir_parents.simps [simp del]

fun ensure_shared_tree :: "machine \<Rightarrow> string list \<Rightarrow> string list \<Rightarrow> (sidecar, unit) op" where
  "ensure_shared_tree mc current [] = return ()"
| "ensure_shared_tree mc current (c # cs) =
     (let p = current @ [c] in
      bind (mkdir_exist_ok mc 1528 p) (\<lambda>_.
      bind (sys mc (pure_call (\<lambda>s. Inr (tests (lstat s p) is_link)))) (\<lambda>linked.
      bind (if linked then return False else sys mc (pure_call (\<lambda>s. Inr (tests (stat s p) is_directory)))) (\<lambda>there.
      if \<not> there then throw (retention_error ''retained artifact path must contain only directories'')
      else bind (sys mc (change_mode 1528 p)) (\<lambda>_. ensure_shared_tree mc p cs)))))"

fun apply_modes_to :: "machine \<Rightarrow> string list \<Rightarrow> string list \<Rightarrow> (sidecar, unit) op" where
  "apply_modes_to mc directory [] = return ()"
| "apply_modes_to mc directory (c # cs) =
     bind (sys mc (pure_call (\<lambda>s. Inr (tests (lstat s (directory @ [c])) is_link)))) (\<lambda>linked.
     bind (if linked then return False else sys mc (pure_call (\<lambda>s. Inr (tests (stat s (directory @ [c])) is_regular)))) (\<lambda>regular.
     if \<not> regular then throw (retention_error ''retained artifact directory contains an unsafe entry'')
     else bind (sys mc (change_mode 432 (directory @ [c]))) (\<lambda>_. apply_modes_to mc directory cs)))"

definition apply_retained_modes :: "machine \<Rightarrow> string list \<Rightarrow> (sidecar, unit) op" where
  "apply_retained_modes mc directory =
     bind (sys mc (change_mode 1528 directory)) (\<lambda>_.
     bind (sys mc (pure_call (list_directory directory))) (\<lambda>names. apply_modes_to mc directory names))"

definition file_sha256 :: "machine \<Rightarrow> string list \<Rightarrow> (sidecar, string) op" where
  "file_sha256 mc p = bind (sys mc (pure_call (read_stored p))) (\<lambda>bytes. return (mc_sha256 mc bytes))"

fun all_regular :: "machine \<Rightarrow> string list list \<Rightarrow> (sidecar, bool) op" where
  "all_regular mc [] = return True"
| "all_regular mc (p # ps) =
     bind (sys mc (pure_call (\<lambda>s. Inr (tests (stat s p) is_regular)))) (\<lambda>regular. if regular then all_regular mc ps else return False)"

fun same_digests :: "machine \<Rightarrow> string list \<Rightarrow> string list \<Rightarrow> string list \<Rightarrow> (sidecar, bool) op" where
  "same_digests mc left right [] = return True"
| "same_digests mc left right (name # names) =
     bind (file_sha256 mc (left @ [name])) (\<lambda>l. bind (file_sha256 mc (right @ [name])) (\<lambda>r.
     if l = r then same_digests mc left right names else return False))"

definition directories_match :: "machine \<Rightarrow> string list \<Rightarrow> string list \<Rightarrow> (sidecar, bool) op" where
  "directories_match mc left right =
     bind (sys mc (pure_call (list_directory left))) (\<lambda>left_names.
     bind (sys mc (pure_call (list_directory right))) (\<lambda>right_names.
     bind (all_regular mc (map (\<lambda>n. left @ [n]) left_names @ map (\<lambda>n. right @ [n]) right_names)) (\<lambda>regular.
     if \<not> regular \<or> sort left_names \<noteq> sort right_names then return False
     else same_digests mc left right (sort left_names))))"

definition commit_staging :: "machine \<Rightarrow> string list \<Rightarrow> string list \<Rightarrow> (sidecar, unit) op" where
  "commit_staging mc staging final =
     (let keep = (\<lambda>refusal. bind (directories_match mc staging final) (\<lambda>same.
            if \<not> same then throw (retention_error refusal) else sys mc (remove_tree staging))) in
      bind (sys mc (pure_call (\<lambda>s. Inr (tests (stat s final) (\<lambda>_. True))))) (\<lambda>exists.
      bind (if exists then keep ''retained artifact destination already contains other bytes''
            else handle (sys mc (rename_directory staging final)) (\<lambda>e.
              if error_class e = FileExistsError then keep ''retained artifact destination changed concurrently'' else throw e)) (\<lambda>_.
      apply_retained_modes mc final)))"

section \<open>Retention\<close>

text \<open>\<^verbatim>\<open>mkdtemp\<close>: the first of its names that is free, from the one numbered \<open>i\<close> on; two calls, the creation and the \<^verbatim>\<open>chmod\<close>.\<close>

fun try_directories :: "(nat \<Rightarrow> string list) \<Rightarrow> nat \<Rightarrow> int \<Rightarrow> sidecar \<Rightarrow> string list result \<times> sidecar" where
  "try_directories name i attempts s =
     (if attempts \<le> 0 then (Inl (Raise FileExistsError ''No usable temporary directory name found''), s)
      else case make_directory 448 (name i) s of
        (Inl e, s') \<Rightarrow> if error_class e = FileExistsError then try_directories name (Suc i) (attempts - 1) s' else (Inl e, s')
      | (Inr _, s') \<Rightarrow> (Inr (name i), s'))"

declare try_directories.simps [simp del]

definition make_staging :: "machine \<Rightarrow> string list \<Rightarrow> string \<Rightarrow> (sidecar, string list) op" where
  "make_staging mc directory prefix =
     bind (sys mc (\<lambda>s. try_directories (\<lambda>i. directory @ [prefix @ mc_suffix mc (sd_calls s) i]) 0 10000 s)) (\<lambda>staging.
     bind (sys mc (change_mode 1528 staging)) (\<lambda>_. return staging))"

type_synonym retained = "artifact_record list \<times> (string \<times> json) list \<times> int"

definition retain_one ::
  "machine \<Rightarrow> retention_request \<Rightarrow> goblin_result \<Rightarrow> string \<Rightarrow> string list \<Rightarrow> string list \<Rightarrow> string list \<Rightarrow> nat \<Rightarrow> artifact_record \<Rightarrow> retained \<Rightarrow>
   (sidecar, retained) op" where
  "retain_one mc request result uri_root source_root directory staging index artifact sofar =
     (let (records, metrics, total) = sofar; name = art_name artifact in
      bind (lift_result (validate_artifact_name name)) (\<lambda>_.
      bind (resolve_source mc source_root artifact) (\<lambda>source.
      bind (copy_and_hash mc source (staging @ [stored_name mc index name]) (rq_max_bytes request - total) name) (\<lambda>(bytes, digest).
      bind (lift_result (verify_declared_metrics result name bytes digest)) (\<lambda>_.
      bind (lift_result (validated_media_type mc artifact)) (\<lambda>media_type.
      return (records @ [\<lparr>art_name = name, art_uri = retained_uri uri_root directory (stored_name mc index name), art_media_type = Some media_type\<rparr>],
        assoc_set (metric_key name ''.sha256'') (JStr digest) (assoc_set (metric_key name ''.bytes'') (JInt bytes) metrics), total + bytes)))))))"

fun retain_each ::
  "machine \<Rightarrow> retention_request \<Rightarrow> goblin_result \<Rightarrow> string \<Rightarrow> string list \<Rightarrow> string list \<Rightarrow> string list \<Rightarrow> nat \<Rightarrow> artifact_record list \<Rightarrow> retained \<Rightarrow>
   (sidecar, retained) op" where
  "retain_each mc request result uri_root source_root directory staging index [] sofar = return sofar"
| "retain_each mc request result uri_root source_root directory staging index (a # as) sofar =
     bind (retain_one mc request result uri_root source_root directory staging index a sofar) (\<lambda>sofar'.
     retain_each mc request result uri_root source_root directory staging (Suc index) as sofar')"

definition retain_all :: "machine \<Rightarrow> goblin_result \<Rightarrow> retention_request \<Rightarrow> (sidecar, artifact_record list \<times> json) op" where
  "retain_all mc result request =
     (case (rq_destination_root request, rq_uri_root request) of
        (Some destination, Some uri_root) \<Rightarrow>
          (let names = map art_name (res_artifacts result) in
          if rq_max_files request < 0 \<or> rq_max_bytes request < 0 then throw (retention_error ''artifact limits must be non-negative'')
          else if rq_max_files request < int (length (res_artifacts result))
          then throw (retention_error (''artifact file count exceeds policy: '' @ str_int (int (length (res_artifacts result))) @ '' > '' @
                 str_int (rq_max_files request)))
          else if \<not> distinct names then throw (retention_error ''artifact names must be unique within a result'')
          else
            bind (sys mc (pure_call (\<lambda>s. resolved s (path_components (rq_source_root request))))) (\<lambda>source_root.
            bind (mkdir_parents mc (path_components destination)) (\<lambda>_.
            bind (sys mc (pure_call (\<lambda>s. resolved s (path_components destination)))) (\<lambda>destination_root.
            let directory = retained_directory mc (rq_project_id request) (rq_run_id request); final = destination_root @ directory in
            bind (ensure_shared_tree mc destination_root (butlast directory)) (\<lambda>_.
            bind (make_staging mc (butlast final) (''.'' @ last directory @ ''.staging-'')) (\<lambda>staging.
            bind (handle
                   (bind (retain_each mc request result uri_root source_root directory staging 0 (res_artifacts result)
                            ([], obj_members (res_metrics result), 0)) (\<lambda>sofar.
                    bind (commit_staging mc staging final) (\<lambda>_. return sofar)))
                   (\<lambda>e. bind (catching (\<lambda>_. True) (sys mc (remove_tree staging))) (\<lambda>_. throw e))) (\<lambda>(records, metrics, total).
            return (records, JObj (assoc_set ''artifact.retained.bytes'' (JInt total)
              (assoc_set ''artifact.retained.files'' (JInt (int (length records))) metrics))))))))))
      | _ \<Rightarrow> throw (retention_error ''durable Kubernetes artifact storage is not configured''))"

definition artifact_retention_failure :: "goblin_result \<Rightarrow> string \<Rightarrow> goblin_result" where
  "artifact_retention_failure result reason =
     (let message = ''artifact retention failed: '' @ reason in
      goblin_result_failed (if truthy_text (res_error result) then the (res_error result) @ ''; '' @ message else message)
        (Some (res_data result)) []
        (Some (JObj (filter (\<lambda>(k, _). take 9 k \<noteq> ''artifact.'') (obj_members (res_metrics result))))) (res_handoff result))"

definition retain_result_artifacts :: "machine \<Rightarrow> goblin_result \<Rightarrow> retention_request \<Rightarrow> (sidecar, goblin_result) op" where
  "retain_result_artifacts mc result request =
     (if res_artifacts result = [] then return result
      else handle (bind (retain_all mc result request) (\<lambda>(artifacts, metrics).
               return (result\<lparr>res_artifacts := artifacts, res_metrics := metrics\<rparr>)))
             (\<lambda>e. if error_class e = ArtifactRetentionError then return (artifact_retention_failure result (error_message e))
                  else if is_os_error e then return (artifact_retention_failure result ''artifact storage I/O did not complete'')
                  else throw e))"

text \<open>\<^verbatim>\<open>cleanup_retained_run\<close>: what a validation retained is removed, and its empty parents.\<close>

definition local_retention_root :: "machine \<Rightarrow> string \<Rightarrow> path result" where
  "local_retention_root mc uri_root =
     (if is_absolute (path_of uri_root) then Inr (path_of uri_root)
      else bind_result (mc_urlsplit mc uri_root) (\<lambda>(scheme, netloc, p).
        if scheme \<notin> {'''', ''file''} \<or> netloc \<notin> {'''', ''localhost''}
        then Inl (retention_error ''artifact URI root must identify local storage'')
        else Inr (path_of (if scheme = ''file'' then mc_unquote mc p else uri_root))))"

definition retained_run_path :: "machine \<Rightarrow> string \<Rightarrow> string option \<Rightarrow> string \<Rightarrow> path result" where
  "retained_run_path mc uri_root project_id run_id =
     bind_result (local_retention_root mc uri_root) (\<lambda>root. Inr (path_join root (Path False (retained_directory mc project_id run_id))))"

definition remove_directory :: "string list \<Rightarrow> sidecar \<Rightarrow> unit result \<times> sidecar" where
  "remove_directory p = (\<lambda>s. case located s p of
       Inl e \<Rightarrow> (Inl e, s)
     | Inr q \<Rightarrow> (case node_at s q of
         Some (Directory _) \<Rightarrow> if children s q \<noteq> [] then (Inl (Raise OSError ''Directory not empty''), s)
           else (Inr (), s\<lparr>sd_names := filter (\<lambda>(r, _). r \<noteq> q) (sd_names s)\<rparr>)
       | None \<Rightarrow> (missing, s)
       | Some _ \<Rightarrow> (Inl (Raise OSError ''Not a directory''), s)))"

text \<open>The first argument counts the parents between the removed directory and the root.\<close>

fun prune_parents :: "nat \<Rightarrow> machine \<Rightarrow> string list \<Rightarrow> (sidecar, unit) op" where
  "prune_parents 0 mc parent = return ()"
| "prune_parents (Suc n) mc parent =
     bind (catching is_os_error (sys mc (remove_directory parent))) (\<lambda>removed.
     case removed of Inl _ \<Rightarrow> return () | Inr _ \<Rightarrow> prune_parents n mc (butlast parent))"

definition cleanup_retained_run :: "machine \<Rightarrow> string \<Rightarrow> string option \<Rightarrow> string \<Rightarrow> (sidecar, unit) op" where
  "cleanup_retained_run mc uri_root project_id run_id =
     bind (lift_result (local_retention_root mc uri_root)) (\<lambda>uri_path.
     bind (sys mc (pure_call (\<lambda>s. resolved s (path_components uri_path)))) (\<lambda>root.
     let target = root @ retained_directory mc project_id run_id in
     bind (sys mc (pure_call (\<lambda>s. Inr (tests (stat s target) (\<lambda>_. True))))) (\<lambda>exists.
     if \<not> exists then return ()
     else bind (sys mc (pure_call (\<lambda>s. Inr (tests (lstat s target) is_link)))) (\<lambda>linked.
       if linked then throw (retention_error ''retained validation path may not be a symbolic link'')
       else bind (rewording (\<lambda>e. error_class e = FileNotFoundError \<or> is_value_error e) (retention_error ''retained validation path escaped its root'')
             (bind (sys mc (pure_call (\<lambda>s. resolved s target))) (\<lambda>p.
              if below root p then return p else throw (Raise ValueError ''not in the subpath'')))) (\<lambda>p.
         bind (sys mc (remove_tree p)) (\<lambda>_.
         prune_parents (length p - length root - 1) mc (butlast p)))))))"

section \<open>Forwarding\<close>

record forwarder_settings =
  fs_run_id :: string
  fs_redis_url :: string
  fs_result_path :: path
  fs_wait_seconds :: int

definition forwarder_from_environment :: "(string \<Rightarrow> string option) \<Rightarrow> forwarder_settings result" where
  "forwarder_from_environment environ =
     (let required = (\<lambda>name. case environ name of None \<Rightarrow> Inl (Raise KeyError name) | Some v \<Rightarrow> Inr v) in
      bind_result (case environ ''GOBLIN_RESULT_WAIT_SECONDS'' of None \<Rightarrow> Inr 300 | Some v \<Rightarrow> py_int v) (\<lambda>wait.
          if wait \<le> 0 then Inl (Raise ValueError ''GOBLIN_RESULT_WAIT_SECONDS must be positive'')
          else bind_result (required ''GOBLIN_RUN_ID'') (\<lambda>run_id. bind_result (required ''GOBLIN_REDIS_URL'') (\<lambda>redis_url.
            bind_result (required ''GOBLIN_RESULT_PATH'') (\<lambda>result_path.
            Inr \<lparr>fs_run_id = run_id, fs_redis_url = redis_url, fs_result_path = path_of result_path, fs_wait_seconds = wait\<rparr>)))))"

definition monotonic :: "machine \<Rightarrow> (sidecar, rat) op" where
  "monotonic mc = (\<lambda>s. (Inr (mc_clock mc (sd_calls s)), between mc s))"

text \<open>A turn of the loop: the result when there is a valid one, or the last error.\<close>

definition look_for_result :: "machine \<Rightarrow> string list \<Rightarrow> bool \<Rightarrow> (sidecar, goblin_result option \<times> bool) op" where
  "look_for_result mc p failed =
     bind (sys mc (pure_call (\<lambda>s. Inr (tests (stat s p) is_regular)))) (\<lambda>there.
     if \<not> there then return (None, failed)
     else bind (catching (\<lambda>e. is_os_error e \<or> is_value_error e)
             (bind (sys mc (pure_call (read_stored p))) (\<lambda>text. lift_result (mc_parse mc text)))) (\<lambda>r.
       return (case r of Inr result \<Rightarrow> (Some result, failed) | Inl _ \<Rightarrow> (None, True))))"

fun wait_for_result :: "nat \<Rightarrow> machine \<Rightarrow> string list \<Rightarrow> rat \<Rightarrow> bool \<Rightarrow> (sidecar, goblin_result) op" where
  "wait_for_result 0 mc p deadline failed = throw (Raise RuntimeError ''out of turns'')"
| "wait_for_result (Suc turns) mc p deadline failed =
     bind (monotonic mc) (\<lambda>now.
     if deadline \<le> now
     then throw (Raise RuntimeError (if failed then ''result file did not become a valid result envelope before timeout''
            else ''result file was not created before timeout''))
     else bind (look_for_result mc p failed) (\<lambda>(found, failed').
       case found of Some result \<Rightarrow> return result
       | None \<Rightarrow> bind (monotonic mc) (\<lambda>_. wait_for_result turns mc p deadline failed')))"

definition forward_turns :: "int \<Rightarrow> nat" where
  "forward_turns wait = 4 * nat wait + 2"

definition redis_set :: "machine \<Rightarrow> string \<Rightarrow> string \<Rightarrow> (sidecar, unit) op" where
  "redis_set mc key v = (\<lambda>s. if mc_fault mc (sd_calls s) then (Inl (Raise RedisError ''Connection refused''), between mc s)
     else (Inr (), (between mc s)\<lparr>sd_redis := sd_redis s @ [(key, v)]\<rparr>))"

definition forward_result :: "machine \<Rightarrow> (string \<Rightarrow> string option) \<Rightarrow> forwarder_settings \<Rightarrow> (sidecar, goblin_result) op" where
  "forward_result mc environ settings =
     bind (monotonic mc) (\<lambda>started.
     bind (wait_for_result (forward_turns (fs_wait_seconds settings)) mc (path_components (fs_result_path settings))
             (started + of_int (fs_wait_seconds settings)) False) (\<lambda>result.
     bind (case request_from_environment (fs_run_id settings) environ of
             Inl e \<Rightarrow> if is_value_error e then return (artifact_retention_failure result (error_message e)) else throw e
           | Inr request \<Rightarrow> retain_result_artifacts mc result request) (\<lambda>final.
     bind (redis_set mc (forwarded_result_key (fs_run_id settings)) (mc_dump mc final)) (\<lambda>_. return final))))"

section \<open>The script without storage\<close>

text \<open>
  \<^verbatim>\<open>RESULT_FORWARDER_SCRIPT\<close>, run by \<^verbatim>\<open>python -c\<close> where no storage is configured: what it makes of the
  parsed result, with \<^verbatim>\<open>result["status"] = ...\<close> as \<open>assoc_set\<close>, then its loop. A result without artifacts is
  published as it was read.
\<close>

fun members :: "json \<Rightarrow> (string \<times> json) list result" where
  "members (JObj ms) = Inr ms"
| "members _ = Inl (Raise AttributeError ''object has no attribute'')"

definition declares_artifacts :: "(string \<times> json) list \<Rightarrow> bool" where
  "declares_artifacts ms = (case map_of ms ''artifacts'' of None \<Rightarrow> False | Some v \<Rightarrow> json_truthy v)"

definition script_failure :: "(json \<Rightarrow> string) \<Rightarrow> (string \<times> json) list \<Rightarrow> json result" where
  "script_failure repr ms =
     (let reason = ''artifact retention failed: durable Kubernetes artifact storage is not configured'';
          err = (case map_of ms ''error'' of Some v \<Rightarrow> if json_truthy v then py_str repr v @ ''; '' @ reason else reason | None \<Rightarrow> reason) in
      bind_result (case map_of ms ''metrics'' of None \<Rightarrow> Inr [] | Some m \<Rightarrow> members m) (\<lambda>metrics.
      Inr (JObj (assoc_set ''metrics'' (JObj (filter (\<lambda>(k, _). take 9 k \<noteq> ''artifact.'') metrics))
        (assoc_set ''artifacts'' (JArr []) (assoc_set ''error'' (JStr err) (assoc_set ''status'' (JStr ''failed'') ms)))))))"

definition script_envelope :: "(json \<Rightarrow> string) \<Rightarrow> json \<Rightarrow> json result" where
  "script_envelope repr result = bind_result (members result) (\<lambda>ms. if declares_artifacts ms then script_failure repr ms else Inr result)"

definition script_text :: "machine \<Rightarrow> string \<Rightarrow> string result" where
  "script_text mc raw =
     bind_result (mc_loads mc raw) (\<lambda>result. bind_result (members result) (\<lambda>ms.
     if declares_artifacts ms then bind_result (script_failure (mc_repr mc) ms) (\<lambda>j. Inr (mc_dumps mc j)) else Inr raw))"

fun script_loop :: "nat \<Rightarrow> machine \<Rightarrow> forwarder_settings \<Rightarrow> rat \<Rightarrow> (sidecar, unit) op" where
  "script_loop 0 mc settings deadline = throw (Raise RuntimeError ''out of turns'')"
| "script_loop (Suc turns) mc settings deadline =
     bind (monotonic mc) (\<lambda>now.
     if deadline \<le> now then throw (Raise RuntimeError (''result file not found before timeout: '' @ path_text (fs_result_path settings)))
     else bind (sys mc (pure_call (\<lambda>s. Inr (tests (stat s (path_components (fs_result_path settings))) is_regular)))) (\<lambda>there.
       if there
       then bind (sys mc (pure_call (read_stored (path_components (fs_result_path settings))))) (\<lambda>raw.
            bind (lift_result (script_text mc raw)) (\<lambda>text. redis_set mc (worker_result_key (fs_run_id settings)) text))
       else bind (monotonic mc) (\<lambda>_. script_loop turns mc settings deadline)))"

definition run_script :: "machine \<Rightarrow> forwarder_settings \<Rightarrow> (sidecar, unit) op" where
  "run_script mc settings =
     bind (monotonic mc) (\<lambda>started.
     script_loop (forward_turns (fs_wait_seconds settings)) mc settings (started + of_int (fs_wait_seconds settings)))"

text \<open>\<^verbatim>\<open>model_dump(mode="json")\<close> of a result.\<close>

definition result_json :: "goblin_result \<Rightarrow> json" where
  "result_json r = JObj [(''status'', JStr (case res_status r of ResSuccess \<Rightarrow> ''success'' | ResFailed \<Rightarrow> ''failed'')),
     (''data'', res_data r),
     (''artifacts'', JArr (map (\<lambda>a. JObj [(''name'', JStr (art_name a)), (''uri'', JStr (art_uri a)), (''media_type'', json_opt JStr (art_media_type a))])
        (res_artifacts r))),
     (''metrics'', res_metrics r),
     (''handoff'', JArr (map (\<lambda>h. JObj [(''kind'', JStr (ho_kind h)), (''payload'', ho_payload h)]) (res_handoff r))),
     (''error'', json_opt JStr (res_error r))]"

section \<open>The script and the forwarder\<close>

lemma truthy_some: "truthy_text (Some t) \<longleftrightarrow> t \<noteq> ''''" "\<not> truthy_text None"
  by (simp_all add: truthy_text_def)

text \<open>
  C31. Where no storage is configured the script and the module agree: what the script publishes for the
  envelope of a result is the envelope of what the module makes of it, with the same error.
\<close>

theorem script_agrees_with_forwarder:
  assumes "rq_destination_root request = None" and "is_obj (res_metrics r)" and "is_obj (res_data r)"
  shows "\<exists>r'. retain_result_artifacts mc r request s = (Inr r', s) \<and> script_envelope repr (result_json r) = Inr (result_json r')"
proof (cases "res_artifacts r = []")
  case True
  then show ?thesis
    by (auto simp: retain_result_artifacts_def return_eq script_envelope_def result_json_def declares_artifacts_def)
next
  case False
  obtain ms ds where ms: "res_metrics r = JObj ms" and ds: "res_data r = JObj ds"
    using assms(2,3) by (cases "res_metrics r"; cases "res_data r") auto
  have "retain_result_artifacts mc r request s =
      (Inr (artifact_retention_failure r ''durable Kubernetes artifact storage is not configured''), s)"
    using False assms(1)
    by (simp add: retain_result_artifacts_def retain_all_def handle_def bind_def throw_eq return_eq retention_error_def)
  moreover have "script_envelope repr (result_json r) =
      Inr (result_json (artifact_retention_failure r ''durable Kubernetes artifact storage is not configured''))"
    using False by (cases "res_error r") (auto simp: script_envelope_def result_json_def declares_artifacts_def script_failure_def Let_def
        artifact_retention_failure_def goblin_result_failed_def or_empty_def ms ds truthy_some json_opt_def)
  ultimately show ?thesis by blast
qed

section \<open>Copying ends\<close>

lemma copy_loop_turns:
  "length sofar \<le> nat remaining \<Longrightarrow> nat remaining + 2 \<le> n + length sofar \<Longrightarrow>
     copy_loop (n + k) mc i j remaining sofar s = copy_loop n mc i j remaining sofar s"
proof (induction n arbitrary: sofar s)
  case (Suc n)
  have more: "copy_loop (n + k) mc i j remaining (sofar @ chunk) t = copy_loop n mc i j remaining (sofar @ chunk) t"
    if "chunk \<noteq> ''''" "\<not> remaining < int (length (sofar @ chunk))" for chunk t
  proof (rule Suc.IH)
    show "length (sofar @ chunk) \<le> nat remaining" using that(2) by simp
    show "nat remaining + 2 \<le> n + length (sofar @ chunk)" using Suc.prems(2) that(1) by (cases chunk) auto
  qed
  show ?case
    by (simp add: bind_def) (auto simp: bind_def more split: prod.splits sum.splits)
qed simp

text \<open>
  The copy of an artifact ends, even of a file that the worker keeps writing to: no more turns of its
  loop are taken than the bytes that are left and two.
\<close>

theorem copying_ends:
  "copy_loop (copy_turns remaining + k) mc source destination remaining '''' s = copy_loop (copy_turns remaining) mc source destination remaining '''' s"
  by (rule copy_loop_turns) (simp_all add: copy_turns_def)

section \<open>What was retained\<close>

text \<open>
  The other processes leave the storage below \<open>base\<close> alone, and the way to it, and never reuse the
  number of a file. A digest is no name for a parent directory.
\<close>

definition leaves_alone :: "machine \<Rightarrow> string list \<Rightarrow> bool" where
  "leaves_alone mc base \<longleftrightarrow>
     (\<forall>n s. sd_next s \<le> sd_next (mc_others mc n s) \<and>
        (\<forall>p. below base p \<or> below p base \<longrightarrow> node_at (mc_others mc n s) p = node_at s p) \<and>
        (\<forall>p i. below base p \<and> node_at s p = Some (Regular i) \<longrightarrow> sd_files (mc_others mc n s) i = sd_files s i)) \<and>
     (\<forall>x. mc_sha256 mc x \<noteq> ''..'')"

definition directory_at :: "sidecar \<Rightarrow> string list \<Rightarrow> bool" where
  "directory_at s p \<longleftrightarrow> (\<exists>mode. node_at s p = Some (Directory mode))"

text \<open>A path of directories without links.\<close>

definition plain :: "sidecar \<Rightarrow> string list \<Rightarrow> bool" where
  "plain s p \<longleftrightarrow> ''..'' \<notin> set p \<and> (\<forall>n. directory_at s (take n p))"

lemma below_append [simp]: "below p (p @ q)"
  by (simp add: below_def)

lemma below_trans: "below p q \<Longrightarrow> below q r \<Longrightarrow> below p r"
  by (metis (no_types, lifting) append_assoc append_eq_conv_conj below_def)

lemma below_take: "below (take n p) p"
  by (simp add: below_def min_def)

lemma below_take_either: "below base p \<Longrightarrow> below base (take n p) \<or> below (take n p) base"
proof (cases "n \<le> length base")
  case True
  assume "below base p"
  then have "take n p = take n base" using True by (metis below_def min.absorb1 take_take)
  then show ?thesis using below_take by simp
next
  case False
  assume "below base p"
  then show ?thesis using False by (simp add: below_def min_def)
qed

lemma node_at_between: "leaves_alone mc base \<Longrightarrow> below base p \<or> below p base \<Longrightarrow> node_at (between mc s) p = node_at s p"
  by (auto simp: leaves_alone_def between_def node_at_def split: if_splits)

lemma plain_between: "leaves_alone mc base \<Longrightarrow> below base p \<or> below p base \<Longrightarrow> plain s p \<Longrightarrow> plain (between mc s) p"
proof -
  assume a: "leaves_alone mc base" "below base p \<or> below p base" "plain s p"
  have "below base (take n p) \<or> below (take n p) base" for n
    using a(2) below_take_either [of base p n] below_trans [OF below_take [of n p], of base] by blast
  then have "node_at (between mc s) (take n p) = node_at s (take n p)" for n using node_at_between [OF a(1)] by blast
  then show "plain (between mc s) p" using a(3) by (simp add: plain_def directory_at_def)
qed

lemma walk_directories:
  "\<forall>n. directory_at s (done @ take n ps) \<Longrightarrow> ''..'' \<notin> set ps \<Longrightarrow> walk s links done (ps @ qs) = walk s links (done @ ps) qs"
proof (induction ps arbitrary: "done")
  case (Cons c cs)
  have "directory_at s (done @ [c])" using Cons.prems(1) spec [of _ "1"] by (metis One_nat_def take0 take_Suc_Cons)
  then obtain mode where node: "node_at s (done @ [c]) = Some (Directory mode)" by (auto simp: directory_at_def)
  have "\<forall>n. directory_at s ((done @ [c]) @ take n cs)"
  proof
    fix n show "directory_at s ((done @ [c]) @ take n cs)" using spec [OF Cons.prems(1), of "Suc n"] by simp
  qed
  then have "walk s links (done @ [c]) (cs @ qs) = walk s links (done @ c # cs) qs" using Cons.IH [of "done @ [c]"] Cons.prems(2) by simp
  moreover have "c \<noteq> ''..''" using Cons.prems(2) by auto
  ultimately show ?case using node by simp
qed simp

lemma resolved_append: "plain s p \<Longrightarrow> resolved s (p @ q) = walk s 40 p q"
  unfolding resolved_def plain_def using walk_directories [of s "[]" p 40 q] by simp

lemma resolved_plain: "plain s p \<Longrightarrow> resolved s p = Inr p"
  using resolved_append [of s p "[]"] by simp

lemma plain_self: "plain s p \<Longrightarrow> directory_at s p"
  unfolding plain_def by (metis order_refl take_all)

lemma plain_prefix: "plain s (p @ q) \<Longrightarrow> plain s p"
  unfolding plain_def by (metis UnI1 append_take_drop_id set_append take_append take_take min.commute take_all append_Nil2 linear append_eq_conv_conj min.absorb1 min.absorb2)

lemma plain_snoc: "plain s (p @ [c]) \<longleftrightarrow> plain s p \<and> c \<noteq> ''..'' \<and> directory_at s (p @ [c])"
proof
  assume "plain s (p @ [c])"
  then show "plain s p \<and> c \<noteq> ''..'' \<and> directory_at s (p @ [c])"
    using plain_prefix [of s p "[c]"] plain_self [of s "p @ [c]"] by (auto simp: plain_def)
next
  assume r: "plain s p \<and> c \<noteq> ''..'' \<and> directory_at s (p @ [c])"
  have "directory_at s (take n (p @ [c]))" for n
    using r by (cases "n \<le> length p") (auto simp: plain_def)
  then show "plain s (p @ [c])" using r by (auto simp: plain_def)
qed

lemma located_plain: "plain s p \<Longrightarrow> c \<noteq> ''..'' \<Longrightarrow> located s (p @ [c]) = Inr (p @ [c])"
  using plain_self [of s p] by (auto simp: located_def resolved_plain directory_at_def)

lemma lstat_plain: "plain s p \<Longrightarrow> c \<noteq> ''..'' \<Longrightarrow>
    lstat s (p @ [c]) = (case node_at s (p @ [c]) of None \<Rightarrow> missing | Some n \<Rightarrow> Inr n)"
  by (simp add: lstat_def located_plain)

text \<open>The files of a directory, each with its number and its bytes.\<close>

definition holds_files :: "sidecar \<Rightarrow> string list \<Rightarrow> (string \<times> nat \<times> string) list \<Rightarrow> bool" where
  "holds_files s p files \<longleftrightarrow> plain s p \<and>
     (\<forall>(n, i, bytes) \<in> set files. i < sd_next s \<and> node_at s (p @ [n]) = Some (Regular i) \<and> fd_bytes (sd_files s i) = bytes)"

lemma holds_filesD:
  assumes "holds_files s p files"
  shows "plain s p" "(n, i, b) \<in> set files \<Longrightarrow> i < sd_next s \<and> node_at s (p @ [n]) = Some (Regular i) \<and> fd_bytes (sd_files s i) = b"
proof -
  show "plain s p" using assms by (simp add: holds_files_def)
  have all: "\<forall>x \<in> set files. case x of (n, i, b) \<Rightarrow> i < sd_next s \<and> node_at s (p @ [n]) = Some (Regular i) \<and> fd_bytes (sd_files s i) = b"
    using assms by (simp add: holds_files_def)
  show "(n, i, b) \<in> set files \<Longrightarrow> i < sd_next s \<and> node_at s (p @ [n]) = Some (Regular i) \<and> fd_bytes (sd_files s i) = b"
    using bspec [OF all, of "(n, i, b)"] by simp
qed

lemma holds_filesI:
  assumes "plain s p"
    and "\<And>n i b. (n, i, b) \<in> set files \<Longrightarrow> i < sd_next s \<and> node_at s (p @ [n]) = Some (Regular i) \<and> fd_bytes (sd_files s i) = b"
  shows "holds_files s p files"
proof -
  have "case x of (n, i, b) \<Rightarrow> i < sd_next s \<and> node_at s (p @ [n]) = Some (Regular i) \<and> fd_bytes (sd_files s i) = b" if "x \<in> set files" for x
    using assms(2) [of "fst x" "fst (snd x)" "snd (snd x)"] that by (cases x) simp
  then show ?thesis using assms(1) by (simp add: holds_files_def)
qed

lemma holds_between:
  assumes "leaves_alone mc base" and "below base p" and "holds_files s p files"
  shows "holds_files (between mc s) p files"
proof -
  have next_le: "sd_next s \<le> sd_next (between mc s)" using assms(1) by (simp add: leaves_alone_def between_def)
  have "sd_files (between mc s) i = sd_files s i" if "node_at s (p @ [n]) = Some (Regular i)" for n i
  proof -
    have "below base (p @ [n])" by (rule below_trans [OF assms(2) below_append])
    then have "sd_files (mc_others mc (sd_calls s) s) i = sd_files s i" using assms(1) that unfolding leaves_alone_def by blast
    then show ?thesis by (simp add: between_def)
  qed
  moreover have "node_at (between mc s) (p @ [n]) = node_at s (p @ [n])" for n
    using node_at_between [OF assms(1)] below_trans [OF assms(2) below_append] by blast
  ultimately show ?thesis using assms plain_between [OF assms(1)] next_le by (fastforce simp: holds_files_def)
qed

text \<open>An operation whose calls only look.\<close>

definition only_looks :: "machine \<Rightarrow> (sidecar, 'a) op \<Rightarrow> bool" where
  "only_looks mc m \<longleftrightarrow> (\<forall>s. \<exists>n. snd (m s) = (between mc ^^ n) s)"

lemma passive_return [simp]: "only_looks mc (return a)" "only_looks mc (throw e)" "only_looks mc (lift_result r)"
  unfolding only_looks_def by (auto simp: return_eq throw_eq lift_result_eq intro: exI [of _ 0])

lemma passive_sys [simp]: "only_looks mc (sys mc (pure_call f))"
  unfolding only_looks_def by (auto simp: sys_def pure_call_def intro!: exI [of _ 1])

lemma passive_bind: "only_looks mc m \<Longrightarrow> (\<And>a. only_looks mc (f a)) \<Longrightarrow> only_looks mc (bind m f)"
  unfolding only_looks_def bind_def
proof
  fix s assume m: "\<forall>s. \<exists>n. snd (m s) = (between mc ^^ n) s" and f: "\<And>a. \<forall>s. \<exists>n. snd (f a s) = (between mc ^^ n) s"
  obtain r t n where t: "m s = (r, t)" "t = (between mc ^^ n) s" using m by (metis prod.collapse)
  show "\<exists>n. snd (case m s of (Inl e, s') \<Rightarrow> (Inl e, s') | (Inr a, s') \<Rightarrow> f a s') = (between mc ^^ n) s"
  proof (cases r)
    case (Inr a)
    obtain k where "snd (f a t) = (between mc ^^ k) t" using f by blast
    then show ?thesis using t Inr by (intro exI [of _ "k + n"]) (simp add: funpow_add)
  qed (use t in auto)
qed

lemma passive_rewording: "only_looks mc m \<Longrightarrow> only_looks mc (rewording P e m)"
  unfolding only_looks_def rewording_def handle_def throw_eq
  by (simp add: prod.case_eq_if sum.case_eq_if)

lemma holds_passive:
  assumes "only_looks mc m" and "m s = (r, s')" and "leaves_alone mc base" and "below base p" and "holds_files s p files"
  shows "holds_files s' p files"
proof -
  obtain n where "s' = (between mc ^^ n) s" using assms(1,2) by (metis only_looks_def snd_conv)
  moreover have "holds_files ((between mc ^^ n) s) p files" for n
    by (induction n) (simp_all add: assms(5) holds_between [OF assms(3,4)])
  ultimately show ?thesis by simp
qed

lemma passive_reject_links: "only_looks mc (reject_links mc current parts name)"
  by (induction parts arbitrary: current) (auto intro!: passive_bind passive_rewording)

lemma passive_resolve_source: "only_looks mc (resolve_source mc source_root artifact)"
  unfolding resolve_source_def Let_def
  by (auto intro!: passive_bind passive_rewording passive_reject_links split: option.split prod.split)

lemma passive_open_directories: "only_looks mc (open_directories mc parent cs)"
  by (induction cs arbitrary: parent) (auto intro!: passive_bind)

lemma passive_open_source: "only_looks mc (rewording P e (open_source mc source))"
  unfolding open_source_def by (auto intro!: passive_bind passive_rewording passive_open_directories)

lemma node_at_put: "q \<noteq> [] \<Longrightarrow> node_at (put_node q n s) r = (if r = q then Some n else node_at s r)"
  by (simp add: node_at_def put_node_def)

lemma node_at_frame [simp]: "node_at (s\<lparr>sd_files := f\<rparr>) p = node_at s p" "node_at (s\<lparr>sd_next := n\<rparr>) p = node_at s p"
  by (simp_all add: node_at_def)

lemma sys_Inr: "sys mc call s = (Inr a, s') \<Longrightarrow> call (between mc s) = (Inr a, s')"
  by (simp add: sys_def split: if_splits)

lemma holds_same_nodes:
  assumes "holds_files s p files" and "\<And>q. node_at s' q = node_at s q" and "sd_next s \<le> sd_next s'"
    and "\<And>n i b. (n, i, b) \<in> set files \<Longrightarrow> fd_bytes (sd_files s' i) = fd_bytes (sd_files s i)"
  shows "holds_files s' p files"
  using assms by (fastforce simp: holds_files_def plain_def directory_at_def)

lemma create_holds:
  assumes "holds_files s p files" and "n \<noteq> ''..''" and "create_file mode (p @ [n]) s = (Inr j, s')"
  shows "holds_files s' p (files @ [(n, j, '''')]) \<and> j \<notin> (fst \<circ> snd) ` set files"
proof -
  have plain: "plain s p" using assms(1) by (simp add: holds_files_def)
  have new: "node_at s (p @ [n]) = None" and j: "j = sd_next s"
    and s': "s' = (put_node (p @ [n]) (Regular (sd_next s)) s)\<lparr>sd_next := Suc (sd_next s),
           sd_files := (sd_files s)(sd_next s := \<lparr>fd_bytes = '''', fd_mtime = 0, fd_ctime = 0, fd_mode = mode\<rparr>)\<rparr>"
    using assms(3) located_plain [OF plain assms(2)] by (auto simp: create_file_def split: if_splits)
  have nodes: "node_at s' q = (if q = p @ [n] then Some (Regular (sd_next s)) else node_at s q)" for q
    unfolding s' by (simp add: node_at_put)
  have "take k p \<noteq> p @ [n]" for k
  proof -
    have "length (take k p) < length (p @ [n])" by simp
    then show ?thesis by (metis less_irrefl)
  qed
  then have "plain s' p" using plain by (simp add: plain_def directory_at_def nodes)
  moreover have old: "i < sd_next s" "m \<noteq> n" "node_at s (p @ [m]) = Some (Regular i)" "fd_bytes (sd_files s i) = b" if "(m, i, b) \<in> set files" for m i b
    using holds_filesD(2) [OF assms(1) that] new by auto
  have "i < sd_next s' \<and> node_at s' (p @ [m]) = Some (Regular i) \<and> fd_bytes (sd_files s' i) = b"
    if "(m, i, b) \<in> set (files @ [(n, j, '''')])" for m i b
  proof (cases "(m, i, b) \<in> set files")
    case True
    show ?thesis using old [OF True] by (simp add: nodes) (simp add: s')
  next
    case False
    then show ?thesis using that by (simp add: nodes j) (simp add: s')
  qed
  moreover have "j \<notin> (fst \<circ> snd) ` set files" using old(1) j by force
  ultimately show ?thesis by (intro conjI holds_filesI) blast+
qed

lemma write_holds:
  assumes "holds_files s p (files @ [(n, j, b)])" and "j \<notin> (fst \<circ> snd) ` set files" and "write_file j chunk s = (Inr u, s')"
  shows "holds_files s' p (files @ [(n, j, b @ chunk)])"
proof -
  have s': "s' = s\<lparr>sd_files := (sd_files s)(j := (sd_files s j)\<lparr>fd_bytes := fd_bytes (sd_files s j) @ chunk\<rparr>)\<rparr>"
    using assms(3) by (simp add: write_file_def)
  have before: "i < sd_next s" "node_at s (p @ [m]) = Some (Regular i)" "fd_bytes (sd_files s i) = c"
    if "(m, i, c) \<in> set (files @ [(n, j, b)])" for m i c
    using holds_filesD(2) [OF assms(1) that] by auto
  have plain: "plain s' p" using holds_filesD(1) [OF assms(1)] by (simp add: plain_def directory_at_def s')
  have "i < sd_next s' \<and> node_at s' (p @ [m]) = Some (Regular i) \<and> fd_bytes (sd_files s' i) = c"
    if "(m, i, c) \<in> set (files @ [(n, j, b @ chunk)])" for m i c
  proof (cases "(m, i, c) \<in> set files")
    case True
    then have "i \<noteq> j" using assms(2) by force
    then show ?thesis using before [of m i c] True by (simp add: s')
  next
    case False
    then show ?thesis using that before [of n j b] by (simp add: s')
  qed
  then show ?thesis using plain by (intro holds_filesI) blast+
qed

lemma copy_loop_holds:
  assumes "copy_loop turns mc i j remaining sofar s = (Inr c, s')" and "holds_files s p (files @ [(n, j, sofar)])"
    and "j \<notin> (fst \<circ> snd) ` set files" and "leaves_alone mc base" and "below base p" and "int (length sofar) \<le> remaining"
  shows "holds_files s' p (files @ [(n, j, c)]) \<and> int (length c) \<le> remaining"
  using assms(1,2,6)
proof (induction turns arbitrary: sofar s)
  case (Suc turns)
  obtain chunk s1 where chunk: "sys mc (pure_call (\<lambda>s. Inr (next_chunk (length sofar) (fd_bytes (sd_files s i))))) s = (Inr chunk, s1)"
    and rest: "(if chunk = '''' then return sofar
       else if remaining < int (length (sofar @ chunk)) then throw (retention_error ''artifact bytes exceed policy'')
       else bind (sys mc (write_file j chunk)) (\<lambda>_. copy_loop turns mc i j remaining (sofar @ chunk))) s1 = (Inr c, s')"
    using Suc.prems(1) by (auto simp: bind_Inr_iff)
  have s1: "holds_files s1 p (files @ [(n, j, sofar)])"
    using holds_passive [OF passive_sys chunk assms(4,5) Suc.prems(2)] .
  show ?case
  proof (cases "chunk = ''''")
    case True
    then show ?thesis using rest s1 Suc.prems(3) by (simp add: return_eq)
  next
    case False
    then have fits: "int (length (sofar @ chunk)) \<le> remaining" using rest by (simp add: throw_eq split: if_splits)
    then obtain u s2 where w: "sys mc (write_file j chunk) s1 = (Inr u, s2)" and more: "copy_loop turns mc i j remaining (sofar @ chunk) s2 = (Inr c, s')"
      using rest False by (auto simp: bind_Inr_iff)
    have "holds_files s2 p (files @ [(n, j, sofar @ chunk)])"
      by (rule write_holds [OF holds_between [OF assms(4,5) s1] assms(3) sys_Inr [OF w]])
    then show ?thesis by (rule Suc.IH [OF more _ fits])
  qed
qed (simp add: throw_eq)

lemma copy_holds:
  assumes "copy_and_hash mc source (p @ [n]) remaining name s = (Inr (copied_bytes, digest), s')" and "holds_files s p files"
    and "leaves_alone mc base" and "below base p" and "0 \<le> remaining" and "n \<noteq> ''..''"
  shows "\<exists>j c. copied_bytes = int (length c) \<and> digest = mc_sha256 mc c \<and> copied_bytes \<le> remaining \<and> holds_files s' p (files @ [(n, j, c)])"
proof -
  note look = holds_passive [OF _ _ assms(3,4)]
  obtain fd s1 where opened: "rewording is_os_error (became_unsafe name) (open_source mc source) s = (Inr fd, s1)"
    and copied: "copy_open_file mc fd (p @ [n]) remaining name (src_identity source) s1 = (Inr (copied_bytes, digest), s')"
    using assms(1) by (auto simp: copy_and_hash_def bind_Inr_iff)
  have s1: "holds_files s1 p files" using look [OF passive_open_source opened assms(2)] .
  obtain i where fd: "fd = Regular i" using copied by (cases fd) (auto simp: copy_open_file_def bind_Inr_iff throw_eq)
  obtain before s2 j s3 u s4 c s5 final where
    look2: "sys mc (pure_call (\<lambda>s. Inr (file_identity s i))) s1 = (Inr before, s2)"
    and created: "sys mc (create_file 438 (p @ [n])) s2 = (Inr j, s3)"
    and moded: "sys mc (\<lambda>s. (Inr (), s\<lparr>sd_files := (sd_files s)(j := (sd_files s j)\<lparr>fd_mode := 432\<rparr>)\<rparr>)) s3 = (Inr u, s4)"
    and looped: "copy_loop (copy_turns remaining) mc i j remaining '''' s4 = (Inr c, s5)"
    and look5: "sys mc (pure_call (\<lambda>s. Inr (file_identity s i, int (length (fd_bytes (sd_files s i)))))) s5 = (Inr final, s')"
    and result: "copied_bytes = int (length c)" "digest = mc_sha256 mc c"
    using copied unfolding fd copy_open_file_def
    by (auto simp: bind_Inr_iff throw_eq return_eq split: if_splits prod.splits)
  have s2: "holds_files s2 p files" using look [OF passive_sys look2 s1] .
  have s3: "holds_files s3 p (files @ [(n, j, '''')])" "j \<notin> (fst \<circ> snd) ` set files"
    using create_holds [OF holds_between [OF assms(3,4) s2] assms(6) sys_Inr [OF created]] by auto
  have s4_eq: "s4 = (between mc s3)\<lparr>sd_files := (sd_files (between mc s3))(j := (sd_files (between mc s3) j)\<lparr>fd_mode := 432\<rparr>)\<rparr>"
    using sys_Inr [OF moded] by simp
  have s4: "holds_files s4 p (files @ [(n, j, '''')])"
    by (rule holds_same_nodes [OF holds_between [OF assms(3,4) s3(1)]]) (simp_all add: s4_eq)
  have "holds_files s5 p (files @ [(n, j, c)]) \<and> int (length c) \<le> remaining"
    using copy_loop_holds [OF looped s4 s3(2) assms(3,4)] assms(5) by simp
  then show ?thesis using result look [OF passive_sys look5] by blast
qed

lemma stored_name_plain: "stored_name mc index name \<noteq> ''..''"
proof -
  have "CHR ''-'' \<in> set (stored_name mc index name)" by (simp add: stored_name_def Let_def)
  then show ?thesis by auto
qed

lemma metric_key_neq: "metric_key a ''.bytes'' \<noteq> metric_key b ''.sha256''"
proof
  assume "metric_key a ''.bytes'' = metric_key b ''.sha256''"
  then have "last (metric_key a ''.bytes'') = last (metric_key b ''.sha256'')" by simp
  then show False by (simp add: metric_key_def)
qed

lemma metric_key_inj: "metric_key a what = metric_key b what \<longleftrightarrow> a = b"
  by (simp add: metric_key_def)

text \<open>What one artifact leaves behind: its record, its stored file and its two metrics.\<close>

definition retained_ok :: "machine \<Rightarrow> string \<Rightarrow> string list \<Rightarrow> nat \<Rightarrow> artifact_record \<Rightarrow> artifact_record \<Rightarrow> string \<times> nat \<times> string \<Rightarrow> (string \<times> json) list \<Rightarrow> bool" where
  "retained_ok mc uri_root directory index a r file metrics \<longleftrightarrow>
     art_name r = art_name a \<and> fst file = stored_name mc index (art_name a) \<and> art_uri r = retained_uri uri_root directory (fst file) \<and>
     map_of metrics (metric_key (art_name a) ''.bytes'') = Some (JInt (int (length (snd (snd file))))) \<and>
     map_of metrics (metric_key (art_name a) ''.sha256'') = Some (JStr (mc_sha256 mc (snd (snd file))))"

lemma retain_one_holds:
  assumes "retain_one mc request result uri_root source_root directory staging index a (records, metrics, spent) s = (Inr (records', metrics', spent'), s')"
    and "holds_files s staging files" and "leaves_alone mc base" and "below base staging" and "spent \<le> rq_max_bytes request"
  shows "\<exists>r file. records' = records @ [r] \<and> holds_files s' staging (files @ [file]) \<and> spent' = spent + int (length (snd (snd file))) \<and>
    spent' \<le> rq_max_bytes request \<and> retained_ok mc uri_root directory index a r file metrics' \<and>
    (\<forall>key. key \<noteq> metric_key (art_name a) ''.bytes'' \<longrightarrow> key \<noteq> metric_key (art_name a) ''.sha256'' \<longrightarrow> map_of metrics' key = map_of metrics key)"
proof -
  let ?n = "stored_name mc index (art_name a)"
  obtain s1 source s2 copied_bytes digest s3 media_type where
    s1: "lift_result (validate_artifact_name (art_name a)) s = (Inr (), s1)"
    and resolved: "resolve_source mc source_root a s1 = (Inr source, s2)"
    and copied: "copy_and_hash mc source (staging @ [?n]) (rq_max_bytes request - spent) (art_name a) s2 = (Inr (copied_bytes, digest), s')"
    and out: "records' = records @ [\<lparr>art_name = art_name a, art_uri = retained_uri uri_root directory ?n, art_media_type = Some media_type\<rparr>]"
      "metrics' = assoc_set (metric_key (art_name a) ''.sha256'') (JStr digest) (assoc_set (metric_key (art_name a) ''.bytes'') (JInt copied_bytes) metrics)"
      "spent' = spent + copied_bytes"
    using assms(1) unfolding retain_one_def
    by (auto simp: bind_Inr_iff lift_result_eq return_eq Let_def)
  have h1: "holds_files s1 staging files"
    using holds_passive [OF passive_return(3) s1 assms(3,4,2)] .
  have h2: "holds_files s2 staging files" using holds_passive [OF passive_resolve_source resolved assms(3,4) h1] .
  from copy_holds [OF copied h2 assms(3,4) _ stored_name_plain] assms(5) obtain j c where
    c: "copied_bytes = int (length c)" "digest = mc_sha256 mc c" "copied_bytes \<le> rq_max_bytes request - spent" "holds_files s' staging (files @ [(?n, j, c)])"
    by auto
  show ?thesis
    by (intro exI [of _ "\<lparr>art_name = art_name a, art_uri = retained_uri uri_root directory ?n, art_media_type = Some media_type\<rparr>"] exI [of _ "(?n, j, c)"])
      (use out c metric_key_neq in \<open>auto simp: retained_ok_def\<close>)
qed

lemma retain_each_holds:
  assumes "retain_each mc request result uri_root source_root directory staging index as (records, metrics, spent) s = (Inr (records', metrics', spent'), s')"
    and "holds_files s staging files" and "leaves_alone mc base" and "below base staging" and "spent \<le> rq_max_bytes request" and "distinct (map art_name as)"
  shows "\<exists>rs fs. records' = records @ rs \<and> length rs = length as \<and> length fs = length as \<and> holds_files s' staging (files @ fs) \<and>
    spent' = spent + sum_list (map (\<lambda>f. int (length (snd (snd f)))) fs) \<and> spent' \<le> rq_max_bytes request \<and>
    (\<forall>k < length as. retained_ok mc uri_root directory (index + k) (as ! k) (rs ! k) (fs ! k) metrics') \<and>
    (\<forall>key. key \<notin> (\<lambda>a. metric_key (art_name a) ''.bytes'') ` set as \<longrightarrow> key \<notin> (\<lambda>a. metric_key (art_name a) ''.sha256'') ` set as \<longrightarrow>
       map_of metrics' key = map_of metrics key)"
  using assms(1,2,5,6)
proof (induction as arbitrary: index records metrics spent s files)
  case Nil
  then show ?case by (auto simp: return_eq)
next
  case (Cons a as)
  obtain records1 metrics1 spent1 s1 where
    one: "retain_one mc request result uri_root source_root directory staging index a (records, metrics, spent) s = (Inr (records1, metrics1, spent1), s1)"
    and rest: "retain_each mc request result uri_root source_root directory staging (Suc index) as (records1, metrics1, spent1) s1 = (Inr (records', metrics', spent'), s')"
    using Cons.prems(1) by (auto simp: bind_Inr_iff)
  obtain r f where first: "records1 = records @ [r]" "holds_files s1 staging (files @ [f])" "spent1 = spent + int (length (snd (snd f)))"
      "spent1 \<le> rq_max_bytes request" "retained_ok mc uri_root directory index a r f metrics1"
    and kept: "\<And>key. key \<noteq> metric_key (art_name a) ''.bytes'' \<Longrightarrow> key \<noteq> metric_key (art_name a) ''.sha256'' \<Longrightarrow> map_of metrics1 key = map_of metrics key"
    using retain_one_holds [OF one Cons.prems(2) assms(3,4) Cons.prems(3)] by blast
  from Cons.IH [OF rest first(2,4)] Cons.prems(4) obtain rs fs where
    more: "records' = records1 @ rs" "length rs = length as" "length fs = length as" "holds_files s' staging ((files @ [f]) @ fs)"
      "spent' = spent1 + sum_list (map (\<lambda>f. int (length (snd (snd f)))) fs)" "spent' \<le> rq_max_bytes request"
      "\<And>k. k < length as \<Longrightarrow> retained_ok mc uri_root directory (Suc index + k) (as ! k) (rs ! k) (fs ! k) metrics'"
    and kept': "\<And>key. key \<notin> (\<lambda>a. metric_key (art_name a) ''.bytes'') ` set as \<Longrightarrow> key \<notin> (\<lambda>a. metric_key (art_name a) ''.sha256'') ` set as \<Longrightarrow>
       map_of metrics' key = map_of metrics1 key"
    by auto
  have new: "art_name a \<notin> art_name ` set as" using Cons.prems(4) by simp
  have "map_of metrics' (metric_key (art_name a) what) = map_of metrics1 (metric_key (art_name a) what)" if "what = ''.bytes'' \<or> what = ''.sha256''" for what
    using new that metric_key_neq [symmetric] metric_key_neq by (intro kept') (auto simp: metric_key_inj image_iff)
  then have head: "retained_ok mc uri_root directory index a r f metrics'" using first(5) by (simp add: retained_ok_def)
  have "retained_ok mc uri_root directory (index + k) ((a # as) ! k) ((r # rs) ! k) ((f # fs) ! k) metrics'" if "k < length (a # as)" for k
    using that head more(7) by (cases k) auto
  then show ?case using first more kept kept' by (intro exI [of _ "r # rs"] exI [of _ "f # fs"]) auto
qed

section \<open>The directories of the storage\<close>

definition stays :: "(sidecar \<Rightarrow> bool) \<Rightarrow> (sidecar, 'a) op \<Rightarrow> bool" where
  "stays I m \<longleftrightarrow> (\<forall>s. I s \<longrightarrow> I (snd (m s)))"

lemma stays_return [simp]: "stays I (return a)" "stays I (throw e)" "stays I (lift_result r)"
  by (simp_all add: stays_def return_eq throw_eq lift_result_eq)

lemma stays_bind: "stays I m \<Longrightarrow> (\<And>a. stays I (f a)) \<Longrightarrow> stays I (bind m f)"
  by (fastforce simp: stays_def bind_def split: prod.split sum.split)

lemma stays_handle: "stays I m \<Longrightarrow> (\<And>e. stays I (f e)) \<Longrightarrow> stays I (handle m f)"
  by (fastforce simp: stays_def handle_def split: prod.split sum.split)

lemma stays_catching: "stays I m \<Longrightarrow> stays I (catching P m)"
  by (fastforce simp: stays_def catching_def split: prod.split sum.split)

lemma stays_sys: "(\<And>s. I s \<Longrightarrow> I (between mc s)) \<Longrightarrow> stays I call \<Longrightarrow> stays I (sys mc call)"
  by (auto simp: stays_def sys_def)

lemma stays_pure: "stays I (pure_call f)"
  by (simp add: stays_def pure_call_def)

lemma staysD: "stays I m \<Longrightarrow> m s = (r, s') \<Longrightarrow> I s \<Longrightarrow> I s'"
  by (metis stays_def snd_conv)

text \<open>No link in the storage, and a plain path.\<close>

definition unlinked :: "string list \<Rightarrow> sidecar \<Rightarrow> bool" where
  "unlinked base s \<longleftrightarrow> (\<forall>p t. below base p \<longrightarrow> node_at s p \<noteq> Some (Link t))"

definition settled_at :: "string list \<Rightarrow> string list \<Rightarrow> sidecar \<Rightarrow> bool" where
  "settled_at base p s \<longleftrightarrow> unlinked base s \<and> plain s p"

lemma settled_between:
  "leaves_alone mc base \<Longrightarrow> below base p \<or> below p base \<Longrightarrow> settled_at base p s \<Longrightarrow> settled_at base p (between mc s)"
  using plain_between node_at_between by (fastforce simp: settled_at_def unlinked_def)

lemma put_settled:
  assumes "settled_at base p s" and "q \<noteq> []" and "\<And>t. n \<noteq> Link t" and "directory_at s q \<Longrightarrow> is_directory n"
  shows "settled_at base p (put_node q n s)"
proof -
  have "directory_at (put_node q n s) (take k p)" for k
  proof (cases "take k p = q")
    case True
    then show ?thesis using assms by (cases n) (auto simp: settled_at_def plain_def directory_at_def node_at_put)
  next
    case False
    then show ?thesis using assms(1,2) by (auto simp: settled_at_def plain_def directory_at_def node_at_put)
  qed
  moreover have "unlinked base (put_node q n s)"
    using assms by (auto simp: settled_at_def unlinked_def node_at_put)
  ultimately show ?thesis using assms(1) by (simp add: settled_at_def plain_def)
qed

lemma settled_frame [simp]: "settled_at base p (s\<lparr>sd_files := f\<rparr>) = settled_at base p s" "settled_at base p (s\<lparr>sd_next := k\<rparr>) = settled_at base p s"
  by (simp_all add: settled_at_def unlinked_def plain_def directory_at_def)

lemma node_at_root [simp]: "node_at s [] = Some (Directory 493)"
  by (simp add: node_at_def)

lemma settled_make_directory: "stays (settled_at base p) (make_directory mode q)"
  unfolding stays_def
  by (auto simp: make_directory_def directory_at_def split: sum.split intro!: put_settled)

lemma settled_change_mode: "stays (settled_at base p) (change_mode mode q)"
  unfolding stays_def
  by (auto simp: change_mode_def directory_at_def split: sum.split option.split node.split intro!: put_settled)

lemma settled_create_file: "stays (settled_at base p) (create_file mode q)"
  unfolding stays_def
  by (auto simp: create_file_def directory_at_def split: sum.split intro!: put_settled)

lemma settled_write_file: "stays (settled_at base p) (write_file i chunk)"
  by (simp add: stays_def write_file_def)

lemma settled_try_directories: "settled_at base p s \<Longrightarrow> settled_at base p (snd (try_directories name i attempts s))"
proof (induction name i attempts s rule: try_directories.induct)
  case (1 name i attempts s)
  have "settled_at base p (snd (make_directory 448 (name i) s))"
    using settled_make_directory 1(2) by (auto simp: stays_def)
  with 1 show ?case by (subst try_directories.simps) (auto split: prod.split sum.split)
qed

definition tame :: "machine \<Rightarrow> string list \<Rightarrow> string list \<Rightarrow> bool" where
  "tame mc base p \<longleftrightarrow> leaves_alone mc base \<and> (below base p \<or> below p base)"

lemma tame_between: "tame mc base p \<Longrightarrow> settled_at base p s \<Longrightarrow> settled_at base p (between mc s)"
  unfolding tame_def using settled_between by blast

lemma settled_sys:
  assumes "tame mc base p" and "stays (settled_at base p) call"
  shows "stays (settled_at base p) (sys mc call)"
  by (rule stays_sys) (simp_all add: tame_between [OF assms(1)] assms(2))

lemma settled_look: "tame mc base p \<Longrightarrow> stays (settled_at base p) (sys mc (pure_call f))"
  by (rule settled_sys [OF _ stays_pure])

lemmas settled_intros = stays_bind stays_handle stays_catching settled_look settled_sys settled_make_directory settled_change_mode
  settled_create_file settled_write_file

lemma settled_passive:
  assumes "tame mc base p" and looks: "only_looks mc m"
  shows "stays (settled_at base p) m"
  unfolding stays_def
proof (intro allI impI)
  fix s assume s: "settled_at base p s"
  obtain n where "snd (m s) = (between mc ^^ n) s" using looks unfolding only_looks_def by blast
  moreover have "settled_at base p ((between mc ^^ n) s)" for n
    by (induction n) (simp_all add: s tame_between [OF assms(1)])
  ultimately show "settled_at base p (snd (m s))" by simp
qed

lemma settled_mkdir_exist_ok: "tame mc base p \<Longrightarrow> stays (settled_at base p) (mkdir_exist_ok mc mode q)"
  unfolding mkdir_exist_ok_def by (auto intro!: settled_intros)

lemma settled_ensure_tree: "tame mc base p \<Longrightarrow> stays (settled_at base p) (ensure_shared_tree mc q cs)"
  by (induction cs arbitrary: q) (auto simp: Let_def intro!: settled_intros settled_mkdir_exist_ok)

lemma settled_make_staging: "tame mc base p \<Longrightarrow> stays (settled_at base p) (make_staging mc directory prefix)"
proof -
  assume tame: "tame mc base p"
  have "stays (settled_at base p) (\<lambda>s. try_directories (f s) 0 10000 s)" for f
    using settled_try_directories by (auto simp: stays_def)
  with tame show ?thesis
    unfolding make_staging_def by (auto intro!: settled_intros)
qed

lemma settled_copy_loop: "tame mc base p \<Longrightarrow> stays (settled_at base p) (copy_loop turns mc i j remaining sofar)"
  by (induction turns arbitrary: sofar) (auto intro!: settled_intros)

lemma settled_copy:
  assumes "tame mc base p"
  shows "stays (settled_at base p) (copy_and_hash mc source destination remaining name)"
proof -
  have moded: "stays (settled_at base p) (\<lambda>s. (Inr (), s\<lparr>sd_files := (sd_files s)(j := (sd_files s j)\<lparr>fd_mode := m\<rparr>)\<rparr>))" for j m
    by (simp add: stays_def)
  show ?thesis unfolding copy_and_hash_def copy_open_file_def
    by (auto intro!: stays_bind settled_passive [OF assms passive_open_source] settled_look [OF assms] settled_sys [OF assms] settled_create_file moded settled_copy_loop [OF assms]
        split: node.split prod.split)
qed

lemma settled_retain_each:
  assumes "tame mc base p"
  shows "stays (settled_at base p) (retain_each mc request result uri_root source_root directory staging index as sofar)"
proof (induction as arbitrary: index sofar)
  case (Cons a as)
  have "stays (settled_at base p) (retain_one mc request result uri_root source_root directory staging index a sofar)"
    unfolding retain_one_def
    by (auto simp: Let_def intro!: stays_bind settled_passive [OF assms passive_resolve_source] settled_copy [OF assms] split: prod.split)
  with Cons show ?case by (auto intro!: stays_bind)
qed simp

lemma tests_lstat: "plain s p \<Longrightarrow> c \<noteq> ''..'' \<Longrightarrow> tests (lstat s (p @ [c])) is_link = (\<exists>t. node_at s (p @ [c]) = Some (Link t))"
  by (auto simp: lstat_plain tests_def missing_def split: option.split sum.split) (metis is_link.elims(2))

lemma stat_unlinked:
  assumes "plain s p" and "c \<noteq> ''..''" and "\<And>t. node_at s (p @ [c]) \<noteq> Some (Link t)"
  shows "stat s (p @ [c]) = (case node_at s (p @ [c]) of None \<Rightarrow> missing | Some n \<Rightarrow> Inr n)"
  using assms(2,3) by (auto simp: stat_def resolved_append [OF assms(1)] missing_def bind_result_def split: option.split node.split)

lemma directory_below:
  assumes "settled_at base p s" and "below base p" and "c \<noteq> ''..''" and "tests (stat s (p @ [c])) is_directory"
  shows "directory_at s (p @ [c])"
proof -
  have "node_at s (p @ [c]) \<noteq> Some (Link t)" for t
    using assms(1) below_trans [OF assms(2) below_append] by (simp add: settled_at_def unlinked_def)
  then have "stat s (p @ [c]) = (case node_at s (p @ [c]) of None \<Rightarrow> missing | Some n \<Rightarrow> Inr n)"
    using stat_unlinked assms(1,3) by (simp add: settled_at_def)
  then show ?thesis using assms(4)
    by (auto simp: tests_def missing_def directory_at_def split: option.splits) (metis is_directory.elims(2))
qed

lemma ensured_tree:
  assumes "ensure_shared_tree mc p cs s = (Inr u, s')" and "settled_at base p s" and "leaves_alone mc base" and "below base p" and "''..'' \<notin> set cs"
  shows "settled_at base (p @ cs) s'"
  using assms(1,2,4,5)
proof (induction cs arbitrary: p s)
  case Nil
  then show ?case by (simp add: return_eq)
next
  case (Cons c cs)
  let ?q = "p @ [c]"
  have tame: "tame mc base p" "tame mc base ?q" using below_trans [OF Cons.prems(3) below_append] Cons.prems(3) assms(3) by (auto simp: tame_def)
  obtain u1 s1 linked s2 there s3 u4 s4 where
    made: "mkdir_exist_ok mc 1528 ?q s = (Inr u1, s1)"
    and look: "sys mc (pure_call (\<lambda>s. Inr (tests (lstat s ?q) is_link))) s1 = (Inr linked, s2)"
    and look2: "(if linked then return False else sys mc (pure_call (\<lambda>s. Inr (tests (stat s ?q) is_directory)))) s2 = (Inr there, s3)"
    and rest: "(if \<not> there then throw (retention_error ''retained artifact path must contain only directories'')
      else bind (sys mc (change_mode 1528 ?q)) (\<lambda>_. ensure_shared_tree mc ?q cs)) s3 = (Inr u, s')"
    using Cons.prems(1) unfolding ensure_shared_tree.simps Let_def by (auto simp: bind_Inr_iff)
  have there: "there" "\<not> linked" using rest look2 by (auto simp: throw_eq return_eq split: if_splits)
  have s2: "settled_at base p s2"
    using staysD [OF settled_look [OF tame(1)] look staysD [OF settled_mkdir_exist_ok [OF tame(1)] made Cons.prems(2)]] .
  have look3: "sys mc (pure_call (\<lambda>s. Inr (tests (stat s ?q) is_directory))) s2 = (Inr there, s3)" using look2 there by simp
  then have s3: "s3 = between mc s2" "tests (stat s3 ?q) is_directory"
    using sys_Inr [OF look3] there by (auto simp: pure_call_def sys_def split: if_splits)
  have "settled_at base p s3" using tame_between [OF tame(1) s2] s3(1) by simp
  then have "settled_at base ?q s3"
    using directory_below [OF _ Cons.prems(3) _ s3(2)] Cons.prems(4) by (auto simp: settled_at_def plain_snoc)
  moreover obtain u4 s4 where "sys mc (change_mode 1528 ?q) s3 = (Inr u4, s4)" and more: "ensure_shared_tree mc ?q cs s4 = (Inr u, s')"
    using rest there(1) by (auto simp: bind_Inr_iff)
  ultimately have "settled_at base ?q s4"
    using staysD [OF settled_sys [OF tame(2) settled_change_mode]] by blast
  from Cons.IH [OF more this] below_trans [OF Cons.prems(3) below_append] Cons.prems(4) show ?case by auto
qed

lemma ensured_tree_settled: "tame mc base p \<Longrightarrow> ensure_shared_tree mc q cs s = (r, s') \<Longrightarrow> settled_at base p s \<Longrightarrow> settled_at base p s'"
  by (rule staysD [OF settled_ensure_tree])

lemma settled_mkdir_parents: "tame mc base p \<Longrightarrow> stays (settled_at base p) (mkdir_parents mc q)"
proof (induction mc q rule: mkdir_parents.induct)
  case (1 mc q)
  then show ?case
    by (subst mkdir_parents.simps) (auto intro!: settled_intros settled_mkdir_exist_ok)
qed

lemma made_directory: "make_directory mode q s = (Inr u, s') \<Longrightarrow> located s q = Inr q \<Longrightarrow> q \<noteq> [] \<Longrightarrow> directory_at s' q \<and> node_at s q = None"
  by (auto simp: make_directory_def directory_at_def node_at_put split: if_splits)

lemma tried_directory:
  assumes "try_directories name i attempts s = (Inr q, s')" and "settled_at base p s" and "\<And>i. \<exists>c. name i = p @ [c] \<and> c \<noteq> ''..''"
  shows "\<exists>j. q = name j \<and> settled_at base q s'"
  using assms
proof (induction name i attempts s rule: try_directories.induct)
  case (1 name i attempts s)
  obtain r s1 where r: "make_directory 448 (name i) s = (r, s1)" by fastforce
  have s1: "settled_at base p s1" using staysD [OF settled_make_directory r 1(3)] .
  obtain c where c: "name i = p @ [c]" "c \<noteq> ''..''" using 1(4) by blast
  show ?case
  proof (cases r)
    case (Inl e)
    then have "\<not> attempts \<le> 0" "error_class e = FileExistsError" "try_directories name (Suc i) (attempts - 1) s1 = (Inr q, s')"
      using 1(2) r by (subst (asm) try_directories.simps; auto split: if_splits)+
    with 1(1) [OF _ r [symmetric] Inl this(2,3) s1] 1(4) show ?thesis by blast
  next
    case (Inr u)
    then have "q = name i" "s' = s1" using 1(2) r by (subst (asm) try_directories.simps; auto split: if_splits)+
    moreover have "directory_at s1 (name i)"
      using made_directory [of 448 "name i" s u s1] r Inr c located_plain 1(3) by (auto simp: settled_at_def)
    ultimately show ?thesis using s1 c by (intro exI [of _ i]) (auto simp: settled_at_def plain_snoc)
  qed
qed

lemma staged:
  assumes "make_staging mc p prefix s = (Inr staging, s')" and "settled_at base p s" and "leaves_alone mc base" and "below base p" and "2 < length prefix"
  shows "\<exists>suffix. staging = p @ [prefix @ suffix] \<and> settled_at base staging s'"
proof -
  let ?name = "\<lambda>s i. p @ [prefix @ mc_suffix mc (sd_calls s) i]"
  obtain s1 u where tried: "sys mc (\<lambda>s. try_directories (?name s) 0 10000 s) s = (Inr staging, s1)"
    and moded: "sys mc (change_mode 1528 staging) s1 = (Inr u, s')"
    using assms(1) unfolding make_staging_def by (auto simp: bind_Inr_iff return_eq)
  have tame: "tame mc base p" using assms(3,4) by (simp add: tame_def)
  have "prefix @ x \<noteq> ''..''" for x using assms(5) by (metis append_eq_Cons_conv append_is_Nil_conv length_Cons less_not_refl list.size(3) not_add_less2 numeral_2_eq_2 Suc_less_eq length_append not_less_eq zero_less_Suc trans_less_add1)
  then have "\<exists>c. ?name (between mc s) i = p @ [c] \<and> c \<noteq> ''..''" for i by auto
  from tried_directory [OF sys_Inr [OF tried] tame_between [OF tame assms(2)] this]
  obtain j where staging: "staging = ?name (between mc s) j" "settled_at base staging s1" by blast
  have "tame mc base staging" using assms(3,4) staging(1) below_trans [OF assms(4) below_append] by (auto simp: tame_def)
  from staysD [OF settled_sys [OF this settled_change_mode] moded staging(2)] staging(1) show ?thesis by blast
qed

section \<open>What the storage holds\<close>

text \<open>A file of the storage with a given digest, in a plain directory.\<close>

definition stored :: "machine \<Rightarrow> string list \<Rightarrow> string \<Rightarrow> string \<Rightarrow> sidecar \<Rightarrow> bool" where
  "stored mc p n digest s \<longleftrightarrow> plain s p \<and> (\<exists>i. node_at s (p @ [n]) = Some (Regular i) \<and> mc_sha256 mc (fd_bytes (sd_files s i)) = digest)"

lemma stored_read: "stored mc p n digest s \<Longrightarrow> n \<noteq> ''..'' \<Longrightarrow> \<exists>bytes. read_stored (p @ [n]) s = Inr bytes \<and> mc_sha256 mc bytes = digest"
  by (auto simp: stored_def read_stored_def stat_unlinked)

lemma stored_between: "leaves_alone mc base \<Longrightarrow> below base p \<Longrightarrow> stored mc p n digest s \<Longrightarrow> stored mc p n digest (between mc s)"
proof -
  assume a: "leaves_alone mc base" "below base p" "stored mc p n digest s"
  then obtain i where i: "node_at s (p @ [n]) = Some (Regular i)" "mc_sha256 mc (fd_bytes (sd_files s i)) = digest"
    by (auto simp: stored_def)
  have within: "below base (p @ [n])" using below_trans [OF a(2) below_append] .
  then have "sd_files (between mc s) i = sd_files s i" using a(1) i(1) by (auto simp: leaves_alone_def between_def)
  with a i within show ?thesis using plain_between [OF a(1), of p s] node_at_between [OF a(1), of "p @ [n]" s] by (auto simp: stored_def)
qed

lemma stored_passive:
  assumes "only_looks mc m" and "m s = (r, s')" and "leaves_alone mc base" and "below base p" and "stored mc p n digest s"
  shows "stored mc p n digest s'"
proof -
  obtain k where "s' = (between mc ^^ k) s" using assms(1,2) by (metis only_looks_def snd_conv)
  moreover have "stored mc p n digest ((between mc ^^ k) s)" for k
    by (induction k) (simp_all add: assms(5) stored_between [OF assms(3,4)])
  ultimately show ?thesis by simp
qed

lemma holds_stored: "holds_files s p files \<Longrightarrow> (n, i, b) \<in> set files \<Longrightarrow> stored mc p n (mc_sha256 mc b) s"
  using holds_filesD by (auto simp: stored_def)

lemma change_mode_cases:
  "snd (change_mode mode q s) = s \<or> (\<exists>r. r \<noteq> [] \<and> directory_at s r \<and> snd (change_mode mode q s) = put_node r (Directory mode) s) \<or>
   (\<exists>j. snd (change_mode mode q s) = s\<lparr>sd_files := (sd_files s)(j := (sd_files s j)\<lparr>fd_mode := mode\<rparr>)\<rparr>)"
proof (cases "resolved s q")
  case (Inr r)
  show ?thesis
  proof (cases "node_at s r")
    case (Some n)
    then show ?thesis using Inr by (cases n; cases "r = []") (auto simp: change_mode_def directory_at_def)
  qed (simp add: change_mode_def Inr)
qed (simp add: change_mode_def)

lemma stored_change_mode: "stays (stored mc p n digest) (change_mode mode q)"
  unfolding stays_def
proof (intro allI impI)
  fix s assume s: "stored mc p n digest s"
  then obtain i where i: "plain s p" "node_at s (p @ [n]) = Some (Regular i)" "mc_sha256 mc (fd_bytes (sd_files s i)) = digest"
    by (auto simp: stored_def)
  consider (same) "snd (change_mode mode q s) = s" | (moded) r where "r \<noteq> []" "directory_at s r" "snd (change_mode mode q s) = put_node r (Directory mode) s"
    | (regular) j where "snd (change_mode mode q s) = s\<lparr>sd_files := (sd_files s)(j := (sd_files s j)\<lparr>fd_mode := mode\<rparr>)\<rparr>"
    using change_mode_cases by metis
  then show "stored mc p n digest (snd (change_mode mode q s))"
  proof cases
    case (moded r)
    have "plain (put_node r (Directory mode) s) p"
      using i(1) moded(1) by (auto simp: plain_def directory_at_def node_at_put)
    moreover have "p @ [n] \<noteq> r" using i(2) moded(2) by (auto simp: directory_at_def)
    ultimately show ?thesis using i moded(1,3) by (auto simp: stored_def node_at_put) (simp add: put_node_def)
  next
    case (regular j)
    then show ?thesis using i by (auto simp: stored_def plain_def directory_at_def)
  qed (use s in simp)
qed

text \<open>A directory \<open>staging\<close> and a directory \<open>final\<close> beside it.\<close>

lemma siblings:
  assumes "a \<noteq> b"
  shows "\<not> below (p @ [a]) (take k (p @ [b]))" "\<not> below (p @ [a]) (p @ [b] @ r)" "\<not> below (p @ [a]) (take k p)"
proof -
  have len: "length (p @ [a]) \<le> length q" if "below (p @ [a]) q" for q
    using that by (metis below_def length_take min.cobounded1 min.absorb_iff2 linear take_all)
  show "\<not> below (p @ [a]) (take k p)" using len [of "take k p"] by auto
  show "\<not> below (p @ [a]) (p @ [b] @ r)" using assms by (simp add: below_def)
  show "\<not> below (p @ [a]) (take k (p @ [b]))"
  proof
    assume "below (p @ [a]) (take k (p @ [b]))"
    moreover from len [OF this] have "take k (p @ [b]) = p @ [b]" by (intro take_all) simp
    ultimately have "below (p @ [a]) (p @ [b])" by metis
    then show False using assms by (simp add: below_def)
  qed
qed

lemma map_of_kept: "P k \<Longrightarrow> map_of (filter (\<lambda>(q, _). P q) xs) k = map_of xs k"
  by (induction xs) auto

lemma map_of_renamed: "(\<And>q. q \<in> fst ` set xs \<Longrightarrow> f q = k \<longleftrightarrow> q = k') \<Longrightarrow> map_of (map (\<lambda>(q, n). (f q, n)) xs) k = map_of xs k'"
proof (induction xs)
  case (Cons x xs)
  have "f (fst x) = k \<longleftrightarrow> fst x = k'" using Cons.prems by simp
  moreover have "map_of (map (\<lambda>(q, n). (f q, n)) xs) k = map_of xs k'" using Cons by simp
  ultimately show ?case by (cases x) (simp, metis)
qed simp

lemma removed_stored:
  assumes "remove_tree (p @ [a]) s = (r, s')" and "stored mc (p @ [b]) n digest s" and "a \<noteq> b"
  shows "stored mc (p @ [b]) n digest s'"
proof -
  consider "s' = s" | "s' = s\<lparr>sd_names := filter (\<lambda>(q, _). \<not> below (p @ [a]) q) (sd_names s)\<rparr>"
    using assms(1) by (auto simp: remove_tree_def split: sum.splits node.splits)
  then show ?thesis
  proof cases
    case 2
    have "node_at s' q = node_at s q" if "\<not> below (p @ [a]) q" for q
      using that by (simp add: node_at_def 2 map_of_kept)
    then show ?thesis using assms(2) siblings [OF assms(3)] by (auto simp: stored_def plain_def directory_at_def 2)
  qed (use assms(2) in simp)
qed

lemma renamed_stored:
  assumes "rename_directory (p @ [a]) (p @ [b]) s = (Inr u, s')" and "stored mc (p @ [a]) n digest s" and "plain s p" and "a \<noteq> b" and "b \<noteq> ''..''"
  shows "stored mc (p @ [b]) n digest s'"
proof -
  have files: "sd_files s' = sd_files s"
    and names: "sd_names s' = map (\<lambda>(r, n). (moved_name (p @ [a]) (p @ [b]) r, n)) (filter (\<lambda>(r, _). \<not> below (p @ [b]) r) (sd_names s))"
    using assms(1) located_plain [OF assms(3,5)] by (auto simp: rename_directory_def split: sum.splits node.splits option.splits if_splits)
  have same: "node_at s' q = node_at s q" if q: "\<not> below (p @ [b]) q" "\<not> below (p @ [a]) q" for q
  proof -
    have "map_of (sd_names s') q = map_of (filter (\<lambda>(r, _). \<not> below (p @ [b]) r) (sd_names s)) q"
      unfolding names
    proof (rule map_of_renamed)
      fix r show "moved_name (p @ [a]) (p @ [b]) r = q \<longleftrightarrow> r = q"
        using q below_append [of "p @ [b]" "drop (length (p @ [a])) r"] by (auto simp: moved_name_def)
    qed
    with q(1) show ?thesis by (simp add: node_at_def map_of_kept)
  qed
  have moved: "node_at s' (p @ [b] @ q) = node_at s (p @ [a] @ q)" for q
  proof -
    have "map_of (sd_names s') (p @ [b] @ q) = map_of (filter (\<lambda>(r, _). \<not> below (p @ [b]) r) (sd_names s)) (p @ [a] @ q)"
      unfolding names
    proof (rule map_of_renamed)
      fix r assume "r \<in> fst ` set (filter (\<lambda>(r, _). \<not> below (p @ [b]) r) (sd_names s))"
      then have r: "\<not> below (p @ [b]) r" by auto
      show "moved_name (p @ [a]) (p @ [b]) r = p @ [b] @ q \<longleftrightarrow> r = p @ [a] @ q"
      proof (cases "below (p @ [a]) r")
        case True
        then obtain t where "r = (p @ [a]) @ t" unfolding below_def by (metis append_take_drop_id)
        then show ?thesis using True by (simp add: moved_name_def)
      next
        case False
        then show ?thesis using r below_append [of "p @ [b]" q] below_append [of "p @ [a]" q] by (auto simp: moved_name_def)
      qed
    qed
    moreover have "\<not> below (p @ [b]) (p @ [a] @ q)" using siblings(2) [OF assms(4) [symmetric]] .
    ultimately show ?thesis by (simp add: node_at_def map_of_kept)
  qed
  have "plain s' p"
    using assms(3) same siblings(3) [OF assms(4)] siblings(3) [OF assms(4) [symmetric]] by (simp add: plain_def directory_at_def)
  moreover have "directory_at s' (p @ [b])"
    using moved [of "[]"] assms(2) by (simp add: stored_def plain_snoc directory_at_def)
  ultimately show ?thesis
    using assms(2,5) moved [of "[n]"] files by (auto simp: stored_def plain_snoc)
qed

lemma settled_plain: "settled_at base p s \<Longrightarrow> plain s p"
  by (simp add: settled_at_def)

text \<open>A directory that can be listed below a plain one is plain itself: there are no links.\<close>

lemma listed_directory:
  assumes "settled_at base p s" and "below base p" and "c \<noteq> ''..''" and "list_directory (p @ [c]) s = Inr names"
  shows "settled_at base (p @ [c]) s"
proof -
  have plain: "plain s p" using settled_plain [OF assms(1)] .
  have nolink: "node_at s (p @ [c]) \<noteq> Some (Link t)" for t
    using assms(1) below_trans [OF assms(2) below_append] by (simp add: settled_at_def unlinked_def)
  obtain n where n: "node_at s (p @ [c]) = Some n"
    using assms(4) assms(3) by (cases "node_at s (p @ [c])") (auto simp: list_directory_def resolved_append [OF plain] bind_result_def missing_def)
  have "resolved s (p @ [c]) = Inr (p @ [c])"
    using n nolink assms(3) by (cases n) (auto simp: resolved_append [OF plain])
  then have "directory_at s (p @ [c])"
    using n assms(4) by (cases n) (auto simp: list_directory_def bind_result_def directory_at_def)
  then show ?thesis using assms(1,3) by (simp add: settled_at_def plain_snoc)
qed

lemma listed_children: "plain s p \<Longrightarrow> node_at s (p @ [n]) = Some x \<Longrightarrow> list_directory p s = Inr (children s p) \<and> n \<in> set (children s p)"
proof -
  assume a: "plain s p" "node_at s (p @ [n]) = Some x"
  have "(p @ [n], x) \<in> set (sd_names s)" using a(2) by (auto simp: node_at_def dest: map_of_SomeD)
  then have "p @ [n] \<in> fst ` set (sd_names s)" by force
  then have "n \<in> set (children s p)" by (force simp: children_def)
  then show ?thesis using plain_self [OF a(1)] by (auto simp: list_directory_def resolved_plain [OF a(1)] bind_result_def directory_at_def)
qed

lemma read_stored_plain:
  assumes "settled_at base p s" and "below base p" and "n \<noteq> ''..''" and "read_stored (p @ [n]) s = Inr bytes"
  shows "stored mc p n (mc_sha256 mc bytes) s"
proof -
  have "node_at s (p @ [n]) \<noteq> Some (Link t)" for t
    using assms(1) below_trans [OF assms(2) below_append] by (simp add: settled_at_def unlinked_def)
  then have stat: "stat s (p @ [n]) = (case node_at s (p @ [n]) of None \<Rightarrow> missing | Some x \<Rightarrow> Inr x)"
    using stat_unlinked [OF settled_plain [OF assms(1)] assms(3)] by blast
  then obtain i where "node_at s (p @ [n]) = Some (Regular i)" "fd_bytes (sd_files s i) = bytes"
    using assms(4) by (auto simp: read_stored_def bind_result_def missing_def split: option.splits node.splits)
  then show ?thesis using settled_plain [OF assms(1)] by (auto simp: stored_def)
qed

lemma settled_read: "tame mc base p \<Longrightarrow> settled_at base p s \<Longrightarrow> sys mc (pure_call f) s = (r, s') \<Longrightarrow> settled_at base p s'"
  using staysD [OF settled_look] by blast

lemma looked: "sys mc (pure_call f) s = (Inr a, s') \<Longrightarrow> s' = between mc s \<and> f (between mc s) = Inr a"
  using sys_Inr [of mc "pure_call f" s a s'] by (auto simp: pure_call_def)

lemma passive_same_digests: "only_looks mc (same_digests mc left right names)"
  by (induction names) (auto simp: file_sha256_def intro!: passive_bind)

lemma passive_all_regular: "only_looks mc (all_regular mc ps)"
  by (induction ps) (auto intro!: passive_bind)

text \<open>Two files with the same digest: what one directory holds the other holds.\<close>

lemma same_digest_stored:
  assumes "same_digests mc left right names s = (Inr True, s')" and "n \<in> set names" and "n \<noteq> ''..''"
    and "stored mc left n digest s" and "settled_at base right s" and "leaves_alone mc base" and "below base left" and "below base right"
  shows "stored mc right n digest s'"
  using assms(1,2,4,5)
proof (induction names arbitrary: s)
  case (Cons name names)
  have tame: "tame mc base right" using assms(6,8) by (simp add: tame_def)
  obtain l s1 r s2 where l: "file_sha256 mc (left @ [name]) s = (Inr l, s1)" and r: "file_sha256 mc (right @ [name]) s1 = (Inr r, s2)"
    and rest: "(if l = r then same_digests mc left right names else return False) s2 = (Inr True, s')"
    using Cons.prems(1) by (auto simp: bind_Inr_iff)
  obtain bl where bl: "s1 = between mc s" "read_stored (left @ [name]) s1 = Inr bl" "l = mc_sha256 mc bl"
    using l by (auto simp: file_sha256_def bind_Inr_iff return_eq dest!: looked)
  obtain br where br: "s2 = between mc s1" "read_stored (right @ [name]) s2 = Inr br" "r = mc_sha256 mc br"
    using r by (auto simp: file_sha256_def bind_Inr_iff return_eq dest!: looked)
  have same: "l = r" and rest: "same_digests mc left right names s2 = (Inr True, s')" using rest by (auto simp: return_eq split: if_splits)
  have left1: "stored mc left n digest s1" using stored_between [OF assms(6,7) Cons.prems(3)] bl(1) by simp
  have left2: "stored mc left n digest s2" using stored_between [OF assms(6,7) left1] br(1) by simp
  have right2: "settled_at base right s2" using tame_between [OF tame tame_between [OF tame Cons.prems(4)]] bl(1) br(1) by simp
  show ?case
  proof (cases "n = name")
    case True
    then have "l = digest" using stored_read [OF left1 assms(3)] bl(2,3) by auto
    then have "stored mc right n digest s2" using read_stored_plain [OF right2 assms(8,3), of br mc] br(2,3) same True by simp
    then show ?thesis by (rule stored_passive [OF passive_same_digests rest assms(6,8)])
  next
    case False
    then show ?thesis using Cons.IH [OF rest _ left2 right2] Cons.prems(2) by simp
  qed
qed simp

lemma matched_stored:
  assumes "directories_match mc (p @ [a]) (p @ [b]) s = (Inr True, s')" and "settled_at base p s" and "stored mc (p @ [a]) n digest s"
    and "leaves_alone mc base" and "below base p" and "n \<noteq> ''..''" and "b \<noteq> ''..''"
  shows "stored mc (p @ [b]) n digest s'"
proof -
  have tame: "tame mc base p" "tame mc base (p @ [b])" and within: "below base (p @ [a])" "below base (p @ [b])"
    using assms(4,5) below_trans [OF assms(5) below_append] by (auto simp: tame_def)
  obtain left s1 right s2 regular s3 where left: "sys mc (pure_call (list_directory (p @ [a]))) s = (Inr left, s1)"
    and right: "sys mc (pure_call (list_directory (p @ [b]))) s1 = (Inr right, s2)"
    and regular: "all_regular mc (map (\<lambda>n. (p @ [a]) @ [n]) left @ map (\<lambda>n. (p @ [b]) @ [n]) right) s2 = (Inr regular, s3)"
    and rest: "(if \<not> regular \<or> sort left \<noteq> sort right then return False else same_digests mc (p @ [a]) (p @ [b]) (sort left)) s3 = (Inr True, s')"
    using assms(1) unfolding directories_match_def by (auto simp: bind_Inr_iff)
  have s1: "stored mc (p @ [a]) n digest s1" "settled_at base p s1"
    using looked [OF left] stored_between [OF assms(4) within(1) assms(3)] tame_between [OF tame(1) assms(2)] by auto
  have s2: "stored mc (p @ [a]) n digest s2" "settled_at base p s2"
    using looked [OF right] stored_between [OF assms(4) within(1) s1(1)] tame_between [OF tame(1) s1(2)] by auto
  have "n \<in> set left" using listed_children s1(1) looked [OF left] by (fastforce simp: stored_def)
  moreover have "settled_at base (p @ [b]) s2"
    using listed_directory [OF s2(2) assms(5,7)] looked [OF right] by blast
  then have "settled_at base (p @ [b]) s3" using staysD [OF settled_passive [OF tame(2) passive_all_regular] regular] by blast
  moreover have "stored mc (p @ [a]) n digest s3" by (rule stored_passive [OF passive_all_regular regular assms(4) within(1) s2(1)])
  moreover have "same_digests mc (p @ [a]) (p @ [b]) (sort left) s3 = (Inr True, s')"
    using rest by (auto simp: return_eq split: if_splits)
  ultimately show ?thesis using same_digest_stored [OF _ _ assms(6) _ _ assms(4) within] by simp
qed

lemma rename_refused: "sys mc (rename_directory p q) s = (Inl e, s') \<Longrightarrow> s' = between mc s"
  by (auto simp: sys_def rename_directory_def split: if_splits sum.splits node.splits option.splits)

lemma stays_stored_modes:
  assumes "leaves_alone mc base" and "below base p"
  shows "stays (stored mc p n digest) (apply_retained_modes mc directory)"
proof -
  have mode: "stays (stored mc p n digest) (sys mc (change_mode mode q))" for mode q
    by (rule stays_sys) (simp_all add: stored_between [OF assms] stored_change_mode)
  have look: "stays (stored mc p n digest) (sys mc (pure_call f))" for f
    by (rule stays_sys) (simp_all add: stored_between [OF assms] stays_pure)
  have "stays (stored mc p n digest) (apply_modes_to mc directory names)" for names
    by (induction names) (auto intro!: stays_bind look mode)
  then show ?thesis unfolding apply_retained_modes_def by (auto intro!: stays_bind look mode)
qed

text \<open>After a commit the destination holds what was staged, by a move or because it was there.\<close>

lemma committed_stored:
  assumes "commit_staging mc (p @ [a]) (p @ [b]) s = (Inr u, s')" and "settled_at base p s" and "stored mc (p @ [a]) n digest s"
    and "leaves_alone mc base" and "below base p" and "n \<noteq> ''..''" and "b \<noteq> ''..''" and "a \<noteq> b"
  shows "stored mc (p @ [b]) n digest s'"
proof -
  have tame: "tame mc base p" and within: "below base (p @ [a])" "below base (p @ [b])"
    using assms(4,5) below_trans [OF assms(5) below_append] by (auto simp: tame_def)
  have kept: "stored mc (p @ [b]) n digest t'" if settled: "settled_at base p t" and staged: "stored mc (p @ [a]) n digest t"
    and k: "bind (directories_match mc (p @ [a]) (p @ [b])) (\<lambda>same. if \<not> same then throw (retention_error refusal)
      else sys mc (remove_tree (p @ [a]))) t = (Inr v, t')" for t t' v refusal
  proof -
    obtain t1 where same: "directories_match mc (p @ [a]) (p @ [b]) t = (Inr True, t1)" and removed: "sys mc (remove_tree (p @ [a])) t1 = (Inr v, t')"
      using k by (auto simp: bind_Inr_iff throw_eq split: if_splits)
    have "stored mc (p @ [b]) n digest t1" by (rule matched_stored [OF same settled staged assms(4,5,6,7)])
    from removed_stored [OF sys_Inr [OF removed] stored_between [OF assms(4) within(2) this] assms(8)] show ?thesis .
  qed
  obtain there s1 s2 v where look: "sys mc (pure_call (\<lambda>s. Inr (tests (stat s (p @ [b])) (\<lambda>_. True)))) s = (Inr there, s1)"
    and moved: "(if there then bind (directories_match mc (p @ [a]) (p @ [b])) (\<lambda>same. if \<not> same
        then throw (retention_error ''retained artifact destination already contains other bytes'') else sys mc (remove_tree (p @ [a])))
      else handle (sys mc (rename_directory (p @ [a]) (p @ [b]))) (\<lambda>e. if error_class e = FileExistsError
        then bind (directories_match mc (p @ [a]) (p @ [b])) (\<lambda>same. if \<not> same
          then throw (retention_error ''retained artifact destination changed concurrently'') else sys mc (remove_tree (p @ [a])))
        else throw e)) s1 = (Inr v, s2)"
    and modes: "apply_retained_modes mc (p @ [b]) s2 = (Inr u, s')"
    using assms(1) unfolding commit_staging_def Let_def by (auto simp: bind_Inr_iff)
  have s1: "settled_at base p s1" "stored mc (p @ [a]) n digest s1"
    using looked [OF look] tame_between [OF tame assms(2)] stored_between [OF assms(4) within(1) assms(3)] by auto
  have s1': "settled_at base p (between mc s1)" "stored mc (p @ [a]) n digest (between mc s1)"
    using tame_between [OF tame s1(1)] stored_between [OF assms(4) within(1) s1(2)] by auto
  have "stored mc (p @ [b]) n digest s2"
  proof (cases there)
    case True
    then show ?thesis using moved kept [OF s1] by simp
  next
    case False
    show ?thesis
    proof (cases "fst (sys mc (rename_directory (p @ [a]) (p @ [b])) s1)")
      case (Inr x)
      then have "sys mc (rename_directory (p @ [a]) (p @ [b])) s1 = (Inr v, s2)"
        using moved False by (auto simp: handle_def split: prod.splits sum.splits)
      from renamed_stored [OF sys_Inr [OF this] s1'(2) settled_plain [OF s1'(1)] assms(8,7)] show ?thesis .
    next
      case (Inl e)
      then obtain t where t: "sys mc (rename_directory (p @ [a]) (p @ [b])) s1 = (Inl e, t)" by (cases "sys mc (rename_directory (p @ [a]) (p @ [b])) s1") auto
      then have "t = between mc s1" by (rule rename_refused)
      with t moved False show ?thesis using kept [OF s1'] by (auto simp: handle_def throw_eq split: if_splits)
    qed
  qed
  then show ?thesis by (rule staysD [OF stays_stored_modes [OF assms(4) within(2)] modes])
qed

section \<open>The storage after a retention\<close>

text \<open>The record of the artifact \<open>a\<close> of number \<open>k\<close>: its name and URI, and in the storage the file with the announced digest.\<close>

definition announced :: "machine \<Rightarrow> string list \<Rightarrow> retention_request \<Rightarrow> json \<Rightarrow> sidecar \<Rightarrow> nat \<Rightarrow> artifact_record \<Rightarrow> artifact_record \<Rightarrow> bool" where
  "announced mc base request metrics s k a r \<longleftrightarrow>
     (let directory = retained_directory mc (rq_project_id request) (rq_run_id request); n = stored_name mc k (art_name a) in
      art_name r = art_name a \<and> Some (art_uri r) = map_option (\<lambda>uri_root. retained_uri uri_root directory n) (rq_uri_root request) \<and>
      (\<exists>digest. obj_get metrics (metric_key (art_name a) ''.sha256'') = Some (JStr digest) \<and> stored mc (base @ directory) n digest s))"

lemma retained_directory_plain: "leaves_alone mc base \<Longrightarrow> ''..'' \<notin> set (retained_directory mc project_id run_id)"
  by (auto simp: retained_directory_def leaves_alone_def split: option.split)

lemma retained_key_sha: "metric_key name ''.sha256'' \<noteq> ''artifact.retained.bytes''" "metric_key name ''.sha256'' \<noteq> ''artifact.retained.files''"
proof -
  have "last (metric_key name ''.sha256'') = CHR ''6''" by (simp add: metric_key_def)
  then show "metric_key name ''.sha256'' \<noteq> ''artifact.retained.bytes''" "metric_key name ''.sha256'' \<noteq> ''artifact.retained.files''" by auto
qed

lemma handle_rethrow_Inr: "handle m (\<lambda>e. bind (f e) (\<lambda>_. throw e)) s = (Inr a, s') \<longleftrightarrow> m s = (Inr a, s')"
  by (auto simp: handle_def bind_def throw_eq split: prod.splits sum.splits)

lemma retained_storage:
  assumes ran: "retain_all mc r request s = (Inr (records, metrics), s')"
    and "leaves_alone mc base" and "settled_at base base s" and "rq_destination_root request = Some (Path True base)"
  shows "length records = length (res_artifacts r) \<and> distinct (map art_name (res_artifacts r)) \<and>
    int (length (res_artifacts r)) \<le> rq_max_files request \<and>
    (\<exists>spent \<le> rq_max_bytes request. obj_get metrics ''artifact.retained.bytes'' = Some (JInt spent)) \<and>
    (\<forall>k < length (res_artifacts r). announced mc base request metrics s' k (res_artifacts r ! k) (records ! k))"
proof -
  let ?d = "retained_directory mc (rq_project_id request) (rq_run_id request)"
  let ?p = "base @ butlast ?d"
  have below: "below base base" "below base ?p" by (simp_all add: below_def)
  then have tame: "tame mc base base" "tame mc base ?p" using assms(2) by (simp_all add: tame_def)
  obtain uri_root where uri: "rq_uri_root request = Some uri_root"
    using ran assms(4) by (cases "rq_uri_root request") (auto simp: retain_all_def throw_eq)
  have names: "distinct (map art_name (res_artifacts r))" and files: "int (length (res_artifacts r)) \<le> rq_max_files request"
    and max_bytes: "0 \<le> rq_max_bytes request"
    using ran assms(4) uri by (auto simp: retain_all_def Let_def throw_eq split: if_splits)
  obtain source_root s1 u1 s2 root s3 u3 s4 staging s5 records0 metrics0 spent s6 u6 where
    source: "sys mc (pure_call (\<lambda>s. resolved s (path_components (rq_source_root request)))) s = (Inr source_root, s1)"
    and made: "mkdir_parents mc base s1 = (Inr u1, s2)"
    and root: "sys mc (pure_call (\<lambda>s. resolved s base)) s2 = (Inr root, s3)"
    and tree: "ensure_shared_tree mc root (butlast ?d) s3 = (Inr u3, s4)"
    and staging: "make_staging mc (butlast (root @ ?d)) (''.'' @ last ?d @ ''.staging-'') s4 = (Inr staging, s5)"
    and each: "retain_each mc request r uri_root source_root ?d staging 0 (res_artifacts r) ([], obj_members (res_metrics r), 0) s5 = (Inr (records0, metrics0, spent), s6)"
    and commit: "commit_staging mc staging (root @ ?d) s6 = (Inr u6, s')"
    and out: "records = records0" "metrics = JObj (assoc_set ''artifact.retained.bytes'' (JInt spent)
              (assoc_set ''artifact.retained.files'' (JInt (int (length records0))) metrics0))"
    using ran assms(4) uri names files max_bytes unfolding retain_all_def Let_def
    by (auto simp: bind_Inr_iff handle_rethrow_Inr throw_eq return_eq split: prod.splits)
  have s1: "settled_at base base s1" using settled_read [OF tame(1) assms(3) source] .
  have s2: "settled_at base base s2" using staysD [OF settled_mkdir_parents [OF tame(1)] made s1] .
  have s3: "settled_at base base s3" "root = base"
    using looked [OF root] tame_between [OF tame(1) s2] resolved_plain [OF settled_plain] by auto
  have dots: "''..'' \<notin> set (butlast ?d)" "last ?d \<noteq> ''..''" "?d \<noteq> []"
    using retained_directory_plain [OF assms(2), of "rq_project_id request" "rq_run_id request"]
    by (auto simp: retained_directory_def dest: in_set_butlastD)
  have s4: "settled_at base ?p s4"
    using ensured_tree [OF tree [unfolded s3(2)] s3(1) assms(2) _ dots(1)] by (simp add: below_def)
  have final: "root @ ?d = ?p @ [last ?d]" "butlast (root @ ?d) = ?p"
    using dots(3) s3(2) by (simp_all add: butlast_append)
  obtain suffix where staging_eq: "staging = ?p @ [(''.'' @ last ?d @ ''.staging-'') @ suffix]" and s5: "settled_at base staging s5"
    using staged [OF staging [unfolded final(2)] s4 assms(2) below(2)] by auto
  have apart: "(''.'' @ last ?d @ ''.staging-'') @ suffix \<noteq> last ?d" by (rule notI, drule arg_cong [where f = length]) simp
  have within: "below base staging" using below_trans [OF below(2) below_append] staging_eq by simp
  have "holds_files s5 staging []" using settled_plain [OF s5] by (simp add: holds_files_def)
  from retain_each_holds [OF each this assms(2) within max_bytes names] obtain rs fs where
    rs: "records0 = rs" "length rs = length (res_artifacts r)" "length fs = length (res_artifacts r)" "holds_files s6 staging fs" "spent \<le> rq_max_bytes request"
    and ok: "\<And>k. k < length (res_artifacts r) \<Longrightarrow> retained_ok mc uri_root ?d k (res_artifacts r ! k) (rs ! k) (fs ! k) metrics0"
    by auto
  have "settled_at base ?p s5" using s5 plain_prefix unfolding settled_at_def staging_eq by blast
  then have s6: "settled_at base ?p s6" by (rule staysD [OF settled_retain_each [OF tame(2)] each])
  have "announced mc base request metrics s' k (res_artifacts r ! k) (records ! k)" if k: "k < length (res_artifacts r)" for k
  proof -
    obtain n j b where f: "fs ! k = (n, j, b)" by (metis prod.exhaust)
    have n: "n = stored_name mc k (art_name (res_artifacts r ! k))" using ok [OF k] f by (simp add: retained_ok_def)
    have "(n, j, b) \<in> set fs" using k rs(3) f nth_mem by metis
    from holds_stored [OF rs(4) this] have "stored mc staging n (mc_sha256 mc b) s6" .
    then have "stored mc (?p @ [last ?d]) n (mc_sha256 mc b) s'"
      using committed_stored [OF commit [unfolded final(1) staging_eq] s6 _ assms(2) below(2) _ dots(2) apart] staging_eq n stored_name_plain by metis
    then show ?thesis
      using ok [OF k] f n uri final(1) s3(2) retained_key_sha by (auto simp: announced_def retained_ok_def Let_def out rs(1))
  qed
  then show ?thesis using names files rs out by auto
qed

text \<open>
  C30. A result that leaves the retention with artifacts was retained whole: there are as many as the worker
  declared, within the limits of the policy, and for each the storage holds, under the name in its URI,
  a file with the announced digest. It was copied there, or an earlier attempt of the run had left it
  there. This holds whatever else writes to the directory of the worker and whichever calls fail, as
  long as the storage itself has no links and no other writer.
\<close>

theorem retained_artifacts_stored:
  assumes "retain_result_artifacts mc r request s = (Inr r', s')" and "res_artifacts r' \<noteq> []"
    and "leaves_alone mc base" and "settled_at base base s" and "rq_destination_root request = Some (Path True base)"
  shows "length (res_artifacts r') = length (res_artifacts r) \<and> distinct (map art_name (res_artifacts r)) \<and>
    int (length (res_artifacts r)) \<le> rq_max_files request \<and>
    (\<exists>spent \<le> rq_max_bytes request. obj_get (res_metrics r') ''artifact.retained.bytes'' = Some (JInt spent)) \<and>
    (\<forall>k < length (res_artifacts r). announced mc base request (res_metrics r') s' k (res_artifacts r ! k) (res_artifacts r' ! k))"
proof -
  obtain x t where all: "retain_all mc r request s = (x, t)" by fastforce
  have declared: "res_artifacts r \<noteq> []" using assms(1,2) by (auto simp: retain_result_artifacts_def return_eq)
  have "\<exists>records metrics. x = Inr (records, metrics) \<and> t = s' \<and> r' = r\<lparr>res_artifacts := records, res_metrics := metrics\<rparr>"
  proof (cases x)
    case (Inl e)
    then have "res_artifacts r' = []"
      using assms(1) all declared
      by (simp add: retain_result_artifacts_def handle_def bind_def return_eq throw_eq artifact_retention_failure_def
          goblin_result_failed_def Let_def split: if_splits) auto
    with assms(2) show ?thesis by simp
  next
    case (Inr y)
    then show ?thesis using assms(1) all declared
      by (cases y) (auto simp: retain_result_artifacts_def handle_def bind_def return_eq)
  qed
  then obtain records metrics where "retain_all mc r request s = (Inr (records, metrics), s')" "r' = r\<lparr>res_artifacts := records, res_metrics := metrics\<rparr>"
    using all by blast
  then show ?thesis using retained_storage [OF _ assms(3,4,5)] by simp
qed

section \<open>A retention\<close>

definition demo_machine :: machine where
  "demo_machine = \<lparr>mc_others = (\<lambda>_ s. s), mc_fault = (\<lambda>_. False), mc_clock = of_nat, mc_suffix = (\<lambda>_ i. nat_digits i),
     mc_sha256 = (\<lambda>x. CHR ''d'' # x), mc_urlsplit = (\<lambda>u. Inr ('''', '''', u)), mc_unquote = unquote, mc_guess_type = (\<lambda>_. None),
     mc_parse = (\<lambda>_. Inl (Raise ValueError '''')), mc_dump = (\<lambda>_. ''{}''), mc_loads = (\<lambda>_. Inr JNull), mc_dumps = (\<lambda>_. ''{}''), mc_repr = (\<lambda>_. '''')\<rparr>"

definition demo_sidecar :: sidecar where
  "demo_sidecar = \<lparr>sd_names = [([''artifacts''], Directory 493), ([''artifacts'', ''a.txt''], Regular 0), ([''data''], Directory 493)],
     sd_files = (\<lambda>_. \<lparr>fd_bytes = ''hello'', fd_mtime = 1, fd_ctime = 1, fd_mode = 420\<rparr>), sd_next = 1, sd_calls = 0, sd_redis = []\<rparr>"

definition demo_request :: retention_request where
  "demo_request = \<lparr>rq_source_root = Path True [''artifacts''], rq_destination_root = Some (Path True [''data'']), rq_uri_root = Some ''/mnt'',
     rq_run_id = ''r1'', rq_project_id = None, rq_max_files = 2, rq_max_bytes = 10\<rparr>"

definition demo_artifacts :: goblin_result where
  "demo_artifacts = \<lparr>res_status = ResSuccess, res_data = JObj [], res_artifacts = [\<lparr>art_name = ''a.txt'', art_uri = ''a.txt'', art_media_type = None\<rparr>],
     res_metrics = JObj [], res_handoff = [], res_error = None\<rparr>"

lemma demo_storage: "leaves_alone demo_machine [''data'']" "settled_at [''data''] [''data''] demo_sidecar"
proof -
  show "leaves_alone demo_machine [''data'']" by (simp add: leaves_alone_def demo_machine_def)
  have "node_at demo_sidecar p \<noteq> Some (Link t)" for p t
    by (auto simp: node_at_def demo_sidecar_def split: if_splits)
  moreover have "directory_at demo_sidecar (take n [''data''])" for n
    by (cases n) (auto simp: directory_at_def node_at_def demo_sidecar_def)
  ultimately show "settled_at [''data''] [''data''] demo_sidecar" by (simp add: settled_at_def unlinked_def plain_def)
qed

theorem retained_artifacts_stored_witness:
  "\<exists>r' s'. retain_result_artifacts demo_machine demo_artifacts demo_request demo_sidecar = (Inr r', s') \<and>
     map art_uri (res_artifacts r') = [''file:///mnt/projects/unscoped/runs/dr1/0000-da.txt.txt''] \<and>
     announced demo_machine [''data''] demo_request (res_metrics r') s' 0 (hd (res_artifacts demo_artifacts)) (hd (res_artifacts r'))"
proof -
  let ?run = "retain_result_artifacts demo_machine demo_artifacts demo_request demo_sidecar"
  have uris: "map_sum (\<lambda>_. ()) (\<lambda>r. map art_uri (res_artifacts r)) (fst ?run) = Inr [''file:///mnt/projects/unscoped/runs/dr1/0000-da.txt.txt'']"
    by code_simp
  then obtain r' s' where run: "?run = (Inr r', s')" by (cases ?run; cases "fst ?run") auto
  have one: "map art_uri (res_artifacts r') = [''file:///mnt/projects/unscoped/runs/dr1/0000-da.txt.txt'']" using uris run by simp
  then have some: "res_artifacts r' \<noteq> []" by auto
  have "rq_destination_root demo_request = Some (Path True [''data''])" by (simp add: demo_request_def)
  from retained_artifacts_stored [OF run some demo_storage this]
  have "announced demo_machine [''data''] demo_request (res_metrics r') s' 0 (res_artifacts demo_artifacts ! 0) (res_artifacts r' ! 0)"
    by (simp add: demo_artifacts_def)
  then show ?thesis using run one some by (cases "res_artifacts r'") (auto simp: demo_artifacts_def)
qed

theorem script_agrees_with_forwarder_witness:
  "\<exists>r'. retain_result_artifacts demo_machine demo_artifacts (demo_request\<lparr>rq_destination_root := None\<rparr>) demo_sidecar = (Inr r', demo_sidecar) \<and>
     script_envelope (\<lambda>_. '''') (result_json demo_artifacts) = Inr (result_json r')"
  by (rule script_agrees_with_forwarder) (simp_all add: demo_request_def demo_artifacts_def)

text \<open>
  Only \<^verbatim>\<open>ArtifactRetentionError\<close> and \<^verbatim>\<open>OSError\<close> become a failed result. A URI that \<^verbatim>\<open>urlsplit\<close> refuses,
  such as one with an unclosed bracket, raises \<^verbatim>\<open>ValueError\<close> through the forwarder, which publishes nothing.
\<close>

lemma malformed_uri_publishes_nothing:
  assumes "mc_urlsplit mc (art_uri artifact) = Inl (Raise ValueError reason)" and "validate_artifact_name (art_name artifact) = Inr ()"
  shows "retain_one mc request r uri_root source_root directory staging index artifact sofar s = (Inl (Raise ValueError reason), s)"
  using assms by (simp add: retain_one_def resolve_source_def raw_path_def bind_def lift_result_eq bind_result_def Let_def split: prod.split)

section \<open>Waiting ends\<close>

text \<open>The clock does not go back, and a turn of a loop, three calls or more of which one sleeps, takes a quarter of a second.\<close>

definition sleeps :: "machine \<Rightarrow> bool" where
  "sleeps mc \<longleftrightarrow> (\<forall>n m. n \<le> m \<longrightarrow> mc_clock mc n \<le> mc_clock mc m) \<and> (\<forall>n m. n + 3 \<le> m \<longrightarrow> mc_clock mc n + 1 / 4 \<le> mc_clock mc m)"

lemma calls_between [simp]: "sd_calls (between mc s) = Suc (sd_calls s)"
  by (simp add: between_def)

lemma calls_looked:
  assumes "only_looks mc m" and "m s = (r, s')"
  shows "sd_calls s \<le> sd_calls s'"
proof -
  have "sd_calls ((between mc ^^ n) s) = sd_calls s + n" for n by (induction n) simp_all
  then show ?thesis using assms by (metis only_looks_def snd_conv le_add1)
qed

lemma passive_catching: "only_looks mc m \<Longrightarrow> only_looks mc (catching P m)"
  unfolding only_looks_def catching_def by (simp add: prod.case_eq_if sum.case_eq_if)

lemma calls_look:
  assumes "look_for_result mc p failed s = (r, s')"
  shows "Suc (sd_calls s) \<le> sd_calls s'"
proof -
  let ?look = "sys mc (pure_call (\<lambda>s. Inr (tests (stat s p) is_regular)))"
  obtain a t where t: "?look s = (a, t)" by fastforce
  then have calls: "sd_calls t = Suc (sd_calls s)" by (auto simp: sys_def pure_call_def split: if_splits)
  show ?thesis
  proof (cases a)
    case (Inl e)
    then show ?thesis using assms t calls by (simp add: look_for_result_def bind_def)
  next
    case (Inr there)
    have looks: "only_looks mc (if \<not> there then return (None, failed) else bind (catching (\<lambda>e. is_os_error e \<or> is_value_error e)
             (bind (sys mc (pure_call (read_stored p))) (\<lambda>text. lift_result (mc_parse mc text)))) (\<lambda>r.
       return (case r of Inr result \<Rightarrow> (Some result, failed) | Inl _ \<Rightarrow> (None, True))))"
      by (auto intro!: passive_bind passive_catching)
    show ?thesis using assms t calls calls_looked [OF looks, of t r s'] Inr by (simp add: look_for_result_def bind_def)
  qed
qed

lemma wait_for_result_ends:
  assumes "sleeps mc" and "deadline \<le> mc_clock mc (sd_calls s) + of_nat n / 4"
  shows "wait_for_result (Suc n + k) mc p deadline failed s = wait_for_result (Suc n) mc p deadline failed s"
  using assms(2)
proof (induction n arbitrary: s failed)
  case 0
  then show ?case by (simp add: monotonic_def bind_def)
next
  case (Suc n)
  have later: "wait_for_result (Suc n + k) mc p deadline failed' (between mc t) = wait_for_result (Suc n) mc p deadline failed' (between mc t)"
    if "look_for_result mc p failed (between mc s) = (r, t)" for r t failed'
  proof (rule Suc.IH)
    have "sd_calls s + 3 \<le> sd_calls (between mc t)" using calls_look [OF that] by simp
    then have "mc_clock mc (sd_calls s) + 1 / 4 \<le> mc_clock mc (sd_calls (between mc t))" using assms(1) unfolding sleeps_def by blast
    then show "deadline \<le> mc_clock mc (sd_calls (between mc t)) + of_nat n / 4" using Suc.prems by (simp add: field_simps)
  qed
  show ?case
    using later by (auto simp: monotonic_def bind_def split: prod.splits sum.splits option.splits)
qed

text \<open>
  The wait for a result ends: more turns than four per second that it may take, and two, change nothing.
\<close>

theorem forwarding_wait_ends:
  assumes "sleeps mc" and "0 \<le> wait" and "started \<le> mc_clock mc (sd_calls s)"
  shows "wait_for_result (forward_turns wait + k) mc p (started + of_int wait) failed s =
    wait_for_result (forward_turns wait) mc p (started + of_int wait) failed s"
proof -
  have "started + of_int wait \<le> mc_clock mc (sd_calls s) + of_nat (4 * nat wait + 1) / 4"
    using assms(2,3) by (simp add: field_simps)
  from wait_for_result_ends [OF assms(1) this] show ?thesis by (simp add: forward_turns_def)
qed

end
