(* ===== verification/Spec2Isabelle.thy ===== *)
theory Spec2Isabelle
  imports Lease_Protocol Store_Repository Fanout Docker_Runtime Scheduler_Pass Api_Isolation Service_Proxy Kubernetes_Artifacts
begin

text \<open>
  Goblin King is a control plane for container workers. Clients create jobs, fanouts and schedules
  in a SQL store; scheduler processes lease due jobs, run them in containers and finalize their
  attempts; every change is an event in an ordered log, which is delivered to Redis; a repository
  of functions goes through a review before it is published. This library models the Python
  package \<^verbatim>\<open>src/src/goblin_king\<close> and proves what makes its parts correct.

  \<^bold>\<open>Conventions.\<close> An operation that reads and writes a state and may raise is of type \<open>('s, 'a) op\<close>
  (theory Prelude): it returns an error or a value and the state it leaves; \<open>atomically\<close> is a
  transaction, \<open>handle\<close> a try statement. A table is the list of its rows; the SQL statements are
  functions on it. A timestamp is naive or aware, in microseconds. Text is its UTF-8 encoding, one
  character per byte. The state of a process is \<open>world\<close> (theory Event_Bus): the database, the state
  of Redis, the process clock and the supply of UUIDs. Code that is not under \<^verbatim>\<open>src\<close> is a parameter:
  the commands of Redis (\<open>redis_api\<close>, \<open>run_event_redis\<close>), docker and the file system (\<open>docker_host\<close>,
  \<open>validation_host\<close>), cron expressions, imports and the Kubernetes runtime (\<open>scheduler_host\<close>),
  hashing, JWTs and JupyterHub (\<open>auth_host\<close>), the client of a cluster (\<open>kubernetes_host\<close>, \<open>cluster_client\<close>),
  what pydantic coerces (\<open>coercions\<close>), the sending of a proxied request (\<open>proxy_host\<close>); what is relied on
  is a named hypothesis (\<open>stream_contract\<close>, \<open>redis_errors\<close>, \<open>docker_host_ok\<close>, ...), and every property
  that has one is applied to a concrete host in its witness. The routes of the API (\<^verbatim>\<open>api.py\<close>) are
  functions of the request after its parsing, in the record \<open>api\<close> of what the application holds.

  \<^bold>\<open>Theories.\<close>
  \<^item> Prelude: operations, exceptions, JSON, SQL statements; the locale \<open>stored_record\<close> (what a lookup
    returns after a save), interpreted in Store_State on every table.
  \<^item> Causal_Time (\<^verbatim>\<open>causal_time.py\<close>): the strictly increasing process clock and \<^verbatim>\<open>causally_after\<close>.
  \<^item> Contracts (\<^verbatim>\<open>contracts.py\<close>): the records and enumerations with their validators.
  \<^item> Store_State (\<^verbatim>\<open>store_rows.py\<close>, \<^verbatim>\<open>store_schema.py\<close>), Store_Jobs, Store_Runs
    (\<^verbatim>\<open>store_run_lifecycle.py\<close>), Store_Events, Store_Repository, Store_Admin: the methods of
    \<^verbatim>\<open>SQLiteStore\<close> (\<^verbatim>\<open>store.py\<close>) by subject. Claims take the best eligible jobs and are disjoint while
    leases last; finalization writes exactly the owned attempt; events are numbered without gaps;
    repository entries and versions keep their invariant and follow the review.
  \<^item> Lease_Protocol: a step relation over the store's job operations, any number of workers; in every
    reachable state leases are consistent, each attempt is finalized once and terminal jobs stay.
  \<^item> Resource_Policies, Registry (\<^verbatim>\<open>registry.py\<close>, \<^verbatim>\<open>workers.py\<close>, \<^verbatim>\<open>metadata.py\<close>).
  \<^item> Event_Delivery (\<^verbatim>\<open>event_delivery.py\<close>), Event_Bus (\<^verbatim>\<open>events.py\<close>), Run_Events (\<^verbatim>\<open>run_events.py\<close>).
    The delivery loop has fuel: the distance from the cursor to the target sequence, enough because
    every round delivers at least one event or ends.
  \<^item> Fanout (\<^verbatim>\<open>fanout.py\<close>), Container_Logs (\<^verbatim>\<open>container_logs.py\<close>), Docker_Runtime (\<^verbatim>\<open>runtime.py\<close> and
    its helpers), Validation (\<^verbatim>\<open>validation.py\<close>), Auth (\<^verbatim>\<open>auth.py\<close>).
  \<^item> Scheduler_Leases (\<^verbatim>\<open>scheduler_leases.py\<close>): the renewal thread as the sequence of its wake-ups, on
    the locale \<open>job_lease_store\<close> of the operations it calls, interpreted on the store.
  \<^item> Scheduler (\<^verbatim>\<open>scheduler.py\<close>, \<^verbatim>\<open>scheduler_failures.py\<close>) and Scheduler_Pass, its theorems: limits,
    the validation gate, superseded attempts, schedules, retries. The loop runs a given number of
    passes.
  \<^item> Kubernetes_Manifest (\<^verbatim>\<open>kubernetes_job_manifest.py\<close>, \<^verbatim>\<open>kubernetes_workload_security.py\<close>,
    \<^verbatim>\<open>kubernetes_runtime_settings.py\<close>, \<^verbatim>\<open>kubernetes_placement.py\<close>): the Job of a worker as a JSON document;
    under the restricted profile every container is confined, and no two mounts of a worker overlap.
    Kubernetes_Runtime (\<^verbatim>\<open>kubernetes_runtime.py\<close>, \<^verbatim>\<open>kubernetes_pod_diagnostics.py\<close>): one attempt in a cluster;
    whatever fails, the Job and its ConfigMap are asked to go, a success was published by the sidecar, and
    the wait ends. Its fuel \<open>wait_turns\<close> is what the timeout allows at one poll interval per turn.
  \<^item> Kubernetes_Artifacts (\<^verbatim>\<open>kubernetes_artifacts.py\<close>, \<^verbatim>\<open>kubernetes_result_forwarder.py\<close>,
    \<^verbatim>\<open>kubernetes_artifact_config.py\<close>): the sidecar of a Job as system calls on a file system that other
    processes change between any two of them. A result that leaves it with artifacts has every one in the
    storage with the announced digest; the script used without storage agrees with the module. The copy
    of a file has the fuel \<open>copy_turns\<close> (the bytes it may still copy, and two), the wait \<open>forward_turns\<close>
    (four turns per second, and two); a theorem for each shows that more changes nothing.
  \<^item> Service_Runtime (\<^verbatim>\<open>notebook_services.py\<close>): start, probe, logs and removal of a service in Docker and in
    a cluster. A probe has the fuel \<open>turns\<close>, enough because each turn sleeps for the interval.
  \<^item> Service_Drain (\<^verbatim>\<open>service_websocket_drain.py\<close>): the blocks under its lock as steps of a relation, any
    number of services; each is retired at most once, after its last client or its timeout.
  \<^item> Service_Relay (\<^verbatim>\<open>service_websocket_proxy.py\<close>): the three tasks of a relay as a step relation, one step
    between two awaits; a relay reports one outcome and delivers no frame above the limit. Url_Query holds
    what the proxies use of \<^verbatim>\<open>urllib.parse\<close>, with the round trip of a query. Service_Proxy (\<^verbatim>\<open>api.py\<close>,
    \<^verbatim>\<open>api_service_websockets.py\<close>): what a proxied request may reach and carry, and that a relay always
    leaves the registry of the drain.
  \<^item> Api_Access (\<^verbatim>\<open>api_runtime.py\<close>, \<^verbatim>\<open>api_schedules.py\<close>, \<^verbatim>\<open>api_state.py\<close>, \<^verbatim>\<open>termination.py\<close>): authentication of a
    request, the project it is for, audit, rate limit, termination of a runtime. Api_Jobs, Api_Runs
    (with \<^verbatim>\<open>api_artifacts.py\<close>), Api_Notebooks, Api_Repository and Api_Services: the routes by subject; the
    stream of a run is a given number of polls.
  \<^item> Store_Relation: the locale \<open>store_relation\<close> of a relation that the parts shared by the routes respect, interpreted for
    Api_Isolation (answers and writes stay in the project of the principal) and Api_Review (the routes
    keep the invariant of the repository; members approve and publish nothing).

  \<^bold>\<open>Outside the guarded protocol.\<close> A deferral and the recovery from an unexpected failure write the job
  with \<^verbatim>\<open>finish_job\<close>, which does not look at the lease; Lease_Protocol does not contain these steps, and
  Scheduler_Pass shows what they can do.

  \<^bold>\<open>Not modelled.\<close> The routes of the administration (users, projects, tokens, discovery, promotions,
  deployments, audit log: a store operation, an event and an audit row each; the operations are in Store_Admin)
  and the WebSocket of a run; the command line; the classes and magics with which a notebook calls the
  API; project files, templates, directory bundles and the user interfaces, which produce text;
  the construction of a Kubernetes runtime from the environment and the validation of a cluster;
  the copying of artifacts on systems without \<^verbatim>\<open>dir_fd\<close>; the doctor, smoke tests and demo.
\<close>

end
